(* ===== verification/Prelude.thy ===== *)
theory Prelude
  imports Complex_Main "HOL-Library.AList" "HOL-Library.Char_ord" "HOL-Library.List_Lexorder"
    "HOL-Library.Product_Lexorder"
begin

text \<open>
  Shared vocabulary of the development: the Python values the program stores in its
  \<open>dict[str, Any]\<close> fields, the string methods it calls, dictionaries in insertion
  order, stable sorting, timestamps, and the two loop idioms that recur all over the
  code (counting with a condition, and keeping the first element per key).

  Strings are lists of ASCII characters: on these \<open>lower\<close>, \<open>casefold\<close>, \<open>strip\<close>,
  \<open>title\<close> and the UTF-8 encoding act as in Python. Floats that are only stored are
  carried as the decimal numeral of their \<open>repr\<close>; floats the code computes with are
  rationals. A dictionary is an association list in insertion order, with distinct keys.
\<close>

section \<open>Proof collections\<close>

named_theorems loop_simps \<open>equations of the loop idioms\<close>
named_theorems dict_simps \<open>lookup after update\<close>

section \<open>Characters and strings\<close>

type_synonym str = string

definition code_of :: "char \<Rightarrow> nat" where
  "code_of c = of_char c"

definition is_space :: "char \<Rightarrow> bool" where
  "is_space c = (let n = code_of c in (9 \<le> n \<and> n \<le> 13) \<or> (28 \<le> n \<and> n \<le> 32))"

definition is_upper :: "char \<Rightarrow> bool" where
  "is_upper c = (65 \<le> code_of c \<and> code_of c \<le> 90)"

definition is_lower :: "char \<Rightarrow> bool" where
  "is_lower c = (97 \<le> code_of c \<and> code_of c \<le> 122)"

definition is_digit :: "char \<Rightarrow> bool" where
  "is_digit c = (48 \<le> code_of c \<and> code_of c \<le> 57)"

definition to_lower_char :: "char \<Rightarrow> char" where
  "to_lower_char c = (if is_upper c then char_of (code_of c + 32) else c)"

definition to_upper_char :: "char \<Rightarrow> char" where
  "to_upper_char c = (if is_lower c then char_of (code_of c - 32) else c)"

definition lower :: "str \<Rightarrow> str" where
  "lower s = map to_lower_char s"

definition upper :: "str \<Rightarrow> str" where
  "upper s = map to_upper_char s"

definition lstrip_by :: "(char \<Rightarrow> bool) \<Rightarrow> str \<Rightarrow> str" where
  "lstrip_by p s = dropWhile p s"

definition rstrip_by :: "(char \<Rightarrow> bool) \<Rightarrow> str \<Rightarrow> str" where
  "rstrip_by p s = rev (dropWhile p (rev s))"

definition strip_by :: "(char \<Rightarrow> bool) \<Rightarrow> str \<Rightarrow> str" where
  "strip_by p s = rstrip_by p (lstrip_by p s)"

abbreviation strip :: "str \<Rightarrow> str" where
  "strip \<equiv> strip_by is_space"

lemma strip_by_Nil [simp]: "strip_by p [] = []"
  by (simp add: strip_by_def rstrip_by_def lstrip_by_def)

definition starts_with :: "str \<Rightarrow> str \<Rightarrow> bool" where
  "starts_with p s = (take (length p) s = p)"

fun has_substring :: "str \<Rightarrow> str \<Rightarrow> bool" where
  "has_substring p [] = (p = [])"
| "has_substring p (c # cs) = (starts_with p (c # cs) \<or> has_substring p cs)"

fun join :: "str \<Rightarrow> str list \<Rightarrow> str" where
  "join sep [] = ''''"
| "join sep [x] = x"
| "join sep (x # y # ys) = x @ sep @ join sep (y # ys)"

text \<open>\<open>re.sub(r"C+", rep, s)\<close> for a character class \<open>C\<close>: every maximal run becomes \<open>rep\<close>.\<close>

fun sub_runs :: "(char \<Rightarrow> bool) \<Rightarrow> str \<Rightarrow> bool \<Rightarrow> str \<Rightarrow> str" where
  "sub_runs p rep inrun [] = []"
| "sub_runs p rep inrun (c # cs) =
     (if p c then (if inrun then sub_runs p rep True cs else rep @ sub_runs p rep True cs)
      else c # sub_runs p rep False cs)"

text \<open>\<open>str.title()\<close>: a letter that does not follow a letter is upper case, the others lower.\<close>

fun title_from :: "bool \<Rightarrow> str \<Rightarrow> str" where
  "title_from prev [] = []"
| "title_from prev (c # cs) =
     (let letter = is_upper c \<or> is_lower c
      in (if letter then (if prev then to_lower_char c else to_upper_char c) else c)
         # title_from letter cs)"

text \<open>\<open>s.split()\<close>: the maximal runs of non-whitespace.\<close>

fun split_from :: "str \<Rightarrow> str \<Rightarrow> str list" where
  "split_from cur [] = (if cur = [] then [] else [cur])"
| "split_from cur (c # cs) =
     (if is_space c then (if cur = [] then split_from [] cs else cur # split_from [] cs)
      else split_from (cur @ [c]) cs)"

abbreviation split_ws :: "str \<Rightarrow> str list" where
  "split_ws \<equiv> split_from []"

section \<open>Numbers as text\<close>

fun digits_of :: "nat \<Rightarrow> str" where
  "digits_of n =
     (if n < 10 then [char_of (48 + n)] else digits_of (n div 10) @ [char_of (48 + n mod 10)])"

declare digits_of.simps [simp del]

definition str_of_int :: "int \<Rightarrow> str" where
  "str_of_int i = (if i < 0 then CHR ''-'' # digits_of (nat (- i)) else digits_of (nat i))"

definition pad_left :: "char \<Rightarrow> nat \<Rightarrow> str \<Rightarrow> str" where
  "pad_left c n s = replicate (n - length s) c @ s"

section \<open>Python values\<close>

text \<open>
  The values of a \<open>dict[str, Any]\<close>. \<open>JFloat m e\<close> is the float whose shortest decimal
  numeral is \<open>m * 10 ^ e\<close>, with \<open>m\<close> not divisible by ten unless it is 0.
\<close>

datatype json =
    JNull
  | JBool bool
  | JInt int
  | JFloat int int
  | JStr str
  | JList "json list"
  | JDict "(str \<times> json) list"

type_synonym jdict = "(str \<times> json) list"

text \<open>\<open>bool(v)\<close>.\<close>

fun truthy :: "json \<Rightarrow> bool" where
  "truthy JNull = False"
| "truthy (JBool b) = b"
| "truthy (JInt i) = (i \<noteq> 0)"
| "truthy (JFloat m e) = (m \<noteq> 0)"
| "truthy (JStr s) = (s \<noteq> [])"
| "truthy (JList xs) = (xs \<noteq> [])"
| "truthy (JDict kvs) = (kvs \<noteq> [])"

text \<open>\<open>repr\<close> of a float: fixed notation for exponents from -4 to 15, else scientific.\<close>

definition float_repr :: "int \<Rightarrow> int \<Rightarrow> str" where
  "float_repr m e =
     (let ds = digits_of (nat \<bar>m\<bar>); n = int (length ds); p = n + e;
          sign = (if m < 0 then ''-'' else '''')
      in if m = 0 then ''0.0''
         else if -4 < p \<and> p \<le> 16 then
           sign @ (if p \<le> 0 then ''0.'' @ replicate (nat (- p)) (CHR ''0'') @ ds
                   else if p < n then take (nat p) ds @ ''.'' @ drop (nat p) ds
                   else ds @ replicate (nat (p - n)) (CHR ''0'') @ ''.0'')
         else
           sign @ take 1 ds @ (if n = 1 then '''' else ''.'' @ drop 1 ds) @ ''e''
             @ (if p - 1 < 0 then ''-'' else ''+'')
             @ pad_left (CHR ''0'') 2 (digits_of (nat \<bar>p - 1\<bar>)))"

definition hex_digit :: "nat \<Rightarrow> char" where
  "hex_digit n = (if n < 10 then char_of (48 + n) else char_of (87 + n))"

definition repr_char :: "char \<Rightarrow> char \<Rightarrow> str" where
  "repr_char q c =
     (let n = code_of c
      in if c = q \<or> n = 92 then [char_of (92::nat), c]
         else if n = 10 then [char_of (92::nat), CHR ''n'']
         else if n = 13 then [char_of (92::nat), CHR ''r'']
         else if n = 9 then [char_of (92::nat), CHR ''t'']
         else if n < 32 \<or> n = 127
           then [char_of (92::nat), CHR ''x'', hex_digit (n div 16), hex_digit (n mod 16)]
         else [c])"

definition str_repr :: "str \<Rightarrow> str" where
  "str_repr s =
     (let sq = char_of (39::nat); dq = char_of (34::nat);
          q = (if sq \<in> set s \<and> dq \<notin> set s then dq else sq)
      in [q] @ concat (map (repr_char q) s) @ [q])"

text \<open>\<open>repr(v)\<close> and \<open>str(v)\<close>, which differ on strings only.\<close>

fun py_repr :: "json \<Rightarrow> str" where
  "py_repr JNull = ''None''"
| "py_repr (JBool b) = (if b then ''True'' else ''False'')"
| "py_repr (JInt i) = str_of_int i"
| "py_repr (JFloat m e) = float_repr m e"
| "py_repr (JStr s) = str_repr s"
| "py_repr (JList xs) = ''['' @ join '', '' (map py_repr xs) @ '']''"
| "py_repr (JDict kvs) =
     ''{'' @ join '', '' (map (\<lambda>(k, v). str_repr k @ '': '' @ py_repr v) kvs) @ ''}''"

fun py_str :: "json \<Rightarrow> str" where
  "py_str (JStr s) = s"
| "py_str v = py_repr v"

section \<open>Optional strings\<close>

text \<open>\<open>a or b\<close> on strings and on optional strings; \<open>(x or "")\<close>.\<close>

definition str_or :: "str \<Rightarrow> str \<Rightarrow> str" where
  "str_or a b = (if a \<noteq> [] then a else b)"

fun opt_or :: "str option \<Rightarrow> str option \<Rightarrow> str option" where
  "opt_or (Some s) b = (if s \<noteq> [] then Some s else b)"
| "opt_or None b = b"

fun or_str :: "str option \<Rightarrow> str \<Rightarrow> str" where
  "or_str (Some s) d = (if s \<noteq> [] then s else d)"
| "or_str None d = d"

fun given :: "str option \<Rightarrow> bool" where
  "given None = False"
| "given (Some s) = (s \<noteq> [])"

fun jstr_opt :: "str option \<Rightarrow> json" where
  "jstr_opt None = JNull"
| "jstr_opt (Some s) = JStr s"

abbreviation jstrs :: "str list \<Rightarrow> json" where
  "jstrs xs \<equiv> JList (map JStr xs)"

section \<open>Dictionaries\<close>

definition dict_values :: "('k \<times> 'v) list \<Rightarrow> 'v list" where
  "dict_values d = map snd d"

definition dict_setdefault :: "'k \<Rightarrow> 'v \<Rightarrow> ('k \<times> 'v) list \<Rightarrow> ('k \<times> 'v) list" where
  "dict_setdefault k v d = (case map_of d k of None \<Rightarrow> d @ [(k, v)] | Some _ \<Rightarrow> d)"

text \<open>\<open>{**a, **b}\<close> and \<open>a.update(b)\<close>.\<close>

fun dict_merge :: "('k \<times> 'v) list \<Rightarrow> ('k \<times> 'v) list \<Rightarrow> ('k \<times> 'v) list" where
  "dict_merge a [] = a"
| "dict_merge a ((k, v) # b) = dict_merge (AList.update k v a) b"

lemma map_of_update [dict_simps]: "map_of (AList.update k v d) = (map_of d)(k \<mapsto> v)"
  by (simp add: update_conv fun_eq_iff)

lemma map_of_delete [dict_simps]: "map_of (AList.delete k d) = (map_of d)(k := None)"
  by (simp add: delete_conv fun_eq_iff)

lemma map_of_setdefault [dict_simps]:
  "map_of (dict_setdefault k v d) = (if map_of d k = None then (map_of d)(k \<mapsto> v) else map_of d)"
  by (auto simp: dict_setdefault_def fun_eq_iff map_of_eq_None_iff[symmetric] map_add_Some_iff
      map_add_def split: option.splits)

lemma map_of_dict_merge [dict_simps]:
  "distinct (map fst b) \<Longrightarrow> map_of (dict_merge a b) = map_of a ++ map_of b"
proof (induction a b rule: dict_merge.induct)
  case (1 a)
  then show ?case by simp
next
  case (2 a k v b)
  then have "k \<notin> dom (map_of b)" by (simp add: dom_map_of_conv_image_fst)
  with 2 show ?case
    by (auto simp: fun_eq_iff map_add_def dict_simps domIff split: option.splits)
qed

lemma fst_update: "map fst (AList.update k v d) = (if k \<in> fst ` set d then map fst d else map fst d @ [k])"
  by (induction d) auto

lemma distinct_keys_setdefault:
  "distinct (map fst d) \<Longrightarrow> distinct (map fst (dict_setdefault k v d))"
  by (auto simp: dict_setdefault_def map_of_eq_None_iff split: option.splits)

lemma set_update_subset: "set (AList.update k v d) \<subseteq> insert (k, v) (set d)"
  by (induction d) auto

lemma in_set_update: "(k, v) \<in> set (AList.update k v d)"
  by (induction d) auto

text \<open>
  The interface of a table, as the store uses its dictionaries: a lookup and an update
  that changes the entry of one key.
\<close>

locale table =
  fixes get :: "'t \<Rightarrow> 'k \<Rightarrow> 'v option"
    and put :: "'k \<Rightarrow> 'v \<Rightarrow> 't \<Rightarrow> 't"
  assumes get_put: "get (put k v t) k' = (if k' = k then Some v else get t k')"
begin

lemma get_put_same: "get (put k v t) k = Some v"
  by (simp add: get_put)

lemma get_put_other: "k' \<noteq> k \<Longrightarrow> get (put k v t) k' = get t k'"
  by (simp add: get_put)

lemma put_keeps: "get t k' \<noteq> None \<Longrightarrow> get (put k v t) k' \<noteq> None"
  by (simp add: get_put)

end

text \<open>A table whose values carry their own key, and are stored under it.\<close>

locale keyed_table = table get put
  for get :: "'t \<Rightarrow> 'k \<Rightarrow> 'v option" and put :: "'k \<Rightarrow> 'v \<Rightarrow> 't \<Rightarrow> 't" +
  fixes key_of :: "'v \<Rightarrow> 'k" and keyed :: "'t \<Rightarrow> bool"
  assumes keyed_iff: "keyed t \<longleftrightarrow> (\<forall>k v. get t k = Some v \<longrightarrow> key_of v = k)"
begin

lemma keyed_put: "keyed t \<Longrightarrow> keyed (put (key_of v) v t)"
  by (auto simp: keyed_iff get_put)

lemma keyed_put_at: "keyed t \<Longrightarrow> key_of v = k \<Longrightarrow> keyed (put k v t)"
  by (auto simp: keyed_iff get_put)

lemma keyed_get: "keyed t \<Longrightarrow> get t k = Some v \<Longrightarrow> key_of v = k"
  by (simp add: keyed_iff)

end

interpretation alist: table "map_of :: ('k \<times> 'v) list \<Rightarrow> 'k \<Rightarrow> 'v option" AList.update
  by unfold_locales (simp add: dict_simps)

definition keyed_by :: "('v \<Rightarrow> 'k) \<Rightarrow> ('k \<times> 'v) list \<Rightarrow> bool" where
  "keyed_by f d \<longleftrightarrow> (\<forall>k v. map_of d k = Some v \<longrightarrow> f v = k)"

interpretation dict: keyed_table "map_of :: ('k \<times> 'v) list \<Rightarrow> 'k \<Rightarrow> 'v option" AList.update f "keyed_by f"
  for f :: "'v \<Rightarrow> 'k"
  by unfold_locales (simp add: keyed_by_def)

text \<open>A table with one entry per key, each stored under its own key.\<close>

definition table_ok :: "('v \<Rightarrow> 'k) \<Rightarrow> ('k \<times> 'v) list \<Rightarrow> bool" where
  "table_ok f d \<longleftrightarrow> distinct (map fst d) \<and> (\<forall>(k, v) \<in> set d. f v = k)"

lemma table_ok_Nil [simp]: "table_ok f []"
  by (simp add: table_ok_def)

lemma table_ok_keyed: "table_ok f d \<Longrightarrow> keyed_by f d"
  by (auto simp: table_ok_def keyed_by_def dest: map_of_SomeD)

lemma table_ok_get: "table_ok f d \<Longrightarrow> map_of d k = Some v \<Longrightarrow> f v = k"
  by (drule table_ok_keyed) (rule dict.keyed_get)

lemma table_ok_update: "table_ok f d \<Longrightarrow> f v = k \<Longrightarrow> table_ok f (AList.update k v d)"
  using set_update_subset[of k v d] by (auto simp: table_ok_def distinct_update)

lemma table_ok_setdefault: "table_ok f d \<Longrightarrow> f v = k \<Longrightarrow> table_ok f (dict_setdefault k v d)"
  by (auto simp: table_ok_def distinct_keys_setdefault) (auto simp: dict_setdefault_def split: option.splits)

lemma table_ok_filter: "table_ok f d \<Longrightarrow> table_ok f (filter P d)"
  by (auto simp: table_ok_def distinct_map_filter)

lemma table_ok_fold: "table_ok f d \<Longrightarrow> table_ok f (fold (\<lambda>x. AList.update (f x) x) xs d)"
  by (induction xs arbitrary: d) (simp_all add: table_ok_update)

lemma keys_update: "fst ` set (AList.update k v d) = insert k (fst ` set d)"
  by (simp add: dom_update)

lemma keys_setdefault: "fst ` set (dict_setdefault k v d) = insert k (fst ` set d)"
  by (auto simp: dict_setdefault_def split: option.splits dest: map_of_SomeD intro: rev_image_eqI)

lemma distinct_values_update:
  "distinct (map (\<lambda>x. g (snd x)) d) \<Longrightarrow> (\<forall>(k', v') \<in> set d. k' \<noteq> k \<longrightarrow> g v' \<noteq> g v) \<Longrightarrow>
     distinct (map fst d) \<Longrightarrow> distinct (map (\<lambda>x. g (snd x)) (AList.update k v d))"
proof (induction d)
  case (Cons a d)
  obtain k0 v0 where a: "a = (k0, v0)" by (cases a)
  show ?case
  proof (cases "k0 = k")
    case True
    then have "\<forall>(k', v') \<in> set d. g v' \<noteq> g v" using Cons.prems(2,3) a by force
    then show ?thesis using Cons.prems(1) a True by force
  next
    case False
    then have "g v0 \<noteq> g v" using Cons.prems(2) a by simp
    moreover have "g v0 \<notin> (\<lambda>x. g (snd x)) ` set d" using Cons.prems(1) a by simp
    ultimately have "g v0 \<notin> (\<lambda>x. g (snd x)) ` set (AList.update k v d)"
      using set_update_subset[of k v d] by fastforce
    then show ?thesis using Cons a False by simp
  qed
qed simp

section \<open>Sorting and maxima\<close>

text \<open>
  \<open>sorted(xs, key=f)\<close> is stable, as \<open>sort_key\<close> is; with \<open>reverse=True\<close> equal
  elements keep their order too. \<open>max(xs, key=f)\<close> is the first maximal element.
\<close>

definition sort_desc :: "('a \<Rightarrow> 'k::linorder) \<Rightarrow> 'a list \<Rightarrow> 'a list" where
  "sort_desc f xs = rev (sort_key f (rev xs))"

definition sorted_set :: "'a::linorder list \<Rightarrow> 'a list" where
  "sorted_set xs = sort (remdups xs)"

fun max_by :: "('a \<Rightarrow> 'k::linorder) \<Rightarrow> 'a list \<Rightarrow> 'a option" where
  "max_by f [] = None"
| "max_by f (x # xs) =
     (case max_by f xs of None \<Rightarrow> Some x | Some y \<Rightarrow> Some (if f x < f y then y else x))"

lemma set_sort_desc [simp]: "set (sort_desc f xs) = set xs"
  by (simp add: sort_desc_def)

lemma length_sort_desc [simp]: "length (sort_desc f xs) = length xs"
  by (simp add: sort_desc_def)

lemma sorted_sort_desc: "sorted (rev (map f (sort_desc f xs)))"
  by (simp add: sort_desc_def rev_map)

lemma set_sorted_set [simp]: "set (sorted_set xs) = set xs"
  by (simp add: sorted_set_def)

lemma sorted_sorted_set: "sorted (sorted_set xs)" and distinct_sorted_set: "distinct (sorted_set xs)"
  by (simp_all add: sorted_set_def)

lemma sorted_set_cong: "set xs = set ys \<Longrightarrow> sorted_set xs = sorted_set ys"
  by (metis distinct_sorted_set set_sorted_set sorted_distinct_set_unique sorted_sorted_set)

lemma max_by_None [simp]: "max_by f xs = None \<longleftrightarrow> xs = []"
  by (cases xs) (auto split: option.splits)

lemma max_by_Some: "max_by f xs = Some m \<Longrightarrow> m \<in> set xs \<and> (\<forall>x \<in> set xs. f x \<le> f m)"
  by (induction xs arbitrary: m) (fastforce split: option.splits if_splits)+

section \<open>Keeping the first element per key\<close>

text \<open>
  The loop \<open>for x in xs: if not ok(x) or key(x) in seen: continue; seen.add(key(x));
  result.append(x)\<close>, with the set \<open>seen\<close> as a list.
\<close>

fun keep_first :: "('a \<Rightarrow> 'k) \<Rightarrow> ('a \<Rightarrow> bool) \<Rightarrow> 'k list \<Rightarrow> 'a list \<Rightarrow> 'a list" where
  "keep_first key ok seen [] = []"
| "keep_first key ok seen (x # xs) =
     (if \<not> ok x \<or> key x \<in> set seen then keep_first key ok seen xs
      else x # keep_first key ok (key x # seen) xs)"

lemma keep_first_snoc:
  "keep_first key ok seen (xs @ [x]) =
     (let ys = keep_first key ok seen xs
      in if ok x \<and> key x \<notin> set seen \<and> key x \<notin> key ` set ys then ys @ [x] else ys)"
  by (induction xs arbitrary: seen) (auto simp: Let_def)

text \<open>
  The contract of such a loop, without its state: one more input element is kept exactly
  when it is admissible and no kept element has its key.
\<close>

locale first_per_key =
  fixes dd :: "'a list \<Rightarrow> 'a list" and key :: "'a \<Rightarrow> 'k" and ok :: "'a \<Rightarrow> bool"
  assumes dd_Nil: "dd [] = []"
    and dd_snoc: "dd (xs @ [x]) =
      (if ok x \<and> key x \<notin> key ` set (dd xs) then dd xs @ [x] else dd xs)"
begin

lemma dd_subset: "set (dd xs) \<subseteq> set xs"
  by (induction xs rule: rev_induct) (auto simp: dd_Nil dd_snoc)

lemma dd_ok: "x \<in> set (dd xs) \<Longrightarrow> ok x"
  by (induction xs rule: rev_induct) (auto simp: dd_Nil dd_snoc split: if_splits)

lemma dd_distinct: "distinct (map key (dd xs))"
  by (induction xs rule: rev_induct) (auto simp: dd_Nil dd_snoc)

lemma dd_keys: "key ` set (dd xs) = key ` {x \<in> set xs. ok x}"
proof (induction xs rule: rev_induct)
  case Nil
  show ?case by (simp add: dd_Nil)
next
  case (snoc x xs)
  have "{y \<in> set (xs @ [x]). ok y} = {y \<in> set xs. ok y} \<union> (if ok x then {x} else {})" by auto
  with snoc show ?case by (auto simp: dd_snoc)
qed

lemma dd_length: "length (dd xs) \<le> length xs"
  by (induction xs rule: rev_induct) (auto simp: dd_Nil dd_snoc)

lemma dd_extend: "\<exists>zs. dd (xs @ ys) = dd xs @ zs"
proof (induction ys rule: rev_induct)
  case Nil
  show ?case by simp
next
  case (snoc y ys)
  then obtain zs where "dd (xs @ ys) = dd xs @ zs" by blast
  then show ?case using dd_snoc[of "xs @ ys" y] by auto
qed

lemma dd_fixed: "(\<forall>x \<in> set xs. ok x) \<Longrightarrow> distinct (map key xs) \<Longrightarrow> dd xs = xs"
  by (induction xs rule: rev_induct) (auto simp: dd_Nil dd_snoc)

lemma dd_idem: "dd (dd xs) = dd xs"
  using dd_fixed dd_ok dd_distinct by blast

lemma dd_first: "ok x \<Longrightarrow> key x \<notin> key ` {y \<in> set ys. ok y} \<Longrightarrow> x \<in> set (dd (ys @ x # zs))"
  using dd_extend[of "ys @ [x]" zs] by (auto simp: dd_snoc dd_keys)

end

interpretation kf: first_per_key "keep_first key ok []" key ok for key :: "'a \<Rightarrow> 'k" and ok
  by unfold_locales (simp_all add: keep_first_snoc Let_def)

definition count_if :: "('a \<Rightarrow> bool) \<Rightarrow> 'a list \<Rightarrow> nat" where
  "count_if p xs = length (filter p xs)"

lemma count_if_simps [loop_simps]:
  "count_if p [] = 0" "count_if p (x # xs) = (if p x then Suc (count_if p xs) else count_if p xs)"
  "count_if p (xs @ ys) = count_if p xs + count_if p ys"
  by (simp_all add: count_if_def)

lemma count_if_0 [simp]: "count_if p xs = 0 \<longleftrightarrow> (\<forall>x \<in> set xs. \<not> p x)"
  by (simp add: count_if_def filter_empty_conv)

lemma count_if_le: "count_if p xs \<le> length xs"
  by (simp add: count_if_def)

section \<open>Timestamps\<close>

text \<open>A naive \<open>datetime\<close>, compared field by field from the year down.\<close>

datatype datetime = DateTime (dt_year: int) (dt_month: int) (dt_day: int)
  (dt_hour: int) (dt_minute: int) (dt_second: int) (dt_micro: int)

fun dt_key :: "datetime \<Rightarrow> int list" where
  "dt_key (DateTime y mo d h mi s us) = [y, mo, d, h, mi, s, us]"

lemma dt_key_inj: "dt_key a = dt_key b \<Longrightarrow> a = b"
  by (cases a; cases b) simp

instantiation datetime :: linorder
begin

definition less_eq_datetime :: "datetime \<Rightarrow> datetime \<Rightarrow> bool" where
  "less_eq_datetime a b \<longleftrightarrow> dt_key a \<le> dt_key b"

definition less_datetime :: "datetime \<Rightarrow> datetime \<Rightarrow> bool" where
  "less_datetime a b \<longleftrightarrow> dt_key a < dt_key b"

instance
  by standard (auto simp: less_eq_datetime_def less_datetime_def dt_key_inj)

end

definition two :: "int \<Rightarrow> str" where
  "two n = pad_left (CHR ''0'') 2 (digits_of (nat n))"

fun isoformat :: "datetime \<Rightarrow> str" where
  "isoformat (DateTime y mo d h mi s us) =
     pad_left (CHR ''0'') 4 (digits_of (nat y)) @ ''-'' @ two mo @ ''-'' @ two d @ ''T''
       @ two h @ '':'' @ two mi @ '':'' @ two s
       @ (if us = 0 then '''' else ''.'' @ pad_left (CHR ''0'') 6 (digits_of (nat us)))"

section \<open>Rounding\<close>

text \<open>\<open>round(x)\<close> rounds halves to even; \<open>round(x, n)\<close> does so at the n-th decimal.\<close>

definition round_half_even :: "rat \<Rightarrow> int" where
  "round_half_even x =
     (let f = \<lfloor>x\<rfloor>; d = x - of_int f
      in if d < 1 / 2 then f else if 1 / 2 < d then f + 1 else if even f then f else f + 1)"

definition round_digits :: "nat \<Rightarrow> rat \<Rightarrow> rat" where
  "round_digits n x = of_int (round_half_even (x * 10 ^ n)) / 10 ^ n"

lemma round_half_even_bounds:
  "of_int (round_half_even x) \<le> x + 1 / 2" "x - 1 / 2 \<le> of_int (round_half_even x)"
proof -
  define d where "d = x - of_int \<lfloor>x\<rfloor>"
  have "0 \<le> d" "d < 1" and x: "x = of_int \<lfloor>x\<rfloor> + d" unfolding d_def by linarith+
  then show "of_int (round_half_even x) \<le> x + 1 / 2" "x - 1 / 2 \<le> of_int (round_half_even x)"
    unfolding round_half_even_def Let_def d_def[symmetric] by (auto simp: x[symmetric] algebra_simps)
qed

lemma round_half_even_int [simp]: "round_half_even (of_int i) = i"
  by (simp add: round_half_even_def)

lemma round_half_even_mono: "x \<le> y \<Longrightarrow> round_half_even x \<le> round_half_even y"
proof -
  assume xy: "x \<le> y"
  show ?thesis
  proof (cases "\<lfloor>x\<rfloor> = \<lfloor>y\<rfloor>")
    case True
    then show ?thesis using xy by (auto simp: round_half_even_def Let_def)
  next
    case False
    then have "\<lfloor>x\<rfloor> + 1 \<le> \<lfloor>y\<rfloor>" using floor_mono[OF xy] by linarith
    moreover have "round_half_even x \<le> \<lfloor>x\<rfloor> + 1" "\<lfloor>y\<rfloor> \<le> round_half_even y"
      by (simp_all add: round_half_even_def Let_def)
    ultimately show ?thesis by linarith
  qed
qed

section \<open>Exceptions\<close>

text \<open>The exceptions the modelled code raises or lets through, with their message.\<close>

datatype py_error =
    ValueError str
  | TypeError str
  | KeyError str
  | RuntimeError str
  | IndexError str
  | AttributeError str

text \<open>
  \<open>dict(v)\<close>: a copy of a dictionary, or one built from an iterable of pairs. A pair whose
  key is not a string has no JSON object to go to and is reported as a type error.
\<close>

fun dict_item :: "json \<Rightarrow> py_error + str \<times> json" where
  "dict_item (JList [JStr k, v]) = Inr (k, v)"
| "dict_item (JList [_, _]) = Inl (TypeError ''key'')"
| "dict_item (JStr [a, b]) = Inr ([a], JStr [b])"
| "dict_item (JDict [(a, _), (b, _)]) = Inr (a, JStr b)"
| "dict_item (JList _) = Inl (ValueError ''dictionary update sequence'')"
| "dict_item (JStr _) = Inl (ValueError ''dictionary update sequence'')"
| "dict_item (JDict _) = Inl (ValueError ''dictionary update sequence'')"
| "dict_item _ = Inl (TypeError ''dictionary update sequence'')"

fun dict_items :: "jdict \<Rightarrow> json list \<Rightarrow> py_error + jdict" where
  "dict_items d [] = Inr d"
| "dict_items d (x # xs) =
     (case dict_item x of Inl e \<Rightarrow> Inl e | Inr (k, v) \<Rightarrow> dict_items (AList.update k v d) xs)"

fun py_dict :: "json \<Rightarrow> py_error + jdict" where
  "py_dict (JDict d) = Inr d"
| "py_dict (JList xs) = dict_items [] xs"
| "py_dict (JStr s) =
     (if s = [] then Inr [] else Inl (ValueError ''dictionary update sequence''))"
| "py_dict _ = Inl (TypeError ''object is not iterable'')"

text \<open>\<open>x if isinstance(x, dict) else {}\<close>, and the same for lists.\<close>

fun as_dict :: "json option \<Rightarrow> jdict" where
  "as_dict (Some (JDict d)) = d"
| "as_dict _ = []"

fun as_list :: "json option \<Rightarrow> json list" where
  "as_list (Some (JList xs)) = xs"
| "as_list _ = []"

text \<open>Sequencing of computations that may raise.\<close>

fun err_bind :: "'e + 'a \<Rightarrow> ('a \<Rightarrow> 'e + 'b) \<Rightarrow> 'e + 'b" where
  "err_bind (Inl e) f = Inl e"
| "err_bind (Inr x) f = f x"

fun err_map :: "('a \<Rightarrow> 'e + 'b) \<Rightarrow> 'a list \<Rightarrow> 'e + 'b list" where
  "err_map f [] = Inr []"
| "err_map f (x # xs) = err_bind (f x) (\<lambda>y. err_bind (err_map f xs) (\<lambda>ys. Inr (y # ys)))"

lemma err_bind_Inr:
  assumes "err_bind m f = Inr y" obtains x where "m = Inr x" "f x = Inr y"
  using assms by (cases m) auto

lemma err_map_in: "err_map f xs = Inr ys \<Longrightarrow> y \<in> set ys \<Longrightarrow> \<exists>x \<in> set xs. f x = Inr y"
  by (induction xs arbitrary: ys) (auto elim!: err_bind_Inr)

lemma err_map_out: "err_map f xs = Inr ys \<Longrightarrow> x \<in> set xs \<Longrightarrow> \<exists>y \<in> set ys. f x = Inr y"
  by (induction xs arbitrary: ys) (auto elim!: err_bind_Inr)

lemma err_map_all2: "err_map f xs = Inr ys \<Longrightarrow> list_all2 (\<lambda>x y. f x = Inr y) xs ys"
proof (induction xs arbitrary: ys)
  case (Cons x xs)
  then show ?case by (cases "f x"; cases "err_map f xs") auto
qed simp

text \<open>Operations on a state that may raise and keep what they did to the state before.\<close>

type_synonym ('s, 'a) op = "'s \<Rightarrow> (py_error + 'a) \<times> 's"

definition op_return :: "'a \<Rightarrow> ('s, 'a) op" where
  "op_return x s = (Inr x, s)"

definition op_raise :: "py_error \<Rightarrow> ('s, 'a) op" where
  "op_raise e s = (Inl e, s)"

definition op_bind :: "('s, 'a) op \<Rightarrow> ('a \<Rightarrow> ('s, 'b) op) \<Rightarrow> ('s, 'b) op" where
  "op_bind m f s = (case m s of (Inl e, s') \<Rightarrow> (Inl e, s') | (Inr x, s') \<Rightarrow> f x s')"

definition op_try :: "py_error + 'a \<Rightarrow> ('s, 'a) op" where
  "op_try r s = (r, s)"

definition op_modify :: "('s \<Rightarrow> 's) \<Rightarrow> ('s, unit) op" where
  "op_modify f s = (Inr (), f s)"

fun op_each :: "('a \<Rightarrow> ('s, 'b) op) \<Rightarrow> 'a list \<Rightarrow> ('s, 'b list) op" where
  "op_each f [] s = (Inr [], s)"
| "op_each f (x # xs) s =
     (case f x s of (Inl e, s') \<Rightarrow> (Inl e, s')
      | (Inr y, s') \<Rightarrow>
        (case op_each f xs s' of (Inl e, s'') \<Rightarrow> (Inl e, s'') | (Inr ys, s'') \<Rightarrow> (Inr (y # ys), s'')))"

text \<open>
  The contract of an operation with respect to a relation between its states, which holds
  whether the operation returns or raises; it is closed under sequencing.
\<close>

definition op_rel :: "('s \<Rightarrow> 's \<Rightarrow> bool) \<Rightarrow> ('s \<Rightarrow> 'r \<times> 's) \<Rightarrow> bool" where
  "op_rel R m \<longleftrightarrow> (\<forall>s. R s (snd (m s)))"

locale step_relation =
  fixes R :: "'s \<Rightarrow> 's \<Rightarrow> bool"
  assumes R_refl: "R s s" and R_trans: "R s t \<Longrightarrow> R t u \<Longrightarrow> R s u"
begin

lemma rel_return [intro]: "op_rel R (op_return x)"
  by (simp add: op_rel_def op_return_def R_refl)

lemma rel_raise [intro]: "op_rel R (op_raise e)"
  by (simp add: op_rel_def op_raise_def R_refl)

lemma rel_try [intro]: "op_rel R (op_try r)"
  by (simp add: op_rel_def op_try_def R_refl)

lemma rel_modify: "(\<And>s. R s (f s)) \<Longrightarrow> op_rel R (op_modify f)"
  by (simp add: op_rel_def op_modify_def)

lemma rel_bind:
  assumes "op_rel R m" and "\<And>x. op_rel R (f x)"
  shows "op_rel R (op_bind m f)"
  unfolding op_rel_def
proof
  fix s
  obtain r t where m: "m s = (r, t)" by (cases "m s")
  then have "R s t" using assms(1) by (metis op_rel_def snd_conv)
  moreover have "R t (snd (f x t))" for x using assms(2) by (simp add: op_rel_def)
  ultimately show "R s (snd (op_bind m f s))"
    using R_trans by (cases r) (auto simp: op_bind_def m)
qed

lemma rel_each:
  assumes "\<And>x. op_rel R (f x)"
  shows "op_rel R (op_each f xs)"
  unfolding op_rel_def
proof
  fix s
  show "R s (snd (op_each f xs s))"
  proof (induction xs arbitrary: s)
    case Nil
    then show ?case by (simp add: R_refl)
  next
    case (Cons x xs)
    obtain r t where m: "f x s = (r, t)" by (cases "f x s")
    then have a: "R s t" using assms by (metis op_rel_def snd_conv)
    show ?case
    proof (cases r)
      case (Inl e)
      then show ?thesis using a m by simp
    next
      case (Inr y)
      obtain q u where n: "op_each f xs t = (q, u)" by (cases "op_each f xs t")
      then have "R s u" using a Cons[of t] R_trans by simp
      then show ?thesis using Inr m n by (cases q) simp_all
    qed
  qed
qed

lemma rel_fold: "(\<And>x s. R s (f x s)) \<Longrightarrow> R s (fold f xs s)"
  by (induction xs arbitrary: s) (auto intro: R_refl R_trans)

end

end
