(* ===== verification/Rbac.thy ===== *)
theory Rbac
  imports Prelude
begin

text \<open>
  \<open>backend/packages/auth/rbac.py\<close>: workspace RBAC and the external policy engines. The
  HTTP call to an engine (\<open>urlopen\<close> and \<open>json.loads\<close>) is an argument \<open>post\<close>: it gives
  the decoded JSON value or the exception it raised. A response that raises anything the
  code does not catch propagates as \<open>Inl\<close>.
\<close>

section \<open>Roles\<close>

datatype role = Viewer | Reviewer | Analyst | Admin | Owner

fun role_rank :: "role \<Rightarrow> nat" where
  "role_rank Viewer = 0"
| "role_rank Reviewer = 1"
| "role_rank Analyst = 2"
| "role_rank Admin = 3"
| "role_rank Owner = 4"

fun role_name :: "role \<Rightarrow> str" where
  "role_name Viewer = ''viewer''"
| "role_name Reviewer = ''reviewer''"
| "role_name Analyst = ''analyst''"
| "role_name Admin = ''admin''"
| "role_name Owner = ''owner''"

lemma role_rank_inj: "role_rank a = role_rank b \<Longrightarrow> a = b"
  by (cases a; cases b) simp_all

instantiation role :: linorder
begin

definition less_eq_role :: "role \<Rightarrow> role \<Rightarrow> bool" where
  "less_eq_role a b \<longleftrightarrow> role_rank a \<le> role_rank b"

definition less_role :: "role \<Rightarrow> role \<Rightarrow> bool" where
  "less_role a b \<longleftrightarrow> role_rank a < role_rank b"

instance
  by standard (auto simp: less_eq_role_def less_role_def role_rank_inj)

end

lemma role_le_Owner [simp]: "r \<le> Owner"
  by (cases r) (simp_all add: less_eq_role_def)

definition action_min_role :: "(str \<times> role) list" where
  "action_min_role =
    [(''workspace:read'', Viewer), (''workspace:write'', Admin), (''project:read'', Viewer),
     (''project:write'', Analyst), (''competitor:read'', Viewer), (''evidence:read'', Viewer),
     (''evidence:write'', Analyst), (''evidence:review'', Reviewer), (''source:read'', Viewer),
     (''source:write'', Analyst), (''source:review'', Reviewer), (''artifact:read'', Viewer),
     (''artifact:write'', Analyst), (''report:read'', Viewer), (''report:write'', Analyst),
     (''report:review'', Reviewer), (''schema:review'', Reviewer), (''memory:read'', Viewer),
     (''memory:write'', Analyst), (''memory:review'', Reviewer), (''tool:read'', Viewer),
     (''model:read'', Viewer), (''kg:read'', Viewer), (''notification:read'', Viewer),
     (''notification:write'', Analyst), (''audit:read'', Admin)]"

definition action_allowed_roles :: "(str \<times> role list) list" where
  "action_allowed_roles = [(''source:review'', [Reviewer, Admin, Owner])]"

definition role_of_name :: "str \<Rightarrow> role option" where
  "role_of_name s =
     map_of (map (\<lambda>r. (role_name r, r)) [Viewer, Reviewer, Analyst, Admin, Owner]) s"

definition normalize_role :: "str option \<Rightarrow> role \<Rightarrow> role" where
  "normalize_role value dflt =
     (case role_of_name (lower (strip (or_str value (role_name dflt)))) of
        Some r \<Rightarrow> r | None \<Rightarrow> Viewer)"

definition required_role_for_action :: "str \<Rightarrow> role" where
  "required_role_for_action action =
     (case map_of action_min_role action of Some r \<Rightarrow> r | None \<Rightarrow> Owner)"

definition can_perform :: "role \<Rightarrow> str \<Rightarrow> bool" where
  "can_perform r action =
     (case map_of action_allowed_roles action of
        Some allowed \<Rightarrow> r \<in> set allowed
      | None \<Rightarrow> role_rank (required_role_for_action action) \<le> role_rank r)"

definition list_policy_actions :: "(str \<times> role) list" where
  "list_policy_actions = sort_key fst action_min_role"

section \<open>Users, requests and decisions\<close>

datatype effect = Allow | Deny
datatype auth_engine = EngInternal | EngOpa | EngCerbos
datatype decision_engine = DecInternal | DecOpa | DecCerbos

fun engine_upper :: "auth_engine \<Rightarrow> str" where
  "engine_upper EngInternal = ''INTERNAL''"
| "engine_upper EngOpa = ''OPA''"
| "engine_upper EngCerbos = ''CERBOS''"

record user_context =
  us_user_id :: str
  us_role :: role
  us_workspace_id :: "str option"
  us_policy_engine :: auth_engine
  us_policy_url :: "str option"
  us_policy_timeout_seconds :: rat

record rule_match =
  rm_rule_id :: str
  rm_effect :: effect
  rm_message :: str

record policy_decision =
  pd_allowed :: bool
  pd_effect :: effect
  pd_engine :: decision_engine
  pd_policy_version :: str
  pd_subject_id :: str
  pd_role :: role
  pd_scoped_workspace_id :: "str option"
  pd_workspace_id :: str
  pd_action :: str
  pd_target_type :: str
  pd_target_id :: "str option"
  pd_required_role :: role
  pd_matched_rules :: "rule_match list"
  pd_reason :: str

text \<open>The exceptions of the policy call: the two caught families, and any other, each with
  the name of its class.\<close>

datatype policy_exn = OSErr str | ValueErr str | OtherExn str

fun decision_engine_for :: "auth_engine \<Rightarrow> decision_engine" where
  "decision_engine_for EngOpa = DecOpa"
| "decision_engine_for EngCerbos = DecCerbos"
| "decision_engine_for EngInternal = DecInternal"

definition decision ::
  "bool \<Rightarrow> decision_engine \<Rightarrow> user_context \<Rightarrow> str \<Rightarrow> str \<Rightarrow> str \<Rightarrow> str option \<Rightarrow> role
    \<Rightarrow> rule_match list \<Rightarrow> str \<Rightarrow> policy_decision" where
  "decision allowed engine user workspace_id action target_type target_id required_role
     matched_rules reason =
     \<lparr>pd_allowed = allowed, pd_effect = (if allowed then Allow else Deny), pd_engine = engine,
      pd_policy_version = ''2026-05-phase5-rbac'', pd_subject_id = us_user_id user,
      pd_role = us_role user, pd_scoped_workspace_id = us_workspace_id user,
      pd_workspace_id = workspace_id, pd_action = action, pd_target_type = target_type,
      pd_target_id = target_id, pd_required_role = required_role,
      pd_matched_rules = matched_rules, pd_reason = reason\<rparr>"

definition external_deny ::
  "user_context \<Rightarrow> str \<Rightarrow> str \<Rightarrow> str \<Rightarrow> str option \<Rightarrow> role \<Rightarrow> str \<Rightarrow> str \<Rightarrow> policy_decision" where
  "external_deny user workspace_id action target_type target_id required_role rule_id reason =
     decision False (decision_engine_for (us_policy_engine user)) user workspace_id action
       target_type target_id required_role
       [\<lparr>rm_rule_id = rule_id, rm_effect = Deny, rm_message = reason\<rparr>] reason"

section \<open>Payloads and responses of the external engines\<close>

definition opa_payload :: "user_context \<Rightarrow> str \<Rightarrow> str \<Rightarrow> str \<Rightarrow> str option \<Rightarrow> json" where
  "opa_payload user workspace_id action target_type target_id =
     JDict [(''input'', JDict
       [(''subject'', JDict [(''id'', JStr (us_user_id user)),
                             (''role'', JStr (role_name (us_role user))),
                             (''workspace_id'', jstr_opt (us_workspace_id user))]),
        (''resource'', JDict [(''workspace_id'', JStr workspace_id), (''type'', JStr target_type),
                              (''id'', JStr (or_str target_id workspace_id))]),
        (''action'', JStr action)])]"

definition cerbos_payload :: "user_context \<Rightarrow> str \<Rightarrow> str \<Rightarrow> str \<Rightarrow> str option \<Rightarrow> json" where
  "cerbos_payload user workspace_id action target_type target_id =
     JDict
       [(''principal'', JDict [(''id'', JStr (us_user_id user)),
                               (''roles'', jstrs [role_name (us_role user)]),
                               (''attr'', JDict [(''workspace_id'', jstr_opt (us_workspace_id user))])]),
        (''resources'', JList [JDict
          [(''resource'', JDict [(''kind'', JStr target_type),
                                 (''id'', JStr (or_str target_id workspace_id)),
                                 (''attr'', JDict [(''workspace_id'', JStr workspace_id)])]),
           (''actions'', jstrs [action])]])]"

definition allowed_text :: "str \<Rightarrow> bool \<Rightarrow> str" where
  "allowed_text engine allowed =
     (if allowed then ''Allowed by '' else ''Denied by '') @ engine @ '' policy.''"

definition jget :: "jdict \<Rightarrow> str \<Rightarrow> json" where
  "jget d k = (case map_of d k of Some v \<Rightarrow> v | None \<Rightarrow> JNull)"

definition json_or :: "json \<Rightarrow> json \<Rightarrow> json" where
  "json_or a b = (if truthy a then a else b)"

fun parse_opa_decision :: "jdict \<Rightarrow> policy_exn + bool \<times> str" where
  "parse_opa_decision response =
     (case jget response ''result'' of
        JBool b \<Rightarrow> Inr (b, allowed_text ''OPA'' b)
      | JDict result \<Rightarrow>
          (let allowed = truthy (case map_of result ''allow'' of
                 Some v \<Rightarrow> v
               | None \<Rightarrow> (case map_of result ''allowed'' of Some v \<Rightarrow> v | None \<Rightarrow> JBool False))
           in Inr (allowed, py_str (json_or (jget result ''reason'')
                (json_or (jget result ''message'') (JStr (allowed_text ''OPA'' allowed))))))
      | _ \<Rightarrow> Inl (ValueErr ''ValueError''))"

definition cerbos_allows :: "json \<Rightarrow> bool" where
  "cerbos_allows v =
     (v = JBool True \<or> upper (py_str v) \<in> {''EFFECT_ALLOW'', ''ALLOW'', ''ALLOWED''})"

fun cerbos_actions :: "json \<Rightarrow> json" where
  "cerbos_actions (JDict r) = jget r ''actions''"
| "cerbos_actions _ = JNull"

fun parse_cerbos_decision :: "jdict \<Rightarrow> str \<Rightarrow> policy_exn + bool \<times> str" where
  "parse_cerbos_decision response action =
     (case jget response ''allowed'' of
        JBool b \<Rightarrow> Inr (b, allowed_text ''Cerbos'' b)
      | _ \<Rightarrow>
        (case json_or (jget response ''results'') (jget response ''resourceInstances'') of
           JList (r # _) \<Rightarrow>
             (case cerbos_actions r of
                JDict actions \<Rightarrow>
                  (let allowed = cerbos_allows (jget actions action)
                   in Inr (allowed, allowed_text ''Cerbos'' allowed))
              | _ \<Rightarrow> Inl (ValueErr ''ValueError''))
         | _ \<Rightarrow> Inl (ValueErr ''ValueError'')))"

fun parse_external_decision :: "jdict \<Rightarrow> str \<Rightarrow> auth_engine \<Rightarrow> policy_exn + bool \<times> str" where
  "parse_external_decision response action EngOpa = parse_opa_decision response"
| "parse_external_decision response action _ = parse_cerbos_decision response action"

text \<open>The decoded body must be a JSON object.\<close>

definition post_policy_json ::
  "(str \<Rightarrow> json \<Rightarrow> rat \<Rightarrow> policy_exn + json) \<Rightarrow> str \<Rightarrow> json \<Rightarrow> rat \<Rightarrow> policy_exn + jdict" where
  "post_policy_json post url payload timeout =
     (case post url payload timeout of
        Inl e \<Rightarrow> Inl e
      | Inr (JDict d) \<Rightarrow> Inr d
      | Inr _ \<Rightarrow> Inl (ValueErr ''ValueError''))"

section \<open>Evaluation\<close>

text \<open>The body of the \<open>try\<close>: post the payload, then parse the response.\<close>

definition external_outcome ::
  "(str \<Rightarrow> json \<Rightarrow> rat \<Rightarrow> policy_exn + json) \<Rightarrow> user_context \<Rightarrow> str \<Rightarrow> str \<Rightarrow> str \<Rightarrow> str option
    \<Rightarrow> policy_exn + bool \<times> str" where
  "external_outcome post user workspace_id action target_type target_id =
     (case post_policy_json post (or_str (us_policy_url user) [])
        (if us_policy_engine user = EngOpa
         then opa_payload user workspace_id action target_type target_id
         else cerbos_payload user workspace_id action target_type target_id)
        (max (1 / 10) (min (us_policy_timeout_seconds user) 10)) of
        Inl e \<Rightarrow> Inl e
      | Inr raw \<Rightarrow> parse_external_decision raw action (us_policy_engine user))"

definition evaluate_external_policy ::
  "(str \<Rightarrow> json \<Rightarrow> rat \<Rightarrow> policy_exn + json) \<Rightarrow> user_context \<Rightarrow> str \<Rightarrow> str \<Rightarrow> str \<Rightarrow> str option
    \<Rightarrow> role \<Rightarrow> policy_exn + policy_decision" where
  "evaluate_external_policy post user workspace_id action target_type target_id required_role =
     (if \<not> given (us_policy_url user) then
        Inr (external_deny user workspace_id action target_type target_id required_role
          ''deny_external_policy_unconfigured''
          (engine_upper (us_policy_engine user)
             @ '' policy engine is enabled without a policy URL.''))
      else
        let unavailable = (\<lambda>cls. external_deny user workspace_id action target_type target_id
              required_role ''deny_external_policy_unavailable''
              (engine_upper (us_policy_engine user) @ '' policy engine unavailable: '' @ cls @ ''.''))
        in case external_outcome post user workspace_id action target_type target_id of
             Inl (OSErr cls) \<Rightarrow> Inr (unavailable cls)
           | Inl (ValueErr cls) \<Rightarrow> Inr (unavailable cls)
           | Inl (OtherExn cls) \<Rightarrow> Inl (OtherExn cls)
           | Inr (allowed, reason) \<Rightarrow>
               Inr (decision allowed (decision_engine_for (us_policy_engine user)) user workspace_id
                 action target_type target_id required_role
                 [\<lparr>rm_rule_id = (if allowed then ''external_policy_allow'' else ''external_policy_deny''),
                   rm_effect = (if allowed then Allow else Deny), rm_message = reason\<rparr>] reason))"

definition evaluate_access_policy ::
  "(str \<Rightarrow> json \<Rightarrow> rat \<Rightarrow> policy_exn + json) \<Rightarrow> user_context \<Rightarrow> str \<Rightarrow> str \<Rightarrow> str \<Rightarrow> str option
    \<Rightarrow> policy_exn + policy_decision" where
  "evaluate_access_policy post user workspace_id action target_type target_id =
     (let required_role = required_role_for_action action
      in if us_workspace_id user \<noteq> None \<and> us_workspace_id user \<noteq> Some workspace_id then
           Inr (decision False (decision_engine_for (us_policy_engine user)) user workspace_id action
             target_type target_id required_role
             [\<lparr>rm_rule_id = ''deny_cross_workspace_scope'', rm_effect = Deny,
               rm_message = ''User workspace scope does not match requested workspace.''\<rparr>]
             ''Cross-workspace access is denied.'')
         else if us_policy_engine user \<in> {EngOpa, EngCerbos} then
           evaluate_external_policy post user workspace_id action target_type target_id required_role
         else if \<not> can_perform (us_role user) action then
           (let allowed_roles = (case map_of action_allowed_roles action of
                  Some rs \<Rightarrow> rs | None \<Rightarrow> []);
                listed = (allowed_roles \<noteq> []);
                message = (if listed
                  then ''Action requires one of: ''
                     @ join '', '' (sort (map role_name allowed_roles)) @ ''.''
                  else ''Action requires role '' @ role_name required_role @ '' or higher.'');
                reason = (if listed
                  then ''Role '' @ role_name (us_role user) @ '' is not allowed for '' @ action @ ''.''
                  else ''Role '' @ role_name (us_role user) @ '' is below required role ''
                     @ role_name required_role @ ''.'')
            in Inr (decision False DecInternal user workspace_id action target_type target_id
                 required_role
                 [\<lparr>rm_rule_id = (if listed then ''deny_role_not_allowed'' else ''deny_role_below_minimum''),
                   rm_effect = Deny, rm_message = message\<rparr>] reason))
         else
           Inr (decision True DecInternal user workspace_id action target_type target_id required_role
             [\<lparr>rm_rule_id = ''allow_workspace_role_minimum'', rm_effect = Allow,
               rm_message = ''Workspace scope and minimum role checks passed.''\<rparr>]
             ''Allowed by workspace RBAC policy.''))"

definition can_access_workspace ::
  "(str \<Rightarrow> json \<Rightarrow> rat \<Rightarrow> policy_exn + json) \<Rightarrow> user_context \<Rightarrow> str \<Rightarrow> str \<Rightarrow> policy_exn + bool" where
  "can_access_workspace post user workspace_id action =
     map_sum id pd_allowed
       (evaluate_access_policy post user workspace_id action ''workspace'' None)"

section \<open>Properties\<close>

lemma decision_sel [simp]:
  "pd_allowed (decision al eng u w a tt tid rr ms rs) = al"
  "pd_effect (decision al eng u w a tt tid rr ms rs) = (if al then Allow else Deny)"
  "pd_matched_rules (decision al eng u w a tt tid rr ms rs) = ms"
  "pd_required_role (decision al eng u w a tt tid rr ms rs) = rr"
  "pd_workspace_id (decision al eng u w a tt tid rr ms rs) = w"
  by (simp_all add: decision_def)

lemma external_result:
  assumes "evaluate_external_policy post user w a tt tid rr = Inr d"
  shows "\<exists>al eng rule msg. d = decision al eng user w a tt tid rr
       [\<lparr>rm_rule_id = rule, rm_effect = (if al then Allow else Deny), rm_message = msg\<rparr>] msg
     \<and> (al \<longrightarrow> given (us_policy_url user) \<and> external_outcome post user w a tt tid = Inr (True, msg))"
proof (cases "given (us_policy_url user)")
  case False
  then have "d = decision False (decision_engine_for (us_policy_engine user)) user w a tt tid rr
      [\<lparr>rm_rule_id = ''deny_external_policy_unconfigured'', rm_effect = Deny,
        rm_message = engine_upper (us_policy_engine user)
             @ '' policy engine is enabled without a policy URL.''\<rparr>]
      (engine_upper (us_policy_engine user)
             @ '' policy engine is enabled without a policy URL.'')"
    using assms by (simp add: evaluate_external_policy_def external_deny_def)
  then show ?thesis
    by (intro exI[of _ False] exI[of _ "decision_engine_for (us_policy_engine user)"]
        exI[of _ "''deny_external_policy_unconfigured''"]
        exI[of _ "engine_upper (us_policy_engine user)
             @ '' policy engine is enabled without a policy URL.''"]) simp
next
  case True
  note ev = assms[unfolded evaluate_external_policy_def Let_def external_deny_def]
  show ?thesis
  proof (cases "external_outcome post user w a tt tid")
    case (Inl e)
    then show ?thesis using ev True by (cases e) (simp_all, metis+)
  next
    case (Inr r)
    obtain al msg where r: "r = (al, msg)" by (cases r)
    show ?thesis
      using ev True unfolding Inr r by (cases al) (simp_all, metis+)
  qed
qed

lemma can_perform_listed: "can_perform r ''source:review'' \<longleftrightarrow> r \<in> {Reviewer, Admin, Owner}"
  by (simp add: can_perform_def action_allowed_roles_def)

lemma can_perform_ranked:
  "action \<noteq> ''source:review'' \<Longrightarrow> can_perform r action \<longleftrightarrow> required_role_for_action action \<le> r"
  by (simp add: can_perform_def action_allowed_roles_def less_eq_role_def)

lemma can_perform_owner: "can_perform Owner action"
proof (cases "action = ''source:review''")
  case True
  then show ?thesis by (simp add: can_perform_listed)
next
  case False
  then show ?thesis by (simp add: can_perform_ranked)
qed

lemma unknown_action_owner_only:
  "map_of action_min_role action = None \<Longrightarrow> can_perform r action \<longleftrightarrow> r = Owner"
proof -
  assume a: "map_of action_min_role action = None"
  then have "action \<noteq> ''source:review''" by (auto simp: action_min_role_def)
  with a show ?thesis
    by (cases r) (simp_all add: can_perform_ranked required_role_for_action_def less_eq_role_def)
qed

text \<open>Promotion never takes an internal permission away, with one exception: an analyst,
  who outranks a reviewer, may not review sources.\<close>

theorem can_perform_mono:
  assumes "r \<le> r'" and "can_perform r action" and "\<not> (action = ''source:review'' \<and> r' = Analyst)"
  shows "can_perform r' action"
proof (cases "action = ''source:review''")
  case True
  with assms show ?thesis
    by (cases r; cases r') (auto simp: can_perform_listed less_eq_role_def)
next
  case False
  with assms show ?thesis by (auto simp: can_perform_ranked)
qed

theorem can_perform_mono_witness:
  "can_perform Reviewer ''source:review'' \<and> \<not> can_perform Analyst ''source:review''
     \<and> can_perform Admin ''source:review''"
  using can_perform_mono[of Reviewer Admin "''source:review''"]
  by (simp add: can_perform_listed less_eq_role_def)

lemma cross_workspace_denied:
  assumes "us_workspace_id user = Some scope" and "scope \<noteq> workspace_id"
  shows "\<exists>d. evaluate_access_policy post user workspace_id action tt tid = Inr d
     \<and> \<not> pd_allowed d \<and> map rm_rule_id (pd_matched_rules d) = [''deny_cross_workspace_scope'']"
  using assms by (simp add: evaluate_access_policy_def)

lemma internal_decision:
  assumes "us_policy_engine user = EngInternal"
  shows "\<exists>d. evaluate_access_policy post user workspace_id action tt tid = Inr d
     \<and> (pd_allowed d \<longleftrightarrow>
          (us_workspace_id user = None \<or> us_workspace_id user = Some workspace_id)
          \<and> can_perform (us_role user) action)"
  using assms by (simp add: evaluate_access_policy_def Let_def)

lemma decision_consistent:
  assumes "evaluate_access_policy post user workspace_id action tt tid = Inr d"
  shows "pd_effect d = (if pd_allowed d then Allow else Deny)
     \<and> (\<exists>m. pd_matched_rules d = [m] \<and> rm_effect m = pd_effect d)
     \<and> pd_required_role d = required_role_for_action action \<and> pd_workspace_id d = workspace_id"
proof (cases "\<not> (us_workspace_id user \<noteq> None \<and> us_workspace_id user \<noteq> Some workspace_id)
    \<and> us_policy_engine user \<noteq> EngInternal")
  case True
  then have "evaluate_external_policy post user workspace_id action tt tid
      (required_role_for_action action) = Inr d"
    using assms by (cases "us_policy_engine user") (auto simp: evaluate_access_policy_def Let_def)
  then show ?thesis by (auto dest!: external_result)
next
  case False
  then show ?thesis
    using assms by (cases "us_policy_engine user")
      (auto simp: evaluate_access_policy_def Let_def split: if_splits)
qed

text \<open>C16. An access decision allows only what the policy justifies, whatever engine is
  configured: the user's workspace scope is open or the requested workspace; with the internal
  engine the role may perform the action; with an external engine a policy URL is configured and
  that engine answered, and answered allow. The recorded effect and the single matched rule say
  the same as the decision.\<close>

theorem access_allowed_justified:
  assumes "evaluate_access_policy post user workspace_id action tt tid = Inr d" and "pd_allowed d"
  shows "(us_workspace_id user = None \<or> us_workspace_id user = Some workspace_id)
     \<and> (if us_policy_engine user = EngInternal then can_perform (us_role user) action
        else given (us_policy_url user)
          \<and> (\<exists>msg. external_outcome post user workspace_id action tt tid = Inr (True, msg)))
     \<and> pd_effect d = Allow \<and> map rm_effect (pd_matched_rules d) = [Allow]"
proof -
  have w: "\<not> (us_workspace_id user \<noteq> None \<and> us_workspace_id user \<noteq> Some workspace_id)"
    using assms cross_workspace_denied[of user _ workspace_id post action tt tid] by fastforce
  have c: "pd_effect d = Allow \<and> map rm_effect (pd_matched_rules d) = [Allow]"
    using decision_consistent[OF assms(1)] assms(2) by auto
  show ?thesis
  proof (cases "us_policy_engine user = EngInternal")
    case True
    then show ?thesis
      using w c assms internal_decision[OF True, of post workspace_id action tt tid] by auto
  next
    case False
    then have "us_policy_engine user \<in> {EngOpa, EngCerbos}" by (cases "us_policy_engine user") auto
    then have "evaluate_external_policy post user workspace_id action tt tid
        (required_role_for_action action) = Inr d"
      using assms(1) w by (simp only: evaluate_access_policy_def Let_def if_False if_True)
    then show ?thesis using external_result assms(2) False w c by fastforce
  qed
qed

definition opa_user :: user_context where
  "opa_user = \<lparr>us_user_id = ''u1'', us_role = Viewer, us_workspace_id = Some ''w1'',
     us_policy_engine = EngOpa, us_policy_url = Some ''http://opa/v1/data/app'',
     us_policy_timeout_seconds = 2\<rparr>"

definition allowing_engine :: "str \<Rightarrow> json \<Rightarrow> rat \<Rightarrow> policy_exn + json" where
  "allowing_engine url payload timeout = Inr (JDict [(''result'', JBool True)])"

theorem access_allowed_justified_witness:
  "\<exists>d. evaluate_access_policy allowing_engine opa_user ''w1'' ''run:create'' ''workspace'' None = Inr d
     \<and> pd_effect d = Allow
     \<and> (\<exists>msg. external_outcome allowing_engine opa_user ''w1'' ''run:create'' ''workspace'' None
          = Inr (True, msg))"
proof -
  have "\<exists>d. evaluate_access_policy allowing_engine opa_user ''w1'' ''run:create'' ''workspace'' None
      = Inr d \<and> pd_allowed d"
    by (simp add: evaluate_access_policy_def evaluate_external_policy_def external_outcome_def
        opa_user_def allowing_engine_def post_policy_json_def jget_def Let_def)
  then obtain d where "evaluate_access_policy allowing_engine opa_user ''w1'' ''run:create''
      ''workspace'' None = Inr d" "pd_allowed d" by blast
  then show ?thesis using access_allowed_justified by (fastforce simp: opa_user_def)
qed

text \<open>The internal engine is total and decides by scope and role alone: a decision is
  returned for every request, and it allows the action exactly when the user is not bound to
  another workspace and the role may perform it.\<close>

theorem internal_engine_decides:
  assumes "us_policy_engine user = EngInternal"
  shows "\<exists>d. evaluate_access_policy post user workspace_id action tt tid = Inr d
     \<and> (pd_allowed d \<longleftrightarrow>
          (us_workspace_id user = None \<or> us_workspace_id user = Some workspace_id)
          \<and> can_perform (us_role user) action)
     \<and> pd_required_role d = required_role_for_action action"
  using internal_decision[OF assms] decision_consistent by blast

theorem internal_engine_decides_witness:
  "\<exists>d. evaluate_access_policy allowing_engine
       (opa_user\<lparr>us_policy_engine := EngInternal, us_role := Admin\<rparr>) ''w1'' ''source:review''
       ''workspace'' None = Inr d \<and> pd_allowed d"
  using internal_engine_decides[of "opa_user\<lparr>us_policy_engine := EngInternal, us_role := Admin\<rparr>"
      allowing_engine "''w1''" "''source:review''" "''workspace''" None]
  by (simp add: can_perform_listed) (auto simp: opa_user_def)

lemma normalize_role_name [simp]: "normalize_role (Some (role_name r)) d = r"
  by (cases r; simp add: normalize_role_def role_of_name_def; code_simp)

end
