(* ===== verification/StableIds.thy ===== *)
theory StableIds
  imports Prelude "HOL-Library.Word"
begin

text \<open>
  \<open>backend/packages/identity/stable_ids.py\<close>: deterministic identities. SHA-256 is
  written out (the code takes it from \<open>hashlib\<close>), over the ASCII bytes of the text;
  \<open>urlsplit\<close> and \<open>urlunsplit\<close> are written out as far as the module uses them, with
  the ValueError of an unbalanced bracket as a value. A random \<open>uuid4().hex\<close> is an argument.
\<close>

unbundle bit_operations_syntax

section \<open>SHA-256\<close>

type_synonym w32 = "32 word"

definition sha_k :: "w32 list" where
  "sha_k = [
    1116352408, 1899447441, 3049323471, 3921009573, 961987163, 1508970993, 2453635748, 2870763221,
    3624381080, 310598401, 607225278, 1426881987, 1925078388, 2162078206, 2614888103, 3248222580,
    3835390401, 4022224774, 264347078, 604807628, 770255983, 1249150122, 1555081692, 1996064986,
    2554220882, 2821834349, 2952996808, 3210313671, 3336571891, 3584528711, 113926993, 338241895,
    666307205, 773529912, 1294757372, 1396182291, 1695183700, 1986661051, 2177026350, 2456956037,
    2730485921, 2820302411, 3259730800, 3345764771, 3516065817, 3600352804, 4094571909, 275423344,
    430227734, 506948616, 659060556, 883997877, 958139571, 1322822218, 1537002063, 1747873779,
    1955562222, 2024104815, 2227730452, 2361852424, 2428436474, 2756734187, 3204031479, 3329325298]"

definition sha_h0 :: "w32 list" where
  "sha_h0 = [1779033703, 3144134277, 1013904242, 2773480762,
             1359893119, 2600822924, 528734635, 1541459225]"

definition be_word :: "nat list \<Rightarrow> w32" where
  "be_word bs = foldl (\<lambda>a b. 256 * a + of_nat b) 0 bs"

fun be_bytes :: "nat \<Rightarrow> nat \<Rightarrow> nat list" where
  "be_bytes 0 n = []"
| "be_bytes (Suc k) n = be_bytes k (n div 256) @ [n mod 256]"

definition sha_pad :: "nat list \<Rightarrow> nat list" where
  "sha_pad bs = (let l = length bs
     in bs @ [128] @ replicate ((119 - l mod 64) mod 64) 0 @ be_bytes 8 (8 * l))"

definition blocks_of :: "nat \<Rightarrow> 'a list \<Rightarrow> 'a list list" where
  "blocks_of n xs = map (\<lambda>i. take n (drop (n * i) xs)) [0..<length xs div n]"

definition rotr32 :: "nat \<Rightarrow> w32 \<Rightarrow> w32" where
  "rotr32 n x = drop_bit n x OR push_bit (32 - n) x"

text \<open>The message schedule, newest word first.\<close>

fun sha_schedule :: "nat \<Rightarrow> w32 list \<Rightarrow> w32 list" where
  "sha_schedule 0 ws = rev ws"
| "sha_schedule (Suc n) ws =
     (let a = ws ! 14; b = ws ! 1;
          s0 = rotr32 7 a XOR rotr32 18 a XOR drop_bit 3 a;
          s1 = rotr32 17 b XOR rotr32 19 b XOR drop_bit 10 b
      in sha_schedule n ((ws ! 15 + s0 + ws ! 6 + s1) # ws))"

fun sha_round :: "w32 list \<Rightarrow> w32 \<times> w32 \<Rightarrow> w32 list" where
  "sha_round [a, b, c, d, e, f, g, h] (k, w) =
     (let s1 = rotr32 6 e XOR rotr32 11 e XOR rotr32 25 e;
          ch = (e AND f) XOR (NOT e AND g);
          t1 = h + s1 + ch + k + w;
          s0 = rotr32 2 a XOR rotr32 13 a XOR rotr32 22 a;
          maj = (a AND b) XOR (a AND c) XOR (b AND c)
      in [t1 + s0 + maj, a, b, c, d + t1, e, f, g])"
| "sha_round st _ = st"

definition sha_block :: "w32 list \<Rightarrow> nat list \<Rightarrow> w32 list" where
  "sha_block h bs =
     (let ws = sha_schedule 48 (rev (map be_word (blocks_of 4 bs)))
      in map2 (+) h (foldl sha_round h (zip sha_k ws)))"

definition hex_of_word :: "w32 \<Rightarrow> str" where
  "hex_of_word w = map (\<lambda>i. hex_digit (unat (drop_bit (4 * i) w AND 15))) (rev [0..<8])"

definition sha256_words :: "nat list \<Rightarrow> w32 list" where
  "sha256_words bs = foldl sha_block sha_h0 (blocks_of 64 (sha_pad bs))"

definition sha256_hex :: "str \<Rightarrow> str" where
  "sha256_hex s = concat (map hex_of_word (sha256_words (map code_of s)))"

lemma length_sha_round: "length st = 8 \<Longrightarrow> length (sha_round st kw) = 8"
  by (cases "(st, kw)" rule: sha_round.cases) (simp_all add: Let_def)

lemma length_sha_rounds: "length st = 8 \<Longrightarrow> length (foldl sha_round st kws) = 8"
  by (induction kws arbitrary: st) (simp_all add: length_sha_round)

lemma length_sha_blocks: "length h = 8 \<Longrightarrow> length (foldl sha_block h bss) = 8"
  by (induction bss arbitrary: h) (simp_all add: sha_block_def Let_def length_sha_rounds)

lemma length_concat_const: "\<forall>x \<in> set xs. length (f x) = n \<Longrightarrow> length (concat (map f xs)) = n * length xs"
  by (induction xs) auto

lemma length_sha256_hex [simp]: "length (sha256_hex s) = 64"
proof -
  have "length (sha256_words (map code_of s)) = 8"
    unfolding sha256_words_def by (rule length_sha_blocks) (simp add: sha_h0_def)
  then show ?thesis
    by (simp add: sha256_hex_def length_concat_const[where n = 8] hex_of_word_def)
qed

definition is_hex :: "char \<Rightarrow> bool" where
  "is_hex c = (is_digit c \<or> (97 \<le> code_of c \<and> code_of c \<le> 102))"

lemma is_hex_hex_digit: "n < 16 \<Longrightarrow> is_hex (hex_digit n)"
  by (auto simp: is_hex_def hex_digit_def is_digit_def code_of_def)

lemma is_hex_hex_of_word: "c \<in> set (hex_of_word w) \<Longrightarrow> is_hex c"
proof -
  have "unat (v AND 15) < 16" for v :: w32
    using word_and_le1[of v 15] by (simp add: word_le_nat_alt)
  then show "c \<in> set (hex_of_word w) \<Longrightarrow> is_hex c"
    by (auto simp: hex_of_word_def is_hex_hex_digit)
qed

lemma hex_sha256_hex: "c \<in> set (sha256_hex s) \<Longrightarrow> is_hex c"
  by (auto simp: sha256_hex_def is_hex_hex_of_word)

section \<open>Digests and prefixed identities\<close>

text \<open>\<open>_identity_part\<close>, on JSON-shaped values and on sets (sorted by \<open>str\<close>).\<close>

fun identity_part :: "json \<Rightarrow> str" where
  "identity_part JNull = ''''"
| "identity_part (JDict kvs) =
     join '','' (map snd (sort_key fst
       (map (\<lambda>(k, v). (k, strip k @ ''='' @ identity_part v)) kvs)))"
| "identity_part (JList xs) = join '','' (map identity_part xs)"
| "identity_part v = strip (py_str v)"

definition identity_set_part :: "json list \<Rightarrow> str" where
  "identity_set_part xs = join '','' (map identity_part (sort_key py_str xs))"

definition truncate_digest :: "nat option \<Rightarrow> str \<Rightarrow> str" where
  "truncate_digest n d =
     (case n of None \<Rightarrow> d | Some k \<Rightarrow> if k = 0 then d else take k d)"

definition stable_digest :: "json list \<Rightarrow> nat option \<Rightarrow> str" where
  "stable_digest parts n =
     truncate_digest n (sha256_hex (join ''|'' (map identity_part parts)))"

definition stable_prefixed_id :: "str \<Rightarrow> json list \<Rightarrow> nat \<Rightarrow> str" where
  "stable_prefixed_id prefix parts n = prefix @ ''-'' @ stable_digest parts (Some n)"

definition runtime_prefixed_id :: "str \<Rightarrow> str option \<Rightarrow> nat \<Rightarrow> str \<Rightarrow> str" where
  "runtime_prefixed_id prefix entropy n uuid =
     prefix @ ''-'' @ take n (strip (or_str entropy uuid))"

section \<open>Normalisation\<close>

definition normalize_text :: "str option \<Rightarrow> str" where
  "normalize_text t =
     (if given t then sub_runs is_space '' '' False (strip (lower (the t))) else '''')"

definition is_key_char :: "char \<Rightarrow> bool" where
  "is_key_char c = (is_lower c \<or> is_digit c)"

definition normalize_dimension_key :: "str option \<Rightarrow> str" where
  "normalize_dimension_key d =
     (if given d then
        strip_by (\<lambda>c. c = CHR ''_'')
          (sub_runs (\<lambda>c. \<not> (is_key_char c \<or> c = CHR ''_'')) ''_'' False (normalize_text d))
      else '''')"

definition normalize_key :: "str option \<Rightarrow> str" where
  "normalize_key v =
     str_or (strip_by (\<lambda>c. c = CHR ''-'')
        (sub_runs (\<lambda>c. \<not> is_key_char c) ''-'' False (normalize_text v))) ''unknown''"

text \<open>The ASCII part of the punctuation class of \<open>compute_topic_normalized\<close>.\<close>

definition is_topic_punct :: "char \<Rightarrow> bool" where
  "is_topic_punct c = (c \<in> set '',.;:!?'')"

definition compute_topic_normalized :: "str option \<Rightarrow> str" where
  "compute_topic_normalized topic =
     strip (sub_runs is_space '' '' False
       (sub_runs is_topic_punct '' '' False (normalize_text topic)))"

definition compute_competitor_set_hash :: "str list option \<Rightarrow> str" where
  "compute_competitor_set_hash ids =
     (case ids of
        None \<Rightarrow> sha256_hex ''''
      | Some xs \<Rightarrow>
          if xs = [] then sha256_hex ''''
          else sha256_hex (join ''|''
            (sorted_set (map strip (filter (\<lambda>x. x \<noteq> [] \<and> strip x \<noteq> []) xs)))))"

definition new_subagent_context_id :: "str \<Rightarrow> str \<Rightarrow> str \<Rightarrow> str \<Rightarrow> str" where
  "new_subagent_context_id run_id agent subagent uuid =
     run_id @ '':'' @ normalize_key (Some agent) @ '':'' @ normalize_key (Some subagent)
       @ '':'' @ take 8 uuid"

section \<open>URLs\<close>

record url_parts =
  up_scheme :: str
  up_netloc :: str
  up_path :: str
  up_query :: str
  up_fragment :: str

definition is_scheme_char :: "char \<Rightarrow> bool" where
  "is_scheme_char c = (is_lower c \<or> is_upper c \<or> is_digit c \<or> c \<in> set ''+-.'')"

definition split_scheme :: "str \<Rightarrow> str \<times> str" where
  "split_scheme u =
     (let s = takeWhile (\<lambda>c. c \<noteq> CHR '':'') u; r = dropWhile (\<lambda>c. c \<noteq> CHR '':'') u
      in if r \<noteq> [] \<and> s \<noteq> [] \<and> (is_lower (hd s) \<or> is_upper (hd s)) \<and> list_all is_scheme_char s
         then (lower s, tl r) else ('''', u))"

definition cut_at :: "char \<Rightarrow> str \<Rightarrow> str \<times> str" where
  "cut_at c s = (takeWhile (\<lambda>x. x \<noteq> c) s, drop 1 (dropWhile (\<lambda>x. x \<noteq> c) s))"

definition urlsplit :: "str \<Rightarrow> py_error + url_parts" where
  "urlsplit url =
     (let u0 = filter (\<lambda>c. c \<noteq> CHR 0x09 \<and> c \<noteq> CHR 0x0A \<and> c \<noteq> CHR 0x0D)
                 (dropWhile (\<lambda>c. code_of c \<le> 32) url);
          (scheme, u1) = split_scheme u0;
          delim = (\<lambda>c. c \<noteq> CHR ''/'' \<and> c \<noteq> CHR ''?'' \<and> c \<noteq> CHR ''#'');
          (netloc, u2) = (if starts_with ''//'' u1
                          then (takeWhile delim (drop 2 u1), dropWhile delim (drop 2 u1))
                          else ('''', u1));
          (u3, fragment) = cut_at (CHR ''#'') u2;
          (path, query) = cut_at (CHR ''?'') u3
      in if (CHR ''['' \<in> set netloc) \<noteq> (CHR '']'' \<in> set netloc)
         then Inl (ValueError ''Invalid IPv6 URL'')
         else Inr \<lparr>up_scheme = scheme, up_netloc = netloc, up_path = path,
                   up_query = query, up_fragment = fragment\<rparr>)"

text \<open>\<open>urlunsplit\<close> with an empty query and fragment, and a non-empty host part.\<close>

definition urlunsplit :: "str \<Rightarrow> str \<Rightarrow> str \<Rightarrow> str" where
  "urlunsplit scheme netloc path =
     (let p = (if path \<noteq> [] \<and> \<not> starts_with ''/'' path then ''/'' @ path else path)
      in (if scheme \<noteq> [] then scheme @ '':'' else '''') @ ''//'' @ netloc @ p)"

abbreviation rstrip_slash :: "str \<Rightarrow> str" where
  "rstrip_slash \<equiv> rstrip_by (\<lambda>c. c = CHR ''/'')"

definition normalize_url :: "str option \<Rightarrow> py_error + str" where
  "normalize_url url =
     (if \<not> given url then Inr ''''
      else let raw = strip (the url)
        in if raw = [] then Inr ''''
           else case urlsplit raw of
                  Inl e \<Rightarrow> Inl e
                | Inr parts \<Rightarrow>
                    if up_scheme parts = [] \<or> up_netloc parts = [] then Inr (rstrip_slash raw)
                    else Inr (urlunsplit (lower (up_scheme parts)) (lower (up_netloc parts))
                               (rstrip_slash (up_path parts))))"

section \<open>The identities of the program's records\<close>

definition opt_text :: "str option \<Rightarrow> str" where
  "opt_text v = or_str v ''''"

definition compute_content_hash :: "str option \<Rightarrow> str" where
  "compute_content_hash content =
     (case content of None \<Rightarrow> sha256_hex '''' | Some c \<Rightarrow> sha256_hex c)"

definition compute_raw_source_id ::
  "str option \<Rightarrow> str option \<Rightarrow> str option \<Rightarrow> str option \<Rightarrow> str option \<Rightarrow> str option
    \<Rightarrow> str option \<Rightarrow> str option \<Rightarrow> str option \<Rightarrow> py_error + str" where
  "compute_raw_source_id source_type competitor dimension url content_hash title snippet run_id
     source_role =
     (case normalize_url url of
        Inl e \<Rightarrow> Inl e
      | Inr stable_url \<Rightarrow>
          (let stable_content =
                 or_str content_hash (compute_content_hash (Some (or_str snippet (opt_text title))))
           in Inr (stable_prefixed_id ''raw-source''
                [JStr (or_str source_role ''source''), JStr (opt_text source_type),
                 JStr (normalize_text competitor), JStr (normalize_dimension_key dimension),
                 JStr stable_url, JStr stable_content,
                 if stable_url = [] \<and> stable_content = [] then jstr_opt run_id else JStr '''']
                20)))"

definition compute_evidence_id ::
  "str option \<Rightarrow> str option \<Rightarrow> str option \<Rightarrow> str option \<Rightarrow> py_error + str" where
  "compute_evidence_id canonical_url content_hash competitor_id dimension_key =
     (case normalize_url canonical_url of
        Inl e \<Rightarrow> Inl e
      | Inr u \<Rightarrow> Inr (sha256_hex (join ''|''
          [u, opt_text content_hash, opt_text competitor_id,
           normalize_dimension_key dimension_key])))"

definition compute_claim_id :: "str option \<Rightarrow> str option \<Rightarrow> str option \<Rightarrow> str" where
  "compute_claim_id evidence_id claim_text claim_type =
     sha256_hex (join ''|''
       [opt_text evidence_id, normalize_text claim_text, normalize_dimension_key claim_type])"

definition compute_report_version_id ::
  "str option \<Rightarrow> int \<Rightarrow> str option \<Rightarrow> str option \<Rightarrow> str" where
  "compute_report_version_id run_id version_number topic_normalized competitor_set_hash =
     stable_prefixed_id ''report-version''
       [JStr (opt_text run_id), JInt version_number, JStr (opt_text topic_normalized),
        JStr (opt_text competitor_set_hash)] 20"

definition compute_gap_fill_report_version_id :: "str \<Rightarrow> str list \<Rightarrow> str list \<Rightarrow> str" where
  "compute_gap_fill_report_version_id source_report_version_id filled_gap_ids candidate_ids =
     stable_prefixed_id ''report-version-gap-fill''
       [JStr source_report_version_id, jstrs filled_gap_ids, jstrs candidate_ids] 16"

definition compute_project_id :: "str \<Rightarrow> str \<Rightarrow> str list \<Rightarrow> str" where
  "compute_project_id workspace_id topic competitor_ids =
     stable_prefixed_id ''project''
       [JStr workspace_id, JStr (compute_topic_normalized (Some topic)),
        JStr (compute_competitor_set_hash (Some competitor_ids))] 16"

definition compute_competitor_id :: "str \<Rightarrow> str \<Rightarrow> str" where
  "compute_competitor_id workspace_id name =
     stable_prefixed_id ''competitor'' [JStr workspace_id, JStr (normalize_key (Some name))] 16"

definition compute_source_registry_id :: "str \<Rightarrow> str \<Rightarrow> str \<Rightarrow> str" where
  "compute_source_registry_id workspace_id domain source_type =
     stable_prefixed_id ''source-registry''
       [JStr workspace_id, JStr (normalize_key (Some domain)),
        JStr (normalize_key (Some source_type))] 16"

definition compute_graph_thread_id :: "str \<Rightarrow> str \<Rightarrow> json list \<Rightarrow> str" where
  "compute_graph_thread_id run_id purpose parts =
     stable_prefixed_id ''graph-thread'' ([JStr run_id, JStr purpose] @ parts) 24"

definition compute_survey_respondent_id :: "str \<Rightarrow> str \<Rightarrow> str \<Rightarrow> int \<Rightarrow> str" where
  "compute_survey_respondent_id run_id competitor dimension ordinal =
     stable_prefixed_id ''survey-respondent''
       [JStr run_id, JStr (normalize_text (Some competitor)),
        JStr (normalize_dimension_key (Some dimension)), JInt ordinal] 16"

definition compute_evidence_gap_id ::
  "str \<Rightarrow> str \<Rightarrow> str option \<Rightarrow> str option \<Rightarrow> str \<Rightarrow> str list \<Rightarrow> str list \<Rightarrow> str" where
  "compute_evidence_gap_id severity gap_type competitor_id dimension message evidence_ids claim_ids =
     stable_prefixed_id ''evidence-gap''
       [JStr severity, JStr gap_type, JStr (opt_text competitor_id),
        JStr (normalize_dimension_key dimension), JStr message,
        jstrs evidence_ids, jstrs claim_ids] 16"

definition compute_schema_suggestion_id :: "str \<Rightarrow> str list \<Rightarrow> str" where
  "compute_schema_suggestion_id dimension_key gap_ids =
     stable_prefixed_id ''schema-suggestion'' [JStr dimension_key, jstrs gap_ids] 16"

definition compute_business_qa_finding_id ::
  "str \<Rightarrow> str option \<Rightarrow> str option \<Rightarrow> str \<Rightarrow> str" where
  "compute_business_qa_finding_id rule_id competitor_id dimension message =
     stable_prefixed_id ''business-qa''
       [JStr rule_id, JStr (opt_text competitor_id), JStr (normalize_dimension_key dimension),
        JStr message] 16"

definition compute_release_gate_issue_id ::
  "str \<Rightarrow> str \<Rightarrow> str list \<Rightarrow> str list \<Rightarrow> str" where
  "compute_release_gate_issue_id rule_id message evidence_ids claim_ids =
     stable_prefixed_id ''release-gate''
       [JStr rule_id, JStr message, jstrs evidence_ids, jstrs claim_ids] 16"

definition compute_red_team_finding_id ::
  "str \<Rightarrow> str option \<Rightarrow> str option \<Rightarrow> str \<Rightarrow> str option \<Rightarrow> str list \<Rightarrow> str list \<Rightarrow> str" where
  "compute_red_team_finding_id finding_type competitor_id dimension message severity
     evidence_ids claim_ids =
     stable_prefixed_id ''red-team''
       [JStr (opt_text severity), JStr finding_type, JStr (opt_text competitor_id),
        JStr (normalize_dimension_key dimension), JStr message,
        jstrs evidence_ids, jstrs claim_ids] 16"

definition compute_recommendation_id :: "str \<Rightarrow> str \<Rightarrow> str \<Rightarrow> json list \<Rightarrow> str" where
  "compute_recommendation_id project_id recommendation_type title stable_parts =
     stable_prefixed_id ''recommendation''
       [JStr project_id, JStr recommendation_type, JStr title, JList stable_parts] 16"

definition compute_artifact_id ::
  "str \<Rightarrow> str \<Rightarrow> str option \<Rightarrow> str \<Rightarrow> str \<Rightarrow> str \<Rightarrow> str" where
  "compute_artifact_id workspace_id project_id evidence_id artifact_type filename content_hash =
     stable_prefixed_id ''artifact''
       [JStr workspace_id, JStr project_id, JStr (opt_text evidence_id), JStr artifact_type,
        JStr (lower filename), JStr content_hash] 32"

definition compute_workflow_idempotency_key :: "jdict \<Rightarrow> str" where
  "compute_workflow_idempotency_key payload =
     ''workflow:'' @ stable_digest [JDict payload] (Some 32)"

definition compute_run_id_for_idempotency_key :: "str \<Rightarrow> str" where
  "compute_run_id_for_idempotency_key key = stable_prefixed_id ''run'' [JStr key] 32"

definition new_run_id :: "str \<Rightarrow> str" where
  "new_run_id uuid = runtime_prefixed_id ''run'' None 32 uuid"

definition new_ui_run_idempotency_key :: "str \<Rightarrow> str" where
  "new_ui_run_idempotency_key uuid = ''ui-run:'' @ uuid"

text \<open>\<open>int(s, 16)\<close> on a hexadecimal digest.\<close>

definition hex_value :: "char \<Rightarrow> nat" where
  "hex_value c = (if is_digit c then code_of c - 48 else code_of c - 87)"

definition int_of_hex :: "str \<Rightarrow> nat" where
  "int_of_hex s = foldl (\<lambda>a c. 16 * a + hex_value c) 0 s"

definition compute_cutover_bucket :: "str \<Rightarrow> str \<Rightarrow> nat" where
  "compute_cutover_bucket key namespace =
     int_of_hex (stable_digest [JStr namespace, JStr key] (Some 8)) mod 100"

definition compute_workflow_id :: "str \<Rightarrow> json list \<Rightarrow> nat \<Rightarrow> str" where
  "compute_workflow_id prefix parts n = stable_prefixed_id prefix parts n"

definition compute_notification_id :: "json list \<Rightarrow> str" where
  "compute_notification_id parts = stable_prefixed_id ''notification'' parts 24"

definition compute_monitor_anomaly_id :: "json list \<Rightarrow> str" where
  "compute_monitor_anomaly_id parts = stable_prefixed_id ''anomaly'' parts 16"

definition compute_compliance_finding_id :: "str \<Rightarrow> str \<Rightarrow> str \<Rightarrow> str" where
  "compute_compliance_finding_id run_id rule_id message =
     stable_prefixed_id ''compliance'' [JStr run_id, JStr rule_id, JStr message] 16"

definition compute_knowledge_graph_edge_id :: "str \<Rightarrow> str \<Rightarrow> str \<Rightarrow> str" where
  "compute_knowledge_graph_edge_id source_id target_id relation =
     stable_prefixed_id ''kg-edge'' [JStr source_id, JStr target_id, JStr relation] 24"

definition compute_retrieval_chunk_id :: "str \<Rightarrow> int \<Rightarrow> str \<Rightarrow> str" where
  "compute_retrieval_chunk_id evidence_id index txt =
     stable_prefixed_id ''chunk'' [JStr evidence_id, JInt index, JStr txt] 24"

definition compute_trace_id :: "str \<Rightarrow> str" where
  "compute_trace_id run_id = stable_digest [JStr ''competiscope-trace'', JStr run_id] (Some 32)"

definition compute_otel_span_id :: "str \<Rightarrow> str \<Rightarrow> str" where
  "compute_otel_span_id run_id span_id =
     stable_digest [JStr ''competiscope-span'', JStr run_id, JStr span_id] (Some 16)"

definition compute_feedback_id :: "str \<Rightarrow> str \<Rightarrow> str" where
  "compute_feedback_id feedback_id message =
     stable_prefixed_id ''feedback'' [JStr feedback_id, JStr message] 20"

definition compute_memory_candidate_id :: "json list \<Rightarrow> str" where
  "compute_memory_candidate_id parts = stable_prefixed_id ''memory'' parts 20"

text \<open>\<open>packages/refs/audit.py\<close>.\<close>

definition audit_relationship_resource_id :: "str \<Rightarrow> json list \<Rightarrow> str" where
  "audit_relationship_resource_id resource_type parts = stable_prefixed_id resource_type parts 20"

section \<open>Shape of the identities\<close>

lemma length_stable_digest:
  "length (stable_digest parts n) =
     (case n of None \<Rightarrow> 64 | Some k \<Rightarrow> if k = 0 then 64 else min k 64)"
  by (simp add: stable_digest_def truncate_digest_def min_def split: option.split)

lemma hex_stable_digest: "c \<in> set (stable_digest parts n) \<Longrightarrow> is_hex c"
  by (auto simp: stable_digest_def truncate_digest_def hex_sha256_hex
      split: option.splits if_splits dest: in_set_takeD)

lemma length_stable_prefixed_id:
  "0 < n \<Longrightarrow> n \<le> 64 \<Longrightarrow> length (stable_prefixed_id prefix parts n) = length prefix + 1 + n"
  by (simp add: stable_prefixed_id_def length_stable_digest)

lemma stable_prefixed_id_nonempty [simp]: "stable_prefixed_id prefix parts n \<noteq> []"
  by (simp add: stable_prefixed_id_def)

lemma starts_with_append [simp]: "starts_with p (p @ s)"
  by (simp add: starts_with_def)

lemma prefix_stable_prefixed_id: "starts_with (prefix @ ''-'') (stable_prefixed_id prefix parts n)"
  using starts_with_append[of "prefix @ ''-''" "stable_digest parts (Some n)"]
  by (simp add: stable_prefixed_id_def)

section \<open>Normal forms\<close>

lemma key_char_not_space: "is_key_char c \<Longrightarrow> \<not> is_space c"
  and key_char_not_upper: "is_key_char c \<Longrightarrow> \<not> is_upper c"
  by (auto simp: is_key_char_def is_space_def is_upper_def is_lower_def is_digit_def Let_def)

lemma sub_runs_id: "(\<forall>c \<in> set s. \<not> q c) \<Longrightarrow> sub_runs q r b s = s"
  by (induction s arbitrary: b) auto

lemma sub_runs_chars: "c \<in> set (sub_runs q r b s) \<Longrightarrow> \<not> q c \<or> c \<in> set r"
  by (induction q r b s rule: sub_runs.induct) (auto split: if_splits)

lemma sub_runs_apart:
  "q sep \<Longrightarrow> successively (\<lambda>x y. \<not> (x = sep \<and> y = sep)) (sub_runs q [sep] b s)
     \<and> (b \<longrightarrow> sub_runs q [sep] b s = [] \<or> hd (sub_runs q [sep] b s) \<noteq> sep)"
  by (induction s arbitrary: b) (auto simp: successively_Cons)

lemma sub_runs_normal:
  assumes "\<forall>c \<in> set s. \<not> q c \<or> c = sep" and "successively (\<lambda>x y. \<not> (x = sep \<and> y = sep)) s"
    and "q sep" and "b \<longrightarrow> s = [] \<or> hd s \<noteq> sep"
  shows "sub_runs q [sep] b s = s"
  using assms
proof (induction s arbitrary: b)
  case Nil
  then show ?case by simp
next
  case (Cons c s)
  have 1: "\<forall>c \<in> set s. \<not> q c \<or> c = sep"
    using Cons.prems(1) by (meson list.set_intros(2))
  have 2: "successively (\<lambda>x y. \<not> (x = sep \<and> y = sep)) s" "c = sep \<longrightarrow> s = [] \<or> hd s \<noteq> sep"
    using Cons.prems(2) by (cases s; simp)+
  have 3: "q c \<longrightarrow> c = sep"
    using Cons.prems(1) by (meson list.set_intros(1))
  have "sub_runs q [sep] (q c) s = s"
    by (rule Cons.IH [OF 1 2(1) Cons.prems(3)]) (use 2(2) 3 in blast)
  then show ?case
    using Cons.prems(4) 3 by (cases "q c") simp_all
qed

lemma rstrip_by_prefix: "\<exists>t. s = rstrip_by p s @ t"
  unfolding rstrip_by_def
  by (metis rev_append rev_rev_ident takeWhile_dropWhile_id)

lemma lstrip_by_suffix: "\<exists>t. s = t @ lstrip_by p s"
  unfolding lstrip_by_def by (metis takeWhile_dropWhile_id)

lemma set_strip_by: "c \<in> set (strip_by p s) \<Longrightarrow> c \<in> set s"
  unfolding strip_by_def rstrip_by_def lstrip_by_def
  by (metis set_dropWhileD set_rev)

lemma successively_strip_by: "successively r s \<Longrightarrow> successively r (strip_by p s)"
  using rstrip_by_prefix[of "lstrip_by p s" p] lstrip_by_suffix[of s p]
  unfolding strip_by_def by (metis successively_append_iff)

lemma strip_by_id: "s = [] \<or> (\<not> p (hd s) \<and> \<not> p (last s)) \<Longrightarrow> strip_by p s = s"
  unfolding strip_by_def rstrip_by_def lstrip_by_def
  by (metis dropWhile.simps(1) dropWhile_eq_self_iff hd_rev rev.simps(1) rev_rev_ident)

lemma strip_by_no: "(\<forall>c \<in> set s. \<not> p c) \<Longrightarrow> strip_by p s = s"
  by (rule strip_by_id) (metis hd_in_set last_in_set)

lemma rstrip_by_last: "rstrip_by p s \<noteq> [] \<Longrightarrow> \<not> p (last (rstrip_by p s))"
  unfolding rstrip_by_def by (metis hd_dropWhile last_rev rev_is_Nil_conv)

lemma rstrip_by_hd: "rstrip_by p s \<noteq> [] \<Longrightarrow> hd (rstrip_by p s) = hd s"
  by (metis hd_append rstrip_by_prefix)

lemma strip_by_ends:
  "strip_by p s \<noteq> [] \<Longrightarrow> \<not> p (hd (strip_by p s)) \<and> \<not> p (last (strip_by p s))"
  unfolding strip_by_def
  by (metis dropWhile_eq_Nil_conv hd_dropWhile lstrip_by_def rev_is_Nil_conv rstrip_by_def
      rstrip_by_hd rstrip_by_last set_rev set_dropWhileD)

lemma strip_by_idem [simp]: "strip_by p (strip_by p s) = strip_by p s"
  by (rule strip_by_id) (use strip_by_ends in blast)

lemma lower_id: "(\<forall>c \<in> set s. \<not> is_upper c) \<Longrightarrow> lower s = s"
  by (simp add: lower_def to_lower_char_def map_idI)

lemma normalize_text_id:
  "(\<forall>c \<in> set s. \<not> is_space c \<and> \<not> is_upper c) \<Longrightarrow> normalize_text (Some s) = s"
  by (simp add: normalize_text_def lower_id strip_by_no sub_runs_id)

text \<open>What a slug is: keyed characters and single separators, none at either end.\<close>

definition slug :: "char \<Rightarrow> str \<Rightarrow> bool" where
  "slug sep s \<longleftrightarrow> (\<forall>c \<in> set s. is_key_char c \<or> c = sep)
     \<and> successively (\<lambda>x y. \<not> (x = sep \<and> y = sep)) s
     \<and> (s \<noteq> [] \<longrightarrow> hd s \<noteq> sep \<and> last s \<noteq> sep)"

lemma dash_plain: "\<not> is_key_char (CHR ''-'')" "\<not> is_space (CHR ''-'')" "\<not> is_upper (CHR ''-'')"
  by (simp_all add: is_key_char_def is_space_def is_upper_def is_lower_def is_digit_def code_of_def Let_def)

lemma underscore_plain: "\<not> is_space (CHR ''_'')" "\<not> is_upper (CHR ''_'')"
  by (simp_all add: is_space_def is_upper_def code_of_def Let_def)

lemma slug_unknown: "slug (CHR ''-'') ''unknown''"
  by (simp add: slug_def is_key_char_def is_lower_def code_of_def)

lemma slug_normalize_key: "slug (CHR ''-'') (normalize_key v)"
proof -
  let ?q = "\<lambda>c. \<not> is_key_char c"
  let ?t = "sub_runs ?q ''-'' False (normalize_text v)"
  let ?s = "strip_by (\<lambda>c. c = CHR ''-'') ?t"
  have "slug (CHR ''-'') ?s"
    using sub_runs_chars[of _ ?q "''-''" False "normalize_text v"] set_strip_by[of _ _ ?t]
      sub_runs_apart[of ?q "CHR ''-''" False "normalize_text v"] dash_plain
      successively_strip_by[of _ ?t] strip_by_ends[of "\<lambda>c. c = CHR ''-''" ?t]
    unfolding slug_def by fastforce
  then show ?thesis
    using slug_unknown by (simp add: normalize_key_def str_or_def)
qed

lemma normalize_key_slug:
  assumes "slug (CHR ''-'') s" and "s \<noteq> []"
  shows "normalize_key (Some s) = s"
proof -
  have "\<forall>c \<in> set s. \<not> is_space c \<and> \<not> is_upper c"
    using assms(1) dash_plain by (auto simp: slug_def key_char_not_space key_char_not_upper)
  then have t: "normalize_text (Some s) = s"
    by (rule normalize_text_id)
  have "sub_runs (\<lambda>c. \<not> is_key_char c) ''-'' False s = s"
    by (rule sub_runs_normal) (use assms dash_plain in \<open>auto simp: slug_def\<close>)
  with t show ?thesis
    using assms by (simp add: normalize_key_def str_or_def slug_def strip_by_id)
qed

lemma normalize_key_nonempty [simp]: "normalize_key v \<noteq> []"
  by (simp add: normalize_key_def str_or_def)

lemma normalize_dimension_key_chars:
  "c \<in> set (normalize_dimension_key d) \<Longrightarrow> is_key_char c \<or> c = CHR ''_''"
  by (auto simp: normalize_dimension_key_def dest!: set_strip_by sub_runs_chars split: if_splits)

text \<open>Slugs are stable: normalising a normalised key changes nothing, and a key is
  never empty and holds only lower-case letters, digits and inner single dashes.\<close>

theorem normalize_key_idempotent:
  "normalize_key (Some (normalize_key v)) = normalize_key v \<and> slug (CHR ''-'') (normalize_key v)"
  using normalize_key_slug slug_normalize_key normalize_key_nonempty by blast

lemma normalize_dimension_key_idem:
  "normalize_dimension_key (Some (normalize_dimension_key d)) = normalize_dimension_key d"
proof (cases "normalize_dimension_key d = []")
  case True
  then show ?thesis by (simp add: normalize_dimension_key_def)
next
  case False
  let ?k = "normalize_dimension_key d"
  have c: "\<forall>c \<in> set ?k. is_key_char c \<or> c = CHR ''_''"
    using normalize_dimension_key_chars by blast
  then have "normalize_text (Some ?k) = ?k"
    by (intro normalize_text_id) (use underscore_plain in \<open>auto simp: key_char_not_space key_char_not_upper\<close>)
  moreover have "sub_runs (\<lambda>c. \<not> (is_key_char c \<or> c = CHR ''_'')) ''_'' False ?k = ?k"
    by (rule sub_runs_id) (use c in blast)
  moreover have "strip_by (\<lambda>c. c = CHR ''_'') ?k = ?k"
    using False unfolding normalize_dimension_key_def by (simp split: if_splits)
  ultimately show ?thesis
    using False by (simp add: normalize_dimension_key_def[of "Some ?k"])
qed

text \<open>The hash of a set of competitors is one of the set: order, repetitions, surrounding
  blanks and blank entries of the list do not matter, as long as neither list is empty.\<close>

theorem competitor_set_hash_cong:
  assumes "xs \<noteq> []" "ys \<noteq> []"
    and "strip ` set xs - {[]} = strip ` set ys - {[]}"
  shows "compute_competitor_set_hash (Some xs) = compute_competitor_set_hash (Some ys)"
proof -
  have f: "set (map strip (filter (\<lambda>x. x \<noteq> [] \<and> strip x \<noteq> []) zs)) = strip ` set zs - {[]}" for zs
    by (auto simp: strip_by_def lstrip_by_def rstrip_by_def)
  have "set (map strip (filter (\<lambda>x. x \<noteq> [] \<and> strip x \<noteq> []) xs))
      = set (map strip (filter (\<lambda>x. x \<noteq> [] \<and> strip x \<noteq> []) ys))"
    using assms(3) by (simp only: f)
  then have "sorted_set (map strip (filter (\<lambda>x. x \<noteq> [] \<and> strip x \<noteq> []) xs))
      = sorted_set (map strip (filter (\<lambda>x. x \<noteq> [] \<and> strip x \<noteq> []) ys))"
    by (rule sorted_set_cong)
  then show ?thesis
    using assms(1,2) by (simp only: compute_competitor_set_hash_def option.case if_False)
qed

theorem competitor_set_hash_cong_witness:
  "compute_competitor_set_hash (Some [''b'', '' a'']) =
     compute_competitor_set_hash (Some [''a'', ''b '', ''a'', '' ''])"
proof (rule competitor_set_hash_cong)
  have "strip '' a'' = ''a''" "strip ''b'' = ''b''" "strip ''a'' = ''a''" "strip ''b '' = ''b''"
    "strip '' '' = []" by code_simp+
  then show "strip ` set [''b'', '' a''] - {[]} = strip ` set [''a'', ''b '', ''a'', '' ''] - {[]}"
    by auto
qed simp_all

text \<open>A stable identifier is its prefix, a dash and the first digits of a SHA-256 digest:
  as many lower-case hexadecimal digits as asked for, up to the 64 the digest has; a length of
  zero stands for all of them.\<close>

theorem stable_prefixed_id_shape:
  "\<exists>digits. stable_prefixed_id prefix parts n = prefix @ ''-'' @ digits
     \<and> length digits = (if n = 0 then 64 else min n 64) \<and> list_all is_hex digits"
  using length_stable_digest[of parts "Some n"] hex_stable_digest[of _ parts "Some n"]
  by (auto simp: stable_prefixed_id_def list_all_iff)

end
