(* ===== verification/ReportArtifact.thy ===== *)
theory ReportArtifact
  imports Prelude
begin

text \<open>
  schema/report_artifact.py: the structured report (claim cards, decision cards, the three
  layers of the report and the cache of their rendered text) and its model validators. A
  validator returns the exception it raises; \<open>validate_report_artifact\<close> is
  \<open>ReportArtifactV2.model_validate\<close> on a value of the right shape: the bounds of the nested
  models, their validators, then the validator of the artifact.
\<close>

record claim_card =
  cc_id :: str
  cc_run_id :: str
  cc_competitor :: str
  cc_dimension :: str
  cc_claim_type :: str
  cc_claim :: str
  cc_source_ids :: "str list"
  cc_confidence :: rat
  cc_evidence_strength :: str
  cc_support_level :: str
  cc_scope :: str
  cc_caveats :: "str list"
  cc_conflicts :: "str list"
  cc_applicability :: str
  cc_produced_by :: str
  cc_producer_stage :: str
  cc_derived_from :: "str list"
  cc_metadata :: jdict

definition claim_card_valid :: "claim_card \<Rightarrow> bool" where
  "claim_card_valid r \<longleftrightarrow> cc_confidence r \<ge> 0
     \<and> cc_confidence r \<le> 1"

record claim_bundle =
  cb_run_id :: str
  cb_competitor :: str
  cb_dimension :: str
  cb_cards :: "claim_card list"
  cb_source_ids :: "str list"
  cb_coverage :: jdict
  cb_gap_count :: int
  cb_generated_at :: datetime
  cb_producer_context :: jdict

definition claim_bundle_valid :: "claim_bundle \<Rightarrow> bool" where
  "claim_bundle_valid r \<longleftrightarrow> cb_gap_count r \<ge> 0"

record decision_card =
  dc_id :: str
  dc_run_id :: str
  dc_decision_type :: str
  dc_subject :: str
  dc_recommendation :: str
  dc_posture :: str
  dc_rationale :: str
  dc_claim_card_ids :: "str list"
  dc_source_ids :: "str list"
  dc_winner :: "str option"
  dc_alternatives :: "str list"
  dc_why_not :: "(str \<times> str) list"
  dc_risk_factors :: "str list"
  dc_evidence_strength :: str
  dc_confidence :: rat
  dc_produced_by :: str
  dc_producer_stage :: str
  dc_metadata :: jdict

definition decision_card_valid :: "decision_card \<Rightarrow> bool" where
  "decision_card_valid r \<longleftrightarrow> dc_confidence r \<ge> 0
     \<and> dc_confidence r \<le> 1"

record decision_bundle =
  db_run_id :: str
  db_cards :: "decision_card list"
  db_matrix_snapshot :: jdict
  db_coverage_by_dimension :: jdict
  db_recommendation_card_id :: "str option"
  db_generated_at :: datetime
  db_producer_context :: jdict

record layer_section =
  ls_section_key :: str
  ls_heading :: str
  ls_start_line :: int
  ls_end_line :: int
  ls_source_ids :: "str list"
  ls_claim_card_ids :: "str list"
  ls_decision_card_ids :: "str list"

definition layer_section_valid :: "layer_section \<Rightarrow> bool" where
  "layer_section_valid r \<longleftrightarrow> ls_start_line r \<ge> 1
     \<and> ls_end_line r \<ge> 1"

record report_layer =
  rl_layer :: str
  rl_markdown :: str
  rl_sections :: "layer_section list"
  rl_metadata :: jdict

record section_brief =
  sb_id :: str
  sb_section_key :: str
  sb_layer :: str
  sb_required_questions :: "str list"
  sb_allowed_claim_card_ids :: "str list"
  sb_allowed_decision_card_ids :: "str list"
  sb_allowed_source_ids :: "str list"
  sb_must_include :: "str list"
  sb_must_not_claim :: "str list"
  sb_tone :: str
  sb_minimum_depth :: jdict
  sb_citation_policy :: jdict
  sb_repair_targets :: jdict

record quality_account =
  qa_core_gate :: jdict
  qa_support_gate :: jdict
  qa_audit_gate :: jdict
  qa_warnings :: "jdict list"
  qa_blockers :: "jdict list"
  qa_revision_count :: int

definition quality_account_valid :: "quality_account \<Rightarrow> bool" where
  "quality_account_valid r \<longleftrightarrow> qa_revision_count r \<ge> 0"

record render_cache =
  rr_core_markdown :: str
  rr_support_markdown :: str
  rr_audit_markdown :: str
  rr_full_markdown :: str

record legacy_info =
  lg_source :: str
  lg_report_md_alias :: bool

record report_artifact =
  ra_artifact_version :: int
  ra_run_id :: str
  ra_core_report :: report_layer
  ra_support_appendix :: report_layer
  ra_audit_log :: report_layer
  ra_claim_card_bundles :: "claim_bundle list"
  ra_decision_card_bundle :: "decision_bundle option"
  ra_section_briefs :: "section_brief list"
  ra_quality :: quality_account
  ra_render_cache :: render_cache
  ra_legacy :: legacy_info
  ra_metadata :: jdict

section \<open>Validators\<close>

definition require_sources_for_factual_claims :: "claim_card \<Rightarrow> py_error + claim_card" where
  "require_sources_for_factual_claims c =
     (if cc_evidence_strength c \<noteq> ''insufficient'' \<and> cc_source_ids c = [] then
        Inl (ValueError ''claim cards with evidence_strength other than insufficient require source_ids'')
      else if cc_source_ids c = [] \<and> cc_support_level c \<noteq> ''gap'' then
        Inl (ValueError ''claims without source_ids require support_level=gap'')
      else if cc_support_level c = ''gap'' \<and> cc_evidence_strength c \<noteq> ''insufficient'' then
        Inl (ValueError ''claim cards with support_level=gap require evidence_strength=insufficient'')
      else Inr c)"

definition require_claim_cards :: "decision_card \<Rightarrow> py_error + decision_card" where
  "require_claim_cards c =
     (if dc_claim_card_ids c = [] then Inl (ValueError ''decision cards require claim_card_ids'')
      else if dc_posture c = ''strong''
              \<and> dc_evidence_strength c \<notin> {''strong'', ''moderate''} then
        Inl (ValueError
          ''decision cards with posture=strong require moderate or strong evidence_strength'')
      else Inr c)"

fun is_ok :: "'e + 'a \<Rightarrow> bool" where
  "is_ok (Inl _) = False"
| "is_ok (Inr _) = True"

definition claim_card_ok :: "claim_card \<Rightarrow> bool" where
  "claim_card_ok c = (claim_card_valid c \<and> is_ok (require_sources_for_factual_claims c))"

definition decision_card_ok :: "decision_card \<Rightarrow> bool" where
  "decision_card_ok c = (decision_card_valid c \<and> is_ok (require_claim_cards c))"

definition newline :: char where
  "newline = CHR 0x0A"

text \<open>The layers that have text, with an empty line between them.\<close>

definition join_layers :: "str list \<Rightarrow> str" where
  "join_layers layers = join [newline, newline] (filter (\<lambda>m. m \<noteq> []) layers)"

definition validate_layer_slots_and_render_cache :: "report_artifact \<Rightarrow> py_error + report_artifact" where
  "validate_layer_slots_and_render_cache a =
     (let core = ra_core_report a; support = ra_support_appendix a; audit = ra_audit_log a;
          cache = ra_render_cache a
      in if rl_layer core \<noteq> ''core'' then Inl (ValueError ''core_report.layer must be core'')
         else if rl_layer support \<noteq> ''support'' then
           Inl (ValueError ''support_appendix.layer must be support'')
         else if rl_layer audit \<noteq> ''audit'' then Inl (ValueError ''audit_log.layer must be audit'')
         else if rr_core_markdown cache \<noteq> rl_markdown core then
           Inl (ValueError ''render_cache.core_markdown must equal core_report.markdown'')
         else if rr_support_markdown cache \<noteq> rl_markdown support then
           Inl (ValueError ''render_cache.support_markdown must equal support_appendix.markdown'')
         else if rr_audit_markdown cache \<noteq> rl_markdown audit then
           Inl (ValueError ''render_cache.audit_markdown must equal audit_log.markdown'')
         else if rr_full_markdown cache
                 \<noteq> join_layers [rl_markdown core, rl_markdown support, rl_markdown audit] then
           Inl (ValueError ''render_cache.full_markdown must match joined layer markdown'')
         else Inr a)"

definition artifact_parts_ok :: "report_artifact \<Rightarrow> bool" where
  "artifact_parts_ok a \<longleftrightarrow>
     list_all (\<lambda>b. claim_bundle_valid b \<and> list_all claim_card_ok (cb_cards b)) (ra_claim_card_bundles a)
     \<and> (case ra_decision_card_bundle a of None \<Rightarrow> True | Some b \<Rightarrow> list_all decision_card_ok (db_cards b))
     \<and> list_all (\<lambda>l. list_all layer_section_valid (rl_sections l))
         [ra_core_report a, ra_support_appendix a, ra_audit_log a]
     \<and> quality_account_valid (ra_quality a)"

definition validate_report_artifact :: "report_artifact \<Rightarrow> py_error + report_artifact" where
  "validate_report_artifact a =
     (if artifact_parts_ok a then validate_layer_slots_and_render_cache a
      else Inl (ValueError ''invalid report artifact''))"

section \<open>Properties\<close>

text \<open>A claim card is accepted exactly when its citations, support level and evidence
  strength agree: a declared gap must have insufficient evidence, and every other claim must
  cite a source; an accepted card is returned unchanged.\<close>

theorem claim_card_accepted_iff:
  "(require_sources_for_factual_claims c = Inr c') =
     (c' = c \<and> (if cc_support_level c = ''gap'' then cc_evidence_strength c = ''insufficient''
               else cc_source_ids c \<noteq> []))"
  by (auto simp: require_sources_for_factual_claims_def)

lemma validate_slots_iff:
  "validate_layer_slots_and_render_cache a = Inr b \<longleftrightarrow> b = a
     \<and> rl_layer (ra_core_report a) = ''core'' \<and> rl_layer (ra_support_appendix a) = ''support''
     \<and> rl_layer (ra_audit_log a) = ''audit''
     \<and> ra_render_cache a =
         \<lparr>rr_core_markdown = rl_markdown (ra_core_report a),
          rr_support_markdown = rl_markdown (ra_support_appendix a),
          rr_audit_markdown = rl_markdown (ra_audit_log a),
          rr_full_markdown = join_layers [rl_markdown (ra_core_report a),
             rl_markdown (ra_support_appendix a), rl_markdown (ra_audit_log a)]\<rparr>"
  by (cases "ra_render_cache a")
    (auto simp: validate_layer_slots_and_render_cache_def Let_def split: if_splits)

lemma validate_report_artifact_iff:
  "validate_report_artifact a = Inr b \<longleftrightarrow>
     artifact_parts_ok a \<and> validate_layer_slots_and_render_cache a = Inr b"
  by (auto simp: validate_report_artifact_def)

end
