(* ===== verification/Schema.thy ===== *)
theory Schema
  imports StableIds ReportArtifact
begin

text \<open>
  The data of the program: the pydantic models of schema/models.py, schema/quality.py
  and schema/enterprise.py that the modelled components read or write, one record per
  model with its fields in order and under their names (behind a prefix per record, since
  record selectors share one name space). Literal types are Python strings at run time
  and are strings here; a \<open>HttpUrl\<close> is the text \<open>str(url)\<close> gives. A predicate \<open>..._valid\<close> states the numeric and length
  bounds that a model declares with \<open>Field\<close>. The model validators of the schema, which are
  code, are functions that run on the constructed record.
\<close>

section \<open>Run-level models: schema/models.py\<close>

record redo_scope =
  rs_kind :: str
  rs_target_subagent :: "str option"
  rs_target_competitor :: "str option"
  rs_target_competitors :: "str list"
  rs_rationale :: str

record qc_issue =
  qi_id :: str
  qi_severity :: str
  qi_detected_by :: str
  qi_target_agent :: str
  qi_target_subagent :: "str option"
  qi_target_competitor :: "str option"
  qi_field_path :: str
  qi_problem :: str
  qi_redo_scope :: redo_scope
  qi_self_found :: bool
  qi_metadata :: jdict

record reflection =
  rf_iteration :: int
  rf_coverage_gaps :: "str list"
  rf_confidence_outliers :: "str list"
  rf_cross_competitor_gaps :: "str list"
  rf_suggested_redos :: "redo_scope list"
  rf_gate_status :: str
  rf_blocking_gaps :: "str list"
  rf_writer_constraints :: "str list"

record plan_task =
  pt_id :: str
  pt_stage :: str
  pt_competitor :: "str option"
  pt_dimension :: str
  pt_priority :: str
  pt_max_turns :: int
  pt_reason :: str
  pt_depends_on :: "str list"

record analysis_plan =
  ap_topic :: str
  ap_competitors :: "str list"
  ap_dimensions :: "str list"
  ap_complexity :: str
  ap_competitor_layer :: str
  ap_scenario_id :: "str option"
  ap_scenario_recommended_dimensions :: "str list"
  ap_qa_rule_ids :: "str list"
  ap_memory_candidate_ids :: "str list"
  ap_memory_prompt_context :: "str list"
  ap_memory_recall_score :: int
  ap_homepage_hints :: "(str \<times> str) list"
  ap_homepage_verified :: "(str \<times> bool) list"
  ap_task_decomposition :: "plan_task list"
  ap_created_at :: datetime

record run_metrics =
  mt_total_spans :: int
  mt_total_duration_ms :: int
  mt_llm_calls :: int
  mt_search_calls :: int
  mt_fetch_calls :: int
  mt_input_tokens_estimate :: int
  mt_output_tokens_estimate :: int
  mt_cost_estimate_usd :: rat
  mt_source_coverage_rate :: rat
  mt_verified_source_rate :: rat
  mt_claim_citation_rate :: rat
  mt_schema_pass_rate :: rat
  mt_human_override_rate :: rat
  mt_acceptance_rate :: rat
  mt_qa_issue_count :: int
  mt_revision_count :: int
  mt_compliance_redaction_count :: int

text \<open>
  \<open>RunSummary\<close> and the fields of \<open>RunDetail\<close> the modelled operations read or set; the
  remaining fields travel unchanged in \<open>rn_rest\<close>.
\<close>

record run_detail =
  rn_id :: str
  rn_idempotency_key :: str
  rn_workspace_id :: str
  rn_project_id :: "str option"
  rn_topic :: str
  rn_status :: str
  rn_execution_mode :: str
  rn_output_language :: str
  rn_created_at :: datetime
  rn_updated_at :: datetime
  rn_plan :: analysis_plan
  rn_max_iterations :: int
  rn_auto_redo_warn_enabled :: bool
  rn_hitl_enabled :: bool
  rn_active_run_fingerprint :: "str option"
  rn_report_md :: str
  rn_qa_findings :: "qc_issue list"
  rn_reflections :: "reflection list"
  rn_metrics :: run_metrics
  rn_current_node :: "str option"
  rn_rest :: jdict

section \<open>Quality findings: schema/quality.py\<close>

record quality_finding =
  qf_id :: str
  qf_source_agent :: str
  qf_framework :: str
  qf_source_id :: str
  qf_severity :: str
  qf_status :: str
  qf_issue_type :: str
  qf_competitor_id :: "str option"
  qf_competitor_name :: "str option"
  qf_dimension :: "str option"
  qf_field_path :: "str option"
  qf_report_section :: "str option"
  qf_claim_ids :: "str list"
  qf_evidence_ids :: "str list"
  qf_message :: str
  qf_recommendation :: str
  qf_required_action :: str
  qf_repairable :: bool
  qf_acceptance_rule :: str
  qf_redo_scope :: "redo_scope option"
  qf_metadata :: jdict
  qf_created_at :: datetime

record quality_bundle =
  qb_source_agent :: str
  qb_findings :: "quality_finding list"
  qb_blocker_count :: int
  qb_warn_count :: int
  qb_info_count :: int

section \<open>Enterprise records: schema/enterprise.py\<close>

record workspace =
  ws_id :: str
  ws_name :: str
  ws_description :: str
  ws_is_active :: bool
  ws_monthly_run_quota :: int
  ws_monthly_token_quota :: int
  ws_monthly_cost_quota_usd :: rat
  ws_quota_enforcement :: str
  ws_created_at :: datetime
  ws_updated_at :: datetime

definition workspace_valid :: "workspace \<Rightarrow> bool" where
  "workspace_valid r \<longleftrightarrow> ws_monthly_run_quota r \<ge> 0
     \<and> ws_monthly_token_quota r \<ge> 0
     \<and> ws_monthly_cost_quota_usd r \<ge> 0"

record user_record =
  ur_id :: str
  ur_email :: str
  ur_display_name :: str
  ur_role :: str
  ur_status :: str
  ur_created_at :: datetime

record workspace_member =
  wm_workspace_id :: str
  wm_user_id :: str
  wm_role :: str
  wm_status :: str
  wm_created_at :: datetime

record quota_update =
  qu_monthly_run_quota :: "int option"
  qu_monthly_token_quota :: "int option"
  qu_monthly_cost_quota_usd :: "rat option"
  qu_quota_enforcement :: "str option"

definition quota_update_valid :: "quota_update \<Rightarrow> bool" where
  "quota_update_valid r \<longleftrightarrow> pred_option (\<lambda>v. v \<ge> 0) (qu_monthly_run_quota r)
     \<and> pred_option (\<lambda>v. v \<ge> 0) (qu_monthly_token_quota r)
     \<and> pred_option (\<lambda>v. v \<ge> 0) (qu_monthly_cost_quota_usd r)"

record usage_summary =
  uu_workspace_id :: str
  uu_period_start :: datetime
  uu_period_end :: datetime
  uu_run_count :: int
  uu_completed_run_count :: int
  uu_failed_run_count :: int
  uu_interrupted_run_count :: int
  uu_input_tokens_estimate :: int
  uu_output_tokens_estimate :: int
  uu_total_tokens_estimate :: int
  uu_cost_estimate_usd :: rat
  uu_monthly_run_quota :: int
  uu_monthly_token_quota :: int
  uu_monthly_cost_quota_usd :: rat
  uu_run_usage_ratio :: rat
  uu_token_usage_ratio :: rat
  uu_cost_usage_ratio :: rat
  uu_status :: str
  uu_generated_at :: datetime

record quota_decision =
  qd_workspace_id :: str
  qd_allowed :: bool
  qd_status :: str
  qd_enforcement :: str
  qd_reason :: str
  qd_usage :: usage_summary

record notification =
  nt_id :: str
  nt_workspace_id :: str
  nt_project_id :: "str option"
  nt_notification_type :: str
  nt_channel :: str
  nt_severity :: str
  nt_status :: str
  nt_title :: str
  nt_body :: str
  nt_resource_type :: "str option"
  nt_resource_id :: "str option"
  nt_created_by :: "str option"
  nt_created_at :: datetime
  nt_sent_at :: "datetime option"
  nt_read_at :: "datetime option"
  nt_metadata :: jdict

record monitor_job =
  mj_id :: str
  mj_workspace_id :: str
  mj_project_id :: str
  mj_name :: str
  mj_dimensions :: "str list"
  mj_competitor_ids :: "str list"
  mj_schedule :: str
  mj_interval_seconds :: int
  mj_max_cycles :: int
  mj_execution_mode :: str
  mj_alert_policy :: str
  mj_release_policy :: str
  mj_notification_target :: str
  mj_status :: str
  mj_last_status :: str
  mj_last_workflow_id :: "str option"
  mj_last_run_id :: "str option"
  mj_last_report_version_id :: "str option"
  mj_last_error :: str
  mj_last_started_at :: "datetime option"
  mj_last_completed_at :: "datetime option"
  mj_next_run_at :: "datetime option"
  mj_created_by :: "str option"
  mj_created_at :: datetime
  mj_updated_at :: datetime
  mj_metadata :: jdict

definition monitor_job_valid :: "monitor_job \<Rightarrow> bool" where
  "monitor_job_valid r \<longleftrightarrow> mj_dimensions r \<noteq> []
     \<and> length (mj_dimensions r) \<le> 8
     \<and> mj_schedule r \<noteq> []
     \<and> length (mj_schedule r) \<le> 160
     \<and> mj_interval_seconds r \<ge> 1
     \<and> mj_interval_seconds r \<le> 2592000
     \<and> mj_max_cycles r \<ge> 1
     \<and> mj_max_cycles r \<le> 52"

record monitor_update =
  mu_name :: "str option"
  mu_dimensions :: "str list option"
  mu_schedule :: "str option"
  mu_interval_seconds :: "int option"
  mu_max_cycles :: "int option"
  mu_execution_mode :: "str option"
  mu_alert_policy :: "str option"
  mu_release_policy :: "str option"
  mu_notification_target :: "str option"
  mu_status :: "str option"
  mu_next_run_at :: "datetime option"
  mu_metadata :: "jdict option"

definition monitor_update_valid :: "monitor_update \<Rightarrow> bool" where
  "monitor_update_valid r \<longleftrightarrow> mu_name r \<noteq> Some []
     \<and> pred_option (\<lambda>v. length v \<le> 180) (mu_name r)
     \<and> mu_dimensions r \<noteq> Some []
     \<and> pred_option (\<lambda>v. length v \<le> 8) (mu_dimensions r)
     \<and> mu_schedule r \<noteq> Some []
     \<and> pred_option (\<lambda>v. length v \<le> 160) (mu_schedule r)
     \<and> pred_option (\<lambda>v. v \<ge> 1) (mu_interval_seconds r)
     \<and> pred_option (\<lambda>v. v \<le> 2592000) (mu_interval_seconds r)
     \<and> pred_option (\<lambda>v. v \<ge> 1) (mu_max_cycles r)
     \<and> pred_option (\<lambda>v. v \<le> 52) (mu_max_cycles r)
     \<and> mu_notification_target r \<noteq> Some []
     \<and> pred_option (\<lambda>v. length v \<le> 160) (mu_notification_target r)"

record project =
  pj_id :: str
  pj_workspace_id :: str
  pj_name :: str
  pj_topic :: str
  pj_topic_normalized :: str
  pj_competitor_layer :: str
  pj_competitor_set_hash :: str
  pj_scenario_id :: "str option"
  pj_created_by :: "str option"
  pj_metadata :: jdict
  pj_created_at :: datetime
  pj_updated_at :: datetime

record competitor =
  cp_id :: str
  cp_workspace_id :: str
  cp_name :: str
  cp_normalized_name :: str
  cp_layer :: str
  cp_homepage_url :: "str option"
  cp_aliases :: "str list"
  cp_metadata :: jdict
  cp_created_at :: datetime
  cp_updated_at :: datetime

record competitor_link =
  pc_project_id :: str
  pc_competitor_id :: str
  pc_role :: str
  pc_created_at :: datetime

record evidence =
  ev_id :: str
  ev_workspace_id :: str
  ev_project_id :: str
  ev_run_id :: "str option"
  ev_raw_source_id :: str
  ev_competitor_id :: str
  ev_dimension :: str
  ev_source_type :: str
  ev_title :: str
  ev_url :: "str option"
  ev_canonical_url :: str
  ev_snippet :: str
  ev_content_hash :: str
  ev_reliability_score :: rat
  ev_freshness_score :: rat
  ev_quality_label :: str
  ev_first_seen_run_id :: "str option"
  ev_last_seen_run_id :: "str option"
  ev_seen_count :: int
  ev_captured_at :: datetime
  ev_metadata :: jdict

definition evidence_valid :: "evidence \<Rightarrow> bool" where
  "evidence_valid r \<longleftrightarrow> ev_reliability_score r \<ge> 0
     \<and> ev_reliability_score r \<le> 1
     \<and> ev_freshness_score r \<ge> 0
     \<and> ev_freshness_score r \<le> 1
     \<and> ev_seen_count r \<ge> 1"

record source_record =
  sr_id :: str
  sr_workspace_id :: str
  sr_domain :: str
  sr_source_type :: str
  sr_display_name :: str
  sr_homepage_url :: "str option"
  sr_trust_level :: str
  sr_robots_status :: str
  sr_policy_review_status :: str
  sr_policy_review_reason :: str
  sr_is_active :: bool
  sr_first_seen_run_id :: "str option"
  sr_last_seen_run_id :: "str option"
  sr_first_seen_at :: datetime
  sr_last_seen_at :: datetime
  sr_seen_count :: int
  sr_metadata :: jdict

definition source_record_valid :: "source_record \<Rightarrow> bool" where
  "source_record_valid r \<longleftrightarrow> sr_seen_count r \<ge> 1"

record embedding =
  em_id :: str
  em_workspace_id :: str
  em_project_id :: str
  em_evidence_id :: str
  em_embedding_model :: str
  em_embedding_dimensions :: int
  em_embedding_hash :: str
  em_embedding_text :: str
  em_created_at :: datetime
  em_updated_at :: datetime
  em_metadata :: jdict

record search_hit =
  sh_evidence :: evidence
  sh_score :: real
  sh_embedding_model :: str

record artifact =
  ar_id :: str
  ar_workspace_id :: str
  ar_project_id :: str
  ar_evidence_id :: "str option"
  ar_run_id :: "str option"
  ar_report_version_id :: "str option"
  ar_artifact_type :: str
  ar_filename :: str
  ar_media_type :: str
  ar_storage_backend :: str
  ar_uri :: str
  ar_byte_size :: int
  ar_content_hash :: str
  ar_source_url :: "str option"
  ar_created_by :: "str option"
  ar_created_at :: datetime
  ar_retention_policy :: str
  ar_compliance_metadata :: jdict
  ar_metadata :: jdict

definition artifact_valid :: "artifact \<Rightarrow> bool" where
  "artifact_valid r \<longleftrightarrow> ar_byte_size r \<ge> 0"

record artifact_request =
  aq_workspace_id :: str
  aq_project_id :: str
  aq_evidence_id :: "str option"
  aq_run_id :: "str option"
  aq_report_version_id :: "str option"
  aq_artifact_type :: str
  aq_filename :: str
  aq_media_type :: str
  aq_content_text :: "str option"
  aq_content_base64 :: "str option"
  aq_external_uri :: "str option"
  aq_source_url :: "str option"
  aq_retention_policy :: str
  aq_compliance_metadata :: jdict
  aq_metadata :: jdict

record tool_entry =
  te_name :: str
  te_category :: str
  te_description :: str
  te_input_schema :: str
  te_output_schema :: str
  te_estimated_cost_usd :: rat
  te_side_effects :: "str list"
  te_policy_tags :: "str list"
  te_status :: str
  te_allowed_in_real_mode :: bool
  te_reason :: str

record tool_report =
  tr_policy_version :: str
  tr_entries :: "tool_entry list"
  tr_total_count :: int
  tr_guarded_count :: int
  tr_disabled_count :: int
  tr_side_effect_tool_count :: int
  tr_generated_at :: datetime

record route_candidate =
  rc_provider_kind :: str
  rc_provider_name :: str
  rc_model_name :: str
  rc_configured :: bool
  rc_quality_score :: int
  rc_cost_score :: int
  rc_compliance_score :: int
  rc_routing_score :: int
  rc_supports_tool_calling :: bool
  rc_supports_json_schema :: bool
  rc_routing_reasons :: "str list"
  rc_risk_flags :: "str list"
  rc_reason :: str

record route_decision =
  rd_status :: str
  rd_selected :: "route_candidate option"
  rd_fallback :: "route_candidate option"
  rd_candidates :: "route_candidate list"
  rd_blocked_reasons :: "str list"
  rd_routing_policy_version :: str
  rd_generated_at :: datetime

record reindex_result =
  ri_indexed_count :: int
  ri_duplicate_count :: int

record claim =
  cl_id :: str
  cl_workspace_id :: str
  cl_project_id :: str
  cl_run_id :: "str option"
  cl_competitor_id :: str
  cl_claim_type :: str
  cl_claim_text :: str
  cl_evidence_ids :: "str list"
  cl_confidence :: rat
  cl_status :: str
  cl_created_by_agent :: "str option"
  cl_created_at :: datetime

definition claim_valid :: "claim \<Rightarrow> bool" where
  "claim_valid r \<longleftrightarrow> cl_evidence_ids r \<noteq> []
     \<and> cl_confidence r \<ge> 0
     \<and> cl_confidence r \<le> 1"

record report_version =
  rv_id :: str
  rv_workspace_id :: str
  rv_project_id :: str
  rv_run_id :: "str option"
  rv_parent_version_id :: "str option"
  rv_version_number :: int
  rv_topic_normalized :: str
  rv_competitor_layer :: str
  rv_competitor_set_hash :: str
  rv_status :: str
  rv_report_md :: str
  rv_core_report_md :: str
  rv_support_appendix_md :: str
  rv_audit_log_md :: str
  rv_full_report_md :: str
  rv_report_artifact :: "report_artifact option"
  rv_claim_ids :: "str list"
  rv_evidence_ids :: "str list"
  rv_quality_metadata :: jdict
  rv_created_at :: datetime
  rv_published_at :: "datetime option"

definition report_version_valid :: "report_version \<Rightarrow> bool" where
  "report_version_valid r \<longleftrightarrow> rv_version_number r \<ge> 1"

record user_feedback =
  uf_id :: str
  uf_workspace_id :: str
  uf_project_id :: str
  uf_user_id :: str
  uf_feedback_type :: str
  uf_target_type :: str
  uf_target_id :: str
  uf_run_id :: "str option"
  uf_report_version_id :: "str option"
  uf_message :: str
  uf_tags :: "str list"
  uf_redaction_counts :: "(str \<times> int) list"
  uf_created_at :: datetime
  uf_metadata :: jdict

record memory_candidate =
  mc_id :: str
  mc_workspace_id :: str
  mc_project_id :: str
  mc_kind :: str
  mc_status :: str
  mc_statement :: str
  mc_weight :: rat
  mc_confidence :: rat
  mc_source_feedback_ids :: "str list"
  mc_tags :: "str list"
  mc_match_score :: rat
  mc_used_count :: int
  mc_created_at :: datetime
  mc_updated_at :: datetime
  mc_metadata :: jdict

record run_projection =
  rp_workspace_id :: str
  rp_project_id :: str
  rp_run_id :: str
  rp_evidence_records :: "evidence list"
  rp_claim_records :: "claim list"
  rp_report_version :: report_version

record business_finding =
  bf_id :: str
  bf_rule_id :: str
  bf_rule_name :: str
  bf_severity :: str
  bf_competitor_id :: "str option"
  bf_competitor_name :: "str option"
  bf_dimension :: "str option"
  bf_message :: str
  bf_evidence_ids :: "str list"
  bf_claim_ids :: "str list"
  bf_recommendation :: str
  bf_metadata :: jdict

record business_evaluation =
  be_project_id :: str
  be_scenario_id :: str
  be_competitor_layer :: str
  be_total_rules :: int
  be_passed_rules :: int
  be_finding_count :: int
  be_blocker_count :: int
  be_warn_count :: int
  be_info_count :: int
  be_findings :: "business_finding list"
  be_generated_at :: datetime

record recommendation =
  br_id :: str
  br_priority :: str
  br_title :: str
  br_detail :: str
  br_action_type :: str
  br_target_type :: str
  br_target_id :: "str option"

record readiness =
  ps_project_id :: str
  ps_score :: int
  ps_risk_level :: str
  ps_evidence_score :: int
  ps_claim_score :: int
  ps_coverage_score :: int
  ps_qa_score :: int
  ps_summary :: str
  ps_recommendations :: "recommendation list"
  ps_generated_at :: datetime

record release_gate =
  rg_report_version_id :: str
  rg_workspace_id :: str
  rg_project_id :: str
  rg_allowed :: bool
  rg_status :: str
  rg_readiness :: readiness
  rg_qa_evaluation :: business_evaluation
  rg_issue_count :: int
  rg_blocker_count :: int
  rg_warn_count :: int
  rg_issues :: "business_finding list"
  rg_generated_at :: datetime

record audit_log =
  al_id :: str
  al_workspace_id :: str
  al_actor_type :: str
  al_actor_id :: "str option"
  al_action :: str
  al_resource_type :: str
  al_resource_id :: str
  al_before :: "jdict option"
  al_after :: "jdict option"
  al_created_at :: datetime


record skill_output =
  sx_prefix :: str
  sx_confidence_default :: rat
  sx_confidence_no_url :: rat
  sx_required_dimension :: str

definition skill_output_valid :: "skill_output \<Rightarrow> bool" where
  "skill_output_valid r \<longleftrightarrow> sx_confidence_default r \<ge> 0
     \<and> sx_confidence_default r \<le> 1
     \<and> sx_confidence_no_url r \<ge> 0
     \<and> sx_confidence_no_url r \<le> 1"

record skill_spec =
  sk_name :: str
  sk_subagent_class :: str
  sk_description :: str
  sk_tools_allowlist :: "str list"
  sk_query_templates :: "str list"
  sk_max_turns :: int
  sk_source_type :: str
  sk_output :: skill_output

definition skill_spec_valid :: "skill_spec \<Rightarrow> bool" where
  "skill_spec_valid r \<longleftrightarrow> sk_max_turns r \<ge> 1
     \<and> sk_max_turns r \<le> 12"

record schema_review =
  sv_suggestion_id :: str
  sv_decision :: str
  sv_dimension :: str
  sv_normalized_dimension :: str
  sv_reason :: str
  sv_source_gap_ids :: "str list"
  sv_proposed_skill :: skill_spec
  sv_reviewed_by :: str
  sv_reviewed_at :: datetime
  sv_note :: str

section \<open>Model validators\<close>

text \<open>\<open>SourceRegistryRecord.queue_robots_policy_review\<close>, run after construction.\<close>

definition queue_robots_policy_review :: "source_record \<Rightarrow> source_record" where
  "queue_robots_policy_review r =
     (if sr_policy_review_status r = ''not_required'' \<and> sr_robots_status r \<in> {''blocked'', ''error''}
      then r\<lparr>sr_policy_review_status := ''pending'',
             sr_policy_review_reason :=
               (if sr_policy_review_reason r = []
                then ''Robots/source policy status is '' @ sr_robots_status r @ ''.''
                else sr_policy_review_reason r)\<rparr>
      else r)"

definition repair_actions :: "str list" where
  "repair_actions = [''add_evidence'', ''rewrite_claim'', ''downgrade_claim'', ''delete_claim'',
     ''rewrite_report'', ''rerun_scope'']"

text \<open>\<open>QualityFinding.fill_stable_id\<close>.\<close>

definition fill_stable_id :: "quality_finding \<Rightarrow> quality_finding" where
  "fill_stable_id f =
     (let f1 = (if qf_id f = [] then
            f\<lparr>qf_id := stable_prefixed_id ''quality-finding''
               [JStr (qf_source_agent f), JStr (qf_source_id f), JStr (qf_severity f),
                JStr (qf_issue_type f),
                JStr (or_str (opt_or (qf_competitor_id f) (qf_competitor_name f)) []),
                JStr (or_str (qf_dimension f) []), JStr (or_str (qf_field_path f) []),
                jstrs (qf_claim_ids f), jstrs (qf_evidence_ids f), JStr (qf_message f)] 20\<rparr>
          else f)
      in f1\<lparr>qf_repairable := (qf_repairable f1 \<or> qf_redo_scope f1 \<noteq> None
            \<or> qf_required_action f1 \<in> set repair_actions)\<rparr>)"

text \<open>\<open>QualityFindingBundle.count_findings\<close>.\<close>

definition count_findings :: "quality_bundle \<Rightarrow> quality_bundle" where
  "count_findings b =
     b\<lparr>qb_blocker_count := int (count_if (\<lambda>f. qf_severity f = ''blocker'') (qb_findings b)),
       qb_warn_count := int (count_if (\<lambda>f. qf_severity f = ''warn'') (qb_findings b)),
       qb_info_count := int (count_if (\<lambda>f. qf_severity f = ''info'') (qb_findings b))\<rparr>"

section \<open>Dumping a model\<close>

text \<open>
  The kinds of record whose \<open>model_dump(mode="json")\<close> the code stores. The dump itself is
  pydantic's, and a parameter of the operations that use it.
\<close>

datatype model =
    MWorkspace workspace
  | MMember workspace_member
  | MNotification notification
  | MMonitor monitor_job
  | MProject project
  | MEvidence evidence
  | MArtifact artifact
  | MSource source_record
  | MReport report_version

section \<open>Properties of the validators\<close>

lemma queue_robots_idem [simp]:
  "queue_robots_policy_review (queue_robots_policy_review r) = queue_robots_policy_review r"
  by (simp add: queue_robots_policy_review_def)

lemma queue_robots_never_unreviewed:
  "sr_robots_status r \<in> {''blocked'', ''error''} \<Longrightarrow>
     sr_policy_review_status (queue_robots_policy_review r) \<noteq> ''not_required''"
  by (auto simp: queue_robots_policy_review_def)

lemma queue_robots_sel [simp]:
  "sr_id (queue_robots_policy_review r) = sr_id r"
  "sr_workspace_id (queue_robots_policy_review r) = sr_workspace_id r"
  "sr_domain (queue_robots_policy_review r) = sr_domain r"
  "sr_source_type (queue_robots_policy_review r) = sr_source_type r"
  "sr_robots_status (queue_robots_policy_review r) = sr_robots_status r"
  "sr_trust_level (queue_robots_policy_review r) = sr_trust_level r"
  "sr_seen_count (queue_robots_policy_review r) = sr_seen_count r"
  "sr_metadata (queue_robots_policy_review r) = sr_metadata r"
  by (simp_all add: queue_robots_policy_review_def)

lemma count_findings_total:
  "qb_blocker_count (count_findings b) + qb_warn_count (count_findings b)
     + qb_info_count (count_findings b) \<le> int (length (qb_findings b))"
proof -
  have "count_if (\<lambda>f. qf_severity f = ''blocker'') fs + count_if (\<lambda>f. qf_severity f = ''warn'') fs
     + count_if (\<lambda>f. qf_severity f = ''info'') fs \<le> length fs" for fs
    by (induction fs) (auto simp: loop_simps)
  then show ?thesis by (simp add: count_findings_def flip: of_nat_add)
qed

lemma fill_stable_id_idem: "fill_stable_id (fill_stable_id f) = fill_stable_id f"
  by (simp add: fill_stable_id_def Let_def stable_prefixed_id_def)

end
