(* ===== verification/Hitl.thy ===== *)
theory Hitl
  imports Schema
begin

text \<open>
  hitl/lifecycle.py: the human-in-the-loop events, and the append-only history of them that
  a report keeps under the key \<open>hitl_lifecycle\<close> of its metadata. Dumping an event to JSON
  is pydantic's and is the parameter \<open>dump\<close>.
\<close>

record hitl_event =
  he_id :: str
  he_lifecycle_stage :: str
  he_review_kind :: str
  he_stage :: "str option"
  he_decision :: str
  he_actor_id :: "str option"
  he_target_type :: str
  he_target_id :: str
  he_run_id :: "str option"
  he_report_version_id :: "str option"
  he_redo_scope :: "jdict option"
  he_audit_log_id :: "str option"
  he_decision_replay_event_id :: "str option"
  he_result_action :: str
  he_note :: str
  he_metadata :: jdict
  he_created_at :: datetime

text \<open>
  The keyword arguments of \<open>build_hitl_lifecycle_event\<close>; \<open>hitl_args\<close> gives those without
  a default and leaves the others at theirs. A sequence is an \<open>int\<close> or a \<open>str\<close>.
\<close>

record hitl_arguments =
  ha_lifecycle_stage :: str
  ha_review_kind :: str
  ha_target_type :: str
  ha_target_id :: str
  ha_stage :: "str option"
  ha_decision :: str
  ha_actor_id :: "str option"
  ha_run_id :: "str option"
  ha_report_version_id :: "str option"
  ha_redo_scope :: "jdict option"
  ha_audit_log_id :: "str option"
  ha_decision_replay_event_id :: "str option"
  ha_result_action :: str
  ha_note :: str
  ha_metadata :: "jdict option"
  ha_created_at :: "datetime option"
  ha_sequence :: "json option"

definition hitl_args :: "str \<Rightarrow> str \<Rightarrow> str \<Rightarrow> str \<Rightarrow> hitl_arguments" where
  "hitl_args lifecycle_stage review_kind target_type target_id =
     \<lparr>ha_lifecycle_stage = lifecycle_stage, ha_review_kind = review_kind,
      ha_target_type = target_type, ha_target_id = target_id, ha_stage = None, ha_decision = [],
      ha_actor_id = None, ha_run_id = None, ha_report_version_id = None, ha_redo_scope = None,
      ha_audit_log_id = None, ha_decision_replay_event_id = None, ha_result_action = [],
      ha_note = [], ha_metadata = None, ha_created_at = None, ha_sequence = None\<rparr>"

definition build_hitl_lifecycle_event :: "datetime \<Rightarrow> hitl_arguments \<Rightarrow> hitl_event" where
  "build_hitl_lifecycle_event now a =
     (let created_at = (case ha_created_at a of Some t \<Rightarrow> t | None \<Rightarrow> now);
          anchor_id = or_str (opt_or (ha_run_id a) (ha_report_version_id a)) (ha_target_id a);
          event_sequence = (case ha_sequence a of Some s \<Rightarrow> s | None \<Rightarrow> JStr (isoformat created_at));
          event_id = stable_prefixed_id ''hitl-life''
            [JStr anchor_id, JStr (ha_review_kind a), JStr (ha_lifecycle_stage a),
             JStr (ha_decision a), JStr (ha_target_type a), JStr (ha_target_id a),
             event_sequence] 16
      in \<lparr>he_id = event_id, he_lifecycle_stage = ha_lifecycle_stage a,
          he_review_kind = ha_review_kind a, he_stage = ha_stage a, he_decision = ha_decision a,
          he_actor_id = ha_actor_id a, he_target_type = ha_target_type a,
          he_target_id = ha_target_id a, he_run_id = ha_run_id a,
          he_report_version_id = ha_report_version_id a, he_redo_scope = ha_redo_scope a,
          he_audit_log_id = ha_audit_log_id a,
          he_decision_replay_event_id = ha_decision_replay_event_id a,
          he_result_action = ha_result_action a, he_note = ha_note a,
          he_metadata = (case ha_metadata a of Some m \<Rightarrow> m | None \<Rightarrow> []),
          he_created_at = created_at\<rparr>)"

text \<open>Non-dictionary entries of a stored history are skipped.\<close>

fun dicts_of :: "json list \<Rightarrow> jdict list" where
  "dicts_of [] = []"
| "dicts_of (JDict d # xs) = d # dicts_of xs"
| "dicts_of (_ # xs) = dicts_of xs"

definition hitl_lifecycle_history :: "jdict option \<Rightarrow> jdict list" where
  "hitl_lifecycle_history metadata =
     (case metadata of None \<Rightarrow> []
      | Some md \<Rightarrow> dicts_of (as_list (map_of md ''hitl_lifecycle'')))"

definition append_hitl_lifecycle ::
  "(hitl_event \<Rightarrow> jdict) \<Rightarrow> jdict \<Rightarrow> hitl_event \<Rightarrow> jdict" where
  "append_hitl_lifecycle dump metadata event =
     AList.update ''hitl_lifecycle''
       (JList (map JDict (hitl_lifecycle_history (Some metadata)) @ [JDict (dump event)])) metadata"

definition review_kind_for_stage :: "str \<Rightarrow> str" where
  "review_kind_for_stage stage =
     (let key = lower stage
      in if key = ''planner'' then ''planner_review''
         else if key = ''qa'' then ''qa_review''
         else ''manual_redo'')"

definition lifecycle_stage_for_resume_decision :: "str \<Rightarrow> str option \<Rightarrow> str" where
  "lifecycle_stage_for_resume_decision decision note =
     (if starts_with ''Auto-accepted after HITL timeout'' (or_str note []) then ''timed_out''
      else if decision = ''modify_plan'' then ''modified''
      else if decision = ''redo'' then ''redo_requested''
      else ''accepted'')"

section \<open>Properties\<close>

lemma dicts_of_map_JDict [simp]: "dicts_of (map JDict ds @ xs) = ds @ dicts_of xs"
  by (induction ds) simp_all

lemma dicts_of_all_JDict [simp]: "dicts_of (map JDict ds) = ds"
  using dicts_of_map_JDict[of ds "[]"] by simp

text \<open>The history of an append is the old history and the new event; no other key changes.\<close>

lemma history_append [simp]:
  "hitl_lifecycle_history (Some (append_hitl_lifecycle dump md e)) =
     hitl_lifecycle_history (Some md) @ [dump e]"
  by (simp add: append_hitl_lifecycle_def hitl_lifecycle_history_def dict_simps)

lemma append_hitl_other:
  "k \<noteq> ''hitl_lifecycle'' \<Longrightarrow> map_of (append_hitl_lifecycle dump md e) k = map_of md k"
  by (simp add: append_hitl_lifecycle_def dict_simps)

lemma history_update_other [simp]:
  "k \<noteq> ''hitl_lifecycle'' \<Longrightarrow>
     hitl_lifecycle_history (Some (AList.update k v md)) = hitl_lifecycle_history (Some md)"
  by (simp add: hitl_lifecycle_history_def dict_simps)

lemma build_hitl_sel [simp]:
  "he_lifecycle_stage (build_hitl_lifecycle_event now a) = ha_lifecycle_stage a"
  "he_review_kind (build_hitl_lifecycle_event now a) = ha_review_kind a"
  "he_decision (build_hitl_lifecycle_event now a) = ha_decision a"
  "he_actor_id (build_hitl_lifecycle_event now a) = ha_actor_id a"
  "he_target_id (build_hitl_lifecycle_event now a) = ha_target_id a"
  "he_result_action (build_hitl_lifecycle_event now a) = ha_result_action a"
  "he_note (build_hitl_lifecycle_event now a) = ha_note a"
  by (simp_all add: build_hitl_lifecycle_event_def Let_def)

end
