(* ===== verification/ReportLifecycle.thy ===== *)
theory ReportLifecycle
  imports Hitl
begin

text \<open>
  enterprise/report_lifecycle.py: the three transitions of a report version (approval
  requested, decided, published). Each writes the new status, an entry of the plain history
  \<open>report_lifecycle\<close>, an event of the human-in-the-loop history, and the current state of
  the approval or of the publication. The time argument of each transition is optional;
  \<open>now\<close> is the clock it falls back to.
\<close>

definition report_release_gate_snapshot :: "release_gate option \<Rightarrow> jdict" where
  "report_release_gate_snapshot gate =
     (case gate of None \<Rightarrow> []
      | Some g \<Rightarrow>
          [(''allowed'', JBool (rg_allowed g)), (''status'', JStr (rg_status g)),
           (''readiness_score'', JInt (ps_score (rg_readiness g))),
           (''readiness_risk_level'', JStr (ps_risk_level (rg_readiness g))),
           (''issue_count'', JInt (rg_issue_count g)),
           (''blocker_count'', JInt (rg_blocker_count g)),
           (''warn_count'', JInt (rg_warn_count g)),
           (''issue_ids'', jstrs (map bf_id (rg_issues g)))])"

definition metadata_with_lifecycle_event :: "report_version \<Rightarrow> jdict \<Rightarrow> jdict" where
  "metadata_with_lifecycle_event version event =
     (let metadata = rv_quality_metadata version
      in AList.update ''report_lifecycle''
           (JList (as_list (map_of metadata ''report_lifecycle'') @ [JDict event])) metadata)"

definition metadata_with_hitl_lifecycle_event ::
  "(hitl_event \<Rightarrow> jdict) \<Rightarrow> datetime \<Rightarrow> jdict \<Rightarrow> report_version \<Rightarrow> str \<Rightarrow> str \<Rightarrow> str \<Rightarrow> str
    \<Rightarrow> str option \<Rightarrow> str \<Rightarrow> str \<Rightarrow> str \<Rightarrow> str \<Rightarrow> datetime \<Rightarrow> jdict option \<Rightarrow> jdict" where
  "metadata_with_hitl_lifecycle_event dump now report_metadata version lifecycle_stage review_kind
     stage decision actor_id target_type target_id result_action note created_at event_metadata =
     append_hitl_lifecycle dump report_metadata
       (build_hitl_lifecycle_event now
         ((hitl_args lifecycle_stage review_kind target_type target_id)
           \<lparr>ha_stage := Some stage, ha_decision := decision, ha_actor_id := actor_id,
            ha_run_id := rv_run_id version, ha_report_version_id := Some (rv_id version),
            ha_result_action := result_action, ha_note := note, ha_metadata := event_metadata,
            ha_created_at := Some created_at,
            ha_sequence := Some (JInt
              (int (length (hitl_lifecycle_history (Some report_metadata))) + 1))\<rparr>))"

definition mark_report_approval_requested ::
  "(hitl_event \<Rightarrow> jdict) \<Rightarrow> datetime \<Rightarrow> report_version \<Rightarrow> str \<Rightarrow> str list \<Rightarrow> datetime option
    \<Rightarrow> report_version" where
  "mark_report_approval_requested dump now version requested_by approver_ids requested_at =
     (let ts = (case requested_at of Some t \<Rightarrow> t | None \<Rightarrow> now);
          md1 = metadata_with_lifecycle_event version
            [(''event'', JStr ''approval_requested''), (''actor_id'', JStr requested_by),
             (''created_at'', JStr (isoformat ts)), (''approver_ids'', jstrs approver_ids)];
          md2 = metadata_with_hitl_lifecycle_event dump now md1 version ''requested''
            ''report_approval'' ''report_approval'' ''pending'' (Some requested_by)
            ''report_version'' (rv_id version) ''await_approval_decision'' [] ts
            (Some [(''approver_ids'', jstrs approver_ids)]);
          md3 = AList.update ''approval_workflow''
            (JDict (dict_merge (as_dict (map_of md2 ''approval_workflow''))
              [(''status'', JStr ''in_review''), (''requested_by'', JStr requested_by),
               (''requested_at'', JStr (isoformat ts)), (''approver_ids'', jstrs approver_ids),
               (''decision'', JStr ''pending'')])) md2
      in version\<lparr>rv_status := ''in_review'', rv_quality_metadata := md3\<rparr>)"

definition mark_report_approval_decision ::
  "(hitl_event \<Rightarrow> jdict) \<Rightarrow> datetime \<Rightarrow> report_version \<Rightarrow> str \<Rightarrow> str \<Rightarrow> str \<Rightarrow> release_gate option
    \<Rightarrow> datetime option \<Rightarrow> report_version" where
  "mark_report_approval_decision dump now version decision approver_id note gate decided_at =
     (let ts = (case decided_at of Some t \<Rightarrow> t | None \<Rightarrow> now);
          gate_snapshot = report_release_gate_snapshot gate;
          md1 = metadata_with_lifecycle_event version
            [(''event'', JStr (''approval_'' @ decision)), (''actor_id'', JStr approver_id),
             (''created_at'', JStr (isoformat ts)), (''note'', JStr note),
             (''release_gate'', JDict gate_snapshot)];
          md2 = metadata_with_hitl_lifecycle_event dump now md1 version
            (if decision = ''approved'' then ''approved'' else ''rejected'')
            ''report_approval'' ''report_approval'' decision (Some approver_id)
            ''report_version'' (rv_id version) ''approval_decision_recorded'' note ts
            (Some [(''release_gate'', JDict gate_snapshot)]);
          md3 = AList.update ''approval_workflow''
            (JDict (dict_merge (as_dict (map_of md2 ''approval_workflow''))
              [(''status'', JStr decision), (''decision'', JStr decision),
               (''decided_by'', JStr approver_id), (''decided_at'', JStr (isoformat ts)),
               (''note'', JStr note), (''release_gate'', JDict gate_snapshot)])) md2
      in version\<lparr>rv_status := decision, rv_quality_metadata := md3\<rparr>)"

definition mark_report_published ::
  "(hitl_event \<Rightarrow> jdict) \<Rightarrow> datetime \<Rightarrow> report_version \<Rightarrow> str \<Rightarrow> release_gate \<Rightarrow> datetime option
    \<Rightarrow> report_version" where
  "mark_report_published dump now version actor_id gate published_at =
     (let ts = (case published_at of Some t \<Rightarrow> t | None \<Rightarrow> now);
          gate_snapshot = report_release_gate_snapshot (Some gate);
          md1 = metadata_with_lifecycle_event version
            [(''event'', JStr ''published''), (''actor_id'', JStr actor_id),
             (''created_at'', JStr (isoformat ts)), (''release_gate'', JDict gate_snapshot)];
          md2 = metadata_with_hitl_lifecycle_event dump now md1 version ''published''
            ''report_publication'' ''report_publication'' ''published'' (Some actor_id)
            ''report_version'' (rv_id version) ''report_published'' [] ts
            (Some [(''release_gate'', JDict gate_snapshot)]);
          md3 = AList.update ''publication''
            (JDict [(''status'', JStr ''published''), (''published_by'', JStr actor_id),
                    (''published_at'', JStr (isoformat ts)),
                    (''release_gate'', JDict gate_snapshot)]) md2
      in version\<lparr>rv_status := ''published'', rv_published_at := Some ts,
                 rv_quality_metadata := md3\<rparr>)"

definition report_transition_audit_after ::
  "report_version \<Rightarrow> str \<Rightarrow> str option \<Rightarrow> str \<Rightarrow> release_gate option \<Rightarrow> jdict" where
  "report_transition_audit_after version transition actor_id note gate =
     [(''transition'', JStr transition), (''actor_id'', jstr_opt actor_id), (''note'', JStr note),
      (''report_version_id'', JStr (rv_id version)), (''project_id'', JStr (rv_project_id version)),
      (''run_id'', jstr_opt (rv_run_id version)),
      (''version_number'', JInt (rv_version_number version)),
      (''status'', JStr (rv_status version)),
      (''release_gate'', JDict (report_release_gate_snapshot gate))]"

section \<open>Properties\<close>

definition plain_history :: "jdict \<Rightarrow> json list" where
  "plain_history md = as_list (map_of md ''report_lifecycle'')"

definition hitl_history :: "jdict \<Rightarrow> jdict list" where
  "hitl_history md = hitl_lifecycle_history (Some md)"

lemma plain_history_simps [simp]:
  "plain_history (metadata_with_lifecycle_event v e) =
     plain_history (rv_quality_metadata v) @ [JDict e]"
  "k \<noteq> ''report_lifecycle'' \<Longrightarrow> plain_history (AList.update k x md) = plain_history md"
  "plain_history (append_hitl_lifecycle dump md ev) = plain_history md"
  by (simp_all add: plain_history_def metadata_with_lifecycle_event_def Let_def dict_simps
      append_hitl_other)

lemma hitl_history_simps [simp]:
  "hitl_history (metadata_with_lifecycle_event v e) = hitl_history (rv_quality_metadata v)"
  "k \<noteq> ''hitl_lifecycle'' \<Longrightarrow> hitl_history (AList.update k x md) = hitl_history md"
  "hitl_history (append_hitl_lifecycle dump md ev) = hitl_history md @ [dump ev]"
  by (simp_all add: hitl_history_def metadata_with_lifecycle_event_def Let_def)

text \<open>The event the metadata gains, and what the metadata keeps.\<close>

lemma hitl_event_added:
  "hitl_history md = h \<Longrightarrow> \<exists>e. he_lifecycle_stage e = stage \<and> he_target_id e = tid
     \<and> hitl_history (metadata_with_hitl_lifecycle_event dump now md v stage kind st decision actor
          tt tid action note ts em) = h @ [dump e]"
proof -
  assume h: "hitl_history md = h"
  have "\<exists>e. metadata_with_hitl_lifecycle_event dump now md v stage kind st decision actor
          tt tid action note ts em = append_hitl_lifecycle dump md e
     \<and> he_lifecycle_stage e = stage \<and> he_target_id e = tid"
    unfolding metadata_with_hitl_lifecycle_event_def
    by (rule exI, rule conjI, rule refl) (simp add: hitl_args_def)
  then show ?thesis using h by fastforce
qed

lemma metadata_hitl_keeps [simp]:
  "plain_history (metadata_with_hitl_lifecycle_event dump now md v stage kind st decision actor
      tt tid action note ts em) = plain_history md"
  "k \<noteq> ''hitl_lifecycle'' \<Longrightarrow> map_of (metadata_with_hitl_lifecycle_event dump now md v stage kind st
      decision actor tt tid action note ts em) k = map_of md k"
  by (simp_all add: metadata_with_hitl_lifecycle_event_def append_hitl_other)

lemma metadata_keys [simp]:
  "k \<noteq> ''report_lifecycle'' \<Longrightarrow>
     map_of (metadata_with_lifecycle_event v e) k = map_of (rv_quality_metadata v) k"
  by (simp add: metadata_with_lifecycle_event_def Let_def dict_simps)

lemmas transition_defs = mark_report_approval_requested_def mark_report_approval_decision_def
  mark_report_published_def Let_def

text \<open>
  The contract of a transition: one more entry in either history, the identity of the
  version untouched, and every other metadata key apart from its own state key kept.
\<close>

definition same_version :: "report_version \<Rightarrow> report_version \<Rightarrow> bool" where
  "same_version v w \<longleftrightarrow> rv_id v = rv_id w \<and> rv_workspace_id v = rv_workspace_id w
     \<and> rv_project_id v = rv_project_id w \<and> rv_run_id v = rv_run_id w
     \<and> rv_version_number v = rv_version_number w \<and> rv_report_md v = rv_report_md w
     \<and> rv_claim_ids v = rv_claim_ids w \<and> rv_evidence_ids v = rv_evidence_ids w
     \<and> rv_created_at v = rv_created_at w"

locale report_transition =
  fixes step :: "report_version \<Rightarrow> report_version"
    and status :: str and hitl_stage :: str and state_key :: str
    and dump :: "hitl_event \<Rightarrow> jdict"
  assumes step_status: "rv_status (step v) = status"
    and step_same: "same_version (step v) v"
    and step_plain: "\<exists>e. plain_history (rv_quality_metadata (step v)) =
          plain_history (rv_quality_metadata v) @ [JDict e]"
    and step_hitl: "\<exists>e. he_lifecycle_stage e = hitl_stage \<and> he_target_id e = rv_id v
          \<and> hitl_history (rv_quality_metadata (step v)) =
             hitl_history (rv_quality_metadata v) @ [dump e]"
    and step_keys: "k \<notin> {''report_lifecycle'', ''hitl_lifecycle'', state_key} \<Longrightarrow>
          map_of (rv_quality_metadata (step v)) k = map_of (rv_quality_metadata v) k"
begin

lemma step_lengths:
  "length (plain_history (rv_quality_metadata (step v))) =
     Suc (length (plain_history (rv_quality_metadata v)))"
  "length (hitl_history (rv_quality_metadata (step v))) =
     Suc (length (hitl_history (rv_quality_metadata v)))"
  using step_plain[of v] step_hitl[of v] by auto

lemma step_append_only:
  "take (length (hitl_history (rv_quality_metadata v))) (hitl_history (rv_quality_metadata (step v)))
     = hitl_history (rv_quality_metadata v)"
  using step_hitl[of v] by auto

end

interpretation requested: report_transition
  "\<lambda>v. mark_report_approval_requested dump now v requested_by approver_ids requested_at"
  "''in_review''" "''requested''" "''approval_workflow''" dump
  for dump now requested_by approver_ids requested_at
  by unfold_locales
    (simp_all add: transition_defs same_version_def dict_simps hitl_event_added)

interpretation published: report_transition
  "\<lambda>v. mark_report_published dump now v actor_id gate published_at"
  "''published''" "''published''" "''publication''" dump
  for dump now actor_id gate published_at
  by unfold_locales
    (simp_all add: transition_defs same_version_def dict_simps hitl_event_added)

interpretation approval_decided: report_transition
  "\<lambda>v. mark_report_approval_decision dump now v decision approver_id remark gate decided_at"
  decision "if decision = ''approved'' then ''approved'' else ''rejected''"
  "''approval_workflow''" dump
  for dump now decision approver_id remark gate decided_at
  by unfold_locales
    (simp_all add: transition_defs same_version_def dict_simps hitl_event_added)

lemma same_version_trans: "same_version u v \<Longrightarrow> same_version v w \<Longrightarrow> same_version u w"
  by (simp add: same_version_def)

text \<open>A report that goes through an approval request, a decision and its publication ends
  published, is still the same version of the same report, has kept both its earlier histories
  unchanged at their start, and has gained exactly the three events requested, approved (or
  rejected, for any other decision) and published, in this order, in the review history and
  three entries in the plain one.\<close>

theorem report_cycle_history:
  fixes v v1 v2 v3 :: report_version and dump now requested_by approver_ids t1 t2 t3 decision
    approver_id remark gate actor_id gate'
  defines "v1 \<equiv> mark_report_approval_requested dump now v requested_by approver_ids t1"
  defines "v2 \<equiv> mark_report_approval_decision dump now v1 decision approver_id remark gate t2"
  defines "v3 \<equiv> mark_report_published dump now v2 actor_id gate' t3"
  shows "rv_status v3 = ''published'' \<and> same_version v3 v
     \<and> (\<exists>e1 e2 e3. hitl_history (rv_quality_metadata v3) =
            hitl_history (rv_quality_metadata v) @ [dump e1, dump e2, dump e3]
          \<and> map he_lifecycle_stage [e1, e2, e3] =
              [''requested'', if decision = ''approved'' then ''approved'' else ''rejected'',
               ''published'']
          \<and> map he_target_id [e1, e2, e3] = [rv_id v, rv_id v, rv_id v])
     \<and> (\<exists>es. length es = 3 \<and> plain_history (rv_quality_metadata v3) =
            plain_history (rv_quality_metadata v) @ es)"
proof -
  have same: "same_version v1 v" "same_version v2 v1" "same_version v3 v2"
    unfolding v1_def v2_def v3_def
    by (rule requested.step_same approval_decided.step_same published.step_same)+
  obtain p1 where p1: "plain_history (rv_quality_metadata v1) =
      plain_history (rv_quality_metadata v) @ [p1]"
    using requested.step_plain unfolding v1_def by blast
  obtain p2 where p2: "plain_history (rv_quality_metadata v2) =
      plain_history (rv_quality_metadata v1) @ [p2]"
    using approval_decided.step_plain unfolding v2_def by blast
  obtain p3 where p3: "plain_history (rv_quality_metadata v3) =
      plain_history (rv_quality_metadata v2) @ [p3]"
    using published.step_plain unfolding v3_def by blast
  obtain e1 where e1: "he_lifecycle_stage e1 = ''requested''" "he_target_id e1 = rv_id v"
      "hitl_history (rv_quality_metadata v1) = hitl_history (rv_quality_metadata v) @ [dump e1]"
    using requested.step_hitl unfolding v1_def by blast
  obtain e2 where e2: "he_lifecycle_stage e2 =
        (if decision = ''approved'' then ''approved'' else ''rejected'')"
      "he_target_id e2 = rv_id v1"
      "hitl_history (rv_quality_metadata v2) = hitl_history (rv_quality_metadata v1) @ [dump e2]"
    using approval_decided.step_hitl[of decision v1] unfolding v2_def by blast
  obtain e3 where e3: "he_lifecycle_stage e3 = ''published''" "he_target_id e3 = rv_id v2"
      "hitl_history (rv_quality_metadata v3) = hitl_history (rv_quality_metadata v2) @ [dump e3]"
    using published.step_hitl unfolding v3_def by blast
  have h: "hitl_history (rv_quality_metadata v3) =
      hitl_history (rv_quality_metadata v) @ [dump e1, dump e2, dump e3]"
    by (simp add: e1(3) e2(3) e3(3))
  have st: "rv_status v3 = ''published''"
    unfolding v3_def by (rule published.step_status)
  have p: "plain_history (rv_quality_metadata v3) =
      plain_history (rv_quality_metadata v) @ [p1, p2, p3]"
    by (simp add: p1 p2 p3)
  have sv: "same_version v3 v"
    by (rule same_version_trans[OF same(3) same_version_trans[OF same(2) same(1)]])
  have ids: "rv_id v1 = rv_id v" "rv_id v2 = rv_id v"
    using same(1,2) by (simp_all add: same_version_def)
  show ?thesis
    by (intro conjI st sv exI[of _ e1] exI[of _ e2] exI[of _ e3] exI[of _ "[p1, p2, p3]"] h p)
      (simp_all add: e1(1,2) e2(1,2) e3(1,2) ids)
qed

text \<open>The state of an approval is the last decision and keeps who asked for it: after a
  request and a decision the record under \<open>approval_workflow\<close> shows the decision, the decider
  and its note, and still the requester and the approvers of the request.\<close>

theorem approval_workflow_state:
  fixes v v1 v2 :: report_version and dump now requested_by approver_ids t1 t2 decision
    approver_id remark gate
  defines "v1 \<equiv> mark_report_approval_requested dump now v requested_by approver_ids t1"
  defines "v2 \<equiv> mark_report_approval_decision dump now v1 decision approver_id remark gate t2"
  defines "w \<equiv> as_dict (map_of (rv_quality_metadata v2) ''approval_workflow'')"
  shows "map_of w ''status'' = Some (JStr decision) \<and> map_of w ''decision'' = Some (JStr decision)
     \<and> map_of w ''decided_by'' = Some (JStr approver_id) \<and> map_of w ''note'' = Some (JStr remark)
     \<and> map_of w ''requested_by'' = Some (JStr requested_by)
     \<and> map_of w ''approver_ids'' = Some (jstrs approver_ids)"
  by (simp add: w_def v2_def v1_def transition_defs dict_simps)

end
