(* ===== verification/Artifacts.thy ===== *)
theory Artifacts
  imports Schema "HOL-Library.Multiset"
begin

text \<open>
  artifacts/lifecycle.py: the lifecycle metadata of a stored artifact (what kind of material
  it is, its redaction and policy status, its links), and the report that counts artifacts by
  these. Metadata is untyped JSON, so every read checks the type it expects.
\<close>

fun metadata_text :: "jdict \<Rightarrow> str list \<Rightarrow> str" where
  "metadata_text md [] = []"
| "metadata_text md (k # ks) =
     (case map_of md k of
        Some (JStr s) \<Rightarrow> if strip s \<noteq> [] then strip s else metadata_text md ks
      | _ \<Rightarrow> metadata_text md ks)"

definition metadata_dict :: "jdict \<Rightarrow> str \<Rightarrow> jdict" where
  "metadata_dict md key = as_dict (map_of md key)"

definition artifact_lifecycle_stages :: "str list" where
  "artifact_lifecycle_stages = [''captured_or_imported'', ''stored'',
     ''linked_to_source_or_evidence'', ''governed'', ''retained_or_expired'', ''replayable'']"

definition material_kind :: "artifact_request \<Rightarrow> str" where
  "material_kind request =
     (let snapshot_kind = metadata_text (aq_metadata request) [''snapshot_kind'']
      in if snapshot_kind \<noteq> [] then snapshot_kind
         else if aq_artifact_type request
                 \<in> {''survey_response'', ''interview_record'', ''manual_transcript''}
           then aq_artifact_type request
         else if aq_artifact_type request = ''report_export'' then ''report_export''
         else if aq_artifact_type request \<in> {''web_snapshot'', ''pdf'', ''screenshot''}
           then aq_artifact_type request
         else ''source_material'')"

definition pii_redaction_status :: "artifact_request \<Rightarrow> str" where
  "pii_redaction_status request =
     (let explicit = metadata_text (aq_compliance_metadata request) [''pii_redaction_status'']
      in if explicit \<noteq> [] then explicit
         else if metadata_dict (aq_metadata request) ''redaction_counts'' \<noteq> [] then ''redacted''
         else if aq_artifact_type request
                 \<in> {''survey_response'', ''interview_record'', ''manual_transcript''}
           then ''required''
         else ''not_required'')"

definition source_policy_status :: "artifact_request \<Rightarrow> str" where
  "source_policy_status request =
     (let explicit = metadata_text (aq_compliance_metadata request)
                       [''source_policy_status'', ''source_policy''];
          robots = metadata_text (aq_compliance_metadata request) [''robots_status'']
      in if explicit \<noteq> [] then explicit
         else if robots = ''allowed'' then ''allowed''
         else if robots \<in> {''blocked'', ''error''} then ''review_required''
         else if aq_source_url request \<noteq> None then ''unknown''
         else ''not_required'')"

definition artifact_lifecycle_metadata :: "artifact_request \<Rightarrow> str \<Rightarrow> str \<Rightarrow> int \<Rightarrow> jdict" where
  "artifact_lifecycle_metadata request storage_backend content_hash byte_size =
     [(''version'', JStr ''c5.2''), (''stage'', JStr ''stored''),
      (''stages'', jstrs artifact_lifecycle_stages),
      (''material_kind'', JStr (material_kind request)),
      (''storage_backend'', JStr storage_backend), (''media_type'', JStr (aq_media_type request)),
      (''content_hash'', JStr content_hash), (''byte_size'', JInt byte_size),
      (''retention_policy'', JStr (aq_retention_policy request)),
      (''pii_redaction_status'', JStr (pii_redaction_status request)),
      (''source_policy_status'', JStr (source_policy_status request)),
      (''links'', JDict
        [(''workspace_id'', JStr (aq_workspace_id request)),
         (''project_id'', JStr (aq_project_id request)), (''run_id'', jstr_opt (aq_run_id request)),
         (''raw_source_id'', JStr (metadata_text (aq_metadata request) [''raw_source_id''])),
         (''source_registry_id'', JStr (metadata_text (aq_metadata request) [''source_registry_id''])),
         (''evidence_id'', jstr_opt (aq_evidence_id request)),
         (''report_version_id'', jstr_opt (aq_report_version_id request))]),
      (''replay'', JDict
        [(''has_payload'', JBool (given (aq_content_text request)
            \<or> given (aq_content_base64 request))),
         (''external_pointer'', JBool (given (aq_external_uri request))),
         (''source_url'', JStr (case aq_source_url request of Some u \<Rightarrow> u | None \<Rightarrow> []))])]"

definition merge_artifact_lifecycle_metadata :: "jdict \<Rightarrow> jdict \<Rightarrow> jdict" where
  "merge_artifact_lifecycle_metadata metadata lifecycle =
     AList.update ''artifact_lifecycle'' (JDict lifecycle) metadata"

text \<open>\<open>dict(metadata.get(key) or {})\<close> fails on a value that is not a dictionary or pairs.\<close>

definition dict_or_empty :: "jdict \<Rightarrow> str \<Rightarrow> py_error + jdict" where
  "dict_or_empty md key =
     (case map_of md key of
        Some v \<Rightarrow> if truthy v then py_dict v else Inr []
      | None \<Rightarrow> Inr [])"

definition put_given :: "str \<Rightarrow> str option \<Rightarrow> jdict \<Rightarrow> jdict" where
  "put_given key value d = (if given value then AList.update key (jstr_opt value) d else d)"

definition with_artifact_lifecycle_links ::
  "artifact \<Rightarrow> str option \<Rightarrow> str option \<Rightarrow> str option \<Rightarrow> str option \<Rightarrow> str option \<Rightarrow> str option
    \<Rightarrow> py_error + artifact" where
  "with_artifact_lifecycle_links artifact raw_source_id source_registry_id evidence_id
     report_version_id policy_status pii_status =
     (case dict_or_empty (ar_metadata artifact) ''artifact_lifecycle'' of
        Inl e \<Rightarrow> Inl e
      | Inr lifecycle0 \<Rightarrow>
        (case dict_or_empty lifecycle0 ''links'' of
           Inl e \<Rightarrow> Inl e
         | Inr links0 \<Rightarrow>
             let links = put_given ''report_version_id'' report_version_id
                   (put_given ''evidence_id'' evidence_id
                     (put_given ''source_registry_id'' source_registry_id
                       (put_given ''raw_source_id'' raw_source_id links0)));
                 lifecycle = put_given ''pii_redaction_status'' pii_status
                   (put_given ''source_policy_status'' policy_status
                     (AList.update ''links'' (JDict links) lifecycle0))
             in Inr (artifact\<lparr>ar_metadata :=
                  merge_artifact_lifecycle_metadata (ar_metadata artifact) lifecycle\<rparr>)))"

section \<open>The lifecycle report\<close>

record lifecycle_item =
  li_artifact_id :: str
  li_artifact_type :: str
  li_filename :: str
  li_material_kind :: str
  li_stage :: str
  li_storage_backend :: str
  li_retention_policy :: str
  li_source_policy_status :: str
  li_pii_redaction_status :: str
  li_links :: jdict

record lifecycle_report =
  lr_workspace_id :: "str option"
  lr_project_id :: "str option"
  lr_evidence_id :: "str option"
  lr_report_version_id :: "str option"
  lr_total_count :: int
  lr_replayable_count :: int
  lr_by_material_kind :: "(str \<times> int) list"
  lr_by_storage_backend :: "(str \<times> int) list"
  lr_by_source_policy_status :: "(str \<times> int) list"
  lr_by_pii_redaction_status :: "(str \<times> int) list"
  lr_items :: "lifecycle_item list"

definition artifact_lifecycle_item :: "artifact \<Rightarrow> lifecycle_item" where
  "artifact_lifecycle_item artifact =
     (let lifecycle = as_dict (map_of (ar_metadata artifact) ''artifact_lifecycle'')
      in \<lparr>li_artifact_id = ar_id artifact, li_artifact_type = ar_artifact_type artifact,
          li_filename = ar_filename artifact,
          li_material_kind = metadata_text lifecycle [''material_kind''],
          li_stage = metadata_text lifecycle [''stage''],
          li_storage_backend = str_or (metadata_text lifecycle [''storage_backend''])
            (ar_storage_backend artifact),
          li_retention_policy = str_or (metadata_text lifecycle [''retention_policy''])
            (ar_retention_policy artifact),
          li_source_policy_status = metadata_text lifecycle [''source_policy_status''],
          li_pii_redaction_status = metadata_text lifecycle [''pii_redaction_status''],
          li_links = as_dict (map_of lifecycle ''links'')\<rparr>)"

text \<open>
  \<open>_count_by\<close>, with the field as a function; the dictionary of counts is rebuilt from its
  items in the order of their keys, which are distinct.
\<close>

fun count_values :: "('a \<Rightarrow> str) \<Rightarrow> (str \<times> int) list \<Rightarrow> 'a list \<Rightarrow> (str \<times> int) list" where
  "count_values field counts [] = counts"
| "count_values field counts (x # xs) =
     (let value = str_or (field x) ''unknown'';
          old = (case map_of counts value of Some n \<Rightarrow> n | None \<Rightarrow> 0)
      in count_values field (AList.update value (old + 1) counts) xs)"

definition count_by :: "('a \<Rightarrow> str) \<Rightarrow> 'a list \<Rightarrow> (str \<times> int) list" where
  "count_by field items = sort_key fst (count_values field [] items)"

definition build_artifact_lifecycle_report ::
  "artifact list \<Rightarrow> str option \<Rightarrow> str option \<Rightarrow> str option \<Rightarrow> str option \<Rightarrow> lifecycle_report" where
  "build_artifact_lifecycle_report artifacts workspace_id project_id evidence_id report_version_id =
     (let items = map artifact_lifecycle_item artifacts
      in \<lparr>lr_workspace_id = workspace_id, lr_project_id = project_id,
          lr_evidence_id = evidence_id, lr_report_version_id = report_version_id,
          lr_total_count = int (length items),
          lr_replayable_count = int (count_if (\<lambda>i. li_stage i = ''stored'') items),
          lr_by_material_kind = count_by li_material_kind items,
          lr_by_storage_backend = count_by li_storage_backend items,
          lr_by_source_policy_status = count_by li_source_policy_status items,
          lr_by_pii_redaction_status = count_by li_pii_redaction_status items,
          lr_items = items\<rparr>)"

section \<open>Properties\<close>

definition lookup_count :: "(str \<times> int) list \<Rightarrow> str \<Rightarrow> int" where
  "lookup_count d k = (case map_of d k of Some n \<Rightarrow> n | None \<Rightarrow> 0)"

lemma lookup_count_update [simp]:
  "lookup_count (AList.update k n d) k' = (if k' = k then n else lookup_count d k')"
  by (simp add: lookup_count_def dict_simps)

lemma count_values_lookup:
  "lookup_count (count_values field d xs) k =
     lookup_count d k + int (count_if (\<lambda>x. str_or (field x) ''unknown'' = k) xs)"
  by (induction xs arbitrary: d) (simp_all add: Let_def loop_simps flip: lookup_count_def)

lemma sum_update:
  "distinct (map fst d) \<Longrightarrow>
     sum_list (map snd (AList.update k (lookup_count d k + 1) d)) = sum_list (map snd d) + (1::int)"
  by (induction d) (auto simp: lookup_count_def map_of_eq_None_iff[symmetric] split: option.splits)

lemma count_values_sum:
  "distinct (map fst d) \<Longrightarrow>
     distinct (map fst (count_values field d xs))
     \<and> sum_list (map snd (count_values field d xs)) = sum_list (map snd d) + int (length xs)"
  by (induction xs arbitrary: d)
    (simp_all add: Let_def sum_update distinct_update flip: lookup_count_def)

lemma count_values_keys:
  "fst ` set (count_values field d xs) =
     fst ` set d \<union> (\<lambda>x. str_or (field x) ''unknown'') ` set xs"
  by (induction xs arbitrary: d) (auto simp: Let_def dom_update)

lemma map_of_sort_key: "distinct (map fst d) \<Longrightarrow> map_of (sort_key fst d) = map_of d"
  by (rule map_of_inject_set[THEN iffD2])
    (simp_all add: distinct_map)

lemma count_by_lookup:
  "lookup_count (count_by field xs) k =
     int (count_if (\<lambda>x. str_or (field x) ''unknown'' = k) xs)"
proof -
  have "distinct (map fst (count_values field [] xs))"
    using count_values_sum[of "[]" field xs] by simp
  then have "lookup_count (count_by field xs) k = lookup_count (count_values field [] xs) k"
    by (simp add: lookup_count_def count_by_def map_of_sort_key)
  then show ?thesis by (simp add: count_values_lookup) (simp add: lookup_count_def)
qed

text \<open>What a table of counts of a field promises of the items it counts.\<close>

definition counts_field :: "(str \<times> int) list \<Rightarrow> ('a \<Rightarrow> str) \<Rightarrow> 'a list \<Rightarrow> bool" where
  "counts_field tab field items \<longleftrightarrow> sorted (map fst tab) \<and> distinct (map fst tab)
     \<and> (\<forall>k. lookup_count tab k = int (count_if (\<lambda>i. str_or (field i) ''unknown'' = k) items))
     \<and> sum_list (map snd tab) = int (length items)"

lemma count_by_counts: "counts_field (count_by f items) f items"
proof -
  have d: "distinct (map fst (count_values f [] items))"
    and s: "sum_list (map snd (count_values f [] items)) = int (length items)"
    using count_values_sum[of "[]" f items] by simp_all
  have "mset (map snd (sort_key fst (count_values f [] items))) =
      mset (map snd (count_values f [] items))" by simp
  then have "sum_list (map snd (count_by f items)) = int (length items)"
    unfolding count_by_def s[symmetric] by (metis sum_mset_sum_list)
  then show ?thesis
    using d by (simp add: counts_field_def count_by_lookup) (simp add: count_by_def distinct_map)
qed

text \<open>The lifecycle report is a partition of the artifacts: each of its four tables has its
  keys in ascending order without repetition, gives for every key the number of artifacts with
  that value (an empty value counting as unknown), and its counts add up to the total, which is
  the number of artifacts; replayable artifacts are at most all of them.\<close>

theorem lifecycle_report_partition:
  fixes report :: lifecycle_report and artifacts :: "artifact list" and w p e v
  defines "report \<equiv> build_artifact_lifecycle_report artifacts w p e v"
  shows "counts_field (lr_by_material_kind report) li_material_kind (lr_items report)
     \<and> counts_field (lr_by_storage_backend report) li_storage_backend (lr_items report)
     \<and> counts_field (lr_by_source_policy_status report) li_source_policy_status (lr_items report)
     \<and> counts_field (lr_by_pii_redaction_status report) li_pii_redaction_status (lr_items report)
     \<and> lr_total_count report = int (length artifacts)
     \<and> lr_replayable_count report \<le> lr_total_count report"
proof -
  have "count_if q (map artifact_lifecycle_item artifacts) \<le> length artifacts" for q
    using count_if_le[of q "map artifact_lifecycle_item artifacts"] by simp
  then show ?thesis
    by (simp add: report_def build_artifact_lifecycle_report_def Let_def count_by_counts)
qed

lemma put_given_lookup [dict_simps]:
  "map_of (put_given k v d) k' =
     (if k' = k \<and> given v then Some (jstr_opt v) else map_of d k')"
  by (simp add: put_given_def dict_simps)

lemma metadata_text_single: "metadata_text md [k] = (case map_of md k of Some (JStr s) \<Rightarrow> strip s | _ \<Rightarrow> [])"
  by (auto split: option.splits json.splits)

lemma metadata_text_stripped: "strip (metadata_text md ks) = metadata_text md ks"
  by (induction ks) (auto simp: strip_by_idem split: option.splits json.splits)

lemma strip_literals [simp]:
  "strip ''survey_response'' = ''survey_response''"
  "strip ''interview_record'' = ''interview_record''"
  "strip ''manual_transcript'' = ''manual_transcript''"
  "strip ''report_export'' = ''report_export''"
  "strip ''web_snapshot'' = ''web_snapshot''" "strip ''pdf'' = ''pdf''"
  "strip ''screenshot'' = ''screenshot''" "strip ''source_material'' = ''source_material''"
  "strip ''redacted'' = ''redacted''" "strip ''required'' = ''required''"
  "strip ''not_required'' = ''not_required''" "strip ''allowed'' = ''allowed''"
  "strip ''review_required'' = ''review_required''" "strip ''unknown'' = ''unknown''"
  "strip ''stored'' = ''stored''"
  by code_simp+

lemma material_kind_stripped [simp]: "strip (material_kind r) = material_kind r"
  unfolding material_kind_def Let_def
  by (cases "metadata_text (aq_metadata r) [''snapshot_kind''] = []")
    (auto simp del: metadata_text.simps simp: metadata_text_stripped)

lemma pii_redaction_status_stripped [simp]: "strip (pii_redaction_status r) = pii_redaction_status r"
  unfolding pii_redaction_status_def Let_def
  by (simp del: metadata_text.simps add: metadata_text_stripped)

lemma source_policy_status_stripped [simp]: "strip (source_policy_status r) = source_policy_status r"
  unfolding source_policy_status_def Let_def
  by (simp del: metadata_text.simps add: metadata_text_stripped)

lemma lifecycle_metadata_lookup:
  "map_of (artifact_lifecycle_metadata r be h n) ''stage'' = Some (JStr ''stored'')"
  "map_of (artifact_lifecycle_metadata r be h n) ''material_kind'' = Some (JStr (material_kind r))"
  "map_of (artifact_lifecycle_metadata r be h n) ''pii_redaction_status'' =
     Some (JStr (pii_redaction_status r))"
  "map_of (artifact_lifecycle_metadata r be h n) ''source_policy_status'' =
     Some (JStr (source_policy_status r))"
  "\<exists>ls. map_of (artifact_lifecycle_metadata r be h n) ''links'' = Some (JDict ls)
     \<and> map_of ls ''evidence_id'' = Some (jstr_opt (aq_evidence_id r))
     \<and> map_of ls ''project_id'' = Some (JStr (aq_project_id r))
     \<and> map_of ls ''workspace_id'' = Some (JStr (aq_workspace_id r))
     \<and> map_of ls ''report_version_id'' = Some (jstr_opt (aq_report_version_id r))
     \<and> map_of ls ''source_registry_id'' =
         Some (JStr (metadata_text (aq_metadata r) [''source_registry_id'']))"
  by (simp_all add: artifact_lifecycle_metadata_def del: metadata_text.simps)

lemma lifecycle_metadata_nonempty [simp]: "artifact_lifecycle_metadata r be h n \<noteq> []"
  by (simp add: artifact_lifecycle_metadata_def)

lemma truthy_links: "map_of ls k = Some v \<Longrightarrow> truthy (JDict ls)"
  by auto

text \<open>Round trip of the lifecycle metadata: an artifact stored with the metadata built from
  its request always accepts new links, and its row of the lifecycle report shows it stored,
  with the request's material kind, with the new policy and redaction status where one is given
  and the request's otherwise, and with exactly the given links replaced.\<close>

theorem linked_artifact_item:
  fixes a stored :: artifact and r :: artifact_request and md backend hash nbytes registry ev rep policy pii
  defines "stored \<equiv> a\<lparr>ar_metadata := merge_artifact_lifecycle_metadata md
      (artifact_lifecycle_metadata r backend hash nbytes)\<rparr>"
  shows "\<exists>b. with_artifact_lifecycle_links stored None registry ev rep policy pii = Inr b
     \<and> (let i = artifact_lifecycle_item b in
          li_stage i = ''stored'' \<and> li_material_kind i = material_kind r
        \<and> li_source_policy_status i = (if given policy then strip (the policy) else source_policy_status r)
        \<and> li_pii_redaction_status i = (if given pii then strip (the pii) else pii_redaction_status r)
        \<and> map_of (li_links i) ''workspace_id'' = Some (JStr (aq_workspace_id r))
        \<and> map_of (li_links i) ''project_id'' = Some (JStr (aq_project_id r))
        \<and> map_of (li_links i) ''evidence_id'' =
            Some (jstr_opt (if given ev then ev else aq_evidence_id r))
        \<and> map_of (li_links i) ''report_version_id'' =
            Some (jstr_opt (if given rep then rep else aq_report_version_id r)))"
proof -
  obtain ls where ls: "map_of (artifact_lifecycle_metadata r backend hash nbytes) ''links'' = Some (JDict ls)"
     "map_of ls ''evidence_id'' = Some (jstr_opt (aq_evidence_id r))"
     "map_of ls ''project_id'' = Some (JStr (aq_project_id r))"
     "map_of ls ''workspace_id'' = Some (JStr (aq_workspace_id r))"
     "map_of ls ''report_version_id'' = Some (jstr_opt (aq_report_version_id r))"
    using lifecycle_metadata_lookup(5)[of r backend hash nbytes] by blast
  have ne: "ls \<noteq> []" using ls(2) by auto
  have opt: "given x \<Longrightarrow> jstr_opt x = JStr (the x)" for x by (cases x) simp_all
  show ?thesis
    by (simp add: stored_def with_artifact_lifecycle_links_def dict_or_empty_def ls ne opt
        merge_artifact_lifecycle_metadata_def artifact_lifecycle_item_def Let_def dict_simps
        metadata_text_single lifecycle_metadata_lookup del: metadata_text.simps)
qed

end
