(* ===== verification/SourceResolver.thy ===== *)
theory SourceResolver
  imports Schema
begin

text \<open>
  identity/source_resolver.py: the resolver between the citation tokens of a report and the
  evidence they stand for, and the normalisation of a report's citations. Over ASCII text
  the two patterns of the code only match \<open>[source:TOKEN]\<close> in either case; a report is split
  into plain characters and citations, and \<open>re.sub\<close> with a replacement function is a pass
  over these segments. Sets of tokens are lists without repetition; the code only tests
  membership in them and looks tokens up.
\<close>

section \<open>Tokens\<close>

definition is_token_char :: "char \<Rightarrow> bool" where
  "is_token_char c = (is_lower c \<or> is_upper c \<or> is_digit c \<or> c \<in> set ''_.:#-'')"

definition not_close :: "char \<Rightarrow> bool" where
  "not_close c = (c \<noteq> CHR '']'')"

text \<open>A match of the pattern at the start of a text, with the characters a token may hold.\<close>

definition match_token :: "(char \<Rightarrow> bool) \<Rightarrow> str \<Rightarrow> (str \<times> str) option" where
  "match_token p s =
     (let r = drop 8 s; token = takeWhile p r; rest = dropWhile p r
      in if lower (take 8 s) = ''[source:'' \<and> token \<noteq> [] \<and> take 1 rest = '']''
         then Some (token, drop 1 rest) else None)"

lemma match_token_shorter:
  "match_token p (c # cs) = Some (token, rest) \<Longrightarrow> length rest < Suc (length cs)"
proof -
  assume a: "match_token p (c # cs) = Some (token, rest)"
  have "length (dropWhile p (drop 8 (c # cs))) \<le> length (drop 8 (c # cs))"
    by (rule length_dropWhile_le)
  with a show ?thesis by (auto simp: match_token_def Let_def split: if_splits)
qed

datatype segment = Plain char | Cite (cite_head: str) (cite_token: str)

fun segment_text :: "segment \<Rightarrow> str" where
  "segment_text (Plain c) = [c]"
| "segment_text (Cite head token) = head @ token @ '']''"

function segments :: "(char \<Rightarrow> bool) \<Rightarrow> str \<Rightarrow> segment list" where
  "segments p [] = []"
| "segments p (c # cs) =
     (case match_token p (c # cs) of
        Some (token, rest) \<Rightarrow> Cite (take 8 (c # cs)) token # segments p rest
      | None \<Rightarrow> Plain c # segments p cs)"
  by pat_completeness auto
termination by (relation "measure (\<lambda>(p, s). length s)") (auto dest: match_token_shorter)

definition source_tokens :: "str \<Rightarrow> bool \<Rightarrow> str list" where
  "source_tokens markdown include_malformed =
     concat (map (\<lambda>g. case g of Cite h t \<Rightarrow> [t] | Plain c \<Rightarrow> [])
       (segments (if include_malformed then not_close else is_token_char) markdown))"

definition normalize_source_token :: "str \<Rightarrow> str" where
  "normalize_source_token token = strip (takeWhile (\<lambda>c. c \<noteq> CHR ''#'') token)"

definition is_valid_source_token :: "str \<Rightarrow> bool" where
  "is_valid_source_token token = (let t = strip token in t \<noteq> [] \<and> list_all is_token_char t)"

text \<open>\<open>dedupe_strings\<close> on strings: the first of each non-empty stripped string.\<close>

definition dedupe_strings :: "str list \<Rightarrow> str list" where
  "dedupe_strings values = keep_first id (\<lambda>v. v \<noteq> []) [] (map strip values)"

definition merge_ids :: "str list \<Rightarrow> str list \<Rightarrow> str list" where
  "merge_ids primary secondary = dedupe_strings (primary @ secondary)"

definition string_list :: "json option \<Rightarrow> str list" where
  "string_list value =
     filter (\<lambda>s. s \<noteq> []) (map (\<lambda>v. strip (py_str v)) (filter (\<lambda>v. v \<noteq> JNull) (as_list value)))"

definition merge_source_aliases :: "json list \<Rightarrow> str list" where
  "merge_source_aliases values =
     dedupe_strings (concat (map (\<lambda>v. case v of JList xs \<Rightarrow> string_list (Some v)
                                     | _ \<Rightarrow> string_list (Some (JList [v]))) values))"

definition malformed_source_tokens :: "str \<Rightarrow> str list" where
  "malformed_source_tokens markdown =
     dedupe_strings (filter (\<lambda>t. \<not> is_valid_source_token t) (source_tokens markdown True))"

section \<open>The identities of an evidence record\<close>

definition evidence_source_tokens :: "evidence \<Rightarrow> str list" where
  "evidence_source_tokens e =
     remdups (map normalize_source_token (filter (\<lambda>t. t \<noteq> [])
       ([ev_id e, ev_raw_source_id e]
         @ string_list (map_of (ev_metadata e) ''raw_source_aliases''))))"

definition canonical_report_token :: "evidence \<Rightarrow> str" where
  "canonical_report_token e =
     str_or (normalize_source_token (ev_raw_source_id e)) (normalize_source_token (ev_id e))"

definition raw_source_alias_metadata :: "str \<Rightarrow> jdict option \<Rightarrow> jdict" where
  "raw_source_alias_metadata raw_source_id metadata =
     (let r1 = AList.update ''run_raw_source_id'' (JStr raw_source_id)
                 (case metadata of Some m \<Rightarrow> m | None \<Rightarrow> []);
          aliases = (case map_of r1 ''raw_source_aliases'' of Some v \<Rightarrow> v | None \<Rightarrow> JNull)
      in AList.update ''raw_source_aliases''
           (jstrs (merge_source_aliases [aliases, JStr raw_source_id])) r1)"

definition merge_evidence_source_metadata :: "evidence option \<Rightarrow> evidence \<Rightarrow> jdict" where
  "merge_evidence_source_metadata existing incoming =
     (let metadata = dict_merge
            (case existing of Some e \<Rightarrow> dict_merge [] (ev_metadata e) | None \<Rightarrow> [])
            (ev_metadata incoming);
          aliases = (case existing of
               Some e \<Rightarrow> string_list (map_of (ev_metadata e) ''raw_source_aliases'') @ [ev_raw_source_id e]
             | None \<Rightarrow> [])
            @ string_list (map_of (ev_metadata incoming) ''raw_source_aliases'')
            @ [ev_raw_source_id incoming]
      in AList.update ''raw_source_aliases''
           (jstrs (merge_source_aliases [jstrs aliases])) metadata)"

section \<open>Resolution\<close>

datatype resolution_status = Resolved | Alias | OutOfScope | Missing | Malformed

fun status_name :: "resolution_status \<Rightarrow> str" where
  "status_name Resolved = ''resolved''"
| "status_name Alias = ''alias''"
| "status_name OutOfScope = ''out_of_scope''"
| "status_name Missing = ''missing''"
| "status_name Malformed = ''malformed''"

record source_resolution =
  so_token :: str
  so_normalized_token :: str
  so_status :: resolution_status
  so_evidence_id :: "str option"
  so_raw_source_id :: "str option"
  so_canonical_token :: "str option"
  so_reason :: str

definition so_resolved :: "source_resolution \<Rightarrow> bool" where
  "so_resolved r = (so_status r \<in> {Resolved, Alias})"

definition resolution_as_dict :: "source_resolution \<Rightarrow> jdict" where
  "resolution_as_dict r =
     [(''token'', JStr (so_token r)), (''normalized_token'', JStr (so_normalized_token r)),
      (''status'', JStr (status_name (so_status r))),
      (''evidence_id'', jstr_opt (so_evidence_id r)),
      (''raw_source_id'', jstr_opt (so_raw_source_id r)),
      (''canonical_token'', jstr_opt (so_canonical_token r)), (''reason'', JStr (so_reason r))]"

text \<open>\<open>SourceResolutionIndex\<close>: without a scope every record is in scope.\<close>

record resolution_index =
  ix_evidence :: "evidence list"
  ix_all_by_token :: "(str \<times> evidence) list"
  ix_scoped_by_token :: "(str \<times> evidence) list"
  ix_scope :: "str list option"

definition in_scope :: "str list option \<Rightarrow> evidence \<Rightarrow> bool" where
  "in_scope scope e = (case scope of None \<Rightarrow> True | Some ids \<Rightarrow> ev_id e \<in> set ids)"

definition put_tokens :: "evidence \<Rightarrow> (str \<times> evidence) list \<Rightarrow> (str \<times> evidence) list" where
  "put_tokens e d =
     fold (\<lambda>t. AList.update (normalize_source_token t) e) (evidence_source_tokens e) d"

definition source_resolution_index :: "evidence list \<Rightarrow> str list option \<Rightarrow> resolution_index" where
  "source_resolution_index evs scope =
     \<lparr>ix_evidence = evs, ix_all_by_token = fold put_tokens evs [],
      ix_scoped_by_token = fold put_tokens (filter (in_scope scope) evs) [], ix_scope = scope\<rparr>"

definition scoped_evidence :: "resolution_index \<Rightarrow> evidence list" where
  "scoped_evidence ix = filter (in_scope (ix_scope ix)) (ix_evidence ix)"

definition resolution_for :: "str \<Rightarrow> str \<Rightarrow> evidence \<Rightarrow> source_resolution" where
  "resolution_for token normalized e =
     (let canonical = canonical_report_token e; direct = (normalized = canonical)
      in \<lparr>so_token = token, so_normalized_token = normalized,
          so_status = (if direct then Resolved else Alias), so_evidence_id = Some (ev_id e),
          so_raw_source_id = Some (ev_raw_source_id e), so_canonical_token = Some canonical,
          so_reason = (if direct then ''Token resolved directly.''
                       else ''Token resolved through alias.'')\<rparr>)"

definition unresolved_token :: "str \<Rightarrow> resolution_status \<Rightarrow> str \<Rightarrow> source_resolution" where
  "unresolved_token token status reason =
     \<lparr>so_token = token, so_normalized_token = normalize_source_token token, so_status = status,
      so_evidence_id = None, so_raw_source_id = None, so_canonical_token = None, so_reason = reason\<rparr>"

abbreviation malformed_resolution :: "str \<Rightarrow> source_resolution" where
  "malformed_resolution token \<equiv> unresolved_token token Malformed
     ''Token does not match the canonical source token grammar.''"

definition resolve :: "resolution_index \<Rightarrow> str \<Rightarrow> source_resolution" where
  "resolve ix token =
     (let normalized = normalize_source_token token
      in case map_of (ix_scoped_by_token ix) normalized of
           Some e \<Rightarrow> resolution_for token normalized e
         | None \<Rightarrow>
           (case map_of (ix_all_by_token ix) normalized of
              Some e \<Rightarrow>
                \<lparr>so_token = token, so_normalized_token = normalized, so_status = OutOfScope,
                 so_evidence_id = Some (ev_id e), so_raw_source_id = Some (ev_raw_source_id e),
                 so_canonical_token = Some (canonical_report_token e),
                 so_reason = ''Token resolves to evidence outside the scoped report version.''\<rparr>
            | None \<Rightarrow> unresolved_token token Missing
                ''Token does not resolve to an EvidenceRecord id, RawSource id, or alias.''))"

definition source_token_alias_map ::
  "str list \<Rightarrow> evidence list \<Rightarrow> str list option \<Rightarrow> (str \<times> str) list" where
  "source_token_alias_map raw_source_ids evs scope =
     (let from_sources = fold (\<lambda>s d. let i = normalize_source_token s
            in if i \<noteq> [] then AList.update i i d else d) raw_source_ids []
      in fold (\<lambda>(t, e). AList.update t (canonical_report_token e))
           (ix_scoped_by_token (source_resolution_index evs scope)) from_sources)"

definition resolve_source_token :: "str \<Rightarrow> (str \<times> str) list \<Rightarrow> str option" where
  "resolve_source_token token alias_map =
     (if \<not> is_valid_source_token token then None
      else map_of alias_map (normalize_source_token token))"

section \<open>Normalisation of the citations of a report\<close>

definition adopt_out_of_scope :: "source_resolution \<Rightarrow> source_resolution" where
  "adopt_out_of_scope r =
     (if so_status r = OutOfScope \<and> given (so_evidence_id r) then
        r\<lparr>so_status := Alias,
          so_canonical_token := opt_or (so_canonical_token r)
            (opt_or (so_raw_source_id r) (so_evidence_id r)),
          so_reason := ''Token resolved outside the initial report scope and was added ''
            @ ''to the normalized report evidence scope.''\<rparr>
      else r)"

text \<open>The replacement of one citation: its new text, its resolution, the evidence it cites,
  and whether the text changed.\<close>

definition normalize_citation ::
  "resolution_index \<Rightarrow> str \<Rightarrow> str \<Rightarrow> str \<times> source_resolution \<times> str list \<times> bool" where
  "normalize_citation ix head token =
     (if \<not> is_valid_source_token token then ([], malformed_resolution token, [], True)
      else
        let original = segment_text (Cite head token);
            r = adopt_out_of_scope (resolve ix token)
        in if so_resolved r \<and> given (so_evidence_id r) then
             (let report_token = or_str (opt_or (so_canonical_token r)
                    (opt_or (so_raw_source_id r) (so_evidence_id r))) [];
                  replacement = ''[source:'' @ report_token @ '']''
              in (replacement, r, [the (so_evidence_id r)], replacement \<noteq> original))
           else (original, r, [], False))"

fun normalize_segments ::
  "resolution_index \<Rightarrow> segment list \<Rightarrow> str \<times> source_resolution list \<times> str list \<times> bool" where
  "normalize_segments ix [] = ([], [], [], False)"
| "normalize_segments ix (Plain c # gs) =
     (let (text, rs, ids, changed) = normalize_segments ix gs in (c # text, rs, ids, changed))"
| "normalize_segments ix (Cite head token # gs) =
     (let (t0, r, ids0, ch0) = normalize_citation ix head token;
          (text, rs, ids, changed) = normalize_segments ix gs
      in (t0 @ text, r # rs, ids0 @ ids, ch0 \<or> changed))"

record token_normalization =
  tn_report_md :: str
  tn_evidence_ids :: "str list"
  tn_resolutions :: "source_resolution list"
  tn_changed :: bool

definition normalize_report_source_tokens ::
  "str \<Rightarrow> evidence list \<Rightarrow> str list option \<Rightarrow> token_normalization" where
  "normalize_report_source_tokens report_md evs scope =
     (let ix = source_resolution_index evs scope;
          (text, rs, ids, changed) = normalize_segments ix (segments not_close report_md);
          resolved_ids = dedupe_strings ids
      in \<lparr>tn_report_md = text,
          tn_evidence_ids =
            (case scope of
               Some scoped_ids \<Rightarrow> merge_ids scoped_ids resolved_ids
             | None \<Rightarrow> if resolved_ids \<noteq> [] then resolved_ids else map ev_id evs),
          tn_resolutions = rs, tn_changed = changed\<rparr>)"

definition build_source_reconciliation ::
  "str \<Rightarrow> evidence list \<Rightarrow> str list option \<Rightarrow> source_resolution list \<Rightarrow> bool \<Rightarrow> jdict" where
  "build_source_reconciliation report_md evs scope precomputed changed =
     (let ix = source_resolution_index evs scope;
          report_tokens = dedupe_strings (map normalize_source_token (source_tokens report_md True));
          resolutions = (if precomputed \<noteq> [] then precomputed
            else map (\<lambda>t. if is_valid_source_token t then resolve ix t else malformed_resolution t)
                   report_tokens);
          scoped = scoped_evidence ix;
          alias_rows = concat (map (\<lambda>e.
              let aliases = sorted_set (filter (\<lambda>t. t \<noteq> canonical_report_token e)
                    (evidence_source_tokens e))
              in if aliases \<noteq> [] then [(ev_id e, jstrs aliases)] else []) scoped);
          scoped_tokens = remdups (concat (map evidence_source_tokens scoped));
          unresolved = map so_normalized_token
            (filter (\<lambda>r. so_status r \<in> {Missing, OutOfScope, Malformed}) resolutions)
      in [(''report_source_tokens'', jstrs report_tokens),
          (''canonical_report_source_tokens'', jstrs (dedupe_strings
             (map (\<lambda>r. or_str (so_canonical_token r) (so_normalized_token r)) resolutions))),
          (''report_source_token_count'', JInt (int (length report_tokens))),
          (''canonical_report_md_changed'', JBool changed),
          (''scoped_evidence_ids'', jstrs (map ev_id scoped)),
          (''scoped_evidence_count'', JInt (int (length scoped))),
          (''scoped_source_token_count'', JInt (int (length scoped_tokens))),
          (''unresolved_report_source_tokens'', jstrs (dedupe_strings unresolved)),
          (''unresolved_report_source_token_count'', JInt (int (length (dedupe_strings unresolved)))),
          (''evidence_source_aliases'', JDict (dict_merge [] alias_rows)),
          (''source_resolutions'', JList (map (\<lambda>r. JDict (resolution_as_dict r)) resolutions))])"

definition reconciliation :: "token_normalization \<Rightarrow> evidence list \<Rightarrow> jdict" where
  "reconciliation n evs =
     build_source_reconciliation (tn_report_md n) evs (Some (tn_evidence_ids n))
       (tn_resolutions n) (tn_changed n)"

section \<open>Report versions\<close>

definition has_preservable_layered_report_data :: "report_version \<Rightarrow> bool" where
  "has_preservable_layered_report_data v =
     (rv_report_artifact v \<noteq> None \<or> rv_support_appendix_md v \<noteq> [] \<or> rv_audit_log_md v \<noteq> []
      \<or> (rv_core_report_md v \<noteq> [] \<and> rv_full_report_md v \<noteq> []
         \<and> rv_core_report_md v \<noteq> rv_full_report_md v))"

definition has_layered_report_content :: "report_version \<Rightarrow> bool" where
  "has_layered_report_content v =
     (rv_report_artifact v \<noteq> None \<or> rv_core_report_md v \<noteq> [] \<or> rv_support_appendix_md v \<noteq> []
      \<or> rv_audit_log_md v \<noteq> [] \<or> rv_full_report_md v \<noteq> [])"

definition preserve_existing_report_layers_for_legacy_upsert ::
  "report_version \<Rightarrow> report_version option \<Rightarrow> report_version" where
  "preserve_existing_report_layers_for_legacy_upsert version existing =
     (case existing of None \<Rightarrow> version
      | Some old \<Rightarrow>
        if rv_id version \<noteq> rv_id old then version
        else if \<not> has_preservable_layered_report_data old \<or> has_layered_report_content version
          then version
        else version\<lparr>rv_core_report_md := rv_core_report_md old,
               rv_support_appendix_md := rv_support_appendix_md old,
               rv_audit_log_md := rv_audit_log_md old,
               rv_full_report_md := rv_full_report_md old,
               rv_report_artifact := rv_report_artifact old\<rparr>)"

definition normalized_report_artifact_copy ::
  "report_artifact option \<Rightarrow> str \<Rightarrow> str \<Rightarrow> str \<Rightarrow> str \<Rightarrow> py_error + report_artifact option" where
  "normalized_report_artifact_copy artifact core support audit full =
     (case artifact of None \<Rightarrow> Inr None
      | Some a \<Rightarrow> map_sum id Some (validate_report_artifact
          (a\<lparr>ra_core_report := (ra_core_report a)\<lparr>rl_markdown := core\<rparr>,
             ra_support_appendix := (ra_support_appendix a)\<lparr>rl_markdown := support\<rparr>,
             ra_audit_log := (ra_audit_log a)\<lparr>rl_markdown := audit\<rparr>,
             ra_render_cache := \<lparr>rr_core_markdown = core, rr_support_markdown = support,
               rr_audit_markdown = audit, rr_full_markdown = full\<rparr>\<rparr>)))"

definition normalize_report_layer_markdown :: "str \<Rightarrow> evidence list \<Rightarrow> str list \<Rightarrow> str" where
  "normalize_report_layer_markdown md evs scope =
     tn_report_md (normalize_report_source_tokens md evs (Some scope))"

definition normalize_layered_report_version_sources ::
  "report_version \<Rightarrow> evidence list \<Rightarrow> py_error + report_version" where
  "normalize_layered_report_version_sources version evs =
     (let cache = (\<lambda>f. case rv_report_artifact version of
              Some a \<Rightarrow> f (ra_render_cache a) | None \<Rightarrow> []);
          scope = rv_evidence_ids version;
          layer = (\<lambda>md. normalize_report_layer_markdown md evs scope);
          core = layer (str_or (rv_core_report_md version) (cache rr_core_markdown));
          support = layer (str_or (rv_support_appendix_md version) (cache rr_support_markdown));
          audit = layer (str_or (rv_audit_log_md version) (cache rr_audit_markdown));
          joined0 = join_layers [core, support, audit];
          joined = (if joined0 = []
            then layer (str_or (rv_full_report_md version) (rv_report_md version)) else joined0);
          n = normalize_report_source_tokens joined evs (Some scope);
          metadata = AList.update ''source_reconciliation'' (JDict (reconciliation n evs))
            (rv_quality_metadata version);
          full = tn_report_md n
      in case normalized_report_artifact_copy (rv_report_artifact version) core support audit full of
           Inl e \<Rightarrow> Inl e
         | Inr artifact \<Rightarrow> Inr (version\<lparr>rv_report_md := full, rv_core_report_md := core,
               rv_support_appendix_md := support, rv_audit_log_md := audit,
               rv_full_report_md := full, rv_report_artifact := artifact,
               rv_evidence_ids := tn_evidence_ids n, rv_quality_metadata := metadata\<rparr>))"

definition normalize_report_version_sources ::
  "report_version \<Rightarrow> evidence list \<Rightarrow> py_error + report_version" where
  "normalize_report_version_sources version evs =
     (if has_layered_report_content version then
        normalize_layered_report_version_sources version evs
      else
        let n = normalize_report_source_tokens (rv_report_md version) evs (Some (rv_evidence_ids version))
        in Inr (version\<lparr>rv_report_md := tn_report_md n, rv_evidence_ids := tn_evidence_ids n,
             rv_quality_metadata := AList.update ''source_reconciliation''
               (JDict (reconciliation n evs)) (rv_quality_metadata version)\<rparr>))"

end
