(* ===== verification/Citations.thy ===== *)
theory Citations
  imports SourceResolver
begin

text \<open>
  The properties of the citation normaliser of identity/source_resolver.py: the segments of
  a report are the report, replacing citations by well-formed ones keeps the segmentation,
  so normalising a normalised report changes nothing; and every citation that resolves is in
  the evidence scope of the result.
\<close>

section \<open>Segments\<close>

lemma match_token_text:
  "match_token p s = Some (token, rest) \<Longrightarrow> take 8 s @ token @ '']'' @ rest = s"
proof -
  assume a: "match_token p s = Some (token, rest)"
  have "token @ '']'' @ rest = takeWhile p (drop 8 s) @ dropWhile p (drop 8 s)"
    using a by (cases "dropWhile p (drop 8 s)")
      (auto simp: match_token_def Let_def split: if_splits)
  then have "token @ '']'' @ rest = drop 8 s" by simp
  then show ?thesis by (metis append_take_drop_id)
qed

lemma segments_text: "concat (map segment_text (segments p s)) = s"
proof (induction p s rule: segments.induct)
  case (1 p)
  show ?case by simp
next
  case (2 p c cs)
  then show ?case
    using match_token_text[of p "c # cs"] by (auto split: option.splits)
qed

lemma to_lower_open: "to_lower_char c = CHR ''['' \<longleftrightarrow> c = CHR ''[''"
proof (cases "is_upper c")
  case True
  then have u: "65 \<le> code_of c" "code_of c \<le> 90" by (simp_all add: is_upper_def)
  have "to_lower_char c \<noteq> CHR ''[''"
  proof
    assume "to_lower_char c = CHR ''[''"
    then have "char_of (code_of c + 32) = CHR ''[''" using True by (simp add: to_lower_char_def)
    then have "(of_char (char_of (code_of c + 32) :: char) :: nat) = 91" by simp
    then have "(code_of c + 32) mod 256 = 91" by simp
    with u show False by simp
  qed
  moreover have "c \<noteq> CHR ''[''" using u by (auto simp: code_of_def)
  ultimately show ?thesis by simp
next
  case False
  then show ?thesis by (simp add: to_lower_char_def)
qed

lemma match_token_cite:
  assumes "lower h = ''[source:''" "t \<noteq> []" "list_all not_close t"
  shows "match_token not_close (h @ t @ '']'' @ r) = Some (t, r)"
proof -
  have "length (lower h) = length ''[source:''" using assms(1) by simp
  then have "length h = 8" by (simp add: lower_def)
  then have d: "drop 8 (h @ t @ '']'' @ r) = t @ '']'' @ r" "take 8 (h @ t @ '']'' @ r) = h"
    by simp_all
  have w: "takeWhile not_close (t @ '']'' @ r) = t" "dropWhile not_close (t @ '']'' @ r) = '']'' @ r"
    using assms(3) by (simp_all add: list_all_iff not_close_def)
  show ?thesis unfolding match_token_def d Let_def w using assms(1,2) by simp
qed

text \<open>The text of the segments after a change of each.\<close>

abbreviation retext :: "(segment \<Rightarrow> segment) \<Rightarrow> str \<Rightarrow> str" where
  "retext f s \<equiv> concat (map (\<lambda>g. segment_text (f g)) (segments not_close s))"

text \<open>A change that keeps plain text, and citations well-formed.\<close>

definition keeps_citations :: "(segment \<Rightarrow> segment) \<Rightarrow> bool" where
  "keeps_citations f \<longleftrightarrow> (\<forall>c. f (Plain c) = Plain c)
     \<and> (\<forall>h t. lower h = ''[source:'' \<and> t \<noteq> [] \<and> list_all not_close t \<longrightarrow>
          (\<exists>h' t'. f (Cite h t) = Cite h' t' \<and> lower h' = ''[source:'' \<and> t' \<noteq> []
             \<and> list_all not_close t'))"

lemma match_token_parts:
  "match_token not_close s = Some (t, r) \<Longrightarrow>
     lower (take 8 s) = ''[source:'' \<and> t \<noteq> [] \<and> list_all not_close t"
  by (auto simp: match_token_def Let_def list_all_iff split: if_splits dest: set_takeWhileD)

lemma keeps_Cite:
  assumes "keeps_citations f" "match_token not_close s = Some (t, r)"
  obtains h' t' where "f (Cite (take 8 s) t) = Cite h' t'" "lower h' = ''[source:''" "t' \<noteq> []"
    "list_all not_close t'"
  using assms match_token_parts[OF assms(2)] unfolding keeps_citations_def by blast

lemma lower_head_open: "lower h = ''[source:'' \<Longrightarrow> \<exists>h'. h = CHR ''['' # h'"
  by (cases h) (auto simp: lower_def to_lower_open)

lemma segments_no_close: "CHR '']'' \<notin> set s \<Longrightarrow> segments not_close s = map Plain s"
proof (induction s)
  case (Cons c cs)
  have "match_token not_close (c # cs) = None"
  proof (cases "match_token not_close (c # cs)")
    case (Some tr)
    obtain t r where "tr = (t, r)" by (cases tr)
    then have "CHR '']'' \<in> set (c # cs)"
      using match_token_text[of not_close "c # cs" t r] Some
      by (metis in_set_conv_decomp append_Cons append_assoc)
    with Cons.prems show ?thesis by simp
  qed
  with Cons show ?case by simp
qed simp

lemma plain_prefix:
  assumes "keeps_citations f"
  shows "CHR ''['' \<notin> set (take n (retext f s)) \<Longrightarrow> n \<le> length (retext f s) \<Longrightarrow>
     take n (retext f s) = take n s \<and> drop n (retext f s) = retext f (drop n s)"
proof (induction n arbitrary: s)
  case 0
  show ?case by simp
next
  case (Suc n)
  show ?case
  proof (cases s)
    case Nil
    with Suc.prems show ?thesis by simp
  next
    case (Cons c cs)
    show ?thesis
    proof (cases "match_token not_close s")
      case None
      then have r: "retext f s = c # retext f cs"
        using assms Cons by (simp add: keeps_citations_def)
      have "CHR ''['' \<notin> set (take n (retext f cs))" "n \<le> length (retext f cs)"
        using Suc.prems[unfolded r] by simp_all
      from Suc.IH[OF this] show ?thesis unfolding r by (simp add: Cons)
    next
      case (Some tr)
      obtain t rest where tr: "tr = (t, rest)" by (cases tr)
      obtain h' t' where f: "f (Cite (take 8 s) t) = Cite h' t'" "lower h' = ''[source:''"
        using keeps_Cite[OF assms] Some tr by metis
      then obtain h2 where "h' = CHR ''['' # h2" using lower_head_open by blast
      then have "\<exists>u. retext f s = CHR ''['' # u" using f Some tr Cons by simp
      with Suc.prems show ?thesis by auto
    qed
  qed
qed

text \<open>Changing citations keeps the segmentation: no new citation appears.\<close>

theorem segments_retext:
  assumes f: "keeps_citations f"
  shows "segments not_close (retext f s) = map f (segments not_close s)"
proof (induction not_close s rule: segments.induct)
  case 1
  show ?case by simp
next
  case (2 c cs)
  show ?case
  proof (cases "match_token not_close (c # cs)")
    case (Some tr)
    obtain t rest where tr: "tr = (t, rest)" by (cases tr)
    obtain h' t' where ft: "f (Cite (take 8 (c # cs)) t) = Cite h' t'"
        "lower h' = ''[source:''" "t' \<noteq> []" "list_all not_close t'"
      using keeps_Cite[OF f] Some tr by metis
    have e: "retext f (c # cs) = h' @ t' @ '']'' @ retext f rest" using Some tr ft by simp
    obtain x xs where x: "h' @ t' @ '']'' @ retext f rest = x # xs"
      by (cases "h' @ t' @ '']'' @ retext f rest") auto
    have m: "match_token not_close (x # xs) = Some (t', retext f rest)"
      unfolding x[symmetric] by (rule match_token_cite[OF ft(2-4)])
    have h8: "take 8 (x # xs) = h'"
    proof -
      have "length (lower h') = length ''[source:''" using ft(2) by simp
      then show ?thesis unfolding x[symmetric] by (simp add: lower_def)
    qed
    have "segments not_close (retext f (c # cs)) = Cite h' t' # segments not_close (retext f rest)"
      unfolding e x using m h8 by simp
    also have "\<dots> = map f (segments not_close (c # cs))"
      using 2(2)[OF Some tr[symmetric]] Some tr ft(1) by simp
    finally show ?thesis .
  next
    case None
    have e: "retext f (c # cs) = c # retext f cs" using None f by (simp add: keeps_citations_def)
    have "match_token not_close (c # retext f cs) = None"
    proof (rule ccontr)
      assume "match_token not_close (c # retext f cs) \<noteq> None"
      then have a: "lower (take 8 (c # retext f cs)) = ''[source:''"
        "takeWhile not_close (drop 7 (retext f cs)) \<noteq> []"
        "take 1 (dropWhile not_close (drop 7 (retext f cs))) = '']''"
        by (auto simp: match_token_def Let_def split: if_splits)
      then have p: "lower (take 7 (retext f cs)) = ''source:''" "to_lower_char c = CHR ''[''"
        by (simp_all add: lower_def)
      have no: "CHR ''['' \<notin> set (take 7 (retext f cs))"
      proof
        assume "CHR ''['' \<in> set (take 7 (retext f cs))"
        then have "to_lower_char (CHR ''['') \<in> set (lower (take 7 (retext f cs)))"
          unfolding lower_def by (simp only: set_map image_eqI)
        then show False unfolding p(1) by (simp add: to_lower_open[THEN iffD2])
      qed
      have len: "7 \<le> length (retext f cs)"
      proof -
        have "length (lower (take 7 (retext f cs))) = length ''source:''" using p(1) by simp
        then show ?thesis by (simp add: lower_def)
      qed
      let ?d = "drop 7 cs"
      have t7: "take 7 (retext f cs) = take 7 cs" and d7: "drop 7 (retext f cs) = retext f ?d"
        using plain_prefix[OF f no len] by blast+
      have head: "lower (take 8 (c # cs)) = ''[source:''"
        using p unfolding t7 by (simp add: lower_def)
      have stop: "takeWhile not_close ?d = [] \<or> take 1 (dropWhile not_close ?d) \<noteq> '']''"
        using None head by (auto simp: match_token_def Let_def split: if_splits)
      have a2: "takeWhile not_close (retext f ?d) \<noteq> []"
        "take 1 (dropWhile not_close (retext f ?d)) = '']''"
        using a(2,3) unfolding d7 by simp_all
      show False
      proof (cases "CHR '']'' \<in> set ?d")
        case False
        then have e2: "retext f ?d = ?d"
          using f by (simp add: segments_no_close keeps_citations_def comp_def)
        have e3: "dropWhile not_close ?d = []"
          using False by (auto simp: dropWhile_eq_Nil_conv not_close_def)
        show False using a2(2) unfolding e2 e3 by simp
      next
        case True
        have "take 1 (dropWhile not_close ?d) = '']''"
        proof -
          have "dropWhile not_close ?d \<noteq> []" using True by (auto simp: not_close_def)
          then show ?thesis using hd_dropWhile[of not_close ?d]
            by (cases "dropWhile not_close ?d") (auto simp: not_close_def)
        qed
        with stop have "takeWhile not_close ?d = []" by blast
        then obtain xs where d: "?d = CHR '']'' # xs"
          using True by (cases ?d) (auto simp: not_close_def split: if_splits)
        have "match_token not_close (CHR '']'' # xs) = None"
          by (auto simp: match_token_def lower_def to_lower_open)
        then have "retext f ?d = CHR '']'' # retext f xs"
          unfolding d using f by (simp add: keeps_citations_def)
        with a2(1) show False by (simp add: not_close_def)
      qed
    qed
    then show ?thesis using 2(1)[OF None] None f e by (simp add: keeps_citations_def)
  qed
qed

section \<open>Tokens of evidence\<close>

lemma no_hash_normalized: "CHR ''#'' \<notin> set (normalize_source_token t)"
proof
  assume "CHR ''#'' \<in> set (normalize_source_token t)"
  then have "CHR ''#'' \<in> set (takeWhile (\<lambda>c. c \<noteq> CHR ''#'') t)"
    unfolding normalize_source_token_def by (rule set_strip_by)
  then show False by (auto dest: set_takeWhileD)
qed

lemma normalize_source_token_idem [simp]:
  "normalize_source_token (normalize_source_token t) = normalize_source_token t"
proof -
  have w: "takeWhile (\<lambda>c. c \<noteq> CHR ''#'') (normalize_source_token t) = normalize_source_token t"
    using no_hash_normalized[of t] by (auto simp: takeWhile_eq_all_conv)
  show ?thesis
    unfolding normalize_source_token_def[of "normalize_source_token t"] w
    by (simp add: normalize_source_token_def)
qed

lemma tokens_normalized:
  "t \<in> set (evidence_source_tokens e) \<Longrightarrow> normalize_source_token t = t"
  by (auto simp: evidence_source_tokens_def)

lemma canonical_normalized [simp]:
  "normalize_source_token (canonical_report_token e) = canonical_report_token e"
  by (simp add: canonical_report_token_def str_or_def)

lemma canonical_in_tokens:
  "canonical_report_token e \<noteq> [] \<Longrightarrow> canonical_report_token e \<in> set (evidence_source_tokens e)"
proof -
  have n: "normalize_source_token [] = []" by (simp add: normalize_source_token_def)
  assume "canonical_report_token e \<noteq> []"
  then show ?thesis
    unfolding canonical_report_token_def str_or_def evidence_source_tokens_def
    by (cases "ev_raw_source_id e = []"; cases "ev_id e = []") (auto simp: n)
qed

lemma fold_update_tokens:
  "\<forall>t \<in> set ts. normalize_source_token t = t \<Longrightarrow>
     map_of (fold (\<lambda>t. AList.update (normalize_source_token t) e) ts d) k =
       (if k \<in> set ts then Some e else map_of d k)"
  by (induction ts arbitrary: d) (auto simp: dict_simps)

lemma map_of_put_tokens [dict_simps]:
  "map_of (put_tokens e d) k = (if k \<in> set (evidence_source_tokens e) then Some e else map_of d k)"
  unfolding put_tokens_def by (rule fold_update_tokens) (simp add: tokens_normalized)

lemma map_of_index_Some:
  "map_of (fold put_tokens evs d) k = Some e \<Longrightarrow>
     (e \<in> set evs \<and> k \<in> set (evidence_source_tokens e)) \<or> map_of d k = Some e"
proof (induction evs arbitrary: d)
  case (Cons a evs)
  from Cons.IH[of "put_tokens a d"] Cons.prems show ?case
    by (auto simp: dict_simps split: if_splits)
qed simp

lemma map_of_index_None:
  "map_of (fold put_tokens evs d) k = None \<longleftrightarrow>
     map_of d k = None \<and> (\<forall>e \<in> set evs. k \<notin> set (evidence_source_tokens e))"
  by (induction evs arbitrary: d) (auto simp: dict_simps)

section \<open>Resolution\<close>

text \<open>
  Evidence that can be cited: every record has an id and a canonical token of the citation
  grammar, and no other record answers to that token under another canonical token.
\<close>

definition citable :: "evidence list \<Rightarrow> bool" where
  "citable evs \<longleftrightarrow> list_all (\<lambda>e. ev_id e \<noteq> [] \<and> is_valid_source_token (canonical_report_token e)
     \<and> list_all (\<lambda>e'. canonical_report_token e \<in> set (evidence_source_tokens e') \<longrightarrow>
          canonical_report_token e' = canonical_report_token e) evs) evs"

lemma citableD:
  assumes "citable evs" "e \<in> set evs"
  shows "ev_id e \<noteq> []" "is_valid_source_token (canonical_report_token e)"
    "e' \<in> set evs \<Longrightarrow> canonical_report_token e \<in> set (evidence_source_tokens e') \<Longrightarrow>
       canonical_report_token e' = canonical_report_token e"
  using assms unfolding citable_def list_all_iff by blast+

lemma valid_canonical:
  "is_valid_source_token (canonical_report_token e) \<Longrightarrow>
     canonical_report_token e \<noteq> [] \<and> list_all is_token_char (canonical_report_token e)"
proof -
  have "strip (canonical_report_token e) = canonical_report_token e"
    by (simp add: canonical_report_token_def str_or_def normalize_source_token_def)
  then show "is_valid_source_token (canonical_report_token e) \<Longrightarrow> ?thesis"
    by (simp add: is_valid_source_token_def Let_def)
qed

text \<open>Either no record answers to a token, or it is resolved to one that does.\<close>

lemma resolve_none:
  assumes "\<forall>e \<in> set evs. normalize_source_token token \<notin> set (evidence_source_tokens e)"
  shows "resolve (source_resolution_index evs scope) token = unresolved_token token Missing
     ''Token does not resolve to an EvidenceRecord id, RawSource id, or alias.''"
proof -
  have "map_of (fold put_tokens evs []) (normalize_source_token token) = None"
    using assms by (simp add: map_of_index_None)
  moreover have "map_of (fold put_tokens (filter (in_scope scope) evs) [])
      (normalize_source_token token) = None"
    using assms by (simp add: map_of_index_None)
  ultimately show ?thesis by (simp add: resolve_def source_resolution_index_def)
qed

lemma resolve_some:
  fixes scope evs token r
  assumes c: "citable evs"
    and s: "\<exists>e \<in> set evs. normalize_source_token token \<in> set (evidence_source_tokens e)"
  defines "r \<equiv> adopt_out_of_scope (resolve (source_resolution_index evs scope) token)"
  shows "\<exists>e \<in> set evs. normalize_source_token token \<in> set (evidence_source_tokens e)
     \<and> so_resolved r \<and> so_evidence_id r = Some (ev_id e)
     \<and> so_canonical_token r = Some (canonical_report_token e)"
proof (cases "map_of (fold put_tokens (filter (in_scope scope) evs) []) (normalize_source_token token)")
  case (Some e)
  then have "e \<in> set evs" "normalize_source_token token \<in> set (evidence_source_tokens e)"
    using map_of_index_Some by fastforce+
  with Some show ?thesis
    by (intro bexI[of _ e]) (auto simp: r_def resolve_def source_resolution_index_def
        resolution_for_def adopt_out_of_scope_def so_resolved_def Let_def)
next
  case None
  obtain e where e: "map_of (fold put_tokens evs []) (normalize_source_token token) = Some e"
    using s map_of_index_None[of evs "[]" "normalize_source_token token"] by fastforce
  then have m: "e \<in> set evs" "normalize_source_token token \<in> set (evidence_source_tokens e)"
    using map_of_index_Some by fastforce+
  have ne: "ev_id e \<noteq> []" "canonical_report_token e \<noteq> []"
    using citableD[OF c m(1)] valid_canonical by blast+
  show ?thesis
    using m None e ne by (intro bexI[of _ e]) (auto simp: r_def resolve_def
        source_resolution_index_def adopt_out_of_scope_def so_resolved_def Let_def)
qed

section \<open>Normalisation\<close>

text \<open>What normalisation makes of a segment that is not malformed.\<close>

fun norm_segment :: "resolution_index \<Rightarrow> segment \<Rightarrow> segment" where
  "norm_segment ix (Plain c) = Plain c"
| "norm_segment ix (Cite h t) =
     (let r = adopt_out_of_scope (resolve ix t)
      in if so_resolved r \<and> given (so_evidence_id r)
         then Cite ''[source:'' (or_str (opt_or (so_canonical_token r)
                (opt_or (so_raw_source_id r) (so_evidence_id r))) [])
         else Cite h t)"

lemma normalize_segments_map:
  assumes "\<forall>h t. Cite h t \<in> set gs \<longrightarrow> is_valid_source_token t"
  shows "fst (normalize_segments ix gs) = concat (map (\<lambda>g. segment_text (norm_segment ix g)) gs)
     \<and> (snd (snd (snd (normalize_segments ix gs))) \<longleftrightarrow>
          (\<exists>g \<in> set gs. segment_text (norm_segment ix g) \<noteq> segment_text g))"
  using assms
proof (induction gs rule: normalize_segments.induct)
  case (1 ix)
  show ?case by simp
next
  case (2 ix c gs)
  then show ?case by (auto simp: Let_def split: prod.splits)
next
  case (3 ix h t gs)
  obtain t0 r i0 c0 where n: "normalize_citation ix h t = (t0, r, i0, c0)"
    by (cases "normalize_citation ix h t") auto
  obtain out1 rs ids ch where m: "normalize_segments ix gs = (out1, rs, ids, ch)"
    by (cases "normalize_segments ix gs") auto
  have v: "is_valid_source_token t" using 3 by auto
  then have c: "t0 = segment_text (norm_segment ix (Cite h t))"
    "c0 \<longleftrightarrow> segment_text (norm_segment ix (Cite h t)) \<noteq> segment_text (Cite h t)"
    using n by (auto simp: normalize_citation_def Let_def split: if_splits)
  have ih: "out1 = concat (map (\<lambda>g. segment_text (norm_segment ix g)) gs)"
    "ch \<longleftrightarrow> (\<exists>g \<in> set gs. segment_text (norm_segment ix g) \<noteq> segment_text g)"
    using 3 n m by auto
  show ?case
    by (simp add: n m del: norm_segment.simps segment_text.simps) (simp only: c ih, blast)
qed

lemma norm_segment_some:
  assumes "citable evs" "\<exists>e \<in> set evs. normalize_source_token t \<in> set (evidence_source_tokens e)"
  shows "\<exists>e \<in> set evs. normalize_source_token t \<in> set (evidence_source_tokens e)
     \<and> norm_segment (source_resolution_index evs scope) (Cite h t) =
         Cite ''[source:'' (canonical_report_token e)"
proof -
  obtain e where e: "e \<in> set evs" "normalize_source_token t \<in> set (evidence_source_tokens e)"
    "so_resolved (adopt_out_of_scope (resolve (source_resolution_index evs scope) t))"
    "so_evidence_id (adopt_out_of_scope (resolve (source_resolution_index evs scope) t)) = Some (ev_id e)"
    "so_canonical_token (adopt_out_of_scope (resolve (source_resolution_index evs scope) t)) =
       Some (canonical_report_token e)"
    using resolve_some[OF assms, of scope] by blast
  have "canonical_report_token e \<noteq> []" "ev_id e \<noteq> []"
    using citableD[OF assms(1) e(1)] valid_canonical by blast+
  with e show ?thesis by (intro bexI[of _ e]) (simp_all add: Let_def)
qed

lemma norm_segment_none:
  assumes "\<forall>e \<in> set evs. normalize_source_token t \<notin> set (evidence_source_tokens e)"
  shows "norm_segment (source_resolution_index evs scope) (Cite h t) = Cite h t"
  using resolve_none[OF assms, of scope]
  by (simp add: Let_def adopt_out_of_scope_def unresolved_token_def so_resolved_def)

lemma norm_keeps_citations:
  assumes "citable evs"
  shows "keeps_citations (norm_segment (source_resolution_index evs scope))"
  unfolding keeps_citations_def
proof (intro conjI allI impI)
  fix h t :: str
  assume a: "lower h = ''[source:'' \<and> t \<noteq> [] \<and> list_all not_close t"
  show "\<exists>h' t'. norm_segment (source_resolution_index evs scope) (Cite h t) = Cite h' t'
      \<and> lower h' = ''[source:'' \<and> t' \<noteq> [] \<and> list_all not_close t'"
  proof (cases "\<exists>e \<in> set evs. normalize_source_token t \<in> set (evidence_source_tokens e)")
    case True
    obtain e where e: "e \<in> set evs" "norm_segment (source_resolution_index evs scope) (Cite h t) =
         Cite ''[source:'' (canonical_report_token e)"
      using norm_segment_some[OF assms True, of scope h] by blast
    have "canonical_report_token e \<noteq> []" "list_all is_token_char (canonical_report_token e)"
      using citableD[OF assms e(1)] valid_canonical by blast+
    moreover have "is_token_char c \<Longrightarrow> not_close c" for c
      by (auto simp: not_close_def is_token_char_def is_lower_def is_upper_def is_digit_def code_of_def)
    moreover have "lower ''[source:'' = ''[source:''" by code_simp
    ultimately show ?thesis using e by (auto simp: list_all_iff)
  next
    case False
    then show ?thesis using norm_segment_none[of evs t scope h] a by auto
  qed
qed simp

lemma norm_segment_stable:
  assumes "citable evs"
  shows "norm_segment (source_resolution_index evs scope')
      (norm_segment (source_resolution_index evs scope) g) = norm_segment (source_resolution_index evs scope) g"
proof (cases g)
  case (Plain c)
  then show ?thesis by simp
next
  case (Cite h t)
  show ?thesis
  proof (cases "\<exists>e \<in> set evs. normalize_source_token t \<in> set (evidence_source_tokens e)")
    case True
    obtain e where e: "e \<in> set evs" "norm_segment (source_resolution_index evs scope) (Cite h t) =
         Cite ''[source:'' (canonical_report_token e)"
      using norm_segment_some[OF assms True, of scope h] by blast
    have m: "canonical_report_token e \<in> set (evidence_source_tokens e)"
      using canonical_in_tokens citableD[OF assms e(1)] valid_canonical by blast
    then have "\<exists>e' \<in> set evs. normalize_source_token (canonical_report_token e)
        \<in> set (evidence_source_tokens e')" using e(1) by auto
    then obtain e' where e': "e' \<in> set evs" "canonical_report_token e \<in> set (evidence_source_tokens e')"
      "norm_segment (source_resolution_index evs scope') (Cite ''[source:'' (canonical_report_token e)) =
         Cite ''[source:'' (canonical_report_token e')"
      using norm_segment_some[OF assms, of "canonical_report_token e" scope' "''[source:''"] by auto
    have "canonical_report_token e' = canonical_report_token e"
      by (rule citableD(3)[OF assms e(1) e'(1,2)])
    then show ?thesis using e(2) e'(3) Cite by simp
  next
    case False
    then show ?thesis using norm_segment_none[of evs t] Cite by metis
  qed
qed

lemma valid_tokens_segments:
  "list_all is_valid_source_token (source_tokens md True) \<longleftrightarrow>
     (\<forall>h t. Cite h t \<in> set (segments not_close md) \<longrightarrow> is_valid_source_token t)"
  by (auto simp: source_tokens_def list_all_iff split: segment.splits)

lemma normalized_text:
  assumes "list_all is_valid_source_token (source_tokens md True)"
  shows "tn_report_md (normalize_report_source_tokens md evs scope) =
      retext (norm_segment (source_resolution_index evs scope)) md"
    and "tn_changed (normalize_report_source_tokens md evs scope) \<longleftrightarrow>
      (\<exists>g \<in> set (segments not_close md).
         segment_text (norm_segment (source_resolution_index evs scope) g) \<noteq> segment_text g)"
  using normalize_segments_map[of "segments not_close md" "source_resolution_index evs scope"] assms
  unfolding valid_tokens_segments
  by (simp_all add: normalize_report_source_tokens_def Let_def split_beta)

text \<open>C10. Normalising the citations of a report is idempotent: over citable evidence, a report
  whose citations are all grammatical is changed once at most. Normalising the result again,
  even under another evidence scope, gives the same text and reports no change; in particular
  a canonical token resolves to itself.\<close>

theorem normalization_idempotent:
  assumes "citable evs" and "list_all is_valid_source_token (source_tokens md True)"
  shows "tn_report_md (normalize_report_source_tokens
       (tn_report_md (normalize_report_source_tokens md evs scope)) evs scope') =
     tn_report_md (normalize_report_source_tokens md evs scope)
   \<and> \<not> tn_changed (normalize_report_source_tokens
       (tn_report_md (normalize_report_source_tokens md evs scope)) evs scope')"
proof -
  let ?f = "norm_segment (source_resolution_index evs scope)"
  let ?g = "norm_segment (source_resolution_index evs scope')"
  have out: "tn_report_md (normalize_report_source_tokens md evs scope) = retext ?f md"
    by (rule normalized_text(1)[OF assms(2)])
  have segs: "segments not_close (retext ?f md) = map ?f (segments not_close md)"
    by (rule segments_retext[OF norm_keeps_citations[OF assms(1)]])
  have "is_valid_source_token t" if "Cite h t \<in> set (segments not_close (retext ?f md))" for h t
  proof -
    have "Cite h t \<in> ?f ` set (segments not_close md)" using that unfolding segs set_map .
    then obtain s where s: "Cite h t = ?f s" "s \<in> set (segments not_close md)" by (rule imageE)
    obtain h0 t0 where c: "s = Cite h0 t0" using s(1) by (cases s) simp_all
    have "Cite h0 t0 \<in> set (segments not_close md)" using s(2) c by simp
    then have v: "is_valid_source_token t0"
      using assms(2) unfolding valid_tokens_segments by blast
    show ?thesis
    proof (cases "\<exists>e \<in> set evs. normalize_source_token t0 \<in> set (evidence_source_tokens e)")
      case True
      obtain e where e: "e \<in> set evs" "?f (Cite h0 t0) = Cite ''[source:'' (canonical_report_token e)"
        using norm_segment_some[OF assms(1) True, of scope h0] by blast
      then show ?thesis using s(1) c citableD(2)[OF assms(1) e(1)] by simp
    next
      case False
      then have "?f (Cite h0 t0) = Cite h0 t0" by (intro norm_segment_none) blast
      then show ?thesis using s(1) c v by simp
    qed
  qed
  then have valid: "list_all is_valid_source_token (source_tokens (retext ?f md) True)"
    unfolding valid_tokens_segments by blast
  have "retext ?g (retext ?f md) = retext ?f md"
    unfolding segs by (simp add: norm_segment_stable[OF assms(1)] comp_def)
  moreover have "\<not> (\<exists>s \<in> set (segments not_close (retext ?f md)). segment_text (?g s) \<noteq> segment_text s)"
    unfolding segs by (simp add: norm_segment_stable[OF assms(1)])
  ultimately show ?thesis unfolding out normalized_text[OF valid] by simp
qed

definition sample_evidence :: "str \<Rightarrow> str \<Rightarrow> str list \<Rightarrow> evidence" where
  "sample_evidence i raw aliases =
     \<lparr>ev_id = i, ev_workspace_id = ''w1'', ev_project_id = ''p1'', ev_run_id = Some ''r1'',
      ev_raw_source_id = raw, ev_competitor_id = ''acme'', ev_dimension = ''pricing'',
      ev_source_type = ''official'', ev_title = ''Pricing'', ev_url = None, ev_canonical_url = '''',
      ev_snippet = ''From 10 dollars'', ev_content_hash = ''h'' @ i, ev_reliability_score = 1,
      ev_freshness_score = 1, ev_quality_label = ''unreviewed'', ev_first_seen_run_id = None,
      ev_last_seen_run_id = None, ev_seen_count = 1,
      ev_captured_at = DateTime 2026 6 1 0 0 0 0,
      ev_metadata = [(''raw_source_aliases'', jstrs aliases)]\<rparr>"

definition two_sources :: "evidence list" where
  "two_sources = [sample_evidence ''e1'' ''raw-1'' [''old-1''], sample_evidence ''e2'' ''raw-2'' []]"

theorem normalization_idempotent_witness:
  "tn_report_md (normalize_report_source_tokens ''As [Source:old-1], [source:x].'' two_sources (Some [])) =
     ''As [source:raw-1], [source:x].''
   \<and> tn_report_md (normalize_report_source_tokens
       (tn_report_md (normalize_report_source_tokens ''As [Source:old-1], [source:x].'' two_sources
          (Some []))) two_sources None) = ''As [source:raw-1], [source:x].''"
proof -
  have c: "citable two_sources" by code_simp
  have v: "list_all is_valid_source_token (source_tokens ''As [Source:old-1], [source:x].'' True)"
    by code_simp
  have t: "tn_report_md (normalize_report_source_tokens ''As [Source:old-1], [source:x].'' two_sources
      (Some [])) = ''As [source:raw-1], [source:x].''" by code_simp
  show ?thesis using normalization_idempotent[OF c v, of "Some []" None] t by simp
qed

section \<open>The evidence scope of a normalised report\<close>

lemma adopted_not_out_of_scope:
  "so_status (adopt_out_of_scope r) = OutOfScope \<Longrightarrow> \<not> given (so_evidence_id (adopt_out_of_scope r))"
  by (auto simp: adopt_out_of_scope_def split: if_splits)

lemma citation_scope:
  "normalize_citation ix h t = (out1, r, ids, ch) \<Longrightarrow>
     (so_resolved r \<and> given (so_evidence_id r) \<longrightarrow> ids = [the (so_evidence_id r)])
     \<and> (so_status r = OutOfScope \<longrightarrow> \<not> given (so_evidence_id r))"
  using adopted_not_out_of_scope[of "resolve ix t"]
  by (auto simp: normalize_citation_def Let_def unresolved_token_def so_resolved_def
      split: if_splits)

lemma segments_scope:
  "normalize_segments ix gs = (out1, rs, ids, ch) \<Longrightarrow> r \<in> set rs \<Longrightarrow>
     (so_resolved r \<and> given (so_evidence_id r) \<longrightarrow> the (so_evidence_id r) \<in> set ids)
     \<and> (so_status r = OutOfScope \<longrightarrow> \<not> given (so_evidence_id r))"
proof (induction gs arbitrary: out1 rs ids ch)
  case Nil
  then show ?case by simp
next
  case (Cons g gs)
  obtain o2 r2 i2 c2 where m: "normalize_segments ix gs = (o2, r2, i2, c2)"
    by (cases "normalize_segments ix gs") auto
  show ?case
  proof (cases g)
    case (Plain c)
    then show ?thesis using Cons.prems Cons.IH[OF m] m by simp
  next
    case (Cite h t)
    obtain o1 r1 i1 c1 where n: "normalize_citation ix h t = (o1, r1, i1, c1)"
      by (cases "normalize_citation ix h t") auto
    have e: "rs = r1 # r2" "ids = i1 @ i2" using Cons.prems(1) n m Cite by auto
    then consider "r = r1" | "r \<in> set r2" using Cons.prems(2) by auto
    then show ?thesis
    proof cases
      case 1
      then show ?thesis using citation_scope[OF n] e by simp
    next
      case 2
      then show ?thesis using Cons.IH[OF m] e by simp
    qed
  qed
qed

lemma set_dedupe_strings: "set (dedupe_strings xs) = strip ` set xs - {[]}"
  using kf.dd_keys[of id "\<lambda>v. v \<noteq> []" "map strip xs"] by (auto simp: dedupe_strings_def image_iff)

lemma distinct_dedupe_strings: "distinct (dedupe_strings xs)"
  using kf.dd_distinct[of id] by (simp add: dedupe_strings_def)

lemma dedupe_strings_prefix: "\<exists>zs. dedupe_strings (xs @ ys) = dedupe_strings xs @ zs"
  using kf.dd_extend by (simp add: dedupe_strings_def)

text \<open>The evidence scope of a normalised report only grows, and covers its citations: the
  new scope begins with the old one (stripped, without repetitions or blanks), repeats nothing,
  and contains the evidence of every citation that was resolved; a citation that some record
  answers to is never left out of scope.\<close>

theorem normalized_scope_covers:
  fixes n ids md evs
  defines "n \<equiv> normalize_report_source_tokens md evs (Some ids)"
  shows "take (length (dedupe_strings ids)) (tn_evidence_ids n) = dedupe_strings ids
     \<and> distinct (tn_evidence_ids n)
     \<and> list_all (\<lambda>r. if given (so_evidence_id r)
          then so_status r \<noteq> OutOfScope
             \<and> (if so_resolved r \<and> strip (the (so_evidence_id r)) \<noteq> []
                then strip (the (so_evidence_id r)) \<in> set (tn_evidence_ids n) else True)
          else True) (tn_resolutions n)"
proof -
  obtain o1 rs is1 ch where s: "normalize_segments (source_resolution_index evs (Some ids))
      (segments not_close md) = (o1, rs, is1, ch)"
    by (cases "normalize_segments (source_resolution_index evs (Some ids)) (segments not_close md)") auto
  have n: "tn_evidence_ids n = dedupe_strings (ids @ dedupe_strings is1)" "tn_resolutions n = rs"
    by (simp_all add: n_def normalize_report_source_tokens_def s merge_ids_def)
  have "set (tn_evidence_ids n) = strip ` (set ids \<union> set is1) - {[]}"
    unfolding n set_dedupe_strings set_append set_dedupe_strings
    by (auto intro: image_eqI[of _ _ "strip x" for x])
  then have r: "r \<in> set rs \<Longrightarrow> so_resolved r \<Longrightarrow> given (so_evidence_id r) \<Longrightarrow>
      strip (the (so_evidence_id r)) \<noteq> [] \<Longrightarrow> strip (the (so_evidence_id r)) \<in> set (tn_evidence_ids n)" for r
    using segments_scope[OF s] by auto
  obtain zs where "tn_evidence_ids n = dedupe_strings ids @ zs"
    using dedupe_strings_prefix unfolding n by metis
  then have p: "take (length (dedupe_strings ids)) (tn_evidence_ids n) = dedupe_strings ids" by simp
  show ?thesis
    using r segments_scope[OF s] unfolding n(2) list_all_iff
    by (intro conjI p) (simp add: n distinct_dedupe_strings, auto)
qed

section \<open>Layered reports\<close>

lemma artifact_copy_ok:
  assumes "normalized_report_artifact_copy artifact core support audit full = Inr (Some a)"
  shows "validate_report_artifact a = Inr a \<and> full = join_layers [core, support, audit]
     \<and> rl_markdown (ra_core_report a) = core \<and> rl_markdown (ra_support_appendix a) = support
     \<and> rl_markdown (ra_audit_log a) = audit \<and> rr_full_markdown (ra_render_cache a) = full"
proof -
  obtain a0 where a0: "artifact = Some a0"
    using assms by (cases artifact) (auto simp: normalized_report_artifact_copy_def)
  define a1 where "a1 = a0\<lparr>ra_core_report := (ra_core_report a0)\<lparr>rl_markdown := core\<rparr>,
             ra_support_appendix := (ra_support_appendix a0)\<lparr>rl_markdown := support\<rparr>,
             ra_audit_log := (ra_audit_log a0)\<lparr>rl_markdown := audit\<rparr>,
             ra_render_cache := \<lparr>rr_core_markdown = core, rr_support_markdown = support,
               rr_audit_markdown = audit, rr_full_markdown = full\<rparr>\<rparr>"
  have "validate_report_artifact a1 = Inr a"
    using assms unfolding a0 normalized_report_artifact_copy_def a1_def
    by (cases "validate_report_artifact (a0\<lparr>ra_core_report := (ra_core_report a0)\<lparr>rl_markdown := core\<rparr>,
             ra_support_appendix := (ra_support_appendix a0)\<lparr>rl_markdown := support\<rparr>,
             ra_audit_log := (ra_audit_log a0)\<lparr>rl_markdown := audit\<rparr>,
             ra_render_cache := \<lparr>rr_core_markdown = core, rr_support_markdown = support,
               rr_audit_markdown = audit, rr_full_markdown = full\<rparr>\<rparr>)") simp_all
  moreover from this have "a = a1"
    unfolding validate_report_artifact_iff validate_slots_iff by blast
  ultimately show ?thesis
    unfolding validate_report_artifact_iff validate_slots_iff by (auto simp: a1_def)
qed

text \<open>What is stored for a structured report is consistent: when normalising the sources of
  a version with a structured artifact succeeds, the stored artifact passes its own validation,
  its layers are the version's three layer texts, and the report text, the full report and the
  artifact's rendered text are all the join of these layers. The identity of the version does
  not change.\<close>

theorem normalized_layers_consistent:
  assumes "normalize_report_version_sources v evs = Inr w" and "rv_report_artifact w = Some a"
  shows "validate_report_artifact a = Inr a
     \<and> rl_markdown (ra_core_report a) = rv_core_report_md w
     \<and> rl_markdown (ra_support_appendix a) = rv_support_appendix_md w
     \<and> rl_markdown (ra_audit_log a) = rv_audit_log_md w
     \<and> rv_report_md w = join_layers [rv_core_report_md w, rv_support_appendix_md w, rv_audit_log_md w]
     \<and> rv_full_report_md w = rv_report_md w \<and> rr_full_markdown (ra_render_cache a) = rv_report_md w
     \<and> rv_id w = rv_id v \<and> rv_version_number w = rv_version_number v \<and> rv_status w = rv_status v"
proof (cases "has_layered_report_content v")
  case False
  then show ?thesis
    using assms by (auto simp: normalize_report_version_sources_def has_layered_report_content_def Let_def)
next
  case True
  then have "normalize_layered_report_version_sources v evs = Inr w"
    using assms(1) by (simp add: normalize_report_version_sources_def)
  then show ?thesis
    using assms(2) unfolding normalize_layered_report_version_sources_def Let_def
    by (auto split: sum.splits dest!: artifact_copy_ok)
qed

definition sample_layer :: "str \<Rightarrow> str \<Rightarrow> report_layer" where
  "sample_layer layer md = \<lparr>rl_layer = layer, rl_markdown = md, rl_sections = [], rl_metadata = []\<rparr>"

definition sample_artifact :: "str \<Rightarrow> report_artifact" where
  "sample_artifact md =
     \<lparr>ra_artifact_version = 2, ra_run_id = ''r1'', ra_core_report = sample_layer ''core'' md,
      ra_support_appendix = sample_layer ''support'' [], ra_audit_log = sample_layer ''audit'' [],
      ra_claim_card_bundles = [], ra_decision_card_bundle = None, ra_section_briefs = [],
      ra_quality = \<lparr>qa_core_gate = [], qa_support_gate = [], qa_audit_gate = [], qa_warnings = [],
        qa_blockers = [], qa_revision_count = 0\<rparr>,
      ra_render_cache = \<lparr>rr_core_markdown = md, rr_support_markdown = [], rr_audit_markdown = [],
        rr_full_markdown = md\<rparr>,
      ra_legacy = \<lparr>lg_source = ''report_artifact_v2'', lg_report_md_alias = False\<rparr>, ra_metadata = []\<rparr>"

definition sample_version :: "str \<Rightarrow> report_artifact option \<Rightarrow> report_version" where
  "sample_version md artifact =
     \<lparr>rv_id = ''v1'', rv_workspace_id = ''w1'', rv_project_id = ''p1'', rv_run_id = Some ''r1'',
      rv_parent_version_id = None, rv_version_number = 1, rv_topic_normalized = ''crm'',
      rv_competitor_layer = ''L1'', rv_competitor_set_hash = ''h'', rv_status = ''draft'',
      rv_report_md = md, rv_core_report_md = [], rv_support_appendix_md = [], rv_audit_log_md = [],
      rv_full_report_md = [], rv_report_artifact = artifact, rv_claim_ids = [], rv_evidence_ids = [],
      rv_quality_metadata = [], rv_created_at = DateTime 2026 6 1 0 0 0 0, rv_published_at = None\<rparr>"

theorem normalized_layers_consistent_witness:
  "\<exists>w. normalize_report_version_sources (sample_version [] (Some (sample_artifact ''By [source:old-1].'')))
       two_sources = Inr w
     \<and> rv_report_md w = ''By [source:raw-1].'' \<and> rv_report_md w = join_layers [rv_core_report_md w,
          rv_support_appendix_md w, rv_audit_log_md w]"
proof -
  let ?v = "sample_version [] (Some (sample_artifact ''By [source:old-1].''))"
  have ok: "is_ok (normalize_report_version_sources ?v two_sources)" by code_simp
  then obtain w where w: "normalize_report_version_sources ?v two_sources = Inr w"
    by (cases "normalize_report_version_sources ?v two_sources") auto
  have "map_sum id (\<lambda>w. (rv_report_md w, rv_report_artifact w \<noteq> None))
      (normalize_report_version_sources ?v two_sources) = Inr (''By [source:raw-1].'', True)"
    by code_simp
  then have t: "rv_report_md w = ''By [source:raw-1].''" and "rv_report_artifact w \<noteq> None"
    unfolding w by simp_all
  then obtain a where "rv_report_artifact w = Some a" by blast
  then show ?thesis using normalized_layers_consistent[OF w] w t by blast
qed

lemma normalize_no_close:
  assumes "CHR '']'' \<notin> set md"
  shows "tn_report_md (normalize_report_source_tokens md evs scope) = md"
proof -
  have "normalize_segments ix (map Plain md) = (md, [], [], False)" for ix
    by (induction md) simp_all
  then show ?thesis
    by (simp add: normalize_report_source_tokens_def Let_def segments_no_close[OF assms])
qed

text \<open>C38. A structured report whose layers are all empty cannot be stored together with a plain
  report text: the text becomes the full report, which no longer is the join of the (empty)
  layers, and the re-validation of the artifact raises.\<close>

theorem empty_layers_rejected:
  assumes "rv_report_artifact v = Some a" and "rv_core_report_md v = []"
    and "rv_support_appendix_md v = []" and "rv_audit_log_md v = []"
    and "ra_render_cache a = \<lparr>rr_core_markdown = [], rr_support_markdown = [],
           rr_audit_markdown = [], rr_full_markdown = []\<rparr>"
    and "rv_full_report_md v = []" and "rv_report_md v \<noteq> []" and "CHR '']'' \<notin> set (rv_report_md v)"
  shows "\<exists>e. normalize_report_version_sources v evs = Inl e"
proof -
  have l: "tn_report_md (normalize_report_source_tokens [] evs scope) = []" for scope
    by (simp add: normalize_no_close)
  have t: "tn_report_md (normalize_report_source_tokens (rv_report_md v) evs scope) = rv_report_md v" for scope
    by (rule normalize_no_close[OF assms(8)])
  have "\<nexists>w. normalize_layered_report_version_sources v evs = Inr w"
  proof
    assume "\<exists>w. normalize_layered_report_version_sources v evs = Inr w"
    then obtain b where "normalized_report_artifact_copy (Some a) [] [] [] (rv_report_md v) = Inr b"
      using assms(1-6) t
      by (auto simp: normalize_layered_report_version_sources_def Let_def l str_or_def join_layers_def
          normalize_report_layer_markdown_def split: sum.splits)
    moreover from this obtain c where "b = Some c"
      by (auto simp: normalized_report_artifact_copy_def map_sum_def split: sum.splits)
    ultimately have "rv_report_md v = join_layers [[], [], []]" using artifact_copy_ok by blast
    with assms(7) show False by (simp add: join_layers_def)
  qed
  then show ?thesis
    using assms(1) by (cases "normalize_layered_report_version_sources v evs")
      (auto simp: normalize_report_version_sources_def has_layered_report_content_def)
qed

theorem empty_layers_rejected_witness:
  "\<exists>e. normalize_report_version_sources (sample_version ''Plain report.'' (Some (sample_artifact [])))
     two_sources = Inl e"
  by (rule empty_layers_rejected[where a = "sample_artifact []"])
    (simp_all add: sample_version_def sample_artifact_def)

end
