(* ===== verification/Usage.thy ===== *)
theory Usage
  imports Schema
begin

text \<open>
  enterprise/usage.py: the monthly usage of a workspace against its quotas, and the decision
  whether a new run may start. Ratios are exact rationals where the code has floats.
\<close>

fun current_month_window :: "datetime \<Rightarrow> datetime \<times> datetime" where
  "current_month_window (DateTime y mo d h mi s us) =
     (DateTime y mo 1 0 0 0 0,
      if mo = 12 then DateTime (y + 1) 1 1 0 0 0 0 else DateTime y (mo + 1) 1 0 0 0 0)"

definition usage_ratio :: "rat \<Rightarrow> rat \<Rightarrow> rat" where
  "usage_ratio used quota = (if quota \<le> 0 then 1 else max 0 (used / quota))"

definition usage_status :: "rat list \<Rightarrow> str" where
  "usage_status ratios =
     (if list_ex (\<lambda>r. 1 \<le> r) ratios then ''exceeded''
      else if list_ex (\<lambda>r. 8 / 10 \<le> r) ratios then ''warn''
      else ''ok'')"

definition build_workspace_usage_summary ::
  "datetime \<Rightarrow> workspace \<Rightarrow> datetime \<Rightarrow> datetime \<Rightarrow> int \<Rightarrow> int \<Rightarrow> int \<Rightarrow> int \<Rightarrow> int \<Rightarrow> int \<Rightarrow> rat
    \<Rightarrow> usage_summary" where
  "build_workspace_usage_summary now workspace period_start period_end run_count
     completed_run_count failed_run_count interrupted_run_count input_tokens output_tokens cost =
     (let total_tokens = input_tokens + output_tokens;
          run_ratio = usage_ratio (of_int run_count) (of_int (ws_monthly_run_quota workspace));
          token_ratio = usage_ratio (of_int total_tokens) (of_int (ws_monthly_token_quota workspace));
          cost_ratio = usage_ratio cost (ws_monthly_cost_quota_usd workspace)
      in \<lparr>uu_workspace_id = ws_id workspace, uu_period_start = period_start,
          uu_period_end = period_end, uu_run_count = run_count,
          uu_completed_run_count = completed_run_count, uu_failed_run_count = failed_run_count,
          uu_interrupted_run_count = interrupted_run_count,
          uu_input_tokens_estimate = input_tokens, uu_output_tokens_estimate = output_tokens,
          uu_total_tokens_estimate = total_tokens, uu_cost_estimate_usd = round_digits 6 cost,
          uu_monthly_run_quota = ws_monthly_run_quota workspace,
          uu_monthly_token_quota = ws_monthly_token_quota workspace,
          uu_monthly_cost_quota_usd = ws_monthly_cost_quota_usd workspace,
          uu_run_usage_ratio = round_digits 4 run_ratio,
          uu_token_usage_ratio = round_digits 4 token_ratio,
          uu_cost_usage_ratio = round_digits 4 cost_ratio,
          uu_status = usage_status [run_ratio, token_ratio, cost_ratio], uu_generated_at = now\<rparr>)"

text \<open>The percentage format of a ratio without decimals.\<close>

definition percent :: "rat \<Rightarrow> str" where
  "percent r = str_of_int (round_half_even (r * 100)) @ ''%''"

definition quota_reason :: "usage_summary \<Rightarrow> str \<Rightarrow> str" where
  "quota_reason usage enforcement =
     (if uu_status usage = ''ok'' then ''Workspace usage is within quota.''
      else
        let pressure = the (max_by snd [(''runs'', uu_run_usage_ratio usage),
              (''tokens'', uu_token_usage_ratio usage), (''cost'', uu_cost_usage_ratio usage)]);
            quota = fst pressure @ '' quota ('' @ percent (snd pressure) @ '')''
        in if uu_status usage = ''warn'' then
             ''Workspace '' @ uu_workspace_id usage @ '' is approaching its monthly '' @ quota @ ''.''
           else if enforcement = ''monitor'' then
             ''Workspace '' @ uu_workspace_id usage @ '' exceeded its monthly '' @ quota
               @ ''; monitor mode allows runs.''
           else
             ''Workspace '' @ uu_workspace_id usage @ '' exceeded its monthly '' @ quota
               @ ''; new runs are blocked.'')"

definition build_quota_decision :: "usage_summary \<Rightarrow> str \<Rightarrow> quota_decision" where
  "build_quota_decision usage enforcement =
     \<lparr>qd_workspace_id = uu_workspace_id usage,
      qd_allowed = (uu_status usage \<noteq> ''exceeded'' \<or> enforcement = ''monitor''),
      qd_status = uu_status usage, qd_enforcement = enforcement,
      qd_reason = quota_reason usage enforcement, qd_usage = usage\<rparr>"

section \<open>Properties\<close>

lemma usage_ratio_exceeded: "1 \<le> usage_ratio used quota \<longleftrightarrow> \<not> (0 < quota \<and> used < quota)"
  by (auto simp: usage_ratio_def max_def field_simps)

lemma status_exceeded: "usage_status rs = ''exceeded'' \<longleftrightarrow> list_ex (\<lambda>r. 1 \<le> r) rs"
  by (simp add: usage_status_def)

text \<open>Quotas are enforced exactly: unless the workspace is only monitored, a run is allowed
  if and only if each of runs, tokens and cost is strictly below its quota and that quota is
  positive; a quota of zero blocks every run.\<close>

theorem quota_decision_exact:
  "qd_allowed (build_quota_decision (build_workspace_usage_summary now ws p0 p1 runs c f i tin tout cost)
     enforcement) =
   (enforcement = ''monitor'' \<or>
     (0 < ws_monthly_run_quota ws \<and> runs < ws_monthly_run_quota ws
      \<and> 0 < ws_monthly_token_quota ws \<and> tin + tout < ws_monthly_token_quota ws
      \<and> 0 < ws_monthly_cost_quota_usd ws \<and> cost < ws_monthly_cost_quota_usd ws))"
proof -
  have i: "(0 < (of_int b :: rat) \<and> (of_int a :: rat) < of_int b) = (0 < b \<and> a < b)" for a b by simp
  show ?thesis
    unfolding build_quota_decision_def build_workspace_usage_summary_def Let_def
    by (simp add: status_exceeded usage_ratio_exceeded i del: of_int_add)
      (metis (no_types, opaque_lifting))
qed

text \<open>The default usage window is the calendar month of the clock: it contains the present
  instant, starts at the first of the month at midnight, and ends where the window of the
  following month starts.\<close>

theorem month_window_contains:
  assumes "1 \<le> dt_month now" "dt_month now \<le> 12" "1 \<le> dt_day now" "0 \<le> dt_hour now"
    "0 \<le> dt_minute now" "0 \<le> dt_second now" "0 \<le> dt_micro now"
  shows "fst (current_month_window now) \<le> now \<and> now < snd (current_month_window now)
     \<and> fst (current_month_window (snd (current_month_window now))) = snd (current_month_window now)"
  using assms
  by (cases now) (auto simp: less_eq_datetime_def less_datetime_def)

theorem month_window_contains_witness:
  "fst (current_month_window (DateTime 2026 12 31 23 59 59 0)) \<le> DateTime 2026 12 31 23 59 59 0
   \<and> snd (current_month_window (DateTime 2026 12 31 23 59 59 0)) = DateTime 2027 1 1 0 0 0 0"
  using month_window_contains[of "DateTime 2026 12 31 23 59 59 0"] by simp

end
