(* ===== verification/Refs.thy ===== *)
theory Refs
  imports Schema
begin

text \<open>
  The reference helpers of refs/: the order of report versions, the resolution of competitor
  names and aliases, the selection of dimensions, merged lists of references, and the keys of
  quality findings.
\<close>

section \<open>Report versions: refs/reports.py\<close>

definition status_rank :: "str \<Rightarrow> int" where
  "status_rank status =
     (case map_of [(''published'', 0), (''approved'', 1), (''in_review'', 2), (''draft'', 3),
        (''rejected'', 4), (''archived'', 5)] status of Some n \<Rightarrow> n | None \<Rightarrow> 99)"

definition version_key :: "report_version \<Rightarrow> int \<times> datetime \<times> int" where
  "version_key v =
     (rv_version_number v, case rv_published_at v of Some t \<Rightarrow> t | None \<Rightarrow> rv_created_at v,
      - status_rank (rv_status v))"

definition role_statuses :: "str \<Rightarrow> str list option" where
  "role_statuses role =
     (if role = ''published'' then Some [''published'']
      else if role = ''approved'' then Some [''published'', ''approved'']
      else if role = ''reviewable'' then Some [''draft'', ''in_review'', ''approved'', ''published'']
      else None)"

definition role_admits :: "str \<Rightarrow> report_version \<Rightarrow> bool" where
  "role_admits role v =
     (case role_statuses role of Some ss \<Rightarrow> rv_status v \<in> set ss | None \<Rightarrow> True)"

definition sort_report_versions :: "report_version list \<Rightarrow> str \<Rightarrow> report_version list" where
  "sort_report_versions versions role = sort_desc version_key (filter (role_admits role) versions)"

definition select_report_version :: "report_version list \<Rightarrow> str \<Rightarrow> report_version option" where
  "select_report_version versions role =
     (case sort_report_versions versions role of [] \<Rightarrow> None | v # vs \<Rightarrow> Some v)"

section \<open>Competitors: refs/competitors.py\<close>

record competitor_ref =
  cr_id :: str
  cr_name :: str
  cr_aliases :: "str list"

definition ref_keys :: "competitor_ref \<Rightarrow> str list" where
  "ref_keys c = filter (\<lambda>k. normalize_key (Some k) \<noteq> []) ([cr_id c, cr_name c] @ cr_aliases c)"

record competitor_resolver =
  cx_by_id :: "(str \<times> competitor_ref) list"
  cx_id_by_key :: "(str \<times> str) list"

definition competitor_resolver :: "competitor_ref list \<Rightarrow> competitor_resolver" where
  "competitor_resolver competitors =
     \<lparr>cx_by_id = fold (\<lambda>c. AList.update (cr_id c) c) competitors [],
      cx_id_by_key = fold (\<lambda>c d. fold (\<lambda>k. AList.update (normalize_key (Some k)) (cr_id c)) (ref_keys c) d)
        competitors []\<rparr>"

definition resolver_from_records :: "competitor list \<Rightarrow> competitor_resolver" where
  "resolver_from_records cs =
     competitor_resolver (map (\<lambda>c. \<lparr>cr_id = cp_id c, cr_name = cp_name c,
       cr_aliases = cp_normalized_name c # cp_aliases c\<rparr>) cs)"

definition resolve_id :: "competitor_resolver \<Rightarrow> str option \<Rightarrow> str option \<Rightarrow> str" where
  "resolve_id r value fallback =
     (if \<not> given value then or_str fallback []
      else
        let key = normalize_key value
        in or_str (opt_or (map_of (cx_id_by_key r) key) fallback) key)"

definition display_name :: "competitor_resolver \<Rightarrow> str \<Rightarrow> str" where
  "display_name r cid = (case map_of (cx_by_id r) cid of Some c \<Rightarrow> cr_name c | None \<Rightarrow> cid)"

definition alias_map :: "competitor_resolver \<Rightarrow> (str \<times> str) list" where
  "alias_map r = cx_id_by_key r"

section \<open>Dimensions: refs/dimensions.py\<close>

record dimension_ref =
  dr_key :: str
  dr_label :: str

definition normalize_dimension_ref :: "str option \<Rightarrow> str option \<Rightarrow> dimension_ref" where
  "normalize_dimension_ref value label =
     (let key = normalize_dimension_key value
      in \<lparr>dr_key = key, dr_label = or_str label (or_str value key)\<rparr>)"

text \<open>
  One of the three loops of \<open>normalize_dimension_refs\<close>: the keys seen so far and the result
  so far, with an optional number of results at which the loop stops.
\<close>

definition admits :: "(str \<times> str) list \<Rightarrow> str list \<times> str list \<Rightarrow> str \<Rightarrow> bool" where
  "admits allowed st v =
     (let key = normalize_dimension_key (Some v)
      in key \<noteq> [] \<and> key \<notin> set (fst st) \<and> (allowed = [] \<or> map_of allowed key \<noteq> None))"

definition push_dimension :: "(str \<times> str) list \<Rightarrow> str list \<times> str list \<Rightarrow> str \<Rightarrow> str list \<times> str list" where
  "push_dimension allowed st v =
     (let key = normalize_dimension_key (Some v)
      in (key # fst st, snd st @ [case map_of allowed key of Some a \<Rightarrow> a | None \<Rightarrow> key]))"

definition is_full :: "int option \<Rightarrow> str list \<times> str list \<Rightarrow> bool" where
  "is_full limit st = (case limit of Some n \<Rightarrow> n \<le> int (length (snd st)) | None \<Rightarrow> False)"

fun take_dimensions ::
  "(str \<times> str) list \<Rightarrow> int option \<Rightarrow> str list \<times> str list \<Rightarrow> str list \<Rightarrow> str list \<times> str list" where
  "take_dimensions allowed limit st [] = st"
| "take_dimensions allowed limit st (v # vs) =
     (if \<not> admits allowed st v then take_dimensions allowed limit st vs
      else
        let st' = push_dimension allowed st v
        in if is_full limit st' then st' else take_dimensions allowed limit st' vs)"

definition normalize_dimension_refs ::
  "str list \<Rightarrow> str list option \<Rightarrow> str list \<Rightarrow> str list \<Rightarrow> int option \<Rightarrow> str list" where
  "normalize_dimension_refs vals allowed fallback require max_count =
     (let allowed_map = fold (\<lambda>a. AList.update (normalize_dimension_key (Some a)) a)
            (filter (\<lambda>a. a \<noteq> []) (case allowed of Some xs \<Rightarrow> xs | None \<Rightarrow> [])) [];
          (seen1, result1) = take_dimensions allowed_map max_count ([], []) vals;
          (seen2, result2) = (if result1 = [] then take_dimensions allowed_map None (seen1, result1) fallback
                              else (seen1, result1))
      in snd (take_dimensions allowed_map None (seen2, result2) require))"

section \<open>Lists: refs/lists.py\<close>

definition merge_ordered_refs :: "json list list \<Rightarrow> str list" where
  "merge_ordered_refs groups =
     keep_first id (\<lambda>v. v \<noteq> []) [] (map (\<lambda>v. strip (py_str v)) (filter (\<lambda>v. v \<noteq> JNull) (concat groups)))"

section \<open>Quality findings: refs/quality.py\<close>

definition message_fingerprint :: "str option \<Rightarrow> str" where
  "message_fingerprint message = take 240 (join '' '' (split_ws (lower (or_str message []))))"

definition quality_finding_key ::
  "str \<Rightarrow> str option \<Rightarrow> str option \<Rightarrow> str option \<Rightarrow> str list \<Rightarrow> str list \<Rightarrow> str" where
  "quality_finding_key source severity rule_id message evidence_ids claim_ids =
     ''quality:'' @ stable_digest [JStr source, JStr (or_str severity []), JStr (or_str rule_id []),
       JStr (message_fingerprint message), jstrs (sort evidence_ids), jstrs (sort claim_ids)] (Some 20)"

definition quality_entry_keys ::
  "str \<Rightarrow> int \<Rightarrow> int \<Rightarrow> str list \<Rightarrow> str list \<Rightarrow> str \<Rightarrow> str list" where
  "quality_entry_keys agent_name blocker_count warn_count evidence_ids claim_ids summary =
     (if blocker_count = 0 \<and> warn_count = 0 then []
      else [quality_finding_key agent_name
              (Some (if blocker_count \<noteq> 0 then ''blocker'' else ''warn'')) None (Some summary)
              evidence_ids claim_ids])"

section \<open>Properties\<close>

lemma sort_desc_hd:
  assumes "sort_desc f xs = y # ys"
  shows "y \<in> set xs \<and> (\<forall>x \<in> set xs. f x \<le> f y)"
proof -
  have s: "set (y # ys) = set xs" using set_sort_desc[of f xs] assms by simp
  have "sorted (rev (map f ys) @ [f y])" using sorted_sort_desc[of f xs] unfolding assms by simp
  then have "\<forall>x \<in> set (y # ys). f x \<le> f y" by (auto simp: sorted_append)
  then show ?thesis using s by auto
qed

text \<open>Selecting a report version by role gives the last one: it is one of the versions whose
  status the role admits, and no admitted version has a higher number, nor the same number and
  a later date; none is selected only when no version has an admitted status.\<close>

theorem select_report_version_last:
  "case select_report_version versions role of
     None \<Rightarrow> filter (role_admits role) versions = []
   | Some v \<Rightarrow> v \<in> set versions \<and> role_admits role v
       \<and> list_all (\<lambda>w. version_key w \<le> version_key v) (filter (role_admits role) versions)"
proof (cases "sort_report_versions versions role")
  case Nil
  then have "filter (role_admits role) versions = []"
    by (metis length_0_conv length_sort_desc sort_report_versions_def)
  then show ?thesis using Nil by (simp add: select_report_version_def)
next
  case (Cons v vs)
  have "v \<in> set (filter (role_admits role) versions)
      \<and> (\<forall>w \<in> set (filter (role_admits role) versions). version_key w \<le> version_key v)"
    by (rule sort_desc_hd[OF Cons[unfolded sort_report_versions_def]])
  then show ?thesis using Cons by (simp add: select_report_version_def list_all_iff)
qed

text \<open>The keys of the allowed dimensions are their normal forms.\<close>

abbreviation dkey :: "str \<Rightarrow> str" where
  "dkey d \<equiv> normalize_dimension_key (Some d)"

definition keyed_dims :: "(str \<times> str) list \<Rightarrow> bool" where
  "keyed_dims allowed \<longleftrightarrow> (\<forall>k a. map_of allowed k = Some a \<longrightarrow> dkey a = k)"

lemma keyed_dims_update: "keyed_dims d \<Longrightarrow> keyed_dims (AList.update (dkey a) a d)"
  by (simp add: keyed_dims_def dict_simps)

lemma keyed_dims_fold:
  "keyed_dims d \<Longrightarrow> keyed_dims (fold (\<lambda>a. AList.update (dkey a) a) xs d)"
  by (induction xs arbitrary: d) (simp_all add: keyed_dims_update)

lemma allowed_values:
  "map_of (fold (\<lambda>a. AList.update (dkey a) a) xs d) k = Some a \<Longrightarrow> a \<in> set xs \<or> map_of d k = Some a"
proof (induction xs arbitrary: d)
  case (Cons x xs)
  have "a \<in> set xs \<or> map_of (AList.update (dkey x) x d) k = Some a"
    using Cons by simp
  then show ?case by (cases "k = dkey x") (auto simp: dict_simps)
qed simp

lemma allowed_keys:
  "dom (map_of (fold (\<lambda>a. AList.update (dkey a) a) xs d)) = dkey ` set xs \<union> dom (map_of d)"
  by (induction xs arbitrary: d) (auto simp: dict_simps)

lemma allowed_empty: "fold (\<lambda>a. AList.update (dkey a) a) xs [] = [] \<longleftrightarrow> xs = []"
  using allowed_keys[of xs "[]"] by (cases "fold (\<lambda>a. AList.update (dkey a) a) xs []") auto

text \<open>The state of the loops: the seen keys are those of the results.\<close>

definition dims_state :: "(str \<times> str) list \<Rightarrow> str list \<times> str list \<Rightarrow> bool" where
  "dims_state allowed st \<longleftrightarrow> distinct (map dkey (snd st)) \<and> set (fst st) = dkey ` set (snd st)
     \<and> (\<forall>r \<in> set (snd st). dkey r \<noteq> [] \<and> (allowed = [] \<or> map_of allowed (dkey r) = Some r))"

lemma push_state:
  assumes "keyed_dims allowed" "dims_state allowed st" "admits allowed st v"
  shows "dims_state allowed (push_dimension allowed st v)"
proof -
  let ?x = "case map_of allowed (dkey v) of Some a \<Rightarrow> a | None \<Rightarrow> dkey v"
  have x: "dkey ?x = dkey v"
    using assms(1) by (auto simp: keyed_dims_def normalize_dimension_key_idem split: option.splits)
  have a: "dkey v \<noteq> []" "dkey v \<notin> dkey ` set (snd st)" "allowed = [] \<or> map_of allowed (dkey v) = Some ?x"
    using assms(2,3) by (auto simp: admits_def dims_state_def Let_def)
  show ?thesis
    using assms(2) a unfolding dims_state_def push_dimension_def Let_def by (simp add: x)
qed

lemma take_dimensions_state:
  "keyed_dims allowed \<Longrightarrow> dims_state allowed st \<Longrightarrow> dims_state allowed (take_dimensions allowed limit st vs)"
  by (induction vs arbitrary: st) (simp_all add: push_state Let_def)

lemma take_dimensions_grows: "set (fst st) \<subseteq> set (fst (take_dimensions allowed limit st vs))"
proof (induction vs arbitrary: st)
  case (Cons v vs)
  have "set (fst st) \<subseteq> set (fst (push_dimension allowed st v))" by (auto simp: push_dimension_def Let_def)
  with Cons[of "push_dimension allowed st v"] Cons[of st] show ?case by (auto simp: Let_def)
qed simp

lemma take_dimensions_all:
  assumes "v \<in> set vs" "dkey v \<noteq> []" "allowed = [] \<or> map_of allowed (dkey v) \<noteq> None"
  shows "dkey v \<in> set (fst (take_dimensions allowed None st vs))"
  using assms(1)
proof (induction vs arbitrary: st)
  case (Cons w vs)
  show ?case
  proof (cases "v = w")
    case True
    have "dkey v \<in> set (fst (if admits allowed st v then push_dimension allowed st v else st))"
      using assms(2,3) by (auto simp: admits_def push_dimension_def Let_def)
    then show ?thesis
      using True take_dimensions_grows[of "push_dimension allowed st v" allowed None vs]
        take_dimensions_grows[of st allowed None vs]
      by (auto simp: Let_def is_full_def split: if_splits)
  next
    case False
    then show ?thesis using Cons by (simp add: Let_def is_full_def)
  qed
qed simp

text \<open>The normalised dimensions of a request are a proper selection: no two results have the
  same key, none has an empty key, with a list of allowed dimensions every result is one of
  them, and every required dimension that is allowed and has a key is among the results.\<close>

theorem normalize_dimension_refs_sound:
  fixes vals allowed fallback require limit
  defines "result \<equiv> normalize_dimension_refs vals allowed fallback require limit"
  shows "distinct (map dkey result) \<and> list_all (\<lambda>r. dkey r \<noteq> []) result
     \<and> (case allowed of None \<Rightarrow> True
        | Some xs \<Rightarrow> if filter (\<lambda>a. a \<noteq> []) xs = [] then True else set result \<subseteq> set xs)
     \<and> dkey ` set (filter (\<lambda>v. dkey v \<noteq> [] \<and> (case allowed of None \<Rightarrow> True
          | Some xs \<Rightarrow> filter (\<lambda>a. a \<noteq> []) xs = [] \<or> dkey v \<in> dkey ` set (filter (\<lambda>a. a \<noteq> []) xs))) require)
        \<subseteq> dkey ` set result"
proof -
  define ys where "ys = filter (\<lambda>a. a \<noteq> []) (case allowed of Some xs \<Rightarrow> xs | None \<Rightarrow> [])"
  define m where "m = fold (\<lambda>a. AList.update (dkey a) a) ys []"
  obtain s1 where s1: "s1 = take_dimensions m limit ([], []) vals" by blast
  obtain s2 where s2: "s2 = (if snd s1 = [] then take_dimensions m None s1 fallback else s1)" by blast
  obtain s3 where s3: "s3 = take_dimensions m None s2 require" by blast
  have r: "result = snd s3"
    unfolding result_def normalize_dimension_refs_def Let_def ys_def[symmetric] m_def[symmetric]
      s1[symmetric] by (cases s1) (simp add: s3 s2 split_beta)
  have "dims_state m ([], [])" by (simp add: dims_state_def)
  moreover have "keyed_dims m" unfolding m_def by (rule keyed_dims_fold) (simp add: keyed_dims_def)
  ultimately have st: "dims_state m s3" unfolding s3 s2 s1 by (simp add: take_dimensions_state)
  have e: "m = [] \<longleftrightarrow> ys = []" unfolding m_def by (rule allowed_empty)
  have sub: "ys \<noteq> [] \<Longrightarrow> set result \<subseteq> set ys"
    using st e allowed_values[of ys "[]"] unfolding r dims_state_def m_def by fastforce
  have req: "dkey v \<in> dkey ` set result"
    if "v \<in> set require" "dkey v \<noteq> []" "ys = [] \<or> dkey v \<in> dkey ` set ys" for v
  proof -
    have "m = [] \<or> map_of m (dkey v) \<noteq> None"
      using that(3) e allowed_keys[of ys "[]"] unfolding m_def[symmetric] by auto
    then have "dkey v \<in> set (fst s3)" unfolding s3 by (rule take_dimensions_all[OF that(1,2)])
    then show ?thesis using st unfolding r dims_state_def by blast
  qed
  have base: "distinct (map dkey result)" "list_all (\<lambda>r. dkey r \<noteq> []) result"
    using st unfolding r dims_state_def list_all_iff by auto
  show ?thesis
    using base sub req unfolding ys_def by (cases allowed) auto
qed

end
