(* ===== verification/EmbeddingIndex.thy ===== *)
theory EmbeddingIndex
  imports Schema
begin

text \<open>
  enterprise/embedding_index.py: the deterministic hashing embedding of an evidence record.
  The hashed counts are integers; only the division by the Euclidean norm leaves them, so the
  normalised vector and the similarity are real numbers where the code has floats.
\<close>

definition embedding_dimensions :: nat where
  "embedding_dimensions = 384"

definition embedding_normalize_text :: "str \<Rightarrow> str" where
  "embedding_normalize_text t = strip (lower t)"

text \<open>\<open>findall\<close> of the maximal runs of letters and digits.\<close>

fun runs_of :: "(char \<Rightarrow> bool) \<Rightarrow> str \<Rightarrow> str \<Rightarrow> str list" where
  "runs_of p cur [] = (if cur = [] then [] else [cur])"
| "runs_of p cur (c # cs) =
     (if p c then runs_of p (cur @ [c]) cs
      else if cur = [] then runs_of p [] cs else cur # runs_of p [] cs)"

definition embedding_tokens :: "str \<Rightarrow> str list" where
  "embedding_tokens t = runs_of (\<lambda>c. is_lower c \<or> is_digit c) [] (embedding_normalize_text t)"

definition evidence_embedding_text :: "evidence \<Rightarrow> str" where
  "evidence_embedding_text e =
     join '' '' (map strip (filter (\<lambda>p. p \<noteq> [] \<and> strip p \<noteq> [])
       [ev_title e, ev_snippet e, ev_dimension e, ev_source_type e, ev_canonical_url e]))"

definition embedding_hash :: "str \<Rightarrow> str" where
  "embedding_hash t = sha256_hex (embedding_normalize_text t)"

definition build_evidence_embedding_record :: "datetime \<Rightarrow> evidence \<Rightarrow> embedding" where
  "build_evidence_embedding_record now e =
     (let t = evidence_embedding_text e
      in \<lparr>em_id = stable_prefixed_id ''embedding'' [JStr (ev_id e)] 24,
          em_workspace_id = ev_workspace_id e, em_project_id = ev_project_id e,
          em_evidence_id = ev_id e, em_embedding_model = ''hashing-384'',
          em_embedding_dimensions = int embedding_dimensions, em_embedding_hash = embedding_hash t,
          em_embedding_text = t, em_created_at = now, em_updated_at = now, em_metadata = []\<rparr>)"

text \<open>The bucket and the sign of a token: the first four bytes and the fifth of its digest.\<close>

definition token_bucket :: "nat \<Rightarrow> str \<Rightarrow> nat \<times> int" where
  "token_bucket dimensions token =
     (let digest = sha256_hex token
      in (int_of_hex (take 8 digest) mod dimensions,
          if even (int_of_hex (take 2 (drop 8 digest))) then 1 else - 1))"

definition count_vector :: "nat \<Rightarrow> str \<Rightarrow> int list" where
  "count_vector dimensions t =
     fold (\<lambda>token v. let (i, sign) = token_bucket dimensions token in v[i := v ! i + sign])
       (embedding_tokens t) (replicate dimensions 0)"

definition vector_norm :: "int list \<Rightarrow> real" where
  "vector_norm v = sqrt (of_int (sum_list (map (\<lambda>x. x * x) v)))"

definition deterministic_embedding :: "str \<Rightarrow> nat \<Rightarrow> real list" where
  "deterministic_embedding t dimensions =
     (let v = count_vector dimensions t; n = vector_norm v
      in if n = 0 then map of_int v else map (\<lambda>x. of_int x / n) v)"

definition cosine_similarity :: "real list \<Rightarrow> real list \<Rightarrow> real" where
  "cosine_similarity l r =
     (if l = [] \<or> r = [] \<or> length l \<noteq> length r then 0
      else sum_list (map (\<lambda>(a, b). a * b) (zip l r)))"

section \<open>Properties\<close>

lemma length_count_vector [simp]: "length (count_vector d t) = d"
proof -
  have "length (fold (\<lambda>token v. let (i, sign) = token_bucket d token in v[i := v ! i + sign]) ts v) = length v"
    for ts :: "str list" and v :: "int list"
    by (induction ts arbitrary: v) (auto simp: Let_def split: prod.splits)
  then show ?thesis by (simp add: count_vector_def)
qed

lemma length_deterministic_embedding [simp]: "length (deterministic_embedding t d) = d"
  by (simp add: deterministic_embedding_def Let_def)

text \<open>The norm of an embedding is one, unless the text has no token that survives.\<close>

lemma embedding_unit:
  "sum_list (map (\<lambda>x. x * x) (deterministic_embedding t d)) = (if vector_norm (count_vector d t) = 0 then 0 else 1)"
proof -
  define v where "v = count_vector d t"
  define n where "n = vector_norm v"
  have sq: "sum_list (map (\<lambda>x. real_of_int x * real_of_int x) v) = n * n"
  proof -
    have "0 \<le> sum_list (map (\<lambda>x. x * x) v)" by (rule sum_list_nonneg) auto
    then have "n * n = of_int (sum_list (map (\<lambda>x. x * x) v))"
      unfolding n_def vector_norm_def by (simp add: real_sqrt_mult_self)
    also have "\<dots> = sum_list (map (\<lambda>x. real_of_int x * real_of_int x) v)"
      by (induction v) simp_all
    finally show ?thesis by simp
  qed
  show ?thesis
  proof (cases "n = 0")
    case True
    then show ?thesis
      using sq by (simp add: deterministic_embedding_def Let_def v_def[symmetric] n_def[symmetric] comp_def)
  next
    case False
    have "sum_list (map (\<lambda>x. real_of_int x / n * (real_of_int x / n)) v) =
        sum_list (map (\<lambda>x. real_of_int x * real_of_int x) v) / (n * n)"
      by (induction v) (simp_all add: add_divide_distrib)
    then show ?thesis
      using sq False by (simp add: deterministic_embedding_def Let_def v_def[symmetric] n_def[symmetric] comp_def)
  qed
qed

lemma cosine_range:
  "\<bar>cosine_similarity (deterministic_embedding s d) (deterministic_embedding t d)\<bar> \<le> 1
   \<and> cosine_similarity (deterministic_embedding t d) (deterministic_embedding t d) =
       (if vector_norm (count_vector d t) = 0 then 0 else 1)"
proof -
  have prod: "2 * \<bar>sum_list (map (\<lambda>(a, b). a * b) (zip l r))\<bar>
      \<le> sum_list (map (\<lambda>x. x * x) l) + sum_list (map (\<lambda>x. x * x) r)"
    if "length l = length r" for l r :: "real list"
    using that
  proof (induction l r rule: list_induct2)
    case Nil
    show ?case by simp
  next
    case (Cons x xs y ys)
    have "2 * \<bar>x * y\<bar> \<le> x * x + y * y"
      using sum_squares_bound[of "\<bar>x\<bar>" "\<bar>y\<bar>"] by (simp add: abs_mult power2_eq_square)
    with Cons.IH abs_triangle_ineq[of "x * y" "sum_list (map (\<lambda>(a, b). a * b) (zip xs ys))"]
    show ?case by simp
  qed
  let ?l = "deterministic_embedding s d" and ?r = "deterministic_embedding t d"
  have "sum_list (map (\<lambda>x. x * x) ?l) \<le> 1" "sum_list (map (\<lambda>x. x * x) ?r) \<le> 1"
    by (simp_all add: embedding_unit)
  then have b: "\<bar>sum_list (map (\<lambda>(a, b). a * b) (zip ?l ?r))\<bar> \<le> 1"
    using prod[of ?l ?r] by simp
  have "sum_list (map (\<lambda>(a, b). a * b) (zip l l)) = sum_list (map (\<lambda>x. x * x) l)"
    for l :: "real list" by (induction l) simp_all
  moreover have "vector_norm (count_vector d t) = 0" if "?r = []"
  proof -
    have "d = 0" using arg_cong[OF that, of length] by simp
    then have "length (count_vector d t) = 0" by (simp only: length_count_vector)
    then have "count_vector d t = []" by (rule length_0_conv[THEN iffD1])
    then show ?thesis by (simp add: vector_norm_def)
  qed
  ultimately have "cosine_similarity ?r ?r = (if vector_norm (count_vector d t) = 0 then 0 else 1)"
    using embedding_unit[of t d] by (simp add: cosine_similarity_def)
  with b show ?thesis by (simp add: cosine_similarity_def)
qed

text \<open>A similarity is a cosine: two embeddings of the same size always have a similarity
  between -1 and 1, the range a search hit admits, and a text with any surviving token is at
  similarity 1 to itself.\<close>

theorem similarity_bounds:
  "\<bar>cosine_similarity (deterministic_embedding s d) (deterministic_embedding t d)\<bar> \<le> 1
   \<and> cosine_similarity (deterministic_embedding t d) (deterministic_embedding t d) =
       (if vector_norm (count_vector d t) = 0 then 0 else 1)"
  by (rule cosine_range)

end
