(* ===== verification/Store.thy ===== *)
theory Store
  imports SourceResolver ReportLifecycle Usage Refs EmbeddingIndex
begin

text \<open>
  enterprise/store.py, first part: the state of \<open>EnterpriseMemoryStore\<close>, the audit log, the
  workspaces, members, quotas, notifications, monitors, projects and artifacts. The lock makes
  every operation one step. An operation is a function from the store to its result and the
  new store. What is not code of the program is in the environment \<open>env\<close>: the clock, which
  an operation reads once, pydantic's dump of a record, and pydantic's URL check.
\<close>

record env =
  env_now :: datetime
  env_dump :: "model \<Rightarrow> jdict"
  env_http_url :: "str \<Rightarrow> str option"

record run_context =
  cn_workspace_id :: str
  cn_project_id :: str
  cn_user_id :: str
  cn_competitor_ids :: "str list"
  cn_competitor_id_map :: "(str \<times> str) list"

record store =
  st_workspaces :: "(str \<times> workspace) list"
  st_users :: "(str \<times> user_record) list"
  st_members :: "((str \<times> str) \<times> workspace_member) list"
  st_notifications :: "(str \<times> notification) list"
  st_monitor_jobs :: "(str \<times> monitor_job) list"
  st_run_details :: "(str \<times> run_detail) list"
  st_projects :: "(str \<times> project) list"
  st_competitors :: "(str \<times> competitor) list"
  st_links :: "((str \<times> str) \<times> competitor_link) list"
  st_evidence :: "(str \<times> evidence) list"
  st_embeddings :: "(str \<times> embedding) list"
  st_artifacts :: "(str \<times> artifact) list"
  st_sources :: "(str \<times> source_record) list"
  st_claims :: "(str \<times> claim) list"
  st_reports :: "(str \<times> report_version) list"
  st_audit :: "audit_log list"
  st_contexts :: "(str \<times> run_context) list"

definition default_workspace_id :: str where
  "default_workspace_id = ''default-workspace''"

definition default_user_id :: str where
  "default_user_id = ''system-user''"

section \<open>Defaults\<close>

definition title_from_id :: "str \<Rightarrow> str" where
  "title_from_id value =
     str_or (title_from False (strip (map (\<lambda>c. if c = CHR ''-'' then CHR '' '' else c) value))) value"

definition new_workspace :: "env \<Rightarrow> str \<Rightarrow> str \<Rightarrow> str \<Rightarrow> workspace" where
  "new_workspace env i name description =
     \<lparr>ws_id = i, ws_name = name, ws_description = description, ws_is_active = True,
      ws_monthly_run_quota = 1000, ws_monthly_token_quota = 2000000,
      ws_monthly_cost_quota_usd = 100, ws_quota_enforcement = ''block'',
      ws_created_at = env_now env, ws_updated_at = env_now env\<rparr>"

definition owner_member :: "env \<Rightarrow> str \<Rightarrow> workspace_member" where
  "owner_member env workspace_id =
     \<lparr>wm_workspace_id = workspace_id, wm_user_id = default_user_id, wm_role = ''owner'',
      wm_status = ''active'', wm_created_at = env_now env\<rparr>"

definition empty_store :: store where
  "empty_store =
     \<lparr>st_workspaces = [], st_users = [], st_members = [], st_notifications = [],
      st_monitor_jobs = [], st_run_details = [], st_projects = [], st_competitors = [],
      st_links = [], st_evidence = [], st_embeddings = [], st_artifacts = [], st_sources = [],
      st_claims = [], st_reports = [], st_audit = [], st_contexts = []\<rparr>"

definition bootstrap_defaults :: "env \<Rightarrow> store \<Rightarrow> store" where
  "bootstrap_defaults env s =
     s\<lparr>st_workspaces := dict_setdefault default_workspace_id
          (new_workspace env default_workspace_id ''Default Workspace'' ''Phase 1 default workspace.'')
          (st_workspaces s),
       st_users := dict_setdefault default_user_id
          \<lparr>ur_id = default_user_id, ur_email = ''system@local'', ur_display_name = ''System'',
           ur_role = ''owner'', ur_status = ''active'', ur_created_at = env_now env\<rparr> (st_users s),
       st_members := dict_setdefault (default_workspace_id, default_user_id)
          (owner_member env default_workspace_id) (st_members s)\<rparr>"

definition init_store :: "env \<Rightarrow> store" where
  "init_store env = bootstrap_defaults env empty_store"

definition ensure_workspace :: "env \<Rightarrow> str \<Rightarrow> store \<Rightarrow> store" where
  "ensure_workspace env workspace_id s =
     s\<lparr>st_workspaces := dict_setdefault workspace_id
          (new_workspace env workspace_id (title_from_id workspace_id) '''') (st_workspaces s),
       st_members := dict_setdefault (workspace_id, default_user_id)
          (owner_member env workspace_id) (st_members s)\<rparr>"

section \<open>The audit log\<close>

record audit_entry =
  ae_workspace_id :: str
  ae_actor_id :: "str option"
  ae_action :: str
  ae_resource_type :: str
  ae_resource_id :: str
  ae_before :: "jdict option"
  ae_after :: jdict

definition append_audit :: "env \<Rightarrow> audit_entry \<Rightarrow> store \<Rightarrow> store" where
  "append_audit env a s =
     s\<lparr>st_audit := st_audit s @
        [\<lparr>al_id = stable_prefixed_id ''audit'' [JInt (int (length (st_audit s)) + 1)] 12,
          al_workspace_id = ae_workspace_id a, al_actor_type = ''system'',
          al_actor_id = ae_actor_id a, al_action = ae_action a,
          al_resource_type = ae_resource_type a, al_resource_id = ae_resource_id a,
          al_before = ae_before a, al_after = Some (ae_after a), al_created_at = env_now env\<rparr>]\<rparr>"

definition audit_exists :: "str \<Rightarrow> str \<Rightarrow> str option \<Rightarrow> store \<Rightarrow> bool" where
  "audit_exists action resource_id resource_type s =
     list_ex (\<lambda>l. al_action l = action \<and> al_resource_id l = resource_id
       \<and> (case resource_type of None \<Rightarrow> True | Some t \<Rightarrow> al_resource_type l = t)) (st_audit s)"

definition append_audit_once :: "env \<Rightarrow> audit_entry \<Rightarrow> store \<Rightarrow> store" where
  "append_audit_once env a s =
     (if audit_exists (ae_action a) (ae_resource_id a) (Some (ae_resource_type a)) s then s
      else append_audit env a s)"

text \<open>An entry with its actor falling back to the system user.\<close>

definition audit_of ::
  "str \<Rightarrow> str option \<Rightarrow> str \<Rightarrow> str \<Rightarrow> str \<Rightarrow> jdict option \<Rightarrow> jdict \<Rightarrow> audit_entry" where
  "audit_of workspace_id actor action resource_type resource_id before after =
     \<lparr>ae_workspace_id = workspace_id, ae_actor_id = Some (or_str actor default_user_id),
      ae_action = action, ae_resource_type = resource_type, ae_resource_id = resource_id,
      ae_before = before, ae_after = after\<rparr>"

definition list_audit_logs :: "str option \<Rightarrow> store \<Rightarrow> audit_log list" where
  "list_audit_logs workspace_id s =
     sort_desc al_created_at
       (if given workspace_id then filter (\<lambda>l. Some (al_workspace_id l) = workspace_id) (st_audit s)
        else st_audit s)"

text \<open>A filter that applies when its argument is given.\<close>

definition opt_filter :: "str option \<Rightarrow> ('a \<Rightarrow> str option) \<Rightarrow> 'a list \<Rightarrow> 'a list" where
  "opt_filter v field xs = (if given v then filter (\<lambda>x. field x = v) xs else xs)"

section \<open>Workspaces, members and quotas\<close>

definition list_workspaces :: "store \<Rightarrow> workspace list" where
  "list_workspaces s = sort_key ws_created_at (dict_values (st_workspaces s))"

definition list_workspace_members :: "str option \<Rightarrow> store \<Rightarrow> workspace_member list" where
  "list_workspace_members workspace_id s =
     sort_key (\<lambda>m. (wm_workspace_id m, wm_user_id m))
       (opt_filter workspace_id (\<lambda>m. Some (wm_workspace_id m)) (dict_values (st_members s)))"

definition upsert_workspace_member ::
  "env \<Rightarrow> workspace_member \<Rightarrow> store \<Rightarrow> workspace_member \<times> store" where
  "upsert_workspace_member env member s =
     (let s1 = ensure_workspace env (wm_workspace_id member) s;
          s2 = s1\<lparr>st_members := AList.update (wm_workspace_id member, wm_user_id member) member
                    (st_members s1)\<rparr>
      in (member, append_audit env
            (audit_of (wm_workspace_id member) None ''workspace_member.upserted'' ''workspace_member''
              (audit_relationship_resource_id ''workspace-member''
                [JStr (wm_workspace_id member), JStr (wm_user_id member)])
              None (env_dump env (MMember member))) s2))"

definition get_workspace_member :: "str \<Rightarrow> str \<Rightarrow> store \<Rightarrow> workspace_member option" where
  "get_workspace_member workspace_id user_id s = map_of (st_members s) (workspace_id, user_id)"

definition apply_quota_update :: "datetime \<Rightarrow> quota_update \<Rightarrow> workspace \<Rightarrow> workspace" where
  "apply_quota_update now u w =
     w\<lparr>ws_monthly_run_quota := (case qu_monthly_run_quota u of Some v \<Rightarrow> v | None \<Rightarrow> ws_monthly_run_quota w),
       ws_monthly_token_quota := (case qu_monthly_token_quota u of Some v \<Rightarrow> v | None \<Rightarrow> ws_monthly_token_quota w),
       ws_monthly_cost_quota_usd :=
         (case qu_monthly_cost_quota_usd u of Some v \<Rightarrow> v | None \<Rightarrow> ws_monthly_cost_quota_usd w),
       ws_quota_enforcement := (case qu_quota_enforcement u of Some v \<Rightarrow> v | None \<Rightarrow> ws_quota_enforcement w),
       ws_updated_at := now\<rparr>"

definition quota_update_empty :: "quota_update \<Rightarrow> bool" where
  "quota_update_empty u \<longleftrightarrow> qu_monthly_run_quota u = None \<and> qu_monthly_token_quota u = None
     \<and> qu_monthly_cost_quota_usd u = None \<and> qu_quota_enforcement u = None"

definition update_workspace_quota ::
  "env \<Rightarrow> str \<Rightarrow> quota_update \<Rightarrow> str option \<Rightarrow> store \<Rightarrow> workspace option \<times> store" where
  "update_workspace_quota env workspace_id update actor_id s =
     (case map_of (st_workspaces s) workspace_id of
        None \<Rightarrow> (None, s)
      | Some w \<Rightarrow>
        if quota_update_empty update then (Some w, s)
        else
          let w' = apply_quota_update (env_now env) update w;
              s1 = s\<lparr>st_workspaces := AList.update workspace_id w' (st_workspaces s)\<rparr>
          in (Some w', append_audit env
                (audit_of workspace_id actor_id ''workspace.quota_updated'' ''workspace'' workspace_id
                  (Some (env_dump env (MWorkspace w))) (env_dump env (MWorkspace w'))) s1))"

definition usage_period :: "datetime \<Rightarrow> datetime option \<Rightarrow> datetime option \<Rightarrow> datetime \<times> datetime" where
  "usage_period now period_start period_end =
     (let (default_start, default_end) = current_month_window now
      in (case period_start of Some t \<Rightarrow> t | None \<Rightarrow> default_start,
          case period_end of Some t \<Rightarrow> t | None \<Rightarrow> default_end))"

definition runs_in_period :: "str \<Rightarrow> datetime \<Rightarrow> datetime \<Rightarrow> store \<Rightarrow> run_detail list" where
  "runs_in_period workspace_id t0 t1 s =
     filter (\<lambda>d. rn_workspace_id d = workspace_id \<and> t0 \<le> rn_created_at d \<and> rn_created_at d < t1)
       (dict_values (st_run_details s))"

definition get_workspace_usage ::
  "env \<Rightarrow> str \<Rightarrow> datetime option \<Rightarrow> datetime option \<Rightarrow> store \<Rightarrow> usage_summary \<times> store" where
  "get_workspace_usage env workspace_id period_start period_end s =
     (let s1 = ensure_workspace env workspace_id s;
          workspace = the (map_of (st_workspaces s1) workspace_id);
          (t0, t1) = usage_period (env_now env) period_start period_end;
          runs = runs_in_period workspace_id t0 t1 s1
      in (build_workspace_usage_summary (env_now env) workspace t0 t1 (int (length runs))
            (int (count_if (\<lambda>d. rn_status d = ''completed'') runs))
            (int (count_if (\<lambda>d. rn_status d = ''failed'') runs))
            (int (count_if (\<lambda>d. rn_status d = ''interrupted'') runs))
            (sum_list (map (\<lambda>d. mt_input_tokens_estimate (rn_metrics d)) runs))
            (sum_list (map (\<lambda>d. mt_output_tokens_estimate (rn_metrics d)) runs))
            (sum_list (map (\<lambda>d. mt_cost_estimate_usd (rn_metrics d)) runs)), s1))"

definition check_workspace_quota ::
  "env \<Rightarrow> str \<Rightarrow> datetime option \<Rightarrow> datetime option \<Rightarrow> store \<Rightarrow> quota_decision \<times> store" where
  "check_workspace_quota env workspace_id period_start period_end s =
     (let (usage, s1) = get_workspace_usage env workspace_id period_start period_end s;
          workspace = the (map_of (st_workspaces s1) workspace_id)
      in (build_quota_decision usage (ws_quota_enforcement workspace), s1))"

section \<open>Notifications\<close>

definition list_notifications ::
  "str option \<Rightarrow> str option \<Rightarrow> str option \<Rightarrow> int \<Rightarrow> store \<Rightarrow> notification list" where
  "list_notifications workspace_id project_id status limit s =
     take (nat (max 1 limit)) (sort_desc nt_created_at
       (opt_filter status (\<lambda>n. Some (nt_status n))
         (opt_filter project_id nt_project_id
           (opt_filter workspace_id (\<lambda>n. Some (nt_workspace_id n))
             (dict_values (st_notifications s))))))"

definition upsert_notification :: "env \<Rightarrow> notification \<Rightarrow> store \<Rightarrow> notification \<times> store" where
  "upsert_notification env n s =
     (let s1 = ensure_workspace env (nt_workspace_id n) s;
          before = map_of (st_notifications s1) (nt_id n);
          s2 = s1\<lparr>st_notifications := AList.update (nt_id n) n (st_notifications s1)\<rparr>
      in (n, append_audit env
            (audit_of (nt_workspace_id n) (nt_created_by n) ''notification.upserted'' ''notification''
              (nt_id n) (map_option (\<lambda>b. env_dump env (MNotification b)) before)
              (env_dump env (MNotification n))) s2))"

section \<open>Monitor jobs\<close>

definition list_monitor_jobs :: "str option \<Rightarrow> str option \<Rightarrow> str option \<Rightarrow> store \<Rightarrow> monitor_job list" where
  "list_monitor_jobs workspace_id project_id status s =
     sort_desc mj_updated_at
       (opt_filter status (\<lambda>j. Some (mj_status j))
         (opt_filter project_id (\<lambda>j. Some (mj_project_id j))
           (opt_filter workspace_id (\<lambda>j. Some (mj_workspace_id j))
             (dict_values (st_monitor_jobs s)))))"

definition get_monitor_job :: "str \<Rightarrow> store \<Rightarrow> monitor_job option" where
  "get_monitor_job monitor_id s = map_of (st_monitor_jobs s) monitor_id"

definition upsert_monitor_job :: "env \<Rightarrow> monitor_job \<Rightarrow> str option \<Rightarrow> store \<Rightarrow> monitor_job \<times> store" where
  "upsert_monitor_job env job actor_id s =
     (let s1 = ensure_workspace env (mj_workspace_id job) s;
          before = map_of (st_monitor_jobs s1) (mj_id job);
          stored = job\<lparr>mj_updated_at := env_now env\<rparr>;
          s2 = s1\<lparr>st_monitor_jobs := AList.update (mj_id job) stored (st_monitor_jobs s1)\<rparr>
      in (stored, append_audit env
            (audit_of (mj_workspace_id stored) actor_id ''monitor_job.upserted'' ''monitor_job''
              (mj_id stored) (map_option (\<lambda>b. env_dump env (MMonitor b)) before)
              (env_dump env (MMonitor stored))) s2))"

definition set_opt :: "'a option \<Rightarrow> 'a \<Rightarrow> 'a" where
  "set_opt v old = (case v of Some x \<Rightarrow> x | None \<Rightarrow> old)"

definition apply_monitor_update :: "datetime \<Rightarrow> monitor_update \<Rightarrow> monitor_job \<Rightarrow> monitor_job" where
  "apply_monitor_update now u j =
     j\<lparr>mj_name := set_opt (mu_name u) (mj_name j),
       mj_dimensions := set_opt (mu_dimensions u) (mj_dimensions j),
       mj_schedule := set_opt (mu_schedule u) (mj_schedule j),
       mj_interval_seconds := set_opt (mu_interval_seconds u) (mj_interval_seconds j),
       mj_max_cycles := set_opt (mu_max_cycles u) (mj_max_cycles j),
       mj_execution_mode := set_opt (mu_execution_mode u) (mj_execution_mode j),
       mj_alert_policy := set_opt (mu_alert_policy u) (mj_alert_policy j),
       mj_release_policy := set_opt (mu_release_policy u) (mj_release_policy j),
       mj_notification_target := set_opt (mu_notification_target u) (mj_notification_target j),
       mj_status := set_opt (mu_status u) (mj_status j),
       mj_next_run_at := (case mu_next_run_at u of Some t \<Rightarrow> Some t | None \<Rightarrow> mj_next_run_at j),
       mj_metadata := (case mu_metadata u of Some m \<Rightarrow> dict_merge (mj_metadata j) m | None \<Rightarrow> mj_metadata j),
       mj_updated_at := now\<rparr>"

definition update_monitor_job ::
  "env \<Rightarrow> str \<Rightarrow> monitor_update \<Rightarrow> str option \<Rightarrow> store \<Rightarrow> monitor_job option \<times> store" where
  "update_monitor_job env monitor_id update actor_id s =
     (case map_of (st_monitor_jobs s) monitor_id of
        None \<Rightarrow> (None, s)
      | Some current \<Rightarrow>
        let updated = apply_monitor_update (env_now env) update current;
            s1 = s\<lparr>st_monitor_jobs := AList.update monitor_id updated (st_monitor_jobs s)\<rparr>
        in (Some updated, append_audit env
              (audit_of (mj_workspace_id updated) actor_id ''monitor_job.updated'' ''monitor_job''
                (mj_id updated) (Some (env_dump env (MMonitor current)))
                (env_dump env (MMonitor updated))) s1))"

definition apply_monitor_run ::
  "datetime \<Rightarrow> str \<Rightarrow> str option \<Rightarrow> str option \<Rightarrow> str option \<Rightarrow> str \<Rightarrow> monitor_job \<Rightarrow> monitor_job" where
  "apply_monitor_run now status workflow_id run_id report_version_id error j =
     j\<lparr>mj_last_status := status,
       mj_last_workflow_id := opt_or workflow_id (mj_last_workflow_id j),
       mj_last_run_id := opt_or run_id (mj_last_run_id j),
       mj_last_report_version_id := opt_or report_version_id (mj_last_report_version_id j),
       mj_last_error := error,
       mj_last_started_at := (if status = ''running'' then Some now else mj_last_started_at j),
       mj_last_completed_at :=
         (if status \<in> {''completed'', ''failed''} then Some now else mj_last_completed_at j),
       mj_updated_at := now\<rparr>"

definition record_monitor_job_run ::
  "env \<Rightarrow> str \<Rightarrow> str \<Rightarrow> str option \<Rightarrow> str option \<Rightarrow> str option \<Rightarrow> str \<Rightarrow> str option
    \<Rightarrow> store \<Rightarrow> monitor_job option \<times> store" where
  "record_monitor_job_run env monitor_id status workflow_id run_id report_version_id error actor_id s =
     (case map_of (st_monitor_jobs s) monitor_id of
        None \<Rightarrow> (None, s)
      | Some current \<Rightarrow>
        let updated = apply_monitor_run (env_now env) status workflow_id run_id report_version_id error current;
            s1 = s\<lparr>st_monitor_jobs := AList.update monitor_id updated (st_monitor_jobs s)\<rparr>
        in (Some updated, append_audit env
              (audit_of (mj_workspace_id updated) actor_id ''monitor_job.run_recorded'' ''monitor_job''
                (mj_id updated) (Some (env_dump env (MMonitor current)))
                [(''status'', JStr status), (''workflow_id'', jstr_opt workflow_id),
                 (''run_id'', jstr_opt run_id), (''report_version_id'', jstr_opt report_version_id),
                 (''error'', JStr error)]) s1))"

section \<open>Projects and artifacts\<close>

definition list_projects :: "str option \<Rightarrow> store \<Rightarrow> project list" where
  "list_projects workspace_id s =
     sort_desc pj_updated_at
       (opt_filter workspace_id (\<lambda>p. Some (pj_workspace_id p)) (dict_values (st_projects s)))"

definition get_project :: "str \<Rightarrow> store \<Rightarrow> project option" where
  "get_project project_id s = map_of (st_projects s) project_id"

definition upsert_project :: "env \<Rightarrow> project \<Rightarrow> store \<Rightarrow> project \<times> store" where
  "upsert_project env p s =
     (let s1 = ensure_workspace env (pj_workspace_id p) s;
          before = map_option (\<lambda>b. env_dump env (MProject b)) (map_of (st_projects s1) (pj_id p));
          s2 = s1\<lparr>st_projects := AList.update (pj_id p) p (st_projects s1)\<rparr>
      in (p, append_audit env
            (audit_of (pj_workspace_id p) (pj_created_by p) ''project.upserted'' ''project'' (pj_id p)
              before (env_dump env (MProject p))) s2))"

definition audit_schema_evolution_review ::
  "env \<Rightarrow> project \<Rightarrow> schema_review \<Rightarrow> str option \<Rightarrow> store \<Rightarrow> store" where
  "audit_schema_evolution_review env p r actor_id s =
     append_audit env
       \<lparr>ae_workspace_id = pj_workspace_id p, ae_actor_id = Some (or_str actor_id (sv_reviewed_by r)),
        ae_action = ''schema_evolution.reviewed'', ae_resource_type = ''schema_evolution_suggestion'',
        ae_resource_id = audit_relationship_resource_id ''schema-evolution-suggestion''
          [JStr (pj_id p), JStr (sv_suggestion_id r)],
        ae_before = None,
        ae_after = [(''project_id'', JStr (pj_id p)), (''suggestion_id'', JStr (sv_suggestion_id r)),
          (''decision'', JStr (sv_decision r)), (''dimension'', JStr (sv_dimension r)),
          (''normalized_dimension'', JStr (sv_normalized_dimension r)),
          (''source_gap_ids'', jstrs (sv_source_gap_ids r)), (''note'', JStr (sv_note r))]\<rparr> s"

definition list_competitors :: "str option \<Rightarrow> str option \<Rightarrow> store \<Rightarrow> competitor list" where
  "list_competitors workspace_id project_id s =
     (let records = opt_filter workspace_id (\<lambda>c. Some (cp_workspace_id c)) (dict_values (st_competitors s));
          linked = map (\<lambda>l. snd (fst l)) (filter (\<lambda>l. Some (fst (fst l)) = project_id) (st_links s))
      in sort_key (\<lambda>c. lower (cp_name c))
           (if given project_id then filter (\<lambda>c. cp_id c \<in> set linked) records else records))"

definition artifact_value_matches :: "str \<Rightarrow> json option \<Rightarrow> bool" where
  "artifact_value_matches expected v =
     (case v of None \<Rightarrow> False | Some JNull \<Rightarrow> False | Some x \<Rightarrow> strip (py_str x) = expected)"

definition artifact_matches_raw_source :: "artifact \<Rightarrow> str \<Rightarrow> bool" where
  "artifact_matches_raw_source a raw_source_id =
     (let expected = strip raw_source_id; md = ar_metadata a;
          links = as_dict (map_of (as_dict (map_of md ''artifact_lifecycle'')) ''links'');
          link_value = (case map_of links ''raw_source_id'' of
              Some v \<Rightarrow> if truthy v then Some v else map_of links ''kb_raw_source_id''
            | None \<Rightarrow> map_of links ''kb_raw_source_id'')
      in if expected = [] then True
         else if artifact_value_matches expected (map_of md ''raw_source_id'')
              \<or> artifact_value_matches expected (map_of md ''kb_raw_source_id'')
              \<or> artifact_value_matches expected link_value then True
         else expected \<in> set (map (\<lambda>v. strip (py_str v))
                (filter (\<lambda>v. v \<noteq> JNull) (as_list (map_of md ''source_tokens'')))))"

definition list_artifacts ::
  "str option \<Rightarrow> str option \<Rightarrow> str option \<Rightarrow> str option \<Rightarrow> str option \<Rightarrow> store \<Rightarrow> artifact list" where
  "list_artifacts workspace_id project_id evidence_id report_version_id raw_source_id s =
     (let records = opt_filter report_version_id ar_report_version_id
            (opt_filter evidence_id ar_evidence_id
              (opt_filter project_id (\<lambda>a. Some (ar_project_id a))
                (opt_filter workspace_id (\<lambda>a. Some (ar_workspace_id a)) (dict_values (st_artifacts s)))))
      in sort_desc ar_created_at
           (if given raw_source_id then filter (\<lambda>a. artifact_matches_raw_source a (the raw_source_id)) records
            else records))"

definition get_artifact :: "str \<Rightarrow> store \<Rightarrow> artifact option" where
  "get_artifact artifact_id s = map_of (st_artifacts s) artifact_id"

definition upsert_artifact :: "env \<Rightarrow> artifact \<Rightarrow> store \<Rightarrow> artifact \<times> store" where
  "upsert_artifact env a s =
     (let s1 = ensure_workspace env (ar_workspace_id a) s;
          before = map_of (st_artifacts s1) (ar_id a);
          s2 = s1\<lparr>st_artifacts := AList.update (ar_id a) a (st_artifacts s1)\<rparr>
      in (a, append_audit env
            (audit_of (ar_workspace_id a) (ar_created_by a) ''artifact.upserted'' ''artifact'' (ar_id a)
              (map_option (\<lambda>b. env_dump env (MArtifact b)) before) (env_dump env (MArtifact a))) s2))"

end
