(* ===== verification/EvidenceStore.thy ===== *)
theory EvidenceStore
  imports Store
begin

text \<open>
  enterprise/store.py, second part: evidence with its deduplicated embeddings, the source
  registry derived from it, claims, report versions, and the two operations of a run,
  \<open>start_run\<close> and \<open>save_projection\<close>. Operations that may raise are \<open>(store, 'a) op\<close>: the
  exception or the result, and the store as it was left.
\<close>

section \<open>Merging a record with what is stored\<close>

definition merge_evidence_lifecycle :: "evidence option \<Rightarrow> evidence \<Rightarrow> evidence" where
  "merge_evidence_lifecycle existing incoming =
     (let current_run_id = opt_or (ev_last_seen_run_id incoming) (ev_run_id incoming);
          metadata = merge_evidence_source_metadata existing incoming
      in case existing of
           None \<Rightarrow> incoming\<lparr>
             ev_first_seen_run_id := opt_or (ev_first_seen_run_id incoming) (ev_run_id incoming),
             ev_last_seen_run_id := current_run_id,
             ev_seen_count := max 1 (ev_seen_count incoming), ev_metadata := metadata\<rparr>
         | Some e \<Rightarrow>
           (let increment = (if given current_run_id \<and> current_run_id \<noteq> ev_last_seen_run_id e then 1 else 0)
            in incoming\<lparr>
             ev_run_id := opt_or (ev_run_id e) (ev_run_id incoming),
             ev_first_seen_run_id := opt_or (ev_first_seen_run_id e) (opt_or (ev_run_id e)
               (opt_or (ev_first_seen_run_id incoming) (ev_run_id incoming))),
             ev_last_seen_run_id := opt_or current_run_id (ev_last_seen_run_id e),
             ev_seen_count := max 1 (ev_seen_count e + increment), ev_metadata := metadata\<rparr>))"

definition trust_rank :: "str \<Rightarrow> int" where
  "trust_rank level =
     (case map_of [(''unknown'', 0), (''synthetic'', 1), (''community'', 2), (''verified'', 3),
        (''official'', 4)] level of Some n \<Rightarrow> n | None \<Rightarrow> 0)"

definition stronger_trust_level :: "str \<Rightarrow> str \<Rightarrow> str" where
  "stronger_trust_level left right = (if trust_rank right \<le> trust_rank left then left else right)"

definition merge_source_registry :: "source_record option \<Rightarrow> source_record \<Rightarrow> source_record" where
  "merge_source_registry existing incoming =
     (case existing of
        None \<Rightarrow> incoming
      | Some e \<Rightarrow>
        (let run_increment = (if given (sr_last_seen_run_id incoming)
                \<and> sr_last_seen_run_id incoming \<noteq> sr_last_seen_run_id e then 1 else 0)
         in incoming\<lparr>
           sr_id := sr_id e,
           sr_trust_level := stronger_trust_level (sr_trust_level e) (sr_trust_level incoming),
           sr_robots_status := (if sr_robots_status incoming \<noteq> ''unknown'' then sr_robots_status incoming
             else sr_robots_status e),
           sr_policy_review_status := (if sr_policy_review_status incoming \<noteq> ''not_required''
             then sr_policy_review_status incoming else sr_policy_review_status e),
           sr_policy_review_reason := str_or (sr_policy_review_reason incoming) (sr_policy_review_reason e),
           sr_is_active := sr_is_active e,
           sr_first_seen_run_id := opt_or (sr_first_seen_run_id e) (sr_first_seen_run_id incoming),
           sr_first_seen_at := min (sr_first_seen_at e) (sr_first_seen_at incoming),
           sr_last_seen_at := max (sr_last_seen_at e) (sr_last_seen_at incoming),
           sr_seen_count := max (sr_seen_count e + run_increment) (sr_seen_count incoming),
           sr_metadata := dict_merge (sr_metadata e) (sr_metadata incoming)\<rparr>))"

section \<open>The source of an evidence record\<close>

text \<open>\<open>urlparse(url).hostname\<close>: without user info, port and brackets, in lower case up to a zone.\<close>

definition url_hostname :: "url_parts \<Rightarrow> str" where
  "url_hostname p =
     (let netloc = up_netloc p;
          hostinfo = rev (takeWhile (\<lambda>c. c \<noteq> CHR ''@'') (rev netloc));
          host = (if CHR ''['' \<in> set hostinfo
             then takeWhile (\<lambda>c. c \<noteq> CHR '']'') (drop 1 (dropWhile (\<lambda>c. c \<noteq> CHR ''['') hostinfo))
             else takeWhile (\<lambda>c. c \<noteq> CHR '':'') hostinfo)
      in lower (takeWhile (\<lambda>c. c \<noteq> CHR ''%'') host) @ dropWhile (\<lambda>c. c \<noteq> CHR ''%'') host)"

definition source_location :: "evidence \<Rightarrow> py_error + str \<times> str option" where
  "source_location e =
     (let url_value = str_or (ev_canonical_url e) (case ev_url e of Some u \<Rightarrow> u | None \<Rightarrow> '''')
      in err_bind (urlsplit url_value) (\<lambda>parsed.
        let host = url_hostname parsed
        in if host \<noteq> [] then
             (let d = lower host; domain = (if starts_with ''www.'' d then drop 4 d else d);
                  scheme = (if up_scheme parsed \<in> {''http'', ''https''} then up_scheme parsed else ''https'')
              in Inr (domain, Some (scheme @ ''://'' @ domain)))
           else Inr (normalize_key (Some (str_or (ev_source_type e) ''unknown'')), None)))"

definition metadata_truthy :: "evidence \<Rightarrow> str \<Rightarrow> bool" where
  "metadata_truthy e k = (case map_of (ev_metadata e) k of Some v \<Rightarrow> truthy v | None \<Rightarrow> False)"

text \<open>\<open>metadata.get(k1) or metadata.get(k2) or default\<close>, as text.\<close>

fun metadata_or :: "jdict \<Rightarrow> str list \<Rightarrow> str \<Rightarrow> str" where
  "metadata_or md [] dflt = dflt"
| "metadata_or md (k # ks) dflt =
     (case map_of md k of Some v \<Rightarrow> if truthy v then py_str v else metadata_or md ks dflt
      | None \<Rightarrow> metadata_or md ks dflt)"

definition source_trust_level :: "evidence \<Rightarrow> str" where
  "source_trust_level e =
     (let t = lower (ev_source_type e)
      in if t \<in> {''official'', ''official_site'', ''official_docs'', ''official_pricing'',
                 ''official_api'', ''trust_center''} then ''official''
         else if t \<in> {''webpage_verified'', ''verified_webpage'', ''verified_document''} then ''verified''
         else if t \<in> {''survey_response'', ''interview_record'', ''manual_transcript'', ''manual_note'',
                      ''manual''} \<and> metadata_truthy e ''imported_user_research'' then ''verified''
         else if t \<in> {''synthetic'', ''synthesized'', ''survey_simulated'', ''survey_response'',
                      ''interview_record'', ''manual_transcript'', ''manual_note''} then ''synthetic''
         else if ev_url e \<noteq> None \<or> ev_canonical_url e \<noteq> [] then ''community''
         else ''unknown'')"

definition source_robots_status :: "evidence \<Rightarrow> str" where
  "source_robots_status e =
     (let status = lower (metadata_or (ev_metadata e) [''robots_status''] ''unknown'');
          t = lower (ev_source_type e)
      in if status \<in> {''allowed'', ''blocked'', ''error''} then status
         else if has_substring ''robots'' t \<and> has_substring ''blocked'' t then ''blocked''
         else ''unknown'')"

definition source_review_status :: "evidence \<Rightarrow> str" where
  "source_review_status e =
     (let status = lower (metadata_or (ev_metadata e)
            [''policy_review_status'', ''source_policy_review_status''] '''')
      in if status \<in> {''not_required'', ''pending'', ''approved'', ''rejected''} then status
         else if source_robots_status e \<in> {''blocked'', ''error''} then ''pending''
         else if metadata_truthy e ''source_policy_review_required'' then ''pending''
         else ''not_required'')"

definition source_review_reason :: "evidence \<Rightarrow> str" where
  "source_review_reason e =
     (let given_reason = metadata_truthy e ''policy_review_reason''
            \<or> metadata_truthy e ''source_policy_review_reason''
      in if given_reason then metadata_or (ev_metadata e)
              [''policy_review_reason'', ''source_policy_review_reason''] ''''
         else if source_robots_status e \<in> {''blocked'', ''error''} then
           ''Robots/source policy status is '' @ source_robots_status e @ ''.''
         else if metadata_truthy e ''source_policy_review_required'' then
           ''Source policy requires human review.''
         else '''')"

text \<open>Building the record runs pydantic's check of the homepage and the model validator.\<close>

definition source_registry_from_evidence :: "env \<Rightarrow> evidence \<Rightarrow> py_error + source_record" where
  "source_registry_from_evidence env e =
     err_bind (source_location e) (\<lambda>(domain, homepage).
       err_bind (case homepage of None \<Rightarrow> Inr None
                 | Some u \<Rightarrow> (case env_http_url env u of Some v \<Rightarrow> Inr (Some v)
                             | None \<Rightarrow> Inl (ValueError ''homepage_url''))) (\<lambda>homepage_url.
         let source_type = str_or (ev_source_type e) ''unknown''
         in Inr (queue_robots_policy_review
           \<lparr>sr_id = compute_source_registry_id (ev_workspace_id e) domain source_type,
            sr_workspace_id = ev_workspace_id e, sr_domain = domain, sr_source_type = source_type,
            sr_display_name = title_from_id domain, sr_homepage_url = homepage_url,
            sr_trust_level = source_trust_level e, sr_robots_status = source_robots_status e,
            sr_policy_review_status = source_review_status e,
            sr_policy_review_reason = source_review_reason e, sr_is_active = True,
            sr_first_seen_run_id = opt_or (ev_first_seen_run_id e) (ev_run_id e),
            sr_last_seen_run_id = opt_or (ev_last_seen_run_id e) (ev_run_id e),
            sr_first_seen_at = ev_captured_at e, sr_last_seen_at = ev_captured_at e,
            sr_seen_count = max 1 (ev_seen_count e),
            sr_metadata = [(''last_evidence_id'', JStr (ev_id e)),
              (''last_project_id'', JStr (ev_project_id e)),
              (''last_dimension'', JStr (ev_dimension e))]\<rparr>)))"

section \<open>The source registry\<close>

definition natural_key :: "source_record \<Rightarrow> str \<times> str \<times> str" where
  "natural_key r = (sr_workspace_id r, sr_domain r, sr_source_type r)"

definition source_registry_id_by_natural_key :: "source_record \<Rightarrow> store \<Rightarrow> str option" where
  "source_registry_id_by_natural_key r s =
     map_option sr_id (find (\<lambda>x. natural_key x = natural_key r) (dict_values (st_sources s)))"

definition upsert_source_registry_locked ::
  "env \<Rightarrow> source_record \<Rightarrow> str option \<Rightarrow> bool \<Rightarrow> store \<Rightarrow> source_record \<times> store" where
  "upsert_source_registry_locked env r actor_id audit_once s =
     (let existing_id = source_registry_id_by_natural_key r s;
          before = map_of (st_sources s) (or_str existing_id (sr_id r));
          merged = merge_source_registry before r;
          s1 = s\<lparr>st_sources := AList.update (sr_id merged) merged (st_sources s)\<rparr>;
          entry = \<lparr>ae_workspace_id = sr_workspace_id merged, ae_actor_id = actor_id,
            ae_action = ''source_registry.upserted'', ae_resource_type = ''source_registry'',
            ae_resource_id = sr_id merged,
            ae_before = map_option (\<lambda>b. env_dump env (MSource b)) before,
            ae_after = env_dump env (MSource merged)\<rparr>
      in (merged, (if audit_once then append_audit_once else append_audit) env entry s1))"

definition list_source_registry :: "str option \<Rightarrow> store \<Rightarrow> source_record list" where
  "list_source_registry workspace_id s =
     sort_key (\<lambda>r. (sr_domain r, sr_source_type r))
       (opt_filter workspace_id (\<lambda>r. Some (sr_workspace_id r)) (dict_values (st_sources s)))"

definition upsert_source_registry ::
  "env \<Rightarrow> source_record \<Rightarrow> str option \<Rightarrow> store \<Rightarrow> source_record \<times> store" where
  "upsert_source_registry env r actor_id s =
     upsert_source_registry_locked env r (Some (or_str actor_id default_user_id)) False
       (ensure_workspace env (sr_workspace_id r) s)"

section \<open>Embeddings and their deduplication\<close>

definition embedding_dedupe_key :: "evidence \<Rightarrow> str" where
  "embedding_dedupe_key e =
     (if ev_content_hash e = [] then []
      else join ''|'' [ev_workspace_id e, ev_project_id e, strip (lower (ev_competitor_id e)),
             strip (lower (ev_dimension e)), strip (lower (ev_content_hash e))])"

definition embedding_dedupe_keys :: "evidence \<Rightarrow> py_error + str list" where
  "embedding_dedupe_keys e =
     err_bind (normalize_url (Some (str_or (ev_canonical_url e)
         (case ev_url e of Some u \<Rightarrow> u | None \<Rightarrow> '''')))) (\<lambda>url.
       Inr ((if embedding_dedupe_key e \<noteq> [] then [''content_hash|'' @ embedding_dedupe_key e] else [])
         @ (if url \<noteq> [] then [join ''|'' [''canonical_url'', ev_workspace_id e, ev_project_id e,
               strip (lower (ev_competitor_id e)), strip (lower (ev_dimension e)), url]] else [])))"

definition embedding_dedupe_strategy :: "str \<Rightarrow> str" where
  "embedding_dedupe_strategy key =
     (if starts_with ''canonical_url|'' key then ''canonical_url'' else ''content_hash'')"

definition upsert_embedding :: "env \<Rightarrow> evidence \<Rightarrow> store \<Rightarrow> store" where
  "upsert_embedding env e s =
     (let r = build_evidence_embedding_record (env_now env) e;
          r' = (case map_of (st_embeddings s) (em_id r) of
                  Some old \<Rightarrow> r\<lparr>em_created_at := em_created_at old\<rparr> | None \<Rightarrow> r)
      in s\<lparr>st_embeddings := AList.update (em_id r') r' (st_embeddings s)\<rparr>)"

definition delete_embedding :: "str \<Rightarrow> store \<Rightarrow> store" where
  "delete_embedding evidence_id s =
     s\<lparr>st_embeddings := filter (\<lambda>(k, v). em_evidence_id v \<noteq> evidence_id) (st_embeddings s)\<rparr>"

definition find_embedding_duplicate :: "evidence \<Rightarrow> store \<Rightarrow> py_error + (evidence \<times> str) option" where
  "find_embedding_duplicate e s =
     err_bind (embedding_dedupe_keys e) (\<lambda>keys.
       if keys = [] then Inr None
       else err_bind (err_map (\<lambda>x. err_bind (embedding_dedupe_keys x) (\<lambda>ks. Inr (x, ks)))
                (dict_values (st_evidence s))) (\<lambda>rows.
         let candidates = map fst (filter (\<lambda>(x, ks). list_ex (\<lambda>k. k \<in> set keys) ks) rows)
         in case candidates of [] \<Rightarrow> Inr None
            | _ \<Rightarrow>
              let canonical = hd (sort_key (\<lambda>x. (ev_captured_at x, ev_id x)) (candidates @ [e]))
              in if ev_id canonical = ev_id e then Inr None
                 else err_bind (embedding_dedupe_keys canonical) (\<lambda>cks.
                   let matching = sorted_set (filter (\<lambda>k. k \<in> set keys) cks)
                   in case matching of [] \<Rightarrow> Inr None | k # _ \<Rightarrow> Inr (Some (canonical, k)))))"

text \<open>The strings that iterating a JSON value gives: a list's, a text's characters, a
  dictionary's keys; other values cannot be iterated.\<close>

fun json_strings :: "json list \<Rightarrow> str list" where
  "json_strings [] = []"
| "json_strings (JStr x # xs) = x # json_strings xs"
| "json_strings (_ # xs) = json_strings xs"

fun iter_strings :: "json option \<Rightarrow> py_error + str list" where
  "iter_strings None = Inr []"
| "iter_strings (Some (JList xs)) = Inr (json_strings xs)"
| "iter_strings (Some (JStr s)) = Inr (map (\<lambda>c. [c]) s)"
| "iter_strings (Some (JDict d)) = Inr (map fst d)"
| "iter_strings (Some _) = Inl (TypeError ''object is not iterable'')"

definition record_embedding_duplicate :: "str \<Rightarrow> str \<Rightarrow> (store, unit) op" where
  "record_embedding_duplicate canonical_id duplicate_id s =
     (if canonical_id = duplicate_id then (Inr (), s)
      else case map_of (st_evidence s) canonical_id of
        None \<Rightarrow> (Inr (), s)
      | Some canonical \<Rightarrow>
        let md = ev_metadata canonical
        in (case iter_strings (map_of md ''embedding_duplicate_ids'') of
              Inl err \<Rightarrow> (Inl err, s)
            | Inr existing \<Rightarrow>
              (let ids = filter (\<lambda>x. x \<noteq> duplicate_id) existing @ [duplicate_id];
                   md' = AList.update ''embedding_duplicate_count'' (JInt (int (length ids)))
                           (AList.update ''embedding_duplicate_ids'' (jstrs (sort ids)) md)
               in (Inr (), s\<lparr>st_evidence :=
                     AList.update canonical_id (canonical\<lparr>ev_metadata := md'\<rparr>) (st_evidence s)\<rparr>))))"

definition not_duplicate :: "evidence \<Rightarrow> evidence" where
  "not_duplicate e =
     e\<lparr>ev_metadata := AList.update ''embedding_indexed'' (JBool True)
        (AList.delete ''embedding_dedupe_strategy''
          (AList.delete ''embedding_dedupe_key''
            (AList.delete ''embedding_duplicate_of'' (ev_metadata e))))\<rparr>"

definition marked_duplicate :: "evidence \<Rightarrow> str \<Rightarrow> str \<Rightarrow> evidence" where
  "marked_duplicate e canonical_id key =
     e\<lparr>ev_metadata := AList.update ''embedding_indexed'' (JBool False)
        (AList.update ''embedding_dedupe_strategy'' (JStr (embedding_dedupe_strategy key))
          (AList.update ''embedding_dedupe_key'' (JStr key)
            (AList.update ''embedding_duplicate_of'' (JStr canonical_id) (ev_metadata e))))\<rparr>"

definition apply_embedding_dedupe :: "evidence \<Rightarrow> (store, evidence \<times> str option) op" where
  "apply_embedding_dedupe e s =
     (case find_embedding_duplicate e s of
        Inl err \<Rightarrow> (Inl err, s)
      | Inr None \<Rightarrow> (Inr (not_duplicate e, None), s)
      | Inr (Some (canonical, key)) \<Rightarrow>
          op_bind (record_embedding_duplicate (ev_id canonical) (ev_id e)) (\<lambda>_.
            op_return (marked_duplicate e (ev_id canonical) key, Some (ev_id canonical))) s)"

section \<open>Evidence\<close>

definition put_evidence :: "evidence \<Rightarrow> store \<Rightarrow> store" where
  "put_evidence e s = s\<lparr>st_evidence := AList.update (ev_id e) e (st_evidence s)\<rparr>"

definition register_source :: "env \<Rightarrow> evidence \<Rightarrow> (store, source_record) op" where
  "register_source env e =
     op_bind (op_try (source_registry_from_evidence env e)) (\<lambda>r s.
       let (merged, s') = upsert_source_registry_locked env r (Some default_user_id) True s
       in (Inr merged, s'))"

text \<open>Storing a deduplicated record with its embedding, and deleting that of a duplicate.\<close>

definition store_evidence :: "env \<Rightarrow> evidence \<Rightarrow> str option \<Rightarrow> store \<Rightarrow> store" where
  "store_evidence env e duplicate_of s =
     (let s1 = put_evidence e s
      in if duplicate_of = None then upsert_embedding env e s1 else delete_embedding (ev_id e) s1)"

definition audit_evidence :: "env \<Rightarrow> evidence option \<Rightarrow> evidence \<Rightarrow> store \<Rightarrow> store" where
  "audit_evidence env before e =
     append_audit env
       (audit_of (ev_workspace_id e) None ''evidence.upserted'' ''evidence'' (ev_id e)
         (map_option (\<lambda>b. env_dump env (MEvidence b)) before) (env_dump env (MEvidence e)))"

definition upsert_evidence :: "env \<Rightarrow> evidence \<Rightarrow> (store, evidence) op" where
  "upsert_evidence env incoming s =
     (let before = map_of (st_evidence s) (ev_id incoming)
      in op_bind (apply_embedding_dedupe (merge_evidence_lifecycle before incoming)) (\<lambda>(e, duplicate_of).
           op_bind (op_modify (store_evidence env e duplicate_of)) (\<lambda>_.
             op_bind (register_source env e) (\<lambda>_.
               op_bind (op_modify (audit_evidence env before e)) (\<lambda>_.
                 op_return e)))) s)"

definition upsert_evidence_batch :: "env \<Rightarrow> evidence list \<Rightarrow> (store, evidence list) op" where
  "upsert_evidence_batch env evs = op_each (upsert_evidence env) evs"

definition report_linked_evidence_ids :: "str \<Rightarrow> store \<Rightarrow> str list" where
  "report_linked_evidence_ids project_id s =
     concat (map rv_evidence_ids (filter (\<lambda>v. rv_project_id v = project_id) (dict_values (st_reports s))))"

definition report_linked_claim_ids :: "str \<Rightarrow> store \<Rightarrow> str list" where
  "report_linked_claim_ids project_id s =
     concat (map rv_claim_ids (filter (\<lambda>v. rv_project_id v = project_id) (dict_values (st_reports s))))"

definition list_evidence :: "str option \<Rightarrow> store \<Rightarrow> evidence list" where
  "list_evidence project_id s =
     sort_desc ev_captured_at
       (if given project_id then
          filter (\<lambda>e. ev_project_id e = the project_id
              \<or> ev_id e \<in> set (report_linked_evidence_ids (the project_id) s)) (dict_values (st_evidence s))
        else dict_values (st_evidence s))"

definition list_evidence_embeddings :: "str option \<Rightarrow> store \<Rightarrow> embedding list" where
  "list_evidence_embeddings workspace_id s =
     sort_key (\<lambda>m. (em_workspace_id m, em_evidence_id m))
       (opt_filter workspace_id (\<lambda>m. Some (em_workspace_id m)) (dict_values (st_embeddings s)))"

text \<open>The loop of the reindexing works on the records as they were when it started.\<close>

definition reindex_one :: "env \<Rightarrow> evidence \<Rightarrow> (store, bool) op" where
  "reindex_one env item =
     op_bind (apply_embedding_dedupe item) (\<lambda>(e, duplicate_of).
       op_bind (op_modify (\<lambda>s. let s1 = put_evidence e s
           in if duplicate_of = None then upsert_embedding env e s1 else s1)) (\<lambda>_.
         op_return (duplicate_of = None)))"

definition reindex_evidence_embeddings ::
  "env \<Rightarrow> str option \<Rightarrow> str option \<Rightarrow> (store, reindex_result) op" where
  "reindex_evidence_embeddings env workspace_id project_id s =
     (let evs = opt_filter project_id (\<lambda>e. Some (ev_project_id e))
            (opt_filter workspace_id (\<lambda>e. Some (ev_workspace_id e)) (dict_values (st_evidence s)));
          ids = map ev_id evs;
          s1 = s\<lparr>st_embeddings := filter (\<lambda>(k, v). em_evidence_id v \<notin> set ids) (st_embeddings s)\<rparr>
      in op_bind (op_each (reindex_one env) evs) (\<lambda>flags.
           op_return \<lparr>ri_indexed_count = int (count_if id flags),
             ri_duplicate_count = int (count_if Not flags)\<rparr>) s1)"

definition search_evidence ::
  "str \<Rightarrow> str \<Rightarrow> str option \<Rightarrow> int \<Rightarrow> store \<Rightarrow> search_hit list" where
  "search_evidence workspace_id query project_id limit s =
     (let q = deterministic_embedding query embedding_dimensions;
          hits = concat (map (\<lambda>m.
            if em_workspace_id m \<noteq> workspace_id then []
            else case map_of (st_evidence s) (em_evidence_id m) of
                None \<Rightarrow> []
              | Some e \<Rightarrow>
                if given project_id \<and> Some (ev_project_id e) \<noteq> project_id then []
                else [\<lparr>sh_evidence = e,
                       sh_score = cosine_similarity q
                         (deterministic_embedding (em_embedding_text m) embedding_dimensions),
                       sh_embedding_model = em_embedding_model m\<rparr>]) (dict_values (st_embeddings s)))
      in take (nat (max 1 limit)) (sort_desc sh_score hits))"

definition update_evidence_quality ::
  "env \<Rightarrow> str \<Rightarrow> str \<Rightarrow> str option \<Rightarrow> str \<Rightarrow> store \<Rightarrow> evidence option \<times> store" where
  "update_evidence_quality env evidence_id label actor_id remark s =
     (case map_of (st_evidence s) evidence_id of
        None \<Rightarrow> (None, s)
      | Some e \<Rightarrow>
        let e' = e\<lparr>ev_quality_label := label,
                   ev_metadata := AList.update ''quality_reviewed_at'' (JStr (isoformat (env_now env)))
                     (AList.update ''quality_note'' (JStr remark) (ev_metadata e))\<rparr>;
            s1 = s\<lparr>st_evidence := AList.update evidence_id e' (st_evidence s)\<rparr>
        in (Some e', append_audit env
              (audit_of (ev_workspace_id e) actor_id ''evidence.quality_updated'' ''evidence'' (ev_id e)
                (Some (env_dump env (MEvidence e))) (env_dump env (MEvidence e'))) s1))"

definition list_claims :: "str option \<Rightarrow> store \<Rightarrow> claim list" where
  "list_claims project_id s =
     sort_desc cl_created_at
       (if given project_id then
          filter (\<lambda>c. cl_project_id c = the project_id
              \<or> cl_id c \<in> set (report_linked_claim_ids (the project_id) s)) (dict_values (st_claims s))
        else dict_values (st_claims s))"

section \<open>Report versions\<close>

definition list_report_versions :: "str option \<Rightarrow> store \<Rightarrow> report_version list" where
  "list_report_versions project_id s =
     sort_report_versions (opt_filter project_id (\<lambda>v. Some (rv_project_id v)) (dict_values (st_reports s)))
       ''latest''"

definition get_report_version :: "str \<Rightarrow> store \<Rightarrow> report_version option" where
  "get_report_version version_id s = map_of (st_reports s) version_id"

definition report_scope_evidence :: "report_version \<Rightarrow> store \<Rightarrow> evidence list" where
  "report_scope_evidence v s =
     filter (\<lambda>e. ev_project_id e = rv_project_id v \<or> ev_id e \<in> set (rv_evidence_ids v))
       (dict_values (st_evidence s))"

definition upsert_report_version :: "env \<Rightarrow> report_version \<Rightarrow> (store, report_version) op" where
  "upsert_report_version env version s =
     (let before = map_of (st_reports s) (rv_id version);
          v0 = preserve_existing_report_layers_for_legacy_upsert version before
      in case normalize_report_version_sources v0 (report_scope_evidence v0 s) of
           Inl err \<Rightarrow> (Inl err, s)
         | Inr v \<Rightarrow>
           (let s1 = s\<lparr>st_reports := AList.update (rv_id v) v (st_reports s)\<rparr>;
                s2 = append_audit env
                  (audit_of (rv_workspace_id v) None ''report_version.upserted'' ''report_version'' (rv_id v)
                    (map_option (\<lambda>b. env_dump env (MReport b)) before) (env_dump env (MReport v))) s1;
                s3 = (case before of
                    None \<Rightarrow> s2
                  | Some b \<Rightarrow>
                    if rv_status b = rv_status v then s2
                    else append_audit env
                      (audit_of (rv_workspace_id v) None ''report_version.status_changed'' ''report_version''
                        (rv_id v) (Some [(''status'', JStr (rv_status b))])
                        [(''status'', JStr (rv_status v)), (''project_id'', JStr (rv_project_id v)),
                         (''version_number'', JInt (rv_version_number v))]) s2)
            in (Inr v, s3)))"

definition audit_report_version_transition ::
  "env \<Rightarrow> report_version \<Rightarrow> str \<Rightarrow> str option \<Rightarrow> str option \<Rightarrow> str \<Rightarrow> jdict option \<Rightarrow> store \<Rightarrow> store" where
  "audit_report_version_transition env v action actor_id before_status remark metadata s =
     append_audit env
       (audit_of (rv_workspace_id v) actor_id action ''report_version'' (rv_id v)
         (if given before_status then Some [(''status'', jstr_opt before_status)] else None)
         (dict_merge (report_transition_audit_after v action actor_id remark None)
           (case metadata of Some m \<Rightarrow> m | None \<Rightarrow> []))) s"

text \<open>Versions of the same line: same project, topic, layer and competitor set.\<close>

definition same_line :: "report_version \<Rightarrow> report_version \<Rightarrow> bool" where
  "same_line v w = (rv_project_id v = rv_project_id w \<and> rv_topic_normalized v = rv_topic_normalized w
     \<and> rv_competitor_layer v = rv_competitor_layer w
     \<and> rv_competitor_set_hash v = rv_competitor_set_hash w)"

definition next_report_version_number :: "str \<Rightarrow> str \<Rightarrow> str \<Rightarrow> str \<Rightarrow> store \<Rightarrow> int" where
  "next_report_version_number project_id topic layer set_hash s =
     (let vs = map rv_version_number (filter (\<lambda>v. rv_project_id v = project_id
            \<and> rv_topic_normalized v = topic \<and> rv_competitor_layer v = layer
            \<and> rv_competitor_set_hash v = set_hash) (dict_values (st_reports s)))
      in case max_by id vs of Some n \<Rightarrow> n + 1 | None \<Rightarrow> 1)"

definition get_previous_report_version :: "report_version \<Rightarrow> store \<Rightarrow> report_version option" where
  "get_previous_report_version v s =
     max_by (\<lambda>w. (rv_version_number w, rv_created_at w))
       (filter (\<lambda>w. same_line w v \<and> rv_version_number w < rv_version_number v) (dict_values (st_reports s)))"

definition get_run_projection :: "str \<Rightarrow> store \<Rightarrow> run_projection option" where
  "get_run_projection run_id s =
     (case max_by (\<lambda>w. (rv_version_number w, rv_created_at w))
         (filter (\<lambda>v. rv_run_id v = Some run_id) (dict_values (st_reports s))) of
        None \<Rightarrow> None
      | Some v \<Rightarrow> Some
          \<lparr>rp_workspace_id = rv_workspace_id v, rp_project_id = rv_project_id v, rp_run_id = run_id,
           rp_evidence_records = List.map_filter (map_of (st_evidence s)) (rv_evidence_ids v),
           rp_claim_records = List.map_filter (map_of (st_claims s)) (rv_claim_ids v),
           rp_report_version = v\<rparr>)"

section \<open>Memory feedback\<close>

definition memory_feedback_audit_after :: "user_feedback \<Rightarrow> memory_candidate list \<Rightarrow> jdict" where
  "memory_feedback_audit_after f cs =
     [(''feedback_id'', JStr (uf_id f)), (''feedback_type'', JStr (uf_feedback_type f)),
      (''project_id'', JStr (uf_project_id f)), (''run_id'', jstr_opt (uf_run_id f)),
      (''report_version_id'', jstr_opt (uf_report_version_id f)),
      (''target_type'', JStr (uf_target_type f)), (''target_id'', JStr (uf_target_id f)),
      (''candidate_ids'', jstrs (map mc_id cs)), (''candidate_count'', JInt (int (length cs))),
      (''candidate_kinds'', jstrs (sorted_set (map mc_kind cs))),
      (''candidate_statuses'', jstrs (sorted_set (map mc_status cs))), (''tags'', jstrs (uf_tags f)),
      (''redaction_counts'', JDict (map (\<lambda>(k, n). (k, JInt n)) (uf_redaction_counts f))),
      (''message_excerpt'', JStr (take 240 (uf_message f)))]"

definition record_memory_feedback_audit ::
  "env \<Rightarrow> user_feedback \<Rightarrow> memory_candidate list \<Rightarrow> str option \<Rightarrow> store \<Rightarrow> store" where
  "record_memory_feedback_audit env f cs actor_id s =
     append_audit env
       (audit_of (uf_workspace_id f) (opt_or actor_id (Some (uf_user_id f))) ''memory.feedback_captured''
         ''memory_feedback'' (uf_id f) None (memory_feedback_audit_after f cs)) s"

end
