(* ===== verification/RunStore.thy ===== *)
theory RunStore
  imports EvidenceStore
begin

text \<open>
  enterprise/store.py, third part: \<open>start_run\<close>, which creates or updates the project and its
  competitors and records the run, and \<open>save_projection\<close>, which stores what a run produced.
\<close>

section \<open>start_run\<close>

definition upsert_run_project :: "env \<Rightarrow> run_detail \<Rightarrow> run_context \<Rightarrow> store \<Rightarrow> store" where
  "upsert_run_project env detail ctx s =
     (let plan = rn_plan detail; topic = rn_topic detail;
          p = (case map_of (st_projects s) (cn_project_id ctx) of
              None \<Rightarrow>
                \<lparr>pj_id = cn_project_id ctx, pj_workspace_id = cn_workspace_id ctx, pj_name = topic,
                 pj_topic = topic, pj_topic_normalized = compute_topic_normalized (Some topic),
                 pj_competitor_layer = ap_competitor_layer plan,
                 pj_competitor_set_hash = compute_competitor_set_hash (Some (cn_competitor_ids ctx)),
                 pj_scenario_id = ap_scenario_id plan, pj_created_by = Some (cn_user_id ctx),
                 pj_metadata = [], pj_created_at = rn_created_at detail, pj_updated_at = env_now env\<rparr>
            | Some old \<Rightarrow> old\<lparr>pj_topic := topic,
                 pj_topic_normalized := compute_topic_normalized (Some topic),
                 pj_competitor_layer := ap_competitor_layer plan,
                 pj_competitor_set_hash := compute_competitor_set_hash (Some (cn_competitor_ids ctx)),
                 pj_scenario_id := ap_scenario_id plan, pj_updated_at := env_now env\<rparr>)
      in append_audit_once env
           (audit_of (cn_workspace_id ctx) (Some (cn_user_id ctx)) ''project.upserted'' ''project''
             (cn_project_id ctx) None
             [(''topic'', JStr topic), (''competitor_layer'', JStr (ap_competitor_layer plan)),
              (''scenario_id'', jstr_opt (ap_scenario_id plan))])
           (s\<lparr>st_projects := AList.update (cn_project_id ctx) p (st_projects s)\<rparr>))"

definition drop_stale_links :: "run_context \<Rightarrow> store \<Rightarrow> store" where
  "drop_stale_links ctx s =
     s\<lparr>st_links := filter (\<lambda>(k, l). fst k \<noteq> cn_project_id ctx \<or> snd k \<in> set (cn_competitor_ids ctx))
        (st_links s)\<rparr>"

text \<open>A new competitor is validated, its homepage included; an existing one is assigned to.\<close>

definition run_competitor ::
  "env \<Rightarrow> run_detail \<Rightarrow> run_context \<Rightarrow> str \<Rightarrow> str \<Rightarrow> competitor option \<Rightarrow> py_error + competitor" where
  "run_competitor env detail ctx name competitor_id existing =
     (let plan = rn_plan detail; hint = map_of (ap_homepage_hints plan) name;
          verified = (case map_of (ap_homepage_verified plan) name of Some b \<Rightarrow> b | None \<Rightarrow> False)
      in case existing of
           None \<Rightarrow>
             err_bind (case hint of None \<Rightarrow> Inr None
                       | Some u \<Rightarrow> (case env_http_url env u of Some v \<Rightarrow> Inr (Some v)
                                   | None \<Rightarrow> Inl (ValueError ''homepage_url''))) (\<lambda>homepage.
               Inr \<lparr>cp_id = competitor_id, cp_workspace_id = cn_workspace_id ctx, cp_name = name,
                 cp_normalized_name = normalize_key (Some name), cp_layer = ap_competitor_layer plan,
                 cp_homepage_url = homepage, cp_aliases = [],
                 cp_metadata = [(''scenario_id'', jstr_opt (ap_scenario_id plan)),
                   (''qa_rule_ids'', jstrs (ap_qa_rule_ids plan)), (''homepage_verified'', JBool verified)],
                 cp_created_at = rn_created_at detail, cp_updated_at = env_now env\<rparr>)
         | Some c \<Rightarrow> Inr (c\<lparr>cp_name := name, cp_layer := ap_competitor_layer plan, cp_homepage_url := hint,
             cp_metadata := AList.update ''homepage_verified'' (JBool verified)
               (AList.update ''qa_rule_ids'' (jstrs (ap_qa_rule_ids plan))
                 (AList.update ''scenario_id'' (jstr_opt (ap_scenario_id plan)) (cp_metadata c))),
             cp_updated_at := env_now env\<rparr>))"

definition link_competitor :: "env \<Rightarrow> run_detail \<Rightarrow> run_context \<Rightarrow> str \<Rightarrow> str \<Rightarrow> store \<Rightarrow> store" where
  "link_competitor env detail ctx name competitor_id s =
     (let project_id = cn_project_id ctx; user = Some (cn_user_id ctx);
          s1 = append_audit_once env
            (audit_of (cn_workspace_id ctx) user ''competitor.upserted'' ''competitor'' competitor_id None
              [(''name'', JStr name), (''layer'', JStr (ap_competitor_layer (rn_plan detail)))]) s;
          s2 = s1\<lparr>st_links := dict_setdefault (project_id, competitor_id)
            \<lparr>pc_project_id = project_id, pc_competitor_id = competitor_id, pc_role = ''target'',
             pc_created_at = env_now env\<rparr> (st_links s1)\<rparr>
      in append_audit_once env
           (audit_of (cn_workspace_id ctx) user ''project_competitor.linked'' ''project_competitor''
             (audit_relationship_resource_id ''project-competitor'' [JStr project_id, JStr competitor_id])
             None [(''project_id'', JStr project_id), (''competitor_id'', JStr competitor_id)]) s2)"

definition upsert_run_competitor ::
  "env \<Rightarrow> run_detail \<Rightarrow> run_context \<Rightarrow> str \<times> str \<Rightarrow> (store, unit) op" where
  "upsert_run_competitor env detail ctx nc s =
     (let (name, competitor_id) = nc
      in case run_competitor env detail ctx name competitor_id (map_of (st_competitors s) competitor_id) of
           Inl err \<Rightarrow> (Inl err, s)
         | Inr c \<Rightarrow> (Inr (), link_competitor env detail ctx name competitor_id
             (s\<lparr>st_competitors := AList.update competitor_id c (st_competitors s)\<rparr>)))"

definition record_run :: "env \<Rightarrow> run_detail \<Rightarrow> run_context \<Rightarrow> bool \<Rightarrow> store \<Rightarrow> store" where
  "record_run env detail ctx is_new s =
     (let s1 = s\<lparr>st_contexts := AList.update (rn_id detail) ctx (st_contexts s),
            st_run_details := AList.update (rn_id detail)
              (detail\<lparr>rn_workspace_id := cn_workspace_id ctx, rn_project_id := Some (cn_project_id ctx)\<rparr>)
              (st_run_details s)\<rparr>
      in if is_new then append_audit env
           (audit_of (cn_workspace_id ctx) (Some (cn_user_id ctx)) ''run.created'' ''run'' (rn_id detail) None
             [(''project_id'', JStr (cn_project_id ctx)), (''topic'', JStr (rn_topic detail)),
              (''competitors'', jstrs (ap_competitors (rn_plan detail)))]) s1
         else s1)"

definition run_context_for ::
  "run_detail \<Rightarrow> str option \<Rightarrow> str option \<Rightarrow> str option \<Rightarrow> run_context" where
  "run_context_for detail workspace_id project_id actor_id =
     (let ws = or_str (opt_or workspace_id (Some (rn_workspace_id detail))) default_workspace_id;
          names = ap_competitors (rn_plan detail);
          ids = map (compute_competitor_id ws) names;
          pid = or_str (opt_or project_id (rn_project_id detail))
            (compute_project_id ws (rn_topic detail) ids)
      in \<lparr>cn_workspace_id = ws, cn_project_id = pid, cn_user_id = or_str actor_id default_user_id,
          cn_competitor_ids = ids,
          cn_competitor_id_map = fold (\<lambda>(n, i). AList.update n i) (zip names ids) []\<rparr>)"

definition start_run ::
  "env \<Rightarrow> run_detail \<Rightarrow> str option \<Rightarrow> str option \<Rightarrow> str option \<Rightarrow> (store, run_context) op" where
  "start_run env detail workspace_id project_id actor_id s =
     (let ctx = run_context_for detail workspace_id project_id actor_id;
          is_new = (map_of (st_contexts s) (rn_id detail) = None);
          s1 = drop_stale_links ctx (upsert_run_project env detail ctx
                 (ensure_workspace env (cn_workspace_id ctx) s))
      in op_bind (op_each (upsert_run_competitor env detail ctx)
             (zip (ap_competitors (rn_plan detail)) (cn_competitor_ids ctx))) (\<lambda>_.
           op_bind (op_modify (record_run env detail ctx is_new)) (\<lambda>_. op_return ctx)) s1)"

definition project_id_for_run :: "str \<Rightarrow> store \<Rightarrow> str option" where
  "project_id_for_run run_id s = map_option cn_project_id (map_of (st_contexts s) run_id)"

definition context_for_run :: "str \<Rightarrow> store \<Rightarrow> run_context option" where
  "context_for_run run_id s = map_of (st_contexts s) run_id"

section \<open>save_projection\<close>

definition save_evidence :: "env \<Rightarrow> evidence \<Rightarrow> (store, unit) op" where
  "save_evidence env incoming s =
     (let e = merge_evidence_lifecycle (map_of (st_evidence s) (ev_id incoming)) incoming
      in op_bind (op_modify (\<lambda>s. upsert_embedding env e (put_evidence e s))) (\<lambda>_.
           op_bind (register_source env e) (\<lambda>_. op_return ())) s)"

definition save_claims_and_report :: "run_projection \<Rightarrow> store \<Rightarrow> store" where
  "save_claims_and_report p s =
     s\<lparr>st_claims := fold (\<lambda>c. AList.update (cl_id c) c) (rp_claim_records p) (st_claims s),
       st_reports := AList.update (rv_id (rp_report_version p)) (rp_report_version p) (st_reports s)\<rparr>"

definition projection_audits :: "env \<Rightarrow> run_projection \<Rightarrow> store \<Rightarrow> store" where
  "projection_audits env p s =
     (let once = (\<lambda>action rtype rid after. append_audit_once env
            (audit_of (rp_workspace_id p) None action rtype rid None after));
          v = rp_report_version p;
          s1 = (if rp_evidence_records p = [] then s
                else once ''evidence.upserted'' ''run'' (rp_run_id p)
                  [(''project_id'', JStr (rp_project_id p)),
                   (''evidence_ids'', jstrs (map ev_id (rp_evidence_records p)))] s);
          s2 = (if rp_claim_records p = [] then s1
                else once ''claim.upserted'' ''run'' (rp_run_id p)
                  [(''project_id'', JStr (rp_project_id p)),
                   (''claim_ids'', jstrs (map cl_id (rp_claim_records p)))] s1);
          s3 = once ''report_version.upserted'' ''report_version'' (rv_id v)
                 [(''project_id'', JStr (rp_project_id p)), (''run_id'', JStr (rp_run_id p)),
                  (''version_number'', JInt (rv_version_number v))] s2
      in once ''run.projected'' ''run'' (rp_run_id p)
           [(''project_id'', JStr (rp_project_id p)),
            (''evidence_count'', JInt (int (length (rp_evidence_records p)))),
            (''claim_count'', JInt (int (length (rp_claim_records p)))),
            (''report_version_id'', JStr (rv_id v))] s3)"

definition save_projection :: "env \<Rightarrow> run_projection \<Rightarrow> (store, unit) op" where
  "save_projection env p =
     op_bind (op_each (save_evidence env) (rp_evidence_records p)) (\<lambda>_.
       op_modify (\<lambda>s. projection_audits env p (save_claims_and_report p s)))"

end
