(* ===== verification/StoreProps.thy ===== *)
theory StoreProps
  imports RunStore
begin

text \<open>
  What the store promises whatever is called on it: its tables stay keyed by the ids of their
  records, the system user is a member of every workspace, source records stay unique per natural key,
  no entry of the permanent tables disappears, and the audit log is append-only with ids
  numbered in order. Each operation is shown to be such a safe step once; sequences of calls
  inherit it.
\<close>

section \<open>The invariant\<close>

definition numbered :: "audit_log list \<Rightarrow> bool" where
  "numbered logs \<longleftrightarrow>
     map al_id logs = map (\<lambda>i. stable_prefixed_id ''audit'' [JInt (int i + 1)] 12) [0..<length logs]"

text \<open>The log records that a membership of the system user in a workspace was upserted.\<close>

definition system_member_upserted :: "str \<Rightarrow> audit_log list \<Rightarrow> bool" where
  "system_member_upserted w logs \<longleftrightarrow>
     (\<exists>l\<in>set logs. al_action l = ''workspace_member.upserted'' \<and> al_workspace_id l = w
        \<and> al_resource_id l = audit_relationship_resource_id ''workspace-member'' [JStr w, JStr default_user_id])"

text \<open>The system user is a member of every workspace, and wherever it is a member it is an active
  owner unless the log shows that its membership was replaced.\<close>

definition owner_stands :: "store \<Rightarrow> str \<Rightarrow> workspace_member \<Rightarrow> bool" where
  "owner_stands s w m \<longleftrightarrow>
     wm_role m = ''owner'' \<and> wm_status m = ''active'' \<or> system_member_upserted w (st_audit s)"

definition owners_ok :: "store \<Rightarrow> bool" where
  "owners_ok s \<longleftrightarrow> default_workspace_id \<in> fst ` set (st_workspaces s)
     \<and> (\<lambda>w. (w, default_user_id)) ` fst ` set (st_workspaces s) \<subseteq> fst ` set (st_members s)
     \<and> (\<forall>w m. map_of (st_members s) (w, default_user_id) = Some m \<longrightarrow> owner_stands s w m)"

definition natural_ok :: "store \<Rightarrow> bool" where
  "natural_ok s \<longleftrightarrow> [] \<notin> fst ` set (st_sources s) \<longrightarrow>
     distinct (map (\<lambda>x. natural_key (snd x)) (st_sources s))"

definition tables_ok :: "store \<Rightarrow> bool" where
  "tables_ok s \<longleftrightarrow> table_ok ws_id (st_workspaces s) \<and> table_ok ur_id (st_users s)
     \<and> table_ok (\<lambda>m. (wm_workspace_id m, wm_user_id m)) (st_members s)
     \<and> table_ok nt_id (st_notifications s) \<and> table_ok mj_id (st_monitor_jobs s)
     \<and> table_ok rn_id (st_run_details s) \<and> table_ok pj_id (st_projects s)
     \<and> table_ok cp_id (st_competitors s)
     \<and> table_ok (\<lambda>l. (pc_project_id l, pc_competitor_id l)) (st_links s)
     \<and> table_ok ev_id (st_evidence s) \<and> table_ok em_id (st_embeddings s)
     \<and> table_ok ar_id (st_artifacts s) \<and> table_ok sr_id (st_sources s)
     \<and> table_ok cl_id (st_claims s) \<and> table_ok rv_id (st_reports s)"

definition store_ok :: "store \<Rightarrow> bool" where
  "store_ok s \<longleftrightarrow> tables_ok s \<and> owners_ok s \<and> natural_ok s \<and> numbered (st_audit s)"

text \<open>What only grows: the audit log at its end, the keys of the permanent tables, and the
  standing of a registered source.\<close>

definition source_grows :: "source_record \<Rightarrow> source_record \<Rightarrow> bool" where
  "source_grows r r' \<longleftrightarrow> sr_seen_count r \<le> sr_seen_count r'
     \<and> trust_rank (sr_trust_level r) \<le> trust_rank (sr_trust_level r')
     \<and> sr_first_seen_at r' \<le> sr_first_seen_at r \<and> sr_last_seen_at r \<le> sr_last_seen_at r'
     \<and> sr_is_active r' = sr_is_active r"

definition sources_grow :: "store \<Rightarrow> store \<Rightarrow> bool" where
  "sources_grow s t \<longleftrightarrow> (\<forall>k r. map_of (st_sources s) k = Some r \<longrightarrow>
     (\<exists>r'. map_of (st_sources t) k = Some r' \<and> source_grows r r'))"

definition keys_grow :: "store \<Rightarrow> store \<Rightarrow> bool" where
  "keys_grow s t \<longleftrightarrow> fst ` set (st_workspaces s) \<subseteq> fst ` set (st_workspaces t)
     \<and> fst ` set (st_members s) \<subseteq> fst ` set (st_members t)
     \<and> fst ` set (st_notifications s) \<subseteq> fst ` set (st_notifications t)
     \<and> fst ` set (st_monitor_jobs s) \<subseteq> fst ` set (st_monitor_jobs t)
     \<and> fst ` set (st_run_details s) \<subseteq> fst ` set (st_run_details t)
     \<and> fst ` set (st_projects s) \<subseteq> fst ` set (st_projects t)
     \<and> fst ` set (st_competitors s) \<subseteq> fst ` set (st_competitors t)
     \<and> fst ` set (st_evidence s) \<subseteq> fst ` set (st_evidence t)
     \<and> fst ` set (st_artifacts s) \<subseteq> fst ` set (st_artifacts t)
     \<and> fst ` set (st_claims s) \<subseteq> fst ` set (st_claims t)
     \<and> fst ` set (st_reports s) \<subseteq> fst ` set (st_reports t)"

definition extends :: "store \<Rightarrow> store \<Rightarrow> bool" where
  "extends s t \<longleftrightarrow> (\<exists>ls. st_audit t = st_audit s @ ls) \<and> keys_grow s t \<and> sources_grow s t"

definition safe_step :: "store \<Rightarrow> store \<Rightarrow> bool" where
  "safe_step s t \<longleftrightarrow> (store_ok s \<longrightarrow> store_ok t \<and> extends s t)"

lemma source_grows_refl [simp]: "source_grows r r"
  by (simp add: source_grows_def)

lemma source_grows_trans: "source_grows a b \<Longrightarrow> source_grows b c \<Longrightarrow> source_grows a c"
  by (auto simp: source_grows_def)

lemma sources_grow_same [simp]: "st_sources t = st_sources s \<Longrightarrow> sources_grow s t"
  by (simp add: sources_grow_def)

lemma extends_refl: "extends s s"
  by (simp add: extends_def keys_grow_def)

lemma keys_grow_trans: "keys_grow s t \<Longrightarrow> keys_grow t u \<Longrightarrow> keys_grow s u"
  unfolding keys_grow_def by (elim conjE, intro conjI; (rule order_trans, assumption, assumption))

lemma extends_trans: "extends s t \<Longrightarrow> extends t u \<Longrightarrow> extends s u"
proof -
  assume a: "extends s t" "extends t u"
  have "sources_grow s u"
    unfolding sources_grow_def
  proof (intro allI impI)
    fix k r
    assume "map_of (st_sources s) k = Some r"
    then obtain r' where "map_of (st_sources t) k = Some r'" "source_grows r r'"
      using a(1) by (auto simp: extends_def sources_grow_def)
    moreover from this obtain r'' where "map_of (st_sources u) k = Some r''" "source_grows r' r''"
      using a(2) by (auto simp: extends_def sources_grow_def)
    ultimately show "\<exists>r''. map_of (st_sources u) k = Some r'' \<and> source_grows r r''"
      using source_grows_trans by blast
  qed
  moreover have "keys_grow s t" "keys_grow t u" using a by (simp_all add: extends_def)
  then have "keys_grow s u" by (rule keys_grow_trans)
  moreover have "\<exists>ls. st_audit u = st_audit s @ ls" using a by (auto simp: extends_def)
  ultimately show ?thesis by (simp add: extends_def)
qed

interpretation safe: step_relation safe_step
  by unfold_locales (auto simp: safe_step_def extends_refl intro: extends_trans)

section \<open>Steps on one table\<close>

text \<open>
  A change of the store that leaves the audit log and the sources alone, keeps the tables
  keyed and the owners in place, and removes no permanent key, is a safe step.
\<close>

lemma safe_stepI:
  assumes "st_audit t = st_audit s" "st_sources t = st_sources s"
    and "tables_ok s \<Longrightarrow> tables_ok t" "owners_ok s \<Longrightarrow> owners_ok t" "keys_grow s t"
  shows "safe_step s t"
  using assms by (auto simp: safe_step_def store_ok_def extends_def natural_ok_def)

lemmas table_rules = table_ok_update table_ok_setdefault table_ok_filter table_ok_fold
lemmas key_rules = keys_update keys_setdefault

lemma ensure_workspace_safe: "safe_step s (ensure_workspace env w s)"
proof (rule safe_stepI)
  show "tables_ok s \<Longrightarrow> tables_ok (ensure_workspace env w s)"
    by (simp add: tables_ok_def ensure_workspace_def new_workspace_def owner_member_def table_rules)
  show "owners_ok s \<Longrightarrow> owners_ok (ensure_workspace env w s)"
    by (auto simp: owners_ok_def owner_stands_def ensure_workspace_def owner_member_def key_rules dict_simps
        split: option.splits)
  show "keys_grow s (ensure_workspace env w s)"
    by (auto simp: keys_grow_def ensure_workspace_def key_rules)
qed (simp_all add: ensure_workspace_def)

lemma numbered_append:
  assumes "numbered logs" "al_id l = stable_prefixed_id ''audit'' [JInt (int (length logs) + 1)] 12"
  shows "numbered (logs @ [l])"
  using assms by (simp add: numbered_def)

lemma append_audit_safe: "safe_step s (append_audit env a s)"
proof -
  have "store_ok s \<Longrightarrow> numbered (st_audit (append_audit env a s))"
    by (simp add: append_audit_def store_ok_def numbered_append)
  moreover have "store_ok s \<Longrightarrow> tables_ok (append_audit env a s)
      \<and> owners_ok (append_audit env a s) \<and> natural_ok (append_audit env a s)"
    by (auto simp: append_audit_def store_ok_def tables_ok_def owners_ok_def owner_stands_def
        system_member_upserted_def natural_ok_def)
  moreover have "extends s (append_audit env a s)"
    by (simp add: append_audit_def extends_def keys_grow_def)
  ultimately show ?thesis unfolding safe_step_def store_ok_def by blast
qed

lemma append_audit_once_safe: "safe_step s (append_audit_once env a s)"
  by (simp add: append_audit_once_def append_audit_safe safe.R_refl)

lemma bootstrap_safe: "safe_step s (bootstrap_defaults env s)"
proof (rule safe_stepI)
  show "tables_ok s \<Longrightarrow> tables_ok (bootstrap_defaults env s)"
    by (simp add: tables_ok_def bootstrap_defaults_def new_workspace_def owner_member_def table_rules)
  show "owners_ok s \<Longrightarrow> owners_ok (bootstrap_defaults env s)"
    by (auto simp: owners_ok_def owner_stands_def bootstrap_defaults_def owner_member_def key_rules dict_simps
        split: option.splits)
  show "keys_grow s (bootstrap_defaults env s)"
    by (auto simp: keys_grow_def bootstrap_defaults_def key_rules)
qed (simp_all add: bootstrap_defaults_def)

lemma init_store_ok: "store_ok (init_store env)"
  by (simp add: init_store_def bootstrap_defaults_def empty_store_def store_ok_def tables_ok_def
      owners_ok_def owner_stands_def natural_ok_def numbered_def new_workspace_def owner_member_def table_rules
      key_rules dict_simps)

text \<open>Chaining safe steps over an intermediate store.\<close>

lemma safe_ensure: "(\<And>s. safe_step s (f s)) \<Longrightarrow> safe_step s (f (ensure_workspace env w s))"
  using ensure_workspace_safe safe.R_trans by blast

lemma safe_audit: "safe_step s t \<Longrightarrow> safe_step s (append_audit env a t)"
  using append_audit_safe safe.R_trans by blast

lemma safe_then: "safe_step s t \<Longrightarrow> (\<And>t. safe_step t (f t)) \<Longrightarrow> safe_step s (f t)"
  using safe.R_trans by blast

lemma safe_audit_once: "safe_step s t \<Longrightarrow> safe_step s (append_audit_once env a t)"
  using append_audit_once_safe safe.R_trans by blast

section \<open>Workspaces, notifications, monitors, projects and artifacts\<close>

text \<open>An update of one table by a record under its own key.\<close>

lemma notifications_safe: "safe_step s (s\<lparr>st_notifications := AList.update (nt_id n) n (st_notifications s)\<rparr>)"
  by (rule safe_stepI) (simp_all add: tables_ok_def table_rules owners_ok_def owner_stands_def keys_grow_def key_rules subset_insertI)

lemma monitors_safe: "mj_id j = k \<Longrightarrow> safe_step s (s\<lparr>st_monitor_jobs := AList.update k j (st_monitor_jobs s)\<rparr>)"
  by (rule safe_stepI) (simp_all add: tables_ok_def table_rules owners_ok_def owner_stands_def keys_grow_def key_rules subset_insertI)

lemma projects_safe: "pj_id p = k \<Longrightarrow> safe_step s (s\<lparr>st_projects := AList.update k p (st_projects s)\<rparr>)"
  by (rule safe_stepI) (simp_all add: tables_ok_def table_rules owners_ok_def owner_stands_def keys_grow_def key_rules subset_insertI)

lemma artifacts_safe: "safe_step s (s\<lparr>st_artifacts := AList.update (ar_id a) a (st_artifacts s)\<rparr>)"
  by (rule safe_stepI) (simp_all add: tables_ok_def table_rules owners_ok_def owner_stands_def keys_grow_def key_rules subset_insertI)

lemma evidence_safe: "ev_id e = k \<Longrightarrow> safe_step s (s\<lparr>st_evidence := AList.update k e (st_evidence s)\<rparr>)"
  by (rule safe_stepI) (simp_all add: tables_ok_def table_rules owners_ok_def owner_stands_def keys_grow_def key_rules subset_insertI)

lemma embeddings_safe: "em_id m = k \<Longrightarrow> safe_step s (s\<lparr>st_embeddings := AList.update k m (st_embeddings s)\<rparr>)"
  by (rule safe_stepI) (simp_all add: tables_ok_def table_rules owners_ok_def owner_stands_def keys_grow_def)

lemma embeddings_filter_safe: "safe_step s (s\<lparr>st_embeddings := filter P (st_embeddings s)\<rparr>)"
  by (rule safe_stepI) (simp_all add: tables_ok_def table_rules owners_ok_def owner_stands_def keys_grow_def)

lemma links_filter_safe: "safe_step s (s\<lparr>st_links := filter P (st_links s)\<rparr>)"
  by (rule safe_stepI) (simp_all add: tables_ok_def table_rules owners_ok_def owner_stands_def keys_grow_def)

lemma reports_safe: "safe_step s (s\<lparr>st_reports := AList.update (rv_id v) v (st_reports s)\<rparr>)"
  by (rule safe_stepI) (simp_all add: tables_ok_def table_rules owners_ok_def owner_stands_def keys_grow_def key_rules subset_insertI)

text \<open>Replacing a member is safe together with the entry that records it.\<close>

lemma upsert_workspace_member_safe: "safe_step s (snd (upsert_workspace_member env m s))"
proof -
  have replaced: "safe_step t (append_audit env
      (audit_of (wm_workspace_id m) None ''workspace_member.upserted'' ''workspace_member''
        (audit_relationship_resource_id ''workspace-member'' [JStr (wm_workspace_id m), JStr (wm_user_id m)])
        None (env_dump env (MMember m)))
      (t\<lparr>st_members := AList.update (wm_workspace_id m, wm_user_id m) m (st_members t)\<rparr>))" (is "safe_step t ?u") for t
  proof -
    have "store_ok ?u \<and> extends t ?u" if ok: "store_ok t"
    proof -
      have "owners_ok ?u"
        unfolding owners_ok_def
      proof (intro conjI allI impI)
        fix w m'
        assume "map_of (st_members ?u) (w, default_user_id) = Some m'"
        then show "owner_stands ?u w m'"
          using ok by (auto simp: store_ok_def owners_ok_def owner_stands_def append_audit_def audit_of_def
              system_member_upserted_def dict_simps split: if_splits)
      qed (use ok in \<open>simp_all add: store_ok_def owners_ok_def append_audit_def key_rules subset_insertI2\<close>)
      moreover have "tables_ok ?u"
        using ok by (simp add: store_ok_def tables_ok_def append_audit_def table_rules)
      moreover have "numbered (st_audit ?u)" "natural_ok ?u"
        using ok by (simp_all add: store_ok_def append_audit_def numbered_append natural_ok_def)
      moreover have "extends t ?u"
        by (simp add: extends_def append_audit_def keys_grow_def key_rules subset_insertI)
      ultimately show ?thesis by (simp add: store_ok_def)
    qed
    then show ?thesis by (simp add: safe_step_def)
  qed
  show ?thesis
    unfolding upsert_workspace_member_def Let_def snd_conv by (rule safe_ensure) (rule replaced)
qed

lemma upsert_notification_safe: "safe_step s (snd (upsert_notification env n s))"
  unfolding upsert_notification_def Let_def snd_conv
  by (rule safe_audit) (rule safe_ensure, rule notifications_safe)

lemma upsert_monitor_job_safe: "safe_step s (snd (upsert_monitor_job env j actor s))"
  unfolding upsert_monitor_job_def Let_def snd_conv
  by (rule safe_audit) (rule safe_ensure, rule monitors_safe, simp)

lemma upsert_project_safe: "safe_step s (snd (upsert_project env p s))"
  unfolding upsert_project_def Let_def snd_conv
  by (rule safe_audit) (rule safe_ensure, rule projects_safe, simp)

lemma upsert_artifact_safe: "safe_step s (snd (upsert_artifact env a s))"
  unfolding upsert_artifact_def Let_def snd_conv
  by (rule safe_audit) (rule safe_ensure, rule artifacts_safe)

text \<open>An operation may use that the store is in order when it shows its step safe.\<close>

lemma safe_given: "(store_ok s \<Longrightarrow> safe_step s t) \<Longrightarrow> safe_step s t"
  by (simp add: safe_step_def)

lemma stored_under_id:
  assumes "store_ok s"
  shows "map_of (st_workspaces s) k = Some w \<Longrightarrow> ws_id w = k"
    "map_of (st_monitor_jobs s) k = Some j \<Longrightarrow> mj_id j = k"
    "map_of (st_evidence s) k = Some e \<Longrightarrow> ev_id e = k"
    "map_of (st_projects s) k = Some p \<Longrightarrow> pj_id p = k"
    "map_of (st_competitors s) k = Some c \<Longrightarrow> cp_id c = k"
    "map_of (st_sources s) k = Some r \<Longrightarrow> sr_id r = k"
    "map_of (st_reports s) k = Some v \<Longrightarrow> rv_id v = k"
  using assms unfolding store_ok_def tables_ok_def by (blast dest: table_ok_get)+

lemma workspace_safe:
  assumes "map_of (st_workspaces s) k = Some w" "ws_id w' = k"
  shows "safe_step s (s\<lparr>st_workspaces := AList.update k w' (st_workspaces s)\<rparr>)"
proof -
  have "insert k (fst ` set (st_workspaces s)) = fst ` set (st_workspaces s)"
    using assms(1) by (auto dest: map_of_SomeD intro: rev_image_eqI)
  then show ?thesis
    by (intro safe_stepI) (simp_all add: tables_ok_def table_rules assms(2) owners_ok_def owner_stands_def keys_grow_def key_rules)
qed

lemma update_workspace_quota_safe: "safe_step s (snd (update_workspace_quota env w u actor s))"
proof (rule safe_given)
  assume ok: "store_ok s"
  show ?thesis
  proof (cases "map_of (st_workspaces s) w")
    case None
    then show ?thesis by (simp add: update_workspace_quota_def safe.R_refl)
  next
    case (Some r)
    then have "ws_id (apply_quota_update (env_now env) u r) = w"
      using stored_under_id(1)[OF ok] by (simp add: apply_quota_update_def)
    with Some show ?thesis
      by (auto simp: update_workspace_quota_def Let_def safe.R_refl intro!: safe_audit workspace_safe)
  qed
qed

lemma update_monitor_job_safe: "safe_step s (snd (update_monitor_job env i u actor s))"
  by (rule safe_given) (auto simp: update_monitor_job_def Let_def safe.R_refl apply_monitor_update_def
      dest: stored_under_id(2) split: option.split intro!: safe_audit monitors_safe)

lemma record_monitor_job_run_safe:
  "safe_step s (snd (record_monitor_job_run env i status wid run rv err actor s))"
  by (rule safe_given) (auto simp: record_monitor_job_run_def Let_def safe.R_refl apply_monitor_run_def
      dest: stored_under_id(2) split: option.split intro!: safe_audit monitors_safe)

lemma get_workspace_usage_safe: "safe_step s (snd (get_workspace_usage env w t0 t1 s))"
  by (simp add: get_workspace_usage_def Let_def case_prod_beta ensure_workspace_safe)

lemma check_workspace_quota_safe: "safe_step s (snd (check_workspace_quota env w t0 t1 s))"
  by (simp add: check_workspace_quota_def Let_def case_prod_beta get_workspace_usage_safe)

section \<open>The source registry\<close>

lemma merge_source_grows: "source_grows e (merge_source_registry (Some e) r)"
  by (auto simp: source_grows_def merge_source_registry_def stronger_trust_level_def Let_def)

lemma merge_source_natural_key: "natural_key (merge_source_registry before r) = natural_key r"
  by (simp add: natural_key_def merge_source_registry_def Let_def split: option.split)

lemma natural_key_found:
  assumes "source_registry_id_by_natural_key r s = Some i" "store_ok s"
  shows "\<exists>x. map_of (st_sources s) i = Some x \<and> natural_key x = natural_key r"
proof -
  from assms(1) obtain x where x: "find (\<lambda>x. natural_key x = natural_key r) (dict_values (st_sources s)) = Some x"
      and i: "i = sr_id x"
    by (auto simp: source_registry_id_by_natural_key_def)
  then have "x \<in> set (dict_values (st_sources s))" "natural_key x = natural_key r"
    by (auto simp: find_Some_iff)
  then obtain k where k: "(k, x) \<in> set (st_sources s)" by (auto simp: dict_values_def)
  have "table_ok sr_id (st_sources s)" using assms(2) by (simp add: store_ok_def tables_ok_def)
  then have "distinct (map fst (st_sources s))" "sr_id x = k" using k by (auto simp: table_ok_def)
  then have "map_of (st_sources s) i = Some x" using k i by simp
  with \<open>natural_key x = natural_key r\<close> show ?thesis by blast
qed

lemma natural_key_absent:
  assumes "source_registry_id_by_natural_key r s = None" "(k, x) \<in> set (st_sources s)"
  shows "natural_key x \<noteq> natural_key r"
proof -
  have "find (\<lambda>x. natural_key x = natural_key r) (dict_values (st_sources s)) = None"
    using assms(1) by (simp add: source_registry_id_by_natural_key_def)
  then show ?thesis using assms(2) by (auto simp: find_None_iff dict_values_def)
qed

definition source_slot :: "source_record \<Rightarrow> store \<Rightarrow> str" where
  "source_slot r s = or_str (source_registry_id_by_natural_key r s) (sr_id r)"

lemma source_slot_id:
  assumes "store_ok s"
  shows "sr_id (merge_source_registry (map_of (st_sources s) (source_slot r s)) r) = source_slot r s"
proof (cases "map_of (st_sources s) (source_slot r s)")
  case (Some e)
  then show ?thesis using stored_under_id(6)[OF assms Some] by (simp add: merge_source_registry_def Let_def)
next
  case None
  then have "source_slot r s = sr_id r"
    using natural_key_found[OF _ assms, of r]
    by (cases "source_registry_id_by_natural_key r s") (auto simp: source_slot_def elim: or_str.elims split: if_splits)
  then show ?thesis using None by (simp add: merge_source_registry_def)
qed

lemma source_slot_unique:
  assumes ok: "store_ok s" and ne: "[] \<notin> fst ` set (st_sources s)"
    and kx: "(k, x) \<in> set (st_sources s)" "k \<noteq> source_slot r s"
  shows "natural_key x \<noteq> natural_key r"
proof
  assume eq: "natural_key x = natural_key r"
  then obtain i where i: "source_registry_id_by_natural_key r s = Some i"
    using natural_key_absent[OF _ kx(1)] by (cases "source_registry_id_by_natural_key r s") auto
  then obtain y where y: "map_of (st_sources s) i = Some y" "natural_key y = natural_key r"
    using natural_key_found ok by blast
  then have iy: "(i, y) \<in> set (st_sources s)" by (simp add: map_of_SomeD)
  then have "i \<noteq> []" using ne by (auto intro: rev_image_eqI)
  then have "i \<noteq> k" using kx(2) i by (simp add: source_slot_def)
  moreover have "distinct (map (\<lambda>p. natural_key (snd p)) (st_sources s))"
    using ok ne by (simp add: store_ok_def natural_ok_def)
  ultimately show False using iy kx(1) y(2) eq
    by (auto simp: distinct_map dest: inj_onD[of _ _ "(i, y)" "(k, x)"])
qed

lemma put_source_safe:
  "safe_step s (s\<lparr>st_sources := AList.update (source_slot r s)
     (merge_source_registry (map_of (st_sources s) (source_slot r s)) r) (st_sources s)\<rparr>)"
  (is "safe_step s ?t")
proof (rule safe_given)
  assume ok: "store_ok s"
  let ?k = "source_slot r s" let ?m = "merge_source_registry (map_of (st_sources s) ?k) r"
  have tab: "table_ok sr_id (st_sources s)" using ok by (simp add: store_ok_def tables_ok_def)
  have "tables_ok ?t"
    using ok source_slot_id[OF ok] by (simp add: store_ok_def tables_ok_def table_rules)
  moreover have "owners_ok ?t" using ok by (simp add: store_ok_def owners_ok_def owner_stands_def)
  moreover have "numbered (st_audit ?t)" using ok by (simp add: store_ok_def)
  moreover have "natural_ok ?t"
    unfolding natural_ok_def
  proof
    assume "[] \<notin> fst ` set (st_sources ?t)"
    then have ne: "[] \<notin> fst ` set (st_sources s)" by (simp add: key_rules)
    then have "distinct (map (\<lambda>x. natural_key (snd x)) (st_sources s))"
      using ok by (simp add: store_ok_def natural_ok_def)
    then show "distinct (map (\<lambda>x. natural_key (snd x)) (st_sources ?t))"
      using tab source_slot_unique[OF ok ne, of _ _ r]
      by (auto intro!: distinct_values_update simp: merge_source_natural_key table_ok_def)
  qed
  moreover have "sources_grow s ?t"
    by (auto simp: sources_grow_def dict_simps merge_source_grows)
  then have "extends s ?t" by (simp add: extends_def keys_grow_def)
  ultimately show ?thesis by (simp add: safe_step_def store_ok_def)
qed

lemma upsert_source_locked_safe: "safe_step s (snd (upsert_source_registry_locked env r actor once s))"
proof (rule safe_given)
  assume ok: "store_ok s"
  show ?thesis
    unfolding upsert_source_registry_locked_def Let_def snd_conv source_slot_def[symmetric]
    using source_slot_id[OF ok, of r] put_source_safe[of s r]
    by (cases once) (simp_all add: safe_audit safe_audit_once)
qed

lemma upsert_source_registry_safe: "safe_step s (snd (upsert_source_registry env r actor s))"
  unfolding upsert_source_registry_def by (rule safe_ensure, rule upsert_source_locked_safe)

section \<open>Evidence, embeddings and reports\<close>

lemma merge_evidence_id [simp]: "ev_id (merge_evidence_lifecycle before e) = ev_id e"
  by (simp add: merge_evidence_lifecycle_def Let_def split: option.split)

lemma put_evidence_safe: "safe_step s (put_evidence e s)"
  by (simp add: put_evidence_def evidence_safe)

lemma upsert_embedding_safe: "safe_step s (upsert_embedding env e s)"
  unfolding upsert_embedding_def Let_def by (rule embeddings_safe) simp

lemma delete_embedding_safe: "safe_step s (delete_embedding i s)"
  by (simp add: delete_embedding_def embeddings_filter_safe)

lemma record_duplicate_safe: "op_rel safe_step (record_embedding_duplicate c d)"
  unfolding op_rel_def
proof (rule allI, rule safe_given)
  fix s assume ok: "store_ok s"
  show "safe_step s (snd (record_embedding_duplicate c d s))"
  proof (cases "map_of (st_evidence s) c")
    case (Some e)
    show ?thesis
    proof (cases "iter_strings (map_of (ev_metadata e) ''embedding_duplicate_ids'')")
      case (Inr xs)
      have "ev_id e = c" using stored_under_id(3)[OF ok Some] .
      then show ?thesis using Some Inr
        by (simp add: record_embedding_duplicate_def Let_def safe.R_refl evidence_safe)
    qed (use Some in \<open>simp add: record_embedding_duplicate_def Let_def safe.R_refl\<close>)
  qed (simp add: record_embedding_duplicate_def safe.R_refl)
qed

lemma op_rel_at: "op_rel R m \<Longrightarrow> R s (snd (m s))"
  by (simp add: op_rel_def)

lemma apply_dedupe_safe: "op_rel safe_step (apply_embedding_dedupe e)"
  unfolding op_rel_def
proof
  fix s
  have "safe_step s (snd (op_bind (record_embedding_duplicate c d) (\<lambda>_. op_return x) s))"
    for c d and x :: "evidence \<times> str option"
    by (rule op_rel_at, rule safe.rel_bind, rule record_duplicate_safe, rule safe.rel_return)
  then show "safe_step s (snd (apply_embedding_dedupe e s))"
    by (simp add: apply_embedding_dedupe_def safe.R_refl split: sum.split option.split)
qed

lemma register_source_safe: "op_rel safe_step (register_source env e)"
proof -
  have "op_rel safe_step (\<lambda>s. let (m, s') = upsert_source_registry_locked env r (Some default_user_id) True s
      in (Inr m :: py_error + source_record, s'))" for r
    using upsert_source_locked_safe by (auto simp: op_rel_def case_prod_beta)
  then show ?thesis unfolding register_source_def by (intro safe.rel_bind safe.rel_try)
qed

lemma store_evidence_safe: "safe_step s (store_evidence env e d s)"
  by (simp add: store_evidence_def Let_def safe_then put_evidence_safe upsert_embedding_safe
      delete_embedding_safe)

lemma audit_evidence_safe: "safe_step s (audit_evidence env before e s)"
  by (simp add: audit_evidence_def append_audit_safe)

lemma upsert_evidence_safe: "op_rel safe_step (upsert_evidence env e)"
  unfolding op_rel_def upsert_evidence_def Let_def case_prod_beta
  by (rule allI, rule op_rel_at)
    (intro safe.rel_bind safe.rel_modify safe.rel_return apply_dedupe_safe register_source_safe
      store_evidence_safe audit_evidence_safe)

lemma upsert_evidence_batch_safe: "op_rel safe_step (upsert_evidence_batch env es)"
  unfolding upsert_evidence_batch_def by (intro safe.rel_each upsert_evidence_safe)

lemma reindex_one_safe: "op_rel safe_step (reindex_one env e)"
proof -
  have "safe_step s (let s1 = put_evidence x s in if d = None then upsert_embedding env x s1 else s1)"
    for x s and d :: "str option"
    by (simp add: Let_def put_evidence_safe safe_then upsert_embedding_safe)
  then show ?thesis
    unfolding reindex_one_def case_prod_beta
    by (intro safe.rel_bind safe.rel_modify safe.rel_return apply_dedupe_safe)
qed

lemma reindex_safe: "op_rel safe_step (reindex_evidence_embeddings env w p)"
  unfolding op_rel_def reindex_evidence_embeddings_def Let_def
  by (rule allI, rule safe_then, rule embeddings_filter_safe, rule op_rel_at)
    (intro safe.rel_bind safe.rel_each reindex_one_safe safe.rel_return)

lemma update_evidence_quality_safe: "safe_step s (snd (update_evidence_quality env i l actor r s))"
  by (rule safe_given) (auto simp: update_evidence_quality_def Let_def safe.R_refl
      dest: stored_under_id(3) split: option.split intro!: safe_audit evidence_safe)

lemma upsert_report_version_safe: "op_rel safe_step (upsert_report_version env v)"
  by (auto simp: op_rel_def upsert_report_version_def Let_def safe.R_refl
      split: sum.split option.split intro!: safe_audit reports_safe)

section \<open>Runs\<close>

lemma competitors_safe: "cp_id c = k \<Longrightarrow> safe_step s (s\<lparr>st_competitors := AList.update k c (st_competitors s)\<rparr>)"
  by (rule safe_stepI) (simp_all add: tables_ok_def table_rules owners_ok_def owner_stands_def keys_grow_def key_rules subset_insertI)

lemma links_setdefault_safe:
  "pc_project_id l = p \<Longrightarrow> pc_competitor_id l = c \<Longrightarrow>
    safe_step s (s\<lparr>st_links := dict_setdefault (p, c) l (st_links s)\<rparr>)"
  by (rule safe_stepI) (simp_all add: tables_ok_def table_rules owners_ok_def owner_stands_def keys_grow_def)

lemma upsert_run_project_safe: "safe_step s (upsert_run_project env d ctx s)"
  unfolding upsert_run_project_def Let_def
  by (rule safe_given, rule safe_audit_once, rule projects_safe)
    (auto split: option.split dest: stored_under_id(4))

lemma drop_stale_links_safe: "safe_step s (drop_stale_links ctx s)"
  by (simp add: drop_stale_links_def links_filter_safe)

lemma link_competitor_safe: "safe_step s (link_competitor env d ctx name c s)"
  unfolding link_competitor_def Let_def
  by (rule safe_audit_once, rule safe_then[OF append_audit_once_safe, where f = "\<lambda>t. t\<lparr>st_links := g t\<rparr>" for g],
      rule links_setdefault_safe) simp_all

lemma run_competitor_id:
  assumes "run_competitor env d ctx name i old = Inr c" "\<And>x. old = Some x \<Longrightarrow> cp_id x = i"
  shows "cp_id c = i"
proof (cases old)
  case None
  with assms(1) show ?thesis
    by (auto simp: run_competitor_def Let_def split: option.splits elim!: err_bind.elims)
next
  case (Some x)
  with assms show ?thesis by (auto simp: run_competitor_def Let_def)
qed

lemma upsert_run_competitor_safe: "op_rel safe_step (upsert_run_competitor env d ctx nc)"
  unfolding op_rel_def
proof (rule allI, rule safe_given)
  fix s assume ok: "store_ok s"
  obtain name i where nc: "nc = (name, i)" by (cases nc)
  show "safe_step s (snd (upsert_run_competitor env d ctx nc s))"
  proof (cases "run_competitor env d ctx name i (map_of (st_competitors s) i)")
    case (Inr c)
    then have "cp_id c = i" using run_competitor_id stored_under_id(5)[OF ok] by blast
    with Inr nc show ?thesis
      by (simp add: upsert_run_competitor_def) (rule safe_then, rule competitors_safe, simp, rule link_competitor_safe)
  qed (use nc in \<open>simp add: upsert_run_competitor_def safe.R_refl\<close>)
qed

text \<open>A run is recorded under its id.\<close>

lemma run_details_safe:
  fixes s :: store
  shows
  "rn_id d = k \<Longrightarrow> safe_step s (s\<lparr>st_contexts := c, st_run_details := AList.update k d (st_run_details s)\<rparr>)"
  by (rule safe_stepI) (simp_all add: tables_ok_def table_rules owners_ok_def owner_stands_def keys_grow_def key_rules subset_insertI)

lemma record_run_safe: "safe_step s (record_run env d ctx new s)"
  unfolding record_run_def Let_def by (auto intro!: safe_audit run_details_safe)

lemma start_run_safe: "op_rel safe_step (start_run env d w p actor)"
  unfolding op_rel_def
proof
  fix s :: store
  let ?ctx = "run_context_for d w p actor" and ?new = "map_of (st_contexts s) (rn_id d) = None"
  have "op_rel safe_step (op_bind (op_each (upsert_run_competitor env d ?ctx) nis) (\<lambda>_.
      op_bind (op_modify (record_run env d ?ctx ?new)) (\<lambda>_. op_return ?ctx)))" for nis
    by (intro safe.rel_bind safe.rel_each safe.rel_modify safe.rel_return
        upsert_run_competitor_safe record_run_safe)
  then have steps: "safe_step t (snd (op_bind (op_each (upsert_run_competitor env d ?ctx) nis) (\<lambda>_.
      op_bind (op_modify (record_run env d ?ctx ?new)) (\<lambda>_. op_return ?ctx)) t))" for nis t
    by (rule op_rel_at)
  show "safe_step s (snd (start_run env d w p actor s))"
    unfolding start_run_def Let_def
    by (rule safe.R_trans[OF ensure_workspace_safe], rule safe.R_trans[OF upsert_run_project_safe],
        rule safe.R_trans[OF drop_stale_links_safe], rule steps)
qed

lemma put_and_embed_safe: "safe_step s (upsert_embedding env x (put_evidence x s))"
  by (rule safe_then, rule put_evidence_safe, rule upsert_embedding_safe)

lemma save_evidence_safe: "op_rel safe_step (save_evidence env e)"
  unfolding op_rel_def save_evidence_def Let_def
  by (rule allI, rule op_rel_at, rule safe.rel_bind, rule safe.rel_modify, rule put_and_embed_safe)
    (rule safe.rel_bind, rule register_source_safe, rule safe.rel_return)

lemma save_claims_and_report_safe: "safe_step s (save_claims_and_report p s)"
proof -
  have "fst ` set d \<subseteq> fst ` set (fold (\<lambda>c. AList.update (cl_id c) c) cs d)" for cs and d :: "(str \<times> claim) list"
    by (induction cs arbitrary: d) (auto simp: key_rules subset_iff)
  then show ?thesis
    unfolding save_claims_and_report_def
    by (intro safe_stepI) (simp_all add: tables_ok_def table_rules owners_ok_def owner_stands_def keys_grow_def key_rules subset_insertI)
qed

lemma projection_audits_safe: "safe_step s (projection_audits env p s)"
  unfolding projection_audits_def Let_def
  by (rule safe_audit_once)+ (auto intro!: safe_audit_once simp: safe.R_refl)

lemma save_projection_safe: "op_rel safe_step (save_projection env p)"
  unfolding save_projection_def
  by (intro safe.rel_bind safe.rel_each save_evidence_safe safe.rel_modify)
    (rule safe.R_trans[OF save_claims_and_report_safe projection_audits_safe])

end
