(* ===== verification/StoreCalls.thy ===== *)
theory StoreCalls
  imports StoreProps
begin

text \<open>
  The store as its clients see it: any sequence of calls of its operations, each with the clock
  and environment it meets. What holds of every operation as a safe step holds of every
  sequence; the version numbers of a report line and the outcome of storing evidence follow.
\<close>

section \<open>Calls\<close>

datatype store_call =
    StartRun run_detail "str option" "str option" "str option"
  | SaveProjection run_projection
  | UpsertWorkspaceMember workspace_member
  | UpdateWorkspaceQuota str quota_update "str option"
  | GetWorkspaceUsage str "datetime option" "datetime option"
  | CheckWorkspaceQuota str "datetime option" "datetime option"
  | UpsertNotification notification
  | UpsertMonitorJob monitor_job "str option"
  | UpdateMonitorJob str monitor_update "str option"
  | RecordMonitorJobRun str str "str option" "str option" "str option" str "str option"
  | UpsertProject project
  | AuditSchemaEvolutionReview project schema_review "str option"
  | UpsertEvidence evidence
  | UpsertEvidenceBatch "evidence list"
  | ReindexEvidenceEmbeddings "str option" "str option"
  | UpsertArtifact artifact
  | UpsertSourceRegistry source_record "str option"
  | UpdateEvidenceQuality str str "str option" str
  | UpsertReportVersion report_version
  | AuditReportVersionTransition report_version str "str option" "str option" str "jdict option"
  | RecordMemoryFeedbackAudit user_feedback "memory_candidate list" "str option"

fun run_call :: "env \<Rightarrow> store_call \<Rightarrow> store \<Rightarrow> store" where
  "run_call env (StartRun d w p actor) s = snd (start_run env d w p actor s)"
| "run_call env (SaveProjection p) s = snd (save_projection env p s)"
| "run_call env (UpsertWorkspaceMember m) s = snd (upsert_workspace_member env m s)"
| "run_call env (UpdateWorkspaceQuota w u actor) s = snd (update_workspace_quota env w u actor s)"
| "run_call env (GetWorkspaceUsage w t0 t1) s = snd (get_workspace_usage env w t0 t1 s)"
| "run_call env (CheckWorkspaceQuota w t0 t1) s = snd (check_workspace_quota env w t0 t1 s)"
| "run_call env (UpsertNotification n) s = snd (upsert_notification env n s)"
| "run_call env (UpsertMonitorJob j actor) s = snd (upsert_monitor_job env j actor s)"
| "run_call env (UpdateMonitorJob i u actor) s = snd (update_monitor_job env i u actor s)"
| "run_call env (RecordMonitorJobRun i st wid rid rvid err actor) s =
     snd (record_monitor_job_run env i st wid rid rvid err actor s)"
| "run_call env (UpsertProject p) s = snd (upsert_project env p s)"
| "run_call env (AuditSchemaEvolutionReview p r actor) s = audit_schema_evolution_review env p r actor s"
| "run_call env (UpsertEvidence e) s = snd (upsert_evidence env e s)"
| "run_call env (UpsertEvidenceBatch es) s = snd (upsert_evidence_batch env es s)"
| "run_call env (ReindexEvidenceEmbeddings w p) s = snd (reindex_evidence_embeddings env w p s)"
| "run_call env (UpsertArtifact a) s = snd (upsert_artifact env a s)"
| "run_call env (UpsertSourceRegistry r actor) s = snd (upsert_source_registry env r actor s)"
| "run_call env (UpdateEvidenceQuality i l actor remark) s =
     snd (update_evidence_quality env i l actor remark s)"
| "run_call env (UpsertReportVersion v) s = snd (upsert_report_version env v s)"
| "run_call env (AuditReportVersionTransition v act actor before remark md) s =
     audit_report_version_transition env v act actor before remark md s"
| "run_call env (RecordMemoryFeedbackAudit f cs actor) s = record_memory_feedback_audit env f cs actor s"

definition run_calls :: "(env \<times> store_call) list \<Rightarrow> store \<Rightarrow> store" where
  "run_calls = fold (\<lambda>(env, c). run_call env c)"

lemmas op_steps_safe = start_run_safe save_projection_safe upsert_evidence_safe
  upsert_evidence_batch_safe reindex_safe upsert_report_version_safe

lemmas call_steps_safe = op_steps_safe [THEN op_rel_at] upsert_workspace_member_safe
  update_workspace_quota_safe get_workspace_usage_safe check_workspace_quota_safe
  upsert_notification_safe upsert_monitor_job_safe update_monitor_job_safe
  record_monitor_job_run_safe upsert_project_safe upsert_artifact_safe upsert_source_registry_safe
  update_evidence_quality_safe

lemma run_call_safe: "safe_step s (run_call env c s)"
  by (cases c) (simp_all add: call_steps_safe append_audit_safe audit_schema_evolution_review_def
      audit_report_version_transition_def record_memory_feedback_audit_def)

lemma run_calls_safe: "safe_step s (run_calls cs s)"
  unfolding run_calls_def using run_call_safe by (auto intro!: safe.rel_fold simp: case_prod_beta)

lemma run_calls_append: "run_calls (cs @ ds) s = run_calls ds (run_calls cs s)"
  by (simp add: run_calls_def)

lemma run_calls_ok: "store_ok (run_calls cs (init_store env))"
  using run_calls_safe init_store_ok by (auto simp: safe_step_def)

lemma run_calls_extends: "extends (run_calls cs (init_store env)) (run_calls ds (run_calls cs (init_store env)))"
  using run_calls_safe run_calls_ok by (auto simp: safe_step_def)

text \<open>C1. Whatever sequence of operations is called on a fresh store, at whatever times, raising
  or not, every table is keyed by the ids of its records; the default workspace exists; the system
  user is a member of every workspace, and wherever it is a member it is an active owner unless the
  audit log shows that its membership there was upserted; no two sources share workspace, domain
  and source type, as long as no source has the empty id; and the audit ids are numbered in the
  order of the log.\<close>

theorem store_invariant: "store_ok (run_calls cs (init_store env))"
  by (rule run_calls_ok)

text \<open>C13. The store only adds to its history: after further calls the audit log has grown at its
  end alone, no workspace, member, notification, monitor, run, project, competitor, evidence,
  artifact, claim or report has disappeared, and every source is still there with no lower
  trust, no fewer sightings and no shorter interval of sightings.\<close>

theorem store_history_kept:
  "extends (run_calls cs (init_store env)) (run_calls (cs @ ds) (init_store env))"
  by (simp add: run_calls_append run_calls_extends)

section \<open>Report lines\<close>

text \<open>The versions of a line, and the version the next run of the line gets.\<close>

definition line_versions :: "report_version \<Rightarrow> store \<Rightarrow> report_version list" where
  "line_versions v s = filter (\<lambda>w. same_line w v) (dict_values (st_reports s))"

definition next_number :: "report_version \<Rightarrow> store \<Rightarrow> int" where
  "next_number v s = next_report_version_number (rv_project_id v) (rv_topic_normalized v)
     (rv_competitor_layer v) (rv_competitor_set_hash v) s"

lemma next_number_max:
  "next_number v s = (case max_by id (map rv_version_number (line_versions v s)) of
     None \<Rightarrow> 1 | Some n \<Rightarrow> n + 1)"
  by (simp add: next_number_def next_report_version_number_def line_versions_def same_line_def
      Let_def split: option.split)

lemma next_number_greater: "w \<in> set (line_versions v s) \<Longrightarrow> rv_version_number w < next_number v s"
  by (auto simp: next_number_max dest!: max_by_Some split: option.split)

lemma previous_of_next:
  assumes "rv_version_number v = next_number v s"
  shows "get_previous_report_version v s =
    max_by (\<lambda>w. (rv_version_number w, rv_created_at w)) (line_versions v s)"
proof -
  have "filter (\<lambda>w. same_line w v \<and> rv_version_number w < rv_version_number v) (dict_values (st_reports s))
      = line_versions v s"
    using assms next_number_greater[of _ v s] by (auto simp: line_versions_def intro!: filter_cong)
  then show ?thesis by (simp add: get_previous_report_version_def)
qed

lemma next_number_follows_line:
  assumes num: "rv_version_number v = next_number v s"
  shows "list_all (\<lambda>w. rv_version_number w < rv_version_number v) (line_versions v s)
    \<and> (case get_previous_report_version v s of
         None \<Rightarrow> line_versions v s = [] \<and> rv_version_number v = 1
       | Some p \<Rightarrow> p \<in> set (line_versions v s) \<and> rv_version_number v = rv_version_number p + 1
           \<and> list_all (\<lambda>w. (rv_version_number w, rv_created_at w) \<le> (rv_version_number p, rv_created_at p))
               (line_versions v s))"
proof -
  have less: "list_all (\<lambda>w. rv_version_number w < rv_version_number v) (line_versions v s)"
    by (simp add: list_all_iff num next_number_greater)
  show ?thesis
  proof (cases "get_previous_report_version v s")
    case None
    then have "line_versions v s = []" by (simp add: previous_of_next[OF num])
    then show ?thesis using None num by (simp add: next_number_max)
  next
    case (Some p)
    then have p: "p \<in> set (line_versions v s)"
      and top: "\<forall>w \<in> set (line_versions v s). (rv_version_number w, rv_created_at w) \<le> (rv_version_number p, rv_created_at p)"
      by (auto simp: previous_of_next[OF num] dest!: max_by_Some)
    obtain n where n: "max_by id (map rv_version_number (line_versions v s)) = Some n"
      using p by (cases "max_by id (map rv_version_number (line_versions v s))") auto
    then obtain w where w: "w \<in> set (line_versions v s)" "rv_version_number w = n"
      by (auto dest!: max_by_Some)
    have "rv_version_number p \<le> n" using max_by_Some[OF n] p by simp
    moreover have "n \<le> rv_version_number p" using top w by auto
    ultimately have "rv_version_number v = rv_version_number p + 1" using num n by (simp add: next_number_max)
    then show ?thesis using Some p top less by (simp add: list_all_iff)
  qed
qed

text \<open>A version that takes the next number of its report line is numbered above every version
  of the line, its predecessor is the newest of them by number and then time, whose number it
  continues by one, and it has none only as the first of its line, which is number 1.\<close>

theorem next_version_follows_line:
  "let v = w\<lparr>rv_version_number := next_report_version_number (rv_project_id w)
       (rv_topic_normalized w) (rv_competitor_layer w) (rv_competitor_set_hash w) s\<rparr>
   in list_all (\<lambda>x. rv_version_number x < rv_version_number v) (line_versions v s)
    \<and> (case get_previous_report_version v s of
         None \<Rightarrow> line_versions v s = [] \<and> rv_version_number v = 1
       | Some p \<Rightarrow> p \<in> set (line_versions v s) \<and> rv_version_number v = rv_version_number p + 1
           \<and> list_all (\<lambda>x. (rv_version_number x, rv_created_at x) \<le> (rv_version_number p, rv_created_at p))
               (line_versions v s))"
  unfolding Let_def by (rule next_number_follows_line) (simp add: next_number_def)

section \<open>Storing evidence\<close>

lemma append_audit_fields [simp]:
  "st_evidence (append_audit env a s) = st_evidence s"
  "st_embeddings (append_audit env a s) = st_embeddings s"
  "st_sources (append_audit env a s) = st_sources s"
  by (simp_all add: append_audit_def)

lemma append_audit_once_fields [simp]:
  "st_evidence (append_audit_once env a s) = st_evidence s"
  "st_embeddings (append_audit_once env a s) = st_embeddings s"
  by (simp_all add: append_audit_once_def)

lemma upsert_source_locked_fields:
  "upsert_source_registry_locked env r actor once s = (m, t) \<Longrightarrow>
     st_evidence t = st_evidence s \<and> st_embeddings t = st_embeddings s
     \<and> map_of (st_sources t) (sr_id m) = Some m \<and> natural_key m = natural_key r"
  by (auto simp: upsert_source_registry_locked_def Let_def dict_simps merge_source_natural_key
      append_audit_once_def)

lemma apply_dedupe_result:
  assumes "apply_embedding_dedupe e s = (Inr (x, d), t)"
  shows "ev_id x = ev_id e \<and> ev_seen_count x = ev_seen_count e
    \<and> map_of (ev_metadata x) ''embedding_indexed'' = Some (JBool (d = None))"
  using assms by (auto simp: apply_embedding_dedupe_def op_bind_def op_return_def not_duplicate_def
      marked_duplicate_def dict_simps split: sum.splits option.splits prod.splits)

lemma apply_dedupe_keeps:
  assumes "apply_embedding_dedupe e s = (r, t)"
  shows "st_audit t = st_audit s \<and> st_sources t = st_sources s"
proof -
  have "st_audit (snd (record_embedding_duplicate c k s)) = st_audit s
      \<and> st_sources (snd (record_embedding_duplicate c k s)) = st_sources s" for c k
    by (simp add: record_embedding_duplicate_def Let_def split: sum.split option.split)
  then show ?thesis using assms
    by (auto simp: apply_embedding_dedupe_def op_bind_def op_return_def
        split: sum.splits option.splits prod.splits) (metis snd_conv)+
qed

lemma store_evidence_result:
  "map_of (st_evidence (store_evidence env e d s)) (ev_id e) = Some e
   \<and> list_ex (\<lambda>m. em_evidence_id m = ev_id e) (dict_values (st_embeddings (store_evidence env e d s)))
       = (d = None)
   \<and> st_audit (store_evidence env e d s) = st_audit s"
  by (cases "d = None") (auto simp: store_evidence_def Let_def put_evidence_def upsert_embedding_def
      delete_embedding_def dict_simps dict_values_def list_ex_iff build_evidence_embedding_record_def
      intro!: bexI[OF _ in_set_update] split: option.split)

lemma store_evidence_sources: "st_sources (store_evidence env e d s) = st_sources s"
  by (simp add: store_evidence_def Let_def put_evidence_def upsert_embedding_def delete_embedding_def)

lemma append_audit_last:
  "al_action (last (st_audit (append_audit env a s))) = ae_action a
   \<and> al_resource_id (last (st_audit (append_audit env a s))) = ae_resource_id a"
  by (simp add: append_audit_def)

lemma merge_evidence_seen:
  "ev_seen_count (merge_evidence_lifecycle before e) = (case before of
     None \<Rightarrow> max 1 (ev_seen_count e)
   | Some old \<Rightarrow> (let run = opt_or (ev_last_seen_run_id e) (ev_run_id e)
       in max 1 (ev_seen_count old + (if given run \<and> run \<noteq> ev_last_seen_run_id old then 1 else 0))))"
  by (simp add: merge_evidence_lifecycle_def Let_def split: option.split)

lemma register_source_result:
  assumes "register_source env e s = (r, t)"
  shows "st_evidence t = st_evidence s \<and> st_embeddings t = st_embeddings s
    \<and> (case r of Inl err \<Rightarrow> t = s | Inr m \<Rightarrow> map_of (st_sources t) (sr_id m) = Some m)"
proof (cases "source_registry_from_evidence env e")
  case (Inl err)
  then have "register_source env e s = (Inl err, s)" by (simp add: register_source_def op_bind_def op_try_def)
  then show ?thesis using assms by auto
next
  case (Inr x)
  obtain m u where "upsert_source_registry_locked env x (Some default_user_id) True s = (m, u)"
    by fastforce
  with Inr upsert_source_locked_fields[OF this] show ?thesis
    using assms by (auto simp: register_source_def op_bind_def op_try_def)
qed

section \<open>Which evidence is a duplicate\<close>

text \<open>Two records hold the same content when, for the same workspace, project, competitor and
  dimension, they have the same non-empty content hash or the same non-empty normalised URL; texts
  are compared as the store writes them, separated by bars and up to case and outer space.\<close>

definition content_scope :: "evidence \<Rightarrow> str list" where
  "content_scope e = [ev_workspace_id e, ev_project_id e, strip (lower (ev_competitor_id e)),
     strip (lower (ev_dimension e))]"

definition content_url :: "evidence \<Rightarrow> str" where
  "content_url e = (case normalize_url (Some (str_or (ev_canonical_url e) (opt_text (ev_url e)))) of
     Inl err \<Rightarrow> [] | Inr url \<Rightarrow> url)"

definition same_content :: "evidence \<Rightarrow> evidence \<Rightarrow> bool" where
  "same_content e x \<longleftrightarrow>
     (ev_content_hash e \<noteq> [] \<and> ev_content_hash x \<noteq> []
        \<and> join ''|'' (content_scope e @ [strip (lower (ev_content_hash e))])
          = join ''|'' (content_scope x @ [strip (lower (ev_content_hash x))]))
     \<or> (content_url e \<noteq> [] \<and> content_url x \<noteq> []
        \<and> join ''|'' (content_scope e @ [content_url e]) = join ''|'' (content_scope x @ [content_url x]))"

text \<open>A stored record is the original of an incoming one when it holds the same content under
  another id, was captured no later, and no stored record of that content precedes it.\<close>

definition precedes :: "evidence \<Rightarrow> evidence \<Rightarrow> bool" where
  "precedes x y \<longleftrightarrow> (ev_captured_at x, ev_id x) \<le> (ev_captured_at y, ev_id y)"

definition original_of :: "evidence \<Rightarrow> store \<Rightarrow> evidence \<Rightarrow> bool" where
  "original_of e s x \<longleftrightarrow> same_content e x \<and> ev_id x \<noteq> ev_id e \<and> precedes x e
     \<and> list_all (\<lambda>y. same_content e y \<longrightarrow> precedes x y) (dict_values (st_evidence s))"

lemma dedupe_keys_text:
  assumes "embedding_dedupe_keys e = Inr ks"
  shows "set ks = (if ev_content_hash e = [] then {}
        else {''content_hash|'' @ join ''|'' (content_scope e @ [strip (lower (ev_content_hash e))])})
      \<union> (if content_url e = [] then {}
        else {''canonical_url|'' @ join ''|'' (content_scope e @ [content_url e])})"
  using assms by (auto simp: embedding_dedupe_keys_def embedding_dedupe_key_def content_scope_def
      content_url_def opt_text_def elim!: err_bind_Inr split: if_splits option.splits)

lemma shared_key_same_content:
  assumes "embedding_dedupe_keys e = Inr ks" "embedding_dedupe_keys x = Inr ls"
  shows "list_ex (\<lambda>k. k \<in> set ks) ls = same_content e x"
  unfolding list_ex_iff dedupe_keys_text[OF assms(1)] dedupe_keys_text[OF assms(2)] same_content_def
  by (auto split: if_splits)

lemma hd_sort_key:
  assumes "xs \<noteq> []"
  shows "hd (sort_key f xs) \<in> set xs" "y \<in> set xs \<Longrightarrow> f (hd (sort_key f xs)) \<le> f y"
proof -
  obtain z zs where z: "sort_key f xs = z # zs" using assms by (metis length_0_conv length_sort neq_Nil_conv)
  moreover have "set (sort_key f xs) = set xs" "sorted (map f (sort_key f xs))" by simp_all
  ultimately show "hd (sort_key f xs) \<in> set xs" "y \<in> set xs \<Longrightarrow> f (hd (sort_key f xs)) \<le> f y"
    by (auto simp: z)
qed

lemma same_content_merged [simp]:
  "same_content (merge_evidence_lifecycle b e) x = same_content e x"
  "original_of (merge_evidence_lifecycle b e) s = original_of e s"
  "original_of (merge_evidence_lifecycle b e) s x = original_of e s x"
  "ev_id (merge_evidence_lifecycle b e) = ev_id e"
  by (simp_all add: fun_eq_iff same_content_def content_scope_def content_url_def original_of_def precedes_def
      merge_evidence_lifecycle_def Let_def split: option.split)

lemma precedes_same_id: "precedes x y \<Longrightarrow> precedes y x \<Longrightarrow> ev_id x = ev_id y"
  by (auto simp: precedes_def dest: order.antisym)

lemma case_nonempty: "xs \<noteq> [] \<Longrightarrow> (case xs of [] \<Rightarrow> a | _ # _ \<Rightarrow> b) = b"
  by (cases xs) simp_all

text \<open>The store's search finds an original exactly when there is one.\<close>

lemma find_duplicate_exact:
  assumes "find_embedding_duplicate e s = Inr r"
  shows "case r of
      None \<Rightarrow> \<not> list_ex (original_of e s) (dict_values (st_evidence s))
    | Some (c, k) \<Rightarrow> c \<in> set (dict_values (st_evidence s)) \<and> original_of e s c"
proof -
  let ?vs = "dict_values (st_evidence s)"
  obtain keys where keys: "embedding_dedupe_keys e = Inr keys"
    using assms by (cases "embedding_dedupe_keys e") (auto simp: find_embedding_duplicate_def)
  show ?thesis
  proof (cases "keys = []")
    case True
    then have "\<not> same_content e x" for x
      using dedupe_keys_text[OF keys] by (auto simp: same_content_def split: if_splits)
    then show ?thesis using assms keys True
      by (auto simp: find_embedding_duplicate_def list_ex_iff original_of_def)
  next
    case False
    obtain rows where rows: "err_map (\<lambda>x. err_bind (embedding_dedupe_keys x) (\<lambda>ks. Inr (x, ks))) ?vs = Inr rows"
      using assms keys False
      by (cases "err_map (\<lambda>x. err_bind (embedding_dedupe_keys x) (\<lambda>ks. Inr (x, ks))) ?vs")
        (auto simp: find_embedding_duplicate_def)
    define cands where "cands = map fst (filter (\<lambda>(x, ks). list_ex (\<lambda>k. k \<in> set keys) ks) rows)"
    have row: "p \<in> set rows \<Longrightarrow> fst p \<in> set ?vs \<and> embedding_dedupe_keys (fst p) = Inr (snd p)" for p
      by (cases p) (auto dest!: err_map_in[OF rows] elim!: err_bind_Inr)
    have all: "x \<in> set ?vs \<Longrightarrow> \<exists>ks. (x, ks) \<in> set rows" for x
      using err_map_out[OF rows, of x] by (auto elim!: err_bind_Inr)
    have cands: "x \<in> set cands \<longleftrightarrow> x \<in> set ?vs \<and> same_content e x" for x
      using row all[of x] shared_key_same_content[OF keys] by (force simp: cands_def)
    show ?thesis
    proof (cases "cands = []")
      case True
      then have "r = None" using assms keys rows False by (auto simp: find_embedding_duplicate_def cands_def Let_def)
      then show ?thesis using cands True by (auto simp: list_ex_iff original_of_def)
    next
      case ne: False
      define c where "c = hd (sort_key (\<lambda>x. (ev_captured_at x, ev_id x)) (cands @ [e]))"
      note hd = hd_sort_key[where xs = "cands @ [e]" and f = "\<lambda>x. (ev_captured_at x, ev_id x)", folded c_def]
      have min: "y \<in> set cands \<Longrightarrow> precedes c y" "precedes c e" for y
        using hd(2) by (simp_all add: precedes_def)
      have run: "Inr r = (if ev_id c = ev_id e then Inr None else err_bind (embedding_dedupe_keys c) (\<lambda>cks.
          case sorted_set (filter (\<lambda>k. k \<in> set keys) cks) of [] \<Rightarrow> Inr None | k # _ \<Rightarrow> Inr (Some (c, k))))"
        using assms keys rows False
        by (simp add: find_embedding_duplicate_def cands_def[symmetric] c_def[symmetric] Let_def case_nonempty[OF ne] cong: if_cong)
      show ?thesis
      proof (cases "ev_id c = ev_id e")
        case True
        have "\<not> original_of e s x" if "x \<in> set ?vs" for x
        proof
          assume x: "original_of e s x"
          then have "precedes c x" using that cands min(1) by (simp add: original_of_def)
          moreover have "precedes x c"
            using x hd(1) cands[of c] by (auto simp: original_of_def list_all_iff)
          ultimately show False using x True precedes_same_id[of c x] by (simp add: original_of_def)
        qed
        then show ?thesis using run True by (auto simp: list_ex_iff)
      next
        case other: False
        then have c: "c \<in> set cands" using hd(1) by auto
        then obtain cks where cks: "(c, cks) \<in> set rows" "embedding_dedupe_keys c = Inr cks"
          using row all[of c] cands by force
        have "set (sorted_set (filter (\<lambda>k. k \<in> set keys) cks)) \<noteq> {}"
          using shared_key_same_content[OF keys cks(2)] c cands by (auto simp: list_ex_iff)
        then obtain k ks where m: "sorted_set (filter (\<lambda>k. k \<in> set keys) cks) = k # ks"
          by (cases "sorted_set (filter (\<lambda>k. k \<in> set keys) cks)") auto
        have "r = Some (c, k)"
          using run other cks(2) m by simp
        then show ?thesis using c cands min other by (simp add: original_of_def list_all_iff)
      qed
    qed
  qed
qed

lemma dedupe_exact:
  assumes "apply_embedding_dedupe e s = (Inr (x, d), t)"
  shows "(d = None) = (\<not> list_ex (original_of e s) (dict_values (st_evidence s)))
    \<and> (if list_ex (original_of e s) (dict_values (st_evidence s))
       then list_ex (\<lambda>c. original_of e s c
              \<and> map_of (ev_metadata x) ''embedding_duplicate_of'' = Some (JStr (ev_id c)))
            (dict_values (st_evidence s))
       else map_of (ev_metadata x) ''embedding_duplicate_of'' = None)"
proof -
  obtain r where r: "find_embedding_duplicate e s = Inr r"
    using assms by (auto simp: apply_embedding_dedupe_def split: sum.splits)
  note found = find_duplicate_exact[OF r]
  show ?thesis
  proof (cases r)
    case None
    then show ?thesis using assms r found
      by (auto simp: apply_embedding_dedupe_def not_duplicate_def dict_simps)
  next
    case (Some ck)
    then show ?thesis using assms r found
      by (cases ck) (auto simp: apply_embedding_dedupe_def op_bind_def op_return_def marked_duplicate_def
          dict_simps list_ex_iff split: sum.splits prod.splits)
  qed
qed

text \<open>C23. Storing evidence either raises and leaves the audit log and the sources as they were, or
  stores a record under the evidence's id, counts a sighting by a new run once, registers its
  source, and audits it last; the record has an embedding and is marked as indexed exactly when no
  record of the store is its original, an earlier one of the same content, and otherwise it is marked
  as the duplicate of an original and has no embedding.\<close>

theorem evidence_upsert_outcome:
  "case upsert_evidence env e s of
     (Inl err, t) \<Rightarrow> st_audit t = st_audit s \<and> st_sources t = st_sources s
   | (Inr x, t) \<Rightarrow> map_of (st_evidence t) (ev_id e) = Some x
       \<and> ev_seen_count x = (case map_of (st_evidence s) (ev_id e) of
           None \<Rightarrow> max 1 (ev_seen_count e)
         | Some old \<Rightarrow> (let run = opt_or (ev_last_seen_run_id e) (ev_run_id e)
             in max 1 (ev_seen_count old + (if given run \<and> run \<noteq> ev_last_seen_run_id old then 1 else 0))))
       \<and> map_of (ev_metadata x) ''embedding_indexed'' =
           Some (JBool (\<not> list_ex (original_of e s) (dict_values (st_evidence s))))
       \<and> list_ex (\<lambda>m. em_evidence_id m = ev_id e) (dict_values (st_embeddings t))
           = (\<not> list_ex (original_of e s) (dict_values (st_evidence s)))
       \<and> (if list_ex (original_of e s) (dict_values (st_evidence s))
          then list_ex (\<lambda>c. original_of e s c
                 \<and> map_of (ev_metadata x) ''embedding_duplicate_of'' = Some (JStr (ev_id c)))
               (dict_values (st_evidence s))
          else map_of (ev_metadata x) ''embedding_duplicate_of'' = None)
       \<and> al_action (last (st_audit t)) = ''evidence.upserted''
       \<and> al_resource_id (last (st_audit t)) = ev_id e"
proof -
  let ?before = "map_of (st_evidence s) (ev_id e)"
  let ?merged = "merge_evidence_lifecycle ?before e"
  obtain r t where d: "apply_embedding_dedupe ?merged s = (r, t)" by fastforce
  note kept = apply_dedupe_keeps[OF d]
  show ?thesis
  proof (cases r)
    case (Inl err)
    then show ?thesis using d kept by (simp add: upsert_evidence_def op_bind_def)
  next
    case (Inr xd)
    obtain x dup where xd: "xd = (x, dup)" by (cases xd)
    note x = apply_dedupe_result[OF d[unfolded Inr xd]]
    let ?u = "store_evidence env x dup t"
    obtain q v where reg: "register_source env x ?u = (q, v)" by fastforce
    show ?thesis
    proof (cases q)
      case (Inl err)
      then show ?thesis using d Inr xd reg kept register_source_result[OF reg]
        store_evidence_sources[of env x dup t] store_evidence_result[of env x dup t]
        by (simp add: upsert_evidence_def op_bind_def op_modify_def)
    next
      case (Inr m)
      have run: "upsert_evidence env e s = (Inr x, audit_evidence env ?before x v)"
        using d \<open>r = Inr xd\<close> xd reg Inr
        by (simp add: upsert_evidence_def op_bind_def op_modify_def op_return_def)
      have stored: "map_of (st_evidence v) (ev_id e) = Some x"
          "list_ex (\<lambda>m. em_evidence_id m = ev_id e) (dict_values (st_embeddings v)) = (dup = None)"
        using register_source_result[OF reg] store_evidence_result[of env x dup t] x by simp_all
      show ?thesis unfolding run using stored x dedupe_exact[OF d[unfolded \<open>r = Inr xd\<close> xd], unfolded same_content_merged]
        by (simp add: audit_evidence_def append_audit_last audit_of_def merge_evidence_seen)
    qed
  qed
qed

end
