(* ===== verification/Redo.thy ===== *)
theory Redo
  imports Schema
begin

text \<open>
  business_intel/redo.py and orchestrator/scoping.py: from findings of the quality checks to
  redo scopes, the units of work a finished run can be sent back for. Four kinds of findings
  are translated one by one, to a scope or to none, and the scopes of a batch are deduplicated;
  that common shape is the locale \<open>redo_source\<close>.
\<close>

section \<open>Findings: schema/enterprise.py, schema/rag.py\<close>

record retrieval_record =
  rr_evidence_id :: str
  rr_chunk_id :: str
  rr_chunk_index :: int
  rr_score :: rat
  rr_vector_score :: rat
  rr_bm25_score :: rat
  rr_rerank_score :: rat
  rr_title :: str
  rr_source_type :: str
  rr_dimension :: str
  rr_snippet :: str
  rr_source_url :: str
  rr_retrieval_stage :: str

record claim_issue =
  ci_id :: str
  ci_claim_id :: str
  ci_severity :: str
  ci_issue_type :: str
  ci_message :: str
  ci_evidence_ids :: "str list"

record gap_item =
  gi_id :: str
  gi_severity :: str
  gi_gap_type :: str
  gi_competitor_id :: "str option"
  gi_competitor_name :: "str option"
  gi_dimension :: "str option"
  gi_source_type_required :: "str option"
  gi_message :: str
  gi_recommended_query :: str
  gi_retrieval_query :: str
  gi_retrieval_candidate_chunk_count :: int
  gi_retrieval_unique_evidence_count :: int
  gi_retrieval_dedupe_drop_count :: int
  gi_retrieval_candidate_ids :: "str list"
  gi_retrieval_records :: "retrieval_record list"
  gi_retrieval_grounded_context :: str
  gi_evidence_ids :: "str list"
  gi_claim_ids :: "str list"
  gi_source_finding_ids :: "str list"
  gi_required_action :: str
  gi_acceptance_rule :: str

record red_team_finding =
  rt_id :: str
  rt_severity :: str
  rt_finding_type :: str
  rt_competitor_id :: "str option"
  rt_competitor_name :: "str option"
  rt_dimension :: "str option"
  rt_message :: str
  rt_recommendation :: str
  rt_evidence_ids :: "str list"
  rt_claim_ids :: "str list"

section \<open>Deduplication\<close>

definition scope_key :: "redo_scope \<Rightarrow> str \<times> str option \<times> str option \<times> str list" where
  "scope_key s = (rs_kind s, rs_target_subagent s, rs_target_competitor s, rs_target_competitors s)"

definition dedupe_redo_scopes :: "redo_scope list \<Rightarrow> redo_scope list" where
  "dedupe_redo_scopes scopes = keep_first scope_key (\<lambda>_. True) [] scopes"

section \<open>Findings of the business rules\<close>

definition evidence_repair_claim_issue_types :: "str list" where
  "evidence_repair_claim_issue_types =
     [''missing_evidence'', ''stale_or_rejected_evidence'', ''low_evidence_quality'',
      ''single_source_support'']"

definition claim_rewrite_issue_types :: "str list" where
  "claim_rewrite_issue_types =
     [''conflicting_evidence'', ''weak_text_support'', ''low_self_consistency'']"

definition rule_redo_kind :: "(str \<times> str) list" where
  "rule_redo_kind =
     [(''coverage_min_verified'', ''collector''),
      (''claim_has_evidence'', ''writer_only''),
      (''claim_uses_low_confidence_evidence'', ''collector''),
      (''pricing_currentness'', ''collector''),
      (''cross_competitor_matrix'', ''comparator''),
      (''security_official_source'', ''analyst''),
      (''landscape_breadth'', ''full''),
      (''homepage_verified'', ''collector''),
      (''source_reliability_min'', ''collector''),
      (''source_policy_review_required'', ''collector''),
      (''verified_evidence_rate'', ''collector''),
      (''claim_self_consistency_required'', ''analyst''),
      (''claim_evidence_in_report'', ''analyst''),
      (''report_claim_required'', ''analyst''),
      (''report_body_required'', ''writer_only''),
      (''report_citation_resolves'', ''writer_only''),
      (''report_citation_token_format'', ''writer_only''),
      (''report_depth_required'', ''writer_only''),
      (''report_evidence_required'', ''collector''),
      (''report_status_releasable'', ''writer_only''),
      (''report_structure_required'', ''writer_only''),
      (''run_schema_validation_failed'', ''full''),
      (''rag_gap_fill_chain_unclosed'', ''collector''),
      (''strong_conclusion_uses_weak_source'', ''writer_only'')]"

definition finding_text :: "business_finding \<Rightarrow> str" where
  "finding_text f = lower (bf_rule_id f @ '' '' @ bf_message f)"

definition claim_validation_issue_types :: "business_finding \<Rightarrow> str list" where
  "claim_validation_issue_types f =
     (let listed = map lower (filter (\<lambda>t. t \<noteq> []) (map (\<lambda>v. strip (py_str v))
            (as_list (map_of (bf_metadata f) ''claim_validation_issue_types''))))
      in if listed \<noteq> [] then listed
         else filter (\<lambda>t. has_substring t (finding_text f))
           (evidence_repair_claim_issue_types @ claim_rewrite_issue_types))"

definition mentions :: "str list \<Rightarrow> str \<Rightarrow> bool" where
  "mentions parts s = list_ex (\<lambda>p. has_substring p s) parts"

definition business_finding_redo_kind :: "business_finding \<Rightarrow> str" where
  "business_finding_redo_kind f =
     (if bf_rule_id f = ''claim_self_consistency_required'' then
        (let ts = claim_validation_issue_types f
         in if list_ex (\<lambda>t. t \<in> set evidence_repair_claim_issue_types) ts then ''collector''
            else if list_ex (\<lambda>t. t \<in> set claim_rewrite_issue_types) ts then ''analyst''
            else ''analyst'')
      else case map_of rule_redo_kind (bf_rule_id f) of
        Some kind \<Rightarrow> kind
      | None \<Rightarrow>
        (let s = finding_text f
         in if mentions evidence_repair_claim_issue_types s then ''collector''
            else if mentions [''low_confidence_evidence'', ''verified_evidence'', ''source_policy'',
                ''evidence_required'', ''rag_gap_fill''] s then ''collector''
            else if mentions claim_rewrite_issue_types s then ''analyst''
            else if mentions [''strong_conclusion'', ''weak_source''] s then ''writer_only''
            else if mentions [''citation'', ''source token'', ''report_''] s then ''writer_only''
            else ''writer_only''))"

definition name_list :: "str option \<Rightarrow> str list" where
  "name_list v = (if given v then [the v] else [])"

definition business_scope :: "business_finding \<Rightarrow> redo_scope" where
  "business_scope f =
     \<lparr>rs_kind = business_finding_redo_kind f, rs_target_subagent = bf_dimension f,
      rs_target_competitor = bf_competitor_name f,
      rs_target_competitors = name_list (bf_competitor_name f),
      rs_rationale = str_or (bf_recommendation f) (bf_message f)\<rparr>"

definition business_findings_to_redo_scopes :: "business_finding list \<Rightarrow> redo_scope list" where
  "business_findings_to_redo_scopes fs = dedupe_redo_scopes (map business_scope fs)"

section \<open>Claim validation, evidence gaps and red team\<close>

definition claim_scope :: "claim_issue \<Rightarrow> redo_scope" where
  "claim_scope i =
     \<lparr>rs_kind = (if ci_issue_type i \<in> set evidence_repair_claim_issue_types then ''collector'' else ''analyst''),
      rs_target_subagent = Some (''claim_validation:'' @ ci_claim_id i @ '':'' @ ci_issue_type i),
      rs_target_competitor = None, rs_target_competitors = [],
      rs_rationale = ''Claim '' @ ci_claim_id i @ '' failed '' @ ci_issue_type i @ '': '' @ ci_message i
        @ (if ci_evidence_ids i \<noteq> [] then '' Evidence ids: '' @ join '', '' (ci_evidence_ids i) @ ''.''
           else '' Evidence ids: none.'')\<rparr>"

definition claim_validation_issues_to_redo_scopes :: "claim_issue list \<Rightarrow> redo_scope list" where
  "claim_validation_issues_to_redo_scopes is = dedupe_redo_scopes (map claim_scope is)"

definition severe :: "str \<Rightarrow> bool" where
  "severe severity \<longleftrightarrow> severity \<in> {''critical'', ''high''}"

definition gap_scope :: "gap_item \<Rightarrow> redo_scope" where
  "gap_scope g =
     \<lparr>rs_kind = ''collector'', rs_target_subagent = gi_dimension g,
      rs_target_competitor = gi_competitor_name g,
      rs_target_competitors = name_list (gi_competitor_name g),
      rs_rationale = str_or (gi_recommended_query g) (gi_message g)\<rparr>"

definition evidence_gaps_to_redo_scopes :: "gap_item list \<Rightarrow> redo_scope list" where
  "evidence_gaps_to_redo_scopes gs =
     dedupe_redo_scopes (map gap_scope (filter (\<lambda>g. severe (gi_severity g)) gs))"

definition red_team_scope :: "red_team_finding \<Rightarrow> redo_scope" where
  "red_team_scope f =
     \<lparr>rs_kind = (if rt_finding_type f \<in> {''weak_evidence'', ''stale_or_rejected_evidence''} then ''collector''
        else if rt_finding_type f = ''report_risk'' then ''writer_only'' else ''analyst''),
      rs_target_subagent = rt_dimension f, rs_target_competitor = rt_competitor_name f,
      rs_target_competitors = name_list (rt_competitor_name f),
      rs_rationale = str_or (rt_recommendation f) (rt_message f)\<rparr>"

definition red_team_findings_to_redo_scopes :: "red_team_finding list \<Rightarrow> redo_scope list" where
  "red_team_findings_to_redo_scopes fs =
     dedupe_redo_scopes (map red_team_scope (filter (\<lambda>f. severe (rt_severity f)) fs))"

section \<open>orchestrator/scoping.py\<close>

definition build_redo_scope ::
  "str \<Rightarrow> str \<Rightarrow> str \<Rightarrow> str \<Rightarrow> str option \<Rightarrow> str option \<Rightarrow> redo_scope" where
  "build_redo_scope detected_by target_agent field_path problem target_subagent target_competitor =
     (let scope = (\<lambda>kind subagent competitor rationale.
          \<lparr>rs_kind = kind, rs_target_subagent = subagent, rs_target_competitor = competitor,
           rs_target_competitors = [], rs_rationale = rationale\<rparr>)
      in if detected_by = ''citation'' \<and> target_agent = ''writer''
           then scope ''writer_only'' None None ''phantom citation only''
         else if target_agent = ''writer'' then scope ''writer_only'' None None problem
         else if detected_by = ''consistency'' \<and> has_substring ''matrix'' field_path
           then scope ''comparator'' target_subagent None ''comparison matrix mismatch''
         else if target_agent = ''comparator'' then scope ''comparator'' target_subagent None problem
         else if target_agent = ''analyst'' then scope ''analyst'' target_subagent target_competitor problem
         else if target_agent = ''collector'' then scope ''collector'' target_subagent target_competitor problem
         else scope ''full'' None None ''unscoped blocker'')"

definition assign_redo_scope :: "qc_issue \<Rightarrow> redo_scope" where
  "assign_redo_scope i = build_redo_scope (qi_detected_by i) (qi_target_agent i) (qi_field_path i)
     (qi_problem i) (qi_target_subagent i) (qi_target_competitor i)"

section \<open>The contract of a source of scopes\<close>

text \<open>The kinds of \<open>RedoScope.kind\<close>.\<close>

definition redo_kinds :: "str list" where
  "redo_kinds = [''writer_only'', ''comparator'', ''analyst'', ''collector'', ''full'']"

text \<open>
  Scopes \<open>ss\<close> answer findings \<open>fs\<close>: no two ask for the same work, every admitted finding has a
  scope with the key of its own, and every scope is one of an admitted finding, of a known kind.
\<close>

definition answers ::
  "('f \<Rightarrow> bool) \<Rightarrow> ('f \<Rightarrow> redo_scope) \<Rightarrow> 'f list \<Rightarrow> redo_scope list \<Rightarrow> bool" where
  "answers admit scope fs ss \<longleftrightarrow> distinct (map scope_key ss)
     \<and> list_all (\<lambda>f. list_ex (\<lambda>s. scope_key s = scope_key (scope f)) ss) (filter admit fs)
     \<and> list_all (\<lambda>s. rs_kind s \<in> set redo_kinds \<and> list_ex (\<lambda>f. admit f \<and> s = scope f) fs) ss"

locale redo_source =
  fixes scopes :: "'f list \<Rightarrow> redo_scope list"
    and admit :: "'f \<Rightarrow> bool" and scope :: "'f \<Rightarrow> redo_scope"
  assumes scopes_dedupe: "scopes fs = dedupe_redo_scopes (map scope (filter admit fs))"
    and scope_kind: "rs_kind (scope f) \<in> set redo_kinds"
begin

lemma scopes_distinct: "distinct (map scope_key (scopes fs))"
  by (simp add: scopes_dedupe dedupe_redo_scopes_def kf.dd_distinct)

lemma scopes_keys: "scope_key ` set (scopes fs) = (\<lambda>f. scope_key (scope f)) ` {f \<in> set fs. admit f}"
  using kf.dd_keys[of scope_key "\<lambda>_. True" "map scope (filter admit fs)"]
  by (simp add: scopes_dedupe dedupe_redo_scopes_def image_image)

lemma scopes_cover:
  assumes "f \<in> set fs" "admit f"
  shows "\<exists>s \<in> set (scopes fs). scope_key s = scope_key (scope f)"
proof -
  have "scope_key (scope f) \<in> scope_key ` set (scopes fs)"
    unfolding scopes_keys using assms by blast
  then show ?thesis by force
qed

lemma scopes_from: "s \<in> set (scopes fs) \<Longrightarrow> \<exists>f \<in> set fs. admit f \<and> s = scope f"
  using kf.dd_subset[of scope_key "\<lambda>_. True" "map scope (filter admit fs)"]
  by (auto simp: scopes_dedupe dedupe_redo_scopes_def)

lemma scopes_kinds: "s \<in> set (scopes fs) \<Longrightarrow> rs_kind s \<in> set redo_kinds"
  using scopes_from scope_kind by blast

lemma scopes_single: "scopes [f] = (if admit f then [scope f] else [])"
  by (simp add: scopes_dedupe dedupe_redo_scopes_def)

lemma scopes_answer: "answers admit scope fs (scopes fs)"
  unfolding answers_def
  using scopes_distinct scopes_cover scopes_kinds scopes_from
  by (fastforce simp: list_all_iff list_ex_iff)

end

lemma rule_kind_ok: "map_of rule_redo_kind r = Some k \<Longrightarrow> k \<in> set redo_kinds"
  by (drule map_of_SomeD) (auto simp: rule_redo_kind_def redo_kinds_def)

lemma business_kind_ok: "business_finding_redo_kind f \<in> set redo_kinds"
  using rule_kind_ok
  by (auto simp: business_finding_redo_kind_def Let_def redo_kinds_def split: option.split)

interpretation business: redo_source business_findings_to_redo_scopes "\<lambda>_. True" business_scope
  by unfold_locales (simp_all add: business_findings_to_redo_scopes_def business_scope_def business_kind_ok)

interpretation claims: redo_source claim_validation_issues_to_redo_scopes "\<lambda>_. True" claim_scope
  by unfold_locales (simp_all add: claim_validation_issues_to_redo_scopes_def claim_scope_def redo_kinds_def)

interpretation gaps: redo_source evidence_gaps_to_redo_scopes "\<lambda>g. severe (gi_severity g)" gap_scope
  by unfold_locales (simp_all add: evidence_gaps_to_redo_scopes_def gap_scope_def redo_kinds_def)

interpretation red_team: redo_source red_team_findings_to_redo_scopes "\<lambda>f. severe (rt_severity f)" red_team_scope
  by unfold_locales (simp_all add: red_team_findings_to_redo_scopes_def red_team_scope_def redo_kinds_def)

text \<open>C36. Every source of quality findings is sent back completely and without duplicated work:
  the scopes answer all business findings, all claim validation issues, and exactly the severe
  evidence gaps and red team findings, with kinds the run graph knows.\<close>

theorem redo_scopes_answer_findings:
  "answers (\<lambda>_. True) business_scope bs (business_findings_to_redo_scopes bs)
   \<and> answers (\<lambda>_. True) claim_scope cs (claim_validation_issues_to_redo_scopes cs)
   \<and> answers (\<lambda>g. severe (gi_severity g)) gap_scope gs (evidence_gaps_to_redo_scopes gs)
   \<and> answers (\<lambda>f. severe (rt_severity f)) red_team_scope rs (red_team_findings_to_redo_scopes rs)"
  by (intro conjI business.scopes_answer claims.scopes_answer gaps.scopes_answer red_team.scopes_answer)

lemma assigned_kind: "rs_kind (assign_redo_scope i) \<in> set redo_kinds"
  by (simp add: assign_redo_scope_def build_redo_scope_def Let_def redo_kinds_def)

end
