(* ===== verification/Findings.thy ===== *)
theory Findings
  imports Redo
begin

text \<open>
  quality/findings.py and quality/final_result.py: the common form of a quality finding, built
  from the issues of every checker with its severity, required action and redo scope, and the
  final result of a run's quality checks. The clock of the default \<open>created_at\<close> is the
  argument \<open>now\<close>. A function of the code that takes a report or a plain list takes a
  \<open>batch\<close> here.
\<close>

section \<open>Inputs: schema/enterprise.py, research/models.py, schema/evals.py\<close>

record validation_sample =
  vs_checker :: str
  vs_vote :: str
  vs_score :: int
  vs_threshold :: int
  vs_rationale :: str
  vs_evidence_ids :: "str list"

record validation_result =
  vr_claim_id :: str
  vr_status :: str
  vr_validation_status :: str
  vr_high_risk :: bool
  vr_risk_reasons :: "str list"
  vr_recommended_action :: str
  vr_rationale :: str
  vr_support_score :: int
  vr_text_support_score :: int
  vr_evidence_quality_score :: int
  vr_triangulation_score :: int
  vr_self_consistency_score :: int
  vr_consistency_votes :: "(str \<times> int) list"
  vr_validation_samples :: "validation_sample list"
  vr_usable_evidence_ids :: "str list"
  vr_issue_ids :: "str list"

record quality_gap =
  qg_id :: str
  qg_severity :: str
  qg_dimension :: str
  qg_competitor :: "str option"
  qg_field :: "str option"
  qg_reason :: str
  qg_suggested_action :: str
  qg_acceptance_rule :: str
  qg_source_ids :: "str list"
  qg_metadata :: jdict

record gate_issue =
  gx_kind :: str
  gx_id :: str
  gx_status :: str
  gx_summary :: str

datatype 'f batch = Report str "'f list" | Items "'f list"

fun batch_items :: "'f batch \<Rightarrow> 'f list" where
  "batch_items (Report framework xs) = xs"
| "batch_items (Items xs) = xs"

fun batch_framework :: "str option \<Rightarrow> 'f batch \<Rightarrow> str" where
  "batch_framework framework (Report f xs) = or_str framework f"
| "batch_framework framework (Items xs) = or_str framework ''pydantic-ai''"

section \<open>Actions and severities\<close>

definition required_action_from_redo :: "redo_scope \<Rightarrow> str" where
  "required_action_from_redo s =
     (if rs_kind s = ''collector'' then ''add_evidence''
      else if rs_kind s = ''analyst'' then ''rewrite_claim''
      else if rs_kind s = ''writer_only'' then ''rewrite_report''
      else if rs_kind s \<in> {''comparator'', ''full''} then ''rerun_scope''
      else ''human_review'')"

definition required_action_from_business_rule :: "business_finding \<Rightarrow> str" where
  "required_action_from_business_rule f =
     (let s = finding_text f
      in if mentions [''citation'', ''report_structure'', ''report_depth''] s then ''rewrite_report''
         else if mentions [''low_confidence'', ''single_source'', ''single-source'', ''missing_evidence''] s
           then ''add_evidence''
         else if mentions [''weak_text_support''] s then ''rewrite_claim''
         else if mentions [''strong_conclusion'', ''weak_source''] s then ''downgrade_claim''
         else if mentions [''run_qa_findings_unresolved''] s then ''rerun_scope''
         else ''human_review'')"

definition required_action_from_red_team :: "red_team_finding \<Rightarrow> str" where
  "required_action_from_red_team f =
     (if rt_finding_type f \<in> {''weak_evidence'', ''stale_or_rejected_evidence''} then ''add_evidence''
      else if rt_finding_type f \<in> {''unsupported_claim'', ''competitive_bias''} then ''rewrite_claim''
      else if rt_finding_type f = ''report_risk'' then ''rewrite_report''
      else ''human_review'')"

definition required_action_from_claim_issue :: "claim_issue \<Rightarrow> str" where
  "required_action_from_claim_issue i =
     (if ci_issue_type i \<in> set evidence_repair_claim_issue_types then ''add_evidence''
      else if ci_issue_type i \<in> {''weak_text_support'', ''low_self_consistency''} then ''rewrite_claim''
      else if ci_issue_type i = ''low_confidence'' then ''downgrade_claim''
      else ''human_review'')"

definition coerce_required_action :: "str \<Rightarrow> str" where
  "coerce_required_action action =
     (if action \<in> {''none'', ''add_evidence'', ''rewrite_claim'', ''downgrade_claim'', ''delete_claim'',
        ''rewrite_report'', ''rerun_scope'', ''human_review'', ''monitor''} then action
      else ''human_review'')"

definition required_action_from_gap :: "quality_gap \<Rightarrow> str" where
  "required_action_from_gap g =
     (case map_of (qg_metadata g) ''required_action'' of
        Some (JStr action) \<Rightarrow> coerce_required_action action
      | _ \<Rightarrow>
        if qg_suggested_action g \<in> {''targeted_discovery'', ''pricing_model_repair'',
            ''feature_slot_repair'', ''persona_schema_repair''} then ''add_evidence''
        else if qg_suggested_action g = ''mark_not_applicable'' then ''downgrade_claim''
        else ''human_review'')"

definition severity_from_gap :: "str \<Rightarrow> str" where
  "severity_from_gap severity =
     (if severity = ''critical'' then ''blocker''
      else if severity \<in> {''high'', ''medium''} then ''warn'' else ''info'')"

definition severity_from_red_team :: "str \<Rightarrow> str" where
  "severity_from_red_team severity =
     (if severity = ''critical'' then ''blocker''
      else if severity \<in> {''high'', ''medium''} then ''warn'' else ''info'')"

definition severity_from_eval_status :: "str \<Rightarrow> str" where
  "severity_from_eval_status status =
     (if status = ''fail'' then ''blocker'' else if status = ''warn'' then ''warn'' else ''info'')"

definition claim_issue_recommendation :: "claim_issue \<Rightarrow> str" where
  "claim_issue_recommendation i =
     (if ci_issue_type i \<in> set evidence_repair_claim_issue_types
        then ''Collect stronger verified evidence or downgrade the claim.''
      else if ci_issue_type i \<in> {''weak_text_support'', ''low_self_consistency''}
        then ''Rewrite the claim so it is directly supported by cited evidence.''
      else if ci_issue_type i = ''low_confidence''
        then ''Downgrade this claim or route it to human review.''
      else ''Review this claim before publishing.'')"

definition report_section_for_finding :: "str \<Rightarrow> str option \<Rightarrow> str" where
  "report_section_for_finding issue_type dimension =
     (let d = lower (or_str dimension []); k = lower issue_type
      in if has_substring ''pricing'' d then ''Pricing Analysis''
         else if has_substring ''feature'' d then ''Feature Matrix''
         else if mentions [''persona'', ''user''] d then ''Persona And Buyer Signals''
         else if mentions [''citation'', ''source'', ''evidence''] k then ''Evidence Appendix''
         else if mentions [''claim'', ''consistency'', ''support''] k then ''Claim Validation''
         else if mentions [''report'', ''structure''] k then ''Report Structure''
         else if mentions [''regression'', ''metric''] k then ''EvalOps''
         else ''General Review'')"

definition acceptance_rule_for_action :: "str \<Rightarrow> str" where
  "acceptance_rule_for_action action =
     (case map_of
        [(''none'', ''No follow-up action is required.''),
         (''add_evidence'', ''Accepted verified evidence supports the affected field or claim.''),
         (''rewrite_claim'', ''The claim text is rewritten to match cited evidence.''),
         (''downgrade_claim'', ''The report marks the claim as weak, caveated, or non-decisive.''),
         (''delete_claim'', ''The unsupported claim is removed from release scope.''),
         (''rewrite_report'', ''The affected report section is regenerated and source tokens resolve.''),
         (''rerun_scope'', ''Scoped redo completes and the finding is no longer blocking.''),
         (''human_review'', ''A reviewer records an explicit decision or follow-up.''),
         (''monitor'', ''The finding is tracked without blocking publication.'')] action of
        Some rule \<Rightarrow> rule | None \<Rightarrow> [])"

definition first_redo_scope :: "redo_scope list \<Rightarrow> redo_scope option" where
  "first_redo_scope scopes = (case scopes of [] \<Rightarrow> None | s # _ \<Rightarrow> Some s)"

section \<open>Building findings\<close>

definition finding_from_qc_issue :: "datetime \<Rightarrow> str \<Rightarrow> str \<Rightarrow> qc_issue \<Rightarrow> quality_finding" where
  "finding_from_qc_issue now source_agent framework i =
     (let action = required_action_from_redo (qi_redo_scope i)
      in fill_stable_id
        \<lparr>qf_id = [], qf_source_agent = source_agent, qf_framework = framework, qf_source_id = qi_id i,
         qf_severity = qi_severity i, qf_status = ''open'', qf_issue_type = qi_detected_by i,
         qf_competitor_id = None, qf_competitor_name = qi_target_competitor i,
         qf_dimension = qi_target_subagent i, qf_field_path = Some (qi_field_path i),
         qf_report_section = Some (report_section_for_finding (qi_detected_by i) (qi_target_subagent i)),
         qf_claim_ids = [], qf_evidence_ids = [], qf_message = qi_problem i,
         qf_recommendation = rs_rationale (qi_redo_scope i), qf_required_action = action,
         qf_repairable = False, qf_acceptance_rule = acceptance_rule_for_action action,
         qf_redo_scope = Some (qi_redo_scope i),
         qf_metadata = [(''target_agent'', JStr (qi_target_agent i)),
           (''target_subagent'', jstr_opt (qi_target_subagent i)), (''self_found'', JBool (qi_self_found i))],
         qf_created_at = now\<rparr>)"

definition quality_findings_from_qc_issues ::
  "datetime \<Rightarrow> str \<Rightarrow> str \<Rightarrow> qc_issue list \<Rightarrow> quality_finding list" where
  "quality_findings_from_qc_issues now source_agent framework issues =
     map (finding_from_qc_issue now source_agent framework) issues"

definition finding_from_business_qa :: "datetime \<Rightarrow> str \<Rightarrow> str \<Rightarrow> business_finding \<Rightarrow> quality_finding" where
  "finding_from_business_qa now source_agent framework f =
     (let action = required_action_from_business_rule f
      in fill_stable_id
        \<lparr>qf_id = [], qf_source_agent = source_agent, qf_framework = framework, qf_source_id = bf_id f,
         qf_severity = bf_severity f, qf_status = ''open'', qf_issue_type = bf_rule_id f,
         qf_competitor_id = bf_competitor_id f, qf_competitor_name = bf_competitor_name f,
         qf_dimension = bf_dimension f, qf_field_path = Some (bf_rule_id f),
         qf_report_section = Some (report_section_for_finding (bf_rule_id f) (bf_dimension f)),
         qf_claim_ids = bf_claim_ids f, qf_evidence_ids = bf_evidence_ids f, qf_message = bf_message f,
         qf_recommendation = bf_recommendation f, qf_required_action = action, qf_repairable = False,
         qf_acceptance_rule = str_or (bf_recommendation f) (acceptance_rule_for_action action),
         qf_redo_scope = first_redo_scope (business_findings_to_redo_scopes [f]),
         qf_metadata = dict_merge (bf_metadata f)
           [(''rule_id'', JStr (bf_rule_id f)), (''rule_name'', JStr (bf_rule_name f))],
         qf_created_at = now\<rparr>)"

definition quality_findings_from_business_qa ::
  "datetime \<Rightarrow> str \<Rightarrow> str \<Rightarrow> business_finding list \<Rightarrow> quality_finding list" where
  "quality_findings_from_business_qa now source_agent framework fs =
     map (finding_from_business_qa now source_agent framework) fs"

definition quality_findings_from_release_gate ::
  "datetime \<Rightarrow> release_gate option \<Rightarrow> quality_finding list" where
  "quality_findings_from_release_gate now gate =
     (case gate of
        None \<Rightarrow> [fill_stable_id
          \<lparr>qf_id = [], qf_source_agent = ''ReleaseGate'', qf_framework = ''enterprise-release-gate'',
           qf_source_id = ''release_gate.missing_report'', qf_severity = ''warn'', qf_status = ''open'',
           qf_issue_type = ''missing_report_version'', qf_competitor_id = None,
           qf_competitor_name = None, qf_dimension = None, qf_field_path = None,
           qf_report_section = Some ''Report Lifecycle'', qf_claim_ids = [], qf_evidence_ids = [],
           qf_message = ''No ReportVersion exists yet; release readiness cannot be evaluated.'',
           qf_recommendation = ''Generate a report version after evidence and claims are projected.'',
           qf_required_action = ''rewrite_report'', qf_repairable = False,
           qf_acceptance_rule = ''A ReportVersion exists and release gate can evaluate it.'',
           qf_redo_scope = None, qf_metadata = [], qf_created_at = now\<rparr>]
      | Some g \<Rightarrow> quality_findings_from_business_qa now ''ReleaseGate'' ''enterprise-release-gate''
          (rg_issues g))"

definition finding_from_gap :: "datetime \<Rightarrow> str \<Rightarrow> gap_item \<Rightarrow> quality_finding" where
  "finding_from_gap now framework g =
     (let action = (if gi_gap_type g \<in> {''missing_dimension_coverage'', ''missing_verified_source'',
            ''stale_or_rejected_evidence'', ''claim_without_usable_evidence''}
          then ''add_evidence'' else ''human_review'')
      in fill_stable_id
        \<lparr>qf_id = [], qf_source_agent = ''EvidenceGap'', qf_framework = framework, qf_source_id = gi_id g,
         qf_severity = severity_from_gap (gi_severity g), qf_status = ''open'',
         qf_issue_type = gi_gap_type g, qf_competitor_id = gi_competitor_id g,
         qf_competitor_name = gi_competitor_name g, qf_dimension = gi_dimension g,
         qf_field_path = gi_source_type_required g,
         qf_report_section = Some (report_section_for_finding (gi_gap_type g) (gi_dimension g)),
         qf_claim_ids = gi_claim_ids g, qf_evidence_ids = gi_evidence_ids g, qf_message = gi_message g,
         qf_recommendation = gi_recommended_query g, qf_required_action = action, qf_repairable = False,
         qf_acceptance_rule = str_or (gi_recommended_query g) (acceptance_rule_for_action action),
         qf_redo_scope = first_redo_scope (evidence_gaps_to_redo_scopes [g]),
         qf_metadata = [(''gap_type'', JStr (gi_gap_type g)),
           (''retrieval_query'', JStr (gi_retrieval_query g)),
           (''retrieval_candidate_chunk_count'', JInt (gi_retrieval_candidate_chunk_count g)),
           (''retrieval_unique_evidence_count'', JInt (gi_retrieval_unique_evidence_count g))],
         qf_created_at = now\<rparr>)"

definition quality_findings_from_evidence_gaps ::
  "datetime \<Rightarrow> str option \<Rightarrow> gap_item batch \<Rightarrow> quality_finding list" where
  "quality_findings_from_evidence_gaps now framework gaps =
     map (finding_from_gap now (batch_framework framework gaps)) (batch_items gaps)"

definition finding_from_red_team :: "datetime \<Rightarrow> str \<Rightarrow> red_team_finding \<Rightarrow> quality_finding" where
  "finding_from_red_team now framework f =
     (let action = required_action_from_red_team f
      in fill_stable_id
        \<lparr>qf_id = [], qf_source_agent = ''RedTeam'', qf_framework = framework, qf_source_id = rt_id f,
         qf_severity = severity_from_red_team (rt_severity f), qf_status = ''open'',
         qf_issue_type = rt_finding_type f, qf_competitor_id = rt_competitor_id f,
         qf_competitor_name = rt_competitor_name f, qf_dimension = rt_dimension f,
         qf_field_path = None,
         qf_report_section = Some (report_section_for_finding (rt_finding_type f) (rt_dimension f)),
         qf_claim_ids = rt_claim_ids f, qf_evidence_ids = rt_evidence_ids f, qf_message = rt_message f,
         qf_recommendation = rt_recommendation f, qf_required_action = action, qf_repairable = False,
         qf_acceptance_rule = str_or (rt_recommendation f) (acceptance_rule_for_action action),
         qf_redo_scope = first_redo_scope (red_team_findings_to_redo_scopes [f]),
         qf_metadata = [], qf_created_at = now\<rparr>)"

definition quality_findings_from_red_team ::
  "datetime \<Rightarrow> str option \<Rightarrow> red_team_finding batch \<Rightarrow> quality_finding list" where
  "quality_findings_from_red_team now framework fs =
     map (finding_from_red_team now (batch_framework framework fs)) (batch_items fs)"

text \<open>\<open>sample.model_dump(mode="json")\<close>, field by field.\<close>

definition sample_dump :: "validation_sample \<Rightarrow> json" where
  "sample_dump s = JDict
     [(''checker'', JStr (vs_checker s)), (''vote'', JStr (vs_vote s)), (''score'', JInt (vs_score s)),
      (''threshold'', JInt (vs_threshold s)), (''rationale'', JStr (vs_rationale s)),
      (''evidence_ids'', jstrs (vs_evidence_ids s))]"

definition claim_validation_metadata :: "validation_result option \<Rightarrow> jdict" where
  "claim_validation_metadata v =
     (case v of
        None \<Rightarrow> []
      | Some r \<Rightarrow>
        [(''validation_status'', JStr (vr_status r)),
         (''risk_validation_status'', JStr (vr_validation_status r)),
         (''high_risk'', JBool (vr_high_risk r)), (''risk_reasons'', jstrs (vr_risk_reasons r)),
         (''recommended_action'', JStr (vr_recommended_action r)), (''rationale'', JStr (vr_rationale r)),
         (''support_score'', JInt (vr_support_score r)),
         (''text_support_score'', JInt (vr_text_support_score r)),
         (''evidence_quality_score'', JInt (vr_evidence_quality_score r)),
         (''triangulation_score'', JInt (vr_triangulation_score r)),
         (''self_consistency_score'', JInt (vr_self_consistency_score r)),
         (''consistency_votes'', JDict (map (\<lambda>(k, n). (k, JInt n)) (vr_consistency_votes r))),
         (''validation_samples'', JList (map sample_dump (vr_validation_samples r)))])"

definition finding_from_claim_issue ::
  "datetime \<Rightarrow> str \<Rightarrow> (str \<times> validation_result) list \<Rightarrow> claim_issue \<Rightarrow> quality_finding" where
  "finding_from_claim_issue now framework results_by_claim i =
     (let action = required_action_from_claim_issue i
      in fill_stable_id
        \<lparr>qf_id = [], qf_source_agent = ''ClaimValidator'', qf_framework = framework, qf_source_id = ci_id i,
         qf_severity = ci_severity i, qf_status = ''open'', qf_issue_type = ci_issue_type i,
         qf_competitor_id = None, qf_competitor_name = None, qf_dimension = None,
         qf_field_path = Some (''claim.'' @ ci_claim_id i @ ''.'' @ ci_issue_type i),
         qf_report_section = Some (report_section_for_finding (ci_issue_type i) None),
         qf_claim_ids = [ci_claim_id i], qf_evidence_ids = ci_evidence_ids i, qf_message = ci_message i,
         qf_recommendation = claim_issue_recommendation i, qf_required_action = action,
         qf_repairable = False, qf_acceptance_rule = acceptance_rule_for_action action,
         qf_redo_scope = first_redo_scope (claim_validation_issues_to_redo_scopes [i]),
         qf_metadata = claim_validation_metadata (map_of results_by_claim (ci_claim_id i)),
         qf_created_at = now\<rparr>)"

text \<open>The results are those of the report, none for a plain list of issues; a later result of a
  claim replaces an earlier one.\<close>

definition quality_findings_from_claim_validation ::
  "datetime \<Rightarrow> str \<Rightarrow> validation_result list \<Rightarrow> claim_issue list \<Rightarrow> quality_finding list" where
  "quality_findings_from_claim_validation now framework results issues =
     map (finding_from_claim_issue now framework
       (fold (\<lambda>r. AList.update (vr_claim_id r) r) results [])) issues"

definition finding_from_quality_gap :: "datetime \<Rightarrow> str \<Rightarrow> str \<Rightarrow> quality_gap \<Rightarrow> quality_finding" where
  "finding_from_quality_gap now source_agent framework g =
     fill_stable_id
       \<lparr>qf_id = [], qf_source_agent = source_agent, qf_framework = framework, qf_source_id = qg_id g,
        qf_severity = qg_severity g, qf_status = ''open'', qf_issue_type = qg_suggested_action g,
        qf_competitor_id = None, qf_competitor_name = qg_competitor g,
        qf_dimension = Some (qg_dimension g), qf_field_path = qg_field g,
        qf_report_section = Some (report_section_for_finding (qg_suggested_action g) (Some (qg_dimension g))),
        qf_claim_ids = [], qf_evidence_ids = qg_source_ids g, qf_message = qg_reason g,
        qf_recommendation = qg_suggested_action g, qf_required_action = required_action_from_gap g,
        qf_repairable = False, qf_acceptance_rule = qg_acceptance_rule g, qf_redo_scope = None,
        qf_metadata = qg_metadata g, qf_created_at = now\<rparr>"

definition quality_findings_from_quality_gaps ::
  "datetime \<Rightarrow> str \<Rightarrow> str \<Rightarrow> quality_gap list \<Rightarrow> quality_finding list" where
  "quality_findings_from_quality_gaps now source_agent framework gs =
     map (finding_from_quality_gap now source_agent framework) gs"

text \<open>The arguments are the status, the reason and the issues of the report's regression gate.\<close>

definition finding_from_gate_issue :: "datetime \<Rightarrow> str \<Rightarrow> str \<Rightarrow> gate_issue \<Rightarrow> quality_finding" where
  "finding_from_gate_issue now gate_status gate_reason i =
     (let passed = (gx_status i = ''pass'')
      in fill_stable_id
        \<lparr>qf_id = [], qf_source_agent = ''EvalOps'', qf_framework = ''deterministic-regression-gate'',
         qf_source_id = gx_id i, qf_severity = severity_from_eval_status (gx_status i),
         qf_status = (if passed then ''resolved'' else ''open''), qf_issue_type = gx_kind i,
         qf_competitor_id = None, qf_competitor_name = None, qf_dimension = None, qf_field_path = None,
         qf_report_section = Some (report_section_for_finding (gx_kind i) None), qf_claim_ids = [],
         qf_evidence_ids = [], qf_message = str_or (gx_summary i) (gx_id i),
         qf_recommendation = ''Investigate the regression gate issue before publishing.'',
         qf_required_action = (if passed then ''none'' else ''human_review''), qf_repairable = False,
         qf_acceptance_rule = ''Regression gate returns pass.'', qf_redo_scope = None,
         qf_metadata = [(''regression_gate_status'', JStr gate_status),
           (''regression_gate_reason'', JStr gate_reason)], qf_created_at = now\<rparr>)"

definition quality_findings_from_evalops ::
  "datetime \<Rightarrow> str \<Rightarrow> str \<Rightarrow> gate_issue list \<Rightarrow> quality_finding list" where
  "quality_findings_from_evalops now gate_status gate_reason issues =
     map (finding_from_gate_issue now gate_status gate_reason) issues"

section \<open>The final result of a run: quality/final_result.py\<close>

record final_quality_result =
  fr_findings :: "qc_issue list"
  fr_blocker_count :: int
  fr_warn_count :: int
  fr_issue_count :: int
  fr_quality_status :: str
  fr_readiness_score :: "int option"
  fr_revision_issue_count_after :: int
  fr_revision_convergence_ratio :: rat

definition dedupe_findings :: "qc_issue list \<Rightarrow> qc_issue list" where
  "dedupe_findings fs = keep_first qi_id (\<lambda>_. True) [] fs"

definition build_final_quality_result ::
  "qc_issue list \<Rightarrow> qc_issue list \<Rightarrow> int option \<Rightarrow> int \<Rightarrow> final_quality_result" where
  "build_final_quality_result deterministic_findings release_gate_findings score issue_count_before =
     (let fs = dedupe_findings (deterministic_findings @ release_gate_findings);
          blockers = count_if (\<lambda>f. qi_severity f = ''blocker'') fs;
          warns = count_if (\<lambda>f. qi_severity f = ''warn'') fs;
          n = int (length fs)
      in \<lparr>fr_findings = fs, fr_blocker_count = int blockers, fr_warn_count = int warns,
          fr_issue_count = n,
          fr_quality_status = (if blockers \<noteq> 0 then ''completed_with_blockers''
            else if warns \<noteq> 0 then ''completed_with_warnings'' else ''clean_pass''),
          fr_readiness_score = score, fr_revision_issue_count_after = n,
          fr_revision_convergence_ratio =
            round_digits 3 (of_int n / of_int (max 1 issue_count_before))\<rparr>)"

section \<open>What the findings promise\<close>

lemma fill_stable_id_fields [simp]:
  "qf_redo_scope (fill_stable_id f) = qf_redo_scope f" "qf_severity (fill_stable_id f) = qf_severity f"
  "qf_required_action (fill_stable_id f) = qf_required_action f"
  "qf_repairable (fill_stable_id f) = (qf_repairable f \<or> qf_redo_scope f \<noteq> None
     \<or> qf_required_action f \<in> set repair_actions)"
  by (simp_all add: fill_stable_id_def Let_def)

text \<open>A finding that can be sent back to the run: it has a scope of a known kind and says so.\<close>

definition sent_back :: "quality_finding \<Rightarrow> bool" where
  "sent_back f \<longleftrightarrow> qf_repairable f
     \<and> (case qf_redo_scope f of None \<Rightarrow> False | Some s \<Rightarrow> rs_kind s \<in> set redo_kinds)"

lemma sent_back_filled: "sent_back (fill_stable_id f) \<longleftrightarrow>
    (case qf_redo_scope f of None \<Rightarrow> False | Some s \<Rightarrow> rs_kind s \<in> set redo_kinds)"
  by (simp add: sent_back_def split: option.split)

definition answered_if_blocking :: "quality_finding list \<Rightarrow> bool" where
  "answered_if_blocking fs \<longleftrightarrow> list_all sent_back (filter (\<lambda>f. qf_severity f = ''blocker'') fs)"

text \<open>C35. No blocker of the checks is a dead end: every blocking finding of the business rules and the
  release gate, of the claim validation, of the evidence gaps and of the red team carries a redo
  scope of a kind the run graph knows and is marked repairable. A gap or red team finding has a
  scope exactly when it is critical or high.\<close>

theorem blocking_findings_sent_back:
  "answered_if_blocking (quality_findings_from_business_qa now agent fw bs)
   \<and> answered_if_blocking (quality_findings_from_release_gate now gate)
   \<and> answered_if_blocking (quality_findings_from_claim_validation now fw results cs)
   \<and> answered_if_blocking (quality_findings_from_evidence_gaps now framework gs)
   \<and> answered_if_blocking (quality_findings_from_red_team now framework rs)
   \<and> map (\<lambda>f. qf_redo_scope f \<noteq> None) (quality_findings_from_evidence_gaps now framework gs) =
       map (\<lambda>g. severe (gi_severity g)) (batch_items gs)
   \<and> map (\<lambda>f. qf_redo_scope f \<noteq> None) (quality_findings_from_red_team now framework rs) =
       map (\<lambda>f. severe (rt_severity f)) (batch_items rs)"
proof -
  have "sent_back (finding_from_business_qa now a w f)" for a w f
    by (simp add: finding_from_business_qa_def Let_def sent_back_filled business.scopes_single
        first_redo_scope_def business.scope_kind)
  then have b: "answered_if_blocking (quality_findings_from_business_qa now a w fs)" for a w fs
    by (auto simp: answered_if_blocking_def list_all_iff quality_findings_from_business_qa_def)
  have r: "answered_if_blocking (quality_findings_from_release_gate now gate)"
    by (simp add: quality_findings_from_release_gate_def b split: option.split)
      (simp add: answered_if_blocking_def)
  have "sent_back (finding_from_claim_issue now fw m i)" for m i
    by (simp add: finding_from_claim_issue_def Let_def sent_back_filled claims.scopes_single
        first_redo_scope_def claims.scope_kind)
  then have c: "answered_if_blocking (quality_findings_from_claim_validation now fw results cs)"
    by (auto simp: answered_if_blocking_def list_all_iff quality_findings_from_claim_validation_def)
  have g: "qf_redo_scope (finding_from_gap now w x) = (if severe (gi_severity x) then Some (gap_scope x) else None)"
      and "sent_back (finding_from_gap now w x) = severe (gi_severity x)"
      and "qf_severity (finding_from_gap now w x) = severity_from_gap (gi_severity x)" for w x
    by (simp_all add: finding_from_gap_def Let_def sent_back_filled gaps.scopes_single
        first_redo_scope_def gaps.scope_kind)
  then have ge: "answered_if_blocking (quality_findings_from_evidence_gaps now framework gs)"
    by (auto simp: answered_if_blocking_def list_all_iff quality_findings_from_evidence_gaps_def
        severity_from_gap_def severe_def split: if_splits)
  have t: "qf_redo_scope (finding_from_red_team now w x) =
        (if severe (rt_severity x) then Some (red_team_scope x) else None)"
      and "sent_back (finding_from_red_team now w x) = severe (rt_severity x)"
      and "qf_severity (finding_from_red_team now w x) = severity_from_red_team (rt_severity x)" for w x
    by (simp_all add: finding_from_red_team_def Let_def sent_back_filled red_team.scopes_single
        first_redo_scope_def red_team.scope_kind)
  then have rt: "answered_if_blocking (quality_findings_from_red_team now framework rs)"
    by (auto simp: answered_if_blocking_def list_all_iff quality_findings_from_red_team_def
        severity_from_red_team_def severe_def split: if_splits)
  show ?thesis using b r c ge rt
    by (simp add: quality_findings_from_evidence_gaps_def quality_findings_from_red_team_def g t)
qed

lemma count_if_positive: "0 < count_if p xs \<longleftrightarrow> (\<exists>x \<in> set xs. p x)"
  by (metis count_if_0 neq0_conv)

text \<open>The final result counts every issue once, whichever checker reported it first: its findings
  have distinct ids and cover all ids, the counts are those of the findings, the status names the
  worst severity present, and with as many issues as before the ratio of convergence is 1.\<close>

theorem final_result_counts:
  "let r = build_final_quality_result ds gs score before in
     distinct (map qi_id (fr_findings r))
     \<and> qi_id ` set (fr_findings r) = qi_id ` (set ds \<union> set gs)
     \<and> fr_issue_count r = int (card (qi_id ` (set ds \<union> set gs)))
     \<and> fr_blocker_count r + fr_warn_count r \<le> fr_issue_count r
     \<and> (fr_quality_status r = ''completed_with_blockers'') = list_ex (\<lambda>f. qi_severity f = ''blocker'') (fr_findings r)
     \<and> (fr_quality_status r = ''clean_pass'') =
         list_all (\<lambda>f. qi_severity f \<noteq> ''blocker'' \<and> qi_severity f \<noteq> ''warn'') (fr_findings r)
     \<and> fr_revision_convergence_ratio (build_final_quality_result ds gs score (max 1 (fr_issue_count r))) =
         (if fr_issue_count r = 0 then 0 else 1)"
proof -
  let ?fs = "dedupe_findings (ds @ gs)"
  have d: "distinct (map qi_id ?fs)" by (simp add: dedupe_findings_def kf.dd_distinct)
  have k: "qi_id ` set ?fs = qi_id ` (set ds \<union> set gs)"
    using kf.dd_keys[of qi_id "\<lambda>_. True" "ds @ gs"] by (simp add: dedupe_findings_def Un_def)
  have n: "length ?fs = card (qi_id ` (set ds \<union> set gs))"
    using distinct_card[OF d] k by simp
  have c: "count_if (\<lambda>f. qi_severity f = ''blocker'') fs + count_if (\<lambda>f. qi_severity f = ''warn'') fs
      \<le> length fs" for fs
    by (induction fs) (auto simp: loop_simps)
  have q: "round_digits 3 (of_int n / of_int (max 1 (max 1 n))) = (if n = 0 then 0 else 1)" if "0 \<le> n" for n
    using that by (auto simp: round_digits_def round_half_even_def max_def)
  let ?r = "build_final_quality_result ds gs score before"
  have "distinct (map qi_id (fr_findings ?r))" "qi_id ` set (fr_findings ?r) = qi_id ` (set ds \<union> set gs)"
    "fr_issue_count ?r = int (card (qi_id ` (set ds \<union> set gs)))"
    using d k n by (simp_all add: build_final_quality_result_def Let_def)
  moreover have "fr_blocker_count ?r + fr_warn_count ?r \<le> fr_issue_count ?r"
    using c[of ?fs] by (simp add: build_final_quality_result_def Let_def)
  moreover have "(fr_quality_status ?r = ''completed_with_blockers'') =
      list_ex (\<lambda>f. qi_severity f = ''blocker'') (fr_findings ?r)"
    by (auto simp: build_final_quality_result_def Let_def list_ex_iff count_if_positive)
  moreover have "(fr_quality_status ?r = ''clean_pass'') =
      list_all (\<lambda>f. qi_severity f \<noteq> ''blocker'' \<and> qi_severity f \<noteq> ''warn'') (fr_findings ?r)"
    by (auto simp: build_final_quality_result_def Let_def list_all_iff count_if_positive)
  moreover have "fr_revision_convergence_ratio (build_final_quality_result ds gs score
      (max 1 (fr_issue_count ?r))) = (if fr_issue_count ?r = 0 then 0 else 1)"
    using q[of "int (length ?fs)"] by (simp add: build_final_quality_result_def Let_def)
  ultimately show ?thesis unfolding Let_def by blast
qed

end
