(* ===== verification/RedoSelection.thy ===== *)
theory RedoSelection
  imports Redo
begin

text \<open>
  orchestrator/service.py and orchestrator/audit.py: how a finished run chooses the issues its
  next redo works on, merges their scopes into one, and records the revision. Issues that can
  be repaired side by side, on different competitors, are taken together, three at most.
\<close>

section \<open>Revisions: schema/models.py, orchestrator/audit.py\<close>

record revision =
  re_id :: str
  re_iteration :: int
  re_stage :: str
  re_target_subagent :: "str option"
  re_target_competitor :: "str option"
  re_target_competitors :: "str list"
  re_redo_scopes :: "redo_scope list"
  re_before_md :: str
  re_after_md :: str
  re_issue_ids :: "str list"
  re_qa_issue_ids_before :: "str list"
  re_issue_count_before :: int
  re_issue_count_after :: int
  re_convergence_ratio :: rat
  re_metadata :: jdict
  re_created_at :: datetime

text \<open>The detail of a run together with its revisions.\<close>

record run_work = run_detail +
  rw_revisions :: "revision list"

definition convergence_ratio :: "int \<Rightarrow> int \<Rightarrow> rat" where
  "convergence_ratio before after = round_digits 3 (of_int after / of_int (max 1 before))"

definition build_revision_record ::
  "datetime \<Rightarrow> run_work \<Rightarrow> int \<Rightarrow> str \<Rightarrow> redo_scope \<Rightarrow> redo_scope list \<Rightarrow> str \<Rightarrow> str list \<Rightarrow> str list
    \<Rightarrow> int \<Rightarrow> jdict \<Rightarrow> revision" where
  "build_revision_record now d iteration stage scope scopes before_md issue_ids issue_ids_before
     issue_count_before metadata =
     (let after = int (length (rn_qa_findings d))
      in \<lparr>re_id = stable_prefixed_id ''revision'' [JStr (rn_id d), JInt iteration, JStr stage] 16,
          re_iteration = iteration, re_stage = stage, re_target_subagent = rs_target_subagent scope,
          re_target_competitor = rs_target_competitor scope,
          re_target_competitors = rs_target_competitors scope, re_redo_scopes = scopes,
          re_before_md = before_md, re_after_md = rn_report_md d, re_issue_ids = issue_ids,
          re_qa_issue_ids_before = issue_ids_before, re_issue_count_before = issue_count_before,
          re_issue_count_after = after,
          re_convergence_ratio = convergence_ratio issue_count_before after, re_metadata = metadata,
          re_created_at = now\<rparr>)"

section \<open>Ranking\<close>

definition redo_scope_key :: "redo_scope \<Rightarrow> str" where
  "redo_scope_key s =
     rs_kind s @ '':''
       @ (if rs_target_competitors s \<noteq> [] then join '','' (rs_target_competitors s)
          else or_str (rs_target_competitor s) ''*'')
       @ '':'' @ or_str (rs_target_subagent s) ''*''"

definition lookup_rank :: "(str \<times> int) list \<Rightarrow> int \<Rightarrow> str \<Rightarrow> int" where
  "lookup_rank ranks dflt k = (case map_of ranks k of Some n \<Rightarrow> n | None \<Rightarrow> dflt)"

definition severity_rank :: "str \<Rightarrow> int" where
  "severity_rank = lookup_rank [(''blocker'', 0), (''warn'', 1), (''info'', 2)] 3"

definition kind_rank :: "str \<Rightarrow> int" where
  "kind_rank = lookup_rank [(''collector'', 0), (''analyst'', 1), (''comparator'', 2),
     (''writer_only'', 3), (''full'', 4)] 5"

definition detector_rank :: "str \<Rightarrow> int" where
  "detector_rank d = (if d \<in> {''schema'', ''citation'', ''coverage''} then 0 else 1)"

definition earlier_attempts :: "revision list \<Rightarrow> qc_issue \<Rightarrow> int" where
  "earlier_attempts revisions i =
     int (count_if (\<lambda>x. x = qi_id i) (concat (map re_issue_ids revisions)))
       + int (count_if (\<lambda>s. redo_scope_key s = redo_scope_key (qi_redo_scope i))
           (concat (map re_redo_scopes revisions)))"

definition issue_rank :: "revision list \<Rightarrow> qc_issue \<Rightarrow> int \<times> int \<times> int \<times> int \<times> int \<times> str" where
  "issue_rank revisions i =
     (severity_rank (qi_severity i), earlier_attempts revisions i,
      if given (rs_target_competitor (qi_redo_scope i)) then 0 else 1,
      kind_rank (rs_kind (qi_redo_scope i)), detector_rank (qi_detected_by i), qi_id i)"

definition pool_rank :: "qc_issue \<Rightarrow> int \<times> int \<times> int \<times> int \<times> str" where
  "pool_rank i =
     (severity_rank (qi_severity i), if given (rs_target_competitor (qi_redo_scope i)) then 0 else 1,
      kind_rank (rs_kind (qi_redo_scope i)), detector_rank (qi_detected_by i), qi_id i)"

text \<open>\<open>sorted(xs, key=f)[0]\<close>, which raises on an empty list.\<close>

definition first_by :: "('a \<Rightarrow> 'k::linorder) \<Rightarrow> 'a list \<Rightarrow> py_error + 'a" where
  "first_by f xs = (case sort_key f xs of [] \<Rightarrow> Inl (IndexError ''list index out of range'') | x # _ \<Rightarrow> Inr x)"

definition select_redo_issue :: "revision list \<Rightarrow> qc_issue list \<Rightarrow> py_error + qc_issue" where
  "select_redo_issue revisions findings = first_by (issue_rank revisions) findings"

definition select_redo_issue_from_pool :: "qc_issue list \<Rightarrow> py_error + qc_issue" where
  "select_redo_issue_from_pool issues =
     (case issues of [i] \<Rightarrow> Inr i | _ \<Rightarrow> first_by pool_rank issues)"

section \<open>Batches\<close>

definition issue_competitors :: "qc_issue \<Rightarrow> str list" where
  "issue_competitors i =
     filter (\<lambda>c. c \<noteq> [])
       ((case rs_target_competitor (qi_redo_scope i) of Some c \<Rightarrow> [c] | None \<Rightarrow> [])
         @ rs_target_competitors (qi_redo_scope i))"

definition batchable :: "redo_scope \<Rightarrow> bool" where
  "batchable s \<longleftrightarrow> rs_kind s \<in> {''collector'', ''analyst''} \<and> given (rs_target_subagent s)"

text \<open>The loop over the candidates, with the ids and competitors selected so far and their number.\<close>

fun expand_from :: "redo_scope \<Rightarrow> str list \<Rightarrow> str list \<Rightarrow> nat \<Rightarrow> qc_issue list \<Rightarrow> qc_issue list" where
  "expand_from p ids seen n [] = []"
| "expand_from p ids seen n (c # cs) =
     (let s = qi_redo_scope c; cc = issue_competitors c
      in if qi_id c \<in> set ids \<or> rs_kind s \<noteq> rs_kind p \<or> rs_target_subagent s \<noteq> rs_target_subagent p
            \<or> cc = [] \<or> list_ex (\<lambda>x. x \<in> set seen) cc
         then expand_from p ids seen n cs
         else c # (if n + 1 \<ge> 3 then [] else expand_from p (qi_id c # ids) (cc @ seen) (n + 1) cs))"

definition expand_redo_issue_batch :: "qc_issue \<Rightarrow> qc_issue list \<Rightarrow> qc_issue list" where
  "expand_redo_issue_batch primary candidates =
     (if \<not> batchable (qi_redo_scope primary) then [primary]
      else primary # expand_from (qi_redo_scope primary) [qi_id primary] (issue_competitors primary) 1
             (sort_key qi_id candidates))"

definition issue_selection_keys :: "qc_issue \<Rightarrow> str list" where
  "issue_selection_keys i =
     qi_id i # concat (map (\<lambda>k. case map_of (qi_metadata i) k of
          Some (JStr v) \<Rightarrow> if strip v \<noteq> [] then [strip v] else []
        | _ \<Rightarrow> []) [''release_gate_issue_id'', ''run_qa_finding_id'', ''release_gate_task_id''])"

definition group_key :: "qc_issue \<Rightarrow> str \<times> str" where
  "group_key i = (rs_kind (qi_redo_scope i), or_str (rs_target_subagent (qi_redo_scope i)) [])"

definition add_to_group ::
  "qc_issue \<Rightarrow> ((str \<times> str) \<times> qc_issue list) list \<Rightarrow> ((str \<times> str) \<times> qc_issue list) list" where
  "add_to_group i d =
     AList.update (group_key i) ((case map_of d (group_key i) of Some is \<Rightarrow> is | None \<Rightarrow> []) @ [i]) d"

definition best_severity :: "qc_issue list \<Rightarrow> int" where
  "best_severity findings = fold (\<lambda>i m. min (severity_rank (qi_severity i)) m) findings 3"

definition batch_groups :: "qc_issue list \<Rightarrow> ((str \<times> str) \<times> qc_issue list) list" where
  "batch_groups findings =
     fold add_to_group
       (filter (\<lambda>i. severity_rank (qi_severity i) = best_severity findings
          \<and> batchable (qi_redo_scope i) \<and> issue_competitors i \<noteq> []) findings) []"

definition competitor_count :: "qc_issue list \<Rightarrow> nat" where
  "competitor_count issues = length (remdups (concat (map issue_competitors issues)))"

fun pick_disjoint :: "str list \<Rightarrow> nat \<Rightarrow> qc_issue list \<Rightarrow> qc_issue list" where
  "pick_disjoint seen n [] = []"
| "pick_disjoint seen n (i # is) =
     (if list_ex (\<lambda>x. x \<in> set seen) (issue_competitors i) then pick_disjoint seen n is
      else i # (if n + 1 \<ge> 3 then [] else pick_disjoint (issue_competitors i @ seen) (n + 1) is))"

definition select_largest_batchable_redo_cluster :: "qc_issue list \<Rightarrow> qc_issue list" where
  "select_largest_batchable_redo_cluster findings =
     (let candidates = filter (\<lambda>(n, _). n \<ge> 2)
            (map (\<lambda>(key, issues). (int (competitor_count issues), key, issues)) (batch_groups findings))
      in case sort_key (\<lambda>(n, key, _). (- n, key)) candidates of
           [] \<Rightarrow> []
         | (_, _, issues) # _ \<Rightarrow> pick_disjoint [] 0 (sort_key qi_id issues))"

definition select_redo_issues ::
  "revision list \<Rightarrow> qc_issue list \<Rightarrow> str list option \<Rightarrow> py_error + qc_issue list" where
  "select_redo_issues revisions findings preferred =
     (case preferred of
        Some (p # ps) \<Rightarrow>
          (let requested = filter (\<lambda>x. x \<noteq> []) (map strip (p # ps));
               matched = filter (\<lambda>i. list_ex (\<lambda>k. k \<in> set requested) (issue_selection_keys i)) findings
           in case matched of
                [] \<Rightarrow> Inr []
              | [i] \<Rightarrow> Inr [i]
              | _ \<Rightarrow> err_bind (select_redo_issue_from_pool matched) (\<lambda>primary.
                  Inr (expand_redo_issue_batch primary matched)))
      | _ \<Rightarrow>
          (let clustered = select_largest_batchable_redo_cluster findings
           in if clustered \<noteq> [] then Inr clustered
              else err_bind (select_redo_issue revisions findings) (\<lambda>primary.
                Inr (expand_redo_issue_batch primary findings))))"

section \<open>Merging\<close>

text \<open>It is called with the issues of a selection that is not empty.\<close>

definition merge_redo_scopes :: "qc_issue list \<Rightarrow> redo_scope" where
  "merge_redo_scopes issues =
     (let primary = qi_redo_scope (hd issues);
          competitors = sorted_set (concat (map issue_competitors issues))
      in if length issues = 1 then primary
         else \<lparr>rs_kind = rs_kind primary, rs_target_subagent = rs_target_subagent primary,
               rs_target_competitor = (case competitors of [c] \<Rightarrow> Some c | _ \<Rightarrow> None),
               rs_target_competitors = competitors,
               rs_rationale = ''Batch redo for '' @ str_of_int (int (length issues)) @ '' ''
                 @ rs_kind primary @ '' issue(s) in '' @ or_str (rs_target_subagent primary) ''all''
                 @ '': '' @ join ''; '' (map qi_problem (take 3 issues))\<rparr>)"

text \<open>The first value of a target is stored as it is, further different ones make a list.\<close>

definition add_target :: "str \<times> json \<Rightarrow> jdict \<Rightarrow> jdict" where
  "add_target kv d =
     (let (k, v) = kv
      in case map_of d k of
           None \<Rightarrow> AList.update k v d
         | Some old \<Rightarrow>
           if old = v then d
           else let vs = (case old of JList xs \<Rightarrow> xs | _ \<Rightarrow> [old])
                in AList.update k (JList (if v \<in> set vs then vs else vs @ [v])) d)"

definition issue_targets :: "qc_issue \<Rightarrow> (str \<times> json) list" where
  "issue_targets i =
     List.map_filter (\<lambda>k. case map_of (qi_metadata i) k of
         Some v \<Rightarrow> if truthy v then Some (k, v) else None
       | None \<Rightarrow> None)
       [''source_id'', ''claim_card_id'', ''decision_card_id'', ''section_key'', ''artifact_layer'']"

definition structured_redo_targets :: "qc_issue list \<Rightarrow> jdict" where
  "structured_redo_targets issues = fold add_target (concat (map issue_targets issues)) []"

definition redo_limit_reached :: "run_work \<Rightarrow> bool" where
  "redo_limit_reached d \<longleftrightarrow> int (length (rw_revisions d)) \<ge> rn_max_iterations d"

definition can_start_redo :: "run_work option \<Rightarrow> str list option \<Rightarrow> py_error + bool" where
  "can_start_redo r preferred =
     (case r of
        None \<Rightarrow> Inr False
      | Some d \<Rightarrow>
        if rn_qa_findings d = [] \<or> redo_limit_reached d then Inr False
        else if preferred \<in> {None, Some []} then Inr True
        else err_bind (select_redo_issues (rw_revisions d) (rn_qa_findings d) preferred)
               (\<lambda>is. Inr (is \<noteq> [])))"

section \<open>What a selection promises\<close>

definition competitors_of :: "qc_issue list \<Rightarrow> str set" where
  "competitors_of bs = set (concat (map issue_competitors bs))"

definition no_shared_competitor :: "qc_issue list \<Rightarrow> bool" where
  "no_shared_competitor bs \<longleftrightarrow> distinct (concat (map (\<lambda>i. remdups (issue_competitors i)) bs))"

text \<open>Issues of one kind and one dimension, three at most, no competitor in two of them.\<close>

definition coherent_batch :: "qc_issue list \<Rightarrow> qc_issue list \<Rightarrow> bool" where
  "coherent_batch findings bs \<longleftrightarrow> length bs \<le> 3 \<and> set bs \<subseteq> set findings \<and> no_shared_competitor bs
     \<and> list_all (\<lambda>i. rs_kind (qi_redo_scope i) = rs_kind (qi_redo_scope (hd bs))
         \<and> rs_target_subagent (qi_redo_scope i) = rs_target_subagent (qi_redo_scope (hd bs))) bs"

lemma competitors_of_simps [simp]:
  "competitors_of [] = {}" "competitors_of (i # is) = set (issue_competitors i) \<union> competitors_of is"
  by (simp_all add: competitors_of_def)

lemma no_shared_simps [simp]:
  "no_shared_competitor []"
  "no_shared_competitor (i # is) \<longleftrightarrow>
     set (issue_competitors i) \<inter> competitors_of is = {} \<and> no_shared_competitor is"
  by (auto simp: no_shared_competitor_def competitors_of_def)

lemma expand_from_props:
  fixes p :: redo_scope
  assumes "n < 3"
  shows "n + length (expand_from p ids seen n cs) \<le> 3
    \<and> set (expand_from p ids seen n cs) \<subseteq> set cs
    \<and> no_shared_competitor (expand_from p ids seen n cs)
    \<and> competitors_of (expand_from p ids seen n cs) \<inter> set seen = {}
    \<and> (\<forall>i \<in> set (expand_from p ids seen n cs). rs_kind (qi_redo_scope i) = rs_kind p
        \<and> rs_target_subagent (qi_redo_scope i) = rs_target_subagent p)"
  using assms
proof (induction p ids seen n cs rule: expand_from.induct)
  case (1 p ids seen n)
  then show ?case by simp
next
  case (2 p ids seen n c cs)
  let ?skip = "qi_id c \<in> set ids \<or> rs_kind (qi_redo_scope c) \<noteq> rs_kind p
      \<or> rs_target_subagent (qi_redo_scope c) \<noteq> rs_target_subagent p
      \<or> issue_competitors c = [] \<or> list_ex (\<lambda>x. x \<in> set seen) (issue_competitors c)"
  show ?case
  proof (cases ?skip)
    case True
    then have "expand_from p ids seen n (c # cs) = expand_from p ids seen n cs" by (simp add: Let_def)
    moreover note 2(1)[OF refl refl True 2(3)]
    ultimately show ?thesis by auto
  next
    case False
    then have ok: "rs_kind (qi_redo_scope c) = rs_kind p"
        "rs_target_subagent (qi_redo_scope c) = rs_target_subagent p"
        "set (issue_competitors c) \<inter> set seen = {}"
      by (auto simp: list_ex_iff)
    show ?thesis
    proof (cases "n + 1 \<ge> 3")
      case True
      then have "expand_from p ids seen n (c # cs) = [c]" using False by (simp add: Let_def)
      then show ?thesis using ok 2(3) by simp
    next
      case lt: False
      let ?rest = "expand_from p (qi_id c # ids) (issue_competitors c @ seen) (n + 1) cs"
      have "expand_from p ids seen n (c # cs) = c # ?rest" using False lt by (simp add: Let_def)
      moreover have "n + 1 < 3" using lt by simp
      note 2(2)[OF refl refl False lt this]
      ultimately show ?thesis using ok by auto
    qed
  qed
qed

lemma pick_disjoint_props:
  assumes "n < 3"
  shows "n + length (pick_disjoint seen n is) \<le> 3 \<and> set (pick_disjoint seen n is) \<subseteq> set is
    \<and> no_shared_competitor (pick_disjoint seen n is)
    \<and> competitors_of (pick_disjoint seen n is) \<inter> set seen = {}"
  using assms
proof (induction seen n "is" rule: pick_disjoint.induct)
  case (1 seen n)
  then show ?case by simp
next
  case (2 seen n i "is")
  show ?case
  proof (cases "list_ex (\<lambda>x. x \<in> set seen) (issue_competitors i)")
    case True
    then show ?thesis using 2(1)[OF True 2(3)] by auto
  next
    case False
    then have d: "set (issue_competitors i) \<inter> set seen = {}" by (auto simp: list_ex_iff)
    show ?thesis
    proof (cases "n + 1 \<ge> 3")
      case True
      then show ?thesis using False d 2(3) by simp
    next
      case lt: False
      then have "n + 1 < 3" by simp
      note 2(2)[OF False lt this]
      then show ?thesis using False lt d by auto
    qed
  qed
qed

lemma pick_disjoint_nonempty: "is \<noteq> [] \<Longrightarrow> pick_disjoint [] 0 is \<noteq> []"
  by (cases "is") (auto simp: list_ex_iff)

lemma expand_batch_coherent:
  assumes "i \<in> set fs"
  shows "coherent_batch fs (expand_redo_issue_batch i fs) \<and> expand_redo_issue_batch i fs \<noteq> []"
proof (cases "batchable (qi_redo_scope i)")
  case True
  let ?rest = "expand_from (qi_redo_scope i) [qi_id i] (issue_competitors i) 1 (sort_key qi_id fs)"
  have "expand_redo_issue_batch i fs = i # ?rest" using True by (simp add: expand_redo_issue_batch_def)
  then show ?thesis
    using assms expand_from_props[of 1 "qi_redo_scope i" "[qi_id i]" "issue_competitors i" "sort_key qi_id fs"]
    by (auto simp: coherent_batch_def list_all_iff)
qed (use assms in \<open>simp add: expand_redo_issue_batch_def coherent_batch_def\<close>)

lemma batch_groups_props:
  "(key, is) \<in> set (fold add_to_group fs d) \<Longrightarrow>
     (\<forall>(key, is) \<in> set d. \<forall>i \<in> set is. group_key i = key \<and> P i) \<Longrightarrow> distinct (map fst d) \<Longrightarrow>
     \<forall>i \<in> set fs. P i \<Longrightarrow> \<forall>i \<in> set is. group_key i = key \<and> P i"
proof (induction fs arbitrary: d)
  case Nil
  then show ?case by auto
next
  case (Cons f fs)
  have "\<forall>(key, is) \<in> set (add_to_group f d). \<forall>i \<in> set is. group_key i = key \<and> P i"
  proof (clarify)
    fix key "is" i
    assume m: "(key, is) \<in> set (add_to_group f d)" "i \<in> set is"
    then consider "(key, is) \<in> set d"
      | "key = group_key f" "is = (case map_of d (group_key f) of Some is \<Rightarrow> is | None \<Rightarrow> []) @ [f]"
      using set_update_subset unfolding add_to_group_def by fastforce
    then show "group_key i = key \<and> P i"
    proof cases
      case 1
      then show ?thesis using Cons.prems(2) m(2) by blast
    next
      case 2
      then show ?thesis using Cons.prems(2,4) m(2)
        by (auto split: option.splits dest: map_of_SomeD)
    qed
  qed
  moreover have "distinct (map fst (add_to_group f d))"
    using Cons.prems(3) by (simp add: add_to_group_def distinct_update)
  ultimately show ?case using Cons.IH Cons.prems(1,4) by simp
qed

lemma cluster_coherent: "coherent_batch fs (select_largest_batchable_redo_cluster fs)"
proof -
  let ?cands = "sort_key (\<lambda>(n, key, _). (- n, key)) (filter (\<lambda>(n, _). n \<ge> 2)
      (map (\<lambda>(key, issues). (int (competitor_count issues), key, issues)) (batch_groups fs)))"
  show ?thesis
  proof (cases ?cands)
    case Nil
    then show ?thesis by (simp add: select_largest_batchable_redo_cluster_def coherent_batch_def)
  next
    case (Cons c cs)
    obtain n key "is" where c: "c = (n, key, is)" by (cases c)
    have run: "select_largest_batchable_redo_cluster fs = pick_disjoint [] 0 (sort_key qi_id is)"
      using Cons c by (simp add: select_largest_batchable_redo_cluster_def)
    have "c \<in> set ?cands" unfolding Cons by simp
    then have grp: "(key, is) \<in> set (batch_groups fs)" using c by auto
    have "\<forall>i \<in> set is. group_key i = key \<and> i \<in> set fs \<and> batchable (qi_redo_scope i)"
      by (rule batch_groups_props[OF grp[unfolded batch_groups_def], of "\<lambda>i. i \<in> set fs \<and> batchable (qi_redo_scope i)"]) auto
    then have g: "group_key i = key" "i \<in> set fs" "given (rs_target_subagent (qi_redo_scope i))"
      if "i \<in> set is" for i using that by (auto simp: batchable_def)
    have scope: "rs_kind (qi_redo_scope i) = rs_kind (qi_redo_scope j)
        \<and> rs_target_subagent (qi_redo_scope i) = rs_target_subagent (qi_redo_scope j)"
      if ij: "i \<in> set is" "j \<in> set is" for i j
    proof -
      have "group_key i = group_key j" using g(1)[OF ij(1)] g(1)[OF ij(2)] by simp
      then show ?thesis using g(3)[OF ij(1)] g(3)[OF ij(2)]
        by (cases "rs_target_subagent (qi_redo_scope i)"; cases "rs_target_subagent (qi_redo_scope j)")
          (auto simp: group_key_def)
    qed
    let ?p = "pick_disjoint [] 0 (sort_key qi_id is)"
    have p: "length ?p \<le> 3" "set ?p \<subseteq> set is" "no_shared_competitor ?p"
      using pick_disjoint_props[of 0 "[]" "sort_key qi_id is"] by simp_all
    moreover have "list_all (\<lambda>i. rs_kind (qi_redo_scope i) = rs_kind (qi_redo_scope (hd ?p))
        \<and> rs_target_subagent (qi_redo_scope i) = rs_target_subagent (qi_redo_scope (hd ?p))) ?p"
      unfolding list_all_iff
    proof
      fix i assume i: "i \<in> set ?p"
      then have "hd ?p \<in> set ?p" by (cases ?p) auto
      then show "rs_kind (qi_redo_scope i) = rs_kind (qi_redo_scope (hd ?p))
        \<and> rs_target_subagent (qi_redo_scope i) = rs_target_subagent (qi_redo_scope (hd ?p))"
        using i p(2) scope[of i "hd ?p"] by blast
    qed
    ultimately show ?thesis unfolding run coherent_batch_def using g(2) by blast
  qed
qed

lemma first_by_Inr: "xs \<noteq> [] \<Longrightarrow> \<exists>x \<in> set xs. first_by f xs = Inr x"
proof -
  assume "xs \<noteq> []"
  then have "sort_key f xs \<noteq> []" by (metis length_0_conv length_sort)
  then obtain y ys where y: "sort_key f xs = y # ys" by (cases "sort_key f xs") auto
  then have "y \<in> set xs" by (metis list.set_intros(1) set_sort)
  then show ?thesis using y by (auto simp: first_by_def)
qed

lemma pool_Inr: "xs \<noteq> [] \<Longrightarrow> \<exists>x \<in> set xs. select_redo_issue_from_pool xs = Inr x"
  using first_by_Inr[of xs pool_rank] by (auto simp: select_redo_issue_from_pool_def split: list.split)

lemma coherent_mono: "coherent_batch fs bs \<Longrightarrow> set fs \<subseteq> set gs \<Longrightarrow> coherent_batch gs bs"
  by (auto simp: coherent_batch_def)

text \<open>The issues that a preference names by one of their keys.\<close>

definition matching_issues :: "str list \<Rightarrow> qc_issue list \<Rightarrow> qc_issue list" where
  "matching_issues preferred findings =
     filter (\<lambda>i. list_ex (\<lambda>k. k \<in> set (filter (\<lambda>x. x \<noteq> []) (map strip preferred)))
       (issue_selection_keys i)) findings"

lemma select_preferred:
  assumes "m = matching_issues (p # ps) fs"
  shows "\<exists>bs. select_redo_issues revs fs (Some (p # ps)) = Inr bs \<and> coherent_batch fs bs \<and> (bs = []) = (m = [])"
proof -
  have sub: "set m \<subseteq> set fs" using assms by (auto simp: matching_issues_def)
  have run: "select_redo_issues revs fs (Some (p # ps)) = (case m of [] \<Rightarrow> Inr [] | [i] \<Rightarrow> Inr [i]
      | _ \<Rightarrow> err_bind (select_redo_issue_from_pool m) (\<lambda>primary. Inr (expand_redo_issue_batch primary m)))"
    by (simp only: select_redo_issues_def option.case list.case Let_def assms matching_issues_def)
  show ?thesis
  proof (cases m)
    case Nil
    then show ?thesis by (simp add: run coherent_batch_def)
  next
    case (Cons i js)
    show ?thesis
    proof (cases js)
      case Nil
      then show ?thesis using sub by (simp add: run Cons coherent_batch_def)
    next
      case (Cons j ks)
      obtain x where x: "x \<in> set m" "select_redo_issue_from_pool m = Inr x"
        using pool_Inr[of m] \<open>m = i # js\<close> by auto
      then have "coherent_batch fs (expand_redo_issue_batch x m)" "expand_redo_issue_batch x m \<noteq> []"
        using expand_batch_coherent[OF x(1)] coherent_mono[OF _ sub] by blast+
      moreover have "select_redo_issues revs fs (Some (p # ps)) = Inr (expand_redo_issue_batch x m)"
        using x(2) by (simp add: run Cons \<open>m = i # js\<close>)
      ultimately show ?thesis using \<open>m = i # js\<close> by blast
    qed
  qed
qed

lemma select_unpreferred:
  assumes "preferred = None \<or> preferred = Some []" "fs \<noteq> []"
  shows "\<exists>bs. select_redo_issues revs fs preferred = Inr bs \<and> coherent_batch fs bs \<and> bs \<noteq> []"
proof (cases "select_largest_batchable_redo_cluster fs = []")
  case True
  obtain x where x: "x \<in> set fs" "select_redo_issue revs fs = Inr x"
    using first_by_Inr[OF assms(2)] by (auto simp: select_redo_issue_def)
  then have "select_redo_issues revs fs preferred = Inr (expand_redo_issue_batch x fs)"
    using assms(1) True by (auto simp: select_redo_issues_def)
  then show ?thesis using expand_batch_coherent[OF x(1)] by blast
next
  case False
  then show ?thesis using assms(1) cluster_coherent[of fs] by (auto simp: select_redo_issues_def)
qed

text \<open>C24. A redo takes a coherent batch: whatever findings, history and preference, the selection gives
  at most three of the findings, of one kind and one dimension and without a common competitor.
  It is empty exactly when a preference names no finding, and fails only without any finding.\<close>

theorem redo_batch_coherent:
  "case select_redo_issues revisions findings preferred of
     Inl err \<Rightarrow> findings = [] \<and> preferred \<in> {None, Some []}
   | Inr bs \<Rightarrow> coherent_batch findings bs
       \<and> (bs = []) = (case preferred of Some (p # ps) \<Rightarrow> matching_issues (p # ps) findings = []
           | _ \<Rightarrow> False)"
proof (cases "\<exists>p ps. preferred = Some (p # ps)")
  case True
  then obtain p ps where "preferred = Some (p # ps)" by blast
  with select_preferred[OF refl, of revisions findings p ps] show ?thesis by auto
next
  case False
  then have np: "preferred = None \<or> preferred = Some []" by (metis list.exhaust option.exhaust)
  show ?thesis
  proof (cases "findings = []")
    case True
    then show ?thesis using np
      by (auto simp: select_redo_issues_def select_largest_batchable_redo_cluster_def batch_groups_def
          select_redo_issue_def first_by_def)
  next
    case False
    then show ?thesis using np select_unpreferred[OF np False, of revisions] by auto
  qed
qed

lemma sorted_set_concat: "set (sorted_set (concat (map issue_competitors bs))) = competitors_of bs"
  by (simp add: competitors_of_def)

text \<open>The merged scope of a batch keeps the kind and dimension of its first issue; for a single
  issue it is that issue's scope, for several it targets each of their competitors once, in
  order, and names a single target only when there is one.\<close>

theorem merged_scope_targets:
  "let s = merge_redo_scopes (b # bs) in
     rs_kind s = rs_kind (qi_redo_scope b) \<and> rs_target_subagent s = rs_target_subagent (qi_redo_scope b)
     \<and> (if bs = [] then s = qi_redo_scope b
        else set (rs_target_competitors s) = competitors_of (b # bs)
          \<and> sorted (rs_target_competitors s) \<and> distinct (rs_target_competitors s)
          \<and> rs_target_competitor s = (if length (rs_target_competitors s) = 1
              then Some (hd (rs_target_competitors s)) else None))"
proof (cases "bs = []")
  case True
  then show ?thesis by (simp add: merge_redo_scopes_def)
next
  case False
  then have "rs_target_competitors (merge_redo_scopes (b # bs)) = sorted_set (concat (map issue_competitors (b # bs)))"
    by (simp add: merge_redo_scopes_def Let_def)
  moreover have "rs_target_competitor (merge_redo_scopes (b # bs)) =
      (case sorted_set (concat (map issue_competitors (b # bs))) of [c] \<Rightarrow> Some c | _ \<Rightarrow> None)"
    using False by (simp add: merge_redo_scopes_def Let_def)
  moreover have "(case xs of [c] \<Rightarrow> Some c | _ \<Rightarrow> None) = (if length xs = 1 then Some (hd xs) else None)"
    for xs :: "str list" by (cases xs; cases "tl xs") auto
  ultimately show ?thesis
    using False sorted_set_concat[of "b # bs"]
    by (simp add: sorted_sorted_set distinct_sorted_set merge_redo_scopes_def Let_def)
qed

definition sample_issue :: "str \<Rightarrow> str \<Rightarrow> str option \<Rightarrow> qc_issue" where
  "sample_issue i severity competitor =
     \<lparr>qi_id = i, qi_severity = severity, qi_detected_by = ''coverage'', qi_target_agent = ''collector'',
      qi_target_subagent = Some ''pricing'', qi_target_competitor = competitor, qi_field_path = ''raw'',
      qi_problem = ''missing'',
      qi_redo_scope = \<lparr>rs_kind = ''collector'', rs_target_subagent = Some ''pricing'',
        rs_target_competitor = competitor, rs_target_competitors = name_list competitor,
        rs_rationale = ''collect''\<rparr>,
      qi_self_found = False, qi_metadata = []\<rparr>"

text \<open>A blocker about a whole dimension can be narrowed by the batching: with a warning about one
  competitor of the same dimension it is selected together, and the merged scope targets that
  competitor alone, although the blocker's own scope is the dimension for all competitors.\<close>

theorem dimension_wide_blocker_narrowed:
  "let wide = sample_issue ''q1'' ''blocker'' None; narrow = sample_issue ''q2'' ''warn'' (Some ''Acme'') in
     select_redo_issues [] [wide, narrow] None = Inr [wide, narrow]
     \<and> rs_target_competitors (qi_redo_scope wide) = []
     \<and> rs_target_competitors (merge_redo_scopes [wide, narrow]) = [''Acme'']
     \<and> rs_target_competitor (merge_redo_scopes [wide, narrow]) = Some ''Acme''"
  by code_simp

end
