(* ===== verification/Graph.thy ===== *)
theory Graph
  imports RedoSelection
begin

text \<open>
  orchestrator/graph.py with orchestrator/state.py, and the steps of the service its nodes call:
  the three run graphs as a step function on the graph state and the run's detail. One step is
  one superstep of the graph; the parallel branches of a dispatch are one step. What the
  agents do to the run is an input of the step, and so is the reviewer's decision: a node gets
  an arbitrary change of the run's detail, which leaves alone what no agent assigns (the id,
  the budget of iterations, whether reviewers take part, and the revisions), or it raises.
  Events, messages between agents and checkpoints are not part of the state.
\<close>

section \<open>State\<close>

datatype graph_kind = RealGraph | DemoGraph | ScopedRedoGraph

datatype node = RedoRouter | Planner | PlannerHitl | CollectorDispatch | Collector | CollectJoin
  | SurveyInterview | CollectQa | AnalystDispatch | Analyst | AnalystJoin | AnalystQa
  | Comparator | Reflector | Writer | Qa | QaHitl

fun node_name :: "node \<Rightarrow> str" where
  "node_name RedoRouter = ''redo_router''"
| "node_name Planner = ''planner''"
| "node_name PlannerHitl = ''planner_hitl''"
| "node_name CollectorDispatch = ''collector_dispatch''"
| "node_name Collector = ''collector''"
| "node_name CollectJoin = ''collect_join''"
| "node_name SurveyInterview = ''survey_interview''"
| "node_name CollectQa = ''collect_qa''"
| "node_name AnalystDispatch = ''analyst_dispatch''"
| "node_name Analyst = ''analyst''"
| "node_name AnalystJoin = ''analyst_join''"
| "node_name AnalystQa = ''analyst_qa''"
| "node_name Comparator = ''comparator''"
| "node_name Reflector = ''reflector''"
| "node_name Writer = ''writer''"
| "node_name Qa = ''qa''"
| "node_name QaHitl = ''qa_hitl''"

text \<open>The branch fields of the state are only set in the states sent to the branches.\<close>

record graph_state =
  gs_dimensions :: "str list"
  gs_target_competitors :: "str list"
  gs_completed_collector_branches :: "str list"
  gs_completed_analyst_branches :: "str list"
  gs_current_node :: str
  gs_redo_kind :: "str option"
  gs_collect_qa_attempts :: int
  gs_analyst_qa_attempts :: int
  gs_final_qa_attempts :: int
  gs_final_qa_limit_reached :: bool

record pending_redo =
  pg_iteration :: int
  pg_stage :: str
  pg_redo_scope :: redo_scope
  pg_redo_scopes :: "redo_scope list"
  pg_before_md :: str
  pg_issue_ids :: "str list"
  pg_qa_issue_ids_before :: "str list"
  pg_issue_count_before :: int
  pg_structured_targets :: jdict
  pg_auto_continue :: bool

record machine =
  mc_node :: "node option"
  mc_state :: graph_state
  mc_detail :: run_work
  mc_pending :: "pending_redo option"

record graph_input =
  in_work :: "(run_work \<Rightarrow> run_work) option"
  in_decision :: str

definition agent_work :: "(run_work \<Rightarrow> run_work) \<Rightarrow> run_work \<Rightarrow> run_work" where
  "agent_work f d = (f d)\<lparr>rn_id := rn_id d, rn_max_iterations := rn_max_iterations d,
     rn_hitl_enabled := rn_hitl_enabled d, rw_revisions := rw_revisions d\<rparr>"

definition plan_dimensions :: "run_work \<Rightarrow> str list" where
  "plan_dimensions d = ap_dimensions (rn_plan d)"

definition plan_competitors :: "run_work \<Rightarrow> str list" where
  "plan_competitors d = ap_competitors (rn_plan d)"

definition or_list :: "'a list \<Rightarrow> 'a list \<Rightarrow> 'a list" where
  "or_list a b = (if a \<noteq> [] then a else b)"

definition ordered_unique :: "str list \<Rightarrow> str list" where
  "ordered_unique values = keep_first id (\<lambda>_. True) [] values"

definition analyst_branch_id :: "str \<Rightarrow> str \<Rightarrow> str" where
  "analyst_branch_id dimension competitor = dimension @ ''::'' @ competitor"

definition send_branches :: "graph_state \<Rightarrow> (str \<times> str) list" where
  "send_branches g = List.product (gs_dimensions g) (gs_target_competitors g)"

section \<open>Phase checks\<close>

datatype phase_qa = CollectPhase | AnalystPhase

definition blocking_phase_issues :: "run_work \<Rightarrow> phase_qa \<Rightarrow> qc_issue list" where
  "blocking_phase_issues d phase =
     filter (\<lambda>i. qi_severity i = ''blocker''
       \<and> qi_target_agent i = (case phase of CollectPhase \<Rightarrow> ''collector'' | AnalystPhase \<Rightarrow> ''analyst''))
       (rn_qa_findings d)"

definition issue_dimensions :: "run_work \<Rightarrow> qc_issue list \<Rightarrow> str list" where
  "issue_dimensions d issues =
     or_list (sorted_set (filter (\<lambda>x. x \<in> set (plan_dimensions d)) (List.map_filter qi_target_subagent issues)))
       (sorted_set (plan_dimensions d))"

definition issue_target_competitors :: "run_work \<Rightarrow> qc_issue list \<Rightarrow> str list" where
  "issue_target_competitors d issues =
     sorted_set (filter (\<lambda>x. x \<in> set (plan_competitors d)) (List.map_filter qi_target_competitor issues))"

definition phase_attempts :: "phase_qa \<Rightarrow> graph_state \<Rightarrow> int" where
  "phase_attempts phase g = (case phase of CollectPhase \<Rightarrow> gs_collect_qa_attempts g
     | AnalystPhase \<Rightarrow> gs_analyst_qa_attempts g)"

definition set_phase_attempts :: "phase_qa \<Rightarrow> int \<Rightarrow> graph_state \<Rightarrow> graph_state" where
  "set_phase_attempts phase n g = (case phase of CollectPhase \<Rightarrow> g\<lparr>gs_collect_qa_attempts := n\<rparr>
     | AnalystPhase \<Rightarrow> g\<lparr>gs_analyst_qa_attempts := n\<rparr>)"

definition phase_node :: "phase_qa \<Rightarrow> node" where
  "phase_node phase = (case phase of CollectPhase \<Rightarrow> CollectQa | AnalystPhase \<Rightarrow> AnalystQa)"

definition phase_qa_node ::
  "phase_qa \<Rightarrow> (run_work \<Rightarrow> run_work) \<Rightarrow> graph_state \<Rightarrow> run_work \<Rightarrow> graph_state \<times> run_work" where
  "phase_qa_node phase f g d =
     (let d' = agent_work f d; blockers = blocking_phase_issues d' phase;
          dims = (if blockers \<noteq> [] then issue_dimensions d' blockers
             else or_list (gs_dimensions g) (plan_dimensions d'));
          comps = (if blockers \<noteq> [] then issue_target_competitors d' blockers
             else gs_target_competitors g);
          attempts = (if blockers \<noteq> [] then phase_attempts phase g + 1 else phase_attempts phase g)
      in (set_phase_attempts phase attempts
            (g\<lparr>gs_current_node := node_name (phase_node phase), gs_dimensions := dims,
               gs_target_competitors := comps\<rparr>), d'))"

text \<open>The demo checks find nothing and do not count.\<close>

definition demo_phase_qa_node :: "phase_qa \<Rightarrow> graph_state \<Rightarrow> run_work \<Rightarrow> graph_state \<times> run_work" where
  "demo_phase_qa_node phase g d =
     (g\<lparr>gs_current_node := node_name (phase_node phase),
        gs_dimensions := or_list (gs_dimensions g) (plan_dimensions d),
        gs_target_competitors := or_list (gs_target_competitors g) (plan_competitors d)\<rparr>,
      d\<lparr>rn_current_node := Some (node_name (phase_node phase)), rn_qa_findings := []\<rparr>)"

datatype phase_route = RouteRetry | RoutePass | RouteFail

text \<open>\<open>_route_phase_qa\<close> also changes the run. The outputs it clears for a retry, the matrix among
  them, are in the part of the detail that is not modelled field by field.\<close>

definition route_phase_qa :: "phase_qa \<Rightarrow> graph_state \<Rightarrow> run_work \<Rightarrow> phase_route \<times> run_work" where
  "route_phase_qa phase g d =
     (if blocking_phase_issues d phase = [] then (RoutePass, d\<lparr>rn_qa_findings := []\<rparr>)
      else if phase_attempts phase g \<ge> rn_max_iterations d then
        (RouteFail, d\<lparr>rn_status := ''failed'', rn_current_node := Some (node_name (phase_node phase))\<rparr>)
      else (RouteRetry, d\<lparr>rn_reflections := []\<rparr>))"

section \<open>The final review\<close>

definition final_qa_redo_routes :: "str list" where
  "final_qa_redo_routes = [''writer_only'', ''comparator'', ''analyst'', ''collector'', ''full'']"

text \<open>The part of a new graph state that a review returns.\<close>

record route_state =
  ro_redo_kind :: str
  ro_redo :: "(str list \<times> str list) option"

definition end_route :: route_state where
  "end_route = \<lparr>ro_redo_kind = ''end'', ro_redo = None\<rparr>"

text \<open>
  \<open>_prepare_redo_scope_inputs\<close>: what a redo works on, and what it discards first. The sources
  and knowledge it removes are in the part of the detail that is not modelled field by field.
\<close>

definition prepare_redo_scope_inputs ::
  "run_work \<Rightarrow> redo_scope \<Rightarrow> py_error + (str list \<times> str list) \<times> run_work" where
  "prepare_redo_scope_inputs d s =
     (let scoped = or_list (rs_target_competitors s) (name_list (rs_target_competitor s));
          clear = (if rs_kind s \<in> {''collector'', ''analyst'', ''comparator'', ''full''}
             then rn_reflections_update (\<lambda>_. []) else id)
      in if rs_kind s \<in> {''analyst'', ''collector''} then
           (if given (rs_target_subagent s) then Inr (([the (rs_target_subagent s)], scoped), clear d)
            else case plan_dimensions d of
                [] \<Rightarrow> Inl (ValueError ''Cannot redo analyst/collector scope without a target dimension.'')
              | dimension # _ \<Rightarrow> Inr (([dimension], scoped), clear d))
         else if rs_kind s = ''full'' then
           Inr ((plan_dimensions d, []), clear (d\<lparr>rn_qa_findings := [], rn_report_md := []\<rparr>))
         else Inr ((plan_dimensions d, []), clear d))"

definition pending_of :: "run_work \<Rightarrow> qc_issue list \<Rightarrow> bool \<Rightarrow> pending_redo" where
  "pending_of d issues auto =
     (let scope = merge_redo_scopes issues
      in \<lparr>pg_iteration = int (length (rw_revisions d)) + 1, pg_stage = rs_kind scope,
          pg_redo_scope = scope, pg_redo_scopes = map qi_redo_scope issues,
          pg_before_md = rn_report_md d, pg_issue_ids = map qi_id issues,
          pg_qa_issue_ids_before = map qi_id (rn_qa_findings d),
          pg_issue_count_before = int (length (rn_qa_findings d)),
          pg_structured_targets = structured_redo_targets issues, pg_auto_continue = auto\<rparr>)"

text \<open>The result of a review: the route or an exception, the run and the redo noted on it.\<close>

type_synonym review_result = "(py_error + route_state) \<times> run_work \<times> pending_redo option"

definition prepare_graph_redo_from_qa :: "run_work \<Rightarrow> pending_redo option \<Rightarrow> review_result" where
  "prepare_graph_redo_from_qa d pending =
     (if rn_qa_findings d = [] then (Inr end_route, d, pending)
      else if redo_limit_reached d then
        (Inr end_route, d\<lparr>rn_status := ''failed'', rn_current_node := Some ''qa_hitl''\<rparr>, pending)
      else case select_redo_issues (rw_revisions d) (rn_qa_findings d) None of
          Inl err \<Rightarrow> (Inl err, d, pending)
        | Inr issues \<Rightarrow>
          (let scope = merge_redo_scopes issues; noted = Some (pending_of d issues False)
           in case prepare_redo_scope_inputs d scope of
                Inl err \<Rightarrow> (Inl err, d, noted)
              | Inr (targets, d') \<Rightarrow>
                  (Inr \<lparr>ro_redo_kind = rs_kind scope, ro_redo = Some targets\<rparr>, d', noted)))"

text \<open>
  Without reviewers the decision is to accept. An interrupted review is resumed by running the
  node again with the decision; what the resumption changes in the run, its plan and its
  status, is the work \<open>f\<close>.
\<close>

definition qa_hitl_step ::
  "str \<Rightarrow> (run_work \<Rightarrow> run_work) \<Rightarrow> run_work \<Rightarrow> pending_redo option \<Rightarrow> review_result" where
  "qa_hitl_step decision f d pending =
     (let d1 = (if rn_hitl_enabled d then agent_work f d else d)\<lparr>rn_current_node := Some ''qa_hitl''\<rparr>;
          decided = (if rn_hitl_enabled d then decision else ''accept'')
      in if decided = ''force_pass'' then (Inr end_route, d1\<lparr>rn_qa_findings := []\<rparr>, pending)
         else if decided = ''redo'' then prepare_graph_redo_from_qa d1 pending
         else (Inr end_route, d1, pending))"

definition final_qa_route_state :: "graph_state \<Rightarrow> run_work \<Rightarrow> route_state \<Rightarrow> graph_state" where
  "final_qa_route_state g d r =
     (let attempts = gs_final_qa_attempts g;
          redo = ro_redo_kind r \<in> set final_qa_redo_routes
      in if redo \<and> attempts \<ge> rn_max_iterations d then
           g\<lparr>gs_current_node := ''qa_hitl'', gs_redo_kind := Some ''end'',
             gs_final_qa_limit_reached := True\<rparr>
         else
           let g1 = g\<lparr>gs_current_node := ''qa_hitl'', gs_redo_kind := Some (ro_redo_kind r),
                 gs_final_qa_attempts := (if redo then attempts + 1 else attempts),
                 gs_final_qa_limit_reached := False\<rparr>
           in case ro_redo r of
                None \<Rightarrow> g1
              | Some (dims, comps) \<Rightarrow> g1\<lparr>gs_dimensions := dims, gs_target_competitors := comps,
                  gs_collect_qa_attempts := 0, gs_analyst_qa_attempts := 0\<rparr>)"

definition route_final_qa :: "graph_state \<Rightarrow> node option" where
  "route_final_qa g =
     map_of [(''writer_only'', Writer), (''comparator'', Comparator), (''analyst'', AnalystDispatch),
       (''collector'', CollectorDispatch), (''full'', Planner)] (or_str (gs_redo_kind g) ''end'')"

definition route_redo :: "graph_state \<Rightarrow> node" where
  "route_redo g =
     (if gs_redo_kind g = Some ''writer_only'' then Writer
      else if gs_redo_kind g = Some ''comparator'' then Comparator
      else if gs_redo_kind g = Some ''analyst'' then AnalystDispatch
      else if gs_redo_kind g = Some ''collector'' then CollectorDispatch
      else Planner)"

definition route_after_writer :: "run_work \<Rightarrow> node option" where
  "route_after_writer d = (if rn_status d \<in> {''failed'', ''interrupted''} then None else Some Qa)"

section \<open>Nodes and edges\<close>

definition dispatch_node :: "node \<Rightarrow> graph_state \<Rightarrow> run_work \<Rightarrow> graph_state" where
  "dispatch_node n g d =
     g\<lparr>gs_current_node := node_name n, gs_dimensions := or_list (gs_dimensions g) (plan_dimensions d),
       gs_target_competitors := or_list (gs_target_competitors g) (plan_competitors d)\<rparr>"

definition join_node :: "node \<Rightarrow> graph_state \<Rightarrow> run_work \<Rightarrow> graph_state" where
  "join_node n g d =
     g\<lparr>gs_current_node := node_name n,
       gs_dimensions := ordered_unique (or_list (gs_dimensions g) (plan_dimensions d)),
       gs_target_competitors :=
         (if n = CollectJoin then gs_target_competitors g
          else ordered_unique (or_list (gs_target_competitors g) (plan_competitors d)))\<rparr>"

definition branch_ids :: "graph_state \<Rightarrow> str list" where
  "branch_ids g = map (\<lambda>(dimension, competitor). analyst_branch_id dimension competitor) (send_branches g)"

text \<open>What the nodes other than the checks and the review do to the graph state: a dispatch and
  a join read the plan before the agent runs, the planner after it.\<close>

fun plain_node :: "node \<Rightarrow> graph_state \<Rightarrow> run_work \<Rightarrow> run_work \<Rightarrow> graph_state" where
  "plain_node RedoRouter g d d' = g\<lparr>gs_current_node := ''redo_router'',
     gs_redo_kind := Some (or_str (gs_redo_kind g) ''full'')\<rparr>"
| "plain_node Planner g d d' = g\<lparr>gs_current_node := ''planner'', gs_dimensions := plan_dimensions d'\<rparr>"
| "plain_node PlannerHitl g d d' =
     g\<lparr>gs_current_node := ''planner_hitl'', gs_dimensions := plan_dimensions d'\<rparr>"
| "plain_node CollectorDispatch g d d' = dispatch_node CollectorDispatch g d"
| "plain_node AnalystDispatch g d d' = dispatch_node AnalystDispatch g d"
| "plain_node Collector g d d' =
     g\<lparr>gs_completed_collector_branches := gs_completed_collector_branches g @ branch_ids g\<rparr>"
| "plain_node Analyst g d d' =
     g\<lparr>gs_completed_analyst_branches := gs_completed_analyst_branches g @ branch_ids g\<rparr>"
| "plain_node CollectJoin g d d' = join_node CollectJoin g d"
| "plain_node SurveyInterview g d d' = join_node SurveyInterview g d"
| "plain_node AnalystJoin g d d' = join_node AnalystJoin g d"
| "plain_node n g d d' = g\<lparr>gs_current_node := node_name n\<rparr>"

text \<open>The edges out of those nodes; a dispatch that sends nothing leaves the graph without a next
  task, and it ends.\<close>

fun plain_edge :: "node \<Rightarrow> graph_state \<Rightarrow> run_work \<Rightarrow> node option" where
  "plain_edge RedoRouter g d = Some (route_redo g)"
| "plain_edge Planner g d = Some PlannerHitl"
| "plain_edge PlannerHitl g d = Some CollectorDispatch"
| "plain_edge CollectorDispatch g d = (if send_branches g = [] then None else Some Collector)"
| "plain_edge Collector g d = Some CollectJoin"
| "plain_edge CollectJoin g d = Some SurveyInterview"
| "plain_edge SurveyInterview g d = Some CollectQa"
| "plain_edge AnalystDispatch g d = (if send_branches g = [] then None else Some Analyst)"
| "plain_edge Analyst g d = Some AnalystJoin"
| "plain_edge AnalystJoin g d = Some AnalystQa"
| "plain_edge Comparator g d = Some Reflector"
| "plain_edge Reflector g d = Some Writer"
| "plain_edge Writer g d = route_after_writer d"
| "plain_edge Qa g d = Some QaHitl"
| "plain_edge n g d = None"

definition phase_edge :: "phase_qa \<Rightarrow> phase_route \<Rightarrow> node option" where
  "phase_edge phase r =
     (case r of RouteFail \<Rightarrow> None
      | RouteRetry \<Rightarrow> Some (case phase of CollectPhase \<Rightarrow> CollectorDispatch | AnalystPhase \<Rightarrow> AnalystDispatch)
      | RoutePass \<Rightarrow> Some (case phase of CollectPhase \<Rightarrow> AnalystDispatch | AnalystPhase \<Rightarrow> Comparator))"

definition phase_step :: "graph_kind \<Rightarrow> phase_qa \<Rightarrow> (run_work \<Rightarrow> run_work) \<Rightarrow> machine \<Rightarrow> machine" where
  "phase_step kind phase f m =
     (let (g, d) = (if kind = DemoGraph then demo_phase_qa_node phase (mc_state m) (mc_detail m)
            else phase_qa_node phase f (mc_state m) (mc_detail m));
          (route, d') = route_phase_qa phase g d
      in m\<lparr>mc_node := phase_edge phase route, mc_state := g, mc_detail := d'\<rparr>)"

text \<open>An exception of a node ends the graph; the caller marks the run as failed.\<close>

definition crash :: "machine \<Rightarrow> machine" where
  "crash m = m\<lparr>mc_node := None,
     mc_detail := (mc_detail m)\<lparr>rn_status := ''failed'', rn_current_node := None\<rparr>\<rparr>"

definition review_step :: "str \<Rightarrow> (run_work \<Rightarrow> run_work) \<Rightarrow> machine \<Rightarrow> machine" where
  "review_step decision f m =
     (case qa_hitl_step decision f (mc_detail m) (mc_pending m) of
        (Inl err, d, pending) \<Rightarrow> crash (m\<lparr>mc_detail := d, mc_pending := pending\<rparr>)
      | (Inr r, d, pending) \<Rightarrow>
        (let g = final_qa_route_state (mc_state m) d r
         in m\<lparr>mc_node := route_final_qa g, mc_state := g, mc_detail := d, mc_pending := pending\<rparr>))"

definition plain_step :: "node \<Rightarrow> (run_work \<Rightarrow> run_work) \<Rightarrow> machine \<Rightarrow> machine" where
  "plain_step n f m =
     (let d = agent_work f (mc_detail m); g = plain_node n (mc_state m) (mc_detail m) d
      in m\<lparr>mc_node := plain_edge n g d, mc_state := g, mc_detail := d\<rparr>)"

definition graph_step :: "graph_kind \<Rightarrow> graph_input \<Rightarrow> machine \<Rightarrow> machine" where
  "graph_step kind i m =
     (case mc_node m of
        None \<Rightarrow> m
      | Some n \<Rightarrow>
        (case in_work i of
           None \<Rightarrow> crash m
         | Some f \<Rightarrow>
           if n = CollectQa then phase_step kind CollectPhase f m
           else if n = AnalystQa then phase_step kind AnalystPhase f m
           else if n = QaHitl then review_step (in_decision i) f m
           else plain_step n f m))"

fun run_graph :: "graph_kind \<Rightarrow> (nat \<Rightarrow> graph_input) \<Rightarrow> nat \<Rightarrow> machine \<Rightarrow> machine" where
  "run_graph kind inputs 0 m = m"
| "run_graph kind inputs (Suc n) m = graph_step kind (inputs n) (run_graph kind inputs n m)"

text \<open>The inputs with which the service starts the graphs.\<close>

definition initial_state :: "str list \<Rightarrow> str list \<Rightarrow> str \<Rightarrow> str option \<Rightarrow> graph_state" where
  "initial_state dims comps current redo =
     \<lparr>gs_dimensions = dims, gs_target_competitors = comps, gs_completed_collector_branches = [],
      gs_completed_analyst_branches = [], gs_current_node = current, gs_redo_kind = redo,
      gs_collect_qa_attempts = 0, gs_analyst_qa_attempts = 0, gs_final_qa_attempts = 0,
      gs_final_qa_limit_reached = False\<rparr>"

definition start_pipeline :: "run_work \<Rightarrow> pending_redo option \<Rightarrow> machine" where
  "start_pipeline d pending =
     \<lparr>mc_node = Some Planner, mc_state = initial_state (plan_dimensions d) [] ''planner'' None,
      mc_detail = d\<lparr>rn_status := ''running''\<rparr>, mc_pending = pending\<rparr>"

definition start_scoped_redo ::
  "run_work \<Rightarrow> redo_scope \<Rightarrow> pending_redo option \<Rightarrow> py_error + machine" where
  "start_scoped_redo d scope pending =
     err_bind (prepare_redo_scope_inputs d scope) (\<lambda>((dims, comps), d').
       Inr \<lparr>mc_node = Some RedoRouter,
         mc_state = initial_state dims comps ''redo_router'' (Some (rs_kind scope)),
         mc_detail = d', mc_pending = pending\<rparr>)"

end
