(* ===== verification/GraphProps.thy ===== *)
theory GraphProps
  imports Graph
begin

text \<open>
  What the run graphs promise for every behaviour of the agents and of the reviewer: they end
  within a number of steps that the budget of iterations fixes, their retries and redos stay
  within the budget, and they refine a plan of phases.
\<close>

section \<open>What a step leaves alone\<close>

lemma agent_work_frame [simp]:
  "rn_id (agent_work f d) = rn_id d" "rn_max_iterations (agent_work f d) = rn_max_iterations d"
  "rn_hitl_enabled (agent_work f d) = rn_hitl_enabled d" "rw_revisions (agent_work f d) = rw_revisions d"
  by (simp_all add: agent_work_def)

definition same_frame :: "run_work \<Rightarrow> run_work \<Rightarrow> bool" where
  "same_frame d d' \<longleftrightarrow> rn_id d' = rn_id d \<and> rn_max_iterations d' = rn_max_iterations d
     \<and> rn_hitl_enabled d' = rn_hitl_enabled d \<and> rw_revisions d' = rw_revisions d"

interpretation frame: step_relation same_frame
  by unfold_locales (auto simp: same_frame_def)

lemma agent_work_same [simp]: "same_frame d (agent_work f d)"
  by (simp add: same_frame_def)

lemma route_phase_frame: "same_frame d (snd (route_phase_qa phase g d))"
  by (simp add: route_phase_qa_def same_frame_def)

lemma phase_node_frame: "same_frame d (snd (phase_qa_node phase f g d))"
  by (simp add: phase_qa_node_def Let_def same_frame_def)

lemma demo_phase_node_frame: "same_frame d (snd (demo_phase_qa_node phase g d))"
  by (simp add: demo_phase_qa_node_def same_frame_def)

lemma prepare_inputs_frame: "prepare_redo_scope_inputs d s = Inr (x, d') \<Longrightarrow> same_frame d d'"
  by (auto simp: prepare_redo_scope_inputs_def Let_def same_frame_def split: if_splits list.splits)

lemma prepare_redo_frame: "same_frame d (fst (snd (prepare_graph_redo_from_qa d p)))"
proof (cases "select_redo_issues (rw_revisions d) (rn_qa_findings d) None")
  case (Inr issues)
  then show ?thesis
    by (cases "prepare_redo_scope_inputs d (merge_redo_scopes issues)")
      (auto simp: prepare_graph_redo_from_qa_def Let_def same_frame_def
        dest: prepare_inputs_frame[unfolded same_frame_def])
qed (simp add: prepare_graph_redo_from_qa_def same_frame_def)

lemma qa_hitl_frame: "same_frame d (fst (snd (qa_hitl_step decision f d p)))"
  using prepare_redo_frame[of "(if rn_hitl_enabled d then agent_work f d else d)\<lparr>rn_current_node := Some ''qa_hitl''\<rparr>" p]
  by (auto simp: qa_hitl_step_def Let_def same_frame_def)

lemma crash_frame: "same_frame (mc_detail m) (mc_detail (crash m))"
  by (simp add: crash_def same_frame_def)

lemma phase_step_frame: "same_frame (mc_detail m) (mc_detail (phase_step kind phase f m))"
  using frame.R_trans[OF phase_node_frame route_phase_frame] frame.R_trans[OF demo_phase_node_frame route_phase_frame]
  by (auto simp: phase_step_def case_prod_beta)

lemma review_step_frame: "same_frame (mc_detail m) (mc_detail (review_step decision f m))"
  using qa_hitl_frame[of "mc_detail m" decision f "mc_pending m"]
  by (cases "qa_hitl_step decision f (mc_detail m) (mc_pending m)")
    (auto simp: review_step_def crash_def same_frame_def Let_def split: sum.splits)

lemma graph_step_frame: "same_frame (mc_detail m) (mc_detail (graph_step kind i m))"
  using crash_frame phase_step_frame review_step_frame
  by (auto simp: graph_step_def plain_step_def Let_def frame.R_refl split: option.splits)

lemma run_graph_frame: "same_frame (mc_detail m) (mc_detail (run_graph kind inputs n m))"
  by (induction n) (simp_all add: frame.R_refl, use graph_step_frame frame.R_trans in blast)

section \<open>Termination\<close>

fun node_rank :: "node \<Rightarrow> nat" where
  "node_rank RedoRouter = 17" | "node_rank Planner = 16" | "node_rank PlannerHitl = 15"
| "node_rank CollectorDispatch = 14" | "node_rank Collector = 13" | "node_rank CollectJoin = 12"
| "node_rank SurveyInterview = 11" | "node_rank CollectQa = 10" | "node_rank AnalystDispatch = 9"
| "node_rank Analyst = 8" | "node_rank AnalystJoin = 7" | "node_rank AnalystQa = 6"
| "node_rank Comparator = 5" | "node_rank Reflector = 4" | "node_rank Writer = 3"
| "node_rank Qa = 2" | "node_rank QaHitl = 1"

definition left_of :: "int \<Rightarrow> int \<Rightarrow> nat" where
  "left_of budget used = nat (budget - used)"

text \<open>Steps left: a redo is worth a whole pass with all retries, a retry the length of its loop.\<close>

definition pass_cost :: "machine \<Rightarrow> nat" where
  "pass_cost m = 9 * nat (rn_max_iterations (mc_detail m)) + 17"

definition steps_left :: "machine \<Rightarrow> nat" where
  "steps_left m =
     (let g = mc_state m; b = rn_max_iterations (mc_detail m)
      in (case mc_node m of None \<Rightarrow> 0 | Some n \<Rightarrow>
           pass_cost m * left_of b (gs_final_qa_attempts g)
             + 5 * left_of b (gs_collect_qa_attempts g) + 4 * left_of b (gs_analyst_qa_attempts g)
             + node_rank n))"

lemma node_rank_pos: "0 < node_rank n"
  by (cases n) simp_all

lemma ended_less: "mc_node m = Some n \<Longrightarrow> mc_node m' = None \<Longrightarrow> steps_left m' < steps_left m"
  using node_rank_pos[of n] by (simp add: steps_left_def Let_def)

lemma plain_node_attempts [simp]:
  "gs_collect_qa_attempts (plain_node n g d d') = gs_collect_qa_attempts g"
  "gs_analyst_qa_attempts (plain_node n g d d') = gs_analyst_qa_attempts g"
  "gs_final_qa_attempts (plain_node n g d d') = gs_final_qa_attempts g"
  by (cases n; simp add: dispatch_node_def join_node_def)+

lemma plain_edge_rank: "plain_edge n g d = Some n' \<Longrightarrow> node_rank n' < node_rank n"
  by (cases n) (auto simp: route_redo_def route_after_writer_def split: if_splits)

lemma plain_step_less:
  assumes "mc_node m = Some n"
  shows "steps_left (plain_step n f m) < steps_left m"
proof (cases "mc_node (plain_step n f m)")
  case None
  then show ?thesis using assms by (rule ended_less[rotated])
next
  case (Some n')
  then have "node_rank n' < node_rank n" by (auto simp: plain_step_def Let_def intro: plain_edge_rank)
  then show ?thesis using assms Some
    by (simp add: steps_left_def pass_cost_def Let_def plain_step_def)
qed

text \<open>A check that goes on counts its attempt exactly when it goes back.\<close>

lemma phase_step_result:
  assumes "mc_node (phase_step kind phase f m) = Some n"
  shows "gs_final_qa_attempts (mc_state (phase_step kind phase f m)) = gs_final_qa_attempts (mc_state m)
    \<and> (case phase of
         CollectPhase \<Rightarrow> gs_analyst_qa_attempts (mc_state (phase_step kind phase f m)) = gs_analyst_qa_attempts (mc_state m)
       | AnalystPhase \<Rightarrow> gs_collect_qa_attempts (mc_state (phase_step kind phase f m)) = gs_collect_qa_attempts (mc_state m))
    \<and> (Some n = phase_edge phase RouteRetry
        \<and> phase_attempts phase (mc_state (phase_step kind phase f m)) = phase_attempts phase (mc_state m) + 1
        \<and> phase_attempts phase (mc_state m) + 1 < rn_max_iterations (mc_detail m)
      \<or> Some n = phase_edge phase RoutePass
        \<and> phase_attempts phase (mc_state (phase_step kind phase f m)) = phase_attempts phase (mc_state m))"
proof -
  define gd where "gd = (if kind = DemoGraph then demo_phase_qa_node phase (mc_state m) (mc_detail m)
      else phase_qa_node phase f (mc_state m) (mc_detail m))"
  define r where "r = route_phase_qa phase (fst gd) (snd gd)"
  have step: "phase_step kind phase f m =
      m\<lparr>mc_node := phase_edge phase (fst r), mc_state := fst gd, mc_detail := snd r\<rparr>"
    by (simp add: phase_step_def gd_def r_def case_prod_beta)
  have budget: "rn_max_iterations (snd gd) = rn_max_iterations (mc_detail m)"
    using phase_node_frame demo_phase_node_frame by (auto simp: gd_def same_frame_def)
  have keeps: "gs_final_qa_attempts (fst gd) = gs_final_qa_attempts (mc_state m)"
    "(case phase of CollectPhase \<Rightarrow> gs_analyst_qa_attempts (fst gd) = gs_analyst_qa_attempts (mc_state m)
      | AnalystPhase \<Rightarrow> gs_collect_qa_attempts (fst gd) = gs_collect_qa_attempts (mc_state m))"
    by (simp_all add: gd_def demo_phase_qa_node_def phase_qa_node_def set_phase_attempts_def Let_def
        split: phase_qa.split)
  have own: "phase_attempts phase (fst gd) =
      (if blocking_phase_issues (snd gd) phase \<noteq> []
       then phase_attempts phase (mc_state m) + 1 else phase_attempts phase (mc_state m))"
    by (simp add: gd_def demo_phase_qa_node_def phase_qa_node_def set_phase_attempts_def Let_def
        phase_attempts_def blocking_phase_issues_def split: phase_qa.split)
  have "fst r = RouteRetry \<and> blocking_phase_issues (snd gd) phase \<noteq> []
        \<and> phase_attempts phase (fst gd) < rn_max_iterations (mc_detail m)
      \<or> fst r = RoutePass \<and> blocking_phase_issues (snd gd) phase = []"
    using assms budget by (auto simp: r_def step route_phase_qa_def phase_edge_def split: if_splits)
  then show ?thesis using assms keeps own unfolding step by (auto split: phase_qa.splits)
qed

lemma phase_step_less:
  assumes m: "mc_node m = Some (phase_node phase)"
  shows "steps_left (phase_step kind phase f m) < steps_left m"
proof (cases "mc_node (phase_step kind phase f m)")
  case None
  then show ?thesis using m by (rule ended_less[rotated])
next
  case (Some n)
  have "rn_max_iterations (mc_detail (phase_step kind phase f m)) = rn_max_iterations (mc_detail m)"
    using phase_step_frame[of m kind phase f] by (simp add: same_frame_def)
  then show ?thesis
    using Some m phase_step_result[OF Some]
    by (cases phase) (auto simp: steps_left_def Let_def pass_cost_def phase_node_def phase_edge_def
        phase_attempts_def left_of_def)
qed

lemma route_final_rank: "route_final_qa g = Some n \<Longrightarrow> node_rank n \<le> 16
    \<and> or_str (gs_redo_kind g) ''end'' \<in> set final_qa_redo_routes"
  by (auto simp: route_final_qa_def final_qa_redo_routes_def split: if_splits)

lemma final_state_redo:
  assumes "route_final_qa (final_qa_route_state g d r) = Some n"
  shows "gs_final_qa_attempts g < rn_max_iterations d
    \<and> gs_final_qa_attempts (final_qa_route_state g d r) = gs_final_qa_attempts g + 1
    \<and> (ro_redo r \<noteq> None \<longrightarrow> gs_collect_qa_attempts (final_qa_route_state g d r) = 0
        \<and> gs_analyst_qa_attempts (final_qa_route_state g d r) = 0)
    \<and> (ro_redo r = None \<longrightarrow> gs_collect_qa_attempts (final_qa_route_state g d r) = gs_collect_qa_attempts g
        \<and> gs_analyst_qa_attempts (final_qa_route_state g d r) = gs_analyst_qa_attempts g)"
  using route_final_rank[OF assms]
  by (auto simp: final_qa_route_state_def Let_def final_qa_redo_routes_def split: if_splits option.splits
      elim!: or_str.elims)

lemma left_of_zero: "left_of b 0 = nat b"
  by (simp add: left_of_def)

lemma review_redo:
  assumes "mc_node (review_step decision f m) = Some n"
  shows "\<exists>r d p. qa_hitl_step decision f (mc_detail m) (mc_pending m) = (Inr r, d, p)
    \<and> mc_state (review_step decision f m) = final_qa_route_state (mc_state m) d r
    \<and> route_final_qa (final_qa_route_state (mc_state m) d r) = Some n
    \<and> rn_max_iterations d = rn_max_iterations (mc_detail m)"
proof -
  obtain q d p where q: "qa_hitl_step decision f (mc_detail m) (mc_pending m) = (q, d, p)"
    by (metis prod_cases3)
  then have "rn_max_iterations d = rn_max_iterations (mc_detail m)"
    using qa_hitl_frame[of "mc_detail m" decision f "mc_pending m"] by (simp add: same_frame_def)
  then show ?thesis using assms q
    by (cases q) (auto simp: review_step_def crash_def Let_def)
qed

lemma review_step_less:
  assumes m: "mc_node m = Some QaHitl"
  shows "steps_left (review_step decision f m) < steps_left m"
proof (cases "mc_node (review_step decision f m)")
  case None
  then show ?thesis using m by (rule ended_less[rotated])
next
  case (Some n)
  let ?b = "rn_max_iterations (mc_detail m)" and ?g = "mc_state m"
  from review_redo[OF Some] obtain r d p
    where st: "mc_state (review_step decision f m) = final_qa_route_state ?g d r"
      and go: "route_final_qa (final_qa_route_state ?g d r) = Some n"
      and b: "rn_max_iterations d = ?b" by blast
  note redo = final_state_redo[OF go] and rank = route_final_rank[OF go]
  let ?g' = "final_qa_route_state ?g d r"
  have b': "rn_max_iterations (mc_detail (review_step decision f m)) = ?b"
    using review_step_frame[of m decision f] by (simp add: same_frame_def)
  have "left_of ?b (gs_final_qa_attempts ?g) = Suc (left_of ?b (gs_final_qa_attempts ?g'))"
    using redo b by (auto simp: left_of_def)
  moreover have "5 * left_of ?b (gs_collect_qa_attempts ?g') + 4 * left_of ?b (gs_analyst_qa_attempts ?g') + node_rank n
      < pass_cost m + 5 * left_of ?b (gs_collect_qa_attempts ?g) + 4 * left_of ?b (gs_analyst_qa_attempts ?g) + 1"
    using redo rank by (cases "ro_redo r") (auto simp: pass_cost_def left_of_zero)
  ultimately show ?thesis
    using m Some b' st by (simp add: steps_left_def Let_def pass_cost_def)
qed

lemma graph_step_less:
  assumes "mc_node m = Some n"
  shows "steps_left (graph_step kind i m) < steps_left m"
proof (cases "in_work i")
  case None
  then show ?thesis using assms ended_less[OF assms, of "crash m"] by (simp add: graph_step_def crash_def)
next
  case (Some f)
  then show ?thesis
    using assms phase_step_less[of m CollectPhase kind f] phase_step_less[of m AnalystPhase kind f]
      review_step_less[of m "in_decision i" f] plain_step_less[OF assms, of f]
    by (auto simp: graph_step_def phase_node_def)
qed

lemma run_graph_ended: "mc_node (run_graph kind inputs n m) = None \<or> steps_left (run_graph kind inputs n m) + n \<le> steps_left m"
proof (induction n)
  case (Suc n)
  show ?case
  proof (cases "mc_node (run_graph kind inputs n m)")
    case None
    then show ?thesis by (simp add: graph_step_def)
  next
    case (Some x)
    then show ?thesis using Suc graph_step_less[OF Some, of kind "inputs n"] by simp
  qed
qed simp

lemma run_graph_stops:
  assumes "steps_left m < n"
  shows "mc_node (run_graph kind inputs n m) = None"
  using run_graph_ended[of kind inputs n m] assms by auto

text \<open>The bound for a run that starts with no attempts used.\<close>

definition graph_bound :: "nat \<Rightarrow> nat" where
  "graph_bound budget = (9 * budget + 17) * (budget + 1)"

lemma fresh_state_left:
  assumes "mc_node m = Some n" "mc_state m = initial_state dims comps c k"
  shows "steps_left m \<le> graph_bound (nat (rn_max_iterations (mc_detail m)))"
proof -
  have "node_rank n \<le> 17" by (cases n) simp_all
  moreover have "steps_left m = pass_cost m * nat (rn_max_iterations (mc_detail m))
      + 9 * nat (rn_max_iterations (mc_detail m)) + node_rank n"
    using assms by (simp add: steps_left_def initial_state_def left_of_zero Let_def)
  ultimately show ?thesis by (simp add: graph_bound_def pass_cost_def)
qed

lemma pipeline_left: "steps_left (start_pipeline d p) \<le> graph_bound (nat (rn_max_iterations d))"
proof -
  have "rn_max_iterations (mc_detail (start_pipeline d p)) = rn_max_iterations d"
    by (simp add: start_pipeline_def)
  moreover have "mc_node (start_pipeline d p) = Some Planner"
      "mc_state (start_pipeline d p) = initial_state (plan_dimensions d) [] ''planner'' None"
    by (simp_all add: start_pipeline_def)
  ultimately show ?thesis using fresh_state_left by metis
qed

lemma scoped_redo_left:
  assumes "start_scoped_redo d scope p = Inr m"
  shows "steps_left m \<le> graph_bound (nat (rn_max_iterations d))"
proof -
  obtain dims comps d' where x: "prepare_redo_scope_inputs d scope = Inr ((dims, comps), d')"
    using assms by (cases "prepare_redo_scope_inputs d scope") (auto simp: start_scoped_redo_def)
  then have "rn_max_iterations d' = rn_max_iterations d"
    using prepare_inputs_frame by (simp add: same_frame_def)
  moreover have "mc_node m = Some RedoRouter" "mc_detail m = d'"
      "mc_state m = initial_state dims comps ''redo_router'' (Some (rs_kind scope))"
    using assms x by (auto simp: start_scoped_redo_def)
  ultimately show ?thesis using fresh_state_left[of m] by simp
qed

text \<open>C9. Every run of a graph ends: from the start of a pipeline or of a scoped redo, whatever the
  agents do to the run, whichever of them raise and whatever the reviewer decides each time, the
  graph has reached its end after a number of steps fixed by the budget of iterations.\<close>

theorem run_graph_terminates:
  "mc_node (run_graph kind inputs (graph_bound (nat (rn_max_iterations d)) + 1) (start_pipeline d p)) = None
   \<and> (case start_scoped_redo d scope p of
        Inl err \<Rightarrow> True
      | Inr m \<Rightarrow> mc_node (run_graph kind inputs (graph_bound (nat (rn_max_iterations d)) + 1) m) = None)"
proof -
  note stop = run_graph_stops[OF le_imp_less_Suc]
  have "mc_node (run_graph kind inputs (Suc (graph_bound (nat (rn_max_iterations d)))) m) = None"
    if "start_scoped_redo d scope p = Inr m" for m
    by (rule stop, rule scoped_redo_left[OF that])
  moreover have "mc_node (run_graph kind inputs (Suc (graph_bound (nat (rn_max_iterations d)))) (start_pipeline d p)) = None"
    by (rule stop, rule pipeline_left)
  ultimately show ?thesis
    unfolding Suc_eq_plus1[symmetric] by (cases "start_scoped_redo d scope p") (simp_all del: run_graph.simps)
qed

section \<open>Refinement of a plan of phases\<close>

text \<open>
  The specification: a run is in a phase, with the retries of the two checks and the redos it
  has used. It moves on to the next phase, repeats a phase within the budget, is sent back
  from the review within the budget, with fresh retries, or finishes.
\<close>

datatype phase = Routing | Planning | Collecting | Analysing | Reporting | Reviewing

datatype plan_state = Finished | Working phase int int int

inductive plan_step :: "int \<Rightarrow> plan_state \<Rightarrow> plan_state \<Rightarrow> bool" for budget :: int where
  route: "p \<in> {Planning, Collecting, Analysing, Reporting} \<Longrightarrow>
    plan_step budget (Working Routing c a r) (Working p c a r)"
| plan: "plan_step budget (Working Planning c a r) (Working Collecting c a r)"
| collect: "plan_step budget (Working Collecting c a r) (Working Analysing c a r)"
| collect_again: "c + 1 < budget \<Longrightarrow>
    plan_step budget (Working Collecting c a r) (Working Collecting (c + 1) a r)"
| analyse: "plan_step budget (Working Analysing c a r) (Working Reporting c a r)"
| analyse_again: "a + 1 < budget \<Longrightarrow>
    plan_step budget (Working Analysing c a r) (Working Analysing c (a + 1) r)"
| report: "plan_step budget (Working Reporting c a r) (Working Reviewing c a r)"
| send_back: "r < budget \<Longrightarrow> p \<in> {Planning, Collecting, Analysing, Reporting} \<Longrightarrow>
    plan_step budget (Working Reviewing c a r) (Working p 0 0 (r + 1))"
| finish: "plan_step budget (Working p c a r) Finished"

inductive_cases finished_step [elim!]: "plan_step b Finished t"
inductive_cases working_step: "plan_step b (Working p c a r) t"

abbreviation plan_steps :: "int \<Rightarrow> plan_state \<Rightarrow> plan_state \<Rightarrow> bool" where
  "plan_steps b \<equiv> (plan_step b)\<^sup>*\<^sup>*"

fun node_phase :: "node \<Rightarrow> phase" where
  "node_phase RedoRouter = Routing"
| "node_phase Planner = Planning" | "node_phase PlannerHitl = Planning"
| "node_phase CollectorDispatch = Collecting" | "node_phase Collector = Collecting"
| "node_phase CollectJoin = Collecting" | "node_phase SurveyInterview = Collecting"
| "node_phase CollectQa = Collecting"
| "node_phase AnalystDispatch = Analysing" | "node_phase Analyst = Analysing"
| "node_phase AnalystJoin = Analysing" | "node_phase AnalystQa = Analysing"
| "node_phase Comparator = Reporting" | "node_phase Reflector = Reporting" | "node_phase Writer = Reporting"
| "node_phase Qa = Reviewing" | "node_phase QaHitl = Reviewing"

definition plan_state_of :: "machine \<Rightarrow> plan_state" where
  "plan_state_of m = (case mc_node m of None \<Rightarrow> Finished
     | Some n \<Rightarrow> Working (node_phase n) (gs_collect_qa_attempts (mc_state m))
         (gs_analyst_qa_attempts (mc_state m)) (gs_final_qa_attempts (mc_state m)))"

lemma plain_edge_phase:
  "plain_edge n g d = Some n' \<Longrightarrow> node_phase n' = node_phase n
     \<or> plan_step b (Working (node_phase n) c a r) (Working (node_phase n') c a r)"
  by (cases n) (auto simp: route_redo_def route_after_writer_def split: if_splits intro: plan_step.intros)

lemma finish_refines:
  "mc_node m = Some n \<Longrightarrow> mc_node m' = None \<Longrightarrow> plan_step b (plan_state_of m) (plan_state_of m')"
  by (simp add: plan_state_of_def plan_step.finish)

lemma plain_step_refines:
  assumes "mc_node m = Some n"
  shows "plan_state_of (plain_step n f m) = plan_state_of m
    \<or> plan_step b (plan_state_of m) (plan_state_of (plain_step n f m))"
proof (cases "mc_node (plain_step n f m)")
  case None
  then show ?thesis using finish_refines[OF assms] by blast
next
  case (Some n')
  then have e: "plain_edge n (plain_node n (mc_state m) (mc_detail m) (agent_work f (mc_detail m)))
      (agent_work f (mc_detail m)) = Some n'"
    by (simp add: plain_step_def Let_def)
  show ?thesis using assms Some plain_edge_phase[OF e]
    by (simp add: plan_state_of_def plain_step_def Let_def)
qed
lemma phase_step_refines:
  assumes m: "mc_node m = Some (phase_node phase)"
  shows "plan_step (rn_max_iterations (mc_detail m)) (plan_state_of m) (plan_state_of (phase_step kind phase f m))"
proof (cases "mc_node (phase_step kind phase f m)")
  case None
  then show ?thesis using finish_refines[OF m] by blast
next
  case (Some n)
  then show ?thesis
    using m phase_step_result[OF Some]
    by (cases phase) (auto simp: plan_state_of_def phase_node_def phase_edge_def phase_attempts_def
        intro: plan_step.intros)
qed

lemma route_final_phase:
  "route_final_qa g = Some n \<Longrightarrow> node_phase n \<in> {Planning, Collecting, Analysing, Reporting}"
  by (auto simp: route_final_qa_def split: if_splits)

text \<open>Only a redo has a kind that routes back, and it brings its targets.\<close>

lemma qa_hitl_redo:
  assumes "qa_hitl_step decision f d p = (Inr r, d', p')" "ro_redo_kind r \<in> set final_qa_redo_routes"
  shows "ro_redo r \<noteq> None \<and> rn_hitl_enabled d"
proof -
  have "ro_redo r \<noteq> None" if "prepare_graph_redo_from_qa x q = (Inr r, d', p')" for x q
    using that assms(2)
    by (auto simp: prepare_graph_redo_from_qa_def Let_def end_route_def final_qa_redo_routes_def
        split: if_splits sum.splits)
  then show ?thesis using assms
    by (auto simp: qa_hitl_step_def Let_def end_route_def final_qa_redo_routes_def split: if_splits)
qed

lemma review_step_refines:
  assumes m: "mc_node m = Some QaHitl"
  shows "plan_step (rn_max_iterations (mc_detail m)) (plan_state_of m) (plan_state_of (review_step decision f m))"
proof (cases "mc_node (review_step decision f m)")
  case None
  then show ?thesis using finish_refines[OF m] by blast
next
  case (Some n)
  from review_redo[OF Some] obtain r d p
    where q: "qa_hitl_step decision f (mc_detail m) (mc_pending m) = (Inr r, d, p)"
      and st: "mc_state (review_step decision f m) = final_qa_route_state (mc_state m) d r"
      and go: "route_final_qa (final_qa_route_state (mc_state m) d r) = Some n"
      and b: "rn_max_iterations d = rn_max_iterations (mc_detail m)" by blast
  have "ro_redo_kind r \<in> set final_qa_redo_routes"
    using route_final_rank[OF go]
    by (auto simp: final_qa_route_state_def Let_def final_qa_redo_routes_def split: if_splits option.splits
        elim!: or_str.elims)
  then have "ro_redo r \<noteq> None" using qa_hitl_redo[OF q] by blast
  with final_state_redo[OF go] route_final_phase[OF go] b m Some st show ?thesis
    by (auto simp: plan_state_of_def intro: plan_step.send_back)
qed

lemma graph_step_refines:
  "plan_state_of (graph_step kind i m) = plan_state_of m
   \<or> plan_step (rn_max_iterations (mc_detail m)) (plan_state_of m) (plan_state_of (graph_step kind i m))"
proof (cases "mc_node m")
  case None
  then show ?thesis by (simp add: graph_step_def)
next
  case (Some n)
  show ?thesis
  proof (cases "in_work i")
    case None
    then show ?thesis using Some finish_refines[OF Some, of "crash m"] by (simp add: graph_step_def crash_def)
  next
    case f: (Some f)
    then show ?thesis
      using Some phase_step_refines[of m CollectPhase kind f] phase_step_refines[of m AnalystPhase kind f]
        review_step_refines[of m "in_decision i" f] plain_step_refines[OF Some, of f]
      by (auto simp: graph_step_def phase_node_def)
  qed
qed

lemma graph_refines_phases_steps:
  "plan_steps (rn_max_iterations (mc_detail m)) (plan_state_of m)
     (plan_state_of (run_graph kind inputs n m))"
proof (induction n)
  case (Suc n)
  have "rn_max_iterations (mc_detail (run_graph kind inputs n m)) = rn_max_iterations (mc_detail m)"
    using run_graph_frame[of m kind inputs n] by (simp add: same_frame_def)
  then show ?case
    using Suc graph_step_refines[of kind "inputs n" "run_graph kind inputs n m"]
    by (auto intro: rtranclp.rtrancl_into_rtrancl)
qed simp

text \<open>C2. Every run of a graph refines the plan of phases: whatever the agents and the reviewer do,
  each step either stays within its phase or makes one of the moves of the plan, with its
  bounds on retries and redos. So a report is only reviewed after it was written, claims only
  compared after their check passed, and sending back resets the retries.\<close>

theorem graph_refines_phases:
  "plan_steps (rn_max_iterations (mc_detail m)) (plan_state_of m)
     (plan_state_of (run_graph kind inputs n m))"
  by (rule graph_refines_phases_steps)

section \<open>Consequences of the plan\<close>

fun in_budget :: "int \<Rightarrow> plan_state \<Rightarrow> bool" where
  "in_budget b Finished = True"
| "in_budget b (Working p c a r) \<longleftrightarrow> 0 \<le> c \<and> c < b \<and> 0 \<le> a \<and> a < b \<and> 0 \<le> r \<and> r \<le> b"

lemma plan_step_in_budget: "plan_step b s t \<Longrightarrow> 0 < b \<Longrightarrow> in_budget b s \<Longrightarrow> in_budget b t"
  by (induction rule: plan_step.induct) auto

lemma plan_steps_in_budget: "plan_steps b s t \<Longrightarrow> 0 < b \<Longrightarrow> in_budget b s \<Longrightarrow> in_budget b t"
  by (induction rule: rtranclp_induct) (auto intro: plan_step_in_budget)

text \<open>A graph that is still going is within its budget: started with at least one iteration
  allowed, at every step each check has been repeated less than the budget allows and the run has
  been sent back at most as often as it allows, and the run's id, budget and revisions are
  those it started with.\<close>

theorem attempts_within_budget:
  "let m = run_graph kind inputs n (start_pipeline (d\<lparr>rn_max_iterations := 1 + int k\<rparr>) p) in
     in_budget (1 + int k) (plan_state_of m)
     \<and> rn_max_iterations (mc_detail m) = 1 + int k \<and> rn_id (mc_detail m) = rn_id d
     \<and> rw_revisions (mc_detail m) = rw_revisions d"
proof -
  let ?s = "start_pipeline (d\<lparr>rn_max_iterations := 1 + int k\<rparr>) p"
  have b: "rn_max_iterations (mc_detail ?s) = 1 + int k" by (simp add: start_pipeline_def)
  have "in_budget (1 + int k) (plan_state_of ?s)"
    by (simp add: plan_state_of_def start_pipeline_def initial_state_def)
  then have "in_budget (1 + int k) (plan_state_of (run_graph kind inputs n ?s))"
    using plan_steps_in_budget[OF graph_refines_phases_steps[of ?s kind inputs n]] b by simp
  moreover have "same_frame (mc_detail ?s) (mc_detail (run_graph kind inputs n ?s))"
    by (rule run_graph_frame)
  ultimately show ?thesis by (simp add: same_frame_def start_pipeline_def)
qed

text \<open>Without reviewers a review never sends back.\<close>

lemma no_review_no_redo:
  assumes "mc_node m = Some QaHitl" "\<not> rn_hitl_enabled (mc_detail m)"
  shows "mc_node (graph_step kind i m) = None \<and> mc_pending (graph_step kind i m) = mc_pending m"
  using assms
  by (auto simp: graph_step_def review_step_def qa_hitl_step_def crash_def Let_def end_route_def
      final_qa_route_state_def final_qa_redo_routes_def route_final_qa_def split: option.split)

section \<open>Two runs that go wrong\<close>

definition midnight :: datetime where
  "midnight = DateTime 2026 1 1 0 0 0 0"

definition sample_run :: "str list \<Rightarrow> str list \<Rightarrow> qc_issue list \<Rightarrow> run_work" where
  "sample_run dims comps findings =
     \<lparr>rn_id = ''run-1'', rn_idempotency_key = [], rn_workspace_id = ''default-workspace'',
      rn_project_id = None, rn_topic = ''CRM'', rn_status = ''running'', rn_execution_mode = ''real'',
      rn_output_language = ''en'', rn_created_at = midnight, rn_updated_at = midnight,
      rn_plan = \<lparr>ap_topic = ''CRM'', ap_competitors = comps, ap_dimensions = dims,
        ap_complexity = ''standard'', ap_competitor_layer = ''L1'', ap_scenario_id = None,
        ap_scenario_recommended_dimensions = [], ap_qa_rule_ids = [], ap_memory_candidate_ids = [],
        ap_memory_prompt_context = [], ap_memory_recall_score = 0, ap_homepage_hints = [],
        ap_homepage_verified = [], ap_task_decomposition = [], ap_created_at = midnight\<rparr>,
      rn_max_iterations = 2, rn_auto_redo_warn_enabled = False, rn_hitl_enabled = True,
      rn_active_run_fingerprint = None, rn_report_md = ''Report.'', rn_qa_findings = findings,
      rn_reflections = [],
      rn_metrics = \<lparr>mt_total_spans = 0, mt_total_duration_ms = 0, mt_llm_calls = 0, mt_search_calls = 0,
        mt_fetch_calls = 0, mt_input_tokens_estimate = 0, mt_output_tokens_estimate = 0,
        mt_cost_estimate_usd = 0, mt_source_coverage_rate = 0, mt_verified_source_rate = 0,
        mt_claim_citation_rate = 0, mt_schema_pass_rate = 0, mt_human_override_rate = 0,
        mt_acceptance_rate = 0, mt_qa_issue_count = 0, mt_revision_count = 0,
        mt_compliance_redaction_count = 0\<rparr>,
      rn_current_node = None, rn_rest = [], rw_revisions = []\<rparr>"

text \<open>Agents that only report findings: at the given step those, at every other step none.\<close>

definition findings_at :: "nat \<Rightarrow> qc_issue list \<Rightarrow> nat \<Rightarrow> graph_input" where
  "findings_at k findings n =
     \<lparr>in_work = Some (rn_qa_findings_update (\<lambda>_. if n = k then findings else [])), in_decision = ''accept''\<rparr>"

text \<open>A retry of the collection narrows the analysis for good: of two dimensions and two
  competitors, where the first check finds one blocker in one slice and the second finds none,
  the analysts are sent to that one slice only, and the graph goes on to compare and report.\<close>

theorem collect_retry_narrows_analysis:
  "let issue = (sample_issue ''q1'' ''blocker'' (Some ''Acme''))\<lparr>qi_target_competitor := Some ''Acme''\<rparr>;
       m = run_graph RealGraph (findings_at 6 [issue]) 16
         (start_pipeline (sample_run [''pricing'', ''feature''] [''Acme'', ''Beta''] []) None)
   in mc_node m = Some Comparator
      \<and> gs_completed_collector_branches (mc_state m) =
          [''pricing::Acme'', ''pricing::Beta'', ''feature::Acme'', ''feature::Beta'', ''pricing::Acme'']
      \<and> gs_completed_analyst_branches (mc_state m) = [''pricing::Acme'']"
  by code_simp

definition full_issue :: qc_issue where
  "full_issue = (sample_issue ''q1'' ''blocker'' None)
     \<lparr>qi_redo_scope := \<lparr>rs_kind = ''full'', rs_target_subagent = None, rs_target_competitor = None,
        rs_target_competitors = [], rs_rationale = ''redo all''\<rparr>\<rparr>"

text \<open>C39. A redo that the limit of the final review forbids has already discarded the work. Whenever the
  reviewers ask for a redo, the attempts of the final review are used up although fewer revisions are
  recorded than the run may have, and every finding asks to redo everything, the review ends the graph
  without a redo, but the report and the findings are gone, the status of the run is unchanged, and the
  redo that never ran is noted, with the discarded report, to be recorded as a revision.\<close>

theorem blocked_redo_discards_report:
  assumes "mc_node m = Some QaHitl" "rn_hitl_enabled (mc_detail m)"
    and "in_work i = Some f" "in_decision i = ''redo''"
    and "rn_max_iterations (mc_detail m) \<le> gs_final_qa_attempts (mc_state m)"
    and "int (length (rw_revisions (mc_detail m))) < rn_max_iterations (mc_detail m)"
    and "rn_qa_findings (f (mc_detail m)) \<noteq> []"
    and "list_all (\<lambda>q. rs_kind (qi_redo_scope q) = ''full'') (rn_qa_findings (f (mc_detail m)))"
  shows "mc_node (graph_step kind i m) = None
    \<and> gs_final_qa_limit_reached (mc_state (graph_step kind i m))
    \<and> rn_report_md (mc_detail (graph_step kind i m)) = [] \<and> rn_qa_findings (mc_detail (graph_step kind i m)) = []
    \<and> rn_status (mc_detail (graph_step kind i m)) = rn_status (f (mc_detail m))
    \<and> map_option (\<lambda>p. (pg_stage p, pg_before_md p)) (mc_pending (graph_step kind i m))
        = Some (''full'', rn_report_md (f (mc_detail m)))"
proof -
  define d where "d = (agent_work f (mc_detail m))\<lparr>rn_current_node := Some ''qa_hitl''\<rparr>"
  define e where "e = d\<lparr>rn_qa_findings := [], rn_report_md := [], rn_reflections := []\<rparr>"
  have d: "rn_qa_findings d = rn_qa_findings (f (mc_detail m))" "\<not> redo_limit_reached d"
    "rn_max_iterations d = rn_max_iterations (mc_detail m)" "rn_report_md d = rn_report_md (f (mc_detail m))"
    "rn_status d = rn_status (f (mc_detail m))"
    using assms(6) by (simp_all add: d_def agent_work_def redo_limit_reached_def)
  have e: "rn_report_md e = []" "rn_qa_findings e = []" "rn_status e = rn_status d"
    "rn_max_iterations e = rn_max_iterations d" by (simp_all add: e_def)
  obtain bs where bs: "select_redo_issues (rw_revisions d) (rn_qa_findings d) None = Inr bs"
    "set bs \<subseteq> set (rn_qa_findings d)" "bs \<noteq> []"
    using select_unpreferred[of None "rn_qa_findings d" "rw_revisions d"] assms(7) d(1)
    by (auto simp: coherent_batch_def)
  have "hd bs \<in> set (rn_qa_findings (f (mc_detail m)))" using bs(2,3) hd_in_set unfolding d(1) by blast
  then have "rs_kind (qi_redo_scope (hd bs)) = ''full''"
    using assms(8) unfolding list_all_iff by blast
  then have full: "rs_kind (merge_redo_scopes bs) = ''full''" by (simp add: merge_redo_scopes_def Let_def)
  have inputs: "prepare_redo_scope_inputs d (merge_redo_scopes bs) = Inr ((plan_dimensions d, []), e)"
    by (simp add: prepare_redo_scope_inputs_def full e_def)
  define r where "r = \<lparr>ro_redo_kind = ''full'', ro_redo = Some (plan_dimensions d, [])\<rparr>"
  have "prepare_graph_redo_from_qa d (mc_pending m) = (Inr r, e, Some (pending_of d bs False))"
    unfolding prepare_graph_redo_from_qa_def using assms(7) d(1,2) bs(1) inputs full by (simp add: r_def)
  then have review: "qa_hitl_step ''redo'' f (mc_detail m) (mc_pending m) = (Inr r, e, Some (pending_of d bs False))"
    using assms(2) by (simp add: qa_hitl_step_def d_def)
  have step: "graph_step kind i m = review_step ''redo'' f m"
    using assms(1,3,4) by (simp add: graph_step_def)
  define g where "g = (mc_state m)\<lparr>gs_current_node := ''qa_hitl'', gs_redo_kind := Some ''end'',
    gs_final_qa_limit_reached := True\<rparr>"
  have "final_qa_route_state (mc_state m) e r = g"
    using assms(5) d(3) e(4) by (simp add: final_qa_route_state_def final_qa_redo_routes_def r_def g_def)
  then have run: "graph_step kind i m =
      m\<lparr>mc_node := route_final_qa g, mc_state := g, mc_detail := e, mc_pending := Some (pending_of d bs False)\<rparr>"
    unfolding step review_step_def review by simp
  have "route_final_qa g = None" by (simp add: route_final_qa_def g_def)
  moreover have "(pg_stage (pending_of d bs False), pg_before_md (pending_of d bs False))
      = (''full'', rn_report_md (f (mc_detail m)))"
    using full d(4) by (simp add: pending_of_def Let_def)
  ultimately show ?thesis unfolding run using e d(5) by (simp add: g_def)
qed

theorem blocked_redo_discards_report_witness:
  "let d = sample_run [''pricing''] [''Acme''] [full_issue];
       m = (start_pipeline d None)\<lparr>mc_node := Some QaHitl,
         mc_state := (initial_state [''pricing''] [''Acme''] ''qa'' None)\<lparr>gs_final_qa_attempts := 2\<rparr>\<rparr>;
       m' = graph_step RealGraph \<lparr>in_work = Some id, in_decision = ''redo''\<rparr> m
   in mc_node m' = None \<and> gs_final_qa_limit_reached (mc_state m')
      \<and> rn_report_md (mc_detail m) = ''Report.'' \<and> rn_report_md (mc_detail m') = []
      \<and> rn_qa_findings (mc_detail m') = [] \<and> rn_status (mc_detail m') = ''running''"
proof -
  let ?m = "(start_pipeline (sample_run [''pricing''] [''Acme''] [full_issue]) None)\<lparr>mc_node := Some QaHitl,
     mc_state := (initial_state [''pricing''] [''Acme''] ''qa'' None)\<lparr>gs_final_qa_attempts := 2\<rparr>\<rparr>"
  have "mc_detail ?m = sample_run [''pricing''] [''Acme''] [full_issue]"
    by (simp add: start_pipeline_def sample_run_def)
  then show ?thesis
    using blocked_redo_discards_report[of ?m "\<lparr>in_work = Some id, in_decision = ''redo''\<rparr>" id RealGraph]
    unfolding Let_def by (simp add: sample_run_def full_issue_def initial_state_def)
qed

end
