(* ===== verification/Governance.thy ===== *)
theory Governance
  imports Store
begin

text \<open>
  governance/model_policy.py, model_router.py, tool_registry.py and runtime_policy.py: what the
  configuration of the process allows a run to do. The four reports are functions of the
  settings; the runtime decision joins them with the quota of the workspace, which it reads from
  the store. The machine is a parameter: where the vendored fetcher may live, how a path is
  normalised and which paths exist.
\<close>

section \<open>Settings and machine\<close>

text \<open>
  The fields of \<open>config/settings.py:Settings\<close> that this part, the commands and the workflows
  read, with its properties. \<open>getattr\<close> with a default finds every one of them on this class.
\<close>

record settings =
  se_demo_mode :: bool
  se_ark_api_key :: "str option"
  se_ark_model :: "str option"
  se_backup_llm_api_key :: "str option"
  se_backup_llm_model :: "str option"
  se_pplx_api_key :: "str option"
  se_web_search_provider :: str
  se_llm_timeout_seconds :: rat
  se_compliance_redaction_enabled :: bool
  se_compliance_require_trace_context :: bool
  se_compliance_require_source_urls :: bool
  se_compliance_allowed_domains :: "str list"
  se_compliance_blocked_domains :: "str list"
  se_run_orchestration_backend :: str
  se_temporal_task_queue :: str
  se_temporal_traffic_percent :: int
  se_evalops_release_mode :: str

definition given_text :: "str option \<Rightarrow> bool" where
  "given_text x = (case x of None \<Rightarrow> False | Some v \<Rightarrow> v \<noteq> '''')"

definition has_primary_llm_credentials :: "settings \<Rightarrow> bool" where
  "has_primary_llm_credentials c = (given_text (se_ark_api_key c) \<and> given_text (se_ark_model c))"

definition has_backup_llm_credentials :: "settings \<Rightarrow> bool" where
  "has_backup_llm_credentials c =
     (given_text (se_backup_llm_api_key c) \<and> given_text (se_backup_llm_model c))"

definition has_llm_credentials :: "settings \<Rightarrow> bool" where
  "has_llm_credentials c = (has_primary_llm_credentials c \<or> has_backup_llm_credentials c)"

definition has_web_search_credentials :: "settings \<Rightarrow> bool" where
  "has_web_search_credentials c =
     (se_web_search_provider c = ''perplexity'' \<and> given_text (se_pplx_api_key c))"

definition default_execution_mode :: "settings \<Rightarrow> str" where
  "default_execution_mode c =
     (if \<not> se_demo_mode c \<and> has_llm_credentials c then ''real'' else ''demo'')"

text \<open>
  The machine: the environment variable \<open>WEBFETCH_V2_ROOT\<close>, the default root, \<open>str(Path(p))\<close> and
  whether a path exists.
\<close>

record machine =
  ma_webfetch_env :: "str option"
  ma_default_webfetch_root :: str
  ma_path :: "str \<Rightarrow> str"
  ma_exists :: "str \<Rightarrow> bool"

definition resolve_webfetch_v2_root :: "machine \<Rightarrow> str" where
  "resolve_webfetch_v2_root m =
     (let configured_root = strip (case ma_webfetch_env m of None \<Rightarrow> '''' | Some v \<Rightarrow> v)
      in if configured_root \<noteq> '''' then ma_path m configured_root else ma_default_webfetch_root m)"

section \<open>Model policy\<close>

record policy_finding =
  pf_id :: str
  pf_severity :: str
  pf_category :: str
  pf_message :: str
  pf_recommendation :: str

record policy_report =
  po_status :: str
  po_policy_version :: str
  po_default_execution_mode :: str
  po_primary_provider_configured :: bool
  po_backup_provider_configured :: bool
  po_real_execution_allowed :: bool
  po_fallback_allowed :: bool
  po_redaction_required :: bool
  po_trace_context_required :: bool
  po_max_timeout_seconds :: rat
  po_finding_count :: int
  po_blocker_count :: int
  po_warn_count :: int
  po_blocking_finding_ids :: "str list"
  po_findings :: "policy_finding list"
  po_generated_at :: datetime

definition policy_finding_of :: "str \<Rightarrow> str \<Rightarrow> str \<Rightarrow> str \<Rightarrow> str \<Rightarrow> policy_finding" where
  "policy_finding_of i severity category message recommendation =
     \<lparr>pf_id = i, pf_severity = severity, pf_category = category, pf_message = message,
      pf_recommendation = recommendation\<rparr>"

definition policy_findings :: "settings \<Rightarrow> policy_finding list" where
  "policy_findings c =
     (if \<not> has_primary_llm_credentials c \<and> \<not> has_backup_llm_credentials c then
        [policy_finding_of ''provider.no_real_provider'' ''warn'' ''provider''
          ''No real LLM provider is configured.''
          ''Configure primary or backup credentials before real enterprise runs.''] else [])
     @ (if \<not> se_compliance_redaction_enabled c then
        [policy_finding_of ''compliance.redaction_disabled'' ''blocker'' ''compliance''
          ''PII and credential redaction is disabled.''
          ''Enable COMPLIANCE_REDACTION_ENABLED before production use.''] else [])
     @ (if \<not> se_compliance_require_trace_context c then
        [policy_finding_of ''compliance.trace_context_not_required'' ''warn'' ''compliance''
          ''Trace context is not required by policy.''
          ''Enable COMPLIANCE_REQUIRE_TRACE_CONTEXT for audit-grade traces.''] else [])
     @ (if 120 < se_llm_timeout_seconds c then
        [policy_finding_of ''cost.timeout_high'' ''warn'' ''cost''
          ''LLM timeout is above the Phase 5 governance threshold.''
          ''Keep LLM_TIMEOUT_SECONDS at or below 120 unless explicitly approved.''] else [])
     @ (if has_backup_llm_credentials c then
        [policy_finding_of ''routing.backup_provider_enabled'' ''info'' ''routing''
          ''Backup LLM provider is configured for failover.''
          ''Monitor provider routing and cost metrics during real runs.''] else [])"

definition build_model_policy_report :: "datetime \<Rightarrow> settings \<Rightarrow> policy_report" where
  "build_model_policy_report now c =
     (let has_primary = has_primary_llm_credentials c;
          has_backup = has_backup_llm_credentials c;
          findings = policy_findings c;
          blocking = (if \<not> has_primary \<and> \<not> has_backup then [''provider.no_real_provider''] else [])
            @ (if \<not> se_compliance_redaction_enabled c then [''compliance.redaction_disabled''] else []);
          blockers = count_if (\<lambda>f. pf_severity f = ''blocker'') findings;
          warns = count_if (\<lambda>f. pf_severity f = ''warn'') findings
      in \<lparr>po_status = (if blockers \<noteq> 0 then ''fail'' else if warns \<noteq> 0 then ''warn'' else ''pass''),
          po_policy_version = ''2026-05-phase5-model-policy'',
          po_default_execution_mode = default_execution_mode c,
          po_primary_provider_configured = has_primary,
          po_backup_provider_configured = has_backup,
          po_real_execution_allowed = ((has_primary \<or> has_backup) \<and> se_compliance_redaction_enabled c),
          po_fallback_allowed = has_backup,
          po_redaction_required = se_compliance_redaction_enabled c,
          po_trace_context_required = se_compliance_require_trace_context c,
          po_max_timeout_seconds = se_llm_timeout_seconds c,
          po_finding_count = int (length findings), po_blocker_count = int blockers,
          po_warn_count = int warns, po_blocking_finding_ids = blocking, po_findings = findings,
          po_generated_at = now\<rparr>)"

definition model_policy_block_message :: "policy_report \<Rightarrow> str" where
  "model_policy_block_message r =
     (let ids = (if po_blocking_finding_ids r = [] then [''policy.real_execution_not_allowed'']
                 else po_blocking_finding_ids r)
      in ''Real mode is blocked by model policy '' @ po_policy_version r @ '': ''
           @ join '', '' ids @ ''.'')"

text \<open>\<open>RunService._resolve_execution_mode\<close>: the mode a run is created with.\<close>

definition resolve_execution_mode :: "datetime \<Rightarrow> settings \<Rightarrow> str \<Rightarrow> py_error + str" where
  "resolve_execution_mode now c requested =
     (if requested = ''demo'' then Inr ''demo''
      else let model_policy = build_model_policy_report now c
      in if requested = ''real'' then
           (if \<not> po_real_execution_allowed model_policy
            then Inl (ValueError (model_policy_block_message model_policy)) else Inr ''real'')
         else if default_execution_mode c = ''real'' then
           (if po_real_execution_allowed model_policy then Inr ''real'' else Inr ''demo'')
         else Inr ''demo'')"

section \<open>Model router\<close>

definition compliance_score :: "bool \<Rightarrow> bool \<Rightarrow> int" where
  "compliance_score redaction_enabled trace_required =
     40 + (if redaction_enabled then 35 else 0) + (if trace_required then 25 else 0)"

definition primary_candidate :: "settings \<Rightarrow> bool \<Rightarrow> bool \<Rightarrow> route_candidate" where
  "primary_candidate c redaction trace =
     (let configured = has_primary_llm_credentials c
      in \<lparr>rc_provider_kind = ''primary'', rc_provider_name = ''ark'',
          rc_model_name = (case se_ark_model c of None \<Rightarrow> '''' | Some m \<Rightarrow> m),
          rc_configured = configured, rc_quality_score = (if configured then 88 else 0),
          rc_cost_score = (if configured then 72 else 0),
          rc_compliance_score = compliance_score redaction trace, rc_routing_score = 0,
          rc_supports_tool_calling = True, rc_supports_json_schema = True,
          rc_routing_reasons = [], rc_risk_flags = [],
          rc_reason = (if configured then ''Primary provider is preferred for quality when configured.''
                       else ''Primary provider credentials are missing.'')\<rparr>)"

definition backup_candidate :: "settings \<Rightarrow> bool \<Rightarrow> bool \<Rightarrow> route_candidate" where
  "backup_candidate c redaction trace =
     (let configured = has_backup_llm_credentials c
      in \<lparr>rc_provider_kind = ''backup'', rc_provider_name = ''openrouter'',
          rc_model_name = (case se_backup_llm_model c of None \<Rightarrow> '''' | Some m \<Rightarrow> m),
          rc_configured = configured, rc_quality_score = (if configured then 82 else 0),
          rc_cost_score = (if configured then 78 else 0),
          rc_compliance_score = compliance_score redaction trace, rc_routing_score = 0,
          rc_supports_tool_calling = True, rc_supports_json_schema = True,
          rc_routing_reasons = [], rc_risk_flags = [],
          rc_reason = (if configured then ''Backup provider is ready for failover.''
                       else ''Backup provider credentials are missing.'')\<rparr>)"

definition demo_candidate :: "settings \<Rightarrow> bool \<Rightarrow> bool \<Rightarrow> route_candidate" where
  "demo_candidate c redaction trace =
     (let demo_mode = se_demo_mode c
      in \<lparr>rc_provider_kind = ''demo'', rc_provider_name = ''deterministic'',
          rc_model_name = ''demo-fixture'', rc_configured = demo_mode,
          rc_quality_score = (if demo_mode then 58 else 0),
          rc_cost_score = (if demo_mode then 100 else 0),
          rc_compliance_score = compliance_score redaction trace, rc_routing_score = 0,
          rc_supports_tool_calling = False, rc_supports_json_schema = True,
          rc_routing_reasons = [], rc_risk_flags = [],
          rc_reason = (if demo_mode
            then ''Demo route is deterministic and cost-free, but report quality is limited.''
            else ''Demo mode is disabled.'')\<rparr>)"

definition score_candidate :: "route_candidate \<Rightarrow> route_candidate" where
  "score_candidate r =
     (let score = (if rc_configured r
            then round_half_even (of_int (rc_quality_score r) * 45 / 100
                   + of_int (rc_compliance_score r) * 35 / 100
                   + of_int (rc_cost_score r) * 20 / 100) else 0);
          risks = (if \<not> rc_configured r then [''missing_credentials''] else [])
            @ (if rc_compliance_score r < 100 then [''policy_guardrail_incomplete''] else [])
            @ (if \<not> rc_supports_tool_calling r then [''limited_tool_calling''] else [])
            @ (if \<not> rc_supports_json_schema r then [''limited_schema_output''] else [])
            @ (if rc_provider_kind r = ''demo'' then [''deterministic_demo''] else [])
      in r\<lparr>rc_routing_score := max 0 (min 100 score),
           rc_routing_reasons := [''quality_weight=0.45'', ''compliance_weight=0.35'',
             ''cost_weight=0.20''],
           rc_risk_flags := risks\<rparr>)"

definition provider_preference :: "str \<Rightarrow> int" where
  "provider_preference kind =
     (if kind = ''primary'' then 3 else if kind = ''backup'' then 2
      else if kind = ''demo'' then 1 else 0)"

definition rank_candidates :: "route_candidate list \<Rightarrow> route_candidate list" where
  "rank_candidates rs =
     sort_desc (\<lambda>r. (rc_routing_score r, provider_preference (rc_provider_kind r))) rs"

definition scored_candidates :: "settings \<Rightarrow> route_candidate list" where
  "scored_candidates c =
     (let redaction = se_compliance_redaction_enabled c;
          trace = se_compliance_require_trace_context c
      in map score_candidate [primary_candidate c redaction trace,
           backup_candidate c redaction trace, demo_candidate c redaction trace])"

definition configured_real :: "settings \<Rightarrow> route_candidate list" where
  "configured_real c =
     rank_candidates (filter (\<lambda>r. rc_provider_kind r \<in> {''primary'', ''backup''} \<and> rc_configured r)
       (scored_candidates c))"

definition build_model_route_decision :: "datetime \<Rightarrow> settings \<Rightarrow> route_decision" where
  "build_model_route_decision now c =
     (let candidates = scored_candidates c;
          blocked = (if \<not> se_compliance_redaction_enabled c
              then [''PII/credential redaction is disabled.''] else [])
            @ (if \<not> se_compliance_require_trace_context c
              then [''Trace context is not required by policy.''] else []);
          real = configured_real c;
          selected =
            (if blocked \<noteq> [] then None
             else case real of r # _ \<Rightarrow> Some r
             | [] \<Rightarrow> if default_execution_mode c = ''demo'' then Some (last candidates) else None)
      in case selected of
           None \<Rightarrow>
             \<lparr>rd_status = ''blocked'', rd_selected = None, rd_fallback = None,
              rd_candidates = candidates,
              rd_blocked_reasons = blocked
                @ (if real = [] then [''No primary or backup LLM provider is configured.''] else []),
              rd_routing_policy_version = ''2026-06-h10-model-router'', rd_generated_at = now\<rparr>
         | Some s \<Rightarrow>
             \<lparr>rd_status = (if rc_provider_kind s = ''primary'' then ''selected'' else ''fallback''),
              rd_selected = Some s,
              rd_fallback = find (\<lambda>r. rc_provider_kind r \<noteq> rc_provider_kind s) real,
              rd_candidates = candidates, rd_blocked_reasons = blocked,
              rd_routing_policy_version = ''2026-06-h10-model-router'', rd_generated_at = now\<rparr>)"

section \<open>Tool registry\<close>

definition guarded_unless :: "bool \<Rightarrow> str" where
  "guarded_unless b = (if b then ''enabled'' else ''guarded'')"

definition registry_entries :: "machine \<Rightarrow> settings \<Rightarrow> tool_entry list" where
  "registry_entries m c =
     (let has_search = has_web_search_credentials c;
          redaction = se_compliance_redaction_enabled c;
          trace = se_compliance_require_trace_context c;
          root = resolve_webfetch_v2_root m;
          fetch = ma_exists m root
      in [\<lparr>te_name = ''web_search'', te_category = ''collection'',
           te_description = ''External web search used by collector and online gap fill.'',
           te_input_schema = ''WebSearchRequest'', te_output_schema = ''list[SearchResult]'',
           te_estimated_cost_usd = 1 / 100, te_side_effects = [''network_read''],
           te_policy_tags = [''tenant_scoped'', ''cost_metered'', ''requires_trace''],
           te_status = guarded_unless (has_search \<and> trace),
           te_allowed_in_real_mode = (has_search \<and> trace),
           te_reason = (if has_search \<and> trace
             then ''Search credentials and trace context are configured.''
             else ''Requires search credentials and trace context before real runs.'')\<rparr>,
          \<lparr>te_name = ''fetch_page'', te_category = ''collection'',
           te_description = ''Fetches source pages after robots compliance checks.'',
           te_input_schema = ''url'', te_output_schema = ''FetchPageResult'',
           te_estimated_cost_usd = 0, te_side_effects = [''network_read''],
           te_policy_tags = [''requires_robots'', ''requires_trace''],
           te_status = guarded_unless trace, te_allowed_in_real_mode = trace,
           te_reason = ''Fetch is allowed when trace context records source lineage.''\<rparr>,
          \<lparr>te_name = ''advanced_fetch_page'', te_category = ''collection'',
           te_description = ''Vendored webfetch_v2 boundary for JavaScript-heavy pages, ''
             @ ''quality diagnostics, markdown extraction, and screenshots.'',
           te_input_schema = ''AdvancedFetchRequest'', te_output_schema = ''AdvancedFetchResult'',
           te_estimated_cost_usd = 0, te_side_effects = [''network_read'', ''file_write''],
           te_policy_tags = [''requires_robots'', ''requires_trace'', ''human_review_recommended''],
           te_status = guarded_unless (fetch \<and> trace), te_allowed_in_real_mode = (fetch \<and> trace),
           te_reason = (if fetch \<and> trace then ''webfetch_v2 root is configured at '' @ root @ ''.''
             else ''Requires the vendored webfetch_v2 root or WEBFETCH_V2_ROOT ''
               @ ''override plus trace context before real browser fetches.'')\<rparr>,
          \<lparr>te_name = ''rag_search_evidence'', te_category = ''retrieval'',
           te_description = ''Searches project evidence embeddings for gap fill and QA.'',
           te_input_schema = ''EvidenceSearchQuery'', te_output_schema = ''list[EvidenceSearchHit]'',
           te_estimated_cost_usd = 0, te_side_effects = [''none''],
           te_policy_tags = [''tenant_scoped''], te_status = ''enabled'',
           te_allowed_in_real_mode = True, te_reason = ''Read-only tenant-scoped retrieval.''\<rparr>,
          \<lparr>te_name = ''online_gap_fill'', te_category = ''retrieval'',
           te_description = ''Searches and fetches missing evidence for open EvidenceGap records, then ''
             @ ''stores accepted evidence back into the tenant-scoped Evidence Center.'',
           te_input_schema = ''EvidenceGapReport'', te_output_schema = ''EvidenceGapFillResult'',
           te_estimated_cost_usd = 2 / 100, te_side_effects = [''network_read'', ''database_write''],
           te_policy_tags = [''requires_robots'', ''requires_redaction'', ''requires_trace'',
             ''tenant_scoped'', ''cost_metered''],
           te_status = guarded_unless (has_search \<and> redaction \<and> trace),
           te_allowed_in_real_mode = (has_search \<and> redaction \<and> trace),
           te_reason = (if has_search \<and> redaction \<and> trace
             then ''Search credentials, redaction, robots checks, and trace context are configured.''
             else ''Requires search credentials, redaction, robots checks, and trace ''
               @ ''context before online evidence gap fill can run in real mode.'')\<rparr>,
          \<lparr>te_name = ''memory_recall'', te_category = ''retrieval'',
           te_description = ''Retrieves confirmed MemoryAgent guidance for planner and QA context.'',
           te_input_schema = ''MemoryRecallQuery'', te_output_schema = ''MemoryRecallResult'',
           te_estimated_cost_usd = 0, te_side_effects = [''none''],
           te_policy_tags = [''tenant_scoped'', ''requires_trace''],
           te_status = guarded_unless trace, te_allowed_in_real_mode = trace,
           te_reason = ''Memory recall is read-only but must remain traceable to user feedback.''\<rparr>,
          \<lparr>te_name = ''claim_validator'', te_category = ''analysis'',
           te_description =
             ''Validates report claims against evidence, source quality, and triangulation.'',
           te_input_schema = ''ClaimValidationRequest'', te_output_schema = ''ClaimValidationReport'',
           te_estimated_cost_usd = 0, te_side_effects = [''none''],
           te_policy_tags = [''requires_trace'', ''tenant_scoped''],
           te_status = guarded_unless trace, te_allowed_in_real_mode = trace,
           te_reason = ''Claim validation is deterministic and must emit audit-grade trace events.''\<rparr>,
          \<lparr>te_name = ''self_consistency_sampler'', te_category = ''analysis'',
           te_description = ''Samples claim validation checks and records minority validation failures.'',
           te_input_schema = ''ClaimValidationResult'',
           te_output_schema = ''list[ClaimValidationSample]'',
           te_estimated_cost_usd = 0, te_side_effects = [''none''],
           te_policy_tags = [''requires_trace'', ''tenant_scoped''],
           te_status = guarded_unless trace, te_allowed_in_real_mode = trace,
           te_reason = ''Self-consistency sampling is part of the report quality gate trace.''\<rparr>,
          \<lparr>te_name = ''source_snapshot'', te_category = ''storage'',
           te_description = ''Stores webpage, PDF, screenshot, survey, or transcript snapshots.'',
           te_input_schema = ''SourceSnapshotCreateRequest'', te_output_schema = ''SourceSnapshotResult'',
           te_estimated_cost_usd = 0, te_side_effects = [''file_write'', ''database_write''],
           te_policy_tags = [''requires_redaction'', ''requires_trace'', ''tenant_scoped''],
           te_status = guarded_unless (redaction \<and> trace),
           te_allowed_in_real_mode = (redaction \<and> trace),
           te_reason = ''Snapshots require redaction and traceable source lineage.''\<rparr>,
          \<lparr>te_name = ''model_backed_agent'', te_category = ''analysis'',
           te_description = ''Pydantic-AI model-backed RedTeam/EvidenceGap style execution.'',
           te_input_schema = ''AgentExecutionRequest'', te_output_schema = ''AgentExecutionResult'',
           te_estimated_cost_usd = 3 / 100, te_side_effects = [''network_read''],
           te_policy_tags = [''requires_redaction'', ''requires_trace'', ''cost_metered''],
           te_status = guarded_unless (redaction \<and> trace),
           te_allowed_in_real_mode = (redaction \<and> trace),
           te_reason = ''Model-backed tools are governed by redaction, trace, and cost policy.''\<rparr>,
          \<lparr>te_name = ''report_publish'', te_category = ''workflow'',
           te_description = ''Publishes report versions after release gate and compliance checks.'',
           te_input_schema = ''ReportVersionRecord'', te_output_schema = ''ReportReleaseGate'',
           te_estimated_cost_usd = 0, te_side_effects = [''database_write''],
           te_policy_tags = [''requires_trace'', ''human_review_recommended''],
           te_status = guarded_unless trace, te_allowed_in_real_mode = trace,
           te_reason = ''Publishing is allowed after release gate and audit trace checks.''\<rparr>])"

definition build_tool_registry_report :: "datetime \<Rightarrow> machine \<Rightarrow> settings \<Rightarrow> tool_report" where
  "build_tool_registry_report now m c =
     (let entries = registry_entries m c
      in \<lparr>tr_policy_version = ''2026-06-h10-tool-registry'', tr_entries = entries,
          tr_total_count = int (length entries),
          tr_guarded_count = int (count_if (\<lambda>e. te_status e = ''guarded'') entries),
          tr_disabled_count = int (count_if (\<lambda>e. te_status e = ''disabled'') entries),
          tr_side_effect_tool_count =
            int (count_if (\<lambda>e. list_ex (\<lambda>x. x \<noteq> ''none'') (te_side_effects e)) entries),
          tr_generated_at = now\<rparr>)"

section \<open>Runtime decision\<close>

record tool_decision =
  td_tool_name :: str
  td_status :: str
  td_registry_status :: str
  td_allowed_in_real_mode :: bool
  td_estimated_cost_usd :: rat
  td_side_effects :: "str list"
  td_policy_tags :: "str list"
  td_reason :: str

record runtime_decision =
  ru_policy_version :: str
  ru_status :: str
  ru_workspace_id :: str
  ru_execution_mode :: str
  ru_selected_provider_kind :: "str option"
  ru_selected_provider_name :: "str option"
  ru_selected_model :: "str option"
  ru_fallback_provider_kind :: "str option"
  ru_fallback_provider_name :: "str option"
  ru_fallback_model :: "str option"
  ru_model_route_status :: str
  ru_model_route_policy_version :: str
  ru_model_policy_status :: str
  ru_model_policy_version :: str
  ru_model_policy_finding_ids :: "str list"
  ru_tool_decisions :: "tool_decision list"
  ru_allowed_tool_count :: int
  ru_guarded_tool_count :: int
  ru_denied_tool_count :: int
  ru_quota_allowed :: bool
  ru_quota_status :: str
  ru_quota_enforcement :: str
  ru_quota_pressure :: str
  ru_quota_decision :: quota_decision
  ru_estimated_cost_usd :: rat
  ru_compliance_constraints :: "str list"
  ru_audit_reason :: str
  ru_generated_at :: datetime

definition default_runtime_tool_names :: "str list" where
  "default_runtime_tool_names =
     [''web_search'', ''fetch_page'', ''advanced_fetch_page'', ''rag_search_evidence'',
      ''online_gap_fill'', ''memory_recall'', ''claim_validator'', ''self_consistency_sampler'',
      ''source_snapshot'', ''model_backed_agent'']"

definition missing_tool :: "str \<Rightarrow> tool_decision" where
  "missing_tool name =
     \<lparr>td_tool_name = name, td_status = ''denied'', td_registry_status = ''missing'',
      td_allowed_in_real_mode = False, td_estimated_cost_usd = 0, td_side_effects = [],
      td_policy_tags = [],
      td_reason = ''Tool is not registered in the enterprise tool registry.''\<rparr>"

definition text_or :: "str \<Rightarrow> str \<Rightarrow> str" where
  "text_or s d = (if s \<noteq> '''' then s else d)"

definition tool_decision_of :: "str \<Rightarrow> tool_entry \<Rightarrow> tool_decision" where
  "tool_decision_of mode e =
     (let (status, reason) =
        (if te_status e = ''disabled'' then
           (''denied'', text_or (te_reason e) ''Tool is disabled by policy.'')
         else if mode = ''real'' \<and> \<not> te_allowed_in_real_mode e then
           (''denied'', text_or (te_reason e) ''Tool is not allowed in real execution mode.'')
         else if te_status e = ''guarded'' then
           (''guarded'', text_or (te_reason e) ''Tool requires additional runtime guardrails.'')
         else (''allowed'', text_or (te_reason e) ''Tool is allowed by runtime policy.''))
      in \<lparr>td_tool_name = te_name e, td_status = status, td_registry_status = te_status e,
          td_allowed_in_real_mode = te_allowed_in_real_mode e,
          td_estimated_cost_usd = te_estimated_cost_usd e, td_side_effects = te_side_effects e,
          td_policy_tags = te_policy_tags e, td_reason = reason\<rparr>)"

text \<open>
  The loop over the requested tools keeps the first occurrence of each name; the dictionary
  \<open>entries_by_name\<close> is a lookup in the registry, whose names are distinct.
\<close>

definition decide_tool :: "tool_entry list \<Rightarrow> str \<Rightarrow> str \<Rightarrow> tool_decision" where
  "decide_tool entries mode name =
     (case map_of (rev (map (\<lambda>e. (te_name e, e)) entries)) name of
        None \<Rightarrow> missing_tool name
      | Some e \<Rightarrow> tool_decision_of mode e)"

definition tool_decisions :: "machine \<Rightarrow> settings \<Rightarrow> str list \<Rightarrow> str \<Rightarrow> tool_decision list" where
  "tool_decisions m c requested mode =
     map (decide_tool (registry_entries m c) mode) (keep_first id (\<lambda>_. True) [] requested)"

definition blocking_reasons ::
  "str \<Rightarrow> route_decision \<Rightarrow> policy_report \<Rightarrow> quota_decision \<Rightarrow> nat \<Rightarrow> str list" where
  "blocking_reasons mode route policy quota denied =
     (if rd_status route = ''blocked'' then [''model route is blocked''] else [])
     @ (if mode = ''real'' \<and> \<not> po_real_execution_allowed policy
        then [''model policy blocks real execution''] else [])
     @ (if \<not> qd_allowed quota then [''workspace quota blocks new runs''] else [])
     @ (if mode = ''real'' \<and> denied \<noteq> 0
        then [str_of_int (int denied) @ '' requested tool(s) are denied in real mode''] else [])"

definition warning_reasons ::
  "route_decision \<Rightarrow> policy_report \<Rightarrow> quota_decision \<Rightarrow> nat \<Rightarrow> str list" where
  "warning_reasons route policy quota guarded =
     (if rd_status route = ''fallback'' then [''model router selected fallback provider''] else [])
     @ (if po_status policy = ''warn'' then [''model policy has warnings''] else [])
     @ (if qd_status quota \<noteq> ''ok'' then [''workspace quota is '' @ qd_status quota] else [])
     @ (if guarded \<noteq> 0
        then [str_of_int (int guarded) @ '' requested tool(s) are guarded''] else [])"

definition estimate_model_cost_usd :: "route_decision \<Rightarrow> int \<Rightarrow> int \<Rightarrow> rat" where
  "estimate_model_cost_usd route input_tokens output_tokens =
     (case rd_selected route of
        None \<Rightarrow> 0
      | Some r \<Rightarrow>
          of_int (input_tokens + output_tokens) / 1000
            * (if rc_provider_kind r = ''primary'' then 2 / 1000
               else if rc_provider_kind r = ''backup'' then 15 / 10000 else 0))"

definition quota_pressure :: "quota_decision \<Rightarrow> str" where
  "quota_pressure quota =
     (let usage = qd_usage quota;
          pressure = the (max_by snd [(''runs'', uu_run_usage_ratio usage),
            (''tokens'', uu_token_usage_ratio usage), (''cost'', uu_cost_usage_ratio usage)])
      in fst pressure @ '':'' @ percent (snd pressure))"

definition compliance_constraints :: "settings \<Rightarrow> str list" where
  "compliance_constraints c =
     [if se_compliance_redaction_enabled c then ''redaction:enabled'' else ''redaction:disabled'',
      if se_compliance_require_trace_context c then ''trace_context:required''
        else ''trace_context:not_required'',
      if se_compliance_require_source_urls c then ''source_urls:required''
        else ''source_urls:not_required'']
     @ (if se_compliance_allowed_domains c \<noteq> []
        then [''allowed_domains:'' @ join '','' (se_compliance_allowed_domains c)] else [])
     @ (if se_compliance_blocked_domains c \<noteq> []
        then [''blocked_domains:'' @ join '','' (se_compliance_blocked_domains c)] else [])"

definition audit_reason :: "str \<Rightarrow> str list \<Rightarrow> str list \<Rightarrow> str" where
  "audit_reason status blocking warning =
     (if status = ''deny''
      then ''Runtime policy denied execution: '' @ join ''; '' blocking @ ''.''
      else if status = ''warn''
      then ''Runtime policy allows execution with warnings: '' @ join ''; '' warning @ ''.''
      else ''Runtime policy allows execution.'')"

text \<open>
  The body of \<open>build_runtime_policy_decision\<close> once the quota of the workspace is known.
  \<open>requested_tools or DEFAULT\<close> takes the default for no list and for an empty one.
\<close>

definition decide_runtime ::
  "datetime \<Rightarrow> machine \<Rightarrow> settings \<Rightarrow> str \<Rightarrow> str \<Rightarrow> str list option \<Rightarrow> int \<Rightarrow> int \<Rightarrow> quota_decision
    \<Rightarrow> runtime_decision" where
  "decide_runtime now m c workspace_id mode requested_tools estimated_input estimated_output quota =
     (let route = build_model_route_decision now c;
          policy = build_model_policy_report now c;
          requested = (case requested_tools of None \<Rightarrow> default_runtime_tool_names
            | Some ts \<Rightarrow> if ts = [] then default_runtime_tool_names else ts);
          decisions = tool_decisions m c requested mode;
          cost = round_digits 6
            (estimate_model_cost_usd route (max 0 estimated_input) (max 0 estimated_output)
              + sum_list (map td_estimated_cost_usd decisions));
          denied = count_if (\<lambda>d. td_status d = ''denied'') decisions;
          guarded = count_if (\<lambda>d. td_status d = ''guarded'') decisions;
          allowed = count_if (\<lambda>d. td_status d = ''allowed'') decisions;
          blocking = blocking_reasons mode route policy quota denied;
          warning = warning_reasons route policy quota guarded;
          status = (if blocking \<noteq> [] then ''deny'' else if warning \<noteq> [] then ''warn'' else ''allow'')
      in \<lparr>ru_policy_version = ''c5.6-runtime-policy'', ru_status = status,
          ru_workspace_id = workspace_id, ru_execution_mode = mode,
          ru_selected_provider_kind = map_option rc_provider_kind (rd_selected route),
          ru_selected_provider_name = map_option rc_provider_name (rd_selected route),
          ru_selected_model = map_option rc_model_name (rd_selected route),
          ru_fallback_provider_kind = map_option rc_provider_kind (rd_fallback route),
          ru_fallback_provider_name = map_option rc_provider_name (rd_fallback route),
          ru_fallback_model = map_option rc_model_name (rd_fallback route),
          ru_model_route_status = rd_status route,
          ru_model_route_policy_version = rd_routing_policy_version route,
          ru_model_policy_status = po_status policy,
          ru_model_policy_version = po_policy_version policy,
          ru_model_policy_finding_ids = map pf_id (po_findings policy),
          ru_tool_decisions = decisions, ru_allowed_tool_count = int allowed,
          ru_guarded_tool_count = int guarded, ru_denied_tool_count = int denied,
          ru_quota_allowed = qd_allowed quota, ru_quota_status = qd_status quota,
          ru_quota_enforcement = qd_enforcement quota,
          ru_quota_pressure = quota_pressure quota, ru_quota_decision = quota,
          ru_estimated_cost_usd = cost, ru_compliance_constraints = compliance_constraints c,
          ru_audit_reason = audit_reason status blocking warning, ru_generated_at = now\<rparr>)"

definition build_runtime_policy_decision ::
  "env \<Rightarrow> machine \<Rightarrow> settings \<Rightarrow> str \<Rightarrow> str \<Rightarrow> str list option \<Rightarrow> int \<Rightarrow> int \<Rightarrow> store
    \<Rightarrow> runtime_decision \<times> store" where
  "build_runtime_policy_decision env m c workspace_id mode requested_tools estimated_input
     estimated_output s =
     (let (quota, s1) = check_workspace_quota env workspace_id None None s
      in (decide_runtime (env_now env) m c workspace_id mode requested_tools estimated_input
            estimated_output quota, s1))"

section \<open>Properties\<close>

lemma sort_desc_short:
  "sort_desc f [] = []" "sort_desc f [a] = [a]"
  "sort_desc f [a, b] = (if f a < f b then [b, a] else [a, b])"
  by (auto simp: sort_desc_def)

lemma score_candidate_sel [simp]:
  "rc_provider_kind (score_candidate r) = rc_provider_kind r"
  "rc_configured (score_candidate r) = rc_configured r"
  by (simp_all add: score_candidate_def Let_def)

lemma candidate_sel [simp]:
  "rc_provider_kind (primary_candidate c r t) = ''primary''"
  "rc_provider_kind (backup_candidate c r t) = ''backup''"
  "rc_provider_kind (demo_candidate c r t) = ''demo''"
  "rc_configured (primary_candidate c r t) = has_primary_llm_credentials c"
  "rc_configured (backup_candidate c r t) = has_backup_llm_credentials c"
  "rc_configured (demo_candidate c r t) = se_demo_mode c"
  by (simp_all add: primary_candidate_def backup_candidate_def demo_candidate_def Let_def)

lemma floor_numeral_div: "\<lfloor>numeral a / numeral b :: rat\<rfloor> = numeral a div numeral b"
  using floor_divide_of_int_eq[where 'a = rat, of "numeral a" "numeral b"] by simp

lemma rounded_scores:
  "round_half_even 68 = 68" "round_half_even (321 / 4) = 80" "round_half_even (307 / 4) = 77"
  "round_half_even 89 = 89" "round_half_even (133 / 2) = 66" "round_half_even (315 / 4) = 79"
  "round_half_even (301 / 4) = 75" "round_half_even (175 / 2) = 88"
  by (simp_all add: round_half_even_def Let_def floor_numeral_div)

lemma primary_score:
  "has_primary_llm_credentials c \<Longrightarrow> rc_routing_score (score_candidate (primary_candidate c r t)) =
     (if r then if t then 89 else 80 else if t then 77 else 68)"
  by (simp add: score_candidate_def primary_candidate_def Let_def compliance_score_def
      rounded_scores)

lemma backup_score:
  "has_backup_llm_credentials c \<Longrightarrow> rc_routing_score (score_candidate (backup_candidate c r t)) =
     (if r then if t then 88 else 79 else if t then 75 else 66)"
  by (simp add: score_candidate_def backup_candidate_def Let_def compliance_score_def
      rounded_scores)

lemma configured_real_simps:
  "configured_real c =
     (let r = se_compliance_redaction_enabled c; t = se_compliance_require_trace_context c
      in (if has_primary_llm_credentials c then [score_candidate (primary_candidate c r t)] else [])
         @ (if has_backup_llm_credentials c then [score_candidate (backup_candidate c r t)] else []))"
  by (simp add: configured_real_def rank_candidates_def scored_candidates_def Let_def
      sort_desc_short primary_score backup_score)

lemma route_selected:
  "rd_selected (build_model_route_decision now c) =
     (let r = se_compliance_redaction_enabled c; t = se_compliance_require_trace_context c
      in if \<not> r \<or> \<not> t then None
         else if has_primary_llm_credentials c then Some (score_candidate (primary_candidate c r t))
         else if has_backup_llm_credentials c then Some (score_candidate (backup_candidate c r t))
         else Some (score_candidate (demo_candidate c r t)))"
  by (simp add: build_model_route_decision_def Let_def configured_real_simps
      default_execution_mode_def has_llm_credentials_def scored_candidates_def)

lemma route_status:
  "rd_status (build_model_route_decision now c) =
     (if \<not> se_compliance_redaction_enabled c \<or> \<not> se_compliance_require_trace_context c then ''blocked''
      else if has_primary_llm_credentials c then ''selected'' else ''fallback'')"
  by (simp add: build_model_route_decision_def Let_def configured_real_simps
      default_execution_mode_def has_llm_credentials_def scored_candidates_def)

text \<open>What a real run may use: the registered tools whose requirements the configuration meets.\<close>

definition tool_usable :: "machine \<Rightarrow> settings \<Rightarrow> str \<Rightarrow> bool" where
  "tool_usable m c name =
     (let redaction = se_compliance_redaction_enabled c;
          search = has_web_search_credentials c;
          fetcher = ma_exists m (resolve_webfetch_v2_root m)
      in name = ''rag_search_evidence''
         \<or> (se_compliance_require_trace_context c
             \<and> (name \<in> {''fetch_page'', ''memory_recall'', ''claim_validator'',
                   ''self_consistency_sampler'', ''report_publish''}
                \<or> (name = ''web_search'' \<and> search)
                \<or> (name = ''online_gap_fill'' \<and> search \<and> redaction)
                \<or> (name = ''advanced_fetch_page'' \<and> fetcher)
                \<or> (name \<in> {''source_snapshot'', ''model_backed_agent''} \<and> redaction))))"

lemma registry_names:
  "map te_name (registry_entries m c) =
     [''web_search'', ''fetch_page'', ''advanced_fetch_page'', ''rag_search_evidence'',
      ''online_gap_fill'', ''memory_recall'', ''claim_validator'', ''self_consistency_sampler'',
      ''source_snapshot'', ''model_backed_agent'', ''report_publish'']"
  by (simp add: registry_entries_def Let_def)

lemma registry_allowed:
  "map te_allowed_in_real_mode (registry_entries m c) =
     map (tool_usable m c) (map te_name (registry_entries m c))"
  unfolding registry_names by (simp add: registry_entries_def tool_usable_def Let_def conj_ac)

lemma registry_statuses:
  "list_all (\<lambda>e. te_status e \<in> {''enabled'', ''guarded''}
       \<and> (te_status e = ''enabled'') = te_allowed_in_real_mode e) (registry_entries m c)"
  by (simp add: registry_entries_def guarded_unless_def Let_def)

lemma usable_registered: "tool_usable m c name \<Longrightarrow> name \<in> te_name ` set (registry_entries m c)"
proof -
  assume "tool_usable m c name"
  then have "name \<in> set (map te_name (registry_entries m c))"
    unfolding registry_names tool_usable_def Let_def by auto
  then show ?thesis by simp
qed

lemma registry_entry:
  assumes "e \<in> set (registry_entries m c)"
  shows "te_allowed_in_real_mode e = tool_usable m c (te_name e)"
    and "te_status e = (if tool_usable m c (te_name e) then ''enabled'' else ''guarded'')"
proof -
  show "te_allowed_in_real_mode e = tool_usable m c (te_name e)"
    using assms registry_allowed[of m c] by (auto simp: list_eq_iff_nth_eq in_set_conv_nth)
  then show "te_status e = (if tool_usable m c (te_name e) then ''enabled'' else ''guarded'')"
    using assms registry_statuses[of m c] by (auto simp: list_all_iff)
qed

lemma lookup_entry:
  "map_of (rev (map (\<lambda>e. (te_name e, e)) es)) name = Some e \<Longrightarrow> e \<in> set es \<and> te_name e = name"
  "map_of (rev (map (\<lambda>e. (te_name e, e)) es)) name = None \<longleftrightarrow> name \<notin> te_name ` set es"
  by (auto dest: map_of_SomeD simp: map_of_eq_None_iff image_image)

lemma decide_tool_fields:
  "td_tool_name (decide_tool (registry_entries m c) mode name) = name"
  "td_status (decide_tool (registry_entries m c) mode name) =
     (if tool_usable m c name then ''allowed''
      else if mode = ''real'' \<or> name \<notin> te_name ` set (registry_entries m c) then ''denied''
      else ''guarded'')"
proof -
  let ?look = "map_of (rev (map (\<lambda>e. (te_name e, e)) (registry_entries m c))) name"
  consider "?look = None" | e where "?look = Some e" by fastforce
  then have "td_tool_name (decide_tool (registry_entries m c) mode name) = name
    \<and> td_status (decide_tool (registry_entries m c) mode name) =
     (if tool_usable m c name then ''allowed''
      else if mode = ''real'' \<or> name \<notin> te_name ` set (registry_entries m c) then ''denied''
      else ''guarded'')"
  proof cases
    case 1
    then show ?thesis
      using usable_registered[of m c name] lookup_entry(2)[of "registry_entries m c" name]
      by (auto simp: decide_tool_def missing_tool_def)
  next
    case 2
    have e: "e \<in> set (registry_entries m c)" "te_name e = name" using lookup_entry(1)[OF 2] by auto
    then show ?thesis
      using registry_entry[OF e(1)] 2 by (auto simp: decide_tool_def tool_decision_of_def Let_def)
  qed
  then show "td_tool_name (decide_tool (registry_entries m c) mode name) = name"
    "td_status (decide_tool (registry_entries m c) mode name) =
     (if tool_usable m c name then ''allowed''
      else if mode = ''real'' \<or> name \<notin> te_name ` set (registry_entries m c) then ''denied''
      else ''guarded'')" by blast+
qed

definition effective_tools :: "str list option \<Rightarrow> str list" where
  "effective_tools requested =
     (case requested of None \<Rightarrow> default_runtime_tool_names
      | Some ts \<Rightarrow> if ts = [] then default_runtime_tool_names else ts)"

lemma tool_decision_names:
  "map td_tool_name (tool_decisions m c ts mode) = keep_first id (\<lambda>_. True) [] ts"
  by (simp add: tool_decisions_def decide_tool_fields comp_def)

lemma tool_decisions_status:
  "d \<in> set (tool_decisions m c ts mode) \<Longrightarrow>
     td_status d = (if tool_usable m c (td_tool_name d) then ''allowed''
       else if mode = ''real'' \<or> td_tool_name d \<notin> te_name ` set (registry_entries m c) then ''denied''
       else ''guarded'')"
  by (auto simp: tool_decisions_def decide_tool_fields)

lemma kept_names: "set (keep_first id (\<lambda>_. True) [] ts) = set ts"
  using kf.dd_keys[where key = id and ok = "\<lambda>_. True" and xs = ts] by simp

lemma denied_in_real:
  "count_if (\<lambda>d. td_status d = ''denied'') (tool_decisions m c ts ''real'') = 0
     \<longleftrightarrow> list_all (tool_usable m c) ts"
proof -
  have "count_if (\<lambda>d. td_status d = ''denied'') (tool_decisions m c ts ''real'') = 0
      \<longleftrightarrow> (\<forall>d \<in> set (tool_decisions m c ts ''real''). tool_usable m c (td_tool_name d))"
    by (auto simp: tool_decisions_status)
  also have "\<dots> \<longleftrightarrow> (\<forall>n \<in> td_tool_name ` set (tool_decisions m c ts ''real''). tool_usable m c n)"
    by blast
  also have "td_tool_name ` set (tool_decisions m c ts ''real'') = set ts"
    using tool_decision_names[of m c ts "''real''"] kept_names[of ts] by (metis set_map)
  finally show ?thesis by (simp add: list_all_iff)
qed

lemma blocking_none:
  "blocking_reasons mode route policy quota denied = [] \<longleftrightarrow>
     rd_status route \<noteq> ''blocked'' \<and> (mode = ''real'' \<longrightarrow> po_real_execution_allowed policy)
     \<and> qd_allowed quota \<and> (mode = ''real'' \<longrightarrow> denied = 0)"
  by (simp add: blocking_reasons_def)

lemma decide_runtime_status:
  "ru_status (decide_runtime now m c ws mode ts i out quota) \<noteq> ''deny'' \<longleftrightarrow>
     se_compliance_redaction_enabled c \<and> se_compliance_require_trace_context c \<and> qd_allowed quota
     \<and> (mode = ''real'' \<longrightarrow> has_llm_credentials c \<and> list_all (tool_usable m c) (effective_tools ts))"
proof -
  let ?r = "build_model_route_decision now c" and ?p = "build_model_policy_report now c"
  let ?k = "count_if (\<lambda>d. td_status d = ''denied'') (tool_decisions m c (effective_tools ts) mode)"
  have "ru_status (decide_runtime now m c ws mode ts i out quota) \<noteq> ''deny'' \<longleftrightarrow>
      blocking_reasons mode ?r ?p quota ?k = []"
    by (simp add: decide_runtime_def Let_def effective_tools_def)
  also have "\<dots> \<longleftrightarrow> rd_status ?r \<noteq> ''blocked'' \<and> (mode = ''real'' \<longrightarrow> po_real_execution_allowed ?p)
      \<and> qd_allowed quota \<and> (mode = ''real'' \<longrightarrow> list_all (tool_usable m c) (effective_tools ts))"
    using denied_in_real by (auto simp only: blocking_none)
  finally show ?thesis
    by (auto simp: route_status build_model_policy_report_def Let_def has_llm_credentials_def)
qed

text \<open>C15. The runtime policy denies an execution exactly when redaction or trace context is
  switched off, the quota of the workspace in the store forbids new runs or, for a real
  execution, no provider has credentials or a requested tool is not usable.\<close>

theorem runtime_decision_exact:
  "let (d, s1) = build_runtime_policy_decision env m c ws mode ts i out s;
       (quota, s2) = check_workspace_quota env ws None None s
   in s1 = s2 \<and> ru_quota_decision d = quota
     \<and> (ru_status d \<noteq> ''deny'') =
         (se_compliance_redaction_enabled c \<and> se_compliance_require_trace_context c
          \<and> qd_allowed quota
          \<and> (if mode = ''real''
             then has_llm_credentials c \<and> list_all (tool_usable m c) (effective_tools ts)
             else True))"
  using decide_runtime_status[of "env_now env" m c ws mode ts i out
      "fst (check_workspace_quota env ws None None s)"]
  by (auto simp: build_runtime_policy_decision_def decide_runtime_def Let_def split: prod.splits)

lemma count_partition3:
  "(\<forall>x \<in> set xs. f x \<in> {a, b, c}) \<Longrightarrow> distinct [a, b, c] \<Longrightarrow>
     count_if (\<lambda>x. f x = a) xs + count_if (\<lambda>x. f x = b) xs + count_if (\<lambda>x. f x = c) xs = length xs"
  by (induction xs) (auto simp: loop_simps)

text \<open>Every requested tool gets exactly one decision, in the order of the first requests; the
  three counts add up to their number; a real execution has no guarded tool and any other one
  denies only tools the registry does not know.\<close>

theorem tool_decisions_partition:
  "let d = decide_runtime now m c ws mode ts i out quota;
       names = map td_tool_name (ru_tool_decisions d)
   in names = keep_first id (\<lambda>_. True) [] (effective_tools ts)
     \<and> distinct names \<and> set names = set (effective_tools ts)
     \<and> ru_allowed_tool_count d + ru_guarded_tool_count d + ru_denied_tool_count d = int (length names)
     \<and> (if mode = ''real'' then ru_guarded_tool_count d = 0
        else ru_denied_tool_count d =
          int (length (filter (\<lambda>n. n \<notin> te_name ` set (registry_entries m c)) names)))"
proof -
  let ?ds = "tool_decisions m c (effective_tools ts) mode"
  let ?known = "te_name ` set (registry_entries m c)"
  have st: "\<forall>d \<in> set ?ds. td_status d \<in> {''allowed'', ''guarded'', ''denied''}"
    by (auto simp: tool_decisions_status)
  have sum: "count_if (\<lambda>d. td_status d = ''allowed'') ?ds + count_if (\<lambda>d. td_status d = ''guarded'') ?ds
      + count_if (\<lambda>d. td_status d = ''denied'') ?ds = length ?ds"
    using count_partition3[OF st] by simp
  have real: "mode = ''real'' \<Longrightarrow> count_if (\<lambda>d. td_status d = ''guarded'') ?ds = 0"
    by (auto simp: tool_decisions_status)
  have demo: "count_if (\<lambda>d. td_status d = ''denied'') ?ds =
      length (filter (\<lambda>n. n \<notin> ?known) (map td_tool_name ?ds))" if "mode \<noteq> ''real''"
  proof -
    have "(td_status d = ''denied'') = (td_tool_name d \<notin> ?known)" if "d \<in> set ?ds" for d
      using tool_decisions_status[OF that] \<open>mode \<noteq> ''real''\<close> usable_registered[of m c "td_tool_name d"]
      by auto
    then have "filter (\<lambda>d. td_status d = ''denied'') ?ds = filter (\<lambda>d. td_tool_name d \<notin> ?known) ?ds"
      by (rule filter_cong[OF refl])
    then show ?thesis by (simp add: count_if_def filter_map comp_def)
  qed
  have dist: "distinct (keep_first id (\<lambda>_. True) [] (effective_tools ts))"
    using kf.dd_distinct[where key = id and ok = "\<lambda>_. True" and xs = "effective_tools ts"] by simp
  have fields: "ru_tool_decisions (decide_runtime now m c ws mode ts i out quota) = ?ds"
    "ru_allowed_tool_count (decide_runtime now m c ws mode ts i out quota) =
       int (count_if (\<lambda>d. td_status d = ''allowed'') ?ds)"
    "ru_guarded_tool_count (decide_runtime now m c ws mode ts i out quota) =
       int (count_if (\<lambda>d. td_status d = ''guarded'') ?ds)"
    "ru_denied_tool_count (decide_runtime now m c ws mode ts i out quota) =
       int (count_if (\<lambda>d. td_status d = ''denied'') ?ds)"
    by (simp_all add: decide_runtime_def Let_def effective_tools_def)
  show ?thesis
    unfolding Let_def fields
  proof (intro conjI)
    show "map td_tool_name ?ds = keep_first id (\<lambda>_. True) [] (effective_tools ts)"
      by (rule tool_decision_names)
    show "distinct (map td_tool_name ?ds)" using dist by (simp only: tool_decision_names)
    show "set (map td_tool_name ?ds) = set (effective_tools ts)"
      by (simp only: tool_decision_names kept_names)
    show "int (count_if (\<lambda>d. td_status d = ''allowed'') ?ds)
        + int (count_if (\<lambda>d. td_status d = ''guarded'') ?ds)
        + int (count_if (\<lambda>d. td_status d = ''denied'') ?ds) = int (length (map td_tool_name ?ds))"
      using sum by (simp only: length_map of_nat_add[symmetric])
    show "if mode = ''real'' then int (count_if (\<lambda>d. td_status d = ''guarded'') ?ds) = 0
      else int (count_if (\<lambda>d. td_status d = ''denied'') ?ds) =
        int (length (filter (\<lambda>n. n \<notin> ?known) (map td_tool_name ?ds)))"
    proof (cases "mode = ''real''")
      case True
      show ?thesis by (simp only: if_P[OF True] real[OF True] of_nat_0)
    next
      case False
      show ?thesis by (simp only: if_not_P[OF False] demo[OF False])
    qed
  qed
qed

text \<open>
  With no credentials and demo mode switched off the router still selects the demo route, which
  it has just marked as not configured.
\<close>

lemma disabled_demo_selected:
  "if \<not> has_llm_credentials c \<and> \<not> se_demo_mode c \<and> se_compliance_redaction_enabled c
      \<and> se_compliance_require_trace_context c
   then rd_status (build_model_route_decision now c) = ''fallback''
     \<and> map_option rc_configured (rd_selected (build_model_route_decision now c)) = Some False
   else True"
  by (simp add: route_status route_selected has_llm_credentials_def)
end
