(* ===== verification/ReportScope.thy ===== *)
theory ReportScope
  imports EvidenceStore
begin

text \<open>
  enterprise/report_scope.py: the competitors, evidence and claims a report version is allowed
  to be judged by. A scope is read from the projection of the version's run when the store's
  newest version of that run is the version itself, and from the records of the project
  otherwise; in both cases only the ids the version names count, and for a version of a run only
  the records of that run.
\<close>

record report_scope =
  sc_competitors :: "competitor list"
  sc_evidence :: "evidence list"
  sc_claims :: "claim list"
  sc_metadata :: jdict

text \<open>\<open>{item.id: item for item in records}\<close>: the last record of an id wins.\<close>

definition records_by_id :: "('a \<Rightarrow> str) \<Rightarrow> 'a list \<Rightarrow> (str \<times> 'a) list" where
  "records_by_id i xs = fold (\<lambda>x. AList.update (i x) x) xs []"

definition records_in_id_order :: "('a \<Rightarrow> str) \<Rightarrow> 'a list \<Rightarrow> str list \<Rightarrow> 'a list" where
  "records_in_id_order i xs ids = List.map_filter (map_of (records_by_id i xs)) ids"

definition records_for_report_run :: "('a \<Rightarrow> str option) \<Rightarrow> report_version \<Rightarrow> 'a list \<Rightarrow> 'a list" where
  "records_for_report_run run v xs =
     (if \<not> given (rv_run_id v) then xs else filter (\<lambda>x. run x = rv_run_id v) xs)"

definition dedupe_ordered_strings :: "str list \<Rightarrow> str list" where
  "dedupe_ordered_strings xs = keep_first id (\<lambda>v. v \<noteq> []) [] (map strip xs)"

definition current_or_stored_projection ::
  "report_version \<Rightarrow> store \<Rightarrow> run_projection option \<Rightarrow> run_projection option" where
  "current_or_stored_projection v s projection =
     (case projection of
        Some p \<Rightarrow>
          if rv_id (rp_report_version p) = rv_id v then Some p
          else if given (rv_run_id v) then get_run_projection (the (rv_run_id v)) s else None
      | None \<Rightarrow> if given (rv_run_id v) then get_run_projection (the (rv_run_id v)) s else None)"

definition report_scope_competitor_ids ::
  "report_version \<Rightarrow> evidence list \<Rightarrow> claim list \<Rightarrow> str list" where
  "report_scope_competitor_ids v evs cls =
     (let ids = (case map_of (rv_quality_metadata v) ''report_competitor_ids'' of
            Some (JList xs) \<Rightarrow> filter (\<lambda>t. t \<noteq> []) (map (\<lambda>x. strip (py_str x)) xs)
          | _ \<Rightarrow> [])
      in if ids \<noteq> [] then dedupe_ordered_strings ids
         else dedupe_ordered_strings (map ev_competitor_id evs @ map cl_competitor_id cls))"

definition report_scope_competitors ::
  "report_version \<Rightarrow> project \<Rightarrow> store \<Rightarrow> evidence list \<Rightarrow> claim list \<Rightarrow> competitor list" where
  "report_scope_competitors v p s evs cls =
     (let scoped = report_scope_competitor_ids v evs cls;
          project_competitors = list_competitors None (Some (pj_id p)) s;
          by_id = records_by_id cp_id project_competitors;
          table = (if list_ex (\<lambda>i. map_of by_id i = None) scoped
            then dict_merge by_id (records_by_id cp_id (list_competitors (Some (pj_workspace_id p)) None s))
            else by_id)
      in if scoped = [] then project_competitors else List.map_filter (map_of table) scoped)"

definition report_scope_metadata_of ::
  "report_version \<Rightarrow> project \<Rightarrow> store \<Rightarrow> competitor list \<Rightarrow> evidence list \<Rightarrow> claim list \<Rightarrow> str \<Rightarrow> jdict" where
  "report_scope_metadata_of v p s cps evs cls scope_source =
     (let project_competitors = list_competitors None (Some (pj_id p)) s;
          project_evidence = list_evidence (Some (pj_id p)) s;
          project_claims = list_claims (Some (pj_id p)) s;
          scoped = map cp_id cps
      in [(''scope_policy'', JStr ''report_version_scope_only''),
          (''history_policy'', JStr ''project_history_and_memory_are_advisory_context''),
          (''scope_source'', JStr scope_source), (''report_version_id'', JStr (rv_id v)),
          (''run_id'', jstr_opt (rv_run_id v)), (''project_id'', JStr (pj_id p)),
          (''scoped_competitor_ids'', jstrs scoped), (''scoped_evidence_ids'', jstrs (map ev_id evs)),
          (''scoped_claim_ids'', jstrs (map cl_id cls)),
          (''project_competitor_count'', JInt (int (length project_competitors))),
          (''project_evidence_count'', JInt (int (length project_evidence))),
          (''project_claim_count'', JInt (int (length project_claims))),
          (''excluded_project_competitor_ids'',
             jstrs (filter (\<lambda>i. i \<notin> set scoped) (map cp_id project_competitors))),
          (''advisory_memory'', JDict (as_dict (map_of (rv_quality_metadata v) ''memory_used'')))])"

definition build_report_scope ::
  "report_version \<Rightarrow> project \<Rightarrow> store \<Rightarrow> run_projection option \<Rightarrow> report_scope" where
  "build_report_scope v p s current =
     (let (evs, cls, source) =
        (case current_or_stored_projection v s current of
           Some q \<Rightarrow>
             if rv_id (rp_report_version q) = rv_id v then
               (rp_evidence_records q, rp_claim_records q,
                if map_option (\<lambda>c. rv_id (rp_report_version c)) current = Some (rv_id v)
                then ''current_projection'' else ''run_projection'')
             else (list_evidence (Some (pj_id p)) s, list_claims (Some (pj_id p)) s, ''report_version_ids'')
         | None \<Rightarrow> (list_evidence (Some (pj_id p)) s, list_claims (Some (pj_id p)) s, ''report_version_ids''));
          evidence = records_for_report_run ev_run_id v (records_in_id_order ev_id evs (rv_evidence_ids v));
          claims = records_for_report_run cl_run_id v (records_in_id_order cl_id cls (rv_claim_ids v));
          competitors = report_scope_competitors v p s evidence claims
      in \<lparr>sc_competitors = competitors, sc_evidence = evidence, sc_claims = claims,
          sc_metadata = report_scope_metadata_of v p s competitors evidence claims source\<rparr>)"

definition report_release_gate_scope ::
  "report_version \<Rightarrow> project \<Rightarrow> store \<Rightarrow> run_projection option
    \<Rightarrow> competitor list \<times> evidence list \<times> claim list" where
  "report_release_gate_scope v p s current =
     (let scope = build_report_scope v p s current
      in (sc_competitors scope, sc_evidence scope, sc_claims scope))"

definition report_scope_metadata ::
  "report_version \<Rightarrow> project \<Rightarrow> store \<Rightarrow> run_projection option \<Rightarrow> jdict" where
  "report_scope_metadata v p s current = sc_metadata (build_report_scope v p s current)"

section \<open>Properties\<close>

lemma map_of_records_by_id:
  "map_of (records_by_id i xs) k = Some x \<Longrightarrow> x \<in> set xs \<and> i x = k"
proof (induction xs rule: rev_induct)
  case Nil
  then show ?case by (simp add: records_by_id_def)
next
  case (snoc y ys)
  then show ?case by (auto simp: records_by_id_def update_conv' split: if_splits)
qed

lemma map_filter_subset: "x \<in> set (List.map_filter f ys) \<Longrightarrow> \<exists>y \<in> set ys. f y = Some x"
  by (induction ys) (auto simp: List.map_filter_simps split: option.splits)

lemma in_records_in_id_order:
  "x \<in> set (records_in_id_order i xs ids) \<Longrightarrow> x \<in> set xs \<and> i x \<in> set ids"
  by (auto simp: records_in_id_order_def dest!: map_filter_subset map_of_records_by_id)

lemma in_records_for_run:
  "x \<in> set (records_for_report_run run v xs) \<Longrightarrow>
     x \<in> set xs \<and> (given (rv_run_id v) \<longrightarrow> run x = rv_run_id v)"
  by (auto simp: records_for_report_run_def split: if_splits)

end
