(* ===== verification/Approvals.thy ===== *)
theory Approvals
  imports ReportScope StoreCalls
begin

text \<open>
  The approval of a report version: the activities of workflows/activities.py
  (\<open>ReportApprovalActivities\<close>) on the store, and the Temporal workflow of
  workflows/report_approval.py that calls them. Temporal itself is not code of the program: what
  it does to a workflow comes as a sequence of events (an activity is attempted and its
  completion is delivered or lost, a signal arrives, the wait wakes up or times out), which the
  model takes as input, together with whatever else is called on the store in between. The
  release gate is a parameter; so are pydantic's dumps.
\<close>

section \<open>Activities\<close>

record gate_env =
  ge_hitl_dump :: "hitl_event \<Rightarrow> jdict"
  ge_issue_dump :: "business_finding \<Rightarrow> jdict"
  ge_release_gate :: "project \<Rightarrow> report_version \<Rightarrow> competitor list \<Rightarrow> evidence list \<Rightarrow> claim list
    \<Rightarrow> source_record list \<Rightarrow> py_error + release_gate"

record approval_request =
  aq_report_version_id :: str
  aq_requested_by :: str
  aq_approver_ids :: "str list"
  aq_timeout_seconds :: int

record approval_input =
  ai_report_version_id :: str
  ai_approver_id :: str
  ai_note :: str

record approval_state =
  av_report_version_id :: str
  av_workspace_id :: str
  av_project_id :: str
  av_status :: str
  av_approver_id :: "str option"
  av_note :: str

record approval_result =
  ax_report_version_id :: str
  ax_workspace_id :: str
  ax_project_id :: str
  ax_decision :: str
  ax_final_status :: str
  ax_approver_id :: "str option"
  ax_note :: str

definition approval_state_of :: "report_version \<Rightarrow> str option \<Rightarrow> str \<Rightarrow> approval_state" where
  "approval_state_of v approver remark =
     \<lparr>av_report_version_id = rv_id v, av_workspace_id = rv_workspace_id v,
      av_project_id = rv_project_id v, av_status = rv_status v, av_approver_id = approver,
      av_note = remark\<rparr>"

definition require_report_version :: "str \<Rightarrow> (store, report_version) op" where
  "require_report_version version_id s =
     (case get_report_version version_id s of
        None \<Rightarrow> (Inl (RuntimeError (''Report version not found: '' @ version_id)), s)
      | Some v \<Rightarrow> (Inr v, s))"

text \<open>\<open>metadata.get(key, default)\<close> on the stored metadata.\<close>

definition metadata_get :: "str \<Rightarrow> json \<Rightarrow> report_version \<Rightarrow> json" where
  "metadata_get k d v = (case map_of (rv_quality_metadata v) k of Some x \<Rightarrow> x | None \<Rightarrow> d)"

definition approval_metadata :: "report_version \<Rightarrow> jdict" where
  "approval_metadata v =
     [(''approval_workflow'', metadata_get ''approval_workflow'' (JDict []) v),
      (''hitl_lifecycle'', metadata_get ''hitl_lifecycle'' (JList []) v)]"

definition request_report_approval ::
  "gate_env \<Rightarrow> env \<Rightarrow> approval_request \<Rightarrow> (store, approval_state) op" where
  "request_report_approval g env req =
     op_bind (require_report_version (aq_report_version_id req)) (\<lambda>version.
       if rv_status version \<in> {''published'', ''archived''} then
         op_raise (RuntimeError (''Report version '' @ rv_id version @ '' cannot enter approval from ''
           @ rv_status version @ ''.''))
       else
         op_bind (upsert_report_version env
             (mark_report_approval_requested (ge_hitl_dump g) (env_now env) version
               (aq_requested_by req) (aq_approver_ids req) None)) (\<lambda>stored.
           op_bind (op_modify (audit_report_version_transition env stored
               ''report_version.approval_requested'' (Some (aq_requested_by req))
               (Some (rv_status version)) ''''
               (Some ((''approver_ids'', jstrs (aq_approver_ids req)) # approval_metadata stored))))
             (\<lambda>_. op_return (approval_state_of stored None ''''))))"

definition release_gate_for :: "gate_env \<Rightarrow> report_version \<Rightarrow> (store, release_gate) op" where
  "release_gate_for g version s =
     (case get_project (rv_project_id version) s of
        None \<Rightarrow> (Inl (RuntimeError (''Project not found for report version: '' @ rv_project_id version)), s)
      | Some p \<Rightarrow>
        let (cps, evs, cls) = report_release_gate_scope version p s None
        in (ge_release_gate g p version cps evs cls
              (list_source_registry (Some (pj_workspace_id p)) s), s))"

definition gate_blocked_notification ::
  "gate_env \<Rightarrow> env \<Rightarrow> report_version \<Rightarrow> release_gate \<Rightarrow> notification" where
  "gate_blocked_notification g env version gate =
     \<lparr>nt_id = compute_notification_id [JStr ''report-approval'', JStr (rv_workspace_id version),
        JStr (rv_project_id version), JStr (rv_id version), jstrs (map bf_id (take 5 (rg_issues gate)))],
      nt_workspace_id = rv_workspace_id version, nt_project_id = Some (rv_project_id version),
      nt_notification_type = ''release_gate_blocked'', nt_channel = ''in_app'',
      nt_severity = ''critical'', nt_status = ''queued'',
      nt_title = ''Report approval blocked by release gate'',
      nt_body = str_or (join ''; '' (map bf_message (take 3 (rg_issues gate))))
        ''Report approval is blocked by release gate findings.'',
      nt_resource_type = Some ''report_version'', nt_resource_id = Some (rv_id version),
      nt_created_by = Some ''report-approval-workflow'', nt_created_at = env_now env,
      nt_sent_at = None, nt_read_at = None,
      nt_metadata =
        [(''run_id'', jstr_opt (rv_run_id version)), (''report_version_id'', JStr (rv_id version)),
         (''readiness_score'', JInt (ps_score (rg_readiness gate))),
         (''readiness_risk_level'', JStr (ps_risk_level (rg_readiness gate))),
         (''qa_finding_count'', JInt (be_finding_count (rg_qa_evaluation gate))),
         (''blocker_count'', JInt (rg_blocker_count gate)), (''warn_count'', JInt (rg_warn_count gate)),
         (''issue_count'', JInt (rg_issue_count gate)),
         (''issues'', JList (map (\<lambda>i. JDict (ge_issue_dump g i)) (take 5 (rg_issues gate))))]\<rparr>"

definition enforce_release_gate :: "gate_env \<Rightarrow> env \<Rightarrow> report_version \<Rightarrow> (store, release_gate) op" where
  "enforce_release_gate g env version =
     op_bind (release_gate_for g version) (\<lambda>gate.
       if rg_allowed gate then op_return gate
       else op_bind (op_modify (\<lambda>s. snd (upsert_notification env
              (gate_blocked_notification g env version gate) s))) (\<lambda>_.
         op_raise (RuntimeError (''Report release gate blocked approval: ''
           @ join ''; '' (map bf_message (take 3 (rg_issues gate)))))))"

text \<open>What approving and rejecting share: the marked version is stored and audited.\<close>

definition store_decision ::
  "env \<Rightarrow> report_version \<Rightarrow> report_version \<Rightarrow> str \<Rightarrow> approval_input \<Rightarrow> jdict \<Rightarrow> (store, approval_state) op" where
  "store_decision env version updated action d extra =
     op_bind (upsert_report_version env updated) (\<lambda>stored.
       op_bind (op_modify (audit_report_version_transition env stored action
           (Some (ai_approver_id d)) (Some (rv_status version)) (ai_note d)
           (Some (approval_metadata stored @ extra))))
         (\<lambda>_. op_return (approval_state_of stored (Some (ai_approver_id d)) (ai_note d))))"

definition approve_report_version ::
  "gate_env \<Rightarrow> env \<Rightarrow> approval_input \<Rightarrow> (store, approval_state) op" where
  "approve_report_version g env d =
     op_bind (require_report_version (ai_report_version_id d)) (\<lambda>version.
       if rv_status version \<noteq> ''in_review'' then
         op_raise (RuntimeError (''Report approval requires in_review status, got ''
           @ rv_status version @ ''.''))
       else
         op_bind (enforce_release_gate g env version) (\<lambda>gate.
           store_decision env version
             (mark_report_approval_decision (ge_hitl_dump g) (env_now env) version ''approved''
               (ai_approver_id d) (ai_note d) (Some gate) None)
             ''report_version.approved'' d
             [(''release_gate'', JDict (report_release_gate_snapshot (Some gate)))]))"

definition reject_report_version ::
  "gate_env \<Rightarrow> env \<Rightarrow> approval_input \<Rightarrow> (store, approval_state) op" where
  "reject_report_version g env d =
     op_bind (require_report_version (ai_report_version_id d)) (\<lambda>version.
       if rv_status version \<noteq> ''in_review'' then
         op_raise (RuntimeError (''Report rejection requires in_review status, got ''
           @ rv_status version @ ''.''))
       else
         store_decision env version
           (mark_report_approval_decision (ge_hitl_dump g) (env_now env) version ''rejected''
             (ai_approver_id d) (ai_note d) None None)
           ''report_version.rejected'' d [])"

section \<open>Payloads\<close>

text \<open>
  An activity's result crosses Temporal as a JSON object and is read back by
  \<open>_coerce_approval_state\<close>.
\<close>

definition approval_payload :: "approval_state \<Rightarrow> jdict" where
  "approval_payload st =
     [(''report_version_id'', JStr (av_report_version_id st)),
      (''workspace_id'', JStr (av_workspace_id st)), (''project_id'', JStr (av_project_id st)),
      (''status'', JStr (av_status st)), (''approver_id'', jstr_opt (av_approver_id st)),
      (''note'', JStr (av_note st))]"

definition payload_text :: "jdict \<Rightarrow> str \<Rightarrow> py_error + str" where
  "payload_text payload k =
     (case map_of payload k of
        Some (JStr s) \<Rightarrow> Inr s
      | _ \<Rightarrow> Inl (ValueError (''Temporal approval payload field '' @ py_repr (JStr k) @ '' must be a string.'')))"

definition payload_optional_text :: "jdict \<Rightarrow> str \<Rightarrow> py_error + str option" where
  "payload_optional_text payload k =
     (case map_of payload k of
        None \<Rightarrow> Inr None
      | Some JNull \<Rightarrow> Inr None
      | Some (JStr s) \<Rightarrow> Inr (Some s)
      | _ \<Rightarrow> Inl (ValueError ''Temporal approval payload optional text field must be a string or null.''))"

definition report_statuses :: "str list" where
  "report_statuses = [''draft'', ''in_review'', ''approved'', ''rejected'', ''published'', ''archived'']"

definition payload_report_status :: "jdict \<Rightarrow> py_error + str" where
  "payload_report_status payload =
     (case map_of payload ''status'' of
        Some (JStr s) \<Rightarrow>
          if s \<in> set report_statuses then Inr s
          else Inl (ValueError ''Temporal approval payload status field is invalid.'')
      | Some (JList _) \<Rightarrow> Inl (TypeError (''unhashable type: '' @ py_repr (JStr ''list'')))
      | Some (JDict _) \<Rightarrow> Inl (TypeError (''unhashable type: '' @ py_repr (JStr ''dict'')))
      | _ \<Rightarrow> Inl (ValueError ''Temporal approval payload status field is invalid.''))"

definition coerce_approval_state :: "jdict \<Rightarrow> py_error + approval_state" where
  "coerce_approval_state payload =
     err_bind (payload_text payload ''report_version_id'') (\<lambda>i.
     err_bind (payload_text payload ''workspace_id'') (\<lambda>w.
     err_bind (payload_text payload ''project_id'') (\<lambda>p.
     err_bind (payload_report_status payload) (\<lambda>st.
     err_bind (payload_optional_text payload ''approver_id'') (\<lambda>a.
     err_bind (payload_optional_text payload ''note'') (\<lambda>n.
       Inr \<lparr>av_report_version_id = i, av_workspace_id = w, av_project_id = p, av_status = st,
            av_approver_id = a, av_note = or_str n ''''\<rparr>))))))"

section \<open>The workflow\<close>

record approval_signal =
  sg_decision :: str
  sg_approver_id :: str
  sg_note :: str

text \<open>
  Where \<open>run\<close> stands: in one of its two activities, which have been attempted some times, in its
  wait, or at its end. A result that cannot be read back leaves the workflow stuck: its task
  fails and is tried again for ever.
\<close>

datatype approval_phase =
    Requesting nat
  | Waiting approval_state
  | Deciding approval_signal nat
  | Finished approval_result
  | ActivityFailed
  | Stuck

record approval_workflow =
  wf_request :: approval_request
  wf_decision :: "approval_signal option"
  wf_status :: str
  wf_report_version_id :: "str option"
  wf_approver_id :: "str option"
  wf_phase :: approval_phase

datatype approval_event =
    Attempt env bool
  | Signal approval_signal
  | Wake
  | TimeOut
  | OtherCall env store_call

definition maximum_attempts :: nat where
  "maximum_attempts = 3"

definition start_approval :: "approval_request \<Rightarrow> approval_workflow" where
  "start_approval req =
     \<lparr>wf_request = req, wf_decision = None, wf_status = ''running'',
      wf_report_version_id = Some (aq_report_version_id req), wf_approver_id = None,
      wf_phase = Requesting 0\<rparr>"

definition approval_result_of ::
  "approval_state \<Rightarrow> str \<Rightarrow> str option \<Rightarrow> str \<Rightarrow> approval_result" where
  "approval_result_of st decision approver remark =
     \<lparr>ax_report_version_id = av_report_version_id st, ax_workspace_id = av_workspace_id st,
      ax_project_id = av_project_id st, ax_decision = decision, ax_final_status = av_status st,
      ax_approver_id = approver, ax_note = remark\<rparr>"

text \<open>
  One attempt of an activity that has been attempted \<open>k\<close> times before: its effects on the store
  stay whether it returns, raises, or returns without its completion being delivered.
\<close>

definition attempt ::
  "(store, approval_state) op \<Rightarrow> bool \<Rightarrow> nat \<Rightarrow> (nat \<Rightarrow> approval_phase)
    \<Rightarrow> (approval_state \<Rightarrow> approval_phase) \<Rightarrow> store \<Rightarrow> approval_phase \<times> store" where
  "attempt act delivered k again continue s =
     (let (res, s') = act s;
          failed = (if k + 1 < maximum_attempts then again (k + 1) else ActivityFailed)
      in (case res of
            Inl _ \<Rightarrow> failed
          | Inr st \<Rightarrow>
            if \<not> delivered then failed
            else (case coerce_approval_state (approval_payload st) of
                Inl _ \<Rightarrow> Stuck | Inr st' \<Rightarrow> continue st'), s'))"

definition decision_input :: "approval_workflow \<Rightarrow> approval_signal \<Rightarrow> approval_input" where
  "decision_input w d =
     \<lparr>ai_report_version_id = aq_report_version_id (wf_request w), ai_approver_id = sg_approver_id d,
      ai_note = sg_note d\<rparr>"

definition decision_activity ::
  "gate_env \<Rightarrow> env \<Rightarrow> approval_workflow \<Rightarrow> approval_signal \<Rightarrow> (store, approval_state) op" where
  "decision_activity g env w d =
     (if sg_decision d = ''approved'' then approve_report_version g env (decision_input w d)
      else reject_report_version g env (decision_input w d))"

definition decision_outcome :: "approval_signal \<Rightarrow> approval_state \<Rightarrow> approval_phase" where
  "decision_outcome d st =
     Finished (approval_result_of st
       (if sg_decision d = ''approved'' then ''approved'' else ''rejected'')
       (Some (sg_approver_id d)) (sg_note d))"

definition finished :: "approval_phase \<Rightarrow> bool" where
  "finished p = (case p of Finished _ \<Rightarrow> True | _ \<Rightarrow> False)"

fun approval_step ::
  "gate_env \<Rightarrow> approval_event \<Rightarrow> approval_workflow \<times> store \<Rightarrow> approval_workflow \<times> store" where
  "approval_step g (Attempt env delivered) (w, s) =
     (case wf_phase w of
        Requesting k \<Rightarrow>
          let (p, s') = attempt (request_report_approval g env (wf_request w)) delivered k
                Requesting Waiting s
          in (w\<lparr>wf_phase := p,
                wf_status := (case p of Waiting _ \<Rightarrow> ''waiting'' | _ \<Rightarrow> wf_status w)\<rparr>, s')
      | Deciding d k \<Rightarrow>
          let (p, s') = attempt (decision_activity g env w d) delivered k (Deciding d)
                (decision_outcome d) s
          in (w\<lparr>wf_phase := p,
                wf_status := (if finished p then ''completed'' else wf_status w)\<rparr>, s')
      | _ \<Rightarrow> (w, s))"
| "approval_step g (Signal d) (w, s) =
     (if wf_phase w = ActivityFailed \<or> finished (wf_phase w) then (w, s)
      else (w\<lparr>wf_decision := Some d\<rparr>, s))"
| "approval_step g Wake (w, s) =
     (case (wf_phase w, wf_decision w) of
        (Waiting _, Some d) \<Rightarrow>
          (w\<lparr>wf_approver_id := Some (sg_approver_id d), wf_phase := Deciding d 0\<rparr>, s)
      | _ \<Rightarrow> (w, s))"
| "approval_step g TimeOut (w, s) =
     (case (wf_phase w, wf_decision w) of
        (Waiting st, None) \<Rightarrow>
          (w\<lparr>wf_status := ''timed_out'',
             wf_phase := Finished (approval_result_of st ''timed_out'' None '''')\<rparr>, s)
      | _ \<Rightarrow> (w, s))"
| "approval_step g (OtherCall env c) (w, s) = (w, run_call env c s)"

definition run_approval ::
  "gate_env \<Rightarrow> approval_request \<Rightarrow> approval_event list \<Rightarrow> store \<Rightarrow> approval_workflow \<times> store" where
  "run_approval g req evs s = fold (approval_step g) evs (start_approval req, s)"

text \<open>The query \<open>state\<close>.\<close>

definition approval_query :: "approval_workflow \<Rightarrow> jdict" where
  "approval_query w =
     [(''workflow_type'', JStr ''ReportApprovalWorkflow''), (''status'', JStr (wf_status w)),
      (''report_version_id'', jstr_opt (wf_report_version_id w)),
      (''approver_id'', jstr_opt (wf_approver_id w)),
      (''decision'', jstr_opt (map_option sg_decision (wf_decision w)))]"

end
