(* ===== verification/WorkflowService.thy ===== *)
theory WorkflowService
  imports Governance Approvals
begin

text \<open>
  workflows/service.py: the requests the program sends to Temporal, the ids of the workflows and
  the staged cutover of runs from the in-process graph to Temporal. The Temporal server is a
  parameter: what starting a workflow with an id and signalling one comes to.
\<close>

section \<open>The server\<close>

datatype start_outcome = Started | AlreadyStarted | Unavailable

record temporal =
  tp_start :: "str \<Rightarrow> start_outcome"
  tp_signal :: "str \<Rightarrow> approval_signal \<Rightarrow> bool"

text \<open>\<open>None\<close> stands for an exception other than \<open>WorkflowAlreadyStartedError\<close>.\<close>

definition start_workflow :: "temporal \<Rightarrow> str \<Rightarrow> str option" where
  "start_workflow tp workflow_id =
     (case tp_start tp workflow_id of
        Started \<Rightarrow> Some ''started''
      | AlreadyStarted \<Rightarrow> Some ''already_started''
      | Unavailable \<Rightarrow> None)"

definition report_approval_workflow_id :: "str \<Rightarrow> str" where
  "report_approval_workflow_id version_id =
     compute_workflow_id ''report-approval'' [JStr version_id] 32"

record approval_start_response =
  as_workflow_id :: str
  as_report_version_id :: str
  as_task_queue :: str
  as_status :: str

definition start_report_approval ::
  "temporal \<Rightarrow> settings \<Rightarrow> approval_request \<Rightarrow> approval_start_response option" where
  "start_report_approval tp c req =
     map_option (\<lambda>status.
       \<lparr>as_workflow_id = report_approval_workflow_id (aq_report_version_id req),
        as_report_version_id = aq_report_version_id req, as_task_queue = se_temporal_task_queue c,
        as_status = status\<rparr>)
       (start_workflow tp (report_approval_workflow_id (aq_report_version_id req)))"

record approval_signal_response =
  ap_workflow_id :: str
  ap_report_version_id :: str
  ap_decision :: str
  ap_status :: str

definition signal_report_approval ::
  "temporal \<Rightarrow> str \<Rightarrow> str \<Rightarrow> str \<Rightarrow> str \<Rightarrow> approval_signal_response option" where
  "signal_report_approval tp version_id approver_id remark decision =
     (if tp_signal tp (report_approval_workflow_id version_id)
           \<lparr>sg_decision = (if decision = ''approved'' then ''approved'' else ''rejected''),
            sg_approver_id = approver_id, sg_note = remark\<rparr>
      then Some \<lparr>ap_workflow_id = report_approval_workflow_id version_id,
             ap_report_version_id = version_id, ap_decision = decision, ap_status = ''signaled''\<rparr>
      else None)"

section \<open>Scheduled scans and monitors\<close>

record scan_request =
  sq_workspace_id :: str
  sq_schedule_id :: str
  sq_requested_by :: str
  sq_project_ids :: "str list"
  sq_dimensions :: "str list"
  sq_execution_mode :: str
  sq_max_projects :: int

record monitor_request =
  mq_workspace_id :: str
  mq_project_id :: str
  mq_monitor_id :: str
  mq_requested_by :: str
  mq_dimensions :: "str list"
  mq_execution_mode :: str
  mq_interval_seconds :: int
  mq_max_cycles :: int

definition scheduled_scan_workflow_id :: "scan_request \<Rightarrow> str" where
  "scheduled_scan_workflow_id r =
     compute_workflow_id ''scheduled-scan'' [JStr (sq_workspace_id r), JStr (sq_schedule_id r)] 32"

definition monitor_workflow_id :: "monitor_request \<Rightarrow> str" where
  "monitor_workflow_id r =
     compute_workflow_id ''monitor''
       [JStr (mq_workspace_id r), JStr (mq_project_id r), JStr (mq_monitor_id r)] 32"

record scan_start_response =
  ss_workflow_id :: str
  ss_workspace_id :: str
  ss_schedule_id :: str
  ss_task_queue :: str
  ss_status :: str

definition start_scheduled_scan ::
  "temporal \<Rightarrow> settings \<Rightarrow> scan_request \<Rightarrow> scan_start_response option" where
  "start_scheduled_scan tp c r =
     map_option (\<lambda>status.
       \<lparr>ss_workflow_id = scheduled_scan_workflow_id r, ss_workspace_id = sq_workspace_id r,
        ss_schedule_id = sq_schedule_id r, ss_task_queue = se_temporal_task_queue c,
        ss_status = status\<rparr>) (start_workflow tp (scheduled_scan_workflow_id r))"

record monitor_start_response =
  ms_workflow_id :: str
  ms_workspace_id :: str
  ms_project_id :: str
  ms_monitor_id :: str
  ms_task_queue :: str
  ms_status :: str

definition start_monitor ::
  "temporal \<Rightarrow> settings \<Rightarrow> monitor_request \<Rightarrow> monitor_start_response option" where
  "start_monitor tp c r =
     map_option (\<lambda>status.
       \<lparr>ms_workflow_id = monitor_workflow_id r, ms_workspace_id = mq_workspace_id r,
        ms_project_id = mq_project_id r, ms_monitor_id = mq_monitor_id r,
        ms_task_queue = se_temporal_task_queue c, ms_status = status\<rparr>)
       (start_workflow tp (monitor_workflow_id r))"

definition workflow_state_status :: "json \<Rightarrow> str" where
  "workflow_state_status v =
     (case v of
        JStr s \<Rightarrow>
          if s \<in> {''initialized'', ''creating_run'', ''running_langgraph'', ''loading_projection'',
                ''running'', ''waiting'', ''completed'', ''partial'', ''empty'', ''interrupted'',
                ''timed_out'', ''failed'', ''unknown''} then s else ''unknown''
      | _ \<Rightarrow> ''unknown'')"

section \<open>Cutover\<close>

text \<open>
  A run request as the cutover sees it: its idempotency key and the JSON object of its other
  fields.
\<close>

record run_request_key =
  rk_idempotency_key :: "str option"
  rk_payload :: jdict

record cutover_decision =
  cu_route :: str
  cu_target_percent :: int
  cu_bucket :: int
  cu_reason :: str

record cutover_status =
  ct_ready :: bool
  ct_backend :: str
  ct_target_percent :: int
  ct_reason :: str

definition stable_cutover_bucket :: "run_request_key \<Rightarrow> int" where
  "stable_cutover_bucket r =
     int (compute_cutover_bucket
       (or_str (rk_idempotency_key r) (compute_workflow_idempotency_key (rk_payload r)))
       ''temporal-cutover'')"

definition decide_temporal_cutover :: "settings \<Rightarrow> run_request_key \<Rightarrow> cutover_decision" where
  "decide_temporal_cutover c r =
     (let target = max 0 (min 100 (se_temporal_traffic_percent c));
          bucket = stable_cutover_bucket r
      in if se_run_orchestration_backend c \<noteq> ''temporal'' then
           \<lparr>cu_route = ''langgraph'', cu_target_percent = target, cu_bucket = 0,
            cu_reason = ''RUN_ORCHESTRATION_BACKEND is langgraph.''\<rparr>
         else if 100 \<le> target then
           \<lparr>cu_route = ''temporal'', cu_target_percent = target, cu_bucket = bucket,
            cu_reason = ''Temporal cutover target is 100%.''\<rparr>
         else if target \<le> 0 then
           \<lparr>cu_route = ''langgraph'', cu_target_percent = target, cu_bucket = bucket,
            cu_reason = ''Temporal cutover target is 0%.''\<rparr>
         else if bucket < target then
           \<lparr>cu_route = ''temporal'', cu_target_percent = target, cu_bucket = bucket,
            cu_reason = ''Stable request bucket falls inside Temporal cutover target.''\<rparr>
         else
           \<lparr>cu_route = ''langgraph'', cu_target_percent = target, cu_bucket = bucket,
            cu_reason = ''Stable request bucket remains on LangGraph during staged cutover.''\<rparr>)"

definition temporal_cutover_status :: "settings \<Rightarrow> cutover_status" where
  "temporal_cutover_status c =
     (let target = max 0 (min 100 (se_temporal_traffic_percent c))
      in if se_run_orchestration_backend c \<noteq> ''temporal'' then
           \<lparr>ct_ready = False, ct_backend = se_run_orchestration_backend c, ct_target_percent = target,
            ct_reason = ''RUN_ORCHESTRATION_BACKEND must be temporal for Phase 4 cutover.''\<rparr>
         else if target < 100 then
           \<lparr>ct_ready = False, ct_backend = ''temporal'', ct_target_percent = target,
            ct_reason = ''TEMPORAL_TRAFFIC_PERCENT must be 100 for Phase 4 cutover.''\<rparr>
         else
           \<lparr>ct_ready = True, ct_backend = ''temporal'', ct_target_percent = target,
            ct_reason = ''100% run traffic is routed through Temporal.''\<rparr>)"

section \<open>Properties\<close>

lemma cutover_route:
  "cu_route (decide_temporal_cutover c r) = ''temporal'' \<longleftrightarrow>
     se_run_orchestration_backend c = ''temporal''
       \<and> stable_cutover_bucket r < se_temporal_traffic_percent c"
proof -
  have "0 \<le> stable_cutover_bucket r" "stable_cutover_bucket r < 100"
    by (simp_all add: stable_cutover_bucket_def compute_cutover_bucket_def)
  then show ?thesis by (auto simp: decide_temporal_cutover_def Let_def)
qed

text \<open>
  A staged cutover never moves a request back: what goes to Temporal at some percentage goes there
  at every higher one, and all runs do exactly when the status says ready.
\<close>

lemma cutover_monotone:
  "cu_route (decide_temporal_cutover c r) = ''temporal'' \<Longrightarrow> se_temporal_traffic_percent c \<le> p \<Longrightarrow>
     cu_route (decide_temporal_cutover (c\<lparr>se_temporal_traffic_percent := p\<rparr>) r) = ''temporal''"
  by (auto simp: cutover_route)

lemma cutover_ready:
  "ct_ready (temporal_cutover_status c) \<Longrightarrow> cu_route (decide_temporal_cutover c r) = ''temporal''"
  by (auto simp: temporal_cutover_status_def decide_temporal_cutover_def Let_def split: if_splits)

end
