(* ===== verification/Monitors.thy ===== *)
theory Monitors
  imports WorkflowService
begin

text \<open>
  workflows/monitor.py and the \<open>MonitorActivities\<close> of workflows/activities.py: a monitor runs a
  project again and again, compares each report with the one before, and notifies anomalies. The
  run service is a parameter of an activity: the calls a run makes on the store and how it ends.
\<close>

section \<open>Runs\<close>

record run_create =
  rc_workspace_id :: str
  rc_project_id :: "str option"
  rc_idempotency_key :: "str option"
  rc_topic :: str
  rc_competitors :: "str list"
  rc_dimensions :: "str list"
  rc_competitor_layer :: "str option"
  rc_scenario_id :: "str option"
  rc_execution_mode :: str

text \<open>How creating and executing a run ended: an exception, no detail, or a run in a final status.\<close>

datatype run_outcome =
    RunRaised str
  | RunLost
  | RunReturned str str

type_synonym run_service = "run_create \<Rightarrow> (env \<times> store_call) list \<times> run_outcome"

definition layer_or_none :: "str option \<Rightarrow> str option" where
  "layer_or_none layer =
     (if layer \<in> {Some ''L1'', Some ''L2'', Some ''L3''} then layer else None)"

section \<open>Snapshots and anomalies\<close>

record monitor_snapshot =
  sn_project_id :: str
  sn_report_version_id :: "str option"
  sn_run_id :: "str option"
  sn_evidence_count :: int
  sn_claim_count :: int
  sn_report_chars :: int
  sn_report_hash :: str

record monitor_anomaly =
  an_id :: str
  an_severity :: str
  an_type :: str
  an_message :: str
  an_metadata :: jdict

record cycle_result =
  cr_cycle_index :: int
  cr_project_id :: str
  cr_status :: str
  cr_previous :: "monitor_snapshot option"
  cr_current :: "monitor_snapshot option"
  cr_run_id :: "str option"
  cr_report_version_id :: "str option"
  cr_anomalies :: "monitor_anomaly list"
  cr_error :: str

definition monitor_snapshot_from_report :: "report_version \<Rightarrow> monitor_snapshot" where
  "monitor_snapshot_from_report v =
     \<lparr>sn_project_id = rv_project_id v, sn_report_version_id = Some (rv_id v), sn_run_id = rv_run_id v,
      sn_evidence_count = int (length (rv_evidence_ids v)),
      sn_claim_count = int (length (rv_claim_ids v)), sn_report_chars = int (length (rv_report_md v)),
      sn_report_hash = take 32 (sha256_hex (rv_report_md v))\<rparr>"

definition latest_monitor_snapshot :: "str \<Rightarrow> store \<Rightarrow> monitor_snapshot option" where
  "latest_monitor_snapshot project_id s =
     (case list_report_versions (Some project_id) s of
        [] \<Rightarrow> None
      | v # _ \<Rightarrow> Some (monitor_snapshot_from_report v))"

definition anomaly_of :: "int \<Rightarrow> str \<Rightarrow> str \<Rightarrow> str \<Rightarrow> jdict \<Rightarrow> monitor_anomaly" where
  "anomaly_of cycle_index anomaly_type severity message metadata =
     \<lparr>an_id = compute_monitor_anomaly_id
        [JInt cycle_index, JStr anomaly_type, JStr message, JDict metadata],
      an_severity = severity, an_type = anomaly_type, an_message = message,
      an_metadata = (''cycle_index'', JInt cycle_index) # metadata\<rparr>"

definition detect_monitor_anomalies ::
  "monitor_snapshot option \<Rightarrow> monitor_snapshot option \<Rightarrow> str \<Rightarrow> str \<Rightarrow> int \<Rightarrow> monitor_anomaly list" where
  "detect_monitor_anomalies previous current status error cycle_index =
     (if status = ''failed'' then
        [anomaly_of cycle_index ''scan_failed'' ''critical''
          (''Monitor cycle failed: '' @ str_or error ''unknown error'') []]
      else [])
     @ (case current of
          None \<Rightarrow> [anomaly_of cycle_index ''report_missing'' ''critical''
            ''Monitor cycle did not produce a report version.'' []]
        | Some cur \<Rightarrow>
          (case previous of
             None \<Rightarrow> []
           | Some prev \<Rightarrow>
             (if sn_report_hash cur \<noteq> sn_report_hash prev then
                [anomaly_of cycle_index ''report_changed'' ''info''
                  ''Monitor detected a changed report body.''
                  [(''previous'', JStr (or_str (sn_report_version_id prev) '''')),
                   (''current'', JStr (or_str (sn_report_version_id cur) ''''))]]
              else [])
             @ (if sn_evidence_count cur < sn_evidence_count prev then
                  [anomaly_of cycle_index ''evidence_drop'' ''warning''
                    ''Evidence count dropped compared with the previous monitor baseline.''
                    [(''previous'', JInt (sn_evidence_count prev)),
                     (''current'', JInt (sn_evidence_count cur))]]
                else [])
             @ (if sn_claim_count cur < sn_claim_count prev then
                  [anomaly_of cycle_index ''claim_drop'' ''warning''
                    ''Claim count dropped compared with the previous monitor baseline.''
                    [(''previous'', JInt (sn_claim_count prev)),
                     (''current'', JInt (sn_claim_count cur))]]
                else [])))"

definition monitor_cycle_status :: "str \<Rightarrow> str" where
  "monitor_cycle_status status =
     (if status = ''interrupted'' then ''interrupted''
      else if status = ''failed'' then ''failed'' else ''completed'')"

definition notification_severity :: "monitor_anomaly list \<Rightarrow> str" where
  "notification_severity anomalies =
     (if ''critical'' \<in> set (map an_severity anomalies) then ''critical''
      else if ''warning'' \<in> set (map an_severity anomalies) then ''warning'' else ''info'')"

section \<open>Activities\<close>

definition cycle_run_request ::
  "monitor_request \<Rightarrow> project \<Rightarrow> competitor list \<Rightarrow> int \<Rightarrow> str \<Rightarrow> run_create" where
  "cycle_run_request req p competitors cycle_index started_at =
     \<lparr>rc_workspace_id = pj_workspace_id p, rc_project_id = Some (pj_id p),
      rc_idempotency_key = Some (compute_workflow_id ''monitor''
        [JStr (mq_monitor_id req), JStr (pj_id p), JInt cycle_index, JStr started_at] 32),
      rc_topic = pj_topic p, rc_competitors = map cp_name competitors,
      rc_dimensions = mq_dimensions req, rc_competitor_layer = layer_or_none (Some (pj_competitor_layer p)),
      rc_scenario_id = pj_scenario_id p, rc_execution_mode = mq_execution_mode req\<rparr>"

definition failed_cycle ::
  "env \<Rightarrow> monitor_request \<Rightarrow> project \<Rightarrow> monitor_snapshot option \<Rightarrow> int \<Rightarrow> str \<Rightarrow> store
    \<Rightarrow> cycle_result \<times> store" where
  "failed_cycle env req p previous cycle_index message s =
     (let error = take 1000 message
      in (\<lparr>cr_cycle_index = cycle_index, cr_project_id = pj_id p, cr_status = ''failed'',
           cr_previous = previous, cr_current = None, cr_run_id = None, cr_report_version_id = None,
           cr_anomalies = detect_monitor_anomalies previous None ''failed'' error cycle_index,
           cr_error = error\<rparr>,
          snd (record_monitor_job_run env (mq_monitor_id req) ''failed'' None None None error
            (Some (mq_requested_by req)) s)))"

definition finished_cycle ::
  "env \<Rightarrow> monitor_request \<Rightarrow> project \<Rightarrow> monitor_snapshot option \<Rightarrow> int \<Rightarrow> str \<Rightarrow> str \<Rightarrow> store
    \<Rightarrow> cycle_result \<times> store" where
  "finished_cycle env req p previous cycle_index run_id run_status s =
     (let current = (case get_run_projection run_id s of
              Some pr \<Rightarrow> Some (monitor_snapshot_from_report (rp_report_version pr))
            | None \<Rightarrow> latest_monitor_snapshot (pj_id p) s);
          status = monitor_cycle_status run_status;
          error = (if run_status = ''failed'' then ''Run failed during monitor cycle.'' else '''');
          version_id = (case current of None \<Rightarrow> None | Some c \<Rightarrow> sn_report_version_id c)
      in (\<lparr>cr_cycle_index = cycle_index, cr_project_id = pj_id p, cr_status = status,
           cr_previous = previous, cr_current = current, cr_run_id = Some run_id,
           cr_report_version_id = version_id,
           cr_anomalies = detect_monitor_anomalies previous current status error cycle_index,
           cr_error = error\<rparr>,
          snd (record_monitor_job_run env (mq_monitor_id req) status None (Some run_id) version_id error
            (Some (mq_requested_by req)) s)))"

definition run_cycle ::
  "env \<Rightarrow> run_service \<Rightarrow> monitor_request \<Rightarrow> int \<Rightarrow> str \<Rightarrow> (store, cycle_result) op" where
  "run_cycle env svc req cycle_index started_at s =
     (case get_project (mq_project_id req) s of
        None \<Rightarrow> (Inl (RuntimeError (''Project not found for monitor: '' @ mq_project_id req)), s)
      | Some p \<Rightarrow>
        if pj_workspace_id p \<noteq> mq_workspace_id req then
          (Inl (RuntimeError ''Monitor project does not belong to the requested workspace.''), s)
        else
          let previous = latest_monitor_snapshot (mq_project_id req) s;
              (calls, outcome) = svc (cycle_run_request req p
                (list_competitors None (Some (pj_id p)) s) cycle_index started_at);
              s1 = run_calls calls s;
              (result, s2) = (case outcome of
                  RunRaised e \<Rightarrow> failed_cycle env req p previous cycle_index e s1
                | RunLost \<Rightarrow> failed_cycle env req p previous cycle_index
                    ''Monitor run disappeared during execution.'' s1
                | RunReturned run_id status \<Rightarrow>
                    finished_cycle env req p previous cycle_index run_id status s1)
          in (Inr result, s2))"

definition anomaly_payload :: "monitor_anomaly \<Rightarrow> jdict" where
  "anomaly_payload a =
     [(''id'', JStr (an_id a)), (''severity'', JStr (an_severity a)),
      (''anomaly_type'', JStr (an_type a)), (''message'', JStr (an_message a)),
      (''metadata'', JDict (an_metadata a))]"

record monitor_notice =
  mn_notification_id :: "str option"
  mn_status :: str
  mn_anomaly_count :: int

definition anomaly_notification ::
  "env \<Rightarrow> monitor_request \<Rightarrow> cycle_result \<Rightarrow> str \<Rightarrow> notification" where
  "anomaly_notification env req r started_at =
     \<lparr>nt_id = compute_notification_id [JStr (mq_workspace_id req), JStr (mq_project_id req),
        JStr (mq_monitor_id req), JInt (cr_cycle_index r), JStr started_at],
      nt_workspace_id = mq_workspace_id req, nt_project_id = Some (mq_project_id req),
      nt_notification_type = ''anomaly_alert'', nt_channel = ''in_app'',
      nt_severity = notification_severity (cr_anomalies r), nt_status = ''sent'',
      nt_title = ''Monitor alert: '' @ str_of_int (int (length (cr_anomalies r))) @ '' anomaly signals'',
      nt_body = join ''; '' (map an_message (take 3 (cr_anomalies r))),
      nt_resource_type = Some ''monitor'', nt_resource_id = Some (mq_monitor_id req),
      nt_created_by = Some (mq_requested_by req), nt_created_at = env_now env,
      nt_sent_at = Some (env_now env), nt_read_at = None,
      nt_metadata =
        [(''monitor_id'', JStr (mq_monitor_id req)), (''cycle_index'', JInt (cr_cycle_index r)),
         (''run_id'', jstr_opt (cr_run_id r)), (''report_version_id'', jstr_opt (cr_report_version_id r)),
         (''monitor_started_at'', JStr started_at),
         (''anomalies'', JList (map (\<lambda>a. JDict (anomaly_payload a)) (cr_anomalies r)))]\<rparr>"

definition record_anomaly_notification ::
  "env \<Rightarrow> monitor_request \<Rightarrow> cycle_result \<Rightarrow> str \<Rightarrow> (store, monitor_notice) op" where
  "record_anomaly_notification env req r started_at s =
     (let (stored, s1) = upsert_notification env (anomaly_notification env req r started_at) s
      in (Inr \<lparr>mn_notification_id = Some (nt_id stored), mn_status = nt_status stored,
             mn_anomaly_count = int (length (cr_anomalies r))\<rparr>, s1))"

section \<open>Payloads\<close>

text \<open>
  The readers of workflow payloads. The two workflow modules have the same ones, each naming its
  kind in the messages; \<open>in\<close> on a set of strings raises on a list or an object.
\<close>

definition read_text :: "str \<Rightarrow> jdict \<Rightarrow> str \<Rightarrow> py_error + str" where
  "read_text kind payload k =
     (case map_of payload k of
        Some (JStr s) \<Rightarrow> Inr s
      | _ \<Rightarrow> Inl (ValueError (kind @ '' payload field '' @ py_repr (JStr k) @ '' must be a string.'')))"

definition read_optional_text :: "str \<Rightarrow> jdict \<Rightarrow> str \<Rightarrow> py_error + str option" where
  "read_optional_text kind payload k =
     (case map_of payload k of
        None \<Rightarrow> Inr None
      | Some JNull \<Rightarrow> Inr None
      | Some (JStr s) \<Rightarrow> Inr (Some s)
      | _ \<Rightarrow> Inl (ValueError (kind @ '' optional text field must be a string or null.'')))"

definition read_int :: "str \<Rightarrow> jdict \<Rightarrow> str \<Rightarrow> py_error + int" where
  "read_int kind payload k =
     (case map_of payload k of
        None \<Rightarrow> Inr 0
      | Some JNull \<Rightarrow> Inr 0
      | Some (JBool _) \<Rightarrow> Inl (ValueError (kind @ '' integer field must not be boolean.''))
      | Some (JInt n) \<Rightarrow> Inr n
      | _ \<Rightarrow> Inl (ValueError (kind @ '' integer field must be an integer.'')))"

definition unhashable :: "json \<Rightarrow> py_error" where
  "unhashable v = TypeError (''unhashable type: ''
     @ py_repr (JStr (case v of JList _ \<Rightarrow> ''list'' | _ \<Rightarrow> ''dict'')))"

definition read_choice :: "str \<Rightarrow> str list \<Rightarrow> jdict \<Rightarrow> str \<Rightarrow> py_error + str" where
  "read_choice message choices payload k =
     (case map_of payload k of
        Some (JStr s) \<Rightarrow> if s \<in> set choices then Inr s else Inl (ValueError message)
      | Some (JList xs) \<Rightarrow> Inl (unhashable (JList xs))
      | Some (JDict d) \<Rightarrow> Inl (unhashable (JDict d))
      | _ \<Rightarrow> Inl (ValueError message))"

definition snapshot_payload :: "monitor_snapshot \<Rightarrow> jdict" where
  "snapshot_payload n =
     [(''project_id'', JStr (sn_project_id n)),
      (''report_version_id'', jstr_opt (sn_report_version_id n)),
      (''run_id'', jstr_opt (sn_run_id n)), (''evidence_count'', JInt (sn_evidence_count n)),
      (''claim_count'', JInt (sn_claim_count n)), (''report_chars'', JInt (sn_report_chars n)),
      (''report_hash'', JStr (sn_report_hash n))]"

definition optional_payload :: "('a \<Rightarrow> jdict) \<Rightarrow> 'a option \<Rightarrow> json" where
  "optional_payload f x = (case x of None \<Rightarrow> JNull | Some y \<Rightarrow> JDict (f y))"

definition cycle_payload :: "cycle_result \<Rightarrow> jdict" where
  "cycle_payload r =
     [(''cycle_index'', JInt (cr_cycle_index r)), (''project_id'', JStr (cr_project_id r)),
      (''status'', JStr (cr_status r)), (''previous'', optional_payload snapshot_payload (cr_previous r)),
      (''current'', optional_payload snapshot_payload (cr_current r)),
      (''run_id'', jstr_opt (cr_run_id r)), (''report_version_id'', jstr_opt (cr_report_version_id r)),
      (''anomalies'', JList (map (\<lambda>a. JDict (anomaly_payload a)) (cr_anomalies r))),
      (''error'', JStr (cr_error r))]"

definition notice_payload :: "monitor_notice \<Rightarrow> jdict" where
  "notice_payload n =
     [(''notification_id'', jstr_opt (mn_notification_id n)), (''status'', JStr (mn_status n)),
      (''anomaly_count'', JInt (mn_anomaly_count n))]"

definition coerce_optional_snapshot :: "json option \<Rightarrow> py_error + monitor_snapshot option" where
  "coerce_optional_snapshot v =
     (case v of
        None \<Rightarrow> Inr None
      | Some JNull \<Rightarrow> Inr None
      | Some (JDict d) \<Rightarrow>
          err_bind (read_text ''Monitor'' d ''project_id'') (\<lambda>p.
          err_bind (read_optional_text ''Monitor'' d ''report_version_id'') (\<lambda>rv.
          err_bind (read_optional_text ''Monitor'' d ''run_id'') (\<lambda>run.
          err_bind (read_int ''Monitor'' d ''evidence_count'') (\<lambda>e.
          err_bind (read_int ''Monitor'' d ''claim_count'') (\<lambda>c.
          err_bind (read_int ''Monitor'' d ''report_chars'') (\<lambda>n.
          err_bind (read_optional_text ''Monitor'' d ''report_hash'') (\<lambda>h.
            Inr (Some \<lparr>sn_project_id = p, sn_report_version_id = rv, sn_run_id = run,
              sn_evidence_count = e, sn_claim_count = c, sn_report_chars = n,
              sn_report_hash = or_str h ''''\<rparr>))))))))
      | _ \<Rightarrow> Inl (ValueError ''Monitor snapshot must be an object or null.''))"

definition json_type_name :: "json \<Rightarrow> str" where
  "json_type_name v = (case v of JNull \<Rightarrow> ''NoneType'' | JBool _ \<Rightarrow> ''bool'' | JInt _ \<Rightarrow> ''int''
     | JFloat _ _ \<Rightarrow> ''float'' | JStr _ \<Rightarrow> ''str'' | JList _ \<Rightarrow> ''list'' | JDict _ \<Rightarrow> ''dict'')"

definition no_get :: "json \<Rightarrow> py_error" where
  "no_get v = AttributeError (py_repr (JStr (json_type_name v)) @ '' object has no attribute ''
     @ py_repr (JStr ''get''))"

definition anomaly_types :: "str list" where
  "anomaly_types = [''scan_failed'', ''report_missing'', ''report_changed'', ''evidence_drop'', ''claim_drop'']"

definition coerce_anomaly :: "json \<Rightarrow> py_error + monitor_anomaly" where
  "coerce_anomaly v =
     (case v of
        JDict d \<Rightarrow>
          err_bind (read_text ''Monitor'' d ''id'') (\<lambda>i.
          err_bind (read_choice ''Monitor anomaly severity field is invalid.''
            [''info'', ''warning'', ''critical''] d ''severity'') (\<lambda>sev.
          err_bind (read_choice ''Monitor anomaly type field is invalid.''
            anomaly_types d ''anomaly_type'') (\<lambda>t.
          err_bind (read_text ''Monitor'' d ''message'') (\<lambda>m.
            Inr \<lparr>an_id = i, an_severity = sev, an_type = t, an_message = m,
              an_metadata = (case map_of d ''metadata'' of Some (JDict md) \<Rightarrow> md | _ \<Rightarrow> [])\<rparr>))))
      | _ \<Rightarrow> Inl (no_get v))"

definition coerce_anomalies :: "json option \<Rightarrow> py_error + monitor_anomaly list" where
  "coerce_anomalies v =
     (case v of
        None \<Rightarrow> Inr []
      | Some JNull \<Rightarrow> Inr []
      | Some (JList xs) \<Rightarrow> err_map coerce_anomaly xs
      | _ \<Rightarrow> Inl (ValueError ''Monitor anomalies field must be a list.''))"

definition coerce_cycle_result :: "jdict \<Rightarrow> py_error + cycle_result" where
  "coerce_cycle_result d =
     err_bind (read_int ''Monitor'' d ''cycle_index'') (\<lambda>i.
     err_bind (read_text ''Monitor'' d ''project_id'') (\<lambda>p.
     err_bind (read_choice ''Monitor cycle status field is invalid.''
       [''completed'', ''interrupted'', ''failed''] d ''status'') (\<lambda>st.
     err_bind (coerce_optional_snapshot (map_of d ''previous'')) (\<lambda>prev.
     err_bind (coerce_optional_snapshot (map_of d ''current'')) (\<lambda>cur.
     err_bind (read_optional_text ''Monitor'' d ''run_id'') (\<lambda>run.
     err_bind (read_optional_text ''Monitor'' d ''report_version_id'') (\<lambda>rv.
     err_bind (coerce_anomalies (map_of d ''anomalies'')) (\<lambda>as.
     err_bind (read_optional_text ''Monitor'' d ''error'') (\<lambda>e.
       Inr \<lparr>cr_cycle_index = i, cr_project_id = p, cr_status = st, cr_previous = prev,
         cr_current = cur, cr_run_id = run, cr_report_version_id = rv, cr_anomalies = as,
         cr_error = or_str e ''''\<rparr>)))))))))"

definition coerce_monitor_notice :: "jdict \<Rightarrow> py_error + monitor_notice" where
  "coerce_monitor_notice d =
     err_bind (read_optional_text ''Monitor'' d ''notification_id'') (\<lambda>i.
     err_bind (read_text ''Monitor'' d ''status'') (\<lambda>st.
     err_bind (read_int ''Monitor'' d ''anomaly_count'') (\<lambda>n.
       Inr \<lparr>mn_notification_id = i, mn_status = st, mn_anomaly_count = n\<rparr>)))"
section \<open>The workflow\<close>

text \<open>
  One attempt of an activity that has been attempted \<open>k\<close> times before and may be attempted
  \<open>limit\<close> times: its effects on the store stay, whether it raises, or returns with or without
  its completion being delivered. \<open>Exhausted\<close> tells what the last attempt raised, if it did.
\<close>

datatype 'a activity_end =
    Again nat
  | Exhausted "py_error option"
  | Answer 'a

definition try_activity ::
  "nat \<Rightarrow> (store, 'a) op \<Rightarrow> bool \<Rightarrow> nat \<Rightarrow> store \<Rightarrow> 'a activity_end \<times> store" where
  "try_activity limit act delivered k s =
     (let (r, s') = act s
      in (case r of
            Inr x \<Rightarrow>
              if delivered then Answer x
              else if k + 1 < limit then Again (k + 1) else Exhausted None
          | Inl e \<Rightarrow> if k + 1 < limit then Again (k + 1) else Exhausted (Some e), s'))"

record monitor_outcome =
  mr_status :: str
  mr_cycle_count :: int
  mr_failed_count :: int
  mr_anomaly_count :: int
  mr_run_ids :: "str list"
  mr_notification_ids :: "str list"
  mr_started_at :: str

datatype monitor_phase =
    Cycling nat
  | Notifying cycle_result nat
  | Sleeping
  | MonitorDone monitor_outcome
  | MonitorFailed
  | MonitorStuck

record monitor_workflow =
  mw_request :: monitor_request
  mw_status :: str
  mw_started_at :: str
  mw_cycle_index :: nat
  mw_cycle_count :: nat
  mw_failed_count :: nat
  mw_anomaly_count :: nat
  mw_results :: "cycle_result list"
  mw_notification_ids :: "str list"
  mw_phase :: monitor_phase

datatype monitor_event =
    MonitorAttempt env run_service bool
  | MonitorWake
  | MonitorOther env store_call

definition start_monitor_workflow :: "monitor_request \<Rightarrow> str \<Rightarrow> monitor_workflow" where
  "start_monitor_workflow req now =
     \<lparr>mw_request = req, mw_status = ''running'', mw_started_at = now, mw_cycle_index = 0,
      mw_cycle_count = nat (max 1 (mq_max_cycles req)), mw_failed_count = 0, mw_anomaly_count = 0,
      mw_results = [], mw_notification_ids = [], mw_phase = Cycling 0\<rparr>"

definition monitor_status :: "nat \<Rightarrow> nat \<Rightarrow> str" where
  "monitor_status count failed =
     (if 0 < count \<and> failed = count then ''failed''
      else if failed \<noteq> 0 then ''partial'' else ''completed'')"

definition given_texts :: "str option list \<Rightarrow> str list" where
  "given_texts xs = List.map_filter (\<lambda>x. if given x then x else None) xs"

definition monitor_result_of :: "monitor_workflow \<Rightarrow> monitor_outcome" where
  "monitor_result_of w =
     (let rs = mw_results w; failed = count_if (\<lambda>r. cr_status r = ''failed'') rs
      in \<lparr>mr_status = monitor_status (length rs) failed, mr_cycle_count = int (length rs),
          mr_failed_count = int failed,
          mr_anomaly_count = int (sum_list (map (\<lambda>r. length (cr_anomalies r)) rs)),
          mr_run_ids = given_texts (map cr_run_id rs),
          mr_notification_ids = mw_notification_ids w, mr_started_at = mw_started_at w\<rparr>)"

text \<open>The end of the loop body: the result is counted, then the timer or the end of the loop.\<close>

definition cycle_finished :: "cycle_result \<Rightarrow> monitor_workflow \<Rightarrow> monitor_workflow" where
  "cycle_finished r w =
     (let rs = mw_results w @ [r];
          w1 = w\<lparr>mw_results := rs,
            mw_failed_count := count_if (\<lambda>r. cr_status r = ''failed'') rs,
            mw_anomaly_count := sum_list (map (\<lambda>r. length (cr_anomalies r)) rs)\<rparr>;
          result = monitor_result_of w1
      in if mw_cycle_index w + 1 < mw_cycle_count w then w1\<lparr>mw_phase := Sleeping\<rparr>
         else w1\<lparr>mw_status := mr_status result, mw_phase := MonitorDone result\<rparr>)"

definition cycle_returned :: "jdict \<Rightarrow> monitor_workflow \<Rightarrow> monitor_workflow" where
  "cycle_returned payload w =
     (case coerce_cycle_result payload of
        Inl _ \<Rightarrow> w\<lparr>mw_phase := MonitorStuck\<rparr>
      | Inr r \<Rightarrow> if cr_anomalies r \<noteq> [] then w\<lparr>mw_phase := Notifying r 0\<rparr> else cycle_finished r w)"

definition notice_returned :: "cycle_result \<Rightarrow> jdict \<Rightarrow> monitor_workflow \<Rightarrow> monitor_workflow" where
  "notice_returned r payload w =
     (case coerce_monitor_notice payload of
        Inl _ \<Rightarrow> w\<lparr>mw_phase := MonitorStuck\<rparr>
      | Inr n \<Rightarrow>
          cycle_finished r (w\<lparr>mw_notification_ids := mw_notification_ids w
            @ given_texts [mn_notification_id n]\<rparr>))"

fun monitor_step ::
  "monitor_event \<Rightarrow> monitor_workflow \<times> store \<Rightarrow> monitor_workflow \<times> store" where
  "monitor_step (MonitorAttempt env svc delivered) (w, s) =
     (case mw_phase w of
        Cycling k \<Rightarrow>
          (case try_activity 2 (run_cycle env svc (mw_request w) (int (mw_cycle_index w))
              (mw_started_at w)) delivered k s of
             (Again j, s') \<Rightarrow> (w\<lparr>mw_phase := Cycling j\<rparr>, s')
           | (Exhausted _, s') \<Rightarrow> (w\<lparr>mw_phase := MonitorFailed\<rparr>, s')
           | (Answer r, s') \<Rightarrow> (cycle_returned (cycle_payload r) w, s'))
      | Notifying r k \<Rightarrow>
          (case try_activity 3 (record_anomaly_notification env (mw_request w) r (mw_started_at w))
              delivered k s of
             (Again j, s') \<Rightarrow> (w\<lparr>mw_phase := Notifying r j\<rparr>, s')
           | (Exhausted _, s') \<Rightarrow> (w\<lparr>mw_phase := MonitorFailed\<rparr>, s')
           | (Answer n, s') \<Rightarrow> (notice_returned r (notice_payload n) w, s'))
      | _ \<Rightarrow> (w, s))"
| "monitor_step MonitorWake (w, s) =
     (case mw_phase w of
        Sleeping \<Rightarrow> (w\<lparr>mw_cycle_index := mw_cycle_index w + 1, mw_phase := Cycling 0\<rparr>, s)
      | _ \<Rightarrow> (w, s))"
| "monitor_step (MonitorOther env c) (w, s) = (w, run_call env c s)"

definition run_monitor ::
  "monitor_request \<Rightarrow> str \<Rightarrow> monitor_event list \<Rightarrow> store \<Rightarrow> monitor_workflow \<times> store" where
  "run_monitor req now evs s = fold monitor_step evs (start_monitor_workflow req now, s)"

text \<open>The query \<open>state\<close>.\<close>

definition monitor_query :: "monitor_workflow \<Rightarrow> jdict" where
  "monitor_query w =
     [(''workflow_type'', JStr ''MonitorWorkflow''), (''status'', JStr (mw_status w)),
      (''monitor_started_at'', JStr (mw_started_at w)), (''cycle_index'', JInt (int (mw_cycle_index w))),
      (''cycle_count'', JInt (int (mw_cycle_count w))), (''failed_count'', JInt (int (mw_failed_count w))),
      (''anomaly_count'', JInt (int (mw_anomaly_count w)))]"
end
