(* ===== verification/Scans.thy ===== *)
theory Scans
  imports Monitors
begin

text \<open>
  workflows/scheduled_scan.py and the \<open>ScheduledScanActivities\<close> of workflows/activities.py: a scan
  runs the projects of a workspace one after the other and sends one summary. A project whose
  activity finally fails is counted as failed and the scan goes on. Temporal's text for such a
  failure is a parameter, of the exception the last attempt raised or of the missing completion.
\<close>

section \<open>Targets and results\<close>

record scan_target =
  tg_project_id :: str
  tg_workspace_id :: str
  tg_topic :: str
  tg_competitors :: "str list"
  tg_dimensions :: "str list"
  tg_competitor_layer :: "str option"
  tg_scenario_id :: "str option"

record project_result =
  sp_project_id :: str
  sp_run_id :: "str option"
  sp_status :: str
  sp_report_version_id :: "str option"
  sp_evidence_count :: int
  sp_claim_count :: int
  sp_error :: str

record scan_notice =
  sk_notification_id :: "str option"
  sk_status :: str

record scan_result =
  sr_status :: str
  sr_scanned_project_count :: int
  sr_completed_count :: int
  sr_failed_count :: int
  sr_interrupted_count :: int
  sr_run_ids :: "str list"
  sr_report_version_ids :: "str list"
  sr_notification_id :: "str option"
  sr_started_at :: str

section \<open>Activities\<close>

definition target_from_project :: "project \<Rightarrow> str list \<Rightarrow> store \<Rightarrow> scan_target" where
  "target_from_project p default_dimensions s =
     \<lparr>tg_project_id = pj_id p, tg_workspace_id = pj_workspace_id p, tg_topic = pj_topic p,
      tg_competitors = map cp_name (list_competitors None (Some (pj_id p)) s),
      tg_dimensions = (if default_dimensions \<noteq> [] then default_dimensions
        else [''pricing'', ''feature'', ''persona'']),
      tg_competitor_layer = layer_or_none (Some (pj_competitor_layer p)),
      tg_scenario_id = pj_scenario_id p\<rparr>"

definition list_targets :: "scan_request \<Rightarrow> (store, scan_target list) op" where
  "list_targets req s =
     (let projects = list_projects (Some (sq_workspace_id req)) s;
          wanted = (if sq_project_ids req \<noteq> []
            then filter (\<lambda>p. pj_id p \<in> set (sq_project_ids req)) projects else projects)
      in (Inr (map (\<lambda>p. target_from_project p (sq_dimensions req) s)
             (take (nat (max 1 (sq_max_projects req))) wanted)), s))"

definition scan_idempotency_key :: "str \<Rightarrow> str \<Rightarrow> str \<Rightarrow> str" where
  "scan_idempotency_key schedule_id project_id started_at =
     compute_workflow_id ''scheduled'' [JStr schedule_id, JStr project_id, JStr started_at] 32"

definition scan_run_request :: "scan_request \<Rightarrow> scan_target \<Rightarrow> str \<Rightarrow> run_create" where
  "scan_run_request req t started_at =
     \<lparr>rc_workspace_id = tg_workspace_id t, rc_project_id = Some (tg_project_id t),
      rc_idempotency_key = Some (scan_idempotency_key (sq_schedule_id req) (tg_project_id t) started_at),
      rc_topic = tg_topic t, rc_competitors = tg_competitors t,
      rc_dimensions = (if tg_dimensions t \<noteq> [] then tg_dimensions t else sq_dimensions req),
      rc_competitor_layer = tg_competitor_layer t, rc_scenario_id = tg_scenario_id t,
      rc_execution_mode = sq_execution_mode req\<rparr>"

definition scan_project_status :: "str \<Rightarrow> str" where
  "scan_project_status status =
     (if status = ''interrupted'' then ''interrupted''
      else if status = ''failed'' then ''failed'' else ''completed'')"

definition run_project_scan ::
  "run_service \<Rightarrow> scan_request \<Rightarrow> scan_target \<Rightarrow> str \<Rightarrow> (store, project_result) op" where
  "run_project_scan svc req t started_at s =
     (let (calls, outcome) = svc (scan_run_request req t started_at);
          s1 = run_calls calls s
      in (case outcome of
            RunRaised e \<Rightarrow> (Inl (RuntimeError e), s1)
          | RunLost \<Rightarrow> (Inl (RuntimeError (''Scheduled scan run disappeared: ''
              @ scan_idempotency_key (sq_schedule_id req) (tg_project_id t) started_at)), s1)
          | RunReturned run_id status \<Rightarrow>
              let projection = get_run_projection run_id s1
              in (Inr \<lparr>sp_project_id = tg_project_id t, sp_run_id = Some run_id,
                   sp_status = scan_project_status status,
                   sp_report_version_id = map_option (\<lambda>p. rv_id (rp_report_version p)) projection,
                   sp_evidence_count = (case projection of
                     Some p \<Rightarrow> int (length (rp_evidence_records p)) | None \<Rightarrow> 0),
                   sp_claim_count = (case projection of
                     Some p \<Rightarrow> int (length (rp_claim_records p)) | None \<Rightarrow> 0),
                   sp_error = (if status = ''failed'' then ''Run failed during scheduled scan.'' else '''')\<rparr>,
                 s1)))"

definition project_payload :: "project_result \<Rightarrow> jdict" where
  "project_payload r =
     [(''project_id'', JStr (sp_project_id r)), (''run_id'', jstr_opt (sp_run_id r)),
      (''status'', JStr (sp_status r)), (''report_version_id'', jstr_opt (sp_report_version_id r)),
      (''evidence_count'', JInt (sp_evidence_count r)), (''claim_count'', JInt (sp_claim_count r)),
      (''error'', JStr (sp_error r))]"

definition status_count :: "str \<Rightarrow> project_result list \<Rightarrow> nat" where
  "status_count status rs = count_if (\<lambda>r. sp_status r = status) rs"

definition scan_notification ::
  "env \<Rightarrow> scan_request \<Rightarrow> project_result list \<Rightarrow> str \<Rightarrow> notification" where
  "scan_notification env req results started_at =
     (let completed = int (status_count ''completed'' results);
          failed = int (status_count ''failed'' results);
          interrupted = int (status_count ''interrupted'' results);
          n = int (length results)
      in \<lparr>nt_id = compute_notification_id
            [JStr (sq_workspace_id req), JStr (sq_schedule_id req), JStr started_at],
          nt_workspace_id = sq_workspace_id req, nt_project_id = None,
          nt_notification_type = ''scheduled_scan_summary'', nt_channel = ''in_app'',
          nt_severity = (if failed = 0 then ''success'' else ''warning''), nt_status = ''sent'',
          nt_title = ''Scheduled scan finished: '' @ str_of_int completed @ ''/'' @ str_of_int n
            @ '' completed'',
          nt_body = ''Schedule '' @ sq_schedule_id req @ '' scanned '' @ str_of_int n @ '' projects; ''
            @ str_of_int failed @ '' failed and '' @ str_of_int interrupted @ '' interrupted.'',
          nt_resource_type = Some ''scheduled_scan'', nt_resource_id = Some (sq_schedule_id req),
          nt_created_by = Some (sq_requested_by req), nt_created_at = env_now env,
          nt_sent_at = Some (env_now env), nt_read_at = None,
          nt_metadata =
            [(''scan_started_at'', JStr started_at), (''completed_count'', JInt completed),
             (''failed_count'', JInt failed), (''interrupted_count'', JInt interrupted),
             (''results'', JList (map (\<lambda>r. JDict (project_payload r)) results))]\<rparr>)"

definition record_scan_notification ::
  "env \<Rightarrow> scan_request \<Rightarrow> project_result list \<Rightarrow> str \<Rightarrow> (store, scan_notice) op" where
  "record_scan_notification env req results started_at s =
     (let (stored, s1) = upsert_notification env (scan_notification env req results started_at) s
      in (Inr \<lparr>sk_notification_id = Some (nt_id stored), sk_status = nt_status stored\<rparr>, s1))"

section \<open>Payloads\<close>

definition target_payload :: "scan_target \<Rightarrow> jdict" where
  "target_payload t =
     [(''project_id'', JStr (tg_project_id t)), (''workspace_id'', JStr (tg_workspace_id t)),
      (''topic'', JStr (tg_topic t)), (''competitors'', jstrs (tg_competitors t)),
      (''dimensions'', jstrs (tg_dimensions t)),
      (''competitor_layer'', jstr_opt (tg_competitor_layer t)),
      (''scenario_id'', jstr_opt (tg_scenario_id t))]"

definition scan_notice_payload :: "scan_notice \<Rightarrow> jdict" where
  "scan_notice_payload n =
     [(''notification_id'', jstr_opt (sk_notification_id n)), (''status'', JStr (sk_status n))]"

definition json_text :: "json \<Rightarrow> str option" where
  "json_text v = (case v of JStr x \<Rightarrow> Some x | _ \<Rightarrow> None)"

definition read_text_list :: "jdict \<Rightarrow> str \<Rightarrow> py_error + str list" where
  "read_text_list payload k =
     (let refused = Inl (ValueError ''Scheduled scan list field must be a list of strings.'')
      in case map_of payload k of
           None \<Rightarrow> Inr []
         | Some JNull \<Rightarrow> Inr []
         | Some (JList xs) \<Rightarrow>
             if list_all (\<lambda>v. json_text v \<noteq> None) xs then Inr (List.map_filter json_text xs) else refused
         | _ \<Rightarrow> refused)"

definition read_optional_layer :: "jdict \<Rightarrow> str \<Rightarrow> py_error + str option" where
  "read_optional_layer payload k =
     (case map_of payload k of
        None \<Rightarrow> Inr None
      | Some JNull \<Rightarrow> Inr None
      | Some (JStr x) \<Rightarrow>
          if x \<in> {''L1'', ''L2'', ''L3''} then Inr (Some x)
          else Inl (ValueError ''Scheduled scan competitor layer is invalid.'')
      | Some (JList xs) \<Rightarrow> Inl (unhashable (JList xs))
      | Some (JDict d) \<Rightarrow> Inl (unhashable (JDict d))
      | _ \<Rightarrow> Inl (ValueError ''Scheduled scan competitor layer is invalid.''))"

definition coerce_target :: "json \<Rightarrow> py_error + scan_target" where
  "coerce_target v =
     (case v of
        JDict d \<Rightarrow>
          err_bind (read_text ''Scheduled scan'' d ''project_id'') (\<lambda>p.
          err_bind (read_text ''Scheduled scan'' d ''workspace_id'') (\<lambda>w.
          err_bind (read_text ''Scheduled scan'' d ''topic'') (\<lambda>t.
          err_bind (read_text_list d ''competitors'') (\<lambda>cs.
          err_bind (read_text_list d ''dimensions'') (\<lambda>ds.
          err_bind (read_optional_layer d ''competitor_layer'') (\<lambda>l.
          err_bind (read_optional_text ''Scheduled scan'' d ''scenario_id'') (\<lambda>sc.
            Inr \<lparr>tg_project_id = p, tg_workspace_id = w, tg_topic = t, tg_competitors = cs,
              tg_dimensions = ds, tg_competitor_layer = l, tg_scenario_id = sc\<rparr>)))))))
      | _ \<Rightarrow> Inl (no_get v))"

definition coerce_targets :: "json \<Rightarrow> py_error + scan_target list" where
  "coerce_targets v =
     (case v of
        JList xs \<Rightarrow> err_map coerce_target xs
      | _ \<Rightarrow> Inl (ValueError ''Scheduled scan targets activity must return a list.''))"

definition coerce_project_result :: "jdict \<Rightarrow> py_error + project_result" where
  "coerce_project_result d =
     err_bind (read_text ''Scheduled scan'' d ''project_id'') (\<lambda>p.
     err_bind (read_optional_text ''Scheduled scan'' d ''run_id'') (\<lambda>run.
     err_bind (read_choice ''Scheduled scan project result status is invalid.''
       [''completed'', ''interrupted'', ''failed''] d ''status'') (\<lambda>st.
     err_bind (read_optional_text ''Scheduled scan'' d ''report_version_id'') (\<lambda>rv.
     err_bind (read_int ''Scheduled scan'' d ''evidence_count'') (\<lambda>e.
     err_bind (read_int ''Scheduled scan'' d ''claim_count'') (\<lambda>c.
     err_bind (read_optional_text ''Scheduled scan'' d ''error'') (\<lambda>err.
       Inr \<lparr>sp_project_id = p, sp_run_id = run, sp_status = st, sp_report_version_id = rv,
         sp_evidence_count = e, sp_claim_count = c, sp_error = or_str err ''''\<rparr>)))))))"

definition coerce_scan_notice :: "jdict \<Rightarrow> py_error + scan_notice" where
  "coerce_scan_notice d =
     err_bind (read_optional_text ''Scheduled scan'' d ''notification_id'') (\<lambda>i.
     err_bind (read_text ''Scheduled scan'' d ''status'') (\<lambda>st.
       Inr \<lparr>sk_notification_id = i, sk_status = st\<rparr>))"

section \<open>The workflow\<close>

datatype scan_phase =
    Listing nat
  | Scanning "scan_target list" nat
  | Summarising nat
  | ScanDone scan_result
  | ScanFailed
  | ScanStuck

record scan_workflow =
  sw_request :: scan_request
  sw_status :: str
  sw_started_at :: str
  sw_targets :: "scan_target list"
  sw_results :: "project_result list"
  sw_phase :: scan_phase

datatype scan_event =
    ScanAttempt env run_service bool
  | ScanOther env store_call

definition start_scan_workflow :: "scan_request \<Rightarrow> str \<Rightarrow> scan_workflow" where
  "start_scan_workflow req now =
     \<lparr>sw_request = req, sw_status = ''running'', sw_started_at = now, sw_targets = [],
      sw_results = [], sw_phase = Listing 0\<rparr>"

definition scan_status :: "nat \<Rightarrow> nat \<Rightarrow> nat \<Rightarrow> nat \<Rightarrow> str" where
  "scan_status count completed failed interrupted =
     (if count = 0 then ''empty''
      else if failed = count then ''failed''
      else if failed \<noteq> 0 \<or> interrupted \<noteq> 0 \<or> completed < count then ''partial''
      else ''completed'')"

definition scan_result_of :: "scan_workflow \<Rightarrow> str option \<Rightarrow> scan_result" where
  "scan_result_of w notification_id =
     (let rs = sw_results w; completed = status_count ''completed'' rs;
          failed = status_count ''failed'' rs; interrupted = status_count ''interrupted'' rs
      in \<lparr>sr_status = scan_status (length rs) completed failed interrupted,
          sr_scanned_project_count = int (length rs), sr_completed_count = int completed,
          sr_failed_count = int failed, sr_interrupted_count = int interrupted,
          sr_run_ids = given_texts (map sp_run_id rs),
          sr_report_version_ids = given_texts (map sp_report_version_id rs),
          sr_notification_id = notification_id, sr_started_at = sw_started_at w\<rparr>)"

definition scan_next :: "scan_target list \<Rightarrow> scan_phase" where
  "scan_next ts = (if ts = [] then Summarising 0 else Scanning ts 0)"

definition targets_listed :: "json \<Rightarrow> scan_workflow \<Rightarrow> scan_workflow" where
  "targets_listed payload w =
     (case coerce_targets payload of
        Inl _ \<Rightarrow> w\<lparr>sw_phase := ScanStuck\<rparr>
      | Inr ts \<Rightarrow> w\<lparr>sw_targets := ts, sw_phase := scan_next ts\<rparr>)"

definition project_scanned :: "scan_target list \<Rightarrow> project_result \<Rightarrow> scan_workflow \<Rightarrow> scan_workflow" where
  "project_scanned rest r w = w\<lparr>sw_results := sw_results w @ [r], sw_phase := scan_next rest\<rparr>"

definition failed_project :: "scan_target \<Rightarrow> str \<Rightarrow> project_result" where
  "failed_project t message =
     \<lparr>sp_project_id = tg_project_id t, sp_run_id = None, sp_status = ''failed'',
      sp_report_version_id = None, sp_evidence_count = 0, sp_claim_count = 0,
      sp_error = take 1000 message\<rparr>"

definition scan_summarised :: "jdict \<Rightarrow> scan_workflow \<Rightarrow> scan_workflow" where
  "scan_summarised payload w =
     (case coerce_scan_notice payload of
        Inl _ \<Rightarrow> w\<lparr>sw_phase := ScanStuck\<rparr>
      | Inr n \<Rightarrow>
          let result = scan_result_of w (sk_notification_id n)
          in w\<lparr>sw_status := sr_status result, sw_phase := ScanDone result\<rparr>)"

fun scan_step ::
  "(py_error option \<Rightarrow> str) \<Rightarrow> scan_event \<Rightarrow> scan_workflow \<times> store \<Rightarrow> scan_workflow \<times> store" where
  "scan_step message (ScanAttempt env svc delivered) (w, s) =
     (case sw_phase w of
        Listing k \<Rightarrow>
          (case try_activity 3 (list_targets (sw_request w)) delivered k s of
             (Again j, s') \<Rightarrow> (w\<lparr>sw_phase := Listing j\<rparr>, s')
           | (Exhausted _, s') \<Rightarrow> (w\<lparr>sw_phase := ScanFailed\<rparr>, s')
           | (Answer ts, s') \<Rightarrow>
               (targets_listed (JList (map (\<lambda>t. JDict (target_payload t)) ts)) w, s'))
      | Scanning (t # rest) k \<Rightarrow>
          (case try_activity 2 (run_project_scan svc (sw_request w) t (sw_started_at w)) delivered k s of
             (Again j, s') \<Rightarrow> (w\<lparr>sw_phase := Scanning (t # rest) j\<rparr>, s')
           | (Exhausted e, s') \<Rightarrow> (project_scanned rest (failed_project t (message e)) w, s')
           | (Answer r, s') \<Rightarrow>
               ((case coerce_project_result (project_payload r) of
                   Inl _ \<Rightarrow> w\<lparr>sw_phase := ScanStuck\<rparr>
                 | Inr r' \<Rightarrow> project_scanned rest r' w), s'))
      | Summarising k \<Rightarrow>
          (case try_activity 3 (record_scan_notification env (sw_request w) (sw_results w)
              (sw_started_at w)) delivered k s of
             (Again j, s') \<Rightarrow> (w\<lparr>sw_phase := Summarising j\<rparr>, s')
           | (Exhausted _, s') \<Rightarrow> (w\<lparr>sw_phase := ScanFailed\<rparr>, s')
           | (Answer n, s') \<Rightarrow> (scan_summarised (scan_notice_payload n) w, s'))
      | _ \<Rightarrow> (w, s))"
| "scan_step message (ScanOther env c) (w, s) = (w, run_call env c s)"

definition run_scan ::
  "(py_error option \<Rightarrow> str) \<Rightarrow> scan_request \<Rightarrow> str \<Rightarrow> scan_event list \<Rightarrow> store
    \<Rightarrow> scan_workflow \<times> store" where
  "run_scan message req now evs s = fold (scan_step message) evs (start_scan_workflow req now, s)"

text \<open>The query \<open>state\<close>: the counters are those of the results so far.\<close>

definition scan_query :: "scan_workflow \<Rightarrow> jdict" where
  "scan_query w =
     [(''workflow_type'', JStr ''ScheduledScanWorkflow''), (''status'', JStr (sw_status w)),
      (''scan_started_at'', JStr (sw_started_at w)), (''target_count'', JInt (int (length (sw_targets w)))),
      (''scanned_project_count'', JInt (int (length (sw_results w)))),
      (''completed_count'', JInt (int (status_count ''completed'' (sw_results w)))),
      (''failed_count'', JInt (int (status_count ''failed'' (sw_results w)))),
      (''interrupted_count'', JInt (int (status_count ''interrupted'' (sw_results w))))]"

end
