(* ===== verification/MonitorProps.thy ===== *)
theory MonitorProps
  imports Monitors StoreCalls
begin

text \<open>
  What monitors promise: anomalies are exactly the differences, payloads survive the crossing of
  Temporal, a monitor ends whatever its activities do, and its result accounts for every cycle.
\<close>

section \<open>Anomalies\<close>

lemma anomaly_of_sel [simp]:
  "an_severity (anomaly_of i t sev m md) = sev" "an_type (anomaly_of i t sev m md) = t"
  "an_message (anomaly_of i t sev m md) = m"
  by (simp_all add: anomaly_of_def)

text \<open>What a difference between two snapshots is called, and how severe it is.\<close>

definition expected_anomalies ::
  "monitor_snapshot option \<Rightarrow> monitor_snapshot option \<Rightarrow> str \<Rightarrow> (str \<times> str) list" where
  "expected_anomalies previous current status =
     map fst (filter snd
       [((''scan_failed'', ''critical''), status = ''failed''),
        ((''report_missing'', ''critical''), current = None),
        ((''report_changed'', ''info''), (case (previous, current) of
            (Some p, Some c) \<Rightarrow> sn_report_hash c \<noteq> sn_report_hash p | _ \<Rightarrow> False)),
        ((''evidence_drop'', ''warning''), (case (previous, current) of
            (Some p, Some c) \<Rightarrow> sn_evidence_count c < sn_evidence_count p | _ \<Rightarrow> False)),
        ((''claim_drop'', ''warning''), (case (previous, current) of
            (Some p, Some c) \<Rightarrow> sn_claim_count c < sn_claim_count p | _ \<Rightarrow> False))])"

lemma anomalies_expected:
  "map (\<lambda>a. (an_type a, an_severity a)) (detect_monitor_anomalies previous current status error i)
     = expected_anomalies previous current status"
  by (auto simp: detect_monitor_anomalies_def expected_anomalies_def split: option.split)

lemma anomalies_columns:
  "map an_type (detect_monitor_anomalies previous current status error i)
     = map fst (expected_anomalies previous current status)"
  "map an_severity (detect_monitor_anomalies previous current status error i)
     = map snd (expected_anomalies previous current status)"
  unfolding anomalies_expected[symmetric, where error = error and i = i] by simp_all

lemma expected_empty:
  "(expected_anomalies previous current status = []) =
     (status \<noteq> ''failed'' \<and> current \<noteq> None \<and> (case (previous, current) of
         (Some p, Some c) \<Rightarrow> sn_report_hash c = sn_report_hash p
           \<and> sn_evidence_count p \<le> sn_evidence_count c \<and> sn_claim_count p \<le> sn_claim_count c
       | _ \<Rightarrow> True))"
  by (cases previous; cases current) (auto simp: expected_anomalies_def)

lemma expected_distinct: "distinct (map fst (expected_anomalies previous current status))"
  by (simp add: expected_anomalies_def)

lemma expected_critical:
  "''critical'' \<in> set (map snd (expected_anomalies previous current status))
     \<longleftrightarrow> status = ''failed'' \<or> current = None"
  by (cases previous; cases current) (simp_all add: expected_anomalies_def)

text \<open>A monitor cycle reports exactly the differences it found, in a fixed order and each at
  most once: a failed run, a missing report, a changed text, fewer evidence items, fewer claims.
  It is silent exactly when the run did not fail and left a report that, against the one before,
  has the same text and no fewer evidence items and claims; the notification is critical exactly
  when the run failed or left no report.\<close>

theorem anomalies_exact:
  "let as = detect_monitor_anomalies previous current status error i
   in map (\<lambda>a. (an_type a, an_severity a)) as = expected_anomalies previous current status
     \<and> distinct (map an_type as)
     \<and> (as = []) = (status \<noteq> ''failed'' \<and> current \<noteq> None
         \<and> (case (previous, current) of
             (Some p, Some c) \<Rightarrow> sn_report_hash c = sn_report_hash p
               \<and> sn_evidence_count p \<le> sn_evidence_count c \<and> sn_claim_count p \<le> sn_claim_count c
           | _ \<Rightarrow> True))
     \<and> (notification_severity as = ''critical'') = (status = ''failed'' \<or> current = None)"
  unfolding Let_def
proof (intro conjI)
  let ?as = "detect_monitor_anomalies previous current status error i"
  show "map (\<lambda>a. (an_type a, an_severity a)) ?as = expected_anomalies previous current status"
    by (rule anomalies_expected)
  show "distinct (map an_type ?as)" unfolding anomalies_columns by (rule expected_distinct)
  show "(notification_severity ?as = ''critical'') = (status = ''failed'' \<or> current = None)"
    unfolding notification_severity_def anomalies_columns expected_critical by simp
  have "(?as = []) = (expected_anomalies previous current status = [])"
    unfolding anomalies_expected[symmetric, where error = error and i = i] by simp
  then show "(?as = []) = (status \<noteq> ''failed'' \<and> current \<noteq> None \<and> (case (previous, current) of
         (Some p, Some c) \<Rightarrow> sn_report_hash c = sn_report_hash p
           \<and> sn_evidence_count p \<le> sn_evidence_count c \<and> sn_claim_count p \<le> sn_claim_count c
       | _ \<Rightarrow> True))"
    unfolding expected_empty .
qed

section \<open>Payloads\<close>

definition anomaly_ok :: "monitor_anomaly \<Rightarrow> bool" where
  "anomaly_ok a \<longleftrightarrow> an_severity a \<in> {''info'', ''warning'', ''critical''} \<and> an_type a \<in> set anomaly_types"

definition cycle_ok :: "cycle_result \<Rightarrow> bool" where
  "cycle_ok r \<longleftrightarrow> cr_status r \<in> {''completed'', ''interrupted'', ''failed''} \<and> list_all anomaly_ok (cr_anomalies r)"

lemma read_simps [simp]:
  "map_of d k = Some (JStr x) \<Longrightarrow> read_text kind d k = Inr x"
  "map_of d k = Some (jstr_opt opt) \<Longrightarrow> read_optional_text kind d k = Inr opt"
  "map_of d k = Some (JStr x) \<Longrightarrow> read_optional_text kind d k = Inr (Some x)"
  "map_of d k = Some (JInt n) \<Longrightarrow> read_int kind d k = Inr n"
  "map_of d k = Some (JStr x) \<Longrightarrow> x \<in> set cs \<Longrightarrow> read_choice m cs d k = Inr x"
  by (cases opt; simp add: read_text_def read_optional_text_def read_int_def read_choice_def jstr_opt.simps)+
lemma err_map_Inr: "(\<And>x. x \<in> set xs \<Longrightarrow> f (g x) = Inr x) \<Longrightarrow> err_map f (map g xs) = Inr xs"
  by (induction xs) auto

lemma coerce_snapshot_payload:
  "map_of d k = Some (optional_payload snapshot_payload n) \<Longrightarrow>
     coerce_optional_snapshot (map_of d k) = Inr n"
  by (cases n) (simp_all add: coerce_optional_snapshot_def optional_payload_def snapshot_payload_def)

lemma coerce_anomaly_payload: "anomaly_ok a \<Longrightarrow> coerce_anomaly (JDict (anomaly_payload a)) = Inr a"
  by (simp add: coerce_anomaly_def anomaly_payload_def anomaly_ok_def)

lemma coerce_cycle_payload:
  assumes "cycle_ok r"
  shows "coerce_cycle_result (cycle_payload r) = Inr r"
proof -
  let ?d = "cycle_payload r"
  have previous: "coerce_optional_snapshot (map_of ?d ''previous'') = Inr (cr_previous r)"
    and current: "coerce_optional_snapshot (map_of ?d ''current'') = Inr (cr_current r)"
    by (rule coerce_snapshot_payload, simp add: cycle_payload_def)+
  have anomalies: "coerce_anomalies (map_of ?d ''anomalies'') = Inr (cr_anomalies r)"
    using assms by (simp add: coerce_anomalies_def cycle_payload_def cycle_ok_def list_all_iff
        err_map_Inr coerce_anomaly_payload)
  have status: "read_choice m [''completed'', ''interrupted'', ''failed''] ?d ''status'' = Inr (cr_status r)" for m
    using assms by (simp add: cycle_payload_def cycle_ok_def)
  have rest: "read_int ''Monitor'' ?d ''cycle_index'' = Inr (cr_cycle_index r)"
    "read_text ''Monitor'' ?d ''project_id'' = Inr (cr_project_id r)"
    "read_optional_text ''Monitor'' ?d ''run_id'' = Inr (cr_run_id r)"
    "read_optional_text ''Monitor'' ?d ''report_version_id'' = Inr (cr_report_version_id r)"
    "read_optional_text ''Monitor'' ?d ''error'' = Inr (Some (cr_error r))"
    by (simp_all add: cycle_payload_def)
  show ?thesis unfolding coerce_cycle_result_def rest status previous current anomalies err_bind.simps
    by simp
qed

lemma coerce_notice_payload: "coerce_monitor_notice (notice_payload n) = Inr n"
  by (simp add: coerce_monitor_notice_def notice_payload_def)

section \<open>Activities\<close>

lemma detected_ok: "list_all anomaly_ok (detect_monitor_anomalies previous current status error i)"
  by (cases previous; cases current)
    (simp_all add: detect_monitor_anomalies_def anomaly_ok_def anomaly_types_def)

lemma cycle_results:
  "cycle_ok (fst (failed_cycle env req p previous i m s))"
  "cycle_ok (fst (finished_cycle env req p previous i run st s))"
  "cr_cycle_index (fst (failed_cycle env req p previous i m s)) = i"
  "cr_cycle_index (fst (finished_cycle env req p previous i run st s)) = i"
  by (simp_all add: failed_cycle_def finished_cycle_def Let_def cycle_ok_def detected_ok monitor_cycle_status_def)

lemma cycle_effects:
  "safe_step s (snd (failed_cycle env req p previous i m s))"
  "safe_step s (snd (finished_cycle env req p previous i run st s))"
  by (simp_all add: failed_cycle_def finished_cycle_def Let_def record_monitor_job_run_safe)

lemma run_cycle_result:
  assumes "run_cycle env svc req i now s = (Inr r, t)"
  shows "cycle_ok r \<and> cr_cycle_index r = i"
  using assms by (auto simp: run_cycle_def Let_def split_beta cycle_results
      split: option.splits if_splits run_outcome.splits)

lemma run_cycle_safe: "op_rel safe_step (run_cycle env svc req i now)"
proof -
  have calls: "safe_step s (snd (f (run_calls cs s)))"
    if "\<And>s. safe_step s (snd (f s))" for f :: "store \<Rightarrow> cycle_result \<times> store" and cs s
    using that run_calls_safe safe.R_trans by blast
  show ?thesis
    unfolding op_rel_def run_cycle_def Let_def split_beta
    by (auto split: option.split run_outcome.split intro!: calls cycle_effects simp: safe.R_refl)
qed

lemma record_notice_safe: "op_rel safe_step (record_anomaly_notification env req r now)"
  by (simp add: op_rel_def record_anomaly_notification_def split_beta Let_def upsert_notification_safe)

lemma record_notice_result:
  assumes "record_anomaly_notification env req r now s = (Inr n, t)"
  shows "mn_notification_id n = Some (nt_id (anomaly_notification env req r now))
    \<and> nt_id (anomaly_notification env req r now) \<in> fst ` set (st_notifications t)"
proof -
  have "map_of (st_notifications t) (nt_id (anomaly_notification env req r now)) \<noteq> None"
    using assms by (auto simp: record_anomaly_notification_def upsert_notification_def Let_def
        append_audit_def map_of_update)
  then show ?thesis
    using assms by (auto simp: record_anomaly_notification_def upsert_notification_def Let_def
        map_of_eq_None_iff)
qed

lemma try_activity_safe: "op_rel safe_step act \<Longrightarrow> op_rel safe_step (try_activity n act d k)"
  by (simp add: op_rel_def try_activity_def Let_def split_beta)

lemma try_activity_Answer:
  "try_activity n act d k s = (Answer x, t) \<Longrightarrow> act s = (Inr x, t)"
  by (auto simp: try_activity_def Let_def split_beta prod_eq_iff split: sum.splits if_splits)

lemma try_activity_Again:
  "try_activity n act d k s = (Again j, t) \<Longrightarrow> j = k + 1 \<and> j < n"
  by (auto simp: try_activity_def Let_def split_beta split: sum.splits if_splits)
section \<open>The workflow\<close>

definition cycle_notice_id :: "monitor_request \<Rightarrow> str \<Rightarrow> cycle_result \<Rightarrow> str" where
  "cycle_notice_id req now r =
     compute_notification_id [JStr (mq_workspace_id req), JStr (mq_project_id req),
       JStr (mq_monitor_id req), JInt (cr_cycle_index r), JStr now]"

lemma notice_id: "nt_id (anomaly_notification env req r now) = cycle_notice_id req now r"
  by (simp add: anomaly_notification_def cycle_notice_id_def)

lemma given_notice: "given (Some (cycle_notice_id req now r))"
  unfolding cycle_notice_id_def compute_notification_id_def given.simps
  by (rule stable_prefixed_id_nonempty)

text \<open>The books of a monitor: one result per cycle in order, one notification per cycle with
  anomalies, kept in the store.\<close>

definition monitor_books :: "monitor_request \<Rightarrow> str \<Rightarrow> monitor_workflow \<Rightarrow> store \<Rightarrow> bool" where
  "monitor_books req now w s \<longleftrightarrow>
     mw_request w = req \<and> mw_started_at w = now
     \<and> mw_cycle_count w = nat (max 1 (mq_max_cycles req)) \<and> mw_cycle_index w < mw_cycle_count w
     \<and> map cr_cycle_index (mw_results w) = map int [0..<length (mw_results w)]
     \<and> mw_notification_ids w =
         map (cycle_notice_id req now) (filter (\<lambda>r. cr_anomalies r \<noteq> []) (mw_results w))
     \<and> set (mw_notification_ids w) \<subseteq> fst ` set (st_notifications s)"

definition phase_ok :: "monitor_workflow \<Rightarrow> bool" where
  "phase_ok w \<longleftrightarrow>
     (case mw_phase w of
        Cycling k \<Rightarrow> k < 2 \<and> length (mw_results w) = mw_cycle_index w
      | Notifying r k \<Rightarrow> k < 3 \<and> length (mw_results w) = mw_cycle_index w
          \<and> cr_cycle_index r = int (mw_cycle_index w) \<and> cr_anomalies r \<noteq> []
      | Sleeping \<Rightarrow> length (mw_results w) = mw_cycle_index w + 1 \<and> mw_cycle_index w + 1 < mw_cycle_count w
      | MonitorDone r \<Rightarrow> length (mw_results w) = mw_cycle_count w \<and> r = monitor_result_of w
          \<and> mw_status w = mr_status r
      | MonitorFailed \<Rightarrow> True
      | MonitorStuck \<Rightarrow> False)"

lemma books_kept:
  assumes "monitor_books req now w s" and "extends s t"
  shows "monitor_books req now w t"
proof -
  have "fst ` set (st_notifications s) \<subseteq> fst ` set (st_notifications t)"
    using assms(2) by (simp only: extends_def keys_grow_def)
  then show ?thesis using assms(1) unfolding monitor_books_def by (metis order_trans)
qed

lemma books_stored:
  assumes "monitor_books req now w s"
  shows "set (mw_notification_ids w) \<subseteq> fst ` set (st_notifications s)"
  using assms unfolding monitor_books_def by (elim conjE) assumption

lemma books_moved:
  "monitor_books req now (w\<lparr>mw_phase := p\<rparr>) s = monitor_books req now w s"
  by (simp add: monitor_books_def)

lemma start_ok: "monitor_books req now (start_monitor_workflow req now) s \<and> phase_ok (start_monitor_workflow req now)"
  by (simp add: monitor_books_def phase_ok_def start_monitor_workflow_def)

lemma cycle_finished_sel [simp]:
  "mw_request (cycle_finished r w) = mw_request w" "mw_started_at (cycle_finished r w) = mw_started_at w"
  "mw_cycle_count (cycle_finished r w) = mw_cycle_count w"
  "mw_cycle_index (cycle_finished r w) = mw_cycle_index w"
  "mw_results (cycle_finished r w) = mw_results w @ [r]"
  "mw_notification_ids (cycle_finished r w) = mw_notification_ids w"
  by (simp_all add: cycle_finished_def Let_def)

lemma cycle_finished_phase:
  assumes "length (mw_results w) = mw_cycle_index w" and "mw_cycle_index w < mw_cycle_count w"
  shows "phase_ok (cycle_finished r w)"
proof (cases "mw_cycle_index w + 1 < mw_cycle_count w")
  case True
  then show ?thesis using assms by (simp add: phase_ok_def cycle_finished_def Let_def)
next
  case False
  then have "mw_cycle_count w = Suc (mw_cycle_index w)" using assms by simp
  then show ?thesis using assms
    by (simp add: phase_ok_def cycle_finished_def Let_def) (simp add: monitor_result_of_def)
qed

lemma cycle_finished_ok:
  assumes books: "mw_request w = req" "mw_started_at w = now"
      "mw_cycle_count w = nat (max 1 (mq_max_cycles req))" "mw_cycle_index w < mw_cycle_count w"
      "map cr_cycle_index (mw_results w) = map int [0..<length (mw_results w)]"
    and len: "length (mw_results w) = mw_cycle_index w" and i: "cr_cycle_index r = int (mw_cycle_index w)"
    and ids: "mw_notification_ids w = map (cycle_notice_id req now)
        (filter (\<lambda>r. cr_anomalies r \<noteq> []) (mw_results w @ [r]))"
    and stored: "set (mw_notification_ids w) \<subseteq> fst ` set (st_notifications s)"
  shows "monitor_books req now (cycle_finished r w) s \<and> phase_ok (cycle_finished r w)"
proof
  show "monitor_books req now (cycle_finished r w) s"
    unfolding monitor_books_def cycle_finished_sel ids[symmetric] using books len i stored by simp
  show "phase_ok (cycle_finished r w)" using len books(4) by (rule cycle_finished_phase)
qed

lemma cycle_returned_ok:
  assumes "monitor_books req now w s" and "length (mw_results w) = mw_cycle_index w"
    and "cycle_ok r" and "cr_cycle_index r = int (mw_cycle_index w)"
  shows "monitor_books req now (cycle_returned (cycle_payload r) w) s
    \<and> phase_ok (cycle_returned (cycle_payload r) w)"
proof (cases "cr_anomalies r = []")
  case True
  then have "cycle_returned (cycle_payload r) w = cycle_finished r w"
    using assms by (simp add: cycle_returned_def coerce_cycle_payload)
  moreover have "monitor_books req now (cycle_finished r w) s \<and> phase_ok (cycle_finished r w)"
  proof (rule cycle_finished_ok)
    show "set (mw_notification_ids w) \<subseteq> fst ` set (st_notifications s)"
      using assms(1) by (rule books_stored)
  qed (use assms True in \<open>simp_all add: monitor_books_def\<close>)
  ultimately show ?thesis by simp
next
  case False
  then show ?thesis using assms
    by (simp add: cycle_returned_def coerce_cycle_payload books_moved phase_ok_def)
qed

lemma notice_returned_ok:
  assumes "monitor_books req now w s" and "length (mw_results w) = mw_cycle_index w"
    and "cr_cycle_index r = int (mw_cycle_index w)" and "cr_anomalies r \<noteq> []"
    and "mn_notification_id n = Some (cycle_notice_id req now r)"
    and "cycle_notice_id req now r \<in> fst ` set (st_notifications s)"
  shows "monitor_books req now (notice_returned r (notice_payload n) w) s
    \<and> phase_ok (notice_returned r (notice_payload n) w)"
proof -
  let ?w = "w\<lparr>mw_notification_ids := mw_notification_ids w @ [cycle_notice_id req now r]\<rparr>"
  have "given_texts [mn_notification_id n] = [cycle_notice_id req now r]"
    using given_notice[of req now r] assms(5) by (simp add: given_texts_def List.map_filter_def)
  then have "notice_returned r (notice_payload n) w = cycle_finished r ?w"
    by (simp add: notice_returned_def coerce_notice_payload)
  moreover have "monitor_books req now (cycle_finished r ?w) s \<and> phase_ok (cycle_finished r ?w)"
  proof (rule cycle_finished_ok)
    show "set (mw_notification_ids ?w) \<subseteq> fst ` set (st_notifications s)"
    proof -
      have "set (mw_notification_ids w) \<subseteq> fst ` set (st_notifications s)"
        using assms(1) by (rule books_stored)
      then show ?thesis using assms(6) by simp
    qed
  qed (use assms in \<open>simp_all add: monitor_books_def\<close>)
  ultimately show ?thesis by simp
qed
lemma attempt_grows:
  assumes "op_rel safe_step act" and "try_activity n act d k s = (e, t)" and "store_ok s"
  shows "store_ok t \<and> extends s t"
proof -
  have "safe_step s (snd (try_activity n act d k s))"
    using try_activity_safe[OF assms(1)] by (simp add: op_rel_def)
  then show ?thesis using assms(2,3) by (simp add: safe_step_def)
qed

lemma cycling_step_ok:
  assumes books: "monitor_books req now w s" and ph: "mw_phase w = Cycling k" "phase_ok w" and s: "store_ok s"
    and st: "monitor_step (MonitorAttempt env svc d) (w, s) = (w', t)"
  shows "store_ok t \<and> extends s t \<and> monitor_books req now w' t \<and> phase_ok w'"
proof -
  let ?act = "run_cycle env svc (mw_request w) (int (mw_cycle_index w)) (mw_started_at w)"
  obtain e u where e: "try_activity 2 ?act d k s = (e, u)" by fastforce
  note g = attempt_grows[OF run_cycle_safe e s]
  have b: "monitor_books req now w u" using books_kept[OF books] g by blast
  have len: "length (mw_results w) = mw_cycle_index w" using ph by (simp add: phase_ok_def)
  show ?thesis
  proof (cases e)
    case (Again j)
    then have "j < 2" using try_activity_Again e by blast
    then show ?thesis using st ph(1) e Again g b len by (auto simp: books_moved phase_ok_def)
  next
    case (Exhausted x)
    then show ?thesis using st ph(1) e g b by (auto simp: books_moved phase_ok_def)
  next
    case (Answer r)
    have "cycle_ok r \<and> cr_cycle_index r = int (mw_cycle_index w)"
      using run_cycle_result try_activity_Answer[OF e[unfolded Answer]] by blast
    then show ?thesis using cycle_returned_ok[OF b len] st ph(1) e Answer g by auto
  qed
qed

lemma notifying_step_ok:
  assumes books: "monitor_books req now w s" and ph: "mw_phase w = Notifying r k" "phase_ok w" and s: "store_ok s"
    and st: "monitor_step (MonitorAttempt env svc d) (w, s) = (w', t)"
  shows "store_ok t \<and> extends s t \<and> monitor_books req now w' t \<and> phase_ok w'"
proof -
  let ?act = "record_anomaly_notification env (mw_request w) r (mw_started_at w)"
  obtain e u where e: "try_activity 3 ?act d k s = (e, u)" by fastforce
  note g = attempt_grows[OF record_notice_safe e s]
  have b: "monitor_books req now w u" using books_kept[OF books] g by blast
  have r: "length (mw_results w) = mw_cycle_index w" "cr_cycle_index r = int (mw_cycle_index w)"
    "cr_anomalies r \<noteq> []" using ph by (simp_all add: phase_ok_def)
  show ?thesis
  proof (cases e)
    case (Again j)
    then have "j < 3" using try_activity_Again e by blast
    then show ?thesis using st ph(1) e Again g b r by (auto simp: books_moved phase_ok_def)
  next
    case (Exhausted x)
    then show ?thesis using st ph(1) e g b by (auto simp: books_moved phase_ok_def)
  next
    case (Answer n)
    have w: "mw_request w = req" "mw_started_at w = now" using books by (simp_all add: monitor_books_def)
    have "mn_notification_id n = Some (cycle_notice_id req now r)
        \<and> cycle_notice_id req now r \<in> fst ` set (st_notifications u)"
      using record_notice_result[OF try_activity_Answer[OF e[unfolded Answer]]] w by (simp add: notice_id)
    then show ?thesis using notice_returned_ok[OF b r] st ph(1) e Answer g by auto
  qed
qed

lemma idle_attempt:
  assumes "case mw_phase w of Cycling _ \<Rightarrow> False | Notifying _ _ \<Rightarrow> False | _ \<Rightarrow> True"
  shows "monitor_step (MonitorAttempt env svc d) (w, s) = (w, s)"
  using assms by (cases "mw_phase w") simp_all

lemma monitor_step_ok:
  assumes "monitor_books req now w s" and "phase_ok w" and "store_ok s" and "monitor_step ev (w, s) = (w', t)"
  shows "store_ok t \<and> extends s t \<and> monitor_books req now w' t \<and> phase_ok w'"
proof (cases ev)
  case (MonitorAttempt env svc d)
  consider k where "mw_phase w = Cycling k" | r k where "mw_phase w = Notifying r k"
    | "case mw_phase w of Cycling _ \<Rightarrow> False | Notifying _ _ \<Rightarrow> False | _ \<Rightarrow> True"
    by (cases "mw_phase w") auto
  then show ?thesis
  proof cases
    case 1
    then show ?thesis using cycling_step_ok assms unfolding MonitorAttempt by blast
  next
    case 2
    then show ?thesis using notifying_step_ok assms unfolding MonitorAttempt by blast
  next
    case 3
    then show ?thesis using assms idle_attempt[OF 3] unfolding MonitorAttempt by (simp add: extends_refl)
  qed
next
  case MonitorWake
  then show ?thesis using assms
    by (cases "mw_phase w") (auto simp: extends_refl monitor_books_def phase_ok_def)
next
  case (MonitorOther env c)
  have "store_ok (run_call env c s) \<and> extends s (run_call env c s)"
    using run_call_safe assms(3) by (simp add: safe_step_def)
  then show ?thesis using assms books_kept unfolding MonitorOther by auto
qed

lemma run_monitor_ok:
  assumes "store_ok s" and "run_monitor req now evs s = (w, t)"
  shows "store_ok t \<and> extends s t \<and> monitor_books req now w t \<and> phase_ok w"
  using assms
proof (induction evs arbitrary: w t rule: rev_induct)
  case Nil
  then show ?case using start_ok[of req now s] by (auto simp: run_monitor_def extends_refl)
next
  case (snoc e evs)
  obtain w0 t0 where r: "run_monitor req now evs s = (w0, t0)" by fastforce
  have "monitor_step e (w0, t0) = (w, t)" using snoc.prems(2) r by (simp add: run_monitor_def)
  then show ?case using snoc.IH[OF snoc.prems(1) r] monitor_step_ok extends_trans by blast
qed
text \<open>C14. Whatever happens to a monitor (cycles that fail, are repeated or lose their completion,
  other calls on the store in between), the store keeps its invariant and its history, no payload
  is ever refused, and a finished monitor accounts for every cycle: one result for each of at
  least one cycle, in order, its counts and its status those of the results, and one notification
  in the store for exactly the cycles with anomalies.\<close>

theorem monitor_accounts_for_cycles:
  "let s = run_calls cs (init_store env0);
       (w, t) = run_monitor req now evs s;
       rs = mw_results w;
       failed = count_if (\<lambda>r. cr_status r = ''failed'') rs
   in store_ok t \<and> extends s t \<and> mw_phase w \<noteq> MonitorStuck
     \<and> (case mw_phase w of
         MonitorDone r \<Rightarrow>
           map cr_cycle_index rs = map int [0..<nat (max 1 (mq_max_cycles req))]
           \<and> mr_cycle_count r = max 1 (mq_max_cycles req)
           \<and> mr_failed_count r = int failed
           \<and> mr_anomaly_count r = int (sum_list (map (\<lambda>r. length (cr_anomalies r)) rs))
           \<and> mr_status r = (if failed = 0 then ''completed''
               else if failed = length rs then ''failed'' else ''partial'')
           \<and> mr_notification_ids r =
               map (cycle_notice_id req now) (filter (\<lambda>r. cr_anomalies r \<noteq> []) rs)
           \<and> set (mr_notification_ids r) \<subseteq> fst ` set (st_notifications t)
       | _ \<Rightarrow> True)"
proof -
  let ?s = "run_calls cs (init_store env0)"
  obtain w t where run: "run_monitor req now evs ?s = (w, t)" by fastforce
  note ok = run_monitor_ok[OF run_calls_ok run]
  have stored: "set (mw_notification_ids w) \<subseteq> fst ` set (st_notifications t)"
    using ok books_stored by blast
  have "mw_phase w \<noteq> MonitorStuck" using ok by (auto simp: phase_ok_def)
  then show ?thesis
  proof (cases "mw_phase w")
    case (MonitorDone r)
    have len: "length (mw_results w) = nat (max 1 (mq_max_cycles req))" and r: "r = monitor_result_of w"
      using ok MonitorDone by (simp_all add: phase_ok_def monitor_books_def)
    let ?failed = "count_if (\<lambda>r. cr_status r = ''failed'') (mw_results w)"
    have "mw_results w \<noteq> []" using len by auto
    then have status: "mr_status r = (if ?failed = 0 then ''completed''
        else if ?failed = length (mw_results w) then ''failed'' else ''partial'')"
      by (simp add: r monitor_result_of_def Let_def monitor_status_def del: count_if_0)
    have counts: "mr_cycle_count r = max 1 (mq_max_cycles req)" "mr_failed_count r = int ?failed"
      "mr_anomaly_count r = int (sum_list (map (\<lambda>r. length (cr_anomalies r)) (mw_results w)))"
      "mr_notification_ids r = mw_notification_ids w"
      using len by (simp_all add: r monitor_result_of_def Let_def del: count_if_0)
    have books: "map cr_cycle_index (mw_results w) = map int [0..<nat (max 1 (mq_max_cycles req))]"
      "mw_notification_ids w = map (cycle_notice_id req now) (filter (\<lambda>r. cr_anomalies r \<noteq> []) (mw_results w))"
      using ok unfolding monitor_books_def len by blast+
    show ?thesis unfolding run Let_def prod.case MonitorDone monitor_phase.case status counts
      using ok books stored by (intro conjI refl) (simp_all del: set_map count_if_0)
  qed (use ok run in simp_all)
qed

section \<open>Termination\<close>

definition monitor_ended :: "monitor_phase \<Rightarrow> bool" where
  "monitor_ended p \<longleftrightarrow> (case p of MonitorDone _ \<Rightarrow> True | MonitorFailed \<Rightarrow> True | _ \<Rightarrow> False)"

text \<open>
  Temporal drives a monitor by completing, failing or repeating its activity and firing its timer,
  while others use the store.
\<close>

fun monitor_drive ::
  "(env \<times> store_call) list \<times> env \<times> run_service \<times> bool \<Rightarrow> monitor_workflow \<times> store \<Rightarrow> monitor_workflow \<times> store" where
  "monitor_drive (others, env, svc, delivered) (w, s) =
     monitor_step (if mw_phase w = Sleeping then MonitorWake else MonitorAttempt env svc delivered)
       (w, run_calls others s)"

definition monitor_fuel :: "monitor_workflow \<Rightarrow> nat" where
  "monitor_fuel w =
     (let left = 6 * (mw_cycle_count w - mw_cycle_index w)
      in case mw_phase w of
           Cycling k \<Rightarrow> left - k
         | Notifying _ k \<Rightarrow> left - 2 - k
         | Sleeping \<Rightarrow> left - 5
         | _ \<Rightarrow> 0)"

lemma finished_fuel:
  "mw_cycle_index w < mw_cycle_count w \<Longrightarrow>
     monitor_fuel (cycle_finished r w) \<le> 6 * (mw_cycle_count w - mw_cycle_index w) - 5"
  by (auto simp: monitor_fuel_def cycle_finished_def Let_def)

lemma returned_fuel:
  assumes "mw_cycle_index w < mw_cycle_count w"
  shows "monitor_fuel (cycle_returned p w) \<le> 6 * (mw_cycle_count w - mw_cycle_index w) - 2"
    "monitor_fuel (notice_returned r p w) \<le> 6 * (mw_cycle_count w - mw_cycle_index w) - 5"
proof -
  show "monitor_fuel (cycle_returned p w) \<le> 6 * (mw_cycle_count w - mw_cycle_index w) - 2"
  proof (cases "coerce_cycle_result p")
    case (Inl e)
    then show ?thesis by (simp add: cycle_returned_def monitor_fuel_def)
  next
    case (Inr r)
    then show ?thesis using finished_fuel[OF assms, of r]
      by (auto simp: cycle_returned_def monitor_fuel_def[of "w\<lparr>mw_phase := Notifying r 0\<rparr>"])
  qed
  show "monitor_fuel (notice_returned r p w) \<le> 6 * (mw_cycle_count w - mw_cycle_index w) - 5"
  proof (cases "coerce_monitor_notice p")
    case (Inl e)
    then show ?thesis by (simp add: notice_returned_def monitor_fuel_def)
  next
    case (Inr n)
    then show ?thesis
      using finished_fuel[of "w\<lparr>mw_notification_ids := mw_notification_ids w @ given_texts [mn_notification_id n]\<rparr>" r] assms
      by (simp add: notice_returned_def)
  qed
qed

lemma attempt_less:
  assumes books: "mw_cycle_index w < mw_cycle_count w" and ph: "phase_ok w"
    and active: "case mw_phase w of Cycling _ \<Rightarrow> True | Notifying _ _ \<Rightarrow> True | _ \<Rightarrow> False"
    and st: "monitor_step (MonitorAttempt env svc d) (w, s) = (w', t)"
  shows "monitor_fuel w' < monitor_fuel w"
proof -
  let ?n = "6 * (mw_cycle_count w - mw_cycle_index w)"
  have n: "6 \<le> ?n" using books by simp
  show ?thesis
  proof (cases "mw_phase w")
    case (Cycling k)
    let ?act = "run_cycle env svc (mw_request w) (int (mw_cycle_index w)) (mw_started_at w)"
    obtain e u where e: "try_activity 2 ?act d k s = (e, u)" by fastforce
    have k: "k < 2" "monitor_fuel w = ?n - k" using ph Cycling by (simp_all add: phase_ok_def monitor_fuel_def)
    show ?thesis
    proof (cases e)
      case (Again j)
      then have "j = k + 1" using try_activity_Again e by blast
      then show ?thesis using st Cycling e Again k n by (auto simp: monitor_fuel_def)
    next
      case (Exhausted x)
      then show ?thesis using st Cycling e k n by (auto simp: monitor_fuel_def)
    next
      case (Answer r)
      then have "w' = cycle_returned (cycle_payload r) w" using st Cycling e by simp
      then show ?thesis using returned_fuel(1)[OF books, of "cycle_payload r"] k n by simp
    qed
  next
    case (Notifying r k)
    let ?act = "record_anomaly_notification env (mw_request w) r (mw_started_at w)"
    obtain e u where e: "try_activity 3 ?act d k s = (e, u)" by fastforce
    have k: "k < 3" "monitor_fuel w = ?n - 2 - k" using ph Notifying by (simp_all add: phase_ok_def monitor_fuel_def)
    show ?thesis
    proof (cases e)
      case (Again j)
      then have "j = k + 1" using try_activity_Again e by blast
      then show ?thesis using st Notifying e Again k n by (auto simp: monitor_fuel_def)
    next
      case (Exhausted x)
      then show ?thesis using st Notifying e k n by (auto simp: monitor_fuel_def)
    next
      case (Answer m)
      then have "w' = notice_returned r (notice_payload m) w" using st Notifying e by simp
      then show ?thesis using returned_fuel(2)[OF books, of r "notice_payload m"] k n by simp
    qed
  qed (use active in simp_all)
qed

lemma drive_less:
  assumes "mw_cycle_index w < mw_cycle_count w" and "phase_ok w" and "\<not> monitor_ended (mw_phase w)"
    and "monitor_drive x (w, s) = (w', t)"
  shows "monitor_fuel w' < monitor_fuel w"
proof -
  obtain others env svc d where x: "x = (others, env, svc, d)" by (cases x)
  show ?thesis
  proof (cases "mw_phase w = Sleeping")
    case True
    then show ?thesis using assms by (auto simp: x monitor_fuel_def phase_ok_def)
  next
    case False
    then have "case mw_phase w of Cycling _ \<Rightarrow> True | Notifying _ _ \<Rightarrow> True | _ \<Rightarrow> False"
      using assms(2,3) by (auto simp: phase_ok_def monitor_ended_def split: monitor_phase.splits)
    then show ?thesis using attempt_less assms False by (auto simp: x)
  qed
qed

lemma drive_ok:
  assumes "monitor_books req now w s" and "phase_ok w" and "store_ok s" and "monitor_drive x (w, s) = (w', t)"
  shows "store_ok t \<and> monitor_books req now w' t \<and> phase_ok w'"
proof -
  obtain others env svc d where x: "x = (others, env, svc, d)" by (cases x)
  have g: "store_ok (run_calls others s) \<and> extends s (run_calls others s)"
    using run_calls_safe assms(3) by (simp add: safe_step_def)
  then have "monitor_books req now w (run_calls others s)" using books_kept assms(1) by blast
  then show ?thesis using monitor_step_ok[OF _ assms(2)] g assms(4) unfolding x monitor_drive.simps by blast
qed

lemma ended_stays: "monitor_ended (mw_phase w) \<Longrightarrow> fst (monitor_drive x (w, s)) = w"
  by (cases x; cases "mw_phase w") (auto simp: monitor_ended_def)

lemma driven_ends:
  assumes "monitor_books req now w s" and "phase_ok w" and "store_ok s" and "monitor_fuel w \<le> length ds"
  shows "monitor_ended (mw_phase (fst (fold monitor_drive ds (w, s))))"
  using assms
proof (induction ds arbitrary: w s)
  case Nil
  have b: "mw_cycle_index w < mw_cycle_count w" using Nil.prems(1) by (simp add: monitor_books_def)
  show ?case
  proof (rule ccontr)
    assume "\<not> ?case"
    then have "monitor_fuel (fst (monitor_drive ([], e, c, True) (w, s))) < monitor_fuel w" for e c
      using drive_less[OF b Nil.prems(2)] by (metis fold_simps(1) fst_conv prod.collapse)
    then show False using Nil.prems(4) by simp
  qed
next
  case (Cons x ds)
  obtain w' t where st: "monitor_drive x (w, s) = (w', t)" by fastforce
  note ok = drive_ok[OF Cons.prems(1-3) st]
  have b: "mw_cycle_index w < mw_cycle_count w" using Cons.prems(1) by (simp add: monitor_books_def)
  have "monitor_fuel w' \<le> length ds"
  proof (cases "monitor_ended (mw_phase w)")
    case True
    then have "w' = w" using ended_stays[of w x s] st by simp
    then show ?thesis using True by (cases "mw_phase w") (simp_all add: monitor_ended_def monitor_fuel_def)
  next
    case False
    then show ?thesis using drive_less[OF b Cons.prems(2) False st] Cons.prems(4) by simp
  qed
  then show ?case using Cons.IH ok st by auto
qed

text \<open>C31. A monitor ends: after six deliveries for each of its cycles it has finished or failed,
  whatever its activities return or raise, however often completions are lost and whatever others
  do to the store meanwhile.\<close>

theorem monitor_terminates:
  "let (w, t) = fold monitor_drive ds (start_monitor_workflow req now, run_calls cs (init_store env0))
   in if 6 * max 1 (mq_max_cycles req) \<le> int (length ds) then monitor_ended (mw_phase w) else True"
proof -
  let ?w = "start_monitor_workflow req now"
  have "monitor_fuel ?w = 6 * nat (max 1 (mq_max_cycles req))"
    by (simp add: monitor_fuel_def start_monitor_workflow_def)
  then have "monitor_fuel ?w \<le> length ds" if "6 * max 1 (mq_max_cycles req) \<le> int (length ds)"
    using that by linarith
  then show ?thesis
    using driven_ends[OF conjunct1[OF start_ok] conjunct2[OF start_ok] run_calls_ok, of req now ds cs env0]
    by (simp add: split_beta)
qed
section \<open>A repeated cycle\<close>

lemma record_run_frame:
  "st_reports (snd (record_monitor_job_run env m st wid rid rv err actor s)) = st_reports s"
  "st_projects (snd (record_monitor_job_run env m st wid rid rv err actor s)) = st_projects s"
  by (simp_all add: record_monitor_job_run_def Let_def append_audit_def split: option.split)

lemma latest_frame: "st_reports s = st_reports t \<Longrightarrow> latest_monitor_snapshot p s = latest_monitor_snapshot p t"
  by (simp add: latest_monitor_snapshot_def list_report_versions_def)

definition cycle_current :: "str \<Rightarrow> str \<Rightarrow> store \<Rightarrow> monitor_snapshot option" where
  "cycle_current project_id run_id s = (case get_run_projection run_id s of
     Some pr \<Rightarrow> Some (monitor_snapshot_from_report (rp_report_version pr))
   | None \<Rightarrow> latest_monitor_snapshot project_id s)"

lemma projection_frame:
  assumes "st_reports s = st_reports t"
  shows "map_option rp_report_version (get_run_projection r s) = map_option rp_report_version (get_run_projection r t)"
  using assms by (simp add: get_run_projection_def split: option.split)

lemma cycle_current_frame:
  assumes "st_reports s = st_reports t"
  shows "cycle_current p r s = cycle_current p r t"
  using projection_frame[OF assms, of r] latest_frame[OF assms, of p]
  by (cases "get_run_projection r s"; cases "get_run_projection r t") (simp_all add: cycle_current_def)

lemma finished_cycle_current:
  "cr_current (fst (finished_cycle env req p previous i rid st s)) = cycle_current (pj_id p) rid s"
  "st_reports (snd (finished_cycle env req p previous i rid st s)) = st_reports s"
  "cr_run_id (fst (finished_cycle env req p previous i rid st s)) = Some rid"
  by (simp_all add: finished_cycle_def Let_def cycle_current_def record_run_frame)

lemma cycle_with_run:
  assumes "run_cycle env svc req i now s = (Inr r, t)" and "cr_run_id r = Some rid"
  obtains p where "get_project (mq_project_id req) s = Some p" "pj_workspace_id p = mq_workspace_id req"
    "cr_current r = cycle_current (pj_id p) rid t"
proof -
  obtain p where p: "get_project (mq_project_id req) s = Some p" "pj_workspace_id p = mq_workspace_id req"
    using assms(1) by (auto simp: run_cycle_def split: option.splits if_splits)
  obtain calls outcome where o: "svc (cycle_run_request req p (list_competitors None (Some (pj_id p)) s) i now)
      = (calls, outcome)" by fastforce
  show ?thesis
  proof (cases outcome)
    case (RunReturned rid' st)
    let ?f = "finished_cycle env req p (latest_monitor_snapshot (mq_project_id req) s) i rid' st (run_calls calls s)"
    have run: "fst ?f = r \<and> snd ?f = t" using assms(1) p o RunReturned by (simp add: run_cycle_def split_beta Let_def)
    then have "rid' = rid" using finished_cycle_current(3) assms(2) by (metis option.inject)
    moreover have "cr_current r = cycle_current (pj_id p) rid' t"
      using run finished_cycle_current(1,2) cycle_current_frame by metis
    ultimately show ?thesis using that p by simp
  qed (use assms p o in \<open>auto simp: run_cycle_def split_beta Let_def failed_cycle_def\<close>)
qed

text \<open>A cycle whose completion is lost after its report was stored reports nothing when it is repeated, as long
  as the report is by then the latest of the project, the project is unchanged, and the service finds the
  run of the first attempt again by its key, completed and without further calls: the second attempt
  compares the report with itself and the differences the first attempt had found are never notified.\<close>

theorem repeated_cycle_is_silent:
  "case run_cycle env1 svc req i now s of
     (Inr r1, s1) \<Rightarrow>
       (case cr_run_id r1 of
          Some rid \<Rightarrow>
            if cr_current r1 \<noteq> None \<and> latest_monitor_snapshot (mq_project_id req) s1 = cr_current r1
              \<and> get_project (mq_project_id req) s1 = get_project (mq_project_id req) s
            then (case run_cycle env2 (\<lambda>_. ([], RunReturned rid ''completed'')) req i now s1 of
                (Inr r2, _) \<Rightarrow> cr_run_id r2 = Some rid \<and> cr_current r2 = cr_current r1
                  \<and> cr_previous r2 = cr_current r1 \<and> cr_anomalies r2 = []
              | _ \<Rightarrow> False)
            else True
        | None \<Rightarrow> True)
   | _ \<Rightarrow> True"
proof -
  obtain q s1 where run: "run_cycle env1 svc req i now s = (q, s1)" by fastforce
  show ?thesis
  proof (cases q)
    case (Inr r1)
    show ?thesis
    proof (cases "cr_run_id r1")
      case (Some rid)
      obtain p where p: "get_project (mq_project_id req) s = Some p" "pj_workspace_id p = mq_workspace_id req"
        "cr_current r1 = cycle_current (pj_id p) rid s1"
        using cycle_with_run[OF run[unfolded Inr] Some] by blast
      obtain n where n: "cr_current r1 = Some n" if "cr_current r1 \<noteq> None" by blast
      have again: "run_calls [] s1 = s1" by (simp add: run_calls_def)
      show ?thesis unfolding run Inr prod.case sum.case Some option.case
      proof (rule if_split[THEN iffD2], intro conjI impI)
        assume same: "cr_current r1 \<noteq> None \<and> latest_monitor_snapshot (mq_project_id req) s1 = cr_current r1
          \<and> get_project (mq_project_id req) s1 = get_project (mq_project_id req) s"
        have p1: "get_project (mq_project_id req) s1 = Some p" using same p by simp
        have cur: "cycle_current (pj_id p) rid s1 = Some n" "latest_monitor_snapshot (mq_project_id req) s1 = Some n"
          "cr_current r1 = Some n" using same n p(3) by simp_all
        show "case run_cycle env2 (\<lambda>_. ([], RunReturned rid ''completed'')) req i now s1 of
                (Inr r2, _) \<Rightarrow> cr_run_id r2 = Some rid \<and> cr_current r2 = cr_current r1
                  \<and> cr_previous r2 = cr_current r1 \<and> cr_anomalies r2 = []
              | _ \<Rightarrow> False"
          using p1 p(2) cur
          by (simp add: run_cycle_def again finished_cycle_def cycle_current_def[symmetric] Let_def
              monitor_cycle_status_def detect_monitor_anomalies_def)
      qed simp
    qed (simp add: run Inr)
  qed (simp add: run)
qed
end
