(* ===== verification/ScanProps.thy ===== *)
theory ScanProps
  imports Scans MonitorProps
begin

text \<open>
  What scheduled scans promise: every target is accounted for once and in order, a failing project
  does not end the scan, and the scan ends whatever its activities do.
\<close>

section \<open>Payloads\<close>

definition target_ok :: "scan_request \<Rightarrow> scan_target \<Rightarrow> bool" where
  "target_ok req t \<longleftrightarrow> (if sq_workspace_id req = '''' then True else tg_workspace_id t = sq_workspace_id req)
     \<and> tg_competitor_layer t \<in> {None, Some ''L1'', Some ''L2'', Some ''L3''}
     \<and> tg_dimensions t \<noteq> []
     \<and> (if sq_project_ids req = [] then True else tg_project_id t \<in> set (sq_project_ids req))"

lemma read_text_list_jstrs:
  assumes "map_of d k = Some (jstrs xs)"
  shows "read_text_list d k = Inr xs"
proof -
  have "list_all (\<lambda>v. json_text v \<noteq> None) (map JStr xs)" "List.map_filter json_text (map JStr xs) = xs"
    by (induction xs) (simp_all add: json_text_def List.map_filter_def)
  then show ?thesis using assms by (simp add: read_text_list_def)
qed

lemma read_layer_jstr:
  "map_of d k = Some (jstr_opt l) \<Longrightarrow> l \<in> {None, Some ''L1'', Some ''L2'', Some ''L3''} \<Longrightarrow>
     read_optional_layer d k = Inr l"
  by (cases l) (auto simp: read_optional_layer_def)

lemma coerce_target_payload:
  assumes "target_ok req t"
  shows "coerce_target (JDict (target_payload t)) = Inr t"
proof -
  let ?d = "target_payload t"
  have lists: "read_text_list ?d ''competitors'' = Inr (tg_competitors t)"
    "read_text_list ?d ''dimensions'' = Inr (tg_dimensions t)"
    by (rule read_text_list_jstrs, simp add: target_payload_def)+
  have layer: "read_optional_layer ?d ''competitor_layer'' = Inr (tg_competitor_layer t)"
    using assms by (intro read_layer_jstr) (simp_all add: target_payload_def target_ok_def)
  have rest: "read_text ''Scheduled scan'' ?d ''project_id'' = Inr (tg_project_id t)"
    "read_text ''Scheduled scan'' ?d ''workspace_id'' = Inr (tg_workspace_id t)"
    "read_text ''Scheduled scan'' ?d ''topic'' = Inr (tg_topic t)"
    "read_optional_text ''Scheduled scan'' ?d ''scenario_id'' = Inr (tg_scenario_id t)"
    by (simp_all add: target_payload_def)
  show ?thesis unfolding coerce_target_def json.case lists layer rest err_bind.simps by simp
qed

definition result_ok :: "project_result \<Rightarrow> bool" where
  "result_ok r \<longleftrightarrow> sp_status r \<in> {''completed'', ''interrupted'', ''failed''}"

lemma coerce_project_payload: "result_ok r \<Longrightarrow> coerce_project_result (project_payload r) = Inr r"
proof -
  assume ok: "result_ok r"
  let ?d = "project_payload r"
  have status: "read_choice m [''completed'', ''interrupted'', ''failed''] ?d ''status'' = Inr (sp_status r)" for m
    using ok by (simp add: project_payload_def result_ok_def)
  have rest: "read_text ''Scheduled scan'' ?d ''project_id'' = Inr (sp_project_id r)"
    "read_optional_text ''Scheduled scan'' ?d ''run_id'' = Inr (sp_run_id r)"
    "read_optional_text ''Scheduled scan'' ?d ''report_version_id'' = Inr (sp_report_version_id r)"
    "read_int ''Scheduled scan'' ?d ''evidence_count'' = Inr (sp_evidence_count r)"
    "read_int ''Scheduled scan'' ?d ''claim_count'' = Inr (sp_claim_count r)"
    "read_optional_text ''Scheduled scan'' ?d ''error'' = Inr (Some (sp_error r))"
    by (simp_all add: project_payload_def)
  show ?thesis unfolding coerce_project_result_def status rest err_bind.simps by simp
qed

lemma coerce_scan_notice_payload: "coerce_scan_notice (scan_notice_payload n) = Inr n"
  by (simp add: coerce_scan_notice_def scan_notice_payload_def)

section \<open>Activities\<close>

lemma layer_or_none_ok: "layer_or_none l \<in> {None, Some ''L1'', Some ''L2'', Some ''L3''}"
  by (auto simp: layer_or_none_def)

lemma table_values_distinct:
  assumes "table_ok f d"
  shows "distinct (map f (filter q (dict_values d)))"
proof -
  have "map f (dict_values d) = map fst d"
    using assms by (induction d) (auto simp: table_ok_def dict_values_def)
  then have "distinct (map f (dict_values d))" using assms by (simp add: table_ok_def)
  then show ?thesis by (rule distinct_map_filter)
qed

lemma listed_projects:
  assumes "store_ok s"
  shows "distinct (map pj_id (list_projects w s))"
proof -
  have t: "table_ok pj_id (st_projects s)" using assms by (simp add: store_ok_def tables_ok_def)
  have "distinct (map pj_id (opt_filter w (\<lambda>p. Some (pj_workspace_id p)) (dict_values (st_projects s))))"
    using table_values_distinct[OF t] table_values_distinct[OF t, of "\<lambda>_. True"]
    by (simp add: opt_filter_def)
  then show ?thesis by (simp add: list_projects_def distinct_map sort_desc_def)
qed

lemma listed_workspace:
  "p \<in> set (list_projects (Some w) s) \<Longrightarrow> (if w = '''' then True else pj_workspace_id p = w)"
  by (simp add: list_projects_def opt_filter_def split: if_splits)

text \<open>The targets of a scan: distinct projects, as many as asked for, of the workspace.\<close>

definition targets_ok :: "scan_request \<Rightarrow> scan_target list \<Rightarrow> bool" where
  "targets_ok req ts \<longleftrightarrow> list_all (target_ok req) ts \<and> distinct (map tg_project_id ts)
     \<and> int (length ts) \<le> max 1 (sq_max_projects req)"

lemma list_targets_result:
  assumes "list_targets req s = (Inr ts, t)" and "store_ok s"
  shows "t = s \<and> targets_ok req ts"
proof -
  let ?ps = "list_projects (Some (sq_workspace_id req)) s"
  let ?wanted = "if sq_project_ids req \<noteq> [] then filter (\<lambda>p. pj_id p \<in> set (sq_project_ids req)) ?ps else ?ps"
  let ?n = "nat (max 1 (sq_max_projects req))"
  have ts: "ts = map (\<lambda>p. target_from_project p (sq_dimensions req) s) (take ?n ?wanted)" and st: "t = s"
    using assms(1) unfolding list_targets_def Let_def by blast+
  have "map tg_project_id ts = map pj_id (take ?n ?wanted)"
    by (simp add: ts target_from_project_def)
  moreover have "distinct (map pj_id ?wanted)"
    using listed_projects[OF assms(2)] by (simp add: distinct_map_filter)
  then have "distinct (map pj_id (take ?n ?wanted))" unfolding take_map[symmetric] by (rule distinct_take)
  moreover have "length ts \<le> ?n" by (simp add: ts)
  then have "int (length ts) \<le> max 1 (sq_max_projects req)" by linarith
  moreover have "target_ok req (target_from_project p (sq_dimensions req) s)" if "p \<in> set (take ?n ?wanted)" for p
  proof -
    have "p \<in> set ?wanted" using that in_set_takeD by fast
    then have p: "p \<in> set ?ps" "if sq_project_ids req = [] then True else pj_id p \<in> set (sq_project_ids req)"
      by (auto split: if_splits)
    show ?thesis using listed_workspace[OF p(1)] p(2) layer_or_none_ok[of "Some (pj_competitor_layer p)"]
      by (simp add: target_ok_def target_from_project_def)
  qed
  then have "list_all (target_ok req) ts" by (simp add: ts list_all_iff)
  ultimately show ?thesis using st by (simp add: targets_ok_def)
qed

lemma list_targets_safe: "op_rel safe_step (list_targets req)"
  by (simp add: op_rel_def list_targets_def Let_def safe.R_refl)

lemma coerce_targets_payload:
  assumes "targets_ok req ts"
  shows "coerce_targets (JList (map (\<lambda>t. JDict (target_payload t)) ts)) = Inr ts"
  using assms by (simp add: coerce_targets_def targets_ok_def list_all_iff)
    (rule err_map_Inr, rule coerce_target_payload[of req], blast)

lemma run_project_result:
  assumes "run_project_scan svc req t now s = (Inr r, u)"
  shows "result_ok r \<and> sp_project_id r = tg_project_id t"
  using assms by (auto simp: run_project_scan_def split_beta Let_def result_ok_def scan_project_status_def
      split: run_outcome.splits if_splits)

lemma run_project_safe: "op_rel safe_step (run_project_scan svc req t now)"
  by (simp add: op_rel_def run_project_scan_def split_beta Let_def run_calls_safe split: run_outcome.split)

lemma record_summary_safe: "op_rel safe_step (record_scan_notification env req rs now)"
  by (simp add: op_rel_def record_scan_notification_def split_beta Let_def upsert_notification_safe)

definition summary_id :: "scan_request \<Rightarrow> str \<Rightarrow> str" where
  "summary_id req now = compute_notification_id
     [JStr (sq_workspace_id req), JStr (sq_schedule_id req), JStr now]"

lemma record_summary_result:
  assumes "record_scan_notification env req rs now s = (Inr n, t)"
  shows "sk_notification_id n = Some (summary_id req now) \<and> summary_id req now \<in> fst ` set (st_notifications t)"
proof -
  have i: "nt_id (scan_notification env req rs now) = summary_id req now"
    by (simp add: scan_notification_def summary_id_def Let_def)
  have "map_of (st_notifications t) (nt_id (scan_notification env req rs now)) \<noteq> None"
    using assms by (auto simp: record_scan_notification_def upsert_notification_def Let_def
        append_audit_def map_of_update)
  then show ?thesis
    using assms i by (auto simp: record_scan_notification_def upsert_notification_def Let_def
        map_of_eq_None_iff)
qed
section \<open>The workflow\<close>

definition scan_books :: "scan_request \<Rightarrow> str \<Rightarrow> scan_workflow \<Rightarrow> bool" where
  "scan_books req now w \<longleftrightarrow> sw_request w = req \<and> sw_started_at w = now
     \<and> targets_ok req (sw_targets w) \<and> list_all result_ok (sw_results w)"

definition scan_phase_ok :: "scan_request \<Rightarrow> str \<Rightarrow> scan_workflow \<Rightarrow> store \<Rightarrow> bool" where
  "scan_phase_ok req now w s \<longleftrightarrow>
     (case sw_phase w of
        Listing k \<Rightarrow> k < 3 \<and> sw_results w = [] \<and> sw_targets w = []
      | Scanning ts k \<Rightarrow> k < 2 \<and> ts \<noteq> []
          \<and> map sp_project_id (sw_results w) @ map tg_project_id ts = map tg_project_id (sw_targets w)
      | Summarising k \<Rightarrow> k < 3 \<and> map sp_project_id (sw_results w) = map tg_project_id (sw_targets w)
      | ScanDone r \<Rightarrow> map sp_project_id (sw_results w) = map tg_project_id (sw_targets w)
          \<and> r = scan_result_of w (Some (summary_id req now)) \<and> sw_status w = sr_status r
          \<and> summary_id req now \<in> fst ` set (st_notifications s)
      | ScanFailed \<Rightarrow> True
      | ScanStuck \<Rightarrow> False)"

lemma scan_phase_kept:
  assumes "scan_phase_ok req now w s" and "extends s t"
  shows "scan_phase_ok req now w t"
proof -
  have "fst ` set (st_notifications s) \<subseteq> fst ` set (st_notifications t)"
    using assms(2) by (simp only: extends_def keys_grow_def)
  then show ?thesis using assms(1) by (auto simp: scan_phase_ok_def split: scan_phase.split)
qed

lemma start_scan_ok:
  "scan_books req now (start_scan_workflow req now)"
  "scan_phase_ok req now (start_scan_workflow req now) s"
  by (simp_all add: scan_books_def scan_phase_ok_def start_scan_workflow_def targets_ok_def)

lemma targets_listed_ok:
  assumes "scan_books req now w" and "sw_results w = []" and "targets_ok req ts"
  shows "scan_books req now (targets_listed (JList (map (\<lambda>t. JDict (target_payload t)) ts)) w)
    \<and> scan_phase_ok req now (targets_listed (JList (map (\<lambda>t. JDict (target_payload t)) ts)) w) s"
  using assms unfolding targets_listed_def coerce_targets_payload[OF assms(3)] sum.case
  by (simp add: scan_books_def scan_phase_ok_def scan_next_def)

lemma project_scanned_ok:
  assumes "scan_books req now w" and "sw_phase w = Scanning (t # rest) k" and "scan_phase_ok req now w s"
    and "result_ok r" and "sp_project_id r = tg_project_id t"
  shows "scan_books req now (project_scanned rest r w) \<and> scan_phase_ok req now (project_scanned rest r w) u"
proof -
  have "map sp_project_id (sw_results w) @ map tg_project_id (t # rest) = map tg_project_id (sw_targets w)"
    using assms(2,3) by (simp add: scan_phase_ok_def)
  then show ?thesis using assms(1,4,5)
    by (cases rest) (simp_all add: scan_books_def scan_phase_ok_def scan_next_def project_scanned_def)
qed

lemma listing_step_ok:
  assumes books: "scan_books req now w" and ph: "sw_phase w = Listing k" "scan_phase_ok req now w s"
    and s: "store_ok s" and st: "scan_step m (ScanAttempt env svc d) (w, s) = (w', t)"
  shows "store_ok t \<and> extends s t \<and> scan_books req now w' \<and> scan_phase_ok req now w' t"
proof -
  obtain e u where e: "try_activity 3 (list_targets (sw_request w)) d k s = (e, u)" by fastforce
  note g = attempt_grows[OF list_targets_safe e s]
  have start: "sw_results w = []" "sw_targets w = []" "sw_request w = req"
    using ph books by (simp_all add: scan_phase_ok_def scan_books_def)
  show ?thesis
  proof (cases e)
    case (Again j)
    then have "j < 3" using try_activity_Again e by blast
    then show ?thesis using st ph(1) e Again g books start by (auto simp: scan_books_def scan_phase_ok_def)
  next
    case (Exhausted x)
    then show ?thesis using st ph(1) e g books by (auto simp: scan_books_def scan_phase_ok_def)
  next
    case (Answer ts)
    have "targets_ok req ts"
      using list_targets_result try_activity_Answer[OF e[unfolded Answer]] s start(3) by blast
    then show ?thesis using targets_listed_ok[OF books start(1)] st ph(1) e Answer g by auto
  qed
qed

lemma scanning_step_ok:
  assumes books: "scan_books req now w" and ph: "sw_phase w = Scanning (x # rest) k" "scan_phase_ok req now w s"
    and s: "store_ok s" and st: "scan_step m (ScanAttempt env svc d) (w, s) = (w', t)"
  shows "store_ok t \<and> extends s t \<and> scan_books req now w' \<and> scan_phase_ok req now w' t"
proof -
  obtain e u where e: "try_activity 2 (run_project_scan svc (sw_request w) x (sw_started_at w)) d k s = (e, u)"
    by fastforce
  note g = attempt_grows[OF run_project_safe e s]
  show ?thesis
  proof (cases e)
    case (Again j)
    then have "j < 2" using try_activity_Again e by blast
    then show ?thesis using st ph e Again g books by (auto simp: scan_books_def scan_phase_ok_def)
  next
    case (Exhausted err)
    have "result_ok (failed_project x (m err))" "sp_project_id (failed_project x (m err)) = tg_project_id x"
      by (simp_all add: failed_project_def result_ok_def)
    then show ?thesis using project_scanned_ok[OF books ph] st ph(1) e Exhausted g by auto
  next
    case (Answer r)
    have r: "result_ok r" "sp_project_id r = tg_project_id x"
      using run_project_result try_activity_Answer[OF e[unfolded Answer]] by blast+
    then show ?thesis using project_scanned_ok[OF books ph r] st ph(1) e Answer g
      by (auto simp: coerce_project_payload)
  qed
qed

lemma summarising_step_ok:
  assumes books: "scan_books req now w" and ph: "sw_phase w = Summarising k" "scan_phase_ok req now w s"
    and s: "store_ok s" and st: "scan_step m (ScanAttempt env svc d) (w, s) = (w', t)"
  shows "store_ok t \<and> extends s t \<and> scan_books req now w' \<and> scan_phase_ok req now w' t"
proof -
  obtain e u where e: "try_activity 3 (record_scan_notification env (sw_request w) (sw_results w)
      (sw_started_at w)) d k s = (e, u)" by fastforce
  note g = attempt_grows[OF record_summary_safe e s]
  have all: "map sp_project_id (sw_results w) = map tg_project_id (sw_targets w)"
    using ph by (simp add: scan_phase_ok_def)
  have w: "sw_request w = req" "sw_started_at w = now" using books by (simp_all add: scan_books_def)
  show ?thesis
  proof (cases e)
    case (Again j)
    then have "j < 3" using try_activity_Again e by blast
    then show ?thesis using st ph e Again g books by (auto simp: scan_books_def scan_phase_ok_def)
  next
    case (Exhausted x)
    then show ?thesis using st ph(1) e g books by (auto simp: scan_books_def scan_phase_ok_def)
  next
    case (Answer n)
    have n: "sk_notification_id n = Some (summary_id req now)" "summary_id req now \<in> fst ` set (st_notifications u)"
      using record_summary_result[OF try_activity_Answer[OF e[unfolded Answer]]] unfolding w by blast+
    have "w' = w\<lparr>sw_status := sr_status (scan_result_of w (Some (summary_id req now))),
        sw_phase := ScanDone (scan_result_of w (Some (summary_id req now)))\<rparr>" "t = u"
      using st ph(1) e Answer n(1) by (simp_all add: scan_summarised_def coerce_scan_notice_payload Let_def)
    then show ?thesis using g books all n(2)
      by (simp add: scan_books_def scan_phase_ok_def) (simp add: scan_result_of_def)
  qed
qed

lemma scan_step_ok:
  assumes "scan_books req now w" and "scan_phase_ok req now w s" and "store_ok s"
    and "scan_step m ev (w, s) = (w', t)"
  shows "store_ok t \<and> extends s t \<and> scan_books req now w' \<and> scan_phase_ok req now w' t"
proof (cases ev)
  case (ScanAttempt env svc d)
  note st = assms(4)[unfolded ScanAttempt]
  show ?thesis
  proof (cases "sw_phase w")
    case (Listing k)
    then show ?thesis using listing_step_ok assms(1-3) st by blast
  next
    case (Scanning ts k)
    then obtain x rest where "ts = x # rest" using assms(2) by (cases ts) (simp_all add: scan_phase_ok_def)
    then show ?thesis using scanning_step_ok Scanning assms(1-3) st by blast
  next
    case (Summarising k)
    then show ?thesis using summarising_step_ok assms(1-3) st by blast
  qed (use assms st in \<open>auto simp: extends_refl\<close>)
next
  case (ScanOther env c)
  have "store_ok (run_call env c s) \<and> extends s (run_call env c s)"
    using run_call_safe assms(3) by (simp add: safe_step_def)
  then show ?thesis using assms scan_phase_kept unfolding ScanOther by auto
qed

lemma run_scan_ok:
  assumes "store_ok s" and "run_scan m req now evs s = (w, t)"
  shows "store_ok t \<and> extends s t \<and> scan_books req now w \<and> scan_phase_ok req now w t"
  using assms
proof (induction evs arbitrary: w t rule: rev_induct)
  case Nil
  then show ?case using start_scan_ok[of req now] by (auto simp: run_scan_def extends_refl)
next
  case (snoc e evs)
  obtain w0 t0 where r: "run_scan m req now evs s = (w0, t0)" by fastforce
  have "scan_step m e (w0, t0) = (w, t)" using snoc.prems(2) r by (simp add: run_scan_def)
  then show ?case using snoc.IH[OF snoc.prems(1) r] scan_step_ok extends_trans by blast
qed
lemma status_counts_partition:
  "list_all result_ok rs \<Longrightarrow>
     status_count ''completed'' rs + status_count ''failed'' rs + status_count ''interrupted'' rs = length rs"
  by (induction rs) (auto simp: status_count_def result_ok_def loop_simps)

text \<open>C17. Whatever happens to a scheduled scan, the store keeps its invariant and its history and
  no payload is ever refused; a finished scan has one result for each target, in order, its
  targets are distinct projects of the workspace (among those asked for, if any were, and no more
  than the limit), its counts partition the results, its status is completed exactly when every
  target is, empty exactly when there is none, and its summary is in the store.\<close>

theorem scan_accounts_for_targets:
  "let s = run_calls cs (init_store env0);
       (w, t) = run_scan m req now evs s;
       n = length (sw_targets w)
   in store_ok t \<and> extends s t \<and> sw_phase w \<noteq> ScanStuck
     \<and> (case sw_phase w of
         ScanDone r \<Rightarrow>
           map sp_project_id (sw_results w) = map tg_project_id (sw_targets w)
           \<and> targets_ok req (sw_targets w)
           \<and> sr_scanned_project_count r = int n
           \<and> sr_completed_count r + sr_failed_count r + sr_interrupted_count r = int n
           \<and> (sr_status r = ''empty'') = (n = 0)
           \<and> (sr_status r = ''completed'') = (n \<noteq> 0 \<and> sr_completed_count r = int n)
           \<and> (sr_status r = ''failed'') = (n \<noteq> 0 \<and> sr_failed_count r = int n)
           \<and> sr_notification_id r = Some (summary_id req now)
           \<and> summary_id req now \<in> fst ` set (st_notifications t)
       | _ \<Rightarrow> True)"
proof -
  let ?s = "run_calls cs (init_store env0)"
  obtain w t where run: "run_scan m req now evs ?s = (w, t)" by fastforce
  note ok = run_scan_ok[OF run_calls_ok run]
  have "sw_phase w \<noteq> ScanStuck" using ok by (auto simp: scan_phase_ok_def)
  then show ?thesis
  proof (cases "sw_phase w")
    case (ScanDone r)
    have ids: "map sp_project_id (sw_results w) = map tg_project_id (sw_targets w)"
      and r: "r = scan_result_of w (Some (summary_id req now))"
      and sent: "summary_id req now \<in> fst ` set (st_notifications t)"
      and targets: "targets_ok req (sw_targets w)"
      using ok ScanDone by (simp_all add: scan_phase_ok_def scan_books_def)
    let ?rs = "sw_results w" and ?c = "\<lambda>x. status_count x (sw_results w)"
    have len: "length ?rs = length (sw_targets w)" using arg_cong[OF ids, of length] by simp
    have sum: "?c ''completed'' + ?c ''failed'' + ?c ''interrupted'' = length (sw_targets w)"
      using status_counts_partition[of ?rs] ok len by (simp add: scan_books_def)
    have sel: "sr_scanned_project_count r = int (length (sw_targets w))"
      "sr_completed_count r = int (?c ''completed'')" "sr_failed_count r = int (?c ''failed'')"
      "sr_interrupted_count r = int (?c ''interrupted'')" "sr_notification_id r = Some (summary_id req now)"
      "sr_status r = scan_status (length (sw_targets w)) (?c ''completed'') (?c ''failed'') (?c ''interrupted'')"
      by (simp_all add: r scan_result_of_def Let_def len)
    have status: "(sr_status r = ''empty'') = (length (sw_targets w) = 0)"
      "(sr_status r = ''completed'') = (length (sw_targets w) \<noteq> 0 \<and> ?c ''completed'' = length (sw_targets w))"
      "(sr_status r = ''failed'') = (length (sw_targets w) \<noteq> 0 \<and> ?c ''failed'' = length (sw_targets w))"
      unfolding sel scan_status_def using sum by auto
    show ?thesis unfolding run Let_def prod.case ScanDone scan_phase.case status sel(1-5)
      using ok ids targets sent sum by (intro conjI refl) (simp_all flip: of_nat_add)
  qed (use ok run in simp_all)
qed

section \<open>Termination\<close>

definition scan_ended :: "scan_phase \<Rightarrow> bool" where
  "scan_ended p \<longleftrightarrow> (case p of ScanDone _ \<Rightarrow> True | ScanFailed \<Rightarrow> True | _ \<Rightarrow> False)"

fun scan_drive ::
  "(py_error option \<Rightarrow> str) \<Rightarrow> (env \<times> store_call) list \<times> env \<times> run_service \<times> bool
    \<Rightarrow> scan_workflow \<times> store \<Rightarrow> scan_workflow \<times> store" where
  "scan_drive m (others, env, svc, delivered) (w, s) =
     scan_step m (ScanAttempt env svc delivered) (w, run_calls others s)"

definition scan_fuel :: "scan_workflow \<Rightarrow> nat" where
  "scan_fuel w =
     (case sw_phase w of
        Listing k \<Rightarrow> 2 * nat (max 1 (sq_max_projects (sw_request w))) + 6 - k
      | Scanning ts k \<Rightarrow> 2 * length ts + 3 - k
      | Summarising k \<Rightarrow> 3 - k
      | _ \<Rightarrow> 0)"

lemma next_fuel: "scan_fuel (w\<lparr>sw_phase := scan_next ts\<rparr>) = 2 * length ts + 3"
  by (simp add: scan_fuel_def scan_next_def)

lemma scan_drive_less:
  assumes books: "scan_books req now w" and ph: "scan_phase_ok req now w s" and s: "store_ok s"
    and active: "\<not> scan_ended (sw_phase w)"
    and st: "scan_step m (ScanAttempt env svc d) (w, s) = (w', t)"
  shows "scan_fuel w' < scan_fuel w"
proof (cases "sw_phase w")
  case (Listing k)
  obtain e u where e: "try_activity 3 (list_targets (sw_request w)) d k s = (e, u)" by fastforce
  have k: "k < 3" using ph Listing by (simp add: scan_phase_ok_def)
  show ?thesis
  proof (cases e)
    case (Again j)
    then have "j = k + 1" using try_activity_Again e by blast
    then show ?thesis using st Listing e Again k by (auto simp: scan_fuel_def)
  next
    case (Exhausted x)
    then show ?thesis using st Listing e k by (auto simp: scan_fuel_def)
  next
    case (Answer ts)
    have req: "sw_request w = req" using books by (simp add: scan_books_def)
    have ts: "targets_ok req ts"
      using list_targets_result try_activity_Answer[OF e[unfolded Answer]] s req by blast
    have "w' = w\<lparr>sw_targets := ts, sw_phase := scan_next ts\<rparr>"
      using st Listing e Answer coerce_targets_payload[OF ts] by (simp add: targets_listed_def)
    then have "scan_fuel w' = 2 * length ts + 3" using next_fuel[where w = "w\<lparr>sw_targets := ts\<rparr>" and ts = ts] by simp
    moreover have "length ts \<le> nat (max 1 (sq_max_projects req))" using ts unfolding targets_ok_def by linarith
    ultimately show ?thesis using Listing k req by (simp add: scan_fuel_def)
  qed
next
  case (Scanning ts k)
  then obtain x rest where ts: "ts = x # rest" using ph by (cases ts) (simp_all add: scan_phase_ok_def)
  obtain e u where e: "try_activity 2 (run_project_scan svc (sw_request w) x (sw_started_at w)) d k s = (e, u)"
    by fastforce
  have k: "k < 2" using ph Scanning by (simp add: scan_phase_ok_def)
  have scanned: "scan_fuel (project_scanned rest r w) = 2 * length rest + 3" for r
    using next_fuel[where w = "w\<lparr>sw_results := sw_results w @ [r]\<rparr>" and ts = rest] by (simp add: project_scanned_def)
  show ?thesis
  proof (cases e)
    case (Again j)
    then have "j = k + 1" using try_activity_Again e by blast
    then show ?thesis using st Scanning ts e Again k by (auto simp: scan_fuel_def)
  next
    case (Exhausted err)
    then show ?thesis using st Scanning ts e k scanned by (auto simp: scan_fuel_def[of w])
  next
    case (Answer r)
    have "result_ok r" using run_project_result try_activity_Answer[OF e[unfolded Answer]] by blast
    then show ?thesis using st Scanning ts e Answer k scanned
      by (auto simp: scan_fuel_def[of w] coerce_project_payload)
  qed
next
  case (Summarising k)
  obtain e u where e: "try_activity 3 (record_scan_notification env (sw_request w) (sw_results w)
      (sw_started_at w)) d k s = (e, u)" by fastforce
  have k: "k < 3" using ph Summarising by (simp add: scan_phase_ok_def)
  show ?thesis
  proof (cases e)
    case (Again j)
    then have "j = k + 1" using try_activity_Again e by blast
    then show ?thesis using st Summarising e Again k by (auto simp: scan_fuel_def)
  next
    case (Exhausted x)
    then show ?thesis using st Summarising e k by (auto simp: scan_fuel_def)
  next
    case (Answer n)
    then show ?thesis using st Summarising e k
      by (auto simp: scan_fuel_def scan_summarised_def coerce_scan_notice_payload Let_def)
  qed
qed (use ph active in \<open>simp_all add: scan_phase_ok_def scan_ended_def\<close>)

lemma scan_ended_stays: "scan_ended (sw_phase w) \<Longrightarrow> fst (scan_drive m x (w, s)) = w"
  by (cases x; cases "sw_phase w") (auto simp: scan_ended_def)

lemma ended_fuel: "scan_ended (sw_phase w) \<Longrightarrow> scan_fuel w = 0"
  by (cases "sw_phase w") (simp_all add: scan_ended_def scan_fuel_def)

lemma scan_driven_ends:
  assumes "scan_books req now w" and "scan_phase_ok req now w s" and "store_ok s"
    and "scan_fuel w \<le> length ds"
  shows "scan_ended (sw_phase (fst (fold (scan_drive m) ds (w, s))))"
  using assms
proof (induction ds arbitrary: w s)
  case Nil
  show ?case
  proof (rule ccontr)
    assume "\<not> ?case"
    then have "\<not> scan_ended (sw_phase w)" by simp
    from scan_drive_less[OF Nil.prems(1-3) this] have "0 < scan_fuel w"
      by (metis less_nat_zero_code not_gr_zero surj_pair)
    then show False using Nil.prems(4) by simp
  qed
next
  case (Cons x ds)
  obtain others env svc d where x: "x = (others, env, svc, d)" by (cases x)
  have g: "store_ok (run_calls others s) \<and> extends s (run_calls others s)"
    using run_calls_safe Cons.prems(3) by (simp add: safe_step_def)
  then have ph: "scan_phase_ok req now w (run_calls others s)" using scan_phase_kept Cons.prems(2) by blast
  obtain w' t where st: "scan_step m (ScanAttempt env svc d) (w, run_calls others s) = (w', t)" by fastforce
  note ok = scan_step_ok[OF Cons.prems(1) ph conjunct1[OF g] st]
  have "scan_fuel w' \<le> length ds"
  proof (cases "scan_ended (sw_phase w)")
    case True
    then have "w' = w" using scan_ended_stays[of w m x s] st x by simp
    then show ?thesis using True ended_fuel by simp
  next
    case False
    then show ?thesis using scan_drive_less[OF Cons.prems(1) ph conjunct1[OF g] False st] Cons.prems(4) by simp
  qed
  then show ?case using Cons.IH ok st x by auto
qed

text \<open>A scheduled scan ends: after two deliveries for each project it may take and six for its
  list and its summary it has finished or failed, whatever its activities return or raise and
  whatever others do to the store meanwhile.\<close>

theorem scan_terminates:
  "let (w, t) = fold (scan_drive m) ds (start_scan_workflow req now, run_calls cs (init_store env0))
   in if 2 * max 1 (sq_max_projects req) + 6 \<le> int (length ds) then scan_ended (sw_phase w) else True"
proof -
  let ?w = "start_scan_workflow req now"
  have "scan_fuel ?w = 2 * nat (max 1 (sq_max_projects req)) + 6"
    by (simp add: scan_fuel_def start_scan_workflow_def)
  then have "scan_fuel ?w \<le> length ds" if "2 * max 1 (sq_max_projects req) + 6 \<le> int (length ds)"
    using that by linarith
  then show ?thesis
    using scan_driven_ends[OF start_scan_ok run_calls_ok, of req now ds m cs env0]
    by (simp add: split_beta)
qed
end
