(* ===== verification/Planning.thy ===== *)
theory Planning
  imports Schema
begin

text \<open>
  business_intel/layers.py, scenarios.py, planning.py, dimensions.py and the selection of
  qa_rules.py: the competitor layer of a project, the scenario pack it is analysed with and the
  business rules it is held to. The rules themselves are read from a YAML file and are an argument;
  so is the order in which Python iterates over a set of keywords, which the signals show.
\<close>

section \<open>Plans and rules\<close>

record qa_rule =
  qr_id :: str
  qr_name :: str
  qr_severity :: str
  qr_applies_to_layers :: "str list"
  qr_required_dimensions :: "str list"
  qr_min_sources_per_competitor :: int
  qr_require_verified_source :: bool
  qr_rationale :: str

record layer_assessment =
  la_layer :: str
  la_confidence :: rat
  la_rationale :: str
  la_signals :: "str list"

record scenario_pack =
  sc_id :: str
  sc_name :: str
  sc_description :: str
  sc_competitor_layer :: str
  sc_seed_competitors :: "str list"
  sc_required_dimensions :: "str list"
  sc_optional_dimensions :: "str list"
  sc_analyst_questions :: "str list"
  sc_evidence_requirements :: "str list"
  sc_qa_rule_ids :: "str list"
  sc_is_dynamic :: bool

record business_plan =
  bp_topic :: str
  bp_competitor_layer :: layer_assessment
  bp_scenario_pack :: scenario_pack
  bp_requested_dimensions :: "str list"
  bp_recommended_dimensions :: "str list"
  bp_qa_rules :: "qa_rule list"

abbreviation bp_layer :: "business_plan \<Rightarrow> str" where
  "bp_layer plan \<equiv> la_layer (bp_competitor_layer plan)"

definition dimension_key :: "str \<Rightarrow> str" where
  "dimension_key d = strip (lower d)"

definition unique_dimensions :: "str list \<Rightarrow> str list" where
  "unique_dimensions ds = keep_first dimension_key (\<lambda>d. dimension_key d \<noteq> '''') [] ds"

definition effective_analysis_dimensions :: "business_plan \<Rightarrow> str list" where
  "effective_analysis_dimensions plan =
     unique_dimensions (sc_required_dimensions (bp_scenario_pack plan) @ bp_requested_dimensions plan)"

definition business_layers :: "str list" where
  "business_layers = [''L1'', ''L2'', ''L3'']"

definition list_business_qa_rules ::
  "qa_rule list \<Rightarrow> str option \<Rightarrow> str list option \<Rightarrow> qa_rule list" where
  "list_business_qa_rules all_rules layer rule_ids =
     (let rules = (case rule_ids of
              None \<Rightarrow> all_rules
            | Some ids \<Rightarrow> filter (\<lambda>r. qr_id r \<in> set ids) all_rules)
      in case layer of
           None \<Rightarrow> rules
         | Some l \<Rightarrow>
             if l \<in> set business_layers
             then filter (\<lambda>r. l \<in> set (qr_applies_to_layers r)) rules else rules)"

section \<open>The layer of a project\<close>

definition contains_any :: "str list \<Rightarrow> str \<Rightarrow> bool" where
  "contains_any needles s = list_ex (\<lambda>n. has_substring n s) needles"

definition l1_keywords :: "str list" where
  "l1_keywords = [''battlecard'', ''direct'', ''pricing'', ''feature'', ''replacement'', ''vs'']"

definition l2_keywords :: "str list" where
  "l2_keywords = [''adjacent'', ''alternative'', ''workflow'', ''integration'', ''ecosystem'', ''partner'']"

definition l3_keywords :: "str list" where
  "l3_keywords = [''landscape'', ''market'', ''category'', ''trend'', ''industry'', ''benchmark'']"

definition layer_keywords :: "str \<Rightarrow> str list" where
  "layer_keywords layer =
     (if layer = ''L1'' then l1_keywords else if layer = ''L2'' then l2_keywords else l3_keywords)"

definition l2_strong_signals :: "str list" where
  "l2_strong_signals = [''workflow'', ''integration'', ''integrations'', ''ecosystem'', ''enterprise'',
     ''security'', ''compliance'', ''governance'', ''switching'']"

definition l3_strong_signals :: "str list" where
  "l3_strong_signals = [''landscape'', ''market'', ''category'', ''trend'', ''industry'', ''benchmark'',
     ''segmentation'']"

definition dimension_has :: "str list \<Rightarrow> str \<Rightarrow> bool" where
  "dimension_has keywords dimension = contains_any keywords (lower dimension)"

definition layer_priority :: "str \<Rightarrow> int" where
  "layer_priority layer =
     (if layer = ''L1'' then 3 else if layer = ''L2'' then 2 else if layer = ''L3'' then 1 else 0)"

definition layer_rationale :: "str \<Rightarrow> nat \<Rightarrow> str" where
  "layer_rationale layer n =
     (if layer = ''L1'' then ''Focused on direct product comparison across '' @ str_of_int (int n)
        @ '' competitor(s).''
      else if layer = ''L2'' then
        ''Signals point to adjacent workflow, ecosystem, or alternative-category analysis.''
      else ''Signals point to category, market landscape, or benchmark-level analysis.'')"

text \<open>The score of a layer: its keywords in the text and the points of the signals.\<close>

definition layer_score :: "str \<Rightarrow> str list \<Rightarrow> nat \<Rightarrow> str \<Rightarrow> int" where
  "layer_score text dimensions n layer =
     int (count_if (\<lambda>k. has_substring k text) (layer_keywords layer))
     + (if layer = ''L3'' then
          (if 5 \<le> n then 2 else 0)
          + (if list_ex (dimension_has l3_strong_signals) dimensions then 1 else 0)
          + (if contains_any l3_strong_signals text then 2 else 0)
        else if layer = ''L2'' then
          (if 3 \<le> n \<and> n < 5 then 1 else 0)
          + (if list_ex (dimension_has l2_strong_signals) dimensions then 1 else 0)
          + (if contains_any l2_strong_signals text then 2 else 0)
        else
          (if 1 \<le> n \<and> n < 3 then 1 else 0)
          + (if list_ex (dimension_has [''pricing'', ''packaging'']) dimensions then 1 else 0))"

definition layer_signals :: "str \<Rightarrow> str list \<Rightarrow> nat \<Rightarrow> str list" where
  "layer_signals text dimensions n =
     (if 5 \<le> n then [''many_competitors''] else if 3 \<le> n then [''multi_competitor_set'']
      else if 1 \<le> n then [''focused_competitor_set''] else [])
     @ (if list_ex (dimension_has [''pricing'', ''packaging'']) dimensions
        then [''pricing_dimension''] else [])
     @ (if list_ex (dimension_has l3_strong_signals) dimensions then [''market_dimension''] else [])
     @ (if list_ex (dimension_has l2_strong_signals) dimensions then [''ecosystem_dimension''] else [])
     @ (if contains_any l3_strong_signals text then [''explicit_landscape_scope''] else [])
     @ (if contains_any l2_strong_signals text then [''explicit_workflow_or_enterprise_scope''] else [])"

text \<open>\<open>max\<close> by score, then by the priority of the layer, which is below 4.\<close>

definition best_layer :: "(str \<Rightarrow> int) \<Rightarrow> str" where
  "best_layer score =
     (case max_by (\<lambda>l. 4 * score l + layer_priority l) business_layers of Some l \<Rightarrow> l | None \<Rightarrow> '''')"

definition assess_competitor_layer ::
  "(str list \<Rightarrow> str list) \<Rightarrow> str \<Rightarrow> str list \<Rightarrow> str list \<Rightarrow> str option \<Rightarrow> layer_assessment" where
  "assess_competitor_layer set_order topic competitors dimensions requested_layer =
     (if (case requested_layer of Some l \<Rightarrow> l \<in> set business_layers | None \<Rightarrow> False) then
        \<lparr>la_layer = the requested_layer, la_confidence = 1,
         la_rationale = ''Layer was supplied by the caller: '' @ the requested_layer @ ''.'',
         la_signals = [''requested_layer'']\<rparr>
      else
        let text = lower (join '' '' (topic # dimensions));
            n = length (filter (\<lambda>c. strip c \<noteq> '''') competitors);
            score = layer_score text dimensions n; layer = best_layer score;
            all_points = max (sum_list (map score business_layers)) 1;
            confidence = min (95/100) (max (55/100) (of_int (score layer) / of_int all_points + 35/100));
            signals = layer_signals text dimensions n
              @ map (\<lambda>k. layer @ '':'' @ k)
                  (filter (\<lambda>k. has_substring k text) (set_order (layer_keywords layer)))
        in \<lparr>la_layer = layer, la_confidence = round_digits 2 confidence,
            la_rationale = layer_rationale layer n,
            la_signals = (if signals \<noteq> [] then signals else [''default_direct_competition''])\<rparr>)"

section \<open>Scenario packs\<close>

definition scenario_packs :: "scenario_pack list" where
  "scenario_packs =
     [\<lparr>sc_id = ''l1_direct_battlecard'', sc_name = ''Direct battlecard'',
       sc_description = ''Direct replacement comparison for sales, product, and pricing decisions.'',
       sc_competitor_layer = ''L1'', sc_seed_competitors = [''Cursor'', ''GitHub Copilot'', ''Windsurf''],
       sc_required_dimensions = [''pricing'', ''feature'', ''security''],
       sc_optional_dimensions = [''integrations'', ''persona''],
       sc_analyst_questions = [''Where is each competitor clearly stronger than us?'',
         ''Which claims need first-party or official-source proof?'',
         ''What objections should sales prepare for?''],
       sc_evidence_requirements = [''At least one official or verified source per competitor.'',
         ''Pricing claims must cite current pricing or plan documentation.''],
       sc_qa_rule_ids = [''coverage_min_verified'', ''claim_has_evidence'', ''homepage_verified'',
         ''source_reliability_min'', ''pricing_currentness''],
       sc_is_dynamic = False\<rparr>,
      \<lparr>sc_id = ''l1_pricing_pack'', sc_name = ''Pricing and packaging'',
       sc_description = ''Focused pricing-packaging comparison for monetization decisions.'',
       sc_competitor_layer = ''L1'', sc_seed_competitors = [''Cursor'', ''GitHub Copilot'', ''Windsurf''],
       sc_required_dimensions = [''pricing''], sc_optional_dimensions = [''feature'', ''persona''],
       sc_analyst_questions = [''Which plan gates drive perceived value?'',
         ''Which pricing claims are stale or ambiguous?'',
         ''Where do free, pro, and enterprise tiers diverge?''],
       sc_evidence_requirements = [''Pricing rows require official pricing-page evidence.'',
         ''Enterprise-only claims need explicit qualification.''],
       sc_qa_rule_ids = [''claim_has_evidence'', ''homepage_verified'', ''source_reliability_min'',
         ''pricing_currentness''],
       sc_is_dynamic = False\<rparr>,
      \<lparr>sc_id = ''l2_adjacent_workflow'', sc_name = ''Adjacent workflow watch'',
       sc_description = ''Adjacent alternative analysis for workflow expansion and ecosystem positioning.'',
       sc_competitor_layer = ''L2'', sc_seed_competitors = [''Glean'', ''Coveo'', ''Elastic''],
       sc_required_dimensions = [''feature'', ''integrations''],
       sc_optional_dimensions = [''pricing'', ''persona'', ''security''],
       sc_analyst_questions = [''Which adjacent workflow could absorb our core use case?'',
         ''Which integrations change switching cost?'', ''Which buyer personas overlap?''],
       sc_evidence_requirements = [''Cross-category claims must identify the workflow overlap.'',
         ''Integration claims need product documentation or marketplace evidence.''],
       sc_qa_rule_ids = [''coverage_min_verified'', ''homepage_verified'', ''source_reliability_min'',
         ''cross_competitor_matrix''],
       sc_is_dynamic = False\<rparr>,
      \<lparr>sc_id = ''l3_market_landscape'', sc_name = ''Market landscape'',
       sc_description = ''Category-level landscape for segmentation, trend, and benchmark decisions.'',
       sc_competitor_layer = ''L3'',
       sc_seed_competitors = [''Cursor'', ''GitHub Copilot'', ''Windsurf'', ''Tabnine'', ''Codeium''],
       sc_required_dimensions = [''feature'', ''persona'', ''market''],
       sc_optional_dimensions = [''pricing'', ''integrations'', ''security''],
       sc_analyst_questions = [''Which competitor clusters define the category?'',
         ''What trend signals affect product strategy?'',
         ''Where are evidence gaps too broad for a direct battlecard?''],
       sc_evidence_requirements = [
         ''Landscape claims should cite multiple independent sources when possible.'',
         ''Segment labels must be derived from evidence, not only model judgment.''],
       sc_qa_rule_ids = [''coverage_min_verified'', ''homepage_verified'', ''source_reliability_min'',
         ''cross_competitor_matrix'', ''landscape_breadth''],
       sc_is_dynamic = False\<rparr>,
      \<lparr>sc_id = ''enterprise_risk_review'', sc_name = ''Enterprise readiness review'',
       sc_description = ''Enterprise buying-risk review across security, governance, and ''
         @ ''deployment readiness.'',
       sc_competitor_layer = ''L2'', sc_seed_competitors = [''Glean'', ''Coveo'', ''Elastic''],
       sc_required_dimensions = [''security'', ''integrations''],
       sc_optional_dimensions = [''pricing'', ''feature''],
       sc_analyst_questions = [''Which enterprise controls are officially documented?'',
         ''Where are security or compliance claims unsupported?'',
         ''What adoption risks matter to an enterprise buyer?''],
       sc_evidence_requirements = [
         ''Security claims require official docs, trust-center, or policy evidence.'',
         ''Unverified enterprise claims should remain proposed until reviewed.''],
       sc_qa_rule_ids = [''coverage_min_verified'', ''homepage_verified'', ''source_reliability_min'',
         ''security_official_source'', ''claim_has_evidence''],
       sc_is_dynamic = False\<rparr>]"

definition get_scenario_pack :: "str \<Rightarrow> scenario_pack option" where
  "get_scenario_pack scenario_id = List.find (\<lambda>p. sc_id p = scenario_id) scenario_packs"

definition enterprise_risk_signal :: "str \<Rightarrow> bool" where
  "enterprise_risk_signal text =
     contains_any [''security'', ''enterprise'', ''compliance'', ''governance''] text"

definition pricing_pack_signal :: "str \<Rightarrow> str list \<Rightarrow> bool" where
  "pricing_pack_signal text competitors =
     (has_substring ''pricing'' text \<and> \<not> has_substring ''market'' text
      \<and> \<not> has_substring ''landscape'' text \<and> \<not> has_substring ''workflow'' text
      \<and> \<not> has_substring ''enterprise'' text \<and> length competitors \<le> 3)"

definition slug_of :: "str \<Rightarrow> str" where
  "slug_of v =
     str_or (strip_by (\<lambda>c. c = CHR ''_'')
       (sub_runs (\<lambda>c. \<not> (is_lower c \<or> is_digit c)) ''_'' False (lower v))) ''scenario''"

definition dynamic_required_dimensions :: "str \<Rightarrow> str list \<Rightarrow> str list" where
  "dynamic_required_dimensions layer dimensions =
     (let requested = filter (\<lambda>d. d \<noteq> '''') dimensions
      in if requested \<noteq> [] then take 4 requested
         else if layer = ''L3'' then [''feature'', ''persona'', ''market'']
         else if layer = ''L2'' then [''feature'', ''integrations''] else [''pricing'', ''feature''])"

definition generate_dynamic_scenario_pack ::
  "(str list \<Rightarrow> str list) \<Rightarrow> str \<Rightarrow> str list \<Rightarrow> str list \<Rightarrow> str option \<Rightarrow> scenario_pack" where
  "generate_dynamic_scenario_pack set_order topic competitors dimensions requested_layer =
     (let layer = la_layer (assess_competitor_layer set_order topic competitors dimensions requested_layer);
          required = dynamic_required_dimensions layer dimensions
      in \<lparr>sc_id = take 120 (''dynamic_'' @ lower layer @ ''_'' @ slug_of topic),
          sc_name = ''Dynamic '' @ layer @ '' scenario'',
          sc_description = ''Generated scenario pack for '' @ topic @ ''.'',
          sc_competitor_layer = layer, sc_seed_competitors = take 5 competitors,
          sc_required_dimensions = required,
          sc_optional_dimensions = take 3 (filter (\<lambda>d. d \<notin> set required)
            [''pricing'', ''feature'', ''persona'', ''security'', ''integrations'', ''market'']),
          sc_analyst_questions = [''What evidence best distinguishes '' @ topic @ '' competitors?'',
            ''Which claims need official-source validation?'',
            ''Which dimensions are under-evidenced for the selected layer?''],
          sc_evidence_requirements = [
            ''At least one verified source per competitor for required dimensions.'',
            ''Reject phantom or unverified homepages before collection.''],
          sc_qa_rule_ids = [''coverage_min_verified'', ''claim_has_evidence'', ''homepage_verified'',
            ''source_reliability_min''],
          sc_is_dynamic = True\<rparr>)"

text \<open>\<open>_pack\<close> raises for an unknown id; only ids of the list above reach it.\<close>

definition pack_or_error :: "str \<Rightarrow> py_error + scenario_pack" where
  "pack_or_error scenario_id =
     (case get_scenario_pack scenario_id of
        None \<Rightarrow> Inl (ValueError (''Unknown scenario pack: '' @ scenario_id))
      | Some p \<Rightarrow> Inr p)"

definition layer_scenario_pack ::
  "(str list \<Rightarrow> str list) \<Rightarrow> str \<Rightarrow> str list \<Rightarrow> str list \<Rightarrow> str option \<Rightarrow> py_error + scenario_pack" where
  "layer_scenario_pack set_order topic competitors dimensions requested_layer =
     (let layer = la_layer (assess_competitor_layer set_order topic competitors dimensions requested_layer);
          text = lower (join '' '' (topic # dimensions))
      in pack_or_error
           (if layer = ''L2'' \<and> enterprise_risk_signal text then ''enterprise_risk_review''
            else if layer = ''L3'' then ''l3_market_landscape''
            else if layer = ''L2'' then ''l2_adjacent_workflow''
            else if layer = ''L1'' \<and> pricing_pack_signal text competitors then ''l1_pricing_pack''
            else ''l1_direct_battlecard''))"

definition recommend_scenario_pack ::
  "(str list \<Rightarrow> str list) \<Rightarrow> str \<Rightarrow> str list \<Rightarrow> str list \<Rightarrow> str option \<Rightarrow> str option
    \<Rightarrow> py_error + scenario_pack" where
  "recommend_scenario_pack set_order topic competitors dimensions requested_layer requested_id =
     (if given requested_id then
        (case get_scenario_pack (the requested_id) of
           Some p \<Rightarrow> Inr p
         | None \<Rightarrow>
             if starts_with ''dynamic'' (the requested_id)
             then Inr (generate_dynamic_scenario_pack set_order topic competitors dimensions requested_layer)
             else layer_scenario_pack set_order topic competitors dimensions requested_layer)
      else layer_scenario_pack set_order topic competitors dimensions requested_layer)"

definition recommended_dimensions :: "scenario_pack \<Rightarrow> str list \<Rightarrow> str list" where
  "recommended_dimensions pack requested =
     unique_dimensions (requested @ sc_required_dimensions pack @ sc_optional_dimensions pack)"

section \<open>The plan\<close>

definition build_business_intel_plan ::
  "(str list \<Rightarrow> str list) \<Rightarrow> qa_rule list \<Rightarrow> str \<Rightarrow> str list \<Rightarrow> str list \<Rightarrow> str option \<Rightarrow> str option
    \<Rightarrow> py_error + business_plan" where
  "build_business_intel_plan set_order all_rules topic competitors dimensions requested_layer requested_id =
     (let assessed = assess_competitor_layer set_order topic competitors dimensions requested_layer
      in err_bind (recommend_scenario_pack set_order topic competitors dimensions
             (Some (la_layer assessed)) requested_id) (\<lambda>pack.
           let layer = (if requested_layer = None \<and> sc_competitor_layer pack \<noteq> la_layer assessed then
                 assessed\<lparr>la_layer := sc_competitor_layer pack,
                   la_signals := la_signals assessed @ [''scenario_pack_override''],
                   la_rationale := ''Scenario pack `'' @ sc_id pack @ ''` is optimized for ''
                     @ sc_competitor_layer pack @ '' analysis.''\<rparr>
               else assessed)
           in Inr \<lparr>bp_topic = topic, bp_competitor_layer = layer, bp_scenario_pack = pack,
                   bp_requested_dimensions = dimensions,
                   bp_recommended_dimensions = recommended_dimensions pack dimensions,
                   bp_qa_rules = list_business_qa_rules all_rules (Some (la_layer layer))
                     (Some (sc_qa_rule_ids pack))\<rparr>))"

end
