(* ===== verification/BusinessQA.thy ===== *)
theory BusinessQA
  imports Planning
begin

text \<open>
  business_intel/evaluator.py and scorer.py: the business rules a project is held
  to, the readiness score of a project and the ranking of its competitors. Scores are computed
  over rationals and rounded to integers half to even; the time of a report is an argument.
\<close>

section \<open>Business QA\<close>

definition bad_quality :: "str \<Rightarrow> bool" where
  "bad_quality label = (label \<in> {''rejected'', ''stale''})"

definition same_dimension :: "str \<Rightarrow> str \<Rightarrow> bool" where
  "same_dimension left right =
     (let l = dimension_key left; r = dimension_key right
      in l = r \<or> has_substring l r \<or> has_substring r l)"

definition qa_finding ::
  "qa_rule \<Rightarrow> competitor option \<Rightarrow> str option \<Rightarrow> str \<Rightarrow> str list \<Rightarrow> str list \<Rightarrow> str \<Rightarrow> business_finding" where
  "qa_finding rule cp dimension message evidence_ids claim_ids recommendation =
     \<lparr>bf_id = compute_business_qa_finding_id (qr_id rule) (map_option cp_id cp) dimension message,
      bf_rule_id = qr_id rule, bf_rule_name = qr_name rule, bf_severity = qr_severity rule,
      bf_competitor_id = map_option cp_id cp, bf_competitor_name = map_option cp_name cp,
      bf_dimension = dimension, bf_message = message, bf_evidence_ids = evidence_ids,
      bf_claim_ids = claim_ids, bf_recommendation = recommendation, bf_metadata = []\<rparr>"

definition dimensions_for_rule :: "qa_rule \<Rightarrow> business_plan \<Rightarrow> str list" where
  "dimensions_for_rule rule plan =
     (if qr_required_dimensions rule \<noteq> [] then qr_required_dimensions rule
      else effective_analysis_dimensions plan)"

text \<open>The evidence on a competitor and a dimension that is not stale or rejected.\<close>

definition matching_evidence :: "competitor \<Rightarrow> str \<Rightarrow> evidence list \<Rightarrow> evidence list" where
  "matching_evidence cp dimension es =
     filter (\<lambda>e. ev_competitor_id e = cp_id cp \<and> same_dimension (ev_dimension e) dimension
       \<and> \<not> bad_quality (ev_quality_label e)) es"

definition eligible_evidence :: "qa_rule \<Rightarrow> evidence list \<Rightarrow> evidence list" where
  "eligible_evidence rule es =
     filter (\<lambda>e. \<not> qr_require_verified_source rule \<or> ev_source_type e = ''webpage_verified'') es"

definition coverage_findings ::
  "qa_rule \<Rightarrow> business_plan \<Rightarrow> competitor list \<Rightarrow> evidence list \<Rightarrow> business_finding list" where
  "coverage_findings rule plan competitors es =
     concat (map (\<lambda>cp. concat (map (\<lambda>dimension.
       let matching = matching_evidence cp dimension es
       in if qr_min_sources_per_competitor rule \<le> int (length (eligible_evidence rule matching)) then []
          else [qa_finding rule (Some cp) (Some dimension)
            (cp_name cp @ '' needs '' @ str_of_int (qr_min_sources_per_competitor rule) @ '' ''
              @ (if qr_require_verified_source rule then ''verified '' else '''')
              @ ''evidence item(s) for '' @ dimension @ ''.'')
            (map ev_id matching) [] (qr_rationale rule)])
       (dimensions_for_rule rule plan))) competitors)"

definition homepage_ok :: "competitor \<Rightarrow> bool" where
  "homepage_ok cp = (map_of (cp_metadata cp) ''homepage_verified'' = Some (JBool True)
     \<or> cp_homepage_url cp \<noteq> None)"

definition homepage_findings :: "qa_rule \<Rightarrow> competitor list \<Rightarrow> business_finding list" where
  "homepage_findings rule competitors =
     map (\<lambda>cp. qa_finding rule (Some cp) (Some ''homepage'')
         (cp_name cp @ '' does not have a verified homepage.'') [] [] (qr_rationale rule))
       (filter (\<lambda>cp. \<not> homepage_ok cp) competitors)"

definition source_reliability_findings :: "qa_rule \<Rightarrow> evidence list \<Rightarrow> business_finding list" where
  "source_reliability_findings rule es =
     map (\<lambda>e. qa_finding rule None (Some (ev_dimension e))
         (''Evidence '' @ ev_id e @ '' has low reliability score.'') [ev_id e] [] (qr_rationale rule))
       (filter (\<lambda>e. \<not> (bad_quality (ev_quality_label e) \<or> 1/2 \<le> ev_reliability_score e)) es)"

text \<open>\<open>{item.id: item for item in evidence}\<close>: the last record of an id counts.\<close>

definition evidence_by_id :: "evidence list \<Rightarrow> str \<Rightarrow> evidence option" where
  "evidence_by_id es = map_of (rev (map (\<lambda>e. (ev_id e, e)) es))"

definition usable_for_claim :: "evidence list \<Rightarrow> claim \<Rightarrow> evidence list" where
  "usable_for_claim es c =
     filter (\<lambda>e. \<not> bad_quality (ev_quality_label e))
       (List.map_filter (evidence_by_id es) (cl_evidence_ids c))"

definition claim_linkage_findings ::
  "qa_rule \<Rightarrow> evidence list \<Rightarrow> claim list \<Rightarrow> business_finding list" where
  "claim_linkage_findings rule es cs =
     map (\<lambda>c. qa_finding rule None (Some (cl_claim_type c))
         ''Claim has no usable EvidenceRecord after quality filtering.''
         (cl_evidence_ids c) [cl_id c]
         ''Attach an accepted or unreviewed evidence record, or reject the claim.'')
       (filter (\<lambda>c. usable_for_claim es c = []) cs)"

definition landscape_findings :: "qa_rule \<Rightarrow> competitor list \<Rightarrow> business_finding list" where
  "landscape_findings rule competitors =
     (if 4 \<le> length competitors then []
      else [qa_finding rule None (Some ''market'')
        ''Landscape analysis has fewer than four competitors.'' [] []
        ''Add more competitors or downgrade the project to L1/L2.''])"

definition evaluate_rule ::
  "qa_rule \<Rightarrow> business_plan \<Rightarrow> competitor list \<Rightarrow> evidence list \<Rightarrow> claim list \<Rightarrow> business_finding list" where
  "evaluate_rule rule plan competitors es cs =
     (if qr_id rule = ''claim_has_evidence'' then claim_linkage_findings rule es cs
      else if qr_id rule = ''landscape_breadth'' then landscape_findings rule competitors
      else if qr_id rule = ''homepage_verified'' then homepage_findings rule competitors
      else if qr_id rule = ''source_reliability_min'' then source_reliability_findings rule es
      else coverage_findings rule plan competitors es)"

definition severity_count :: "str \<Rightarrow> business_finding list \<Rightarrow> nat" where
  "severity_count severity fs = count_if (\<lambda>f. bf_severity f = severity) fs"

definition evaluate_business_qa ::
  "datetime \<Rightarrow> str \<Rightarrow> business_plan \<Rightarrow> competitor list \<Rightarrow> evidence list \<Rightarrow> claim list
    \<Rightarrow> business_evaluation" where
  "evaluate_business_qa now project_id plan competitors es cs =
     (let fs = concat (map (\<lambda>rule. evaluate_rule rule plan competitors es cs) (bp_qa_rules plan));
          broken = map bf_rule_id fs
      in \<lparr>be_project_id = project_id, be_scenario_id = sc_id (bp_scenario_pack plan),
          be_competitor_layer = bp_layer plan, be_total_rules = int (length (bp_qa_rules plan)),
          be_passed_rules = int (count_if (\<lambda>r. qr_id r \<notin> set broken) (bp_qa_rules plan)),
          be_finding_count = int (length fs), be_blocker_count = int (severity_count ''blocker'' fs),
          be_warn_count = int (severity_count ''warn'' fs),
          be_info_count = int (severity_count ''info'' fs), be_findings = fs,
          be_generated_at = now\<rparr>)"

section \<open>Readiness\<close>

definition mean :: "rat list \<Rightarrow> rat" where
  "mean xs = sum_list xs / of_nat (length xs)"

definition percent_score :: "rat \<Rightarrow> int" where
  "percent_score v = max 0 (min 100 (round_half_even (v * 100)))"

definition quality_multiplier :: "str \<Rightarrow> rat" where
  "quality_multiplier label =
     (if label = ''accepted'' then 1 else if label = ''unreviewed'' then 3/4
      else if label = ''stale'' then 1/5 else if label = ''rejected'' then 0 else 1/2)"

definition evidence_score :: "evidence list \<Rightarrow> int" where
  "evidence_score es =
     (if es = [] then 0
      else percent_score (mean (map (\<lambda>e. ev_reliability_score e * quality_multiplier (ev_quality_label e)) es)))"

definition claim_multiplier :: "str \<Rightarrow> rat" where
  "claim_multiplier status =
     (if status = ''accepted'' then 1 else if status = ''proposed'' then 82/100
      else if status = ''disputed'' then 45/100 else if status = ''deprecated'' then 15/100
      else if status = ''rejected'' then 0 else 6/10)"

definition claim_score :: "claim list \<Rightarrow> evidence list \<Rightarrow> int" where
  "claim_score cs es =
     (let usable = map ev_id (filter (\<lambda>e. \<not> bad_quality (ev_quality_label e)) es)
      in if cs = [] then 0
         else percent_score (mean (map (\<lambda>c. cl_confidence c * claim_multiplier (cl_status c)
           * (if list_ex (\<lambda>i. i \<in> set usable) (cl_evidence_ids c) then 1 else 1/4)) cs)))"

definition covered_pairs :: "competitor list \<Rightarrow> str list \<Rightarrow> evidence list \<Rightarrow> nat" where
  "covered_pairs competitors dimensions es =
     count_if (\<lambda>(cp, d). matching_evidence cp d es \<noteq> []) (List.product competitors dimensions)"

definition coverage_score :: "business_plan \<Rightarrow> competitor list \<Rightarrow> evidence list \<Rightarrow> int" where
  "coverage_score plan competitors es =
     (let dimensions = effective_analysis_dimensions plan
      in if competitors = [] \<or> dimensions = [] then 0
         else round_half_even (of_nat (covered_pairs competitors dimensions es)
           / of_nat (length competitors * length dimensions) * 100))"

definition qa_score :: "business_evaluation \<Rightarrow> int" where
  "qa_score ev =
     max 0 (100 - (be_blocker_count ev * 22 + be_warn_count ev * 8 + be_info_count ev * 3))"

definition risk_level :: "int \<Rightarrow> business_evaluation \<Rightarrow> str" where
  "risk_level score ev =
     (if 0 < be_blocker_count ev then ''blocked'' else if score < 70 then ''at_risk''
      else if score < 85 then ''watch'' else ''ready'')"

definition readiness_summary :: "int \<Rightarrow> str \<Rightarrow> business_evaluation \<Rightarrow> int \<Rightarrow> str" where
  "readiness_summary score level ev coverage =
     (if level = ''blocked'' then
        ''Score '' @ str_of_int score @ '': blocked by '' @ str_of_int (be_blocker_count ev)
          @ '' critical business QA finding(s); coverage is '' @ str_of_int coverage @ ''%.''
      else if level = ''at_risk'' then
        ''Score '' @ str_of_int score @ '': evidence and QA gaps remain material; coverage is ''
          @ str_of_int coverage @ ''%.''
      else if level = ''watch'' then
        ''Score '' @ str_of_int score @ '': usable but still worth reviewing warnings before approval.''
      else ''Score '' @ str_of_int score @ '': ready for stakeholder review or report approval.'')"

definition recommendation_of ::
  "str \<Rightarrow> str \<Rightarrow> str \<Rightarrow> str \<Rightarrow> str \<Rightarrow> str option \<Rightarrow> recommendation" where
  "recommendation_of priority title detail action_type target_type target_id =
     \<lparr>br_id = compute_recommendation_id (or_str target_id ''project'') action_type title
        [JStr priority, JStr detail, JStr target_type],
      br_priority = priority, br_title = title, br_detail = detail, br_action_type = action_type,
      br_target_type = target_type, br_target_id = target_id\<rparr>"

definition finding_priority :: "str \<Rightarrow> str" where
  "finding_priority severity =
     (if severity = ''blocker'' then ''critical'' else if severity = ''warn'' then ''high'' else ''medium'')"

definition recommendation_for_finding :: "business_finding \<Rightarrow> recommendation" where
  "recommendation_for_finding f =
     (let make = recommendation_of (finding_priority (bf_severity f)) (bf_rule_name f) (bf_message f)
      in if bf_claim_ids f \<noteq> [] then make ''fix_claim'' ''claim'' (Some (hd (bf_claim_ids f)))
         else if bf_evidence_ids f \<noteq> [] then
           make ''review_evidence'' ''evidence'' (Some (hd (bf_evidence_ids f)))
         else if given (bf_competitor_id f) then
           make ''collect_evidence'' ''competitor'' (bf_competitor_id f)
         else if given (bf_dimension f) then make ''collect_evidence'' ''dimension'' (bf_dimension f)
         else make ''collect_evidence'' ''project'' None)"

definition dedupe_recommendations :: "recommendation list \<Rightarrow> recommendation list" where
  "dedupe_recommendations rs =
     take 6 (keep_first (\<lambda>r. br_title r @ ''|'' @ br_detail r) (\<lambda>_. True) [] rs)"

definition recommendations ::
  "business_plan \<Rightarrow> business_evaluation \<Rightarrow> competitor list \<Rightarrow> evidence list \<Rightarrow> claim list \<Rightarrow> int
    \<Rightarrow> recommendation list" where
  "recommendations plan ev competitors es cs coverage =
     (let stale = count_if (\<lambda>e. bad_quality (ev_quality_label e)) es;
          rs = (if 0 < be_blocker_count ev then
                  [recommendation_of ''critical'' ''Resolve blocker QA findings''
                    (str_of_int (be_blocker_count ev) @ '' blocker finding(s) prevent this ''
                      @ ''project from being decision-ready.'') ''fix_claim'' ''project'' None] else [])
             @ map recommendation_for_finding (take 3 (be_findings ev))
             @ (if stale \<noteq> 0 then
                  [recommendation_of ''medium'' ''Review rejected or stale evidence''
                    (str_of_int (int stale) @ '' evidence item(s) are excluded from readiness scoring.'')
                    ''review_evidence'' ''project'' None] else [])
             @ (if cs = [] \<and> es \<noteq> [] then
                  [recommendation_of ''high'' ''Extract claims from collected evidence''
                    ''Evidence exists, but no structured claims have been projected yet.''
                    ''fix_claim'' ''project'' None] else [])
             @ (if coverage < 70 \<and> competitors \<noteq> [] then
                  [recommendation_of ''high'' ''Close evidence coverage gaps''
                    (''Required coverage for '' @ sc_name (bp_scenario_pack plan) @ '' is only ''
                      @ str_of_int coverage @ ''%.'') ''collect_evidence'' ''project'' None] else [])
             @ (if bp_layer plan = ''L3'' \<and> length competitors < 4 then
                  [recommendation_of ''medium'' ''Expand competitor set for landscape analysis''
                    ''L3 landscape projects are more reliable with at least four competitors.''
                    ''expand_competitors'' ''project'' None] else [])
      in dedupe_recommendations
           (if rs \<noteq> [] then rs
            else [recommendation_of ''low'' ''Prepare report for review''
              ''Current evidence, coverage, claims, and QA checks look decision-ready.''
              ''approve_report'' ''project'' None]))"

definition score_project_readiness ::
  "datetime \<Rightarrow> str \<Rightarrow> business_plan \<Rightarrow> business_evaluation \<Rightarrow> competitor list \<Rightarrow> evidence list
    \<Rightarrow> claim list \<Rightarrow> readiness" where
  "score_project_readiness now project_id plan ev competitors es cs =
     (let e = evidence_score es; c = claim_score cs es; k = coverage_score plan competitors es;
          q = qa_score ev;
          score = round_half_even (of_int q * (35/100) + of_int k * (25/100) + of_int e * (25/100)
            + of_int c * (15/100));
          level = risk_level score ev
      in \<lparr>ps_project_id = project_id, ps_score = score, ps_risk_level = level, ps_evidence_score = e,
          ps_claim_score = c, ps_coverage_score = k, ps_qa_score = q,
          ps_summary = readiness_summary score level ev k,
          ps_recommendations = recommendations plan ev competitors es cs k, ps_generated_at = now\<rparr>)"

section \<open>Ranking of competitors\<close>

record dimension_score =
  dx_dimension :: str
  dx_score :: int
  dx_evidence_count :: int
  dx_claim_count :: int
  dx_average_confidence :: rat
  dx_rationale :: str

record competitor_score =
  cx_competitor_id :: str
  cx_competitor_name :: str
  cx_total_score :: int
  cx_evidence_score :: int
  cx_claim_score :: int
  cx_coverage_score :: int
  cx_risk_penalty :: int
  cx_rank :: int
  cx_dimension_scores :: "dimension_score list"
  cx_recommendation :: str

record score_report =
  sx_project_id :: str
  sx_top_competitor_id :: "str option"
  sx_scores :: "competitor_score list"
  sx_generated_at :: datetime

definition competitor_coverage_score :: "str list \<Rightarrow> evidence list \<Rightarrow> int" where
  "competitor_coverage_score dimensions es =
     (if dimensions = [] then 0
      else round_half_even (of_nat (count_if (\<lambda>d. list_ex (\<lambda>e. same_dimension (ev_dimension e) d) es) dimensions)
        / of_nat (length dimensions) * 100))"

definition dimension_rationale :: "str \<Rightarrow> evidence list \<Rightarrow> claim list \<Rightarrow> str" where
  "dimension_rationale dimension es cs =
     (if es = [] then ''No usable evidence for '' @ dimension @ ''.''
      else if cs = [] then dimension @ '' has evidence but no projected claims.''
      else dimension @ '' has '' @ str_of_int (int (length es)) @ '' usable evidence item(s) and ''
        @ str_of_int (int (length cs)) @ '' claim(s).'')"

definition dimension_score_of :: "str \<Rightarrow> evidence list \<Rightarrow> claim list \<Rightarrow> dimension_score" where
  "dimension_score_of dimension es cs =
     (let part = min 1 (of_nat (length es) / 2);
          reliability = (if es \<noteq> [] then mean (map ev_reliability_score es) else 0);
          confidence = (if cs \<noteq> [] then mean (map cl_confidence cs) else 0)
      in \<lparr>dx_dimension = dimension,
          dx_score = percent_score (part * (35/100) + reliability * (35/100) + confidence * (30/100)),
          dx_evidence_count = int (length es), dx_claim_count = int (length cs),
          dx_average_confidence = round_digits 2 confidence,
          dx_rationale = dimension_rationale dimension es cs\<rparr>)"

definition competitor_risk_penalty :: "evidence list \<Rightarrow> claim list \<Rightarrow> int" where
  "competitor_risk_penalty es cs =
     min 40 (int (count_if (\<lambda>e. bad_quality (ev_quality_label e)) es) * 8
       + int (count_if (\<lambda>e. ev_reliability_score e < 1/2) es) * 5
       + int (count_if (\<lambda>c. cl_evidence_ids c = []) cs) * 10)"

definition dimension_average :: "dimension_score list \<Rightarrow> int" where
  "dimension_average ds =
     (if ds = [] then 0 else round_half_even (mean (map (\<lambda>d. of_int (dx_score d)) ds)))"

definition competitor_recommendation :: "int \<Rightarrow> int \<Rightarrow> int \<Rightarrow> str" where
  "competitor_recommendation score penalty coverage =
     (if 20 \<le> penalty then ''Review evidence quality before recommending this competitor.''
      else if coverage < 70 then ''Collect missing required-dimension evidence before final ranking.''
      else if 85 \<le> score then
        ''Strong evidence-backed competitor profile; suitable for report recommendation.''
      else if 70 \<le> score then ''Usable competitor profile with remaining review items.''
      else ''Insufficient confidence for stakeholder recommendation.'')"

definition score_competitor :: "competitor \<Rightarrow> str list \<Rightarrow> evidence list \<Rightarrow> claim list \<Rightarrow> competitor_score" where
  "score_competitor cp dimensions es cs =
     (let usable = filter (\<lambda>e. \<not> bad_quality (ev_quality_label e)) es;
          e = evidence_score usable; c = claim_score cs usable;
          k = competitor_coverage_score dimensions usable; p = competitor_risk_penalty es cs;
          ds = map (\<lambda>d. dimension_score_of d
                 (filter (\<lambda>x. same_dimension (ev_dimension x) d) usable)
                 (filter (\<lambda>x. same_dimension (cl_claim_type x) d) cs)) dimensions;
          score = max 0 (round_half_even (of_int e * (30/100) + of_int c * (25/100) + of_int k * (30/100)
            + of_int (dimension_average ds) * (15/100) - of_int p))
      in \<lparr>cx_competitor_id = cp_id cp, cx_competitor_name = cp_name cp, cx_total_score = score,
          cx_evidence_score = e, cx_claim_score = c, cx_coverage_score = k, cx_risk_penalty = p,
          cx_rank = 1, cx_dimension_scores = ds,
          cx_recommendation = competitor_recommendation score p k\<rparr>)"

definition score_competitors ::
  "datetime \<Rightarrow> str \<Rightarrow> business_plan \<Rightarrow> competitor list \<Rightarrow> evidence list \<Rightarrow> claim list \<Rightarrow> score_report" where
  "score_competitors now project_id plan competitors es cs =
     (let dimensions = effective_analysis_dimensions plan;
          scores = sort_desc cx_total_score (map (\<lambda>cp. score_competitor cp dimensions
            (filter (\<lambda>e. ev_competitor_id e = cp_id cp) es)
            (filter (\<lambda>c. cl_competitor_id c = cp_id cp) cs)) competitors);
          ranked = map (\<lambda>(i, x). x\<lparr>cx_rank := int i + 1\<rparr>) (enumerate 0 scores)
      in \<lparr>sx_project_id = project_id,
          sx_top_competitor_id = (case ranked of [] \<Rightarrow> None | x # _ \<Rightarrow> Some (cx_competitor_id x)),
          sx_scores = ranked, sx_generated_at = now\<rparr>)"
end
