(* ===== verification/ClaimText.thy ===== *)
theory ClaimText
  imports Planning
begin

text \<open>
  The text matching of the claim validator and rag/structured_claims.py: deterministic positions
  of a text on supported features, prices, data training and data retention. Regular expressions
  are matchers on ASCII text, tried from left to right without overlap as \<open>finditer\<close> does.
\<close>

section \<open>Matching\<close>

fun find_sub :: "str \<Rightarrow> str \<Rightarrow> nat option" where
  "find_sub p [] = (if p = [] then Some 0 else None)"
| "find_sub p (c # s) = (if starts_with p (c # s) then Some 0 else map_option Suc (find_sub p s))"

definition slice :: "nat \<Rightarrow> nat \<Rightarrow> str \<Rightarrow> str" where
  "slice a b s = take (b - a) (drop a s)"

definition is_word_char :: "char \<Rightarrow> bool" where
  "is_word_char c = (is_upper c \<or> is_lower c \<or> is_digit c \<or> c = CHR ''_'')"

text \<open>\<open>\b\<close> after a word character.\<close>

definition word_ends :: "str \<Rightarrow> bool" where
  "word_ends s = (case s of [] \<Rightarrow> True | c # _ \<Rightarrow> \<not> is_word_char c)"

text \<open>All matches of a matcher in a text, with their start; a matcher gives the length it takes,
  which is never 0, or nothing. The flag tells whether the character before is a word character.\<close>

fun scan_matches :: "(bool \<Rightarrow> str \<Rightarrow> nat option) \<Rightarrow> bool \<Rightarrow> nat \<Rightarrow> nat \<Rightarrow> str \<Rightarrow> (nat \<times> nat) list" where
  "scan_matches m prev skip i [] = []"
| "scan_matches m prev skip i (c # s) =
     (if 0 < skip then scan_matches m (is_word_char c) (skip - 1) (i + 1) s
      else case m prev (c # s) of
             Some n \<Rightarrow> (i, n) # scan_matches m (is_word_char c) (n - 1) (i + 1) s
           | None \<Rightarrow> scan_matches m (is_word_char c) 0 (i + 1) s)"

definition find_all :: "(bool \<Rightarrow> str \<Rightarrow> nat option) \<Rightarrow> str \<Rightarrow> (nat \<times> nat) list" where
  "find_all m s = scan_matches m False 0 0 s"

text \<open>A phrase of a pattern: literal text, or words with any white space
  between them (\<open>soc\s*2\<close>), and possibly a slash (\<open>iso\s*/?\s*iec\<close>).\<close>

datatype phrase = Lit str | Spaced str str | Slashed str str

fun phrase_length :: "phrase \<Rightarrow> str \<Rightarrow> nat option" where
  "phrase_length (Lit p) s = (if starts_with p s then Some (length p) else None)"
| "phrase_length (Spaced p q) s =
     (if starts_with p s then
        let gap = takeWhile is_space (drop (length p) s); n = length p + length gap
        in if starts_with q (drop n s) then Some (n + length q) else None
      else None)"
| "phrase_length (Slashed p q) s =
     (if starts_with p s then
        let gap = takeWhile is_space (drop (length p) s); n = length p + length gap;
            m = (if starts_with ''/'' (drop n s)
                 then n + 1 + length (takeWhile is_space (drop (n + 1) s)) else n)
        in if starts_with q (drop m s) then Some (m + length q) else None
      else None)"

text \<open>\<open>\b(alternatives)\b\<close> on lower case text, the alternatives in order.\<close>

definition word_phrase :: "phrase list \<Rightarrow> bool \<Rightarrow> str \<Rightarrow> nat option" where
  "word_phrase ps prev s =
     (if prev then None
      else case List.map_filter (\<lambda>p. case phrase_length p s of
               Some n \<Rightarrow> if word_ends (drop n s) then Some n else None
             | None \<Rightarrow> None) ps of
             [] \<Rightarrow> None | n # _ \<Rightarrow> Some n)"

definition phrases_in :: "phrase list \<Rightarrow> str \<Rightarrow> str list" where
  "phrases_in ps text =
     (let s = lower text in map (\<lambda>(i, n). slice i (i + n) s) (find_all (word_phrase ps) s))"

text \<open>Maximal runs of letters and digits: \<open>[a-z0-9]+\<close> without regard to case.\<close>

fun token_runs :: "str \<Rightarrow> str \<Rightarrow> str list" where
  "token_runs run [] = (if run = [] then [] else [run])"
| "token_runs run (c # s) =
     (if is_upper c \<or> is_lower c \<or> is_digit c then token_runs (run @ [c]) s
      else (if run = [] then token_runs [] s else run # token_runs [] s))"

section \<open>Structured positions\<close>

type_synonym fact_position = "str \<times> str"

definition contradiction_fact_terms :: "str list" where
  "contradiction_fact_terms = [''sso'', ''saml'', ''scim'', ''soc 2'', ''iso'', ''audit log'', ''api'',
     ''free plan'', ''enterprise plan'', ''self-hosted'']"

definition pricing_plan_terms :: "str list" where
  "pricing_plan_terms = [''free'', ''pro'', ''team'', ''teams'', ''business'', ''enterprise'']"

definition apostrophe :: str where
  "apostrophe = [char_of (39 :: nat)]"

definition positive_position_window :: "str \<Rightarrow> bool" where
  "positive_position_window w =
     contains_any [''supports'', ''support '', ''includes'', ''include '', ''available'', ''offers'',
       ''provides'', ''has ''] w"

definition negative_position_window :: "str \<Rightarrow> str \<Rightarrow> bool" where
  "negative_position_window w term =
     contains_any [''does not support '' @ term, ''doesn'' @ apostrophe @ ''t support '' @ term,
       ''not support '' @ term, ''no '' @ term, ''without '' @ term, term @ '' is not available'',
       term @ '' unavailable'', term @ '' removed'', term @ '' deprecated'', term @ '' discontinued'',
       ''no longer supports '' @ term] w"

definition binary_fact_positions :: "str \<Rightarrow> fact_position list" where
  "binary_fact_positions s =
     concat (map (\<lambda>term. case find_sub term s of
         None \<Rightarrow> []
       | Some start \<Rightarrow>
           let w = slice (start - 90) (start + length term + 90) s
           in if negative_position_window w term then [(''support:'' @ term, ''unsupported'')]
              else if positive_position_window w then [(''support:'' @ term, ''supported'')] else [])
       contradiction_fact_terms)"

text \<open>\<open>\d+(\.\d+)?\<close>\<close>

definition number_at :: "str \<Rightarrow> str option" where
  "number_at s =
     (let a = takeWhile is_digit s; r = drop (length a) s
      in if a = [] then None
         else case r of
                [] \<Rightarrow> Some a
              | c # t \<Rightarrow>
                  let b = takeWhile is_digit t
                  in if c = CHR ''.'' \<and> b \<noteq> [] then Some (a @ c # b) else Some a)"

text \<open>\<open>PRICE_AMOUNT_RE\<close>: the length of a match at the start of a text, and its amount.\<close>

definition price_at :: "str \<Rightarrow> (nat \<times> str) option" where
  "price_at s =
     (let currency = (if starts_with ''$'' s then Some 1
            else if starts_with ''usd'' s then Some (3 + length (takeWhile is_space (drop 3 s)))
            else None);
          prefixed = (case currency of
              None \<Rightarrow> None
            | Some n \<Rightarrow> map_option (\<lambda>v. (n + length v, v)) (number_at (drop n s)))
      in case prefixed of
           Some p \<Rightarrow> Some p
         | None \<Rightarrow>
           (case number_at s of
              None \<Rightarrow> None
            | Some v \<Rightarrow>
              let n = length v + length (takeWhile is_space (drop (length v) s)); r = drop n s
              in if starts_with ''usd'' r then Some (n + 3, v)
                 else if starts_with ''dollars'' r then Some (n + 7, v)
                 else if starts_with ''dollar'' r then Some (n + 6, v) else None))"

definition normalized_amount :: "str \<Rightarrow> str" where
  "normalized_amount v =
     (if CHR ''.'' \<in> set v
      then rstrip_by (\<lambda>c. c = CHR ''.'') (rstrip_by (\<lambda>c. c = CHR ''0'') v) else v)"

definition pricing_fact_positions :: "str \<Rightarrow> fact_position list" where
  "pricing_fact_positions s =
     concat (map (\<lambda>(i, n).
         let value = (case price_at (drop i s) of Some (_, v) \<Rightarrow> v | None \<Rightarrow> '''');
             w = slice (i - 80) (i + n + 80) s;
             plans = filter (\<lambda>t. has_substring t w) pricing_plan_terms;
             cadence = (if contains_any [''year'', ''annual''] w then ''year'' else ''month'')
         in if plans = [] then []
            else [(''price:'' @ hd plans @ '':'' @ cadence,
                   ''$'' @ normalized_amount value @ ''/'' @ cadence)])
       (find_all (\<lambda>_ t. map_option fst (price_at t)) s))
     @ (if contains_any [''free plan'', ''free tier''] s then
          if negative_position_window s ''free plan'' then [(''support:free plan'', ''unsupported'')]
          else if positive_position_window s then [(''support:free plan'', ''supported'')] else []
        else [])"

definition not_trained_phrases :: "str list" where
  "not_trained_phrases =
     [''does not train on customer data'', ''does not train on customer code'',
      ''does not train on user data'', ''does not train on user prompts'',
      ''doesn'' @ apostrophe @ ''t train on customer data'',
      ''doesn'' @ apostrophe @ ''t train on customer code'',
      ''do not train on customer data'', ''do not train on customer code'',
      ''will not train on customer data'', ''will not train on customer code'',
      ''not used to train'', ''never used to train'', ''never train on customer data'',
      ''never train on customer code'', ''opt out of training by default'',
      ''training is disabled by default'']"

definition trained_phrases :: "str list" where
  "trained_phrases =
     [''trains on customer data'', ''trains on customer code'', ''train on customer data'',
      ''train on customer code'', ''used to train'', ''uses customer data to train'',
      ''uses customer code to train'', ''may use customer data to train'',
      ''may use customer prompts to train'', ''may use user data to train'',
      ''may use user prompts to train'', ''data may be used to train'',
      ''prompts may be used to train'', ''customer data may be used for training'']"

definition privacy_fact_positions :: "str \<Rightarrow> fact_position list" where
  "privacy_fact_positions s =
     (if \<not> contains_any [''customer data'', ''customer code'', ''user data'', ''user prompts'',
            ''prompts'', ''source code''] s
         \<or> \<not> contains_any [''train'', ''training'', ''model training''] s then []
      else if contains_any not_trained_phrases s then [(''privacy:data_training'', ''does_not_train'')]
      else if contains_any trained_phrases s then [(''privacy:data_training'', ''trains'')] else [])"

text \<open>\<open>DATA_RETENTION_RE\<close>: the length of a match at the start of a text, and its digits.\<close>

definition days_at :: "str \<Rightarrow> (nat \<times> str) option" where
  "days_at s =
     (let d = take 4 (takeWhile is_digit s);
          n = length d + length (takeWhile (\<lambda>c. c = CHR ''-'' \<or> is_space c) (drop (length d) s));
          r = drop n s
      in if d = [] then None
         else if starts_with ''day'' r \<and> word_ends (drop 3 r) then Some (n + 3, d)
         else if starts_with ''days'' r \<and> word_ends (drop 4 r) then Some (n + 4, d) else None)"

definition number_of_digits :: "str \<Rightarrow> nat" where
  "number_of_digits d = foldl (\<lambda>n c. 10 * n + (code_of c - 48)) 0 d"

definition retention_terms :: "str list" where
  "retention_terms = [''retention'', ''retain'', ''retains'', ''stored for'']"

definition retention_fact_positions :: "str \<Rightarrow> fact_position list" where
  "retention_fact_positions s =
     (if \<not> contains_any retention_terms s then []
      else concat (map (\<lambda>(i, n).
             if contains_any retention_terms (slice (i - 70) (i + n + 70) s) then
               [(''retention:data'', str_of_int (int (number_of_digits
                  (case days_at (drop i s) of Some (_, d) \<Rightarrow> d | None \<Rightarrow> ''''))) @ ''_days'')]
             else []) (find_all (\<lambda>_ t. map_option fst (days_at t)) s)))"

definition extract_structured_fact_positions :: "str \<Rightarrow> str \<Rightarrow> fact_position list" where
  "extract_structured_fact_positions text dimension =
     (let s = lower text
      in binary_fact_positions s @ privacy_fact_positions s @ retention_fact_positions s
         @ (if has_substring ''pricing'' (lower dimension) then pricing_fact_positions s else []))"

end
