(* ===== verification/ClaimValidator.thy ===== *)
theory ClaimValidator
  imports BusinessQA ClaimText Findings
begin

text \<open>
  business_intel/claim_validator.py: how well the evidence of a claim supports it. Scores are
  integers from 0 to 100, rounded half to even from rationals. Reading the domain of an evidence
  URL raises on a bracketed host that does not close; the validation of a project raises with it.
\<close>

section \<open>Risk\<close>

definition stopwords :: "str list" where
  "stopwords = [''a'', ''an'', ''and'', ''as'', ''by'', ''for'', ''from'', ''has'', ''in'', ''is'', ''it'',
     ''of'', ''on'', ''or'', ''the'', ''to'', ''with'']"

definition high_risk_phrases :: "phrase list" where
  "high_risk_phrases =
     [Lit ''best'', Lit ''better'', Lit ''leading'', Lit ''leader'', Lit ''dominates'', Lit ''dominant'',
      Lit ''recommended'', Lit ''safest'', Lit ''safer'', Lit ''enterprise-ready'', Spaced ''soc'' ''2'',
      Lit ''sso'', Lit ''saml'', Lit ''scim'', Lit ''audit log'', Lit ''compliance'', Lit ''security'',
      Lit ''privacy'', Lit ''customer data'', Lit ''customer code'', Lit ''data retention'',
      Lit ''retention'', Lit ''train'', Lit ''training'', Lit ''cheapest'', Lit ''lowest'',
      Lit ''highest'', Lit ''fastest'', Lit ''most reliable'']"

definition risk_text :: "claim \<Rightarrow> str" where
  "risk_text c = cl_claim_text c @ '' '' @ cl_claim_type c"

definition requires_triangulation :: "claim \<Rightarrow> bool" where
  "requires_triangulation c = (phrases_in high_risk_phrases (risk_text c) \<noteq> [])"

definition risk_reasons :: "claim \<Rightarrow> str list" where
  "risk_reasons c =
     map (\<lambda>m. ''matched:'' @ m) (sorted_set (phrases_in high_risk_phrases (risk_text c)))
     @ (if cl_confidence c < 55/100 then [''low_confidence_claim''] else [])"

section \<open>Scores\<close>

definition claim_tokens :: "str \<Rightarrow> str list" where
  "claim_tokens s =
     remdups (filter (\<lambda>t. 1 < length t \<and> t \<notin> set stopwords) (map lower (token_runs [] s)))"

definition best_of :: "rat list \<Rightarrow> rat" where
  "best_of xs = foldl max 0 xs"

definition text_overlap :: "str list \<Rightarrow> evidence \<Rightarrow> rat" where
  "text_overlap ts e =
     (let text_tokens = claim_tokens (ev_title e @ '' '' @ ev_snippet e @ '' '' @ ev_dimension e)
      in min (of_nat (count_if (\<lambda>t. t \<in> set text_tokens) ts) / of_nat (max (length ts) 1)
           + (if ev_quality_label e = ''accepted'' then 15/100 else 0)
           + min (ev_reliability_score e) 1 * (15/100)) 1)"

definition text_support_score :: "claim \<Rightarrow> evidence list \<Rightarrow> int" where
  "text_support_score c es =
     (let ts = claim_tokens (cl_claim_text c)
      in if es = [] \<or> ts = [] then 0
         else round_half_even (best_of (map (text_overlap ts) es) * 100))"

definition evidence_quality :: "evidence \<Rightarrow> rat" where
  "evidence_quality e =
     min (max (ev_reliability_score e
         + (if ev_source_type e = ''webpage_verified'' then 18/100 else 0)
         + (if ev_quality_label e = ''accepted'' then 16/100
            else if ev_quality_label e = ''unreviewed'' then 4/100
            else if ev_quality_label e \<in> {''rejected'', ''stale''} then - (35/100) else 0)) 0) 1"

definition evidence_quality_score :: "evidence list \<Rightarrow> int" where
  "evidence_quality_score es =
     (if es = [] then 0 else round_half_even (best_of (map evidence_quality es) * 100))"

definition evidence_domain :: "evidence \<Rightarrow> py_error + str" where
  "evidence_domain e =
     (let raw = or_str (ev_url e) (ev_canonical_url e)
      in if raw = '''' then Inr (ev_raw_source_id e)
         else err_bind (urlsplit raw) (\<lambda>p. Inr (lower (up_netloc p))))"

definition triangulation_score :: "evidence list \<Rightarrow> py_error + int" where
  "triangulation_score es =
     (if es = [] then Inr 0
      else err_bind (err_map evidence_domain es) (\<lambda>domains.
        let n = length (remdups (filter (\<lambda>d. d \<noteq> '''') domains));
            verified = count_if (\<lambda>e. ev_source_type e = ''webpage_verified'') es
        in Inr (if 2 \<le> n \<and> 2 \<le> verified then 100
                else if 2 \<le> length es \<and> 1 \<le> verified then 85
                else if 1 \<le> verified then 70 else 45)))"

definition self_consistency_score :: "int \<Rightarrow> int \<Rightarrow> int \<Rightarrow> int" where
  "self_consistency_score text quality triangulation =
     round_half_even (of_int text * (5/10) + of_int quality * (3/10) + of_int triangulation * (2/10))"

definition consistency_votes :: "int \<Rightarrow> int \<Rightarrow> int \<Rightarrow> (str \<times> int) list" where
  "consistency_votes text quality triangulation =
     [(''text_support'', if 70 \<le> text then 1 else 0), (''evidence_quality'', if 75 \<le> quality then 1 else 0),
      (''triangulation'', if 70 \<le> triangulation then 1 else 0)]"

definition consistency_sample ::
  "str \<Rightarrow> int \<Rightarrow> int \<Rightarrow> str list \<Rightarrow> str \<Rightarrow> str \<Rightarrow> validation_sample" where
  "consistency_sample checker score threshold ids passed failed =
     \<lparr>vs_checker = checker, vs_vote = (if threshold \<le> score then ''pass'' else ''fail''),
      vs_score = score, vs_threshold = threshold,
      vs_rationale = (if threshold \<le> score then passed else failed), vs_evidence_ids = ids\<rparr>"

definition consistency_samples :: "int \<Rightarrow> int \<Rightarrow> int \<Rightarrow> str list \<Rightarrow> validation_sample list" where
  "consistency_samples text quality triangulation ids =
     [consistency_sample ''text_support'' text 70 ids
        ''Evidence text overlaps with the claim strongly enough.''
        ''Evidence text does not lexically support the claim strongly enough.'',
      consistency_sample ''evidence_quality'' quality 75 ids
        ''Usable evidence quality meets the enterprise review threshold.''
        ''Usable evidence quality is below the enterprise review threshold.'',
      consistency_sample ''triangulation'' triangulation 70 ids
        ''The claim has enough independent source triangulation for review.''
        ''The claim lacks enough independent source triangulation.'']"

section \<open>Contradictions\<close>

definition positions_conflict :: "fact_position list \<Rightarrow> fact_position list \<Rightarrow> bool" where
  "positions_conflict claimed found =
     list_ex (\<lambda>(area, _).
         let values = map snd (filter (\<lambda>p. fst p = area) found);
             positions = map snd (filter (\<lambda>p. fst p = area) claimed)
         in values \<noteq> [] \<and> \<not> list_ex (\<lambda>v. v \<in> set positions) values) claimed"

definition structured_conflicting_ids :: "claim \<Rightarrow> evidence list \<Rightarrow> str list" where
  "structured_conflicting_ids c es =
     (let claimed = extract_structured_fact_positions (cl_claim_text c) (cl_claim_type c)
      in if claimed = [] then []
         else map ev_id (filter (\<lambda>e. positions_conflict claimed
           (extract_structured_fact_positions (ev_title e @ '' '' @ ev_snippet e) (ev_dimension e))) es))"

definition positive_claim_phrases :: "str list" where
  "positive_claim_phrases = ['' has '', '' supports '', '' includes '', '' provides '', '' offers '',
     '' is available'', '' enterprise-ready'', '' soc 2'', '' sso'', '' saml'', '' audit log'']"

definition contradiction_markers :: "str list" where
  "contradiction_markers = [''does not support'', ''not supported'', ''no sso'', ''no saml'',
     ''not available'', ''not yet available'', ''removed'', ''deprecated'', ''cannot provide'',
     ''doesn'' @ apostrophe @ ''t include'', ''does not include'']"

definition conflicting_evidence_ids :: "claim \<Rightarrow> evidence list \<Rightarrow> str list" where
  "conflicting_evidence_ids c es =
     (let structured = structured_conflicting_ids c es
      in if structured \<noteq> [] then structured
         else if \<not> contains_any positive_claim_phrases (lower (cl_claim_text c)) then []
         else map ev_id (filter (\<lambda>e.
           contains_any contradiction_markers (lower (ev_title e @ '' '' @ ev_snippet e))) es))"

section \<open>One claim\<close>

definition validation_issue :: "str \<Rightarrow> str \<Rightarrow> str \<Rightarrow> str \<Rightarrow> str list \<Rightarrow> claim_issue" where
  "validation_issue claim_id severity issue_type message ids =
     \<lparr>ci_id = stable_prefixed_id ''claim-validation-issue'' [JStr claim_id, JStr issue_type] 16,
      ci_claim_id = claim_id, ci_severity = severity, ci_issue_type = issue_type,
      ci_message = message, ci_evidence_ids = ids\<rparr>"

record claim_scores =
  cs_text :: int
  cs_quality :: int
  cs_triangulation :: int
  cs_support :: int

definition support_issue ::
  "claim \<Rightarrow> evidence list \<Rightarrow> claim_scores \<Rightarrow> str list \<Rightarrow> claim_issue list" where
  "support_issue c usable k conflicts =
     (let i = cl_id c; ids = map ev_id usable
      in if cl_evidence_ids c = [] \<or> usable = [] then
           [validation_issue i ''blocker''
             (if cl_evidence_ids c = [] then ''missing_evidence'' else ''stale_or_rejected_evidence'')
             ''Claim has no usable evidence after quality filtering.'' (cl_evidence_ids c)]
         else if conflicts \<noteq> [] then
           [validation_issue i ''blocker'' ''conflicting_evidence''
             ''Usable evidence appears to contradict the claim.'' conflicts]
         else if cs_text k < 40 then
           [validation_issue i ''warn'' ''weak_text_support''
             ''Evidence text has weak lexical support for the claim.'' ids]
         else if cs_quality k < 55 then
           [validation_issue i ''warn'' ''low_evidence_quality''
             (''Usable evidence is present, but source quality is too weak for ''
               @ ''confident reporting.'') ids]
         else if requires_triangulation c \<and> cs_triangulation k < 90 then
           [validation_issue i ''warn'' ''single_source_support''
             (''High-risk or comparative claim should be supported by multiple ''
               @ ''independent sources.'') ids]
         else [])"

definition claim_issues ::
  "claim \<Rightarrow> evidence list \<Rightarrow> claim_scores \<Rightarrow> str list \<Rightarrow> claim_issue list" where
  "claim_issues c usable k conflicts =
     support_issue c usable k conflicts
     @ (if cl_confidence c < 55/100 then
          [validation_issue (cl_id c) ''warn'' ''low_confidence''
            ''Claim confidence is below the enterprise review threshold.'' (map ev_id usable)] else [])
     @ (if cs_support k < 55 \<and> usable \<noteq> [] then
          [validation_issue (cl_id c) ''warn'' ''low_self_consistency''
            (''Claim failed the multi-check consistency threshold across text, ''
              @ ''source quality, and triangulation.'') (map ev_id usable)] else [])"

definition claim_status :: "claim \<Rightarrow> evidence list \<Rightarrow> int \<Rightarrow> str list \<Rightarrow> claim_issue list \<Rightarrow> str" where
  "claim_status c usable support conflicts found =
     (if cl_evidence_ids c = [] \<or> usable = [] then ''blocked''
      else if conflicts \<noteq> [] then ''unsupported''
      else if 75 \<le> support \<and> found = [] then ''supported''
      else if 55 \<le> support then ''weak'' else ''unsupported'')"

definition validation_status :: "bool \<Rightarrow> str \<Rightarrow> str list \<Rightarrow> bool \<Rightarrow> str" where
  "validation_status high_risk status issue_ids has_conflict =
     (if \<not> high_risk then ''not_applicable''
      else if has_conflict then ''conflicting''
      else if status \<in> {''blocked'', ''unsupported''} then ''unsupported''
      else if issue_ids \<noteq> [] then ''weak_support'' else ''supported'')"

definition recommended_action :: "str \<Rightarrow> str list \<Rightarrow> str" where
  "recommended_action status issue_ids =
     (if status \<in> {''not_applicable'', ''supported''} then ''none''
      else if status = ''conflicting'' then ''human_review''
      else if status = ''unsupported'' then
        (if issue_ids \<noteq> [] then ''collect_evidence'' else ''delete_claim'')
      else ''downgrade_claim'')"

definition validation_rationale :: "str \<Rightarrow> int \<Rightarrow> str list \<Rightarrow> str list \<Rightarrow> str" where
  "validation_rationale status support reasons issue_ids =
     (if status = ''not_applicable'' then
        ''Claim is not classified as high risk by deterministic risk rules.''
      else ''High-risk claim validation status is '' @ status @ ''; support_score='' @ str_of_int support
        @ ''; risk_reasons='' @ str_or (join '', '' reasons) ''high_risk''
        @ (if issue_ids \<noteq> [] then ''; issues='' @ join '', '' issue_ids else '''') @ ''.'')"

definition claim_result ::
  "claim \<Rightarrow> evidence list \<Rightarrow> claim_scores \<Rightarrow> str list \<Rightarrow> claim_issue list \<Rightarrow> validation_result" where
  "claim_result c usable k conflicts found =
     (let ids = map ev_id usable; issue_ids = map ci_id found; reasons = risk_reasons c;
          status = claim_status c usable (cs_support k) conflicts found;
          validation = validation_status (reasons \<noteq> []) status issue_ids (conflicts \<noteq> [])
      in \<lparr>vr_claim_id = cl_id c, vr_status = status, vr_validation_status = validation,
          vr_high_risk = (reasons \<noteq> []), vr_risk_reasons = reasons,
          vr_recommended_action = recommended_action validation issue_ids,
          vr_rationale = validation_rationale validation (cs_support k) reasons issue_ids,
          vr_support_score = cs_support k, vr_text_support_score = cs_text k,
          vr_evidence_quality_score = cs_quality k, vr_triangulation_score = cs_triangulation k,
          vr_self_consistency_score = cs_support k,
          vr_consistency_votes = consistency_votes (cs_text k) (cs_quality k) (cs_triangulation k),
          vr_validation_samples = consistency_samples (cs_text k) (cs_quality k) (cs_triangulation k) ids,
          vr_usable_evidence_ids = ids, vr_issue_ids = issue_ids\<rparr>)"

definition claim_scores_of :: "claim \<Rightarrow> evidence list \<Rightarrow> py_error + claim_scores" where
  "claim_scores_of c usable =
     err_bind (triangulation_score usable) (\<lambda>t.
       let x = text_support_score c usable; q = evidence_quality_score usable
       in Inr \<lparr>cs_text = x, cs_quality = q, cs_triangulation = t,
               cs_support = self_consistency_score x q t\<rparr>)"

definition validate_claim ::
  "evidence list \<Rightarrow> claim \<Rightarrow> py_error + (validation_result \<times> claim_issue list)" where
  "validate_claim es c =
     (let usable = usable_for_claim es c
      in err_bind (claim_scores_of c usable) (\<lambda>k.
           let conflicts = conflicting_evidence_ids c usable;
               found = claim_issues c usable k conflicts
           in Inr (claim_result c usable k conflicts found, found)))"

section \<open>A project\<close>

record validation_report =
  vp_project_id :: str
  vp_total_claims :: int
  vp_supported_count :: int
  vp_weak_count :: int
  vp_unsupported_count :: int
  vp_blocked_count :: int
  vp_issue_count :: int
  vp_blocker_count :: int
  vp_warn_count :: int
  vp_self_consistency_score :: int
  vp_low_consistency_count :: int
  vp_high_risk_claim_count :: int
  vp_high_risk_validated_count :: int
  vp_validation_status_counts :: "(str \<times> int) list"
  vp_results :: "validation_result list"
  vp_issues :: "claim_issue list"
  vp_generated_at :: datetime

definition average_score :: "int list \<Rightarrow> int" where
  "average_score xs = (if xs = [] then 0 else round_half_even (mean (map of_int xs)))"

definition result_count :: "str \<Rightarrow> validation_result list \<Rightarrow> int" where
  "result_count status rs = int (count_if (\<lambda>r. vr_status r = status) rs)"

definition validation_report_of ::
  "datetime \<Rightarrow> str \<Rightarrow> validation_result list \<Rightarrow> claim_issue list \<Rightarrow> validation_report" where
  "validation_report_of now project_id rs found =
     (let judged = filter (\<lambda>r. vr_status r \<noteq> ''blocked'') rs
      in \<lparr>vp_project_id = project_id, vp_total_claims = int (length rs),
          vp_supported_count = result_count ''supported'' rs, vp_weak_count = result_count ''weak'' rs,
          vp_unsupported_count = result_count ''unsupported'' rs,
          vp_blocked_count = result_count ''blocked'' rs, vp_issue_count = int (length found),
          vp_blocker_count = int (count_if (\<lambda>i. ci_severity i = ''blocker'') found),
          vp_warn_count = int (count_if (\<lambda>i. ci_severity i = ''warn'') found),
          vp_self_consistency_score = average_score (map vr_self_consistency_score judged),
          vp_low_consistency_count = int (count_if (\<lambda>r. vr_self_consistency_score r < 55) judged),
          vp_high_risk_claim_count = int (count_if vr_high_risk rs),
          vp_high_risk_validated_count =
            int (count_if (\<lambda>r. vr_high_risk r \<and> vr_validation_status r \<noteq> ''not_applicable'') rs),
          vp_validation_status_counts = map (\<lambda>s. (s, int (count_if (\<lambda>r. vr_validation_status r = s) rs)))
            [''supported'', ''weak_support'', ''conflicting'', ''unsupported'', ''not_applicable''],
          vp_results = rs, vp_issues = found, vp_generated_at = now\<rparr>)"

definition validate_project_claims ::
  "datetime \<Rightarrow> str \<Rightarrow> claim list \<Rightarrow> evidence list \<Rightarrow> py_error + validation_report" where
  "validate_project_claims now project_id cs es =
     err_bind (err_map (validate_claim es) cs) (\<lambda>outcomes.
       Inr (validation_report_of now project_id (map fst outcomes) (concat (map snd outcomes))))"

end
