(* ===== verification/ReportDiff.thy ===== *)
theory ReportDiff
  imports Schema
begin

text \<open>
  enterprise/report_diff.py: the line diff of two report versions. \<open>difflib.SequenceMatcher\<close>
  without junk takes the longest common block, the earliest one in the base and then in the
  target, and recurses on both sides of it; between two blocks the lines of the base are removed
  and those of the target are added.
\<close>

section \<open>Lines\<close>

text \<open>\<open>str.splitlines()\<close> on ASCII text: \<open>\r\n\<close> is one line end.\<close>

definition is_line_end :: "char \<Rightarrow> bool" where
  "is_line_end c = (let n = code_of c in (10 \<le> n \<and> n \<le> 13) \<or> (28 \<le> n \<and> n \<le> 30))"

fun splitlines_from :: "str \<Rightarrow> str \<Rightarrow> str list" where
  "splitlines_from cur [] = (if cur = [] then [] else [cur])"
| "splitlines_from cur (c # cs) =
     (if is_line_end c then
        cur # (case cs of
            d # ds \<Rightarrow> if code_of c = 13 \<and> code_of d = 10 then splitlines_from [] ds
              else splitlines_from [] cs
          | [] \<Rightarrow> [])
      else splitlines_from (cur @ [c]) cs)"

abbreviation splitlines :: "str \<Rightarrow> str list" where
  "splitlines \<equiv> splitlines_from []"

section \<open>The matcher\<close>

fun common_prefix :: "'a list \<Rightarrow> 'a list \<Rightarrow> nat" where
  "common_prefix (x # xs) (y # ys) = (if x = y then Suc (common_prefix xs ys) else 0)"
| "common_prefix _ _ = 0"

text \<open>The candidates \<open>(i, j, k)\<close> in the order of \<open>i\<close> and then \<open>j\<close>, and the first longest one.\<close>

definition matches :: "'a list \<Rightarrow> 'a list \<Rightarrow> (nat \<times> nat \<times> nat) list" where
  "matches xs ys =
     concat (map (\<lambda>i. map (\<lambda>j. (i, j, common_prefix (drop i xs) (drop j ys))) [0..<length ys])
       [0..<length xs])"

definition longest_match :: "'a list \<Rightarrow> 'a list \<Rightarrow> (nat \<times> nat \<times> nat) option" where
  "longest_match xs ys =
     (case max_by (\<lambda>(i, j, k). k) (matches xs ys) of
        Some (i, j, k) \<Rightarrow> if k = 0 then None else Some (i, j, k)
      | None \<Rightarrow> None)"

datatype diff_kind = Unchanged | Removed | Added

lemma longest_match_bounds:
  assumes "longest_match xs ys = Some (i, j, k)"
  shows "i < length xs" "j < length ys" "k = common_prefix (drop i xs) (drop j ys)" "0 < k"
  using assms
  by (auto simp: longest_match_def matches_def dest!: max_by_Some split: option.splits prod.splits if_splits)

function diff_lines :: "'a list \<Rightarrow> 'a list \<Rightarrow> (diff_kind \<times> 'a) list" where
  "diff_lines xs ys =
     (case longest_match xs ys of
        None \<Rightarrow> map (Pair Removed) xs @ map (Pair Added) ys
      | Some (i, j, k) \<Rightarrow>
          diff_lines (take i xs) (take j ys)
          @ map (Pair Unchanged) (take k (drop j ys))
          @ diff_lines (drop (i + k) xs) (drop (j + k) ys))"
  by pat_completeness auto

termination
proof (relation "measure (\<lambda>(xs, ys). length xs)", goal_cases)
  case (3 xs ys m i jk j k)
  then show ?case using longest_match_bounds(1,4)[of xs ys i j k] by simp
qed (auto dest: longest_match_bounds(1))

declare diff_lines.simps [simp del]

record report_version_diff =
  vd_base_version :: "report_version option"
  vd_target_version :: report_version
  vd_added_lines :: int
  vd_removed_lines :: int
  vd_unchanged_lines :: int
  vd_lines :: "(diff_kind \<times> str) list"

definition build_report_version_diff ::
  "report_version \<Rightarrow> report_version option \<Rightarrow> report_version_diff" where
  "build_report_version_diff target base =
     (let base_lines = (case base of None \<Rightarrow> [] | Some b \<Rightarrow> splitlines (rv_report_md b));
          ls = diff_lines base_lines (splitlines (rv_report_md target))
      in \<lparr>vd_base_version = base, vd_target_version = target,
          vd_added_lines = int (count_if (\<lambda>l. fst l = Added) ls),
          vd_removed_lines = int (count_if (\<lambda>l. fst l = Removed) ls),
          vd_unchanged_lines = int (count_if (\<lambda>l. fst l = Unchanged) ls), vd_lines = ls\<rparr>)"

section \<open>Properties\<close>

lemma take_common_prefix:
  "k \<le> common_prefix xs ys \<Longrightarrow> take k xs = take k ys"
proof (induction xs ys arbitrary: k rule: common_prefix.induct)
  case (1 x xs y ys)
  then show ?case by (cases k) (auto split: if_splits)
qed simp_all

definition side :: "diff_kind \<Rightarrow> (diff_kind \<times> 'a) list \<Rightarrow> 'a list" where
  "side other ls = map snd (filter (\<lambda>l. fst l \<noteq> other) ls)"

lemma side_simps [simp]:
  "side other [] = []" "side other (xs @ ys) = side other xs @ side other ys"
  "side other (map (Pair kind) zs) = (if kind = other then [] else zs)"
  by (simp_all add: side_def comp_def)

lemma diff_lines_sides: "side Added (diff_lines xs ys) = xs \<and> side Removed (diff_lines xs ys) = ys"
proof (induction xs ys rule: diff_lines.induct)
  case (1 xs ys)
  show ?case
  proof (cases "longest_match xs ys")
    case None
    then show ?thesis by (simp add: diff_lines.simps[of xs ys])
  next
    case (Some m)
    obtain i j k where m: "m = (i, j, k)" by (cases m)
    note b = longest_match_bounds[OF Some[unfolded m]]
    have blk: "take k (drop i xs) = take k (drop j ys)" using take_common_prefix b(3) by blast
    have parts: "take a zs @ take n (drop a zs) @ drop (a + n) zs = zs" for a n and zs :: "'a list"
      by (metis append_take_drop_id drop_drop add.commute)
    have unfold: "diff_lines xs ys = diff_lines (take i xs) (take j ys)
          @ map (Pair Unchanged) (take k (drop j ys)) @ diff_lines (drop (i + k) xs) (drop (j + k) ys)"
      by (simp add: diff_lines.simps[of xs ys] Some m)
    show ?thesis
      using 1[OF Some m[symmetric]] m parts[of i xs k] parts[of j ys k]
      by (simp add: unfold blk)
  qed
qed


lemma common_prefix_le: "common_prefix xs ys \<le> length xs"
  by (induction xs ys rule: common_prefix.induct) simp_all

lemma common_prefix_same: "common_prefix xs xs = length xs"
  by (induction xs) simp_all

lemma longest_match_same:
  assumes "xs \<noteq> []"
  shows "longest_match xs xs = Some (0, 0, length xs)"
proof -
  let ?f = "(\<lambda>(i, j, k). k) :: nat \<times> nat \<times> nat \<Rightarrow> nat"
  have whole: "(0, 0, length xs) \<in> set (matches xs xs)"
    using assms by (auto simp: matches_def common_prefix_same image_iff)
  have only: "m = (0, 0, length xs)" if mem: "m \<in> set (matches xs xs)" and long: "length xs \<le> ?f m" for m
  proof -
    from mem have "\<exists>i < length xs. \<exists>j < length xs. m = (i, j, common_prefix (drop i xs) (drop j xs))"
      by (auto simp: matches_def)
    then obtain i j where m: "m = (i, j, common_prefix (drop i xs) (drop j xs))" "i < length xs" "j < length xs"
      by blast
    have "common_prefix a b \<le> length b" for a b :: "'a list"
      by (induction a b rule: common_prefix.induct) simp_all
    from this[of "drop i xs" "drop j xs"] common_prefix_le[of "drop i xs" "drop j xs"]
    have "i = 0" "j = 0" using m long by simp_all
    then show ?thesis using m(1) by (simp add: common_prefix_same)
  qed
  obtain m where m: "max_by ?f (matches xs xs) = Some m"
    using whole by (cases "max_by ?f (matches xs xs)") auto
  have "?f (0, 0, length xs) \<le> ?f m" using max_by_Some[OF m] whole by blast
  then have "m = (0, 0, length xs)" using max_by_Some[OF m] by (intro only) simp_all
  then show ?thesis using m assms by (simp add: longest_match_def)
qed

lemma diff_lines_same: "diff_lines xs xs = map (Pair Unchanged) xs"
proof (cases "xs = []")
  case True
  then show ?thesis by (simp add: diff_lines.simps[of "[]"] longest_match_def matches_def)
next
  case False
  have nil: "diff_lines [] [] = ([] :: (diff_kind \<times> 'a) list)"
    by (simp add: diff_lines.simps[of "[]"] longest_match_def matches_def)
  show ?thesis using longest_match_same[OF False] by (simp add: diff_lines.simps[of xs] nil)
qed

lemma length_side: "length (side other ls) = count_if (\<lambda>l. fst l \<noteq> other) ls"
  by (simp add: side_def count_if_def)

lemma kinds_counted:
  "count_if (\<lambda>l. fst l \<noteq> Added) ls = count_if (\<lambda>l. fst l = Unchanged) ls + count_if (\<lambda>l. fst l = Removed) ls"
  "count_if (\<lambda>l. fst l \<noteq> Removed) ls = count_if (\<lambda>l. fst l = Unchanged) ls + count_if (\<lambda>l. fst l = Added) ls"
proof (induction ls)
  case (Cons l ls)
  { case 1 then show ?case using Cons by (cases "fst l") (simp_all add: loop_simps) }
  { case 2 then show ?case using Cons by (cases "fst l") (simp_all add: loop_simps) }
qed (simp_all add: loop_simps)

text \<open>C29. A report diff loses nothing: its lines without the added ones are the base text, those
  without the removed ones are the target text, the counts add up to the two lengths, and a
  version whose text has the lines of its base has no added and no removed line.\<close>

theorem report_diff_roundtrip:
  "let d = build_report_version_diff target base;
       old = (case base of None \<Rightarrow> [] | Some b \<Rightarrow> splitlines (rv_report_md b));
       new = splitlines (rv_report_md target)
   in side Added (vd_lines d) = old \<and> side Removed (vd_lines d) = new
     \<and> vd_unchanged_lines d + vd_removed_lines d = int (length old)
     \<and> vd_unchanged_lines d + vd_added_lines d = int (length new)
     \<and> (if old = new then vd_added_lines d = 0 \<and> vd_removed_lines d = 0 else True)"
proof -
  let ?old = "case base of None \<Rightarrow> [] | Some b \<Rightarrow> splitlines (rv_report_md b)"
  let ?new = "splitlines (rv_report_md target)"
  note sides = diff_lines_sides[of ?old ?new]
  have "count_if (\<lambda>l. fst l \<noteq> Added) (diff_lines ?old ?new) = length ?old"
    "count_if (\<lambda>l. fst l \<noteq> Removed) (diff_lines ?old ?new) = length ?new"
    unfolding length_side[symmetric] using sides by simp_all
  then have sums: "count_if (\<lambda>l. fst l = Unchanged) (diff_lines ?old ?new)
        + count_if (\<lambda>l. fst l = Removed) (diff_lines ?old ?new) = length ?old"
    "count_if (\<lambda>l. fst l = Unchanged) (diff_lines ?old ?new)
        + count_if (\<lambda>l. fst l = Added) (diff_lines ?old ?new) = length ?new"
    unfolding kinds_counted by simp_all
  have same: "count_if (\<lambda>l. fst l = k) (map (Pair Unchanged) zs) = 0" if "k \<noteq> Unchanged"
    for k and zs :: "str list" using that by auto
  show ?thesis
    unfolding build_report_version_diff_def Let_def
    using sides sums by (auto simp: of_nat_add[symmetric] diff_lines_same same simp del: of_nat_add count_if_0)
qed
end
