(* ===== verification/CitationPolicy.thy ===== *)
theory CitationPolicy
  imports ClaimText SourceResolver EvidenceStore ReportDiff
begin

text \<open>
  research/evidence/strength.py and business_intel/report_citation_policy.py: what kind of report
  language a piece of evidence can carry, the policy of a report line, the lines that conclude more
  than their evidence carries and their repair. Text is ASCII, so that the patterns are matched in
  lower case and their Chinese alternatives never apply.
\<close>

section \<open>Strength of evidence\<close>

record strength_decision =
  sd_evidence_id :: str
  sd_source_type :: str
  sd_strength :: str
  sd_confidence :: rat
  sd_quality_label :: str
  sd_reason :: str

definition high_confidence_source_types :: "str list" where
  "high_confidence_source_types = [''official'', ''official_docs'', ''official_pricing'', ''official_site'',
     ''official_api'', ''pricing_page'', ''trust_center'']"

definition verified_source_types :: "str list" where
  "verified_source_types =
     high_confidence_source_types @ [''webpage_verified'', ''review_site'', ''news'']"

definition qualitative_source_types :: "str list" where
  "qualitative_source_types = [''interview_record'', ''manual_transcript'', ''manual_note'', ''manual'',
     ''survey_response'']"

definition synthetic_source_types :: "str list" where
  "synthetic_source_types = [''survey_simulated'', ''llm_public_knowledge'']"

definition policy_status :: "jdict \<Rightarrow> str \<Rightarrow> str" where
  "policy_status md key = lower (strip (metadata_or md [key, ''source_'' @ key] ''''))"

definition policy_blocking :: "str \<Rightarrow> bool" where
  "policy_blocking status = (status \<in> {''blocked'', ''error'', ''rejected''})"

definition evidence_url_text :: "evidence \<Rightarrow> str" where
  "evidence_url_text e = str_or (strip (ev_canonical_url e)) (strip (opt_text (ev_url e)))"

definition strength_of :: "evidence \<Rightarrow> str \<Rightarrow> rat \<Rightarrow> str \<Rightarrow> py_error + str \<times> str" where
  "strength_of e source_type confidence quality_label =
     (let md = ev_metadata e
      in if quality_label \<in> {''rejected'', ''stale''} \<or> policy_blocking (policy_status md ''robots_status'')
            \<or> policy_blocking (policy_status md ''policy_review_status'') then
           Inr (''blocked_or_invalid'',
             ''Evidence is rejected, stale, robots-blocked, or policy-blocked.'')
         else if source_type \<in> set synthetic_source_types then
           Inr (''synthetic_signal'',
             ''Synthetic or model/public-knowledge evidence is directional only.'')
         else if source_type \<in> set qualitative_source_types then
           (if 3/4 \<le> confidence \<and> quality_label = ''accepted'' then
              Inr (''qualitative_signal'',
                ''Reviewed user-research evidence can support qualitative caveats only.'')
            else Inr (''weak_unreviewed'', ''User-research evidence is low-confidence or unreviewed.''))
         else if evidence_url_text e = '''' then
           Inr (''weak_unreviewed'',
             ''Factual evidence without a URL cannot support strong report language.'')
         else if source_type \<in> set high_confidence_source_types \<and> 9/10 \<le> confidence then
           Inr (''high_confidence_verified'', ''Official or trust source with high confidence.'')
         else if source_type \<in> set verified_source_types \<and> 3/4 \<le> confidence then
           Inr (''verified_webpage'', ''Verified webpage evidence meets the release confidence floor.'')
         else
           err_bind (urlsplit (evidence_url_text e)) (\<lambda>p.
             if up_scheme p \<in> {''http'', ''https''} \<and> up_netloc p \<noteq> '''' \<and> 3/4 \<le> confidence then
               Inr (''secondary_verified'',
                 ''Secondary public web evidence can support non-strong factual context.'')
             else Inr (''weak_unreviewed'',
               ''Evidence does not meet verified-source or confidence requirements.'')))"

definition classify_evidence_strength :: "evidence \<Rightarrow> py_error + strength_decision" where
  "classify_evidence_strength e =
     (let source_type = lower (strip (ev_source_type e));
          confidence = max 0 (min 1 (ev_reliability_score e));
          quality_label = lower (str_or (strip (ev_quality_label e)) ''accepted'')
      in err_bind (strength_of e source_type confidence quality_label) (\<lambda>(strength, reason).
           Inr \<lparr>sd_evidence_id = str_or (strip (ev_id e)) (strip (ev_raw_source_id e)),
                sd_source_type = source_type, sd_strength = strength, sd_confidence = confidence,
                sd_quality_label = quality_label, sd_reason = reason\<rparr>))"

definition can_support_strong_report_section :: "strength_decision \<Rightarrow> bool" where
  "can_support_strong_report_section d =
     (sd_strength d \<in> {''high_confidence_verified'', ''verified_webpage''})"

definition evidence_can_support_strong_report_section :: "evidence \<Rightarrow> py_error + bool" where
  "evidence_can_support_strong_report_section e =
     err_bind (classify_evidence_strength e) (\<lambda>d. Inr (can_support_strong_report_section d))"

section \<open>The policy of a line\<close>

definition mentions_phrase :: "phrase list \<Rightarrow> str \<Rightarrow> bool" where
  "mentions_phrase ps text = (phrases_in ps text \<noteq> [])"

definition strong_conclusion_phrases :: "phrase list" where
  "strong_conclusion_phrases =
     [Lit ''overall confidence'', Lit ''winner'', Lit ''leading option'', Lit ''best option'', Lit ''safer'',
      Lit ''safest'', Lit ''recommended'', Lit ''recommendation'', Lit ''executive recommendation'',
      Lit ''executive summary'', Lit ''dimension winner'', Spaced ''soc'' ''2'', Slashed ''iso'' ''iec'',
      Lit ''ip indemnity'', Lit ''sso'', Lit ''saml'', Lit ''scim'', Lit ''audit log'',
      Lit ''pricing transparency'']"

definition qualitative_section_phrases :: "phrase list" where
  "qualitative_section_phrases =
     [Lit ''caveat'', Lit ''risk'', Lit ''persona'', Lit ''user research'', Lit ''buyer research'',
      Lit ''validation plan'', Lit ''verification plan'', Lit ''evidence gap'', Lit ''limitations'',
      Lit ''limitation'']"

definition appendix_section_phrases :: "phrase list" where
  "appendix_section_phrases =
     [Lit ''appendix'', Lit ''source quality'', Lit ''source coverage'', Lit ''release gate'', Lit ''qa'',
      Lit ''claim validation'']"

definition line_is_overall_confidence :: "str \<Rightarrow> bool" where
  "line_is_overall_confidence line = starts_with ''overall confidence'' (lower (strip line))"

definition line_mentions_factual_axis :: "str \<Rightarrow> bool" where
  "line_mentions_factual_axis v =
     mentions_phrase [Lit ''pricing'', Lit ''price'', Lit ''feature'', Lit ''capability'', Lit ''tier'', Lit ''plan''] v"

datatype section_policy = StrongConclusion | FactualComparison | QualitativeSignal | AuditAppendix

definition report_section_policy :: "str \<Rightarrow> str \<Rightarrow> section_policy" where
  "report_section_policy heading line =
     (let line_text = strip line; combined = heading @ '' '' @ line_text
      in if line_text = '''' then AuditAppendix
         else if mentions_phrase appendix_section_phrases heading then AuditAppendix
         else if mentions_phrase qualitative_section_phrases combined \<and> \<not> line_is_overall_confidence line_text
           then QualitativeSignal
         else if mentions_phrase strong_conclusion_phrases combined then StrongConclusion
         else if line_mentions_factual_axis combined then FactualComparison
         else AuditAppendix)"

definition is_strong_report_line :: "str \<Rightarrow> str \<Rightarrow> bool" where
  "is_strong_report_line line heading = (report_section_policy heading line = StrongConclusion)"

section \<open>Violations\<close>

text \<open>\<open>^\s*#{1,4}\s+(.+?)\s*$\<close> on one line. Only white space after the marker gives a blank
  heading, if there are two characters of it.\<close>

definition heading_text :: "str \<Rightarrow> str option" where
  "heading_text line =
     (let s = lstrip_by is_space line; h = takeWhile (\<lambda>c. c = CHR ''#'') s; r = drop (length h) s
      in if 1 \<le> length h \<and> length h \<le> 4 \<and> r \<noteq> [] \<and> is_space (hd r)
         then (if strip r \<noteq> '''' then Some (strip r) else if 2 \<le> length r then Some '''' else None)
         else None)"

text \<open>The lines of a report with their number and the heading they stand under; the headings
  themselves are left out.\<close>

fun lines_under :: "(str \<Rightarrow> str option) \<Rightarrow> str \<Rightarrow> nat \<Rightarrow> str list \<Rightarrow> (nat \<times> str \<times> str) list" where
  "lines_under h heading n [] = []"
| "lines_under h heading n (l # ls) =
     (case h l of
        Some t \<Rightarrow> lines_under h t (n + 1) ls
      | None \<Rightarrow> (n, heading, l) # lines_under h heading (n + 1) ls)"

definition evidence_tokens :: "evidence \<Rightarrow> str list" where
  "evidence_tokens e =
     filter (\<lambda>t. strip t \<noteq> '''')
       ([strip (ev_id e), strip (ev_raw_source_id e)]
        @ map (\<lambda>k. metadata_or (ev_metadata e) [k] '''')
            [''raw_source_id'', ''source_id'', ''canonical_source_id''])"

definition policy_evidence_by_token :: "evidence list \<Rightarrow> (str \<times> evidence) list" where
  "policy_evidence_by_token es =
     fold (\<lambda>e d. fold (\<lambda>t. AList.update (normalize_source_token t) e) (evidence_tokens e) d) es []"

definition cited_evidence :: "str \<Rightarrow> (str \<times> evidence) list \<Rightarrow> (str \<times> evidence) list" where
  "cited_evidence line by_token =
     List.map_filter (\<lambda>t. map_option (Pair t) (map_of by_token t))
       (keep_first id (\<lambda>_. True) [] (map normalize_source_token (source_tokens line False)))"

text \<open>The rule, the severity (blocker), the policy and the recommendation of a violation are the
  same for all and left out.\<close>

record citation_violation =
  cv_line_number :: nat
  cv_section_heading :: str
  cv_line :: str
  cv_evidence_ids :: "str list"
  cv_source_strengths :: "(str \<times> strength_decision) list"
  cv_message :: str

definition err_filter :: "('a \<Rightarrow> py_error + bool) \<Rightarrow> 'a list \<Rightarrow> py_error + 'a list" where
  "err_filter f xs =
     err_bind (err_map f xs) (\<lambda>bs. Inr (map fst (filter snd (zip xs bs))))"

definition line_violation ::
  "(str \<times> evidence) list \<Rightarrow> nat \<times> str \<times> str \<Rightarrow> py_error + citation_violation list" where
  "line_violation by_token entry =
     (let (n, heading, line) = entry
      in if report_section_policy heading line \<noteq> StrongConclusion then Inr []
         else
           err_bind (err_filter (\<lambda>(t, e). err_bind (evidence_can_support_strong_report_section e)
                (\<lambda>b. Inr (\<not> b))) (cited_evidence line by_token)) (\<lambda>weak.
             if weak = [] then Inr []
             else
               err_bind (err_map (\<lambda>(t, e). classify_evidence_strength e) weak) (\<lambda>ds.
                 let decisions = fold (\<lambda>d. AList.update (sd_evidence_id d) d) ds []
                 in Inr [\<lparr>cv_line_number = n, cv_section_heading = heading, cv_line = strip line,
                      cv_evidence_ids = map fst decisions, cv_source_strengths = decisions,
                      cv_message = ''A strong report conclusion cites evidence that cannot support strong ''
                        @ ''report language. Line: '' @ take 220 (strip line)\<rparr>])))"

definition report_citation_policy_violations ::
  "str \<Rightarrow> evidence list \<Rightarrow> py_error + citation_violation list" where
  "report_citation_policy_violations report_md es =
     err_bind (err_map (line_violation (policy_evidence_by_token es))
         (lines_under heading_text '''' 1 (splitlines report_md)))
       (\<lambda>vs. Inr (concat vs))"

section \<open>Repair\<close>

definition report_source_id :: "evidence \<Rightarrow> str" where
  "report_source_id e = str_or (strip (ev_raw_source_id e)) (strip (ev_id e))"

text \<open>
  The citations the policy offers. The loop stops at the limit, so evidence after the last
  citation taken is not classified and cannot raise.
\<close>

fun policy_source_ids :: "bool \<Rightarrow> nat \<Rightarrow> str list \<Rightarrow> evidence list \<Rightarrow> py_error + str list" where
  "policy_source_ids strong limit seen [] = Inr []"
| "policy_source_ids strong limit seen (e # es) =
     err_bind (if strong then evidence_can_support_strong_report_section e else Inr True) (\<lambda>ok.
       let i = report_source_id e
       in if \<not> ok \<or> i = '''' \<or> i \<in> set seen then policy_source_ids strong limit seen es
          else if limit \<le> length seen + 1 then Inr [i]
          else err_bind (policy_source_ids strong limit (i # seen) es) (\<lambda>is. Inr (i # is)))"

definition source_ids_for_report_line_policy ::
  "evidence list \<Rightarrow> bool \<Rightarrow> nat \<Rightarrow> py_error + str list" where
  "source_ids_for_report_line_policy es strong limit = policy_source_ids strong limit [] es"

text \<open>\<open>re.sub\<close> of whole words without regard to case.\<close>

fun replace_phrase :: "phrase list \<Rightarrow> str \<Rightarrow> bool \<Rightarrow> nat \<Rightarrow> str \<Rightarrow> str" where
  "replace_phrase ps rep prev skip [] = []"
| "replace_phrase ps rep prev skip (c # s) =
     (if 0 < skip then replace_phrase ps rep (is_word_char c) (skip - 1) s
      else case word_phrase ps prev (lower (c # s)) of
             Some n \<Rightarrow> rep @ replace_phrase ps rep (is_word_char c) (n - 1) s
           | None \<Rightarrow> c # replace_phrase ps rep (is_word_char c) 0 s)"

definition downgrade_replacements :: "(str \<times> str) list" where
  "downgrade_replacements =
     [(''recommended'', ''tentatively suggested''), (''recommendation'', ''draft recommendation''),
      (''winner'', ''current evidence leader''), (''leading option'', ''current evidence leader''),
      (''best option'', ''current evidence leader''), (''safer'', ''lower-observed-risk''),
      (''safest'', ''lowest-observed-risk'')]"

definition without_caveat_label :: "str \<Rightarrow> str" where
  "without_caveat_label s =
     (if starts_with ''caveat:'' (lower s) then lstrip_by is_space (drop 7 s) else s)"

definition downgrade_strong_language :: "str \<Rightarrow> str" where
  "downgrade_strong_language line =
     (let s = strip line
      in if line_is_overall_confidence s then
           (let remainder = snd (cut_at (CHR ''|'') s)
            in ''Evidence caveat: '' @ without_caveat_label (str_or (strip remainder) s))
         else
           (let d = fold (\<lambda>(p, r). replace_phrase [Lit p] r False 0) downgrade_replacements s
            in if d = s then ''Draft caveat: '' @ s else d))"

text \<open>\<open>\[source:[^\]]+\]\<close>, which unlike the pattern of the resolver knows one case only.\<close>

fun drop_citations :: "nat \<Rightarrow> str \<Rightarrow> str" where
  "drop_citations skip [] = []"
| "drop_citations skip (c # s) =
     (if 0 < skip then drop_citations (skip - 1) s
      else let r = drop 7 s; token = takeWhile not_close r
           in if take 8 (c # s) = ''[source:'' \<and> token \<noteq> [] \<and> length token < length r
              then drop_citations (8 + length token) s else c # drop_citations 0 s)"

definition repair_strong_conclusion_line :: "str \<Rightarrow> evidence list \<Rightarrow> py_error + str" where
  "repair_strong_conclusion_line line es =
     err_bind (source_ids_for_report_line_policy es True 2) (\<lambda>allowed.
       let downgraded = downgrade_strong_language (rstrip_by is_space (drop_citations 0 line))
       in Inr (if allowed = [] then
                 downgraded @ '' No high-confidence verified citation is currently attached; ''
                   @ ''keep this as a draft caveat until stronger evidence is collected.''
               else rstrip_by is_space (downgraded @ '' ''
                 @ join '' '' (map (\<lambda>i. ''[source:'' @ i @ '']'') allowed))))"

record policy_repair =
  pr_report_md :: str
  pr_changed :: bool
  pr_repaired_line_count :: nat
  pr_violations :: "citation_violation list"

definition repair_report_citation_policy :: "str \<Rightarrow> evidence list \<Rightarrow> py_error + policy_repair" where
  "repair_report_citation_policy report_md es =
     err_bind (report_citation_policy_violations report_md es) (\<lambda>vs.
       if vs = [] then
         Inr \<lparr>pr_report_md = report_md, pr_changed = False, pr_repaired_line_count = 0, pr_violations = []\<rparr>
       else
         let broken = map cv_line_number vs; ls = enumerate 1 (splitlines report_md)
         in err_bind (err_map (\<lambda>(n, l). if n \<in> set broken then repair_strong_conclusion_line l es
                 else Inr l) ls) (\<lambda>repaired.
              let md = join [CHR 0x0A] repaired
              in Inr \<lparr>pr_report_md = md, pr_changed = (md \<noteq> report_md),
                      pr_repaired_line_count = count_if (\<lambda>(n, l). n \<in> set broken) ls,
                      pr_violations = vs\<rparr>))"

end
