(* ===== verification/ReleaseGate.thy ===== *)
theory ReleaseGate
  imports ClaimValidator CitationPolicy
begin

text \<open>
  business_intel/release_gate.py: the gate a report version passes before it is approved or
  published. The metrics of report_quality.py on the version are an argument, the rules and the order
  of sets are those of the planner, and the time is an argument. Rates and scores are rationals.
\<close>

section \<open>Numbers and texts\<close>

text \<open>\<open>f"{v:.0%}"\<close> and \<open>f"{v:.2f}"\<close> for numbers that are not negative.\<close>

definition percent_text :: "rat \<Rightarrow> str" where
  "percent_text v = str_of_int (round_half_even (v * 100)) @ ''%''"

definition fixed2 :: "rat \<Rightarrow> str" where
  "fixed2 v =
     (let n = round_half_even (v * 100)
      in str_of_int (n div 100) @ ''.'' @ pad_left (CHR ''0'') 2 (str_of_int (n mod 100)))"

text \<open>A number of a JSON value, where \<open>bool\<close> is an \<open>int\<close>.\<close>

fun json_number :: "json \<Rightarrow> rat option" where
  "json_number (JBool b) = Some (if b then 1 else 0)"
| "json_number (JInt i) = Some (of_int i)"
| "json_number (JFloat m e) =
     Some (if 0 \<le> e then of_int (m * 10 ^ nat e) else of_int m / of_int (10 ^ nat (- e)))"
| "json_number _ = None"

fun json_int :: "json \<Rightarrow> int option" where
  "json_int (JBool b) = Some (if b then 1 else 0)"
| "json_int (JInt i) = Some i"
| "json_int _ = None"

text \<open>Digits with single underscores between them, as \<open>int\<close> and \<open>float\<close> read them.\<close>

fun digit_group :: "bool \<Rightarrow> str \<Rightarrow> str option" where
  "digit_group after_digit [] = (if after_digit then Some [] else None)"
| "digit_group after_digit (c # s) =
     (if is_digit c then map_option (Cons c) (digit_group True s)
      else if c = CHR ''_'' \<and> after_digit then digit_group False s else None)"

definition split_sign :: "str \<Rightarrow> bool \<times> str" where
  "split_sign s =
     (if starts_with ''-'' s then (True, drop 1 s)
      else if starts_with ''+'' s then (False, drop 1 s) else (False, s))"

definition int_of_text :: "str \<Rightarrow> int option" where
  "int_of_text s =
     (let (neg, r) = split_sign (strip s)
      in map_option (\<lambda>d. if neg then - int (number_of_digits d) else int (number_of_digits d))
           (digit_group False r))"

text \<open>What \<open>float\<close> reads: a number, an infinity or no number.\<close>

datatype py_float = Finite rat | Infinite bool | NotANumber

definition optional_digits :: "str \<Rightarrow> str option" where
  "optional_digits s = (if s = [] then Some [] else digit_group False s)"

definition mantissa_of_text :: "str \<Rightarrow> rat option" where
  "mantissa_of_text s =
     (let (a, b) = cut_at (CHR ''.'') s
      in case (optional_digits a, optional_digits b) of
           (Some x, Some y) \<Rightarrow>
             if x = [] \<and> y = [] then None
             else Some (of_nat (number_of_digits (x @ y)) / 10 ^ length y)
         | _ \<Rightarrow> None)"

definition exponent_of_text :: "str \<Rightarrow> int option" where
  "exponent_of_text s =
     (let (neg, r) = split_sign s
      in map_option (\<lambda>d. if neg then - int (number_of_digits d) else int (number_of_digits d))
           (digit_group False r))"

definition scale10 :: "rat \<Rightarrow> int \<Rightarrow> rat" where
  "scale10 m e = (if 0 \<le> e then m * 10 ^ nat e else m / 10 ^ nat (- e))"

definition float_of_text :: "str \<Rightarrow> py_float option" where
  "float_of_text text =
     (let (neg, s) = split_sign (lower (strip text));
          sign = (\<lambda>v. if neg then - v else v);
          mantissa = takeWhile (\<lambda>c. c \<noteq> CHR ''e'') s; rest = drop (length mantissa) s
      in if s = ''nan'' then Some NotANumber
         else if s \<in> {''inf'', ''infinity''} then Some (Infinite neg)
         else if rest = [] then map_option (\<lambda>m. Finite (sign m)) (mantissa_of_text mantissa)
         else case (mantissa_of_text mantissa, exponent_of_text (drop 1 rest)) of
                (Some m, Some e) \<Rightarrow> Some (Finite (sign (scale10 m e)))
              | _ \<Rightarrow> None)"

fun optional_float :: "json option \<Rightarrow> py_float option" where
  "optional_float None = None"
| "optional_float (Some (JStr s)) = float_of_text s"
| "optional_float (Some v) = map_option Finite (json_number v)"

fun optional_int :: "json option \<Rightarrow> int option" where
  "optional_int None = None"
| "optional_int (Some (JStr s)) = int_of_text s"
| "optional_int (Some (JFloat m e)) = map_option (\<lambda>v. if v < 0 then - \<lfloor>- v\<rfloor> else \<lfloor>v\<rfloor>) (json_number (JFloat m e))"
| "optional_int (Some v) = json_int v"

fun below :: "py_float \<Rightarrow> rat \<Rightarrow> bool" where
  "below (Finite v) bound = (v < bound)"
| "below (Infinite neg) bound = neg"
| "below NotANumber bound = False"

definition value_text :: "json option \<Rightarrow> str" where
  "value_text v = (case v of Some j \<Rightarrow> if truthy j then py_str j else '''' | None \<Rightarrow> '''')"

text \<open>\<open>_string_list\<close>, which keeps the white space around its texts.\<close>

definition plain_string_list :: "json option \<Rightarrow> str list" where
  "plain_string_list v = filter (\<lambda>s. strip s \<noteq> '''') (map py_str (as_list v))"

definition unique_strings :: "str list \<Rightarrow> str list" where
  "unique_strings xs = keep_first id (\<lambda>s. s \<noteq> '''') [] (map strip xs)"

section \<open>The scope of a report version\<close>

definition scope_evidence :: "report_version \<Rightarrow> evidence list \<Rightarrow> evidence list" where
  "scope_evidence v es = filter (\<lambda>e. ev_id e \<in> set (rv_evidence_ids v)) es"

definition scope_claims :: "report_version \<Rightarrow> claim list \<Rightarrow> claim list" where
  "scope_claims v cs = filter (\<lambda>c. cl_id c \<in> set (rv_claim_ids v)) cs"

definition source_registry_key :: "evidence \<Rightarrow> py_error + str \<times> str \<times> str" where
  "source_registry_key e =
     err_bind (urlsplit (str_or (ev_canonical_url e) (opt_text (ev_url e)))) (\<lambda>p.
       let d = lower (url_hostname p)
       in Inr (ev_workspace_id e, if starts_with ''www.'' d then drop 4 d else d, lower (ev_source_type e)))"

definition last_with :: "('a \<Rightarrow> 'k) \<Rightarrow> 'k \<Rightarrow> 'a list \<Rightarrow> 'a option" where
  "last_with f k xs = List.find (\<lambda>x. f x = k) (rev xs)"

definition registry_metadata :: "source_record \<Rightarrow> jdict \<Rightarrow> jdict" where
  "registry_metadata r md =
     (let m1 = (if sr_policy_review_status r \<noteq> ''not_required''
                then AList.update ''policy_review_status'' (JStr (sr_policy_review_status r)) md else md);
          m2 = (if sr_policy_review_reason r \<noteq> ''''
                then AList.update ''policy_review_reason'' (JStr (sr_policy_review_reason r)) m1 else m1);
          m3 = (if sr_robots_status r \<noteq> ''unknown''
                then AList.update ''robots_status'' (JStr (sr_robots_status r)) m2 else m2)
      in AList.update ''source_registry_id'' (JStr (sr_id r)) m3)"

definition apply_registry_record :: "source_record list \<Rightarrow> evidence \<Rightarrow> py_error + evidence" where
  "apply_registry_record registry e =
     (let use = (\<lambda>r. e\<lparr>ev_metadata := registry_metadata r (ev_metadata e)\<rparr>)
      in case last_with sr_id (value_text (map_of (ev_metadata e) ''source_registry_id'')) registry of
           Some r \<Rightarrow> Inr (use r)
         | None \<Rightarrow>
             err_bind (source_registry_key e) (\<lambda>k.
               Inr (case last_with (\<lambda>r. (sr_workspace_id r, lower (sr_domain r), lower (sr_source_type r)))
                        k registry of
                      Some r \<Rightarrow> use r | None \<Rightarrow> e)))"

definition apply_source_registry_policy ::
  "evidence list \<Rightarrow> source_record list \<Rightarrow> py_error + evidence list" where
  "apply_source_registry_policy es registry =
     (if registry = [] then Inr es else err_map (apply_registry_record registry) es)"

text \<open>The homepage record of a competitor: the last with its id, or else the last with its name.\<close>

definition homepage_records :: "report_version \<Rightarrow> jdict list" where
  "homepage_records v =
     List.map_filter (\<lambda>j. case j of JDict d \<Rightarrow> Some d | _ \<Rightarrow> None)
       (as_list (map_of (rv_quality_metadata v) ''report_competitor_homepages''))"

definition homepage_record :: "jdict list \<Rightarrow> competitor \<Rightarrow> jdict option" where
  "homepage_record ds cp =
     (let by_id = last_with (\<lambda>d. strip (value_text (map_of d ''competitor_id''))) (cp_id cp)
            (filter (\<lambda>d. strip (value_text (map_of d ''competitor_id'')) \<noteq> '''') ds);
          by_name = last_with (\<lambda>d. lower (strip (value_text (map_of d ''competitor_name''))))
            (lower (cp_name cp))
            (filter (\<lambda>d. strip (value_text (map_of d ''competitor_name'')) \<noteq> '''') ds)
      in case by_id of Some d \<Rightarrow> Some d | None \<Rightarrow> by_name)"

definition with_homepage_metadata :: "competitor \<Rightarrow> jdict \<Rightarrow> competitor" where
  "with_homepage_metadata cp d =
     (let verified = (case map_of d ''homepage_verified'' of Some v \<Rightarrow> truthy v | None \<Rightarrow> False);
          md = (if verified then AList.update ''homepage_verified'' (JBool True) (cp_metadata cp)
                else dict_setdefault ''homepage_verified'' (JBool False) (cp_metadata cp));
          url = (case map_of d ''homepage_url'' of
              Some v \<Rightarrow> if truthy v then Some (py_str v) else cp_homepage_url cp
            | None \<Rightarrow> cp_homepage_url cp)
      in cp\<lparr>cp_homepage_url := url, cp_metadata := md\<rparr>)"

definition apply_report_competitor_metadata :: "report_version \<Rightarrow> competitor list \<Rightarrow> competitor list" where
  "apply_report_competitor_metadata v cps =
     map (\<lambda>cp. case homepage_record (homepage_records v) cp of
         None \<Rightarrow> cp | Some d \<Rightarrow> with_homepage_metadata cp d) cps"

section \<open>Issues\<close>

definition release_issue :: "str \<Rightarrow> str \<Rightarrow> str \<Rightarrow> str \<Rightarrow> str list \<Rightarrow> str list \<Rightarrow> business_finding" where
  "release_issue rule_id rule_name message recommendation evidence_ids claim_ids =
     \<lparr>bf_id = compute_release_gate_issue_id rule_id message evidence_ids claim_ids, bf_rule_id = rule_id,
      bf_rule_name = rule_name, bf_severity = ''blocker'', bf_competitor_id = None,
      bf_competitor_name = None, bf_dimension = None, bf_message = message,
      bf_evidence_ids = evidence_ids, bf_claim_ids = claim_ids, bf_recommendation = recommendation,
      bf_metadata = []\<rparr>"

definition competitor_name_of :: "competitor list \<Rightarrow> str \<Rightarrow> str option" where
  "competitor_name_of cps i = map_option cp_name (last_with cp_id i cps)"

text \<open>The competitor and the dimension a list of evidence shares, if it does.\<close>

definition scoped_issue :: "evidence list \<Rightarrow> competitor list \<Rightarrow> business_finding \<Rightarrow> business_finding" where
  "scoped_issue es cps f =
     (let single = (\<lambda>xs. case remdups (filter (\<lambda>x. x \<noteq> '''') xs) of [x] \<Rightarrow> Some x | _ \<Rightarrow> None);
          cp = single (map ev_competitor_id es)
      in f\<lparr>bf_competitor_id := cp, bf_competitor_name := Option.bind cp (competitor_name_of cps),
           bf_dimension := single (map ev_dimension es)\<rparr>)"

definition report_status_issues :: "report_version \<Rightarrow> business_finding list" where
  "report_status_issues v =
     (if rv_status v \<notin> {''rejected'', ''archived''} then []
      else [release_issue ''report_status_releasable'' ''Report status releasable''
        (''Report version status is '' @ rv_status v @ ''; it cannot be released.'')
        ''Create a new draft or restart approval before publishing this report.'' [] []])"

definition missing_claim_evidence :: "evidence list \<Rightarrow> claim \<Rightarrow> str list" where
  "missing_claim_evidence es c = filter (\<lambda>i. i \<notin> set (map ev_id es)) (cl_evidence_ids c)"

definition report_integrity_issues ::
  "report_version \<Rightarrow> evidence list \<Rightarrow> claim list \<Rightarrow> business_finding list" where
  "report_integrity_issues v es cs =
     (if strip (rv_report_md v) = '''' then
        [release_issue ''report_body_required'' ''Report body required''
          ''Report body is empty; approval is blocked until a readable report exists.''
          ''Regenerate the report after evidence and claims are available.'' [] []] else [])
     @ (if es = [] then
          [release_issue ''report_evidence_required'' ''Report evidence required''
            ''Report version has no scoped evidence records.''
            ''Collect and attach verified EvidenceRecord items before approval.'' [] []] else [])
     @ (if cs = [] then
          [release_issue ''report_claim_required'' ''Report claims required''
            ''Report version has no scoped knowledge claims.''
            ''Project structured claims from accepted evidence before approval.'' [] []] else [])
     @ map (\<lambda>c. release_issue ''claim_evidence_in_report'' ''Claim evidence must be in report''
           (''Claim '' @ cl_id c @ '' cites evidence outside this report version.'')
           ''Attach the cited evidence to this report or remove the claim.''
           (missing_claim_evidence es c) [cl_id c])
         (filter (\<lambda>c. missing_claim_evidence es c \<noteq> []) cs)"

section \<open>Sources\<close>

definition source_policy_review_status :: "evidence \<Rightarrow> str" where
  "source_policy_review_status e =
     (let status = lower (metadata_or (ev_metadata e)
            [''policy_review_status'', ''source_policy_review_status''] ''not_required'')
      in if status \<in> {''not_required'', ''pending'', ''approved'', ''rejected''} then status
         else ''not_required'')"

definition source_robots_state :: "evidence \<Rightarrow> str" where
  "source_robots_state e =
     (let status = lower (metadata_or (ev_metadata e) [''robots_status''] ''unknown'');
          source_type = lower (ev_source_type e)
      in if status \<in> {''allowed'', ''blocked'', ''error''} then status
         else if has_substring ''robots'' source_type \<and> has_substring ''blocked'' source_type then ''blocked''
         else ''unknown'')"

definition needs_policy_review :: "evidence \<Rightarrow> bool" where
  "needs_policy_review e =
     (source_policy_review_status e \<in> {''pending'', ''rejected''}
      \<or> source_robots_state e \<in> {''blocked'', ''error''})"

definition community_release_source_types :: "str list" where
  "community_release_source_types = [''github_discussion'', ''github_issue'', ''community_forum'',
     ''reddit_thread'', ''review_site'', ''developer_blog'']"

text \<open>A cluster of community claims that counts: confirmed officially, or by two sources.\<close>

definition release_grade_cluster :: "json \<Rightarrow> bool" where
  "release_grade_cluster j =
     (case j of
        JDict d \<Rightarrow>
          let label = value_text (map_of d ''label'')
          in label \<in> {''official_confirmed'', ''community_triangulated''}
             \<and> (case optional_float (map_of d ''confidence'') of None \<Rightarrow> False | Some f \<Rightarrow> \<not> below f (7/10))
             \<and> (label = ''official_confirmed''
                \<or> 2 \<le> length (as_list (map_of d ''source_ids''))
                \<or> (case optional_int (map_of d ''independent_domain_count'') of
                     None \<Rightarrow> False | Some n \<Rightarrow> 2 \<le> n))
      | _ \<Rightarrow> False)"

definition has_release_grade_community_cluster :: "evidence \<Rightarrow> bool" where
  "has_release_grade_community_cluster e =
     list_ex release_grade_cluster (as_list (map_of (ev_metadata e) ''community_claim_clusters''))"

definition is_release_grade_evidence :: "rat \<Rightarrow> evidence \<Rightarrow> bool" where
  "is_release_grade_evidence least e =
     (if bad_quality (ev_quality_label e) \<or> ev_reliability_score e < least then False
      else if ev_source_type e = ''webpage_verified'' then True
      else if ev_source_type e \<notin> set community_release_source_types then False
      else if ev_reliability_score e < 3/4 then False
      else has_release_grade_community_cluster e)"

definition is_release_grade_rate_candidate :: "evidence \<Rightarrow> bool" where
  "is_release_grade_rate_candidate e =
     (ev_source_type e = ''webpage_verified''
      \<or> ev_source_type e \<in> set community_release_source_types \<and> has_release_grade_community_cluster e)"

definition release_grade_denominator :: "evidence list \<Rightarrow> evidence list" where
  "release_grade_denominator es =
     (let candidates = filter is_release_grade_rate_candidate es
      in if candidates \<noteq> [] then candidates else es)"

definition release_grade_rate :: "evidence list \<Rightarrow> rat" where
  "release_grade_rate es =
     of_nat (count_if (is_release_grade_evidence (1/2)) (release_grade_denominator es))
     / of_nat (length (release_grade_denominator es))"

definition policy_review_issues :: "evidence list \<Rightarrow> competitor list \<Rightarrow> business_finding list" where
  "policy_review_issues es cps =
     (let broken = filter needs_policy_review es;
          statuses = sorted_set (map (\<lambda>e. ev_id e @ '':policy='' @ source_policy_review_status e
            @ '',robots='' @ source_robots_state e) broken)
      in if broken = [] then []
         else [scoped_issue broken cps (release_issue ''source_policy_review_required''
           ''Source policy review required''
           (''Report evidence includes source(s) that are pending or rejected by ''
             @ ''robots/source policy review: '' @ join ''; '' statuses @ ''.'')
           (''Resolve the Source Registry review queue or replace these evidence records ''
             @ ''before approval.'') (map ev_id broken) [])])"

definition source_quality_issues :: "evidence list \<Rightarrow> competitor list \<Rightarrow> business_finding list" where
  "source_quality_issues es cps =
     (if es = [] then []
      else policy_review_issues es cps
        @ (if 8/10 \<le> release_grade_rate es then []
           else [scoped_issue (release_grade_denominator es) cps (release_issue ''verified_evidence_rate''
             ''Release-grade evidence rate''
             (''Only '' @ percent_text (release_grade_rate es) @ '' of release-relevant report evidence is ''
               @ ''release-grade; minimum is 80%.'')
             (''Replace weak sources with verified webpages, high-confidence triangulated ''
               @ ''community evidence, or mark bad evidence stale/rejected.'')
             (map ev_id (release_grade_denominator es)) [])]))"

definition weak_claim_evidence :: "evidence list \<Rightarrow> claim \<Rightarrow> evidence list" where
  "weak_claim_evidence es c =
     filter (\<lambda>e. \<not> is_release_grade_evidence (3/4) e)
       (List.map_filter (evidence_by_id es) (cl_evidence_ids c))"

definition claim_evidence_quality_issues ::
  "claim list \<Rightarrow> evidence list \<Rightarrow> competitor list \<Rightarrow> business_finding list" where
  "claim_evidence_quality_issues cs es cps =
     map (\<lambda>c. let weak = weak_claim_evidence es c
         in (release_issue ''claim_uses_low_confidence_evidence'' ''Claim evidence confidence''
           (''Claim '' @ cl_id c @ '' depends on '' @ str_of_int (int (length weak))
             @ '' weak evidence item(s); release claims require release-grade evidence with ''
             @ ''confidence >= 0.75.'')
           (''Redo collection for this claim using official, fetched webpages, or ''
             @ ''high-confidence triangulated community evidence before publishing.'')
           (map ev_id weak) [cl_id c])
           \<lparr>bf_competitor_id := Some (cl_competitor_id c),
            bf_competitor_name := competitor_name_of cps (cl_competitor_id c),
            bf_dimension := Some (cl_claim_type c)\<rparr>)
       (filter (\<lambda>c. weak_claim_evidence es c \<noteq> []) cs)"

section \<open>The structure of a report\<close>

text \<open>
  The headings of a text under \<open>^\s*#{1,4}\s+(.+?)\s*$\<close> with \<open>MULTILINE\<close>: white space may span
  lines, so a line that holds the marker only is continued by the next line that is not blank.
  The text is given as its lines.
\<close>

fun headings_of :: "bool \<Rightarrow> str list \<Rightarrow> str list" where
  "headings_of pending [] = []"
| "headings_of pending (l # ls) =
     (let s = strip l; h = takeWhile (\<lambda>c. c = CHR ''#'') s; r = drop (length h) s
      in if s = '''' then headings_of pending ls
         else if pending then lower s # headings_of False ls
         else if 1 \<le> length h \<and> length h \<le> 4 then
           (if r = '''' then headings_of True ls
            else if is_space (hd r) then lower (strip r) # headings_of False ls
            else headings_of False ls)
         else headings_of False ls)"

fun split_lines :: "str \<Rightarrow> str \<Rightarrow> str list" where
  "split_lines cur [] = [cur]"
| "split_lines cur (c # s) =
     (if code_of c = 10 then cur # split_lines [] s else split_lines (cur @ [c]) s)"

definition has_heading :: "str \<Rightarrow> str list \<Rightarrow> bool" where
  "has_heading markdown needles =
     list_ex (contains_any needles) (headings_of False (split_lines [] markdown))"

definition has_layer_heading :: "report_version \<Rightarrow> bool" where
  "has_layer_heading v =
     (let layer = rv_competitor_layer v; md = rv_report_md v
      in if layer = ''L1'' then has_heading md [''battlecard'', ''sales objection'']
         else if layer = ''L2'' then has_heading md [''workflow'', ''enterprise risk'', ''switching'']
         else if layer = ''L3'' then has_heading md [''market landscape'', ''segmentation'', ''benchmark'']
         else has_heading md [''business implication'', ''strategy''])"

definition report_structure_checks :: "report_version \<Rightarrow> (str \<times> bool) list" where
  "report_structure_checks v =
     (let md = rv_report_md v
      in [(''Executive Summary'', has_heading md [''executive summary'', ''executive overview'']),
          (''Source Quality & Coverage'', has_heading md [''source quality'', ''source coverage'']),
          (''Decision Matrix'', has_heading md [''matrix'', ''dimension winners'', ''side-by-side'']),
          (''Scenario QA Checklist'', has_heading md [''scenario qa'', ''scenario checklist'']),
          (''Claim Validation & Evidence Risk'', has_heading md [''claim validation'', ''evidence risk'']),
          (''Next Collection / Verification Plan'',
            has_heading md [''next collection'', ''verification plan'', ''evidence gap'']),
          (''Evidence Appendix'', has_heading md [''evidence appendix'', ''source appendix'']),
          (''Layer-Specific Analysis'', has_layer_heading v)])"

definition report_structure_score :: "report_version \<Rightarrow> rat \<times> str list" where
  "report_structure_score v =
     (let checks = report_structure_checks v
      in (of_nat (count_if snd checks) / of_nat (length checks),
          map fst (filter (\<lambda>c. \<not> snd c) checks)))"

definition report_structure_issues :: "report_version \<Rightarrow> business_finding list" where
  "report_structure_issues v =
     (let (score, missing) = report_structure_score v
      in if 7/10 \<le> score \<and> ''Claim Validation & Evidence Risk'' \<notin> set missing then []
         else [release_issue ''report_structure_required'' ''Report structure required''
           (''Report is missing required decision-grade section(s): '' @ join '', '' missing
             @ ''. Structure score='' @ fixed2 score @ ''; minimum is 0.70.'')
           (''Regenerate or revise the report with executive summary, source quality, ''
             @ ''decision matrix, scenario QA checklist, layer-specific analysis, claim ''
             @ ''validation risk, next collection plan, and evidence appendix.'') [] []])"

definition report_depth_issues :: "report_version \<Rightarrow> business_finding list" where
  "report_depth_issues v =
     (let n = length (strip (rv_report_md v))
      in if 900 \<le> n then []
         else [release_issue ''report_depth_required'' ''Report depth required''
           (''Report body has '' @ str_of_int (int n) @ '' character(s); enterprise release requires ''
             @ ''at least 900 characters of decision-grade analysis.'')
           (''Regenerate or revise the report with concrete evidence-backed analysis, ''
             @ ''tradeoffs, risk notes, and next validation tasks before release.'') [] []])"

end
