(* ===== verification/ReleaseDecision.thy ===== *)
theory ReleaseDecision
  imports ReleaseGate
begin

text \<open>
  The second half of business_intel/release_gate.py: the issues from the richness of the report, the
  validation of its claims, its citations, the run behind it, its readiness and its business QA, and
  the decision.
\<close>

section \<open>Richness and claims\<close>

type_synonym quality_metrics =
  "report_version \<Rightarrow> competitor list \<Rightarrow> evidence list \<Rightarrow> str list \<Rightarrow> py_error + (str \<times> rat) list"

definition report_richness_minimums :: "(str \<times> rat) list" where
  "report_richness_minimums =
     [(''executive_summary_section_score'', 1), (''core_analysis_depth_score'', 8/10),
      (''core_section_depth_score'', 1), (''swot_section_score'', 1),
      (''rag_gap_fill_section_score'', 1), (''localized_heading_score'', 1),
      (''battlecard_section_score'', 1), (''citation_hygiene_score'', 1)]"

definition metric_value :: "(str \<times> rat) list \<Rightarrow> str \<Rightarrow> rat" where
  "metric_value metrics name = (case map_of (rev metrics) name of Some v \<Rightarrow> v | None \<Rightarrow> 0)"

definition failed_minimums :: "(str \<times> rat) list \<Rightarrow> (str \<times> rat) list" where
  "failed_minimums metrics =
     filter (\<lambda>(name, least). metric_value metrics name < least) report_richness_minimums"

definition report_richness_issues ::
  "quality_metrics \<Rightarrow> report_version \<Rightarrow> competitor list \<Rightarrow> evidence list \<Rightarrow> str list
    \<Rightarrow> py_error + business_finding list" where
  "report_richness_issues quality v cps es dimensions =
     (if length cps < 2 \<or> strip (rv_report_md v) = '''' then Inr []
      else err_bind (quality v cps es dimensions) (\<lambda>metrics.
        let failed = failed_minimums metrics
        in Inr (if failed = [] then []
             else [release_issue ''report_depth_required'' ''Report core richness required''
               (''Report core richness metrics are below release minimums: ''
                 @ join ''; '' (map (\<lambda>(name, least). name @ ''='' @ fixed2 (metric_value metrics name)
                     @ '' (<'' @ fixed2 least @ '')'') failed) @ ''.'')
               (''Redo the writer report with expanded evidence-backed core analysis, explicit ''
                 @ ''SWOT quadrants, fuller section-level tradeoffs, and a concrete RAG gap-fill ''
                 @ ''summary before marking the run complete.'') [] []])))"

definition audit_trail_entry :: "evidence \<Rightarrow> json" where
  "audit_trail_entry e =
     (let md = ev_metadata e; text_of = (\<lambda>k. JStr (value_text (map_of md k)));
          value_of = (\<lambda>k. case map_of md k of Some v \<Rightarrow> v | None \<Rightarrow> JNull)
      in JDict [(''evidence_id'', JStr (ev_id e)), (''raw_source_id'', JStr (ev_raw_source_id e)),
           (''title'', JStr (ev_title e)), (''url'', JStr (opt_text (ev_url e))),
           (''quality_label'', JStr (ev_quality_label e)), (''source_type'', JStr (ev_source_type e)),
           (''kb_document_id'', text_of ''kb_document_id''),
           (''kb_document_version'', value_of ''kb_document_version''),
           (''kb_document_status'', text_of ''kb_document_status''),
           (''kb_raw_source_id'', text_of ''kb_raw_source_id''),
           (''kb_collector_run_id'', text_of ''kb_collector_run_id''),
           (''kb_freshness_score'', value_of ''kb_freshness_score'')])"

definition evidence_audit_trail :: "str list \<Rightarrow> evidence list \<Rightarrow> json list" where
  "evidence_audit_trail ids es =
     take 8 (map audit_trail_entry
       (List.map_filter (evidence_by_id es) (keep_first id (\<lambda>_. True) [] ids)))"

text \<open>The validator's issues a result names, by their id.\<close>

definition issues_of_result :: "validation_report \<Rightarrow> validation_result \<Rightarrow> claim_issue list" where
  "issues_of_result report r =
     List.map_filter (\<lambda>i. last_with ci_id i (vp_issues report)) (vr_issue_ids r)"

definition claim_validation_issue ::
  "claim list \<Rightarrow> evidence list \<Rightarrow> competitor list \<Rightarrow> validation_report \<Rightarrow> validation_result
    \<Rightarrow> business_finding" where
  "claim_validation_issue cs es cps report r =
     (let found = issues_of_result report r; types = map ci_issue_type found;
          conflicting = sorted_set (concat (map ci_evidence_ids
            (filter (\<lambda>i. ci_issue_type i = ''conflicting_evidence'') found)));
          audited = vr_usable_evidence_ids r
            @ filter (\<lambda>i. i \<notin> set (vr_usable_evidence_ids r)) conflicting;
          failed = map vs_checker (filter (\<lambda>s. vs_vote s = ''fail'') (vr_validation_samples r));
          c = last_with cl_id (vr_claim_id r) cs;
          message = ''Claim '' @ vr_claim_id r @ '' validation is '' @ vr_status r @ ''; risk_status=''
            @ vr_validation_status r @ ''; recommended_action='' @ vr_recommended_action r
            @ ''; self-consistency='' @ str_of_int (vr_self_consistency_score r) @ '', text=''
            @ str_of_int (vr_text_support_score r) @ '', evidence='' @ str_of_int (vr_evidence_quality_score r)
            @ '', triangulation='' @ str_of_int (vr_triangulation_score r)
            @ (if types \<noteq> [] then ''; issue_types='' @ join '', '' types else '''')
            @ (if failed \<noteq> [] then ''; failed_checks='' @ join '', '' failed else '''') @ ''.''
      in (release_issue ''claim_self_consistency_required'' ''Claim self-consistency'' message
            (''Collect stronger independent evidence, resolve the listed claim-validation ''
              @ ''issue types, or downgrade the claim before release.'')
            (vr_usable_evidence_ids r) [vr_claim_id r])
          \<lparr>bf_severity := (if vr_status r \<in> {''blocked'', ''unsupported''} then ''blocker'' else ''warn''),
           bf_competitor_id := map_option cl_competitor_id c,
           bf_competitor_name := Option.bind c (\<lambda>c. competitor_name_of cps (cl_competitor_id c)),
           bf_dimension := map_option cl_claim_type c,
           bf_metadata := [(''claim_validation_status'', JStr (vr_validation_status r)),
             (''claim_validation_issue_ids'', jstrs (vr_issue_ids r)),
             (''claim_validation_issue_types'', jstrs types),
             (''claim_validation_recommended_action'', JStr (vr_recommended_action r)),
             (''claim_validation_failed_checkers'', jstrs failed),
             (''conflicting_evidence_ids'', jstrs conflicting),
             (''evidence_audit_trail'', JList (evidence_audit_trail audited es)),
             (''self_consistency_score'', JInt (vr_self_consistency_score r)),
             (''text_support_score'', JInt (vr_text_support_score r)),
             (''evidence_quality_score'', JInt (vr_evidence_quality_score r)),
             (''triangulation_score'', JInt (vr_triangulation_score r))]\<rparr>)"

definition claim_validation_gate_issues ::
  "datetime \<Rightarrow> claim list \<Rightarrow> evidence list \<Rightarrow> competitor list \<Rightarrow> py_error + business_finding list" where
  "claim_validation_gate_issues now cs es cps =
     (if cs = [] then Inr []
      else err_bind (validate_project_claims now (cl_project_id (hd cs)) cs es) (\<lambda>report.
        Inr (map (claim_validation_issue cs es cps report)
          (filter (\<lambda>r. vr_status r \<noteq> ''supported'') (vp_results report)))))"

section \<open>Citations\<close>

definition evidence_by_source_token :: "evidence list \<Rightarrow> (str \<times> evidence) list" where
  "evidence_by_source_token es = fold put_tokens es []"

text \<open>\<open>^\s{0,3}#{1,6}\s+(.+?)\s*#*\s*$\<close> on a line, without the closing marks.\<close>

definition section_heading_of :: "str \<Rightarrow> str option" where
  "section_heading_of line =
     (let w = takeWhile is_space line; s = drop (length w) line; h = takeWhile (\<lambda>c. c = CHR ''#'') s;
          r = drop (length h) s; t = lstrip_by is_space r;
          body = rstrip_by is_space (rstrip_by (\<lambda>c. c = CHR ''#'') (rstrip_by is_space t))
      in if length w \<le> 3 \<and> 1 \<le> length h \<and> length h \<le> 6 \<and> r \<noteq> [] \<and> is_space (hd r)
         then (if t \<noteq> '''' then Some (strip (if body \<noteq> '''' then body else take 1 t))
               else if 2 \<le> length r then Some '''' else None)
         else None)"

definition gate_conclusion_phrases :: "phrase list" where
  "gate_conclusion_phrases =
     [Lit ''winner'', Lit ''leading option'', Lit ''best option'', Lit ''safer'', Lit ''safest'',
      Lit ''recommended'', Lit ''recommendation'', Lit ''dimension winner'', Lit ''executive summary'',
      Spaced ''soc'' ''2'', Slashed ''iso'' ''iec'', Lit ''ip indemnity'', Lit ''sso'', Lit ''saml'',
      Lit ''scim'', Lit ''audit log'', Lit ''pricing transparency'']"

text \<open>The weak evidence a line cites, in the order of its citations.\<close>

definition weak_cited :: "(str \<times> evidence) list \<Rightarrow> str \<Rightarrow> evidence list" where
  "weak_cited by_token line =
     filter (\<lambda>e. \<not> is_release_grade_evidence (3/4) e)
       (List.map_filter (\<lambda>t. map_of by_token (normalize_source_token t)) (source_tokens line False))"

definition strong_lines :: "str \<Rightarrow> str list" where
  "strong_lines md =
     map (\<lambda>(n, heading, line). line)
       (filter (\<lambda>(n, heading, line). mentions_phrase gate_conclusion_phrases line
           \<and> is_strong_report_line line heading)
         (lines_under section_heading_of '''' 1 (splitlines md)))"

definition report_citation_quality_issues :: "report_version \<Rightarrow> evidence list \<Rightarrow> business_finding list" where
  "report_citation_quality_issues v es =
     (let by_token = evidence_by_source_token es
      in map (\<lambda>line. release_issue ''strong_conclusion_uses_weak_source'' ''Strong conclusion source quality''
             (''A strong report conclusion cites weak or search-only evidence. Line: ''
               @ take 220 (strip line))
             ''Rewrite the conclusion as tentative or recollect official/verified sources.''
             (map ev_id (weak_cited by_token line)) [])
           (filter (\<lambda>line. weak_cited by_token line \<noteq> []) (strong_lines (rv_report_md v))))"

definition unresolved_citations :: "report_version \<Rightarrow> evidence list \<Rightarrow> str list" where
  "unresolved_citations v es =
     sorted_set (filter (\<lambda>t. map_of (evidence_by_source_token es) (normalize_source_token t) = None)
       (source_tokens (rv_report_md v) False))"

definition missing_report_citation_issues :: "report_version \<Rightarrow> evidence list \<Rightarrow> business_finding list" where
  "missing_report_citation_issues v es =
     (let malformed = malformed_source_tokens (rv_report_md v); missing = unresolved_citations v es
      in (if malformed = [] then []
          else [release_issue ''report_citation_token_format'' ''Report citation token format''
            (''Report contains malformed source token(s): '' @ join '', '' (take 8 malformed) @ ''.'')
            (''Remove malformed [source:...] markers or replace them with canonical ''
              @ ''RawSource ids.'') [] []])
         @ (if missing = [] then []
            else [release_issue ''report_citation_resolves'' ''Report citations resolve''
              (''Report contains source token(s) that do not resolve to the report evidence ''
                @ ''scope: '' @ join '', '' (take 8 missing) @ ''.'')
              (''Attach the cited evidence to this report version, replace the token with a ''
                @ ''canonical RawSource id, or remove the unsupported sentence.'') [] []]))"

section \<open>The run behind the report\<close>

definition schema_pass_issues :: "report_version \<Rightarrow> business_finding list" where
  "schema_pass_issues v =
     (case Option.bind (map_of (rv_quality_metadata v) ''schema_pass_rate'') json_number of
        Some r \<Rightarrow>
          if r < 1 then
            [release_issue ''run_schema_validation_failed'' ''Run schema validation''
              (''Report release requires all schema-first outputs to validate; schema pass rate is ''
                @ percent_text r @ ''.'')
              ''Redo the failing agent branch or repair the typed output before approval.'' [] []]
          else []
      | None \<Rightarrow> [])"

definition failure_summary :: "jdict \<Rightarrow> str" where
  "failure_summary d =
     (let part = (\<lambda>k dflt. strip (str_or (value_text (map_of d k)) dflt));
          url = part ''url'' ''''; err = part ''error'' ''''
      in join '' / '' ([part ''stage'' ''unknown'', part ''gap_id'' ''unknown-gap'']
           @ (if url \<noteq> '''' then [take 80 url] else []) @ (if err \<noteq> '''' then [take 120 err] else [])))"

definition online_failure_summary :: "json option \<Rightarrow> str" where
  "online_failure_summary v =
     (let xs = as_list v;
          summaries = List.map_filter (\<lambda>j. case j of JDict d \<Rightarrow> Some (failure_summary d) | _ \<Rightarrow> None)
            (take 3 xs);
          extra = length xs - length summaries
      in if xs = [] then ''''
         else if summaries = [] then str_of_int (int (length xs)) @ '' failure(s)''
         else str_of_int (int (length xs)) @ '' failure(s): '' @ join ''; '' summaries
           @ (if 0 < extra then ''; +'' @ str_of_int (int extra) @ '' more'' else ''''))"

text \<open>\<open>metadata.get(a) or metadata.get(b)\<close>.\<close>

definition value_or_else :: "json option \<Rightarrow> json option \<Rightarrow> json option" where
  "value_or_else a b = (case a of Some j \<Rightarrow> if truthy j then a else b | None \<Rightarrow> b)"

definition unfilled_gap_ids :: "jdict \<Rightarrow> str list" where
  "unfilled_gap_ids d =
     plain_string_list (value_or_else (map_of d ''unfilled_gap_ids'') (map_of d ''remaining_gap_ids''))"

definition unresolved_gap_count :: "jdict \<Rightarrow> int" where
  "unresolved_gap_count d =
     (case Option.bind (map_of d ''after_gap_count'') json_int of
        Some n \<Rightarrow> n | None \<Rightarrow> int (length (unfilled_gap_ids d)))"

definition has_gap_links :: "jdict \<Rightarrow> bool" where
  "has_gap_links d = list_ex (\<lambda>(k, v). truthy v) (as_dict (map_of d ''gap_evidence_links''))"

definition gap_chain_open :: "jdict \<Rightarrow> bool" where
  "gap_chain_open d =
     (map_of d ''gap_fill_chain_closed'' = Some (JBool False) \<or> 0 < unresolved_gap_count d
      \<or> \<not> has_gap_links d)"

definition gap_fill_issues :: "report_version \<Rightarrow> business_finding list" where
  "gap_fill_issues v =
     (case map_of (rv_quality_metadata v) ''rag_gap_fill'' of
        Some (JDict d) \<Rightarrow>
          if gap_chain_open d then
            (let closed = (case map_of d ''gap_fill_chain_closed'' of Some j \<Rightarrow> truthy j | None \<Rightarrow> False);
                 failures = online_failure_summary (map_of d ''online_failures'')
             in [release_issue ''rag_gap_fill_chain_unclosed'' ''RAG gap-fill chain''
               (''Report release requires the RAG evidence-gap fill chain to close; chain_closed=''
                 @ (if closed then ''True'' else ''False'') @ '', remaining_gap_count=''
                 @ str_of_int (unresolved_gap_count d) @ '', unfilled_gap_ids=''
                 @ str_or (join '', '' (take 5 (unfilled_gap_ids d))) ''n/a'' @ ''.''
                 @ (if failures \<noteq> '''' then '' online_failures='' @ failures @ ''.'' else ''''))
               (''Run online gap fill again, attach verified evidence for each remaining ''
                 @ ''gap, review any online search/fetch/robots failures, or keep the report ''
                 @ ''in draft with the gap explicitly unresolved.'') [] []])
          else []
      | _ \<Rightarrow> [])"

text \<open>A finding of the run, a dictionary or anything else.\<close>

definition mapping_value :: "json \<Rightarrow> str \<Rightarrow> json option" where
  "mapping_value j k = (case j of JDict d \<Rightarrow> map_of d k | _ \<Rightarrow> None)"

fun non_empty_text :: "json option \<Rightarrow> str option" where
  "non_empty_text (Some (JStr s)) = (if s \<noteq> '''' then Some s else None)"
| "non_empty_text _ = None"

definition run_qa_target :: "str \<Rightarrow> json \<Rightarrow> str option" where
  "run_qa_target key finding =
     (case non_empty_text (mapping_value finding key) of
        Some s \<Rightarrow> Some s
      | None \<Rightarrow> non_empty_text (map_of (as_dict (mapping_value finding ''redo_scope'')) key))"

definition run_qa_recommendation :: "json \<Rightarrow> str" where
  "run_qa_recommendation finding =
     (case map_of (as_dict (mapping_value finding ''redo_scope'')) ''rationale'' of
        Some (JStr s) \<Rightarrow> str_or (strip s) ''Run scoped redo for the affected branch before publishing.''
      | _ \<Rightarrow> ''Run scoped redo for the affected branch before publishing.'')"

definition run_qa_metadata :: "json \<Rightarrow> str \<Rightarrow> str \<Rightarrow> jdict" where
  "run_qa_metadata finding issue_id severity =
     (let value_or = (\<lambda>k. case mapping_value finding k of
              Some j \<Rightarrow> if truthy j then j else JStr '''' | None \<Rightarrow> JStr '''');
          md = dict_merge (as_dict (mapping_value finding ''metadata''))
            [(''run_qa_finding_id'', JStr issue_id), (''run_qa_original_severity'', JStr severity),
             (''run_qa_detected_by'', value_or ''detected_by''),
             (''run_qa_field_path'', value_or ''field_path''),
             (''run_qa_target_agent'', value_or ''target_agent''),
             (''run_qa_target_subagent'', JStr (opt_text (run_qa_target ''target_subagent'' finding))),
             (''run_qa_target_competitor'', JStr (opt_text (run_qa_target ''target_competitor'' finding)))];
          md1 = (case mapping_value finding ''redo_scope'' of
              Some (JDict d) \<Rightarrow> AList.update ''run_qa_redo_scope'' (JDict d) md | _ \<Rightarrow> md)
      in filter (\<lambda>(k, v). v \<noteq> JStr '''' \<and> v \<noteq> JNull \<and> v \<noteq> JList []) md1)"

definition audited_id :: "jdict \<Rightarrow> str option" where
  "audited_id d =
     (case List.map_filter (\<lambda>k. case map_of d k of
             Some v \<Rightarrow> if v \<noteq> JNull \<and> strip (py_str v) \<noteq> '''' then Some (strip (py_str v)) else None
           | None \<Rightarrow> None) [''evidence_id'', ''raw_source_id'', ''source_id''] of
        [] \<Rightarrow> None | i # _ \<Rightarrow> Some i)"

definition run_qa_evidence_ids :: "json \<Rightarrow> jdict \<Rightarrow> str list" where
  "run_qa_evidence_ids finding md =
     unique_strings
       (concat (map (\<lambda>k. plain_string_list (mapping_value finding k) @ plain_string_list (map_of md k))
          [''evidence_ids'', ''source_ids'', ''raw_source_ids''])
        @ List.map_filter (\<lambda>j. case j of JDict d \<Rightarrow> audited_id d | _ \<Rightarrow> None)
            (as_list (map_of md ''evidence_audit_trail'')))"

definition run_qa_issue :: "json \<Rightarrow> business_finding" where
  "run_qa_issue finding =
     (let severity = str_or (value_text (mapping_value finding ''severity'')) ''warn'';
          problem = value_text (value_or_else (mapping_value finding ''problem'') (mapping_value finding ''id''));
          issue_id = str_or (value_text (mapping_value finding ''id'')) ''unknown'';
          md = run_qa_metadata finding issue_id severity
      in (release_issue ''run_qa_findings_unresolved'' ''Run QA finding unresolved''
            (''Report release requires a clean run-level QA result; unresolved '' @ severity
              @ '' finding '' @ issue_id @ '': '' @ problem)
            (run_qa_recommendation finding) (run_qa_evidence_ids finding md) [])
          \<lparr>bf_competitor_name := run_qa_target ''target_competitor'' finding,
           bf_dimension := run_qa_target ''target_subagent'' finding,
           bf_severity := (if severity = ''blocker'' then ''blocker'' else ''warn''), bf_metadata := md\<rparr>)"

definition run_quality_issues :: "report_version \<Rightarrow> business_finding list" where
  "run_quality_issues v =
     schema_pass_issues v @ gap_fill_issues v
     @ map run_qa_issue (as_list (map_of (rv_quality_metadata v) ''run_qa_findings''))"

section \<open>Readiness and business QA\<close>

definition readiness_issues :: "readiness \<Rightarrow> business_finding list" where
  "readiness_issues r =
     (if ps_risk_level r = ''ready'' \<and> 85 \<le> ps_score r then []
      else [release_issue ''readiness_required'' ''Readiness threshold''
        (''Readiness is '' @ ps_risk_level r @ '' with score '' @ str_of_int (ps_score r)
          @ ''; approval requires ready and score >= 85.'')
        ''Resolve evidence, coverage, claim, and QA gaps before approval.'' [] []])"

definition strict_qa_issues :: "business_finding list \<Rightarrow> business_finding list" where
  "strict_qa_issues fs =
     (let warns = severity_count ''warn'' fs; blockers = severity_count ''blocker'' fs
      in if fs = [] then []
         else if blockers \<noteq> 0 then
           [release_issue ''business_qa_clean_required'' ''Business QA blockers must be clean''
             (''Report approval requires zero blocker Business QA findings; current evaluation has ''
               @ str_of_int (int blockers) @ '' blocker(s) and '' @ str_of_int (int warns)
               @ '' warning(s).'')
             ''Resolve blocker Business QA findings or keep the report in draft.'' [] []]
         else if warns \<noteq> 0 then
           [(release_issue ''business_qa_warnings_present'' ''Business QA warnings present''
             (''Report has non-blocking Business QA warning(s); current evaluation has ''
               @ str_of_int (int warns) @ '' warning(s).'')
             ''Carry the warning(s) into caveats or schedule follow-up repair.'' [] [])
             \<lparr>bf_severity := ''warn''\<rparr>]
         else
           [(release_issue ''business_qa_info_present'' ''Business QA informational findings present''
             (''Report has informational Business QA finding(s); review them before final ''
               @ ''external publication.'')
             ''Review informational Business QA findings.'' [] [])\<lparr>bf_severity := ''info''\<rparr>])"

section \<open>The gate\<close>

record gate_settings =
  gc_set_order :: "str list \<Rightarrow> str list"
  gc_rules :: "qa_rule list"
  gc_quality :: quality_metrics
  gc_now :: datetime

text \<open>What the gate judges a version on: its scope, the plan, the QA evaluation and the readiness.\<close>

record gate_subject =
  gj_competitors :: "competitor list"
  gj_report_evidence :: "evidence list"
  gj_evidence :: "evidence list"
  gj_claims :: "claim list"
  gj_dimensions :: "str list"
  gj_evaluation :: business_evaluation
  gj_readiness :: readiness

definition gate_dimensions :: "evidence list \<Rightarrow> str list" where
  "gate_dimensions es =
     (let ds = sorted_set (map ev_dimension es)
      in if ds \<noteq> [] then ds else [''pricing'', ''feature'', ''persona''])"

definition gate_subject_of ::
  "gate_settings \<Rightarrow> project \<Rightarrow> report_version \<Rightarrow> competitor list \<Rightarrow> evidence list \<Rightarrow> claim list
    \<Rightarrow> source_record list \<Rightarrow> py_error + gate_subject" where
  "gate_subject_of g p v cps es cs registry =
     (let competitors = apply_report_competitor_metadata v cps; reported = scope_evidence v es;
          claims = scope_claims v cs
      in err_bind (apply_source_registry_policy reported registry) (\<lambda>scoped.
           let dimensions = gate_dimensions scoped
           in err_bind (build_business_intel_plan (gc_set_order g) (gc_rules g) (pj_topic p)
                (map cp_name competitors) dimensions
                (if pj_competitor_layer p \<noteq> ''unknown'' then Some (pj_competitor_layer p) else None)
                (pj_scenario_id p)) (\<lambda>plan.
                let evaluation = evaluate_business_qa (gc_now g) (pj_id p) plan competitors scoped claims
                in Inr \<lparr>gj_competitors = competitors, gj_report_evidence = reported, gj_evidence = scoped,
                        gj_claims = claims, gj_dimensions = dimensions, gj_evaluation = evaluation,
                        gj_readiness = score_project_readiness (gc_now g) (pj_id p) plan evaluation
                          competitors scoped claims\<rparr>)))"

definition release_gate_issues ::
  "gate_settings \<Rightarrow> report_version \<Rightarrow> gate_subject \<Rightarrow> py_error + business_finding list" where
  "release_gate_issues g v j =
     err_bind (report_richness_issues (gc_quality g) v (gj_competitors j) (gj_report_evidence j)
         (gj_dimensions j)) (\<lambda>richness.
       err_bind (claim_validation_gate_issues (gc_now g) (gj_claims j) (gj_evidence j)
           (gj_competitors j)) (\<lambda>validation.
         Inr (report_status_issues v @ report_integrity_issues v (gj_evidence j) (gj_claims j)
           @ report_structure_issues v @ report_depth_issues v @ richness
           @ source_quality_issues (gj_evidence j) (gj_competitors j)
           @ claim_evidence_quality_issues (gj_claims j) (gj_evidence j) (gj_competitors j)
           @ validation @ missing_report_citation_issues v (gj_report_evidence j)
           @ report_citation_quality_issues v (gj_report_evidence j) @ run_quality_issues v
           @ readiness_issues (gj_readiness j) @ strict_qa_issues (be_findings (gj_evaluation j)))))"

definition evaluate_report_release_gate ::
  "gate_settings \<Rightarrow> project \<Rightarrow> report_version \<Rightarrow> competitor list \<Rightarrow> evidence list \<Rightarrow> claim list
    \<Rightarrow> source_record list \<Rightarrow> py_error + release_gate" where
  "evaluate_report_release_gate g p v cps es cs registry =
     err_bind (gate_subject_of g p v cps es cs registry) (\<lambda>j.
       err_bind (release_gate_issues g v j) (\<lambda>issues.
         let blockers = severity_count ''blocker'' issues;
             allowed = (blockers = 0 \<and> be_blocker_count (gj_evaluation j) = 0)
         in Inr \<lparr>rg_report_version_id = rv_id v, rg_workspace_id = rv_workspace_id v,
                 rg_project_id = rv_project_id v, rg_allowed = allowed,
                 rg_status = (if allowed then ''pass'' else ''blocked''), rg_readiness = gj_readiness j,
                 rg_qa_evaluation = gj_evaluation j, rg_issue_count = int (length issues),
                 rg_blocker_count = int blockers,
                 rg_warn_count = int (severity_count ''warn'' issues), rg_issues = issues,
                 rg_generated_at = gc_now g\<rparr>))"

end
