(* ===== verification/BusinessProps.thy ===== *)
theory BusinessProps
  imports ClaimValidator
begin

text \<open>
  The properties of planning, business QA, readiness and claim validation: plans always exist and
  agree with their scenario, scores stay between 0 and 100, more evidence never lowers coverage, and
  the verdict on a claim is the one its evidence justifies.
\<close>

named_theorems score_bounds

lemma round_between:
  assumes "0 \<le> x" "x \<le> of_int n"
  shows "0 \<le> round_half_even x" "round_half_even x \<le> n"
  using round_half_even_mono[OF assms(1)] round_half_even_mono[OF assms(2)]
    round_half_even_int[of 0] by simp_all

section \<open>Plans\<close>

lemma business_layers_simp: "set business_layers = {''L1'', ''L2'', ''L3''}"
  by (simp add: business_layers_def)

lemma best_layer_in: "best_layer score \<in> set business_layers"
  unfolding best_layer_def
  by (cases "max_by (\<lambda>l. 4 * score l + layer_priority l) business_layers")
    (auto simp: business_layers_def dest: max_by_Some)

lemma assessed_layer_in:
  "la_layer (assess_competitor_layer so topic cps dims requested) \<in> set business_layers"
proof -
  have "la_layer (if c then a else b) = (if c then la_layer a else la_layer b)" for c a b by simp
  then show ?thesis
    unfolding assess_competitor_layer_def Let_def
    by (auto simp only: layer_assessment.select_convs best_layer_in option.sel split: if_splits option.splits)
qed

lemma get_scenario_pack_layer:
  "get_scenario_pack i = Some p \<Longrightarrow> sc_competitor_layer p \<in> set business_layers"
proof -
  assume "get_scenario_pack i = Some p"
  then have "p \<in> set scenario_packs" by (auto simp: get_scenario_pack_def find_Some_iff)
  moreover have "list_all (\<lambda>p. sc_competitor_layer p \<in> set business_layers) scenario_packs" by code_simp
  ultimately show ?thesis by (simp only: list_all_iff)
qed

lemma known_packs:
  "list_all (\<lambda>i. case pack_or_error i of Inl e \<Rightarrow> False | Inr p \<Rightarrow> sc_competitor_layer p \<in> set business_layers)
     [''enterprise_risk_review'', ''l3_market_landscape'', ''l2_adjacent_workflow'', ''l1_pricing_pack'',
      ''l1_direct_battlecard'']"
  by code_simp

lemma known_pack:
  assumes "i \<in> {''enterprise_risk_review'', ''l3_market_landscape'', ''l2_adjacent_workflow'',
    ''l1_pricing_pack'', ''l1_direct_battlecard''}"
  shows "\<exists>p. pack_or_error i = Inr p \<and> sc_competitor_layer p \<in> set business_layers"
  using known_packs assms by (cases "pack_or_error i") (auto simp only: list.pred_inject
      insert_iff empty_iff sum.case)

lemma layer_scenario_pack_exists:
  "\<exists>p. layer_scenario_pack so topic cps dims requested = Inr p \<and> sc_competitor_layer p \<in> set business_layers"
  unfolding layer_scenario_pack_def Let_def by (rule known_pack) (simp only: insert_iff split: if_splits, simp)

lemma dynamic_pack_layer:
  "sc_competitor_layer (generate_dynamic_scenario_pack so topic cps dims requested) \<in> set business_layers"
  unfolding generate_dynamic_scenario_pack_def Let_def scenario_pack.select_convs by (rule assessed_layer_in)

lemma recommended_pack_exists:
  "\<exists>p. recommend_scenario_pack so topic cps dims layer requested = Inr p
     \<and> sc_competitor_layer p \<in> set business_layers"
  by (cases "get_scenario_pack (the requested)")
    (auto simp: recommend_scenario_pack_def layer_scenario_pack_exists dynamic_pack_layer
      dest: get_scenario_pack_layer)

lemma rules_of_layer:
  "l \<in> set business_layers \<Longrightarrow> list_business_qa_rules rules (Some l) (Some ids)
     = filter (\<lambda>r. qr_id r \<in> set ids \<and> l \<in> set (qr_applies_to_layers r)) rules"
  by (simp add: list_business_qa_rules_def filter_filter)

text \<open>A plan can be built for every project, whatever its topic, competitors and dimensions: its layer is
  one of the three, it is the layer of its scenario unless the caller asked for another, and the
  rules of the plan are those its scenario names that apply to the layer.\<close>

theorem plan_agrees_with_scenario:
  "case build_business_intel_plan so rules topic cps dims requested sid of
     Inl e \<Rightarrow> False
   | Inr p \<Rightarrow> bp_layer p \<in> {''L1'', ''L2'', ''L3''}
       \<and> (if requested = None then bp_layer p = sc_competitor_layer (bp_scenario_pack p) else True)
       \<and> bp_qa_rules p = filter (\<lambda>r. qr_id r \<in> set (sc_qa_rule_ids (bp_scenario_pack p))
           \<and> bp_layer p \<in> set (qr_applies_to_layers r)) rules"
proof -
  define a where "a = assess_competitor_layer so topic cps dims requested"
  obtain pk where pk: "recommend_scenario_pack so topic cps dims (Some (la_layer a)) sid = Inr pk"
    "sc_competitor_layer pk \<in> set business_layers"
    using recommended_pack_exists by blast
  have a: "la_layer a \<in> set business_layers" unfolding a_def by (rule assessed_layer_in)
  show ?thesis
    unfolding build_business_intel_plan_def Let_def a_def[symmetric] pk(1) err_bind.simps sum.case
      business_plan.select_convs business_layers_simp[symmetric]
    using a pk(2) by (auto simp: rules_of_layer)
qed

section \<open>Readiness\<close>

lemma percent_score_bounds [score_bounds]: "0 \<le> percent_score v" "percent_score v \<le> 100"
  by (simp_all add: percent_score_def)

lemma evidence_score_bounds [score_bounds]: "0 \<le> evidence_score es" "evidence_score es \<le> 100"
  by (simp_all add: evidence_score_def score_bounds)

lemma claim_score_bounds [score_bounds]: "0 \<le> claim_score cs es" "claim_score cs es \<le> 100"
  by (simp_all add: claim_score_def Let_def score_bounds)

lemma share_bounds:
  assumes "k \<le> n"
  shows "(0::rat) \<le> of_nat k / of_nat n * 100" "of_nat k / of_nat n * 100 \<le> (of_int 100 :: rat)"
  using assms by (simp_all add: divide_le_eq)

lemma covered_pairs_le: "covered_pairs cps ds es \<le> length cps * length ds"
  using count_if_le[of _ "List.product cps ds"] by (simp add: covered_pairs_def length_product)

lemma coverage_score_bounds [score_bounds]:
  "0 \<le> coverage_score plan cps es" "coverage_score plan cps es \<le> 100"
  using round_between[OF share_bounds[OF covered_pairs_le]]
  by (simp_all add: coverage_score_def Let_def)

lemma qa_score_bounds [score_bounds]:
  assumes "0 \<le> be_blocker_count ev" "0 \<le> be_warn_count ev" "0 \<le> be_info_count ev"
  shows "0 \<le> qa_score ev" "qa_score ev \<le> 100"
  using assms by (simp_all add: qa_score_def)

definition weighted :: "int \<Rightarrow> int \<Rightarrow> int \<Rightarrow> int \<Rightarrow> rat" where
  "weighted a b c d = of_int a * (35/100) + of_int b * (25/100) + of_int c * (25/100) + of_int d * (15/100)"

lemma weighted_bounds:
  assumes "0 \<le> a" "a \<le> 100" "0 \<le> b" "b \<le> 100" "0 \<le> c" "c \<le> 100" "0 \<le> d" "d \<le> 100"
  shows "0 \<le> round_half_even (weighted a b c d)" "round_half_even (weighted a b c d) \<le> 100"
proof -
  have 0: "(0::rat) \<le> of_int a" "(0::rat) \<le> of_int b" "(0::rat) \<le> of_int c" "(0::rat) \<le> of_int d"
    and 1: "(of_int a::rat) \<le> of_int 100" "(of_int b::rat) \<le> of_int 100"
      "(of_int c::rat) \<le> of_int 100" "(of_int d::rat) \<le> of_int 100"
    using assms by (simp_all only: of_int_le_iff of_int_0_le_iff)
  from 0 have "0 \<le> weighted a b c d" unfolding weighted_def by linarith
  moreover from 1 have "weighted a b c d \<le> of_int 100" unfolding weighted_def of_int_numeral by linarith
  ultimately show "0 \<le> round_half_even (weighted a b c d)" "round_half_even (weighted a b c d) \<le> 100"
    by (rule round_between)+
qed

lemma evaluation_counts:
  "0 \<le> be_blocker_count (evaluate_business_qa now i plan cps es cs)"
  "0 \<le> be_warn_count (evaluate_business_qa now i plan cps es cs)"
  "0 \<le> be_info_count (evaluate_business_qa now i plan cps es cs)"
  "be_blocker_count (evaluate_business_qa now i plan cps es cs)
     = int (severity_count ''blocker'' (be_findings (evaluate_business_qa now i plan cps es cs)))"
  by (simp_all add: evaluate_business_qa_def Let_def)

lemma keep_first_empty: "keep_first f p [] xs = [] \<longleftrightarrow> filter p xs = []"
  by (induction xs) auto

lemma recommendations_small:
  "recommendations plan ev cps es cs k \<noteq> []" "length (recommendations plan ev cps es cs k) \<le> 6"
proof -
  have "(if rs \<noteq> [] then rs else [x]) \<noteq> []" for rs :: "recommendation list" and x by simp
  then have "dedupe_recommendations (if rs \<noteq> [] then rs else [x]) \<noteq> []" for rs x
    by (simp add: dedupe_recommendations_def keep_first_empty)
  then show "recommendations plan ev cps es cs k \<noteq> []" unfolding recommendations_def Let_def .
  have "length (dedupe_recommendations rs) \<le> 6" for rs by (simp add: dedupe_recommendations_def)
  then show "length (recommendations plan ev cps es cs k) \<le> 6" unfolding recommendations_def Let_def .
qed

text \<open>Whatever the evidence and the claims, the readiness of a project and its four parts are between
  0 and 100; it is blocked exactly when a finding is a blocker and ready exactly when none is and
  the score is at least 85; and there is always something to do next, at most six things.\<close>

theorem readiness_bounded:
  "let ev = evaluate_business_qa now i plan cps es cs;
       r = score_project_readiness now i plan ev cps es cs
   in ps_score r \<in> {0..100} \<and> ps_evidence_score r \<in> {0..100} \<and> ps_claim_score r \<in> {0..100}
      \<and> ps_coverage_score r \<in> {0..100} \<and> ps_qa_score r \<in> {0..100}
      \<and> (ps_risk_level r = ''blocked'') = list_ex (\<lambda>f. bf_severity f = ''blocker'') (be_findings ev)
      \<and> (ps_risk_level r = ''ready'')
          = (85 \<le> ps_score r \<and> \<not> list_ex (\<lambda>f. bf_severity f = ''blocker'') (be_findings ev))
      \<and> ps_recommendations r \<noteq> [] \<and> length (ps_recommendations r) \<le> 6"
proof -
  define ev where "ev = evaluate_business_qa now i plan cps es cs"
  have n: "0 \<le> be_blocker_count ev" "0 \<le> be_warn_count ev" "0 \<le> be_info_count ev"
    and b: "be_blocker_count ev = int (severity_count ''blocker'' (be_findings ev))"
    unfolding ev_def by (rule evaluation_counts)+
  have blocked: "(0 < be_blocker_count ev) = list_ex (\<lambda>f. bf_severity f = ''blocker'') (be_findings ev)"
    unfolding b severity_count_def by (auto simp: list_ex_iff simp flip: neq0_conv)
  have level: "(risk_level x ev = ''blocked'') = (0 < be_blocker_count ev)"
    "(risk_level x ev = ''ready'') = (85 \<le> x \<and> \<not> 0 < be_blocker_count ev)" for x
    by (simp_all add: risk_level_def)
  let ?w = "round_half_even (weighted (qa_score ev) (coverage_score plan cps es) (evidence_score es)
     (claim_score cs es))"
  have "0 \<le> ?w" "?w \<le> 100" by (rule weighted_bounds; (rule score_bounds n)+)+
  then show ?thesis
    unfolding ev_def[symmetric] Let_def score_project_readiness_def readiness.select_convs
      weighted_def[symmetric] level blocked
    by (simp add: score_bounds n recommendations_small)
qed

section \<open>Coverage\<close>

lemma matching_evidence_append:
  "matching_evidence cp d (es @ extra) = matching_evidence cp d es @ matching_evidence cp d extra"
  by (simp add: matching_evidence_def)

lemma count_if_mono: "(\<And>x. p x \<Longrightarrow> q x) \<Longrightarrow> count_if p xs \<le> count_if q xs"
  by (induction xs) (auto simp: loop_simps intro: le_SucI)

lemma covered_pairs_append: "covered_pairs cps ds es \<le> covered_pairs cps ds (es @ extra)"
  unfolding covered_pairs_def by (rule count_if_mono) (auto simp: matching_evidence_append)

lemma length_concat_map_mono:
  "(\<And>x. length (f x) \<le> length (g x)) \<Longrightarrow> length (concat (map f xs)) \<le> length (concat (map g xs))"
  by (induction xs) (auto intro: add_mono)

lemma coverage_findings_append:
  "length (coverage_findings rule plan cps (es @ extra)) \<le> length (coverage_findings rule plan cps es)"
  unfolding coverage_findings_def
  by (intro length_concat_map_mono) (simp add: Let_def matching_evidence_append eligible_evidence_def)

text \<open>More evidence never hurts coverage: the coverage score does not fall, and no rule on the
  coverage of competitors and dimensions has more findings than before.\<close>

theorem coverage_monotone:
  "coverage_score plan cps es \<le> coverage_score plan cps (es @ extra)
   \<and> length (coverage_findings rule plan cps (es @ extra)) \<le> length (coverage_findings rule plan cps es)"
  by (auto simp: coverage_score_def Let_def coverage_findings_append covered_pairs_append
      intro!: round_half_even_mono divide_right_mono mult_right_mono)

section \<open>Claims\<close>

lemma best_of_bounds: "0 \<le> best_of xs" "(\<And>x. x \<in> set xs \<Longrightarrow> x \<le> 1) \<Longrightarrow> best_of xs \<le> 1"
proof -
  have "m \<le> foldl max m xs" for m :: rat
    by (induction xs arbitrary: m) (auto intro: order_trans[OF max.cobounded1])
  then show "0 \<le> best_of xs" unfolding best_of_def .
  have "m \<le> 1 \<Longrightarrow> (\<And>x. x \<in> set xs \<Longrightarrow> x \<le> 1) \<Longrightarrow> foldl max m xs \<le> 1" for m :: rat
    by (induction xs arbitrary: m) auto
  then show "(\<And>x. x \<in> set xs \<Longrightarrow> x \<le> 1) \<Longrightarrow> best_of xs \<le> 1" unfolding best_of_def by simp
qed

lemma best_score_bounds:
  assumes "\<And>x. x \<in> set xs \<Longrightarrow> x \<le> 1"
  shows "0 \<le> round_half_even (best_of xs * 100)" "round_half_even (best_of xs * 100) \<le> 100"
proof -
  have "0 \<le> best_of xs * 100" "best_of xs * 100 \<le> of_int 100"
    using best_of_bounds[of xs] assms by simp_all
  then show "0 \<le> round_half_even (best_of xs * 100)" "round_half_even (best_of xs * 100) \<le> 100"
    by (rule round_between)+
qed

lemma text_overlap_le: "text_overlap ts e \<le> 1"
  unfolding text_overlap_def Let_def by (rule min.cobounded2)

lemma evidence_quality_le: "evidence_quality e \<le> 1"
  unfolding evidence_quality_def by (rule min.cobounded2)

lemma text_support_bounds [score_bounds]: "0 \<le> text_support_score c es" "text_support_score c es \<le> 100"
  unfolding text_support_score_def Let_def
  by (auto intro!: best_score_bounds simp: text_overlap_le)

lemma evidence_quality_bounds [score_bounds]:
  "0 \<le> evidence_quality_score es" "evidence_quality_score es \<le> 100"
  unfolding evidence_quality_score_def by (auto intro!: best_score_bounds simp: evidence_quality_le)

lemma triangulation_bounds:
  assumes "triangulation_score es = Inr t" shows "0 \<le> t" "t \<le> 100"
  using assms by (cases "err_map evidence_domain es"; auto simp: triangulation_score_def Let_def split: if_splits)+

lemma support_bounds:
  assumes "0 \<le> x" "x \<le> 100" "0 \<le> q" "q \<le> 100" "0 \<le> t" "t \<le> 100"
  shows "0 \<le> self_consistency_score x q t" "self_consistency_score x q t \<le> 100"
proof -
  let ?v = "of_int x * (5/10) + of_int q * (3/10) + of_int t * (2/10) :: rat"
  have 0: "(0::rat) \<le> of_int x" "(0::rat) \<le> of_int q" "(0::rat) \<le> of_int t"
    and 1: "(of_int x::rat) \<le> of_int 100" "(of_int q::rat) \<le> of_int 100" "(of_int t::rat) \<le> of_int 100"
    using assms by (simp_all only: of_int_le_iff of_int_0_le_iff)
  from 0 have "0 \<le> ?v" by linarith
  moreover from 1 have "?v \<le> of_int 100" unfolding of_int_numeral by linarith
  ultimately show "0 \<le> self_consistency_score x q t" "self_consistency_score x q t \<le> 100"
    unfolding self_consistency_score_def by (rule round_between)+
qed

lemma usable_none: "cl_evidence_ids c = [] \<Longrightarrow> usable_for_claim es c = []"
  by (simp add: usable_for_claim_def List.map_filter_simps)

lemma no_claim_issue:
  "usable \<noteq> [] \<Longrightarrow> cl_evidence_ids c \<noteq> [] \<Longrightarrow> 75 \<le> cs_support k \<Longrightarrow>
   (claim_issues c usable k conflicts = [])
     = (conflicts = [] \<and> 40 \<le> cs_text k \<and> 55 \<le> cs_quality k
        \<and> (if requires_triangulation c then 90 \<le> cs_triangulation k else True) \<and> 55/100 \<le> cl_confidence c)"
  by (simp add: claim_issues_def support_issue_def Let_def not_less linorder_not_less)

text \<open>The verdict on a claim from what its usable evidence scores.\<close>

definition verdict_justified :: "evidence list \<Rightarrow> claim \<Rightarrow> validation_result \<Rightarrow> bool" where
  "verdict_justified es c v =
     (let usable = usable_for_claim es c; conflicts = conflicting_evidence_ids c usable
      in vr_claim_id v = cl_id c
         \<and> vr_status v \<in> {''supported'', ''weak'', ''unsupported'', ''blocked''}
         \<and> (vr_status v = ''blocked'') = (usable = [])
         \<and> (vr_status v = ''supported'') = (usable \<noteq> [] \<and> conflicts = [] \<and> 75 \<le> vr_support_score v
              \<and> 40 \<le> vr_text_support_score v \<and> 55 \<le> vr_evidence_quality_score v
              \<and> (if requires_triangulation c then 90 \<le> vr_triangulation_score v else True)
              \<and> 55/100 \<le> cl_confidence c)
         \<and> (vr_status v = ''unsupported'') = (usable \<noteq> [] \<and> (conflicts \<noteq> [] \<or> vr_support_score v < 55))
         \<and> vr_support_score v \<in> {0..100} \<and> vr_text_support_score v \<in> {0..100}
         \<and> vr_evidence_quality_score v \<in> {0..100} \<and> vr_triangulation_score v \<in> {0..100})"

lemma claim_status_exact:
  fixes c :: claim and usable :: "evidence list" and conflicts :: "str list" and k :: claim_scores
  defines "s \<equiv> claim_status c usable (cs_support k) conflicts (claim_issues c usable k conflicts)"
  assumes "cl_evidence_ids c = [] \<Longrightarrow> usable = []"
  shows "s \<in> {''supported'', ''weak'', ''unsupported'', ''blocked''}"
    and "(s = ''blocked'') = (usable = [])"
    and "(s = ''supported'') = (usable \<noteq> [] \<and> conflicts = [] \<and> 75 \<le> cs_support k \<and> 40 \<le> cs_text k
          \<and> 55 \<le> cs_quality k \<and> (if requires_triangulation c then 90 \<le> cs_triangulation k else True)
          \<and> 55/100 \<le> cl_confidence c)"
    and "(s = ''unsupported'') = (usable \<noteq> [] \<and> (conflicts \<noteq> [] \<or> cs_support k < 55))"
proof -
  have none: "(cl_evidence_ids c = [] \<or> usable = []) = (usable = [])" using assms(2) by blast
  have s: "s = (if usable = [] then ''blocked'' else if conflicts \<noteq> [] then ''unsupported''
      else if 75 \<le> cs_support k \<and> claim_issues c usable k conflicts = [] then ''supported''
      else if 55 \<le> cs_support k then ''weak'' else ''unsupported'')"
    unfolding s_def claim_status_def none ..
  show "s \<in> {''supported'', ''weak'', ''unsupported'', ''blocked''}" "(s = ''blocked'') = (usable = [])"
    unfolding s by simp_all
  show "(s = ''unsupported'') = (usable \<noteq> [] \<and> (conflicts \<noteq> [] \<or> cs_support k < 55))"
    unfolding s by auto
  have "(s = ''supported'')
      = (usable \<noteq> [] \<and> conflicts = [] \<and> 75 \<le> cs_support k \<and> claim_issues c usable k conflicts = [])"
    unfolding s by simp
  then show "(s = ''supported'') = (usable \<noteq> [] \<and> conflicts = [] \<and> 75 \<le> cs_support k \<and> 40 \<le> cs_text k
          \<and> 55 \<le> cs_quality k \<and> (if requires_triangulation c then 90 \<le> cs_triangulation k else True)
          \<and> 55/100 \<le> cl_confidence c)"
    using no_claim_issue[of usable c k conflicts] none by (cases "usable = []"; cases "75 \<le> cs_support k") auto
qed

lemma validate_claim_justified:
  assumes "validate_claim es c = Inr (v, found)" shows "verdict_justified es c v"
proof -
  let ?u = "usable_for_claim es c" and ?x = "text_support_score c (usable_for_claim es c)"
    and ?q = "evidence_quality_score (usable_for_claim es c)"
  obtain t where t: "triangulation_score ?u = Inr t"
    using assms by (cases "triangulation_score ?u") (auto simp: validate_claim_def claim_scores_of_def Let_def)
  define k where "k = \<lparr>cs_text = ?x, cs_quality = ?q, cs_triangulation = t,
    cs_support = self_consistency_score ?x ?q t\<rparr>"
  have k: "cs_text k = ?x" "cs_quality k = ?q" "cs_triangulation k = t"
    "cs_support k = self_consistency_score ?x ?q t" by (simp_all add: k_def)
  define conflicts where "conflicts = conflicting_evidence_ids c ?u"
  have v: "v = claim_result c ?u k conflicts (claim_issues c ?u k conflicts)"
    using assms by (auto simp: validate_claim_def claim_scores_of_def Let_def t k_def conflicts_def)
  have fields: "vr_claim_id v = cl_id c"
    "vr_status v = claim_status c ?u (cs_support k) conflicts (claim_issues c ?u k conflicts)"
    "vr_support_score v = cs_support k" "vr_text_support_score v = cs_text k"
    "vr_evidence_quality_score v = cs_quality k" "vr_triangulation_score v = cs_triangulation k"
    by (simp_all only: v claim_result_def Let_def validation_result.select_convs)
  have "0 \<le> cs_support k \<and> cs_support k \<le> 100"
    unfolding k by (intro conjI support_bounds text_support_bounds evidence_quality_bounds triangulation_bounds[OF t])
  then show ?thesis
    unfolding verdict_justified_def Let_def conflicts_def[symmetric] fields
    using claim_status_exact[of c ?u k conflicts, OF usable_none] text_support_bounds[of c ?u]
      evidence_quality_bounds[of ?u] triangulation_bounds[OF t]
    by (simp only: k atLeastAtMost_iff simp_thms)
qed

lemma partition_counts:
  assumes "list_all (\<lambda>v. vr_status v \<in> {''supported'', ''weak'', ''unsupported'', ''blocked''}) rs"
  shows "result_count ''supported'' rs + result_count ''weak'' rs + result_count ''unsupported'' rs
    + result_count ''blocked'' rs = int (length rs)"
  using assms by (induction rs) (auto simp: result_count_def loop_simps)

text \<open>C7. Validating the claims of a project, when it returns, gives one verdict per claim in their order:
  a claim is blocked exactly when no usable evidence is left of what it cites, unsupported exactly
  when usable evidence contradicts it or its support is below 55, and supported exactly when the
  support is at least 75, text and quality pass their floors, a high-risk claim is triangulated
  and its confidence is not low. All scores are between 0 and 100, and the counts partition the
  claims.\<close>

theorem claim_verdicts_justified:
  "case validate_project_claims now i cs es of
     Inl e \<Rightarrow> True
   | Inr r \<Rightarrow> list_all2 (verdict_justified es) cs (vp_results r)
       \<and> vp_supported_count r + vp_weak_count r + vp_unsupported_count r + vp_blocked_count r
         = int (length cs)
       \<and> vp_total_claims r = int (length cs)"
proof (cases "err_map (validate_claim es) cs")
  case (Inl e)
  then show ?thesis by (simp add: validate_project_claims_def)
next
  case (Inr outcomes)
  define rs where "rs = map fst outcomes"
  have all: "list_all2 (verdict_justified es) cs rs"
    unfolding rs_def list.rel_map
    by (rule list_all2_mono[OF err_map_all2[OF Inr]]) (metis prod.collapse validate_claim_justified)
  have n: "length rs = length cs" using list_all2_lengthD[OF all] by simp
  have "list_all (\<lambda>v. vr_status v \<in> {''supported'', ''weak'', ''unsupported'', ''blocked''}) rs"
    using all by (auto simp only: list_all2_conv_all_nth list_all_length verdict_justified_def Let_def n)
  from partition_counts[OF this] all n show ?thesis
    by (simp add: validate_project_claims_def Inr validation_report_of_def Let_def rs_def)
qed

end
