(* ===== verification/GateProps.thy ===== *)
theory GateProps
  imports ReleaseDecision BusinessProps
begin

text \<open>
  What the release gate guarantees: the conditions it decides by, written out over the report, its
  evidence and its claims, and what a publication through this gate therefore has behind it.
\<close>

section \<open>Blockers\<close>

named_theorems blocker_simps

definition no_blocker :: "business_finding list \<Rightarrow> bool" where
  "no_blocker fs = list_all (\<lambda>f. bf_severity f \<noteq> ''blocker'') fs"

lemma no_blocker_list [blocker_simps]:
  "no_blocker []" "no_blocker (f # fs) = (bf_severity f \<noteq> ''blocker'' \<and> no_blocker fs)"
  "no_blocker (fs @ gs) = (no_blocker fs \<and> no_blocker gs)"
  by (simp_all add: no_blocker_def)

lemma no_blocker_count: "(severity_count ''blocker'' fs = 0) = no_blocker fs"
  by (simp add: severity_count_def no_blocker_def list_all_iff)

lemma release_issue_blocks [blocker_simps]: "bf_severity (release_issue r n m rec es cs) = ''blocker''"
  "bf_severity (scoped_issue xs cps f) = bf_severity f"
  by (simp_all add: release_issue_def scoped_issue_def Let_def)

lemma no_blocker_map:
  assumes "\<And>x. bf_severity (f x) = ''blocker''"
  shows "no_blocker (map f xs) = (xs = [])"
  using assms by (cases xs) (simp_all add: no_blocker_def)

lemma no_blocker_map_severity:
  "no_blocker (map f xs) = list_all (\<lambda>x. bf_severity (f x) \<noteq> ''blocker'') xs"
  by (simp add: no_blocker_def list.pred_map comp_def)

section \<open>When a version can be released\<close>

definition cites_release_grade :: "evidence list \<Rightarrow> claim \<Rightarrow> bool" where
  "cites_release_grade es c =
     list_all (\<lambda>i. case evidence_by_id es i of
         Some e \<Rightarrow> is_release_grade_evidence (3/4) e | None \<Rightarrow> False) (cl_evidence_ids c)"

definition rich_enough :: "gate_settings \<Rightarrow> report_version \<Rightarrow> gate_subject \<Rightarrow> bool" where
  "rich_enough g v j =
     (length (gj_competitors j) < 2
      \<or> (case gc_quality g v (gj_competitors j) (gj_report_evidence j) (gj_dimensions j) of
           Inl e \<Rightarrow> False
         | Inr m \<Rightarrow> list_all (\<lambda>(name, least). least \<le> metric_value m name) report_richness_minimums))"

definition claims_hold_up :: "gate_settings \<Rightarrow> gate_subject \<Rightarrow> bool" where
  "claims_hold_up g j =
     (case validate_project_claims (gc_now g) (cl_project_id (hd (gj_claims j))) (gj_claims j)
         (gj_evidence j) of
        Inl e \<Rightarrow> False
      | Inr r \<Rightarrow> list_all (\<lambda>x. vr_status x \<notin> {''blocked'', ''unsupported''}) (vp_results r))"

definition citations_resolve :: "report_version \<Rightarrow> evidence list \<Rightarrow> bool" where
  "citations_resolve v es =
     (malformed_source_tokens (rv_report_md v) = []
      \<and> list_all (\<lambda>t. map_of (evidence_by_source_token es) (normalize_source_token t) \<noteq> None)
          (source_tokens (rv_report_md v) False)
      \<and> list_all (\<lambda>line. list_all (is_release_grade_evidence (3/4))
            (List.map_filter (\<lambda>t. map_of (evidence_by_source_token es) (normalize_source_token t))
              (source_tokens line False)))
          (strong_lines (rv_report_md v)))"

definition run_is_clean :: "report_version \<Rightarrow> bool" where
  "run_is_clean v =
     ((case Option.bind (map_of (rv_quality_metadata v) ''schema_pass_rate'') json_number of
         Some rate \<Rightarrow> 1 \<le> rate | None \<Rightarrow> True)
      \<and> (case map_of (rv_quality_metadata v) ''rag_gap_fill'' of
           Some (JDict d) \<Rightarrow> map_of d ''gap_fill_chain_closed'' \<noteq> Some (JBool False)
             \<and> unresolved_gap_count d \<le> 0 \<and> has_gap_links d
         | _ \<Rightarrow> True)
      \<and> list_all (\<lambda>f. str_or (value_text (mapping_value f ''severity'')) ''warn'' \<noteq> ''blocker'')
          (as_list (map_of (rv_quality_metadata v) ''run_qa_findings'')))"

definition releasable :: "gate_settings \<Rightarrow> report_version \<Rightarrow> gate_subject \<Rightarrow> bool" where
  "releasable g v j =
     (rv_status v \<notin> {''rejected'', ''archived''} \<and> 900 \<le> length (strip (rv_report_md v))
      \<and> 6 \<le> count_if snd (report_structure_checks v)
      \<and> has_heading (rv_report_md v) [''claim validation'', ''evidence risk'']
      \<and> rich_enough g v j
      \<and> gj_evidence j \<noteq> [] \<and> gj_claims j \<noteq> []
      \<and> list_all (cites_release_grade (gj_evidence j)) (gj_claims j)
      \<and> list_all (\<lambda>e. \<not> needs_policy_review e) (gj_evidence j)
      \<and> 8/10 \<le> release_grade_rate (gj_evidence j)
      \<and> claims_hold_up g j \<and> citations_resolve v (gj_report_evidence j) \<and> run_is_clean v
      \<and> ps_risk_level (gj_readiness j) = ''ready'' \<and> 85 \<le> ps_score (gj_readiness j)
      \<and> no_blocker (be_findings (gj_evaluation j)))"

section \<open>The parts of the gate\<close>

lemma status_part: "no_blocker (report_status_issues v) = (rv_status v \<notin> {''rejected'', ''archived''})"
  by (simp add: report_status_issues_def blocker_simps)

lemma integrity_part:
  "no_blocker (report_integrity_issues v es cs)
     = (strip (rv_report_md v) \<noteq> '''' \<and> es \<noteq> [] \<and> cs \<noteq> []
        \<and> list_all (\<lambda>c. missing_claim_evidence es c = []) cs)"
  by (simp add: report_integrity_issues_def blocker_simps no_blocker_map filter_empty_conv list_all_iff)

lemma structure_part:
  "no_blocker (report_structure_issues v)
     = (6 \<le> count_if snd (report_structure_checks v)
        \<and> has_heading (rv_report_md v) [''claim validation'', ''evidence risk''])"
proof -
  have n: "length (report_structure_checks v) = 8" by (simp add: report_structure_checks_def Let_def)
  have rate: "(7/10 \<le> (of_nat k / of_nat 8 :: rat)) = (6 \<le> k)" for k :: nat
  proof (cases "6 \<le> k")
    case True
    then have "(of_nat 6 :: rat) \<le> of_nat k" by (simp only: of_nat_le_iff)
    then show ?thesis using True by simp
  next
    case False
    then have "(of_nat k :: rat) \<le> of_nat 5" by (simp only: of_nat_le_iff)
    then show ?thesis using False by simp
  qed
  have missing: "(''Claim Validation & Evidence Risk''
        \<in> set (map fst (filter (\<lambda>c. \<not> snd c) (report_structure_checks v))))
      = (\<not> has_heading (rv_report_md v) [''claim validation'', ''evidence risk''])"
    unfolding report_structure_checks_def Let_def by (simp del: set_map)
  show ?thesis
    unfolding report_structure_issues_def report_structure_score_def Let_def prod.case n rate missing
    by (simp add: blocker_simps)
qed

lemma depth_part: "no_blocker (report_depth_issues v) = (900 \<le> length (strip (rv_report_md v)))"
  by (simp add: report_depth_issues_def Let_def blocker_simps)

lemma richness_part:
  assumes "report_richness_issues (gc_quality g) v (gj_competitors j) (gj_report_evidence j)
      (gj_dimensions j) = Inr fs" "strip (rv_report_md v) \<noteq> ''''"
  shows "no_blocker fs = rich_enough g v j"
proof (cases "length (gj_competitors j) < 2")
  case True
  then show ?thesis using assms by (auto simp: report_richness_issues_def rich_enough_def blocker_simps)
next
  case False
  then obtain m where m: "gc_quality g v (gj_competitors j) (gj_report_evidence j) (gj_dimensions j) = Inr m"
    using assms by (cases "gc_quality g v (gj_competitors j) (gj_report_evidence j) (gj_dimensions j)")
      (auto simp: report_richness_issues_def)
  have "no_blocker fs = (failed_minimums m = [])"
    using assms False m
    by (cases "failed_minimums m = []") (auto simp: report_richness_issues_def Let_def blocker_simps)
  then show ?thesis using False m
    by (auto simp: rich_enough_def failed_minimums_def filter_empty_conv list_all_iff not_less)
qed

lemma source_part:
  "es \<noteq> [] \<Longrightarrow> no_blocker (source_quality_issues es cps)
     = (list_all (\<lambda>e. \<not> needs_policy_review e) es \<and> 8/10 \<le> release_grade_rate es)"
  by (simp add: source_quality_issues_def policy_review_issues_def Let_def blocker_simps
      filter_empty_conv list_all_iff)

lemma evidence_by_id_None: "(evidence_by_id es i = None) = (i \<notin> set (map ev_id es))"
  by (force simp: evidence_by_id_def map_of_eq_None_iff)

lemma filter_map_filter_Nil:
  "(filter p (List.map_filter f xs) = [])
     = list_all (\<lambda>x. case f x of None \<Rightarrow> True | Some y \<Rightarrow> \<not> p y) xs"
  by (induction xs) (auto simp: List.map_filter_simps split: option.splits)

lemma cited_release_grade:
  "(missing_claim_evidence es c = [] \<and> weak_claim_evidence es c = []) = cites_release_grade es c"
proof -
  have known: "(i \<in> set (map ev_id es)) = (case evidence_by_id es i of None \<Rightarrow> False | Some e \<Rightarrow> True)" for i
    using evidence_by_id_None[of es i] by (auto split: option.split simp del: set_map)
  have "(missing_claim_evidence es c = [])
      = list_all (\<lambda>i. case evidence_by_id es i of None \<Rightarrow> False | Some e \<Rightarrow> True) (cl_evidence_ids c)"
    by (auto simp add: missing_claim_evidence_def filter_empty_conv list_all_iff known simp del: set_map)
  moreover have "(weak_claim_evidence es c = []) = list_all (\<lambda>i. case evidence_by_id es i of
      None \<Rightarrow> True | Some e \<Rightarrow> is_release_grade_evidence (3/4) e) (cl_evidence_ids c)"
    unfolding weak_claim_evidence_def filter_map_filter_Nil not_not ..
  moreover have "cites_release_grade es c = list_all (\<lambda>i.
      (case evidence_by_id es i of None \<Rightarrow> False | Some e \<Rightarrow> True)
      \<and> (case evidence_by_id es i of None \<Rightarrow> True | Some e \<Rightarrow> is_release_grade_evidence (3/4) e))
      (cl_evidence_ids c)"
    unfolding cites_release_grade_def by (intro list.pred_cong refl) (simp split: option.split)
  ultimately show ?thesis unfolding list_all_iff by blast
qed

lemma claim_evidence_part:
  "(list_all (\<lambda>c. missing_claim_evidence es c = []) cs \<and> no_blocker (claim_evidence_quality_issues cs es cps))
     = list_all (cites_release_grade es) cs"
proof -
  have "no_blocker (claim_evidence_quality_issues cs es cps)
      = list_all (\<lambda>c. weak_claim_evidence es c = []) cs"
    unfolding claim_evidence_quality_issues_def
    by (subst no_blocker_map) (auto simp: Let_def blocker_simps filter_empty_conv list_all_iff)
  then show ?thesis unfolding cited_release_grade[symmetric] by (auto simp: list_all_iff)
qed

lemma validation_part:
  assumes "claim_validation_gate_issues (gc_now g) (gj_claims j) (gj_evidence j) (gj_competitors j) = Inr fs"
    "gj_claims j \<noteq> []"
  shows "no_blocker fs = claims_hold_up g j"
proof -
  obtain r where r: "validate_project_claims (gc_now g) (cl_project_id (hd (gj_claims j))) (gj_claims j)
      (gj_evidence j) = Inr r"
    using assms by (cases "validate_project_claims (gc_now g) (cl_project_id (hd (gj_claims j)))
      (gj_claims j) (gj_evidence j)") (auto simp: claim_validation_gate_issues_def)
  have severity: "(bf_severity (claim_validation_issue cs es cps report x) \<noteq> ''blocker'')
      = (vr_status x \<notin> {''blocked'', ''unsupported''})" for cs es cps report x
    by (simp add: claim_validation_issue_def Let_def)
  have "fs = map (claim_validation_issue (gj_claims j) (gj_evidence j) (gj_competitors j) r)
      (filter (\<lambda>r. vr_status r \<noteq> ''supported'') (vp_results r))"
    using assms r by (simp add: claim_validation_gate_issues_def)
  then have "no_blocker fs = list_all (\<lambda>x. vr_status x \<notin> {''blocked'', ''unsupported''})
      (filter (\<lambda>r. vr_status r \<noteq> ''supported'') (vp_results r))"
    by (simp only: no_blocker_map_severity severity)
  also have "\<dots> = claims_hold_up g j"
    by (auto simp: claims_hold_up_def r list_all_iff)
  finally show ?thesis .
qed

lemma citation_part:
  "(no_blocker (missing_report_citation_issues v es) \<and> no_blocker (report_citation_quality_issues v es))
     = citations_resolve v es"
proof -
  have "(sorted_set xs = []) = (xs = [])" for xs :: "str list"
    using set_sorted_set[of xs] by (metis set_empty)
  then have "no_blocker (missing_report_citation_issues v es)
      = (malformed_source_tokens (rv_report_md v) = []
         \<and> list_all (\<lambda>t. map_of (evidence_by_source_token es) (normalize_source_token t) \<noteq> None)
             (source_tokens (rv_report_md v) False))"
    by (simp add: missing_report_citation_issues_def unresolved_citations_def Let_def blocker_simps
        filter_empty_conv list_all_iff)
  moreover have "no_blocker (report_citation_quality_issues v es)
      = list_all (\<lambda>line. weak_cited (evidence_by_source_token es) line = []) (strong_lines (rv_report_md v))"
    unfolding report_citation_quality_issues_def Let_def
    by (subst no_blocker_map) (auto simp: blocker_simps filter_empty_conv list_all_iff)
  ultimately show ?thesis
    by (simp add: citations_resolve_def weak_cited_def filter_empty_conv list_all_iff)
qed

lemma run_part: "no_blocker (run_quality_issues v) = run_is_clean v"
proof -
  have "no_blocker (schema_pass_issues v)
      = (case Option.bind (map_of (rv_quality_metadata v) ''schema_pass_rate'') json_number of
         Some rate \<Rightarrow> 1 \<le> rate | None \<Rightarrow> True)"
    by (auto simp: schema_pass_issues_def blocker_simps split: option.split)
  moreover have "no_blocker (gap_fill_issues v)
      = (case map_of (rv_quality_metadata v) ''rag_gap_fill'' of
           Some (JDict d) \<Rightarrow> map_of d ''gap_fill_chain_closed'' \<noteq> Some (JBool False)
             \<and> unresolved_gap_count d \<le> 0 \<and> has_gap_links d
         | _ \<Rightarrow> True)"
    by (simp add: gap_fill_issues_def gap_chain_open_def Let_def blocker_simps not_less
        split: option.split json.split)
  moreover have "(bf_severity (run_qa_issue f) \<noteq> ''blocker'')
      = (str_or (value_text (mapping_value f ''severity'')) ''warn'' \<noteq> ''blocker'')" for f
    by (simp add: run_qa_issue_def Let_def)
  ultimately show ?thesis
    by (simp only: run_quality_issues_def run_is_clean_def no_blocker_list no_blocker_map_severity)
qed

lemma readiness_part:
  "no_blocker (readiness_issues r) = (ps_risk_level r = ''ready'' \<and> 85 \<le> ps_score r)"
  by (simp add: readiness_issues_def blocker_simps)

lemma qa_part: "no_blocker (strict_qa_issues fs) = no_blocker fs"
  by (auto simp: strict_qa_issues_def Let_def blocker_simps no_blocker_count)

lemma gate_issues_exact:
  assumes "release_gate_issues g v j = Inr fs"
  shows "no_blocker fs = releasable g v j"
proof -
  obtain richness where a: "report_richness_issues (gc_quality g) v (gj_competitors j)
      (gj_report_evidence j) (gj_dimensions j) = Inr richness"
    using assms by (cases "report_richness_issues (gc_quality g) v (gj_competitors j)
      (gj_report_evidence j) (gj_dimensions j)") (auto simp: release_gate_issues_def)
  obtain validation where b: "claim_validation_gate_issues (gc_now g) (gj_claims j) (gj_evidence j)
      (gj_competitors j) = Inr validation"
    using assms a by (cases "claim_validation_gate_issues (gc_now g) (gj_claims j) (gj_evidence j)
      (gj_competitors j)") (auto simp: release_gate_issues_def)
  have body: "900 \<le> length (strip (rv_report_md v)) \<Longrightarrow> strip (rv_report_md v) \<noteq> ''''" by auto
  have fs: "no_blocker fs = (no_blocker (report_status_issues v)
      \<and> no_blocker (report_integrity_issues v (gj_evidence j) (gj_claims j))
      \<and> no_blocker (report_structure_issues v) \<and> no_blocker (report_depth_issues v) \<and> no_blocker richness
      \<and> no_blocker (source_quality_issues (gj_evidence j) (gj_competitors j))
      \<and> no_blocker (claim_evidence_quality_issues (gj_claims j) (gj_evidence j) (gj_competitors j))
      \<and> no_blocker validation \<and> (no_blocker (missing_report_citation_issues v (gj_report_evidence j))
      \<and> no_blocker (report_citation_quality_issues v (gj_report_evidence j)))
      \<and> no_blocker (run_quality_issues v) \<and> no_blocker (readiness_issues (gj_readiness j))
      \<and> no_blocker (strict_qa_issues (be_findings (gj_evaluation j))))"
    using assms unfolding release_gate_issues_def a b err_bind.simps sum.inject
    by (auto simp only: no_blocker_list)
  show ?thesis
  proof (cases "gj_evidence j \<noteq> [] \<and> gj_claims j \<noteq> [] \<and> strip (rv_report_md v) \<noteq> ''''")
    case True
    then have t: "gj_evidence j \<noteq> []" "gj_claims j \<noteq> []" "strip (rv_report_md v) \<noteq> ''''" by auto
    show ?thesis
      unfolding fs releasable_def status_part integrity_part structure_part depth_part
        richness_part[OF a t(3)] source_part[OF t(1)] validation_part[OF b t(2)] citation_part run_part
        readiness_part qa_part claim_evidence_part[of "gj_evidence j" "gj_claims j" "gj_competitors j", symmetric]
      using t by blast
  next
    case False
    then show ?thesis unfolding fs releasable_def integrity_part using body by blast
  qed
qed

section \<open>The decision\<close>

lemma gate_decision:
  assumes "evaluate_report_release_gate g p v cps es cs registry = Inr r"
  obtains j where "gate_subject_of g p v cps es cs registry = Inr j"
    "rg_allowed r = releasable g v j" "rg_status r = (if rg_allowed r then ''pass'' else ''blocked'')"
    "rg_issue_count r = int (length (rg_issues r))" "rg_report_version_id r = rv_id v"
    "rg_allowed r = (no_blocker (rg_issues r) \<and> no_blocker (be_findings (gj_evaluation j)))"
proof -
  obtain j where j: "gate_subject_of g p v cps es cs registry = Inr j"
    using assms by (cases "gate_subject_of g p v cps es cs registry") (auto simp: evaluate_report_release_gate_def)
  obtain fs where fs: "release_gate_issues g v j = Inr fs"
    using assms j by (cases "release_gate_issues g v j") (auto simp: evaluate_report_release_gate_def)
  have qa: "(be_blocker_count (gj_evaluation j) = 0) = no_blocker (be_findings (gj_evaluation j))"
  proof -
    obtain plan scoped where e: "gj_evaluation j = evaluate_business_qa (gc_now g) (pj_id p) plan
        (gj_competitors j) scoped (gj_claims j)"
      using j by (auto simp: gate_subject_of_def Let_def elim!: err_bind_Inr)
    show ?thesis unfolding e evaluation_counts(4) by (simp add: no_blocker_count)
  qed
  have "rg_allowed r = (no_blocker fs \<and> no_blocker (be_findings (gj_evaluation j)))"
    "rg_status r = (if rg_allowed r then ''pass'' else ''blocked'')"
    "rg_issue_count r = int (length (rg_issues r))" "rg_report_version_id r = rv_id v" "rg_issues r = fs"
    using assms j fs by (auto simp: evaluate_report_release_gate_def Let_def no_blocker_count qa)
  moreover have "no_blocker fs = releasable g v j" by (rule gate_issues_exact[OF fs])
  moreover have "releasable g v j \<Longrightarrow> no_blocker (be_findings (gj_evaluation j))"
    by (simp add: releasable_def)
  ultimately show thesis using j that by blast
qed

text \<open>C6. The release gate admits a version exactly when it is releasable: its status is not rejected or
  archived, its text is long enough, has six of the eight required sections and the one on the
  validation of its claims, and is rich enough where competitors are compared; it has evidence and
  claims, every claim cites evidence of the version only, all of it of release grade, no source
  waits for a policy review and four fifths of the relevant evidence is of release grade; no claim is
  blocked or unsupported; every citation is well formed and resolves, and no strong conclusion
  cites weak evidence; the run validated, closed its gaps and left no blocker; and the readiness is
  \<open>ready\<close> with at least 85 points and no blocker of the business QA.\<close>

theorem gate_admits_exactly_releasable:
  "case evaluate_report_release_gate g p v cps es cs registry of
     Inl e \<Rightarrow> True
   | Inr r \<Rightarrow> (case gate_subject_of g p v cps es cs registry of
         Inl e \<Rightarrow> False
       | Inr j \<Rightarrow> rg_allowed r = releasable g v j)
       \<and> rg_status r = (if rg_allowed r then ''pass'' else ''blocked'')
       \<and> rg_report_version_id r = rv_id v"
proof (cases "evaluate_report_release_gate g p v cps es cs registry")
  case (Inr r)
  show ?thesis by (rule gate_decision[OF Inr]) (simp add: Inr)
qed simp

end
