(* ===== verification/Commands.thy ===== *)
theory Commands
  imports WorkflowService ReportDiff Rbac
begin

text \<open>
  runtime/service.py: the command layer between the HTTP routers and the rest. A command checks
  the access of its actor, decides, changes the store and answers with a result, or is rejected
  with a status code. Modelled are the commands on reports, monitors and scans; those on runs
  (\<open>create_run\<close>, \<open>resume_review\<close>, \<open>request_redo\<close>) drive the run service and are not. Parameters
  are the policy engine's endpoint, the Temporal server, the release gate, the EvalOps report,
  the preference memory and pydantic's dumps.
\<close>

section \<open>Results and failures\<close>

datatype command_payload =
    PNone
  | PReport report_version
  | PMonitorJob monitor_job
  | PApprovalStart approval_start_response
  | PApprovalSignal approval_signal_response
  | PScanStart scan_start_response
  | PMonitorStart monitor_start_response

record command_result =
  rs_command_id :: str
  rs_command_type :: str
  rs_status :: str
  rs_resource_type :: str
  rs_resource_id :: "str option"
  rs_workspace_id :: "str option"
  rs_project_id :: "str option"
  rs_run_id :: "str option"
  rs_report_version_id :: "str option"
  rs_audit_correlation_id :: str
  rs_replay_correlation_id :: str
  rs_route :: str
  rs_payload :: command_payload
  rs_metadata :: jdict

datatype command_detail =
    DText str
  | DAccess policy_decision
  | DRuntime runtime_decision
  | DGate release_gate
  | DFields jdict

text \<open>\<open>RuntimeCommandError\<close>, or an exception the command layer lets through.\<close>

datatype command_failure =
    Rejected int command_detail "str option"
  | Raised py_error
  | PolicyRaised policy_exn

type_synonym 'a command = "store \<Rightarrow> (command_failure + 'a) \<times> store"

record evalops_contract =
  ec_allowed :: bool
  ec_reason :: str
  ec_dump :: jdict

record command_env =
  ce_env :: env
  ce_settings :: settings
  ce_machine :: machine
  ce_gate :: gate_env
  ce_temporal :: temporal
  ce_post :: "str \<Rightarrow> json \<Rightarrow> rat \<Rightarrow> policy_exn + json"
  ce_runtime_dump :: "runtime_decision \<Rightarrow> jdict"
  ce_evalops :: "report_version \<Rightarrow> evalops_contract"
  ce_memory :: "user_feedback \<Rightarrow> user_feedback \<times> memory_candidate list"

definition fail :: "command_failure \<Rightarrow> 'a command" where
  "fail e s = (Inl e, s)"

definition done_with :: "'a \<Rightarrow> 'a command" where
  "done_with x s = (Inr x, s)"

definition seq :: "'a command \<Rightarrow> ('a \<Rightarrow> 'b command) \<Rightarrow> 'b command" where
  "seq m f s = (case m s of (Inl e, s') \<Rightarrow> (Inl e, s') | (Inr x, s') \<Rightarrow> f x s')"

definition lift_op :: "(store, 'a) op \<Rightarrow> 'a command" where
  "lift_op m s = (case m s of (Inl e, s') \<Rightarrow> (Inl (Raised e), s') | (Inr x, s') \<Rightarrow> (Inr x, s'))"

text \<open>An operation of the store that does not raise.\<close>

definition lift_call :: "(store \<Rightarrow> 'a \<times> store) \<Rightarrow> 'a command" where
  "lift_call f s = (let (x, s') = f s in (Inr x, s'))"

definition lift_step :: "(store \<Rightarrow> store) \<Rightarrow> unit command" where
  "lift_step f s = (Inr (), f s)"

section \<open>Ids and lookups\<close>

definition command_id :: "env \<Rightarrow> str \<Rightarrow> user_context \<Rightarrow> str option \<Rightarrow> str" where
  "command_id env command_type actor target_id =
     stable_prefixed_id ''runtime-command''
       [JStr command_type, JStr (us_user_id actor), JStr (or_str target_id ''''),
        JStr (isoformat (env_now env))] 16"

definition audit_correlation_id :: "str \<Rightarrow> str" where
  "audit_correlation_id i = stable_prefixed_id ''audit-correlation'' [JStr i] 16"

definition replay_correlation_id :: "str \<Rightarrow> str" where
  "replay_correlation_id i = stable_prefixed_id ''replay-correlation'' [JStr i] 16"

definition result_of :: "str \<Rightarrow> str \<Rightarrow> str \<Rightarrow> str \<Rightarrow> command_result" where
  "result_of i command_type status resource_type =
     \<lparr>rs_command_id = i, rs_command_type = command_type, rs_status = status,
      rs_resource_type = resource_type, rs_resource_id = None, rs_workspace_id = None,
      rs_project_id = None, rs_run_id = None, rs_report_version_id = None,
      rs_audit_correlation_id = audit_correlation_id i,
      rs_replay_correlation_id = replay_correlation_id i, rs_route = ''none'',
      rs_payload = PNone, rs_metadata = []\<rparr>"

definition report_result ::
  "str \<Rightarrow> str \<Rightarrow> str \<Rightarrow> report_version \<Rightarrow> str \<Rightarrow> command_payload \<Rightarrow> jdict \<Rightarrow> command_result" where
  "report_result i command_type status v route payload md =
     (result_of i command_type status ''report_version'')
       \<lparr>rs_resource_id := Some (rv_id v), rs_workspace_id := Some (rv_workspace_id v),
        rs_project_id := Some (rv_project_id v), rs_run_id := rv_run_id v,
        rs_report_version_id := Some (rv_id v), rs_route := route, rs_payload := payload,
        rs_metadata := md\<rparr>"

definition monitor_result ::
  "str \<Rightarrow> str \<Rightarrow> str \<Rightarrow> monitor_job \<Rightarrow> str \<Rightarrow> command_payload \<Rightarrow> jdict \<Rightarrow> command_result" where
  "monitor_result i command_type status j route payload md =
     (result_of i command_type status ''monitor_job'')
       \<lparr>rs_resource_id := Some (mj_id j), rs_workspace_id := Some (mj_workspace_id j),
        rs_project_id := Some (mj_project_id j), rs_route := route, rs_payload := payload,
        rs_metadata := md\<rparr>"

definition require_workspace_access ::
  "command_env \<Rightarrow> user_context \<Rightarrow> str \<Rightarrow> str \<Rightarrow> str \<Rightarrow> str option \<Rightarrow> unit command" where
  "require_workspace_access ce actor workspace_id action target_type target_id s =
     (case evaluate_access_policy (ce_post ce) actor workspace_id action target_type target_id of
        Inl e \<Rightarrow> (Inl (PolicyRaised e), s)
      | Inr d \<Rightarrow>
          if pd_allowed d then (Inr (), s) else (Inl (Rejected 403 (DAccess d) None), s))"

definition project_or_error :: "command_env \<Rightarrow> str \<Rightarrow> user_context \<Rightarrow> str \<Rightarrow> project command" where
  "project_or_error ce project_id actor action s =
     (case get_project project_id s of
        None \<Rightarrow> (Inl (Rejected 404 (DText ''Project not found'') None), s)
      | Some p \<Rightarrow>
          seq (require_workspace_access ce actor (pj_workspace_id p) action ''project'' (Some (pj_id p)))
            (\<lambda>_. done_with p) s)"

definition monitor_job_or_error ::
  "command_env \<Rightarrow> str \<Rightarrow> user_context \<Rightarrow> str \<Rightarrow> monitor_job command" where
  "monitor_job_or_error ce monitor_id actor action s =
     (case get_monitor_job monitor_id s of
        None \<Rightarrow> (Inl (Rejected 404 (DText ''Monitor job not found'') None), s)
      | Some j \<Rightarrow>
          seq (require_workspace_access ce actor (mj_workspace_id j) action ''monitor_job'' (Some (mj_id j)))
            (\<lambda>_. done_with j) s)"

definition report_version_or_error ::
  "command_env \<Rightarrow> str \<Rightarrow> user_context \<Rightarrow> str \<Rightarrow> report_version command" where
  "report_version_or_error ce version_id actor action s =
     (case get_report_version version_id s of
        None \<Rightarrow> (Inl (Rejected 404 (DText ''Report version not found'') None), s)
      | Some v \<Rightarrow>
          seq (require_workspace_access ce actor (rv_workspace_id v) action ''report_version'' (Some (rv_id v)))
            (\<lambda>_. done_with v) s)"

section \<open>Monitors and scans\<close>

record monitor_create =
  mk_workspace_id :: str
  mk_project_id :: str
  mk_monitor_id :: "str option"
  mk_name :: str
  mk_dimensions :: "str list"
  mk_schedule :: str
  mk_interval_seconds :: int
  mk_max_cycles :: int
  mk_execution_mode :: str
  mk_alert_policy :: str
  mk_release_policy :: str
  mk_notification_target :: str
  mk_metadata :: jdict

definition new_monitor_job ::
  "env \<Rightarrow> monitor_create \<Rightarrow> project \<Rightarrow> competitor list \<Rightarrow> user_context \<Rightarrow> monitor_job" where
  "new_monitor_job env r p competitors actor =
     \<lparr>mj_id = or_str (mk_monitor_id r) (stable_prefixed_id ''monitor-job''
        [JStr (mk_workspace_id r), JStr (mk_project_id r), JStr (mk_name r), JStr (mk_schedule r)] 16),
      mj_workspace_id = mk_workspace_id r, mj_project_id = mk_project_id r, mj_name = mk_name r,
      mj_dimensions = mk_dimensions r, mj_competitor_ids = map cp_id competitors,
      mj_schedule = mk_schedule r, mj_interval_seconds = mk_interval_seconds r,
      mj_max_cycles = mk_max_cycles r, mj_execution_mode = mk_execution_mode r,
      mj_alert_policy = mk_alert_policy r, mj_release_policy = mk_release_policy r,
      mj_notification_target = mk_notification_target r, mj_status = ''active'',
      mj_last_status = ''idle'', mj_last_workflow_id = None, mj_last_run_id = None,
      mj_last_report_version_id = None, mj_last_error = '''', mj_last_started_at = None,
      mj_last_completed_at = None, mj_next_run_at = None, mj_created_by = Some (us_user_id actor),
      mj_created_at = env_now env, mj_updated_at = env_now env,
      mj_metadata = dict_merge (mk_metadata r)
        [(''project_topic'', JStr (pj_topic p)), (''runtime_command_boundary'', JBool True)]\<rparr>"

definition create_monitor_job ::
  "command_env \<Rightarrow> monitor_create \<Rightarrow> user_context \<Rightarrow> command_result command" where
  "create_monitor_job ce r actor =
     seq (project_or_error ce (mk_project_id r) actor ''project:write'') (\<lambda>p.
       if pj_workspace_id p \<noteq> mk_workspace_id r then
         fail (Rejected 400 (DText ''Monitor job workspace does not match project workspace.'')
           (Some ''create_monitor_job''))
       else
         seq (\<lambda>s. lift_call (upsert_monitor_job (ce_env ce)
               (new_monitor_job (ce_env ce) r p (list_competitors None (Some (pj_id p)) s) actor)
               (Some (us_user_id actor))) s) (\<lambda>stored.
           done_with (monitor_result
             (command_id (ce_env ce) ''create_monitor_job'' actor (Some (mj_id stored)))
             ''create_monitor_job'' ''succeeded'' stored ''enterprise'' (PMonitorJob stored)
             [(''monitor_job_status'', JStr (mj_status stored))])))"

definition update_monitor_job_command ::
  "command_env \<Rightarrow> str \<Rightarrow> monitor_update \<Rightarrow> user_context \<Rightarrow> command_result command" where
  "update_monitor_job_command ce monitor_id u actor =
     seq (monitor_job_or_error ce monitor_id actor ''project:write'') (\<lambda>job.
       seq (lift_call (update_monitor_job (ce_env ce) (mj_id job) u (Some (us_user_id actor)))) (\<lambda>updated.
         case updated of
           None \<Rightarrow> fail (Rejected 404 (DText ''Monitor job not found'') (Some ''update_monitor_job''))
         | Some j \<Rightarrow>
             done_with (monitor_result
               (command_id (ce_env ce) ''update_monitor_job'' actor (Some (mj_id j)))
               ''update_monitor_job'' ''succeeded'' j ''enterprise'' (PMonitorJob j)
               [(''monitor_job_status'', JStr (mj_status j))])))"

definition status_update :: "str \<Rightarrow> monitor_update" where
  "status_update status =
     \<lparr>mu_name = None, mu_dimensions = None, mu_schedule = None, mu_interval_seconds = None,
      mu_max_cycles = None, mu_execution_mode = None, mu_alert_policy = None,
      mu_release_policy = None, mu_notification_target = None, mu_status = Some status,
      mu_next_run_at = None, mu_metadata = None\<rparr>"

definition pause_monitor_job ::
  "command_env \<Rightarrow> str \<Rightarrow> user_context \<Rightarrow> command_result command" where
  "pause_monitor_job ce monitor_id actor =
     update_monitor_job_command ce monitor_id (status_update ''paused'') actor"

definition resume_monitor_job ::
  "command_env \<Rightarrow> str \<Rightarrow> user_context \<Rightarrow> command_result command" where
  "resume_monitor_job ce monitor_id actor =
     update_monitor_job_command ce monitor_id (status_update ''active'') actor"

definition resolved_execution_mode :: "str \<Rightarrow> settings \<Rightarrow> str" where
  "resolved_execution_mode mode c =
     (if mode \<in> {''demo'', ''real''} then mode
      else if default_execution_mode c = ''real'' then ''real'' else ''demo'')"

definition scan_tools :: "str list" where
  "scan_tools = [''web_search'', ''fetch_page'', ''rag_search_evidence'', ''online_gap_fill'',
     ''claim_validator'', ''source_snapshot'']"

definition monitor_start_request :: "monitor_job \<Rightarrow> str \<Rightarrow> monitor_request" where
  "monitor_start_request j requested_by =
     \<lparr>mq_workspace_id = mj_workspace_id j, mq_project_id = mj_project_id j, mq_monitor_id = mj_id j,
      mq_requested_by = requested_by, mq_dimensions = mj_dimensions j,
      mq_execution_mode = mj_execution_mode j, mq_interval_seconds = mj_interval_seconds j,
      mq_max_cycles = mj_max_cycles j\<rparr>"

definition runtime_policy ::
  "command_env \<Rightarrow> str \<Rightarrow> str \<Rightarrow> str list option \<Rightarrow> runtime_decision command" where
  "runtime_policy ce workspace_id mode tools =
     lift_call (build_runtime_policy_decision (ce_env ce) (ce_machine ce) (ce_settings ce)
       workspace_id mode tools 0 0)"

definition trigger_monitor_job ::
  "command_env \<Rightarrow> str \<Rightarrow> user_context \<Rightarrow> command_result command" where
  "trigger_monitor_job ce monitor_id actor =
     seq (monitor_job_or_error ce monitor_id actor ''project:write'') (\<lambda>job.
       if mj_status job \<noteq> ''active'' then
         fail (Rejected 409 (DText (''Monitor job '' @ mj_id job @ '' is '' @ mj_status job
           @ ''; resume it before triggering.'')) (Some ''trigger_monitor_job''))
       else
         seq (runtime_policy ce (mj_workspace_id job)
             (resolved_execution_mode (mj_execution_mode job) (ce_settings ce)) (Some scan_tools)) (\<lambda>policy.
           if ru_status policy = ''deny'' then
             fail (Rejected 409 (DRuntime policy) (Some ''trigger_monitor_job''))
           else
             (case start_monitor (ce_temporal ce) (ce_settings ce)
                 (monitor_start_request job (us_user_id actor)) of
                None \<Rightarrow>
                  seq (lift_call (record_monitor_job_run (ce_env ce) (mj_id job) ''failed'' None None None
                      ''Temporal workflow service is unavailable.'' (Some (us_user_id actor)))) (\<lambda>_.
                    fail (Rejected 503 (DText ''Temporal workflow service is unavailable.'')
                      (Some ''trigger_monitor_job'')))
              | Some response \<Rightarrow>
                  seq (lift_call (record_monitor_job_run (ce_env ce) (mj_id job) ''running''
                      (Some (ms_workflow_id response)) None None '''' (Some (us_user_id actor)))) (\<lambda>updated.
                    done_with (monitor_result
                      (command_id (ce_env ce) ''trigger_monitor_job'' actor (Some (mj_id job)))
                      ''trigger_monitor_job'' ''accepted'' job ''temporal'' (PMonitorStart response)
                      [(''monitor_job_status'',
                          JStr (case updated of Some u \<Rightarrow> mj_status u | None \<Rightarrow> mj_status job)),
                       (''runtime_policy_decision'', JDict (ce_runtime_dump ce policy))])))))"

definition start_scheduled_scan_command ::
  "command_env \<Rightarrow> scan_request \<Rightarrow> user_context \<Rightarrow> command_result command" where
  "start_scheduled_scan_command ce r actor =
     seq (require_workspace_access ce actor (sq_workspace_id r) ''project:write'' ''scheduled_scan''
         (Some (sq_schedule_id r))) (\<lambda>_.
       seq (runtime_policy ce (sq_workspace_id r)
           (resolved_execution_mode (sq_execution_mode r) (ce_settings ce)) (Some scan_tools)) (\<lambda>policy.
         if ru_status policy = ''deny'' then
           fail (Rejected 409 (DRuntime policy) (Some ''start_scheduled_scan''))
         else
           (case start_scheduled_scan (ce_temporal ce) (ce_settings ce) r of
              None \<Rightarrow> fail (Rejected 503 (DText ''Temporal workflow service is unavailable.'')
                (Some ''start_scheduled_scan''))
            | Some response \<Rightarrow>
                done_with ((result_of
                    (command_id (ce_env ce) ''start_scheduled_scan'' actor (Some (sq_schedule_id r)))
                    ''start_scheduled_scan'' ''accepted'' ''scheduled_scan'')
                  \<lparr>rs_resource_id := Some (sq_schedule_id r),
                   rs_workspace_id := Some (sq_workspace_id r), rs_route := ''temporal'',
                   rs_payload := PScanStart response,
                   rs_metadata :=
                     [(''runtime_policy_decision'', JDict (ce_runtime_dump ce policy)),
                      (''project_ids'', jstrs (sq_project_ids r)),
                      (''dimensions'', jstrs (sq_dimensions r))]\<rparr>))))"


section \<open>Reports\<close>

definition request_approval ::
  "command_env \<Rightarrow> approval_request \<Rightarrow> user_context \<Rightarrow> command_result command" where
  "request_approval ce req actor =
     seq (report_version_or_error ce (aq_report_version_id req) actor ''report:write'') (\<lambda>version.
       case start_report_approval (ce_temporal ce) (ce_settings ce) req of
         None \<Rightarrow> fail (Rejected 503 (DText ''Temporal report approval workflow service is unavailable.'')
           (Some ''request_approval''))
       | Some response \<Rightarrow>
           done_with (report_result (command_id (ce_env ce) ''request_approval'' actor (Some (rv_id version)))
             ''request_approval'' ''accepted'' version ''temporal'' (PApprovalStart response)
             [(''workflow_id'', JStr (as_workflow_id response)),
              (''approver_ids'', jstrs (aq_approver_ids req))]))"

definition signal_approval ::
  "command_env \<Rightarrow> str \<Rightarrow> str \<Rightarrow> str \<Rightarrow> str \<Rightarrow> user_context \<Rightarrow> command_result command" where
  "signal_approval ce command_type version_id approver_id remark actor =
     seq (report_version_or_error ce version_id actor ''report:review'') (\<lambda>version.
       if command_type \<notin> {''approve_report'', ''reject_report''} then
         fail (Rejected 400 (DText ''Unsupported approval signal command.'') None)
       else
         (case signal_report_approval (ce_temporal ce) version_id approver_id remark
             (if command_type = ''approve_report'' then ''approved'' else ''rejected'') of
            None \<Rightarrow> fail (Rejected 503 (DText ''Temporal report approval workflow service is unavailable.'')
              (Some command_type))
          | Some response \<Rightarrow>
              done_with (report_result (command_id (ce_env ce) command_type actor (Some (rv_id version)))
                command_type ''accepted'' version ''temporal'' (PApprovalSignal response)
                [(''workflow_id'', JStr (ap_workflow_id response)),
                 (''decision'', JStr (ap_decision response)), (''approver_id'', JStr approver_id)])))"

definition approve_report ::
  "command_env \<Rightarrow> str \<Rightarrow> str \<Rightarrow> str \<Rightarrow> user_context \<Rightarrow> command_result command" where
  "approve_report ce version_id approver_id remark actor =
     signal_approval ce ''approve_report'' version_id approver_id remark actor"

definition reject_report ::
  "command_env \<Rightarrow> str \<Rightarrow> str \<Rightarrow> str \<Rightarrow> user_context \<Rightarrow> command_result command" where
  "reject_report ce version_id approver_id remark actor =
     signal_approval ce ''reject_report'' version_id approver_id remark actor"

text \<open>A manual revision: a new draft with the edited text and the evidence of its source.\<close>

definition manual_revision ::
  "command_env \<Rightarrow> report_version \<Rightarrow> int \<Rightarrow> str \<Rightarrow> str \<Rightarrow> user_context \<Rightarrow> report_version" where
  "manual_revision ce source next_version report_md remark actor =
     (let env = ce_env ce;
          revision_id = stable_prefixed_id ''report-version-manual''
            [JStr (rv_id source), JInt next_version, JStr report_md] 16;
          md1 = AList.update ''manual_revision''
            (JDict [(''source_report_version_id'', JStr (rv_id source)),
                    (''edited_by'', JStr (us_user_id actor)), (''note'', JStr remark),
                    (''created_at'', JStr (isoformat (env_now env)))]) (rv_quality_metadata source);
          md2 = append_hitl_lifecycle (ge_hitl_dump (ce_gate ce)) md1
            (build_hitl_lifecycle_event (env_now env)
              ((hitl_args ''revision_created'' ''manual_report_revision'' ''report_version'' revision_id)
                \<lparr>ha_stage := Some ''manual_report_revision'', ha_decision := ''manual_revision'',
                 ha_actor_id := Some (us_user_id actor), ha_run_id := rv_run_id source,
                 ha_report_version_id := Some revision_id,
                 ha_result_action := ''create_draft_report_version'', ha_note := remark,
                 ha_metadata := Some
                   [(''source_report_version_id'', JStr (rv_id source)),
                    (''source_status'', JStr (rv_status source)),
                    (''next_version_number'', JInt next_version)],
                 ha_sequence := Some (JInt (int (length (hitl_lifecycle_history (Some md1))) + 1))\<rparr>))
      in source\<lparr>rv_id := revision_id, rv_parent_version_id := Some (rv_id source),
           rv_version_number := next_version, rv_status := ''draft'', rv_report_md := report_md,
           rv_core_report_md := '''', rv_support_appendix_md := '''', rv_audit_log_md := '''',
           rv_full_report_md := '''', rv_report_artifact := None, rv_quality_metadata := md2,
           rv_created_at := env_now env, rv_published_at := None\<rparr>)"

definition revision_feedback ::
  "command_env \<Rightarrow> report_version \<Rightarrow> report_version \<Rightarrow> str \<Rightarrow> user_context \<Rightarrow> user_feedback" where
  "revision_feedback ce source revision remark actor =
     (let stripped = strip remark;
          parts = [''Manual report correction created draft v'' @ str_of_int (rv_version_number revision) @ ''.'',
             ''Treat reviewer edits as writing and QA policy feedback: keep recommendations ''
               @ ''source-backed, decision-ready, and explicit about evidence risk.'']
            @ (if stripped \<noteq> '''' then [stripped] else [])
      in \<lparr>uf_id = '''', uf_workspace_id = rv_workspace_id revision, uf_project_id = rv_project_id revision,
          uf_user_id = us_user_id actor, uf_feedback_type = ''correction'', uf_target_type = ''report'',
          uf_target_id = rv_id revision, uf_run_id = rv_run_id revision,
          uf_report_version_id = Some (rv_id revision), uf_message = join '' '' parts,
          uf_tags = [''manual_revision'', ''report'', ''correction'', ''writing'', ''quality_gate'',
            rv_competitor_layer revision],
          uf_redaction_counts = [], uf_created_at = env_now (ce_env ce),
          uf_metadata = [(''source'', JStr ''manual_report_revision''),
            (''source_report_version_id'', JStr (rv_id source)),
            (''updated_report_version_id'', JStr (rv_id revision)),
            (''version_number'', JInt (rv_version_number revision)), (''note'', JStr stripped)]\<rparr>)"

definition correlation_fields :: "str \<Rightarrow> jdict" where
  "correlation_fields i =
     [(''command_id'', JStr i), (''audit_correlation_id'', JStr (audit_correlation_id i)),
      (''replay_correlation_id'', JStr (replay_correlation_id i))]"

definition create_manual_report_revision ::
  "command_env \<Rightarrow> report_version \<Rightarrow> str \<Rightarrow> str \<Rightarrow> user_context \<Rightarrow> (report_version \<times> str) command" where
  "create_manual_report_revision ce source report_md remark actor s =
     (let next_version = next_report_version_number (rv_project_id source) (rv_topic_normalized source)
            (rv_competitor_layer source) (rv_competitor_set_hash source) s
      in seq (lift_op (upsert_report_version (ce_env ce)
               (manual_revision ce source next_version report_md remark actor))) (\<lambda>updated.
           let diff = build_report_version_diff updated (Some source);
               i = command_id (ce_env ce) ''revise_report'' actor (Some (rv_id updated));
               (feedback, candidates) = ce_memory ce (revision_feedback ce source updated remark actor)
           in seq (lift_step (audit_report_version_transition (ce_env ce) updated
                   ''report_version.manual_revision_created'' (Some (us_user_id actor))
                   (Some (rv_status source)) remark
                   (Some (correlation_fields i
                     @ [(''manual_revision'', metadata_get ''manual_revision'' (JDict []) updated),
                        (''hitl_lifecycle'', metadata_get ''hitl_lifecycle'' (JList []) updated),
                        (''source_report_version_id'', JStr (rv_id source)),
                        (''source_status'', JStr (rv_status source)),
                        (''diff'', JDict [(''base_version_id'', JStr (rv_id source)),
                           (''added_lines'', JInt (vd_added_lines diff)),
                           (''removed_lines'', JInt (vd_removed_lines diff)),
                           (''unchanged_lines'', JInt (vd_unchanged_lines diff))])])))) (\<lambda>_.
              seq (lift_step (record_memory_feedback_audit (ce_env ce) feedback candidates
                  (Some (us_user_id actor)))) (\<lambda>_. done_with (updated, i)))) s)"

definition revise_report ::
  "command_env \<Rightarrow> str \<Rightarrow> str \<Rightarrow> str \<Rightarrow> user_context \<Rightarrow> command_result command" where
  "revise_report ce version_id report_md remark actor =
     seq (report_version_or_error ce version_id actor ''report:write'') (\<lambda>source.
       seq (create_manual_report_revision ce source report_md remark actor) (\<lambda>(updated, i).
         done_with (report_result i ''revise_report'' ''succeeded'' updated ''enterprise'' (PReport updated)
           [(''source_report_version_id'', JStr (rv_id source)),
            (''source_status'', JStr (rv_status source)),
            (''version_number'', JInt (rv_version_number updated))])))"

definition release_gate_for_version ::
  "command_env \<Rightarrow> report_version \<Rightarrow> user_context \<Rightarrow> str \<Rightarrow> release_gate command" where
  "release_gate_for_version ce version actor action =
     seq (project_or_error ce (rv_project_id version) actor action) (\<lambda>p s.
       if pj_workspace_id p \<noteq> rv_workspace_id version then
         (Inl (Rejected 400 (DText ''Report workspace does not match project'') None), s)
       else
         let (cps, evs, cls) = report_release_gate_scope version p s None
         in (case ge_release_gate (ce_gate ce) p version cps evs cls
                 (list_source_registry (Some (pj_workspace_id p)) s) of
               Inl e \<Rightarrow> (Inl (Raised e), s)
             | Inr gate \<Rightarrow> (Inr gate, s)))"

definition enforce_report_release_gate ::
  "command_env \<Rightarrow> report_version \<Rightarrow> user_context \<Rightarrow> release_gate command" where
  "enforce_report_release_gate ce version actor =
     seq (release_gate_for_version ce version actor ''report:write'') (\<lambda>gate.
       if rg_allowed gate then done_with gate
       else fail (Rejected 409 (DGate gate) (Some ''publish_report'')))"

text \<open>The version as published, with the release contract beside its publication record.\<close>

definition published_version ::
  "command_env \<Rightarrow> report_version \<Rightarrow> release_gate \<Rightarrow> evalops_contract \<Rightarrow> user_context \<Rightarrow> report_version" where
  "published_version ce version gate contract actor =
     (let updated = mark_report_published (ge_hitl_dump (ce_gate ce)) (env_now (ce_env ce)) version
            (us_user_id actor) gate None;
          publication = AList.update ''evalops_release_contract'' (JDict (ec_dump contract))
            (as_dict (map_of (rv_quality_metadata updated) ''publication''))
      in updated\<lparr>rv_quality_metadata :=
           AList.update ''publication'' (JDict publication) (rv_quality_metadata updated)\<rparr>)"

definition publish_report ::
  "command_env \<Rightarrow> str \<Rightarrow> user_context \<Rightarrow> command_result command" where
  "publish_report ce version_id actor =
     seq (report_version_or_error ce version_id actor ''report:write'') (\<lambda>version.
       let i = command_id (ce_env ce) ''publish_report'' actor (Some (rv_id version))
       in if rv_status version \<notin> {''approved'', ''published''} then
            fail (Rejected 409 (DFields
              [(''status'', JStr ''blocked''), (''reason'', JStr ''report_approval_required''),
               (''message'', JStr ''Report version must be approved before it can be published.''),
               (''report_version_id'', JStr (rv_id version)),
               (''current_status'', JStr (rv_status version)), (''command_id'', JStr i)])
              (Some ''publish_report''))
          else
            seq (enforce_report_release_gate ce version actor) (\<lambda>gate.
              let contract = ce_evalops ce version
              in if se_evalops_release_mode (ce_settings ce) = ''blocking'' \<and> \<not> ec_allowed contract then
                   fail (Rejected 409 (DFields
                     [(''status'', JStr ''blocked''), (''reason'', JStr ''evalops_release_contract_blocked''),
                      (''message'', JStr (ec_reason contract)),
                      (''report_version_id'', JStr (rv_id version)), (''command_id'', JStr i),
                      (''evalops_release_contract'', JDict (ec_dump contract))])
                     (Some ''publish_report''))
                 else
                   seq (lift_op (upsert_report_version (ce_env ce)
                       (published_version ce version gate contract actor))) (\<lambda>stored.
                     seq (lift_step (audit_report_version_transition (ce_env ce) stored
                         ''report_version.published'' (Some (us_user_id actor)) (Some (rv_status version)) ''''
                         (Some (correlation_fields i
                           @ [(''publication'', metadata_get ''publication'' (JDict []) stored),
                              (''hitl_lifecycle'', metadata_get ''hitl_lifecycle'' (JList []) stored),
                              (''release_gate'', JDict (report_release_gate_snapshot (Some gate))),
                              (''evalops_release_contract'', JDict (ec_dump contract))])))) (\<lambda>_.
                       done_with (report_result i ''publish_report'' ''succeeded'' stored ''enterprise''
                         (PReport stored)
                         [(''release_gate'', JDict (report_release_gate_snapshot (Some gate))),
                          (''evalops_release_contract'', JDict (ec_dump contract))])))))"
end
