(* ===== verification/ApprovalProps.thy ===== *)
theory ApprovalProps
  imports Approvals
begin

text \<open>
  What an approval leaves behind: the outcome of the activities on the store, and the guarantee
  of the workflow that whatever decision it reports has been taken by a signalled approver and
  stands in the audit log, an approval with a release gate that allowed it.
\<close>

section \<open>Activities\<close>

lemma normalize_keeps:
  "normalize_report_version_sources v evs = Inr v' \<Longrightarrow> rv_id v' = rv_id v \<and> rv_status v' = rv_status v"
  by (auto simp: normalize_report_version_sources_def normalize_layered_report_version_sources_def
      Let_def split: if_splits sum.splits)

lemma preserve_keeps [simp]:
  "rv_id (preserve_existing_report_layers_for_legacy_upsert v before) = rv_id v"
  "rv_status (preserve_existing_report_layers_for_legacy_upsert v before) = rv_status v"
  by (simp_all add: preserve_existing_report_layers_for_legacy_upsert_def Let_def split: option.split)

lemma upsert_report_version_result:
  assumes "upsert_report_version env v s = (Inr v', s')"
  shows "rv_id v' = rv_id v \<and> rv_status v' = rv_status v
     \<and> map_of (st_reports s') (rv_id v) = Some v'"
proof -
  let ?before = "map_of (st_reports s) (rv_id v)"
  let ?v0 = "preserve_existing_report_layers_for_legacy_upsert v ?before"
  obtain v1 where v1: "normalize_report_version_sources ?v0 (report_scope_evidence ?v0 s) = Inr v1"
    using assms by (cases "normalize_report_version_sources ?v0 (report_scope_evidence ?v0 s)")
      (simp_all add: upsert_report_version_def)
  have reports: "st_reports (append_audit env a t) = st_reports t" for a t
    by (simp add: append_audit_def)
  have same: "rv_id v1 = rv_id v" "rv_status v1 = rv_status v" using normalize_keeps[OF v1] by simp_all
  moreover have "v' = v1" "map_of (st_reports s') (rv_id v1) = Some v1"
    using assms v1 by (auto simp: upsert_report_version_def Let_def reports update_conv'
        split: option.splits if_splits)
  ultimately show ?thesis by simp
qed

lemma release_gate_state: "release_gate_for g v s = (r, s') \<Longrightarrow> s' = s"
  by (auto simp: release_gate_for_def Let_def split: option.splits prod.splits)

lemma stored_version_id:
  "store_ok s \<Longrightarrow> get_report_version i s = Some v \<Longrightarrow> rv_id v = i"
  using table_ok_get[of rv_id "st_reports s" i v]
  by (simp add: store_ok_def tables_ok_def get_report_version_def)

text \<open>The audit entry of a decision.\<close>

definition decision_entry :: "str \<Rightarrow> str \<Rightarrow> str \<Rightarrow> audit_log \<Rightarrow> bool" where
  "decision_entry decision version_id approver l \<longleftrightarrow>
     al_action l = ''report_version.'' @ decision \<and> al_resource_type l = ''report_version''
     \<and> al_resource_id l = version_id \<and> al_actor_id l = Some (or_str (Some approver) default_user_id)
     \<and> (if decision = ''approved'' then
          (case al_after l of
             Some md \<Rightarrow> map_of (as_dict (map_of md ''release_gate'')) ''allowed'' = Some (JBool True)
           | None \<Rightarrow> False)
        else True)"

definition decided_since :: "store \<Rightarrow> str \<Rightarrow> str \<Rightarrow> str \<Rightarrow> store \<Rightarrow> bool" where
  "decided_since s decision version_id approver t \<longleftrightarrow>
     list_ex (decision_entry decision version_id approver) (drop (length (st_audit s)) (st_audit t))"

lemma decided_since_grows:
  "extends s t \<Longrightarrow> decided_since s0 decision i a s \<Longrightarrow> extends s0 s \<Longrightarrow> decided_since s0 decision i a t"
  by (auto simp: decided_since_def extends_def)

lemma decided_since_earlier:
  assumes "extends s0 s" "decided_since s decision i a t"
  shows "decided_since s0 decision i a t"
proof -
  have "length (st_audit s0) \<le> length (st_audit s)" using assms(1) by (auto simp: extends_def)
  then have sub: "set (drop (length (st_audit s)) (st_audit t)) \<subseteq> set (drop (length (st_audit s0)) (st_audit t))"
    by (rule set_drop_subset_set_drop)
  from assms(2) obtain l where l: "l \<in> set (drop (length (st_audit s)) (st_audit t))" "decision_entry decision i a l"
    unfolding decided_since_def list_ex_iff by (elim bexE)
  show ?thesis unfolding decided_since_def list_ex_iff by (rule bexI, rule l(2), rule subsetD[OF sub l(1)])
qed

lemma bind_Inr: "op_bind m f s = (Inr y, u) \<Longrightarrow> \<exists>x t. m s = (Inr x, t) \<and> f x t = (Inr y, u)"
  by (auto simp: op_bind_def split: prod.splits sum.splits)

lemma modify_Inr: "op_modify f s = (Inr x, t) \<Longrightarrow> t = f s"
  by (simp add: op_modify_def)

lemma return_Inr: "op_return x s = (Inr y, t) \<Longrightarrow> y = x \<and> t = s"
  by (simp add: op_return_def)

lemma audit_transition_last:
  "st_audit (audit_report_version_transition env v action actor before remark md s) =
     st_audit s @ [last (st_audit (audit_report_version_transition env v action actor before remark md s))]"
  by (simp add: audit_report_version_transition_def append_audit_def)

lemma store_decision_result:
  assumes "store_decision env version updated action d extra s = (Inr st, s')"
  obtains stored s1 where "upsert_report_version env updated s = (Inr stored, s1)"
    and "s' = audit_report_version_transition env stored action (Some (ai_approver_id d))
           (Some (rv_status version)) (ai_note d) (Some (approval_metadata stored @ extra)) s1"
    and "st = approval_state_of stored (Some (ai_approver_id d)) (ai_note d)"
  using assms unfolding store_decision_def
  by (auto dest!: bind_Inr modify_Inr return_Inr)

lemma store_decision_safe: "op_rel safe_step (store_decision env version updated action d extra)"
  unfolding store_decision_def
  by (intro safe.rel_bind upsert_report_version_safe safe.rel_modify safe.rel_return)
    (simp add: audit_report_version_transition_def append_audit_safe)

lemma require_safe: "op_rel safe_step (require_report_version i)"
  by (auto simp: op_rel_def require_report_version_def safe.R_refl split: option.split)

lemma release_gate_safe: "op_rel safe_step (release_gate_for g v)"
  using release_gate_state by (auto simp: op_rel_def safe.R_refl) (metis prod.collapse safe.R_refl)

lemma enforce_gate_safe: "op_rel safe_step (enforce_release_gate g env v)"
  unfolding enforce_release_gate_def
  by (intro safe.rel_bind release_gate_safe) (auto intro!: safe.rel_bind safe.rel_modify upsert_notification_safe)

lemma request_approval_safe: "op_rel safe_step (request_report_approval g env req)"
  unfolding request_report_approval_def
  by (intro safe.rel_bind require_safe)
    (auto intro!: safe.rel_bind upsert_report_version_safe safe.rel_modify
      simp: audit_report_version_transition_def append_audit_safe)

lemma approve_safe: "op_rel safe_step (approve_report_version g env d)"
  unfolding approve_report_version_def
  by (intro safe.rel_bind require_safe) (auto intro!: safe.rel_bind enforce_gate_safe store_decision_safe)

lemma reject_safe: "op_rel safe_step (reject_report_version g env d)"
  unfolding reject_report_version_def
  by (intro safe.rel_bind require_safe) (auto intro!: store_decision_safe)

lemma enforce_gate_Inr:
  "enforce_release_gate g env v s = (Inr gate, s') \<Longrightarrow> rg_allowed gate \<and> s' = s"
proof -
  assume "enforce_release_gate g env v s = (Inr gate, s')"
  then obtain x t where x: "release_gate_for g v s = (Inr x, t)"
    and rest: "(if rg_allowed x then op_return x
       else op_bind (op_modify (\<lambda>s. snd (upsert_notification env (gate_blocked_notification g env v x) s)))
         (\<lambda>_. op_raise (RuntimeError (''Report release gate blocked approval: ''
           @ join ''; '' (map bf_message (take 3 (rg_issues x))))))) t = (Inr gate, s')"
    unfolding enforce_release_gate_def by (blast dest: bind_Inr)
  show ?thesis
    using rest release_gate_state[OF x]
    by (cases "rg_allowed x") (simp_all add: op_return_def op_bind_def op_modify_def op_raise_def)
qed

lemma approval_metadata_gate:
  "map_of (dict_merge d (approval_metadata v @ [(''release_gate'', x)])) ''release_gate'' = Some x"
  by (simp add: dict_simps approval_metadata_def)

lemma snapshot_allowed:
  "map_of (report_release_gate_snapshot (Some gate)) ''allowed'' = Some (JBool (rg_allowed gate))"
  by (simp add: report_release_gate_snapshot_def)

lemma transition_entry:
  "\<exists>l. st_audit (audit_report_version_transition env v action actor before remark (Some md) s) = st_audit s @ [l]
     \<and> al_action l = action \<and> al_resource_type l = ''report_version'' \<and> al_resource_id l = rv_id v
     \<and> al_actor_id l = Some (or_str actor default_user_id)
     \<and> al_after l = Some (dict_merge (report_transition_audit_after v action actor remark None) md)"
  by (simp add: audit_report_version_transition_def append_audit_def audit_of_def)

lemma bind_at: "m s = (Inr x, t) \<Longrightarrow> op_bind m f s = f x t"
  by (simp add: op_bind_def)

lemma required: "get_report_version i s = Some v \<Longrightarrow> require_report_version i s = (Inr v, s)"
  by (simp add: require_report_version_def)

lemma approve_outcome:
  assumes "approve_report_version g env d s = (Inr st, s')" and ok: "store_ok s"
  shows "decided_since s ''approved'' (ai_report_version_id d) (ai_approver_id d) s'
     \<and> av_status st = ''approved''
     \<and> map_option rv_status (get_report_version (ai_report_version_id d) s') = Some ''approved''"
proof -
  obtain v where v: "get_report_version (ai_report_version_id d) s = Some v"
    using assms(1) by (cases "get_report_version (ai_report_version_id d) s")
      (simp_all add: approve_report_version_def op_bind_def require_report_version_def)
  have i: "rv_id v = ai_report_version_id d" by (rule stored_version_id[OF ok v])
  have review: "rv_status v = ''in_review''"
    using assms(1) unfolding approve_report_version_def bind_at[where m = "require_report_version i" for i, OF required[OF v]]
    by (simp add: op_raise_def split: if_splits)
  have "op_bind (enforce_release_gate g env v) (\<lambda>gate. store_decision env v
        (mark_report_approval_decision (ge_hitl_dump g) (env_now env) v ''approved'' (ai_approver_id d)
          (ai_note d) (Some gate) None) ''report_version.approved'' d
        [(''release_gate'', JDict (report_release_gate_snapshot (Some gate)))]) s = (Inr st, s')"
    using assms(1) unfolding approve_report_version_def bind_at[where m = "require_report_version i" for i, OF required[OF v]]
    by (simp only: review simp_thms if_False)
  from bind_Inr[OF this] obtain gate s1 where gate: "enforce_release_gate g env v s = (Inr gate, s1)"
    and sd: "store_decision env v
        (mark_report_approval_decision (ge_hitl_dump g) (env_now env) v ''approved'' (ai_approver_id d)
          (ai_note d) (Some gate) None) ''report_version.approved'' d
        [(''release_gate'', JDict (report_release_gate_snapshot (Some gate)))] s1 = (Inr st, s')"
    by blast
  have g: "rg_allowed gate" "s1 = s" using enforce_gate_Inr[OF gate] by simp_all
  obtain stored s2 where up: "upsert_report_version env
        (mark_report_approval_decision (ge_hitl_dump g) (env_now env) v ''approved'' (ai_approver_id d)
          (ai_note d) (Some gate) None) s = (Inr stored, s2)"
    and s': "s' = audit_report_version_transition env stored ''report_version.approved''
          (Some (ai_approver_id d)) (Some (rv_status v)) (ai_note d)
          (Some (approval_metadata stored @ [(''release_gate'', JDict (report_release_gate_snapshot (Some gate)))])) s2"
    and st: "st = approval_state_of stored (Some (ai_approver_id d)) (ai_note d)"
    using sd unfolding g(2) by (rule store_decision_result)
  have stored: "rv_id stored = ai_report_version_id d" "rv_status stored = ''approved''"
    using upsert_report_version_result[OF up] i
    by (simp_all add: mark_report_approval_decision_def Let_def)
  obtain l where l: "st_audit s' = st_audit s2 @ [l]"
    and fields: "al_action l = ''report_version.approved''" "al_resource_type l = ''report_version''"
      "al_resource_id l = rv_id stored" "al_actor_id l = Some (or_str (Some (ai_approver_id d)) default_user_id)"
      "al_after l = Some (dict_merge (report_transition_audit_after stored ''report_version.approved''
         (Some (ai_approver_id d)) (ai_note d) None)
         (approval_metadata stored @ [(''release_gate'', JDict (report_release_gate_snapshot (Some gate)))]))"
    unfolding s' using transition_entry by blast
  have entry: "decision_entry ''approved'' (ai_report_version_id d) (ai_approver_id d) l"
    by (simp add: decision_entry_def fields stored(1) approval_metadata_gate snapshot_allowed g(1)
        del: or_str.simps)
  have "safe_step s s2" using upsert_report_version_safe up by (metis op_rel_at snd_conv)
  then obtain ls where "st_audit s2 = st_audit s @ ls" using ok by (auto simp: safe_step_def extends_def)
  moreover have "get_report_version (ai_report_version_id d) s' = Some stored"
    using upsert_report_version_result[OF up] stored(1)
    by (simp add: s' get_report_version_def audit_report_version_transition_def append_audit_def)
  ultimately show ?thesis using l entry stored(2) st by (simp add: decided_since_def approval_state_of_def)
qed

lemma reject_outcome:
  assumes "reject_report_version g env d s = (Inr st, s')" and ok: "store_ok s"
  shows "decided_since s ''rejected'' (ai_report_version_id d) (ai_approver_id d) s'
     \<and> av_status st = ''rejected''
     \<and> map_option rv_status (get_report_version (ai_report_version_id d) s') = Some ''rejected''"
proof -
  obtain v where v: "get_report_version (ai_report_version_id d) s = Some v"
    using assms(1) by (cases "get_report_version (ai_report_version_id d) s")
      (simp_all add: reject_report_version_def op_bind_def require_report_version_def)
  have i: "rv_id v = ai_report_version_id d" by (rule stored_version_id[OF ok v])
  have sd: "store_decision env v
        (mark_report_approval_decision (ge_hitl_dump g) (env_now env) v ''rejected'' (ai_approver_id d)
          (ai_note d) None None) ''report_version.rejected'' d [] s = (Inr st, s')"
    using assms(1) unfolding reject_report_version_def bind_at[where m = "require_report_version i" for i, OF required[OF v]]
    by (simp add: op_raise_def split: if_splits)
  obtain stored s2 where up: "upsert_report_version env
        (mark_report_approval_decision (ge_hitl_dump g) (env_now env) v ''rejected'' (ai_approver_id d)
          (ai_note d) None None) s = (Inr stored, s2)"
    and s': "s' = audit_report_version_transition env stored ''report_version.rejected''
          (Some (ai_approver_id d)) (Some (rv_status v)) (ai_note d) (Some (approval_metadata stored @ [])) s2"
    and st: "st = approval_state_of stored (Some (ai_approver_id d)) (ai_note d)"
    using sd by (rule store_decision_result)
  have stored: "rv_id stored = ai_report_version_id d" "rv_status stored = ''rejected''"
    using upsert_report_version_result[OF up] i
    by (simp_all add: mark_report_approval_decision_def Let_def)
  obtain l where l: "st_audit s' = st_audit s2 @ [l]"
    and fields: "al_action l = ''report_version.rejected''" "al_resource_type l = ''report_version''"
      "al_resource_id l = rv_id stored" "al_actor_id l = Some (or_str (Some (ai_approver_id d)) default_user_id)"
    unfolding s' using transition_entry by blast
  have entry: "decision_entry ''rejected'' (ai_report_version_id d) (ai_approver_id d) l"
    by (simp add: decision_entry_def fields stored(1) del: or_str.simps)
  have "safe_step s s2" using upsert_report_version_safe up by (metis op_rel_at snd_conv)
  then obtain ls where "st_audit s2 = st_audit s @ ls" using ok by (auto simp: safe_step_def extends_def)
  moreover have "get_report_version (ai_report_version_id d) s' = Some stored"
    using upsert_report_version_result[OF up] stored(1)
    by (simp add: s' get_report_version_def audit_report_version_transition_def append_audit_def)
  ultimately show ?thesis using l entry stored(2) st by (simp add: decided_since_def approval_state_of_def)
qed

section \<open>Payloads\<close>

text \<open>What an activity returns is read back unchanged, whatever its texts, when its status is one
  of the declared ones.\<close>

lemma coerce_payload:
  "av_status st \<in> set report_statuses \<Longrightarrow> coerce_approval_state (approval_payload st) = Inr st"
  by (cases "av_approver_id st")
    (simp_all add: coerce_approval_state_def approval_payload_def payload_text_def
      payload_report_status_def payload_optional_text_def or_str.simps)

lemma coerce_payload_same:
  "coerce_approval_state (approval_payload st) = Inr st' \<Longrightarrow> st' = st"
  by (cases "av_approver_id st"; cases "av_status st \<in> set report_statuses")
    (simp_all add: coerce_payload, simp_all add: coerce_approval_state_def approval_payload_def
      payload_text_def payload_report_status_def)

section \<open>The workflow\<close>

text \<open>What a finished workflow says, against the signals it got and the store it leaves.\<close>

definition result_backed ::
  "approval_request \<Rightarrow> store \<Rightarrow> approval_event list \<Rightarrow> store \<Rightarrow> approval_result \<Rightarrow> bool" where
  "result_backed req s0 evs s r =
     (if ax_decision r \<in> {''approved'', ''rejected''} then
        ax_final_status r = ax_decision r
        \<and> list_ex (\<lambda>e. case e of
            Signal d \<Rightarrow> ax_approver_id r = Some (sg_approver_id d) \<and> ax_note r = sg_note d
              \<and> (sg_decision d = ''approved'') = (ax_decision r = ''approved'')
          | _ \<Rightarrow> False) evs
        \<and> decided_since s0 (ax_decision r) (aq_report_version_id req) (the (ax_approver_id r)) s
      else ax_decision r = ''timed_out'' \<and> ax_approver_id r = None)"

definition workflow_ok ::
  "approval_request \<Rightarrow> store \<Rightarrow> approval_event list \<Rightarrow> approval_workflow \<times> store \<Rightarrow> bool" where
  "workflow_ok req s0 evs ws \<longleftrightarrow>
     (let (w, s) = ws in
        wf_request w = req \<and> store_ok s \<and> extends s0 s
        \<and> (\<forall>d. wf_decision w = Some d \<longrightarrow> Signal d \<in> set evs)
        \<and> (\<forall>d k. wf_phase w = Deciding d k \<longrightarrow> Signal d \<in> set evs)
        \<and> (\<forall>r. wf_phase w = Finished r \<longrightarrow> result_backed req s0 evs s r))"

lemma result_backed_grows:
  assumes "result_backed req s0 evs s r" "extends s t" "extends s0 s"
  shows "result_backed req s0 (evs @ es) t r"
  using assms decided_since_grows[of s t s0] by (auto simp: result_backed_def split: if_splits)

lemma attempt_cases:
  assumes "attempt act delivered k again continue s = (p, s')"
  obtains (retry) "p = again (k + 1)" | (failed) "p = ActivityFailed" | (stuck) "p = Stuck"
  | (returned) st where "act s = (Inr st, s')" "p = continue st"
  using assms coerce_payload_same unfolding attempt_def
  by (auto simp: Let_def split: prod.splits sum.splits if_splits)

lemma attempt_safe:
  "op_rel safe_step act \<Longrightarrow> attempt act delivered k again continue s = (p, s') \<Longrightarrow> safe_step s s'"
  by (auto simp: attempt_def Let_def op_rel_def split: prod.splits) (metis snd_conv)

lemma extends_of_safe: "safe_step s t \<Longrightarrow> store_ok s \<Longrightarrow> store_ok t \<and> extends s t"
  by (simp add: safe_step_def)

lemma decision_activity_safe: "op_rel safe_step (decision_activity g env w d)"
  by (simp add: decision_activity_def approve_safe reject_safe)

lemma decision_result_backed:
  assumes "decision_activity g env w d s = (Inr st, s')" "store_ok s" "extends s0 s"
    and "wf_request w = req" "Signal d \<in> set evs"
    and "decision_outcome d st = Finished r"
  shows "result_backed req s0 evs s' r"
proof -
  let ?dec = "if sg_decision d = ''approved'' then ''approved'' else ''rejected''"
  have out: "decided_since s ?dec (aq_report_version_id req) (sg_approver_id d) s' \<and> av_status st = ?dec"
    using approve_outcome[of g env "decision_input w d" s st s']
      reject_outcome[of g env "decision_input w d" s st s'] assms(1,2,4)
    by (auto simp: decision_activity_def decision_input_def split: if_splits)
  have "decided_since s0 ?dec (aq_report_version_id req) (sg_approver_id d) s'"
    using out decided_since_earlier[OF assms(3)] by blast
  moreover have "r = approval_result_of st ?dec (Some (sg_approver_id d)) (sg_note d)"
    using assms(6) by (simp add: decision_outcome_def)
  ultimately show ?thesis
    using out assms(5)
    by (auto simp: result_backed_def approval_result_of_def list_ex_iff split: approval_event.split)
qed

lemma workflow_okD:
  assumes "workflow_ok req s0 evs (w, s)"
  shows "wf_request w = req" "store_ok s" "extends s0 s"
    "wf_decision w = Some d \<Longrightarrow> Signal d \<in> set evs"
    "wf_phase w = Deciding d k \<Longrightarrow> Signal d \<in> set evs"
    "wf_phase w = Finished r \<Longrightarrow> result_backed req s0 evs s r"
  using assms by (simp_all add: workflow_ok_def)

text \<open>A step that leaves the phase alone, and one that changes nothing but the phase and the store.\<close>

lemma workflow_ok_same:
  assumes "workflow_ok req s0 evs (w, s)" "safe_step s t"
    and "wf_request w' = wf_request w" "wf_phase w' = wf_phase w"
    and "\<And>d. wf_decision w' = Some d \<Longrightarrow> wf_decision w = Some d \<or> Signal d \<in> set es"
  shows "workflow_ok req s0 (evs @ es) (w', t)"
  using assms extends_of_safe[OF assms(2)] workflow_okD[OF assms(1)] result_backed_grows
  by (auto simp: workflow_ok_def intro: extends_trans)

lemma workflow_ok_moved:
  assumes "workflow_ok req s0 evs (w, s)" "safe_step s t"
    and "wf_request w' = wf_request w" "wf_decision w' = wf_decision w"
    and "\<And>d k. wf_phase w' = Deciding d k \<Longrightarrow> Signal d \<in> set evs"
    and "\<And>r. wf_phase w' = Finished r \<Longrightarrow> result_backed req s0 evs t r"
  shows "workflow_ok req s0 (evs @ es) (w', t)"
proof -
  have t: "store_ok t" "extends s t" using extends_of_safe[OF assms(2)] workflow_okD(2)[OF assms(1)] by auto
  then have e: "extends s0 t" using workflow_okD(3)[OF assms(1)] extends_trans by blast
  have "result_backed req s0 (evs @ es) t r" if "wf_phase w' = Finished r" for r
    using result_backed_grows[OF assms(6)[OF that] extends_refl e] .
  then show ?thesis
    using assms(3,4,5) t(1) e workflow_okD(1,4)[OF assms(1)] by (auto simp: workflow_ok_def)
qed

lemma request_attempt_ok:
  assumes ok: "workflow_ok req s0 evs (w, s)" and phase: "wf_phase w = Requesting k"
  shows "workflow_ok req s0 (evs @ [e]) (approval_step g (Attempt env delivered) (w, s))"
proof -
  obtain p t where a: "attempt (request_report_approval g env (wf_request w)) delivered k Requesting Waiting s = (p, t)"
    by fastforce
  have "(\<forall>d k. p \<noteq> Deciding d k) \<and> (\<forall>r. p \<noteq> Finished r)"
    using a by (rule attempt_cases) simp_all
  then show ?thesis
    using workflow_ok_moved[OF ok attempt_safe[OF request_approval_safe a],
        of "w\<lparr>wf_phase := p, wf_status := (case p of Waiting _ \<Rightarrow> ''waiting'' | _ \<Rightarrow> wf_status w)\<rparr>" "[e]"]
    by (simp add: phase a)
qed

lemma decision_attempt_ok:
  assumes ok: "workflow_ok req s0 evs (w, s)" and phase: "wf_phase w = Deciding d k"
  shows "workflow_ok req s0 (evs @ [e]) (approval_step g (Attempt env delivered) (w, s))"
proof -
  obtain p t where a: "attempt (decision_activity g env w d) delivered k (Deciding d) (decision_outcome d) s = (p, t)"
    by fastforce
  note inv = workflow_okD[OF ok]
  have dec: "Signal d' \<in> set evs" if "p = Deciding d' k'" for d' k'
    using a by (rule attempt_cases) (use inv(5)[OF phase] that in \<open>simp_all add: decision_outcome_def\<close>)
  have fin: "result_backed req s0 evs t r" if "p = Finished r" for r
    using a
  proof (rule attempt_cases)
    fix st assume "decision_activity g env w d s = (Inr st, t)" "p = decision_outcome d st"
    then show ?thesis
      using decision_result_backed[of g env w d s st t s0 req evs r] inv(1,2,3) inv(5)[OF phase] that by simp
  qed (use that in simp_all)
  show ?thesis
    using workflow_ok_moved[OF ok attempt_safe[OF decision_activity_safe a],
        of "w\<lparr>wf_phase := p, wf_status := (if finished p then ''completed'' else wf_status w)\<rparr>" "[e]"] dec fin
    by (simp add: phase a)
qed

lemma approval_step_ok:
  assumes ok: "workflow_ok req s0 evs (w, s)"
  shows "workflow_ok req s0 (evs @ [e]) (approval_step g e (w, s))"
proof (cases e)
  case (Attempt env delivered)
  show ?thesis
  proof (cases "wf_phase w")
    case (Requesting k)
    then show ?thesis using request_attempt_ok[OF ok] Attempt by blast
  next
    case (Deciding d k)
    then show ?thesis using decision_attempt_ok[OF ok] Attempt by blast
  qed (use Attempt workflow_ok_same[OF ok safe.R_refl, of w "[e]"] in simp_all)
next
  case (Signal d)
  then show ?thesis
    using workflow_ok_same[OF ok safe.R_refl, of w "[e]"]
      workflow_ok_same[OF ok safe.R_refl, of "w\<lparr>wf_decision := Some d\<rparr>" "[e]"]
    by simp
next
  case Wake
  show ?thesis
  proof (cases "\<exists>st d. wf_phase w = Waiting st \<and> wf_decision w = Some d")
    case True
    then obtain st d where d: "wf_phase w = Waiting st" "wf_decision w = Some d" by blast
    then show ?thesis
      using workflow_ok_moved[OF ok safe.R_refl,
          of "w\<lparr>wf_approver_id := Some (sg_approver_id d), wf_phase := Deciding d 0\<rparr>" "[e]"]
        workflow_okD(4)[OF ok d(2)] Wake by simp
  next
    case False
    then have "approval_step g e (w, s) = (w, s)"
      using Wake by (auto split: approval_phase.split option.split)
    then show ?thesis using workflow_ok_same[OF ok safe.R_refl, of w "[e]"] by simp
  qed
next
  case TimeOut
  show ?thesis
  proof (cases "\<exists>st. wf_phase w = Waiting st \<and> wf_decision w = None")
    case True
    then obtain st where d: "wf_phase w = Waiting st" "wf_decision w = None" by blast
    then show ?thesis
      using workflow_ok_moved[OF ok safe.R_refl, of "w\<lparr>wf_status := ''timed_out'',
             wf_phase := Finished (approval_result_of st ''timed_out'' None '''')\<rparr>" "[e]"] TimeOut
      by (simp add: result_backed_def approval_result_of_def)
  next
    case False
    then have "approval_step g e (w, s) = (w, s)"
      using TimeOut by (auto split: approval_phase.split option.split)
    then show ?thesis using workflow_ok_same[OF ok safe.R_refl, of w "[e]"] by simp
  qed
next
  case (OtherCall env c)
  then show ?thesis using workflow_ok_same[OF ok run_call_safe[of s env c], of w "[e]"] by simp
qed

lemma run_approval_ok: "store_ok s \<Longrightarrow> workflow_ok req s evs (run_approval g req evs s)"
proof (induction evs rule: rev_induct)
  case Nil
  then show ?case by (simp add: run_approval_def start_approval_def workflow_ok_def extends_refl)
next
  case (snoc e evs)
  then show ?case
    using approval_step_ok[of req s evs "fst (run_approval g req evs s)" "snd (run_approval g req evs s)" e g]
    by (simp add: run_approval_def)
qed

text \<open>The event that ends the workflow with a decision leaves the version stored with that status.\<close>

definition version_status :: "str \<Rightarrow> store \<Rightarrow> str option" where
  "version_status i s = map_option rv_status (get_report_version i s)"

definition finishes_stored ::
  "gate_env \<Rightarrow> approval_request \<Rightarrow> approval_event list \<Rightarrow> store \<Rightarrow> approval_result \<Rightarrow> bool" where
  "finishes_stored g req evs s r =
     (if ax_decision r \<in> {''approved'', ''rejected''} then
        list_ex (\<lambda>n.
          let (before, _) = run_approval g req (take n evs) s;
              (after, t) = run_approval g req (take (Suc n) evs) s
          in \<not> finished (wf_phase before) \<and> wf_phase after = Finished r
            \<and> version_status (aq_report_version_id req) t = Some (ax_decision r))
          [0..<length evs]
      else True)"

lemma run_approval_snoc: "run_approval g req (evs @ [e]) s = approval_step g e (run_approval g req evs s)"
  by (simp add: run_approval_def)

lemma finished_stays:
  "wf_phase w = Finished r \<Longrightarrow> wf_phase (fst (approval_step g e (w, s))) = Finished r"
  by (cases e) (simp_all add: finished_def)

lemma decision_stores_status:
  assumes "decision_activity g env w d s = (Inr st, t)" "store_ok s" "decision_outcome d st = Finished r"
  shows "version_status (aq_report_version_id (wf_request w)) t = Some (ax_decision r)"
proof -
  let ?dec = "if sg_decision d = ''approved'' then ''approved'' else ''rejected''"
  have "version_status (aq_report_version_id (wf_request w)) t = Some ?dec"
    using approve_outcome[of g env "decision_input w d" s st t]
      reject_outcome[of g env "decision_input w d" s st t] assms(1,2)
    by (auto simp: version_status_def decision_activity_def decision_input_def split: if_splits)
  moreover have "ax_decision r = ?dec"
    using assms(3) by (auto simp: decision_outcome_def approval_result_of_def)
  ultimately show ?thesis by simp
qed

lemma step_finishes_stored:
  assumes "store_ok s" "\<not> finished (wf_phase w)" "approval_step g e (w, s) = (w', t)"
    and "wf_phase w' = Finished r" "ax_decision r \<in> {''approved'', ''rejected''}"
  shows "version_status (aq_report_version_id (wf_request w)) t = Some (ax_decision r)"
proof (cases e)
  case (Attempt env delivered)
  show ?thesis
  proof (cases "wf_phase w")
    case (Requesting k)
    obtain p u where a: "attempt (request_report_approval g env (wf_request w)) delivered k Requesting Waiting s = (p, u)"
      by fastforce
    have "p \<noteq> Finished r" using a by (rule attempt_cases) simp_all
    then show ?thesis using assms(3,4) Attempt Requesting a by auto
  next
    case (Deciding d k)
    obtain p u where a: "attempt (decision_activity g env w d) delivered k (Deciding d) (decision_outcome d) s = (p, u)"
      by fastforce
    then have p: "p = Finished r" "u = t" using assms(3,4) Attempt Deciding by auto
    from a show ?thesis
      by (rule attempt_cases) (use p decision_stores_status assms(1) in auto)
  qed (use assms Attempt in \<open>auto simp: finished_def\<close>)
next
  case TimeOut
  then show ?thesis using assms
    by (auto simp: finished_def approval_result_of_def split: approval_phase.splits option.splits)
qed (use assms in \<open>auto simp: finished_def split: approval_phase.splits option.splits if_splits\<close>)

lemma finishes_stored_grows:
  "finishes_stored g req evs s r \<Longrightarrow> finishes_stored g req (evs @ [e]) s r"
proof (cases "ax_decision r \<in> {''approved'', ''rejected''}")
  case True
  assume "finishes_stored g req evs s r"
  then show ?thesis
    unfolding finishes_stored_def if_P[OF True] list_ex_iff
    by (elim bexE) (rule_tac x = n in bexI, simp_all)
qed (simp only: finishes_stored_def if_False simp_thms)

lemma run_finishes_stored:
  assumes "store_ok s" "wf_phase (fst (run_approval g req evs s)) = Finished r"
  shows "finishes_stored g req evs s r"
  using assms(2)
proof (induction evs arbitrary: r rule: rev_induct)
  case Nil
  then show ?case by (simp add: run_approval_def start_approval_def)
next
  case (snoc e evs)
  obtain w t where w: "run_approval g req evs s = (w, t)" by fastforce
  obtain w' t' where w': "approval_step g e (w, t) = (w', t')" by fastforce
  have r: "wf_phase w' = Finished r" using snoc.prems by (simp add: run_approval_snoc w w')
  show ?case
  proof (cases "finished (wf_phase w)")
    case True
    then have "wf_phase w = Finished r"
      using finished_stays[of w _ g e t] w' r by (cases "wf_phase w") (auto simp: finished_def)
    then show ?thesis using snoc.IH[of r] w by (simp add: finishes_stored_grows)
  next
    case False
    have "store_ok t" "wf_request w = req"
      using run_approval_ok[OF assms(1), where req = req and evs = evs and g = g] by (simp_all add: workflow_ok_def w)
    then show ?thesis
      using step_finishes_stored[OF _ False w' r] False w w' r
      by (auto simp: finishes_stored_def list_ex_iff run_approval_snoc intro!: bexI[of _ "length evs"])
  qed
qed

text \<open>C3. Whatever happens to an approval workflow (activities failing, being repeated or losing
  their completion, signals at any time, other calls on the store in between), the store keeps
  its invariant and its history. A decision the workflow reports was signalled with that
  approver and note and is the final status reported; the event that ended the workflow with it left
  the stored version with that very status; and it stands in the audit log since the workflow began,
  by that approver, an approval with a release gate that allowed it.\<close>

theorem approval_reported_is_audited:
  "let s = run_calls cs (init_store env0);
       (w, t) = run_approval g req evs s
   in store_ok t \<and> extends s t
     \<and> (case wf_phase w of
          Finished r \<Rightarrow> result_backed req s evs t r \<and> finishes_stored g req evs s r
        | _ \<Rightarrow> True)"
  using run_approval_ok[where s = "run_calls cs (init_store env0)" and req = req and evs = evs and g = g,
      OF run_calls_ok]
    run_finishes_stored[where s = "run_calls cs (init_store env0)" and req = req and evs = evs and g = g,
      OF run_calls_ok]
  by (auto simp: workflow_ok_def Let_def split: approval_phase.split)

section \<open>Where reporting and deciding part\<close>

text \<open>
  A signal that arrives while the decision is being recorded is only shown: the workflow ends
  with the decision it took, and the query reports the other one.
\<close>

lemma late_signal_misreported:
  "let w1 = w\<lparr>wf_phase := Deciding d k\<rparr>;
       (w2, s2) = approval_step g (Signal late) (w1, s);
       (w3, s3) = approval_step g (Attempt env True) (w2, s2)
   in case wf_phase w3 of
        Finished r \<Rightarrow> ax_approver_id r = Some (sg_approver_id d)
          \<and> map_of (approval_query w3) ''decision'' = Some (JStr (sg_decision late))
      | _ \<Rightarrow> True"
proof -
  let ?w2 = "w\<lparr>wf_phase := Deciding d k, wf_decision := Some late\<rparr>"
  obtain p t where a: "attempt (decision_activity g env ?w2 d) True k (Deciding d) (decision_outcome d) s = (p, t)"
    by fastforce
  have "case p of Finished r \<Rightarrow> ax_approver_id r = Some (sg_approver_id d) | _ \<Rightarrow> True"
    using a by (rule attempt_cases) (simp_all add: decision_outcome_def approval_result_of_def)
  then show ?thesis
    by (cases p) (simp_all add: a approval_query_def finished_def)
qed

text \<open>
  Deciding is not idempotent: once a version is approved, another attempt of the activity raises,
  whatever it does it does not touch the store.
\<close>

lemma decided_version_rejects_attempts:
  "case get_report_version (ai_report_version_id d) s of
     Some v \<Rightarrow> if rv_status v \<noteq> ''in_review''
       then (\<exists>e. approve_report_version g env d s = (Inl e, s))
         \<and> (\<exists>e. reject_report_version g env d s = (Inl e, s)) else True
   | None \<Rightarrow> True"
  by (auto simp: approve_report_version_def reject_report_version_def op_bind_def op_raise_def
      require_report_version_def split: option.split)

lemma decision_stored:
  assumes "decision_activity g env w d s = (Inr st, s')" "store_ok s"
  shows "map_option rv_status (get_report_version (aq_report_version_id (wf_request w)) s') =
    Some (if sg_decision d = ''approved'' then ''approved'' else ''rejected'')"
  using approve_outcome[of g env "decision_input w d" s st s']
    reject_outcome[of g env "decision_input w d" s st s'] assms
  by (auto simp: decision_activity_def decision_input_def split: if_splits)

lemma decided_activity_raises:
  assumes "map_option rv_status (get_report_version (aq_report_version_id (wf_request w)) s) =
    Some (if sg_decision d = ''approved'' then ''approved'' else ''rejected'')"
  shows "\<exists>e. decision_activity g env w d s = (Inl e, s)"
  using assms decided_version_rejects_attempts[where d = "decision_input w d" and s = s and g = g and env = env]
  by (auto simp: decision_activity_def decision_input_def split: if_splits)

text \<open>C30. Approving and rejecting cannot be repeated: when the activity decided the version but its
  completion is lost, every later attempt raises without touching the store, and the workflow
  ends as failed although the version it was asked about has the decision as its status.\<close>

theorem lost_decision_fails_workflow:
  "let s = run_calls cs (init_store env0);
       w1 = w\<lparr>wf_phase := Deciding d 0\<rparr>;
       (w2, s2) = approval_step g (Attempt env1 False) (w1, s);
       (w3, s3) = approval_step g (Attempt env2 b2) (w2, s2);
       (w4, s4) = approval_step g (Attempt env3 b3) (w3, s3)
   in case fst (decision_activity g env1 w d s) of
        Inr _ \<Rightarrow> wf_phase w4 = ActivityFailed \<and> s4 = s2
          \<and> map_option rv_status (get_report_version (aq_report_version_id (wf_request w)) s4) =
              Some (if sg_decision d = ''approved'' then ''approved'' else ''rejected'')
      | Inl _ \<Rightarrow> True"
proof (cases "fst (decision_activity g env1 w d (run_calls cs (init_store env0)))")
  case Inl
  then show ?thesis by (simp split: prod.split)
next
  case (Inr st)
  let ?s = "run_calls cs (init_store env0)" and ?w = "\<lambda>k. w\<lparr>wf_phase := Deciding d k\<rparr>"
  obtain s2 where a: "decision_activity g env1 w d ?s = (Inr st, s2)"
    using Inr by (metis prod.collapse)
  have same: "decision_activity g env (?w k) d = decision_activity g env w d" for env k
    by (simp add: decision_activity_def decision_input_def)
  note stored = decision_stored[OF a run_calls_ok]
  obtain e2 e3 where r: "decision_activity g env2 w d s2 = (Inl e2, s2)" "decision_activity g env3 w d s2 = (Inl e3, s2)"
    using decided_activity_raises[OF stored] by blast
  have steps: "approval_step g (Attempt env1 False) (?w 0, ?s) = (?w 1, s2)"
    "approval_step g (Attempt env2 b2) (?w 1, s2) = (?w 2, s2)"
    "approval_step g (Attempt env3 b3) (?w 2, s2) = (w\<lparr>wf_phase := ActivityFailed\<rparr>, s2)"
    by (simp_all add: same a r attempt_def finished_def maximum_attempts_def)
  show ?thesis unfolding Let_def steps prod.case Inr by (simp add: stored)
qed

end
