(* ===== verification/CommandProps.thy ===== *)
theory CommandProps
  imports Commands ApprovalProps
begin

text \<open>
  What the command layer promises: no command breaks the store or its history, and a report
  version is published only after every check the code makes, which are stated here apart from
  the code that makes them.
\<close>

section \<open>Commands keep the store\<close>

lemma seq_safe:
  assumes "op_rel safe_step m" and "\<And>x. op_rel safe_step (f x)"
  shows "op_rel safe_step (seq m f)"
  unfolding op_rel_def
proof
  fix s
  obtain r t where m: "m s = (r, t)" by (cases "m s")
  then have "safe_step s t" using assms(1) by (metis op_rel_def snd_conv)
  moreover have "safe_step t (snd (f x t))" for x using assms(2) by (simp add: op_rel_def)
  ultimately show "safe_step s (snd (seq m f s))"
    using safe.R_trans by (cases r) (auto simp: seq_def m)
qed

lemma op_relD: "op_rel R m \<Longrightarrow> R s (snd (m s))"
  by (simp add: op_rel_def)

lemma fail_safe [intro]: "op_rel safe_step (fail e)"
  by (simp add: op_rel_def fail_def safe.R_refl)

lemma done_safe [intro]: "op_rel safe_step (done_with x)"
  by (simp add: op_rel_def done_with_def safe.R_refl)

lemma lift_op_safe: "op_rel safe_step m \<Longrightarrow> op_rel safe_step (lift_op m)"
  by (simp add: op_rel_def lift_op_def split_beta split: sum.split)

lemma lift_call_safe: "(\<And>s. safe_step s (snd (f s))) \<Longrightarrow> op_rel safe_step (lift_call f)"
  by (simp add: op_rel_def lift_call_def Let_def case_prod_beta)

lemma lift_step_safe: "(\<And>s. safe_step s (f s)) \<Longrightarrow> op_rel safe_step (lift_step f)"
  by (simp add: op_rel_def lift_step_def)

lemma access_same: "snd (require_workspace_access ce actor w a tt i s) = s"
  by (simp add: require_workspace_access_def split: sum.split)

lemma access_safe: "op_rel safe_step (require_workspace_access ce actor w a tt i)"
  by (simp add: op_rel_def access_same safe.R_refl)

lemma lookup_same:
  "snd (project_or_error ce i actor a s) = s"
  "snd (monitor_job_or_error ce i actor a s) = s"
  "snd (report_version_or_error ce i actor a s) = s"
  by (auto simp: project_or_error_def monitor_job_or_error_def report_version_or_error_def seq_def
      done_with_def require_workspace_access_def split: option.split sum.split)

lemma lookups_safe:
  "op_rel safe_step (project_or_error ce i actor a)"
  "op_rel safe_step (monitor_job_or_error ce i actor a)"
  "op_rel safe_step (report_version_or_error ce i actor a)"
  by (simp_all add: op_rel_def lookup_same safe.R_refl)

lemma runtime_policy_safe: "op_rel safe_step (runtime_policy ce w mode tools)"
  unfolding runtime_policy_def
  by (intro lift_call_safe) (simp add: build_runtime_policy_decision_def case_prod_beta check_workspace_quota_safe)

lemma audit_transition_safe: "op_rel safe_step (lift_step (audit_report_version_transition env v act actor b r md))"
  by (intro lift_step_safe) (simp add: audit_report_version_transition_def append_audit_safe)

lemma memory_audit_safe: "op_rel safe_step (lift_step (record_memory_feedback_audit env f cs actor))"
  by (intro lift_step_safe) (simp add: record_memory_feedback_audit_def append_audit_safe)

lemma lift_call_at_safe:
  "(\<And>s. safe_step s (snd (f s s))) \<Longrightarrow> op_rel safe_step (\<lambda>s. lift_call (f s) s)"
  by (simp add: op_rel_def lift_call_def split_beta)

lemmas command_rules = seq_safe fail_safe done_safe lift_op_safe access_safe lookups_safe
  runtime_policy_safe audit_transition_safe memory_audit_safe
  lift_call_safe[OF upsert_monitor_job_safe] lift_call_safe[OF update_monitor_job_safe]
  lift_call_safe[OF record_monitor_job_run_safe] upsert_report_version_safe

lemma create_monitor_job_safe: "op_rel safe_step (create_monitor_job ce r actor)"
  unfolding create_monitor_job_def
  by (auto intro!: command_rules lift_call_at_safe upsert_monitor_job_safe)

lemma update_monitor_command_safe: "op_rel safe_step (update_monitor_job_command ce i u actor)"
  unfolding update_monitor_job_command_def
  by (auto intro!: command_rules split: option.split)

lemma trigger_monitor_job_safe: "op_rel safe_step (trigger_monitor_job ce i actor)"
  unfolding trigger_monitor_job_def
  by (auto intro!: command_rules split: option.split)

lemma start_scan_command_safe: "op_rel safe_step (start_scheduled_scan_command ce r actor)"
  unfolding start_scheduled_scan_command_def
  by (auto intro!: command_rules split: option.split)

lemma request_approval_safe_command: "op_rel safe_step (request_approval ce req actor)"
  unfolding request_approval_def by (auto intro!: command_rules split: option.split)

lemma signal_approval_safe: "op_rel safe_step (signal_approval ce t i a r actor)"
  unfolding signal_approval_def by (auto intro!: command_rules split: option.split)

lemma create_manual_report_revision_safe: "op_rel safe_step (create_manual_report_revision ce v md r actor)"
proof -
  have "safe_step s (snd (create_manual_report_revision ce v md r actor s))" for s
    unfolding create_manual_report_revision_def Let_def case_prod_beta
    by (rule op_relD) (auto intro!: command_rules)
  then show ?thesis by (simp add: op_rel_def)
qed

lemma revise_report_safe: "op_rel safe_step (revise_report ce i md r actor)"
  unfolding revise_report_def
  by (auto intro!: command_rules create_manual_report_revision_safe simp: case_prod_beta)

lemma release_gate_version_same: "snd (release_gate_for_version ce v actor a s) = s"
proof -
  obtain r where p: "project_or_error ce (rv_project_id v) actor a s = (r, s)"
    using lookup_same(1) by (metis prod.collapse)
  show ?thesis
    by (cases r) (simp_all add: release_gate_for_version_def seq_def p Let_def case_prod_beta split: sum.split)
qed

lemma enforce_version_gate_same: "snd (enforce_report_release_gate ce v actor s) = s"
proof -
  obtain r where p: "release_gate_for_version ce v actor ''report:write'' s = (r, s)"
    using release_gate_version_same by (metis prod.collapse)
  show ?thesis
    by (cases r) (simp_all add: enforce_report_release_gate_def seq_def p done_with_def fail_def)
qed

lemma enforce_version_gate_safe: "op_rel safe_step (enforce_report_release_gate ce v actor)"
  by (simp add: op_rel_def enforce_version_gate_same safe.R_refl)

lemma publish_report_safe: "op_rel safe_step (publish_report ce i actor)"
  unfolding publish_report_def Let_def
  by (auto intro!: command_rules enforce_version_gate_safe)

section \<open>Publication is guarded\<close>

lemma seq_Inr:
  assumes "seq m f s = (Inr y, t)"
  obtains x u where "m s = (Inr x, u)" "f x u = (Inr y, t)"
  using assms by (auto simp: seq_def split: prod.splits sum.splits)

lemma seq_Inl:
  assumes "seq m f s = (Inl e, t)"
  obtains "m s = (Inl e, t)" | x u where "m s = (Inr x, u)" "f x u = (Inl e, t)"
  using assms by (auto simp: seq_def split: prod.splits sum.splits)

definition access_granted ::
  "command_env \<Rightarrow> user_context \<Rightarrow> str \<Rightarrow> str \<Rightarrow> str \<Rightarrow> str \<Rightarrow> bool" where
  "access_granted ce actor workspace_id action target_type target_id =
     (case evaluate_access_policy (ce_post ce) actor workspace_id action target_type (Some target_id) of
        Inl _ \<Rightarrow> False | Inr d \<Rightarrow> pd_allowed d)"

lemma require_access_Inr:
  "require_workspace_access ce actor w a tt (Some i) s = (Inr x, u) \<longleftrightarrow>
     access_granted ce actor w a tt i \<and> u = s"
  by (auto simp: require_workspace_access_def access_granted_def split: sum.split)

lemma report_version_found:
  assumes "report_version_or_error ce i actor a s = (Inr v, u)"
  shows "get_report_version i s = Some v \<and> u = s
    \<and> access_granted ce actor (rv_workspace_id v) a ''report_version'' (rv_id v)"
  using assms by (auto simp: report_version_or_error_def done_with_def require_access_Inr
      split: option.splits elim!: seq_Inr)

lemma project_found:
  assumes "project_or_error ce i actor a s = (Inr p, u)"
  shows "get_project i s = Some p \<and> u = s
    \<and> access_granted ce actor (pj_workspace_id p) a ''project'' (pj_id p)"
  using assms by (auto simp: project_or_error_def done_with_def require_access_Inr
      split: option.splits elim!: seq_Inr)

text \<open>The release gate on the whole scope of a version, as the store holds it.\<close>

definition gate_verdict :: "command_env \<Rightarrow> store \<Rightarrow> report_version \<Rightarrow> project \<Rightarrow> py_error + release_gate" where
  "gate_verdict ce s v p =
     (case report_release_gate_scope v p s None of (cps, evs, cls) \<Rightarrow>
        ge_release_gate (ce_gate ce) p v cps evs cls (list_source_registry (Some (pj_workspace_id p)) s))"

lemma release_gate_passed:
  assumes "enforce_report_release_gate ce v actor s = (Inr gate, u)"
  obtains p where "get_project (rv_project_id v) s = Some p" "pj_workspace_id p = rv_workspace_id v"
    "access_granted ce actor (pj_workspace_id p) ''report:write'' ''project'' (pj_id p)"
    "gate_verdict ce s v p = Inr gate" "rg_allowed gate" "u = s"
proof -
  obtain g w where g: "release_gate_for_version ce v actor ''report:write'' s = (Inr g, w)"
    and ok: "rg_allowed g" "g = gate" "w = u"
    using assms by (auto simp: enforce_report_release_gate_def done_with_def fail_def
        split: if_splits elim!: seq_Inr)
  obtain p x where p: "project_or_error ce (rv_project_id v) actor ''report:write'' s = (Inr p, x)"
    and rest: "(\<lambda>p s.
       if pj_workspace_id p \<noteq> rv_workspace_id v then
         (Inl (Rejected 400 (DText ''Report workspace does not match project'') None), s)
       else
         let (cps, evs, cls) = report_release_gate_scope v p s None
         in (case ge_release_gate (ce_gate ce) p v cps evs cls
                 (list_source_registry (Some (pj_workspace_id p)) s) of
               Inl e \<Rightarrow> (Inl (Raised e), s)
             | Inr gate \<Rightarrow> (Inr gate, s))) p x = (Inr g, w)"
    using g unfolding release_gate_for_version_def by (rule seq_Inr)
  have x: "x = s" using project_found[OF p] by simp
  have "pj_workspace_id p = rv_workspace_id v" "gate_verdict ce s v p = Inr gate" "u = s"
    using rest ok unfolding x gate_verdict_def
    by (auto simp: split_beta split: if_splits sum.splits)
  then show ?thesis using that project_found[OF p] ok by blast
qed

definition publish_rest ::
  "command_env \<Rightarrow> report_version \<Rightarrow> user_context \<Rightarrow> release_gate \<Rightarrow> command_result command" where
  "publish_rest ce version actor gate =
     (let i = command_id (ce_env ce) ''publish_report'' actor (Some (rv_id version));
          contract = ce_evalops ce version
      in if se_evalops_release_mode (ce_settings ce) = ''blocking'' \<and> \<not> ec_allowed contract then
           fail (Rejected 409 (DFields
             [(''status'', JStr ''blocked''), (''reason'', JStr ''evalops_release_contract_blocked''),
              (''message'', JStr (ec_reason contract)),
              (''report_version_id'', JStr (rv_id version)), (''command_id'', JStr i),
              (''evalops_release_contract'', JDict (ec_dump contract))])
             (Some ''publish_report''))
         else
           seq (lift_op (upsert_report_version (ce_env ce)
               (published_version ce version gate contract actor))) (\<lambda>stored.
             seq (lift_step (audit_report_version_transition (ce_env ce) stored
                 ''report_version.published'' (Some (us_user_id actor)) (Some (rv_status version)) ''''
                 (Some (correlation_fields i
                   @ [(''publication'', metadata_get ''publication'' (JDict []) stored),
                      (''hitl_lifecycle'', metadata_get ''hitl_lifecycle'' (JList []) stored),
                      (''release_gate'', JDict (report_release_gate_snapshot (Some gate))),
                      (''evalops_release_contract'', JDict (ec_dump contract))])))) (\<lambda>_.
               done_with (report_result i ''publish_report'' ''succeeded'' stored ''enterprise''
                 (PReport stored)
                 [(''release_gate'', JDict (report_release_gate_snapshot (Some gate))),
                  (''evalops_release_contract'', JDict (ec_dump contract))]))))"

lemma publish_report_unfold:
  "publish_report ce i actor = seq (report_version_or_error ce i actor ''report:write'') (\<lambda>v.
     if rv_status v \<in> {''approved'', ''published''}
     then seq (enforce_report_release_gate ce v actor) (publish_rest ce v actor)
     else fail (Rejected 409 (DFields
              [(''status'', JStr ''blocked''), (''reason'', JStr ''report_approval_required''),
               (''message'', JStr ''Report version must be approved before it can be published.''),
               (''report_version_id'', JStr (rv_id v)), (''current_status'', JStr (rv_status v)),
               (''command_id'', JStr (command_id (ce_env ce) ''publish_report'' actor (Some (rv_id v))))])
              (Some ''publish_report'')))"
  unfolding publish_report_def publish_rest_def Let_def by (intro arg_cong2[where f = seq] refl ext) auto
lemma upsert_raises_unchanged: "upsert_report_version env v s = (Inl e, t) \<Longrightarrow> t = s"
  by (auto simp: upsert_report_version_def Let_def split: sum.splits)

lemma audit_transition_result:
  "st_reports (audit_report_version_transition env v a (Some u) b r md s) = st_reports s"
  "al_action (last (st_audit (audit_report_version_transition env v a (Some u) b r md s))) = a"
  "al_resource_id (last (st_audit (audit_report_version_transition env v a (Some u) b r md s))) = rv_id v"
  "al_actor_id (last (st_audit (audit_report_version_transition env v a (Some u) b r md s)))
     = Some (or_str (Some u) default_user_id)"
  by (simp_all add: audit_report_version_transition_def append_audit_def audit_of_def)

lemma published_version_fields:
  "rv_id (published_version ce v gate c actor) = rv_id v"
  "rv_status (published_version ce v gate c actor) = ''published''"
  by (simp_all add: published_version_def mark_report_published_def Let_def)

lemma publish_rest_rejects:
  assumes "publish_rest ce v actor gate s = (Inl e, t)"
  shows "t = s"
  using assms unfolding publish_rest_def Let_def
  by (auto simp: fail_def done_with_def lift_op_def lift_step_def
      split: if_splits prod.splits sum.splits elim!: seq_Inl dest: upsert_raises_unchanged)

lemma publish_rest_publishes:
  assumes "publish_rest ce v actor gate s = (Inr r, t)"
  shows "(if se_evalops_release_mode (ce_settings ce) = ''blocking'' then ec_allowed (ce_evalops ce v) else True)
    \<and> (\<exists>w. map_of (st_reports t) (rv_id v) = Some w \<and> rv_status w = ''published'' \<and> rs_payload r = PReport w)
    \<and> al_action (last (st_audit t)) = ''report_version.published''
    \<and> al_resource_id (last (st_audit t)) = rv_id v
    \<and> al_actor_id (last (st_audit t)) = Some (or_str (Some (us_user_id actor)) default_user_id)"
proof -
  let ?pv = "published_version ce v gate (ce_evalops ce v) actor"
  let ?blocked = "se_evalops_release_mode (ce_settings ce) = ''blocking'' \<and> \<not> ec_allowed (ce_evalops ce v)"
  have nb: "\<not> ?blocked"
  proof
    assume ?blocked
    then show False using assms unfolding publish_rest_def Let_def by (simp only: if_True) (simp add: fail_def)
  qed
  obtain q u where q: "upsert_report_version (ce_env ce) ?pv s = (q, u)" by fastforce
  show ?thesis
  proof (cases q)
    case (Inl e)
    then show ?thesis using assms nb q by (simp add: publish_rest_def Let_def seq_def lift_op_def)
  next
    case (Inr w)
    note w = upsert_report_version_result[OF q[unfolded Inr]]
    show ?thesis using assms nb q Inr w
      by (auto simp: publish_rest_def Let_def seq_def lift_op_def lift_step_def done_with_def
          report_result_def audit_transition_result published_version_fields)
  qed
qed

lemma publish_outcome:
  "case publish_report ce i actor s of
     (Inl e, t) \<Rightarrow> t = s
   | (Inr r, t) \<Rightarrow> (\<exists>v p gate w. get_report_version i s = Some v \<and> rv_status v \<in> {''approved'', ''published''}
       \<and> access_granted ce actor (rv_workspace_id v) ''report:write'' ''report_version'' (rv_id v)
       \<and> get_project (rv_project_id v) s = Some p \<and> pj_workspace_id p = rv_workspace_id v
       \<and> access_granted ce actor (pj_workspace_id p) ''report:write'' ''project'' (pj_id p)
       \<and> gate_verdict ce s v p = Inr gate \<and> rg_allowed gate
       \<and> (if se_evalops_release_mode (ce_settings ce) = ''blocking'' then ec_allowed (ce_evalops ce v) else True)
       \<and> map_of (st_reports t) (rv_id v) = Some w \<and> rv_status w = ''published'' \<and> rs_payload r = PReport w
       \<and> al_action (last (st_audit t)) = ''report_version.published''
       \<and> al_resource_id (last (st_audit t)) = rv_id v
       \<and> al_actor_id (last (st_audit t)) = Some (or_str (Some (us_user_id actor)) default_user_id))"
proof -
  obtain q t where run: "publish_report ce i actor s = (q, t)" by fastforce
  let ?cont = "\<lambda>v. if rv_status v \<in> {''approved'', ''published''}
     then seq (enforce_report_release_gate ce v actor) (publish_rest ce v actor)
     else fail (Rejected 409 (DFields
              [(''status'', JStr ''blocked''), (''reason'', JStr ''report_approval_required''),
               (''message'', JStr ''Report version must be approved before it can be published.''),
               (''report_version_id'', JStr (rv_id v)), (''current_status'', JStr (rv_status v)),
               (''command_id'', JStr (command_id (ce_env ce) ''publish_report'' actor (Some (rv_id v))))])
              (Some ''publish_report''))"
  note run' = run[unfolded publish_report_unfold]
  show ?thesis
  proof (cases q)
    case (Inl e)
    from run'[unfolded Inl] have "t = s"
    proof (rule seq_Inl)
      assume "report_version_or_error ce i actor ''report:write'' s = (Inl e, t)"
      then show ?thesis using lookup_same(3) by (metis snd_conv)
    next
      fix v u assume v: "report_version_or_error ce i actor ''report:write'' s = (Inr v, u)"
        and rest: "?cont v u = (Inl e, t)"
      show ?thesis
      proof (cases "rv_status v \<in> {''approved'', ''published''}")
        case True
        with rest have "seq (enforce_report_release_gate ce v actor) (publish_rest ce v actor) s = (Inl e, t)"
          using report_version_found[OF v] by simp
        then show ?thesis
          by (rule seq_Inl) (use enforce_version_gate_same publish_rest_rejects in \<open>metis snd_conv\<close>)+
      next
        case False
        then show ?thesis using rest report_version_found[OF v] by (auto simp: fail_def)
      qed
    qed
    then show ?thesis unfolding run Inl by simp
  next
    case (Inr r)
    obtain v u where v: "report_version_or_error ce i actor ''report:write'' s = (Inr v, u)"
      and rest: "?cont v u = (Inr r, t)" using run'[unfolded Inr] by (rule seq_Inr)
    note found = report_version_found[OF v]
    from rest have st: "rv_status v \<in> {''approved'', ''published''}"
      and "seq (enforce_report_release_gate ce v actor) (publish_rest ce v actor) s = (Inr r, t)"
      using found by (auto simp: fail_def split: if_splits)
    then obtain gate x where gate: "enforce_report_release_gate ce v actor s = (Inr gate, x)"
      and last: "publish_rest ce v actor gate x = (Inr r, t)" by (elim seq_Inr)
    show ?thesis unfolding run Inr prod.case sum.case
      using release_gate_passed[OF gate] publish_rest_publishes[OF last] found st by metis
  qed
qed

text \<open>C4. A report version is published only if it is stored, approved or already published, the
  actor may write it and its project, the project is of the same workspace, the release gate on
  its whole scope admits it and, where EvalOps blocks releases, its contract allows it; then the
  stored version is published and the log ends with the actor's publication. A rejected or failed
  publication leaves the store as it was.\<close>

theorem publish_guarded:
  "case publish_report ce i actor s of
     (Inl e, t) \<Rightarrow> t = s
   | (Inr r, t) \<Rightarrow> (\<exists>v p gate w. get_report_version i s = Some v \<and> rv_status v \<in> {''approved'', ''published''}
       \<and> access_granted ce actor (rv_workspace_id v) ''report:write'' ''report_version'' (rv_id v)
       \<and> get_project (rv_project_id v) s = Some p \<and> pj_workspace_id p = rv_workspace_id v
       \<and> access_granted ce actor (pj_workspace_id p) ''report:write'' ''project'' (pj_id p)
       \<and> gate_verdict ce s v p = Inr gate \<and> rg_allowed gate
       \<and> (if se_evalops_release_mode (ce_settings ce) = ''blocking'' then ec_allowed (ce_evalops ce v) else True)
       \<and> map_of (st_reports t) (rv_id v) = Some w \<and> rv_status w = ''published'' \<and> rs_payload r = PReport w
       \<and> al_action (last (st_audit t)) = ''report_version.published''
       \<and> al_resource_id (last (st_audit t)) = rv_id v
       \<and> al_actor_id (last (st_audit t)) = Some (or_str (Some (us_user_id actor)) default_user_id))"
  by (rule publish_outcome)

end
