(* ===== verification/ReleaseProps.thy ===== *)
theory ReleaseProps
  imports GateProps CommandProps
begin

text \<open>
  The release gate behind the operations that ask it: what an approval and a publication through the
  modelled gate have behind them.
\<close>

definition with_release_gate :: "gate_settings \<Rightarrow> gate_env \<Rightarrow> gate_env" where
  "with_release_gate g e = e\<lparr>ge_release_gate := evaluate_report_release_gate g\<rparr>"

text \<open>A version of the store whose whole scope, as it stands, is releasable.\<close>

definition stored_releasable :: "gate_settings \<Rightarrow> store \<Rightarrow> report_version \<Rightarrow> project \<Rightarrow> bool" where
  "stored_releasable g s v p =
     (case report_release_gate_scope v p s None of (cps, es, cs) \<Rightarrow>
        (case gate_subject_of g p v cps es cs (list_source_registry (Some (pj_workspace_id p)) s) of
           Inl e \<Rightarrow> False
         | Inr j \<Rightarrow> releasable g v j))"

lemma scope_gate_releasable:
  assumes "(case report_release_gate_scope v p s None of (cps, es, cs) \<Rightarrow>
      evaluate_report_release_gate g p v cps es cs (list_source_registry (Some (pj_workspace_id p)) s)) = Inr gate"
    "rg_allowed gate"
  shows "stored_releasable g s v p"
proof -
  obtain cps es cs where scope: "report_release_gate_scope v p s None = (cps, es, cs)"
    by (cases "report_release_gate_scope v p s None")
  have e: "evaluate_report_release_gate g p v cps es cs (list_source_registry (Some (pj_workspace_id p)) s)
      = Inr gate"
    using assms(1) by (simp add: scope)
  show ?thesis
    by (rule gate_decision[OF e]) (use assms(2) in \<open>simp add: stored_releasable_def scope\<close>)
qed

lemma approval_gate_passed:
  assumes "approve_report_version (with_release_gate g e) env d s = (Inr st, t)"
  obtains v p where "get_report_version (ai_report_version_id d) s = Some v" "rv_status v = ''in_review''"
    "get_project (rv_project_id v) s = Some p" "stored_releasable g s v p"
proof -
  let ?ge = "with_release_gate g e"
  obtain v s0 where v: "require_report_version (ai_report_version_id d) s = (Inr v, s0)"
    and rest: "(if rv_status v \<noteq> ''in_review'' then
         op_raise (RuntimeError (''Report approval requires in_review status, got '' @ rv_status v @ ''.''))
       else op_bind (enforce_release_gate ?ge env v) (\<lambda>gate. store_decision env v
             (mark_report_approval_decision (ge_hitl_dump ?ge) (env_now env) v ''approved''
               (ai_approver_id d) (ai_note d) (Some gate) None) ''report_version.approved'' d
             [(''release_gate'', JDict (report_release_gate_snapshot (Some gate)))])) s0 = (Inr st, t)"
    using assms unfolding approve_report_version_def by (blast dest: bind_Inr)
  have found: "get_report_version (ai_report_version_id d) s = Some v" "s0 = s"
    using v by (auto simp: require_report_version_def split: option.splits)
  have review: "rv_status v = ''in_review''"
    using rest by (cases "rv_status v = ''in_review''") (simp_all add: op_raise_def)
  then obtain gate u where gate: "enforce_release_gate ?ge env v s = (Inr gate, u)"
    using rest found by (auto dest: bind_Inr)
  then obtain x w where x: "release_gate_for ?ge v s = (Inr x, w)" and same: "rg_allowed x"
    unfolding enforce_release_gate_def
    by (auto simp: op_bind_def op_modify_def op_raise_def op_return_def split: if_splits prod.splits sum.splits)
  obtain p where p: "get_project (rv_project_id v) s = Some p"
    using x by (cases "get_project (rv_project_id v) s") (simp_all add: release_gate_for_def)
  have "stored_releasable g s v p"
    by (rule scope_gate_releasable[where gate = x])
      (use x p same in \<open>auto simp: release_gate_for_def with_release_gate_def split: prod.splits\<close>)
  with that found review p show thesis by blast
qed

text \<open>C5. With the release gate of the code in place, approving succeeds only for a stored version in
  review, and publishing only for one that is approved or published already, and in both cases the
  version, judged on its whole scope in the store at that moment, is releasable.\<close>

theorem released_versions_releasable:
  "(case approve_report_version (with_release_gate g e) env d s of
      (Inl x, t) \<Rightarrow> True
    | (Inr st, t) \<Rightarrow> \<exists>v p. get_report_version (ai_report_version_id d) s = Some v
        \<and> rv_status v = ''in_review'' \<and> get_project (rv_project_id v) s = Some p
        \<and> stored_releasable g s v p)
   \<and> (case publish_report (ce\<lparr>ce_gate := with_release_gate g e\<rparr>) i actor s of
      (Inl x, t) \<Rightarrow> t = s
    | (Inr r, t) \<Rightarrow> \<exists>v p w. get_report_version i s = Some v \<and> rv_status v \<in> {''approved'', ''published''}
        \<and> get_project (rv_project_id v) s = Some p \<and> pj_workspace_id p = rv_workspace_id v
        \<and> stored_releasable g s v p
        \<and> map_of (st_reports t) (rv_id v) = Some w \<and> rv_status w = ''published'')"
proof (intro conjI)
  show "case approve_report_version (with_release_gate g e) env d s of
      (Inl x, t) \<Rightarrow> True
    | (Inr st, t) \<Rightarrow> \<exists>v p. get_report_version (ai_report_version_id d) s = Some v
        \<and> rv_status v = ''in_review'' \<and> get_project (rv_project_id v) s = Some p
        \<and> stored_releasable g s v p"
    by (auto split: prod.split sum.split elim: approval_gate_passed)
next
  let ?ce = "ce\<lparr>ce_gate := with_release_gate g e\<rparr>"
  obtain q t where run: "publish_report ?ce i actor s = (q, t)" by fastforce
  have "\<exists>v p w. get_report_version i s = Some v \<and> rv_status v \<in> {''approved'', ''published''}
        \<and> get_project (rv_project_id v) s = Some p \<and> pj_workspace_id p = rv_workspace_id v
        \<and> stored_releasable g s v p
        \<and> map_of (st_reports t) (rv_id v) = Some w \<and> rv_status w = ''published''" if q: "q = Inr r" for r
  proof -
    obtain v p gate w where h: "get_report_version i s = Some v" "rv_status v \<in> {''approved'', ''published''}"
      "get_project (rv_project_id v) s = Some p" "pj_workspace_id p = rv_workspace_id v"
      "gate_verdict ?ce s v p = Inr gate" "rg_allowed gate"
      "map_of (st_reports t) (rv_id v) = Some w" "rv_status w = ''published''"
      using publish_outcome[where ce = ?ce and i = i and actor = actor and s = s] unfolding run q prod.case sum.case by blast
    have "stored_releasable g s v p"
      by (rule scope_gate_releasable[OF _ h(6)])
        (use h(5) in \<open>simp add: gate_verdict_def with_release_gate_def\<close>)
    with h show ?thesis by blast
  qed
  then show "case publish_report ?ce i actor s of
      (Inl x, t) \<Rightarrow> t = s
    | (Inr r, t) \<Rightarrow> \<exists>v p w. get_report_version i s = Some v \<and> rv_status v \<in> {''approved'', ''published''}
        \<and> get_project (rv_project_id v) s = Some p \<and> pj_workspace_id p = rv_workspace_id v
        \<and> stored_releasable g s v p
        \<and> map_of (st_reports t) (rv_id v) = Some w \<and> rv_status w = ''published''"
    using publish_outcome[where ce = ?ce and i = i and actor = actor and s = s] unfolding run by (cases q) auto
qed

end
