(* ===== verification/EvidenceGaps.thy ===== *)
theory EvidenceGaps
  imports BusinessQA Redo
begin

text \<open>
  business_intel/evidence_gaps.py and red_team.py: the gaps in the evidence of a project, the new
  dimensions they suggest a schema for, and the challenges of the red team. Both agents run their
  deterministic handler; the fields that describe the agent framework are constants and left out.
\<close>

section \<open>Gaps\<close>

definition gap_of ::
  "str \<Rightarrow> str \<Rightarrow> str option \<Rightarrow> str option \<Rightarrow> str option \<Rightarrow> str option \<Rightarrow> str \<Rightarrow> str \<Rightarrow> str list
    \<Rightarrow> str list \<Rightarrow> gap_item" where
  "gap_of severity gap_type competitor_id competitor_name dimension source_type message query
     evidence_ids claim_ids =
     \<lparr>gi_id = compute_evidence_gap_id severity gap_type competitor_id dimension message evidence_ids claim_ids,
      gi_severity = severity, gi_gap_type = gap_type, gi_competitor_id = competitor_id,
      gi_competitor_name = competitor_name, gi_dimension = dimension,
      gi_source_type_required = source_type, gi_message = message, gi_recommended_query = query,
      gi_retrieval_query = '''', gi_retrieval_candidate_chunk_count = 0,
      gi_retrieval_unique_evidence_count = 0, gi_retrieval_dedupe_drop_count = 0,
      gi_retrieval_candidate_ids = [], gi_retrieval_records = [], gi_retrieval_grounded_context = '''',
      gi_evidence_ids = evidence_ids, gi_claim_ids = claim_ids, gi_source_finding_ids = [],
      gi_required_action = '''', gi_acceptance_rule = ''''\<rparr>"

definition gap_query :: "str \<Rightarrow> str \<Rightarrow> str" where
  "gap_query competitor_name dimension =
     (if dimension = ''pricing'' then competitor_name @ '' pricing official''
      else if dimension = ''security'' then competitor_name @ '' security trust center official''
      else if dimension = ''integrations'' then
        competitor_name @ '' integrations documentation official''
      else if dimension = ''market'' then competitor_name @ '' market positioning evidence''
      else competitor_name @ '' '' @ dimension @ '' official documentation'')"

definition coverage_gap :: "competitor \<Rightarrow> str \<Rightarrow> evidence list \<Rightarrow> gap_item list" where
  "coverage_gap cp dimension es =
     (let usable = matching_evidence cp dimension es;
          query = gap_query (cp_name cp) dimension
      in if usable = [] then
           [gap_of ''high'' ''missing_dimension_coverage'' (Some (cp_id cp)) (Some (cp_name cp))
             (Some dimension) (Some ''any usable source'')
             (cp_name cp @ '' has no usable evidence for '' @ dimension @ ''.'') query [] []]
         else if \<not> list_ex (\<lambda>e. ev_source_type e = ''webpage_verified'') usable then
           [gap_of ''medium'' ''missing_verified_source'' (Some (cp_id cp)) (Some (cp_name cp))
             (Some dimension) (Some ''webpage_verified'')
             (cp_name cp @ '' has '' @ dimension @ '' evidence, but no verified source.'') query
             (map ev_id usable) []]
         else [])"

definition coverage_gaps :: "business_plan \<Rightarrow> competitor list \<Rightarrow> evidence list \<Rightarrow> gap_item list" where
  "coverage_gaps plan cps es =
     concat (map (\<lambda>(cp, d). coverage_gap cp d es)
       (List.product cps (effective_analysis_dimensions plan)))"

definition competitor_by_id :: "competitor list \<Rightarrow> str \<Rightarrow> competitor option" where
  "competitor_by_id cps = map_of (rev (map (\<lambda>c. (cp_id c, c)) cps))"

definition quality_gaps :: "evidence list \<Rightarrow> competitor list \<Rightarrow> gap_item list" where
  "quality_gaps es cps =
     map (\<lambda>e. let cp = competitor_by_id cps (ev_competitor_id e)
         in gap_of ''medium'' ''stale_or_rejected_evidence'' (map_option cp_id cp) (map_option cp_name cp)
           (Some (ev_dimension e)) None
           (ev_title e @ '' is marked '' @ ev_quality_label e @ '' and will not support claims.'')
           (gap_query (case cp of Some c \<Rightarrow> cp_name c | None \<Rightarrow> ev_competitor_id e) (ev_dimension e))
           [ev_id e] [])
       (filter (\<lambda>e. bad_quality (ev_quality_label e)) es)"

definition claim_gaps :: "claim list \<Rightarrow> evidence list \<Rightarrow> gap_item list" where
  "claim_gaps cs es =
     map (\<lambda>c. gap_of ''critical'' ''claim_without_usable_evidence'' None None (Some (cl_claim_type c)) None
         ''Claim has no accepted or unreviewed evidence after quality filtering.''
         (cl_claim_type c @ '' official evidence'') (cl_evidence_ids c) [cl_id c])
       (filter (\<lambda>c. usable_for_claim es c = []) cs)"

definition landscape_gaps :: "business_plan \<Rightarrow> competitor list \<Rightarrow> gap_item list" where
  "landscape_gaps plan cps =
     (if bp_layer plan \<noteq> ''L3'' \<or> 4 \<le> length cps then []
      else [gap_of ''medium'' ''landscape_breadth'' None None (Some ''market'') None
        ''L3 landscape analysis has fewer than four competitors.''
        (bp_topic plan @ '' market landscape competitors'') [] []])"

definition severity_from_qa :: "str \<Rightarrow> str" where
  "severity_from_qa severity =
     (if severity = ''blocker'' then ''critical'' else if severity = ''warn'' then ''high''
      else if severity = ''info'' then ''medium'' else ''low'')"

text \<open>The findings of the business QA that no gap so far is about.\<close>

definition qa_only_gaps :: "business_evaluation \<Rightarrow> gap_item list \<Rightarrow> gap_item list" where
  "qa_only_gaps ev existing =
     (let keys = map (\<lambda>g. (gi_competitor_id g, gi_dimension g, gi_claim_ids g, gi_evidence_ids g)) existing
      in map (\<lambda>f. gap_of (severity_from_qa (bf_severity f))
             (if bf_claim_ids f \<noteq> [] then ''claim_without_usable_evidence''
              else ''missing_dimension_coverage'')
             (bf_competitor_id f) (bf_competitor_name f) (bf_dimension f) None (bf_message f)
             (bf_recommendation f) (bf_evidence_ids f) (bf_claim_ids f))
           (filter (\<lambda>f. (bf_competitor_id f, bf_dimension f, bf_claim_ids f, bf_evidence_ids f) \<notin> set keys)
             (be_findings ev)))"

definition gap_severity_rank :: "str \<Rightarrow> int" where
  "gap_severity_rank severity =
     (if severity = ''critical'' then 0 else if severity = ''high'' then 1
      else if severity = ''medium'' then 2 else if severity = ''low'' then 3 else 4)"

definition gap_key :: "gap_item \<Rightarrow> str option \<times> str option \<times> str \<times> str list \<times> str list" where
  "gap_key g = (gi_competitor_id g, gi_dimension g, gi_gap_type g, gi_evidence_ids g, gi_claim_ids g)"

text \<open>Sorting by a pair is sorting by its second component and then, stably, by its first.\<close>

definition dedupe_gaps :: "gap_item list \<Rightarrow> gap_item list" where
  "dedupe_gaps gaps =
     sort_key (\<lambda>g. gap_severity_rank (gi_severity g))
       (sort_key gi_gap_type (keep_first gap_key (\<lambda>_. True) [] gaps))"

section \<open>New dimensions\<close>

definition schema_dimension_key :: "str \<Rightarrow> str" where
  "schema_dimension_key v =
     join ''_'' (split_ws (map (\<lambda>c. if c = CHR ''-'' then CHR '' '' else c) (strip (lower v))))"

definition draft_skill_spec :: "str \<Rightarrow> skill_spec" where
  "draft_skill_spec key =
     \<lparr>sk_name = key, sk_subagent_class = ''GenericCollector'',
      sk_description = ''Pending collector schema for '' @ key @ '' evidence discovered by gap analysis.'',
      sk_tools_allowlist = [''web_search'', ''robots_check'', ''fetch_page''],
      sk_query_templates = [''{competitor} '' @ key @ '' official documentation'',
        ''{competitor} '' @ key @ '' policy'', ''{competitor} '' @ key @ '' evidence''],
      sk_max_turns = 6, sk_source_type = ''webpage'',
      sk_output = \<lparr>sx_prefix = key, sx_confidence_default = 8/10, sx_confidence_no_url = 45/100,
        sx_required_dimension = key\<rparr>\<rparr>"

record schema_suggestion =
  ss_id :: str
  ss_dimension :: str
  ss_normalized_dimension :: str
  ss_reason :: str
  ss_source_gap_ids :: "str list"
  ss_proposed_skill :: skill_spec
  ss_generated_at :: datetime

definition known_dimensions :: "business_plan \<Rightarrow> str list" where
  "known_dimensions plan =
     map schema_dimension_key (filter (\<lambda>d. d \<noteq> '''')
       (bp_requested_dimensions plan @ sc_required_dimensions (bp_scenario_pack plan)
         @ sc_optional_dimensions (bp_scenario_pack plan)))"

definition suggests_dimension :: "business_plan \<Rightarrow> gap_item \<Rightarrow> bool" where
  "suggests_dimension plan g =
     (let key = schema_dimension_key (opt_text (gi_dimension g))
      in given (gi_dimension g) \<and> key \<noteq> '''' \<and> key \<notin> set (known_dimensions plan)
         \<and> gi_gap_type g \<in> {''missing_dimension_coverage'', ''claim_without_usable_evidence''})"

definition schema_evolution_suggestions ::
  "datetime \<Rightarrow> business_plan \<Rightarrow> gap_item list \<Rightarrow> schema_suggestion list" where
  "schema_evolution_suggestions now plan gaps =
     (let found = filter (suggests_dimension plan) gaps;
          key_of = (\<lambda>g. schema_dimension_key (opt_text (gi_dimension g)))
      in map (\<lambda>key. let same = filter (\<lambda>g. key_of g = key) found; ids = map gi_id same
           in \<lparr>ss_id = compute_schema_suggestion_id key ids,
               ss_dimension = or_str (gi_dimension (hd same)) key, ss_normalized_dimension = key,
               ss_reason = str_of_int (int (length same)) @ '' evidence gap(s) reference a dimension that ''
                 @ ''is not covered by the active scenario schema.'',
               ss_source_gap_ids = ids, ss_proposed_skill = draft_skill_spec key,
               ss_generated_at = now\<rparr>)
         (sorted_set (map key_of found)))"

record gap_report =
  gy_project_id :: str
  gy_scenario_id :: str
  gy_gap_count :: int
  gy_critical_count :: int
  gy_high_count :: int
  gy_medium_count :: int
  gy_low_count :: int
  gy_gaps :: "gap_item list"
  gy_schema_suggestions :: "schema_suggestion list"

definition gap_severity_count :: "str \<Rightarrow> gap_item list \<Rightarrow> int" where
  "gap_severity_count severity gaps = int (count_if (\<lambda>g. gi_severity g = severity) gaps)"

definition analyze_evidence_gaps ::
  "datetime \<Rightarrow> str \<Rightarrow> business_plan \<Rightarrow> business_evaluation \<Rightarrow> competitor list \<Rightarrow> evidence list \<Rightarrow> claim list
    \<Rightarrow> gap_report" where
  "analyze_evidence_gaps now project_id plan ev cps es cs =
     (let found = coverage_gaps plan cps es @ quality_gaps es cps @ claim_gaps cs es @ landscape_gaps plan cps;
          gaps = dedupe_gaps (found @ qa_only_gaps ev found)
      in \<lparr>gy_project_id = project_id, gy_scenario_id = sc_id (bp_scenario_pack plan),
          gy_gap_count = int (length gaps), gy_critical_count = gap_severity_count ''critical'' gaps,
          gy_high_count = gap_severity_count ''high'' gaps,
          gy_medium_count = gap_severity_count ''medium'' gaps,
          gy_low_count = gap_severity_count ''low'' gaps, gy_gaps = gaps,
          gy_schema_suggestions = schema_evolution_suggestions now plan gaps\<rparr>)"

section \<open>The red team\<close>

definition red_team_finding_of ::
  "str \<Rightarrow> str \<Rightarrow> str \<Rightarrow> str \<Rightarrow> str option \<Rightarrow> str option \<Rightarrow> str option \<Rightarrow> str list \<Rightarrow> str list
    \<Rightarrow> red_team_finding" where
  "red_team_finding_of severity finding_type message recommend competitor_id competitor_name dimension
     evidence_ids claim_ids =
     \<lparr>rt_id = compute_red_team_finding_id finding_type competitor_id dimension message (Some severity)
        evidence_ids claim_ids,
      rt_severity = severity, rt_finding_type = finding_type, rt_competitor_id = competitor_id,
      rt_competitor_name = competitor_name, rt_dimension = dimension, rt_message = message,
      rt_recommendation = recommend, rt_evidence_ids = evidence_ids, rt_claim_ids = claim_ids\<rparr>"

definition red_team_qa_findings :: "business_evaluation \<Rightarrow> red_team_finding list" where
  "red_team_qa_findings ev =
     map (\<lambda>f. red_team_finding_of (if bf_severity f = ''blocker'' then ''critical'' else ''high'')
         ''report_risk'' (bf_message f)
         (str_or (bf_recommendation f) ''Resolve this QA issue before using the report for a decision.'')
         (bf_competitor_id f) (bf_competitor_name f) (bf_dimension f) (bf_evidence_ids f) (bf_claim_ids f))
       (filter (\<lambda>f. bf_severity f \<in> {''blocker'', ''warn''}) (be_findings ev))"

definition claim_challenge :: "evidence list \<Rightarrow> competitor list \<Rightarrow> claim \<Rightarrow> red_team_finding list" where
  "claim_challenge es cps c =
     (let usable = usable_for_claim es c;
          name = map_option cp_name (competitor_by_id cps (cl_competitor_id c))
      in if usable = [] then
           [red_team_finding_of ''critical'' ''unsupported_claim''
             ''A claim is not backed by any usable EvidenceRecord.''
             ''Attach accepted evidence or remove the claim from the report.''
             (Some (cl_competitor_id c)) name (Some (cl_claim_type c)) (cl_evidence_ids c) [cl_id c]]
         else if cl_confidence c < 55/100 then
           [red_team_finding_of ''high'' ''weak_evidence''
             ''A low-confidence claim is still present in the decision record.''
             ''Collect stronger evidence or mark the claim as disputed.''
             (Some (cl_competitor_id c)) name (Some (cl_claim_type c)) (map ev_id usable) [cl_id c]]
         else [])"

definition red_team_claim_findings ::
  "claim list \<Rightarrow> evidence list \<Rightarrow> competitor list \<Rightarrow> red_team_finding list" where
  "red_team_claim_findings cs es cps = concat (map (claim_challenge es cps) cs)"

definition evidence_challenge :: "competitor list \<Rightarrow> evidence \<Rightarrow> red_team_finding list" where
  "evidence_challenge cps e =
     (let name = map_option cp_name (competitor_by_id cps (ev_competitor_id e))
      in if bad_quality (ev_quality_label e) then
           [red_team_finding_of ''high'' ''stale_or_rejected_evidence''
             (''Evidence is marked '' @ ev_quality_label e @ '' but remains in the project.'')
             ''Replace this evidence with current accepted evidence.''
             (Some (ev_competitor_id e)) name (Some (ev_dimension e)) [ev_id e] []]
         else if ev_reliability_score e < 1/2 then
           [red_team_finding_of ''high'' ''weak_evidence''
             ''Evidence reliability is below the Phase 3 reporting threshold.''
             ''Verify with an official page or independent trusted source.''
             (Some (ev_competitor_id e)) name (Some (ev_dimension e)) [ev_id e] []]
         else [])"

definition red_team_evidence_findings :: "evidence list \<Rightarrow> competitor list \<Rightarrow> red_team_finding list" where
  "red_team_evidence_findings es cps = concat (map (evidence_challenge cps) es)"

text \<open>The dimensions a competitor has no usable evidence on, compared letter by letter.\<close>

definition uncovered_dimensions :: "business_plan \<Rightarrow> evidence list \<Rightarrow> competitor \<Rightarrow> str list" where
  "uncovered_dimensions plan es cp =
     filter (\<lambda>d. count_if (\<lambda>e. \<not> bad_quality (ev_quality_label e) \<and> ev_competitor_id e = cp_id cp
         \<and> ev_dimension e = d) es = 0) (effective_analysis_dimensions plan)"

definition coverage_bias_findings ::
  "business_plan \<Rightarrow> evidence list \<Rightarrow> competitor list \<Rightarrow> red_team_finding list" where
  "coverage_bias_findings plan es cps =
     map (\<lambda>cp. red_team_finding_of ''high'' ''competitive_bias''
         ''The comparison may bias against a competitor with missing required evidence.''
         ''Collect missing evidence before ranking or recommending a winner.''
         (Some (cp_id cp)) (Some (cp_name cp)) (Some (join '', '' (uncovered_dimensions plan es cp))) [] [])
       (filter (\<lambda>cp. uncovered_dimensions plan es cp \<noteq> []) cps)"

text \<open>\<open>s.count("[source:")\<close>.\<close>

fun count_citations :: "nat \<Rightarrow> str \<Rightarrow> nat" where
  "count_citations skip [] = 0"
| "count_citations skip (c # s) =
     (if 0 < skip then count_citations (skip - 1) s
      else if starts_with ''[source:'' (c # s) then Suc (count_citations 7 s)
      else count_citations 0 s)"

definition red_team_report_findings :: "report_version list \<Rightarrow> red_team_finding list" where
  "red_team_report_findings versions =
     (case versions of
        [] \<Rightarrow>
          [red_team_finding_of ''high'' ''report_risk'' ''No ReportVersion exists for this project.''
            ''Generate a report version after evidence and claims are projected.'' None None None [] []]
      | v # _ \<Rightarrow>
          if count_citations 0 (rv_report_md v) < max 1 (length (rv_claim_ids v) div 2) then
            [red_team_finding_of ''high'' ''report_risk''
              ''The latest report has weak citation density relative to projected claims.''
              ''Rewrite the report with source references for factual claims.'' None None None
              (rv_evidence_ids v) (rv_claim_ids v)]
          else [])"

definition red_team_key :: "red_team_finding \<Rightarrow> str" where
  "red_team_key f =
     join ''|'' [rt_finding_type f, opt_text (rt_competitor_id f), opt_text (rt_dimension f),
       join '','' (rt_evidence_ids f), join '','' (rt_claim_ids f)]"

definition dedupe_red_team :: "red_team_finding list \<Rightarrow> red_team_finding list" where
  "dedupe_red_team fs =
     sort_key (\<lambda>f. gap_severity_rank (rt_severity f))
       (sort_key rt_finding_type (keep_first red_team_key (\<lambda>_. True) [] fs))"

record red_team_report =
  rp_project :: str
  rp_finding_count :: int
  rp_high_severity_count :: int
  rp_findings :: "red_team_finding list"

definition analyze_red_team ::
  "str \<Rightarrow> business_plan \<Rightarrow> business_evaluation \<Rightarrow> competitor list \<Rightarrow> evidence list \<Rightarrow> claim list
    \<Rightarrow> report_version list \<Rightarrow> red_team_report" where
  "analyze_red_team project_id plan ev cps es cs versions =
     (let fs = dedupe_red_team (red_team_qa_findings ev @ red_team_claim_findings cs es cps
            @ red_team_evidence_findings es cps @ coverage_bias_findings plan es cps
            @ red_team_report_findings versions)
      in \<lparr>rp_project = project_id, rp_finding_count = int (length fs),
          rp_high_severity_count = int (count_if (\<lambda>f. rt_severity f \<in> {''critical'', ''high''}) fs),
          rp_findings = fs\<rparr>)"

end
