(* ===== verification/GapProps.thy ===== *)
theory GapProps
  imports EvidenceGaps
begin

text \<open>
  What the gap analysis and the red team guarantee: a silent report means the evidence is complete, a
  missing piece of evidence is collected again, and the red team counts every finding as severe.
\<close>

section \<open>Gaps\<close>

lemma gap_of_fields [simp]:
  "gi_severity (gap_of s t c n d st m q es cs) = s" "gi_gap_type (gap_of s t c n d st m q es cs) = t"
  "gi_competitor_id (gap_of s t c n d st m q es cs) = c"
  "gi_competitor_name (gap_of s t c n d st m q es cs) = n"
  "gi_dimension (gap_of s t c n d st m q es cs) = d"
  "gi_evidence_ids (gap_of s t c n d st m q es cs) = es" "gi_claim_ids (gap_of s t c n d st m q es cs) = cs"
  by (simp_all add: gap_of_def)

lemma set_dedupe_gaps: "set (dedupe_gaps gs) = set (keep_first gap_key (\<lambda>_. True) [] gs)"
  by (simp add: dedupe_gaps_def)

lemma dedupe_gaps_Nil: "(dedupe_gaps gs = []) = (gs = [])"
proof -
  have "(set (dedupe_gaps gs) = {}) = (gs = [])"
    unfolding set_dedupe_gaps by (cases gs) simp_all
  then show ?thesis by simp
qed

lemma dedupe_gaps_distinct: "distinct (map gap_key (dedupe_gaps gs))"
  using kf.dd_distinct[of gap_key "\<lambda>_. True" gs] by (simp add: dedupe_gaps_def distinct_map)

text \<open>A gap that is dropped has a gap of its own group, found no later, in its place.\<close>

lemma kept_gap:
  assumes "g \<in> set gs" shows "\<exists>g' \<in> set gs. gap_key g' = gap_key g \<and> g' \<in> set (dedupe_gaps (gs @ hs))"
proof -
  have "gap_key g \<in> gap_key ` set (keep_first gap_key (\<lambda>_. True) [] gs)"
    unfolding kf.dd_keys using assms by blast
  then obtain g' where g': "g' \<in> set (keep_first gap_key (\<lambda>_. True) [] gs)" "gap_key g' = gap_key g" by force
  moreover obtain zs where "keep_first gap_key (\<lambda>_. True) [] (gs @ hs)
      = keep_first gap_key (\<lambda>_. True) [] gs @ zs"
    using kf.dd_extend[of gap_key "\<lambda>_. True" gs hs] by blast
  ultimately show ?thesis using kf.dd_subset[of gap_key "\<lambda>_. True" gs]
    unfolding set_dedupe_gaps by auto
qed

definition gap_severities :: "str list" where
  "gap_severities = [''critical'', ''high'', ''medium'', ''low'']"

definition found_gaps :: "business_plan \<Rightarrow> competitor list \<Rightarrow> evidence list \<Rightarrow> claim list \<Rightarrow> gap_item list" where
  "found_gaps plan cps es cs =
     coverage_gaps plan cps es @ quality_gaps es cps @ claim_gaps cs es @ landscape_gaps plan cps"

lemma coverage_gap_severity: "g \<in> set (coverage_gap cp d es) \<Longrightarrow> gi_severity g \<in> set gap_severities"
  by (simp add: coverage_gap_def Let_def gap_severities_def split: if_splits)

lemma found_severities: "g \<in> set (found_gaps plan cps es cs) \<Longrightarrow> gi_severity g \<in> set gap_severities"
proof -
  have "g \<in> set (coverage_gaps plan cps es) \<Longrightarrow> gi_severity g \<in> set gap_severities"
    unfolding coverage_gaps_def using coverage_gap_severity by fastforce
  moreover have "g \<in> set (quality_gaps es cps) \<Longrightarrow> gi_severity g \<in> set gap_severities"
    by (auto simp: quality_gaps_def Let_def gap_severities_def)
  moreover have "g \<in> set (claim_gaps cs es) \<Longrightarrow> gi_severity g \<in> set gap_severities"
    by (auto simp: claim_gaps_def gap_severities_def)
  moreover have "g \<in> set (landscape_gaps plan cps) \<Longrightarrow> gi_severity g \<in> set gap_severities"
    by (simp add: landscape_gaps_def gap_severities_def split: if_splits)
  ultimately show "g \<in> set (found_gaps plan cps es cs) \<Longrightarrow> gi_severity g \<in> set gap_severities"
    unfolding found_gaps_def by auto
qed

lemma qa_severities: "g \<in> set (qa_only_gaps ev gs) \<Longrightarrow> gi_severity g \<in> set gap_severities"
proof -
  have "severity_from_qa s \<in> set gap_severities" for s
    by (simp add: severity_from_qa_def gap_severities_def)
  then show "g \<in> set (qa_only_gaps ev gs) \<Longrightarrow> gi_severity g \<in> set gap_severities"
    by (auto simp: qa_only_gaps_def Let_def)
qed

lemma severity_counts:
  "list_all (\<lambda>g. gi_severity g \<in> set gap_severities) gs \<Longrightarrow>
   gap_severity_count ''critical'' gs + gap_severity_count ''high'' gs + gap_severity_count ''medium'' gs
     + gap_severity_count ''low'' gs = int (length gs)"
  by (induction gs) (auto simp: gap_severity_count_def gap_severities_def loop_simps)

lemma report_gaps:
  "gy_gaps (analyze_evidence_gaps now i plan ev cps es cs)
     = dedupe_gaps (found_gaps plan cps es cs @ qa_only_gaps ev (found_gaps plan cps es cs))"
  by (simp add: analyze_evidence_gaps_def found_gaps_def Let_def)

lemma qa_only_gaps_none: "qa_only_gaps ev [] = [] \<longleftrightarrow> be_findings ev = []"
  by (simp add: qa_only_gaps_def Let_def)

lemma coverage_gap_Nil:
  "(coverage_gap cp d es = []) = list_ex (\<lambda>e. ev_source_type e = ''webpage_verified'') (matching_evidence cp d es)"
  by (auto simp: coverage_gap_def Let_def list_ex_iff)

lemma found_none:
  "(found_gaps plan cps es cs = []) =
     (list_all (\<lambda>(cp, d). list_ex (\<lambda>e. ev_source_type e = ''webpage_verified'') (matching_evidence cp d es))
        (List.product cps (effective_analysis_dimensions plan))
      \<and> list_all (\<lambda>e. \<not> bad_quality (ev_quality_label e)) es
      \<and> list_all (\<lambda>c. usable_for_claim es c \<noteq> []) cs
      \<and> (bp_layer plan \<noteq> ''L3'' \<or> 4 \<le> length cps))"
proof -
  have "(coverage_gaps plan cps es = []) = list_all (\<lambda>(cp, d). list_ex
      (\<lambda>e. ev_source_type e = ''webpage_verified'') (matching_evidence cp d es))
        (List.product cps (effective_analysis_dimensions plan))"
    unfolding coverage_gaps_def concat_eq_Nil_conv coverage_gap_Nil[symmetric] list_all_iff by auto
  moreover have "(quality_gaps es cps = []) = list_all (\<lambda>e. \<not> bad_quality (ev_quality_label e)) es"
    by (simp add: quality_gaps_def filter_empty_conv list_all_iff)
  moreover have "(claim_gaps cs es = []) = list_all (\<lambda>c. usable_for_claim es c \<noteq> []) cs"
    by (simp add: claim_gaps_def filter_empty_conv list_all_iff)
  moreover have "(landscape_gaps plan cps = []) = (bp_layer plan \<noteq> ''L3'' \<or> 4 \<le> length cps)"
    by (simp add: landscape_gaps_def)
  ultimately show ?thesis by (simp only: found_gaps_def append_is_Nil_conv conj_assoc)
qed

text \<open>The gap report of a project is empty exactly when every competitor has verified, usable evidence on
  every dimension of the analysis, no evidence is stale or rejected, every claim has usable
  evidence, a landscape has four competitors and the business QA has no finding. Its gaps are the
  most severe first, no two of one group, and its counts partition them.\<close>

theorem gap_report_exact:
  "let r = analyze_evidence_gaps now i plan ev cps es cs
   in (gy_gaps r = []) =
        (list_all (\<lambda>(cp, d). list_ex (\<lambda>e. ev_source_type e = ''webpage_verified'') (matching_evidence cp d es))
           (List.product cps (effective_analysis_dimensions plan))
         \<and> list_all (\<lambda>e. \<not> bad_quality (ev_quality_label e)) es
         \<and> list_all (\<lambda>c. usable_for_claim es c \<noteq> []) cs
         \<and> (if bp_layer plan = ''L3'' then 4 \<le> length cps else True) \<and> be_findings ev = [])
      \<and> sorted (map (\<lambda>g. gap_severity_rank (gi_severity g)) (gy_gaps r)) \<and> distinct (map gap_key (gy_gaps r))
      \<and> gy_critical_count r + gy_high_count r + gy_medium_count r + gy_low_count r = gy_gap_count r
      \<and> gy_gap_count r = int (length (gy_gaps r))"
proof -
  let ?r = "analyze_evidence_gaps now i plan ev cps es cs"
  let ?f = "found_gaps plan cps es cs"
  have "(gy_gaps ?r = []) = (?f = [] \<and> be_findings ev = [])"
    unfolding report_gaps dedupe_gaps_Nil append_is_Nil_conv using qa_only_gaps_none by metis
  moreover have "list_all (\<lambda>g. gi_severity g \<in> set gap_severities) (gy_gaps ?r)"
    unfolding report_gaps list_all_iff set_dedupe_gaps
    using kf.dd_subset[of gap_key "\<lambda>_. True" "?f @ qa_only_gaps ev ?f"] found_severities qa_severities
    by fastforce
  note sums = severity_counts[OF this]
  moreover have "sorted (map (\<lambda>g. gap_severity_rank (gi_severity g)) (gy_gaps ?r))"
    unfolding report_gaps dedupe_gaps_def by simp
  moreover have "distinct (map gap_key (gy_gaps ?r))"
    unfolding report_gaps by (rule dedupe_gaps_distinct)
  moreover have "gy_critical_count ?r = gap_severity_count ''critical'' (gy_gaps ?r)"
    "gy_high_count ?r = gap_severity_count ''high'' (gy_gaps ?r)"
    "gy_medium_count ?r = gap_severity_count ''medium'' (gy_gaps ?r)"
    "gy_low_count ?r = gap_severity_count ''low'' (gy_gaps ?r)" "gy_gap_count ?r = int (length (gy_gaps ?r))"
    by (simp_all add: analyze_evidence_gaps_def Let_def)
  ultimately show ?thesis unfolding Let_def found_none by auto
qed

section \<open>From a gap to the collection\<close>

lemma missing_coverage_gap:
  assumes "g \<in> set (coverage_gaps plan cps es)" "gi_gap_type g = ''missing_dimension_coverage''"
  obtains cp d where "cp \<in> set cps" "gi_competitor_id g = Some (cp_id cp)"
    "gi_competitor_name g = Some (cp_name cp)" "gi_dimension g = Some d" "gi_severity g = ''high''"
proof -
  obtain cp d where cp: "cp \<in> set cps" "g \<in> set (coverage_gap cp d es)"
    using assms(1) by (auto simp: coverage_gaps_def)
  with assms(2) have "gi_competitor_id g = Some (cp_id cp)" "gi_competitor_name g = Some (cp_name cp)"
    "gi_dimension g = Some d" "gi_severity g = ''high''"
    by (simp_all add: coverage_gap_def Let_def split: if_splits)
  with cp(1) that show thesis by blast
qed

text \<open>Evidence that is missing is collected: for every competitor and every dimension of the analysis
  without usable evidence, the redo scopes made of the gap report ask a collector for that
  dimension and for a competitor of that id.\<close>

theorem missing_evidence_recollected:
  "list_all (\<lambda>(cp, d). if matching_evidence cp d es = []
       then list_ex (\<lambda>s. rs_kind s = ''collector'' \<and> rs_target_subagent s = Some d
              \<and> list_ex (\<lambda>c. cp_id c = cp_id cp \<and> rs_target_competitor s = Some (cp_name c)) cps)
            (evidence_gaps_to_redo_scopes (gy_gaps (analyze_evidence_gaps now i plan ev cps es cs)))
       else True)
     (List.product cps (effective_analysis_dimensions plan))"
proof -
  let ?gs = "gy_gaps (analyze_evidence_gaps now i plan ev cps es cs)"
  have "list_ex (\<lambda>s. rs_kind s = ''collector'' \<and> rs_target_subagent s = Some d
      \<and> list_ex (\<lambda>c. cp_id c = cp_id cp \<and> rs_target_competitor s = Some (cp_name c)) cps)
      (evidence_gaps_to_redo_scopes ?gs)"
    if cp: "(cp, d) \<in> set (List.product cps (effective_analysis_dimensions plan))"
      and none: "matching_evidence cp d es = []" for cp d
  proof -
    define g where "g = gap_of ''high'' ''missing_dimension_coverage'' (Some (cp_id cp)) (Some (cp_name cp))
      (Some d) (Some ''any usable source'') (cp_name cp @ '' has no usable evidence for '' @ d @ ''.'')
      (gap_query (cp_name cp) d) [] []"
    have "g \<in> set (coverage_gap cp d es)" by (simp add: coverage_gap_def Let_def none g_def)
    then have "g \<in> set (coverage_gaps plan cps es)" using cp unfolding coverage_gaps_def by force
    from kept_gap[OF this] obtain g' where g': "g' \<in> set (coverage_gaps plan cps es)"
      "gap_key g' = gap_key g" "g' \<in> set ?gs"
      unfolding report_gaps found_gaps_def by (metis append.assoc)
    have "gi_gap_type g' = ''missing_dimension_coverage''" "gi_competitor_id g' = Some (cp_id cp)"
      "gi_dimension g' = Some d"
      using g'(2) by (simp_all add: gap_key_def g_def)
    moreover from g'(1) this(1) obtain c where c: "c \<in> set cps" "gi_competitor_id g' = Some (cp_id c)"
      "gi_competitor_name g' = Some (cp_name c)" "gi_severity g' = ''high''"
      by (rule missing_coverage_gap)
    ultimately have fields: "cp_id c = cp_id cp" "gi_dimension g' = Some d" by simp_all
    have "severe (gi_severity g')" by (simp add: c(4) severe_def)
    from gaps.scopes_cover[OF g'(3) this] obtain s
      where s: "s \<in> set (evidence_gaps_to_redo_scopes ?gs)" "scope_key s = scope_key (gap_scope g')" by blast
    then have "rs_kind s = ''collector''" "rs_target_subagent s = Some d"
      "rs_target_competitor s = Some (cp_name c)"
      by (simp_all add: scope_key_def gap_scope_def fields c(3))
    then show ?thesis using s(1) c(1) fields(1) unfolding list_ex_iff by blast
  qed
  then show ?thesis by (auto simp: list_all_iff)
qed

section \<open>The red team\<close>

lemma red_team_finding_fields [simp]:
  "rt_severity (red_team_finding_of s t m r c n d es cs) = s"
  "rt_finding_type (red_team_finding_of s t m r c n d es cs) = t"
  by (simp_all add: red_team_finding_of_def)

lemma set_dedupe_red_team: "set (dedupe_red_team fs) = set (keep_first red_team_key (\<lambda>_. True) [] fs)"
  by (simp add: dedupe_red_team_def)

lemma dedupe_red_team_Nil: "(dedupe_red_team fs = []) = (fs = [])"
proof -
  have "(set (dedupe_red_team fs) = {}) = (fs = [])"
    unfolding set_dedupe_red_team by (cases fs) simp_all
  then show ?thesis by simp
qed

lemma severe_levels [simp]: "severe ''critical''" "severe ''high''"
  by (simp_all add: severe_def)

lemma qa_findings_severe: "f \<in> set (red_team_qa_findings ev) \<Longrightarrow> severe (rt_severity f)"
  unfolding red_team_qa_findings_def set_map by (elim imageE) simp

lemma claim_challenge_severe: "f \<in> set (claim_challenge es cps c) \<Longrightarrow> severe (rt_severity f)"
  by (simp add: claim_challenge_def Let_def split: if_splits)

lemma claim_challenge_Nil:
  "(claim_challenge es cps c = []) = (usable_for_claim es c \<noteq> [] \<and> 55/100 \<le> cl_confidence c)"
  by (simp add: claim_challenge_def Let_def not_less)

lemma evidence_challenge_severe: "f \<in> set (evidence_challenge cps e) \<Longrightarrow> severe (rt_severity f)"
  by (simp add: evidence_challenge_def Let_def split: if_splits)

lemma evidence_challenge_Nil:
  "(evidence_challenge cps e = []) = (\<not> bad_quality (ev_quality_label e) \<and> 1/2 \<le> ev_reliability_score e)"
  by (simp add: evidence_challenge_def Let_def not_less)

lemma red_team_severe:
  "f \<in> set (red_team_qa_findings ev) \<Longrightarrow> severe (rt_severity f)"
  "f \<in> set (red_team_claim_findings cs es cps) \<Longrightarrow> severe (rt_severity f)"
  "f \<in> set (red_team_evidence_findings es cps) \<Longrightarrow> severe (rt_severity f)"
  "f \<in> set (coverage_bias_findings plan es cps) \<Longrightarrow> severe (rt_severity f)"
  "f \<in> set (red_team_report_findings versions) \<Longrightarrow> severe (rt_severity f)"
proof -
  show "f \<in> set (red_team_qa_findings ev) \<Longrightarrow> severe (rt_severity f)" by (rule qa_findings_severe)
  show "f \<in> set (red_team_claim_findings cs es cps) \<Longrightarrow> severe (rt_severity f)"
    unfolding red_team_claim_findings_def using claim_challenge_severe by fastforce
  show "f \<in> set (red_team_evidence_findings es cps) \<Longrightarrow> severe (rt_severity f)"
    unfolding red_team_evidence_findings_def using evidence_challenge_severe by fastforce
  show "f \<in> set (coverage_bias_findings plan es cps) \<Longrightarrow> severe (rt_severity f)"
    unfolding coverage_bias_findings_def set_map by (elim imageE) simp
  show "f \<in> set (red_team_report_findings versions) \<Longrightarrow> severe (rt_severity f)"
    by (simp add: red_team_report_findings_def split: list.splits if_splits)
qed

lemma qa_findings_Nil:
  "(red_team_qa_findings ev = []) = list_all (\<lambda>f. bf_severity f \<notin> {''blocker'', ''warn''}) (be_findings ev)"
  by (simp add: red_team_qa_findings_def filter_empty_conv list_all_iff)

lemma claim_findings_Nil:
  "(red_team_claim_findings cs es cps = [])
     = list_all (\<lambda>c. usable_for_claim es c \<noteq> [] \<and> 55/100 \<le> cl_confidence c) cs"
  unfolding red_team_claim_findings_def concat_eq_Nil_conv claim_challenge_Nil[of es cps, symmetric] list_all_iff
  by auto

lemma evidence_findings_Nil:
  "(red_team_evidence_findings es cps = [])
     = list_all (\<lambda>e. \<not> bad_quality (ev_quality_label e) \<and> 1/2 \<le> ev_reliability_score e) es"
  unfolding red_team_evidence_findings_def concat_eq_Nil_conv evidence_challenge_Nil[of cps, symmetric] list_all_iff
  by auto

lemma bias_findings_Nil:
  "(coverage_bias_findings plan es cps = []) = list_all (\<lambda>cp. uncovered_dimensions plan es cp = []) cps"
  by (simp add: coverage_bias_findings_def filter_empty_conv list_all_iff)

lemma report_findings_Nil:
  "(red_team_report_findings versions = []) = (case versions of [] \<Rightarrow> False
     | v # _ \<Rightarrow> max 1 (length (rv_claim_ids v) div 2) \<le> count_citations 0 (rv_report_md v))"
  by (cases versions) (auto simp: red_team_report_findings_def)

text \<open>The red team is silent exactly when the business QA has no blocker and no warning, every claim is
  confident and has usable evidence, all the evidence is usable and reliable, no competitor lacks
  evidence on a dimension and the latest report cites a source for every second of its claims;
  each finding it reports is critical or high, so its two counts agree, and the most severe comes
  first.\<close>

theorem red_team_exact:
  "let r = analyze_red_team i plan ev cps es cs versions
   in (rp_findings r = []) =
        (list_all (\<lambda>f. bf_severity f \<notin> {''blocker'', ''warn''}) (be_findings ev)
         \<and> list_all (\<lambda>c. usable_for_claim es c \<noteq> [] \<and> 55/100 \<le> cl_confidence c) cs
         \<and> list_all (\<lambda>e. \<not> bad_quality (ev_quality_label e) \<and> 1/2 \<le> ev_reliability_score e) es
         \<and> list_all (\<lambda>cp. uncovered_dimensions plan es cp = []) cps
         \<and> (case versions of [] \<Rightarrow> False
            | v # _ \<Rightarrow> max 1 (length (rv_claim_ids v) div 2) \<le> count_citations 0 (rv_report_md v)))
      \<and> list_all (\<lambda>f. severe (rt_severity f)) (rp_findings r)
      \<and> rp_high_severity_count r = rp_finding_count r \<and> rp_finding_count r = int (length (rp_findings r))
      \<and> sorted (map (\<lambda>f. gap_severity_rank (rt_severity f)) (rp_findings r))
      \<and> distinct (map red_team_key (rp_findings r))"
proof -
  let ?r = "analyze_red_team i plan ev cps es cs versions"
  define found where "found = red_team_qa_findings ev @ red_team_claim_findings cs es cps
    @ red_team_evidence_findings es cps @ coverage_bias_findings plan es cps @ red_team_report_findings versions"
  have fs: "rp_findings ?r = dedupe_red_team found" "rp_finding_count ?r = int (length (dedupe_red_team found))"
    "rp_high_severity_count ?r
       = int (count_if (\<lambda>f. rt_severity f \<in> {''critical'', ''high''}) (dedupe_red_team found))"
    by (simp_all add: analyze_red_team_def found_def Let_def)
  have "\<forall>f \<in> set found. severe (rt_severity f)"
    unfolding found_def set_append using red_team_severe by blast
  then have all: "list_all (\<lambda>f. severe (rt_severity f)) (dedupe_red_team found)"
    unfolding list_all_iff set_dedupe_red_team using kf.dd_subset[of red_team_key "\<lambda>_. True" found] by blast
  then have "filter (\<lambda>f. rt_severity f \<in> {''critical'', ''high''}) (dedupe_red_team found) = dedupe_red_team found"
    unfolding filter_id_conv list_all_iff severe_def by simp
  then have "rp_high_severity_count ?r = rp_finding_count ?r" unfolding fs count_if_def by simp
  moreover have "sorted (map (\<lambda>f. gap_severity_rank (rt_severity f)) (dedupe_red_team found))"
    unfolding dedupe_red_team_def by simp
  moreover have "distinct (map red_team_key (dedupe_red_team found))"
    using kf.dd_distinct[of red_team_key "\<lambda>_. True" found] by (simp add: dedupe_red_team_def distinct_map)
  moreover have "(dedupe_red_team found = [])
      = (red_team_qa_findings ev = [] \<and> red_team_claim_findings cs es cps = []
         \<and> red_team_evidence_findings es cps = [] \<and> coverage_bias_findings plan es cps = []
         \<and> red_team_report_findings versions = [])"
    unfolding dedupe_red_team_Nil found_def by simp
  ultimately show ?thesis
    unfolding Let_def fs(1,2) qa_findings_Nil claim_findings_Nil evidence_findings_Nil bias_findings_Nil
      report_findings_Nil using all fs by simp
qed

end
