(* ===== verification/RunRecords.thy ===== *)
theory RunRecords
  imports RedoSelection
begin

text \<open>
  The artifacts of a run in schema/models.py that its evaluation and its projection read: raw
  sources, the knowledge extracted from them, messages between agents and trace spans.
  A run with all of them extends the detail of a run.
\<close>

text \<open>
  Fields a source only hands on to metadata are kept as the JSON values they are dumped to.
\<close>

record raw_source =
  fs_id :: str
  fs_competitor :: str
  fs_covered_competitors :: "str list"
  fs_dimension :: str
  fs_source_type :: str
  fs_title :: str
  fs_url :: "str option"
  fs_snippet :: str
  fs_content_hash :: str
  fs_confidence :: rat
  fs_candidate_origin :: str
  fs_candidate_rank :: json
  fs_candidate_confidence :: json
  fs_fetch_method :: str
  fs_quality_score :: json
  fs_failure_reason :: json
  fs_metadata :: jdict
  fs_extracted_at :: datetime

record knowledge_claim =
  kc_claim :: str
  kc_source_ids :: "str list"
  kc_confidence :: rat

text \<open>The claims of a \<open>CompetitorKnowledge\<close>, by the part of it that holds them.\<close>

record competitor_knowledge =
  ck_feature_summary :: "knowledge_claim list"
  ck_feature_nodes :: "knowledge_claim list list"
  ck_pricing_notes :: "knowledge_claim list"
  ck_pricing_tiers :: "knowledge_claim list list"
  ck_persona_summary :: "knowledge_claim list"
  ck_persona_segments :: "knowledge_claim list list"

record agent_message =
  am_message_type :: str
  am_payload :: jdict
  am_trace_span_ids :: "str list"

record trace_span =
  ts_id :: str
  ts_trace_id :: str
  ts_otel_span_id :: str
  ts_traceparent :: str
  ts_kind :: str
  ts_agent :: str
  ts_name :: str
  ts_full_input :: str
  ts_full_output :: str
  ts_metadata :: jdict

record finished_run = run_work +
  fr_raw_sources :: "raw_source list"
  fr_competitor_knowledge :: "(str \<times> competitor_knowledge) list"
  fr_report_artifact :: "report_artifact option"
  fr_agent_messages :: "agent_message list"
  fr_tool_call_messages :: "jdict list"
  fr_trace_spans :: "trace_span list"

end
