(* ===== verification/Compliance.thy ===== *)
theory Compliance
  imports EvidenceStore RunRecords Governance
begin

text \<open>
  compliance/report.py and the counting of compliance/pii.py: the compliance findings of a finished
  run. The substitution of a pattern of the \<open>re\<close> library is a parameter; a URL that does not parse
  raises, as \<open>urlparse\<close> does.
\<close>

section \<open>Redaction\<close>

record compliance_settings = settings +
  cs_redact_api_keys :: bool
  cs_redact_emails :: bool
  cs_redact_phones :: bool

record compliance_policy =
  cp_redaction_enabled :: bool
  cp_redact_api_keys :: bool
  cp_redact_emails :: bool
  cp_redact_phones :: bool

definition compliance_policy_from_settings :: "compliance_settings \<Rightarrow> compliance_policy" where
  "compliance_policy_from_settings c =
     \<lparr>cp_redaction_enabled = se_compliance_redaction_enabled c, cp_redact_api_keys = cs_redact_api_keys c,
      cp_redact_emails = cs_redact_emails c, cp_redact_phones = cs_redact_phones c\<rparr>"

definition pattern_enabled :: "str \<Rightarrow> compliance_policy \<Rightarrow> bool" where
  "pattern_enabled label p =
     (if label \<in> {''api_key'', ''bearer_token''} then cp_redact_api_keys p
      else if label = ''email'' then cp_redact_emails p
      else if label = ''phone'' then cp_redact_phones p
      else True)"

text \<open>The patterns in their order; \<open>subn label text\<close> is the text with the matches replaced and their number.\<close>

definition redaction_labels :: "str list" where
  "redaction_labels = [''bearer_token'', ''api_key'', ''email'', ''phone'']"

type_synonym pattern_subn = "str \<Rightarrow> str \<Rightarrow> str \<times> nat"

definition redact_step ::
  "pattern_subn \<Rightarrow> compliance_policy \<Rightarrow> str \<Rightarrow> str \<times> (str \<times> nat) list \<Rightarrow> str \<times> (str \<times> nat) list" where
  "redact_step subn p label = (\<lambda>(redacted, counts).
     if \<not> pattern_enabled label p then (redacted, counts)
     else let (replaced, n) = subn label redacted
       in (replaced, if n = 0 then counts else counts @ [(label, n)]))"

definition redact_text :: "pattern_subn \<Rightarrow> compliance_policy \<Rightarrow> str \<Rightarrow> str \<times> (str \<times> nat) list" where
  "redact_text subn p s =
     (if \<not> cp_redaction_enabled p then (s, [])
      else fold (redact_step subn p) redaction_labels (s, []))"

definition total_count :: "(str \<times> nat) list \<Rightarrow> nat" where
  "total_count counts = sum_list (map snd counts)"

section \<open>Findings\<close>

record compliance_finding =
  cf_id :: str
  cf_severity :: str
  cf_category :: str
  cf_target_type :: str
  cf_target_id :: str
  cf_message :: str
  cf_recommendation :: str

definition compliance_finding_of ::
  "str \<Rightarrow> str \<Rightarrow> str \<Rightarrow> str \<Rightarrow> str \<Rightarrow> str \<Rightarrow> compliance_finding" where
  "compliance_finding_of severity category target_type target_id message recommend =
     \<lparr>cf_id = compute_compliance_finding_id target_id
        (severity @ '':'' @ category @ '':'' @ target_type) message,
      cf_severity = severity, cf_category = category, cf_target_type = target_type,
      cf_target_id = target_id, cf_message = message, cf_recommendation = recommend\<rparr>"

definition compliance_policy_findings :: "str \<Rightarrow> compliance_policy \<Rightarrow> compliance_finding list" where
  "compliance_policy_findings run_id p =
     (if cp_redaction_enabled p then []
      else [compliance_finding_of ''warn'' ''policy'' ''run'' run_id
        ''Compliance redaction is disabled for this environment.''
        ''Enable COMPLIANCE_REDACTION_ENABLED before real enterprise runs.''])
     @ map (\<lambda>(key, _). compliance_finding_of ''warn'' ''policy'' ''run'' run_id
         (key @ '' is disabled in the compliance policy.'')
         ''Keep all PII and credential redaction switches enabled in production.'')
       (filter (\<lambda>(_, on). \<not> on)
         [(''redact_api_keys'', cp_redact_api_keys p), (''redact_emails'', cp_redact_emails p),
          (''redact_phones'', cp_redact_phones p)])"

definition no_url_source_types :: "str list" where
  "no_url_source_types =
     [''demo'', ''fixture'', ''manual'', ''memory'', ''synthetic'', ''survey'', ''survey_response'',
      ''survey_simulated'']"

definition domain_matches :: "str \<Rightarrow> str list \<Rightarrow> bool" where
  "domain_matches host domains = list_ex (\<lambda>d. host = d \<or> starts_with (rev (''.'' @ d)) (rev host)) domains"

definition compliance_url_host :: "str \<Rightarrow> py_error + str" where
  "compliance_url_host url = err_bind (urlsplit url) (\<lambda>p. Inr (lower (url_hostname p)))"

definition robots_blocked :: "raw_source \<Rightarrow> bool" where
  "robots_blocked s =
     (let t = lower (fs_source_type s) in has_substring ''robots'' t \<and> has_substring ''blocked'' t)"

definition host_findings :: "compliance_settings \<Rightarrow> raw_source \<Rightarrow> str \<Rightarrow> compliance_finding list" where
  "host_findings c s host =
     (if domain_matches host (se_compliance_blocked_domains c) then
        [compliance_finding_of ''blocker'' ''source'' ''source'' (fs_id s)
          (''Source domain '' @ host @ '' is blocked by compliance policy.'')
          ''Replace this source with an allowed domain.'']
      else [])
     @ (if se_compliance_allowed_domains c \<noteq> []
           \<and> \<not> domain_matches host (se_compliance_allowed_domains c) then
          [compliance_finding_of ''warn'' ''source'' ''source'' (fs_id s)
            (''Source domain '' @ host @ '' is outside the allowlist.'')
            ''Review the source domain or update COMPLIANCE_ALLOWED_DOMAINS.'']
        else [])"

definition source_finding ::
  "compliance_settings \<Rightarrow> raw_source \<Rightarrow> py_error + compliance_finding list" where
  "source_finding c s =
     (let robots =
        (if robots_blocked s then
           [compliance_finding_of ''blocker'' ''robots'' ''source'' (fs_id s)
             ''Source is marked as blocked by robots/source policy.''
             ''Remove this source or route it through a compliant approval flow.'']
         else [])
      in case fs_url s of
           None \<Rightarrow> Inr (robots @
             (if se_compliance_require_source_urls c
                 \<and> lower (fs_source_type s) \<notin> set no_url_source_types then
                [compliance_finding_of ''warn'' ''source'' ''source'' (fs_id s)
                  ''Source has no URL while source URL enforcement is enabled.''
                  ''Attach a source URL or mark the source as manual/synthetic.'']
              else []))
         | Some url \<Rightarrow> err_bind (compliance_url_host url) (\<lambda>host. Inr (robots @ host_findings c s host)))"

definition missing_context :: "trace_span \<Rightarrow> str list" where
  "missing_context t =
     map fst (filter (\<lambda>(_, v). v = '''')
       [(''trace_id'', ts_trace_id t), (''otel_span_id'', ts_otel_span_id t),
        (''traceparent'', ts_traceparent t)])"

definition trace_findings :: "compliance_settings \<Rightarrow> trace_span list \<Rightarrow> compliance_finding list" where
  "trace_findings c spans =
     (if \<not> se_compliance_require_trace_context c then []
      else map (\<lambda>t. compliance_finding_of ''blocker'' ''trace'' ''trace_span'' (ts_id t)
             (''Trace span is missing required context: '' @ join '', '' (missing_context t) @ ''.'')
             ''Emit W3C trace context for every span before production release.'')
           (filter (\<lambda>t. missing_context t \<noteq> []) spans))"

definition pii_candidates :: "finished_run \<Rightarrow> (str \<times> str \<times> str) list" where
  "pii_candidates r =
     (''run'', rn_id r, rn_report_md r)
     # map (\<lambda>s. (''source'', fs_id s, fs_snippet s)) (fr_raw_sources r)
     @ map (\<lambda>t. (''trace_span'', ts_id t, ts_full_input t @ [CHR 0x0A] @ ts_full_output t)) (fr_trace_spans r)"

definition pii_finding ::
  "pattern_subn \<Rightarrow> compliance_policy \<Rightarrow> str \<times> str \<times> str \<Rightarrow> compliance_finding list" where
  "pii_finding subn p = (\<lambda>(target_type, target_id, content).
     let counts = snd (redact_text subn p content)
     in if content = '''' \<or> total_count counts = 0 then []
        else [compliance_finding_of ''blocker'' ''pii'' target_type target_id
          (''Potential unredacted sensitive text remains in persisted content: ''
            @ py_repr (JDict (map (\<lambda>(label, n). (label, JInt (int n))) counts)) @ ''.'')
          ''Apply redaction before storing or exposing this artifact.''])"

definition compliance_severity_rank :: "str \<Rightarrow> int" where
  "compliance_severity_rank severity =
     (if severity = ''blocker'' then 0 else if severity = ''warn'' then 1
      else if severity = ''info'' then 2 else 3)"

definition dedupe_compliance_findings :: "compliance_finding list \<Rightarrow> compliance_finding list" where
  "dedupe_compliance_findings fs =
     sort_key (\<lambda>f. compliance_severity_rank (cf_severity f))
       (sort_key cf_category (keep_first cf_id (\<lambda>_. True) [] fs))"

section \<open>The report\<close>

record compliance_report =
  co_run_id :: str
  co_status :: str
  co_policy :: compliance_policy
  co_source_count :: int
  co_trace_span_count :: int
  co_redaction_count :: int
  co_finding_count :: int
  co_blocker_count :: int
  co_warn_count :: int
  co_findings :: "compliance_finding list"

definition build_run_compliance_report ::
  "pattern_subn \<Rightarrow> compliance_settings \<Rightarrow> finished_run \<Rightarrow> py_error + compliance_report" where
  "build_run_compliance_report subn c r =
     (let p = compliance_policy_from_settings c
      in err_bind (err_map (source_finding c) (fr_raw_sources r)) (\<lambda>sources.
        let fs = dedupe_compliance_findings (compliance_policy_findings (rn_id r) p @ concat sources
              @ trace_findings c (fr_trace_spans r) @ concat (map (pii_finding subn p) (pii_candidates r)));
            blockers = int (count_if (\<lambda>f. cf_severity f = ''blocker'') fs);
            warns = int (count_if (\<lambda>f. cf_severity f = ''warn'') fs)
        in Inr \<lparr>co_run_id = rn_id r,
            co_status = (if blockers \<noteq> 0 then ''fail'' else if warns \<noteq> 0 then ''warn'' else ''pass''),
            co_policy = p, co_source_count = int (length (fr_raw_sources r)),
            co_trace_span_count = int (length (fr_trace_spans r)),
            co_redaction_count = mt_compliance_redaction_count (rn_metrics r),
            co_finding_count = int (length fs), co_blocker_count = blockers, co_warn_count = warns,
            co_findings = fs\<rparr>))"

end
