(* ===== verification/EvalOps.thy ===== *)
theory EvalOps
  imports Compliance BusinessQA ReleaseGate Findings
begin

text \<open>
  evals/enterprise.py and evals/release_contract.py: the EvalOps report over the finished runs, its
  regression gate and the contract a release has to meet. The quality comparison of two runs
  (\<open>compare_run_quality\<close>) and the rows of the golden catalog file are parameters.
\<close>

section \<open>Signals of a run\<close>

definition decision_replay_hints :: "str list" where
  "decision_replay_hints =
     [''analysis'', ''claim'', ''collector'', ''decision'', ''evidence'', ''gap'', ''memory'', ''plan'', ''qa'',
      ''quality'', ''redo'', ''report'', ''review'', ''schema'', ''source'', ''survey'', ''writer'']"

definition underscored :: "str \<Rightarrow> str" where
  "underscored v = map (\<lambda>c. if c = CHR ''-'' then CHR ''_'' else c) (lower v)"

definition has_decision_hint :: "str \<Rightarrow> bool" where
  "has_decision_hint message_type =
     list_ex (\<lambda>h. has_substring h (underscored message_type)) decision_replay_hints"

definition has_trace_context :: "finished_run \<Rightarrow> bool" where
  "has_trace_context r =
     (list_ex (\<lambda>t. ts_trace_id t \<noteq> '''' \<or> ts_otel_span_id t \<noteq> '''' \<or> ts_traceparent t \<noteq> '''') (fr_trace_spans r)
      \<or> list_ex (\<lambda>m. am_trace_span_ids m \<noteq> []) (fr_agent_messages r))"

definition has_agent_protocol :: "finished_run \<Rightarrow> bool" where
  "has_agent_protocol r =
     (list_ex (\<lambda>m. has_decision_hint (am_message_type m)) (fr_agent_messages r)
      \<or> 2 \<le> length (remdups (filter (\<lambda>a. a \<noteq> '''') (map ts_agent (fr_trace_spans r)))))"

text \<open>\<open>REAL_SOURCE_TYPES\<close> of report_quality.py, with the source types of the community at the end.\<close>

definition real_source_types :: "str list" where
  "real_source_types =
     [''official'', ''official_docs'', ''official_pricing'', ''official_site'', ''official_api'',
      ''pricing_page'', ''review_site'', ''trust_center'', ''news'', ''web_search_result'',
      ''webpage_verified'', ''community_forum'', ''reddit_thread'', ''github_discussion'', ''github_issue'',
      ''developer_blog'', ''snippet_only'']"

definition has_tool_or_collection :: "finished_run \<Rightarrow> bool" where
  "has_tool_or_collection r =
     (fr_tool_call_messages r \<noteq> []
      \<or> list_ex (\<lambda>t. ts_kind t \<in> {''search'', ''fetch'', ''tool''}) (fr_trace_spans r)
      \<or> list_ex (\<lambda>s. fs_url s \<noteq> None \<and> lower (fs_source_type s) \<in> set real_source_types) (fr_raw_sources r))"

definition knowledge_claims :: "competitor_knowledge \<Rightarrow> knowledge_claim list" where
  "knowledge_claims k =
     ck_feature_summary k @ ck_pricing_notes k @ ck_persona_summary k
       @ concat (ck_feature_nodes k) @ concat (ck_pricing_tiers k)"

definition has_claim_source_linkage :: "finished_run \<Rightarrow> str list \<Rightarrow> bool" where
  "has_claim_source_linkage r source_ids =
     list_ex (\<lambda>(_, k). list_ex (\<lambda>c. list_ex (\<lambda>i. i \<in> set source_ids) (kc_source_ids c)) (knowledge_claims k))
       (fr_competitor_knowledge r)"

definition has_evidence_linkage :: "finished_run \<Rightarrow> bool" where
  "has_evidence_linkage r =
     (let ids = map fs_id (fr_raw_sources r)
      in fr_raw_sources r \<noteq> []
         \<and> (list_ex (\<lambda>i. has_substring (''[source:'' @ i) (rn_report_md r)) ids
            \<or> has_claim_source_linkage r ids))"

definition has_outcome :: "finished_run \<Rightarrow> bool" where
  "has_outcome r =
     (rn_qa_findings r \<noteq> [] \<or> rw_revisions r \<noteq> [] \<or> rn_hitl_enabled r
      \<or> list_ex (\<lambda>m. has_decision_hint (am_message_type m)
           \<and> list_ex (\<lambda>h. has_substring h (lower (am_message_type m))) [''qa'', ''redo'', ''report'', ''review''])
          (fr_agent_messages r)
      \<or> rn_status r = ''completed'' \<and> strip (rn_report_md r) \<noteq> '''')"

definition has_decision_replay :: "finished_run \<Rightarrow> bool" where
  "has_decision_replay r =
     (has_trace_context r \<and> has_agent_protocol r \<and> has_tool_or_collection r \<and> has_evidence_linkage r
      \<and> has_outcome r)"

text \<open>A JSON number above zero, where \<open>bool\<close> is no number.\<close>

fun positive_number :: "json option \<Rightarrow> bool" where
  "positive_number (Some (JInt i)) = (0 < i)"
| "positive_number (Some (JFloat m e)) = (0 < m)"
| "positive_number _ = False"

fun truthy_value :: "json option \<Rightarrow> bool" where
  "truthy_value (Some v) = truthy v"
| "truthy_value None = False"

definition value_or :: "json option \<Rightarrow> json option \<Rightarrow> json option" where
  "value_or v w = (if truthy_value v then v else w)"

definition recall_message :: "agent_message \<Rightarrow> bool" where
  "recall_message m =
     (let get = map_of (am_payload m)
      in am_message_type m = ''memory.recalled''
         \<and> truthy_value (value_or (get ''candidate_ids'') (get ''memory_candidate_ids''))
         \<and> truthy_value (get ''prompt_context'')
         \<and> positive_number (value_or (get ''score'') (get ''recall_score'')))"

definition recall_span :: "trace_span \<Rightarrow> bool" where
  "recall_span t =
     (let get = map_of (ts_metadata t)
      in (ts_agent t = ''memory'' \<or> ts_name t \<in> {''memory_recall'', ''memory.recalled''})
         \<and> list_ex (\<lambda>k. positive_number (get k)) [''candidate_count'', ''memory_candidate_count'']
         \<and> list_ex (\<lambda>k. truthy_value (get k)) [''prompt_context'', ''memory_prompt_context'', ''context_count'']
         \<and> list_ex (\<lambda>k. positive_number (get k)) [''recall_score'', ''score''])"

definition has_recall_event :: "finished_run \<Rightarrow> bool" where
  "has_recall_event r = (list_ex recall_message (fr_agent_messages r) \<or> list_ex recall_span (fr_trace_spans r))"

definition needs_memory_recall :: "finished_run \<Rightarrow> bool" where
  "needs_memory_recall r =
     (ap_memory_candidate_ids (rn_plan r) \<noteq> [] \<or> ap_memory_prompt_context (rn_plan r) \<noteq> [] \<or> has_recall_event r)"

definition has_memory_recall :: "finished_run \<Rightarrow> bool" where
  "has_memory_recall r =
     (ap_memory_candidate_ids (rn_plan r) \<noteq> [] \<and> ap_memory_prompt_context (rn_plan r) \<noteq> []
        \<and> 0 < ap_memory_recall_score (rn_plan r)
      \<or> has_recall_event r)"

definition user_research_hints :: "str list" where
  "user_research_hints =
     [''persona'', ''user'', ''customer'', ''buyer'', ''review'', ''feedback'', ''adoption'', ''switching'',
      ''use_case'', ''use case'']"

definition needs_user_research :: "finished_run \<Rightarrow> bool" where
  "needs_user_research r =
     list_ex (\<lambda>d. list_ex (\<lambda>h. has_substring h (underscored d)) user_research_hints) (ap_dimensions (rn_plan r))"

definition user_research_source_types :: "str list" where
  "user_research_source_types =
     [''survey_simulated'', ''survey_response'', ''interview_record'', ''manual_transcript'',
      ''manual_note'', ''manual'']"

definition has_user_research :: "finished_run \<Rightarrow> bool" where
  "has_user_research r = list_ex (\<lambda>s. fs_source_type s \<in> set user_research_source_types) (fr_raw_sources r)"

definition has_collector_gap :: "finished_run \<Rightarrow> bool" where
  "has_collector_gap r =
     list_ex (\<lambda>i. qi_target_agent i = ''collector'' \<and> qi_severity i \<in> {''warn'', ''blocker''}) (rn_qa_findings r)"

definition gap_fill_span :: "trace_span \<Rightarrow> bool" where
  "gap_fill_span t =
     (ts_agent t \<in> {''rag_gap_fill'', ''evidence_gap''} \<or> ts_name t \<in> {''rag_gap_fill'', ''fill_evidence_gaps''}
      \<or> map_of (ts_metadata t) ''retrieval_contexts'' \<noteq> None
      \<or> map_of (ts_metadata t) ''retrieval_record_count'' \<noteq> None)"

definition has_gap_fill_context :: "finished_run \<Rightarrow> bool" where
  "has_gap_fill_context r =
     (\<not> has_collector_gap r
      \<or> (let report = lower (rn_report_md r)
         in has_substring ''## rag gap fill'' report \<or> has_substring ''rag gap fill'' report)
      \<or> list_ex gap_fill_span (fr_trace_spans r))"

definition hitl_applicable :: "finished_run \<Rightarrow> bool" where
  "hitl_applicable r =
     (rn_hitl_enabled r \<or> rn_qa_findings r \<noteq> [] \<or> rw_revisions r \<noteq> []
      \<or> 0 < mt_human_override_rate (rn_metrics r))"

definition has_hitl_or_redo :: "finished_run \<Rightarrow> bool" where
  "has_hitl_or_redo r =
     (rw_revisions r \<noteq> [] \<or> 0 < mt_human_override_rate (rn_metrics r)
      \<or> list_ex (\<lambda>m. list_ex (\<lambda>h. has_substring h (lower (am_message_type m))) [''hitl'', ''review'', ''redo''])
          (fr_agent_messages r))"

section \<open>Averages\<close>

definition ratio_of :: "bool list \<Rightarrow> rat" where
  "ratio_of bs = (if bs = [] then 0 else of_nat (count_if id bs) / of_nat (length bs))"

definition average_float :: "rat list \<Rightarrow> rat" where
  "average_float vs = (if vs = [] then 0 else mean vs)"

definition average_int :: "int list \<Rightarrow> int" where
  "average_int vs = (if vs = [] then 0 else round_half_even (mean (map of_int vs)))"

text \<open>The share of the runs a check applies to that pass it; one when it applies to none.\<close>

definition applicable_rate :: "(finished_run \<Rightarrow> bool) \<Rightarrow> (finished_run \<Rightarrow> bool) \<Rightarrow> finished_run list \<Rightarrow> rat" where
  "applicable_rate applies passes runs =
     (let applicable = filter applies runs
      in if applicable = [] then 1 else ratio_of (map passes applicable))"

section \<open>The golden catalog\<close>

definition normalize_catalog_text :: "str \<Rightarrow> str" where
  "normalize_catalog_text v =
     join '' '' (split_ws (map (\<lambda>c. if c = CHR ''-'' \<or> c = CHR ''_'' then CHR '' '' else c) (lower v)))"

text \<open>\<open>str(row.get(key, default))\<close>.\<close>

definition row_text :: "jdict \<Rightarrow> str \<Rightarrow> str \<Rightarrow> str" where
  "row_text row key dflt = (case map_of row key of Some v \<Rightarrow> py_str v | None \<Rightarrow> dflt)"

text \<open>What iterating over a value gives: the items of a list, the characters of a string, the keys of a dict.\<close>

fun py_iter :: "json \<Rightarrow> py_error + json list" where
  "py_iter (JList xs) = Inr xs"
| "py_iter (JStr s) = Inr (map (\<lambda>c. JStr [c]) s)"
| "py_iter (JDict d) = Inr (map (\<lambda>(k, _). JStr k) d)"
| "py_iter _ = Inl (TypeError ''object is not iterable'')"

definition matches_golden_layer :: "finished_run \<Rightarrow> jdict \<Rightarrow> bool" where
  "matches_golden_layer r row =
     (let expected = upper (strip (row_text row ''expected_layer'' ''''))
      in expected = '''' \<or> upper (strip (ap_competitor_layer (rn_plan r))) = expected)"

definition matches_golden_dimensions :: "finished_run \<Rightarrow> jdict \<Rightarrow> bool" where
  "matches_golden_dimensions r row =
     (case map_of row ''expected_dimensions'' of
        Some (JList ds) \<Rightarrow>
          list_all (\<lambda>d. d \<in> set (map normalize_catalog_text (ap_dimensions (rn_plan r))))
            (map (\<lambda>d. normalize_catalog_text (py_str d)) (filter (\<lambda>d. strip (py_str d) \<noteq> '''') ds))
      | _ \<Rightarrow> True)"

definition matches_golden_case :: "jdict \<Rightarrow> finished_run \<Rightarrow> py_error + bool" where
  "matches_golden_case row r =
     (let run_topic = normalize_catalog_text (rn_topic r);
          case_topic = normalize_catalog_text (row_text row ''topic'' '''')
      in if run_topic = '''' \<or> case_topic = '''' then Inr False
         else if \<not> (run_topic = case_topic \<or> has_substring case_topic run_topic
                   \<or> has_substring run_topic case_topic) then Inr False
         else err_bind (case map_of row ''competitors'' of Some v \<Rightarrow> py_iter v | None \<Rightarrow> Inr []) (\<lambda>items.
           let wanted = remdups (map (\<lambda>c. normalize_catalog_text (py_str c)) items);
               have_competitors = map normalize_catalog_text (ap_competitors (rn_plan r));
               shared = length (filter (\<lambda>c. c \<in> set have_competitors) wanted)
           in Inr (min 2 (length wanted) \<le> shared \<and> matches_golden_layer r row
                  \<and> matches_golden_dimensions r row)))"

text \<open>\<open>any(p(x) for x in xs)\<close> with a test that may raise.\<close>

fun err_any :: "('a \<Rightarrow> 'e + bool) \<Rightarrow> 'a list \<Rightarrow> 'e + bool" where
  "err_any p [] = Inr False"
| "err_any p (x # xs) = err_bind (p x) (\<lambda>b. if b then Inr True else err_any p xs)"

record golden_cohort =
  gc_cohort :: str
  gc_case_count :: int
  gc_matched_run_count :: int
  gc_coverage_rate :: rat
  gc_expected_layers :: "str list"

record golden_catalog =
  gs_size :: int
  gs_covered_case_count :: int
  gs_coverage_rate :: rat
  gs_cohorts :: "golden_cohort list"

definition golden_cohort_of :: "jdict list \<Rightarrow> str list \<Rightarrow> str \<Rightarrow> golden_cohort" where
  "golden_cohort_of rows matched cohort =
     (let items = filter (\<lambda>row. row_text row ''cohort'' ''unknown'' = cohort) rows;
          hits = count_if (\<lambda>row. row_text row ''id'' ''None'' \<in> set matched) items
      in \<lparr>gc_cohort = cohort, gc_case_count = int (length items), gc_matched_run_count = int hits,
          gc_coverage_rate = (if items = [] then 0 else round_digits 3 (of_nat hits / of_nat (length items))),
          gc_expected_layers = sorted_set (map (\<lambda>row. row_text row ''expected_layer'' ''unknown'') items)\<rparr>)"

definition golden_catalog_summary :: "jdict list \<Rightarrow> finished_run list \<Rightarrow> py_error + golden_catalog" where
  "golden_catalog_summary rows runs =
     err_bind (err_map (\<lambda>row. err_any (matches_golden_case row) runs) rows) (\<lambda>hits.
       let matched = remdups (map (\<lambda>(row, _). row_text row ''id'' ''None'') (filter snd (zip rows hits)));
           covered = length matched
       in Inr \<lparr>gs_size = int (length rows), gs_covered_case_count = int covered,
           gs_coverage_rate = (if rows = [] then 0 else round_digits 3 (of_nat covered / of_nat (length rows))),
           gs_cohorts = map (golden_cohort_of rows matched)
             (sorted_set (map (\<lambda>row. row_text row ''cohort'' ''unknown'') rows))\<rparr>)"

section \<open>The quality chain\<close>

record quality_metric =
  qx_name :: str
  qx_target_value :: rat
  qx_delta :: "rat option"

record run_comparison =
  rc_target_run_id :: str
  rc_baseline_run_id :: "str option"
  rc_target_score :: int
  rc_delta_score :: "int option"
  rc_verdict :: str
  rc_real_collection_signal :: bool
  rc_real_llm_signal :: bool
  rc_report_quality_signal :: bool
  rc_metrics :: "quality_metric list"

definition comparison_metric :: "str \<Rightarrow> run_comparison \<Rightarrow> rat" where
  "comparison_metric name c =
     (case find (\<lambda>m. qx_name m = name) (rc_metrics c) of Some m \<Rightarrow> qx_target_value m | None \<Rightarrow> 0)"

definition quality_chain_step_passed :: "finished_run list \<Rightarrow> str \<Rightarrow> run_comparison \<Rightarrow> bool" where
  "quality_chain_step_passed runs step c =
     (let on_run = (\<lambda>p. case last_with rn_id (rc_target_run_id c) runs of Some r \<Rightarrow> p r | None \<Rightarrow> False)
      in if step = ''real_collection'' then rc_real_collection_signal c
         else if step = ''real_llm'' then rc_real_llm_signal c
         else if step = ''report_quality'' then rc_report_quality_signal c
         else if step = ''rag_gap_fill'' then on_run has_gap_fill_context
         else if step = ''human_review'' then on_run has_hitl_or_redo
         else if step = ''decision_replay'' then on_run has_decision_replay
         else False)"

definition run_quality_chain_passed :: "finished_run list \<Rightarrow> run_comparison \<Rightarrow> bool" where
  "run_quality_chain_passed runs c =
     list_all (\<lambda>step. quality_chain_step_passed runs step c)
       [''real_collection'', ''real_llm'', ''report_quality'', ''rag_gap_fill'']"

record chain_step =
  qs_step :: str
  qs_label :: str
  qs_total_count :: int
  qs_passed_count :: int
  qs_failed_count :: int
  qs_pass_rate :: rat
  qs_failed_run_ids :: "str list"
  qs_summary :: str

definition chain_step_specs :: "(str \<times> str \<times> str) list" where
  "chain_step_specs =
     [(''real_collection'', ''Real collection'',
       ''External evidence collection is distinguishable from demo fixtures.''),
      (''real_llm'', ''Real LLM trace'', ''LLM calls or trace spans show model-backed execution.''),
      (''report_quality'', ''Report quality'',
       ''The report is long enough, cited, structured, and review-ready.''),
      (''rag_gap_fill'', ''RAG gap fill'',
       ''Collector evidence gaps are backed by retrieval context or an explicit RAG Gap Fill section.''),
      (''human_review'', ''Human review loop'',
       ''HITL, QA review, scoped redo, or human correction signals are captured ''
         @ ''when intervention is needed.''),
      (''decision_replay'', ''Decision replay'',
       ''Trace, agent protocol, tool or collection, evidence, and outcome signals can replay decisions.'')]"

definition chain_step_of ::
  "run_comparison list \<Rightarrow> finished_run list \<Rightarrow> str \<times> str \<times> str \<Rightarrow> chain_step" where
  "chain_step_of cs runs = (\<lambda>(step, label, description).
     let failed = map rc_target_run_id (filter (\<lambda>c. \<not> quality_chain_step_passed runs step c) cs);
         total = int (length cs); passed = total - int (length failed)
     in \<lparr>qs_step = step, qs_label = label, qs_total_count = total, qs_passed_count = passed,
         qs_failed_count = int (length failed),
         qs_pass_rate = round_digits 3 (if total = 0 then 0 else of_int passed / of_int total),
         qs_failed_run_ids = failed,
         qs_summary = str_of_int passed @ ''/'' @ str_of_int total @ '' run(s) passed. '' @ description\<rparr>)"

definition quality_chain_steps :: "run_comparison list \<Rightarrow> finished_run list \<Rightarrow> chain_step list" where
  "quality_chain_steps cs runs = map (chain_step_of cs runs) chain_step_specs"

section \<open>Cases and metrics\<close>

text \<open>\<open>f"{v:.3f}"\<close>.\<close>

definition fixed3 :: "rat \<Rightarrow> str" where
  "fixed3 v =
     (let n = round_half_even (\<bar>v\<bar> * 1000)
      in (if v < 0 then ''-'' else '''') @ str_of_int (n div 1000) @ ''.''
           @ pad_left (CHR ''0'') 3 (str_of_int (n mod 1000)))"

definition threshold_status :: "rat \<Rightarrow> rat \<Rightarrow> str" where
  "threshold_status v target =
     (if target \<le> v then ''pass'' else if target * (75/100) \<le> v then ''warn'' else ''fail'')"

record eval_case =
  ek_case_id :: str
  ek_name :: str
  ek_status :: str
  ek_score :: int
  ek_target_run_id :: "str option"
  ek_baseline_run_id :: "str option"
  ek_summary :: str

definition case_of :: "str \<Rightarrow> str \<Rightarrow> int \<Rightarrow> int \<Rightarrow> str option \<Rightarrow> str option \<Rightarrow> eval_case" where
  "case_of case_id name score target target_run_id baseline_run_id =
     \<lparr>ek_case_id = case_id, ek_name = name, ek_status = threshold_status (of_int score) (of_int target),
      ek_score = max 0 (min 100 score), ek_target_run_id = target_run_id,
      ek_baseline_run_id = baseline_run_id,
      ek_summary = str_of_int score @ ''/100 against target '' @ str_of_int target @ ''.''\<rparr>"

record eval_metric =
  em_name :: str
  em_value :: rat
  em_target :: rat
  em_unit :: str
  em_status :: str
  em_summary :: str

definition metric_summary :: "str \<Rightarrow> rat \<Rightarrow> rat \<Rightarrow> str \<Rightarrow> bool \<Rightarrow> str" where
  "metric_summary name v target unit lower_is_better =
     (let suffix = (if unit = '''' then '''' else '' '' @ unit)
      in name @ '' '' @ fixed3 v @ suffix @ ''; target '' @ (if lower_is_better then ''<='' else ''>='')
           @ '' '' @ fixed3 target @ suffix @ ''.'')"

definition metric_of :: "bool \<Rightarrow> str \<Rightarrow> rat \<Rightarrow> rat \<Rightarrow> str \<Rightarrow> eval_metric" where
  "metric_of lower_is_better name v target unit =
     \<lparr>em_name = name, em_value = round_digits 4 v, em_target = target, em_unit = unit,
      em_status = (if lower_is_better
        then (if v \<le> target then ''pass'' else if v \<le> target * (3/2) then ''warn'' else ''fail'')
        else threshold_status v target),
      em_summary = metric_summary name v target unit lower_is_better\<rparr>"

text \<open>\<open>0.45 * score\<close> and the signals, between 0 and 100.\<close>

definition heuristic_judge_score :: "run_comparison \<Rightarrow> rat" where
  "heuristic_judge_score c =
     max 0 (min 100
       (of_int (rc_target_score c) * (45/100)
        + (if rc_real_collection_signal c then 12 else 0) + (if rc_real_llm_signal c then 12 else 0)
        + (if rc_report_quality_signal c then 12 else 0)
        + comparison_metric ''citation_validity_rate'' c * 10 + comparison_metric ''schema_pass_rate'' c * 9))"

text \<open>The values the report shares between its cases, its metrics and its own fields.\<close>

record eval_values =
  el_report_quality_score :: int
  el_source_recall :: rat
  el_verified_rate :: rat
  el_citation_rate :: rat
  el_citation_validity_rate :: rat
  el_schema_pass_rate :: rat
  el_report_structure_rate :: rat
  el_claim_risk_section_rate :: rat
  el_scenario_checklist_section_rate :: rat
  el_memory_context_section_rate :: rat
  el_user_research_section_rate :: rat
  el_rag_gap_fill_section_rate :: rat
  el_real_collection_rate :: rat
  el_real_llm_rate :: rat
  el_real_quality_chain_rate :: rat
  el_compliance_pass_rate :: rat
  el_memory_recall_rate :: rat
  el_user_research_evidence_rate :: rat
  el_rag_gap_fill_context_rate :: rat
  el_hitl_redo_loop_rate :: rat
  el_decision_replay_rate :: rat

definition average_metric :: "str \<Rightarrow> run_comparison list \<Rightarrow> rat" where
  "average_metric name cs = average_float (map (comparison_metric name) cs)"

definition eval_values_of ::
  "finished_run list \<Rightarrow> run_comparison list \<Rightarrow> compliance_report list \<Rightarrow> eval_values" where
  "eval_values_of runs cs reports =
     \<lparr>el_report_quality_score = average_int (map rc_target_score cs),
      el_source_recall = average_metric ''source_coverage_rate'' cs,
      el_verified_rate = average_metric ''verified_source_rate'' cs,
      el_citation_rate = average_metric ''claim_citation_rate'' cs,
      el_citation_validity_rate = average_metric ''citation_validity_rate'' cs,
      el_schema_pass_rate = average_float (map (\<lambda>r. mt_schema_pass_rate (rn_metrics r)) runs),
      el_report_structure_rate = average_metric ''report_structure_score'' cs,
      el_claim_risk_section_rate = average_metric ''claim_risk_section_score'' cs,
      el_scenario_checklist_section_rate = average_metric ''scenario_checklist_section_score'' cs,
      el_memory_context_section_rate = average_metric ''memory_context_section_score'' cs,
      el_user_research_section_rate = average_metric ''user_research_section_score'' cs,
      el_rag_gap_fill_section_rate = average_metric ''rag_gap_fill_section_score'' cs,
      el_real_collection_rate = ratio_of (map rc_real_collection_signal cs),
      el_real_llm_rate = ratio_of (map rc_real_llm_signal cs),
      el_real_quality_chain_rate = ratio_of (map (run_quality_chain_passed runs) cs),
      el_compliance_pass_rate = ratio_of (map (\<lambda>p. co_status p = ''pass'') reports),
      el_memory_recall_rate = applicable_rate needs_memory_recall has_memory_recall runs,
      el_user_research_evidence_rate = applicable_rate needs_user_research has_user_research runs,
      el_rag_gap_fill_context_rate = applicable_rate has_collector_gap has_gap_fill_context runs,
      el_hitl_redo_loop_rate = applicable_rate hitl_applicable has_hitl_or_redo runs,
      el_decision_replay_rate = ratio_of (map has_decision_replay runs)\<rparr>"

definition golden_cases :: "run_comparison list \<Rightarrow> eval_values \<Rightarrow> eval_case list" where
  "golden_cases cs v =
     (let target_run = (case cs of [] \<Rightarrow> None | c # _ \<Rightarrow> Some (rc_target_run_id c));
          baseline_run = (case cs of [] \<Rightarrow> None | c # _ \<Rightarrow> rc_baseline_run_id c);
          share = (\<lambda>case_id name x target.
            case_of case_id name (round_half_even (x * 100)) target target_run baseline_run)
      in [case_of ''golden.report_quality'' ''Report quality score'' (el_report_quality_score v) 72
            target_run baseline_run,
          share ''golden.source_recall'' ''Competitor source recall'' (el_source_recall v) 60,
          share ''golden.verified_sources'' ''Verified evidence rate'' (el_verified_rate v) 60,
          share ''golden.claim_citations'' ''Claim citation rate'' (el_citation_rate v) 60,
          share ''golden.citation_validity'' ''Citation source validity'' (el_citation_validity_rate v) 60,
          share ''golden.schema_pass'' ''Schema validation pass rate'' (el_schema_pass_rate v) 100,
          share ''golden.report_structure'' ''Report structure completeness''
            (el_report_structure_rate v) 70,
          share ''golden.claim_risk_section'' ''Claim validation risk section''
            (el_claim_risk_section_rate v) 100,
          share ''golden.scenario_checklist'' ''Scenario QA checklist section''
            (el_scenario_checklist_section_rate v) 100,
          share ''golden.real_collection'' ''Real collection signal'' (el_real_collection_rate v) 50,
          share ''golden.real_llm'' ''Real LLM signal'' (el_real_llm_rate v) 50,
          share ''golden.real_quality_chain'' ''Real quality chain'' (el_real_quality_chain_rate v) 50,
          share ''golden.compliance'' ''Compliance gate'' (el_compliance_pass_rate v) 100,
          share ''golden.memory_recall'' ''MemoryAgent recall when confirmed guidance is used''
            (el_memory_recall_rate v) 100,
          share ''golden.user_research_evidence''
            ''User research evidence when persona/review dimensions are requested''
            (el_user_research_evidence_rate v) 100,
          share ''golden.rag_gap_fill_context''
            ''RAG gap-fill context when collector evidence gaps remain'' (el_rag_gap_fill_context_rate v) 100,
          share ''golden.rag_gap_fill_section''
            ''RAG gap-fill report section when collector evidence gaps remain''
            (el_rag_gap_fill_section_rate v) 100,
          share ''golden.hitl_redo_loop'' ''HITL or scoped redo loop when QA intervention is needed''
            (el_hitl_redo_loop_rate v) 100,
          share ''golden.decision_replay'' ''Decision replay coverage'' (el_decision_replay_rate v) 80])"

section \<open>The regression gate\<close>

definition format_delta :: "int option \<Rightarrow> str" where
  "format_delta d = (case d of Some i \<Rightarrow> str_of_int i | None \<Rightarrow> ''n/a'')"

definition comparison_issue :: "run_comparison \<Rightarrow> gate_issue" where
  "comparison_issue c =
     \<lparr>gx_kind = ''comparison'', gx_id = rc_target_run_id c, gx_status = rc_verdict c,
      gx_summary = ''Run quality score '' @ str_of_int (rc_target_score c) @ ''; delta ''
        @ format_delta (rc_delta_score c) @ ''.''\<rparr>"

definition metric_issue :: "eval_metric \<Rightarrow> gate_issue" where
  "metric_issue m =
     \<lparr>gx_kind = ''metric'', gx_id = em_name m, gx_status = em_status m, gx_summary = em_summary m\<rparr>"

definition case_issue :: "eval_case \<Rightarrow> gate_issue" where
  "case_issue k =
     \<lparr>gx_kind = ''case'', gx_id = ek_case_id k, gx_status = ek_status k, gx_summary = ek_summary k\<rparr>"

text \<open>Sorted by (fails first, kind, id).\<close>

definition regression_gate_issues ::
  "run_comparison list \<Rightarrow> eval_metric list \<Rightarrow> eval_case list \<Rightarrow> gate_issue list" where
  "regression_gate_issues cs ms ks =
     sort_key (\<lambda>i. if gx_status i = ''fail'' then 0 else 1 :: int) (sort_key gx_kind (sort_key gx_id
       (map comparison_issue (filter (\<lambda>c. rc_verdict c \<noteq> ''pass'') cs)
        @ map metric_issue (filter (\<lambda>m. em_status m \<noteq> ''pass'') ms)
        @ map case_issue (filter (\<lambda>k. ek_status k \<noteq> ''pass'') ks))))"

definition no_runs_issue :: gate_issue where
  "no_runs_issue =
     \<lparr>gx_kind = ''comparison'', gx_id = ''no_evaluable_runs'', gx_status = ''fail'',
      gx_summary = ''No completed runs are available for EvalOps regression gating.''\<rparr>"

definition regression_gate ::
  "run_comparison list \<Rightarrow> eval_metric list \<Rightarrow> eval_case list \<Rightarrow> str \<times> str \<times> gate_issue list" where
  "regression_gate cs ms ks =
     (let issues = regression_gate_issues cs ms ks;
          names = (\<lambda>status. map em_name (filter (\<lambda>m. em_status m = status) ms));
          failed_comparisons = map rc_target_run_id (filter (\<lambda>c. rc_verdict c = ''fail'') cs)
      in if cs = [] then
           (''fail'', ''No runs are available for EvalOps regression gating.'', [no_runs_issue])
         else if failed_comparisons \<noteq> [] \<or> names ''fail'' \<noteq> [] then
           (''fail'', ''Regression gate failed on ''
              @ join '', '' (take 3 failed_comparisons @ take 3 (names ''fail'')) @ ''.'', issues)
         else if list_ex (\<lambda>c. rc_verdict c = ''warn'') cs \<or> names ''warn'' \<noteq> [] then
           (''warn'', ''Regression gate has warnings on '' @ join '', '' (take 4 (names ''warn'')) @ ''.'', issues)
         else (''pass'', ''All EvalOps regression thresholds passed.'', issues))"

section \<open>Recommendations\<close>

text \<open>The metrics whose failure is worth a recommendation, in the order they are looked at.\<close>

definition metric_advice :: "(str \<times> str) list" where
  "metric_advice =
     [(''golden_set_pass_rate'', ''Raise golden-set pass rate by fixing the failing quality cases first.''),
      (''source_recall'', ''Improve source recall with more competitor-dimension evidence coverage.''),
      (''claim_citation_rate'', ''Increase claim citation rate before relying on the report in review.''),
      (''citation_validity_rate'',
       ''Repair unresolved report source tokens before publishing or reviewing the report.''),
      (''schema_pass_rate'', ''Fix schema validation failures before comparing or publishing the report.''),
      (''claim_risk_section_score'', ''Add Claim Validation & Evidence Risk to every report before review.''),
      (''scenario_checklist_section_score'',
       ''Add Scenario QA Checklist to every report so layer, ScenarioPack, QA rules, ''
         @ ''and evidence requirements are reviewable.''),
      (''memory_context_section_score'',
       ''Add Memory Context to reports that use confirmed MemoryAgent guidance.''),
      (''memory_recall_rate'',
       ''Complete MemoryAgent recall by carrying candidate IDs, prompt context, ''
         @ ''and recall score into the run plan or trace.''),
      (''user_research_section_score'',
       ''Add User Research Evidence to reports that rely on survey, interview, or manual-note signals.''),
      (''user_research_evidence_rate'',
       ''Attach survey, interview, or manual-note evidence when persona, buyer, ''
         @ ''review, or adoption dimensions are requested.''),
      (''rag_gap_fill_context_rate'',
       ''Close collector evidence gaps with RAG gap-fill retrieval context before reviewing the report.''),
      (''rag_gap_fill_section_score'',
       ''Add RAG Gap Fill report sections for open collector evidence gaps so retrieval ''
         @ ''queries and grounded context are reviewable.''),
      (''real_collection_rate'', ''Run more real collection paths so EvalOps is not dominated by demos.''),
      (''real_quality_chain_rate'',
       ''Close the real run quality chain: collection, LLM trace, and cited report depth.''),
      (''hitl_redo_loop_rate'',
       ''Capture HITL review, scoped redo, or human correction signals whenever ''
         @ ''QA intervention is required.''),
      (''decision_replay_rate'',
       ''Capture trace context, agent protocol messages, tool or collection signals, ''
         @ ''evidence links, and outcome events so decisions can be replayed.''),
      (''compliance_pass_rate'', ''Fix compliance blockers before treating EvalOps as release-ready.''),
      (''judge_avg_score'',
       ''Improve judge score by strengthening evidence support, citations, and structure.''),
      (''average_delta_score'',
       ''Compare regressed runs against the baseline and fix the weakest quality metric.''),
      (''human_correction_rate'',
       ''Review recurring human corrections and convert them into rules or memory.''),
      (''redo_convergence_ratio'',
       ''Tighten scoped redo routing so repeated revisions reduce QA issues faster.'')]"

text \<open>
  A metric that is looked up and not there raises, save the two that are optional.
\<close>

definition eval_recommendations :: "eval_metric list \<Rightarrow> run_comparison list \<Rightarrow> py_error + str list" where
  "eval_recommendations ms cs =
     err_bind (err_map (\<lambda>(name, advice).
         case last_with em_name name ms of
           Some m \<Rightarrow> Inr (if em_status m \<noteq> ''pass'' then [advice] else [])
         | None \<Rightarrow> if name \<in> {''average_delta_score'', ''redo_convergence_ratio''} then Inr []
             else Inl (KeyError name)) metric_advice) (\<lambda>found.
       Inr (take 5 (concat found
         @ (if list_ex (\<lambda>c. case rc_delta_score c of Some d \<Rightarrow> d < 0 | None \<Rightarrow> False) cs
            then [''Inspect regressions against the selected baseline before publishing.''] else []))))"

section \<open>The report\<close>

record eval_env =
  ee_compare :: "finished_run \<Rightarrow> finished_run option \<Rightarrow> py_error + run_comparison"
  ee_subn :: pattern_subn
  ee_settings :: compliance_settings
  ee_golden_rows :: "jdict list"

record evalops_report =
  eo_run_count :: int
  eo_evaluated_run_ids :: "str list"
  eo_baseline_run_id :: "str option"
  eo_real_run_count :: int
  eo_demo_run_count :: int
  eo_real_run_ratio :: rat
  eo_real_quality_chain_rate :: rat
  eo_real_quality_chain_failed_run_ids :: "str list"
  eo_decision_replay_rate :: rat
  eo_decision_replay_failed_run_ids :: "str list"
  eo_quality_chain_steps :: "chain_step list"
  eo_average_delta_score :: "rat option"
  eo_regressed_run_count :: int
  eo_judge_mode :: str
  eo_judge_avg_score :: rat
  eo_judge_fallback_reason :: str
  eo_hitl_enabled_run_rate :: rat
  eo_human_correction_rate :: rat
  eo_hitl_redo_loop_rate :: rat
  eo_memory_recall_rate :: rat
  eo_user_research_evidence_rate :: rat
  eo_rag_gap_fill_context_rate :: rat
  eo_rag_gap_fill_section_rate :: rat
  eo_redo_iteration_count :: int
  eo_redo_convergence_ratio :: rat
  eo_golden_set_size :: int
  eo_golden_set_pass_rate :: rat
  eo_golden_catalog :: golden_catalog
  eo_report_quality_score :: int
  eo_source_recall :: rat
  eo_compliance_pass_rate :: rat
  eo_compliance_fail_count :: int
  eo_compliance_blocker_count :: int
  eo_coverage_lift_rate :: "rat option"
  eo_manual_baseline_hours :: rat
  eo_automation_runtime_hours :: rat
  eo_task_time_saved_hours :: rat
  eo_time_savings_rate :: rat
  eo_cost_per_report_usd :: rat
  eo_regression_gate_status :: str
  eo_regression_gate_reason :: str
  eo_regression_gate_issues :: "gate_issue list"
  eo_metrics :: "eval_metric list"
  eo_cases :: "eval_case list"
  eo_recommendations :: "str list"

definition evaluated_runs :: "int \<Rightarrow> finished_run list \<Rightarrow> finished_run list" where
  "evaluated_runs limit runs =
     take (nat (max 1 limit)) (sort_desc rn_updated_at
       (filter (\<lambda>r. rn_status r \<in> {''completed'', ''completed_with_blockers''}) runs))"

text \<open>A comparison that \<open>RunQualityComparison\<close> accepts; the model raises on any other.\<close>

definition comparison_valid :: "run_comparison \<Rightarrow> bool" where
  "comparison_valid c \<longleftrightarrow>
     rc_verdict c \<in> {''pass'', ''warn'', ''fail''} \<and> 0 \<le> rc_target_score c \<and> rc_target_score c \<le> 100"

definition compare_run :: "eval_env \<Rightarrow> finished_run option \<Rightarrow> finished_run \<Rightarrow> py_error + run_comparison" where
  "compare_run env baseline r =
     err_bind (ee_compare env r
       (case baseline of Some b \<Rightarrow> if rn_id b \<noteq> rn_id r then Some b else None | None \<Rightarrow> None)) (\<lambda>c.
       if comparison_valid c then Inr c else Inl (ValueError ''RunQualityComparison''))"

definition total_duration_hours :: "finished_run list \<Rightarrow> rat" where
  "total_duration_hours runs =
     sum_list (map (\<lambda>r. max (of_int (mt_total_duration_ms (rn_metrics r)) / 3600000) (8/100)) runs)"

text \<open>The time saved against six hours per report by hand, and its share of them.\<close>

definition time_saved_hours :: "finished_run list \<Rightarrow> rat" where
  "time_saved_hours runs = max 0 (of_nat (length runs) * 6 - total_duration_hours runs)"

definition time_savings_rate :: "finished_run list \<Rightarrow> rat" where
  "time_savings_rate runs = (if runs = [] then 0 else time_saved_hours runs / (of_nat (length runs) * 6))"

definition cost_per_report :: "finished_run list \<Rightarrow> rat" where
  "cost_per_report runs =
     (if runs = [] then 0
      else round_digits 6 (sum_list (map (\<lambda>r. mt_cost_estimate_usd (rn_metrics r)) runs) / of_nat (length runs)))"

definition average_delta_score :: "run_comparison list \<Rightarrow> rat option" where
  "average_delta_score cs =
     (let deltas = List.map_filter rc_delta_score cs
      in if deltas = [] then None else Some (round_digits 2 (average_float (map of_int deltas))))"

definition coverage_lift_rate :: "run_comparison list \<Rightarrow> rat option" where
  "coverage_lift_rate cs =
     (let lifts = List.map_filter qx_delta
            (filter (\<lambda>m. qx_name m = ''source_coverage_rate'') (concat (map rc_metrics cs)))
      in if lifts = [] then None else Some (round_digits 4 (average_float lifts)))"

definition redo_convergence :: "finished_run list \<Rightarrow> rat" where
  "redo_convergence runs = average_float (map re_convergence_ratio (concat (map rw_revisions runs)))"

definition human_correction_rate :: "finished_run list \<Rightarrow> rat" where
  "human_correction_rate runs = average_float (map (\<lambda>r. mt_human_override_rate (rn_metrics r)) runs)"

definition judge_avg_score :: "run_comparison list \<Rightarrow> rat" where
  "judge_avg_score cs = round_digits 2 (average_float (map heuristic_judge_score cs))"

definition compliance_fail_count :: "compliance_report list \<Rightarrow> int" where
  "compliance_fail_count reports = int (count_if (\<lambda>p. co_status p = ''fail'') reports)"

definition compliance_blocker_count :: "compliance_report list \<Rightarrow> int" where
  "compliance_blocker_count reports = sum_list (map co_blocker_count reports)"

definition golden_set_pass_rate :: "eval_case list \<Rightarrow> rat" where
  "golden_set_pass_rate ks = ratio_of (map (\<lambda>k. ek_status k = ''pass'') ks)"

definition eval_metrics ::
  "finished_run list \<Rightarrow> run_comparison list \<Rightarrow> compliance_report list \<Rightarrow> eval_values \<Rightarrow> eval_case list
    \<Rightarrow> eval_metric list" where
  "eval_metrics runs cs reports v ks =
     (let up = metric_of False; down = metric_of True
      in [up ''golden_set_pass_rate'' (golden_set_pass_rate ks) (8/10) ''ratio'',
          up ''report_quality_score'' (of_int (el_report_quality_score v)) 72 ''score'',
          up ''source_recall'' (el_source_recall v) (6/10) ''ratio'',
          up ''verified_source_rate'' (el_verified_rate v) (6/10) ''ratio'',
          up ''claim_citation_rate'' (el_citation_rate v) (6/10) ''ratio'',
          up ''citation_validity_rate'' (el_citation_validity_rate v) (6/10) ''ratio'',
          up ''schema_pass_rate'' (el_schema_pass_rate v) 1 ''ratio'',
          up ''report_structure_score'' (el_report_structure_rate v) (7/10) ''ratio'',
          up ''claim_risk_section_score'' (el_claim_risk_section_rate v) 1 ''ratio'',
          up ''scenario_checklist_section_score'' (el_scenario_checklist_section_rate v) 1 ''ratio'',
          up ''memory_context_section_score'' (el_memory_context_section_rate v) 1 ''ratio'',
          up ''memory_recall_rate'' (el_memory_recall_rate v) 1 ''ratio'',
          up ''user_research_section_score'' (el_user_research_section_rate v) 1 ''ratio'',
          up ''user_research_evidence_rate'' (el_user_research_evidence_rate v) 1 ''ratio'',
          up ''rag_gap_fill_context_rate'' (el_rag_gap_fill_context_rate v) 1 ''ratio'',
          up ''rag_gap_fill_section_score'' (el_rag_gap_fill_section_rate v) 1 ''ratio'',
          up ''real_collection_rate'' (el_real_collection_rate v) (5/10) ''ratio'',
          up ''real_llm_rate'' (el_real_llm_rate v) (5/10) ''ratio'',
          up ''real_quality_chain_rate'' (el_real_quality_chain_rate v) (5/10) ''ratio'',
          up ''hitl_redo_loop_rate'' (el_hitl_redo_loop_rate v) 1 ''ratio'',
          up ''decision_replay_rate'' (el_decision_replay_rate v) (8/10) ''ratio'',
          up ''compliance_pass_rate'' (el_compliance_pass_rate v) 1 ''ratio'',
          down ''compliance_fail_count'' (of_int (compliance_fail_count reports)) 0 ''count'',
          down ''compliance_blocker_count'' (of_int (compliance_blocker_count reports)) 0 ''count'',
          up ''judge_avg_score'' (judge_avg_score cs) 72 ''score'',
          down ''human_correction_rate'' (human_correction_rate runs) (35/100) ''ratio'',
          up ''time_savings_rate'' (time_savings_rate runs) (5/10) ''ratio'',
          up ''task_time_saved_hours'' (time_saved_hours runs) (of_nat (length runs) * 3) ''hours'',
          down ''cost_per_report_usd'' (cost_per_report runs) 5 ''usd'']
         @ (case average_delta_score cs of Some d \<Rightarrow> [up ''average_delta_score'' d 0 ''score''] | None \<Rightarrow> [])
         @ (case coverage_lift_rate cs of Some l \<Rightarrow> [up ''coverage_lift_rate'' l 0 ''ratio''] | None \<Rightarrow> [])
         @ (if concat (map rw_revisions runs) \<noteq> []
            then [down ''redo_convergence_ratio'' (redo_convergence runs) (35/100) ''ratio''] else []))"

text \<open>The bounds \<open>EvalOpsReport\<close> declares for the fields that are not counts of lists.\<close>

definition unit_interval :: "rat \<Rightarrow> bool" where
  "unit_interval v \<longleftrightarrow> 0 \<le> v \<and> v \<le> 1"

definition evalops_report_valid :: "evalops_report \<Rightarrow> bool" where
  "evalops_report_valid r \<longleftrightarrow>
     list_all unit_interval
       [eo_real_run_ratio r, eo_real_quality_chain_rate r, eo_decision_replay_rate r,
        eo_hitl_enabled_run_rate r, eo_human_correction_rate r, eo_hitl_redo_loop_rate r,
        eo_memory_recall_rate r, eo_user_research_evidence_rate r, eo_rag_gap_fill_context_rate r,
        eo_rag_gap_fill_section_rate r, eo_golden_set_pass_rate r, gs_coverage_rate (eo_golden_catalog r),
        eo_source_recall r, eo_compliance_pass_rate r, eo_time_savings_rate r]
     \<and> list_all (\<lambda>s. unit_interval (qs_pass_rate s)) (eo_quality_chain_steps r)
     \<and> list_all (\<lambda>v. 0 \<le> v)
       [eo_redo_convergence_ratio r, eo_manual_baseline_hours r, eo_automation_runtime_hours r,
        eo_task_time_saved_hours r, eo_cost_per_report_usd r]
     \<and> 0 \<le> eo_judge_avg_score r \<and> eo_judge_avg_score r \<le> 100
     \<and> 0 \<le> eo_report_quality_score r \<and> eo_report_quality_score r \<le> 100
     \<and> 0 \<le> eo_compliance_blocker_count r
     \<and> (case eo_coverage_lift_rate r of Some l \<Rightarrow> -1 \<le> l \<and> l \<le> 1 | None \<Rightarrow> True)"

text \<open>The report over the runs, from their comparisons and compliance reports, the golden catalog and the
  recommendations, all of which \<open>build_enterprise_evalops_report\<close> below computes before it.\<close>

definition evalops_report_of ::
  "finished_run option \<Rightarrow> str \<Rightarrow> finished_run list \<Rightarrow> run_comparison list \<Rightarrow> compliance_report list
    \<Rightarrow> golden_catalog \<Rightarrow> str list \<Rightarrow> evalops_report" where
  "evalops_report_of baseline judge_mode runs cs reports catalog recommend =
     (let v = eval_values_of runs cs reports; ks = golden_cases cs v;
          ms = eval_metrics runs cs reports v ks; n = int (length runs);
          (status, reason, issues) = regression_gate cs ms ks
      in \<lparr>eo_run_count = n, eo_evaluated_run_ids = map rn_id runs,
          eo_baseline_run_id = map_option rn_id baseline,
          eo_real_run_count = int (count_if (\<lambda>r. rn_execution_mode r = ''real'') runs),
          eo_demo_run_count = n - int (count_if (\<lambda>r. rn_execution_mode r = ''real'') runs),
          eo_real_run_ratio = round_digits 3 (ratio_of (map (\<lambda>r. rn_execution_mode r = ''real'') runs)),
          eo_real_quality_chain_rate = round_digits 3 (el_real_quality_chain_rate v),
          eo_real_quality_chain_failed_run_ids =
            map rc_target_run_id (filter (\<lambda>c. \<not> run_quality_chain_passed runs c) cs),
          eo_decision_replay_rate = round_digits 3 (el_decision_replay_rate v),
          eo_decision_replay_failed_run_ids = map rn_id (filter (\<lambda>r. \<not> has_decision_replay r) runs),
          eo_quality_chain_steps = quality_chain_steps cs runs,
          eo_average_delta_score = average_delta_score cs,
          eo_regressed_run_count =
            int (count_if (\<lambda>c. case rc_delta_score c of Some d \<Rightarrow> d < 0 | None \<Rightarrow> False) cs),
          eo_judge_mode = judge_mode, eo_judge_avg_score = judge_avg_score cs,
          eo_judge_fallback_reason = (if judge_mode = ''llm'' then
            ''LLM judge provider is not configured for the in-product EvalOps report; ''
              @ ''deterministic rubric score is used for the regression gate.'' else ''''),
          eo_hitl_enabled_run_rate = round_digits 3 (ratio_of (map rn_hitl_enabled runs)),
          eo_human_correction_rate = round_digits 3 (human_correction_rate runs),
          eo_hitl_redo_loop_rate = round_digits 3 (el_hitl_redo_loop_rate v),
          eo_memory_recall_rate = round_digits 3 (el_memory_recall_rate v),
          eo_user_research_evidence_rate = round_digits 3 (el_user_research_evidence_rate v),
          eo_rag_gap_fill_context_rate = round_digits 3 (el_rag_gap_fill_context_rate v),
          eo_rag_gap_fill_section_rate = round_digits 3 (el_rag_gap_fill_section_rate v),
          eo_redo_iteration_count = int (length (concat (map rw_revisions runs))),
          eo_redo_convergence_ratio = round_digits 3 (redo_convergence runs),
          eo_golden_set_size = int (length ks),
          eo_golden_set_pass_rate = round_digits 3 (golden_set_pass_rate ks),
          eo_golden_catalog = catalog,
          eo_report_quality_score = el_report_quality_score v,
          eo_source_recall = round_digits 3 (el_source_recall v),
          eo_compliance_pass_rate = round_digits 3 (el_compliance_pass_rate v),
          eo_compliance_fail_count = compliance_fail_count reports,
          eo_compliance_blocker_count = compliance_blocker_count reports,
          eo_coverage_lift_rate = coverage_lift_rate cs,
          eo_manual_baseline_hours = round_digits 2 (of_int n * 6),
          eo_automation_runtime_hours = round_digits 2 (total_duration_hours runs),
          eo_task_time_saved_hours = round_digits 2 (time_saved_hours runs),
          eo_time_savings_rate = round_digits 3 (time_savings_rate runs),
          eo_cost_per_report_usd = cost_per_report runs,
          eo_regression_gate_status = status, eo_regression_gate_reason = reason,
          eo_regression_gate_issues = issues, eo_metrics = ms, eo_cases = ks,
          eo_recommendations = recommend\<rparr>)"

definition build_enterprise_evalops_report ::
  "eval_env \<Rightarrow> finished_run list \<Rightarrow> finished_run option \<Rightarrow> int \<Rightarrow> str \<Rightarrow> py_error + evalops_report" where
  "build_enterprise_evalops_report env all_runs baseline limit judge_mode =
     (let runs = evaluated_runs limit all_runs
      in err_bind (err_map (compare_run env baseline) runs) (\<lambda>cs.
         err_bind (err_map (build_run_compliance_report (ee_subn env) (ee_settings env)) runs) (\<lambda>reports.
         err_bind (golden_catalog_summary (ee_golden_rows env) runs) (\<lambda>catalog.
         let v = eval_values_of runs cs reports
         in err_bind (eval_recommendations (eval_metrics runs cs reports v (golden_cases cs v)) cs) (\<lambda>recommend.
         let r = evalops_report_of baseline judge_mode runs cs reports catalog recommend
         in if evalops_report_valid r then Inr r
            else Inl (ValueError ''EvalOpsReport''))))))"

section \<open>The release contract: release_contract.py\<close>

record metric_requirement =
  mq_name :: str
  mq_value :: rat
  mq_target :: rat
  mq_status :: str
  mq_blocking :: bool
  mq_summary :: str

record release_contract =
  lc_mode :: str
  lc_decision :: str
  lc_allowed :: bool
  lc_reason :: str
  lc_evaluated_run_ids :: "str list"
  lc_baseline_run_id :: "str option"
  lc_judge_mode :: str
  lc_regression_gate_status :: str
  lc_regression_gate_reason :: str
  lc_required_metrics :: "metric_requirement list"
  lc_blocking_issue_ids :: "str list"
  lc_warning_issue_ids :: "str list"
  lc_quality_findings :: "quality_finding list"
  lc_generated_at :: datetime

definition release_decision :: "evalops_report \<Rightarrow> str \<Rightarrow> str" where
  "release_decision r mode =
     (if eo_regression_gate_status r = ''pass'' then ''allowed''
      else if mode = ''blocking'' \<and> eo_regression_gate_status r = ''fail'' then ''blocked''
      else ''review_required'')"

definition release_reason :: "evalops_report \<Rightarrow> str \<Rightarrow> bool \<Rightarrow> str" where
  "release_reason r mode allowed =
     (if allowed \<and> eo_regression_gate_status r = ''pass'' then ''EvalOps regression gate passed.''
      else if mode = ''advisory'' then
        ''EvalOps is advisory for this environment; publish is allowed but requires review attention: ''
          @ eo_regression_gate_reason r
      else if allowed then
        ''EvalOps blocking mode only blocks fail status; warning status requires review: ''
          @ eo_regression_gate_reason r
      else ''EvalOps blocking mode rejected publish: '' @ eo_regression_gate_reason r)"

definition build_evalops_release_contract :: "datetime \<Rightarrow> evalops_report \<Rightarrow> str \<Rightarrow> release_contract" where
  "build_evalops_release_contract now r mode =
     (let allowed = (release_decision r mode \<noteq> ''blocked'');
          ids = (\<lambda>status. map gx_id (filter (\<lambda>i. gx_status i = status) (eo_regression_gate_issues r)))
      in \<lparr>lc_mode = mode, lc_decision = release_decision r mode, lc_allowed = allowed,
          lc_reason = release_reason r mode allowed, lc_evaluated_run_ids = eo_evaluated_run_ids r,
          lc_baseline_run_id = eo_baseline_run_id r, lc_judge_mode = eo_judge_mode r,
          lc_regression_gate_status = eo_regression_gate_status r,
          lc_regression_gate_reason = eo_regression_gate_reason r,
          lc_required_metrics = map (\<lambda>m.
            \<lparr>mq_name = em_name m, mq_value = em_value m, mq_target = em_target m, mq_status = em_status m,
             mq_blocking = (mode = ''blocking'' \<and> em_status m = ''fail''), mq_summary = em_summary m\<rparr>)
            (eo_metrics r),
          lc_blocking_issue_ids = ids ''fail'', lc_warning_issue_ids = ids ''warn'',
          lc_quality_findings = quality_findings_from_evalops now (eo_regression_gate_status r)
            (eo_regression_gate_reason r) (eo_regression_gate_issues r),
          lc_generated_at = now\<rparr>)"

text \<open>
  \<open>_evalops_release_contract_for_version\<close> of the runtime service over the details of its runs: those
  of the project, and the run of the version.
\<close>

definition runs_for_version :: "finished_run list \<Rightarrow> report_version \<Rightarrow> finished_run list" where
  "runs_for_version all_runs v =
     (let same = filter (\<lambda>r. rn_project_id r = Some (rv_project_id v)) all_runs
      in same @ (case rv_run_id v of
           Some i \<Rightarrow> if i \<noteq> '''' \<and> list_all (\<lambda>r. rn_id r \<noteq> i) same
             then filter (\<lambda>r. rn_id r = i) all_runs else []
         | None \<Rightarrow> []))"

definition evalops_release_contract_for_version ::
  "eval_env \<Rightarrow> datetime \<Rightarrow> int \<Rightarrow> finished_run list \<Rightarrow> report_version \<Rightarrow> py_error + release_contract" where
  "evalops_release_contract_for_version env now limit all_runs v =
     err_bind (build_enterprise_evalops_report env (runs_for_version all_runs v) None limit ''heuristic'') (\<lambda>r.
       Inr (build_evalops_release_contract now r (se_evalops_release_mode (ee_settings env))))"

end
