(* ===== verification/EvalProps.thy ===== *)
theory EvalProps
  imports EvalOps
begin

text \<open>
  What the compliance report and the EvalOps report decide: when a run passes, when the regression
  gate passes, warns or fails, what a release contract blocks, and that the numbers of a report stay in
  the bounds its schema declares.
\<close>

section \<open>Compliance\<close>

lemma compliance_finding_fields [simp]:
  "cf_severity (compliance_finding_of s c t i m r) = s" "cf_category (compliance_finding_of s c t i m r) = c"
  by (simp_all add: compliance_finding_of_def)

lemma set_dedupe_compliance:
  "set (dedupe_compliance_findings fs) = set (keep_first cf_id (\<lambda>_. True) [] fs)"
  by (simp add: dedupe_compliance_findings_def)

lemma dedupe_compliance_Nil: "(dedupe_compliance_findings fs = []) = (fs = [])"
proof -
  have "(set (dedupe_compliance_findings fs) = {}) = (fs = [])"
    unfolding set_dedupe_compliance by (cases fs) simp_all
  then show ?thesis by simp
qed

definition alarming :: "compliance_finding \<Rightarrow> bool" where
  "alarming f \<longleftrightarrow> cf_severity f = ''blocker'' \<or> cf_severity f = ''warn''"

lemma alarming_of [simp]:
  "alarming (compliance_finding_of ''blocker'' c t i m r)" "alarming (compliance_finding_of ''warn'' c t i m r)"
  by (simp_all add: alarming_def)

lemma policy_findings_alarming: "f \<in> set (compliance_policy_findings i p) \<Longrightarrow> alarming f"
  by (auto simp: compliance_policy_findings_def split: if_splits)

lemma policy_findings_Nil:
  "(compliance_policy_findings i p = [])
     = (cp_redaction_enabled p \<and> cp_redact_api_keys p \<and> cp_redact_emails p \<and> cp_redact_phones p)"
  by (auto simp: compliance_policy_findings_def)

lemma host_findings_alarming: "f \<in> set (host_findings c s host) \<Longrightarrow> alarming f"
  by (auto simp: host_findings_def split: if_splits)

text \<open>What compliance asks of a source.\<close>

definition compliant_source :: "compliance_settings \<Rightarrow> raw_source \<Rightarrow> bool" where
  "compliant_source c s =
     (\<not> robots_blocked s \<and>
      (case fs_url s of
         None \<Rightarrow> \<not> se_compliance_require_source_urls c \<or> lower (fs_source_type s) \<in> set no_url_source_types
       | Some url \<Rightarrow> (case compliance_url_host url of
           Inl _ \<Rightarrow> False
         | Inr host \<Rightarrow> \<not> domain_matches host (se_compliance_blocked_domains c)
             \<and> (se_compliance_allowed_domains c = [] \<or> domain_matches host (se_compliance_allowed_domains c)))))"

lemma source_finding_Nil:
  assumes "source_finding c s = Inr fs" shows "(fs = []) = compliant_source c s"
proof (cases "fs_url s")
  case None
  with assms show ?thesis by (auto simp: source_finding_def compliant_source_def split: if_splits)
next
  case (Some url)
  show ?thesis
  proof (cases "compliance_url_host url")
    case (Inr host)
    with Some assms show ?thesis by (auto simp: source_finding_def compliant_source_def host_findings_def split: if_splits)
  qed (use Some assms in \<open>simp add: source_finding_def\<close>)
qed

lemma source_finding_alarming:
  assumes "source_finding c s = Inr fs" "f \<in> set fs" shows "alarming f"
proof (cases "fs_url s")
  case None
  with assms show ?thesis by (auto simp: source_finding_def split: if_splits)
next
  case (Some url)
  show ?thesis
  proof (cases "compliance_url_host url")
    case (Inr host)
    with Some assms show ?thesis
      by (auto simp: source_finding_def dest: host_findings_alarming split: if_splits)
  qed (use Some assms in \<open>simp add: source_finding_def\<close>)
qed

lemma sources_Nil:
  "err_map (source_finding c) ss = Inr fss \<Longrightarrow> (concat fss = []) = list_all (compliant_source c) ss"
  by (drule err_map_all2, induction rule: list_all2_induct) (auto simp: source_finding_Nil)

lemma sources_alarming:
  assumes "err_map (source_finding c) ss = Inr fss" "f \<in> set (concat fss)" shows "alarming f"
  using err_map_all2[OF assms(1)] assms(2)
  by (induction rule: list_all2_induct) (auto dest: source_finding_alarming)

lemma trace_findings_Nil:
  "(trace_findings c ts = [])
     = (\<not> se_compliance_require_trace_context c
        \<or> list_all (\<lambda>t. ts_trace_id t \<noteq> '''' \<and> ts_otel_span_id t \<noteq> '''' \<and> ts_traceparent t \<noteq> '''') ts)"
  by (auto simp: trace_findings_def missing_context_def filter_empty_conv list_all_iff)

lemma trace_findings_alarming: "f \<in> set (trace_findings c ts) \<Longrightarrow> alarming f"
  by (auto simp: trace_findings_def split: if_splits)

definition sensitive :: "pattern_subn \<Rightarrow> compliance_policy \<Rightarrow> str \<times> str \<times> str \<Rightarrow> bool" where
  "sensitive subn p = (\<lambda>(_, _, content). content \<noteq> '''' \<and> 0 < total_count (snd (redact_text subn p content)))"

lemma pii_finding_Nil: "(pii_finding subn p k = []) = (\<not> sensitive subn p k)"
  by (cases k) (simp add: pii_finding_def sensitive_def Let_def)

lemma pii_finding_alarming: "f \<in> set (pii_finding subn p k) \<Longrightarrow> alarming f"
  by (cases k) (simp add: pii_finding_def Let_def split: if_splits)

lemma alarming_counts:
  "list_all alarming fs \<Longrightarrow>
   count_if (\<lambda>f. cf_severity f = ''blocker'') fs + count_if (\<lambda>f. cf_severity f = ''warn'') fs = length fs"
  by (induction fs) (auto simp: alarming_def loop_simps)

text \<open>C22. A run passes compliance exactly when every redaction switch is on, its sources are neither blocked by
  robots nor on a blocked domain nor outside the allowlist, have a URL where one is required, its spans
  have their trace context where it is required, and no pattern finds sensitive text in its report, its
  sources or its spans. The findings are blockers and warnings, which the counts partition, and the
  run fails exactly when one is a blocker.\<close>

theorem compliance_pass_exact:
  "case build_run_compliance_report subn c r of
     Inl _ \<Rightarrow> True
   | Inr rep \<Rightarrow>
       (co_status rep = ''pass'') =
         ((se_compliance_redaction_enabled c \<and> cs_redact_api_keys c \<and> cs_redact_emails c \<and> cs_redact_phones c)
          \<and> list_all (compliant_source c) (fr_raw_sources r)
          \<and> (if se_compliance_require_trace_context c
             then list_all (\<lambda>t. ts_trace_id t \<noteq> '''' \<and> ts_otel_span_id t \<noteq> '''' \<and> ts_traceparent t \<noteq> '''')
               (fr_trace_spans r) else True)
          \<and> list_all (\<lambda>k. \<not> sensitive subn (compliance_policy_from_settings c) k) (pii_candidates r))
       \<and> co_blocker_count rep + co_warn_count rep = co_finding_count rep
       \<and> co_finding_count rep = int (length (co_findings rep))
       \<and> (co_status rep = ''fail'') = list_ex (\<lambda>f. cf_severity f = ''blocker'') (co_findings rep)"
proof (cases "err_map (source_finding c) (fr_raw_sources r)")
  case (Inl e)
  then show ?thesis by (simp add: build_run_compliance_report_def Let_def)
next
  case (Inr fss)
  let ?p = "compliance_policy_from_settings c"
  define fs where "fs = compliance_policy_findings (rn_id r) ?p @ concat fss
      @ trace_findings c (fr_trace_spans r) @ concat (map (pii_finding subn ?p) (pii_candidates r))"
  let ?fs = "dedupe_compliance_findings fs"
  obtain rep where rep: "build_run_compliance_report subn c r = Inr rep" "co_findings rep = ?fs"
    "co_blocker_count rep = int (count_if (\<lambda>f. cf_severity f = ''blocker'') ?fs)"
    "co_warn_count rep = int (count_if (\<lambda>f. cf_severity f = ''warn'') ?fs)"
    "co_finding_count rep = int (length ?fs)"
    "co_status rep = (if co_blocker_count rep \<noteq> 0 then ''fail''
       else if co_warn_count rep \<noteq> 0 then ''warn'' else ''pass'')"
    unfolding build_run_compliance_report_def Let_def Inr err_bind.simps fs_def[symmetric] by simp
  have "\<forall>f \<in> set fs. alarming f"
    unfolding fs_def using policy_findings_alarming sources_alarming[OF Inr] trace_findings_alarming
      pii_finding_alarming by fastforce
  then have "list_all alarming ?fs"
    unfolding list_all_iff set_dedupe_compliance using kf.dd_subset[of cf_id "\<lambda>_. True" fs] by blast
  note sums = alarming_counts[OF this]
  then have "(co_status rep = ''pass'') = (?fs = [])"
    unfolding rep(3-6) by (auto simp del: count_if_0)
  also have "\<dots> = (fs = [])" by (rule dedupe_compliance_Nil)
  also have "\<dots> = (compliance_policy_findings (rn_id r) ?p = [] \<and> concat fss = []
      \<and> trace_findings c (fr_trace_spans r) = [] \<and> concat (map (pii_finding subn ?p) (pii_candidates r)) = [])"
    by (simp add: fs_def)
  finally have pass: "(co_status rep = ''pass'') = \<dots>" .
  have pii: "(concat (map (pii_finding subn ?p) (pii_candidates r)) = [])
      = list_all (\<lambda>k. \<not> sensitive subn ?p k) (pii_candidates r)"
    unfolding concat_eq_Nil_conv pii_finding_Nil[of subn ?p, symmetric] list_all_iff by auto
  have "(co_status rep = ''fail'') = list_ex (\<lambda>f. cf_severity f = ''blocker'') ?fs"
    unfolding rep(6,3,4) by (auto simp: list_ex_iff)
  then show ?thesis
    unfolding rep(1) sum.case pass policy_findings_Nil sources_Nil[OF Inr] trace_findings_Nil pii
    using sums rep(2-5) by (simp add: compliance_policy_from_settings_def)
qed

section \<open>The regression gate\<close>

lemma round_half_even_ge: "of_int t \<le> x \<Longrightarrow> t \<le> round_half_even x"
  using round_half_even_mono[of "of_int t" x] by simp

lemma threshold_pass: "(threshold_status v t = ''pass'') = (t \<le> v)"
  by (simp add: threshold_status_def)

lemma threshold_cases: "threshold_status v t \<in> {''pass'', ''warn'', ''fail''}"
  by (simp add: threshold_status_def)

lemma metric_of_fields [simp]:
  "em_name (metric_of low n v t u) = n"
  "(em_status (metric_of False n v t u) = ''pass'') = (t \<le> v)"
  by (simp_all add: metric_of_def threshold_pass)

lemma metric_of_cases: "em_status (metric_of low n v t u) \<in> {''pass'', ''warn'', ''fail''}"
  using threshold_cases by (simp add: metric_of_def)

lemma case_of_status: "ek_status (case_of i n score t a b) = threshold_status (of_int score) (of_int t)"
  by (simp add: case_of_def)

text \<open>A share that reaches its target reaches it as a rounded percentage too.\<close>

lemma share_case_passes:
  assumes "of_int t / 100 \<le> x"
  shows "ek_status (case_of i n (round_half_even (x * 100)) t a b) = ''pass''"
proof -
  have "of_int t \<le> x * 100" using assms by (simp add: field_simps)
  from round_half_even_ge[OF this] show ?thesis by (simp add: case_of_status threshold_pass)
qed

lemma metrics_cases:
  "list_all (\<lambda>m. em_status m \<in> {''pass'', ''warn'', ''fail''}) (eval_metrics runs cs reports v ks)"
  unfolding eval_metrics_def Let_def list_all_append
  by (intro conjI)
    (simp_all only: list.pred_inject metric_of_cases simp_thms split: option.split if_split)

text \<open>When the metrics pass, so do the golden cases: each has a metric of the same value and target.\<close>

lemma cases_pass_with_metrics:
  assumes "list_all (\<lambda>m. em_status m = ''pass'') (eval_metrics runs cs reports v ks)"
  shows "list_all (\<lambda>k. ek_status k = ''pass'') (golden_cases cs v)"
proof -
  have le: "72 \<le> el_report_quality_score v" "6/10 \<le> el_source_recall v" "6/10 \<le> el_verified_rate v"
    "6/10 \<le> el_citation_rate v" "6/10 \<le> el_citation_validity_rate v" "1 \<le> el_schema_pass_rate v"
    "7/10 \<le> el_report_structure_rate v" "1 \<le> el_claim_risk_section_rate v"
    "1 \<le> el_scenario_checklist_section_rate v" "5/10 \<le> el_real_collection_rate v"
    "5/10 \<le> el_real_llm_rate v" "5/10 \<le> el_real_quality_chain_rate v" "1 \<le> el_compliance_pass_rate v"
    "1 \<le> el_memory_recall_rate v" "1 \<le> el_user_research_evidence_rate v"
    "1 \<le> el_rag_gap_fill_context_rate v" "1 \<le> el_rag_gap_fill_section_rate v"
    "1 \<le> el_hitl_redo_loop_rate v" "8/10 \<le> el_decision_replay_rate v"
    using assms unfolding eval_metrics_def Let_def list_all_append list.pred_inject metric_of_fields
    by simp_all
  show ?thesis
    unfolding golden_cases_def Let_def list.pred_inject
    by (intro conjI share_case_passes TrueI) (use le in \<open>simp_all add: case_of_status threshold_pass\<close>)
qed

lemma set_gate_issues:
  "set (regression_gate_issues cs ms ks) =
     comparison_issue ` {c \<in> set cs. rc_verdict c \<noteq> ''pass''} \<union> metric_issue ` {m \<in> set ms. em_status m \<noteq> ''pass''}
     \<union> case_issue ` {k \<in> set ks. ek_status k \<noteq> ''pass''}"
  by (simp add: regression_gate_issues_def Un_assoc)

lemma issue_fields [simp]:
  "gx_status (comparison_issue c) = rc_verdict c" "gx_kind (comparison_issue c) = ''comparison''"
  "gx_status (metric_issue m) = em_status m" "gx_kind (metric_issue m) = ''metric''"
  "gx_status (case_issue k) = ek_status k" "gx_kind (case_issue k) = ''case''"
  by (simp_all add: comparison_issue_def metric_issue_def case_issue_def)

lemma case_of_cases: "ek_status (case_of i n score t a b) \<in> {''pass'', ''warn'', ''fail''}"
  unfolding case_of_status by (rule threshold_cases)

lemma golden_cases_cases: "list_all (\<lambda>k. ek_status k \<in> {''pass'', ''warn'', ''fail''}) (golden_cases cs v)"
  unfolding golden_cases_def Let_def by (simp only: list.pred_inject case_of_cases simp_thms)

text \<open>The gate over comparisons and metrics with one of the three verdicts.\<close>

lemma gate_status:
  assumes "list_all (\<lambda>c. rc_verdict c \<in> {''pass'', ''warn'', ''fail''}) cs"
    and "list_all (\<lambda>m. em_status m \<in> {''pass'', ''warn'', ''fail''}) ms"
  shows "(fst (regression_gate cs ms ks) = ''fail'')
      = (cs = [] \<or> list_ex (\<lambda>c. rc_verdict c = ''fail'') cs \<or> list_ex (\<lambda>m. em_status m = ''fail'') ms)"
    and "(fst (regression_gate cs ms ks) = ''pass'')
      = (cs \<noteq> [] \<and> list_all (\<lambda>c. rc_verdict c = ''pass'') cs \<and> list_all (\<lambda>m. em_status m = ''pass'') ms)"
proof -
  have f: "(filter (\<lambda>c. rc_verdict c = ''fail'') cs = []) = (\<not> list_ex (\<lambda>c. rc_verdict c = ''fail'') cs)"
    "(filter (\<lambda>m. em_status m = s) ms = []) = (\<not> list_ex (\<lambda>m. em_status m = s) ms)" for s
    by (auto simp: filter_empty_conv list_ex_iff)
  have c: "list_all (\<lambda>c. rc_verdict c = ''pass'') cs
      = (\<not> list_ex (\<lambda>c. rc_verdict c = ''fail'') cs \<and> \<not> list_ex (\<lambda>c. rc_verdict c = ''warn'') cs)"
    using assms(1) by (induction cs) auto
  have m: "list_all (\<lambda>m. em_status m = ''pass'') ms
      = (\<not> list_ex (\<lambda>m. em_status m = ''fail'') ms \<and> \<not> list_ex (\<lambda>m. em_status m = ''warn'') ms)"
    using assms(2) by (induction ms) auto
  show "(fst (regression_gate cs ms ks) = ''fail'')
      = (cs = [] \<or> list_ex (\<lambda>c. rc_verdict c = ''fail'') cs \<or> list_ex (\<lambda>m. em_status m = ''fail'') ms)"
    by (simp add: regression_gate_def Let_def f del: list_ex_iff)
  show "(fst (regression_gate cs ms ks) = ''pass'')
      = (cs \<noteq> [] \<and> list_all (\<lambda>c. rc_verdict c = ''pass'') cs \<and> list_all (\<lambda>m. em_status m = ''pass'') ms)"
    unfolding c m by (auto simp: regression_gate_def Let_def f)
qed

lemma gate_issues:
  "snd (snd (regression_gate cs ms ks)) = (if cs = [] then [no_runs_issue] else regression_gate_issues cs ms ks)"
  by (simp add: regression_gate_def Let_def)

lemma issues_Nil:
  "(regression_gate_issues cs ms ks = []) =
     (list_all (\<lambda>c. rc_verdict c = ''pass'') cs \<and> list_all (\<lambda>m. em_status m = ''pass'') ms
      \<and> list_all (\<lambda>k. ek_status k = ''pass'') ks)"
  unfolding set_empty[symmetric] set_gate_issues list_all_iff by auto

lemma failing_issue:
  "list_ex (\<lambda>i. gx_status i = ''fail'' \<and> gx_kind i \<noteq> ''case'') (regression_gate_issues cs ms ks) =
     (list_ex (\<lambda>c. rc_verdict c = ''fail'') cs \<or> list_ex (\<lambda>m. em_status m = ''fail'') ms)"
  unfolding list_ex_iff set_gate_issues by force

lemma issue_statuses:
  assumes "list_all (\<lambda>c. rc_verdict c \<in> {''pass'', ''warn'', ''fail''}) cs"
    and "list_all (\<lambda>m. em_status m \<in> {''pass'', ''warn'', ''fail''}) ms"
    and "list_all (\<lambda>k. ek_status k \<in> {''pass'', ''warn'', ''fail''}) ks"
  shows "list_all (\<lambda>i. gx_status i = ''warn'' \<or> gx_status i = ''fail'') (regression_gate_issues cs ms ks)"
  using assms unfolding list_all_iff set_gate_issues by auto

text \<open>What a finished report's gate says about its issues.\<close>

definition gate_exact :: "evalops_report \<Rightarrow> bool" where
  "gate_exact r \<longleftrightarrow>
     (eo_regression_gate_status r = ''pass'') = (eo_regression_gate_issues r = [])
     \<and> (eo_regression_gate_status r = ''fail'')
         = list_ex (\<lambda>i. gx_status i = ''fail'' \<and> gx_kind i \<noteq> ''case'') (eo_regression_gate_issues r)
     \<and> list_all (\<lambda>i. gx_status i = ''warn'' \<or> gx_status i = ''fail'') (eo_regression_gate_issues r)
     \<and> sorted (map (\<lambda>i. if gx_status i = ''fail'' then 0 else 1 :: int) (eo_regression_gate_issues r))
     \<and> (if eo_run_count r = 0 then eo_regression_gate_status r = ''fail'' else True)"

lemma report_gate_exact:
  assumes "build_enterprise_evalops_report env all_runs baseline limit judge_mode = Inr r"
  shows "gate_exact r"
proof -
  let ?runs = "evaluated_runs limit all_runs"
  obtain cs where cs: "err_map (compare_run env baseline) ?runs = Inr cs"
    using assms by (cases "err_map (compare_run env baseline) ?runs")
      (auto simp: build_enterprise_evalops_report_def Let_def)
  obtain reports where reports: "err_map (build_run_compliance_report (ee_subn env) (ee_settings env)) ?runs = Inr reports"
    using assms cs by (cases "err_map (build_run_compliance_report (ee_subn env) (ee_settings env)) ?runs")
      (auto simp: build_enterprise_evalops_report_def Let_def)
  define v where "v = eval_values_of ?runs cs reports"
  define ks where "ks = golden_cases cs v"
  define ms where "ms = eval_metrics ?runs cs reports v ks"
  have r: "eo_run_count r = int (length ?runs)"
    "eo_regression_gate_status r = fst (regression_gate cs ms ks)"
    "eo_regression_gate_issues r = snd (snd (regression_gate cs ms ks))"
    using assms unfolding build_enterprise_evalops_report_def Let_def cs reports err_bind.simps
    by (auto simp: evalops_report_of_def Let_def v_def ks_def ms_def split: if_splits prod.splits
        elim!: err_bind_Inr)
  have n: "length cs = length ?runs" using err_map_all2[OF cs] by (simp add: list_all2_lengthD)
  have "comparison_valid c" if "c \<in> set cs" for c
    using err_map_in[OF cs that] by (auto simp: compare_run_def elim!: err_bind_Inr split: if_splits)
  then have verdicts: "list_all (\<lambda>c. rc_verdict c \<in> {''pass'', ''warn'', ''fail''}) cs"
    unfolding list_all_iff comparison_valid_def by blast
  have statuses: "list_all (\<lambda>m. em_status m \<in> {''pass'', ''warn'', ''fail''}) ms"
    unfolding ms_def by (rule metrics_cases)
  have cases: "list_all (\<lambda>k. ek_status k \<in> {''pass'', ''warn'', ''fail''}) ks"
    unfolding ks_def by (rule golden_cases_cases)
  have ok: "list_all (\<lambda>m. em_status m = ''pass'') ms \<Longrightarrow> list_all (\<lambda>k. ek_status k = ''pass'') ks"
    unfolding ms_def ks_def by (rule cases_pass_with_metrics)
  note gate = gate_status[OF verdicts statuses, of ks]
  show ?thesis
  proof (cases "cs = []")
    case True
    then show ?thesis using gate n by (simp add: gate_exact_def r gate_issues no_runs_issue_def)
  next
    case False
    have "sorted (map (\<lambda>i. if gx_status i = ''fail'' then 0 else 1 :: int) (regression_gate_issues cs ms ks))"
      unfolding regression_gate_issues_def by (rule sorted_sort_key)
    then show ?thesis
      using False n ok issue_statuses[OF verdicts statuses cases]
      unfolding gate_exact_def r gate_issues gate if_not_P[OF False] issues_Nil failing_issue by auto
  qed
qed

text \<open>C12. The regression gate of EvalOps passes exactly when it lists no issue, neither from a comparison nor a
  metric nor a golden case; it fails exactly when an issue that fails comes from a comparison or a
  metric, and always when there is no finished run. Its issues are failures first, then warnings.\<close>

theorem evalops_gate_exact:
  "case build_enterprise_evalops_report env all_runs baseline limit judge_mode of
     Inl _ \<Rightarrow> True
   | Inr r \<Rightarrow>
       (eo_regression_gate_status r = ''pass'') = (eo_regression_gate_issues r = [])
       \<and> (eo_regression_gate_status r = ''fail'')
           = list_ex (\<lambda>i. gx_status i = ''fail'' \<and> gx_kind i \<noteq> ''case'') (eo_regression_gate_issues r)
       \<and> list_all (\<lambda>i. gx_status i = ''warn'' \<or> gx_status i = ''fail'') (eo_regression_gate_issues r)
       \<and> sorted (map (\<lambda>i. if gx_status i = ''fail'' then 0 else 1 :: int) (eo_regression_gate_issues r))
       \<and> (if eo_run_count r = 0 then eo_regression_gate_status r = ''fail'' else True)"
proof (cases "build_enterprise_evalops_report env all_runs baseline limit judge_mode")
  case (Inr r)
  show ?thesis unfolding Inr sum.case by (rule report_gate_exact[OF Inr, unfolded gate_exact_def])
qed simp

section \<open>The release contract\<close>

text \<open>C11. The release contract of a version is blocked exactly when EvalOps blocks releases and its gate fails,
  and then it names a failing issue; it is allowed without review exactly when the gate has no issue
  at all, and in every other case it asks for review. Each issue has a quality finding, and a failing
  issue or a warning is named once under its status.\<close>

theorem release_contract_exact:
  "case evalops_release_contract_for_version env now limit all_runs v of
     Inl _ \<Rightarrow> True
   | Inr c \<Rightarrow>
       (\<not> lc_allowed c) = (se_evalops_release_mode (ee_settings env) = ''blocking''
          \<and> lc_regression_gate_status c = ''fail'')
       \<and> (if lc_allowed c then True else lc_blocking_issue_ids c \<noteq> [] \<and> lc_decision c = ''blocked'')
       \<and> (lc_decision c = ''allowed'') = (lc_blocking_issue_ids c = [] \<and> lc_warning_issue_ids c = [])
       \<and> (if lc_allowed c \<and> lc_decision c \<noteq> ''allowed'' then lc_decision c = ''review_required'' else True)
       \<and> length (lc_quality_findings c) = length (lc_blocking_issue_ids c) + length (lc_warning_issue_ids c)"
proof (cases "evalops_release_contract_for_version env now limit all_runs v")
  case (Inr c)
  then obtain r where r: "build_enterprise_evalops_report env (runs_for_version all_runs v) None limit ''heuristic'' = Inr r"
    and c: "c = build_evalops_release_contract now r (se_evalops_release_mode (ee_settings env))"
    unfolding evalops_release_contract_for_version_def by (auto elim!: err_bind_Inr)
  let ?is = "eo_regression_gate_issues r"
  note exact = report_gate_exact[OF r, unfolded gate_exact_def]
  have split: "length (filter (\<lambda>i. gx_status i = ''fail'') is) + length (filter (\<lambda>i. gx_status i = ''warn'') is)
      = length is" if "list_all (\<lambda>i. gx_status i = ''warn'' \<or> gx_status i = ''fail'') is" for "is"
    using that by (induction "is") auto
  have none: "(filter (\<lambda>i. gx_status i = ''fail'') ?is = [] \<and> filter (\<lambda>i. gx_status i = ''warn'') ?is = []) = (?is = [])"
    using split[of ?is] exact by auto
  have failing: "eo_regression_gate_status r = ''fail'' \<Longrightarrow> filter (\<lambda>i. gx_status i = ''fail'') ?is \<noteq> []"
    using exact by (auto simp: list_ex_iff filter_empty_conv)
  have status: "lc_regression_gate_status c = eo_regression_gate_status r"
    "lc_decision c = release_decision r (se_evalops_release_mode (ee_settings env))"
    "lc_allowed c = (lc_decision c \<noteq> ''blocked'')"
    "(lc_blocking_issue_ids c = []) = (filter (\<lambda>i. gx_status i = ''fail'') ?is = [])"
    "(lc_warning_issue_ids c = []) = (filter (\<lambda>i. gx_status i = ''warn'') ?is = [])"
    "length (lc_quality_findings c) = length ?is"
    "length (lc_blocking_issue_ids c) = length (filter (\<lambda>i. gx_status i = ''fail'') ?is)"
    "length (lc_warning_issue_ids c) = length (filter (\<lambda>i. gx_status i = ''warn'') ?is)"
    unfolding c build_evalops_release_contract_def Let_def quality_findings_from_evalops_def by simp_all
  have blocked: "(lc_decision c = ''blocked'') = (se_evalops_release_mode (ee_settings env) = ''blocking''
      \<and> eo_regression_gate_status r = ''fail'')"
    and allowed: "(lc_decision c = ''allowed'') = (?is = [])"
    and review: "lc_decision c \<in> {''allowed'', ''blocked'', ''review_required''}"
    using exact unfolding status(2) release_decision_def by (auto split: if_splits)
  show ?thesis
    unfolding Inr sum.case status(1,3,4-8) allowed none
    using blocked review allowed failing split[of ?is] exact by auto
qed simp

section \<open>Bounds\<close>

lemma round_digits_int: "round_digits n (of_int i) = of_int i"
  using round_half_even_int[of "i * 10 ^ n"] by (simp add: round_digits_def)

lemma round_digits_mono: "x \<le> y \<Longrightarrow> round_digits n x \<le> round_digits n y"
  unfolding round_digits_def
  by (intro divide_right_mono of_int_le_iff[THEN iffD2] round_half_even_mono mult_right_mono) simp_all

lemma round_digits_bounds:
  "of_int a \<le> x \<Longrightarrow> of_int a \<le> round_digits n x" "x \<le> of_int b \<Longrightarrow> round_digits n x \<le> of_int b"
  using round_digits_mono[of "of_int a" x n] round_digits_mono[of x "of_int b" n] by (simp_all add: round_digits_int)

lemma unit_round [intro]: "unit_interval x \<Longrightarrow> unit_interval (round_digits n x)"
  using round_digits_bounds(1)[of 0 x n] round_digits_bounds(2)[of x 1 n] by (simp add: unit_interval_def)

lemma unit_ratio [intro]: "unit_interval (ratio_of bs)"
  using count_if_le[of id bs] by (simp add: unit_interval_def ratio_of_def divide_le_eq_1)

lemma unit_applicable [intro]: "unit_interval (applicable_rate p q runs)"
  using unit_ratio by (simp add: applicable_rate_def Let_def unit_interval_def)

lemma mean_bounds:
  assumes "list_all (\<lambda>x. l \<le> x \<and> x \<le> u) xs" "xs \<noteq> []" shows "l \<le> mean xs" "mean xs \<le> u"
proof -
  have "l * of_nat (length xs) \<le> sum_list xs \<and> sum_list xs \<le> u * of_nat (length xs)"
    using assms(1) by (induction xs) (auto simp: algebra_simps)
  moreover have "(0::rat) < of_nat (length xs)" using assms(2) by simp
  ultimately show "l \<le> mean xs" "mean xs \<le> u"
    unfolding mean_def by (simp_all add: pos_le_divide_eq pos_divide_le_eq)
qed

lemma average_bounds:
  "list_all (\<lambda>x. l \<le> x \<and> x \<le> u) xs \<Longrightarrow> l \<le> 0 \<Longrightarrow> 0 \<le> u \<Longrightarrow> l \<le> average_float xs \<and> average_float xs \<le> u"
  using mean_bounds[of l u xs] by (simp add: average_float_def)

lemma average_float_nonneg: "list_all (\<lambda>x. 0 \<le> x) xs \<Longrightarrow> 0 \<le> average_float xs"
  by (simp add: average_float_def mean_def sum_list_nonneg list_all_iff)

lemma unit_average: "list_all unit_interval xs \<Longrightarrow> unit_interval (average_float xs)"
  using average_bounds[of 0 1 xs] by (simp add: unit_interval_def[abs_def])

definition run_bounded :: "finished_run \<Rightarrow> bool" where
  "run_bounded r \<longleftrightarrow>
     unit_interval (mt_human_override_rate (rn_metrics r)) \<and> 0 \<le> mt_cost_estimate_usd (rn_metrics r)
     \<and> list_all (\<lambda>v. 0 \<le> re_convergence_ratio v) (rw_revisions r)"

definition comparison_bounded :: "run_comparison \<Rightarrow> bool" where
  "comparison_bounded c \<longleftrightarrow>
     comparison_valid c \<and> unit_interval (comparison_metric ''source_coverage_rate'' c)
     \<and> unit_interval (comparison_metric ''rag_gap_fill_section_score'' c)
     \<and> list_all (\<lambda>m. case qx_delta m of Some d \<Rightarrow> -1 \<le> d \<and> d \<le> 1 | None \<Rightarrow> True) (rc_metrics c)"

lemma average_int_bounds:
  assumes "list_all (\<lambda>i. 0 \<le> i \<and> i \<le> 100) is" shows "0 \<le> average_int is" "average_int is \<le> 100"
proof -
  have m: "list_all (\<lambda>x::rat. 0 \<le> x \<and> x \<le> 100) (map of_int is)"
    using assms by (auto simp: list_all_iff)
  have "0 \<le> average_int is \<and> average_int is \<le> 100"
  proof (cases "is = []")
    case False
    then have "0 \<le> mean (map rat_of_int is)" "mean (map rat_of_int is) \<le> 100" using mean_bounds[OF m] by simp_all
    then show ?thesis
      using round_half_even_mono[of "of_int 0" "mean (map of_int is)"]
        round_half_even_mono[of "mean (map of_int is)" "of_int 100"] False
      by (simp add: average_int_def round_half_even_int del: of_int_0 of_int_numeral)
  qed (simp add: average_int_def)
  then show "0 \<le> average_int is" "average_int is \<le> 100" by simp_all
qed

lemma duration_nonneg: "0 \<le> total_duration_hours runs"
  unfolding total_duration_hours_def by (intro sum_list_nonneg) (auto simp: le_max_iff_disj)

lemma time_bounds: "0 \<le> time_saved_hours runs" "unit_interval (time_savings_rate runs)"
proof -
  show z: "0 \<le> time_saved_hours runs" by (simp add: time_saved_hours_def)
  have "time_saved_hours runs \<le> of_nat (length runs) * 6"
    using duration_nonneg[of runs] by (simp add: time_saved_hours_def)
  moreover have "runs \<noteq> [] \<Longrightarrow> (0::rat) < of_nat (length runs) * 6" by simp
  ultimately show "unit_interval (time_savings_rate runs)"
    using z by (simp add: time_savings_rate_def unit_interval_def divide_le_eq_1)
qed

lemma judge_bounds: "0 \<le> judge_avg_score cs" "judge_avg_score cs \<le> 100"
proof -
  have "list_all (\<lambda>x. 0 \<le> x \<and> x \<le> 100) (map heuristic_judge_score cs)"
    by (simp add: list_all_iff heuristic_judge_score_def)
  from average_bounds[OF this] show "0 \<le> judge_avg_score cs" "judge_avg_score cs \<le> 100"
    unfolding judge_avg_score_def
    using round_digits_bounds(1)[of 0 _ 2] round_digits_bounds(2)[of _ 100 2] by simp_all
qed

lemma cost_nonneg: "list_all run_bounded runs \<Longrightarrow> 0 \<le> cost_per_report runs"
proof -
  assume "list_all run_bounded runs"
  then have "0 \<le> sum_list (map (\<lambda>r. mt_cost_estimate_usd (rn_metrics r)) runs) / rat_of_nat (length runs)"
    by (intro divide_nonneg_nonneg sum_list_nonneg) (auto simp: list_all_iff run_bounded_def)
  then show "0 \<le> cost_per_report runs"
    using round_digits_bounds(1)[of 0 _ 6] by (simp add: cost_per_report_def)
qed

lemma chain_steps_valid: "list_all (\<lambda>s. unit_interval (qs_pass_rate s)) (quality_chain_steps cs runs)"
proof -
  have "unit_interval (qs_pass_rate (chain_step_of cs runs spec))" for spec
  proof -
    obtain step label d where spec: "spec = (step, label, d)" by (cases spec)
    let ?failed = "filter (\<lambda>c. \<not> quality_chain_step_passed runs step c) cs"
    have "length ?failed \<le> length cs" by simp
    then have "unit_interval (if int (length cs) = 0 then 0
        else rat_of_int (int (length cs) - int (length ?failed)) / rat_of_int (int (length cs)))"
      by (simp add: unit_interval_def divide_le_eq_1)
    moreover have "qs_pass_rate (chain_step_of cs runs spec) = round_digits 3
        (if int (length cs) = 0 then 0
         else rat_of_int (int (length cs) - int (length ?failed)) / rat_of_int (int (length cs)))"
      by (simp add: chain_step_of_def Let_def spec)
    ultimately show ?thesis using unit_round by metis
  qed
  then show ?thesis by (simp add: quality_chain_steps_def list_all_iff)
qed

lemma coverage_lift_bounds:
  assumes "list_all comparison_bounded cs"
  shows "case coverage_lift_rate cs of Some l \<Rightarrow> -1 \<le> l \<and> l \<le> 1 | None \<Rightarrow> True"
proof -
  let ?lifts = "List.map_filter qx_delta (filter (\<lambda>m. qx_name m = ''source_coverage_rate'') (concat (map rc_metrics cs)))"
  have "list_all (\<lambda>x. -1 \<le> x \<and> x \<le> 1) ?lifts"
    using assms by (fastforce simp: list_all_iff comparison_bounded_def List.map_filter_def)
  from average_bounds[OF this] show ?thesis
    using round_digits_bounds(1)[of "-1" "average_float ?lifts" 4]
      round_digits_bounds(2)[of "average_float ?lifts" 1 4]
    by (simp add: coverage_lift_rate_def Let_def)
qed

lemma report_in_bounds:
  assumes "list_all run_bounded runs" and "list_all comparison_bounded cs"
    and "list_all (\<lambda>p. 0 \<le> co_blocker_count p) reports" and "unit_interval (gs_coverage_rate catalog)"
  shows "evalops_report_valid (evalops_report_of baseline mode runs cs reports catalog advice)"
proof -
  have human: "unit_interval (human_correction_rate runs)"
    unfolding human_correction_rate_def
    by (rule unit_average) (use assms(1) in \<open>auto simp: list_all_iff run_bounded_def\<close>)
  have metric: "unit_interval (average_metric ''source_coverage_rate'' cs)"
    "unit_interval (average_metric ''rag_gap_fill_section_score'' cs)"
    unfolding average_metric_def
    by (rule unit_average, use assms(2) in \<open>auto simp: list_all_iff comparison_bounded_def\<close>)+
  have score: "0 \<le> average_int (map rc_target_score cs)" "average_int (map rc_target_score cs) \<le> 100"
    by (rule average_int_bounds, use assms(2) in \<open>auto simp: list_all_iff comparison_bounded_def comparison_valid_def\<close>)+
  have redo: "0 \<le> round_digits 3 (redo_convergence runs)"
    unfolding redo_convergence_def using round_digits_bounds(1)[of 0 "average_float _" 3]
    by (intro round_digits_bounds(1)[of 0, simplified] average_float_nonneg)
      (use assms(1) in \<open>auto simp: list_all_iff run_bounded_def\<close>)
  have hours: "0 \<le> round_digits 2 (of_int (int (length runs)) * 6)" "0 \<le> round_digits 2 (total_duration_hours runs)"
    "0 \<le> round_digits 2 (time_saved_hours runs)"
    using round_digits_bounds(1)[of 0 _ 2] duration_nonneg time_bounds(1) by simp_all
  have blockers: "0 \<le> compliance_blocker_count reports"
    unfolding compliance_blocker_count_def by (rule sum_list_nonneg) (use assms(3) in \<open>auto simp: list_all_iff\<close>)
  let ?r = "evalops_report_of baseline mode runs cs reports catalog advice"
  obtain g where g: "regression_gate cs (eval_metrics runs cs reports (eval_values_of runs cs reports)
      (golden_cases cs (eval_values_of runs cs reports))) (golden_cases cs (eval_values_of runs cs reports)) = g" by blast
  note fields = evalops_report_of_def Let_def g prod.case_eq_if evalops_report.select_convs eval_values_of_def
    eval_values.select_convs
  have rates: "list_all unit_interval
       [eo_real_run_ratio ?r, eo_real_quality_chain_rate ?r, eo_decision_replay_rate ?r,
        eo_hitl_enabled_run_rate ?r, eo_human_correction_rate ?r, eo_hitl_redo_loop_rate ?r,
        eo_memory_recall_rate ?r, eo_user_research_evidence_rate ?r, eo_rag_gap_fill_context_rate ?r,
        eo_rag_gap_fill_section_rate ?r, eo_golden_set_pass_rate ?r, gs_coverage_rate (eo_golden_catalog ?r),
        eo_source_recall ?r, eo_compliance_pass_rate ?r, eo_time_savings_rate ?r]"
    unfolding list.pred_inject fields golden_set_pass_rate_def
    by (intro conjI TrueI list.pred_inject(1) unit_round unit_ratio unit_applicable human metric time_bounds(2) assms(4))
  show ?thesis
    unfolding evalops_report_valid_def
    by (intro conjI rates) (simp_all only: fields list.pred_inject chain_steps_valid redo hours score blockers
        judge_bounds cost_nonneg[OF assms(1)] coverage_lift_bounds[OF assms(2)] simp_thms)
qed

lemma golden_coverage_unit:
  assumes "golden_catalog_summary rows runs = Inr g" shows "unit_interval (gs_coverage_rate g)"
proof -
  obtain hits where h: "err_map (\<lambda>row. err_any (matches_golden_case row) runs) rows = Inr hits"
    using assms by (auto simp: golden_catalog_summary_def elim!: err_bind_Inr)
  let ?m = "remdups (map (\<lambda>(row, _). row_text row ''id'' ''None'') (filter snd (zip rows hits)))"
  have "length ?m \<le> length (filter snd (zip rows hits))" by (rule order_trans[OF length_remdups_leq]) simp
  also have "\<dots> \<le> length rows" by (rule order_trans[OF length_filter_le]) simp
  finally have "length ?m \<le> length rows" .
  then have "unit_interval (if rows = [] then 0 else round_digits 3 (of_nat (length ?m) / of_nat (length rows)))"
    using unit_round[of "of_nat (length ?m) / of_nat (length rows)" 3]
    by (simp add: unit_interval_def divide_le_eq_1)
  then show ?thesis using assms h by (auto simp: golden_catalog_summary_def Let_def)
qed

lemma report_blockers_nonneg: "build_run_compliance_report subn s r = Inr p \<Longrightarrow> 0 \<le> co_blocker_count p"
  by (auto simp: build_run_compliance_report_def Let_def elim!: err_bind_Inr)

text \<open>The report is never refused by its own schema: when the runs keep the bounds of theirs and the compared
  metrics are shares with differences between -1 and 1, each report that gets built is returned.\<close>

theorem evalops_report_accepted:
  assumes "list_all run_bounded runs" "runs = evaluated_runs limit all_runs"
    and "err_map (compare_run env baseline) runs = Inr cs" "list_all comparison_bounded cs"
    and "err_map (build_run_compliance_report (ee_subn env) (ee_settings env)) runs = Inr reports"
    and "golden_catalog_summary (ee_golden_rows env) runs = Inr catalog"
    and "eval_recommendations (eval_metrics runs cs reports (eval_values_of runs cs reports)
           (golden_cases cs (eval_values_of runs cs reports))) cs = Inr advice"
  shows "build_enterprise_evalops_report env all_runs baseline limit mode =
    Inr (evalops_report_of baseline mode runs cs reports catalog advice)"
proof -
  have "list_all (\<lambda>p. 0 \<le> co_blocker_count p) reports"
    using err_map_in[OF assms(5)] report_blockers_nonneg by (fastforce simp: list_all_iff)
  from report_in_bounds[OF assms(1,4) this golden_coverage_unit[OF assms(6)]] show ?thesis
    using assms(2,3,5,6,7) by (simp add: build_enterprise_evalops_report_def Let_def)
qed

end
