(* ===== verification/Projection.thy ===== *)
theory Projection
  imports RunRecords Refs SourceResolver
begin

text \<open>
  enterprise/projection.py: the enterprise records of a finished run. Its sources become evidence, one
  record per source and competitor it covers; the claims of its knowledge become claim records that
  cite this evidence; and its report becomes a report version over the evidence the report cites.
  The clock and the JSON number of a float are parameters.
\<close>

section \<open>Competitors\<close>

definition record_id :: "str \<Rightarrow> str" where
  "record_id v = normalize_key (Some v)"

definition competitor_id_for :: "(str \<times> str) list option \<Rightarrow> str \<Rightarrow> str" where
  "competitor_id_for ids v =
     (case ids of None \<Rightarrow> record_id v
      | Some d \<Rightarrow> or_str (opt_or (map_of d v) (map_of d (normalize_key (Some v)))) (record_id v))"

definition source_competitors :: "raw_source \<Rightarrow> str list" where
  "source_competitors s =
     keep_first record_id (\<lambda>c. record_id c \<noteq> '''') []
       (if fs_covered_competitors s \<noteq> [] then fs_covered_competitors s else [fs_competitor s])"

section \<open>Evidence\<close>

definition source_quality_label :: "raw_source \<Rightarrow> str" where
  "source_quality_label s =
     (if fs_source_type s = ''webpage_verified'' then ''accepted'' else ''unreviewed'')"

definition source_metadata :: "raw_source \<Rightarrow> jdict" where
  "source_metadata s =
     raw_source_alias_metadata (fs_id s)
       (Some (dict_merge (fs_metadata s)
         [(''source_competitor'', JStr (fs_competitor s)),
          (''candidate_origin'', JStr (fs_candidate_origin s)),
          (''candidate_rank'', fs_candidate_rank s),
          (''candidate_confidence'', fs_candidate_confidence s),
          (''fetch_method'', JStr (fs_fetch_method s)),
          (''quality_score'', fs_quality_score s),
          (''failure_reason'', fs_failure_reason s)]))"

definition evidence_of_source ::
  "finished_run \<Rightarrow> str \<Rightarrow> str \<Rightarrow> (str \<times> str) list option \<Rightarrow> raw_source \<times> str \<Rightarrow> py_error + evidence" where
  "evidence_of_source r workspace_id project_id ids = (\<lambda>(s, competitor).
     let competitor_id = competitor_id_for ids competitor
     in err_bind (normalize_url (Some (opt_text (fs_url s)))) (\<lambda>url.
        err_bind (compute_evidence_id (Some url) (Some (fs_content_hash s)) (Some competitor_id)
            (Some (fs_dimension s))) (\<lambda>evidence_id.
        Inr \<lparr>ev_id = evidence_id, ev_workspace_id = workspace_id, ev_project_id = project_id,
             ev_run_id = Some (rn_id r), ev_raw_source_id = fs_id s, ev_competitor_id = competitor_id,
             ev_dimension = normalize_dimension_key (Some (fs_dimension s)),
             ev_source_type = fs_source_type s, ev_title = fs_title s, ev_url = fs_url s,
             ev_canonical_url = url, ev_snippet = fs_snippet s, ev_content_hash = fs_content_hash s,
             ev_reliability_score = fs_confidence s, ev_freshness_score = 1,
             ev_quality_label = source_quality_label s, ev_first_seen_run_id = Some (rn_id r),
             ev_last_seen_run_id = Some (rn_id r), ev_seen_count = 1,
             ev_captured_at = fs_extracted_at s, ev_metadata = source_metadata s\<rparr>)))"

definition source_pairs :: "finished_run \<Rightarrow> (raw_source \<times> str) list" where
  "source_pairs r = concat (map (\<lambda>s. map (Pair s) (source_competitors s)) (fr_raw_sources r))"

definition build_evidence_records ::
  "finished_run \<Rightarrow> str \<Rightarrow> str \<Rightarrow> (str \<times> str) list option \<Rightarrow> py_error + evidence list" where
  "build_evidence_records r workspace_id project_id ids =
     err_bind (err_map (evidence_of_source r workspace_id project_id ids) (source_pairs r)) (\<lambda>es.
       Inr (keep_first ev_id (\<lambda>_. True) [] es))"

section \<open>Claims\<close>

definition claims_for_dimension :: "competitor_knowledge \<Rightarrow> str \<Rightarrow> knowledge_claim list" where
  "claims_for_dimension k dimension =
     (let key = lower dimension
      in if has_substring ''pricing'' key then ck_pricing_notes k @ concat (ck_pricing_tiers k)
         else if has_substring ''persona'' key \<or> has_substring ''user'' key then
           ck_persona_summary k @ concat (ck_persona_segments k)
         else ck_feature_summary k @ concat (ck_feature_nodes k))"

text \<open>
  The evidence of a source for a competitor and, where there is none, the evidence of the source for any
  competitor, which the index keeps under the name \<open>*\<close>.
\<close>

definition evidence_of_citation :: "evidence list \<Rightarrow> str \<Rightarrow> str \<Rightarrow> evidence list" where
  "evidence_of_citation es competitor_id source_id =
     (let own = filter (\<lambda>e. ev_raw_source_id e = source_id
            \<and> (ev_competitor_id e = competitor_id \<or> competitor_id = ''*'')) es
      in if own \<noteq> [] then own else filter (\<lambda>e. ev_raw_source_id e = source_id) es)"

definition evidence_for_claim :: "evidence list \<Rightarrow> str \<Rightarrow> knowledge_claim \<Rightarrow> evidence list" where
  "evidence_for_claim es competitor_id c =
     keep_first ev_id (\<lambda>_. True) [] (concat (map (evidence_of_citation es competitor_id) (kc_source_ids c)))"

definition is_release_claim_evidence :: "evidence \<Rightarrow> bool" where
  "is_release_claim_evidence e =
     (let solid = (75/100 \<le> ev_reliability_score e \<and> ev_quality_label e \<notin> {''rejected'', ''stale''})
      in ev_source_type e = ''webpage_verified'' \<and> solid
         \<or> ev_source_type e \<in> {''survey_response'', ''interview_record'', ''manual_transcript'',
             ''manual_note'', ''manual''}
           \<and> (case map_of (ev_metadata e) ''imported_user_research'' of Some v \<Rightarrow> truthy v | None \<Rightarrow> False)
           \<and> solid)"

definition release_claim_evidence_ids :: "evidence list \<Rightarrow> str list" where
  "release_claim_evidence_ids es = map ev_id (filter is_release_claim_evidence es)"

text \<open>The claims in the order they are looked at: by competitor, dimension and place in the knowledge.\<close>

definition stated_claims ::
  "finished_run \<Rightarrow> (str \<times> str) list option \<Rightarrow> (str \<times> str \<times> knowledge_claim) list" where
  "stated_claims r ids =
     concat (map (\<lambda>(competitor, k). concat (map (\<lambda>d.
       map (\<lambda>c. (competitor_id_for ids competitor, d, c)) (claims_for_dimension k d))
         (ap_dimensions (rn_plan r)))) (fr_competitor_knowledge r))"

definition claim_of ::
  "datetime \<Rightarrow> finished_run \<Rightarrow> str \<Rightarrow> str \<Rightarrow> evidence list \<Rightarrow> str \<times> str \<times> knowledge_claim \<Rightarrow> claim option" where
  "claim_of now r workspace_id project_id es = (\<lambda>(competitor_id, dimension, c).
     let candidates = evidence_for_claim es competitor_id c;
         release_ids = release_claim_evidence_ids candidates;
         evidence_ids = (if release_ids \<noteq> [] then release_ids else map ev_id candidates)
     in if evidence_ids = [] then None
        else Some \<lparr>cl_id = compute_claim_id (Some (hd evidence_ids)) (Some (kc_claim c))
               (Some (normalize_dimension_key (Some dimension))),
             cl_workspace_id = workspace_id, cl_project_id = project_id, cl_run_id = Some (rn_id r),
             cl_competitor_id = competitor_id,
             cl_claim_type = normalize_dimension_key (Some dimension), cl_claim_text = kc_claim c,
             cl_evidence_ids = evidence_ids, cl_confidence = kc_confidence c,
             cl_status = (if release_ids \<noteq> [] then ''proposed'' else ''deprecated''),
             cl_created_by_agent = Some ''analyst'', cl_created_at = now\<rparr>)"

definition build_claim_records ::
  "datetime \<Rightarrow> finished_run \<Rightarrow> str \<Rightarrow> str \<Rightarrow> evidence list \<Rightarrow> (str \<times> str) list option \<Rightarrow> claim list" where
  "build_claim_records now r workspace_id project_id es ids =
     keep_first cl_id (\<lambda>_. True) []
       (List.map_filter (claim_of now r workspace_id project_id es) (stated_claims r ids))"

definition release_claim_records :: "claim list \<Rightarrow> claim list" where
  "release_claim_records cs = filter (\<lambda>c. cl_status c \<notin> {''deprecated'', ''rejected''}) cs"

section \<open>Metadata of the report\<close>

definition release_claim_admission :: "claim list \<Rightarrow> claim list \<Rightarrow> evidence list \<Rightarrow> jdict" where
  "release_claim_admission cs released es =
     (let excluded = filter (\<lambda>c. cl_id c \<notin> cl_id ` set released) cs;
          types = (\<lambda>c. sorted_set (map ev_source_type (List.map_filter
            (\<lambda>i. find (\<lambda>e. ev_id e = i) (rev es)) (cl_evidence_ids c))))
      in [(''admitted_claim_count'', JInt (int (length released))),
          (''excluded_claim_count'', JInt (int (length excluded))),
          (''excluded_claims'', JList (map (\<lambda>c. JDict
            [(''claim_id'', JStr (cl_id c)), (''competitor_id'', JStr (cl_competitor_id c)),
             (''dimension'', JStr (cl_claim_type c)), (''status'', JStr (cl_status c)),
             (''evidence_ids'', jstrs (cl_evidence_ids c)), (''source_types'', jstrs (types c)),
             (''reason'', JStr ''release_claim_requires_verified_webpage_evidence'')]) excluded))])"

definition competitor_homepages :: "finished_run \<Rightarrow> str list \<Rightarrow> json list" where
  "competitor_homepages r competitor_ids =
     map (\<lambda>(name, competitor_id). JDict
         [(''competitor_id'', JStr competitor_id), (''competitor_name'', JStr name),
          (''homepage_url'', jstr_opt (map_of (ap_homepage_hints (rn_plan r)) name)),
          (''homepage_verified'', JBool (map_of (ap_homepage_verified (rn_plan r)) name = Some True))])
       (zip (ap_competitors (rn_plan r)) competitor_ids)"

definition run_quality_findings :: "finished_run \<Rightarrow> qc_issue list" where
  "run_quality_findings r = filter (\<lambda>i. \<not> starts_with ''release_gate.'' (qi_field_path i)) (rn_qa_findings r)"

definition sources_of_types :: "str list \<Rightarrow> raw_source list \<Rightarrow> str list" where
  "sources_of_types types ss = map fs_id (filter (\<lambda>s. lower (fs_source_type s) \<in> set types) ss)"

definition user_research_sources :: "raw_source list \<Rightarrow> (str \<times> str list) list" where
  "user_research_sources ss =
     (let survey = [''survey_simulated'', ''survey_response'']; interview = [''interview_record''];
          manual = [''manual_transcript'', ''manual_note'', ''manual'']
      in [(''survey_source_ids'', sources_of_types survey ss),
          (''interview_source_ids'', sources_of_types interview ss),
          (''manual_research_source_ids'', sources_of_types manual ss),
          (''user_research_source_ids'', sources_of_types (survey @ interview @ manual) ss)])"

text \<open>The ids of the sources that are a risk, by the key they are listed under.\<close>

definition source_risks :: "raw_source list \<Rightarrow> (str \<times> str list) list" where
  "source_risks ss =
     [(''low_confidence_source_ids'', map fs_id (filter (\<lambda>s. fs_confidence s < 75/100) ss)),
      (''search_only_source_ids'', map fs_id (filter (\<lambda>s. fs_source_type s = ''web_search_result'') ss)),
      (''llm_public_knowledge_source_ids'',
       map fs_id (filter (\<lambda>s. fs_source_type s = ''llm_public_knowledge'') ss))]"

definition id_lists :: "(str \<times> str list) list \<Rightarrow> jdict" where
  "id_lists kvs = map (\<lambda>(k, ids). (k, jstrs ids)) kvs"

definition reflection_dict :: "reflection \<Rightarrow> jdict" where
  "reflection_dict f =
     [(''coverage_gaps'', jstrs (rf_coverage_gaps f)),
      (''confidence_outliers'', jstrs (rf_confidence_outliers f)),
      (''cross_competitor_gaps'', jstrs (rf_cross_competitor_gaps f))]"

definition memory_observations :: "finished_run \<Rightarrow> json list" where
  "memory_observations r =
     (let p = rn_plan r; risks = source_risks (fr_raw_sources r);
          research = user_research_sources (fr_raw_sources r); issues = run_quality_findings r;
          observation = (\<lambda>suffix kind fields. JDict
            ([(''id'', JStr (rn_id r @ suffix)), (''kind'', JStr kind)] @ fields));
          count = (\<lambda>severity. JInt (int (count_if (\<lambda>i. qi_severity i = severity) issues)))
      in [observation '':plan'' ''analysis_plan''
            [(''topic'', JStr (rn_topic r)), (''competitor_layer'', JStr (ap_competitor_layer p)),
             (''scenario_id'', jstr_opt (ap_scenario_id p)), (''dimensions'', jstrs (ap_dimensions p)),
             (''competitors'', jstrs (ap_competitors p)), (''qa_rule_ids'', jstrs (ap_qa_rule_ids p))]]
         @ (if list_ex (\<lambda>(_, ids). ids \<noteq> []) risks
            then [observation '':source-risk'' ''source_risk'' (id_lists risks)] else [])
         @ (if map_of research ''user_research_source_ids'' \<noteq> Some []
            then [observation '':customer-signal'' ''customer_signal'' (id_lists research)] else [])
         @ (if issues \<noteq> [] then
              [observation '':qa-findings'' ''quality_pattern''
                [(''warn_count'', count ''warn''), (''blocker_count'', count ''blocker''),
                 (''target_agents'',
                  jstrs (sorted_set (filter (\<lambda>a. a \<noteq> '''') (map qi_target_agent issues)))),
                 (''problems'', jstrs (map qi_problem (take 10 issues)))]] else [])
         @ (if rn_reflections r \<noteq> [] then
              [observation '':reflection'' ''reflection'' (reflection_dict (last (rn_reflections r)))] else []))"

definition redo_scope_json :: "redo_scope \<Rightarrow> json" where
  "redo_scope_json s = JDict
     [(''kind'', JStr (rs_kind s)), (''target_subagent'', jstr_opt (rs_target_subagent s)),
      (''target_competitor'', jstr_opt (rs_target_competitor s)),
      (''target_competitors'', jstrs (rs_target_competitors s)), (''rationale'', JStr (rs_rationale s))]"

definition run_qa_finding :: "qc_issue \<Rightarrow> json" where
  "run_qa_finding i = JDict
     [(''id'', JStr (qi_id i)), (''severity'', JStr (qi_severity i)), (''detected_by'', JStr (qi_detected_by i)),
      (''target_agent'', JStr (qi_target_agent i)), (''target_subagent'', jstr_opt (qi_target_subagent i)),
      (''target_competitor'', jstr_opt (qi_target_competitor i)), (''field_path'', JStr (qi_field_path i)),
      (''problem'', JStr (qi_problem i)), (''redo_scope'', redo_scope_json (qi_redo_scope i)),
      (''metadata'', JDict (qi_metadata i))]"

definition build_quality_metadata :: "(rat \<Rightarrow> json) \<Rightarrow> finished_run \<Rightarrow> jdict \<Rightarrow> jdict" where
  "build_quality_metadata number r source_reconciliation =
     (let p = rn_plan r; issues = run_quality_findings r;
          count = (\<lambda>severity. JInt (int (count_if (\<lambda>i. qi_severity i = severity) issues)))
      in [(''run_id'', JStr (rn_id r)), (''schema_pass_rate'', number (mt_schema_pass_rate (rn_metrics r))),
          (''memory_used'', JDict [(''candidate_ids'', jstrs (ap_memory_candidate_ids p)),
             (''prompt_context'', jstrs (ap_memory_prompt_context p)),
             (''recall_score'', JInt (ap_memory_recall_score p))]),
          (''memory_observations'', JList (memory_observations r)),
          (''run_qa_findings'', JList (map run_qa_finding issues)),
          (''run_qa_warning_count'', count ''warn''), (''run_qa_blocker_count'', count ''blocker'')]
         @ id_lists (source_risks (fr_raw_sources r)) @ id_lists (user_research_sources (fr_raw_sources r))
         @ [(''source_reconciliation'', JDict source_reconciliation),
            (''reflection_gaps'', JList (case rn_reflections r of [] \<Rightarrow> []
               | fs \<Rightarrow> [JDict (reflection_dict (last fs))]))])"

section \<open>The report version\<close>

text \<open>\<open>build_run_advisory_context_metadata\<close> of enterprise/advisory_context.py.\<close>

definition run_advisory_context :: "report_version \<Rightarrow> str list \<Rightarrow> str list \<Rightarrow> jdict" where
  "run_advisory_context v candidate_ids prompt_context =
     [(''policy_version'', JStr ''c5.4''), (''scope_policy'', JStr ''report_version_scope_only''),
      (''history_policy'', JStr ''project_history_and_memory_are_advisory_context''),
      (''report_version_id'', JStr (rv_id v)), (''run_id'', jstr_opt (rv_run_id v)),
      (''report_scope_evidence_ids'', jstrs (rv_evidence_ids v)),
      (''report_scope_claim_ids'', jstrs (rv_claim_ids v)),
      (''memory_candidate_ids'', jstrs (dedupe_strings candidate_ids)),
      (''memory_prompt_context'', jstrs (filter (\<lambda>t. strip t \<noteq> '''') prompt_context)),
      (''memory_policy'', JStr ''advisory_only''),
      (''rag_policy'', JStr ''report_scope_only_when_evidence_id_is_admitted''),
      (''project_history_policy'', JStr ''advisory_only_unless_linked_to_report_version'')]"

record report_texts =
  rx_core :: str
  rx_support :: str
  rx_audit :: str
  rx_full :: str
  rx_artifact :: "report_artifact option"

definition normalize_artifact_layers ::
  "report_artifact \<Rightarrow> evidence list \<Rightarrow> str list \<Rightarrow> py_error + report_texts" where
  "normalize_artifact_layers a es scope =
     (let layer = (\<lambda>md. normalize_report_layer_markdown md es scope);
          core = layer (rr_core_markdown (ra_render_cache a));
          support = layer (rr_support_markdown (ra_render_cache a));
          audit = layer (rr_audit_markdown (ra_render_cache a));
          full = join_layers [core, support, audit]
      in err_bind (normalized_report_artifact_copy (Some a) core support audit full) (\<lambda>b.
         Inr \<lparr>rx_core = core, rx_support = support, rx_audit = audit, rx_full = full, rx_artifact = b\<rparr>))"

definition projected_texts :: "finished_run \<Rightarrow> evidence list \<Rightarrow> py_error + report_texts \<times> token_normalization" where
  "projected_texts r es =
     (let scope = map ev_id es
      in case fr_report_artifact r of
           Some a \<Rightarrow> err_bind (normalize_artifact_layers a es scope) (\<lambda>x.
             let n = normalize_report_source_tokens (rx_full x) es (Some scope)
             in Inr (x\<lparr>rx_full := tn_report_md n\<rparr>, n))
         | None \<Rightarrow>
             let n = normalize_report_source_tokens (rn_report_md r) es (Some scope)
             in Inr (\<lparr>rx_core = tn_report_md n, rx_support = '''', rx_audit = '''',
                      rx_full = tn_report_md n, rx_artifact = None\<rparr>, n))"

definition build_report_version ::
  "(rat \<Rightarrow> json) \<Rightarrow> finished_run \<Rightarrow> str \<Rightarrow> str \<Rightarrow> int \<Rightarrow> str \<Rightarrow> claim list \<Rightarrow> evidence list
    \<Rightarrow> (str \<times> str) list option \<Rightarrow> py_error + report_version" where
  "build_report_version number r workspace_id project_id version_number layer cs es ids =
     (let competitor_ids = map (competitor_id_for ids) (ap_competitors (rn_plan r));
          competitor_set_hash = compute_competitor_set_hash (Some competitor_ids);
          topic = compute_topic_normalized (Some (rn_topic r)); released = release_claim_records cs
      in err_bind (projected_texts r es) (\<lambda>(x, n).
         let v = \<lparr>rv_id = compute_report_version_id (Some (rn_id r)) version_number (Some topic)
                  (Some competitor_set_hash),
                rv_workspace_id = workspace_id, rv_project_id = project_id, rv_run_id = Some (rn_id r),
                rv_parent_version_id = None, rv_version_number = version_number,
                rv_topic_normalized = topic, rv_competitor_layer = layer,
                rv_competitor_set_hash = competitor_set_hash, rv_status = ''draft'',
                rv_report_md = tn_report_md n, rv_core_report_md = rx_core x,
                rv_support_appendix_md = rx_support x, rv_audit_log_md = rx_audit x,
                rv_full_report_md = rx_full x, rv_report_artifact = rx_artifact x,
                rv_claim_ids = map cl_id released, rv_evidence_ids = tn_evidence_ids n,
                rv_quality_metadata = build_quality_metadata number r (reconciliation n es)
                  @ [(''output_language'', JStr (rn_output_language r)),
                     (''release_claim_admission'', JDict (release_claim_admission cs released es)),
                     (''report_competitors'', jstrs (ap_competitors (rn_plan r))),
                     (''report_competitor_ids'', jstrs competitor_ids),
                     (''report_competitor_homepages'', JList (competitor_homepages r competitor_ids))],
                rv_created_at = rn_updated_at r, rv_published_at = None\<rparr>
         in if \<not> report_version_valid v then Inl (ValueError ''ReportVersionRecord'')
            else Inr (v\<lparr>rv_quality_metadata := rv_quality_metadata v
              @ [(''advisory_context'', JDict (run_advisory_context v (ap_memory_candidate_ids (rn_plan r))
                   (ap_memory_prompt_context (rn_plan r))))]\<rparr>)))"

definition build_enterprise_projection ::
  "datetime \<Rightarrow> (rat \<Rightarrow> json) \<Rightarrow> finished_run \<Rightarrow> str \<Rightarrow> str option \<Rightarrow> int \<Rightarrow> str
    \<Rightarrow> (str \<times> str) list option \<Rightarrow> py_error + run_projection" where
  "build_enterprise_projection now number r workspace_id project version_number layer ids =
     (let project_id = or_str project (''project-'' @ rn_id r)
      in err_bind (build_evidence_records r workspace_id project_id ids) (\<lambda>es.
         let cs = build_claim_records now r workspace_id project_id es ids
         in err_bind (build_report_version number r workspace_id project_id version_number layer cs es ids) (\<lambda>v.
            Inr \<lparr>rp_workspace_id = workspace_id, rp_project_id = project_id, rp_run_id = rn_id r,
                 rp_evidence_records = es, rp_claim_records = cs, rp_report_version = v\<rparr>)))"

end
