(* ===== verification/ProjectionProps.thy ===== *)
theory ProjectionProps
  imports Projection Citations
begin

text \<open>
  What the projection of a run promises: nothing collected is lost, every claim is backed by evidence of
  the run, and only claims on release-grade evidence enter the report version.
\<close>

section \<open>Evidence\<close>

lemma evidence_records:
  assumes "build_evidence_records r w p ids = Inr es"
  obtains all where "err_map (evidence_of_source r w p ids) (source_pairs r) = Inr all"
    "es = keep_first ev_id (\<lambda>_. True) [] all"
  using assms by (auto simp: build_evidence_records_def elim!: err_bind_Inr)

text \<open>
  What a source covers, as it states it: its covered competitors, or its own competitor where it lists
  none. The identity of a source for a competitor is
  the hash of its normalised address, its content hash, the competitor and the dimension.
\<close>

definition named_competitors :: "raw_source \<Rightarrow> str list" where
  "named_competitors s = (case fs_covered_competitors s of [] \<Rightarrow> [fs_competitor s] | cs \<Rightarrow> cs)"

definition source_identity :: "(str \<times> str) list option \<Rightarrow> raw_source \<Rightarrow> str \<Rightarrow> py_error + str" where
  "source_identity ids s c =
     err_bind (normalize_url (Some (opt_text (fs_url s)))) (\<lambda>url.
       compute_evidence_id (Some url) (Some (fs_content_hash s)) (Some (competitor_id_for ids c))
         (Some (fs_dimension s)))"

definition quotes_source :: "evidence \<Rightarrow> raw_source \<Rightarrow> bool" where
  "quotes_source e s \<longleftrightarrow> ev_raw_source_id e = fs_id s \<and> ev_url e = fs_url s \<and> ev_title e = fs_title s
     \<and> ev_snippet e = fs_snippet s \<and> ev_content_hash e = fs_content_hash s
     \<and> ev_source_type e = fs_source_type s \<and> ev_reliability_score e = fs_confidence s
     \<and> (ev_quality_label e = ''accepted'') = (fs_source_type s = ''webpage_verified'')"

lemma record_id_nonempty [simp]: "record_id c \<noteq> []"
  by (simp add: record_id_def normalize_key_def str_or_def)

lemma source_competitors_all:
  "set (source_competitors s) \<subseteq> set (named_competitors s)
   \<and> record_id ` set (source_competitors s) = record_id ` set (named_competitors s)"
  using kf.dd_subset[of record_id "\<lambda>c. record_id c \<noteq> []" "named_competitors s"]
    kf.dd_keys[of record_id "\<lambda>c. record_id c \<noteq> []" "named_competitors s"]
  by (simp add: source_competitors_def named_competitors_def split: list.splits)

lemma in_source_competitors: "c \<in> set (source_competitors s) \<Longrightarrow> c \<in> set (named_competitors s)"
  using source_competitors_all by blast

lemma named_is_covered:
  "c \<in> set (named_competitors s) \<Longrightarrow> \<exists>c'\<in>set (source_competitors s). record_id c' = record_id c"
  using source_competitors_all[of s] by (metis image_iff)

lemma err_bind_Inl:
  assumes "err_bind m f = Inl e" obtains "m = Inl e" | x where "m = Inr x" "f x = Inl e"
  using assms by (cases m) auto

lemma err_map_Inl: "err_map f xs = Inl e \<Longrightarrow> \<exists>x\<in>set xs. f x = Inl e"
  by (induction xs) (auto elim!: err_bind_Inl)

lemma evidence_of_source_quotes:
  assumes "evidence_of_source r w p ids (s, c) = Inr e"
  shows "quotes_source e s \<and> source_identity ids s c = Inr (ev_id e) \<and> ev_competitor_id e = competitor_id_for ids c"
  using assms
  by (auto simp: evidence_of_source_def quotes_source_def source_identity_def source_quality_label_def Let_def
      elim!: err_bind_Inr split: if_splits)

lemma evidence_of_source_raises:
  "evidence_of_source r w p ids (s, c) = Inl err \<Longrightarrow> source_identity ids s c = Inl err"
  by (auto simp: evidence_of_source_def source_identity_def Let_def elim!: err_bind_Inl)

lemma in_source_pairs:
  "(s, c) \<in> set (source_pairs r) \<longleftrightarrow> s \<in> set (fr_raw_sources r) \<and> c \<in> set (source_competitors s)"
  by (auto simp: source_pairs_def)

text \<open>C20. Nothing that was collected is lost: unless the address of some source raises, every source of the
  run has, for each competitor it names (under some spelling of its name), an evidence record with the
  identity of that source and competitor; no two records share an identity; and each record quotes a
  source of the run for a competitor that source names, accepted exactly when it is a verified webpage.\<close>

theorem projection_keeps_sources:
  "case build_evidence_records r w p ids of
     Inl err \<Rightarrow> list_ex (\<lambda>s. list_ex (\<lambda>c. source_identity ids s c = Inl err) (named_competitors s)) (fr_raw_sources r)
   | Inr es \<Rightarrow>
       distinct (map ev_id es)
       \<and> list_all (\<lambda>s. list_all (\<lambda>c. list_ex (\<lambda>c'. record_id c' = record_id c
             \<and> list_ex (\<lambda>e. source_identity ids s c' = Inr (ev_id e)) es) (named_competitors s))
           (named_competitors s)) (fr_raw_sources r)
       \<and> list_all (\<lambda>e. list_ex (\<lambda>s. quotes_source e s
             \<and> list_ex (\<lambda>c. ev_competitor_id e = competitor_id_for ids c \<and> source_identity ids s c = Inr (ev_id e))
                 (named_competitors s))
           (fr_raw_sources r)) es"
proof (cases "build_evidence_records r w p ids")
  case (Inl err)
  then have "err_map (evidence_of_source r w p ids) (source_pairs r) = Inl err"
    by (auto simp: build_evidence_records_def elim!: err_bind_Inl)
  from err_map_Inl[OF this] obtain s c where "(s, c) \<in> set (source_pairs r)"
    "evidence_of_source r w p ids (s, c) = Inl err" by (metis prod.collapse)
  then have "s \<in> set (fr_raw_sources r)" "c \<in> set (named_competitors s)" "source_identity ids s c = Inl err"
    using evidence_of_source_raises in_source_competitors by (simp_all add: in_source_pairs)
  then show ?thesis unfolding Inl sum.case list_ex_iff by blast
next
  case (Inr es)
  then obtain all where all: "err_map (evidence_of_source r w p ids) (source_pairs r) = Inr all"
    "es = keep_first ev_id (\<lambda>_. True) [] all" by (rule evidence_records)
  have keys: "ev_id ` set es = ev_id ` set all"
    unfolding all(2) using kf.dd_keys[of ev_id "\<lambda>_. True" all] by simp
  have kept: "\<exists>c'\<in>set (named_competitors s). record_id c' = record_id c
      \<and> (\<exists>e\<in>set es. source_identity ids s c' = Inr (ev_id e))"
    if s: "s \<in> set (fr_raw_sources r)" and c: "c \<in> set (named_competitors s)" for s c
  proof -
    from named_is_covered[OF c] obtain c' where c': "c' \<in> set (source_competitors s)" "record_id c' = record_id c"
      by blast
    with s have "(s, c') \<in> set (source_pairs r)" by (simp add: in_source_pairs)
    from err_map_out[OF all(1) this] obtain e where "e \<in> set all" "evidence_of_source r w p ids (s, c') = Inr e"
      by blast
    then have "ev_id e \<in> ev_id ` set es" "source_identity ids s c' = Inr (ev_id e)"
      using evidence_of_source_quotes by (simp_all add: keys)
    with c' in_source_competitors show ?thesis by (metis imageE)
  qed
  have from_source: "\<exists>s\<in>set (fr_raw_sources r). quotes_source e s \<and> (\<exists>c\<in>set (named_competitors s).
      ev_competitor_id e = competitor_id_for ids c \<and> source_identity ids s c = Inr (ev_id e))"
    if "e \<in> set es" for e
  proof -
    have "e \<in> set all" using that kf.dd_subset[of ev_id "\<lambda>_. True" all] unfolding all(2) by blast
    from err_map_in[OF all(1) this] obtain s c where "(s, c) \<in> set (source_pairs r)"
      "evidence_of_source r w p ids (s, c) = Inr e" by auto
    then show ?thesis
      using evidence_of_source_quotes in_source_competitors unfolding in_source_pairs by blast
  qed
  show ?thesis
    unfolding Inr sum.case list_all_iff list_ex_iff
  proof (intro conjI)
    show "distinct (map ev_id es)" using kf.dd_distinct[of ev_id "\<lambda>_. True" all] all(2) by simp
  qed (intro ballI, rule kept, assumption+, intro ballI, rule from_source)
qed

section \<open>Claims\<close>

lemma citation_subset: "e \<in> set (evidence_of_citation es cid sid) \<Longrightarrow> e \<in> set es \<and> ev_raw_source_id e = sid"
  by (auto simp: evidence_of_citation_def Let_def split: if_splits)

lemma citation_foreign:
  assumes "e \<in> set (evidence_of_citation es cid sid)" "ev_competitor_id e \<noteq> cid" "cid \<noteq> ''*''"
  shows "\<not> list_ex (\<lambda>x. ev_raw_source_id x = sid \<and> ev_competitor_id x = cid) es"
  using assms by (auto simp: evidence_of_citation_def Let_def list_ex_iff filter_empty_conv split: if_splits)

lemma claim_evidence:
  assumes "e \<in> set (evidence_for_claim es cid c)"
  shows "e \<in> set es \<and> (\<exists>sid \<in> set (kc_source_ids c). e \<in> set (evidence_of_citation es cid sid))"
  using assms kf.dd_subset[of ev_id "\<lambda>_. True" "concat (map (evidence_of_citation es cid) (kc_source_ids c))"]
    citation_subset unfolding evidence_for_claim_def by fastforce

text \<open>A claim record, from the evidence it was made of.\<close>

lemma claim_of_Some:
  assumes "claim_of now r w p es (cid, d, c) = Some k"
  shows "cl_evidence_ids k \<noteq> []" "cl_competitor_id k = cid" "cl_status k \<in> {''proposed'', ''deprecated''}"
    "set (cl_evidence_ids k) \<subseteq> ev_id ` set (evidence_for_claim es cid c)"
    "cl_status k = ''proposed'' \<Longrightarrow> cl_evidence_ids k = release_claim_evidence_ids (evidence_for_claim es cid c)"
    "cl_status k = ''deprecated'' \<Longrightarrow> release_claim_evidence_ids (evidence_for_claim es cid c) = []"
  using assms by (auto simp: claim_of_def Let_def release_claim_evidence_ids_def split: if_splits)

lemma claim_records_in:
  assumes "k \<in> set (build_claim_records now r w p es ids)"
  obtains cid d c where "claim_of now r w p es (cid, d, c) = Some k"
  using assms kf.dd_subset[of cl_id "\<lambda>_. True"
      "List.map_filter (claim_of now r w p es) (stated_claims r ids)"]
  unfolding build_claim_records_def by (fastforce simp: List.map_filter_def)

definition grounded :: "evidence list \<Rightarrow> claim \<Rightarrow> bool" where
  "grounded es k \<longleftrightarrow>
     cl_evidence_ids k \<noteq> []
     \<and> list_all (\<lambda>i. list_ex (\<lambda>e. ev_id e = i \<and> (if cl_status k = ''proposed'' then is_release_claim_evidence e
          else \<not> is_release_claim_evidence e)) es) (cl_evidence_ids k)"

lemma claim_grounded:
  assumes "claim_of now r w p es (cid, d, c) = Some k"
  shows "grounded es k"
proof -
  note k = claim_of_Some[OF assms]
  have "\<exists>e \<in> set es. ev_id e = i \<and> (if cl_status k = ''proposed'' then is_release_claim_evidence e
          else \<not> is_release_claim_evidence e)" if i: "i \<in> set (cl_evidence_ids k)" for i
  proof (cases "cl_status k = ''proposed''")
    case True
    with i k(5) obtain e where "e \<in> set (evidence_for_claim es cid c)" "is_release_claim_evidence e" "ev_id e = i"
      by (auto simp: release_claim_evidence_ids_def)
    then show ?thesis using claim_evidence True by fastforce
  next
    case False
    with k(3,6) have "release_claim_evidence_ids (evidence_for_claim es cid c) = []" by simp
    moreover obtain e where "e \<in> set (evidence_for_claim es cid c)" "ev_id e = i" using i k(4) by blast
    ultimately show ?thesis using claim_evidence False
      by (fastforce simp: release_claim_evidence_ids_def filter_empty_conv)
  qed
  then show ?thesis using k(1) unfolding grounded_def list_all_iff list_ex_iff by blast
qed

section \<open>The report version\<close>

lemma report_version_of:
  assumes "build_report_version number r w p n layer cs es ids = Inr v"
  obtains x t where "projected_texts r es = Inr (x, t)" "rv_claim_ids v = map cl_id (release_claim_records cs)"
    "rv_evidence_ids v = tn_evidence_ids t" "rv_report_md v = tn_report_md t" "rv_full_report_md v = rx_full x"
    "rv_report_artifact v = rx_artifact x" "rv_status v = ''draft''" "rv_run_id v = Some (rn_id r)"
    "rv_project_id v = p" "rv_core_report_md v = rx_core x" "1 \<le> rv_version_number v"
    "rv_support_appendix_md v = rx_support x" "rv_audit_log_md v = rx_audit x"
  using assms unfolding build_report_version_def Let_def
  by (auto elim!: err_bind_Inr split: if_splits prod.splits simp: report_version_valid_def)

lemma projection_parts:
  assumes "build_enterprise_projection now number r w project n layer ids = Inr j"
  obtains es cs v where "build_evidence_records r w (or_str project (''project-'' @ rn_id r)) ids = Inr es"
    "cs = build_claim_records now r w (or_str project (''project-'' @ rn_id r)) es ids"
    "build_report_version number r w (or_str project (''project-'' @ rn_id r)) n layer cs es ids = Inr v"
    "rp_evidence_records j = es" "rp_claim_records j = cs" "rp_report_version j = v"
  using assms unfolding build_enterprise_projection_def Let_def by (auto elim!: err_bind_Inr)

text \<open>C8. Every claim of a projection rests on evidence of the projection: its evidence is there, all of it is
  release grade when the claim is proposed and none of it when the claim is set aside. The report
  version admits exactly the proposed claims, in order, as a draft of the run.\<close>

theorem projected_claims_grounded:
  "case build_enterprise_projection now number r w project n layer ids of
     Inl _ \<Rightarrow> True
   | Inr j \<Rightarrow>
       list_all (grounded (rp_evidence_records j)) (rp_claim_records j)
       \<and> distinct (map cl_id (rp_claim_records j))
       \<and> rv_claim_ids (rp_report_version j)
           = map cl_id (filter (\<lambda>k. cl_status k = ''proposed'') (rp_claim_records j))
       \<and> rv_status (rp_report_version j) = ''draft''
       \<and> rv_run_id (rp_report_version j) = Some (rn_id r)"
proof (cases "build_enterprise_projection now number r w project n layer ids")
  case (Inr j)
  then obtain es cs v where j: "cs = build_claim_records now r w (or_str project (''project-'' @ rn_id r)) es ids"
    "build_report_version number r w (or_str project (''project-'' @ rn_id r)) n layer cs es ids = Inr v"
    "rp_evidence_records j = es" "rp_claim_records j = cs" "rp_report_version j = v"
    by (rule projection_parts)
  have in_cs: "\<exists>cid d c. claim_of now r w (or_str project (''project-'' @ rn_id r)) es (cid, d, c) = Some k"
    if "k \<in> set cs" for k
    using that unfolding j(1) by (elim claim_records_in) blast
  have "list_all (grounded es) cs" unfolding list_all_iff using in_cs claim_grounded by blast
  moreover have "release_claim_records cs = filter (\<lambda>k. cl_status k = ''proposed'') cs"
    unfolding release_claim_records_def
  proof (rule filter_cong[OF refl])
    fix k assume "k \<in> set cs"
    then have "cl_status k \<in> {''proposed'', ''deprecated''}" using in_cs claim_of_Some(3) by blast
    then show "(cl_status k \<notin> {''deprecated'', ''rejected''}) = (cl_status k = ''proposed'')" by auto
  qed
  moreover have "distinct (map cl_id cs)"
    unfolding j(1) build_claim_records_def by (rule kf.dd_distinct)
  ultimately show ?thesis
    unfolding Inr sum.case j(3-5) by (intro conjI) (rule report_version_of[OF j(2)], simp)+
qed simp

text \<open>C33. A claim rests on evidence about its own competitor: it cites evidence recorded for another one only
  where none of the evidence of the same source is about its own.\<close>

theorem claims_prefer_own_evidence:
  "case build_enterprise_projection now number r w project n layer ids of
     Inl _ \<Rightarrow> True
   | Inr j \<Rightarrow>
       list_all (\<lambda>k. list_all (\<lambda>i. list_ex (\<lambda>e. ev_id e = i
             \<and> (if ev_competitor_id e = cl_competitor_id k \<or> cl_competitor_id k = ''*'' then True
                else \<not> list_ex (\<lambda>x. ev_raw_source_id x = ev_raw_source_id e
                       \<and> ev_competitor_id x = cl_competitor_id k) (rp_evidence_records j)))
           (rp_evidence_records j)) (cl_evidence_ids k)) (rp_claim_records j)"
proof (cases "build_enterprise_projection now number r w project n layer ids")
  case (Inr j)
  then obtain es cs v where j: "cs = build_claim_records now r w (or_str project (''project-'' @ rn_id r)) es ids"
    "rp_evidence_records j = es" "rp_claim_records j = cs" by (rule projection_parts)
  have "\<exists>e \<in> set es. ev_id e = i
      \<and> (if ev_competitor_id e = cl_competitor_id k \<or> cl_competitor_id k = ''*'' then True
         else \<not> list_ex (\<lambda>x. ev_raw_source_id x = ev_raw_source_id e \<and> ev_competitor_id x = cl_competitor_id k) es)"
    if k: "k \<in> set cs" and i: "i \<in> set (cl_evidence_ids k)" for k i
  proof -
    from k obtain cid d c where c: "claim_of now r w (or_str project (''project-'' @ rn_id r)) es (cid, d, c) = Some k"
      unfolding j(1) by (rule claim_records_in)
    from i claim_of_Some(4)[OF c] obtain e where e: "e \<in> set (evidence_for_claim es cid c)" "ev_id e = i" by blast
    from claim_evidence[OF e(1)] obtain sid where "e \<in> set es" "e \<in> set (evidence_of_citation es cid sid)" by blast
    then show ?thesis
      using citation_foreign[of e es cid sid] citation_subset[of e es cid sid] e(2) claim_of_Some(2)[OF c]
      by (intro bexI[of _ e]) (simp_all del: list_ex_iff)
  qed
  then show ?thesis unfolding Inr sum.case j(2,3) list_all_iff list_ex_iff[of _ es] by blast
qed simp

section \<open>The texts of the report\<close>

lemma scope_kept: "strip ` set ids - {[]} \<subseteq> set (tn_evidence_ids (normalize_report_source_tokens md es (Some ids)))"
  by (auto simp: normalize_report_source_tokens_def merge_ids_def set_dedupe_strings Let_def split: prod.splits)

lemma strip_hex: "list_all is_hex s \<Longrightarrow> strip s = s"
  by (rule strip_by_no)
    (auto simp: list_all_iff is_hex_def is_digit_def is_space_def code_of_def)

lemma evidence_id_hex:
  assumes "evidence_of_source r w p ids pair = Inr e"
  shows "strip (ev_id e) = ev_id e" "ev_id e \<noteq> []"
proof -
  obtain x where x: "ev_id e = sha256_hex x"
    using assms by (cases pair) (auto simp: evidence_of_source_def Let_def compute_evidence_id_def
        elim!: err_bind_Inr split: sum.splits)
  have "list_all is_hex (ev_id e)" unfolding x list_all_iff using hex_sha256_hex by blast
  then show "strip (ev_id e) = ev_id e" by (rule strip_hex)
  show "ev_id e \<noteq> []" using length_sha256_hex[of x] unfolding x by (metis list.size(3) zero_neq_numeral)
qed

lemma evidence_ids_in_scope:
  assumes "build_evidence_records r w p ids = Inr es" "e \<in> set es"
  shows "ev_id e \<in> set (tn_evidence_ids (normalize_report_source_tokens md es (Some (map ev_id es))))"
proof -
  obtain all where all: "err_map (evidence_of_source r w p ids) (source_pairs r) = Inr all"
    "es = keep_first ev_id (\<lambda>_. True) [] all" using assms(1) by (rule evidence_records)
  have "e \<in> set all" using assms(2) kf.dd_subset[of ev_id "\<lambda>_. True" all] unfolding all(2) by blast
  from err_map_in[OF all(1) this] obtain pair where "evidence_of_source r w p ids pair = Inr e" by blast
  from evidence_id_hex[OF this] have "ev_id e \<in> strip ` set (map ev_id es) - {[]}" using assms(2) by force
  then show ?thesis using scope_kept by blast
qed

lemma texts_of:
  assumes "projected_texts r es = Inr (x, t)"
  shows "rx_full x = tn_report_md t"
    "\<exists>md. t = normalize_report_source_tokens md es (Some (map ev_id es))"
    "rx_artifact x = None \<Longrightarrow> fr_report_artifact r = None \<Longrightarrow> rx_core x = tn_report_md t \<and> rx_support x = '''' \<and> rx_audit x = ''''"
    "rx_artifact x = Some b \<Longrightarrow> validate_report_artifact b = Inr b
       \<and> rr_full_markdown (ra_render_cache b) = join_layers [rx_core x, rx_support x, rx_audit x]
       \<and> t = normalize_report_source_tokens (rr_full_markdown (ra_render_cache b)) es (Some (map ev_id es))"
    "(rx_artifact x = None) = (fr_report_artifact r = None)"
proof -
  show "rx_full x = tn_report_md t" "\<exists>md. t = normalize_report_source_tokens md es (Some (map ev_id es))"
    "rx_artifact x = None \<Longrightarrow> fr_report_artifact r = None \<Longrightarrow> rx_core x = tn_report_md t \<and> rx_support x = '''' \<and> rx_audit x = ''''"
    using assms by (auto simp: projected_texts_def Let_def elim!: err_bind_Inr split: option.splits)
  show "(rx_artifact x = None) = (fr_report_artifact r = None)"
    using assms by (auto simp: projected_texts_def normalize_artifact_layers_def Let_def
        normalized_report_artifact_copy_def map_sum_def elim!: err_bind_Inr split: option.splits sum.splits)
  show "rx_artifact x = Some b \<Longrightarrow> validate_report_artifact b = Inr b
       \<and> rr_full_markdown (ra_render_cache b) = join_layers [rx_core x, rx_support x, rx_audit x]
       \<and> t = normalize_report_source_tokens (rr_full_markdown (ra_render_cache b)) es (Some (map ev_id es))"
    using assms by (auto simp: projected_texts_def normalize_artifact_layers_def Let_def
        elim!: err_bind_Inr split: option.splits dest!: artifact_copy_ok)
qed

text \<open>C21. The report version of a projection is a draft over all the evidence of the run: each record is in its
  scope; a plain report is its own core and full text with no other layer; a structured one has an
  artifact that passes its own validation and whose rendered text is the join of the layers, of which
  the report text is the normal form.\<close>

theorem projected_report_consistent:
  "case build_enterprise_projection now number r w project n layer ids of
     Inl _ \<Rightarrow> True
   | Inr j \<Rightarrow>
       (let v = rp_report_version j; es = rp_evidence_records j
        in list_all (\<lambda>e. ev_id e \<in> set (rv_evidence_ids v)) es
           \<and> rv_full_report_md v = rv_report_md v \<and> 1 \<le> rv_version_number v
           \<and> (case rv_report_artifact v of
                None \<Rightarrow> fr_report_artifact r = None \<and> rv_core_report_md v = rv_report_md v
                  \<and> rv_support_appendix_md v = '''' \<and> rv_audit_log_md v = ''''
              | Some b \<Rightarrow> validate_report_artifact b = Inr b
                  \<and> rr_full_markdown (ra_render_cache b)
                      = join_layers [rv_core_report_md v, rv_support_appendix_md v, rv_audit_log_md v]
                  \<and> rv_report_md v = tn_report_md (normalize_report_source_tokens
                      (rr_full_markdown (ra_render_cache b)) es (Some (map ev_id es)))))"
proof (cases "build_enterprise_projection now number r w project n layer ids")
  case (Inr j)
  then obtain es cs v where j: "build_evidence_records r w (or_str project (''project-'' @ rn_id r)) ids = Inr es"
    "build_report_version number r w (or_str project (''project-'' @ rn_id r)) n layer cs es ids = Inr v"
    "rp_evidence_records j = es" "rp_report_version j = v"
    by (rule projection_parts)
  from j(2) obtain x t where x: "projected_texts r es = Inr (x, t)" and v:
    "rv_evidence_ids v = tn_evidence_ids t" "rv_report_md v = tn_report_md t" "rv_full_report_md v = rx_full x"
    "rv_report_artifact v = rx_artifact x" "rv_core_report_md v = rx_core x"
    "rv_support_appendix_md v = rx_support x" "rv_audit_log_md v = rx_audit x" "1 \<le> rv_version_number v"
    by (rule report_version_of)
  note t = texts_of[OF x]
  obtain md where md: "t = normalize_report_source_tokens md es (Some (map ev_id es))" using t(2) by blast
  have "list_all (\<lambda>e. ev_id e \<in> set (rv_evidence_ids v)) es"
    unfolding v(1) list_all_iff md using evidence_ids_in_scope[OF j(1)] by blast
  then show ?thesis
    unfolding Inr sum.case Let_def j(3,4)
    using t(1,3-5) v by (cases "rx_artifact x") auto
qed simp

end
