(* ===== verification/Substrings.thy ===== *)
theory Substrings
  imports StableIds
begin

text \<open>
  What \<open>p in s\<close> means on strings, and the operations of the code that only take parts of a text.
\<close>

lemma starts_with_iff: "starts_with p s \<longleftrightarrow> (\<exists>v. s = p @ v)"
  unfolding starts_with_def by (metis append_eq_conv_conj append_take_drop_id)

lemma has_substring_iff: "has_substring p s \<longleftrightarrow> (\<exists>u v. s = u @ p @ v)"
proof (induction s)
  case (Cons c cs)
  have "(\<exists>u v. c # cs = u @ p @ v) \<longleftrightarrow> (\<exists>v. c # cs = p @ v) \<or> (\<exists>u v. cs = u @ p @ v)"
    by (metis append_Cons append_Nil list.exhaust list.inject)
  with Cons show ?case by (simp add: starts_with_iff)
qed simp

lemma has_substring_refl [simp]: "has_substring s s"
  unfolding has_substring_iff by (metis append_Nil append_Nil2)

lemma has_substring_trans: "has_substring p q \<Longrightarrow> has_substring q s \<Longrightarrow> has_substring p s"
  unfolding has_substring_iff by (metis append.assoc)

lemma has_substring_take: "has_substring (take n s) s"
  unfolding has_substring_iff by (metis append_Nil append_take_drop_id)

lemma has_substring_strip: "has_substring (strip_by p s) s"
  using rstrip_by_prefix[of "lstrip_by p s" p] lstrip_by_suffix[of s p]
  unfolding strip_by_def has_substring_iff by (metis append.assoc)

lemma length_strip_by: "length (strip_by p s) \<le> length s"
  using has_substring_strip[of p s] unfolding has_substring_iff
  by (metis le_add1 le_add2 length_append order_trans)

lemma has_substring_app: "has_substring p a \<Longrightarrow> has_substring p (a @ b)"
  by (metis append.assoc has_substring_iff)

lemma has_substring_app2: "has_substring p b \<Longrightarrow> has_substring p (a @ b)"
  by (metis append.assoc has_substring_iff)

lemma has_substring_lower: "has_substring p s \<Longrightarrow> has_substring (lower p) (lower s)"
  by (metis has_substring_iff lower_def map_append)

end
