(* ===== verification/Chunker.thy ===== *)
theory Chunker
  imports EvidenceStore Substrings
begin

text \<open>
  rag/chunker.py: the pieces of an evidence text that retrieval indexes. Sizes are natural numbers; the
  callers use the defaults 700 and 120. A position is the number of characters before it.
\<close>

section \<open>Text of an evidence record\<close>

definition chunk_metadata_text :: "evidence \<Rightarrow> str" where
  "chunk_metadata_text e =
     join '' '' (concat (map (\<lambda>k. case map_of (ev_metadata e) k of
           Some (JStr s) \<Rightarrow> if strip s \<noteq> [] then [s] else []
         | _ \<Rightarrow> [])
       [''full_text'', ''content'', ''text'', ''raw_text'', ''extracted_text'', ''summary'']))"

definition normalize_chunk_text :: "str \<Rightarrow> str" where
  "normalize_chunk_text t = strip (sub_runs is_space '' '' False t)"

definition evidence_text :: "evidence \<Rightarrow> str" where
  "evidence_text e =
     normalize_chunk_text (join '' '' (filter (\<lambda>p. p \<noteq> [])
       [ev_title e, ev_snippet e, chunk_metadata_text e, ev_dimension e, ev_source_type e,
        ev_canonical_url e]))"

section \<open>Chunks\<close>

text \<open>\<open>s.rfind(p, lo, hi)\<close> and \<open>s[a:b]\<close>, for positions inside the text.\<close>

definition str_rfind :: "str \<Rightarrow> str \<Rightarrow> nat \<Rightarrow> nat \<Rightarrow> int" where
  "str_rfind s p lo hi =
     (case filter (\<lambda>i. starts_with p (drop i s)) (rev [lo..<Suc hi - length p]) of
        [] \<Rightarrow> -1
      | i # _ \<Rightarrow> int i)"

definition str_slice :: "str \<Rightarrow> nat \<Rightarrow> nat \<Rightarrow> str" where
  "str_slice s a b = take (b - a) (drop a s)"

text \<open>The end of the chunk that starts at a position: after the last sentence of its second half.\<close>

definition chunk_end :: "str \<Rightarrow> nat \<Rightarrow> nat \<Rightarrow> nat" where
  "chunk_end t max_chars start =
     (let stop = min (length t) (start + max_chars)
      in if stop < length t then
           let sentence_end = max (str_rfind t ''. '' start stop) (str_rfind t ''; '' start stop)
           in if sentence_end > int (start + max_chars div 2) then nat sentence_end + 1 else stop
         else stop)"

function chunks_from :: "str \<Rightarrow> nat \<Rightarrow> nat \<Rightarrow> nat \<Rightarrow> str list" where
  "chunks_from t max_chars safe_overlap start =
     (if start < length t then
        let stop = chunk_end t max_chars start;
            chunk = strip (str_slice t start stop)
        in (if chunk \<noteq> [] then [chunk] else [])
             @ (if length t \<le> stop then []
                else chunks_from t max_chars safe_overlap (max (stop - safe_overlap) (start + 1)))
      else [])"
  by auto
termination
  by (relation "measure (\<lambda>(t, _, _, start). length t - start)") auto

declare chunks_from.simps [simp del]

definition chunk_text :: "str \<Rightarrow> nat \<Rightarrow> nat \<Rightarrow> str list" where
  "chunk_text t max_chars overlap_chars =
     (if length t \<le> max_chars then [t]
      else chunks_from t max_chars (min overlap_chars (max_chars div 2)) 0)"

record retrieval_chunk =
  rk_id :: str
  rk_evidence_id :: str
  rk_chunk_index :: int
  rk_title :: str
  rk_source_type :: str
  rk_dimension :: str
  rk_text :: str
  rk_source_url :: str

definition chunk_evidence :: "evidence \<Rightarrow> nat \<Rightarrow> nat \<Rightarrow> retrieval_chunk list" where
  "chunk_evidence e max_chars overlap_chars =
     (let t = evidence_text e
      in if t = [] then []
         else map (\<lambda>(i, chunk).
             \<lparr>rk_id = compute_retrieval_chunk_id (ev_id e) (int i) chunk, rk_evidence_id = ev_id e,
              rk_chunk_index = int i, rk_title = ev_title e, rk_source_type = ev_source_type e,
              rk_dimension = ev_dimension e, rk_text = chunk,
              rk_source_url = or_str (ev_url e) (ev_canonical_url e)\<rparr>)
           (List.enumerate 0 (chunk_text t max_chars overlap_chars)))"

definition chunk_corpus :: "evidence list \<Rightarrow> retrieval_chunk list" where
  "chunk_corpus es = concat (map (\<lambda>e. chunk_evidence e 700 120) es)"

lemma has_substring_slice: "has_substring (str_slice s a b) s"
  unfolding has_substring_iff str_slice_def by (metis append_take_drop_id)

text \<open>A part that begins and ends with something else survives the stripping.\<close>

lemma strip_by_keeps:
  assumes "m \<noteq> []" "\<not> p (hd m)" "\<not> p (last m)"
  shows "has_substring m (strip_by p (u @ m @ v))"
proof -
  have 1: "lstrip_by p (u @ m @ v) = dropWhile p u @ m @ v"
    using assms(1,2) unfolding lstrip_by_def
    by (cases m) (auto simp: dropWhile_append dropWhile_append1 dropWhile_append2 dropWhile_eq_Nil_conv)
  have "\<exists>w. rstrip_by p (x @ m @ v) = x @ m @ w" for x
  proof -
    have "rev m \<noteq> []" "\<not> p (hd (rev m))" using assms by (simp_all add: hd_rev)
    then have "dropWhile p (rev v @ rev m @ rev x) = dropWhile p (rev v) @ rev m @ rev x"
      by (cases "rev m") (auto simp: dropWhile_append dropWhile_append1 dropWhile_append2 dropWhile_eq_Nil_conv)
    then show ?thesis unfolding rstrip_by_def by simp
  qed
  then show ?thesis unfolding strip_by_def 1 has_substring_iff by metis
qed

section \<open>What the chunks keep\<close>

lemma str_rfind_bound:
  assumes "str_rfind s p lo hi \<noteq> -1" "p \<noteq> []"
  shows "str_rfind s p lo hi + int (length p) \<le> int hi"
proof -
  obtain i rest where f: "filter (\<lambda>i. starts_with p (drop i s)) (rev [lo..<Suc hi - length p]) = i # rest"
    using assms(1) by (auto simp: str_rfind_def split: list.splits)
  have "i \<in> set (filter (\<lambda>i. starts_with p (drop i s)) (rev [lo..<Suc hi - length p]))"
    unfolding f by simp
  then have "i + length p \<le> hi" by auto
  then show ?thesis using f by (simp add: str_rfind_def)
qed

lemma chunk_end_bounds:
  assumes "start < length t" "0 < max_chars"
  shows "start < chunk_end t max_chars start" "chunk_end t max_chars start \<le> start + max_chars"
    "chunk_end t max_chars start \<le> length t"
    "chunk_end t max_chars start = length t \<or> start + max_chars div 2 < chunk_end t max_chars start"
proof -
  let ?stop = "min (length t) (start + max_chars)"
  let ?se = "max (str_rfind t ''. '' start ?stop) (str_rfind t ''; '' start ?stop)"
  have se: "?se + 2 \<le> int ?stop" if "0 \<le> ?se"
    using that str_rfind_bound[of t "''. ''" start ?stop] str_rfind_bound[of t "''; ''" start ?stop]
    by (auto simp: max_def split: if_splits)
  have d: "max_chars div 2 < max_chars" using assms(2) by simp
  have "chunk_end t max_chars start = ?stop \<or>
      (int (start + max_chars div 2) < ?se \<and> chunk_end t max_chars start = nat ?se + 1)"
    unfolding chunk_end_def Let_def by auto
  then have "start < chunk_end t max_chars start \<and> chunk_end t max_chars start \<le> start + max_chars
    \<and> chunk_end t max_chars start \<le> length t
    \<and> (chunk_end t max_chars start = length t \<or> start + max_chars div 2 < chunk_end t max_chars start)"
  proof
    assume "chunk_end t max_chars start = ?stop"
    then show ?thesis using assms d by auto
  next
    assume "int (start + max_chars div 2) < ?se \<and> chunk_end t max_chars start = nat ?se + 1"
    then show ?thesis using se by linarith
  qed
  then show "start < chunk_end t max_chars start" "chunk_end t max_chars start \<le> start + max_chars"
    "chunk_end t max_chars start \<le> length t"
    "chunk_end t max_chars start = length t \<or> start + max_chars div 2 < chunk_end t max_chars start"
    by blast+
qed

text \<open>Every chunk is a stripped part of the text, not empty and not longer than the limit.\<close>

lemma chunks_from_parts:
  "c \<in> set (chunks_from t m ov start) \<Longrightarrow> 0 < m \<Longrightarrow>
   c \<noteq> [] \<and> strip c = c \<and> length c \<le> m \<and> has_substring c t"
proof (induction t m ov start rule: chunks_from.induct)
  case (1 t m ov start)
  let ?part = "str_slice t start (chunk_end t m start)"
  have len: "length (strip ?part) \<le> m" if "start < length t"
    using length_strip_by[of is_space ?part] chunk_end_bounds(2)[OF that 1(3)]
    by (auto simp: str_slice_def dest: order_trans)
  have sub: "has_substring (strip ?part) t"
    by (rule has_substring_trans[OF has_substring_strip has_substring_slice])
  from 1(2) show ?case
    using 1(1,3) len sub by (subst (asm) chunks_from.simps) (auto simp: Let_def split: if_splits)
qed

text \<open>
  A phrase of the text lies within the last chunk that starts at or before it: the next one starts
  \<open>overlap\<close> characters before the end of it.
\<close>

lemma chunks_from_keep:
  assumes "t = u @ p @ v" "p \<noteq> []" "\<not> is_space (hd p)" "\<not> is_space (last p)"
    and "length p \<le> ov + 1" "ov \<le> m div 2" "0 < m" "start \<le> length u"
  shows "\<exists>c \<in> set (chunks_from t m ov start). has_substring p c"
  using assms
proof (induction t m ov start rule: chunks_from.induct)
  case (1 t m ov start)
  let ?e = "chunk_end t m start"
  let ?next = "max (?e - ov) (start + 1)"
  have st: "start < length t" using "1.prems" by (cases p) auto
  note b = chunk_end_bounds[OF st \<open>0 < m\<close>]
  show ?case
  proof (cases "length u + length p \<le> ?e")
    case True
    have "str_slice t start ?e = drop start u @ p @ take (?e - length u - length p) v"
      using True "1.prems"(1,8) by (simp add: str_slice_def)
    then have k: "has_substring p (strip (str_slice t start ?e))"
      using strip_by_keeps[of p is_space "drop start u"] "1.prems"(2-4) by simp
    then have "strip (str_slice t start ?e) \<noteq> []" using "1.prems"(2) by (auto simp: has_substring_iff)
    with k st show ?thesis by (subst chunks_from.simps) (simp add: Let_def)
  next
    case False
    then have nl: "\<not> length t \<le> ?e" using "1.prems"(1) b(3) by auto
    have "start + m div 2 < ?e" using b(3,4) nl by auto
    with False "1.prems"(5,6,8) have "?next \<le> length u" by auto
    then obtain c where "c \<in> set (chunks_from t m ov ?next)" "has_substring p c"
      using "1.IH"[OF st refl refl nl] "1.prems" by blast
    with st nl show ?thesis by (subst chunks_from.simps) (auto simp: Let_def)
  qed
qed

text \<open>Chunking loses no short phrase: a stretch of the text of at most \<open>safe_overlap + 1\<close>
  characters (121 with the defaults) that neither begins nor ends with a space stands whole in one of the
  chunks, so a claim quoting it can cite that chunk.\<close>

theorem chunks_keep_phrases:
  assumes "t = u @ p @ v" "p \<noteq> []" "\<not> is_space (hd p)" "\<not> is_space (last p)"
    and "length p \<le> min overlap_chars (max_chars div 2) + 1" "0 < max_chars"
  shows "\<exists>c \<in> set (chunk_text t max_chars overlap_chars). has_substring p c"
proof (cases "length t \<le> max_chars")
  case True
  then show ?thesis using assms(1) by (auto simp: chunk_text_def has_substring_iff)
next
  case False
  then show ?thesis
    using chunks_from_keep[OF assms(1-5) _ assms(6), of 0] by (simp add: chunk_text_def)
qed

lemma chunks_keep_phrases_witness:
  "\<exists>c \<in> set (chunk_text ''Plans start at 9 USD. Teams pay 12.'' 20 6). has_substring ''9 USD'' c"
  by (rule chunks_keep_phrases[where u = "''Plans start at ''" and v = "''. Teams pay 12.''"])
    (simp_all add: is_space_def code_of_def)

text \<open>The chunks of an evidence record: parts of its text, none empty, none longer than the limit.\<close>

lemma chunk_text_parts:
  "c \<in> set (chunk_text t m ov) \<Longrightarrow> 0 < m \<Longrightarrow> length c \<le> m \<and> has_substring c t \<and> (t \<noteq> [] \<longrightarrow> c \<noteq> [])"
  using chunks_from_parts by (fastforce simp: chunk_text_def split: if_splits)

lemma chunk_corpus_parts:
  assumes "k \<in> set (chunk_corpus es)"
  obtains e where "e \<in> set es" "rk_evidence_id k = ev_id e" "rk_title k = ev_title e" "0 \<le> rk_chunk_index k"
    "has_substring (rk_text k) (evidence_text e)" "length (rk_text k) \<le> 700" "rk_text k \<noteq> []"
proof -
  obtain e where e: "e \<in> set es" "k \<in> set (chunk_evidence e 700 120)"
    using assms by (auto simp: chunk_corpus_def)
  then obtain i c where "(i, c) \<in> set (List.enumerate 0 (chunk_text (evidence_text e) 700 120))"
    "evidence_text e \<noteq> []" "rk_text k = c" "rk_evidence_id k = ev_id e" "rk_title k = ev_title e"
    "rk_chunk_index k = int i"
    by (auto simp: chunk_evidence_def Let_def split: if_splits)
  then show thesis
    using that[OF e(1)] chunk_text_parts[of c "evidence_text e" 700 120]
    by (metis enumerate_eq_zip of_nat_0_le_iff set_zip_rightD zero_less_numeral)
qed

end
