(* ===== verification/Retrieval.thy ===== *)
theory Retrieval
  imports Chunker EvidenceGaps
begin

text \<open>
  rag/bm25.py, reranker.py, vector_store.py, retriever.py, grounded_prompt.py (the formatting of records)
  and gap_retrieval.py: the evidence the store holds for a query, and the candidates each evidence gap is
  decorated with. Scores are real numbers up to the rounding that stores them.
\<close>

section \<open>Rounding of scores\<close>

definition round_score :: "nat \<Rightarrow> real \<Rightarrow> rat" where
  "round_score n x =
     (let y = x * 10 ^ n; f = \<lfloor>y\<rfloor>; d = y - of_int f
      in of_int (if d < 1 / 2 then f else if 1 / 2 < d then f + 1 else if even f then f else f + 1) / 10 ^ n)"

section \<open>BM25\<close>

text \<open>\<open>_term_counts\<close> by the identity of a chunk: the tokens counted, a later chunk replacing an
  earlier one of the same identity.\<close>

record bm25_index =
  bi_chunks :: "retrieval_chunk list"
  bi_terms :: "(str \<times> str list) list"

definition tokenize :: "str \<Rightarrow> str list" where
  "tokenize t = runs_of (\<lambda>c. is_lower c \<or> is_digit c) [] (lower t)"

definition bm25_build :: "retrieval_chunk list \<Rightarrow> bm25_index" where
  "bm25_build chunks =
     \<lparr>bi_chunks = chunks,
      bi_terms = fold (\<lambda>k. AList.update (rk_id k) (tokenize (rk_text k))) chunks []\<rparr>"

definition bm25_avg_length :: "bm25_index \<Rightarrow> real" where
  "bm25_avg_length ix =
     (if bi_terms ix = [] then 0
      else real (sum_list (map (\<lambda>(_, ts). length ts) (bi_terms ix))) / real (length (bi_terms ix)))"

definition bm25_doc_frequency :: "bm25_index \<Rightarrow> str \<Rightarrow> nat" where
  "bm25_doc_frequency ix term = count_if (\<lambda>(_, ts). term \<in> set ts) (bi_terms ix)"

definition bm25_idf :: "bm25_index \<Rightarrow> str \<Rightarrow> real" where
  "bm25_idf ix term =
     (let documents = real (length (bi_chunks ix)); containing = real (bm25_doc_frequency ix term)
      in ln (1 + (documents - containing + 1 / 2) / (containing + 1 / 2)))"

definition bm25_term_score :: "bm25_index \<Rightarrow> str list \<Rightarrow> str \<Rightarrow> real" where
  "bm25_term_score ix ts term =
     (let frequency = real (count_list ts term); k1 = 3 / 2; b = 3 / 4
      in if frequency \<le> 0 then 0
         else bm25_idf ix term * (frequency * (k1 + 1))
           / (frequency + k1 * (1 - b + b * real (length ts) / bm25_avg_length ix)))"

definition bm25_score :: "bm25_index \<Rightarrow> str \<Rightarrow> retrieval_chunk \<Rightarrow> rat" where
  "bm25_score ix query chunk =
     (if bi_chunks ix = [] \<or> bm25_avg_length ix \<le> 0 \<or> tokenize query = [] then 0
      else let ts = (case map_of (bi_terms ix) (rk_id chunk) of Some ts \<Rightarrow> ts | None \<Rightarrow> [])
        in round_score 6 (sum_list (map (bm25_term_score ix ts) (tokenize query))))"

section \<open>Reranking\<close>

record retrieval_candidate =
  rn_chunk :: retrieval_chunk
  rn_evidence :: evidence
  rn_vector_score :: real
  rn_bm25_score :: rat
  rn_recall_score :: real

definition normalize_vector :: "real \<Rightarrow> real" where
  "normalize_vector score = max 0 (min 1 ((score + 1) / 2))"

definition retrieval_quality_score :: "evidence \<Rightarrow> rat" where
  "retrieval_quality_score e =
     (let bonus = (case map_of [(''accepted'', 1), (''unreviewed'', 3 / 4), (''stale'', 35 / 100),
                                (''rejected'', 0)] (ev_quality_label e) of
             Some b \<Rightarrow> b | None \<Rightarrow> 1 / 2);
          reliability = max 0 (min 1 (ev_reliability_score e));
          freshness = max 0 (min 1 (ev_freshness_score e))
      in reliability * (65 / 100) + bonus * (25 / 100) + freshness * (10 / 100))"

definition hybrid_score :: "rat \<Rightarrow> retrieval_candidate \<Rightarrow> real" where
  "hybrid_score max_bm25 c =
     (let vector = normalize_vector (rn_vector_score c);
          bm25 = (if 0 < max_bm25 then min 1 (rn_bm25_score c / max_bm25) else 0);
          recall = normalize_vector (rn_recall_score c);
          quality = retrieval_quality_score (rn_evidence c);
          score = vector * (35 / 100) + of_rat bm25 * (35 / 100) + recall * (15 / 100)
            + of_rat quality * (15 / 100)
      in max 0 (min 1 score))"

definition retrieval_record_of :: "real \<Rightarrow> retrieval_candidate \<Rightarrow> retrieval_record" where
  "retrieval_record_of score c =
     (let e = rn_evidence c; k = rn_chunk c
      in \<lparr>rr_evidence_id = ev_id e, rr_chunk_id = rk_id k, rr_chunk_index = rk_chunk_index k,
          rr_score = round_score 4 score, rr_vector_score = round_score 4 (rn_vector_score c),
          rr_bm25_score = round_digits 4 (rn_bm25_score c), rr_rerank_score = round_score 4 score,
          rr_title = ev_title e, rr_source_type = ev_source_type e, rr_dimension = ev_dimension e,
          rr_snippet = take 420 (rk_text k), rr_source_url = rk_source_url k,
          rr_retrieval_stage = ''hybrid_rerank''\<rparr>)"

text \<open>The loop over the ranked candidates: one record per evidence, until there are enough.\<close>

fun rerank_loop ::
  "int \<Rightarrow> str list \<Rightarrow> retrieval_record list \<Rightarrow> (real \<times> retrieval_candidate) list \<Rightarrow> retrieval_record list" where
  "rerank_loop limit seen records [] = records"
| "rerank_loop limit seen records ((score, c) # ranked) =
     (if ev_id (rn_evidence c) \<in> set seen then rerank_loop limit seen records ranked
      else let records' = records @ [retrieval_record_of score c]
        in if limit \<le> int (length records') then records'
           else rerank_loop limit (ev_id (rn_evidence c) # seen) records' ranked)"

definition rank_retrieval_candidates :: "retrieval_candidate list \<Rightarrow> (real \<times> retrieval_candidate) list" where
  "rank_retrieval_candidates cs =
     (let best = Max (set (map rn_bm25_score cs));
          max_bm25 = (if best \<noteq> 0 then best else 1)
      in sort_desc (\<lambda>(score, c). (score, ev_reliability_score (rn_evidence c), lower (rk_title (rn_chunk c))))
           (map (\<lambda>c. (hybrid_score max_bm25 c, c)) cs))"

definition rerank_candidates :: "retrieval_candidate list \<Rightarrow> int \<Rightarrow> retrieval_record list" where
  "rerank_candidates cs limit = (if cs = [] then [] else rerank_loop limit [] [] (rank_retrieval_candidates cs))"

section \<open>Recall\<close>

text \<open>The hits of one query after the other: the store is only read.\<close>

definition recall_hits ::
  "store \<Rightarrow> str \<Rightarrow> str option \<Rightarrow> str list \<Rightarrow> int \<Rightarrow> search_hit list" where
  "recall_hits s workspace_id project_id queries recall_limit =
     concat (map (\<lambda>q. search_evidence workspace_id q project_id recall_limit s) queries)"

definition recall_evidence ::
  "store \<Rightarrow> str \<Rightarrow> str option \<Rightarrow> str list \<Rightarrow> int \<Rightarrow> evidence list" where
  "recall_evidence s workspace_id project_id queries recall_limit =
     (let own = filter (\<lambda>e. ev_workspace_id e = workspace_id) (list_evidence project_id s);
          hits = map sh_evidence (recall_hits s workspace_id project_id queries recall_limit)
      in dict_values (fold (\<lambda>e. AList.update (ev_id e) e) (own @ hits) []))"

definition recall_evidence_scores ::
  "store \<Rightarrow> str \<Rightarrow> str option \<Rightarrow> str list \<Rightarrow> int \<Rightarrow> (str \<times> real) list" where
  "recall_evidence_scores s workspace_id project_id queries recall_limit =
     fold (\<lambda>h scores. let k = ev_id (sh_evidence h);
             prior = (case map_of scores k of Some x \<Rightarrow> x | None \<Rightarrow> -1)
         in AList.update k (max prior (sh_score h)) scores)
       (recall_hits s workspace_id project_id queries recall_limit) []"

section \<open>Retrieval for a gap\<close>

record retrieval_context =
  rc_gap_id :: str
  rc_query :: str
  rc_rewritten_queries :: "str list"
  rc_candidate_chunk_count :: int
  rc_unique_evidence_candidate_count :: int
  rc_dedupe_drop_count :: int
  rc_candidate_ids :: "str list"
  rc_records :: "retrieval_record list"
  rc_grounded_context :: str

definition empty_context :: "str \<Rightarrow> str \<Rightarrow> str list \<Rightarrow> retrieval_context" where
  "empty_context gap_id query queries =
     \<lparr>rc_gap_id = gap_id, rc_query = query, rc_rewritten_queries = queries, rc_candidate_chunk_count = 0,
      rc_unique_evidence_candidate_count = 0, rc_dedupe_drop_count = 0, rc_candidate_ids = [],
      rc_records = [], rc_grounded_context = ''''\<rparr>"

definition dedupe_queries :: "str list \<Rightarrow> str list" where
  "dedupe_queries qs = keep_first lower (\<lambda>q. q \<noteq> []) [] (map (\<lambda>q. join '' '' (split_ws q)) qs)"

definition source_type_matches :: "str option \<Rightarrow> str \<Rightarrow> bool" where
  "source_type_matches required actual =
     (let r = strip (lower (or_str required ''''))
      in r = [] \<or> r \<in> {''any usable source'', ''any''} \<or> r = strip (lower actual))"

text \<open>A float of four decimals, and the line of a record in a prompt: at most eight of them.\<close>

fun drop_zeros :: "int \<Rightarrow> nat \<Rightarrow> int \<times> nat" where
  "drop_zeros k 0 = (k, 0)"
| "drop_zeros k (Suc n) = (if 10 dvd k then drop_zeros (k div 10) n else (k, Suc n))"

definition float4_text :: "rat \<Rightarrow> str" where
  "float4_text r = (let (m, n) = drop_zeros \<lfloor>r * 10 ^ 4\<rfloor> 4 in float_repr m (- int n))"

definition retrieval_line :: "retrieval_record \<Rightarrow> str" where
  "retrieval_line r =
     ''[source:'' @ rr_evidence_id r @ ''#chunk:'' @ str_of_int (rr_chunk_index r) @ ''] '' @ rr_title r
       @ '' ('' @ rr_source_type r @ '', dimension='' @ rr_dimension r
       @ '', hybrid='' @ float4_text (rr_score r) @ '', bm25='' @ float4_text (rr_bm25_score r)
       @ '', vector='' @ float4_text (rr_vector_score r) @ '', rerank='' @ float4_text (rr_rerank_score r)
       @ ''): '' @ join '' '' (split_ws (rr_snippet r))"

definition format_retrieval_records_for_prompt :: "retrieval_record list \<Rightarrow> str" where
  "format_retrieval_records_for_prompt rs = join [CHR 0x0A] (map retrieval_line (take 8 rs))"

definition retrieval_pool ::
  "store \<Rightarrow> str \<Rightarrow> str option \<Rightarrow> str list \<Rightarrow> str list \<Rightarrow> str option \<Rightarrow> int \<Rightarrow> evidence list" where
  "retrieval_pool s workspace_id project_id queries excluded source_type_required limit =
     filter (\<lambda>e. ev_id e \<notin> set excluded \<and> ev_workspace_id e = workspace_id
         \<and> (project_id = None \<or> Some (ev_project_id e) = project_id)
         \<and> source_type_matches source_type_required (ev_source_type e))
       (recall_evidence s workspace_id project_id queries (max (limit * 8) 20))"

definition embed_text :: "str \<Rightarrow> real list" where
  "embed_text t = deterministic_embedding (join '' '' (split_ws t)) embedding_dimensions"

definition candidate_of ::
  "bm25_index \<Rightarrow> str list \<Rightarrow> (str \<times> real) list \<Rightarrow> retrieval_chunk \<Rightarrow> evidence \<Rightarrow> retrieval_candidate" where
  "candidate_of index queries recall_scores k e =
     \<lparr>rn_chunk = k, rn_evidence = e,
      rn_vector_score = cosine_similarity (embed_text (join '' '' queries)) (embed_text (rk_text k)),
      rn_bm25_score = Max (set (map (\<lambda>q. bm25_score index q k) queries)),
      rn_recall_score = (case map_of recall_scores (rk_evidence_id k) of Some x \<Rightarrow> x | None \<Rightarrow> 0)\<rparr>"

definition retrieval_candidates ::
  "str list \<Rightarrow> (str \<times> real) list \<Rightarrow> evidence list \<Rightarrow> retrieval_chunk list \<Rightarrow> retrieval_candidate list" where
  "retrieval_candidates queries recall_scores pool chunks =
     List.map_filter (\<lambda>k. map_option (candidate_of (bm25_build chunks) queries recall_scores k)
       (map_of (rev (map (\<lambda>e. (ev_id e, e)) pool)) (rk_evidence_id k))) chunks"

definition retrieve_grounded_context ::
  "store \<Rightarrow> str \<Rightarrow> str \<Rightarrow> str \<Rightarrow> str list \<Rightarrow> str option \<Rightarrow> str list \<Rightarrow> str option \<Rightarrow> int
    \<Rightarrow> retrieval_context" where
  "retrieve_grounded_context s workspace_id gap_id query rewritten project_id excluded
     source_type_required limit =
     (case dedupe_queries (query # rewritten) of
        [] \<Rightarrow> empty_context gap_id '''' []
      | q # qs \<Rightarrow>
        let queries = q # qs;
            pool = retrieval_pool s workspace_id project_id queries excluded source_type_required limit;
            chunks = chunk_corpus pool
        in if chunks = [] then empty_context gap_id q queries
           else let cs = retrieval_candidates queries
                      (recall_evidence_scores s workspace_id project_id queries (max (limit * 8) 20))
                      pool chunks;
                    records = rerank_candidates cs limit;
                    unique = int (length (remdups (map (\<lambda>c. ev_id (rn_evidence c)) cs)))
             in \<lparr>rc_gap_id = gap_id, rc_query = q, rc_rewritten_queries = queries,
                 rc_candidate_chunk_count = int (length cs),
                 rc_unique_evidence_candidate_count = unique,
                 rc_dedupe_drop_count = max 0 (int (length cs) - unique),
                 rc_candidate_ids = map rr_evidence_id records, rc_records = records,
                 rc_grounded_context = format_retrieval_records_for_prompt records\<rparr>)"

section \<open>Decoration of a gap report\<close>

definition gap_competitor :: "gap_item \<Rightarrow> str" where
  "gap_competitor g = or_str (opt_or (gi_competitor_name g) (gi_competitor_id g)) ''''"

definition build_gap_retrieval_query :: "gap_item \<Rightarrow> str" where
  "build_gap_retrieval_query g =
     join '' '' (map strip (filter (\<lambda>p. p \<noteq> [] \<and> strip p \<noteq> [])
       [gi_recommended_query g, gap_competitor g, or_str (gi_dimension g) '''',
        or_str (gi_source_type_required g) '''']))"

definition gap_query_variants :: "gap_item \<Rightarrow> str \<Rightarrow> str list" where
  "gap_query_variants g primary =
     [primary]
     @ (if gap_competitor g \<noteq> [] \<and> given (gi_dimension g)
        then [gap_competitor g @ '' '' @ the (gi_dimension g)] else [])
     @ (if gi_recommended_query g \<noteq> [] then [gi_recommended_query g] else [])
     @ (if gap_competitor g \<noteq> [] \<and> given (gi_source_type_required g)
        then [gap_competitor g @ '' '' @ the (gi_source_type_required g)] else [])"

definition retrieve_gap_candidates ::
  "store \<Rightarrow> str \<Rightarrow> str option \<Rightarrow> int \<Rightarrow> gap_item \<Rightarrow> retrieval_context" where
  "retrieve_gap_candidates s workspace_id project_id limit g =
     (let query = build_gap_retrieval_query g
      in if query = [] then empty_context (gi_id g) '''' []
         else retrieve_grounded_context s workspace_id (gi_id g) query (gap_query_variants g query)
                project_id (gi_evidence_ids g) (gi_source_type_required g) limit)"

text \<open>The contexts are kept by the identity of the gap; a later gap replaces an earlier one.\<close>

definition decorated_gap :: "retrieval_context \<Rightarrow> gap_item \<Rightarrow> gap_item" where
  "decorated_gap c g =
     g\<lparr>gi_retrieval_query := rc_query c,
       gi_retrieval_candidate_chunk_count := rc_candidate_chunk_count c,
       gi_retrieval_unique_evidence_count := rc_unique_evidence_candidate_count c,
       gi_retrieval_dedupe_drop_count := rc_dedupe_drop_count c,
       gi_retrieval_candidate_ids := rc_candidate_ids c,
       gi_retrieval_records := rc_records c,
       gi_retrieval_grounded_context := rc_grounded_context c\<rparr>"

definition decorate_evidence_gap_report_with_retrieval ::
  "gap_report \<Rightarrow> store \<Rightarrow> str \<Rightarrow> str option \<Rightarrow> int \<Rightarrow> gap_report" where
  "decorate_evidence_gap_report_with_retrieval r s workspace_id project_id limit =
     (let contexts = fold (\<lambda>g. AList.update (gi_id g)
            (retrieve_gap_candidates s workspace_id project_id limit g)) (gy_gaps r) []
      in r\<lparr>gy_gaps := map (\<lambda>g. decorated_gap (the (map_of contexts (gi_id g))) g) (gy_gaps r)\<rparr>)"

end
