(* ===== verification/RetrievalProps.thy ===== *)
theory RetrievalProps
  imports Retrieval
begin

text \<open>
  What retrieval promises: the records are valid values of their schema, come from the evidence the caller
  may see, one per evidence, best first; a decorated gap never suggests the evidence it already has.
\<close>

section \<open>Scores\<close>

lemma round_score_mono:
  assumes "x \<le> y"
  shows "round_score n x \<le> round_score n y"
proof -
  define r :: "real \<Rightarrow> int" where
    "r z = (let f = \<lfloor>z\<rfloor>; d = z - of_int f
        in if d < 1 / 2 then f else if 1 / 2 < d then f + 1 else if even f then f else f + 1)" for z
  have le: "r a \<le> r b" if "a \<le> b" for a b
  proof (cases "\<lfloor>a\<rfloor> = \<lfloor>b\<rfloor>")
    case True
    then show ?thesis using that by (auto simp: r_def Let_def)
  next
    case False
    then have "\<lfloor>a\<rfloor> + 1 \<le> \<lfloor>b\<rfloor>" using floor_mono[OF that] by linarith
    moreover have "r a \<le> \<lfloor>a\<rfloor> + 1" "\<lfloor>b\<rfloor> \<le> r b" by (simp_all add: r_def Let_def)
    ultimately show ?thesis by linarith
  qed
  have "round_score n z = of_int (r (z * 10 ^ n)) / 10 ^ n" for z
    by (simp add: round_score_def r_def Let_def)
  with le[of "x * 10 ^ n" "y * 10 ^ n"] assms show ?thesis
    by (simp add: divide_right_mono)
qed

lemma round_score_int [simp]: "round_score n (of_int k) = of_int k"
proof -
  have "real_of_int k * 10 ^ n = of_int (k * 10 ^ n)" by simp
  then show ?thesis unfolding round_score_def Let_def by (simp del: of_int_mult of_int_power) simp
qed

lemma round_score_bounds: "of_int a \<le> x \<Longrightarrow> of_int a \<le> round_score n x" "x \<le> of_int b \<Longrightarrow> round_score n x \<le> of_int b"
  using round_score_mono[of "of_int a" x n] round_score_mono[of x "of_int b" n] by simp_all

lemma hybrid_score_unit: "0 \<le> hybrid_score m c" "hybrid_score m c \<le> 1"
  by (simp_all add: hybrid_score_def Let_def)

text \<open>A term is counted in at most as many entries as there are chunks, so no idf is negative.\<close>

lemma length_fold_update: "length (fold (\<lambda>k. AList.update (f k) (g k)) xs d) \<le> length d + length xs"
proof (induction xs arbitrary: d)
  case (Cons x xs)
  have "length (AList.update k v d) \<le> length d + 1" for k and v
    by (induction d) auto
  from this[of "f x" "g x"] Cons[of "AList.update (f x) (g x) d"] show ?case by simp
qed simp

lemma bm25_idf_nonneg: "0 \<le> bm25_idf (bm25_build ks) t"
proof -
  let ?ix = "bm25_build ks"
  have "bm25_doc_frequency ?ix t \<le> length (bi_terms ?ix)"
    unfolding bm25_doc_frequency_def by (rule count_if_le)
  also have "\<dots> \<le> length (bi_chunks ?ix)"
    using length_fold_update[of rk_id "\<lambda>k. tokenize (rk_text k)" ks "[]"] by (simp add: bm25_build_def)
  finally show ?thesis by (simp add: bm25_idf_def Let_def)
qed

lemma bm25_score_nonneg: "0 \<le> bm25_score (bm25_build ks) q k"
proof -
  let ?ix = "bm25_build ks"
  have "0 \<le> bm25_term_score ?ix ts t" if "0 < bm25_avg_length ?ix" for ts t
    using that bm25_idf_nonneg[of ks t] unfolding bm25_term_score_def Let_def
    by (auto intro!: divide_nonneg_nonneg mult_nonneg_nonneg add_nonneg_nonneg)
  then have "0 \<le> sum_list (map (bm25_term_score ?ix ts) ws)" if "0 < bm25_avg_length ?ix" for ts ws
    using that by (intro sum_list_nonneg) auto
  then show ?thesis
    using round_score_bounds(1)[of 0] unfolding bm25_score_def by (auto simp: Let_def)
qed

section \<open>Reranking\<close>

definition one_per_evidence ::
  "str list \<Rightarrow> (real \<times> retrieval_candidate) list \<Rightarrow> (real \<times> retrieval_candidate) list" where
  "one_per_evidence = keep_first (\<lambda>(_, c). ev_id (rn_evidence c)) (\<lambda>_. True)"

text \<open>The loop keeps the first candidate of each evidence, up to the limit, and always the best one.\<close>

lemma rerank_loop_take:
  "length records < nat (max 1 limit) \<Longrightarrow>
   rerank_loop limit seen records ranked =
     records @ map (\<lambda>(s, c). retrieval_record_of s c)
       (take (nat (max 1 limit) - length records) (one_per_evidence seen ranked))"
proof (induction limit seen records ranked rule: rerank_loop.induct)
  case (2 limit seen records score c ranked)
  let ?n = "nat (max 1 limit)" and ?k = "ev_id (rn_evidence c)" and ?r = "retrieval_record_of score c"
  show ?case
  proof (cases "?k \<in> set seen")
    case True
    then show ?thesis using 2 by (simp add: one_per_evidence_def)
  next
    case False
    have o: "one_per_evidence seen ((score, c) # ranked) = (score, c) # one_per_evidence (?k # seen) ranked"
      using False by (simp add: one_per_evidence_def)
    obtain d where d: "?n - length records = Suc d" using 2(3) by (metis Suc_diff_Suc)
    show ?thesis
    proof (cases "limit \<le> int (length (records @ [?r]))")
      case True
      then have "d = 0" using d by simp
      then show ?thesis using False True o d by simp
    next
      case nl: False
      then have l: "length (records @ [?r]) < ?n" by auto
      have "?n - length (records @ [?r]) = d" using d by simp
      with 2(2)[OF False refl nl l] False nl o d show ?thesis by (simp add: Let_def)
    qed
  qed
qed (simp add: one_per_evidence_def)

lemma sorted_wrt_keep_first: "sorted_wrt R xs \<Longrightarrow> sorted_wrt R (keep_first f ok seen xs)"
proof (induction xs arbitrary: seen)
  case (Cons x xs)
  have "y \<in> set (keep_first f ok seen' xs) \<Longrightarrow> y \<in> set xs" for y seen'
    by (induction xs arbitrary: seen') (auto split: if_splits)
  with Cons show ?case by auto
qed simp

lemma rank_retrieval_sorted: "sorted_wrt (\<lambda>a b. fst b \<le> fst a) (rank_retrieval_candidates cs)"
proof -
  let ?f = "\<lambda>(score::real, c). (score, ev_reliability_score (rn_evidence c), lower (rk_title (rn_chunk c)))"
  have "sorted_wrt (\<lambda>a b. ?f b \<le> ?f a) (sort_desc ?f xs)" for xs
    using sorted_sort_desc[of ?f xs] by (simp add: rev_map[symmetric] sorted_wrt_rev sorted_wrt_map)
  then have "sorted_wrt (\<lambda>a b. ?f b \<le> ?f a) (rank_retrieval_candidates cs)"
    unfolding rank_retrieval_candidates_def Let_def .
  then show ?thesis by (rule sorted_wrt_mono_rel[rotated]) (auto simp: less_eq_prod_def)
qed

lemma rank_retrieval_set: "(s, c) \<in> set (rank_retrieval_candidates cs) \<Longrightarrow> c \<in> set cs \<and> (\<exists>m. s = hybrid_score m c)"
  by (auto simp: rank_retrieval_candidates_def Let_def)

text \<open>The records of a reranking, as the candidates they were made of.\<close>

lemma rerank_records:
  obtains xs where
    "rerank_candidates cs limit = map (\<lambda>(s, c). retrieval_record_of s c) xs"
    "length xs \<le> nat (max 1 limit)" "distinct (map (\<lambda>(_, c). ev_id (rn_evidence c)) xs)"
    "sorted_wrt (\<lambda>a b. fst b \<le> fst a) xs"
    "\<And>s c. (s, c) \<in> set xs \<Longrightarrow> c \<in> set cs \<and> 0 \<le> s \<and> s \<le> 1"
proof (cases "cs = []")
  case True
  then show thesis using that[of "[]"] by (simp add: rerank_candidates_def)
next
  case False
  let ?o = "one_per_evidence [] (rank_retrieval_candidates cs)"
  let ?xs = "take (nat (max 1 limit)) ?o"
  have "rerank_candidates cs limit = map (\<lambda>(s, c). retrieval_record_of s c) ?xs"
    using False rerank_loop_take[of "[]" limit "[]" "rank_retrieval_candidates cs"] by (simp add: rerank_candidates_def)
  moreover have "distinct (map (\<lambda>(_, c). ev_id (rn_evidence c)) ?xs)"
    using kf.dd_distinct[of "\<lambda>(_, c). ev_id (rn_evidence c)" "\<lambda>_. True" "rank_retrieval_candidates cs"]
    by (metis distinct_take one_per_evidence_def take_map)
  moreover have "sorted_wrt (\<lambda>a b. fst b \<le> fst a) ?xs"
    using sorted_wrt_keep_first[OF rank_retrieval_sorted] unfolding one_per_evidence_def
    by (rule sorted_wrt_take)
  moreover have "c \<in> set cs \<and> 0 \<le> s \<and> s \<le> 1" if "(s, c) \<in> set ?xs" for s c
  proof -
    have "(s, c) \<in> set (rank_retrieval_candidates cs)"
      using that in_set_takeD kf.dd_subset unfolding one_per_evidence_def by (metis subsetD)
    then show ?thesis using rank_retrieval_set hybrid_score_unit by blast
  qed
  ultimately show thesis by (intro that[of ?xs]) simp_all
qed

section \<open>Candidates\<close>

lemma candidate_origin:
  assumes "c \<in> set (retrieval_candidates (q # qs) scores pool (chunk_corpus pool))"
    and "distinct (map ev_id pool)"
  shows "rn_evidence c \<in> set pool \<and> has_substring (rk_text (rn_chunk c)) (evidence_text (rn_evidence c)) \<and> 0 \<le> rk_chunk_index (rn_chunk c)
    \<and> \<bar>rn_vector_score c\<bar> \<le> 1 \<and> 0 \<le> rn_bm25_score c"
proof -
  let ?ks = "chunk_corpus pool" and ?d = "rev (map (\<lambda>e. (ev_id e, e)) pool)"
  obtain k e where k: "k \<in> set ?ks" "map_of ?d (rk_evidence_id k) = Some e" "rn_evidence c = e"
    "rn_chunk c = k" "\<bar>rn_vector_score c\<bar> \<le> 1"
    "rn_bm25_score c = Max (set (map (\<lambda>x. bm25_score (bm25_build ?ks) x k) (q # qs)))"
    using assms(1) cosine_range
    by (auto simp: retrieval_candidates_def map_filter_def candidate_of_def embed_text_def)
  obtain e' where e': "e' \<in> set pool" "rk_evidence_id k = ev_id e'" "0 \<le> rk_chunk_index k"
    "has_substring (rk_text k) (evidence_text e')" by (rule chunk_corpus_parts[OF k(1)])
  have e: "e \<in> set pool" "ev_id e = ev_id e'" using map_of_SomeD[OF k(2)] e'(2) by auto
  with e'(1) assms(2) have "e = e'" by (auto simp: distinct_map dest: inj_onD)
  moreover have "0 \<le> rn_bm25_score c"
  proof -
    have "bm25_score (bm25_build ?ks) q k \<le> rn_bm25_score c" unfolding k(6) by (rule Max_ge) auto
    then show ?thesis using bm25_score_nonneg[of ?ks q k] by linarith
  qed
  ultimately show ?thesis using k e e' by simp
qed

definition retrieval_record_valid :: "retrieval_record \<Rightarrow> bool" where
  "retrieval_record_valid r \<longleftrightarrow> 0 \<le> rr_chunk_index r \<and> \<bar>rr_score r\<bar> \<le> 1 \<and> \<bar>rr_vector_score r\<bar> \<le> 1
     \<and> 0 \<le> rr_bm25_score r \<and> 0 \<le> rr_rerank_score r \<and> rr_rerank_score r \<le> 1"

lemma record_valid:
  assumes "0 \<le> rk_chunk_index (rn_chunk c)" "\<bar>rn_vector_score c\<bar> \<le> 1" "0 \<le> rn_bm25_score c" "0 \<le> s" "s \<le> 1"
  shows "retrieval_record_valid (retrieval_record_of s c)"
proof -
  have "0 \<le> round_score 4 s" "round_score 4 s \<le> 1"
    using assms(4,5) round_score_bounds(1)[of 0 s 4] round_score_bounds(2)[of s 1 4] by simp_all
  moreover have "-1 \<le> round_score 4 (rn_vector_score c)" "round_score 4 (rn_vector_score c) \<le> 1"
    using assms(2) round_score_bounds(1)[of "-1" "rn_vector_score c" 4]
      round_score_bounds(2)[of "rn_vector_score c" 1 4] by simp_all
  moreover have "0 \<le> round_digits 4 (rn_bm25_score c)"
    using assms(3) round_half_even_mono[of 0 "rn_bm25_score c * 10 ^ 4"] round_half_even_int[of 0]
    by (simp add: round_digits_def)
  ultimately show ?thesis
    using assms(1) by (simp add: retrieval_record_valid_def retrieval_record_of_def Let_def abs_le_iff)
qed

section \<open>Scope\<close>

lemma fold_update_values:
  "x \<in> snd ` set (fold (\<lambda>e. AList.update (f e) e) xs d) \<Longrightarrow> x \<in> set xs \<or> x \<in> snd ` set d"
proof (induction xs arbitrary: d)
  case (Cons y xs)
  from Cons(1)[of "AList.update (f y) y d"] Cons(2) have "x \<in> set xs \<or> x \<in> snd ` set (AList.update (f y) y d)"
    by simp
  then show ?case using set_update_subset[of "f y" y d] by auto
qed simp

lemma in_ranked: "x \<in> set (take n (sort_desc f (concat (map g ms)))) \<Longrightarrow> \<exists>m. x \<in> set (g m)"
  by (auto dest!: in_set_takeD)

lemma search_hit_stored:
  assumes "h \<in> set (search_evidence w q p n s)"
  shows "sh_evidence h \<in> set (dict_values (st_evidence s))"
proof -
  from in_ranked[OF assms[unfolded search_evidence_def Let_def]] obtain m :: embedding where
    "h \<in> set (if em_workspace_id m \<noteq> w then []
      else case map_of (st_evidence s) (em_evidence_id m) of
          None \<Rightarrow> []
        | Some e \<Rightarrow>
          if given p \<and> Some (ev_project_id e) \<noteq> p then []
          else [\<lparr>sh_evidence = e,
                 sh_score = cosine_similarity (deterministic_embedding q embedding_dimensions)
                   (deterministic_embedding (em_embedding_text m) embedding_dimensions),
                 sh_embedding_model = em_embedding_model m\<rparr>])" ..
  then have "map_of (st_evidence s) (em_evidence_id m) = Some (sh_evidence h)"
    by (auto split: if_splits option.splits)
  then show ?thesis by (force simp: dict_values_def dest: map_of_SomeD)
qed

lemma recall_evidence_stored:
  assumes "e \<in> set (recall_evidence s w p qs n)"
  shows "e \<in> set (dict_values (st_evidence s))"
proof -
  have "e \<in> snd ` set (fold (\<lambda>e. AList.update (ev_id e) e)
      (filter (\<lambda>e. ev_workspace_id e = w) (list_evidence p s)
        @ map sh_evidence (recall_hits s w p qs n)) [])"
    using assms by (simp only: recall_evidence_def Let_def dict_values_def set_map)
  from fold_update_values[OF this]
  have "e \<in> set (list_evidence p s) \<or> e \<in> sh_evidence ` set (recall_hits s w p qs n)" by auto
  then show ?thesis
    using search_hit_stored by (auto simp: recall_hits_def list_evidence_def split: if_splits)
qed

lemma recall_evidence_distinct: "distinct (map ev_id (recall_evidence s w p qs n))"
proof -
  have "distinct (map ev_id (dict_values d))" if "table_ok ev_id d" for d
  proof -
    have "map ev_id (dict_values d) = map fst d"
      using that by (auto simp: table_ok_def dict_values_def)
    then show ?thesis using that by (simp add: table_ok_def)
  qed
  from this[OF table_ok_fold[OF table_ok_Nil]] show ?thesis
    unfolding recall_evidence_def Let_def .
qed

lemma retrieval_pool_scope:
  "distinct (map ev_id (retrieval_pool s w p qs excluded st n))"
  "e \<in> set (retrieval_pool s w p qs excluded st n) \<Longrightarrow>
     e \<in> set (dict_values (st_evidence s)) \<and> ev_id e \<notin> set excluded \<and> ev_workspace_id e = w
     \<and> (p = None \<or> Some (ev_project_id e) = p) \<and> source_type_matches st (ev_source_type e)"
  using recall_evidence_distinct recall_evidence_stored
  by (auto simp: retrieval_pool_def distinct_map_filter)

text \<open>The evidence a record was taken from.\<close>

definition quotes :: "retrieval_record \<Rightarrow> evidence \<Rightarrow> bool" where
  "quotes r e \<longleftrightarrow> ev_id e = rr_evidence_id r \<and> ev_title e = rr_title r \<and> ev_source_type e = rr_source_type r
     \<and> ev_dimension e = rr_dimension r \<and> has_substring (rr_snippet r) (evidence_text e)"

definition in_retrieval_scope ::
  "str \<Rightarrow> str option \<Rightarrow> str list \<Rightarrow> str option \<Rightarrow> evidence \<Rightarrow> bool" where
  "in_retrieval_scope workspace_id project_id excluded required e \<longleftrightarrow>
     ev_workspace_id e = workspace_id \<and> (project_id = None \<or> Some (ev_project_id e) = project_id)
     \<and> ev_id e \<notin> set excluded \<and> source_type_matches required (ev_source_type e)"

definition retrieval_sound ::
  "store \<Rightarrow> str \<Rightarrow> str option \<Rightarrow> str list \<Rightarrow> str option \<Rightarrow> int \<Rightarrow> retrieval_context \<Rightarrow> bool" where
  "retrieval_sound s workspace_id project_id excluded required limit c \<longleftrightarrow>
     list_all (\<lambda>r. retrieval_record_valid r
         \<and> list_ex (\<lambda>e. quotes r e \<and> in_retrieval_scope workspace_id project_id excluded required e)
             (dict_values (st_evidence s))) (rc_records c)
     \<and> rc_candidate_ids c = map rr_evidence_id (rc_records c)
     \<and> distinct (rc_candidate_ids c) \<and> length (rc_records c) \<le> nat (max 1 limit)
     \<and> sorted (rev (map rr_score (rc_records c)))"

lemma empty_context_sound: "retrieval_sound s w p excluded st n (empty_context g q qs)"
  by (simp add: retrieval_sound_def empty_context_def)

lemma records_sound:
  assumes pool: "pool = retrieval_pool s w p (q # qs) excluded st limit"
    and cs: "cs = retrieval_candidates (q # qs) scores pool (chunk_corpus pool)"
    and c: "rc_records c = rerank_candidates cs limit" "rc_candidate_ids c = map rr_evidence_id (rc_records c)"
  shows "retrieval_sound s w p excluded st limit c"
proof -
  obtain xs where xs: "rerank_candidates cs limit = map (\<lambda>(s, c). retrieval_record_of s c) xs"
    "length xs \<le> nat (max 1 limit)" "distinct (map (\<lambda>(_, c). ev_id (rn_evidence c)) xs)"
    "sorted_wrt (\<lambda>a b. fst b \<le> fst a) xs"
    "\<And>s c. (s, c) \<in> set xs \<Longrightarrow> c \<in> set cs \<and> 0 \<le> s \<and> s \<le> 1" using rerank_records[of cs limit] by metis
  have ok: "retrieval_record_valid (retrieval_record_of x k)
      \<and> list_ex (\<lambda>e. quotes (retrieval_record_of x k) e \<and> in_retrieval_scope w p excluded st e)
          (dict_values (st_evidence s))" if "(x, k) \<in> set xs" for x k
  proof -
    note k = candidate_origin[of k q qs scores pool, folded cs]
    have o: "k \<in> set cs" "0 \<le> x" "x \<le> 1" using xs(5)[OF that] by auto
    have d: "distinct (map ev_id pool)" unfolding pool by (rule retrieval_pool_scope)
    note k = k[OF o(1) d]
    have sc: "rn_evidence k \<in> set (dict_values (st_evidence s))"
      "in_retrieval_scope w p excluded st (rn_evidence k)"
      using k retrieval_pool_scope(2)[of "rn_evidence k" s w p "q # qs" excluded st limit]
      unfolding pool by (auto simp: in_retrieval_scope_def)
    have "quotes (retrieval_record_of x k) (rn_evidence k)"
      using k has_substring_trans[OF has_substring_take]
      by (simp add: quotes_def retrieval_record_of_def Let_def)
    with sc record_valid[of k x] k o show ?thesis by (auto simp: list_ex_iff)
  qed
  have ids: "map rr_evidence_id (rc_records c) = map (\<lambda>(_, c). ev_id (rn_evidence c)) xs"
    unfolding c(1) xs(1) by (auto simp: retrieval_record_of_def Let_def)
  have "sorted_wrt (\<lambda>a b. rr_score b \<le> rr_score a) (rc_records c)"
    unfolding c(1) xs(1) sorted_wrt_map using xs(4)
    by (rule sorted_wrt_mono_rel[rotated])
      (auto simp: retrieval_record_of_def Let_def round_score_mono)
  then have "sorted (rev (map rr_score (rc_records c)))"
    by (simp add: rev_map[symmetric] sorted_wrt_rev sorted_wrt_map)
  then show ?thesis
    unfolding retrieval_sound_def c(2) ids using xs(2,3) ok by (auto simp: c(1) xs(1) list_all_iff)
qed

lemma retrieve_sound:
  "retrieval_sound s w p excluded st n (retrieve_grounded_context s w g q rw p excluded st n)"
proof (cases "dedupe_queries (q # rw)")
  case Nil
  then show ?thesis by (simp add: retrieve_grounded_context_def empty_context_sound)
next
  case (Cons q' qs)
  then show ?thesis
    unfolding retrieve_grounded_context_def Let_def
    by (auto simp: empty_context_sound intro!: records_sound[OF refl refl])
qed

text \<open>C25. Retrieval never leaves its scope: every record it returns quotes a stored evidence of the
  workspace and the project asked for, of the required source type and not among the excluded ones; the
  records are valid values of their schema (the constructor cannot raise), one per evidence, at most
  \<open>limit\<close> of them (one for a limit below one), by falling score.\<close>

theorem retrieval_in_scope:
  "let c = retrieve_grounded_context s workspace_id gap_id query rewritten project_id excluded required limit
   in list_all (\<lambda>r. retrieval_record_valid r
         \<and> list_ex (\<lambda>e. quotes r e \<and> in_retrieval_scope workspace_id project_id excluded required e)
             (dict_values (st_evidence s))) (rc_records c)
     \<and> distinct (map rr_evidence_id (rc_records c)) \<and> length (rc_records c) \<le> nat (max 1 limit)
     \<and> sorted (rev (map rr_score (rc_records c)))"
  using retrieve_sound[of s workspace_id project_id excluded required limit gap_id query rewritten]
  unfolding retrieval_sound_def Let_def by metis

section \<open>Gap reports\<close>

lemma map_of_contexts:
  assumes "distinct (map gi_id gs)" "g \<in> set gs"
  shows "map_of (fold (\<lambda>g. AList.update (gi_id g) (f g)) gs d) (gi_id g) = Some (f g)"
  using assms
proof (induction gs arbitrary: d)
  case (Cons h gs)
  have "map_of (fold (\<lambda>g. AList.update (gi_id g) (f g)) gs d) k = map_of d k" if "k \<notin> gi_id ` set gs" for d k
    using that by (induction gs arbitrary: d) (auto simp: map_of_update)
  with Cons show ?case by (cases "g = h") (auto simp: map_of_update)
qed simp

definition suggests_new_evidence :: "store \<Rightarrow> str \<Rightarrow> str option \<Rightarrow> gap_item \<Rightarrow> bool" where
  "suggests_new_evidence s workspace_id project_id g \<longleftrightarrow>
     list_all (\<lambda>i. i \<notin> set (gi_evidence_ids g)
       \<and> list_ex (\<lambda>e. ev_id e = i
           \<and> in_retrieval_scope workspace_id project_id [] (gi_source_type_required g) e)
         (dict_values (st_evidence s))) (gi_retrieval_candidate_ids g)"

lemma decorated_suggests_new:
  "suggests_new_evidence s w p (decorated_gap (retrieve_gap_candidates s w p n g) g)"
proof -
  let ?c = "retrieve_gap_candidates s w p n g"
  have "retrieval_sound s w p (gi_evidence_ids g) (gi_source_type_required g) n ?c"
    by (simp add: retrieve_gap_candidates_def Let_def empty_context_sound retrieve_sound)
  then show ?thesis
    by (fastforce simp: suggests_new_evidence_def decorated_gap_def retrieval_sound_def list_all_iff
        list_ex_iff quotes_def in_retrieval_scope_def)
qed

text \<open>Decorating a gap report keeps its gaps in their order, and every candidate it suggests for a
  gap is other evidence than the gap already names: stored evidence of the workspace and project, of the
  source type the gap requires.\<close>

theorem decorated_gaps_suggest_new_evidence:
  assumes "distinct (map gi_id (gy_gaps r))"
  shows "let gs = gy_gaps (decorate_evidence_gap_report_with_retrieval r s workspace_id project_id limit)
    in map gi_id gs = map gi_id (gy_gaps r) \<and> map gi_evidence_ids gs = map gi_evidence_ids (gy_gaps r)
      \<and> list_all (suggests_new_evidence s workspace_id project_id) gs"
proof -
  let ?f = "\<lambda>g. retrieve_gap_candidates s workspace_id project_id limit g"
  have "gy_gaps (decorate_evidence_gap_report_with_retrieval r s workspace_id project_id limit) =
      map (\<lambda>g. decorated_gap (?f g) g) (gy_gaps r)"
    using map_of_contexts[OF assms, of _ ?f "[]"]
    by (simp add: decorate_evidence_gap_report_with_retrieval_def Let_def)
  then show ?thesis
    using decorated_suggests_new by (auto simp: list_all_iff decorated_gap_def)
qed

lemma decorated_gaps_suggest_new_evidence_witness:
  "let g = gap_of ''high'' ''missing_dimension_coverage'' None (Some ''Acme'') (Some ''pricing'') None
         ''No usable evidence.'' ''Acme pricing official'' [] [];
       r = \<lparr>gy_project_id = ''p'', gy_scenario_id = ''s'', gy_gap_count = 1, gy_critical_count = 0,
         gy_high_count = 1, gy_medium_count = 0, gy_low_count = 0, gy_gaps = [g],
         gy_schema_suggestions = []\<rparr>;
       gs = gy_gaps (decorate_evidence_gap_report_with_retrieval r empty_store ''w'' (Some ''p'') 3)
   in map gi_id gs = [gi_id g] \<and> map gi_evidence_ids gs = [[]]
      \<and> list_all (suggests_new_evidence empty_store ''w'' (Some ''p'')) gs"
proof -
  define g where "g = gap_of ''high'' ''missing_dimension_coverage'' None (Some ''Acme'') (Some ''pricing'') None
         ''No usable evidence.'' ''Acme pricing official'' [] []"
  let ?r = "\<lparr>gy_project_id = ''p'', gy_scenario_id = ''s'', gy_gap_count = 1, gy_critical_count = 0,
         gy_high_count = 1, gy_medium_count = 0, gy_low_count = 0, gy_gaps = [g],
         gy_schema_suggestions = []\<rparr>"
  have "gi_evidence_ids g = []" by (simp add: g_def gap_of_def)
  then show ?thesis
    using decorated_gaps_suggest_new_evidence[of ?r empty_store "''w''" "Some ''p''" 3]
    unfolding g_def[symmetric] by (simp add: Let_def)
qed

end
