(* ===== verification/RateLimit.thy ===== *)
theory RateLimit
  imports Prelude
begin

text \<open>
  app/rate_limit.py: the sliding window that limits the requests of a key. A call reads the clock once,
  before it takes the lock, and the model takes the calls in the order of these readings; the events of a
  key are the queue of its admitted calls, oldest first.
\<close>

section \<open>The limiter\<close>

record rate_decision =
  rd_allowed :: bool
  rd_retry_after_seconds :: rat
  rd_remaining :: int

type_synonym rate_event = "rat \<times> str option"
type_synonym rate_limiter = "(str \<times> rate_event list) list"

definition key_events :: "rate_limiter \<Rightarrow> str \<Rightarrow> rate_event list" where
  "key_events m key = (case map_of m key of Some es \<Rightarrow> es | None \<Rightarrow> [])"

definition live_events :: "rat \<Rightarrow> rate_event list \<Rightarrow> rate_event list" where
  "live_events cutoff es = dropWhile (\<lambda>(t, _). t \<le> cutoff) es"

text \<open>The decision on the live events of the key, and whether the call is added to them.\<close>

definition rate_decide :: "int \<Rightarrow> rat \<Rightarrow> rat \<Rightarrow> str option \<Rightarrow> rate_event list \<Rightarrow> rate_decision \<times> bool" where
  "rate_decide limit window now unique_id es =
     (let room = max 0 (limit - int (length es))
      in if unique_id \<noteq> None \<and> list_ex (\<lambda>(_, i). i = unique_id) es then
           (\<lparr>rd_allowed = True, rd_retry_after_seconds = 0, rd_remaining = room\<rparr>, False)
         else if limit \<le> int (length es) then
           (\<lparr>rd_allowed = False, rd_retry_after_seconds = max 0 (window - (now - fst (hd es))),
             rd_remaining = 0\<rparr>, False)
         else
           (\<lparr>rd_allowed = True, rd_retry_after_seconds = 0,
             rd_remaining = max 0 (limit - (int (length es) + 1))\<rparr>, True))"

definition rate_allow ::
  "int \<Rightarrow> rat \<Rightarrow> rat \<Rightarrow> str \<Rightarrow> str option \<Rightarrow> rate_limiter \<Rightarrow> rate_decision \<times> rate_limiter" where
  "rate_allow limit window now key unique_id m =
     (if limit \<le> 0 then (\<lparr>rd_allowed = True, rd_retry_after_seconds = 0, rd_remaining = 0\<rparr>, m)
      else let es = live_events (now - window) (key_events m key);
             (d, added) = rate_decide limit window now unique_id es
        in (d, AList.update key (if added then es @ [(now, unique_id)] else es) m))"

text \<open>
  A history of calls with one limit and one window, as a route uses the limiter: the calls that took a
  place of the window, and the limiter after them.
\<close>

type_synonym rate_call = "rat \<times> str \<times> str option"

definition takes_place :: "int \<Rightarrow> rat \<Rightarrow> rate_call \<Rightarrow> rate_limiter \<Rightarrow> bool" where
  "takes_place limit window c m =
     (case c of (now, key, i) \<Rightarrow> snd (rate_decide limit window now i (live_events (now - window) (key_events m key))))"

fun rate_run :: "int \<Rightarrow> rat \<Rightarrow> rate_call list \<Rightarrow> rate_limiter \<Rightarrow> rate_call list \<times> rate_limiter" where
  "rate_run limit window [] m = ([], m)"
| "rate_run limit window (c # cs) m =
     (case c of (now, key, i) \<Rightarrow>
        let (taken, m') = rate_run limit window cs (snd (rate_allow limit window now key i m))
        in (if takes_place limit window c m then (c # taken, m') else (taken, m')))"

section \<open>One key\<close>

text \<open>The live events of a sorted queue are those after the cutoff.\<close>

lemma live_filter: "sorted (map fst es) \<Longrightarrow> live_events c es = filter (\<lambda>e. c < fst e) es"
proof (induction es)
  case (Cons e es)
  show ?case
  proof (cases "fst e \<le> c")
    case True
    then show ?thesis using Cons by (cases e) (simp add: live_events_def)
  next
    case False
    with Cons.prems have "filter (\<lambda>e. c < fst e) es = es" by (auto simp: filter_id_conv)
    with False show ?thesis by (cases e) (simp add: live_events_def)
  qed
qed (simp add: live_events_def)

lemma key_events_update:
  "key_events (AList.update k es m) k' = (if k' = k then es else key_events m k')"
  by (simp add: key_events_def update_conv')

lemma rate_allow_events:
  assumes "0 < limit"
  shows "key_events (snd (rate_allow limit window now key i m)) k =
    (if k = key then
       (let es = live_events (now - window) (key_events m key)
        in if takes_place limit window (now, key, i) m then es @ [(now, i)] else es)
     else key_events m k)"
  using assms by (simp add: rate_allow_def takes_place_def Let_def key_events_update split: prod.split)

lemma takes_place_room:
  "takes_place limit window (now, key, i) m \<Longrightarrow>
   int (length (live_events (now - window) (key_events m key))) < limit"
  by (simp add: takes_place_def rate_decide_def Let_def split: if_splits)

text \<open>
  The queue of every key against the log of its admitted calls, at a time no later than the next call: the
  queue is what the log holds after some cutoff, and it never exceeds the limit.
\<close>

definition key_log :: "str \<Rightarrow> rate_call list \<Rightarrow> rate_event list" where
  "key_log k cs = map (\<lambda>(t, _, i). (t, i)) (filter (\<lambda>(_, key, _). key = k) cs)"

lemma key_log_simps [simp]:
  "key_log k [] = []" "key_log k ((t, key, i) # cs) = (if key = k then (t, i) # key_log k cs else key_log k cs)"
  "key_log k (cs @ ds) = key_log k cs @ key_log k ds"
  by (simp_all add: key_log_def)

definition limiter_ok :: "int \<Rightarrow> rat \<Rightarrow> rat \<Rightarrow> rate_call list \<Rightarrow> rate_limiter \<Rightarrow> bool" where
  "limiter_ok limit window now hist m \<longleftrightarrow>
     (\<forall>k. sorted (map fst (key_log k hist)) \<and> (\<forall>e \<in> set (key_log k hist). fst e \<le> now)
        \<and> (\<exists>c \<le> now - window. key_events m k = filter (\<lambda>e. c < fst e) (key_log k hist))
        \<and> int (length (key_events m k)) \<le> limit
        \<and> (\<forall>T. int (length (filter (\<lambda>e. T - window < fst e \<and> fst e \<le> T) (key_log k hist))) \<le> limit))"

lemma filter_filter_later:
  "c \<le> (d :: rat) \<Longrightarrow> filter (\<lambda>e. d < fst e) (filter (\<lambda>e. c < fst e) es) = filter (\<lambda>e. d < fst e) es"
  by (induction es) auto

lemma limiter_ok_start: "0 < limit \<Longrightarrow> limiter_ok limit window now [] []"
  by (auto simp: limiter_ok_def key_events_def)

lemma window_count_snoc:
  fixes hist :: "rate_event list"
  assumes "\<forall>e \<in> set hist. fst e \<le> now" "int (length (filter (\<lambda>e. now - window < fst e) hist)) < limit"
    and "\<forall>T. int (length (filter (\<lambda>e. T - window < fst e \<and> fst e \<le> T) hist)) \<le> limit"
  shows "int (length (filter (\<lambda>e. T - window < fst e \<and> fst e \<le> T) (hist @ [(now, i)]))) \<le> limit"
proof (cases "now \<le> T")
  case False
  then show ?thesis using assms(3) by simp
next
  case True
  have "length (filter (\<lambda>e. T - window < fst e \<and> fst e \<le> T) hist) \<le> length (filter (\<lambda>e. now - window < fst e) hist)"
    by (induction hist) (use True in auto)
  with assms(2) show ?thesis by auto
qed

lemma limiter_ok_step:
  assumes ok: "limiter_ok limit window before_now hist m" and time: "before_now \<le> now" and pos: "0 < limit" and w: "0 < window"
  shows "limiter_ok limit window now (if takes_place limit window (now, key, i) m then hist @ [(now, key, i)] else hist)
    (snd (rate_allow limit window now key i m))"
  unfolding limiter_ok_def
proof
  fix k
  note k = ok[unfolded limiter_ok_def, rule_format, of k]
  obtain c where c: "c \<le> before_now - window" "key_events m k = filter (\<lambda>e. c < fst e) (key_log k hist)"
    using k by blast
  have live: "live_events (now - window) (key_events m k) = filter (\<lambda>e. now - window < fst e) (key_log k hist)"
    (is "?live = _")
  proof -
    have "sorted (map fst (key_events m k))" unfolding c(2) using k by (simp add: sorted_filter)
    note live_filter[OF this, of "now - window"]
    also have "filter (\<lambda>e. now - window < fst e) (key_events m k) = filter (\<lambda>e. now - window < fst e) (key_log k hist)"
      unfolding c(2) by (rule filter_filter_later) (use c(1) time in linarith)
    finally show ?thesis .
  qed
  have old: "\<forall>e \<in> set (key_log k hist). fst e \<le> now" using k time by (meson order_trans)
  let ?hist = "if takes_place limit window (now, key, i) m then hist @ [(now, key, i)] else hist"
  let ?m = "snd (rate_allow limit window now key i m)"
  consider "k \<noteq> key" | "k = key" "takes_place limit window (now, key, i) m"
    | "k = key" "\<not> takes_place limit window (now, key, i) m" by blast
  then show "sorted (map fst (key_log k ?hist)) \<and> (\<forall>e \<in> set (key_log k ?hist). fst e \<le> now)
        \<and> (\<exists>c \<le> now - window. key_events ?m k = filter (\<lambda>e. c < fst e) (key_log k ?hist))
        \<and> int (length (key_events ?m k)) \<le> limit
        \<and> (\<forall>T. int (length (filter (\<lambda>e. T - window < fst e \<and> fst e \<le> T) (key_log k ?hist))) \<le> limit)"
  proof cases
    case 1
    then have "key_log k ?hist = key_log k hist" "key_events ?m k = key_events m k"
      by (simp_all add: rate_allow_events[OF pos])
    moreover have "c \<le> now - window" using c(1) time by linarith
    ultimately show ?thesis using k c(2) old by auto
  next
    case 2
    have "key_log k ?hist = key_log k hist @ [(now, i)]" "key_events ?m k = ?live @ [(now, i)]"
      using 2 by (simp_all add: rate_allow_events[OF pos] Let_def)
    moreover have "int (length ?live) < limit" using takes_place_room[OF 2(2)] 2(1) by simp
    moreover note window_count_snoc[OF old, of window limit _ i]
    ultimately show ?thesis
      using k old w unfolding live by (auto simp: sorted_append intro!: exI[of _ "now - window"])
  next
    case 3
    have "key_log k ?hist = key_log k hist" "key_events ?m k = ?live"
      using 3 by (simp_all add: rate_allow_events[OF pos] Let_def)
    moreover have "length ?live \<le> length (key_events m k)"
      by (simp add: live_events_def length_dropWhile_le)
    ultimately show ?thesis using k old live by auto
  qed
qed

lemma rate_run_ok:
  "limiter_ok limit window now hist m \<Longrightarrow> 0 < limit \<Longrightarrow> 0 < window \<Longrightarrow> sorted (map fst calls) \<Longrightarrow>
   \<forall>c \<in> set calls. now \<le> fst c \<Longrightarrow> rate_run limit window calls m = (taken, m') \<Longrightarrow>
   \<exists>later. limiter_ok limit window later (hist @ taken) m' \<and> later = (if calls = [] then now else fst (last calls))"
proof (induction calls arbitrary: now hist m taken)
  case (Cons c calls)
  obtain t key i where c: "c = (t, key, i)" by (cases c)
  let ?m = "snd (rate_allow limit window t key i m)"
  obtain taken' where r: "rate_run limit window calls ?m = (taken', m')"
    and taken: "taken = (if takes_place limit window c m then c # taken' else taken')"
    using Cons.prems(6) by (auto simp: c split: prod.splits if_splits)
  let ?hist = "if takes_place limit window (t, key, i) m then hist @ [(t, key, i)] else hist"
  have "limiter_ok limit window t ?hist ?m"
    by (rule limiter_ok_step[OF Cons.prems(1)]) (use Cons.prems c in auto)
  from Cons.IH[OF this Cons.prems(2,3) _ _ r] Cons.prems(4,5) c
  obtain later where "limiter_ok limit window later (?hist @ taken') m'"
    "later = (if calls = [] then t else fst (last calls))" by auto
  then show ?case unfolding taken c by (auto split: if_splits)
qed simp

text \<open>C28. The limiter keeps its promise: over any history of calls on a clock that does not go back, no key has
  more than its limit of admitted calls in any span as long as the window, wherever the span ends, and
  its queue never outgrows the limit.\<close>

theorem rate_limit_holds:
  assumes "0 < limit" and "0 < window" and "sorted (map fst calls)"
    and "rate_run limit window calls [] = (taken, m)"
  shows "int (length (filter (\<lambda>(t, key, _). key = k \<and> T - window < t \<and> t \<le> T) taken)) \<le> limit
    \<and> int (length (key_events m k)) \<le> limit"
proof (cases calls)
  case Nil
  with assms show ?thesis by (simp add: key_events_def)
next
  case (Cons c cs)
  have "limiter_ok limit window (fst c) [] []" by (rule limiter_ok_start[OF assms(1)])
  from rate_run_ok[OF this assms(1-3) _ assms(4)] assms(3) Cons
  obtain later where "limiter_ok limit window later taken m" by auto
  note ok = this[unfolded limiter_ok_def, rule_format, of k]
  have "length (filter (\<lambda>(t, key, _). key = k \<and> T - window < t \<and> t \<le> T) taken)
      = length (filter (\<lambda>e. T - window < fst e \<and> fst e \<le> T) (key_log k taken))"
    by (induction taken) (auto split: prod.splits)
  then show ?thesis using ok by simp
qed

theorem rate_limit_holds_witness:
  "int (length (filter (\<lambda>(t, key, _). key = ''u'' \<and> 12 - 10 < t \<and> t \<le> (12 :: rat))
     (fst (rate_run 2 10 [(1, ''u'', None), (3, ''u'', None), (4, ''u'', None), (12, ''u'', None)] [])))) \<le> 2"
  using rate_limit_holds[of 2 10 "[(1, ''u'', None), (3, ''u'', None), (4, ''u'', None), (12, ''u'', None)]"
      "fst (rate_run 2 10 [(1, ''u'', None), (3, ''u'', None), (4, ''u'', None), (12, ''u'', None)] [])"
      "snd (rate_run 2 10 [(1, ''u'', None), (3, ''u'', None), (4, ''u'', None), (12, ''u'', None)] [])" "''u''" 12]
  by simp

text \<open>A refused caller is told the truth: when a call is refused after any such history, a call of the same
  key that waits for the given time is admitted, whatever its id.\<close>

theorem retry_after_suffices:
  assumes "0 < limit" and "0 < window" and "sorted (map fst calls)" and "\<forall>c \<in> set calls. fst c \<le> now"
    and "rate_run limit window calls [] = (taken, m)"
    and "rate_allow limit window now key i m = (d, m')" and "\<not> rd_allowed d"
    and "now + rd_retry_after_seconds d \<le> again"
  shows "rd_allowed (fst (rate_allow limit window again key j m'))"
proof -
  obtain later hist where ok: "limiter_ok limit window later hist m"
    using rate_run_ok[OF limiter_ok_start[OF assms(1)] assms(1-3) _ assms(5)]
    by (cases calls) (use assms(3) in auto)
  let ?es = "live_events (now - window) (key_events m key)"
  have full: "limit \<le> int (length ?es)" and d: "rd_retry_after_seconds d = max 0 (window - (now - fst (hd ?es)))"
    using assms(1,6,7) by (auto simp: rate_allow_def rate_decide_def Let_def split: if_splits prod.splits)
  have events: "key_events m' key = ?es"
    using assms(1,6,7) rate_allow_events[OF assms(1), of window now key i m key]
    by (auto simp: takes_place_def rate_allow_def rate_decide_def Let_def split: if_splits prod.splits)
  have "int (length (key_events m key)) \<le> limit" using ok by (simp add: limiter_ok_def)
  moreover have "length ?es \<le> length (key_events m key)" by (simp add: live_events_def length_dropWhile_le)
  ultimately have len: "int (length ?es) = limit" using full by simp
  then obtain e es where es: "?es = e # es" using assms(1) by (cases ?es) auto
  have "fst e \<le> again - window" using d assms(8) es by auto
  then have "length (live_events (again - window) ?es) \<le> length es"
    unfolding es by (cases e) (simp add: live_events_def length_dropWhile_le)
  then have "int (length (live_events (again - window) (key_events m' key))) < limit"
    unfolding events using len es by simp
  then show ?thesis
    using assms(1) by (auto simp: rate_allow_def rate_decide_def Let_def split: prod.splits)
qed

theorem retry_after_suffices_witness:
  "rd_allowed (fst (rate_allow 1 10 11 ''u'' None (snd (rate_allow 1 10 3 ''u'' None
     (snd (rate_run 1 10 [(1, ''u'', None)] []))))))"
proof -
  have m: "rate_run 1 10 [(1, ''u'', None)] [] = ([(1, ''u'', None)], [(''u'', [(1, None)])])" by code_simp
  have d: "rate_allow 1 10 3 ''u'' None [(''u'', [(1, None)])]
      = (\<lparr>rd_allowed = False, rd_retry_after_seconds = 8, rd_remaining = 0\<rparr>, [(''u'', [(1, None)])])" by code_simp
  have "rd_allowed (fst (rate_allow 1 10 11 ''u'' None [(''u'', [(1, None)])]))"
    by (rule retry_after_suffices[OF _ _ _ _ m d]) simp_all
  then show ?thesis by (simp only: m d snd_conv)
qed

end
