(* ===== verification/KnowledgeGraph.thy ===== *)
theory KnowledgeGraph
  imports EvidenceStore
begin

text \<open>
  enterprise/knowledge_graph.py: the graph of a project, read from the store. Nodes and edges are
  dictionaries filled with \<open>setdefault\<close>, so the first record of an identity stays. The JSON number of a
  float is the parameter \<open>num\<close>.
\<close>

section \<open>Nodes and edges\<close>

record kg_node =
  kn_id :: str
  kn_node_type :: str
  kn_label :: str
  kn_metadata :: jdict

record kg_edge =
  ke_id :: str
  ke_source_id :: str
  ke_target_id :: str
  ke_relation :: str
  ke_confidence :: rat
  ke_evidence_ids :: "str list"
  ke_metadata :: jdict

record kg_read_model =
  kg_workspace_id :: str
  kg_project_id :: str
  kg_node_count :: int
  kg_edge_count :: int
  kg_nodes :: "kg_node list"
  kg_edges :: "kg_edge list"
  kg_generated_at :: datetime

type_synonym kg_build = "(str \<times> kg_node) list \<times> (str \<times> kg_edge) list"

definition add_node :: "str \<Rightarrow> str \<Rightarrow> str \<Rightarrow> jdict \<Rightarrow> kg_build \<Rightarrow> kg_build" where
  "add_node node_type i label md g =
     (dict_setdefault i \<lparr>kn_id = i, kn_node_type = node_type, kn_label = label,
        kn_metadata = filter (\<lambda>(_, v). v \<noteq> JNull) md\<rparr> (fst g), snd g)"

definition add_edge ::
  "str \<Rightarrow> str \<Rightarrow> str \<Rightarrow> rat \<Rightarrow> str list \<Rightarrow> jdict \<Rightarrow> kg_build \<Rightarrow> kg_build" where
  "add_edge source target relation confidence evidence_ids md g =
     (if source = [] \<or> target = [] then g
      else let i = compute_knowledge_graph_edge_id source target relation
        in (fst g, dict_setdefault i \<lparr>ke_id = i, ke_source_id = source, ke_target_id = target,
              ke_relation = relation, ke_confidence = max 0 (min 1 confidence),
              ke_evidence_ids = evidence_ids, ke_metadata = md\<rparr> (snd g)))"

definition has_node :: "str \<Rightarrow> kg_build \<Rightarrow> bool" where
  "has_node i g = (map_of (fst g) i \<noteq> None)"

section \<open>One record of each kind\<close>

definition add_project :: "project \<Rightarrow> kg_build \<Rightarrow> kg_build" where
  "add_project p = add_node ''project'' (pj_id p) (pj_name p)
     [(''topic'', JStr (pj_topic p)), (''competitor_layer'', JStr (pj_competitor_layer p))]"

definition add_competitor :: "project \<Rightarrow> competitor \<Rightarrow> kg_build \<Rightarrow> kg_build" where
  "add_competitor p c g =
     add_edge (pj_id p) (cp_id c) ''tracks_competitor'' 1 [] [(''role'', JStr ''project_competitor'')]
       (add_node ''competitor'' (cp_id c) (cp_name c)
         [(''layer'', JStr (cp_layer c)), (''homepage_url'', JStr (or_str (cp_homepage_url c) ''''))] g)"

definition add_source_node :: "source_record \<Rightarrow> kg_build \<Rightarrow> kg_build" where
  "add_source_node s = add_node ''source'' (sr_id s) (sr_display_name s)
     [(''domain'', JStr (sr_domain s)), (''trust_level'', JStr (sr_trust_level s)),
      (''robots_status'', JStr (sr_robots_status s)),
      (''policy_review_status'', JStr (sr_policy_review_status s))]"

text \<open>The source of an evidence record: the registered one with the derived identity, or the derived one.\<close>

definition source_for_evidence ::
  "env \<Rightarrow> evidence \<Rightarrow> (str \<times> source_record) list \<Rightarrow> py_error + source_record" where
  "source_for_evidence env e registry =
     err_bind (source_registry_from_evidence env e) (\<lambda>derived.
       Inr (case map_of registry (sr_id derived) of Some s \<Rightarrow> s | None \<Rightarrow> derived))"

definition add_evidence_node :: "(rat \<Rightarrow> json) \<Rightarrow> str \<Rightarrow> project \<Rightarrow> evidence \<Rightarrow> kg_build \<Rightarrow> kg_build" where
  "add_evidence_node num project_id p e g =
     (let d = ''dimension:'' @ project_id @ '':'' @ ev_dimension e;
          g1 = add_node ''dimension'' d (ev_dimension e) [] g;
          g2 = add_edge (pj_id p) d ''has_dimension'' 1 [] [] g1;
          g3 = add_node ''evidence'' (ev_id e) (ev_title e)
            [(''dimension'', JStr (ev_dimension e)), (''source_type'', JStr (ev_source_type e)),
             (''reliability_score'', num (ev_reliability_score e)),
             (''freshness_score'', num (ev_freshness_score e)),
             (''quality_label'', JStr (ev_quality_label e)), (''url'', JStr (or_str (ev_url e) ''''))] g2;
          g4 = add_edge d (ev_id e) ''contains_evidence'' 1 [ev_id e] [] g3
      in add_edge (ev_competitor_id e) (ev_id e) ''has_evidence'' (ev_reliability_score e) [ev_id e] [] g4)"

definition add_evidence_source :: "evidence \<Rightarrow> source_record \<Rightarrow> kg_build \<Rightarrow> kg_build" where
  "add_evidence_source e s g =
     add_edge (ev_id e) (sr_id s) ''sourced_from'' (ev_reliability_score e) [ev_id e] []
       (add_source_node s g)"

fun add_evidence ::
  "env \<Rightarrow> (rat \<Rightarrow> json) \<Rightarrow> str \<Rightarrow> project \<Rightarrow> evidence list \<Rightarrow> (str \<times> source_record) list \<Rightarrow> kg_build
    \<Rightarrow> py_error + (str \<times> source_record) list \<times> kg_build" where
  "add_evidence env num project_id p [] registry g = Inr (registry, g)"
| "add_evidence env num project_id p (e # es) registry g =
     err_bind (source_for_evidence env e registry) (\<lambda>s.
       add_evidence env num project_id p es (AList.update (sr_id s) s registry)
         (add_evidence_source e s (add_evidence_node num project_id p e g)))"

definition add_claim :: "(rat \<Rightarrow> json) \<Rightarrow> str list \<Rightarrow> claim \<Rightarrow> kg_build \<Rightarrow> kg_build" where
  "add_claim num evidence_ids c g =
     fold (\<lambda>i. if i \<in> set evidence_ids
         then add_edge (cl_id c) i ''supported_by'' (cl_confidence c) [i] [] else id) (cl_evidence_ids c)
       (add_edge (cl_competitor_id c) (cl_id c) ''makes_claim'' (cl_confidence c) (cl_evidence_ids c) []
         (add_node ''claim'' (cl_id c) (cl_claim_text c)
           [(''claim_type'', JStr (cl_claim_type c)), (''status'', JStr (cl_status c)),
            (''confidence'', num (cl_confidence c))] g))"

definition add_report :: "project \<Rightarrow> report_version \<Rightarrow> kg_build \<Rightarrow> kg_build" where
  "add_report p v g =
     (let g1 = add_edge (pj_id p) (rv_id v) ''has_report_version'' 1 [] []
            (add_node ''report'' (rv_id v) (''Report v'' @ str_of_int (rv_version_number v))
              [(''status'', JStr (rv_status v)), (''run_id'', jstr_opt (rv_run_id v)),
               (''version_number'', JInt (rv_version_number v))] g);
          g2 = fold (\<lambda>i g. if has_node i g then add_edge (rv_id v) i ''contains_claim'' 1 [] [] g else g)
            (rv_claim_ids v) g1
      in fold (\<lambda>i g. if has_node i g then add_edge (rv_id v) i ''cites_evidence'' 1 [i] [] g else g)
           (rv_evidence_ids v) g2)"

definition metadata_string :: "artifact \<Rightarrow> str \<Rightarrow> str option" where
  "metadata_string a key =
     (case map_of (ar_metadata a) key of Some (JStr s) \<Rightarrow> if s \<noteq> [] then Some s else None | _ \<Rightarrow> None)"

definition metadata_get :: "artifact \<Rightarrow> str \<Rightarrow> json" where
  "metadata_get a key = (case map_of (ar_metadata a) key of Some v \<Rightarrow> v | None \<Rightarrow> JNull)"

definition add_artifact ::
  "str \<Rightarrow> (str \<times> source_record) list \<Rightarrow> artifact \<Rightarrow> kg_build \<Rightarrow> kg_build" where
  "add_artifact project_id registry a g =
     (let kind = (''artifact_type'', JStr (ar_artifact_type a));
          g1 = add_node ''artifact'' (ar_id a) (ar_filename a)
            [kind, (''storage_backend'', JStr (ar_storage_backend a)), (''uri'', JStr (ar_uri a)),
             (''byte_size'', JInt (ar_byte_size a)), (''evidence_id'', jstr_opt (ar_evidence_id a)),
             (''run_id'', jstr_opt (ar_run_id a)),
             (''report_version_id'', jstr_opt (ar_report_version_id a)),
             (''source_url'', JStr (or_str (ar_source_url a) '''')),
             (''snapshot_kind'', metadata_get a ''snapshot_kind''),
             (''export_format'', metadata_get a ''export_format''),
             (''retention_policy'', JStr (ar_retention_policy a))] g;
          g2 = add_edge project_id (ar_id a) ''has_artifact'' 1 [] [kind] g1;
          evidence_id = or_str (ar_evidence_id a) '''';
          g3 = (if evidence_id \<noteq> [] \<and> has_node evidence_id g2
                then add_edge evidence_id (ar_id a) ''captured_as_artifact'' 1 [evidence_id] [kind] g2 else g2);
          version_id = or_str (opt_or (ar_report_version_id a) (metadata_string a ''report_version_id'')) '''';
          g4 = (if version_id \<noteq> [] \<and> has_node version_id g3
                then add_edge version_id (ar_id a) ''exported_as'' 1 []
                  [kind, (''export_format'', metadata_get a ''export_format'')] g3 else g3)
      in case map_of registry (or_str (metadata_string a ''source_registry_id'') '''') of
           None \<Rightarrow> g4
         | Some s \<Rightarrow> add_edge (ar_id a) (sr_id s) ''archives_source'' 1 []
             [(''source_domain'', JStr (sr_domain s))] (add_source_node s g4))"

section \<open>The graph of a project\<close>

definition build_project_knowledge_graph_read_model ::
  "env \<Rightarrow> (rat \<Rightarrow> json) \<Rightarrow> str \<Rightarrow> store \<Rightarrow> py_error + kg_read_model" where
  "build_project_knowledge_graph_read_model env num project_id s =
     (case get_project project_id s of
        None \<Rightarrow> Inl (ValueError (''Project not found: '' @ project_id))
      | Some p \<Rightarrow>
        let es = list_evidence (Some project_id) s;
            registry = fold (\<lambda>r. AList.update (sr_id r) r) (list_source_registry (Some (pj_workspace_id p)) s) [];
            g1 = fold (add_competitor p) (list_competitors None (Some project_id) s) (add_project p ([], []));
            g2 = fold add_source_node (dict_values registry) g1
        in err_bind (add_evidence env num project_id p es registry g2) (\<lambda>(registry', g3).
             let g4 = fold (add_claim num (map ev_id es)) (list_claims (Some project_id) s) g3;
                 g5 = fold (add_report p) (list_report_versions (Some project_id) s) g4;
                 g6 = fold (add_artifact (pj_id p) registry')
                   (list_artifacts None (Some project_id) None None None s) g5
             in Inr \<lparr>kg_workspace_id = pj_workspace_id p, kg_project_id = project_id,
                  kg_node_count = int (length (fst g6)), kg_edge_count = int (length (snd g6)),
                  kg_nodes = sort_key (\<lambda>n. (kn_node_type n, kn_id n)) (dict_values (fst g6)),
                  kg_edges = sort_key ke_id (dict_values (snd g6)), kg_generated_at = env_now env\<rparr>))"

section \<open>What each addition keeps\<close>

text \<open>
  The graph so far: both dictionaries keyed by the identity of their values, every edge known by its
  ends, and its ends nodes, but for the sources among a set of competitors that may have no record.
\<close>

definition edge_ok :: "str set \<Rightarrow> str set \<Rightarrow> kg_edge \<Rightarrow> bool" where
  "edge_ok competitors nodes e \<longleftrightarrow>
     ke_id e = compute_knowledge_graph_edge_id (ke_source_id e) (ke_target_id e) (ke_relation e)
     \<and> 0 \<le> ke_confidence e \<and> ke_confidence e \<le> 1 \<and> ke_target_id e \<in> nodes
     \<and> (ke_source_id e \<in> nodes \<or> ke_source_id e \<in> competitors)"

definition node_ids :: "kg_build \<Rightarrow> str set" where
  "node_ids g = fst ` set (fst g)"

definition kg_ok :: "str set \<Rightarrow> kg_build \<Rightarrow> bool" where
  "kg_ok competitors g \<longleftrightarrow> table_ok kn_id (fst g) \<and> table_ok ke_id (snd g)
     \<and> (\<forall>(_, e) \<in> set (snd g). edge_ok competitors (node_ids g) e)"

text \<open>A step that keeps this and every node, and adds at least the given nodes.\<close>

definition adds :: "str set \<Rightarrow> str set \<Rightarrow> kg_build \<Rightarrow> kg_build \<Rightarrow> bool" where
  "adds competitors new g g' \<longleftrightarrow>
     (kg_ok competitors g \<longrightarrow> kg_ok competitors g') \<and> node_ids g \<union> new \<subseteq> node_ids g'"

lemma adds_refl [simp]: "adds C {} g g"
  by (simp add: adds_def)

lemma adds_trans: "adds C m g g' \<Longrightarrow> adds C n g' g'' \<Longrightarrow> adds C (m \<union> n) g g''"
  by (auto simp: adds_def)

lemma adds_weaken: "adds C m g g' \<Longrightarrow> n \<subseteq> m \<Longrightarrow> adds C n g g'"
  by (auto simp: adds_def)

lemma adds_node: "adds C {i} g (add_node t i l md g)"
proof -
  have n: "node_ids (add_node t i l md g) = insert i (node_ids g)"
    by (simp add: node_ids_def add_node_def keys_setdefault)
  have "edge_ok C (insert i N) e" if "edge_ok C N e" for N e
    using that by (auto simp: edge_ok_def)
  then show ?thesis
    unfolding adds_def kg_ok_def n by (fastforce simp: add_node_def table_ok_setdefault)
qed

lemma adds_edge:
  assumes "x \<in> node_ids g \<or> x \<in> C" "y \<in> node_ids g"
  shows "adds C {} g (add_edge x y r conf es md g)"
proof -
  have n: "node_ids (add_edge x y r conf es md g) = node_ids g"
    by (simp add: node_ids_def add_edge_def Let_def)
  have "kg_ok C (add_edge x y r conf es md g)" if ok: "kg_ok C g"
  proof (cases "x = [] \<or> y = []")
    case True
    with ok show ?thesis by (simp add: add_edge_def)
  next
    case False
    let ?i = "compute_knowledge_graph_edge_id x y r"
    let ?e = "\<lparr>ke_id = ?i, ke_source_id = x, ke_target_id = y, ke_relation = r,
      ke_confidence = max 0 (min 1 conf), ke_evidence_ids = es, ke_metadata = md\<rparr>"
    have g: "add_edge x y r conf es md g = (fst g, dict_setdefault ?i ?e (snd g))"
      using False by (simp add: add_edge_def Let_def)
    have "edge_ok C (node_ids g) ?e" using assms by (auto simp: edge_ok_def)
    moreover have "set (dict_setdefault ?i ?e (snd g)) \<subseteq> insert (?i, ?e) (set (snd g))"
      by (auto simp: dict_setdefault_def split: option.splits)
    ultimately have "\<forall>(_, e) \<in> set (dict_setdefault ?i ?e (snd g)). edge_ok C (node_ids g) e"
      using ok unfolding kg_ok_def by fastforce
    moreover have "table_ok ke_id (dict_setdefault ?i ?e (snd g))"
      using ok by (intro table_ok_setdefault) (simp_all add: kg_ok_def)
    ultimately show ?thesis
      using ok n unfolding g kg_ok_def by simp
  qed
  then show ?thesis unfolding adds_def n by simp
qed

lemma adds_fold:
  "(\<And>x g'. x \<in> set xs \<Longrightarrow> node_ids g \<subseteq> node_ids g' \<Longrightarrow> adds C (f x) g' (h x g')) \<Longrightarrow>
   adds C (\<Union>x \<in> set xs. f x) g (fold h xs g)"
proof (induction xs arbitrary: g)
  case (Cons x xs)
  have 1: "adds C (f x) g (h x g)" using Cons.prems by auto
  have "adds C (\<Union>x \<in> set xs. f x) (h x g) (fold h xs (h x g))"
  proof (rule Cons.IH)
    fix y g'
    assume "y \<in> set xs" "node_ids (h x g) \<subseteq> node_ids g'"
    with 1 show "adds C (f y) g' (h y g')" by (intro Cons.prems) (auto simp: adds_def)
  qed
  from adds_trans[OF 1 this] show ?case by simp
qed simp

end
