(* ===== verification/KnowledgeGraphProps.thy ===== *)
theory KnowledgeGraphProps
  imports KnowledgeGraph
begin

text \<open>The graph of a project is complete and closed, but for competitors without a record.\<close>

section \<open>Each kind of record\<close>

lemma has_node_iff: "has_node i g \<longleftrightarrow> i \<in> node_ids g"
  by (simp add: has_node_def node_ids_def map_of_eq_None_iff)

lemma adds_then_edge:
  assumes "adds C m g g'" "x \<in> node_ids g \<or> x \<in> m \<or> x \<in> C" "y \<in> node_ids g \<or> y \<in> m"
  shows "adds C m g (add_edge x y r conf es md g')"
  using adds_trans[OF assms(1) adds_edge[of x g' C y r conf es md]] assms by (auto simp: adds_def)

lemma adds_then_node: "adds C m g g' \<Longrightarrow> adds C (insert i m) g (add_node t i l md g')"
  using adds_trans[OF _ adds_node, of C m g g' i t l md] by simp

lemma adds_project: "adds C {pj_id p} g (add_project p g)"
  unfolding add_project_def by (rule adds_node)

lemma adds_source: "adds C {sr_id s} g (add_source_node s g)"
  unfolding add_source_node_def by (rule adds_node)

lemma adds_competitor: "pj_id p \<in> node_ids g \<Longrightarrow> adds C {cp_id c} g (add_competitor p c g)"
  unfolding add_competitor_def by (rule adds_then_edge[OF adds_node]) auto

lemma adds_evidence_node:
  assumes "pj_id p \<in> node_ids g" "ev_competitor_id e \<in> C"
  shows "adds C {ev_id e} g (add_evidence_node num project_id p e g)"
  unfolding add_evidence_node_def Let_def
  by (rule adds_weaken, (rule adds_then_edge adds_then_node adds_refl)+) (use assms in auto)

lemma adds_evidence_source:
  assumes "ev_id e \<in> node_ids g"
  shows "adds C {} g (add_evidence_source e s g)"
  unfolding add_evidence_source_def
  by (rule adds_weaken, rule adds_then_edge[OF adds_source]) (use assms in auto)

lemma adds_evidence:
  "add_evidence env num project_id p es registry g = Inr (registry', g') \<Longrightarrow> pj_id p \<in> node_ids g \<Longrightarrow>
   ev_competitor_id ` set es \<subseteq> C \<Longrightarrow> adds C (ev_id ` set es) g g'"
proof (induction es arbitrary: registry g)
  case (Cons e es)
  obtain s where s: "add_evidence env num project_id p es (AList.update (sr_id s) s registry)
      (add_evidence_source e s (add_evidence_node num project_id p e g)) = Inr (registry', g')"
    using Cons.prems(1) by (cases "source_for_evidence env e registry") auto
  let ?g = "add_evidence_node num project_id p e g"
  have 1: "adds C {ev_id e} g ?g" using Cons.prems by (intro adds_evidence_node) auto
  then have "adds C {} ?g (add_evidence_source e s ?g)"
    by (intro adds_evidence_source) (auto simp: adds_def)
  from adds_trans[OF 1 this] have 2: "adds C {ev_id e} g (add_evidence_source e s ?g)" by simp
  have "adds C (ev_id ` set es) (add_evidence_source e s ?g) g'"
    using Cons.IH[OF s] 2 Cons.prems by (auto simp: adds_def)
  from adds_trans[OF 2 this] show ?case by simp
qed simp

lemma adds_claim:
  assumes "cl_competitor_id c \<in> C" "set ids \<subseteq> node_ids g"
  shows "adds C {cl_id c} g (add_claim num ids c g)"
proof -
  let ?g = "add_edge (cl_competitor_id c) (cl_id c) ''makes_claim'' (cl_confidence c) (cl_evidence_ids c) []
    (add_node ''claim'' (cl_id c) (cl_claim_text c)
      [(''claim_type'', JStr (cl_claim_type c)), (''status'', JStr (cl_status c)),
       (''confidence'', num (cl_confidence c))] g)"
  have 1: "adds C {cl_id c} g ?g" by (rule adds_then_edge[OF adds_node]) (use assms in auto)
  have "adds C (\<Union>x \<in> set (cl_evidence_ids c). {}) ?g (add_claim num ids c g)"
    unfolding add_claim_def
  proof (rule adds_fold)
    fix i g'
    assume "node_ids ?g \<subseteq> node_ids g'"
    with 1 assms(2) show "adds C {} g' ((if i \<in> set ids
        then add_edge (cl_id c) i ''supported_by'' (cl_confidence c) [i] [] else id) g')"
      by (auto intro!: adds_edge simp: adds_def[of C "{cl_id c}"])
  qed
  from adds_trans[OF 1 this] show ?thesis by simp
qed

lemma adds_links:
  assumes "x \<in> node_ids g"
  shows "adds C {} g (fold (\<lambda>i g. if has_node i g then add_edge x i r conf (f i) md g else g) js g)"
proof -
  have "adds C (\<Union>i \<in> set js. {}) g (fold (\<lambda>i g. if has_node i g then add_edge x i r conf (f i) md g else g) js g)"
    by (rule adds_fold) (use assms in \<open>auto simp: has_node_iff intro!: adds_edge\<close>)
  then show ?thesis by simp
qed

lemma adds_report:
  assumes "pj_id p \<in> node_ids g"
  shows "adds C {rv_id v} g (add_report p v g)"
proof -
  let ?g = "add_edge (pj_id p) (rv_id v) ''has_report_version'' 1 [] []
            (add_node ''report'' (rv_id v) (''Report v'' @ str_of_int (rv_version_number v))
              [(''status'', JStr (rv_status v)), (''run_id'', jstr_opt (rv_run_id v)),
               (''version_number'', JInt (rv_version_number v))] g)"
  have 1: "adds C {rv_id v} g ?g" by (rule adds_then_edge[OF adds_node]) (use assms in auto)
  let ?h = "fold (\<lambda>i g. if has_node i g then add_edge (rv_id v) i ''contains_claim'' 1 [] [] g else g) (rv_claim_ids v) ?g"
  have 2: "adds C {} ?g ?h" by (rule adds_links) (use 1 in \<open>auto simp: adds_def\<close>)
  have 3: "adds C {} ?h (add_report p v g)"
    unfolding add_report_def Let_def by (rule adds_links) (use 1 2 in \<open>auto simp: adds_def\<close>)
  from adds_trans[OF adds_trans[OF 1 2] 3] show ?thesis by simp
qed

lemma adds_if: "adds C m g g' \<Longrightarrow> (P \<Longrightarrow> adds C m g g'') \<Longrightarrow> adds C m g (if P then g'' else g')"
  by simp

lemma adds_artifact:
  assumes "project_id \<in> node_ids g"
  shows "adds C {ar_id a} g (add_artifact project_id registry a g)"
proof -
  have link: "adds C {ar_id a} g (if i \<noteq> [] \<and> has_node i h then add_edge i (ar_id a) r c es md h else h)"
    if "adds C {ar_id a} g h" for i h r c es md
    using adds_trans[OF that adds_edge[of i h C "ar_id a" r c es md]] that
    by (auto simp: has_node_iff adds_def)
  have src: "adds C {ar_id a} g (case x of None \<Rightarrow> h
      | Some s \<Rightarrow> add_edge (ar_id a) (sr_id s) r c es (md s) (add_source_node s h))"
    if "adds C {ar_id a} g h" for h x r c es md
  proof (cases x)
    case (Some s)
    show ?thesis
      using adds_then_edge[OF adds_trans[OF that adds_source[of C s h]], of "ar_id a" "sr_id s" r c es "md s"]
      by (auto simp: Some intro: adds_weaken)
  qed (simp add: that)
  show ?thesis
    unfolding add_artifact_def Let_def
    by (intro src link adds_then_edge[OF adds_node]) (use assms in auto)
qed

section \<open>The whole graph\<close>

lemma keyed_values: "table_ok f d \<Longrightarrow> map f (dict_values d) = map fst d"
  by (auto simp: table_ok_def dict_values_def)

lemma distinct_sorted_values:
  assumes "table_ok f d"
  shows "distinct (map f (sort_key h (dict_values d)))"
proof -
  have "distinct (map f (dict_values d))" using assms by (metis keyed_values table_ok_def)
  then show ?thesis by (simp add: distinct_map)
qed

lemma project_graph:
  assumes Inr: "build_project_knowledge_graph_read_model env num project_id s = Inr k"
  obtains g where "kg_nodes k = sort_key (\<lambda>n. (kn_node_type n, kn_id n)) (dict_values (fst g))"
    "kg_edges k = sort_key ke_id (dict_values (snd g))"
    "kg_node_count k = int (length (fst g))" "kg_edge_count k = int (length (snd g))"
    "kg_ok (set (map ev_competitor_id (list_evidence (Some project_id) s)
        @ map cl_competitor_id (list_claims (Some project_id) s))) g"
    "cp_id ` set (list_competitors None (Some project_id) s) \<union> ev_id ` set (list_evidence (Some project_id) s)
      \<union> cl_id ` set (list_claims (Some project_id) s) \<union> rv_id ` set (list_report_versions (Some project_id) s)
      \<union> ar_id ` set (list_artifacts None (Some project_id) None None None s) \<subseteq> node_ids g"
proof -
  let ?es = "list_evidence (Some project_id) s" and ?cs = "list_claims (Some project_id) s"
  let ?cps = "list_competitors None (Some project_id) s" and ?vs = "list_report_versions (Some project_id) s"
  let ?as = "list_artifacts None (Some project_id) None None None s"
  let ?C = "set (map ev_competitor_id ?es @ map cl_competitor_id ?cs)"
  obtain p where p: "get_project project_id s = Some p"
    using Inr by (auto simp: build_project_knowledge_graph_read_model_def split: option.splits)
  define reg where "reg = fold (\<lambda>r. AList.update (sr_id r) r) (list_source_registry (Some (pj_workspace_id p)) s) []"
  define g1 where "g1 = fold (add_competitor p) ?cps (add_project p ([], []))"
  define g2 where "g2 = fold add_source_node (dict_values reg) g1"
  obtain reg' g3 where ev: "add_evidence env num project_id p ?es reg g2 = Inr (reg', g3)"
    using Inr unfolding build_project_knowledge_graph_read_model_def p Let_def option.case
      reg_def[symmetric] g1_def[symmetric] g2_def[symmetric]
    by (cases "add_evidence env num project_id p ?es reg g2") auto
  define g4 where "g4 = fold (add_claim num (map ev_id ?es)) ?cs g3"
  define g5 where "g5 = fold (add_report p) ?vs g4"
  define g6 where "g6 = fold (add_artifact (pj_id p) reg') ?as g5"
  have k: "kg_nodes k = sort_key (\<lambda>n. (kn_node_type n, kn_id n)) (dict_values (fst g6))"
    "kg_edges k = sort_key ke_id (dict_values (snd g6))"
    "kg_node_count k = int (length (fst g6))" "kg_edge_count k = int (length (snd g6))"
    using Inr unfolding build_project_knowledge_graph_read_model_def p Let_def option.case
      reg_def[symmetric] g1_def[symmetric] g2_def[symmetric] ev err_bind.simps prod.case
      g4_def[symmetric] g5_def[symmetric] g6_def[symmetric] by auto
  have start: "kg_ok ?C (add_project p ([], []))" "pj_id p \<in> node_ids (add_project p ([], []))"
    using adds_project[of ?C p "([], [])"] by (auto simp: adds_def kg_ok_def)
  have a1: "adds ?C (\<Union>c \<in> set ?cps. {cp_id c}) (add_project p ([], [])) g1"
    unfolding g1_def by (rule adds_fold, rule adds_competitor) (use start in auto)
  have a2: "adds ?C (\<Union>r \<in> set (dict_values reg). {sr_id r}) g1 g2"
    unfolding g2_def by (rule adds_fold, rule adds_source)
  have a3: "adds ?C (ev_id ` set ?es) g2 g3"
    by (rule adds_evidence[OF ev]) (use start a1 a2 in \<open>auto simp: adds_def\<close>)
  have a4: "adds ?C (\<Union>c \<in> set ?cs. {cl_id c}) g3 g4"
    unfolding g4_def by (rule adds_fold, rule adds_claim) (use a3 in \<open>auto simp: adds_def\<close>)
  have pj: "pj_id p \<in> node_ids g4"
    using start(2) a1 a2 a3 a4 by (meson adds_def subsetD Un_subset_iff)
  have pj5: "node_ids g4 \<subseteq> node_ids g \<Longrightarrow> pj_id p \<in> node_ids g" for g using pj by blast
  have a5: "adds ?C (\<Union>v \<in> set ?vs. {rv_id v}) g4 g5"
    unfolding g5_def by (rule adds_fold, rule adds_report) (rule pj5)
  have a6: "adds ?C (\<Union>a \<in> set ?as. {ar_id a}) g5 g6"
    unfolding g6_def
    by (rule adds_fold, rule adds_artifact, rule pj5) (use a5 in \<open>auto simp only: adds_def\<close>)
  from adds_trans[OF a1 adds_trans[OF a2 adds_trans[OF a3 adds_trans[OF a4 adds_trans[OF a5 a6]]]]]
  have all: "kg_ok ?C g6" "cp_id ` set ?cps \<union> ev_id ` set ?es \<union> cl_id ` set ?cs \<union> rv_id ` set ?vs \<union> ar_id ` set ?as
      \<subseteq> node_ids g6"
    using start(1) by (auto simp: adds_def)
  show thesis by (rule that[OF k all])
qed

text \<open>C32. The graph of a project is complete and well formed: its identities are unique and counted, every
  competitor, evidence, claim, report and artifact of the project is a node, no confidence leaves the
  unit interval, and every edge is found under the identity of its ends and leads to a node, from a node
  or from a competitor some evidence or claim names.
\<close>

theorem knowledge_graph_well_formed:
  "case build_project_knowledge_graph_read_model env num project_id s of
     Inl _ \<Rightarrow> True
   | Inr k \<Rightarrow>
       let nodes = map kn_id (kg_nodes k); es = list_evidence (Some project_id) s;
           cs = list_claims (Some project_id) s
       in distinct nodes \<and> kg_node_count k = int (length nodes)
        \<and> distinct (map ke_id (kg_edges k)) \<and> kg_edge_count k = int (length (kg_edges k))
        \<and> set (map cp_id (list_competitors None (Some project_id) s) @ map ev_id es @ map cl_id cs
             @ map rv_id (list_report_versions (Some project_id) s)
             @ map ar_id (list_artifacts None (Some project_id) None None None s)) \<subseteq> set nodes
        \<and> list_all (edge_ok (set (map ev_competitor_id es @ map cl_competitor_id cs)) (set nodes)) (kg_edges k)"
proof (cases "build_project_knowledge_graph_read_model env num project_id s")
  case (Inr k)
  let ?C = "set (map ev_competitor_id (list_evidence (Some project_id) s)
      @ map cl_competitor_id (list_claims (Some project_id) s))"
  obtain g where
    k: "kg_nodes k = sort_key (\<lambda>n. (kn_node_type n, kn_id n)) (dict_values (fst g))"
      "kg_edges k = sort_key ke_id (dict_values (snd g))"
      "kg_node_count k = int (length (fst g))" "kg_edge_count k = int (length (snd g))"
    and ok: "kg_ok ?C g"
    and ids: "cp_id ` set (list_competitors None (Some project_id) s) \<union> ev_id ` set (list_evidence (Some project_id) s)
      \<union> cl_id ` set (list_claims (Some project_id) s) \<union> rv_id ` set (list_report_versions (Some project_id) s)
      \<union> ar_id ` set (list_artifacts None (Some project_id) None None None s) \<subseteq> node_ids g"
    by (rule project_graph[OF Inr])
  have t: "table_ok kn_id (fst g)" "table_ok ke_id (snd g)" using ok by (auto simp: kg_ok_def)
  have nodes: "set (map kn_id (kg_nodes k)) = node_ids g"
  proof -
    have "set (map kn_id (kg_nodes k)) = set (map kn_id (dict_values (fst g)))"
      unfolding k(1) set_map set_sort ..
    then show ?thesis unfolding keyed_values[OF t(1)] by (simp only: node_ids_def set_map)
  qed
  have edges: "list_all (edge_ok ?C (node_ids g)) (kg_edges k)"
    using ok unfolding kg_ok_def k(2) by (auto simp: list_all_iff dict_values_def)
  have "set (map cp_id (list_competitors None (Some project_id) s) @ map ev_id (list_evidence (Some project_id) s)
      @ map cl_id (list_claims (Some project_id) s) @ map rv_id (list_report_versions (Some project_id) s)
      @ map ar_id (list_artifacts None (Some project_id) None None None s)) \<subseteq> node_ids g"
    using ids by (simp only: set_append set_map Un_assoc)
  moreover have "distinct (map kn_id (kg_nodes k))" "distinct (map ke_id (kg_edges k))"
    unfolding k(1,2) by (rule distinct_sorted_values[OF t(1)], rule distinct_sorted_values[OF t(2)])
  moreover have "kg_node_count k = int (length (map kn_id (kg_nodes k)))"
    "kg_edge_count k = int (length (kg_edges k))"
    by (simp_all add: k dict_values_def)
  ultimately show ?thesis
    using edges unfolding Inr sum.case Let_def nodes by blast
qed simp

end
