(* ===== verification/ArtifactStorage.thy ===== *)
theory ArtifactStorage
  imports Artifacts Store
begin

text \<open>
  artifacts/store.py: the storage of artifact payloads, in files under a root directory or as pointers to
  an external store. A path is the list of its parts; the files are a map from resolved paths to bytes.
  Symbolic links and failures of the file system are left out. A byte is a character.
\<close>

section \<open>Payloads\<close>

definition b64_value :: "char \<Rightarrow> nat option" where
  "b64_value c =
     (if is_upper c then Some (code_of c - 65) else if is_lower c then Some (code_of c - 71)
      else if is_digit c then Some (code_of c + 4) else if c = CHR ''+'' then Some 62
      else if c = CHR ''/'' then Some 63 else None)"

text \<open>\<open>base64.b64decode(s, validate=True)\<close>: groups of four characters, the last one padded.\<close>

fun b64_decode :: "str \<Rightarrow> str option" where
  "b64_decode [] = Some []"
| "b64_decode (a # b # c # d # rest) =
     (case (b64_value a, b64_value b) of
        (Some x, Some y) \<Rightarrow>
          if rest = [] \<and> d = CHR ''='' then
            (if c = CHR ''='' then Some [char_of (x * 4 + y div 16)]
             else case b64_value c of
                 Some z \<Rightarrow> Some [char_of (x * 4 + y div 16), char_of (y mod 16 * 16 + z div 4)]
               | None \<Rightarrow> None)
          else (case (b64_value c, b64_value d) of
              (Some z, Some w) \<Rightarrow>
                map_option ((@) [char_of (x * 4 + y div 16), char_of (y mod 16 * 16 + z div 4),
                  char_of (z mod 4 * 64 + w)]) (b64_decode rest)
            | _ \<Rightarrow> None)
      | _ \<Rightarrow> None)"
| "b64_decode _ = None"

definition payload_bytes :: "artifact_request \<Rightarrow> py_error + str" where
  "payload_bytes r =
     (case aq_content_base64 r of
        Some s \<Rightarrow> (case b64_decode s of Some p \<Rightarrow> Inr p
            | None \<Rightarrow> Inl (ValueError ''content_base64 is not valid base64.''))
      | None \<Rightarrow> (case aq_content_text r of Some t \<Rightarrow> Inr t
            | None \<Rightarrow> Inl (ValueError
                ''Artifact content_text, content_base64, or external_uri is required.'')))"

section \<open>Names and paths\<close>

type_synonym path = "str list"

fun split_slash :: "str \<Rightarrow> str \<Rightarrow> str list" where
  "split_slash cur [] = [cur]"
| "split_slash cur (c # cs) =
     (if c = CHR ''/'' then cur # split_slash [] cs else split_slash (cur @ [c]) cs)"

definition is_name_char :: "char \<Rightarrow> bool" where
  "is_name_char c = (is_upper c \<or> is_lower c \<or> is_digit c \<or> c \<in> {CHR ''.'', CHR ''_'', CHR ''-''})"

abbreviation dot_or_dash :: "char \<Rightarrow> bool" where
  "dot_or_dash c \<equiv> c = CHR ''.'' \<or> c = CHR ''-''"

definition safe_filename :: "str \<Rightarrow> str" where
  "safe_filename v =
     (let candidate = strip (last (split_slash [] (map (\<lambda>c. if c = CHR 0x5C then CHR ''/'' else c) v)));
          safe = strip_by dot_or_dash (sub_runs (\<lambda>c. \<not> is_name_char c) ''-'' False candidate)
      in str_or (take 180 safe) ''artifact.bin'')"

definition safe_segment :: "str \<Rightarrow> str" where
  "safe_segment v =
     str_or (strip_by dot_or_dash (sub_runs (\<lambda>c. \<not> is_name_char c) ''-'' False v)) ''workspace''"

text \<open>\<open>Path(s)\<close> relative to the root, and \<open>resolve()\<close>.\<close>

definition under_root :: "path \<Rightarrow> str \<Rightarrow> path" where
  "under_root base s =
     (if starts_with ''/'' s then [] else base) @ filter (\<lambda>p. p \<noteq> [] \<and> p \<noteq> ''.'') (split_slash [] s)"

definition resolve_path :: "path \<Rightarrow> path" where
  "resolve_path ps = rev (fold (\<lambda>p acc. if p = ''..'' then tl acc else p # acc) ps [])"

definition escapes :: "path \<Rightarrow> path \<Rightarrow> bool" where
  "escapes base target = (take (length base) target \<noteq> base)"

definition path_text :: "path \<Rightarrow> str" where
  "path_text ps = ''/'' @ join ''/'' ps"

section \<open>The storages\<close>

record artifact_storage =
  as_root :: path
  as_files :: "path \<rightharpoonup> str"

datatype artifact_backend = LocalStorage | ExternalStorage str

definition artifact_id_for :: "artifact_request \<Rightarrow> str \<Rightarrow> str" where
  "artifact_id_for r content_hash =
     compute_artifact_id (aq_workspace_id r) (aq_project_id r) (aq_evidence_id r) (aq_artifact_type r)
       (safe_filename (aq_filename r)) content_hash"

definition external_backend :: "str option \<Rightarrow> str" where
  "external_backend uri =
     (let v = lower (strip (or_str uri ''''))
      in if starts_with ''s3://'' v then ''s3'' else if starts_with ''oss://'' v then ''oss'' else ''external'')"

definition artifact_of ::
  "env \<Rightarrow> artifact_request \<Rightarrow> str option \<Rightarrow> str \<Rightarrow> str \<Rightarrow> int \<Rightarrow> str \<Rightarrow> jdict \<Rightarrow> artifact" where
  "artifact_of env r actor_id backend uri byte_size content_hash md =
     \<lparr>ar_id = artifact_id_for r content_hash, ar_workspace_id = aq_workspace_id r,
      ar_project_id = aq_project_id r, ar_evidence_id = aq_evidence_id r, ar_run_id = aq_run_id r,
      ar_report_version_id = aq_report_version_id r, ar_artifact_type = aq_artifact_type r,
      ar_filename = safe_filename (aq_filename r), ar_media_type = aq_media_type r,
      ar_storage_backend = backend, ar_uri = uri, ar_byte_size = byte_size,
      ar_content_hash = content_hash, ar_source_url = aq_source_url r, ar_created_by = actor_id,
      ar_created_at = env_now env, ar_retention_policy = aq_retention_policy r,
      ar_compliance_metadata = aq_compliance_metadata r,
      ar_metadata = merge_artifact_lifecycle_metadata md
        (artifact_lifecycle_metadata r backend content_hash byte_size)\<rparr>"

definition external_artifact_record ::
  "env \<Rightarrow> artifact_request \<Rightarrow> str option \<Rightarrow> py_error + artifact" where
  "external_artifact_record env r actor_id =
     (if \<not> given (aq_external_uri r) then
        Inl (ValueError ''external_uri is required for external artifact records.'')
      else let uri = the (aq_external_uri r); backend = external_backend (Some uri)
        in Inr (artifact_of env r actor_id backend uri 0 (sha256_hex uri)
             (AList.update ''detected_storage_backend'' (JStr backend)
               (AList.update ''external_pointer'' (JBool True) (aq_metadata r)))))"

definition local_store ::
  "env \<Rightarrow> artifact_request \<Rightarrow> str option \<Rightarrow> (artifact_storage, artifact) op" where
  "local_store env r actor_id st =
     (if given (aq_external_uri r) then (external_artifact_record env r actor_id, st)
      else case payload_bytes r of
          Inl e \<Rightarrow> (Inl e, st)
        | Inr payload \<Rightarrow>
          let content_hash = compute_content_hash (Some payload);
              relative = [safe_segment (aq_workspace_id r), artifact_id_for r content_hash,
                safe_filename (aq_filename r)];
              target = resolve_path (as_root st @ relative);
              base = resolve_path (as_root st)
          in if escapes base target then
               (Inl (ValueError ''Artifact target path escapes storage root.''), st)
             else (Inr (artifact_of env r actor_id ''local'' (''local://'' @ join ''/'' relative)
                     (int (length payload)) content_hash
                     (AList.update ''storage_root'' (JStr (path_text base)) (aq_metadata r))),
                   st\<lparr>as_files := (as_files st)(target \<mapsto> payload)\<rparr>))"

definition external_store ::
  "env \<Rightarrow> str \<Rightarrow> artifact_request \<Rightarrow> str option \<Rightarrow> py_error + artifact" where
  "external_store env backend r actor_id =
     (if \<not> given (aq_external_uri r) then
        Inl (ValueError (''External artifact storage requires external_uri; direct payload upload is not ''
          @ ''configured for this backend.''))
      else err_bind (external_artifact_record env r actor_id) (\<lambda>a.
        if backend \<noteq> ''external'' \<and> ar_storage_backend a \<noteq> backend then
          Inl (ValueError (''Artifact URI must use '' @ backend @ '':// when ARTIFACT_STORAGE_BACKEND=''
            @ backend @ ''.''))
        else Inr (a\<lparr>ar_metadata :=
            AList.update ''configured_storage_backend'' (JStr backend) (ar_metadata a)\<rparr>)))"

definition store_artifact ::
  "artifact_backend \<Rightarrow> env \<Rightarrow> artifact_request \<Rightarrow> str option \<Rightarrow> (artifact_storage, artifact) op" where
  "store_artifact backend env r actor_id =
     (case backend of
        LocalStorage \<Rightarrow> local_store env r actor_id
      | ExternalStorage b \<Rightarrow> op_try (external_store env b r actor_id))"

text \<open>The bytes of an artifact up to a limit, and whether there are more.\<close>

definition local_read_bytes ::
  "artifact \<Rightarrow> int \<Rightarrow> artifact_storage \<Rightarrow> py_error + (str \<times> bool) option" where
  "local_read_bytes a max_bytes st =
     (if \<not> starts_with ''local://'' (ar_uri a) then Inr None
      else let target = resolve_path (under_root (as_root st) (drop 8 (ar_uri a)));
               base = resolve_path (as_root st)
        in if escapes base target then Inl (ValueError ''Artifact target path escapes storage root.'')
           else case as_files st target of
               None \<Rightarrow> Inr None
             | Some payload \<Rightarrow>
               let limit = nat (max 1 max_bytes)
               in Inr (Some (take limit payload, limit < length payload)))"

definition read_bytes ::
  "artifact_backend \<Rightarrow> artifact \<Rightarrow> int \<Rightarrow> artifact_storage \<Rightarrow> py_error + (str \<times> bool) option" where
  "read_bytes backend a max_bytes st =
     (case backend of LocalStorage \<Rightarrow> local_read_bytes a max_bytes st | ExternalStorage _ \<Rightarrow> Inr None)"

section \<open>Names are safe\<close>

definition safe_part :: "str \<Rightarrow> bool" where
  "safe_part p \<longleftrightarrow> list_all is_name_char p \<and> p \<noteq> [] \<and> p \<noteq> ''.'' \<and> p \<noteq> ''..''"

lemma sub_runs_name_chars:
  "list_all is_name_char (sub_runs (\<lambda>c. \<not> is_name_char c) ''-'' b s)"
  by (induction s arbitrary: b) (auto simp: is_name_char_def)

lemma safe_part_stripped:
  assumes "list_all is_name_char s" "0 < n" "strip_by dot_or_dash s \<noteq> []"
  shows "safe_part (take n (strip_by dot_or_dash s))"
proof -
  have "\<not> dot_or_dash (hd (strip_by dot_or_dash s))"
    using strip_by_ends[of dot_or_dash s] assms(3) by blast
  moreover have "list_all is_name_char (strip_by dot_or_dash s)"
    using assms(1) set_strip_by[of _ dot_or_dash s] by (auto simp: list_all_iff)
  ultimately show ?thesis
    using assms(2,3) by (cases "strip_by dot_or_dash s"; cases n)
      (auto simp: safe_part_def list_all_iff dest: in_set_takeD)
qed

lemma safe_filename_safe: "safe_part (safe_filename v)"
proof -
  have "safe_part ''artifact.bin''"
    by (simp add: safe_part_def is_name_char_def is_lower_def is_upper_def code_of_def)
  then show ?thesis
    using safe_part_stripped[OF sub_runs_name_chars, of 180]
    by (auto simp: safe_filename_def str_or_def Let_def)
qed

lemma safe_segment_safe: "safe_part (safe_segment v)"
proof -
  have d: "safe_part ''workspace''"
    by (simp add: safe_part_def is_name_char_def is_lower_def is_upper_def code_of_def)
  let ?s = "sub_runs (\<lambda>c. \<not> is_name_char c) ''-'' False v"
  have "safe_part (strip_by dot_or_dash ?s)" if "strip_by dot_or_dash ?s \<noteq> []"
    using safe_part_stripped[OF sub_runs_name_chars _ that, of "length (strip_by dot_or_dash ?s)"] that
    by simp
  with d show ?thesis by (auto simp: safe_segment_def str_or_def)
qed

lemma artifact_id_safe: "safe_part (artifact_id_for r h)"
proof -
  have "is_name_char c" if "is_hex c" for c
    using that by (auto simp: is_hex_def is_name_char_def is_lower_def is_digit_def)
  moreover have "list_all is_name_char ''artifact-''"
    by (simp add: is_name_char_def is_lower_def is_upper_def code_of_def)
  ultimately show ?thesis
    using hex_stable_digest
    by (fastforce simp: artifact_id_for_def compute_artifact_id_def stable_prefixed_id_def safe_part_def list_all_iff)
qed

lemma safe_part_no_slash: "safe_part p \<Longrightarrow> CHR ''/'' \<notin> set p"
  by (auto simp: safe_part_def list_all_iff is_name_char_def is_upper_def is_lower_def is_digit_def code_of_def)

section \<open>Paths stay under the root\<close>

lemma resolve_path_append: "list_all safe_part ps \<Longrightarrow> resolve_path (base @ ps) = resolve_path base @ ps"
proof -
  have "fold (\<lambda>p acc. if p = ''..'' then tl acc else p # acc) ps acc = rev ps @ acc" if "list_all safe_part ps" for acc
    using that by (induction ps arbitrary: acc) (auto simp: safe_part_def)
  then show "list_all safe_part ps \<Longrightarrow> ?thesis" by (simp add: resolve_path_def)
qed

lemma split_slash_part: "CHR ''/'' \<notin> set p \<Longrightarrow> split_slash cur (p @ s) = split_slash (cur @ p) s"
  by (induction p arbitrary: cur) auto

lemma split_slash_join:
  "ps \<noteq> [] \<Longrightarrow> list_all safe_part ps \<Longrightarrow> split_slash [] (join ''/'' ps) = ps"
proof (induction "''/''" ps rule: join.induct)
  case (2 x)
  then show ?case using split_slash_part[of x "[]" "[]"] safe_part_no_slash by simp
next
  case (3 x y ys)
  then show ?case using split_slash_part[of x "[]"] safe_part_no_slash by simp
qed simp

lemma under_root_join:
  assumes "ps \<noteq> []" "list_all safe_part ps"
  shows "under_root base (join ''/'' ps) = base @ ps"
proof -
  have "filter (\<lambda>p. p \<noteq> [] \<and> p \<noteq> ''.'') ps = ps"
    using assms(2) by (auto simp: filter_id_conv list_all_iff safe_part_def)
  moreover have "\<not> starts_with ''/'' (join ''/'' ps)"
  proof -
    obtain c p qs where "ps = (c # p) # qs" using assms by (cases ps; cases "hd ps") (auto simp: safe_part_def)
    moreover from this have "c \<noteq> CHR ''/''" using safe_part_no_slash[of "c # p"] assms(2) by auto
    ultimately show ?thesis by (cases qs) (auto simp: starts_with_def)
  qed
  ultimately show ?thesis
    using split_slash_join[OF assms] by (simp add: under_root_def)
qed

section \<open>Storing and reading\<close>

definition artifact_parts :: "artifact_request \<Rightarrow> str \<Rightarrow> path" where
  "artifact_parts r payload =
     [safe_segment (aq_workspace_id r), artifact_id_for r (compute_content_hash (Some payload)),
      safe_filename (aq_filename r)]"

lemma artifact_parts_safe: "list_all safe_part (artifact_parts r payload)"
  by (simp add: artifact_parts_def safe_segment_safe safe_filename_safe artifact_id_safe)

lemma not_escaping: "\<not> escapes (resolve_path base) (resolve_path (base @ artifact_parts r payload))"
  by (simp add: escapes_def resolve_path_append[OF artifact_parts_safe])

text \<open>A payload is refused, or written to its own place below the root; nothing else changes.\<close>

lemma local_store_cases:
  assumes "\<not> given (aq_external_uri r)"
  shows "case payload_bytes r of
      Inl e \<Rightarrow> local_store env r actor st = (Inl e, st)
    | Inr payload \<Rightarrow> \<exists>a. local_store env r actor st =
          (Inr a, st\<lparr>as_files := (as_files st)(resolve_path (as_root st) @ artifact_parts r payload \<mapsto> payload)\<rparr>)
        \<and> ar_uri a = ''local://'' @ join ''/'' (artifact_parts r payload)
        \<and> ar_content_hash a = sha256_hex payload \<and> ar_byte_size a = int (length payload)"
proof (cases "payload_bytes r")
  case (Inl e)
  then show ?thesis using assms by (simp add: local_store_def)
next
  case (Inr payload)
  note p = not_escaping[of "as_root st" r payload] resolve_path_append[OF artifact_parts_safe, of "as_root st" r payload]
  from p Inr assms show ?thesis
    by (simp add: local_store_def Let_def artifact_parts_def artifact_of_def compute_content_hash_def)
qed

lemma read_place:
  assumes "ar_uri a = ''local://'' @ join ''/'' (artifact_parts r payload)"
  shows "local_read_bytes a n st =
    (case as_files st (resolve_path (as_root st) @ artifact_parts r payload) of
       None \<Rightarrow> Inr None
     | Some p \<Rightarrow> Inr (Some (take (nat (max 1 n)) p, nat (max 1 n) < length p)))"
proof -
  have "under_root (as_root st) (drop 8 (ar_uri a)) = as_root st @ artifact_parts r payload"
    using under_root_join[OF _ artifact_parts_safe, of r payload "as_root st"]
    by (simp add: assms artifact_parts_def)
  then show ?thesis
    using not_escaping[of "as_root st" r payload]
    by (simp add: local_read_bytes_def Let_def resolve_path_append[OF artifact_parts_safe] assms
        starts_with_def split: option.split)
qed

text \<open>A history of requests to the local storage.\<close>

fun store_all :: "env \<Rightarrow> (artifact_request \<times> str option) list \<Rightarrow> artifact_storage \<Rightarrow> artifact_storage" where
  "store_all env [] st = st"
| "store_all env ((r, actor) # rs) st = store_all env rs (snd (local_store env r actor st))"

text \<open>
  Another request takes the place of a payload with other bytes only when the two names made of the
  digests coincide: a collision of the digest.
\<close>

definition takes_its_place :: "artifact_request \<Rightarrow> str \<Rightarrow> artifact_request \<Rightarrow> bool" where
  "takes_its_place r payload r' =
     (\<not> given (aq_external_uri r') \<and>
      (case payload_bytes r' of Inl _ \<Rightarrow> False
       | Inr other \<Rightarrow> artifact_parts r' other = artifact_parts r payload \<and> other \<noteq> payload))"

lemma local_store_root [simp]: "as_root (snd (local_store env r actor st)) = as_root st"
  by (simp add: local_store_def Let_def split: sum.split)

lemma local_store_keeps:
  assumes "\<not> takes_its_place r payload r'"
    and "as_files st (resolve_path (as_root st) @ artifact_parts r payload) = Some payload"
  shows "as_files (snd (local_store env r' actor st)) (resolve_path (as_root st) @ artifact_parts r payload) = Some payload"
proof (cases "given (aq_external_uri r')")
  case True
  then show ?thesis using assms(2) by (simp add: local_store_def)
next
  case False
  then show ?thesis
    using assms local_store_cases[OF False, of env actor st]
    by (auto simp: takes_its_place_def split: sum.splits)
qed

lemma store_all_keeps:
  "list_all (\<lambda>(r', _). \<not> takes_its_place r payload r') rs \<Longrightarrow>
   as_files st (resolve_path (as_root st) @ artifact_parts r payload) = Some payload \<Longrightarrow>
   as_files (store_all env rs st) (resolve_path (as_root st) @ artifact_parts r payload) = Some payload
     \<and> as_root (store_all env rs st) = as_root st"
proof (induction env rs st rule: store_all.induct)
  case (2 env r' actor rs st)
  then show ?case using local_store_keeps[of r payload r' st env actor] by simp
qed simp

text \<open>C27. What is stored can be read: a payload accepted by the local storage is read back byte for byte (up
  to the limit of the reader, with the note whether bytes are left), under the digest of its content, whatever
  is stored after it short of a collision of the digest in the names. Names sent by a client cannot make the
  storage refuse: only a payload that is missing or not base64 is refused.\<close>

theorem stored_artifact_readable:
  assumes "\<not> given (aq_external_uri r)" and "payload_bytes r = Inr payload"
    and "list_all (\<lambda>(r', _). \<not> takes_its_place r payload r') later"
  shows "\<exists>a st'. local_store env r actor st = (Inr a, st') \<and> ar_content_hash a = sha256_hex payload
    \<and> ar_byte_size a = int (length payload)
    \<and> local_read_bytes a n (store_all env later st') =
        Inr (Some (take (nat (max 1 n)) payload, nat (max 1 n) < length payload))"
proof -
  let ?st = "st\<lparr>as_files := (as_files st)(resolve_path (as_root st) @ artifact_parts r payload \<mapsto> payload)\<rparr>"
  obtain a where a: "local_store env r actor st = (Inr a, ?st)"
    "ar_uri a = ''local://'' @ join ''/'' (artifact_parts r payload)" "ar_content_hash a = sha256_hex payload"
    "ar_byte_size a = int (length payload)"
    using local_store_cases[OF assms(1), of env actor st] assms(2) by auto
  have "as_files (store_all env later ?st) (resolve_path (as_root ?st) @ artifact_parts r payload) = Some payload
      \<and> as_root (store_all env later ?st) = as_root ?st"
    by (rule store_all_keeps[OF assms(3)]) simp
  then show ?thesis using a read_place[OF a(2), of n "store_all env later ?st"] by auto
qed

lemma stored_artifact_readable_witness:
  "\<forall>env. \<exists>a st'. local_store env
      \<lparr>aq_workspace_id = ''w1'', aq_project_id = ''p'', aq_evidence_id = None, aq_run_id = None,
        aq_report_version_id = None, aq_artifact_type = ''raw_text'', aq_filename = ''../a b.txt'',
        aq_media_type = ''text/plain'', aq_content_text = None, aq_content_base64 = Some ''aGkh'',
        aq_external_uri = None, aq_source_url = None, aq_retention_policy = ''workspace_default'',
        aq_compliance_metadata = [], aq_metadata = []\<rparr> None
      \<lparr>as_root = [''data''], as_files = Map.empty\<rparr> = (Inr a, st')
    \<and> ar_content_hash a = sha256_hex ''hi!'' \<and> ar_byte_size a = 3
    \<and> local_read_bytes a 2 st' = Inr (Some (''hi'', True))"
proof
  fix env
  let ?r = "\<lparr>aq_workspace_id = ''w1'', aq_project_id = ''p'', aq_evidence_id = None, aq_run_id = None,
        aq_report_version_id = None, aq_artifact_type = ''raw_text'', aq_filename = ''../a b.txt'',
        aq_media_type = ''text/plain'', aq_content_text = None, aq_content_base64 = Some ''aGkh'',
        aq_external_uri = None, aq_source_url = None, aq_retention_policy = ''workspace_default'',
        aq_compliance_metadata = [], aq_metadata = []\<rparr>"
  have p: "payload_bytes ?r = Inr ''hi!''"
    by code_simp
  show "\<exists>a st'. local_store env ?r None \<lparr>as_root = [''data''], as_files = Map.empty\<rparr> = (Inr a, st')
    \<and> ar_content_hash a = sha256_hex ''hi!'' \<and> ar_byte_size a = 3
    \<and> local_read_bytes a 2 st' = Inr (Some (''hi'', True))"
    using stored_artifact_readable[OF _ p, of "[]" env None "\<lparr>as_root = [''data''], as_files = Map.empty\<rparr>" 2]
    by simp
qed

text \<open>No file outside the root is ever written or read, whatever names a request carries and whatever
  address a stored record holds (a record may come from a client or an older release).\<close>

theorem storage_stays_under_root:
  "(\<forall>p. as_files (snd (local_store env r actor st)) p \<noteq> as_files st p
      \<longrightarrow> take (length (resolve_path (as_root st))) p = resolve_path (as_root st))
   \<and> (case local_read_bytes a n st of
       Inr (Some (content, more_left)) \<Rightarrow>
         \<exists>p payload. as_files st p = Some payload \<and> take (length (resolve_path (as_root st))) p = resolve_path (as_root st)
           \<and> content = take (nat (max 1 n)) payload \<and> more_left = (nat (max 1 n) < length payload)
     | _ \<Rightarrow> True)"
proof (intro conjI)
  show "\<forall>p. as_files (snd (local_store env r actor st)) p \<noteq> as_files st p
      \<longrightarrow> take (length (resolve_path (as_root st))) p = resolve_path (as_root st)"
    by (auto simp: local_store_def Let_def escapes_def split: sum.splits if_splits)
  show "case local_read_bytes a n st of
       Inr (Some (content, more_left)) \<Rightarrow>
         \<exists>p payload. as_files st p = Some payload \<and> take (length (resolve_path (as_root st))) p = resolve_path (as_root st)
           \<and> content = take (nat (max 1 n)) payload \<and> more_left = (nat (max 1 n) < length payload)
     | _ \<Rightarrow> True"
    by (auto simp: local_read_bytes_def Let_def escapes_def split: option.splits)
qed

lemma storage_stays_under_root_witness:
  "\<forall>env r actor a n. case local_read_bytes a n \<lparr>as_root = [''data''], as_files = [[''etc'', ''passwd''] \<mapsto> ''x'']\<rparr> of
       Inr (Some (content, more_left)) \<Rightarrow> False
     | _ \<Rightarrow> True"
proof (intro allI)
  fix env r actor a n
  show "case local_read_bytes a n \<lparr>as_root = [''data''], as_files = [[''etc'', ''passwd''] \<mapsto> ''x'']\<rparr> of
       Inr (Some (content, more_left)) \<Rightarrow> False
     | _ \<Rightarrow> True"
    using storage_stays_under_root[where st = "\<lparr>as_root = [''data''], as_files = [[''etc'', ''passwd''] \<mapsto> ''x'']\<rparr>"
        and a = a and n = n, THEN conjunct2]
    by (auto simp: resolve_path_def split: sum.splits option.splits if_splits)
qed

end
