(* ===== verification/SourceSnapshots.thy ===== *)
theory SourceSnapshots
  imports EvidenceStore Compliance ArtifactStorage SourceResolver
begin

text \<open>
  enterprise/source_snapshots.py: capturing a snapshot of a source. It stores the payload, registers the
  source, makes evidence of research material and links the artifact to both. The state is the store and
  the artifact storage; the substitution of a redaction pattern is the parameter \<open>subn\<close>.
\<close>

section \<open>The request\<close>

record snapshot_request =
  sn_workspace_id :: str
  sn_project_id :: str
  sn_evidence_id :: "str option"
  sn_run_id :: "str option"
  sn_report_version_id :: "str option"
  sn_snapshot_kind :: str
  sn_artifact_type :: str
  sn_filename :: str
  sn_media_type :: str
  sn_content_text :: "str option"
  sn_content_base64 :: "str option"
  sn_external_uri :: "str option"
  sn_source_url :: "str option"
  sn_source_type :: str
  sn_display_name :: str
  sn_trust_level :: str
  sn_robots_status :: str
  sn_retention_policy :: str
  sn_compliance_metadata :: jdict
  sn_metadata :: jdict

record snapshot_result =
  so_artifact :: artifact
  so_source :: source_record
  so_evidence_id :: "str option"
  so_snapshot_quality_score :: int
  so_warnings :: "str list"

definition is_research :: "snapshot_request \<Rightarrow> bool" where
  "is_research r = (sn_snapshot_kind r \<in> {''interview'', ''survey'', ''manual''})"

section \<open>Redaction\<close>

type_synonym redaction_counts = "(str \<times> int) list"

definition default_compliance_policy :: compliance_policy where
  "default_compliance_policy =
     \<lparr>cp_redaction_enabled = True, cp_redact_api_keys = True, cp_redact_emails = True, cp_redact_phones = True\<rparr>"

definition redact_snapshot_text ::
  "pattern_subn \<Rightarrow> str \<Rightarrow> redaction_counts \<Rightarrow> str \<times> redaction_counts" where
  "redact_snapshot_text subn s counts =
     (let (t, found) = redact_text subn default_compliance_policy s
      in (t, fold (\<lambda>(k, n) d. if n = 0 then d
               else AList.update k ((case map_of d k of Some x \<Rightarrow> x | None \<Rightarrow> 0) + int n) d) found counts))"

fun redact_json :: "pattern_subn \<Rightarrow> json \<Rightarrow> redaction_counts \<Rightarrow> json \<times> redaction_counts"
  and redact_json_list :: "pattern_subn \<Rightarrow> json list \<Rightarrow> redaction_counts \<Rightarrow> json list \<times> redaction_counts"
  and redact_json_dict :: "pattern_subn \<Rightarrow> jdict \<Rightarrow> redaction_counts \<Rightarrow> jdict \<times> redaction_counts" where
  "redact_json subn (JStr s) counts =
     (let (t, counts') = redact_snapshot_text subn s counts in (JStr t, counts'))"
| "redact_json subn (JList xs) counts =
     (let (ys, counts') = redact_json_list subn xs counts in (JList ys, counts'))"
| "redact_json subn (JDict d) counts =
     (let (e, counts') = redact_json_dict subn d counts in (JDict e, counts'))"
| "redact_json subn v counts = (v, counts)"
| "redact_json_list subn [] counts = ([], counts)"
| "redact_json_list subn (x # xs) counts =
     (let (y, c1) = redact_json subn x counts; (ys, c2) = redact_json_list subn xs c1 in (y # ys, c2))"
| "redact_json_dict subn [] counts = ([], counts)"
| "redact_json_dict subn ((k, x) # d) counts =
     (let (y, c1) = redact_json subn x counts; (e, c2) = redact_json_dict subn d c1 in ((k, y) # e, c2))"

definition snapshot_redaction_metadata :: "redaction_counts \<Rightarrow> jdict" where
  "snapshot_redaction_metadata counts =
     (let positive = filter (\<lambda>(_, n). 0 < n) counts
      in [(''redaction_applied'', JBool (positive \<noteq> [])),
          (''redaction_count'', JInt (sum_list (map snd positive))),
          (''redaction_counts'', JDict (map (\<lambda>(k, n). (k, JInt n)) positive))])"

definition redacted_research_snapshot_request ::
  "pattern_subn \<Rightarrow> snapshot_request \<Rightarrow> snapshot_request \<times> redaction_counts" where
  "redacted_research_snapshot_request subn r =
     (if \<not> is_research r then (r, [])
      else let (content, c1) = (case sn_content_text r of None \<Rightarrow> (None, [])
              | Some t \<Rightarrow> (let (u, c) = redact_snapshot_text subn t [] in (Some u, c)));
            (md, counts) = redact_json_dict subn (sn_metadata r) c1
        in (r\<lparr>sn_content_text := content,
              sn_metadata := dict_merge md (snapshot_redaction_metadata counts)\<rparr>, counts))"

definition snapshot_metadata_dict :: "jdict \<Rightarrow> str \<Rightarrow> redaction_counts" where
  "snapshot_metadata_dict md key =
     List.map_filter (\<lambda>(k, v). case v of JInt n \<Rightarrow> Some (k, n)
         | JBool b \<Rightarrow> Some (k, if b then 1 else 0) | _ \<Rightarrow> None) (as_dict (map_of md key))"

definition lifecycle_redaction_status :: "redaction_counts \<Rightarrow> str" where
  "lifecycle_redaction_status counts =
     (if list_ex (\<lambda>(_, n). 0 < n) counts then ''redacted'' else ''not_required'')"

definition lifecycle_source_policy_status :: "snapshot_request \<Rightarrow> str" where
  "lifecycle_source_policy_status r =
     (let explicit = metadata_text (sn_compliance_metadata r) [''source_policy_status'', ''source_policy'']
      in if explicit \<noteq> [] then explicit
         else if sn_robots_status r = ''allowed'' then ''allowed''
         else if sn_robots_status r \<in> {''blocked'', ''error''} then ''review_required''
         else if given (sn_source_url r) then ''unknown''
         else ''not_required'')"

section \<open>The source and its quality\<close>

definition research_source_type :: "snapshot_request \<Rightarrow> str" where
  "research_source_type r =
     (if sn_source_type r \<noteq> [] \<and> sn_source_type r \<noteq> ''webpage_verified'' then sn_source_type r
      else if sn_snapshot_kind r = ''interview'' then ''interview_record''
      else if sn_snapshot_kind r = ''survey'' then ''survey_response''
      else ''manual_transcript'')"

definition snapshot_source_type :: "snapshot_request \<Rightarrow> str" where
  "snapshot_source_type r = (if is_research r then research_source_type r else sn_source_type r)"

definition snapshot_artifact_type :: "snapshot_request \<Rightarrow> str" where
  "snapshot_artifact_type r =
     (case map_of [(''interview'', ''interview_record''), (''survey'', ''survey_response''),
        (''manual'', ''manual_transcript''), (''pdf'', ''pdf''), (''screenshot'', ''screenshot'')]
        (sn_snapshot_kind r) of Some t \<Rightarrow> t | None \<Rightarrow> sn_artifact_type r)"

definition snapshot_source_location :: "str \<Rightarrow> py_error + str \<times> str option" where
  "snapshot_source_location v =
     err_bind (urlsplit v) (\<lambda>parsed.
       let host = url_hostname parsed
       in if host \<noteq> [] then
            (let d = lower host; domain = (if starts_with ''www.'' d then drop 4 d else d);
                 scheme = (if up_scheme parsed \<in> {''http'', ''https''} then up_scheme parsed else ''https'')
             in Inr (domain, Some (scheme @ ''://'' @ domain)))
          else Inr (''manual-source'', None))"

definition source_from_snapshot :: "env \<Rightarrow> snapshot_request \<Rightarrow> py_error + source_record" where
  "source_from_snapshot env r =
     err_bind (snapshot_source_location (or_str (opt_or (sn_source_url r) (sn_external_uri r)) ''''))
       (\<lambda>(domain, homepage).
         err_bind (case homepage of None \<Rightarrow> Inr None
             | Some u \<Rightarrow> (case env_http_url env u of Some v \<Rightarrow> Inr (Some v)
                 | None \<Rightarrow> Inl (ValueError ''homepage_url''))) (\<lambda>homepage_url.
           let source_type = snapshot_source_type r
           in Inr (queue_robots_policy_review
             \<lparr>sr_id = compute_source_registry_id (sn_workspace_id r) domain source_type,
              sr_workspace_id = sn_workspace_id r, sr_domain = domain, sr_source_type = source_type,
              sr_display_name = str_or (sn_display_name r)
                (title_from False (map (\<lambda>c. if c = CHR ''-'' then CHR '' '' else c) domain)),
              sr_homepage_url = homepage_url, sr_trust_level = sn_trust_level r,
              sr_robots_status = sn_robots_status r, sr_policy_review_status = ''not_required'',
              sr_policy_review_reason = '''', sr_is_active = True,
              sr_first_seen_run_id = sn_run_id r, sr_last_seen_run_id = sn_run_id r,
              sr_first_seen_at = env_now env, sr_last_seen_at = env_now env, sr_seen_count = 1,
              sr_metadata = dict_merge (sn_metadata r)
                [(''snapshot_kind'', JStr (sn_snapshot_kind r)),
                 (''evidence_id'', jstr_opt (sn_evidence_id r)),
                 (''source_url'', JStr (or_str (sn_source_url r) ''''))]\<rparr>)))"

text \<open>Points and warnings of the snapshot, in the order the code gives them.\<close>

definition snapshot_quality :: "snapshot_request \<Rightarrow> int \<times> str list" where
  "snapshot_quality r =
     (let research = is_research r;
          parts =
            [if given (sn_content_text r) \<or> given (sn_content_base64 r) \<or> given (sn_external_uri r) then (30, [])
             else (0, [''Snapshot has no content payload or external pointer.'']),
             if given (sn_source_url r) \<or> given (sn_external_uri r) \<or> research then (20, [])
             else (0, [''Snapshot is missing a source URL.'']),
             if given (sn_evidence_id r) \<or> research then (15, [])
             else (0, [''Snapshot is not linked to an evidence record.'']),
             if sn_trust_level r \<in> {''official'', ''verified''} then (15, [])
             else if sn_trust_level r = ''unknown'' then (0, [''Snapshot source trust level is unknown.''])
             else (0, []),
             if sn_robots_status r = ''allowed'' then (5, [])
             else if sn_robots_status r = ''blocked'' then (0, [''Snapshot source is blocked by robots policy.''])
             else (0, []),
             if research then (5, []) else (0, [])]
      in (min 100 (15 + sum_list (map fst parts)), concat (map snd parts)))"

section \<open>Evidence\<close>

definition linked_evidence :: "snapshot_request \<Rightarrow> store \<Rightarrow> evidence option" where
  "linked_evidence r s =
     (if \<not> given (sn_evidence_id r) then None
      else List.find (\<lambda>e. Some (ev_id e) = sn_evidence_id r) (list_evidence (Some (sn_project_id r)) s))"

definition source_identity_metadata :: "evidence option \<Rightarrow> jdict" where
  "source_identity_metadata e =
     (case e of None \<Rightarrow> []
      | Some e \<Rightarrow> [(''evidence_id'', JStr (ev_id e)), (''raw_source_id'', JStr (ev_raw_source_id e)),
          (''source_tokens'', jstrs (sort (evidence_source_tokens e)))])"

definition snapshot_snippet :: "snapshot_request \<Rightarrow> str" where
  "snapshot_snippet r =
     (let summary = metadata_text (sn_metadata r) [''summary'', ''snippet'', ''quote''];
          text0 = or_str (sn_content_text r) (str_or summary (or_str (sn_external_uri r) (sn_filename r)))
      in take 700 (join '' '' (split_ws text0)))"

definition research_reliability_score :: "snapshot_request \<Rightarrow> rat" where
  "research_reliability_score r =
     (if sn_trust_level r \<in> {''official'', ''verified''} then 82 / 100
      else if sn_trust_level r = ''community'' then 68 / 100 else 60 / 100)"

definition research_evidence_from_snapshot ::
  "env \<Rightarrow> snapshot_request \<Rightarrow> artifact \<Rightarrow> source_record \<Rightarrow> py_error + evidence option" where
  "research_evidence_from_snapshot env r a source =
     (if sn_evidence_id r \<noteq> None \<or> \<not> is_research r then Inr None
      else let canonical = (if given (sn_source_url r) then the (sn_source_url r)
                 else ''artifact:'' @ ar_id a);
               competitor = str_or (metadata_text (sn_metadata r)
                 [''competitor_id'', ''competitor'', ''competitor_name'']) ''manual_research'';
               dimension = normalize_dimension_key (Some (str_or (metadata_text (sn_metadata r)
                 [''dimension'', ''research_dimension'']) ''user_research''));
               title = str_or (sn_display_name r) (sn_filename r)
        in err_bind (compute_evidence_id (Some canonical) (Some (ar_content_hash a)) (Some competitor)
               (Some dimension)) (\<lambda>evidence_id.
             err_bind (compute_raw_source_id (Some (research_source_type r)) (Some competitor) (Some dimension)
                 (Some canonical) (Some (ar_content_hash a)) (Some title) (Some (snapshot_snippet r))
                 (sn_run_id r) (Some (''snapshot:'' @ sn_snapshot_kind r))) (\<lambda>raw_source_id.
               Inr (Some \<lparr>ev_id = evidence_id, ev_workspace_id = sn_workspace_id r,
                 ev_project_id = sn_project_id r, ev_run_id = sn_run_id r, ev_raw_source_id = raw_source_id,
                 ev_competitor_id = competitor, ev_dimension = dimension,
                 ev_source_type = research_source_type r, ev_title = title, ev_url = sn_source_url r,
                 ev_canonical_url = canonical, ev_snippet = snapshot_snippet r,
                 ev_content_hash = ar_content_hash a,
                 ev_reliability_score = research_reliability_score r, ev_freshness_score = 82 / 100,
                 ev_quality_label = ''unreviewed'', ev_first_seen_run_id = None,
                 ev_last_seen_run_id = None, ev_seen_count = 1, ev_captured_at = env_now env,
                 ev_metadata = dict_merge (sn_metadata r)
                   ([(''manual_research_ingest'', JBool True),
                     (''snapshot_kind'', JStr (sn_snapshot_kind r)), (''artifact_id'', JStr (ar_id a)),
                     (''report_version_id'', jstr_opt (sn_report_version_id r)),
                     (''source_registry_id'', JStr (sr_id source)),
                     (''source_domain'', JStr (sr_domain source))]
                    @ snapshot_redaction_metadata (snapshot_metadata_dict (sn_metadata r) ''redaction_counts''))\<rparr>))))"

section \<open>Capture\<close>

type_synonym snapshot_state = "store \<times> artifact_storage"

definition on_store :: "(store, 'a) op \<Rightarrow> (snapshot_state, 'a) op" where
  "on_store m = (\<lambda>(s, f). let (r, s') = m s in (r, (s', f)))"

definition on_files :: "(artifact_storage, 'a) op \<Rightarrow> (snapshot_state, 'a) op" where
  "on_files m = (\<lambda>(s, f). let (r, f') = m f in (r, (s, f')))"

definition snapshot_artifact_request ::
  "snapshot_request \<Rightarrow> redaction_counts \<Rightarrow> source_record \<Rightarrow> evidence option \<Rightarrow> artifact_request" where
  "snapshot_artifact_request r counts source linked =
     \<lparr>aq_workspace_id = sn_workspace_id r, aq_project_id = sn_project_id r,
      aq_evidence_id = sn_evidence_id r, aq_run_id = sn_run_id r,
      aq_report_version_id = sn_report_version_id r, aq_artifact_type = snapshot_artifact_type r,
      aq_filename = sn_filename r, aq_media_type = sn_media_type r, aq_content_text = sn_content_text r,
      aq_content_base64 = sn_content_base64 r, aq_external_uri = sn_external_uri r,
      aq_source_url = sn_source_url r, aq_retention_policy = sn_retention_policy r,
      aq_compliance_metadata = sn_compliance_metadata r,
      aq_metadata = dict_merge (sn_metadata r)
        ([(''snapshot_kind'', JStr (sn_snapshot_kind r)), (''source_type'', JStr (snapshot_source_type r)),
          (''source_registry_id'', JStr (sr_id source)), (''source_domain'', JStr (sr_domain source)),
          (''snapshot_quality_score'', JInt (fst (snapshot_quality r))),
          (''snapshot_warnings'', jstrs (snd (snapshot_quality r)))]
         @ source_identity_metadata linked @ snapshot_redaction_metadata counts)\<rparr>"

text \<open>The artifact with its links: to the new evidence, or to the one the request names.\<close>

definition linked_artifact ::
  "snapshot_request \<Rightarrow> redaction_counts \<Rightarrow> artifact \<Rightarrow> source_record \<Rightarrow> evidence option \<Rightarrow> py_error + artifact" where
  "linked_artifact r counts a source ev =
     (case ev of
        Some e \<Rightarrow> with_artifact_lifecycle_links
          (a\<lparr>ar_evidence_id := Some (ev_id e),
             ar_metadata := dict_merge (ar_metadata a) (source_identity_metadata (Some e))\<rparr>)
          (Some (ev_raw_source_id e)) (Some (sr_id source)) (Some (ev_id e)) (sn_report_version_id r)
          (Some (lifecycle_source_policy_status r)) (Some (lifecycle_redaction_status counts))
      | None \<Rightarrow> with_artifact_lifecycle_links a None (Some (sr_id source)) (sn_evidence_id r)
          (sn_report_version_id r) (Some (lifecycle_source_policy_status r))
          (Some (lifecycle_redaction_status counts)))"

definition save_evidence_of :: "env \<Rightarrow> evidence option \<Rightarrow> (store, evidence option) op" where
  "save_evidence_of env ev =
     (case ev of None \<Rightarrow> op_return None
      | Some e \<Rightarrow> op_bind (upsert_evidence env e) (\<lambda>e'. op_return (Some e')))"

definition snapshot_source :: "source_record \<Rightarrow> evidence option \<Rightarrow> source_record" where
  "snapshot_source derived linked =
     (case linked of None \<Rightarrow> derived
      | Some e \<Rightarrow> derived\<lparr>sr_metadata := dict_merge (sr_metadata derived) (source_identity_metadata linked)\<rparr>)"

definition link_and_save ::
  "env \<Rightarrow> snapshot_request \<Rightarrow> redaction_counts \<Rightarrow> artifact \<Rightarrow> source_record \<Rightarrow> evidence option
    \<Rightarrow> (snapshot_state, snapshot_result) op" where
  "link_and_save env r counts a source ev =
     op_bind (op_try (linked_artifact r counts a source ev)) (\<lambda>a'.
       op_bind (on_store (\<lambda>s. let (x, s') = upsert_artifact env a' s in (Inr x, s'))) (\<lambda>stored.
         op_return \<lparr>so_artifact = stored, so_source = source,
           so_evidence_id = (case ev of Some e \<Rightarrow> Some (ev_id e) | None \<Rightarrow> sn_evidence_id r),
           so_snapshot_quality_score = fst (snapshot_quality r),
           so_warnings = snd (snapshot_quality r)\<rparr>))"

text \<open>Storing the payload, registering the source, saving the evidence, linking and saving the artifact.\<close>

definition save_snapshot ::
  "env \<Rightarrow> artifact_backend \<Rightarrow> snapshot_request \<Rightarrow> redaction_counts \<Rightarrow> evidence option \<Rightarrow> str option
    \<Rightarrow> source_record \<Rightarrow> (snapshot_state, snapshot_result) op" where
  "save_snapshot env backend r counts linked actor_id source0 =
     op_bind (on_files (store_artifact backend env (snapshot_artifact_request r counts source0 linked) actor_id))
       (\<lambda>a. op_bind (on_store (\<lambda>s. let (x, s') = upsert_source_registry env source0 actor_id s in (Inr x, s')))
       (\<lambda>source. op_bind (op_try (research_evidence_from_snapshot env r a source))
       (\<lambda>found. op_bind (on_store (save_evidence_of env found)) (link_and_save env r counts a source))))"

definition capture_source_snapshot ::
  "env \<Rightarrow> pattern_subn \<Rightarrow> artifact_backend \<Rightarrow> snapshot_request \<Rightarrow> str option
    \<Rightarrow> (snapshot_state, snapshot_result) op" where
  "capture_source_snapshot env subn backend request actor_id st =
     (let (r, counts) = redacted_research_snapshot_request subn request;
          linked = linked_evidence r (fst st)
      in op_bind (op_try (source_from_snapshot env r)) (\<lambda>derived.
           save_snapshot env backend r counts linked actor_id (snapshot_source derived linked)) st)"

end
