(* ===== verification/SnapshotProps.thy ===== *)
theory SnapshotProps
  imports SourceSnapshots ApprovalProps
begin

text \<open>What a captured snapshot leaves behind: its payload, its record, and a store in order.\<close>

section \<open>Steps\<close>

lemma bind_store_Inr:
  "op_bind (on_store m) g (s, f) = (Inr y, st) \<Longrightarrow> \<exists>x t. m s = (Inr x, t) \<and> g x (t, f) = (Inr y, st)"
  by (auto simp: op_bind_def on_store_def split: prod.splits sum.splits)

lemma bind_files_Inr:
  "op_bind (on_files m) g (s, f) = (Inr y, st) \<Longrightarrow> \<exists>x t. m f = (Inr x, t) \<and> g x (s, t) = (Inr y, st)"
  by (auto simp: op_bind_def on_files_def split: prod.splits sum.splits)

lemma bind_try_Inr: "op_bind (op_try r) g st = (Inr y, st') \<Longrightarrow> \<exists>x. r = Inr x \<and> g x st = (Inr y, st')"
  by (auto simp: op_bind_def op_try_def split: sum.splits)

definition artifact_redaction :: "artifact \<Rightarrow> str" where
  "artifact_redaction a =
     metadata_text (as_dict (map_of (ar_metadata a) ''artifact_lifecycle'')) [''pii_redaction_status'']"

lemma links_result:
  assumes "with_artifact_lifecycle_links a raw reg ev rep policy (Some status) = Inr b"
    and "status \<noteq> []" "strip status = status"
  shows "ar_id b = ar_id a" "ar_uri b = ar_uri a" "artifact_redaction b = status"
proof -
  obtain l0 k0 where l: "dict_or_empty (ar_metadata a) ''artifact_lifecycle'' = Inr l0" "dict_or_empty l0 ''links'' = Inr k0"
    using assms(1) by (auto simp: with_artifact_lifecycle_links_def split: sum.splits)
  then show "ar_id b = ar_id a" "ar_uri b = ar_uri a" "artifact_redaction b = status"
    using assms by (auto simp: with_artifact_lifecycle_links_def Let_def artifact_redaction_def
        merge_artifact_lifecycle_metadata_def dict_simps put_given_def)
qed

lemma redaction_status_text:
  "lifecycle_redaction_status c \<noteq> []" "strip (lifecycle_redaction_status c) = lifecycle_redaction_status c"
  by (simp_all add: lifecycle_redaction_status_def)

lemma linked_artifact_result:
  assumes "linked_artifact r counts a source ev = Inr b"
  shows "ar_id b = ar_id a" "ar_uri b = ar_uri a" "artifact_redaction b = lifecycle_redaction_status counts"
  using assms links_result[OF _ redaction_status_text]
  by (auto simp: linked_artifact_def split: option.splits)

section \<open>What redaction finds\<close>

text \<open>The private texts are found pattern by pattern, each in what the earlier ones left; \<open>cleaned\<close> is
  the text after them all, \<open>finds\<close> says whether any of them replaced anything.\<close>

definition private_patterns :: "str list" where
  "private_patterns = [''bearer_token'', ''api_key'', ''email'', ''phone'']"

fun cleaned :: "pattern_subn \<Rightarrow> str list \<Rightarrow> str \<Rightarrow> str" where
  "cleaned subn [] t = t"
| "cleaned subn (l # ls) t = cleaned subn ls (fst (subn l t))"

fun finds :: "pattern_subn \<Rightarrow> str list \<Rightarrow> str \<Rightarrow> bool" where
  "finds subn [] t = False"
| "finds subn (l # ls) t = (0 < snd (subn l t) \<or> finds subn ls (fst (subn l t)))"

text \<open>The texts inside a JSON value, at any depth, and those a request of research material carries.\<close>

fun json_texts :: "json \<Rightarrow> str list" and json_list_texts :: "json list \<Rightarrow> str list"
  and json_dict_texts :: "jdict \<Rightarrow> str list" where
  "json_texts (JStr s) = [s]"
| "json_texts (JList xs) = json_list_texts xs"
| "json_texts (JDict d) = json_dict_texts d"
| "json_texts v = []"
| "json_list_texts [] = []"
| "json_list_texts (x # xs) = json_texts x @ json_list_texts xs"
| "json_dict_texts [] = []"
| "json_dict_texts ((k, x) # d) = json_texts x @ json_dict_texts d"

definition holds_private :: "pattern_subn \<Rightarrow> snapshot_request \<Rightarrow> bool" where
  "holds_private subn r \<longleftrightarrow> sn_snapshot_kind r \<in> {''interview'', ''survey'', ''manual''}
     \<and> list_ex (finds subn private_patterns)
         ((case sn_content_text r of Some t \<Rightarrow> [t] | None \<Rightarrow> []) @ json_dict_texts (sn_metadata r))"

definition all_positive :: "redaction_counts \<Rightarrow> bool" where
  "all_positive c \<longleftrightarrow> list_all (\<lambda>(_, n). 0 < n) c"

lemma redact_fold:
  assumes "\<forall>l\<in>set ls. pattern_enabled l p"
  shows "fst (fold (redact_step subn p) ls (t, c)) = cleaned subn ls t
    \<and> (list_all (\<lambda>(_, n). 0 < n) c \<longrightarrow> list_all (\<lambda>(_, n). 0 < n) (snd (fold (redact_step subn p) ls (t, c))))
    \<and> (snd (fold (redact_step subn p) ls (t, c)) \<noteq> [] \<longleftrightarrow> c \<noteq> [] \<or> finds subn ls t)"
  using assms
proof (induction ls arbitrary: t c)
  case (Cons l ls)
  obtain u n where u: "subn l t = (u, n)" by fastforce
  have "redact_step subn p l (t, c) = (u, if n = 0 then c else c @ [(l, n)])"
    using Cons.prems by (simp add: redact_step_def u)
  then show ?case using Cons.IH[of u "if n = 0 then c else c @ [(l, n)]"] Cons.prems
    by (cases "n = 0") (simp_all add: u)
qed simp

lemma redact_text_default:
  "fst (redact_text subn default_compliance_policy t) = cleaned subn private_patterns t"
  "list_all (\<lambda>(_, n). 0 < n) (snd (redact_text subn default_compliance_policy t))"
  "snd (redact_text subn default_compliance_policy t) \<noteq> [] \<longleftrightarrow> finds subn private_patterns t"
  using redact_fold[of private_patterns default_compliance_policy subn t "[]"]
  by (simp_all add: redact_text_def default_compliance_policy_def private_patterns_def redaction_labels_def
      pattern_enabled_def)

lemma update_positive: "all_positive c \<Longrightarrow> 0 < n \<Longrightarrow> all_positive (AList.update k n c)"
  using set_update_subset[of k n c] by (auto simp: all_positive_def list_all_iff)

lemma positive_at: "all_positive c \<Longrightarrow> map_of c k = Some n \<Longrightarrow> 0 < n"
  by (auto simp: all_positive_def list_all_iff dest: map_of_SomeD)

lemma count_step_positive:
  "all_positive c \<Longrightarrow> 0 < n \<Longrightarrow>
     all_positive (AList.update k ((case map_of c k of Some x \<Rightarrow> x | None \<Rightarrow> 0) + int n) c)"
  by (rule update_positive) (auto split: option.split dest: positive_at)

lemma count_fold:
  assumes "list_all (\<lambda>(_, n). 0 < n) found" "all_positive c"
  shows "all_positive (fold (\<lambda>(k, n) d. if n = 0 then d
       else AList.update k ((case map_of d k of Some x \<Rightarrow> x | None \<Rightarrow> 0) + int n) d) found c)
    \<and> (fold (\<lambda>(k, n) d. if n = 0 then d
       else AList.update k ((case map_of d k of Some x \<Rightarrow> x | None \<Rightarrow> 0) + int n) d) found c \<noteq> []
         \<longleftrightarrow> c \<noteq> [] \<or> found \<noteq> [])"
  using assms
proof (induction found arbitrary: c)
  case (Cons p found)
  obtain k n where p: "p = (k, n)" by fastforce
  have "AList.update k v c \<noteq> []" for v by (cases c) auto
  then show ?case
    using Cons.IH[of "AList.update k ((case map_of c k of Some x \<Rightarrow> x | None \<Rightarrow> 0) + int n) c"]
      Cons.prems count_step_positive[of c n k] by (simp add: p)
qed simp

lemma redact_snapshot_counts:
  assumes "all_positive c" "redact_snapshot_text subn t c = (u, c')"
  shows "u = cleaned subn private_patterns t \<and> all_positive c'
    \<and> (c' \<noteq> [] \<longleftrightarrow> c \<noteq> [] \<or> finds subn private_patterns t)"
  using assms count_fold[OF redact_text_default(2)[of subn t] assms(1)] redact_text_default[of subn t]
  by (auto simp: redact_snapshot_text_def split: prod.splits)

lemma redact_json_counts:
  "redact_json subn v c = (v', c') \<Longrightarrow> all_positive c \<Longrightarrow>
     all_positive c' \<and> (c' \<noteq> [] \<longleftrightarrow> c \<noteq> [] \<or> list_ex (finds subn private_patterns) (json_texts v))"
  "redact_json_list subn xs c = (xs', c') \<Longrightarrow> all_positive c \<Longrightarrow>
     all_positive c' \<and> (c' \<noteq> [] \<longleftrightarrow> c \<noteq> [] \<or> list_ex (finds subn private_patterns) (json_list_texts xs))"
  "redact_json_dict subn d c = (d', c') \<Longrightarrow> all_positive c \<Longrightarrow>
     all_positive c' \<and> (c' \<noteq> [] \<longleftrightarrow> c \<noteq> [] \<or> list_ex (finds subn private_patterns) (json_dict_texts d))"
proof (induction subn v c and subn xs c and subn d c arbitrary: v' c' and xs' c' and d' c'
    rule: redact_json_redact_json_list_redact_json_dict.induct)
  case (1 subn s counts)
  then show ?case using redact_snapshot_counts[of counts subn s] by (auto split: prod.splits)
next
  case (6 subn x xs counts)
  then show ?case by (force split: prod.splits)
next
  case (8 subn k x d counts)
  then show ?case by (force split: prod.splits)
qed (auto split: prod.splits)

lemma request_counts:
  assumes "redacted_research_snapshot_request subn r = (r', counts)"
  shows "lifecycle_redaction_status counts = (if holds_private subn r then ''redacted'' else ''not_required'')"
proof -
  have pos: "all_positive []" by (simp add: all_positive_def)
  have status: "lifecycle_redaction_status c = (if c \<noteq> [] then ''redacted'' else ''not_required'')"
    if "all_positive c" for c
    using that by (cases c) (auto simp: lifecycle_redaction_status_def all_positive_def)
  show ?thesis
  proof (cases "is_research r")
    case False
    then show ?thesis using assms
      by (auto simp: redacted_research_snapshot_request_def holds_private_def is_research_def
          lifecycle_redaction_status_def)
  next
    case True
    define c1 where "c1 = (case sn_content_text r of None \<Rightarrow> [] | Some t \<Rightarrow> snd (redact_snapshot_text subn t []))"
    have c1: "all_positive c1"
      "c1 \<noteq> [] \<longleftrightarrow> list_ex (finds subn private_patterns) (case sn_content_text r of Some t \<Rightarrow> [t] | None \<Rightarrow> [])"
      using redact_snapshot_counts[OF pos surjective_pairing, of subn] pos
      by (auto simp: c1_def split: option.split)
    have counts: "counts = snd (redact_json_dict subn (sn_metadata r) c1)"
      using assms True
      by (auto simp: redacted_research_snapshot_request_def c1_def split: option.splits prod.splits)
    from redact_json_counts(3)[OF surjective_pairing c1(1), of subn "sn_metadata r"] c1(2) counts
    show ?thesis using True status[of counts] by (simp add: holds_private_def is_research_def)
  qed
qed

section \<open>The payload\<close>

text \<open>The bytes a request asks to keep: a text of research material is redacted, an encoded payload is not.\<close>

definition snapshot_payload :: "pattern_subn \<Rightarrow> snapshot_request \<Rightarrow> py_error + str" where
  "snapshot_payload subn r =
     (case sn_content_base64 r of
        Some b \<Rightarrow> (case b64_decode b of Some p \<Rightarrow> Inr p
            | None \<Rightarrow> Inl (ValueError ''content_base64 is not valid base64.''))
      | None \<Rightarrow> (case sn_content_text r of
            None \<Rightarrow> Inl (ValueError
              ''Artifact content_text, content_base64, or external_uri is required.'')
          | Some t \<Rightarrow> Inr (if is_research r then cleaned subn private_patterns t else t)))"

lemma payload_of_request:
  assumes "redacted_research_snapshot_request subn r = (r', counts)"
  shows "payload_bytes (snapshot_artifact_request r' counts source linked) = snapshot_payload subn r"
    "sn_external_uri r' = sn_external_uri r"
  using assms
  by (auto simp: redacted_research_snapshot_request_def payload_bytes_def snapshot_artifact_request_def
      snapshot_payload_def redact_snapshot_text_def redact_text_default(1)[symmetric] split: if_splits prod.splits option.splits)

lemma save_snapshot_Inr:
  assumes "save_snapshot env LocalStorage r counts linked actor source0 (s, f) = (Inr out, (s', f'))"
  obtains a b source ev s0 where
    "local_store env (snapshot_artifact_request r counts source0 linked) actor f = (Inr a, f')"
    "linked_artifact r counts a source ev = Inr b" "upsert_artifact env b s0 = (so_artifact out, s')"
proof -
  from bind_files_Inr[OF assms[unfolded save_snapshot_def store_artifact_def artifact_backend.case]]
  obtain a f1 where a: "local_store env (snapshot_artifact_request r counts source0 linked) actor f = (Inr a, f1)"
    and "op_bind (on_store (\<lambda>s. let (x, s') = upsert_source_registry env source0 actor s in (Inr x, s')))
       (\<lambda>source. op_bind (op_try (research_evidence_from_snapshot env r a source))
       (\<lambda>found. op_bind (on_store (save_evidence_of env found)) (link_and_save env r counts a source))) (s, f1)
       = (Inr out, (s', f'))" by blast
  then obtain source ev t where "link_and_save env r counts a source ev (t, f1) = (Inr out, (s', f'))"
    by (blast dest: bind_store_Inr bind_try_Inr)
  then obtain b where b: "linked_artifact r counts a source ev = Inr b"
    "op_bind (on_store (\<lambda>s. let (x, s') = upsert_artifact env b s in (Inr x, s'))) (\<lambda>stored.
         op_return \<lparr>so_artifact = stored, so_source = source,
           so_evidence_id = (case ev of Some e \<Rightarrow> Some (ev_id e) | None \<Rightarrow> sn_evidence_id r),
           so_snapshot_quality_score = fst (snapshot_quality r),
           so_warnings = snd (snapshot_quality r)\<rparr>) (t, f1) = (Inr out, (s', f'))"
    unfolding link_and_save_def by (blast dest: bind_try_Inr)
  from bind_store_Inr[OF b(2)] have "upsert_artifact env b t = (so_artifact out, s')" "f' = f1"
    by (auto simp: op_return_def split: prod.splits)
  then show thesis using that[OF _ b(1)] a by simp
qed

text \<open>C26. What a snapshot leaves behind: its payload can be read back, redacted when the request carries
  research material as text; its record is in the store, and says \<open>redacted\<close> exactly when the request
  carries research material and one of the patterns replaces something in its text or in a text of its
  metadata, at any depth. An encoded payload is stored as it came.\<close>

theorem snapshot_payload_exact:
  assumes "capture_source_snapshot env subn LocalStorage r actor (s, f) = (Inr out, (s', f'))"
    and "\<not> given (sn_external_uri r)"
  shows "\<exists>payload. snapshot_payload subn r = Inr payload
    \<and> local_read_bytes (so_artifact out) n f' =
        Inr (Some (take (nat (max 1 n)) payload, nat (max 1 n) < length payload))
    \<and> get_artifact (ar_id (so_artifact out)) s' = Some (so_artifact out)
    \<and> artifact_redaction (so_artifact out) =
        (if holds_private subn r then ''redacted'' else ''not_required'')"
proof -
  obtain r' counts where red: "redacted_research_snapshot_request subn r = (r', counts)"
    by (cases "redacted_research_snapshot_request subn r")
  let ?linked = "linked_evidence r' s"
  from bind_Inr[OF assms(1)[unfolded capture_source_snapshot_def Let_def red prod.case fst_conv]]
  obtain derived where "save_snapshot env LocalStorage r' counts ?linked actor (snapshot_source derived ?linked) (s, f)
      = (Inr out, (s', f'))" by (auto simp: op_try_def)
  then obtain a b source ev s0 where
    a: "local_store env (snapshot_artifact_request r' counts (snapshot_source derived ?linked) ?linked) actor f = (Inr a, f')"
    and b: "linked_artifact r' counts a source ev = Inr b" "upsert_artifact env b s0 = (so_artifact out, s')"
    by (rule save_snapshot_Inr)
  let ?q = "snapshot_artifact_request r' counts (snapshot_source derived ?linked) ?linked"
  have q: "\<not> given (aq_external_uri ?q)" "payload_bytes ?q = snapshot_payload subn r"
    using payload_of_request[OF red] assms(2) by (auto simp: snapshot_artifact_request_def)
  obtain payload where p: "payload_bytes ?q = Inr payload"
    using local_store_cases[OF q(1), of env actor f] a by (cases "payload_bytes ?q") auto
  then have f': "f' = f\<lparr>as_files := (as_files f)(resolve_path (as_root f) @ artifact_parts ?q payload \<mapsto> payload)\<rparr>"
    "ar_uri a = ''local://'' @ join ''/'' (artifact_parts ?q payload)"
    using local_store_cases[OF q(1), of env actor f] a by auto
  have out: "so_artifact out = b" "get_artifact (ar_id b) s' = Some b"
    using b(2) by (auto simp: upsert_artifact_def Let_def get_artifact_def append_audit_def dict_simps)
  have "local_read_bytes b n f' = Inr (Some (take (nat (max 1 n)) payload, nat (max 1 n) < length payload))"
    using read_place[of b ?q payload n f'] f' linked_artifact_result(2)[OF b(1)] by simp
  then show ?thesis using p q(2) out linked_artifact_result(3)[OF b(1)] request_counts[OF red] by auto
qed

section \<open>The store\<close>

definition store_part :: "(store \<Rightarrow> store \<Rightarrow> bool) \<Rightarrow> snapshot_state \<Rightarrow> snapshot_state \<Rightarrow> bool" where
  "store_part R st st' = R (fst st) (fst st')"

interpretation snap: step_relation "store_part safe_step"
  by unfold_locales (auto simp: store_part_def intro: safe.R_refl safe.R_trans)

lemma on_store_safe: "op_rel safe_step m \<Longrightarrow> op_rel (store_part safe_step) (on_store m)"
  by (auto simp: op_rel_def store_part_def on_store_def split: prod.splits) (metis snd_conv)

lemma on_files_safe: "op_rel (store_part safe_step) (on_files m)"
  by (auto simp: op_rel_def store_part_def on_files_def safe.R_refl split: prod.splits)

lemma snapshot_save_safe: "op_rel safe_step (save_evidence_of env ev)"
  by (auto simp: save_evidence_of_def intro!: safe.rel_bind upsert_evidence_safe split: option.split)

lemma capture_safe: "op_rel (store_part safe_step) (capture_source_snapshot env subn backend r actor)"
proof -
  have up: "op_rel safe_step (\<lambda>s. let (x, s') = upsert_source_registry env q actor s in (Inr x, s'))" for q
    using upsert_source_registry_safe by (auto simp: op_rel_def split: prod.splits) (metis snd_conv)
  have ua: "op_rel safe_step (\<lambda>s. let (x, s') = upsert_artifact env q s in (Inr x, s'))" for q
    using upsert_artifact_safe by (auto simp: op_rel_def split: prod.splits) (metis snd_conv)
  have save: "op_rel (store_part safe_step) (save_snapshot env backend r counts linked actor q)" for r counts linked q
    unfolding save_snapshot_def link_and_save_def
    by (intro snap.rel_bind snap.rel_try snap.rel_return on_files_safe on_store_safe up ua snapshot_save_safe)
  have "op_rel (store_part safe_step) (op_bind (op_try x)
      (\<lambda>d. save_snapshot env backend r counts linked actor (h d)))" for x r counts linked h
    by (intro snap.rel_bind snap.rel_try save)
  from op_rel_at[OF this] show ?thesis
    unfolding op_rel_def capture_source_snapshot_def Let_def case_prod_beta by (rule allI)
qed

text \<open>Capturing a snapshot, whether it succeeds or fails midway, keeps the store in order and drops none
  of its history; and a payload the storage refuses leaves the store as it was.\<close>

theorem snapshot_keeps_store:
  assumes "store_ok s"
  shows "store_ok (fst (snd (capture_source_snapshot env subn backend r actor (s, f))))
    \<and> extends s (fst (snd (capture_source_snapshot env subn backend r actor (s, f))))
    \<and> (\<not> given (sn_external_uri r) \<and> (\<exists>e. snapshot_payload subn r = Inl e) \<longrightarrow>
         (\<exists>e. capture_source_snapshot env subn LocalStorage r actor (s, f) = (Inl e, (s, f))))"
proof (intro conjI impI)
  have "safe_step s (fst (snd (capture_source_snapshot env subn backend r actor (s, f))))"
    using capture_safe[of env subn backend r actor] by (auto simp: op_rel_def store_part_def)
  with assms show "store_ok (fst (snd (capture_source_snapshot env subn backend r actor (s, f))))"
    "extends s (fst (snd (capture_source_snapshot env subn backend r actor (s, f))))"
    by (auto simp: safe_step_def)
next
  assume a: "\<not> given (sn_external_uri r) \<and> (\<exists>e. snapshot_payload subn r = Inl e)"
  obtain r' counts where red: "redacted_research_snapshot_request subn r = (r', counts)"
    by (cases "redacted_research_snapshot_request subn r")
  have "\<exists>e. save_snapshot env LocalStorage r' counts l actor q (s, f) = (Inl e, (s, f))" for q l
  proof -
    obtain e where "local_store env (snapshot_artifact_request r' counts q l) actor f = (Inl e, f)"
      using payload_of_request[OF red] a by (auto simp: local_store_def snapshot_artifact_request_def)
    then show ?thesis by (simp add: save_snapshot_def store_artifact_def on_files_def op_bind_def)
  qed
  then show "\<exists>e. capture_source_snapshot env subn LocalStorage r actor (s, f) = (Inl e, (s, f))"
    by (cases "source_from_snapshot env r'")
      (simp_all add: capture_source_snapshot_def Let_def red op_bind_def op_try_def)
qed

section \<open>An interview\<close>

definition interview_request :: snapshot_request where
  "interview_request =
     \<lparr>sn_workspace_id = ''w'', sn_project_id = ''p'', sn_evidence_id = Some ''e1'', sn_run_id = None,
      sn_report_version_id = None, sn_snapshot_kind = ''interview'', sn_artifact_type = ''raw_text'',
      sn_filename = ''call.txt'', sn_media_type = ''text/plain'', sn_content_text = Some ''Mail joe'',
      sn_content_base64 = None, sn_external_uri = None, sn_source_url = None,
      sn_source_type = ''webpage_verified'', sn_display_name = '''', sn_trust_level = ''verified'',
      sn_robots_status = ''unknown'', sn_retention_policy = ''workspace_default'',
      sn_compliance_metadata = [], sn_metadata = []\<rparr>"

definition one_email :: pattern_subn where
  "one_email label t = (if label = ''email'' then (''Mail [redacted:email]'', 1) else (t, 0))"

lemma interview_redacted:
  "redacted_research_snapshot_request one_email interview_request =
     (interview_request\<lparr>sn_content_text := Some ''Mail [redacted:email]'',
        sn_metadata := snapshot_redaction_metadata [(''email'', 1)]\<rparr>, [(''email'', 1)])"
  by (simp add: redacted_research_snapshot_request_def is_research_def interview_request_def
      redact_snapshot_text_def redact_text_def redaction_labels_def redact_step_def pattern_enabled_def
      default_compliance_policy_def one_email_def snapshot_redaction_metadata_def)

lemma interview_captured:
  "\<exists>out s' f'. capture_source_snapshot env one_email LocalStorage interview_request None
      (empty_store, \<lparr>as_root = [''data''], as_files = Map.empty\<rparr>) = (Inr out, (s', f'))"
proof -
  let ?r = "interview_request\<lparr>sn_content_text := Some ''Mail [redacted:email]'',
        sn_metadata := snapshot_redaction_metadata [(''email'', 1)]\<rparr>" and ?c = "[(''email'', 1)] :: redaction_counts"
  let ?f = "\<lparr>as_root = [''data''], as_files = Map.empty\<rparr>"
  have src: "\<exists>d. source_from_snapshot env ?r = Inr d"
    by (simp add: source_from_snapshot_def snapshot_source_location_def interview_request_def
        urlsplit_def url_hostname_def Let_def split_scheme_def cut_at_def starts_with_def lower_def)
  have store: "\<exists>a f' md h n. local_store env (snapshot_artifact_request ?r ?c q l) None ?f = (Inr a, f')
      \<and> a = a\<lparr>ar_metadata := merge_artifact_lifecycle_metadata md
            (artifact_lifecycle_metadata (snapshot_artifact_request ?r ?c q l) ''local'' h n)\<rparr>" for q l
  proof -
    let ?q = "snapshot_artifact_request ?r ?c q l"
    have q: "payload_bytes ?q = Inr ''Mail [redacted:email]''" "\<not> given (aq_external_uri ?q)"
      by (simp_all add: payload_bytes_def snapshot_artifact_request_def interview_request_def)
    note e = not_escaping[of "as_root ?f" ?q "''Mail [redacted:email]''", unfolded artifact_parts_def]
    from q e show ?thesis
      by (auto simp: local_store_def Let_def artifact_of_def)
  qed
  have "\<exists>b. linked_artifact ?r ?c a src None = Inr b"
    if "a = a\<lparr>ar_metadata := merge_artifact_lifecycle_metadata md (artifact_lifecycle_metadata q bk h n)\<rparr>"
    for a src md q bk h n
    unfolding linked_artifact_def option.case
    using linked_artifact_item[where a = a and md = md and r = q and backend = bk and hash = h and nbytes = n,
        folded that] by blast
  then have link: "\<exists>b. linked_artifact ?r ?c a src None = Inr b"
    if "local_store env (snapshot_artifact_request ?r ?c q l) None ?f = (Inr a, f')" for a f' src q l
    using that store[of q l] by fastforce
  obtain d where d: "source_from_snapshot env ?r = Inr d" using src by blast
  obtain a f' where a: "local_store env (snapshot_artifact_request ?r ?c (snapshot_source d None) None) None ?f = (Inr a, f')"
    using store by blast
  obtain src1 s1 where s1: "upsert_source_registry env (snapshot_source d None) None empty_store = (src1, s1)"
    by (cases "upsert_source_registry env (snapshot_source d None) None empty_store")
  obtain b where b: "linked_artifact ?r ?c a src1 None = Inr b" using link[OF a] by blast
  obtain x s2 where s2: "upsert_artifact env b s1 = (x, s2)" by (cases "upsert_artifact env b s1")
  have "linked_evidence ?r empty_store = None"
    by (simp add: linked_evidence_def list_evidence_def empty_store_def dict_values_def sort_desc_def)
  moreover have "research_evidence_from_snapshot env ?r a src1 = Inr None"
    by (simp add: research_evidence_from_snapshot_def interview_request_def)
  ultimately show ?thesis
    using d a s1 b s2
    by (simp add: capture_source_snapshot_def interview_redacted save_snapshot_def link_and_save_def
        store_artifact_def on_files_def on_store_def op_bind_def op_try_def op_return_def save_evidence_of_def)
qed

lemma snapshot_payload_exact_witness:
  "\<forall>env. \<exists>out f'. local_read_bytes out 100 f' = Inr (Some (''Mail [redacted:email]'', False))
     \<and> artifact_redaction out = ''redacted''
     \<and> fst (capture_source_snapshot env one_email LocalStorage interview_request None
         (empty_store, \<lparr>as_root = [''data''], as_files = Map.empty\<rparr>)) \<in> Inr ` {x. so_artifact x = out}"
proof
  fix env
  obtain out s' f' where c: "capture_source_snapshot env one_email LocalStorage interview_request None
      (empty_store, \<lparr>as_root = [''data''], as_files = Map.empty\<rparr>) = (Inr out, (s', f'))"
    using interview_captured by blast
  have "snapshot_payload one_email interview_request = Inr ''Mail [redacted:email]''"
    by (simp add: snapshot_payload_def interview_request_def is_research_def private_patterns_def one_email_def)
  moreover have "holds_private one_email interview_request"
    by (simp add: holds_private_def interview_request_def private_patterns_def one_email_def)
  moreover have ext: "sn_external_uri interview_request = None" by (simp add: interview_request_def)
  ultimately show "\<exists>out f'. local_read_bytes out 100 f' = Inr (Some (''Mail [redacted:email]'', False))
     \<and> artifact_redaction out = ''redacted''
     \<and> fst (capture_source_snapshot env one_email LocalStorage interview_request None
         (empty_store, \<lparr>as_root = [''data''], as_files = Map.empty\<rparr>)) \<in> Inr ` {x. so_artifact x = out}"
    unfolding c using snapshot_payload_exact[OF c, of 100] by auto
qed

lemma snapshot_keeps_store_witness:
  "\<forall>env f. store_ok (fst (snd (capture_source_snapshot env one_email LocalStorage
     (interview_request\<lparr>sn_content_base64 := Some ''#''\<rparr>) None (init_store env, f))))"
  using snapshot_keeps_store[OF init_store_ok] by blast

end
