(* ===== verification/Patterns.thy ===== *)
theory Patterns
  imports ClaimText
begin

text \<open>
  The regular expressions the code searches a text with: \<open>rx_search r s\<close> is \<open>bool(re.search(r, s))\<close>.
  A position is the character before it, none at the start of the text, with the text after it.
  \<open>rx_ends\<close> computes the positions a match from a position can end at; \<open>rx_match\<close> is the meaning of
  the expressions, and the two agree. Greediness only chooses among the ends, so a search for the
  existence of a match does not depend on it.
\<close>

section \<open>Expressions and their matches\<close>

type_synonym rx_pos = "char option \<times> str"

datatype regex =
    Empty
  | One "char \<Rightarrow> bool"
  | Seq regex regex
  | Alt regex regex
  | Many regex
  | Boundary
  | TextStart

definition at_boundary :: "rx_pos \<Rightarrow> bool" where
  "at_boundary p \<longleftrightarrow>
     (case fst p of None \<Rightarrow> False | Some c \<Rightarrow> is_word_char c)
     \<noteq> (case snd p of [] \<Rightarrow> False | c # _ \<Rightarrow> is_word_char c)"

text \<open>The repetition visits the ends of one more round as long as the rounds consume text.\<close>

primrec many_ends :: "nat \<Rightarrow> (rx_pos \<Rightarrow> rx_pos list) \<Rightarrow> rx_pos \<Rightarrow> rx_pos list" where
  "many_ends 0 f p = [p]"
| "many_ends (Suc n) f p =
     p # concat (map (many_ends n f) (filter (\<lambda>q. length (snd q) < length (snd p)) (f p)))"

primrec rx_ends :: "regex \<Rightarrow> rx_pos \<Rightarrow> rx_pos list" where
  "rx_ends Empty p = [p]"
| "rx_ends (One P) p = (case snd p of [] \<Rightarrow> [] | c # cs \<Rightarrow> if P c then [(Some c, cs)] else [])"
| "rx_ends (Seq r t) p = concat (map (rx_ends t) (rx_ends r p))"
| "rx_ends (Alt r t) p = rx_ends r p @ rx_ends t p"
| "rx_ends (Many r) p = many_ends (length (snd p)) (rx_ends r) p"
| "rx_ends Boundary p = (if at_boundary p then [p] else [])"
| "rx_ends TextStart p = (if fst p = None then [p] else [])"

fun rx_scan :: "regex \<Rightarrow> char option \<Rightarrow> str \<Rightarrow> bool" where
  "rx_scan r before [] \<longleftrightarrow> rx_ends r (before, []) \<noteq> []"
| "rx_scan r before (c # cs) \<longleftrightarrow> rx_ends r (before, c # cs) \<noteq> [] \<or> rx_scan r (Some c) cs"

definition rx_search :: "regex \<Rightarrow> str \<Rightarrow> bool" where
  "rx_search r s = rx_scan r None s"

section \<open>Notation for expressions\<close>

text \<open>A literal text, the alternatives \<open>a|b|...\<close>, the options \<open>r?\<close> and repetitions \<open>r+\<close>, and the classes
  \<open>\s\<close> and \<open>\d\<close>.\<close>

definition literal :: "str \<Rightarrow> regex" where
  "literal w = foldr (\<lambda>c. Seq (One (\<lambda>x. x = c))) w Empty"

primrec alternatives :: "regex list \<Rightarrow> regex" where
  "alternatives [] = One (\<lambda>_. False)"
| "alternatives (r # rs) = Alt r (alternatives rs)"

definition one_of :: "str list \<Rightarrow> regex" where
  "one_of ws = alternatives (map literal ws)"

primrec in_sequence :: "regex list \<Rightarrow> regex" where
  "in_sequence [] = Empty"
| "in_sequence (r # rs) = Seq r (in_sequence rs)"

definition optional :: "regex \<Rightarrow> regex" where
  "optional r = Alt r Empty"

definition some_of :: "regex \<Rightarrow> regex" where
  "some_of r = Seq r (Many r)"

abbreviation rx_space :: regex where
  "rx_space \<equiv> One is_space"

abbreviation rx_digit :: regex where
  "rx_digit \<equiv> One is_digit"

section \<open>Meaning\<close>

inductive rx_match :: "regex \<Rightarrow> rx_pos \<Rightarrow> rx_pos \<Rightarrow> bool" where
  empty: "rx_match Empty p p"
| one: "P c \<Longrightarrow> rx_match (One P) (b, c # cs) (Some c, cs)"
| seq: "rx_match r p q \<Longrightarrow> rx_match t q s \<Longrightarrow> rx_match (Seq r t) p s"
| left: "rx_match r p q \<Longrightarrow> rx_match (Alt r t) p q"
| right: "rx_match t p q \<Longrightarrow> rx_match (Alt r t) p q"
| stop: "rx_match (Many r) p p"
| more: "rx_match r p q \<Longrightarrow> rx_match (Many r) q s \<Longrightarrow> rx_match (Many r) p s"
| boundary: "at_boundary p \<Longrightarrow> rx_match Boundary p p"
| start: "rx_match TextStart (None, s) (None, s)"

inductive_cases match_empty: "rx_match Empty p q"
inductive_cases match_one: "rx_match (One P) p q"
inductive_cases match_seq: "rx_match (Seq r t) p q"
inductive_cases match_alt: "rx_match (Alt r t) p q"
inductive_cases match_many: "rx_match (Many r) p q"
inductive_cases match_boundary: "rx_match Boundary p q"
inductive_cases match_start: "rx_match TextStart p q"

text \<open>A match that ends elsewhere consumes text.\<close>

lemma match_progress: "rx_match r p q \<Longrightarrow> q = p \<or> length (snd q) < length (snd p)"
  by (induction rule: rx_match.induct) auto

lemma many_ends_sound:
  assumes "\<And>p q. q \<in> set (f p) \<Longrightarrow> rx_match r p q"
  shows "q \<in> set (many_ends n f p) \<Longrightarrow> rx_match (Many r) p q"
  by (induction n arbitrary: p) (auto intro: stop more assms)

lemma many_ends_complete:
  assumes "\<And>p q. rx_match r p q \<Longrightarrow> q \<in> set (f p)"
  shows "rx_match (Many r) p q \<Longrightarrow> length (snd p) \<le> n \<Longrightarrow> q \<in> set (many_ends n f p)"
proof (induction "Many r" p q arbitrary: n rule: rx_match.induct)
  case (stop p)
  then show ?case by (cases n) auto
next
  case (more p q s)
  from match_progress [OF more(1)] show ?case
  proof
    assume "q = p"
    then show ?thesis using more by simp
  next
    assume less: "length (snd q) < length (snd p)"
    then obtain m where n: "n = Suc m" "length (snd q) \<le> m" using more.prems by (cases n) auto
    have "s \<in> set (many_ends m f q)" using more(4) n(2) by blast
    with less assms [OF more(1)] show ?thesis unfolding n(1) by (simp del: split_paired_All split_paired_Ex) blast
  qed
qed

lemma rx_ends_iff: "q \<in> set (rx_ends r p) \<longleftrightarrow> rx_match r p q"
proof (induction r arbitrary: p q)
  case (One P)
  show ?case by (cases p; cases "snd p") (auto intro: rx_match.one elim: match_one)
next
  case (Seq r t)
  have "q \<in> set (rx_ends (Seq r t) p) \<longleftrightarrow> (\<exists>m. rx_match r p m \<and> rx_match t m q)"
    by (auto simp: Seq.IH simp del: split_paired_Ex)
  then show ?case using rx_match.seq [of r p _ t q] match_seq [of r t p q] by blast
next
  case (Alt r t)
  then show ?case by (auto intro: left right elim: match_alt)
next
  case (Many r)
  then show ?case
    using many_ends_sound [of "rx_ends r" r q] many_ends_complete [of r "rx_ends r" p q]
    unfolding rx_ends.simps by blast
qed (auto intro: empty boundary start elim: match_empty match_boundary match_start)

lemma rx_found: "rx_ends r p \<noteq> [] \<longleftrightarrow> (\<exists>q. rx_match r p q)"
  unfolding rx_ends_iff [symmetric] by (metis empty_iff list.set(1) list.set_intros(1) neq_Nil_conv)

definition before_of :: "char option \<Rightarrow> str \<Rightarrow> char option" where
  "before_of b u = (if u = [] then b else Some (last u))"

lemma before_of_Cons: "before_of b (c # u) = before_of (Some c) u"
  by (simp add: before_of_def)

lemma rx_scan_iff: "rx_scan r b s \<longleftrightarrow> (\<exists>u v q. s = u @ v \<and> rx_match r (before_of b u, v) q)"
proof (induction s arbitrary: b)
  case Nil
  then show ?case by (simp add: rx_found before_of_def)
next
  case (Cons c cs)
  have "(\<exists>u v q. c # cs = u @ v \<and> rx_match r (before_of b u, v) q) \<longleftrightarrow>
      (\<exists>q. rx_match r (before_of b [], c # cs) q)
      \<or> (\<exists>u v q. cs = u @ v \<and> rx_match r (before_of b (c # u), v) q)" (is "?l \<longleftrightarrow> ?r")
  proof
    assume ?l
    then obtain u v q where "c # cs = u @ v" "rx_match r (before_of b u, v) q" by blast
    then show ?r by (cases u) (simp_all del: split_paired_Ex, blast+)
  next
    assume ?r
    then show ?l by (metis append_Cons append_Nil)
  qed
  moreover have "before_of b [] = b" by (simp add: before_of_def)
  ultimately show ?case by (simp add: Cons.IH rx_found before_of_Cons)
qed

text \<open>A search finds a match exactly when the expression matches, between some position of the text
  and a later one.\<close>

theorem regex_search_exact:
  "rx_search r s \<longleftrightarrow>
     (\<exists>u v q. s = u @ v \<and> rx_match r (if u = [] then None else Some (last u), v) q)"
  unfolding rx_search_def rx_scan_iff before_of_def ..

end
