(* ===== verification/EvidenceQuality.thy ===== *)
theory EvidenceQuality
  imports Patterns ReleaseGate Substrings
begin

text \<open>
  research/extraction/quality.py: how a quote of a page is cleaned, and which quotes are refused.
  The marks of broken encodings and the Chinese signals of the dimensions do not occur in a text of
  ASCII characters and have no counterpart here. Positions of a match are natural numbers inside
  the text.
\<close>

section \<open>Words of the program\<close>

definition navigation_markers :: "str list" where
  "navigation_markers =
     [''skip to content'', ''skip to main content'', ''navigation menu'', ''toggle navigation'',
      ''open menu'', ''search docs'', ''search clear'', ''sign in'', ''sign up'', ''log in'',
      ''create account'', ''cookie'', ''privacy policy'', ''terms of use'', ''back to blog'',
      ''on this page'', ''copy code'', ''view all'']"

definition dimension_signals :: "(str \<times> str list) list" where
  "dimension_signals =
     [(''pricing'', [''$'', ''usd'', ''pricing'', ''price'', ''plan'', ''billing'', ''per user'', ''per seat'',
        ''per month'', ''per year'', ''token'', ''mtok'', ''enterprise'', ''contact sales'']),
      (''persona'', [''customer'', ''customers'', ''developer'', ''developers'', ''team'', ''teams'',
        ''enterprise'', ''use case'', ''workflow'', ''productivity'', ''organization'']),
      (''feature'', [''feature'', ''model'', ''api'', ''agent'', ''workflow'', ''coding'', ''codebase'',
        ''repository'', ''context'', ''security'', ''admin'', ''sso'', ''sdk''])]"

definition signals_of :: "str \<Rightarrow> str list" where
  "signals_of kind = (case map_of dimension_signals kind of None \<Rightarrow> [] | Some ws \<Rightarrow> ws)"

definition mentions_any :: "str list \<Rightarrow> str \<Rightarrow> bool" where
  "mentions_any ws s = list_ex (\<lambda>w. has_substring w s) ws"

text \<open>\<open>\$|usd|eur|cny|rmb|\d+\s*(?:/|per)\s*(?:token|seat|month|year|user)\<close>.\<close>

definition rate_pattern :: "str list \<Rightarrow> regex" where
  "rate_pattern units =
     in_sequence [some_of rx_digit, Many rx_space, one_of [''/'', ''per''], Many rx_space, one_of units]"

definition price_signal_pattern :: regex where
  "price_signal_pattern =
     Alt (one_of [''$'', ''usd'', ''eur'', ''cny'', ''rmb''])
       (rate_pattern [''token'', ''seat'', ''month'', ''year'', ''user''])"

definition has_dimension_signal :: "str \<Rightarrow> str \<Rightarrow> bool" where
  "has_dimension_signal dimension text =
     (let key = lower dimension;
          pricing = has_substring ''pricing'' key;
          signals = (if pricing then signals_of ''pricing''
             else if mentions_any [''persona'', ''user'', ''buyer''] key then signals_of ''persona''
             else signals_of ''feature'')
      in if mentions_any signals text then True
         else if pricing then rx_search price_signal_pattern text
         else False)"

section \<open>Cleaning\<close>

definition normalize_whitespace :: "str \<Rightarrow> str" where
  "normalize_whitespace s =
     strip_by (\<lambda>c. c \<in> {CHR '' '', CHR ''-'', CHR ''|'', CHR 0x09, CHR 0x0D, CHR 0x0A})
       (sub_runs is_space '' '' False s)"

definition is_alnum :: "char \<Rightarrow> bool" where
  "is_alnum c \<longleftrightarrow> is_upper c \<or> is_lower c \<or> is_digit c"

definition expand_to_word_start :: "str \<Rightarrow> nat \<Rightarrow> nat" where
  "expand_to_word_start s start = start - length (takeWhile is_alnum (rev (take start s)))"

definition expand_to_word_end :: "str \<Rightarrow> nat \<Rightarrow> nat" where
  "expand_to_word_end s stop = stop + length (takeWhile is_alnum (drop stop s))"

definition trim_marker :: "str \<Rightarrow> str \<Rightarrow> str" where
  "trim_marker marker s =
     (if starts_with marker (lower s) then
        let tail = dropWhile (\<lambda>c. is_space c \<or> c \<in> {CHR ''-'', CHR ''|'', CHR '':''})
              (drop (length marker) s)
        in if 40 \<le> length tail then tail else s
      else s)"

definition trim_leading_boilerplate :: "str \<Rightarrow> str" where
  "trim_leading_boilerplate s = fold trim_marker navigation_markers s"

text \<open>\<open>re.split(r"(?<=[.!?])\s+", text)\<close>; the flag tells whether the character before ends a sentence.\<close>

function sentences :: "bool \<Rightarrow> str \<Rightarrow> str \<Rightarrow> str list" where
  "sentences stopped cur [] = [cur]"
| "sentences stopped cur (c # s) =
     (if stopped \<and> is_space c then cur # sentences False [] (dropWhile is_space s)
      else sentences (c \<in> {CHR ''.'', CHR ''!'', CHR ''?''}) (cur @ [c]) s)"
  by pat_completeness auto

termination
  by (relation "measure (\<lambda>(_, _, s). length s)") (auto intro: le_less_trans [OF length_dropWhile_le])

text \<open>\<open>s.rfind(c)\<close>.\<close>

definition rfind :: "char \<Rightarrow> str \<Rightarrow> int" where
  "rfind c s =
     (if c \<in> set s then int (length s) - 1 - int (length (takeWhile (\<lambda>x. x \<noteq> c) (rev s))) else -1)"

definition clip_at_word_boundary :: "str \<Rightarrow> nat \<Rightarrow> str" where
  "clip_at_word_boundary s max_chars =
     (let clipped = rstrip_by is_space (take max_chars s);
          boundary = max (rfind (CHR ''.'') clipped) (max (rfind (CHR '';'') clipped) (rfind (CHR '','') clipped));
          space = rfind (CHR '' '') clipped
      in if 80 \<le> boundary then strip (take (nat (boundary + 1)) clipped)
         else if 80 \<le> space then strip (take (nat space) clipped)
         else strip clipped)"

definition best_signal_sentence :: "str \<Rightarrow> str \<Rightarrow> nat \<Rightarrow> str" where
  "best_signal_sentence s dimension max_chars =
     (case filter (\<lambda>p. 40 \<le> length (strip p) \<and> has_dimension_signal dimension (lower p)) (sentences False [] s) of
        [] \<Rightarrow> [] | p # _ \<Rightarrow> clip_at_word_boundary p max_chars)"

definition clean_evidence_quote :: "str \<Rightarrow> str \<Rightarrow> nat \<Rightarrow> str" where
  "clean_evidence_quote text dimension max_chars =
     (let normalized = trim_leading_boilerplate (normalize_whitespace text)
      in if length normalized \<le> max_chars then normalized
         else let sentence = best_signal_sentence normalized dimension max_chars
           in if sentence \<noteq> [] then sentence else clip_at_word_boundary normalized max_chars)"

section \<open>Noise\<close>

definition is_control :: "char \<Rightarrow> bool" where
  "is_control c \<longleftrightarrow> code_of c < 32 \<and> c \<notin> {CHR 0x0A, CHR 0x0D, CHR 0x09}"

definition encoding_noise_ratio :: "str \<Rightarrow> rat" where
  "encoding_noise_ratio s = of_nat (count_if is_control s) / of_nat (max 1 (length s))"

definition looks_like_install_or_code_noise :: "str \<Rightarrow> bool" where
  "looks_like_install_or_code_noise s \<longleftrightarrow>
     2 \<le> count_if (\<lambda>m. has_substring m s)
       [''curl '', ''install.cmd'', ''npm install'', ''pip install'', ''copy code'']"

definition looks_like_business_sentence :: "str \<Rightarrow> bool" where
  "looks_like_business_sentence s = list_ex (\<lambda>ws. mentions_any ws s) (dict_values dimension_signals)"

definition looks_like_truncated_fragment :: "str \<Rightarrow> bool" where
  "looks_like_truncated_fragment s =
     (let first_word = takeWhile is_word_char (dropWhile (\<lambda>c. \<not> is_word_char c) s)
      in if first_word = [] then True
         else lower first_word \<in> {''mpletions'', ''ull'', ''ctions'', ''oser'', ''ownload'', ''ublished''})"

definition text_noise_problem :: "str \<Rightarrow> str option" where
  "text_noise_problem text =
     (let quote = normalize_whitespace text; normalized = lower quote;
          marker_count = count_if (\<lambda>m. has_substring m normalized) navigation_markers
      in if quote = [] then None
         else if 15/1000 < encoding_noise_ratio quote then Some ''text_encoding_noise''
         else if 4 \<le> marker_count then Some ''text_navigation_boilerplate''
         else if 2 \<le> marker_count \<and> \<not> looks_like_business_sentence normalized
           then Some ''text_navigation_boilerplate''
         else if looks_like_install_or_code_noise normalized then Some ''text_code_or_install_noise''
         else if looks_like_truncated_fragment quote then Some ''text_truncated_fragment''
         else None)"

definition replace_first :: "str \<Rightarrow> str \<Rightarrow> str \<Rightarrow> str" where
  "replace_first old new s =
     (case find_sub old s of None \<Rightarrow> s | Some i \<Rightarrow> take i s @ new @ drop (i + length old) s)"

definition quote_quality_problem :: "str \<Rightarrow> str \<Rightarrow> str option" where
  "quote_quality_problem text dimension =
     (let quote = normalize_whitespace text
      in if length quote < 32 then Some ''quote_too_short''
         else case text_noise_problem quote of
           Some p \<Rightarrow> Some (replace_first ''text_'' ''quote_'' p)
         | None \<Rightarrow>
             if \<not> has_dimension_signal dimension (lower quote) then Some ''quote_missing_dimension_signal''
             else None)"

definition quote_window_from_match :: "str \<Rightarrow> nat \<Rightarrow> nat \<Rightarrow> str \<Rightarrow> nat \<Rightarrow> nat \<Rightarrow> str" where
  "quote_window_from_match text match_start match_end dimension before after =
     (if text = [] then []
      else let start = expand_to_word_start text (match_start - before);
               stop = expand_to_word_end text (min (length text) (match_end + after));
               quote = clean_evidence_quote (slice start stop text) dimension 420
           in if quote_quality_problem quote dimension \<noteq> None then [] else quote)"

section \<open>Publishable text: research/evidence/text.py\<close>

text \<open>\<open>s.split(c)\<close> on a character.\<close>

fun split_char :: "char \<Rightarrow> str \<Rightarrow> str \<Rightarrow> str list" where
  "split_char c cur [] = [cur]"
| "split_char c cur (x # s) = (if x = c then cur # split_char c [] s else split_char c (cur @ [x]) s)"

text \<open>\<open>re.fullmatch(r":?-{3,}:?", cell)\<close>.\<close>

definition separator_cell :: "str \<Rightarrow> bool" where
  "separator_cell cell =
     (let body = (if starts_with '':'' cell then drop 1 cell else cell);
          dashes = takeWhile (\<lambda>c. c = CHR ''-'') body
      in 3 \<le> length dashes \<and> drop (length dashes) body \<in> {'''', '':''})"

definition is_markdown_table_separator :: "str \<Rightarrow> bool" where
  "is_markdown_table_separator text =
     (let stripped = strip text
      in if \<not> starts_with ''|'' stripped \<or> \<not> starts_with ''|'' (rev stripped) then False
         else let cells = map strip (split_char (CHR ''|'') [] (strip_by (\<lambda>c. c = CHR ''|'') stripped))
           in if length cells < 2 then False else list_all separator_cell cells)"

definition publishable_text_noise_problem :: "str \<Rightarrow> str option" where
  "publishable_text_noise_problem text =
     (if is_markdown_table_separator text then None else text_noise_problem text)"

section \<open>Cleaned quotes are short and verbatim\<close>

lemma strip_in: "has_substring t s \<Longrightarrow> has_substring (strip_by p t) s"
  using has_substring_trans [OF has_substring_strip] .

lemma take_in: "has_substring t s \<Longrightarrow> has_substring (take n t) s"
  unfolding has_substring_iff by (metis append.assoc append_take_drop_id)

lemma drop_in: "has_substring t s \<Longrightarrow> has_substring (drop n t) s"
  unfolding has_substring_iff by (metis append.assoc append_take_drop_id)

lemma dropWhile_in: "has_substring t s \<Longrightarrow> has_substring (dropWhile p t) s"
  by (simp add: dropWhile_eq_drop drop_in)

lemma rstrip_in: "has_substring t s \<Longrightarrow> has_substring (rstrip_by p t) s"
  using rstrip_by_prefix [of t p] unfolding has_substring_iff by (metis append.assoc)

lemma length_rstrip_by: "length (rstrip_by p s) \<le> length s"
  using rstrip_by_prefix [of s p] by (metis le_add1 length_append)

lemma clip_verbatim: "has_substring (clip_at_word_boundary s n) s"
  unfolding clip_at_word_boundary_def Let_def
  by (auto intro!: strip_in take_in rstrip_in has_substring_refl)

lemma clip_short: "length (clip_at_word_boundary s n) \<le> n"
proof -
  have "length (rstrip_by is_space (take n s)) \<le> n"
    using length_rstrip_by [of is_space "take n s"] by simp
  then have "length (strip_by p (take k (rstrip_by is_space (take n s)))) \<le> n"
    "length (strip_by p (rstrip_by is_space (take n s))) \<le> n" for p k
    using length_strip_by [of p "take k (rstrip_by is_space (take n s))"]
      length_strip_by [of p "rstrip_by is_space (take n s)"] by auto
  then show ?thesis unfolding clip_at_word_boundary_def Let_def by auto
qed

lemma trim_in: "has_substring (trim_leading_boilerplate s) s"
proof -
  have "has_substring (fold trim_marker ms t) s" if "has_substring t s" for ms t
    using that
    by (induction ms arbitrary: t) (auto simp: trim_marker_def Let_def intro: dropWhile_in drop_in)
  then show ?thesis by (simp add: trim_leading_boilerplate_def has_substring_refl)
qed

lemma sentence_in: "p \<in> set (sentences stopped cur s) \<Longrightarrow> has_substring p (cur @ s)"
proof (induction stopped cur s rule: sentences.induct)
  case (2 stopped cur c s)
  note IH = "2.IH"
  show ?case
  proof (cases "stopped \<and> is_space c")
    case True
    then consider "p = cur" | "p \<in> set (sentences False [] (dropWhile is_space s))" using 2 by auto
    then show ?thesis
    proof cases
      case 1
      then show ?thesis by (simp add: has_substring_app)
    next
      case 2
      then have "has_substring p (dropWhile is_space s)" using IH True by simp
      then have "has_substring p s" using has_substring_trans dropWhile_in has_substring_refl by blast
      then show ?thesis by (metis append_Cons append_Nil has_substring_app2)
    qed
  next
    case False
    then have "p \<in> set (sentences (c \<in> {CHR ''.'', CHR ''!'', CHR ''?''}) (cur @ [c]) s)"
      using 2(3) by (simp only: sentences.simps if_False)
    with IH(2) [OF False] have "has_substring p ((cur @ [c]) @ s)" .
    then show ?thesis by simp
  qed
qed simp

lemma best_sentence:
  "has_substring (best_signal_sentence s d n) s" "length (best_signal_sentence s d n) \<le> n"
proof -
  let ?ps = "filter (\<lambda>p. 40 \<le> length (strip p) \<and> has_dimension_signal d (lower p)) (sentences False [] s)"
  have "has_substring p s" if "p \<in> set ?ps" for p using that sentence_in [of p False "[]" s] by simp
  then show "has_substring (best_signal_sentence s d n) s"
    unfolding best_signal_sentence_def
    by (cases ?ps) (auto simp: has_substring_iff intro: has_substring_trans [OF clip_verbatim, unfolded has_substring_iff])
  show "length (best_signal_sentence s d n) \<le> n"
    unfolding best_signal_sentence_def by (cases ?ps) (simp_all add: clip_short)
qed

text \<open>A cleaned quote is at most as long as allowed and stands verbatim in the page text with its
  white space normalised.\<close>

theorem cleaned_quote_verbatim:
  "length (clean_evidence_quote text dimension n) \<le> n
   \<and> has_substring (clean_evidence_quote text dimension n) (normalize_whitespace text)"
  unfolding clean_evidence_quote_def Let_def
  using best_sentence [of "trim_leading_boilerplate (normalize_whitespace text)" dimension n]
    clip_verbatim [of "trim_leading_boilerplate (normalize_whitespace text)" n] clip_short
    trim_in [of "normalize_whitespace text"]
  by (auto intro: has_substring_trans)

lemma quote_window_ok:
  "quote_window_from_match s i j d b a \<noteq> [] \<Longrightarrow> quote_quality_problem (quote_window_from_match s i j d b a) d = None"
  by (auto simp: quote_window_from_match_def Let_def split: if_splits)

end
