(* ===== verification/Normalization.thy ===== *)
theory Normalization
  imports EvidenceQuality RunRecords
begin

text \<open>
  research/evidence/normalization.py, citations.py, store.py and text.py: the normalised fields of
  accepted evidence items, the summaries and snippets read back from the sources that carry them, and
  the quotes of a source. Values and confidences are the JSON values of the items; \<open>Mapping\<close> and \<open>list\<close>
  are the objects and arrays of JSON. The functions on sources are given for \<open>RawSource\<close>.
\<close>

section \<open>Evidence items: research/models.py\<close>

record evidence_item =
  im_id :: str
  im_competitor :: str
  im_dimension :: str
  im_field :: str
  im_value :: json
  im_source_candidate_id :: str
  im_captured_page_id :: str
  im_source_url :: "str option"
  im_quote :: str
  im_confidence :: json
  im_status :: str
  im_rejection_reason :: "str option"
  im_raw_source_id :: "str option"
  im_metadata :: jdict

definition fill_item_id :: "evidence_item \<Rightarrow> evidence_item" where
  "fill_item_id i =
     (if im_id i = [] then i\<lparr>im_id := stable_prefixed_id ''evidence-item''
        [JStr (im_competitor i), JStr (im_dimension i), JStr (im_field i), JStr (im_captured_page_id i),
         if im_quote i \<noteq> [] then JStr (im_quote i) else im_value i] 20\<rparr>
      else i)"

text \<open>The value of a number, 0 for anything else.\<close>

definition number_of :: "json \<Rightarrow> rat" where
  "number_of j = (case json_number j of None \<Rightarrow> 0 | Some r \<Rightarrow> r)"

section \<open>Values as text\<close>

fun text_values :: "json \<Rightarrow> str list" where
  "text_values JNull = []"
| "text_values (JStr s) = (if strip s \<noteq> [] then [strip s] else [])"
| "text_values (JDict kvs) = concat (map (\<lambda>(k, v). text_values v) kvs)"
| "text_values (JList vs) =
     concat (map (\<lambda>v. if v = JNull then [] else let t = strip (py_str v) in if t \<noteq> [] then [t] else []) vs)"
| "text_values v = (let t = strip (py_str v) in if t \<noteq> [] then [t] else [])"

definition values_at :: "jdict \<Rightarrow> str \<Rightarrow> str list" where
  "values_at d key = (case map_of d key of None \<Rightarrow> [] | Some v \<Rightarrow> text_values v)"

text \<open>\<open>str(d.get(key) or "")\<close>.\<close>

definition text_at :: "jdict \<Rightarrow> str \<Rightarrow> str" where
  "text_at d key = (case map_of d key of None \<Rightarrow> [] | Some v \<Rightarrow> if truthy v then py_str v else [])"

definition clean_text_at :: "jdict \<Rightarrow> str \<Rightarrow> str" where
  "clean_text_at d key = strip (join '' '' (split_ws (text_at d key)))"

definition named_value :: "jdict \<Rightarrow> str" where
  "named_value d =
     (case List.map_filter (\<lambda>k. case map_of d k of
          Some (JStr s) \<Rightarrow> if strip s \<noteq> [] then Some (strip s) else None | _ \<Rightarrow> None)
        [''name'', ''value'', ''label'', ''status''] of [] \<Rightarrow> [] | v # _ \<Rightarrow> v)"

fun first_value :: "json \<Rightarrow> str" where
  "first_value (JStr s) = strip s"
| "first_value (JDict d) = named_value d"
| "first_value v = (case text_values v of [] \<Rightarrow> [] | x # _ \<Rightarrow> x)"

text \<open>The first element that is not empty.\<close>

definition first_given :: "str list \<Rightarrow> str" where
  "first_given ss = (case find (\<lambda>s. s \<noteq> []) ss of None \<Rightarrow> [] | Some s \<Rightarrow> s)"

definition first_text :: "evidence_item list \<Rightarrow> str \<Rightarrow> str" where
  "first_text items field =
     first_given (map (\<lambda>i. first_value (im_value i)) (filter (\<lambda>i. im_field i = field) items))"

definition dedupe_keep_order :: "str list \<Rightarrow> str list" where
  "dedupe_keep_order vs = keep_first lower (\<lambda>_. True) [] vs"

definition list_texts :: "evidence_item list \<Rightarrow> str \<Rightarrow> str list" where
  "list_texts items field =
     dedupe_keep_order (concat (map (\<lambda>i. text_values (im_value i)) (filter (\<lambda>i. im_field i = field) items)))"

definition nth_or_empty :: "str list \<Rightarrow> nat \<Rightarrow> str" where
  "nth_or_empty vs n = (if vs = [] then [] else if n < length vs then vs ! n else last vs)"

definition best_quote :: "evidence_item list \<Rightarrow> str list \<Rightarrow> str" where
  "best_quote items preferred =
     first_given (map (\<lambda>i. strip (im_quote i))
       (concat (map (\<lambda>f. filter (\<lambda>i. im_field i = f) items) preferred) @ items))"

definition first_competitor :: "evidence_item list \<Rightarrow> str" where
  "first_competitor items = first_given (map im_competitor items)"

definition first_url :: "evidence_item list \<Rightarrow> str option" where
  "first_url items =
     (let u = first_given (map (\<lambda>i. or_str (im_source_url i) []) items) in if u = [] then None else Some u)"

definition max_confidence :: "evidence_item list \<Rightarrow> json" where
  "max_confidence items =
     (case max_by number_of (map im_confidence items) of None \<Rightarrow> JFloat 0 0 | Some c \<Rightarrow> c)"

section \<open>Normalised fields\<close>

record pricing_field =
  nf_competitor :: str
  nf_model_type :: str
  nf_tier_name :: str
  nf_price :: str
  nf_billing_cycle :: str
  nf_usage_limit :: str
  nf_enterprise_condition :: str
  nf_source_quote :: str
  nf_evidence_item_ids :: "str list"
  nf_source_url :: "str option"
  nf_confidence :: json

record feature_field =
  ff_competitor :: str
  ff_slot :: str
  ff_support_level :: str
  ff_evidence_terms :: "str list"
  ff_evidence_quote :: str
  ff_evidence_item_ids :: "str list"
  ff_source_url :: "str option"
  ff_confidence :: json

record persona_field =
  pf_competitor :: str
  pf_segment :: str
  pf_role :: str
  pf_company_size :: str
  pf_use_case :: str
  pf_pain_point :: str
  pf_confidence_reason :: str
  pf_evidence_quote :: str
  pf_evidence_item_ids :: "str list"
  pf_source_url :: "str option"
  pf_confidence :: json

datatype normalized_field =
    PricingField pricing_field
  | FeatureField feature_field
  | PersonaField persona_field

section \<open>Pricing\<close>

record price_row =
  pw_tier_name :: str
  pw_price :: str
  pw_billing_cycle :: str
  pw_usage_limit :: str
  pw_source_quote :: str
  pw_evidence_item_ids :: "str list"

definition raw_price_rows :: "evidence_item \<Rightarrow> price_row list" where
  "raw_price_rows i =
     List.map_filter (\<lambda>v. case v of
         JDict d \<Rightarrow>
           if clean_text_at d ''price'' = [] then None
           else Some \<lparr>pw_tier_name = clean_text_at d ''tier_name'', pw_price = clean_text_at d ''price'',
              pw_billing_cycle = clean_text_at d ''billing_cycle'',
              pw_usage_limit = clean_text_at d ''usage_limit'', pw_source_quote = strip (im_quote i),
              pw_evidence_item_ids = [im_id i]\<rparr>
       | _ \<Rightarrow> None) (as_list (Some (im_value i)))"

definition row_key :: "price_row \<Rightarrow> str \<times> str \<times> str" where
  "row_key r = (lower (pw_tier_name r), lower (pw_price r), lower (pw_billing_cycle r))"

definition pricing_rows :: "evidence_item list \<Rightarrow> price_row list" where
  "pricing_rows items =
     keep_first row_key (\<lambda>_. True) []
       (concat (map raw_price_rows (filter (\<lambda>i. im_field i = ''price_rows'') items)))"

definition loose_price_rows :: "evidence_item list \<Rightarrow> price_row list" where
  "loose_price_rows items =
     (let tiers = list_texts items ''tier_names''; prices = list_texts items ''price_points'';
          cycles = list_texts items ''billing_cycle''; limits = list_texts items ''usage_limits'';
          rows = max 1 (max (length tiers) (max (length prices) (max (length cycles) (length limits))));
          quote = best_quote items [''price_points'', ''pricing_model_type'']
      in map (\<lambda>n. \<lparr>pw_tier_name = nth_or_empty tiers n, pw_price = nth_or_empty prices n,
              pw_billing_cycle = nth_or_empty cycles n, pw_usage_limit = nth_or_empty limits n,
              pw_source_quote = quote, pw_evidence_item_ids = map im_id items\<rparr>) [0..<rows])"

definition pricing_field_of :: "evidence_item list \<Rightarrow> price_row \<Rightarrow> pricing_field" where
  "pricing_field_of items r =
     \<lparr>nf_competitor = first_competitor items, nf_model_type = first_text items ''pricing_model_type'',
      nf_tier_name = pw_tier_name r, nf_price = pw_price r, nf_billing_cycle = pw_billing_cycle r,
      nf_usage_limit = pw_usage_limit r,
      nf_enterprise_condition = first_text items ''enterprise_condition'',
      nf_source_quote = pw_source_quote r, nf_evidence_item_ids = pw_evidence_item_ids r,
      nf_source_url = first_url items, nf_confidence = max_confidence items\<rparr>"

definition normalized_pricing_fields_from_evidence_items :: "evidence_item list \<Rightarrow> pricing_field list" where
  "normalized_pricing_fields_from_evidence_items items =
     (let pricing_items = filter (\<lambda>i. im_status i = ''accepted'' \<and> has_substring ''pricing'' (lower (im_dimension i))) items;
          price_rows = pricing_rows pricing_items
      in if pricing_items = [] then []
         else map (pricing_field_of pricing_items)
           (if price_rows \<noteq> [] then price_rows else loose_price_rows pricing_items))"

section \<open>Features and personas\<close>

definition feature_field_of :: "evidence_item \<Rightarrow> feature_field option" where
  "feature_field_of i =
     (if im_status i \<noteq> ''accepted'' \<or> \<not> has_substring ''feature'' (lower (im_dimension i)) then None
      else case im_value i of
        JDict d \<Rightarrow>
          (let status = strip (text_at d ''status'')
           in if status = [] \<or> status \<in> {''not_found_in_source'', ''not_applicable''} then None
              else Some \<lparr>ff_competitor = im_competitor i, ff_slot = im_field i, ff_support_level = status,
                ff_evidence_terms = values_at d ''evidence_terms'', ff_evidence_quote = strip (im_quote i),
                ff_evidence_item_ids = [im_id i], ff_source_url = im_source_url i,
                ff_confidence = im_confidence i\<rparr>)
      | _ \<Rightarrow> None)"

definition normalized_feature_fields_from_evidence_items :: "evidence_item list \<Rightarrow> feature_field list" where
  "normalized_feature_fields_from_evidence_items items = List.map_filter feature_field_of items"

definition normalized_persona_fields_from_evidence_items :: "evidence_item list \<Rightarrow> persona_field list" where
  "normalized_persona_fields_from_evidence_items items =
     (let ps = filter (\<lambda>i. im_status i = ''accepted'' \<and>
            (has_substring ''persona'' (lower (im_dimension i)) \<or> has_substring ''user'' (lower (im_dimension i)))) items;
          quote = best_quote ps [''primary_use_case'', ''buyer_or_user_role'', ''target_segment'',
            ''switching_trigger'']
      in if ps = [] then []
         else if \<not> list_ex (\<lambda>i. truthy (im_value i)) ps \<and> quote = [] then []
         else [\<lparr>pf_competitor = first_competitor ps, pf_segment = first_text ps ''target_segment'',
           pf_role = first_text ps ''buyer_or_user_role'', pf_company_size = first_text ps ''company_size'',
           pf_use_case = first_text ps ''primary_use_case'', pf_pain_point = first_text ps ''switching_trigger'',
           pf_confidence_reason = first_text ps ''confidence_reason'', pf_evidence_quote = quote,
           pf_evidence_item_ids = map im_id ps, pf_source_url = first_url ps,
           pf_confidence = max_confidence ps\<rparr>])"

definition normalized_fields_from_evidence_items :: "evidence_item list \<Rightarrow> normalized_field list" where
  "normalized_fields_from_evidence_items items =
     (let accepted = filter (\<lambda>i. im_status i = ''accepted'') items
      in map PricingField (normalized_pricing_fields_from_evidence_items accepted)
         @ map FeatureField (normalized_feature_fields_from_evidence_items accepted)
         @ map PersonaField (normalized_persona_fields_from_evidence_items accepted))"

text \<open>\<open>field.model_dump(mode="json")\<close>.\<close>

fun normalized_field_dict :: "normalized_field \<Rightarrow> json" where
  "normalized_field_dict (PricingField f) = JDict
     [(''kind'', JStr ''pricing''), (''dimension'', JStr ''pricing''), (''competitor'', JStr (nf_competitor f)),
      (''model_type'', JStr (nf_model_type f)), (''tier_name'', JStr (nf_tier_name f)),
      (''price'', JStr (nf_price f)), (''billing_cycle'', JStr (nf_billing_cycle f)),
      (''usage_limit'', JStr (nf_usage_limit f)),
      (''enterprise_condition'', JStr (nf_enterprise_condition f)),
      (''source_quote'', JStr (nf_source_quote f)),
      (''evidence_item_ids'', jstrs (nf_evidence_item_ids f)), (''source_url'', jstr_opt (nf_source_url f)),
      (''confidence'', nf_confidence f)]"
| "normalized_field_dict (FeatureField f) = JDict
     [(''kind'', JStr ''feature''), (''dimension'', JStr ''feature''), (''competitor'', JStr (ff_competitor f)),
      (''slot'', JStr (ff_slot f)), (''support_level'', JStr (ff_support_level f)),
      (''evidence_terms'', jstrs (ff_evidence_terms f)), (''evidence_quote'', JStr (ff_evidence_quote f)),
      (''evidence_item_ids'', jstrs (ff_evidence_item_ids f)), (''source_url'', jstr_opt (ff_source_url f)),
      (''confidence'', ff_confidence f)]"
| "normalized_field_dict (PersonaField f) = JDict
     [(''kind'', JStr ''persona''), (''dimension'', JStr ''persona''), (''competitor'', JStr (pf_competitor f)),
      (''segment'', JStr (pf_segment f)), (''role'', JStr (pf_role f)),
      (''company_size'', JStr (pf_company_size f)), (''use_case'', JStr (pf_use_case f)),
      (''pain_point'', JStr (pf_pain_point f)), (''confidence_reason'', JStr (pf_confidence_reason f)),
      (''evidence_quote'', JStr (pf_evidence_quote f)),
      (''evidence_item_ids'', jstrs (pf_evidence_item_ids f)), (''source_url'', jstr_opt (pf_source_url f)),
      (''confidence'', pf_confidence f)]"

definition normalized_fields_as_dicts :: "normalized_field list \<Rightarrow> json list" where
  "normalized_fields_as_dicts fs = map normalized_field_dict fs"

section \<open>Summaries of a source\<close>

definition normalized_fields_from_source :: "raw_source \<Rightarrow> jdict list" where
  "normalized_fields_from_source s =
     List.map_filter (\<lambda>v. case v of JDict d \<Rightarrow> Some d | _ \<Rightarrow> None)
       (as_list (map_of (fs_metadata s) ''normalized_fields''))"

definition field_matches_dimension :: "jdict \<Rightarrow> str \<Rightarrow> bool" where
  "field_matches_dimension d dimension \<longleftrightarrow>
     dimension = [] \<or>
     (let kind = lower (str_or (text_at d ''kind'') (text_at d ''dimension'')); key = lower dimension
      in has_substring kind key \<or> has_substring key kind)"

definition labeled :: "str \<Rightarrow> str \<Rightarrow> str" where
  "labeled label value = (let t = strip value in if t \<noteq> [] then label @ '': '' @ t else [])"

definition joined_parts :: "str list \<Rightarrow> str" where
  "joined_parts parts = join ''; '' (filter (\<lambda>p. p \<noteq> []) parts)"

definition summary_for_field :: "jdict \<Rightarrow> str" where
  "summary_for_field d =
     (let kind = lower (text_at d ''kind''); part = (\<lambda>label key. labeled label (text_at d key))
      in if kind = ''pricing'' then
           joined_parts [part ''pricing model'' ''model_type'', part ''tier'' ''tier_name'', part ''price'' ''price'',
             part ''billing'' ''billing_cycle'', part ''limit'' ''usage_limit'',
             part ''enterprise'' ''enterprise_condition'', part ''evidence quote'' ''source_quote'']
         else if kind = ''feature'' then
           joined_parts [part ''feature slot'' ''slot'', part ''support'' ''support_level'',
             labeled ''terms'' (join '', '' (values_at d ''evidence_terms'')),
             part ''evidence quote'' ''evidence_quote'']
         else if kind = ''persona'' then
           joined_parts [part ''segment'' ''segment'', part ''role'' ''role'', part ''company size'' ''company_size'',
             part ''use case'' ''use_case'', part ''pain point'' ''pain_point'',
             part ''confidence reason'' ''confidence_reason'', part ''evidence quote'' ''evidence_quote'']
         else [])"

definition normalized_summary_from_source :: "raw_source \<Rightarrow> str \<Rightarrow> nat \<Rightarrow> str" where
  "normalized_summary_from_source s dimension limit =
     (let source_dimension = str_or dimension (fs_dimension s)
      in strip (take limit (join '' '' (filter (\<lambda>x. x \<noteq> [])
           (map summary_for_field
             (filter (\<lambda>d. field_matches_dimension d source_dimension) (normalized_fields_from_source s)))))))"

section \<open>Business snippets: research/evidence/text.py\<close>

definition source_business_snippet :: "raw_source \<Rightarrow> str \<Rightarrow> nat \<Rightarrow> str" where
  "source_business_snippet s dimension limit =
     (let source_dimension = str_or dimension (fs_dimension s);
          normalized = normalized_summary_from_source s source_dimension limit;
          snippet = join '' '' (split_ws (fs_snippet s));
          cleaned = clean_evidence_quote snippet source_dimension limit
      in if normalized \<noteq> [] then normalized
         else if snippet = [] then []
         else if quote_quality_problem snippet source_dimension \<noteq> None then []
         else if cleaned = [] \<or> quote_quality_problem cleaned source_dimension \<noteq> None then []
         else cleaned)"

definition deterministic_claim_text_from_source :: "str \<Rightarrow> str \<Rightarrow> raw_source \<Rightarrow> nat \<Rightarrow> str" where
  "deterministic_claim_text_from_source competitor dimension s limit =
     (let snippet = source_business_snippet s dimension limit;
          title = join '' '' (split_ws (fs_title s))
      in if snippet \<noteq> [] then competitor @ '' '' @ dimension @ '': '' @ snippet
         else if title \<noteq> [] then
           competitor @ '' has collected '' @ dimension @ '' evidence from '' @ title
             @ '', but the page needs a cleaner extracted snippet before publishable use.''
         else competitor @ '' has collected '' @ dimension
             @ '' evidence, but the source needs cleaner extracted text before publishable use.'')"

section \<open>Quotes and groups: citations.py, store.py\<close>

definition by_confidence :: "evidence_item list \<Rightarrow> evidence_item list" where
  "by_confidence items = sort_desc (\<lambda>i. number_of (im_confidence i)) items"

definition citation_refs_from_evidence_items :: "evidence_item list \<Rightarrow> jdict list" where
  "citation_refs_from_evidence_items items =
     map (\<lambda>(n, i). [(''ref'', JStr (CHR ''S'' # digits_of n)), (''evidence_item_id'', JStr (im_id i)),
         (''source_url'', jstr_opt (im_source_url i)), (''field'', JStr (im_field i)),
         (''confidence'', im_confidence i), (''quote'', JStr (im_quote i))])
       (enumerate 1 (by_confidence items))"

definition snippet_from_evidence_items :: "evidence_item list \<Rightarrow> str \<Rightarrow> nat \<Rightarrow> str" where
  "snippet_from_evidence_items items fallback limit =
     (let quotes = keep_first lower (\<lambda>q. q \<noteq> []) []
            (map (\<lambda>i. join '' '' (split_ws (im_quote i))) (by_confidence items))
      in if quotes \<noteq> [] then take limit (join '' '' quotes) else take limit fallback)"

definition accepted_evidence_items :: "evidence_item list \<Rightarrow> evidence_item list" where
  "accepted_evidence_items items = filter (\<lambda>i. im_status i = ''accepted'') items"

definition rejected_evidence_items :: "evidence_item list \<Rightarrow> evidence_item list" where
  "rejected_evidence_items items = filter (\<lambda>i. im_status i = ''rejected'') items"

definition add_to_page ::
  "evidence_item \<Rightarrow> (str \<times> evidence_item list) list \<Rightarrow> (str \<times> evidence_item list) list" where
  "add_to_page i grouped =
     (case map_of grouped (im_captured_page_id i) of
        None \<Rightarrow> AList.update (im_captured_page_id i) [i] grouped
      | Some earlier \<Rightarrow> AList.update (im_captured_page_id i) (earlier @ [i]) grouped)"

definition accepted_evidence_by_page :: "evidence_item list \<Rightarrow> (str \<times> evidence_item list) list" where
  "accepted_evidence_by_page items = fold add_to_page (accepted_evidence_items items) []"

end
