(* ===== verification/EntityResolver.thy ===== *)
theory EntityResolver
  imports EvidenceStore Substrings
begin

text \<open>
  business_intel/entity_resolver.py: the registry of known competitors, which names resolve to
  which entry, and the pages and hosts the program trusts for an entry. \<open>urlparse\<close> is the \<open>urlsplit\<close>
  of \<open>StableIds\<close>, which raises on unbalanced brackets.
\<close>

section \<open>The registry\<close>

record trusted_source =
  tc_title :: str
  tc_url :: str
  tc_rationale :: str
  tc_dimension :: str
  tc_source_kind :: str

record competitor_identity =
  cy_canonical_name :: str
  cy_homepage_url :: str
  cy_aliases :: "str list"
  cy_trusted_domains :: "str list"
  cy_identity_terms :: "str list"
  cy_confusion_terms :: "str list"
  cy_search_qualifier :: str
  cy_sources_by_dimension :: "(str \<times> trusted_source list) list"

definition registry_dimension :: "str \<Rightarrow> str" where
  "registry_dimension dimension =
     (let key = lower dimension
      in if has_substring ''pricing'' key then ''pricing''
         else if list_ex (\<lambda>t. has_substring t key) [''security'', ''trust'', ''compliance''] then ''security''
         else if list_ex (\<lambda>t. has_substring t key) [''persona'', ''user'', ''buyer'', ''customer''] then ''persona''
         else ''feature'')"

definition source_candidate :: "str \<Rightarrow> str \<Rightarrow> str \<Rightarrow> str \<Rightarrow> trusted_source" where
  "source_candidate title url dimension rationale =
     \<lparr>tc_title = title, tc_url = url, tc_rationale = rationale,
      tc_dimension = registry_dimension dimension, tc_source_kind = ''official''\<rparr>"

definition registry_source :: "str \<Rightarrow> str \<Rightarrow> str \<Rightarrow> trusted_source" where
  "registry_source title url dimension =
     source_candidate title url dimension ''Trusted source registry entry.''"

definition identity_cursor :: competitor_identity where
  "identity_cursor =
     \<lparr>cy_canonical_name = ''Cursor'', cy_homepage_url = ''https://cursor.com'',
      cy_aliases = [''cursor'', ''cursor ai''],
      cy_trusted_domains = [''cursor.com'', ''www.cursor.com''],
      cy_identity_terms = [''cursor.com'', ''cursor ai'', ''ai code editor'', ''code editor''],
      cy_confusion_terms = [''cursor extractor'', ''database cursor'', ''pagination cursor'',
                            ''sql cursor'', ''css cursor'', ''mouse cursor''],
      cy_search_qualifier = ''AI code editor'',
      cy_sources_by_dimension =
       [(''pricing'',
          [registry_source ''Cursor official pricing''
            ''https://cursor.com/pricing'' ''pricing'']),
        (''feature'',
          [registry_source ''Cursor official features''
            ''https://www.cursor.com/features'' ''feature'']),
        (''persona'',
          [registry_source ''Cursor official product page''
            ''https://cursor.com'' ''persona'']),
        (''security'',
          [registry_source ''Cursor official security''
            ''https://cursor.com/security'' ''security''])]\<rparr>"

definition identity_github_copilot :: competitor_identity where
  "identity_github_copilot =
     \<lparr>cy_canonical_name = ''GitHub Copilot'', cy_homepage_url = ''https://github.com/features/copilot'',
      cy_aliases = [''github copilot'', ''copilot''],
      cy_trusted_domains = [''github.com'', ''docs.github.com'', ''github.blog''],
      cy_identity_terms = [''github.com/features/copilot'', ''docs.github.com/en/copilot'',
                           ''github copilot'', ''copilot''],
      cy_confusion_terms = [],
      cy_search_qualifier = ''GitHub Copilot coding assistant'',
      cy_sources_by_dimension =
       [(''feature'',
          [registry_source ''GitHub Copilot official feature docs''
            ''https://docs.github.com/en/copilot/get-started/features'' ''feature'',
           registry_source ''GitHub Copilot official product page''
            ''https://github.com/features/copilot'' ''feature'']),
        (''pricing'',
          [registry_source ''GitHub Copilot official plans and pricing''
            ''https://github.com/features/copilot/plans'' ''pricing'']),
        (''persona'',
          [registry_source ''GitHub Copilot official product page''
            ''https://github.com/features/copilot'' ''persona'']),
        (''security'',
          [registry_source ''GitHub Copilot enterprise approval resources''
            ''https://docs.github.com/en/enterprise-cloud@latest/copilot/tutorials/roll-out-at-scale/govern-at-scale/resources-for-approval'' ''security'',
           registry_source ''GitHub Copilot compliance changelog''
            ''https://github.blog/changelog/2024-06-03-github-copilot-compliance-soc-2-type-1-report-and-iso-iec-270012013-certification-scope/'' ''security''])]\<rparr>"

definition identity_windsurf :: competitor_identity where
  "identity_windsurf =
     \<lparr>cy_canonical_name = ''Windsurf'', cy_homepage_url = ''https://windsurf.com'',
      cy_aliases = [''windsurf'', ''codeium''],
      cy_trusted_domains = [''windsurf.com'', ''docs.windsurf.com'', ''docs.devin.ai''],
      cy_identity_terms = [''windsurf.com'', ''docs.windsurf.com'', ''docs.devin.ai/desktop'',
                           ''windsurf'', ''codeium'', ''ai code editor''],
      cy_confusion_terms = [''devin.ai'', ''devin desktop'', ''cognition devin''],
      cy_search_qualifier = ''Windsurf AI code editor'',
      cy_sources_by_dimension =
       [(''pricing'',
          [registry_source ''Windsurf official plans and usage''
            ''https://docs.windsurf.com/windsurf/accounts/usage'' ''pricing'']),
        (''feature'',
          [registry_source ''Windsurf official Cascade docs''
            ''https://docs.windsurf.com/plugins/cascade/cascade-overview'' ''feature'',
           registry_source ''Windsurf official plugin docs''
            ''https://docs.windsurf.com/plugins'' ''feature'']),
        (''persona'',
          [registry_source ''Windsurf official getting started docs''
            ''https://docs.windsurf.com/windsurf/getting-started'' ''persona'']),
        (''security'',
          [registry_source ''Windsurf official trust page''
            ''https://windsurf.com/trust'' ''security'',
           registry_source ''Windsurf official compliance page''
            ''https://windsurf.com/compliance'' ''security''])]\<rparr>"

definition identity_claude_code :: competitor_identity where
  "identity_claude_code =
     \<lparr>cy_canonical_name = ''Claude Code'', cy_homepage_url = ''https://www.anthropic.com/product/claude-code'',
      cy_aliases = [''claude code'', ''claudecode'', ''anthropic claude code''],
      cy_trusted_domains = [''anthropic.com'', ''docs.anthropic.com'', ''docs.claude.com'',
                            ''code.claude.com'', ''claude.com''],
      cy_identity_terms = [''claude-code'', ''claude code'', ''code.claude.com'',
                           ''anthropic.com/product/claude-code''],
      cy_confusion_terms = [''generic claude''],
      cy_search_qualifier = ''Claude Code coding agent'',
      cy_sources_by_dimension =
       [(''feature'',
          [registry_source ''Claude Code official product page''
            ''https://www.anthropic.com/product/claude-code'' ''feature'',
           registry_source ''Claude Code official overview docs''
            ''https://docs.anthropic.com/en/docs/claude-code/overview'' ''feature'']),
        (''pricing'',
          [registry_source ''Claude Code cost management docs''
            ''https://code.claude.com/docs/en/costs'' ''pricing'',
           registry_source ''Claude official pricing''
            ''https://claude.com/pricing'' ''pricing'']),
        (''persona'',
          [registry_source ''Claude Code official product page''
            ''https://www.anthropic.com/product/claude-code'' ''persona'']),
        (''security'',
          [registry_source ''Claude Code official security docs''
            ''https://docs.claude.com/en/docs/claude-code/security'' ''security''])]\<rparr>"

definition identity_openai :: competitor_identity where
  "identity_openai =
     \<lparr>cy_canonical_name = ''OpenAI'', cy_homepage_url = ''https://openai.com'',
      cy_aliases = [''openai'', ''chatgpt'', ''gpt'', ''gpt5'', ''gpt55'', ''gpt-5'', ''gpt-5.5''],
      cy_trusted_domains = [''openai.com'', ''developers.openai.com'', ''platform.openai.com'',
                            ''help.openai.com''],
      cy_identity_terms = [''openai'', ''chatgpt'', ''gpt'', ''developers.openai.com'',
                           ''platform.openai.com''],
      cy_confusion_terms = [],
      cy_search_qualifier = ''OpenAI GPT model'',
      cy_sources_by_dimension =
       [(''pricing'',
          [registry_source ''OpenAI API pricing''
            ''https://developers.openai.com/api/docs/pricing'' ''pricing'',
           source_candidate ''OpenAI platform model reference'' ''https://platform.openai.com/docs/models'' ''pricing''
            ''Official model reference used as pricing fallback context.'']),
        (''feature'',
          [registry_source ''OpenAI model documentation''
            ''https://developers.openai.com/api/docs/guides/latest-model'' ''feature'',
           registry_source ''OpenAI API models reference''
            ''https://platform.openai.com/docs/models'' ''feature'',
           registry_source ''OpenAI product updates''
            ''https://openai.com/news/'' ''feature'']),
        (''persona'',
          [registry_source ''OpenAI business solutions''
            ''https://openai.com/business/'' ''persona'',
           registry_source ''ChatGPT Enterprise''
            ''https://openai.com/chatgpt/enterprise/'' ''persona'',
           registry_source ''OpenAI customer stories''
            ''https://openai.com/customer-stories/'' ''persona'',
           registry_source ''ChatGPT Enterprise help center''
            ''https://help.openai.com/en/collections/3742473-chatgpt-enterprise'' ''persona'']),
        (''security'',
          [registry_source ''OpenAI security and privacy''
            ''https://openai.com/security/'' ''security''])]\<rparr>"

definition identity_claude :: competitor_identity where
  "identity_claude =
     \<lparr>cy_canonical_name = ''Claude'', cy_homepage_url = ''https://claude.com'',
      cy_aliases = [''claude'', ''anthropic claude'', ''claude 4'', ''claude opus'', ''claude sonnet''],
      cy_trusted_domains = [''anthropic.com'', ''docs.anthropic.com'', ''support.claude.com'',
                            ''claude.com'', ''claude.ai''],
      cy_identity_terms = [''claude'', ''anthropic'', ''docs.anthropic.com'', ''claude.com'',
                           ''claude.ai''],
      cy_confusion_terms = [],
      cy_search_qualifier = ''Anthropic Claude model'',
      cy_sources_by_dimension =
       [(''pricing'',
          [registry_source ''Claude pricing''
            ''https://claude.com/pricing'' ''pricing'',
           registry_source ''Anthropic API pricing''
            ''https://docs.anthropic.com/en/docs/about-claude/pricing'' ''pricing'']),
        (''feature'',
          [registry_source ''Claude model overview''
            ''https://docs.anthropic.com/en/docs/about-claude/models/overview'' ''feature'',
           registry_source ''Claude product page''
            ''https://www.anthropic.com/claude'' ''feature'']),
        (''persona'',
          [registry_source ''Claude enterprise plan''
            ''https://support.claude.com/en/articles/9797531-what-is-the-enterprise-plan'' ''persona'',
           registry_source ''Claude product page''
            ''https://www.anthropic.com/claude'' ''persona'',
           registry_source ''Claude for Enterprise''
            ''https://www.anthropic.com/enterprise'' ''persona'']),
        (''security'',
          [registry_source ''Anthropic trust center''
            ''https://trust.anthropic.com/'' ''security''])]\<rparr>"

definition identity_gemini :: competitor_identity where
  "identity_gemini =
     \<lparr>cy_canonical_name = ''Gemini'', cy_homepage_url = ''https://gemini.google'',
      cy_aliases = [''gemini'', ''google gemini'', ''gemini ai'', ''google ai''],
      cy_trusted_domains = [''gemini.google'', ''ai.google.dev'', ''cloud.google.com'',
                            ''docs.cloud.google.com'', ''blog.google''],
      cy_identity_terms = [''gemini'', ''google'', ''ai.google.dev'', ''cloud.google.com'',
                           ''gemini.google''],
      cy_confusion_terms = [],
      cy_search_qualifier = ''Google Gemini model'',
      cy_sources_by_dimension =
       [(''pricing'',
          [registry_source ''Gemini API pricing''
            ''https://ai.google.dev/gemini-api/docs/pricing'' ''pricing'',
           registry_source ''Google Cloud Gemini pricing''
            ''https://cloud.google.com/products/gemini/pricing'' ''pricing'']),
        (''feature'',
          [registry_source ''Gemini API docs''
            ''https://ai.google.dev/gemini-api/docs'' ''feature'',
           registry_source ''Gemini overview''
            ''https://gemini.google/overview/'' ''feature'']),
        (''persona'',
          [registry_source ''Gemini enterprise use cases''
            ''https://docs.cloud.google.com/gemini/enterprise/docs/example-use-cases'' ''persona'',
           registry_source ''Gemini for Google Cloud''
            ''https://cloud.google.com/products/gemini'' ''persona'',
           registry_source ''Gemini customer stories''
            ''https://cloud.google.com/customers?products=Gemini'' ''persona'']),
        (''security'',
          [registry_source ''Google Cloud security and compliance''
            ''https://cloud.google.com/security/compliance'' ''security''])]\<rparr>"

definition identity_llama :: competitor_identity where
  "identity_llama =
     \<lparr>cy_canonical_name = ''Llama'', cy_homepage_url = ''https://www.llama.com'',
      cy_aliases = [''llama'', ''llama 4'', ''meta llama'', ''meta ai llama'', ''llama4''],
      cy_trusted_domains = [''llama.com'', ''ai.meta.com'', ''about.fb.com'', ''developers.facebook.com''],
      cy_identity_terms = [''llama'', ''meta ai'', ''ai.meta.com'', ''llama.com'', ''meta-llama''],
      cy_confusion_terms = [],
      cy_search_qualifier = ''Meta Llama model'',
      cy_sources_by_dimension =
       [(''pricing'',
          [source_candidate ''Llama official download and license'' ''https://www.llama.com/llama-downloads/'' ''pricing''
            ''Official model access and license page; Llama is commonly distributed without API seat pricing.'',
           source_candidate ''Llama license'' ''https://www.llama.com/llama4/license/'' ''pricing''
            ''Official license page used when no seat/API pricing exists.'',
           source_candidate ''Meta Llama 4 announcement'' ''https://ai.meta.com/blog/llama-4-multimodal-intelligence/'' ''pricing''
            ''Official announcement fallback for open model availability context.'']),
        (''feature'',
          [registry_source ''Meta Llama 4 announcement''
            ''https://ai.meta.com/blog/llama-4-multimodal-intelligence/'' ''feature'',
           registry_source ''Llama product site''
            ''https://www.llama.com/'' ''feature'',
           registry_source ''Llama docs''
            ''https://www.llama.com/docs/'' ''feature'']),
        (''persona'',
          [registry_source ''Llama official product site''
            ''https://www.llama.com/'' ''persona'',
           registry_source ''Meta Llama 4 announcement''
            ''https://ai.meta.com/blog/llama-4-multimodal-intelligence/'' ''persona'',
           registry_source ''Llama docs''
            ''https://www.llama.com/docs/'' ''persona'']),
        (''security'',
          [registry_source ''Llama responsible use guide''
            ''https://www.llama.com/responsible-use-guide/'' ''security''])]\<rparr>"

definition identities :: "competitor_identity list" where
  "identities = [identity_cursor, identity_github_copilot, identity_windsurf, identity_claude_code,
     identity_openai, identity_claude, identity_gemini, identity_llama]"

section \<open>Names\<close>

definition normalize_competitor_key :: "str \<Rightarrow> str" where
  "normalize_competitor_key v = filter (\<lambda>c. is_lower c \<or> is_digit c) (lower v)"

definition add_identity ::
  "(str \<times> competitor_identity) list \<Rightarrow> competitor_identity \<Rightarrow> (str \<times> competitor_identity) list" where
  "add_identity d i =
     fold (\<lambda>v. dict_setdefault (normalize_competitor_key v) i) (cy_canonical_name i # cy_aliases i) d"

definition identity_by_key :: "(str \<times> competitor_identity) list" where
  "identity_by_key = foldl add_identity [] identities"

definition close_key :: "str \<Rightarrow> str \<Rightarrow> bool" where
  "close_key key alias_key \<longleftrightarrow>
     4 \<le> length alias_key \<and> starts_with alias_key key \<or> 6 \<le> length key \<and> starts_with key alias_key"

definition resolve_competitor_identity :: "str \<Rightarrow> competitor_identity option" where
  "resolve_competitor_identity competitor =
     (let key = normalize_competitor_key competitor
      in if key = [] then None
         else case map_of identity_by_key key of
           Some i \<Rightarrow> Some i
         | None \<Rightarrow> map_option snd (find (\<lambda>(a, i). close_key key a) identity_by_key))"

definition identity_terms_for_competitor :: "str \<Rightarrow> str list" where
  "identity_terms_for_competitor competitor =
     (case resolve_competitor_identity competitor of None \<Rightarrow> [] | Some i \<Rightarrow> cy_identity_terms i)"

definition confusion_terms_for_competitor :: "str \<Rightarrow> str list" where
  "confusion_terms_for_competitor competitor =
     (case resolve_competitor_identity competitor of None \<Rightarrow> [] | Some i \<Rightarrow> cy_confusion_terms i)"

definition search_qualifier_for_competitor :: "str \<Rightarrow> str" where
  "search_qualifier_for_competitor competitor =
     (case resolve_competitor_identity competitor of None \<Rightarrow> [] | Some i \<Rightarrow> cy_search_qualifier i)"

section \<open>Trusted pages\<close>

definition dedupe_candidates :: "trusted_source list \<Rightarrow> trusted_source list" where
  "dedupe_candidates cs = keep_first (\<lambda>c. rstrip_slash (tc_url c)) (\<lambda>_. True) [] cs"

definition sources_for :: "competitor_identity \<Rightarrow> str \<Rightarrow> trusted_source list" where
  "sources_for i d = (case map_of (cy_sources_by_dimension i) d of None \<Rightarrow> [] | Some cs \<Rightarrow> cs)"

definition trusted_source_candidates :: "str \<Rightarrow> str \<Rightarrow> trusted_source list" where
  "trusted_source_candidates competitor dimension =
     (case resolve_competitor_identity competitor of
        None \<Rightarrow> []
      | Some i \<Rightarrow>
        (let key = registry_dimension dimension
         in dedupe_candidates (sources_for i key @ sources_for i ''feature''
              @ (if key \<noteq> ''persona''
                 then [source_candidate (cy_canonical_name i @ '' official homepage'') (cy_homepage_url i) key
                         ''Trusted identity homepage fallback.'']
                 else []))))"

definition remove_prefix :: "str \<Rightarrow> str \<Rightarrow> str" where
  "remove_prefix p s = (if starts_with p s then drop (length p) s else s)"

definition ends_with :: "str \<Rightarrow> str \<Rightarrow> bool" where
  "ends_with p s = starts_with (rev p) (rev s)"

definition registry_host :: "str \<Rightarrow> py_error + str" where
  "registry_host url =
     (if url = [] then Inr []
      else err_bind (urlsplit url) (\<lambda>p. Inr (remove_prefix ''www.'' (lower (url_hostname p)))))"

definition within_domain :: "str \<Rightarrow> str \<Rightarrow> bool" where
  "within_domain host domain \<longleftrightarrow> host = domain \<or> ends_with (CHR ''.'' # domain) host"

definition is_trusted_url_for_competitor :: "str \<Rightarrow> str \<Rightarrow> py_error + bool" where
  "is_trusted_url_for_competitor competitor url =
     (case resolve_competitor_identity competitor of
        None \<Rightarrow> Inr False
      | Some i \<Rightarrow> err_bind (registry_host url) (\<lambda>host.
          Inr (list_ex (within_domain host) (cy_trusted_domains i))))"

end
