(* ===== verification/SourceQuality.thy ===== *)
theory SourceQuality
  imports Normalization EntityResolver
begin

text \<open>
  research/source_fitness.py and the source checks of research/evidence/admission.py: what a fetched
  page is good for, and why a source is refused. A check that reads the host of a URL raises where
  \<open>urlparse\<close> does. The replacement character of broken encodings does not occur in ASCII texts.
\<close>

section \<open>Research data: research/models.py\<close>

text \<open>The fields of a brief the modelled operations read.\<close>

record research_brief =
  rb_run_id :: str
  rb_competitor :: str
  rb_dimension :: str
  rb_homepage_hint :: "str option"

record search_candidate =
  sc_id :: str
  sc_title :: str
  sc_url :: str
  sc_snippet :: str
  sc_origin :: str
  sc_rank :: int
  sc_confidence :: json

record captured_page =
  cp_id :: str
  cp_candidate_id :: str
  cp_requested_url :: str
  cp_final_url :: str
  cp_status :: str
  cp_title :: str
  cp_text :: str
  cp_markdown :: str
  cp_snippet :: str
  cp_content_hash :: str
  cp_error :: "str option"
  cp_fetch_method :: str
  cp_quality_score :: json
  cp_text_length :: int
  cp_failure_reason :: "str option"

section \<open>Conditions that may raise\<close>

text \<open>\<open>a or b\<close>, and \<open>any\<close> over a list.\<close>

definition err_or :: "py_error + bool \<Rightarrow> py_error + bool \<Rightarrow> py_error + bool" where
  "err_or a b = err_bind a (\<lambda>x. if x then Inr True else b)"

fun any_holds :: "('a \<Rightarrow> py_error + bool) \<Rightarrow> 'a list \<Rightarrow> py_error + bool" where
  "any_holds f [] = Inr False"
| "any_holds f (x # xs) = err_or (f x) (any_holds f xs)"

section \<open>Fitness of a source: research/source_fitness.py\<close>

record source_fitness =
  sf_fitness :: str
  sf_reason :: str
  sf_coverage_intents :: "str list"

definition page_host :: "str \<Rightarrow> py_error + str" where
  "page_host url = err_bind (urlsplit url) (\<lambda>p. Inr (lower (url_hostname p)))"

definition community_url :: "str \<Rightarrow> py_error + bool" where
  "community_url url = err_bind (page_host url) (\<lambda>host.
     Inr (mentions_any [''reddit.'', ''news.ycombinator.'', ''forum.'', ''community.''] host))"

definition host_matches_homepage :: "str \<Rightarrow> str option \<Rightarrow> py_error + bool" where
  "host_matches_homepage url homepage_hint =
     (if url = [] \<or> \<not> given homepage_hint then Inr False
      else err_bind (page_host url) (\<lambda>h. err_bind (page_host (the homepage_hint)) (\<lambda>g.
        let host = remove_prefix ''www.'' h; homepage_host = remove_prefix ''www.'' g
        in Inr (host \<noteq> [] \<and> homepage_host \<noteq> [] \<and> within_domain host homepage_host))))"

definition official_candidate :: "research_brief \<Rightarrow> search_candidate \<Rightarrow> py_error + bool" where
  "official_candidate brief c =
     (if sc_origin c \<in> {''trusted_registry'', ''homepage_derived'', ''manual''} then Inr True
      else err_or (is_trusted_url_for_competitor (rb_competitor brief) (sc_url c))
             (host_matches_homepage (sc_url c) (rb_homepage_hint brief)))"

definition official_url :: "research_brief \<Rightarrow> search_candidate \<Rightarrow> captured_page \<Rightarrow> py_error + bool" where
  "official_url brief c page =
     err_or (official_candidate brief c)
       (host_matches_homepage (str_or (cp_final_url page) (sc_url c)) (rb_homepage_hint brief))"

text \<open>\<open>\$\s*\d+|\b\d+\s*(?:usd|/mo|per month|monthly|credits?|seats?)\b\<close>.\<close>

definition plural :: "str \<Rightarrow> regex" where
  "plural w = Seq (literal w) (optional (literal ''s''))"

definition price_amount_pattern :: regex where
  "price_amount_pattern =
     Alt (in_sequence [literal ''$'', Many rx_space, some_of rx_digit])
       (in_sequence [Boundary, some_of rx_digit, Many rx_space,
          alternatives [literal ''usd'', literal ''/mo'', literal ''per month'', literal ''monthly'',
            plural ''credit'', plural ''seat''], Boundary])"

definition contains_price_signal :: "str \<Rightarrow> bool" where
  "contains_price_signal s = rx_search price_amount_pattern s"

definition classify_pricing :: "bool \<Rightarrow> str \<Rightarrow> str \<Rightarrow> str \<Rightarrow> source_fitness" where
  "classify_pricing official url title text =
     (let path_title = url @ '' '' @ title; has_price = contains_price_signal text;
          fit = (\<lambda>f r ins. \<lparr>sf_fitness = f, sf_reason = r, sf_coverage_intents = ins\<rparr>);
          third = [''third_party_context'']
      in if mentions_any [''/pricing'', ''/plans'', '' pricing'', '' plans''] path_title then
           fit (if official then ''official_pricing'' else ''third_party'') ''pricing_path_or_title''
             (if official then ''official_pricing_page''
                # (if has_price then [''current_plan_price_support''] else []) else third)
         else if mentions_any [''/billing'', ''/accounts/usage'', ''/usage'', ''billing'', ''credits''] path_title then
           fit (if official then ''official_billing_docs'' else ''third_party'') ''billing_or_usage_source''
             (if official then ''official_billing_or_usage_docs''
                # (if has_price \<and> mentions_any [''plan'', ''tier'', ''seat'', ''month'', ''annual''] text
                   then [''current_plan_price_support''] else []) else third)
         else if official \<and> mentions_any [''usage'', ''credits'', ''rate limit'', ''limits''] text then
           fit ''official_usage_limits'' ''official_usage_limits_without_pricing_path''
             [''official_billing_or_usage_docs'']
         else if official \<and> mentions_any [''docs'', ''plugin'', ''cascade'', ''overview'', ''api''] path_title then
           fit ''product_docs'' ''official_product_docs'' []
         else if official then fit ''unknown'' ''official_source_without_pricing_signal'' []
         else fit ''third_party'' ''non_official_pricing_context'' third)"

definition classify_source_fitness ::
  "research_brief \<Rightarrow> search_candidate \<Rightarrow> captured_page \<Rightarrow> py_error + source_fitness" where
  "classify_source_fitness brief c page =
     (let dimension = lower (rb_dimension brief);
          url = lower (str_or (cp_final_url page) (sc_url c));
          title = lower (str_or (cp_title page) (sc_title c));
          text = lower (join '' '' [cp_title page, cp_snippet page, cp_text page, cp_markdown page]);
          url_title = url @ '' '' @ title;
          fit = (\<lambda>f r ins. Inr \<lparr>sf_fitness = f, sf_reason = r, sf_coverage_intents = ins\<rparr>)
      in err_bind (official_url brief c page) (\<lambda>official.
         err_bind (err_or (community_url url) (Inr (sc_origin c = ''community_search''))) (\<lambda>community.
           if community then fit ''community'' ''community_or_discussion_source'' [''community_or_conflict_signal'']
           else if mentions_any [''changelog'', ''release-notes'', ''release notes''] url_title
             then fit ''changelog'' ''changelog_url_or_title'' []
           else if has_substring ''pricing'' dimension then Inr (classify_pricing official url title text)
           else if official \<and> mentions_any [''docs'', ''features'', ''product'', ''api''] url_title
             then fit ''product_docs'' ''official_product_or_docs_source'' [''official_docs'', ''product_page'']
           else if official then fit ''product_docs'' ''official_domain_source'' [''official_docs'']
           else fit ''third_party'' ''non_official_source'' [''third_party_context''])))"

definition candidate_intent :: "research_brief \<Rightarrow> search_candidate \<Rightarrow> py_error + str" where
  "candidate_intent brief c =
     (let haystack = lower (join '' '' [sc_url c, sc_title c, sc_snippet c]);
          community = err_or (Inr (sc_origin c = ''community_search'')) (community_url (sc_url c));
          by_official = (\<lambda>x y. err_bind (official_candidate brief c) (\<lambda>own. Inr (if own then x else y)))
      in err_bind community (\<lambda>com.
           if com then Inr ''community_or_conflict_signal''
           else if \<not> has_substring ''pricing'' (lower (rb_dimension brief))
             then by_official ''official_docs'' ''third_party_context''
           else if mentions_any [''/pricing'', ''/plans'', '' pricing'', '' plans''] haystack
             then by_official ''official_pricing_page'' ''third_party_context''
           else if mentions_any [''/billing'', ''/accounts/usage'', ''/usage'', ''billing'', ''credits''] haystack
             then by_official ''official_billing_or_usage_docs'' ''third_party_context''
           else if contains_price_signal haystack then Inr ''current_plan_price_support''
           else by_official ''official_docs'' ''third_party_context''))"


section \<open>Facts of a dimension: research/evidence/admission.py\<close>

definition source_rate_pattern :: regex where
  "source_rate_pattern =
     Alt (one_of [''$'', ''usd'', ''rmb'', ''cny'', ''eur''])
       (rate_pattern [''token'', ''seat'', ''month'', ''year''])"

definition about_persona :: "str \<Rightarrow> bool" where
  "about_persona key \<longleftrightarrow> has_substring ''persona'' key \<or> has_substring ''user'' key"

definition has_concrete_source_signal :: "str \<Rightarrow> str \<Rightarrow> bool" where
  "has_concrete_source_signal dimension text =
     (let key = lower dimension
      in if has_substring ''pricing'' key then rx_search source_rate_pattern text
         else if about_persona key
           then mentions_any [''developer'', ''customer'', ''enterprise'', ''team'', ''user''] text
         else mentions_any [''model'', ''api'', ''feature'', ''coding'', ''reasoning''] text)"

definition looks_like_binary_or_pdf :: "str \<Rightarrow> bool" where
  "looks_like_binary_or_pdf text =
     (if has_substring ''%pdf'' (lower (take 80 text)) \<or> has_substring '' endobj'' (lower text) then True
      else if text = [] then True
      else 1/100 < (of_nat (count_if is_control text) / of_nat (max 1 (length text)) :: rat))"

definition title_and_snippet :: "raw_source \<Rightarrow> str" where
  "title_and_snippet s = fs_title s @ [CHR 0x0A] @ fs_snippet s"

text \<open>\<open>(?:^|\s)404(?:\s|:|-)\<close>.\<close>

definition status_404_pattern :: regex where
  "status_404_pattern =
     in_sequence [Alt TextStart rx_space, literal ''404'',
       alternatives [rx_space, literal '':'', literal ''-'']]"

definition looks_like_soft_404 :: "raw_source \<Rightarrow> bool" where
  "looks_like_soft_404 s =
     (let normalized = lower (title_and_snippet s); title = strip (lower (fs_title s));
          apostrophe = [char_of (39::nat)]
      in if title \<in> {''404'', ''not found'', ''404: this page could not be found''} then True
         else if mentions_any [''page not found'', ''404 not found'', ''this page could not be found'',
             ''this page does not exist'', ''this page doesn'' @ apostrophe @ ''t exist'',
             ''we couldn'' @ apostrophe @ ''t find that page'', ''we could not find that page''] normalized
           then True
         else rx_search status_404_pattern normalized \<and> has_substring ''not found'' normalized)"

definition pricing_fact_pattern :: regex where
  "pricing_fact_pattern =
     alternatives [one_of [''$'', ''usd'', ''cny'', ''rmb'', ''eur'', ''free''],
       in_sequence [literal ''per'', some_of rx_space, one_of [''user'', ''seat'', ''month'', ''year'', ''token'']],
       in_sequence [Boundary, literal ''plan'', Boundary], in_sequence [Boundary, literal ''tier'', Boundary]]"

definition persona_fact_pattern :: regex where
  "persona_fact_pattern =
     alternatives
       [in_sequence [literal ''target'', optional (literal ''ed''), some_of rx_space,
          one_of [''user'', ''customer'', ''persona'']],
        in_sequence [literal ''for'', some_of rx_space,
          one_of [''developers'', ''teams'', ''enterprises'', ''engineering'', ''marketing'', ''sales'']],
        in_sequence [literal ''case stud'', one_of [''y'', ''ies'']],
        one_of [''customer'', ''enterprise'', ''adoption'', ''use case'']]"

definition generic_fact_pattern :: regex where
  "generic_fact_pattern =
     alternatives
       [in_sequence [literal ''$'', some_of rx_digit],
        in_sequence [some_of rx_digit, Many rx_space,
          alternatives [literal ''k'', literal ''m'', literal ''%'', plural ''token'', plural ''user'', plural ''seat'']],
        one_of [''supports'', ''provides'', ''includes'', ''offers'', ''built for'', ''used by''],
        in_sequence [literal ''target'', optional (literal ''ed'')]]"

definition feature_fact_pattern :: regex where
  "feature_fact_pattern =
     alternatives
       [one_of [''supports'', ''provides'', ''includes'', ''offers''],
        in_sequence [literal ''can'', some_of rx_space, one_of [''write'', ''generate'', ''explain'', ''run'']],
        one_of [''context window'', ''context awareness''], plural ''tool call'', literal ''code completion'',
        plural ''pull request'',
        one_of [''api'', ''benchmark'', ''cascade'', ''autocomplete'', ''supercomplete''],
        plural ''write/chat mode'',
        one_of [''auto-execution'', ''model context protocol'', ''mcp'', ''jetbrains plugin'', ''command'', ''tab'']]"

definition has_dimension_specific_fact :: "str \<Rightarrow> str \<Rightarrow> bool" where
  "has_dimension_specific_fact dimension text =
     (let key = lower dimension
      in if strip text = [] then False
         else if has_substring ''pricing'' key then rx_search pricing_fact_pattern text
         else if about_persona key then rx_search persona_fact_pattern text
         else if has_substring ''review'' key \<or> has_substring ''feedback'' key
           then rx_search (one_of [''review'', ''feedback'', ''rating'', ''complaint'', ''praise'', ''customer'',
             ''user'', ''adoption'', ''switching'', ''pain point'']) text
         else if has_substring ''generic'' key then rx_search generic_fact_pattern text
         else rx_search feature_fact_pattern text)"

definition looks_like_navigation_only :: "str \<Rightarrow> bool" where
  "looks_like_navigation_only text \<longleftrightarrow>
     3 \<le> count_if (\<lambda>m. has_substring m text)
       [''skip to main content'', ''open menu'', ''toggle theme'', ''sign in'', ''sign up'', ''log in'',
        ''language'', ''cookie'', ''this browser is no longer supported'', ''download microsoft edge'',
        ''search docs'', ''search...'', ''navigation'', ''home page'', ''resources'', ''back to blog'']
     \<and> \<not> has_dimension_specific_fact ''generic'' text"

definition is_low_value_url :: "str \<Rightarrow> bool" where
  "is_low_value_url url =
     mentions_any [''youtube.com'', ''youtu.be'', ''google.com/search'', ''accounts.google''] (lower url)"

definition is_dimension_mismatch_url :: "str \<Rightarrow> str \<Rightarrow> bool" where
  "is_dimension_mismatch_url dimension url =
     (if about_persona (lower dimension)
      then mentions_any [''/pricing'', ''/plans'', ''/billing'', ''/accounts/usage'', ''/subscription'',
        ''/manage-plan''] (lower url)
      else False)"

definition dimension_terms_present :: "str \<Rightarrow> str \<Rightarrow> bool" where
  "dimension_terms_present dimension text =
     (let key = lower dimension
      in mentions_any
        (if has_substring ''pricing'' key then
           [''pricing'', ''price'', ''cost'', ''billing'', ''token'', ''tier'', ''free'', ''enterprise'', ''plan'', ''$'']
         else if about_persona key then
           [''customer'', ''user'', ''developer'', ''enterprise'', ''team'', ''persona'', ''target'', ''use case'',
            ''case study'', ''organization'']
         else if has_substring ''review'' key \<or> has_substring ''feedback'' key then
           [''review'', ''feedback'', ''rating'', ''complaint'', ''praise'', ''customer'', ''user'', ''adoption'',
            ''switching'', ''pain point'']
         else
           [''feature'', ''capability'', ''model'', ''context'', ''multimodal'', ''coding'', ''reasoning'',
            ''benchmark'', ''api'', ''tool'']) text)"

section \<open>The identity of a source\<close>

definition exempt_source_types :: "str list" where
  "exempt_source_types =
     [''survey_simulated'', ''survey_response'', ''interview_record'', ''manual_transcript'',
      ''manual_note'', ''manual'']"

definition source_url_text :: "raw_source \<Rightarrow> str" where
  "source_url_text s = (case fs_url s of None \<Rightarrow> [] | Some u \<Rightarrow> u)"

definition lineage_urls :: "raw_source \<Rightarrow> str list" where
  "lineage_urls s =
     (case fs_url s of None \<Rightarrow> [] | Some u \<Rightarrow> [u])
     @ List.map_filter (\<lambda>k. case map_of (fs_metadata s) k of
           Some (JStr v) \<Rightarrow> if v \<noteq> [] then Some v else None | _ \<Rightarrow> None)
         [''requested_url'', ''source_requested_url'', ''candidate_url'', ''final_url'']"

definition source_has_trusted_identity_lineage :: "raw_source \<Rightarrow> py_error + bool" where
  "source_has_trusted_identity_lineage s =
     any_holds (is_trusted_url_for_competitor (fs_competitor s)) (lineage_urls s)"

definition is_windsurf_devin_redirect_source :: "raw_source \<Rightarrow> str \<Rightarrow> py_error + bool" where
  "is_windsurf_devin_redirect_source s haystack =
     (let url = lower (source_url_text s);
          docs_redirect = (mentions_any [''docs.devin.ai/desktop'', ''docs.devin.ai/windsurf''] url
            \<and> has_substring ''windsurf'' haystack \<and> \<not> has_substring ''devin desktop'' haystack
            \<and> \<not> has_substring ''cognition devin'' haystack);
          rebranded = err_or (Inr (has_substring ''windsurf is now devin desktop'' haystack))
            (source_has_trusted_identity_lineage s);
          facts = (has_dimension_specific_fact ''pricing'' haystack \<and> \<not> has_substring ''cognition devin'' haystack)
      in err_bind (if has_substring ''devin.ai/pricing'' url then rebranded else Inr False)
           (\<lambda>named. Inr (docs_redirect \<or> named \<and> facts)))"

text \<open>The first confusion term of a source, unless its lineage or the rebranding explains it.\<close>

fun first_confusion :: "raw_source \<Rightarrow> str \<Rightarrow> str \<Rightarrow> bool \<Rightarrow> str list \<Rightarrow> py_error + str option" where
  "first_confusion s key haystack trusted [] = Inr None"
| "first_confusion s key haystack trusted (word # words) =
     (if trusted \<and> has_substring word haystack then first_confusion s key haystack trusted words
      else err_bind (if key = ''windsurf'' \<and> word \<in> {''devin.ai'', ''devin desktop''}
            then is_windsurf_devin_redirect_source s haystack else Inr False) (\<lambda>redirect.
        if redirect then first_confusion s key haystack trusted words
        else if has_substring word haystack then Inr (Some word)
        else first_confusion s key haystack trusted words))"

definition competitor_identity_problem :: "raw_source \<Rightarrow> py_error + str option" where
  "competitor_identity_problem s =
     (let key = normalize_competitor_key (fs_competitor s);
          haystack = lower (fs_title s @ [CHR 0x0A] @ source_url_text s @ [CHR 0x0A] @ fs_snippet s);
          hints = identity_terms_for_competitor (fs_competitor s);
          missing = Inr (Some (''Source '' @ fs_id s @ '' does not expose a recognizable '' @ fs_competitor s
            @ '' product identity signal.''))
      in if fs_source_type s \<in> set exempt_source_types then Inr None
         else if key = [] \<or> starts_with ''crossmodel'' key then Inr None
         else err_bind (source_has_trusted_identity_lineage s) (\<lambda>trusted.
           err_bind (first_confusion s key haystack trusted (confusion_terms_for_competitor (fs_competitor s)))
             (\<lambda>confusion. case confusion of
                Some word \<Rightarrow> Inr (Some (''Source '' @ fs_id s @ '' appears to describe `'' @ word
                  @ ''` rather than '' @ fs_competitor s @ ''.''))
              | None \<Rightarrow>
                  if hints \<noteq> [] \<and> \<not> mentions_any hints haystack then
                    (if key = ''windsurf''
                     then err_bind (is_windsurf_devin_redirect_source s haystack)
                       (\<lambda>redirect. if redirect then Inr None else missing)
                     else missing)
                  else Inr None)))"

section \<open>The quality of a source\<close>

definition source_quality_problem :: "raw_source \<Rightarrow> py_error + str option" where
  "source_quality_problem s =
     (let normalized = lower (strip (title_and_snippet s));
          snippet = lower (fs_snippet s);
          fitness = lower (text_at (fs_metadata s) ''source_fitness'');
          dim = fs_dimension s;
          problem = (\<lambda>rest. Inr (Some (''Source '' @ fs_id s @ rest)))
      in if has_substring ''pricing'' (lower dim) \<and> fitness \<in> {''changelog'', ''product_docs''} then
           problem ('' has source fitness '' @ [char_of (39::nat)] @ fitness @ [char_of (39::nat)]
             @ '', which cannot support current pricing evidence.'')
         else if length (strip (fs_snippet s)) < 24 \<and> \<not> has_concrete_source_signal dim normalized then
           problem ('' snippet is too short to support a reliable '' @ dim @ '' claim.'')
         else if looks_like_binary_or_pdf (fs_snippet s) then
           problem '' looks like unreadable binary/PDF text, not usable extracted evidence.''
         else if looks_like_soft_404 s then problem '' appears to be a soft 404 or not-found page.''
         else if looks_like_navigation_only snippet \<and> \<not> has_dimension_specific_fact dim snippet then
           problem '' appears to contain mostly navigation or boilerplate text.''
         else if fs_source_type s = ''webpage_verified'' \<and> fs_confidence s \<le> 88/100
             \<and> \<not> has_dimension_specific_fact dim snippet then
           problem ('' has low confidence ('' @ fixed2 (fs_confidence s) @ '') and does not expose a concrete ''
             @ dim @ '' fact in the fetched snippet.'')
         else if fs_url s \<noteq> None \<and> is_low_value_url (source_url_text s) then
           problem '' points to a low-value page for structured evidence extraction.''
         else if fs_url s \<noteq> None \<and> is_dimension_mismatch_url dim (source_url_text s) then
           problem ('' points to a page whose URL is mismatched for '' @ dim @ '' evidence.'')
         else err_bind (competitor_identity_problem s) (\<lambda>identity_problem.
           if identity_problem \<noteq> None then Inr identity_problem
           else if \<not> dimension_terms_present dim normalized then
             problem ('' does not contain enough '' @ dim @ '' terminology for this dimension.'')
           else Inr None))"

end
