(* ===== verification/SourceAdmission.thy ===== *)
theory SourceAdmission
  imports SourceQuality
begin

text \<open>
  research/evidence/admission.py: which extracted fields become accepted evidence items, and which
  captured pages become sources of a run. The callbacks of the collectors are arguments; the list of
  rejection diagnostics, which the code appends to when it is given one, is the state of the loop.
\<close>

section \<open>Extractions: research/models.py\<close>

record evidence_quote =
  eq_text :: str
  eq_source_url :: "str option"
  eq_field :: str

record extraction_result =
  xr_id :: str
  xr_competitor :: str
  xr_dimension :: str
  xr_source_candidate_id :: str
  xr_captured_page_id :: str
  xr_fields :: jdict
  xr_quotes :: "evidence_quote list"
  xr_confidence :: json
  xr_extractor_name :: str
  xr_status :: str

section \<open>Evidence items\<close>

text \<open>The dictionary \<open>{key(x): x for x in xs}\<close>, where a later element replaces an earlier one.\<close>

definition lookup_last :: "('a \<Rightarrow> str) \<Rightarrow> 'a list \<Rightarrow> str \<Rightarrow> 'a option" where
  "lookup_last key xs k = find (\<lambda>x. key x = k) (rev xs)"

definition quote_by_field :: "evidence_quote list \<Rightarrow> str \<Rightarrow> evidence_quote option" where
  "quote_by_field quotes =
     lookup_last eq_field
       (filter (\<lambda>q. eq_field q \<noteq> [] \<and> eq_text q \<noteq> [] \<and> eq_field q \<noteq> ''confidence_reason'') quotes)"

fun empty_evidence_value :: "json \<Rightarrow> bool" where
  "empty_evidence_value JNull = True"
| "empty_evidence_value (JStr s) = (strip s = [])"
| "empty_evidence_value (JList vs) = (vs = [])"
| "empty_evidence_value (JDict d) = (d = [] \<or> map_of d ''status'' = Some (JStr ''not_found_in_source''))"
| "empty_evidence_value v = False"

text \<open>A status that is a list or a dictionary cannot be looked up in a set.\<close>

fun status_waives_quote :: "json \<Rightarrow> py_error + bool" where
  "status_waives_quote (JDict d) =
     (case map_of d ''status'' of
        Some (JList _) \<Rightarrow> Inl (TypeError ''unhashable type: list'')
      | Some (JDict _) \<Rightarrow> Inl (TypeError ''unhashable type: dict'')
      | Some (JStr s) \<Rightarrow> Inr (s \<in> {''not_applicable'', ''unsupported''})
      | _ \<Rightarrow> Inr False)"
| "status_waives_quote v = Inr False"

definition requires_field_quote :: "extraction_result \<Rightarrow> str \<Rightarrow> json \<Rightarrow> py_error + bool" where
  "requires_field_quote x field value =
     (if field = ''confidence_reason'' then Inr False
      else if xr_status x = ''not_applicable'' \<and> field \<in> {''pricing_model_type'', ''not_applicable_reason''}
        then Inr False
      else err_bind (status_waives_quote value) (\<lambda>waived. Inr (\<not> waived)))"

definition page_reasons :: "captured_page option \<Rightarrow> rat \<Rightarrow> str list" where
  "page_reasons page min_page_quality =
     (case page of
        None \<Rightarrow> [''captured_page_missing'']
      | Some p \<Rightarrow>
          if cp_status p \<noteq> ''ok'' then [''capture_status_'' @ cp_status p]
          else if number_of (cp_quality_score p) < min_page_quality
            then [''page_quality_below_'' @ fixed2 min_page_quality]
          else [])"

definition admission_rejection_reasons ::
  "extraction_result \<Rightarrow> str \<Rightarrow> json \<Rightarrow> evidence_quote option \<Rightarrow> captured_page option \<Rightarrow> rat \<Rightarrow> rat
    \<Rightarrow> py_error + str list" where
  "admission_rejection_reasons x field value quote page min_accept_confidence min_page_quality =
     err_bind (requires_field_quote x field value) (\<lambda>required. Inr
       ((if number_of (xr_confidence x) < min_accept_confidence
         then [''extraction_confidence_below_'' @ fixed2 min_accept_confidence] else [])
        @ page_reasons page min_page_quality
        @ (if required \<and> (case quote of None \<Rightarrow> True | Some q \<Rightarrow> length (strip (eq_text q)) < 24)
           then [''field_quote_missing_or_too_short''] else [])
        @ (case quote of None \<Rightarrow> [] | Some q \<Rightarrow>
             (case quote_quality_problem (eq_text q) (xr_dimension x) of None \<Rightarrow> [] | Some p \<Rightarrow> [p]))))"

definition item_metadata ::
  "extraction_result \<Rightarrow> captured_page option \<Rightarrow> search_candidate option \<Rightarrow> jdict" where
  "item_metadata x page candidate =
     (let of_page = (\<lambda>f. case page of None \<Rightarrow> JNull | Some p \<Rightarrow> f p);
          of_candidate = (\<lambda>f. case candidate of None \<Rightarrow> JNull | Some c \<Rightarrow> f c)
      in [(''extraction_id'', JStr (xr_id x)), (''extractor_name'', JStr (xr_extractor_name x)),
          (''capture_status'', of_page (\<lambda>p. JStr (cp_status p))),
          (''capture_failure_reason'', of_page (\<lambda>p. jstr_opt (cp_failure_reason p))),
          (''page_quality_score'', of_page cp_quality_score),
          (''candidate_origin'', of_candidate (\<lambda>c. JStr (sc_origin c))),
          (''candidate_confidence'', of_candidate sc_confidence)])"

definition item_of_field ::
  "extraction_result \<Rightarrow> captured_page option \<Rightarrow> search_candidate option \<Rightarrow> rat \<Rightarrow> rat \<Rightarrow> str \<times> json
    \<Rightarrow> py_error + evidence_item" where
  "item_of_field x page candidate min_accept_confidence min_page_quality = (\<lambda>(field, value).
     let quote = quote_by_field (xr_quotes x) field
     in err_bind (admission_rejection_reasons x field value quote page min_accept_confidence min_page_quality)
          (\<lambda>reasons. Inr (fill_item_id
            \<lparr>im_id = [], im_competitor = xr_competitor x, im_dimension = xr_dimension x, im_field = field,
             im_value = value, im_source_candidate_id = xr_source_candidate_id x,
             im_captured_page_id = xr_captured_page_id x,
             im_source_url = opt_or (case quote of None \<Rightarrow> None | Some q \<Rightarrow> eq_source_url q)
               (map_option cp_final_url page),
             im_quote = (case quote of None \<Rightarrow> [] | Some q \<Rightarrow> eq_text q),
             im_confidence = xr_confidence x,
             im_status = (if reasons \<noteq> [] then ''rejected'' else ''accepted''),
             im_rejection_reason = (if reasons \<noteq> [] then Some (join ''; '' reasons) else None),
             im_raw_source_id = None, im_metadata = item_metadata x page candidate\<rparr>)))"

definition items_of_extraction ::
  "captured_page list \<Rightarrow> search_candidate list \<Rightarrow> rat \<Rightarrow> rat \<Rightarrow> extraction_result
    \<Rightarrow> py_error + evidence_item list" where
  "items_of_extraction pages candidates min_accept_confidence min_page_quality x =
     err_map (item_of_field x (lookup_last cp_id pages (xr_captured_page_id x))
         (lookup_last sc_id candidates (xr_source_candidate_id x)) min_accept_confidence min_page_quality)
       (filter (\<lambda>(field, value). \<not> empty_evidence_value value) (xr_fields x))"

definition admit_evidence_items ::
  "extraction_result list \<Rightarrow> captured_page list \<Rightarrow> search_candidate list \<Rightarrow> rat \<Rightarrow> rat
    \<Rightarrow> py_error + evidence_item list" where
  "admit_evidence_items extractions pages candidates min_accept_confidence min_page_quality =
     err_bind (err_map (items_of_extraction pages candidates min_accept_confidence min_page_quality) extractions)
       (\<lambda>groups. Inr (concat groups))"

text \<open>research/evidence/items.py, without pages, where every item is refused for its page.\<close>

definition evidence_items_from_extractions ::
  "extraction_result list \<Rightarrow> rat \<Rightarrow> py_error + evidence_item list" where
  "evidence_items_from_extractions extractions min_accept_confidence =
     admit_evidence_items extractions [] [] min_accept_confidence (25/100)"

section \<open>Sources\<close>

definition content_hash16 :: "str \<Rightarrow> str" where
  "content_hash16 text = take 16 (sha256_hex text)"

text \<open>The clock, and \<open>HttpUrl\<close> of pydantic: the text of a URL it accepts.\<close>

record admission_env =
  an_now :: datetime
  an_http_url :: "str \<Rightarrow> str option"

definition raw_source_from_capture ::
  "admission_env \<Rightarrow> research_brief \<Rightarrow> search_candidate \<Rightarrow> captured_page \<Rightarrow> rat \<Rightarrow> str \<Rightarrow> str \<Rightarrow> jdict
    \<Rightarrow> py_error + raw_source" where
  "raw_source_from_capture env brief c page confidence source_type snippet metadata =
     (let evidence_snippet = str_or snippet (str_or (cp_snippet page) (sc_snippet c));
          title = str_or (cp_title page) (sc_title c);
          content_hash = str_or (cp_content_hash page) (content_hash16 (str_or evidence_snippet (sc_title c)))
      in err_bind (compute_raw_source_id (Some source_type) (Some (rb_competitor brief)) (Some (rb_dimension brief))
             (Some (cp_final_url page)) (Some content_hash) (Some title) (Some evidence_snippet)
             (Some (rb_run_id brief)) None) (\<lambda>i.
         case an_http_url env (cp_final_url page) of
           None \<Rightarrow> Inl (ValueError ''url'')
         | Some url \<Rightarrow>
             if confidence < 0 \<or> 1 < confidence then Inl (ValueError ''confidence'')
             else Inr \<lparr>fs_id = i, fs_competitor = rb_competitor brief, fs_covered_competitors = [],
               fs_dimension = rb_dimension brief, fs_source_type = source_type, fs_title = title,
               fs_url = Some url, fs_snippet = evidence_snippet, fs_content_hash = content_hash,
               fs_confidence = confidence, fs_candidate_origin = sc_origin c,
               fs_candidate_rank = JInt (sc_rank c), fs_candidate_confidence = sc_confidence c,
               fs_fetch_method = cp_fetch_method page, fs_quality_score = cp_quality_score page,
               fs_failure_reason = jstr_opt (cp_failure_reason page),
               fs_metadata = dict_merge
                 [(''requested_url'', JStr (cp_requested_url page)), (''final_url'', JStr (cp_final_url page)),
                  (''redirected'', JBool (rstrip_slash (cp_requested_url page) \<noteq> rstrip_slash (cp_final_url page)))]
                 metadata,
               fs_extracted_at = an_now env\<rparr>))"

text \<open>What the collectors pass to the admission of sources.\<close>

record admission_request =
  aq_brief :: research_brief
  aq_candidates :: "search_candidate list"
  aq_pages :: "captured_page list"
  aq_items :: "evidence_item list"
  aq_batch_sources :: "raw_source list"
  aq_target_source_count :: int
  aq_requires_accepted_evidence :: bool
  aq_source_exists :: "str \<Rightarrow> raw_source list \<Rightarrow> bool"
  aq_confidence_for_source :: "search_candidate \<Rightarrow> captured_page \<Rightarrow> str \<Rightarrow> evidence_item list \<Rightarrow> rat"
  aq_fallback_snippet :: "captured_page \<Rightarrow> str"
  aq_source_is_usable :: "raw_source \<Rightarrow> py_error + bool"

definition page_items :: "admission_request \<Rightarrow> captured_page \<Rightarrow> evidence_item list" where
  "page_items q page =
     (case map_of (accepted_evidence_by_page (aq_items q)) (cp_id page) of None \<Rightarrow> [] | Some items \<Rightarrow> items)"

definition research_page_score :: "admission_request \<Rightarrow> captured_page \<Rightarrow> int \<times> rat \<times> rat \<times> int" where
  "research_page_score q page =
     (let items = page_items q page
      in (if items \<noteq> [] then 1 else 0,
          case max_by id (map (\<lambda>i. number_of (im_confidence i)) items) of None \<Rightarrow> 0 | Some m \<Rightarrow> m,
          number_of (cp_quality_score page), cp_text_length page))"

type_synonym diagnostics = "jdict list option"

definition record_raw_source_rejection ::
  "captured_page \<Rightarrow> search_candidate option \<Rightarrow> str \<Rightarrow> str \<Rightarrow> raw_source option \<Rightarrow> diagnostics \<Rightarrow> diagnostics" where
  "record_raw_source_rejection page candidate reason detail source ds =
     map_option (\<lambda>entries. entries @
       [[(''reason'', JStr reason), (''detail'', JStr detail), (''candidate_id'', JStr (cp_candidate_id page)),
         (''candidate_origin'', jstr_opt (map_option sc_origin candidate)),
         (''candidate_url'', jstr_opt (map_option sc_url candidate)),
         (''requested_url'', JStr (cp_requested_url page)), (''final_url'', JStr (cp_final_url page)),
         (''page_status'', JStr (cp_status page)), (''raw_source_id'', jstr_opt (map_option fs_id source))]]) ds"

definition rejected_page ::
  "captured_page \<Rightarrow> search_candidate option \<Rightarrow> str \<Rightarrow> str \<Rightarrow> raw_source option
    \<Rightarrow> (diagnostics, raw_source option) op" where
  "rejected_page page candidate reason detail source =
     op_bind (op_modify (record_raw_source_rejection page candidate reason detail source))
       (\<lambda>_. op_return None)"

definition source_of_page ::
  "admission_env \<Rightarrow> admission_request \<Rightarrow> search_candidate \<Rightarrow> captured_page \<Rightarrow> py_error + raw_source" where
  "source_of_page env q c page =
     (let items = page_items q page;
          snippet = snippet_from_evidence_items items (aq_fallback_snippet q page) 900
      in err_bind (classify_source_fitness (aq_brief q) c page) (\<lambda>fitness.
           raw_source_from_capture env (aq_brief q) c page (aq_confidence_for_source q c page snippet items)
             ''webpage_verified'' snippet
             [(''source_fitness'', JStr (sf_fitness fitness)),
              (''source_fitness_reason'', JStr (sf_reason fitness)),
              (''coverage_intents'', jstrs (sf_coverage_intents fitness)),
              (''normalized_fields'',
               JList (normalized_fields_as_dicts (normalized_fields_from_evidence_items items)))]))"

definition admit_page ::
  "admission_env \<Rightarrow> admission_request \<Rightarrow> raw_source list \<Rightarrow> captured_page
    \<Rightarrow> (diagnostics, raw_source option) op" where
  "admit_page env q sources page =
     (case lookup_last sc_id (aq_candidates q) (cp_candidate_id page) of
        None \<Rightarrow> rejected_page page None ''candidate_missing''
          (''Captured page '' @ cp_id page @ '' has no matching source candidate.'') None
      | Some c \<Rightarrow>
          if cp_status page \<noteq> ''ok'' then
            rejected_page page (Some c) ''capture_not_ok''
              (or_str (cp_failure_reason page) (or_str (cp_error page) (cp_status page))) None
          else if aq_requires_accepted_evidence q \<and> page_items q page = [] then
            rejected_page page (Some c) ''missing_accepted_evidence''
              ''No accepted evidence items were attached to this captured page.'' None
          else if aq_source_exists q (cp_final_url page) (aq_batch_sources q @ sources) then
            rejected_page page (Some c) ''duplicate_source''
              ''A source with the same URL, dimension, and competitor was already collected.'' None
          else op_bind (op_try (source_of_page env q c page)) (\<lambda>source.
            op_bind (op_try (aq_source_is_usable q source)) (\<lambda>usable.
              if \<not> usable then
                op_bind (op_try (source_quality_problem source)) (\<lambda>problem.
                  rejected_page page (Some c) ''source_quality_problem''
                    (or_str problem ''Source usability callback rejected this RawSource.'') (Some source))
              else op_return (Some source))))"

fun admit_pages ::
  "admission_env \<Rightarrow> admission_request \<Rightarrow> captured_page list \<Rightarrow> raw_source list
    \<Rightarrow> (diagnostics, raw_source list) op" where
  "admit_pages env q [] sources = op_return sources"
| "admit_pages env q (page # pages) sources =
     (if aq_target_source_count q \<le> int (length (aq_batch_sources q) + length sources) then op_return sources
      else op_bind (admit_page env q sources page) (\<lambda>admitted.
        admit_pages env q pages (case admitted of None \<Rightarrow> sources | Some s \<Rightarrow> sources @ [s])))"

definition raw_sources_from_research_result ::
  "admission_env \<Rightarrow> admission_request \<Rightarrow> (diagnostics, raw_source list) op" where
  "raw_sources_from_research_result env q =
     admit_pages env q (sort_desc (research_page_score q) (aq_pages q)) []"

text \<open>The callback used when the caller gives none.\<close>

definition without_quality_problem :: "raw_source \<Rightarrow> py_error + bool" where
  "without_quality_problem s = err_bind (source_quality_problem s) (\<lambda>p. Inr (p = None))"

end
