(* ===== verification/AdmissionProps.thy ===== *)
theory AdmissionProps
  imports SourceAdmission
begin

text \<open>
  What the admission of evidence guarantees: an accepted item stands on a page that was captured and
  on a quote that is fit to publish; an admitted source comes from a captured page with accepted
  evidence and passes the check of the caller; and every page is accounted for.
\<close>

section \<open>Evidence items\<close>

lemma lookup_last_Some: "lookup_last key xs k = Some x \<Longrightarrow> x \<in> set xs \<and> key x = k"
  by (auto simp: lookup_last_def find_Some_iff) (metis nth_mem set_rev length_rev)

lemma fill_item_id_fields [simp]:
  "im_status (fill_item_id i) = im_status i" "im_value (fill_item_id i) = im_value i"
  "im_field (fill_item_id i) = im_field i" "im_quote (fill_item_id i) = im_quote i"
  "im_captured_page_id (fill_item_id i) = im_captured_page_id i"
  "im_dimension (fill_item_id i) = im_dimension i" "im_confidence (fill_item_id i) = im_confidence i"
  "im_rejection_reason (fill_item_id i) = im_rejection_reason i"
  by (simp_all add: fill_item_id_def)

text \<open>The page and the quote an accepted item stands on.\<close>

definition page_grounded :: "captured_page list \<Rightarrow> rat \<Rightarrow> str \<Rightarrow> bool" where
  "page_grounded pages min_page_quality page_id \<longleftrightarrow>
     (\<exists>p\<in>set pages. cp_id p = page_id \<and> cp_status p = ''ok'' \<and> min_page_quality \<le> number_of (cp_quality_score p))"

definition quote_grounded :: "extraction_result \<Rightarrow> evidence_item \<Rightarrow> bool" where
  "quote_grounded x i \<longleftrightarrow>
     (if im_quote i = [] then requires_field_quote x (im_field i) (im_value i) = Inr False
      else quote_quality_problem (im_quote i) (im_dimension i) = None
        \<and> (\<exists>q\<in>set (xr_quotes x). eq_text q = im_quote i \<and> eq_field q = im_field i))"

lemma page_reasons_Nil: "page_reasons page m = [] \<longleftrightarrow>
    (\<exists>p. page = Some p \<and> cp_status p = ''ok'' \<and> m \<le> number_of (cp_quality_score p))"
  by (auto simp: page_reasons_def split: option.splits if_splits)

lemma quote_by_field_Some: "quote_by_field qs f = Some q \<Longrightarrow> q \<in> set qs \<and> eq_field q = f \<and> eq_text q \<noteq> []"
  by (auto simp: quote_by_field_def dest!: lookup_last_Some)

lemma item_of_field_accepted:
  assumes "item_of_field x (lookup_last cp_id pages pid) c m n (f, v) = Inr i" "im_status i = ''accepted''"
  shows "m \<le> number_of (xr_confidence x) \<and> page_grounded pages n pid \<and> quote_grounded x i"
proof -
  let ?q = "quote_by_field (xr_quotes x) f"
  obtain reasons where r: "admission_rejection_reasons x f v ?q (lookup_last cp_id pages pid) m n = Inr reasons"
    and i: "im_status i = (if reasons \<noteq> [] then ''rejected'' else ''accepted'')" "im_field i = f" "im_value i = v"
      "im_quote i = (case ?q of None \<Rightarrow> [] | Some q \<Rightarrow> eq_text q)" "im_dimension i = xr_dimension x"
    using assms(1) by (auto simp: item_of_field_def Let_def elim!: err_bind_Inr)
  then have none: "reasons = []" using assms(2) by (auto split: if_splits)
  obtain required where req: "requires_field_quote x f v = Inr required"
    and parts: "m \<le> number_of (xr_confidence x)" "page_reasons (lookup_last cp_id pages pid) n = []"
      "\<not> (required \<and> (case ?q of None \<Rightarrow> True | Some q \<Rightarrow> length (strip (eq_text q)) < 24))"
      "(case ?q of None \<Rightarrow> [] | Some q \<Rightarrow> case quote_quality_problem (eq_text q) (xr_dimension x) of None \<Rightarrow> [] | Some p \<Rightarrow> [p]) = []"
    using r none by (auto simp: admission_rejection_reasons_def split: if_splits elim!: err_bind_Inr)
  have "page_grounded pages n pid"
    using parts(2) by (auto simp: page_reasons_Nil page_grounded_def dest!: lookup_last_Some)
  moreover have "quote_grounded x i"
  proof (cases ?q)
    case None
    then show ?thesis using req parts(3) i by (simp add: quote_grounded_def)
  next
    case (Some q)
    then show ?thesis using parts(4) i quote_by_field_Some [OF Some]
      by (auto simp: quote_grounded_def split: option.splits)
  qed
  ultimately show ?thesis using parts(1) by blast
qed

text \<open>Every accepted evidence item comes from an extraction with enough confidence, names a page that
  was captured with enough quality, has a value, and stands on a quote of its field without a quality
  problem unless its field needs none.\<close>

theorem accepted_items_grounded:
  assumes "admit_evidence_items extractions pages candidates m n = Inr items"
    and "i \<in> set items" "im_status i = ''accepted''"
  shows "\<exists>x\<in>set extractions. (im_field i, im_value i) \<in> set (xr_fields x)
    \<and> \<not> empty_evidence_value (im_value i) \<and> m \<le> number_of (xr_confidence x)
    \<and> page_grounded pages n (im_captured_page_id i) \<and> quote_grounded x i"
proof -
  from assms(1) obtain groups where
    "err_map (items_of_extraction pages candidates m n) extractions = Inr groups" "items = concat groups"
    by (auto simp: admit_evidence_items_def elim!: err_bind_Inr)
  with assms(2) obtain g x where g: "i \<in> set g" "x \<in> set extractions"
    "items_of_extraction pages candidates m n x = Inr g"
    by (metis (no_types, lifting) UN_E err_map_in set_concat)
  from err_map_in [OF g(3) [unfolded items_of_extraction_def] g(1)] obtain f v where
    fv: "(f, v) \<in> set (xr_fields x)" "\<not> empty_evidence_value v"
      "item_of_field x (lookup_last cp_id pages (xr_captured_page_id x))
        (lookup_last sc_id candidates (xr_source_candidate_id x)) m n (f, v) = Inr i" by auto
  have "im_field i = f" "im_value i = v" "im_captured_page_id i = xr_captured_page_id x"
    using fv(3) by (auto simp: item_of_field_def Let_def elim!: err_bind_Inr)
  with fv g(2) item_of_field_accepted [OF fv(3) assms(3)] show ?thesis by auto
qed

section \<open>The items of a page\<close>

lemma add_to_page_lookup:
  "map_of (add_to_page i g) p = (if p = im_captured_page_id i
     then Some ((case map_of g p of None \<Rightarrow> [] | Some old \<Rightarrow> old) @ [i]) else map_of g p)"
  by (auto simp: add_to_page_def dict_simps split: option.splits)

lemma fold_add_to_page:
  "(case map_of (fold add_to_page items g) p of None \<Rightarrow> [] | Some old \<Rightarrow> old) =
     (case map_of g p of None \<Rightarrow> [] | Some old \<Rightarrow> old) @ filter (\<lambda>i. im_captured_page_id i = p) items"
  by (induction items arbitrary: g) (auto simp: add_to_page_lookup)

lemma page_items_exact:
  "page_items q page = filter (\<lambda>i. im_status i = ''accepted'' \<and> im_captured_page_id i = cp_id page) (aq_items q)"
proof -
  have "page_items q page = filter (\<lambda>i. im_captured_page_id i = cp_id page)
      (filter (\<lambda>i. im_status i = ''accepted'') (aq_items q))"
    using fold_add_to_page [of "accepted_evidence_items (aq_items q)" "[]" "cp_id page"]
    by (simp add: page_items_def accepted_evidence_by_page_def accepted_evidence_items_def)
  also have "\<dots> = filter (\<lambda>i. im_status i = ''accepted'' \<and> im_captured_page_id i = cp_id page) (aq_items q)"
    by (simp add: conj_commute)
  finally show ?thesis .
qed


section \<open>Admitted sources\<close>

text \<open>What a page has passed when its source is admitted after the sources \<open>earlier\<close>.\<close>

definition page_admits ::
  "admission_env \<Rightarrow> admission_request \<Rightarrow> raw_source list \<Rightarrow> captured_page \<Rightarrow> raw_source \<Rightarrow> bool" where
  "page_admits env q earlier page s \<longleftrightarrow>
     cp_status page = ''ok''
     \<and> (\<exists>c\<in>set (aq_candidates q). sc_id c = cp_candidate_id page \<and> source_of_page env q c page = Inr s)
     \<and> (aq_requires_accepted_evidence q \<longrightarrow>
          (\<exists>i\<in>set (aq_items q). im_status i = ''accepted'' \<and> im_captured_page_id i = cp_id page))
     \<and> \<not> aq_source_exists q (cp_final_url page) (aq_batch_sources q @ earlier)
     \<and> aq_source_is_usable q s = Inr True"

text \<open>A page either gives a source, without a diagnostic, or exactly one diagnostic.\<close>

definition page_outcome ::
  "admission_env \<Rightarrow> admission_request \<Rightarrow> raw_source list \<Rightarrow> captured_page \<Rightarrow> raw_source option
    \<Rightarrow> jdict list \<Rightarrow> bool" where
  "page_outcome env q earlier page r new \<longleftrightarrow>
     (case r of
        Some s \<Rightarrow> page_admits env q earlier page s \<and> new = []
      | None \<Rightarrow> (\<exists>entry. new = [entry] \<and> map_of entry ''final_url'' = Some (JStr (cp_final_url page))
          \<and> map_of entry ''candidate_id'' = Some (JStr (cp_candidate_id page))))"

lemma op_bind_Inr:
  assumes "op_bind m f s = (Inr y, s')" obtains x t where "m s = (Inr x, t)" "f x t = (Inr y, s')"
  using assms by (auto simp: op_bind_def split: prod.splits sum.splits)

lemma rejected_page_outcome:
  assumes "rejected_page page c reason detail src (Some ds) = (Inr r, ds')"
  shows "\<exists>new. ds' = Some (ds @ new) \<and> page_outcome env q earlier page r new"
  using assms
  by (auto simp: rejected_page_def op_bind_def op_modify_def op_return_def record_raw_source_rejection_def
      page_outcome_def)

lemma op_try_Inr: "op_try x s = (Inr y, t) \<longleftrightarrow> x = Inr y \<and> t = s"
  by (auto simp: op_try_def)

lemma admit_page_outcome:
  assumes "admit_page env q earlier page (Some ds) = (Inr r, ds')"
  shows "\<exists>new. ds' = Some (ds @ new) \<and> page_outcome env q earlier page r new"
proof (cases "lookup_last sc_id (aq_candidates q) (cp_candidate_id page)")
  case None
  then show ?thesis using assms by (auto simp: admit_page_def intro: rejected_page_outcome)
next
  case (Some c)
  note c = lookup_last_Some [OF Some]
  consider "cp_status page \<noteq> ''ok''"
    | "cp_status page = ''ok''" "aq_requires_accepted_evidence q" "page_items q page = []"
    | "cp_status page = ''ok''" "\<not> (aq_requires_accepted_evidence q \<and> page_items q page = [])"
      "aq_source_exists q (cp_final_url page) (aq_batch_sources q @ earlier)"
    | "cp_status page = ''ok''" "\<not> (aq_requires_accepted_evidence q \<and> page_items q page = [])"
      "\<not> aq_source_exists q (cp_final_url page) (aq_batch_sources q @ earlier)"
    by blast
  then show ?thesis
  proof cases
    case 4
    then obtain s u where s: "source_of_page env q c page = Inr s" "aq_source_is_usable q s = Inr u"
      and rest: "(if \<not> u then op_bind (op_try (source_quality_problem s)) (\<lambda>problem.
           rejected_page page (Some c) ''source_quality_problem''
             (or_str problem ''Source usability callback rejected this RawSource.'') (Some s))
         else op_return (Some s)) (Some ds) = (Inr r, ds')"
      using assms by (auto simp: admit_page_def Some op_try_Inr elim!: op_bind_Inr)
    show ?thesis
    proof (cases u)
      case True
      have "aq_requires_accepted_evidence q \<Longrightarrow> \<exists>i\<in>set (aq_items q). im_status i = ''accepted'' \<and> im_captured_page_id i = cp_id page"
        using 4(2) by (auto simp: page_items_exact filter_empty_conv)
      then have "page_admits env q earlier page s"
        using 4 s True c by (auto simp: page_admits_def)
      then show ?thesis using rest True by (auto simp: op_return_def page_outcome_def)
    next
      case False
      then show ?thesis using rest by (auto simp: op_try_Inr elim!: op_bind_Inr intro: rejected_page_outcome)
    qed
  qed (use assms in \<open>auto simp: admit_page_def Some intro: rejected_page_outcome\<close>)
qed

text \<open>The loop over the pages: the sources admitted, in order, and the diagnostics of the others.\<close>

lemma admit_pages_outcome:
  assumes "admit_pages env q pages sources (Some ds) = (Inr result, ds')"
  shows "\<exists>more new. result = sources @ more \<and> ds' = Some (ds @ new)
    \<and> length more + length new \<le> length pages
    \<and> (length more + length new = length pages
       \<or> aq_target_source_count q \<le> int (length (aq_batch_sources q) + length result))
    \<and> (\<forall>n<length more. \<exists>page\<in>set pages. page_admits env q (sources @ take n more) page (more ! n))
    \<and> (more = [] \<or> int (length (aq_batch_sources q) + length result) \<le> aq_target_source_count q)"
  using assms
proof (induction pages arbitrary: sources ds)
  case Nil
  then show ?case by (auto simp: op_return_def)
next
  case (Cons page pages)
  show ?case
  proof (cases "aq_target_source_count q \<le> int (length (aq_batch_sources q) + length sources)")
    case True
    then show ?thesis using Cons.prems by (auto simp: op_return_def)
  next
    case False
    then obtain r t where r: "admit_page env q sources page (Some ds) = (Inr r, t)"
      and rest: "admit_pages env q pages (case r of None \<Rightarrow> sources | Some s \<Rightarrow> sources @ [s]) t = (Inr result, ds')"
      using Cons.prems by (auto elim!: op_bind_Inr)
    from admit_page_outcome [OF r] obtain first where t: "t = Some (ds @ first)"
      and out: "page_outcome env q sources page r first" by blast
    from Cons.IH [OF rest [unfolded t]] obtain more new where
      ih: "result = (case r of None \<Rightarrow> sources | Some s \<Rightarrow> sources @ [s]) @ more" "ds' = Some ((ds @ first) @ new)"
        "length more + length new \<le> length pages"
        "length more + length new = length pages
          \<or> aq_target_source_count q \<le> int (length (aq_batch_sources q) + length result)"
        "\<forall>n<length more. \<exists>page\<in>set pages. page_admits env q
          ((case r of None \<Rightarrow> sources | Some s \<Rightarrow> sources @ [s]) @ take n more) page (more ! n)"
        "more = [] \<or> int (length (aq_batch_sources q) + length result) \<le> aq_target_source_count q"
      by blast
    show ?thesis
    proof (cases r)
      case None
      then obtain entry where "first = [entry]" using out by (auto simp: page_outcome_def)
      then show ?thesis using ih None by (intro exI [of _ more] exI [of _ "first @ new"]) auto
    next
      case (Some s)
      then have s: "page_admits env q sources page s" "first = []" using out by (auto simp: page_outcome_def)
      have "\<exists>p\<in>set (page # pages). page_admits env q (sources @ take n (s # more)) p ((s # more) ! n)"
        if "n < length (s # more)" for n
        using that s(1) ih(5) Some by (cases n) auto
      moreover have "int (length (aq_batch_sources q) + length result) \<le> aq_target_source_count q"
        using ih(1,6) Some False by (cases "more = []") auto
      ultimately show ?thesis
        using ih s(2) Some by (intro exI [of _ "s # more"] exI [of _ new]) auto
    qed
  qed
qed

lemma admitted_source_page:
  assumes "raw_sources_from_research_result env q (Some ds) = (Inr sources, ds')" "s \<in> set sources"
  shows "\<exists>page earlier. page_admits env q earlier page s"
proof -
  obtain n where n: "n < length sources" "s = sources ! n" using assms(2) by (metis in_set_conv_nth)
  from admit_pages_outcome [OF assms(1) [unfolded raw_sources_from_research_result_def]]
  obtain more where more: "sources = [] @ more"
    "\<forall>n<length more. \<exists>page\<in>set (sort_desc (research_page_score q) (aq_pages q)).
       page_admits env q ([] @ take n more) page (more ! n)" by blast
  then show ?thesis using n by simp blast
qed



section \<open>The default check\<close>

lemma source_of_page_type:
  "source_of_page env q c page = Inr s \<Longrightarrow> fs_source_type s = ''webpage_verified'' \<and> fs_dimension s = rb_dimension (aq_brief q)
     \<and> fs_competitor s = rb_competitor (aq_brief q)"
  by (auto simp: source_of_page_def raw_source_from_capture_def Let_def elim!: err_bind_Inr
      split: option.splits if_splits)

text \<open>With the default check every admitted source is a verified page of the brief's slice without a
  quality problem.\<close>

theorem default_admission_is_clean:
  assumes "raw_sources_from_research_result env q (Some ds) = (Inr sources, ds')"
    and "aq_source_is_usable q = without_quality_problem" and "s \<in> set sources"
  shows "source_quality_problem s = Inr None \<and> fs_source_type s = ''webpage_verified''
    \<and> fs_dimension s = rb_dimension (aq_brief q) \<and> fs_competitor s = rb_competitor (aq_brief q)"
proof -
  obtain page earlier where "page_admits env q earlier page s"
    using admitted_source_page [OF assms(1,3)] by blast
  then obtain c where "source_of_page env q c page = Inr s" "without_quality_problem s = Inr True"
    using assms(2) by (auto simp: page_admits_def)
  then show ?thesis
    by (auto simp: without_quality_problem_def dest: source_of_page_type elim!: err_bind_Inr)
qed

section \<open>Witnesses\<close>

definition sample_brief :: research_brief where
  "sample_brief = \<lparr>rb_run_id = ''run-1'', rb_competitor = ''Acme'', rb_dimension = ''pricing'', rb_homepage_hint = None\<rparr>"

definition sample_candidate :: search_candidate where
  "sample_candidate =
     \<lparr>sc_id = ''c1'', sc_title = ''Plans'', sc_url = ''https://acme.example/plans'', sc_snippet = [],
      sc_origin = ''manual'', sc_rank = 1, sc_confidence = JFloat 9 (-1)\<rparr>"

definition sample_page :: captured_page where
  "sample_page =
     \<lparr>cp_id = ''p1'', cp_candidate_id = ''c1'', cp_requested_url = ''https://acme.example/plans'',
      cp_final_url = ''https://acme.example/plans'', cp_status = ''ok'', cp_title = ''Plans'',
      cp_text = ''Team plan'', cp_markdown = [], cp_snippet = ''Team plan'', cp_content_hash = ''h1'',
      cp_error = None, cp_fetch_method = ''http'', cp_quality_score = JFloat 8 (-1), cp_text_length = 9,
      cp_failure_reason = None\<rparr>"

definition sample_extraction :: extraction_result where
  "sample_extraction =
     \<lparr>xr_id = ''x1'', xr_competitor = ''Acme'', xr_dimension = ''feature'', xr_source_candidate_id = ''c1'',
      xr_captured_page_id = ''p1'',
      xr_fields = [(''sso'', JDict [(''status'', JStr ''unsupported'')]), (''notes'', JNull)], xr_quotes = [],
      xr_confidence = JFloat 9 (-1), xr_extractor_name = ''feature'', xr_status = ''extracted''\<rparr>"

lemmas sample_simps = sample_brief_def sample_candidate_def sample_page_def sample_extraction_def

theorem accepted_items_grounded_witness:
  "\<exists>i. admit_evidence_items [sample_extraction] [sample_page] [sample_candidate] (35/100) (25/100) = Inr [i]
     \<and> im_field i = ''sso'' \<and> page_grounded [sample_page] (25/100) (im_captured_page_id i)"
proof -
  obtain i where i: "admit_evidence_items [sample_extraction] [sample_page] [sample_candidate] (35/100) (25/100) = Inr [i]"
    and field: "im_field i = ''sso''" and status: "im_status i = ''accepted''"
    by (auto simp: admit_evidence_items_def items_of_extraction_def item_of_field_def lookup_last_def sample_simps
        quote_by_field_def admission_rejection_reasons_def requires_field_quote_def page_reasons_def
        number_of_def Let_def)
  from accepted_items_grounded [OF i _ status] field i show ?thesis by auto
qed











end
