(* ===== verification/CoverageReview.thy ===== *)
theory CoverageReview
  imports Graph RunRecords ClaimText Substrings
begin

text \<open>
  The coverage review of agents/qa/logic.py: what the collected sources of a run leave open.
  Sources are matched to the competitors of the plan by their labels (agents/analysts/logic.py,
  agents/collectors/logic.py). The reviews of missing dimensions, unverified sources, the
  coverage of every competitor, the strength of persona evidence, community searches and empty
  analyst slices return issues with the redo scope that repairs them; a retry of the collection
  drops the sources its blockers name. Text is 8-bit, where \<open>casefold\<close> is \<open>lower\<close>.
\<close>

section \<open>The run under review\<close>

text \<open>A run with the knowledge bases of its competitors: per competitor the findings by dimension.\<close>

record reviewed_run = finished_run +
  vw_competitor_kbs :: "(str \<times> (str \<times> str list) list) list"

abbreviation review_competitors :: "('a reviewed_run_scheme) \<Rightarrow> str list" where
  "review_competitors r \<equiv> ap_competitors (rn_plan r)"

abbreviation review_dimensions :: "('a reviewed_run_scheme) \<Rightarrow> str list" where
  "review_dimensions r \<equiv> ap_dimensions (rn_plan r)"

section \<open>Labels of competitors: agents/analysts/logic.py\<close>

text \<open>One or more blanks at the head of a text, consumed; \<open>None\<close> when there is none.\<close>

definition after_blanks :: "str \<Rightarrow> str option" where
  "after_blanks s = (case s of [] \<Rightarrow> None
     | c # rest \<Rightarrow> if is_space c then Some (dropWhile is_space rest) else None)"

definition after_word :: "str \<Rightarrow> str \<Rightarrow> str option" where
  "after_word w s = (if starts_with w s then Some (drop (length w) s) else None)"

text \<open>\<open>all\s+\d+\s+(?:target\s+)?(?:models|competitors|llms)\b\<close> at the head of a text.\<close>

definition counted_all_here :: "str \<Rightarrow> bool" where
  "counted_all_here s =
     (case Option.bind (after_word ''all'' s) after_blanks of
        None \<Rightarrow> False
      | Some t \<Rightarrow>
          t \<noteq> [] \<and> is_digit (hd t) \<and>
          (case after_blanks (dropWhile is_digit t) of
             None \<Rightarrow> False
           | Some u \<Rightarrow>
               (let v = (case Option.bind (after_word ''target'' u) after_blanks of
                           None \<Rightarrow> u | Some v \<Rightarrow> v)
                in list_ex (\<lambda>w. case after_word w v of None \<Rightarrow> False | Some x \<Rightarrow> word_ends x)
                     [''models'', ''competitors'', ''llms''])))"

fun counted_all :: "bool \<Rightarrow> str \<Rightarrow> bool" where
  "counted_all in_word [] = False"
| "counted_all in_word (c # cs) =
     (\<not> in_word \<and> counted_all_here (c # cs) \<or> counted_all (is_word_char c) cs)"

definition competitor_label_means_all :: "str \<Rightarrow> bool" where
  "competitor_label_means_all source_key \<longleftrightarrow>
     starts_with ''all '' source_key
     \<or> has_substring ''all target'' source_key
     \<or> has_substring ''all competitors'' source_key
     \<or> has_substring ''all models'' source_key
     \<or> has_substring ''cross-model all'' source_key
     \<or> has_substring ''cross model all'' source_key
     \<or> counted_all False source_key"

text \<open>
  \<open>re.split(r",|;|/|\||\s+and\s+|\s*&\s*", label)\<close>: the length of the separator at the head of a
  text, and the pieces between separators.
\<close>

definition label_separator :: "str \<Rightarrow> nat option" where
  "label_separator s =
     (let blanks = takeWhile is_space s; rest = dropWhile is_space s;
          tail_blanks = (\<lambda>w. length (takeWhile is_space (drop (length w) rest)))
      in if s \<noteq> [] \<and> hd s \<in> {CHR '','', CHR '';'', CHR ''/'', CHR ''|''} then Some 1
         else if blanks \<noteq> [] \<and> starts_with ''and'' rest \<and> 0 < tail_blanks ''and''
           then Some (length blanks + 3 + tail_blanks ''and'')
         else if starts_with ''&'' rest then Some (length blanks + 1 + tail_blanks ''&'')
         else None)"

fun split_label :: "nat \<Rightarrow> str \<Rightarrow> str \<Rightarrow> str list" where
  "split_label skip cur [] = [cur]"
| "split_label skip cur (c # cs) =
     (if 0 < skip then split_label (skip - 1) cur cs
      else case label_separator (c # cs) of
        Some n \<Rightarrow> cur # split_label (n - 1) [] cs
      | None \<Rightarrow> split_label 0 (cur @ [c]) cs)"

definition label_parts :: "str \<Rightarrow> str list" where
  "label_parts label =
     map (\<lambda>p. lower (strip p)) (filter (\<lambda>p. strip p \<noteq> []) (split_label 0 [] label))"

definition competitor_label_matches :: "str \<Rightarrow> str \<Rightarrow> bool" where
  "competitor_label_matches label competitor =
     (let source_competitor = strip label;
          source_key = lower source_competitor;
          competitor_key = lower (strip competitor)
      in if source_key = competitor_key then True
         else if competitor_label_means_all source_key then True
         else if competitor_key \<in> set (label_parts source_competitor) then True
         else has_substring competitor_key source_key)"

definition source_matches_competitor :: "raw_source \<Rightarrow> str \<Rightarrow> bool" where
  "source_matches_competitor s competitor =
     (if fs_covered_competitors s \<noteq> [] then competitor \<in> set (fs_covered_competitors s)
      else competitor_label_matches (fs_competitor s) competitor)"

definition normalize_covered_competitors :: "str list \<Rightarrow> str \<Rightarrow> str list" where
  "normalize_covered_competitors competitors label =
     (if competitor_label_means_all (lower (strip label)) then competitors
      else let matched = filter (competitor_label_matches label) competitors
           in if matched \<noteq> [] then matched
              else if strip label \<noteq> [] then [strip label] else [])"

text \<open>\<open>source.covered_competitors or self._normalize_covered_competitors(...)\<close>.\<close>

definition covered_of :: "str list \<Rightarrow> raw_source \<Rightarrow> str list" where
  "covered_of competitors s =
     (if fs_covered_competitors s \<noteq> [] then fs_covered_competitors s
      else normalize_covered_competitors competitors (fs_competitor s))"

text \<open>The competitors of the plan an issue about a source is addressed to, \<open>None\<close> when there is none.\<close>

definition slice_targets :: "str list \<Rightarrow> raw_source \<Rightarrow> str option list" where
  "slice_targets competitors s =
     (let targets = filter (\<lambda>c. c \<in> set competitors) (covered_of competitors s)
      in if targets \<noteq> [] then map Some targets else [None])"

definition serves :: "raw_source \<Rightarrow> str \<Rightarrow> str \<Rightarrow> bool" where
  "serves s dimension competitor \<longleftrightarrow>
     fs_dimension s = dimension \<and> source_matches_competitor s competitor"

section \<open>Strict source checks: orchestrator/service.py\<close>

definition memory_policy_text :: "analysis_plan \<Rightarrow> str" where
  "memory_policy_text plan = lower (join '' '' (ap_memory_prompt_context plan))"

definition memory_enforces_strict_source_qa :: "analysis_plan \<Rightarrow> bool" where
  "memory_enforces_strict_source_qa plan =
     (let policy = memory_policy_text plan
      in policy \<noteq> [] \<and>
         list_ex (\<lambda>t. has_substring t policy)
           [''qa policy'', ''quality gate'', ''failure pattern'', ''release-gate'',
            ''explicit evidence'', ''unsupported recommendation''])"

definition strict_source_qa :: "('a reviewed_run_scheme) \<Rightarrow> bool" where
  "strict_source_qa r \<longleftrightarrow>
     memory_enforces_strict_source_qa (rn_plan r) \<or> rn_execution_mode r = ''real''"


section \<open>Issues\<close>

abbreviation metadata_flag :: "jdict \<Rightarrow> str \<Rightarrow> bool" where
  "metadata_flag m key \<equiv> (case map_of m key of None \<Rightarrow> False | Some v \<Rightarrow> truthy v)"

definition community_public_source_types :: "str list" where
  "community_public_source_types =
     [''community_forum'', ''reddit_thread'', ''github_discussion'', ''github_issue'',
      ''review_site'', ''developer_blog'']"

text \<open>An issue of the collection, as the coverage checks construct it.\<close>

definition collector_issue ::
  "str \<Rightarrow> str \<Rightarrow> str \<Rightarrow> str option \<Rightarrow> str \<Rightarrow> str \<Rightarrow> str \<Rightarrow> qc_issue" where
  "collector_issue issue_id severity dimension competitor field_path problem rationale =
     \<lparr>qi_id = issue_id, qi_severity = severity, qi_detected_by = ''coverage'',
      qi_target_agent = ''collector'', qi_target_subagent = Some dimension,
      qi_target_competitor = competitor, qi_field_path = field_path, qi_problem = problem,
      qi_redo_scope = \<lparr>rs_kind = ''collector'', rs_target_subagent = Some dimension,
        rs_target_competitor = competitor, rs_target_competitors = [], rs_rationale = rationale\<rparr>,
      qi_self_found = False, qi_metadata = []\<rparr>"

text \<open>\<open>issue.redo_scope = assign_redo_scope(issue)\<close>.\<close>

definition with_assigned_scope :: "qc_issue \<Rightarrow> qc_issue" where
  "with_assigned_scope i = i\<lparr>qi_redo_scope := assign_redo_scope i\<rparr>"

definition issue_key :: "str list \<Rightarrow> str" where
  "issue_key parts = stable_prefixed_id ''qc-issue'' (map JStr parts) 16"

subsection \<open>Missing dimensions and unverified sources\<close>

definition missing_dimensions :: "('a reviewed_run_scheme) \<Rightarrow> str list" where
  "missing_dimensions r =
     filter (\<lambda>d. \<not> list_ex (\<lambda>s. fs_dimension s = d) (fr_raw_sources r)) (review_dimensions r)"

definition missing_dimension_issue :: "str \<Rightarrow> qc_issue" where
  "missing_dimension_issue d =
     collector_issue (issue_key [''missing'', d]) ''blocker'' d None
       (''raw_sources['' @ d @ '']'')
       (''No evidence sources were collected for '' @ d @ ''.'')
       (''No sources collected for '' @ d @ ''.'')"

definition unverified_source :: "('a reviewed_run_scheme) \<Rightarrow> raw_source \<Rightarrow> bool" where
  "unverified_source r s \<longleftrightarrow>
     fs_dimension s \<in> set (review_dimensions r)
     \<and> fs_source_type s \<noteq> ''webpage_verified''
     \<and> fs_source_type s \<notin> set community_public_source_types
     \<and> \<not> metadata_flag (fs_metadata s) ''community_evidence''
     \<and> fs_url s \<noteq> None"

definition unverified_issue :: "bool \<Rightarrow> raw_source \<Rightarrow> str option \<Rightarrow> qc_issue" where
  "unverified_issue strict s competitor =
     (let dimension = fs_dimension s;
          field_path = ''raw_sources['' @ fs_id s @ ''].source_type'';
          problem = ''Source '' @ fs_id s @ '' for '' @ dimension
            @ '' is not fetched webpage evidence and should be recollected or verified.''
            @ (if strict then '' MemoryAgent QA policy escalates unverified evidence to a blocker.'' else '''')
      in with_assigned_scope
           (collector_issue
             (issue_key [''unverified'', dimension, or_str competitor (fs_competitor s), fs_id s])
             (if strict then ''blocker'' else ''warn'') dimension competitor field_path problem problem))"

definition unverified_issues :: "('a reviewed_run_scheme) \<Rightarrow> qc_issue list" where
  "unverified_issues r =
     concat (map (\<lambda>s. if fs_dimension s \<in> set (missing_dimensions r) then []
         else map (unverified_issue (strict_source_qa r) s) (slice_targets (review_competitors r) s))
       (filter (unverified_source r) (fr_raw_sources r)))"

subsection \<open>Coverage of the competitors\<close>

definition invalid_coverage :: "('a reviewed_run_scheme) \<Rightarrow> raw_source \<Rightarrow> bool" where
  "invalid_coverage r s \<longleftrightarrow>
     fs_dimension s \<in> set (review_dimensions r) \<and>
     (let covered = covered_of (review_competitors r) s
      in covered = [] \<or> \<not> set covered \<subseteq> set (review_competitors r))"

definition invalid_coverage_issue :: "raw_source \<Rightarrow> qc_issue" where
  "invalid_coverage_issue s =
     collector_issue (issue_key [''invalid-source-coverage'', fs_id s]) ''blocker'' (fs_dimension s) None
       (''raw_sources['' @ fs_id s @ ''].covered_competitors'')
       (''Source '' @ fs_id s @ '' is not mapped to known plan competitors.'')
       (''Source '' @ fs_id s @ '' needs competitor coverage normalization.'')"

definition missing_source_issue :: "str \<Rightarrow> str \<Rightarrow> qc_issue" where
  "missing_source_issue d c =
     collector_issue (issue_key [''missing-source'', d, c]) ''blocker'' d (Some c)
       (''raw_sources['' @ d @ ''][''  @ c @ '']'')
       (''No '' @ d @ '' source covers '' @ c @ ''.'')
       (''Collect '' @ d @ '' evidence for '' @ c @ ''.'')"

definition has_source :: "('a reviewed_run_scheme) \<Rightarrow> str \<Rightarrow> str \<Rightarrow> bool" where
  "has_source r d c = list_ex (\<lambda>s. serves s d c) (fr_raw_sources r)"

definition uncovered_slices :: "('a reviewed_run_scheme) \<Rightarrow> (str \<times> str) list" where
  "uncovered_slices r =
     concat (map (\<lambda>d. if d \<in> set (missing_dimensions r) then []
         else map (Pair d) (filter (\<lambda>c. \<not> has_source r d c) (review_competitors r)))
       (review_dimensions r))"

definition source_coverage_issues :: "('a reviewed_run_scheme) \<Rightarrow> qc_issue list" where
  "source_coverage_issues r =
     keep_first qi_id (\<lambda>_. True) []
       (map invalid_coverage_issue (filter (invalid_coverage r) (fr_raw_sources r)))
     @ map (\<lambda>(d, c). missing_source_issue d c) (uncovered_slices r)"

subsection \<open>Persona evidence\<close>

definition dimension_needs_persona_strength_gate :: "str \<Rightarrow> bool" where
  "dimension_needs_persona_strength_gate dimension =
     (let normalized = map (\<lambda>c. if c = CHR ''-'' then CHR ''_'' else c) (lower dimension)
      in list_ex (\<lambda>h. has_substring h normalized)
           [''persona'', ''user'', ''customer'', ''buyer'', ''review'', ''feedback'', ''adoption'',
            ''switching''])"

definition persona_qualitative_source_types :: "str list" where
  "persona_qualitative_source_types =
     [''survey_response'', ''interview_record'', ''manual_transcript'', ''manual_note'', ''manual'']"

definition persona_public_source_types :: "str list" where
  "persona_public_source_types = ''webpage_verified'' # community_public_source_types"

definition persona_signal_terms :: "str list" where
  "persona_signal_terms =
     [''persona'', ''target user'', ''customer'', ''customers'', ''buyer'', ''developer'',
      ''developers'', ''engineering team'', ''enterprise team'', ''team'', ''case study'',
      ''customer story'', ''review'', ''feedback'', ''adoption'', ''onboarding'', ''switching'',
      ''workflow fit'', ''use case'', ''pain point'']"

definition persona_source_text :: "raw_source \<Rightarrow> str" where
  "persona_source_text s =
     lower (join '' '' [fs_title s, (case fs_url s of None \<Rightarrow> '''' | Some u \<Rightarrow> u), fs_snippet s])"

definition persona_source_is_synthetic :: "raw_source \<Rightarrow> bool" where
  "persona_source_is_synthetic s \<longleftrightarrow>
     fs_source_type s = ''survey_simulated''
     \<or> metadata_flag (fs_metadata s) ''fallback_synthetic''
     \<or> metadata_flag (fs_metadata s) ''synthetic_fallback''
     \<or> metadata_flag (fs_metadata s) ''survey_interview_synthetic''"

definition source_has_persona_signal :: "raw_source \<Rightarrow> bool" where
  "source_has_persona_signal s =
     list_ex (\<lambda>t. has_substring t (persona_source_text s)) persona_signal_terms"

definition independent_signal :: "raw_source \<Rightarrow> bool" where
  "independent_signal s \<longleftrightarrow>
     fs_source_type s \<in> set persona_public_source_types
     \<and> \<not> persona_source_is_synthetic s \<and> source_has_persona_signal s"

definition qualitative :: "raw_source \<Rightarrow> bool" where
  "qualitative s \<longleftrightarrow> fs_source_type s \<in> set persona_qualitative_source_types"

record persona_evidence_strength =
  ps_source_count :: nat
  ps_verified_count :: nat
  ps_qualitative_count :: nat
  ps_synthetic_count :: nat
  ps_persona_signal_count :: nat
  ps_has_independent_public_signal :: bool
  ps_is_weak :: bool
  ps_reason :: str

definition strength_reason :: "raw_source list \<Rightarrow> str" where
  "strength_reason sources =
     (let synthetic_count = count_if persona_source_is_synthetic sources;
          signal_count = count_if source_has_persona_signal sources;
          one = (length sources = 1); s = hd sources
      in if sources = [] then ''no_sources''
         else if one \<and> persona_source_is_synthetic s then ''single_low_confidence_synthetic''
         else if one \<and> qualitative s \<and> fs_confidence s < 7/10 then ''single_low_confidence_qualitative''
         else if one \<and> qualitative s \<and> 8/10 \<le> fs_confidence s \<and> 0 < signal_count
           \<and> \<not> persona_source_is_synthetic s then ''strong''
         else if synthetic_count = length sources then ''synthetic_only''
         else if signal_count = 0 then ''no_persona_signal''
         else if \<not> list_ex independent_signal sources \<and> length sources < 2 then ''too_few_sources''
         else ''strong'')"

definition slice_sources :: "('a reviewed_run_scheme) \<Rightarrow> str \<Rightarrow> str \<Rightarrow> raw_source list" where
  "slice_sources r d c = filter (\<lambda>s. serves s d c) (fr_raw_sources r)"

definition persona_strength :: "('a reviewed_run_scheme) \<Rightarrow> str \<Rightarrow> str \<Rightarrow> persona_evidence_strength" where
  "persona_strength r d c =
     (let sources = slice_sources r d c; reason = strength_reason sources
      in \<lparr>ps_source_count = length sources,
          ps_verified_count =
            count_if (\<lambda>s. fs_source_type s \<in> set persona_public_source_types) sources,
          ps_qualitative_count = count_if qualitative sources,
          ps_synthetic_count = count_if persona_source_is_synthetic sources,
          ps_persona_signal_count = count_if source_has_persona_signal sources,
          ps_has_independent_public_signal = list_ex independent_signal sources,
          ps_is_weak = (reason \<noteq> ''strong''), ps_reason = reason\<rparr>)"

definition weak_persona_issue ::
  "bool \<Rightarrow> str \<Rightarrow> str \<Rightarrow> persona_evidence_strength \<Rightarrow> qc_issue" where
  "weak_persona_issue strict d c st =
     with_assigned_scope
       (collector_issue (issue_key [''weak-persona-evidence'', d, c, ps_reason st])
         (if strict then ''blocker'' else ''warn'') d (Some c)
         (''raw_sources['' @ d @ ''][''  @ c @ '']'')
         (c @ '' '' @ d @ '' evidence is weak: ''
           @ map (\<lambda>x. if x = CHR ''_'' then CHR '' '' else x) (ps_reason st)
           @ '' with '' @ str_of_int (int (ps_source_count st)) @ '' source(s), ''
           @ str_of_int (int (ps_verified_count st)) @ '' verified public source(s), and ''
           @ str_of_int (int (ps_persona_signal_count st)) @ '' persona signal source(s).'')
         (''Collect stronger public '' @ d @ '' evidence for '' @ c @ ''.''))"

definition persona_strength_issues :: "('a reviewed_run_scheme) \<Rightarrow> qc_issue list" where
  "persona_strength_issues r =
     concat (map (\<lambda>d.
         if d \<in> set (missing_dimensions r) \<or> \<not> dimension_needs_persona_strength_gate d then []
         else List.map_filter (\<lambda>c.
             let st = persona_strength r d c
             in if \<not> ps_is_weak st \<or> ps_reason st = ''no_sources'' then None
                else Some (weak_persona_issue (rn_execution_mode r = ''real'') d c st))
           (review_competitors r))
       (review_dimensions r))"

subsection \<open>Community searches and empty analyst slices\<close>

text \<open>The settings of the community search and whether the search client is enabled.\<close>

record community_settings =
  cs_enabled :: bool
  cs_target_sources_per_branch :: int
  cs_search_enabled :: bool

definition message_text :: "jdict \<Rightarrow> str \<Rightarrow> str" where
  "message_text p key = (case map_of p key of None \<Rightarrow> '''' | Some v \<Rightarrow> if truthy v then py_str v else '''')"

definition attempted_searches :: "agent_message list \<Rightarrow> (str \<times> str) list" where
  "attempted_searches ms =
     map (\<lambda>m. (message_text (am_payload m) ''competitor'', message_text (am_payload m) ''dimension''))
       (filter (\<lambda>m. am_message_type m \<in> {''community_search_completed'', ''community_search_failed''}) ms)"

definition unattempted_issue :: "str \<Rightarrow> str \<Rightarrow> qc_issue" where
  "unattempted_issue c d =
     (let problem = ''Community triangulation was not attempted for '' @ c @ '' / '' @ d @ ''.''
      in collector_issue (issue_key [''community-not-attempted'', c, d]) ''warn'' d (Some c)
           (''agent_messages.community_search_attempt['' @ c @ ''][''  @ d @ '']'') problem problem)"

definition community_attempt_issues ::
  "community_settings \<Rightarrow> ('a reviewed_run_scheme) \<Rightarrow> qc_issue list" where
  "community_attempt_issues st r =
     (if rn_execution_mode r \<noteq> ''real'' \<or> \<not> cs_enabled st \<or> cs_target_sources_per_branch st \<le> 0
         \<or> \<not> cs_search_enabled st then []
      else let attempted = attempted_searches (fr_agent_messages r)
        in concat (map (\<lambda>c. map (unattempted_issue c)
             (filter (\<lambda>d. \<not> list_ex (\<lambda>s. serves s d c \<and> metadata_flag (fs_metadata s) ''community_evidence'')
                 (fr_raw_sources r) \<and> (c, d) \<notin> set attempted)
               (review_dimensions r)))
           (review_competitors r)))"

definition findings_of :: "('a reviewed_run_scheme) \<Rightarrow> str \<Rightarrow> str \<Rightarrow> str list" where
  "findings_of r c d =
     (case map_of (vw_competitor_kbs r) c of None \<Rightarrow> []
      | Some slices \<Rightarrow> (case map_of slices d of None \<Rightarrow> [] | Some fs \<Rightarrow> fs))"

definition empty_analyst_issue :: "str \<Rightarrow> str \<Rightarrow> qc_issue" where
  "empty_analyst_issue d c =
     (let field_path = ''competitor_kbs['' @ c @ ''].slices['' @ d @ '']'';
          problem = title_from False d @ '' analyst did not produce structured findings for '' @ c @ ''.''
      in with_assigned_scope
           \<lparr>qi_id = issue_key [''empty-analyst'', d, c], qi_severity = ''blocker'',
            qi_detected_by = ''schema'', qi_target_agent = ''analyst'', qi_target_subagent = Some d,
            qi_target_competitor = Some c, qi_field_path = field_path, qi_problem = problem,
            qi_redo_scope = build_redo_scope ''schema'' ''analyst'' field_path problem (Some d) (Some c),
            qi_self_found = False, qi_metadata = []\<rparr>)"

definition empty_analyst_issues :: "('a reviewed_run_scheme) \<Rightarrow> qc_issue list" where
  "empty_analyst_issues r =
     concat (map (\<lambda>d. if d \<in> set (missing_dimensions r) then []
         else map (empty_analyst_issue d)
           (filter (\<lambda>c. has_source r d c \<and> findings_of r c d = []) (review_competitors r)))
       (review_dimensions r))"

text \<open>
  The issues of these five checks, in the order of \<open>_build_collect_qa_issues\<close>, which also adds those of
  the quality, the age and the contradictions of sources.
\<close>

definition coverage_issues :: "community_settings \<Rightarrow> ('a reviewed_run_scheme) \<Rightarrow> qc_issue list" where
  "coverage_issues st r =
     map missing_dimension_issue (missing_dimensions r) @ unverified_issues r
     @ source_coverage_issues r @ persona_strength_issues r @ community_attempt_issues st r"

definition dedupe_qa_issues :: "qc_issue list \<Rightarrow> qc_issue list" where
  "dedupe_qa_issues issues = keep_first qi_id (\<lambda>_. True) [] issues"

section \<open>The retry of a collection\<close>

text \<open>The sources a retry keeps, of the dimensions and competitors its blockers name.\<close>

definition keep_on_retry :: "str list \<Rightarrow> str list \<Rightarrow> raw_source \<Rightarrow> bool" where
  "keep_on_retry dimensions targets s \<longleftrightarrow>
     (if targets \<noteq> [] then \<not> (fs_dimension s \<in> set dimensions \<and> list_ex (source_matches_competitor s) targets)
      else fs_dimension s \<notin> set dimensions)"

definition collect_retry :: "('a reviewed_run_scheme) \<Rightarrow> qc_issue list \<Rightarrow> 'a reviewed_run_scheme" where
  "collect_retry r blockers =
     r\<lparr>fr_raw_sources := filter
         (keep_on_retry (issue_dimensions (run_work.truncate r) blockers)
           (issue_target_competitors (run_work.truncate r) blockers))
         (fr_raw_sources r)\<rparr>"

end
