(* ===== verification/CoverageProps.thy ===== *)
theory CoverageProps
  imports CoverageReview
begin

text \<open>
  What the coverage review guarantees: how labels match competitors, which slices of the plan
  its issues name, what a real run without blockers has collected, and what a retry keeps.
\<close>

section \<open>Labels\<close>

lemma split_label_piece:
  "p \<in> set (split_label skip cur s) \<Longrightarrow> skip = 0 \<or> cur = [] \<Longrightarrow> has_substring p (cur @ s)"
proof (induction skip cur s rule: split_label.induct)
  case (2 skip cur c cs)
  note IH = "2.IH"
  show ?case
  proof (cases "0 < skip")
    case True
    then have "cur = []" "has_substring p (cur @ cs)" using 2 by auto
    then show ?thesis by simp
  next
    case False
    show ?thesis
    proof (cases "label_separator (c # cs)")
      case None
      then show ?thesis using 2 False by simp
    next
      case (Some n)
      consider "p = cur" | "p \<in> set (split_label (n - 1) [] cs)"
        using 2(4) Some False by auto
      then show ?thesis
      proof cases
        case 1
        then show ?thesis by (simp add: has_substring_app)
      next
        case 2
        then have "has_substring p cs" using IH Some False by simp
        then show ?thesis by (metis append_Cons append_Nil has_substring_app2)
      qed
    qed
  qed
qed simp

lemma label_part_inside: "k \<in> set (label_parts l) \<Longrightarrow> has_substring k (lower l)"
  by (auto simp: label_parts_def dest!: split_label_piece
      intro!: has_substring_lower intro: has_substring_trans [OF has_substring_strip])

text \<open>A label matches a competitor exactly when it means all of them or when it contains the
  competitor's name, case and surrounding blanks aside: splitting the label into its parts decides
  nothing.\<close>

theorem label_matching_is_containment:
  "competitor_label_matches label competitor =
     (competitor_label_means_all (lower (strip label))
      \<or> has_substring (lower (strip competitor)) (lower (strip label)))"
  by (auto simp: competitor_label_matches_def Let_def dest: label_part_inside)

section \<open>Persona evidence\<close>

lemma public_not_qualitative: "independent_signal s \<Longrightarrow> \<not> qualitative s"
  by (auto simp: independent_signal_def qualitative_def persona_public_source_types_def
      community_public_source_types_def persona_qualitative_source_types_def)

lemma count_if_all: "count_if p xs = length xs \<longleftrightarrow> (\<forall>x\<in>set xs. p x)"
  by (simp add: count_if_def) (metis filter_True length_filter_less less_irrefl)

lemma count_if_none: "count_if p xs = 0 \<longleftrightarrow> (\<forall>x\<in>set xs. \<not> p x)"
  by (simp add: count_if_def filter_empty_conv)

lemma strong_single:
  "strength_reason [s] = ''strong'' \<longleftrightarrow> \<not> persona_source_is_synthetic s \<and> source_has_persona_signal s
     \<and> (independent_signal s \<or> qualitative s \<and> 8/10 \<le> fs_confidence s)"
  using public_not_qualitative [of s] by (auto simp: strength_reason_def Let_def count_if_simps)

lemma strong_several:
  "2 \<le> length ss \<Longrightarrow> strength_reason ss = ''strong'' \<longleftrightarrow>
     (\<exists>s\<in>set ss. \<not> persona_source_is_synthetic s) \<and> (\<exists>s\<in>set ss. source_has_persona_signal s)"
  by (auto simp: strength_reason_def Let_def count_if_all count_if_none [unfolded neq0_conv [symmetric]])

text \<open>Persona evidence counts as strong exactly when it has a source that is not synthetic, a
  source with a persona signal, and either two sources, or one that is an independent public
  signal or a qualitative record of confidence at least 0.8.\<close>

theorem persona_strength_exact:
  "strength_reason ss = ''strong'' \<longleftrightarrow>
     (\<exists>s\<in>set ss. \<not> persona_source_is_synthetic s) \<and> (\<exists>s\<in>set ss. source_has_persona_signal s)
     \<and> (2 \<le> length ss \<or> (\<exists>s. ss = [s] \<and> (independent_signal s \<or> qualitative s \<and> 8/10 \<le> fs_confidence s)))"
proof -
  consider "ss = []" | s where "ss = [s]" | "2 \<le> length ss"
    by (cases ss; cases "tl ss") auto
  then show ?thesis
    by cases (auto simp: strong_single strong_several strength_reason_def [of "[]"])
qed


section \<open>The issues and their slices\<close>

text \<open>An issue of the collection repairs the slice it is about: a dimension of the plan, and one of
  its competitors or all of them.\<close>

definition slice_issue :: "('a reviewed_run_scheme) \<Rightarrow> qc_issue \<Rightarrow> bool" where
  "slice_issue r i \<longleftrightarrow>
     qi_detected_by i = ''coverage'' \<and> qi_target_agent i = ''collector''
     \<and> (\<exists>d\<in>set (review_dimensions r). qi_target_subagent i = Some d)
     \<and> (\<forall>c. qi_target_competitor i = Some c \<longrightarrow> c \<in> set (review_competitors r))
     \<and> rs_kind (qi_redo_scope i) = ''collector''
     \<and> rs_target_subagent (qi_redo_scope i) = qi_target_subagent i
     \<and> rs_target_competitor (qi_redo_scope i) = qi_target_competitor i"

named_theorems issue_defs

lemmas [issue_defs] = missing_dimension_issue_def unverified_issue_def invalid_coverage_issue_def
  missing_source_issue_def weak_persona_issue_def unattempted_issue_def empty_analyst_issue_def

lemma collector_issue_slice:
  "slice_issue r (collector_issue i sev d c f p ra) \<longleftrightarrow>
     d \<in> set (review_dimensions r) \<and> (\<forall>x. c = Some x \<longrightarrow> x \<in> set (review_competitors r))"
  by (auto simp: slice_issue_def collector_issue_def)

lemma assigned_slice:
  "slice_issue r (with_assigned_scope (collector_issue i sev d c f p ra)) \<longleftrightarrow>
     d \<in> set (review_dimensions r) \<and> (\<forall>x. c = Some x \<longrightarrow> x \<in> set (review_competitors r))"
  by (auto simp: slice_issue_def collector_issue_def with_assigned_scope_def assign_redo_scope_def
      build_redo_scope_def Let_def)

lemma collector_issue_fields [simp]:
  "qi_severity (collector_issue i sev d c f p ra) = sev"
  "qi_target_subagent (collector_issue i sev d c f p ra) = Some d"
  "qi_target_competitor (collector_issue i sev d c f p ra) = c"
  "qi_id (collector_issue i sev d c f p ra) = i"
  "qi_severity (with_assigned_scope x) = qi_severity x"
  "qi_target_subagent (with_assigned_scope x) = qi_target_subagent x"
  "qi_target_competitor (with_assigned_scope x) = qi_target_competitor x"
  by (simp_all add: collector_issue_def with_assigned_scope_def)

lemma keep_first_subset: "set (keep_first key ok seen xs) \<subseteq> set xs"
  by (induction xs arbitrary: seen) (auto split: if_splits)

lemma keep_first_keys:
  "x \<in> set xs \<Longrightarrow> key x \<in> set seen \<or> (\<exists>y\<in>set (keep_first key (\<lambda>_. True) seen xs). key y = key x)"
proof (induction xs arbitrary: seen)
  case (Cons a xs)
  show ?case
  proof (cases "x \<in> set xs")
    case True
    then show ?thesis
      using Cons.IH [of seen] Cons.IH [of "key a # seen"] by (cases "key a \<in> set seen") auto
  next
    case False
    then show ?thesis using Cons.prems by auto
  qed
qed simp

lemma keep_first_Nil_iff: "keep_first key (\<lambda>_. True) [] xs = [] \<longleftrightarrow> xs = []"
  by (cases xs) auto

lemma missing_dimensions_iff:
  "d \<in> set (missing_dimensions r) \<longleftrightarrow>
     d \<in> set (review_dimensions r) \<and> (\<forall>s\<in>set (fr_raw_sources r). fs_dimension s \<noteq> d)"
  by (auto simp: missing_dimensions_def list_ex_iff)

lemma uncovered_iff:
  "(d, c) \<in> set (uncovered_slices r) \<longleftrightarrow>
     d \<in> set (review_dimensions r) \<and> c \<in> set (review_competitors r)
     \<and> (\<exists>s\<in>set (fr_raw_sources r). fs_dimension s = d) \<and> (\<forall>s\<in>set (fr_raw_sources r). \<not> serves s d c)"
  by (auto simp: uncovered_slices_def missing_dimensions_iff has_source_def list_ex_iff split: if_splits)

lemma review_target_planned:
  "x \<in> set (slice_targets cs s) \<Longrightarrow> x = Some c \<Longrightarrow> c \<in> set cs"
  by (auto simp: slice_targets_def Let_def split: if_splits)

lemma slice_targets_nonempty: "slice_targets cs s \<noteq> []"
  by (simp add: slice_targets_def Let_def)

lemma missing_slices: "i \<in> set (map missing_dimension_issue (missing_dimensions r)) \<Longrightarrow> slice_issue r i"
  by (auto simp: issue_defs collector_issue_slice missing_dimensions_iff)

lemma unverified_slices: "i \<in> set (unverified_issues r) \<Longrightarrow> slice_issue r i"
  by (auto simp: unverified_issues_def unverified_issue_def Let_def assigned_slice unverified_source_def
      dest: review_target_planned split: if_splits)

lemma invalid_in: "i \<in> set (keep_first k ok seen (map f xs)) \<Longrightarrow> \<exists>x\<in>set xs. i = f x"
  using subsetD [OF keep_first_subset] by fastforce

lemma coverage_slices: "i \<in> set (source_coverage_issues r) \<Longrightarrow> slice_issue r i"
  by (auto simp: source_coverage_issues_def issue_defs collector_issue_slice uncovered_iff
      invalid_coverage_def dest!: invalid_in)

lemma persona_slices: "i \<in> set (persona_strength_issues r) \<Longrightarrow> slice_issue r i"
  by (auto simp: persona_strength_issues_def weak_persona_issue_def Let_def assigned_slice
      List.map_filter_def split: if_splits)

lemma community_slices: "i \<in> set (community_attempt_issues st r) \<Longrightarrow> slice_issue r i"
  by (auto simp: community_attempt_issues_def unattempted_issue_def Let_def collector_issue_slice split: if_splits)

text \<open>Every issue of the coverage checks names a dimension of the plan and, if any, a competitor of
  the plan, and its redo scope sends the collectors to exactly that slice.\<close>

theorem coverage_issues_name_their_slice: "list_all (slice_issue r) (coverage_issues st r)"
  unfolding list_all_iff coverage_issues_def
  using missing_slices [of _ r] unverified_slices [of _ r] coverage_slices [of _ r] persona_slices [of _ r]
    community_slices [of _ st r]
  by (simp only: set_append) blast

section \<open>A run in real mode\<close>

definition blockers :: "qc_issue list \<Rightarrow> qc_issue list" where
  "blockers issues = filter (\<lambda>i. qi_severity i = ''blocker'') issues"

lemma blockers_append: "blockers (xs @ ys) = blockers xs @ blockers ys"
  by (simp add: blockers_def)

lemma blockers_all: "(\<forall>i\<in>set xs. qi_severity i = ''blocker'') \<Longrightarrow> blockers xs = xs"
  by (simp add: blockers_def)

lemma blockers_none: "(\<forall>i\<in>set xs. qi_severity i = ''warn'') \<Longrightarrow> blockers xs = []"
  by (simp add: blockers_def filter_empty_conv)

lemma missing_blocks: "blockers (map missing_dimension_issue ds) = map missing_dimension_issue ds"
  by (rule blockers_all) (auto simp: issue_defs)

lemma unverified_blocks: "strict_source_qa r \<Longrightarrow> blockers (unverified_issues r) = unverified_issues r"
  by (rule blockers_all) (auto simp: unverified_issues_def issue_defs Let_def split: if_splits)

lemma coverage_blocks: "blockers (source_coverage_issues r) = source_coverage_issues r"
  using subsetD [OF keep_first_subset]
  by (intro blockers_all) (fastforce simp: source_coverage_issues_def issue_defs)

lemma persona_blocks:
  "rn_execution_mode r = ''real'' \<Longrightarrow> blockers (persona_strength_issues r) = persona_strength_issues r"
  by (rule blockers_all) (auto simp: persona_strength_issues_def issue_defs Let_def List.map_filter_def split: if_splits)

lemma community_warns: "blockers (community_attempt_issues st r) = []"
  by (rule blockers_none) (auto simp: community_attempt_issues_def issue_defs Let_def split: if_splits)

lemma no_missing: "missing_dimensions r = [] \<longleftrightarrow>
    (\<forall>d\<in>set (review_dimensions r). \<exists>s\<in>set (fr_raw_sources r). fs_dimension s = d)"
  using missing_dimensions_iff [of _ r] by (metis empty_iff list.set(1) list.set_intros(1) neq_Nil_conv)

lemma concat_map_Nil: "concat (map f xs) = [] \<longleftrightarrow> (\<forall>x\<in>set xs. f x = [])"
  by (induction xs) auto

lemma map_filter_Nil: "List.map_filter f xs = [] \<longleftrightarrow> (\<forall>x\<in>set xs. f x = None)"
  by (auto simp: List.map_filter_def filter_empty_conv)

lemma unverified_not_missing:
  "s \<in> set (fr_raw_sources r) \<Longrightarrow> unverified_source r s \<Longrightarrow> fs_dimension s \<notin> set (missing_dimensions r)"
  by (auto simp: missing_dimensions_iff)

lemma no_unverified: "unverified_issues r = [] \<longleftrightarrow> (\<forall>s\<in>set (fr_raw_sources r). \<not> unverified_source r s)"
  by (auto simp: unverified_issues_def concat_map_Nil slice_targets_nonempty dest: unverified_not_missing
      simp del: concat_eq_Nil_conv)

lemma no_uncovered: "source_coverage_issues r = [] \<longleftrightarrow>
    (\<forall>s\<in>set (fr_raw_sources r). \<not> invalid_coverage r s) \<and> uncovered_slices r = []"
  by (simp add: source_coverage_issues_def keep_first_Nil_iff filter_empty_conv)

lemma slices_all_covered: "missing_dimensions r = [] \<Longrightarrow> uncovered_slices r = [] \<longleftrightarrow>
    (\<forall>d\<in>set (review_dimensions r). \<forall>c\<in>set (review_competitors r). \<exists>s\<in>set (fr_raw_sources r). serves s d c)"
  by (auto simp: uncovered_slices_def concat_map_Nil filter_empty_conv has_source_def list_ex_iff
      simp del: concat_eq_Nil_conv)

lemma reason_no_sources: "strength_reason ss = ''no_sources'' \<longleftrightarrow> ss = []"
  by (auto simp: strength_reason_def Let_def)

lemma no_weak_persona: "missing_dimensions r = [] \<Longrightarrow> persona_strength_issues r = [] \<longleftrightarrow>
    (\<forall>d\<in>set (review_dimensions r). dimension_needs_persona_strength_gate d \<longrightarrow>
      (\<forall>c\<in>set (review_competitors r). slice_sources r d c = [] \<or> strength_reason (slice_sources r d c) = ''strong''))"
  by (auto simp: persona_strength_issues_def concat_map_Nil map_filter_Nil persona_strength_def Let_def
      reason_no_sources simp del: concat_eq_Nil_conv)

text \<open>C18. In a real run the coverage checks raise no blocker exactly when every slice of the plan has a
  source, no source of the plan is unverified or mapped to unknown competitors, and the evidence of
  every persona slice is strong.\<close>

theorem real_coverage_gate:
  assumes "rn_execution_mode r = ''real''"
  shows "blockers (coverage_issues st r) = [] \<longleftrightarrow>
    (\<forall>d\<in>set (review_dimensions r). (\<exists>s\<in>set (fr_raw_sources r). fs_dimension s = d)
       \<and> (\<forall>c\<in>set (review_competitors r). (\<exists>s\<in>set (fr_raw_sources r). serves s d c)
          \<and> (dimension_needs_persona_strength_gate d \<longrightarrow> strength_reason (slice_sources r d c) = ''strong'')))
    \<and> (\<forall>s\<in>set (fr_raw_sources r). \<not> unverified_source r s \<and> \<not> invalid_coverage r s)"
    (is "_ \<longleftrightarrow> ?ok")
proof -
  have strict: "strict_source_qa r" using assms by (simp add: strict_source_qa_def)
  have "blockers (coverage_issues st r) = [] \<longleftrightarrow>
      missing_dimensions r = [] \<and> unverified_issues r = [] \<and> source_coverage_issues r = []
      \<and> persona_strength_issues r = []"
    by (simp add: coverage_issues_def blockers_append missing_blocks unverified_blocks [OF strict]
        coverage_blocks persona_blocks [OF assms] community_warns)
  also have "\<dots> \<longleftrightarrow> ?ok"
  proof (cases "missing_dimensions r = []")
    case True
    have served: "slice_sources r d c \<noteq> [] \<longleftrightarrow> (\<exists>s\<in>set (fr_raw_sources r). serves s d c)" for d c
      by (simp add: slice_sources_def filter_empty_conv)
    show ?thesis
      using True no_missing [of r]
      unfolding no_unverified no_uncovered slices_all_covered [OF True] no_weak_persona [OF True]
      by (simp add: served [symmetric]) blast
  next
    case False
    then show ?thesis using no_missing [of r] by blast
  qed
  finally show ?thesis .
qed

section \<open>Retries\<close>

lemma retry_sources:
  "fr_raw_sources (collect_retry r bs) = filter
     (keep_on_retry (issue_dimensions (run_work.truncate r) bs) (issue_target_competitors (run_work.truncate r) bs))
     (fr_raw_sources r)"
  by (simp add: collect_retry_def)

lemma retry_plan [simp]: "rn_plan (collect_retry r bs) = rn_plan r"
  by (simp add: collect_retry_def)

lemma named_targets:
  "c \<in> set (issue_target_competitors (run_work.truncate r) bs) \<longleftrightarrow>
     c \<in> set (review_competitors r) \<and> (\<exists>b\<in>set bs. qi_target_competitor b = Some c)"
  by (auto simp: issue_target_competitors_def set_sorted_set run_work.defs List.map_filter_def plan_competitors_def
      intro: rev_image_eqI)

lemma named_dimensions:
  assumes "bs \<noteq> []" "list_all (slice_issue r) bs"
  shows "d \<in> set (issue_dimensions (run_work.truncate r) bs) \<longleftrightarrow> (\<exists>b\<in>set bs. qi_target_subagent b = Some d)"
proof -
  let ?ds = "filter (\<lambda>x. x \<in> set (review_dimensions r)) (List.map_filter qi_target_subagent bs)"
  have planned: "\<exists>d\<in>set (review_dimensions r). qi_target_subagent b = Some d" if "b \<in> set bs" for b
    using assms(2) that by (auto simp: list_all_iff slice_issue_def)
  have named: "x \<in> set ?ds \<longleftrightarrow> (\<exists>b\<in>set bs. qi_target_subagent b = Some x)" for x
  proof
    assume "\<exists>b\<in>set bs. qi_target_subagent b = Some x"
    then obtain b where b: "b \<in> set bs" "qi_target_subagent b = Some x" by blast
    with planned [OF b(1)] show "x \<in> set ?ds" by (auto simp: List.map_filter_def intro: rev_image_eqI)
  qed (auto simp: List.map_filter_def)
  obtain b where "b \<in> set bs" using assms(1) by (cases bs) auto
  with planned [OF this] named have "?ds \<noteq> []" by (metis empty_iff list.set(1))
  then have "issue_dimensions (run_work.truncate r) bs = sorted_set ?ds"
    unfolding issue_dimensions_def or_list_def plan_dimensions_def
    by (simp add: run_work.defs) (metis list.set(1) set_empty set_sorted_set)
  then show ?thesis using named by simp
qed

text \<open>C19. A retry of the collection on issues of the coverage checks keeps a source exactly when no
  issue names its dimension, or some issue names a competitor and none of those named is its own.\<close>

theorem collect_retry_exact:
  assumes "bs \<noteq> []" "list_all (slice_issue r) bs"
  shows "s \<in> set (fr_raw_sources (collect_retry r bs)) \<longleftrightarrow>
    s \<in> set (fr_raw_sources r)
    \<and> \<not> ((\<exists>b\<in>set bs. qi_target_subagent b = Some (fs_dimension s))
         \<and> ((\<forall>b\<in>set bs. qi_target_competitor b = None)
            \<or> (\<exists>b\<in>set bs. \<exists>c. qi_target_competitor b = Some c \<and> source_matches_competitor s c)))"
proof -
  let ?cs = "issue_target_competitors (run_work.truncate r) bs"
  have inside: "c \<in> set (review_competitors r)" if "b \<in> set bs" "qi_target_competitor b = Some c" for b c
    using assms(2) that by (simp add: list_all_iff slice_issue_def)
  have planned: "c \<in> set ?cs \<longleftrightarrow> (\<exists>b\<in>set bs. qi_target_competitor b = Some c)" for c
    using named_targets [of c r bs] inside by blast
  have none: "?cs = [] \<longleftrightarrow> (\<forall>b\<in>set bs. qi_target_competitor b = None)"
  proof -
    have "?cs = [] \<longleftrightarrow> (\<forall>c. c \<notin> set ?cs)" by (simp flip: set_empty)
    also have "\<dots> \<longleftrightarrow> (\<forall>b\<in>set bs. qi_target_competitor b = None)"
      unfolding planned by (metis not_Some_eq)
    finally show ?thesis .
  qed
  have some: "list_ex (source_matches_competitor s) ?cs \<longleftrightarrow>
      (\<exists>b\<in>set bs. \<exists>c. qi_target_competitor b = Some c \<and> source_matches_competitor s c)"
    unfolding list_ex_iff using planned by blast
  have "keep_on_retry (issue_dimensions (run_work.truncate r) bs) ?cs s \<longleftrightarrow>
      \<not> (fs_dimension s \<in> set (issue_dimensions (run_work.truncate r) bs)
         \<and> (?cs = [] \<or> list_ex (source_matches_competitor s) ?cs))"
    by (simp add: keep_on_retry_def)
  then show ?thesis
    unfolding retry_sources set_filter mem_Collect_eq named_dimensions [OF assms] none some by (rule conj_cong [OF refl])
qed

text \<open>C40. A source mapped to unknown competitors survives every retry in which some issue names a
  competitor of the plan, when no competitor of the plan is its own, and the next review raises its
  blocker again.\<close>

theorem invalid_source_survives_retry:
  assumes "s \<in> set (fr_raw_sources r)" "invalid_coverage r s"
    and "\<forall>c\<in>set (review_competitors r). \<not> source_matches_competitor s c"
    and "\<exists>b\<in>set bs. \<exists>c\<in>set (review_competitors r). qi_target_competitor b = Some c"
  shows "s \<in> set (fr_raw_sources (collect_retry r bs))
    \<and> (\<exists>i\<in>set (blockers (coverage_issues st (collect_retry r bs))). qi_id i = qi_id (invalid_coverage_issue s))"
proof -
  let ?r = "collect_retry r bs"
  have kept: "s \<in> set (fr_raw_sources ?r)"
    using assms(1,3,4) named_targets [of _ r bs]
    by (fastforce simp: retry_sources keep_on_retry_def list_ex_iff)
  have "invalid_coverage ?r s" using assms(2) by (simp add: invalid_coverage_def)
  with kept have "invalid_coverage_issue s \<in> set (map invalid_coverage_issue (filter (invalid_coverage ?r) (fr_raw_sources ?r)))"
    by simp
  from keep_first_keys [OF this, of qi_id "[]"]
  obtain i where "i \<in> set (source_coverage_issues ?r)" "qi_id i = qi_id (invalid_coverage_issue s)"
    by (auto simp: source_coverage_issues_def)
  moreover have "set (source_coverage_issues ?r) \<subseteq> set (blockers (coverage_issues st ?r))"
    unfolding coverage_issues_def blockers_append coverage_blocks set_append by blast
  ultimately show ?thesis using kept by blast
qed

section \<open>Witnesses\<close>

definition web_source :: "str \<Rightarrow> str \<Rightarrow> str \<Rightarrow> raw_source" where
  "web_source i c d =
     \<lparr>fs_id = i, fs_competitor = c, fs_covered_competitors = [c], fs_dimension = d,
      fs_source_type = ''webpage_verified'', fs_title = ''Plans'', fs_url = Some ''https://acme.example/plans'',
      fs_snippet = ''Seats'', fs_content_hash = ''h'', fs_confidence = 9/10, fs_candidate_origin = '''',
      fs_candidate_rank = JNull, fs_candidate_confidence = JNull, fs_fetch_method = '''',
      fs_quality_score = JNull, fs_failure_reason = JNull, fs_metadata = [],
      fs_extracted_at = DateTime 2026 1 1 0 0 0 0\<rparr>"

definition reviewed_sample :: "raw_source list \<Rightarrow> reviewed_run" where
  "reviewed_sample ss =
     \<lparr>rn_id = ''run-1'', rn_idempotency_key = ''k'', rn_workspace_id = ''w'', rn_project_id = None,
      rn_topic = ''CRM'', rn_status = ''running'', rn_execution_mode = ''real'', rn_output_language = ''en'',
      rn_created_at = DateTime 2026 1 1 0 0 0 0, rn_updated_at = DateTime 2026 1 2 0 0 0 0,
      rn_plan = \<lparr>ap_topic = ''CRM'', ap_competitors = [''Acme''], ap_dimensions = [''pricing''],
        ap_complexity = ''simple'', ap_competitor_layer = ''L1'', ap_scenario_id = None,
        ap_scenario_recommended_dimensions = [], ap_qa_rule_ids = [], ap_memory_candidate_ids = [],
        ap_memory_prompt_context = [], ap_memory_recall_score = 0, ap_homepage_hints = [],
        ap_homepage_verified = [], ap_task_decomposition = [], ap_created_at = DateTime 2026 1 1 0 0 0 0\<rparr>,
      rn_max_iterations = 2, rn_auto_redo_warn_enabled = False, rn_hitl_enabled = True,
      rn_active_run_fingerprint = None, rn_report_md = [], rn_qa_findings = [], rn_reflections = [],
      rn_metrics = \<lparr>mt_total_spans = 0, mt_total_duration_ms = 0, mt_llm_calls = 0, mt_search_calls = 0,
        mt_fetch_calls = 0, mt_input_tokens_estimate = 0, mt_output_tokens_estimate = 0,
        mt_cost_estimate_usd = 0, mt_source_coverage_rate = 0, mt_verified_source_rate = 0,
        mt_claim_citation_rate = 0, mt_schema_pass_rate = 0, mt_human_override_rate = 0,
        mt_acceptance_rate = 0, mt_qa_issue_count = 0, mt_revision_count = 0,
        mt_compliance_redaction_count = 0\<rparr>,
      rn_current_node = None, rn_rest = [], rw_revisions = [], fr_raw_sources = ss,
      fr_competitor_knowledge = [], fr_report_artifact = None, fr_agent_messages = [],
      fr_tool_call_messages = [], fr_trace_spans = [], vw_competitor_kbs = []\<rparr>"

definition searches_off :: community_settings where
  "searches_off = \<lparr>cs_enabled = False, cs_target_sources_per_branch = 0, cs_search_enabled = False\<rparr>"

lemmas sample_defs = web_source_def reviewed_sample_def searches_off_def

theorem real_coverage_gate_witness:
  "blockers (coverage_issues searches_off (reviewed_sample [web_source ''s1'' ''Acme'' ''pricing''])) = []"
  by (subst real_coverage_gate)
    (auto simp: sample_defs serves_def source_matches_competitor_def unverified_source_def invalid_coverage_def
      covered_of_def dimension_needs_persona_strength_gate_def lower_def to_lower_char_def is_upper_def
      code_of_def starts_with_def)

theorem collect_retry_exact_witness:
  "web_source ''s1'' ''Acme'' ''pricing'' \<notin>
     set (fr_raw_sources (collect_retry (reviewed_sample [web_source ''s1'' ''Acme'' ''pricing''])
       [missing_source_issue ''pricing'' ''Acme'']))"
  by (subst collect_retry_exact)
    (auto simp: missing_source_issue_def collector_issue_slice source_matches_competitor_def sample_defs)

theorem invalid_source_survives_retry_witness:
  "web_source ''s1'' ''Globex'' ''pricing'' \<in>
     set (fr_raw_sources (collect_retry (reviewed_sample [web_source ''s1'' ''Globex'' ''pricing''])
       [missing_source_issue ''pricing'' ''Acme'']))"
  by (rule invalid_source_survives_retry [THEN conjunct1])
    (auto simp: missing_source_issue_def source_matches_competitor_def sample_defs invalid_coverage_def covered_of_def)

end
