(* ===== verification/SourceConflicts.thy ===== *)
theory SourceConflicts
  imports CoverageReview SourceAdmission Retrieval
begin

text \<open>
  rag/structured_claims.py and the source checks of agents/qa/logic.py built on it: the facts the
  sources of a slice state, the conflicts between sources reused from the knowledge base and live
  ones, and the issues raised for conflicts and for sources of poor quality.
\<close>

section \<open>Claims and conflicts: rag/structured_claims.py\<close>

record source_claim =
  sm_source_id :: str
  sm_competitor :: str
  sm_dimension :: str
  sm_subject :: str
  sm_predicate :: str
  sm_value :: str
  sm_polarity :: str
  sm_claim_area :: str
  sm_position :: str
  sm_is_kb_reuse :: bool

record source_conflict =
  sx_claim_area :: str
  sx_source_ids_by_position :: "(str \<times> str list) list"
  sx_claims :: "source_claim list"

definition source_is_kb_reuse :: "raw_source \<Rightarrow> bool" where
  "source_is_kb_reuse s \<longleftrightarrow>
     fs_candidate_origin s = ''rag_kb'' \<or> metadata_flag (fs_metadata s) ''kb_retrieved''"

definition claim_from :: "raw_source \<Rightarrow> str \<Rightarrow> str \<Rightarrow> str \<Rightarrow> str \<Rightarrow> str \<Rightarrow> source_claim" where
  "claim_from s predicate v polarity area position =
     \<lparr>sm_source_id = fs_id s, sm_competitor = fs_competitor s, sm_dimension = fs_dimension s,
      sm_subject = fs_competitor s, sm_predicate = predicate, sm_value = v, sm_polarity = polarity,
      sm_claim_area = area, sm_position = position, sm_is_kb_reuse = source_is_kb_reuse s\<rparr>"

definition claim_from_position :: "raw_source \<Rightarrow> str \<times> str \<Rightarrow> source_claim option" where
  "claim_from_position s = (\<lambda>(area, position).
     if starts_with ''support:'' area then
       Some (claim_from s (''supports:'' @ drop (length ''support:'') area)
         (if position = ''supported'' then ''true'' else ''false'')
         (if position = ''supported'' then ''positive'' else ''negative'') area position)
     else if starts_with ''price:'' area \<or> starts_with ''privacy:'' area \<or> starts_with ''retention:'' area then
       Some (claim_from s area position ''observed'' area position)
     else None)"

definition extract_structured_source_claims :: "raw_source list \<Rightarrow> str \<Rightarrow> source_claim list" where
  "extract_structured_source_claims sources dimension =
     concat (map (\<lambda>s. List.map_filter (claim_from_position s)
         (extract_structured_fact_positions (lower (title_and_snippet s)) dimension)) sources)"

text \<open>\<open>d.setdefault(key(x), []).append(x)\<close> over a list.\<close>

definition add_group :: "('a \<Rightarrow> str) \<Rightarrow> 'a \<Rightarrow> (str \<times> 'a list) list \<Rightarrow> (str \<times> 'a list) list" where
  "add_group key x d =
     (case map_of d (key x) of
        None \<Rightarrow> d @ [(key x, [x])]
      | Some earlier \<Rightarrow> AList.update (key x) (earlier @ [x]) d)"

definition group_by :: "('a \<Rightarrow> str) \<Rightarrow> 'a list \<Rightarrow> (str \<times> 'a list) list" where
  "group_by key xs = fold (add_group key) xs []"

definition conflict_of_area :: "str \<times> source_claim list \<Rightarrow> source_conflict option" where
  "conflict_of_area = (\<lambda>(area, claims).
     let positions = group_by sm_position claims; flattened = concat (dict_values positions)
     in if length positions < 2 then None
        else if \<not> (list_ex sm_is_kb_reuse flattened \<and> list_ex (\<lambda>c. \<not> sm_is_kb_reuse c) flattened) then None
        else Some \<lparr>sx_claim_area = area,
          sx_source_ids_by_position = map (\<lambda>(p, cs). (p, sorted_set (map sm_source_id cs))) positions,
          sx_claims = flattened\<rparr>)"

definition find_structured_source_conflicts :: "raw_source list \<Rightarrow> str \<Rightarrow> source_conflict list" where
  "find_structured_source_conflicts sources dimension =
     List.map_filter conflict_of_area
       (group_by sm_claim_area (extract_structured_source_claims sources dimension))"

section \<open>Metadata of an issue: agents/qa/logic.py\<close>

text \<open>The numeral of a confidence, to seventeen decimals.\<close>

definition decimal_json :: "rat \<Rightarrow> json" where
  "decimal_json r = (let (m, n) = drop_zeros \<lfloor>r * 10 ^ 17\<rfloor> 17 in JFloat m (- int n))"

definition compact_metadata :: "jdict \<Rightarrow> jdict" where
  "compact_metadata d = filter (\<lambda>(k, v). v \<notin> {JNull, JStr [], JList []}) d"

fun source_metadata_text :: "raw_source \<Rightarrow> str list \<Rightarrow> str" where
  "source_metadata_text s [] = []"
| "source_metadata_text s (k # ks) =
     (case map_of (fs_metadata s) k of
        None \<Rightarrow> source_metadata_text s ks
      | Some v \<Rightarrow> if v \<in> {JNull, JStr []} then source_metadata_text s ks else py_str v)"

definition source_document_status :: "raw_source \<Rightarrow> str" where
  "source_document_status s =
     lower (metadata_or (fs_metadata s) [''kb_document_status'', ''document_status'', ''status''] [])"

definition metadata_value :: "raw_source \<Rightarrow> str \<Rightarrow> json" where
  "metadata_value s key = (case map_of (fs_metadata s) key of None \<Rightarrow> JNull | Some v \<Rightarrow> v)"

definition source_audit_trail_item :: "raw_source \<Rightarrow> str option \<Rightarrow> jdict" where
  "source_audit_trail_item s position =
     (let metadata_text = (\<lambda>ks. JStr (source_metadata_text s ks))
      in compact_metadata
        [(''source_id'', JStr (fs_id s)), (''raw_source_id'', JStr (fs_id s)),
         (''competitor'', JStr (fs_competitor s)), (''dimension'', JStr (fs_dimension s)),
         (''source_type'', JStr (fs_source_type s)), (''title'', JStr (fs_title s)),
         (''url'', JStr (source_url_text s)), (''position'', jstr_opt position),
         (''candidate_origin'', JStr (fs_candidate_origin s)), (''fetch_method'', JStr (fs_fetch_method s)),
         (''confidence'', decimal_json (fs_confidence s)), (''quality_score'', fs_quality_score s),
         (''kb_document_id'', metadata_text [''kb_document_id'', ''document_id'']),
         (''kb_document_version'', metadata_value s ''kb_document_version''),
         (''kb_document_status'', JStr (source_document_status s)),
         (''kb_chunk_id'', metadata_text [''kb_chunk_id'', ''chunk_id'']),
         (''kb_chunk_ids'', metadata_value s ''kb_chunk_ids''),
         (''kb_retrieval_query'', metadata_text [''kb_retrieval_query'']),
         (''kb_hit_score'', metadata_value s ''kb_hit_score''),
         (''kb_rerank_score'', metadata_value s ''kb_rerank_score''),
         (''kb_raw_source_id'', metadata_text [''kb_raw_source_id'']),
         (''kb_collector_run_id'', metadata_text [''kb_collector_run_id'']),
         (''kb_freshness_score'', metadata_value s ''kb_freshness_score''),
         (''kb_fetched_at'', metadata_text [''kb_fetched_at'']),
         (''kb_last_seen_at'', metadata_text [''kb_last_seen_at'']),
         (''kb_indexed_at'', metadata_text [''kb_indexed_at'']),
         (''is_kb_reuse'', JBool (source_is_kb_reuse s))])"

definition positions_of_conflict :: "source_conflict \<Rightarrow> (str \<times> str list) list" where
  "positions_of_conflict x =
     List.map_filter (\<lambda>(p, ids).
         let normalized = sorted_set (filter (\<lambda>i. i \<noteq> []) (map strip ids))
         in if normalized \<noteq> [] then Some (p, normalized) else None)
       (sx_source_ids_by_position x)"

definition conflict_pair :: "str \<Rightarrow> (str \<times> raw_source) \<Rightarrow> (str \<times> raw_source) \<Rightarrow> jdict option" where
  "conflict_pair area = (\<lambda>(left_position, left) (right_position, right).
     let left_is_kb = source_is_kb_reuse left
     in if left_is_kb = source_is_kb_reuse right then None
        else let kb = (if left_is_kb then left else right); live = (if left_is_kb then right else left)
          in Some (compact_metadata
            [(''claim_area'', JStr area), (''kb_source_id'', JStr (fs_id kb)),
             (''kb_position'', JStr (if left_is_kb then left_position else right_position)),
             (''kb_document_id'', JStr (source_metadata_text kb [''kb_document_id'', ''document_id''])),
             (''kb_chunk_id'', JStr (source_metadata_text kb [''kb_chunk_id'', ''chunk_id''])),
             (''kb_title'', JStr (fs_title kb)), (''kb_url'', JStr (source_url_text kb)),
             (''live_source_id'', JStr (fs_id live)),
             (''live_position'', JStr (if left_is_kb then right_position else left_position)),
             (''live_title'', JStr (fs_title live)), (''live_url'', JStr (source_url_text live))]))"

text \<open>The positions in order, each with every later one.\<close>

fun later_pairs :: "'a list \<Rightarrow> ('a \<times> 'a) list" where
  "later_pairs [] = []"
| "later_pairs (x # xs) = map (Pair x) xs @ later_pairs xs"

definition source_conflict_pairs ::
  "(str \<times> str list) list \<Rightarrow> (str \<Rightarrow> raw_source option) \<Rightarrow> str \<Rightarrow> jdict list" where
  "source_conflict_pairs by_position source_of area =
     (let found = (\<lambda>p. List.map_filter (\<lambda>i. map_option (Pair p) (source_of i))
            (case map_of by_position p of None \<Rightarrow> [] | Some ids \<Rightarrow> ids))
      in take 8 (concat (map (\<lambda>(p, q). concat (map (\<lambda>l. List.map_filter (conflict_pair area l) (found q)) (found p)))
           (later_pairs (sort (map fst by_position))))))"

definition ids_by_position_json :: "(str \<times> str list) list \<Rightarrow> json" where
  "ids_by_position_json by_position = JDict (map (\<lambda>(p, ids). (p, jstrs ids)) by_position)"

definition source_contradiction_issue_metadata ::
  "raw_source list \<Rightarrow> source_conflict \<Rightarrow> str \<Rightarrow> str \<Rightarrow> jdict" where
  "source_contradiction_issue_metadata sources x competitor dimension =
     (let by_position = positions_of_conflict x;
          source_of = lookup_last fs_id sources;
          source_ids = sorted_set (concat (map snd by_position))
      in [(''issue_kind'', JStr ''source_contradiction''), (''claim_area'', JStr (sx_claim_area x)),
          (''competitor'', JStr competitor), (''dimension'', JStr dimension),
          (''source_ids'', jstrs source_ids), (''raw_source_ids'', jstrs source_ids),
          (''source_ids_by_position'', ids_by_position_json by_position),
          (''source_evidence_pairs'',
           JList (map JDict (source_conflict_pairs by_position source_of (sx_claim_area x)))),
          (''evidence_audit_trail'',
           JList (map JDict (take 8 (concat (map (\<lambda>(p, ids).
             List.map_filter (\<lambda>i. map_option (\<lambda>s. source_audit_trail_item s (Some p)) (source_of i)) ids)
             by_position)))))])"

section \<open>Issues\<close>

definition contradiction_issue ::
  "bool \<Rightarrow> raw_source list \<Rightarrow> str \<Rightarrow> str \<Rightarrow> source_conflict \<Rightarrow> qc_issue" where
  "contradiction_issue strict sources dimension competitor x =
     (let source_ids = sorted_set (concat (map snd (sx_source_ids_by_position x)));
          field_path = ''raw_sources['' @ dimension @ ''][''  @ competitor @ ''].contradictions'';
          positions = join '', '' (sort (map fst (sx_source_ids_by_position x)));
          problem = competitor @ '' '' @ dimension @ '' evidence has conflicting '' @ sx_claim_area x
            @ '' positions ('' @ positions @ '') across sources '' @ join '', '' source_ids @ ''.''
      in with_assigned_scope
           \<lparr>qi_id = stable_prefixed_id ''qc-issue'' [JStr ''source-contradiction'', JStr dimension,
              JStr competitor, JStr (sx_claim_area x), jstrs source_ids] 16,
            qi_severity = (if strict then ''blocker'' else ''warn''), qi_detected_by = ''consistency'',
            qi_target_agent = ''collector'', qi_target_subagent = Some dimension,
            qi_target_competitor = Some competitor, qi_field_path = field_path, qi_problem = problem,
            qi_redo_scope = build_redo_scope ''consistency'' ''collector'' field_path problem (Some dimension)
              (Some competitor),
            qi_self_found = False,
            qi_metadata = source_contradiction_issue_metadata sources x competitor dimension\<rparr>)"

definition source_contradiction_issues :: "('a reviewed_run_scheme) \<Rightarrow> qc_issue list" where
  "source_contradiction_issues r =
     concat (map (\<lambda>d. concat (map (\<lambda>c.
         map (contradiction_issue (rn_execution_mode r = ''real'') (slice_sources r d c) d c)
           (take 4 (find_structured_source_conflicts (slice_sources r d c) d)))
       (review_competitors r))) (review_dimensions r))"

definition low_quality_issue :: "bool \<Rightarrow> raw_source \<Rightarrow> str \<Rightarrow> str option \<Rightarrow> qc_issue" where
  "low_quality_issue strict s problem competitor =
     with_assigned_scope
       (collector_issue
         (issue_key [''low-quality-source'', fs_dimension s, or_str competitor (fs_competitor s), fs_id s])
         (if strict then ''blocker'' else ''warn'') (fs_dimension s) competitor
         (''raw_sources['' @ fs_id s @ '']'') problem problem)"

definition low_quality_issues_of :: "('a reviewed_run_scheme) \<Rightarrow> raw_source \<Rightarrow> py_error + qc_issue list" where
  "low_quality_issues_of r s =
     (if fs_dimension s \<notin> set (review_dimensions r) then Inr []
      else if fs_source_type s \<noteq> ''webpage_verified'' then Inr []
      else err_bind (source_quality_problem s) (\<lambda>problem. Inr (case problem of
          None \<Rightarrow> []
        | Some p \<Rightarrow> map (low_quality_issue (strict_source_qa r) s p) (slice_targets (review_competitors r) s))))"

definition source_quality_issues_of_run :: "('a reviewed_run_scheme) \<Rightarrow> py_error + qc_issue list" where
  "source_quality_issues_of_run r =
     err_bind (err_map (low_quality_issues_of r) (fr_raw_sources r))
       (\<lambda>groups. Inr (keep_first qi_id (\<lambda>_. True) [] (concat groups)))"

end
