(* ===== verification/ReviewProps.thy ===== *)
theory ReviewProps
  imports AdmissionProps CoverageProps SourceConflicts
begin

text \<open>
  Conflicts between sources are found exactly, and the sources the default admission lets in pass
  the reviews of their quality.
\<close>

section \<open>Groups\<close>

lemma map_of_add_group:
  "map_of (add_group key x d) k =
     (if k = key x then Some ((case map_of d k of None \<Rightarrow> [] | Some old \<Rightarrow> old) @ [x]) else map_of d k)"
  by (auto simp: add_group_def dict_simps map_add_def split: option.splits)

lemma keys_add_group: "distinct (map fst d) \<Longrightarrow> distinct (map fst (add_group key x d))"
  by (auto simp: add_group_def distinct_update map_of_eq_None_iff split: option.splits)

lemma fold_add_group:
  "map_of (fold (add_group key) xs d) k =
     (let new = filter (\<lambda>x. key x = k) xs
      in if new = [] then map_of d k else Some ((case map_of d k of None \<Rightarrow> [] | Some old \<Rightarrow> old) @ new))"
  by (induction xs arbitrary: d) (auto simp: map_of_add_group Let_def filter_empty_conv)

lemma map_of_group_by:
  "map_of (group_by key xs) k =
     (let new = filter (\<lambda>x. key x = k) xs in if new = [] then None else Some new)"
  by (simp add: group_by_def fold_add_group Let_def)

lemma distinct_group_by: "distinct (map fst (group_by key xs))"
proof -
  have "distinct (map fst (fold (add_group key) xs d))" if "distinct (map fst d)" for d
    using that by (induction xs arbitrary: d) (auto intro: keys_add_group)
  then show ?thesis by (simp add: group_by_def)
qed

lemma set_group_by: "set (group_by key xs) = (\<lambda>k. (k, filter (\<lambda>x. key x = k) xs)) ` key ` set xs"
proof -
  have "(k, ys) \<in> set (group_by key xs) \<longleftrightarrow> k \<in> key ` set xs \<and> ys = filter (\<lambda>x. key x = k) xs" for k ys
    using map_of_eq_Some_iff [OF distinct_group_by [of key xs], of k ys]
    by (auto simp: map_of_group_by Let_def filter_empty_conv split: if_splits)
  then show ?thesis by auto
qed

lemma keys_group_by: "set (map fst (group_by key xs)) = key ` set xs"
  by (auto simp: set_group_by image_image)

lemma concat_group_by: "set (concat (dict_values (group_by key xs))) = set xs"
  by (auto simp: dict_values_def set_group_by)

lemma list_ex_group: "list_ex p (concat (dict_values (group_by key xs))) \<longleftrightarrow> (\<exists>x\<in>set xs. p x)"
  unfolding list_ex_iff concat_group_by ..

lemma two_groups: "2 \<le> length (group_by key xs) \<longleftrightarrow> (\<exists>x\<in>set xs. \<exists>y\<in>set xs. key x \<noteq> key y)"
proof -
  have len: "length (group_by key xs) = card (key ` set xs)"
    using distinct_card [OF distinct_group_by [of key xs]] by (simp add: keys_group_by del: set_map)
  have "card (key ` set xs) \<le> Suc 0 \<longleftrightarrow> (\<forall>x\<in>set xs. \<forall>y\<in>set xs. key x = key y)"
    by (subst card_le_Suc0_iff_eq) auto
  then have "\<not> card (key ` set xs) \<le> Suc 0 \<longleftrightarrow> (\<exists>x\<in>set xs. \<exists>y\<in>set xs. key x \<noteq> key y)" by blast
  moreover have "2 \<le> card (key ` set xs) \<longleftrightarrow> \<not> card (key ` set xs) \<le> Suc 0" by linarith
  ultimately show ?thesis unfolding len by simp
qed

section \<open>Conflicts\<close>

definition contested :: "source_claim list \<Rightarrow> bool" where
  "contested cs \<longleftrightarrow> (\<exists>x\<in>set cs. \<exists>y\<in>set cs. sm_position x \<noteq> sm_position y)
     \<and> (\<exists>x\<in>set cs. sm_is_kb_reuse x) \<and> (\<exists>x\<in>set cs. \<not> sm_is_kb_reuse x)"

lemma nested_none: "((if \<not> a then None else if \<not> b then None else Some x) = None) \<longleftrightarrow> \<not> (a \<and> b)"
  by simp

lemma conflict_of_group: "conflict_of_area (a, cs) = None \<longleftrightarrow> \<not> contested cs"
proof -
  have groups: "length (group_by sm_position cs) < 2 \<longleftrightarrow> \<not> (\<exists>x\<in>set cs. \<exists>y\<in>set cs. sm_position x \<noteq> sm_position y)"
    unfolding two_groups [of sm_position cs, symmetric] by linarith
  show ?thesis
    unfolding conflict_of_area_def Let_def prod.case groups list_ex_group contested_def
    by (rule nested_none)
qed

lemma conflict_area: "conflict_of_area (a, cs) = Some x \<Longrightarrow> sx_claim_area x = a"
  by (auto simp: conflict_of_area_def Let_def split: if_splits)

lemma in_map_filter: "y \<in> set (List.map_filter f xs) \<longleftrightarrow> (\<exists>x\<in>set xs. f x = Some y)"
  by (force simp: List.map_filter_def)

lemma conflicts_of_claims:
  "area \<in> sx_claim_area ` set (find_structured_source_conflicts sources dimension) \<longleftrightarrow>
     contested (filter (\<lambda>c. sm_claim_area c = area) (extract_structured_source_claims sources dimension))"
proof -
  let ?claims = "extract_structured_source_claims sources dimension"
  let ?about = "filter (\<lambda>c. sm_claim_area c = area) ?claims"
  have grouped: "(area, cs) \<in> set (group_by sm_claim_area ?claims) \<longleftrightarrow>
      area \<in> sm_claim_area ` set ?claims \<and> cs = ?about" for cs
    unfolding set_group_by by blast
  show ?thesis
  proof
    assume "area \<in> sx_claim_area ` set (find_structured_source_conflicts sources dimension)"
    then obtain x where x: "x \<in> set (find_structured_source_conflicts sources dimension)" "sx_claim_area x = area"
      by blast
    then obtain p where p: "p \<in> set (group_by sm_claim_area ?claims)" "conflict_of_area p = Some x"
      unfolding find_structured_source_conflicts_def in_map_filter by blast
    obtain a cs where a: "p = (a, cs)" by (cases p)
    have "a = area" using conflict_area [OF p(2) [unfolded a]] x(2) by (rule trans [OF sym])
    then have "cs = ?about" using p(1) unfolding a by (simp only: grouped)
    then have "conflict_of_area (area, ?about) = Some x" using p(2) \<open>a = area\<close> unfolding a by (simp only:)
    then show "contested ?about" using conflict_of_group [of area ?about] by simp
  next
    assume c: "contested ?about"
    then obtain x where x: "conflict_of_area (area, ?about) = Some x"
      using conflict_of_group [of area ?about] by blast
    obtain y where "y \<in> set ?about" using c unfolding contested_def by blast
    then have "?about \<noteq> []" by (metis empty_iff list.set(1))
    then have "(area, ?about) \<in> set (group_by sm_claim_area ?claims)"
      unfolding grouped filter_empty_conv by blast
    then have "x \<in> set (find_structured_source_conflicts sources dimension)"
      unfolding find_structured_source_conflicts_def in_map_filter using x by blast
    then show "area \<in> sx_claim_area ` set (find_structured_source_conflicts sources dimension)"
      using conflict_area [OF x] by (rule rev_image_eqI [OF _ sym])
  qed
qed

text \<open>What a source says about an area, and the areas a claim can be about.\<close>

definition positions_on :: "str \<Rightarrow> str \<Rightarrow> raw_source \<Rightarrow> str list" where
  "positions_on dimension area s =
     map snd (filter (\<lambda>(a, _). a = area) (extract_structured_fact_positions (lower (title_and_snippet s)) dimension))"

definition claim_area :: "str \<Rightarrow> bool" where
  "claim_area area \<longleftrightarrow> list_ex (\<lambda>k. starts_with k area) [''support:'', ''price:'', ''privacy:'', ''retention:'']"

lemma claim_of_position_fields:
  assumes "claim_from_position s (a, p) = Some c"
  shows "sm_claim_area c = a \<and> claim_area a \<and> sm_position c = p \<and> sm_is_kb_reuse c = source_is_kb_reuse s"
proof (cases "starts_with ''support:'' a")
  case True
  then show ?thesis using assms unfolding claim_from_position_def prod.case if_P [OF True]
    by (auto simp: claim_from_def claim_area_def)
next
  case False
  show ?thesis
  proof (cases "starts_with ''price:'' a \<or> starts_with ''privacy:'' a \<or> starts_with ''retention:'' a")
    case True
    then have "claim_area a" by (simp add: claim_area_def)
    with True show ?thesis using assms unfolding claim_from_position_def prod.case if_not_P [OF False] if_P [OF True]
      by (auto simp: claim_from_def)
  next
    case none: False
    show ?thesis using assms unfolding claim_from_position_def prod.case if_not_P [OF False] if_not_P [OF none] by simp
  qed
qed

lemma claim_area_claims: "claim_area area \<Longrightarrow> \<exists>c. claim_from_position s (area, p) = Some c"
  by (simp add: claim_from_position_def claim_area_def) blast

text \<open>So what the claims about an area hold is what the sources say about it.\<close>

lemma claims_about:
  "(\<exists>c\<in>set (filter (\<lambda>c. sm_claim_area c = area) (extract_structured_source_claims sources dimension)).
       P (sm_position c) (sm_is_kb_reuse c)) \<longleftrightarrow>
   claim_area area \<and> (\<exists>s\<in>set sources. \<exists>p\<in>set (positions_on dimension area s). P p (source_is_kb_reuse s))"
  (is "?l \<longleftrightarrow> ?r")
proof
  assume ?l
  then obtain c s a p where c: "s \<in> set sources" "claim_from_position s (a, p) = Some c" "sm_claim_area c = area"
    "(a, p) \<in> set (extract_structured_fact_positions (lower (title_and_snippet s)) dimension)"
    "P (sm_position c) (sm_is_kb_reuse c)"
    by (auto simp: extract_structured_source_claims_def in_map_filter)
  then have f: "a = area" "claim_area area" "P p (source_is_kb_reuse s)"
    using claim_of_position_fields [OF c(2)] by simp_all
  moreover have "p \<in> set (positions_on dimension area s)"
    using c(4) f(1) by (force simp: positions_on_def)
  ultimately show ?r using c(1) f(2,3) by blast
next
  assume ?r
  then obtain s p where s: "claim_area area" "s \<in> set sources" "p \<in> set (positions_on dimension area s)"
    "P p (source_is_kb_reuse s)" by blast
  obtain c where c: "claim_from_position s (area, p) = Some c" using claim_area_claims [OF s(1)] by blast
  then have "sm_claim_area c = area" using claim_of_position_fields by blast
  moreover have "(area, p) \<in> set (extract_structured_fact_positions (lower (title_and_snippet s)) dimension)"
    using s(3) by (auto simp: positions_on_def)
  then have "c \<in> set (extract_structured_source_claims sources dimension)"
    using s(2) c by (auto simp: extract_structured_source_claims_def in_map_filter)
  moreover have "P (sm_position c) (sm_is_kb_reuse c)" using claim_of_position_fields [OF c] s(4) by simp
  ultimately show ?l by auto
qed

text \<open>C37. The sources of a slice are in conflict about an area exactly when what they say about it differs and
  both a source reused from the knowledge base and a live one speak about it.\<close>

theorem conflicts_exact:
  "area \<in> sx_claim_area ` set (find_structured_source_conflicts sources dimension) \<longleftrightarrow>
     claim_area area
     \<and> (\<exists>s\<in>set sources. \<exists>p\<in>set (positions_on dimension area s).
          \<exists>t\<in>set sources. \<exists>q\<in>set (positions_on dimension area t). p \<noteq> q)
     \<and> (\<exists>s\<in>set sources. source_is_kb_reuse s \<and> positions_on dimension area s \<noteq> [])
     \<and> (\<exists>s\<in>set sources. \<not> source_is_kb_reuse s \<and> positions_on dimension area s \<noteq> [])"
proof -
  note about = claims_about [of area sources dimension]
  have some: "(\<exists>s\<in>set sources. \<exists>p\<in>set (positions_on dimension area s). P s) \<longleftrightarrow>
      (\<exists>s\<in>set sources. P s \<and> positions_on dimension area s \<noteq> [])" for P
    by (metis ex_in_conv set_empty2)
  let ?about = "filter (\<lambda>c. sm_claim_area c = area) (extract_structured_source_claims sources dimension)"
  have inner: "(\<exists>y\<in>set ?about. p \<noteq> sm_position y) \<longleftrightarrow>
      claim_area area \<and> (\<exists>t\<in>set sources. \<exists>q\<in>set (positions_on dimension area t). p \<noteq> q)" for p
    by (rule about [of "\<lambda>q _. p \<noteq> q"])
  have differ: "(\<exists>x\<in>set ?about. \<exists>y\<in>set ?about. sm_position x \<noteq> sm_position y) \<longleftrightarrow>
      claim_area area \<and> (\<exists>s\<in>set sources. \<exists>p\<in>set (positions_on dimension area s).
        \<exists>y\<in>set ?about. p \<noteq> sm_position y)"
    by (rule about [of "\<lambda>p _. \<exists>y\<in>set ?about. p \<noteq> sm_position y"])
  have reused: "(\<exists>x\<in>set ?about. sm_is_kb_reuse x) \<longleftrightarrow>
      claim_area area \<and> (\<exists>s\<in>set sources. \<exists>p\<in>set (positions_on dimension area s). source_is_kb_reuse s)"
    by (rule about [of "\<lambda>_ k. k"])
  have live: "(\<exists>x\<in>set ?about. \<not> sm_is_kb_reuse x) \<longleftrightarrow>
      claim_area area \<and> (\<exists>s\<in>set sources. \<exists>p\<in>set (positions_on dimension area s). \<not> source_is_kb_reuse s)"
    by (rule about [of "\<lambda>_ k. \<not> k"])
  have apart: "(\<exists>x\<in>set ?about. \<exists>y\<in>set ?about. sm_position x \<noteq> sm_position y) \<longleftrightarrow>
      claim_area area \<and> (\<exists>s\<in>set sources. \<exists>p\<in>set (positions_on dimension area s). claim_area area
        \<and> (\<exists>t\<in>set sources. \<exists>q\<in>set (positions_on dimension area t). p \<noteq> q))"
    by (rule trans [OF differ]) (simp only: inner)
  show ?thesis
    unfolding conflicts_of_claims contested_def apart reused live some
    by (cases "claim_area area") (simp_all only: simp_thms bex_simps)
qed

section \<open>Admission and review\<close>

text \<open>The sources of a run that come from the default admission raise no issue of quality and none of
  being unverified.\<close>

theorem admitted_sources_pass_review:
  assumes "raw_sources_from_research_result env q (Some ds) = (Inr sources, ds')"
    and "aq_source_is_usable q = without_quality_problem" and "fr_raw_sources r = sources"
  shows "source_quality_issues_of_run r = Inr [] \<and> unverified_issues r = []"
proof -
  have clean: "source_quality_problem s = Inr None" "fs_source_type s = ''webpage_verified''" if "s \<in> set sources" for s
    using default_admission_is_clean [OF assms(1,2) that] by auto
  have "err_map (low_quality_issues_of r) ss = Inr (map (\<lambda>_. []) ss)" if "set ss \<subseteq> set sources" for ss
    using that by (induction ss) (simp_all add: low_quality_issues_of_def clean)
  then have "source_quality_issues_of_run r = Inr []"
    by (simp add: source_quality_issues_of_run_def assms(3) map_replicate_const)
  moreover have "unverified_issues r = []"
    unfolding no_unverified assms(3) by (simp add: unverified_source_def clean)
  ultimately show ?thesis ..
qed

end
