(* ===== verification/Spec2Isabelle.thy ===== *)
theory Spec2Isabelle
  imports Rbac ReportLifecycle Artifacts Citations Usage Refs StoreCalls Findings GraphProps
    Governance ScanProps ReleaseProps GapProps EvalProps ProjectionProps
    RetrievalProps RateLimit KnowledgeGraphProps SnapshotProps ReviewProps
begin

text \<open>
  A verification development of the backend of a competitive intelligence platform
  (\<open>backend/packages\<close>). A run collects evidence on competitors, analyses it, writes a cited
  report, has it reviewed by a quality gate that may send parts of the work back, and leaves
  its results in an enterprise store, where reports are versioned, approved and published. The
  development models the parts that decide: identities, access, policies, the store, citations,
  the quality findings and the redo scopes made of them, the run graph, business planning and
  QA, the release gate, the workflows and the commands.

  How the parts interact. The HTTP layer calls the runtime commands; a command asks the access
  policy and the runtime policy, starts or signals workflows, or writes the store. A workflow is
  a sequence of activities on the store, driven by Temporal. The run service drives the run
  graph; its quality agent turns findings into redo scopes, and the graph retries a phase or
  redoes a part within a budget. Finished runs are projected into the store, which merges
  evidence and sources by identity, checks the citations of a report and audits each change.

  Theories and the code they model.
    \<^item> \<open>Prelude\<close>: strings, JSON values, dicts as association lists, sorting and fallible state
      operations, with the locales for keyed tables and for relations every operation keeps.
    \<^item> \<open>StableIds\<close>: \<open>identity/stable_ids.py\<close>, with SHA-256 itself and the JSON text it is taken of.
    \<^item> \<open>Schema\<close>, \<open>ReportArtifact\<close>: the records of \<open>schema/*.py\<close> with their validators.
    \<^item> \<open>Rbac\<close>: \<open>auth/rbac.py\<close>, the internal decision and the OPA and Cerbos adapters.
    \<^item> \<open>Governance\<close>: \<open>config/settings.py\<close> and \<open>governance/*.py\<close>: the model policy report, the router
      of models, the tool registry and the runtime policy decision.
    \<^item> \<open>Hitl\<close>, \<open>ReportLifecycle\<close>, \<open>Artifacts\<close>: \<open>hitl/lifecycle.py\<close>, \<open>enterprise/report_lifecycle.py\<close>,
      \<open>artifacts/lifecycle.py\<close>.
    \<^item> \<open>SourceResolver\<close>, \<open>Citations\<close>: \<open>identity/source_resolver.py\<close>: citation tokens, the resolution
      index, and the normalisation of plain and structured reports.
    \<^item> \<open>Usage\<close>, \<open>Refs\<close>, \<open>EmbeddingIndex\<close>: \<open>enterprise/usage.py\<close>, \<open>refs/*.py\<close>,
      \<open>enterprise/embedding_index.py\<close>.
    \<^item> \<open>Store\<close>, \<open>EvidenceStore\<close>, \<open>RunStore\<close>: \<open>enterprise/store.py\<close>, one state record with a field per
      table; \<open>StoreProps\<close> and \<open>StoreCalls\<close> hold its invariant and the sequences of its operations.
    \<^item> \<open>Findings\<close>, \<open>Redo\<close>, \<open>RedoSelection\<close>: \<open>quality/*.py\<close>, \<open>business_intel/redo.py\<close> and the selection
      of redo batches in \<open>orchestrator/service.py\<close>.
    \<^item> \<open>Graph\<close>, \<open>GraphProps\<close>: \<open>orchestrator/graph.py\<close> and the review steps of \<open>agents/qa/logic.py\<close>.
    \<^item> \<open>ReportScope\<close>, \<open>ReportDiff\<close>: \<open>enterprise/report_scope.py\<close>, \<open>enterprise/report_diff.py\<close>.
    \<^item> \<open>Approvals\<close>, \<open>ApprovalProps\<close>: \<open>workflows/report_approval.py\<close> and its activities.
    \<^item> \<open>Monitors\<close>, \<open>MonitorProps\<close>, \<open>Scans\<close>, \<open>ScanProps\<close>: \<open>workflows/monitor.py\<close>,
      \<open>workflows/scheduled_scan.py\<close> and their activities.
    \<^item> \<open>Planning\<close>, \<open>BusinessQA\<close>, \<open>BusinessProps\<close>: \<open>business_intel/layers.py\<close>, \<open>scenarios.py\<close>,
      \<open>planning.py\<close>, \<open>evaluator.py\<close>, \<open>scorer.py\<close>: the plan of a project, its business rules, its readiness.
    \<^item> \<open>ClaimText\<close>, \<open>ClaimValidator\<close>: \<open>rag/structured_claims.py\<close>, \<open>business_intel/claim_validator.py\<close>.
    \<^item> \<open>CitationPolicy\<close>: \<open>research/evidence/strength.py\<close>, \<open>business_intel/report_citation_policy.py\<close>.
    \<^item> \<open>ReleaseGate\<close>, \<open>ReleaseDecision\<close>, \<open>GateProps\<close>, \<open>ReleaseProps\<close>: \<open>business_intel/release_gate.py\<close>, and
      what approvals and publications through this gate have behind them.
    \<^item> \<open>EvidenceGaps\<close>, \<open>GapProps\<close>: \<open>business_intel/evidence_gaps.py\<close>, \<open>business_intel/red_team.py\<close>.
    \<^item> \<open>RunRecords\<close>, \<open>Projection\<close>, \<open>ProjectionProps\<close>: the artifacts of a finished run in
      \<open>schema/models.py\<close> and \<open>enterprise/projection.py\<close>, which turns them into evidence, claims and a
      report version.
    \<^item> \<open>Compliance\<close>, \<open>EvalOps\<close>, \<open>EvalProps\<close>: \<open>compliance/*.py\<close>, \<open>evals/enterprise.py\<close> and
      \<open>evals/release_contract.py\<close>: the compliance of a run, the EvalOps report and the contract of a release.
    \<^item> \<open>Chunker\<close>, \<open>Retrieval\<close>, \<open>RetrievalProps\<close>: \<open>rag/chunker.py\<close>, \<open>bm25.py\<close>, \<open>vector_store.py\<close>,
      \<open>reranker.py\<close>, \<open>retriever.py\<close>, \<open>gap_retrieval.py\<close>: the evidence retrieved for a gap.
    \<^item> \<open>KnowledgeGraph\<close>, \<open>KnowledgeGraphProps\<close>: \<open>enterprise/knowledge_graph.py\<close>.
    \<^item> \<open>CoverageReview\<close>, \<open>CoverageProps\<close>: the coverage checks of \<open>agents/qa/logic.py\<close>, with the labels
      of \<open>agents/analysts/logic.py\<close> that match sources to competitors, and the sources a retry of the
      collection keeps.
    \<^item> \<open>Patterns\<close>, \<open>EvidenceQuality\<close>, \<open>Normalization\<close>: regular expressions with a search that is exact, the
      quality of a quote (\<open>research/extraction/quality.py\<close>), and the normalised fields, texts, references
      and groups of evidence items (\<open>research/evidence/normalization.py\<close>, \<open>text.py\<close>, \<open>citations.py\<close>, \<open>store.py\<close>).
    \<^item> \<open>EntityResolver\<close>, \<open>SourceQuality\<close>, \<open>SourceAdmission\<close>, \<open>AdmissionProps\<close>:
      \<open>business_intel/entity_resolver.py\<close>, \<open>research/source_fitness.py\<close>, \<open>research/evidence/admission.py\<close>: the
      identities of competitors, the checks of a source, and what is admitted as evidence and as source.
    \<^item> \<open>SourceConflicts\<close>, \<open>ReviewProps\<close>: the claims and conflicts of \<open>rag/structured_claims.py\<close> and the checks
      of \<open>agents/qa/logic.py\<close> for contradictions and sources of poor quality.
    \<^item> \<open>ArtifactStorage\<close>, \<open>SourceSnapshots\<close>, \<open>SnapshotProps\<close>: \<open>artifacts/store.py\<close> and
      \<open>enterprise/source_snapshots.py\<close>: payloads in files, and the capture of a snapshot of a source.
    \<^item> \<open>RateLimit\<close>: \<open>backend/app/rate_limit.py\<close>, the sliding window of the HTTP layer.
    \<^item> \<open>WorkflowService\<close>, \<open>Commands\<close>, \<open>CommandProps\<close>: \<open>workflows/service.py\<close>, \<open>runtime/service.py\<close>.

  Conventions. A Python string is a list of ASCII characters; an int is an \<open>int\<close>; a float is a
  rational, or a real for the embeddings, so rounding is outside the model. A dict is an
  association list in insertion order with distinct keys; a pydantic model is a record, a
  \<open>model_copy\<close> a record update, an exception a value of \<open>py_error\<close> in the left of a sum. Objects are
  values: where the code shares one the store returns the record it holds. An operation reads
  the clock once; the clock, uuid values and model dumps are fields of \<open>env\<close>. Code outside the
  model is a parameter of the definitions that use it: the policy endpoint, the Temporal server,
  the metrics of a report, the patterns of personal data, the preference memory, the host machine. The work of agents and the
  decisions of reviewers are inputs of the steps of the graph, so its theorems hold for any.

  What the lemmas show. Identities: shape, idempotence and order independence. Access and
  runtime policies: a decision is exactly what the rules justify, on every branch. Store: any
  sequence of operations keeps its tables keyed, its owners in place, its sources unique and its audit log numbered
  (\<open>store_ok\<close>) and never drops history (\<open>extends\<close>); a \<open>step_relation\<close> locale carries both through
  composed operations. Citations: normalisation is idempotent and covers what it cites. Findings
  and redo scopes: nothing blocking is lost, and batches stay coherent. Graph: it refines an
  abstract plan of phases with bounded retries, and ends. Approval: whatever is delivered, lost
  or repeated, a reported decision is signalled, stored and audited. Monitors and scans: every
  cycle and every target is accounted for once, and they end. Projection: nothing collected is lost and
  every claim rests on evidence of its run. EvalOps and compliance: when a run, the gate and a release
  pass, exactly, and the bounds of the report. Gaps: a missing piece of evidence is collected again. Knowledge graph: complete and
  closed. Artifacts and snapshots: payloads can be read back, redacted where they must be, in a store in order. Admission: every
  admitted source and accepted item is grounded in a captured page, and sources admitted by the default check
  pass the review of their quality. Conflicts between sources are found exactly. Retrieval: its scope, and that chunking
  keeps every short phrase. Rate limiter: its limit, and that the advised delay is enough. Planning, readiness and claims: a
  plan always exists, scores stay in their range and verdicts are justified. Release gate: the
  conditions it decides by, exactly. Commands: publication passes every guard, and with the gate
  in place only releasable versions are approved or published.

  Bounds. A graph run is iterated with fuel \<open>graph_bound\<close>, computed from the redo and retry
  budget; the liveness theorem shows it is enough for every behaviour of agents and reviewers. An
  activity is attempted as often as its retry policy says, and the bounds on the deliveries after
  which monitors and scans have ended follow from it. Every other loop is structural,
  or a \<open>function\<close> with its measure.

  Not modelled. Text produced or judged by language models and heuristics over text (\<open>agents\<close>
  except the routes, the coverage checks and the source checks of the quality agent, the search and extraction of \<open>research\<close>, the filling of gaps and the bridges of \<open>rag\<close>, \<open>community\<close>, and of
  \<open>business_intel\<close> the metrics, sections and repair of reports);
  SQL storage (\<open>enterprise/postgres.py\<close>, \<open>knowledge\<close>, \<open>memory\<close>); network clients and crawling
  (\<open>crawler\<close>, \<open>tools\<close>, \<open>search\<close>, \<open>llm\<close>); export of traces (\<open>observability\<close>); HTTP routing (\<open>app\<close>); and, of the run service, execution traces, the journal,
  the demo content and the creation of runs.
\<close>

end
